(* ===== verification/Emic_Prelude.thy ===== *)
theory Emic_Prelude
  imports Complex_Main "HOL-Library.AList" "HOL-Library.List_Lexorder" "HOL-Library.Char_ord"
begin

section \<open>Shared vocabulary of the development\<close>

text \<open>
  What the component theories share: results that may be an error, Python dictionaries,
  ASCII strings, clock readings, and the two generic run arguments (an invariant kept by
  every step, a preorder every step climbs) that the components interpret.

  \<^item> A Python exception is a value: a fallible operation returns \<open>'e + 'a\<close>, with \<open>Inl\<close>
    for the exception and \<open>Inr\<close> for the normal result.
  \<^item> A dictionary is an association list in insertion order, as CPython keeps it:
    assignment replaces in place or appends (\<^const>\<open>AList.update\<close>), deletion removes the
    key (\<^const>\<open>AList.delete\<close>), lookup is \<^const>\<open>map_of\<close>.
  \<^item> A clock reading or \<open>datetime\<close> is an \<open>int\<close>, microseconds since the epoch in UTC. The code
    reads naive timestamps as UTC before comparing them, which this reading does once and
    for all.
\<close>

named_theorems step_simps "unfolding rules for the operations of a component"
named_theorems inv_intros "preservation lemmas: an operation keeps an invariant"
named_theorems frame_simps "what an operation leaves unchanged"

type_synonym time = int
type_synonym seconds = rat

subsection \<open>Results\<close>

definition res_bind :: "'e + 'a \<Rightarrow> ('a \<Rightarrow> 'e + 'b) \<Rightarrow> 'e + 'b" where
  "res_bind r f = (case r of Inl e \<Rightarrow> Inl e | Inr a \<Rightarrow> f a)"

lemma res_bind_simps [simp]:
  "res_bind (Inl e) f = Inl e"
  "res_bind (Inr a) f = f a"
  by (simp_all add: res_bind_def)

lemma res_bind_eq_Inr:
  "res_bind r f = Inr b \<longleftrightarrow> (\<exists>a. r = Inr a \<and> f a = Inr b)"
  by (cases r) auto

lemma res_bind_eq_Inl:
  "res_bind r f = Inl e \<longleftrightarrow> r = Inl e \<or> (\<exists>a. r = Inr a \<and> f a = Inl e)"
  by (cases r) auto

definition guard_res :: "bool \<Rightarrow> 'e \<Rightarrow> 'e + unit" where
  "guard_res b e = (if b then Inr () else Inl e)"

lemma guard_res_eq [simp]:
  "guard_res b e = Inr u \<longleftrightarrow> b"
  "guard_res b e = Inl e' \<longleftrightarrow> \<not> b \<and> e' = e"
  by (auto simp: guard_res_def)

text \<open>\<open>value or default\<close> on an optional value whose payload is never falsy.\<close>

definition or_else :: "'a option \<Rightarrow> 'a \<Rightarrow> 'a" where
  "or_else x d = (case x of None \<Rightarrow> d | Some v \<Rightarrow> v)"

lemma or_else_simps [simp]: "or_else None d = d" "or_else (Some v) d = v"
  by (simp_all add: or_else_def)

subsection \<open>Dictionaries\<close>

text \<open>\<open>dict.pop(key, None)\<close> and \<open>d[key] = v\<close> through their lookup laws.\<close>

lemma map_of_update [simp]: "map_of (AList.update k v d) = (map_of d)(k \<mapsto> v)"
  by (rule update_conv')

lemma map_of_delete [simp]: "map_of (AList.delete k d) = (map_of d)(k := None)"
  by (rule delete_conv')

lemma map_of_filter_keys:
  "map_of (filter (\<lambda>p. P (fst p)) d) k = (if P k then map_of d k else None)"
  by (induction d) auto

lemma map_of_map_vals:
  "map_of (map (\<lambda>p. (fst p, f (fst p) (snd p))) d) k = map_option (f k) (map_of d k)"
  by (induction d) auto

lemma distinct_keys_update:
  "distinct (map fst d) \<Longrightarrow> distinct (map fst (AList.update k v d))"
  by (rule distinct_update)

lemma distinct_keys_delete:
  "distinct (map fst d) \<Longrightarrow> distinct (map fst (AList.delete k d))"
  by (rule distinct_delete)

lemma set_vals_update:
  "p \<in> set (AList.update k v d) \<Longrightarrow> p = (k, v) \<or> p \<in> set d"
  by (induction d) (auto split: if_splits)

subsection \<open>Strings\<close>

text \<open>
  \<open>str.upper\<close> and \<open>str.lower\<close> on ASCII text, \<open>str.startswith\<close>, \<open>str.endswith\<close>.
\<close>

definition char_upper :: "char \<Rightarrow> char" where
  "char_upper c = (let n = of_char c :: nat in
     if 97 \<le> n \<and> n \<le> 122 then char_of (n - 32) else c)"

definition char_lower :: "char \<Rightarrow> char" where
  "char_lower c = (let n = of_char c :: nat in
     if 65 \<le> n \<and> n \<le> 90 then char_of (n + 32) else c)"

definition py_upper :: "string \<Rightarrow> string" where
  "py_upper s = map char_upper s"

definition py_lower :: "string \<Rightarrow> string" where
  "py_lower s = map char_lower s"

definition starts_with :: "string \<Rightarrow> string \<Rightarrow> bool" where
  "starts_with s p \<longleftrightarrow> take (length p) s = p"

definition ends_with :: "string \<Rightarrow> string \<Rightarrow> bool" where
  "ends_with s p \<longleftrightarrow> length p \<le> length s \<and> drop (length s - length p) s = p"

lemma char_upper_idem [simp]: "char_upper (char_upper c) = char_upper c"
proof -
  have "(of_char c :: nat) < 256"
    using of_char_mod_256 [of c, where ?'a = nat] by (metis mod_less_divisor zero_less_numeral)
  then show ?thesis
    by (auto simp: char_upper_def Let_def of_char_of)
qed

lemma py_upper_idem [simp]: "py_upper (py_upper s) = py_upper s"
  by (simp add: py_upper_def)

subsection \<open>Clock readings\<close>

definition us_per_s :: int where
  "us_per_s = 1000000"

text \<open>\<open>(a - b).total_seconds()\<close>.\<close>

definition elapsed_s :: "time \<Rightarrow> time \<Rightarrow> seconds" where
  "elapsed_s a b = of_int (a - b) / of_int us_per_s"

text \<open>\<open>timedelta(seconds=x)\<close>: rounded half to even to a microsecond.\<close>

definition round_half_even :: "rat \<Rightarrow> int" where
  "round_half_even x =
     (let f = \<lfloor>x\<rfloor>; d = x - of_int f in
      if d < 1/2 then f else if d > 1/2 then f + 1 else if even f then f else f + 1)"

definition timedelta_s :: "seconds \<Rightarrow> int" where
  "timedelta_s x = round_half_even (x * of_int us_per_s)"

lemma elapsed_s_mono: "a \<le> a' \<Longrightarrow> elapsed_s a b \<le> elapsed_s a' b"
  by (simp add: elapsed_s_def us_per_s_def divide_right_mono)

lemma elapsed_s_antimono: "b' \<le> b \<Longrightarrow> elapsed_s a b \<le> elapsed_s a b'"
  by (simp add: elapsed_s_def us_per_s_def divide_right_mono)

lemma round_half_even_near: "of_int (round_half_even x) \<le> x + 1/2 \<and> x - 1/2 \<le> of_int (round_half_even x)"
proof -
  have "of_int \<lfloor>x\<rfloor> \<le> x" "x < of_int \<lfloor>x\<rfloor> + 1" by linarith+
  then show ?thesis
    unfolding round_half_even_def Let_def by (simp split: if_splits) linarith
qed

lemma round_half_even_int [simp]: "round_half_even (of_int n) = n"
  by (simp add: round_half_even_def)

lemma round_half_even_nonneg: "0 \<le> x \<Longrightarrow> 0 \<le> round_half_even x"
  by (auto simp: round_half_even_def Let_def)

text \<open>\<open>round(x, n)\<close>: to a multiple of \<open>10 ^ -n\<close>, half to even.\<close>

definition round_to :: "nat \<Rightarrow> rat \<Rightarrow> rat" where
  "round_to n x = of_int (round_half_even (x * 10 ^ n)) / 10 ^ n"

lemma round_to_near: "\<bar>round_to n x - x\<bar> \<le> 1 / (2 * 10 ^ n)"
proof -
  have "\<bar>of_int (round_half_even (x * 10 ^ n)) - x * 10 ^ n\<bar> \<le> 1/2"
    using round_half_even_near [of "x * 10 ^ n"] by linarith
  then have "\<bar>of_int (round_half_even (x * 10 ^ n)) - x * 10 ^ n\<bar> / 10 ^ n \<le> (1/2) / 10 ^ n"
    by (rule divide_right_mono) simp
  moreover have "round_to n x - x = (of_int (round_half_even (x * 10 ^ n)) - x * 10 ^ n) / 10 ^ n"
    by (simp add: round_to_def diff_divide_distrib)
  then have "\<bar>round_to n x - x\<bar> = \<bar>of_int (round_half_even (x * 10 ^ n)) - x * 10 ^ n\<bar> / 10 ^ n"
    by simp
  ultimately show ?thesis by simp
qed

lemma round_to_nonneg: "0 \<le> x \<Longrightarrow> 0 \<le> round_to n x"
  by (simp add: round_to_def round_half_even_nonneg)

lemma round_to_0 [simp]: "round_to n 0 = 0"
  using round_half_even_int [of 0] by (simp add: round_to_def)

text \<open>\<open>x or d\<close> on an optional number: zero is falsy.\<close>

definition num_or :: "rat option \<Rightarrow> rat \<Rightarrow> rat" where
  "num_or x d = (case x of None \<Rightarrow> d | Some v \<Rightarrow> if v = 0 then d else v)"

subsection \<open>Runs\<close>

text \<open>
  A component with a step function \<open>step s e\<close> runs over a list of events with
  \<^const>\<open>foldl\<close>. Two contracts recur: an invariant every admissible step keeps, and a
  preorder every admissible step climbs.
\<close>

locale kept_invariant =
  fixes step :: "'s \<Rightarrow> 'e \<Rightarrow> 's"
    and admissible :: "'e \<Rightarrow> bool"
    and inv :: "'s \<Rightarrow> bool"
  assumes step_keeps: "inv s \<Longrightarrow> admissible e \<Longrightarrow> inv (step s e)"
begin

lemma run_keeps: "inv s \<Longrightarrow> \<forall>e \<in> set es. admissible e \<Longrightarrow> inv (foldl step s es)"
  by (induction es arbitrary: s) (auto simp: step_keeps)

lemma run_prefix_keeps:
  "inv s \<Longrightarrow> \<forall>e \<in> set (es @ fs). admissible e \<Longrightarrow> inv (foldl step s es)"
  by (rule run_keeps) auto

end

locale climbing =
  fixes step :: "'s \<Rightarrow> 'e \<Rightarrow> 's"
    and below :: "'s \<Rightarrow> 's \<Rightarrow> bool"
  assumes below_refl: "below s s"
    and below_trans: "below s t \<Longrightarrow> below t u \<Longrightarrow> below s u"
    and step_climbs: "below s (step s e)"
begin

lemma run_climbs: "below s (foldl step s es)"
  by (induction es arbitrary: s) (auto intro: below_refl below_trans step_climbs)

lemma run_append_climbs: "below (foldl step s es) (foldl step s (es @ fs))"
  by (simp add: run_climbs)

end

text \<open>A component refines another along an abstraction when each step commutes with it.\<close>

locale simulation =
  fixes step :: "'s \<Rightarrow> 'e \<Rightarrow> 's"
    and spec_step :: "'a \<Rightarrow> 'e \<Rightarrow> 'a"
    and abst :: "'a \<Rightarrow> 's"
    and spec_inv :: "'a \<Rightarrow> bool"
    and admissible :: "'e \<Rightarrow> bool"
  assumes commutes: "spec_inv a \<Longrightarrow> admissible e \<Longrightarrow> step (abst a) e = abst (spec_step a e)"
    and spec_keeps: "spec_inv a \<Longrightarrow> admissible e \<Longrightarrow> spec_inv (spec_step a e)"
begin

lemma run_commutes:
  "spec_inv a \<Longrightarrow> \<forall>e \<in> set es. admissible e \<Longrightarrow> foldl step (abst a) es = abst (foldl spec_step a es)
     \<and> spec_inv (foldl spec_step a es)"
  by (induction es arbitrary: a) (simp_all add: commutes spec_keeps)

end

text \<open>
  A keyed store, as every repository and registry of the code is used: a lookup, an
  assignment and a removal. The laws are those of a Python dictionary.
\<close>

locale keyed_store =
  fixes lookup :: "'d \<Rightarrow> 'k \<Rightarrow> 'v option"
    and assign :: "'k \<Rightarrow> 'v \<Rightarrow> 'd \<Rightarrow> 'd"
    and remove :: "'k \<Rightarrow> 'd \<Rightarrow> 'd"
  assumes lookup_assign: "lookup (assign k v d) k' = (if k' = k then Some v else lookup d k')"
    and lookup_remove: "lookup (remove k d) k' = (if k' = k then None else lookup d k')"
begin

lemma lookup_assign_same: "lookup (assign k v d) k = Some v"
  by (simp add: lookup_assign)

lemma lookup_assign_other: "k' \<noteq> k \<Longrightarrow> lookup (assign k v d) k' = lookup d k'"
  by (simp add: lookup_assign)

lemma lookup_remove_same: "lookup (remove k d) k = None"
  by (simp add: lookup_remove)

lemma remove_all_gone:
  "lookup (foldr remove ks d) k = (if k \<in> set ks then None else lookup d k)"
  by (induction ks) (auto simp: lookup_remove)

end

interpretation py_dict: keyed_store map_of AList.update AList.delete
  by unfold_locales auto

end
