(* ===== verification/Charger_Meter.thy ===== *)
theory Charger_Meter
  imports Emic_Prelude
begin

section \<open>Readings of a charger's meter\<close>

text \<open>
  \<open>contracts/devices/meter.py\<close>: a reading, shared by the charging engine and the bookkeeping of
  sessions, and the two helpers that turn registers and powers into energies.
\<close>

record meter_snapshot =
  ms_recorded_at :: time
  ms_cumulative_kwh :: "rat option"
  ms_power_w :: "rat option"
  ms_configured_current_a :: "rat option"
  ms_actual_charging_current_a :: "rat option"
  ms_is_charging :: bool
  ms_vehicle_connected :: bool
  ms_ocpp_status :: string
  ms_phase_current_l1_a :: "rat option"
  ms_phase_current_l2_a :: "rat option"
  ms_phase_current_l3_a :: "rat option"
  ms_energy_source :: string

definition session_energy_from_meter :: "rat option \<Rightarrow> rat option \<Rightarrow> rat option \<times> string" where
  "session_energy_from_meter start stop =
     (case (start, stop) of
        (Some a, Some b) \<Rightarrow>
          (let delta = b - a in
           if delta < 0 then (None, ''INCOMPLETE'')
           else if delta = 0 then (Some 0, ''MEASURED'')
           else (Some (round_to 4 delta), ''MEASURED''))
      | _ \<Rightarrow> (None, ''INCOMPLETE''))"

definition integrate_power_kwh :: "rat \<Rightarrow> rat \<Rightarrow> rat" where
  "integrate_power_kwh w h = (if w \<le> 0 \<or> h \<le> 0 then 0 else round_to 4 (w * h / 1000))"

end
