(* ===== verification/Charging_Policy.thy ===== *)
theory Charging_Policy
  imports Emic_Prelude
begin

section \<open>Charging policy, configuration and decisions\<close>

text \<open>
  \<open>energy_core/charging/policy/__init__.py\<close> (what each charging mode means),
  \<open>charging/config.py\<close> (\<open>ChargingConfig\<close>) and \<open>charging/models.py\<close>
  (\<open>ChargingDecision\<close>). Currents, powers and durations are Python floats in the code;
  they are read as exact rationals here, so a sum or quotient is not rounded. The
  comparisons, minima and maxima the properties rest on are exact on floats as well.
\<close>

definition SOLAR_MODES :: "string list" where
  "SOLAR_MODES = [''SOLAR_CHARGE'', ''SOLAR'']"

definition QUICK_MODES :: "string list" where
  "QUICK_MODES = [''QUICK_CHARGE'', ''QUICK'']"

definition SMART_MODES :: "string list" where
  "SMART_MODES = [''SMART_CHARGE'', ''SMART'']"

definition PRICE_MODES :: "string list" where
  "PRICE_MODES = [''PRICE_CHARGE'', ''PRICE'']"

text \<open>\<open>(charging_mode or "SMART_CHARGE").upper()\<close>: \<open>None\<close> and the empty string are falsy.\<close>

definition normalized_mode :: "string option \<Rightarrow> string" where
  "normalized_mode m = py_upper (case m of None \<Rightarrow> ''SMART_CHARGE''
     | Some s \<Rightarrow> if s = [] then ''SMART_CHARGE'' else s)"

definition decision_policy_mode :: "string option \<Rightarrow> bool \<Rightarrow> string" where
  "decision_policy_mode m override = (if override then ''override'' else normalized_mode m)"

definition respects_manual_pause :: "string option \<Rightarrow> bool \<Rightarrow> bool" where
  "respects_manual_pause m override \<longleftrightarrow> normalized_mode m = ''PAUSED'' \<and> \<not> override"

definition immediate_start :: "string option \<Rightarrow> bool \<Rightarrow> bool" where
  "immediate_start m override \<longleftrightarrow> override \<or> normalized_mode m \<in> set QUICK_MODES"

definition uses_start_delay :: "string option \<Rightarrow> bool \<Rightarrow> bool" where
  "uses_start_delay m override =
     (if immediate_start m override then False
      else if normalized_mode m \<in> set SOLAR_MODES then False
      else normalized_mode m \<in> set (SMART_MODES @ PRICE_MODES))"

definition bypasses_guardrails :: "string option \<Rightarrow> bool \<Rightarrow> bool" where
  "bypasses_guardrails m override = immediate_start m override"

definition uses_price_optimization :: "string option \<Rightarrow> bool \<Rightarrow> bool" where
  "uses_price_optimization m override =
     (if override \<or> normalized_mode m \<in> set QUICK_MODES then False
      else normalized_mode m \<in> set (SMART_MODES @ PRICE_MODES))"

definition ignores_schedule_constraints :: "string option \<Rightarrow> bool" where
  "ignores_schedule_constraints m \<longleftrightarrow> normalized_mode m \<in> set PRICE_MODES"

definition uses_solar_export_rules :: "string option \<Rightarrow> bool \<Rightarrow> bool" where
  "uses_solar_export_rules m override =
     (if override \<or> normalized_mode m \<in> set QUICK_MODES then False
      else normalized_mode m \<in> set (SOLAR_MODES @ SMART_MODES))"

lemma py_upper_eq_Nil [simp]: "py_upper s = [] \<longleftrightarrow> s = []"
  by (simp add: py_upper_def)

text \<open>
  The state machine normalises the mode once and hands the result on to functions that
  normalise it again: the second pass changes nothing.
\<close>

lemma normalized_mode_idem [simp]: "normalized_mode (Some (normalized_mode m)) = normalized_mode m"
  by (auto simp: normalized_mode_def split: option.splits)

lemma immediate_start_normalized [simp]:
  "immediate_start (Some (normalized_mode m)) b = immediate_start m b"
  by (simp add: immediate_start_def)

lemma bypasses_guardrails_normalized [simp]:
  "bypasses_guardrails (Some (normalized_mode m)) b = bypasses_guardrails m b"
  by (simp add: bypasses_guardrails_def)

text \<open>\<open>ChargingConfig\<close>, with every field of the dataclass.\<close>

record charging_config =
  max_current_a :: rat
  min_current_a :: rat
  phases :: int
  nominal_voltage_v :: rat
  max_power_w :: "rat option"
  max_grid_import_w :: "rat option"
  main_fuse_a :: "rat option"
  safety_margin_a :: rat
  expensive_price_eur_kwh :: rat
  solar_start_threshold_w :: rat
  solar_stop_threshold_w :: rat
  solar_start_delay_seconds :: seconds
  solar_stop_delay_seconds :: seconds
  battery_low_soc_threshold :: rat
  battery_charge_power_threshold_w :: rat
  smart_charge_hours :: rat
  timezone :: string
  deadline_at :: "time option"
  departure_time :: "string option"
  start_delay_seconds :: seconds
  stop_delay_seconds :: seconds
  minimum_run_time_seconds :: seconds
  minimum_off_time_seconds :: seconds
  temporary_grid_import_allowance_w :: rat
  temporary_grid_import_seconds :: seconds
  grid_deadband_w :: rat
  minimum_current_change_interval_seconds :: seconds
  max_current_increase_per_step_a :: rat
  max_current_decrease_per_step_a :: rat
  max_automatic_starts_per_hour :: int

text \<open>The dataclass's defaults.\<close>

definition default_config :: charging_config where
  "default_config = \<lparr>
     max_current_a = 16, min_current_a = 6, phases = 3, nominal_voltage_v = 230,
     max_power_w = None, max_grid_import_w = None, main_fuse_a = None, safety_margin_a = 2,
     expensive_price_eur_kwh = 35/100, solar_start_threshold_w = 1000,
     solar_stop_threshold_w = 600, solar_start_delay_seconds = 15,
     solar_stop_delay_seconds = 60, battery_low_soc_threshold = 20,
     battery_charge_power_threshold_w = 1500, smart_charge_hours = 4,
     timezone = ''Europe/Stockholm'', deadline_at = None, departure_time = None,
     start_delay_seconds = 120, stop_delay_seconds = 300, minimum_run_time_seconds = 300,
     minimum_off_time_seconds = 300, temporary_grid_import_allowance_w = 800,
     temporary_grid_import_seconds = 180, grid_deadband_w = 300,
     minimum_current_change_interval_seconds = 30, max_current_increase_per_step_a = 1,
     max_current_decrease_per_step_a = 2, max_automatic_starts_per_hour = 4 \<rparr>"

record charging_decision =
  d_requested_current_a :: rat
  d_applied_current_a :: rat
  d_requested_power_w :: "rat option"
  d_action :: string
  d_reason :: string
  d_policy_mode :: string
  d_skip_apply :: bool
  d_smart_charging_state :: "string option"
  d_externally_limited :: bool

definition set_decision :: "rat \<Rightarrow> string \<Rightarrow> string \<Rightarrow> charging_decision" where
  "set_decision current mode reason = \<lparr>
     d_requested_current_a = current, d_applied_current_a = current, d_requested_power_w = None,
     d_action = ''set_current'', d_reason = reason, d_policy_mode = mode, d_skip_apply = False,
     d_smart_charging_state = None, d_externally_limited = False \<rparr>"

definition stop_decision :: "rat \<Rightarrow> string \<Rightarrow> string \<Rightarrow> string \<Rightarrow> charging_decision" where
  "stop_decision current action mode reason = \<lparr>
     d_requested_current_a = 0, d_applied_current_a = 0, d_requested_power_w = None,
     d_action = action, d_reason = reason, d_policy_mode = mode, d_skip_apply = False,
     d_smart_charging_state = None, d_externally_limited = False \<rparr>"

definition none_decision :: "rat \<Rightarrow> string \<Rightarrow> string \<Rightarrow> charging_decision" where
  "none_decision current mode reason = \<lparr>
     d_requested_current_a = current, d_applied_current_a = current, d_requested_power_w = None,
     d_action = ''none'', d_reason = reason, d_policy_mode = mode, d_skip_apply = True,
     d_smart_charging_state = None, d_externally_limited = False \<rparr>"

lemmas decision_defs = set_decision_def stop_decision_def none_decision_def

text \<open>A configuration a site can run with: a positive minimum, not above the maximum.\<close>

definition config_ok :: "charging_config \<Rightarrow> bool" where
  "config_ok c \<longleftrightarrow> 0 < min_current_a c \<and> min_current_a c \<le> max_current_a c
     \<and> 0 \<le> max_current_increase_per_step_a c \<and> 0 \<le> max_current_decrease_per_step_a c"

lemma default_config_ok: "config_ok default_config"
  by (simp add: config_ok_def default_config_def)

end
