(* ===== verification/Charging_Machine.thy ===== *)
theory Charging_Machine
  imports Charging_Policy
begin

section \<open>The smart charging state machine\<close>

text \<open>
  \<open>energy_core/charging/state_machine.py\<close>. \<open>SmartChargingRuntime\<close> is mutated in place by
  the code; here each function takes it and returns it updated.
\<close>

datatype smart_state =
    PAUSED | WAITING_TO_START | STARTING | CHARGING_STABLE | REDUCING
  | WAITING_TO_STOP | STOPPING | COOLDOWN | FAULT

fun smart_state_value :: "smart_state \<Rightarrow> string" where
  "smart_state_value PAUSED = ''PAUSED''"
| "smart_state_value WAITING_TO_START = ''WAITING_TO_START''"
| "smart_state_value STARTING = ''STARTING''"
| "smart_state_value CHARGING_STABLE = ''CHARGING_STABLE''"
| "smart_state_value REDUCING = ''REDUCING''"
| "smart_state_value WAITING_TO_STOP = ''WAITING_TO_STOP''"
| "smart_state_value STOPPING = ''STOPPING''"
| "smart_state_value COOLDOWN = ''COOLDOWN''"
| "smart_state_value FAULT = ''FAULT''"

definition smart_states :: "smart_state list" where
  "smart_states = [PAUSED, WAITING_TO_START, STARTING, CHARGING_STABLE, REDUCING,
     WAITING_TO_STOP, STOPPING, COOLDOWN, FAULT]"

text \<open>\<open>SmartChargingState(value)\<close>: \<open>None\<close> stands for the \<open>ValueError\<close>.\<close>

definition smart_state_of :: "string \<Rightarrow> smart_state option" where
  "smart_state_of v = find (\<lambda>s. smart_state_value s = v) smart_states"

lemma smart_state_roundtrip: "smart_state_of (smart_state_value s) = Some s"
  by (cases s) (simp_all add: smart_state_of_def smart_states_def)

record smart_runtime =
  sr_state :: smart_state
  sr_requested_current_a :: rat
  sr_target_current_a :: rat
  sr_externally_limited :: bool
  sr_start_condition_since :: "time option"
  sr_stop_condition_since :: "time option"
  sr_temporary_import_since :: "time option"
  sr_last_start_at :: "time option"
  sr_last_stop_at :: "time option"
  sr_last_requested_change_at :: "time option"
  sr_automatic_starts :: "time list"
  sr_cooldown_until :: "time option"

definition initial_runtime :: smart_runtime where
  "initial_runtime = \<lparr> sr_state = WAITING_TO_START, sr_requested_current_a = 0,
     sr_target_current_a = 0, sr_externally_limited = False, sr_start_condition_since = None,
     sr_stop_condition_since = None, sr_temporary_import_since = None, sr_last_start_at = None,
     sr_last_stop_at = None, sr_last_requested_change_at = None, sr_automatic_starts = [],
     sr_cooldown_until = None \<rparr>"

text \<open>\<open>FilteredEnergySignals\<close> (\<open>charging/signal_filter.py\<close>).\<close>

record energy_signals =
  grid_import_w :: rat
  grid_export_w :: rat
  pv_power_w :: rat
  home_consumption_w :: rat
  battery_charge_power_w :: rat
  battery_discharge_power_w :: rat

definition URGENT_OPTIMIZER_REASONS :: "string list" where
  "URGENT_OPTIMIZER_REASONS = [''deadline_risk'', ''deadline_overdue'']"

definition is_urgent_reason :: "string \<Rightarrow> bool" where
  "is_urgent_reason r \<longleftrightarrow> r \<in> set URGENT_OPTIMIZER_REASONS"

definition apply_ramp :: "rat \<Rightarrow> rat \<Rightarrow> charging_config \<Rightarrow> bool \<Rightarrow> rat" where
  "apply_ramp current target config urgent =
     (let increase_step = max_current_increase_per_step_a config * (if urgent then 2 else 1) in
      if target > current then min target (current + increase_step)
      else if target < current then max target (current - max_current_decrease_per_step_a config)
      else current)"

definition clamp_target :: "rat \<Rightarrow> charging_config \<Rightarrow> rat" where
  "clamp_target target config =
     (if target \<le> 0 then 0
      else let target = min target (max_current_a config) in
        if target < min_current_a config then 0 else target)"

definition reset_timers :: "smart_runtime \<Rightarrow> smart_runtime" where
  "reset_timers r = r\<lparr> sr_start_condition_since := None, sr_stop_condition_since := None,
     sr_temporary_import_since := None \<rparr>"

definition prune_starts :: "time list \<Rightarrow> time \<Rightarrow> time list" where
  "prune_starts starts now = filter (\<lambda>stamp. now - 3600 * us_per_s \<le> stamp) starts"

definition in_minimum_run_period :: "smart_runtime \<Rightarrow> charging_config \<Rightarrow> time \<Rightarrow> bool" where
  "in_minimum_run_period r config now =
     (case sr_last_start_at r of None \<Rightarrow> False
      | Some t \<Rightarrow> elapsed_s now t < minimum_run_time_seconds config)"

definition start_allowed :: "smart_runtime \<Rightarrow> charging_config \<Rightarrow> time \<Rightarrow> bool" where
  "start_allowed r config now =
     (if (case sr_last_stop_at r of None \<Rightarrow> False
          | Some t \<Rightarrow> elapsed_s now t < minimum_off_time_seconds config)
      then False
      else int (length (sr_automatic_starts r)) < max_automatic_starts_per_hour config)"

text \<open>\<open>_temporary_import_allowed\<close> also writes the runtime's timer.\<close>

definition temporary_import_allowed ::
  "smart_runtime \<Rightarrow> charging_config \<Rightarrow> rat \<Rightarrow> time \<Rightarrow> smart_runtime \<times> bool" where
  "temporary_import_allowed r config import_w now =
     (if import_w \<le> temporary_grid_import_allowance_w config then
        let since = (case sr_temporary_import_since r of None \<Rightarrow> now | Some t \<Rightarrow> t)
        in (r\<lparr> sr_temporary_import_since := Some since \<rparr>,
            elapsed_s now since \<le> temporary_grid_import_seconds config)
      else (r\<lparr> sr_temporary_import_since := None \<rparr>, False))"

text \<open>\<open>_handle_start_path\<close>; \<open>mode\<close> is the normalised mode.\<close>

definition launch_charging ::
  "smart_runtime \<Rightarrow> charging_config \<Rightarrow> string \<Rightarrow> string \<Rightarrow> rat \<Rightarrow> string \<Rightarrow> bool \<Rightarrow> bool \<Rightarrow> time
   \<Rightarrow> smart_runtime \<times> charging_decision" where
  "launch_charging r config mode policy_mode desired reason urgent override now =
     (let fast_start = immediate_start (Some mode) override;
          start_current = max (min_current_a config)
            (if fast_start \<or> urgent then desired else apply_ramp 0 desired config urgent);
          r1 = r\<lparr> sr_state := (if fast_start then CHARGING_STABLE else STARTING),
                  sr_requested_current_a := start_current,
                  sr_target_current_a := desired,
                  sr_last_requested_change_at := Some now,
                  sr_last_start_at := Some now \<rparr>;
          r2 = (if bypasses_guardrails (Some mode) override then r1
                else r1\<lparr> sr_automatic_starts := sr_automatic_starts r1 @ [now] \<rparr>)
      in (r2\<lparr> sr_start_condition_since := None \<rparr>, set_decision start_current policy_mode reason))"

definition handle_start_path ::
  "smart_runtime \<Rightarrow> charging_config \<Rightarrow> string \<Rightarrow> string \<Rightarrow> rat \<Rightarrow> string \<Rightarrow> rat \<Rightarrow> bool \<Rightarrow> time
   \<Rightarrow> smart_runtime \<times> charging_decision" where
  "handle_start_path r config mode policy_mode desired reason export_w override now =
     (if desired \<le> 0 then
        (r\<lparr> sr_state := WAITING_TO_START, sr_requested_current_a := 0, sr_target_current_a := 0 \<rparr>,
         none_decision 0 policy_mode reason)
      else if \<not> bypasses_guardrails (Some mode) override \<and> \<not> start_allowed r config now then
        (r\<lparr> sr_state := WAITING_TO_START, sr_requested_current_a := 0,
            sr_target_current_a := desired \<rparr>,
         none_decision 0 policy_mode ''start_rate_limited'')
      else if mode \<in> set SOLAR_MODES \<and> export_w < solar_start_threshold_w config then
        (r\<lparr> sr_start_condition_since := None, sr_state := WAITING_TO_START \<rparr>,
         none_decision 0 policy_mode ''waiting_for_export'')
      else
        let urgent = is_urgent_reason reason in
        if uses_start_delay (Some mode) override \<and> \<not> urgent then
          let since = (case sr_start_condition_since r of None \<Rightarrow> now | Some t \<Rightarrow> t);
              r1 = r\<lparr> sr_start_condition_since := Some since \<rparr> in
          if elapsed_s now since < start_delay_seconds config then
            (r1\<lparr> sr_state := WAITING_TO_START \<rparr>, none_decision 0 policy_mode ''start_delay'')
          else launch_charging r1 config mode policy_mode desired reason urgent override now
        else launch_charging r config mode policy_mode desired reason urgent override now)"

definition handle_stop_path ::
  "smart_runtime \<Rightarrow> charging_config \<Rightarrow> string \<Rightarrow> string \<Rightarrow> rat \<Rightarrow> bool \<Rightarrow> bool \<Rightarrow> bool \<Rightarrow> bool \<Rightarrow> time
   \<Rightarrow> smart_runtime \<times> charging_decision" where
  "handle_stop_path r config policy_mode reason import_w in_run_period temporary_import_ok
       is_charging fast_stop now =
     (let r0 = r\<lparr> sr_start_condition_since := None, sr_target_current_a := 0 \<rparr>;
          reduced = apply_ramp (sr_requested_current_a r0) (min_current_a config) config False in
      if \<not> fast_stop \<and> in_run_period \<and> (temporary_import_ok \<or> import_w \<le> grid_deadband_w config)
         \<and> reduced \<ge> min_current_a config then
        (r0\<lparr> sr_state := REDUCING, sr_requested_current_a := reduced,
             sr_last_requested_change_at := Some now \<rparr>,
         set_decision reduced policy_mode ''temporary_grid_import'')
      else if \<not> fast_stop \<and> in_run_period \<and> sr_requested_current_a r0 > min_current_a config then
        (r0\<lparr> sr_state := REDUCING, sr_requested_current_a := reduced,
             sr_last_requested_change_at := Some now \<rparr>,
         set_decision reduced policy_mode ''reduce_before_stop'')
      else
        let stop_delay = (if fast_stop then 0 else stop_delay_seconds config);
            since = (case sr_stop_condition_since r0 of None \<Rightarrow> now | Some t \<Rightarrow> t);
            r1 = r0\<lparr> sr_stop_condition_since := Some since \<rparr> in
        if elapsed_s now since < stop_delay \<and> is_charging then
          (r1\<lparr> sr_state := WAITING_TO_STOP \<rparr>,
           none_decision (sr_requested_current_a r1) policy_mode ''stop_delay'')
        else
          let r2 = r1\<lparr> sr_state := STOPPING, sr_requested_current_a := 0,
                       sr_last_stop_at := Some now \<rparr>;
              r3 = (if fast_stop then r2
                    else r2\<lparr> sr_cooldown_until :=
                           Some (now + timedelta_s (minimum_off_time_seconds config)) \<rparr>)
          in (r3\<lparr> sr_stop_condition_since := None \<rparr>, stop_decision 0 ''stop'' policy_mode reason))"

text \<open>The arguments of \<open>evaluate_smart_charging\<close> that change from cycle to cycle.\<close>

record cycle_input =
  ci_charging_mode :: "string option"
  ci_optimizer_target_a :: rat
  ci_optimizer_reason :: string
  ci_slow_signals :: energy_signals
  ci_vehicle_connected :: bool
  ci_halo_connected :: bool
  ci_is_charging :: bool
  ci_fault_code :: "string option"
  ci_now :: time
  ci_override_active :: bool

text \<open>\<open>if fault_code\<close>: \<open>None\<close> and the empty string are falsy.\<close>

definition truthy_str :: "string option \<Rightarrow> bool" where
  "truthy_str x = (case x of None \<Rightarrow> False | Some s \<Rightarrow> s \<noteq> [])"

text \<open>The part of \<open>evaluate_smart_charging\<close> after the guards, for a wanted current above 0.\<close>

definition modulate_current ::
  "smart_runtime \<Rightarrow> charging_config \<Rightarrow> string \<Rightarrow> rat \<Rightarrow> string \<Rightarrow> bool \<Rightarrow> time
   \<Rightarrow> smart_runtime \<times> charging_decision" where
  "modulate_current r config policy_mode desired reason is_charging now =
     (let r0 = r\<lparr> sr_stop_condition_since := None \<rparr>;
          urgent = is_urgent_reason reason;
          next_current = apply_ramp (sr_requested_current_a r0) desired config urgent in
      if \<bar>next_current - sr_requested_current_a r0\<bar> < 1/100 then
        let r1 = r0\<lparr> sr_state := CHARGING_STABLE, sr_target_current_a := desired \<rparr> in
        if \<not> is_charging then (r1, set_decision (sr_requested_current_a r1) policy_mode reason)
        else (r1, none_decision (sr_requested_current_a r1) policy_mode reason)
      else
        (r0\<lparr> sr_state := (if next_current < sr_requested_current_a r0 then REDUCING
                          else CHARGING_STABLE),
             sr_requested_current_a := next_current,
             sr_target_current_a := desired,
             sr_last_requested_change_at := Some now \<rparr>,
         set_decision next_current policy_mode reason))"

definition evaluate_smart_charging ::
  "charging_config \<Rightarrow> smart_runtime \<Rightarrow> cycle_input \<Rightarrow> smart_runtime \<times> charging_decision" where
  "evaluate_smart_charging config runtime i =
     (let mode = normalized_mode (ci_charging_mode i);
          override = ci_override_active i;
          now = ci_now i;
          policy_mode = decision_policy_mode (ci_charging_mode i) override;
          fast_start = immediate_start (ci_charging_mode i) override;
          r = runtime\<lparr> sr_automatic_starts := prune_starts (sr_automatic_starts runtime) now \<rparr> in
      if truthy_str (ci_fault_code i) \<or> \<not> ci_halo_connected i then
        (r\<lparr> sr_state := FAULT \<rparr>,
         stop_decision 0 ''fault'' policy_mode
           (if truthy_str (ci_fault_code i) then the (ci_fault_code i) else ''charger_offline''))
      else if respects_manual_pause (ci_charging_mode i) override then
        (r\<lparr> sr_state := PAUSED, sr_requested_current_a := 0, sr_target_current_a := 0 \<rparr>,
         stop_decision 0 ''stop'' policy_mode ''user_paused'')
      else if \<not> ci_vehicle_connected i then
        ((reset_timers r)\<lparr> sr_state := WAITING_TO_START, sr_requested_current_a := 0,
            sr_target_current_a := 0 \<rparr>,
         none_decision 0 policy_mode ''no_vehicle_connected'')
      else if \<not> bypasses_guardrails (ci_charging_mode i) override
              \<and> (case sr_cooldown_until r of None \<Rightarrow> False | Some t \<Rightarrow> now < t) then
        (r\<lparr> sr_state := COOLDOWN, sr_requested_current_a := 0, sr_target_current_a := 0 \<rparr>,
         none_decision 0 policy_mode ''cooldown'')
      else
        let r0 = r\<lparr> sr_cooldown_until := None \<rparr>;
            desired = clamp_target (ci_optimizer_target_a i) config;
            export_w = max 0 (grid_export_w (ci_slow_signals i)
                              - battery_discharge_power_w (ci_slow_signals i));
            import_w = grid_import_w (ci_slow_signals i);
            in_run_period = in_minimum_run_period r0 config now;
            (r1, temporary_import_ok) = temporary_import_allowed r0 config import_w now in
        if desired \<le> 0 then
          handle_stop_path r1 config policy_mode (ci_optimizer_reason i) import_w
            (in_run_period \<and> \<not> fast_start) temporary_import_ok (ci_is_charging i) fast_start now
        else if sr_state r1 \<in> {WAITING_TO_START, COOLDOWN, STOPPING, PAUSED} then
          handle_start_path r1 config mode policy_mode desired (ci_optimizer_reason i) export_w
            override now
        else if sr_requested_current_a r1 \<le> 0 \<and> desired > 0 then
          handle_start_path r1 config mode policy_mode desired (ci_optimizer_reason i) export_w
            override now
        else
          modulate_current r1 config policy_mode desired (ci_optimizer_reason i)
            (ci_is_charging i) now)"

text \<open>\<open>restore_runtime_from_charger\<close>: what survives a restart of the collector.\<close>

definition restore_runtime_from_charger ::
  "string option \<Rightarrow> rat option \<Rightarrow> time option \<Rightarrow> time option \<Rightarrow> smart_runtime" where
  "restore_runtime_from_charger smart_charging_state last_requested last_start last_stop =
     (let state = (if truthy_str smart_charging_state
                   then or_else (smart_state_of (the smart_charging_state)) WAITING_TO_START
                   else WAITING_TO_START)
      in initial_runtime\<lparr> sr_state := state,
           sr_requested_current_a := or_else last_requested 0,
           sr_target_current_a := or_else last_requested 0,
           sr_last_start_at := last_start, sr_last_stop_at := last_stop \<rparr>)"

end
