(* ===== verification/Charging_Safety.thy ===== *)
theory Charging_Safety
  imports Charging_Machine
begin

section \<open>What the charging state machine keeps\<close>

text \<open>
  The invariant of the runtime, one preservation lemma per path of
  \<open>evaluate_smart_charging\<close>, a case rule that names the path a cycle took, and the
  properties: current limits, ramp limits, the cap on automatic starts, the minimum off
  time, and that a charger without a target is stopped in bounded time.
\<close>

subsection \<open>The invariant\<close>

definition current_ok :: "charging_config \<Rightarrow> rat \<Rightarrow> bool" where
  "current_ok c x \<longleftrightarrow> x = 0 \<or> (min_current_a c \<le> x \<and> x \<le> max_current_a c)"

definition idle_states :: "smart_state set" where
  "idle_states = {WAITING_TO_START, COOLDOWN, STOPPING, PAUSED}"

definition active_states :: "smart_state set" where
  "active_states = {STARTING, CHARGING_STABLE, REDUCING}"

definition runtime_ok :: "charging_config \<Rightarrow> smart_runtime \<Rightarrow> bool" where
  "runtime_ok c r \<longleftrightarrow>
     current_ok c (sr_requested_current_a r) \<and> current_ok c (sr_target_current_a r)
     \<and> (sr_state r \<in> idle_states \<longrightarrow> sr_requested_current_a r = 0)
     \<and> (sr_state r \<in> active_states \<longrightarrow> min_current_a c \<le> sr_requested_current_a r)"

definition starts_ok :: "charging_config \<Rightarrow> smart_runtime \<Rightarrow> bool" where
  "starts_ok c r \<longleftrightarrow>
     int (length (sr_automatic_starts r)) \<le> max 0 (max_automatic_starts_per_hour c)"

definition decision_ok :: "charging_config \<Rightarrow> smart_runtime \<Rightarrow> charging_decision \<Rightarrow> bool" where
  "decision_ok c r d \<longleftrightarrow>
     (d_action d = ''set_current'' \<longrightarrow>
        min_current_a c \<le> d_requested_current_a d \<and> d_requested_current_a d \<le> max_current_a c
        \<and> d_requested_current_a d = sr_requested_current_a r)"

lemmas state_sets = idle_states_def active_states_def

subsection \<open>The ramp and the clamp\<close>

lemma apply_ramp_between:
  assumes "config_ok c"
  shows "min current target \<le> apply_ramp current target c u"
    and "apply_ramp current target c u \<le> max current target"
  using assms by (auto simp: apply_ramp_def config_ok_def Let_def)

lemma apply_ramp_steps:
  assumes "config_ok c"
  shows "apply_ramp current target c u
           \<le> current + max_current_increase_per_step_a c * (if u then 2 else 1)"
    and "current - max_current_decrease_per_step_a c \<le> apply_ramp current target c u"
  using assms by (auto simp: apply_ramp_def config_ok_def Let_def)

lemma clamp_target_ok: "config_ok c \<Longrightarrow> current_ok c (clamp_target t c)"
  by (auto simp: clamp_target_def current_ok_def config_ok_def Let_def)

lemma clamp_target_pos:
  "config_ok c \<Longrightarrow> 0 < clamp_target t c \<Longrightarrow>
     min_current_a c \<le> clamp_target t c \<and> clamp_target t c \<le> max_current_a c"
  by (auto simp: clamp_target_def config_ok_def Let_def split: if_splits)

lemma length_prune_starts: "length (prune_starts ss now) \<le> length ss"
  by (simp add: prune_starts_def)

subsection \<open>One lemma per path\<close>

lemma launch_charging_fields:
  assumes "launch_charging r c mode pm desired reason u ov now = (r', d)"
  shows "sr_state r' = (if immediate_start (Some mode) ov then CHARGING_STABLE else STARTING)"
    and "sr_requested_current_a r' = max (min_current_a c)
      (if immediate_start (Some mode) ov \<or> u then desired else apply_ramp 0 desired c u)"
    and "sr_target_current_a r' = desired"
    and "sr_last_start_at r' = Some now"
    and "sr_automatic_starts r' = (if bypasses_guardrails (Some mode) ov then sr_automatic_starts r
      else sr_automatic_starts r @ [now])"
    and "sr_last_stop_at r' = sr_last_stop_at r"
    and "sr_cooldown_until r' = sr_cooldown_until r"
    and "d = set_decision (sr_requested_current_a r') pm reason"
  using assms by (cases "bypasses_guardrails (Some mode) ov"; force simp: launch_charging_def Let_def)+

lemma launch_charging_ok:
  assumes "config_ok c" "min_current_a c \<le> desired" "desired \<le> max_current_a c"
    and "launch_charging r c mode pm desired reason u ov now = (r', d)"
  shows "runtime_ok c r'" "decision_ok c r' d"
proof -
  note f = launch_charging_fields [OF assms(4)]
  have "apply_ramp 0 desired c u' \<le> max_current_a c" for u'
    using apply_ramp_between(2) [OF assms(1), of 0 desired u'] assms(1-3)
    by (simp add: config_ok_def)
  then have "min_current_a c \<le> sr_requested_current_a r'" "sr_requested_current_a r' \<le> max_current_a c"
    using assms(1-3) by (simp_all add: f config_ok_def)
  then show "runtime_ok c r'" "decision_ok c r' d"
    using assms(2,3)
    by (auto simp: f(1,3,8) runtime_ok_def decision_ok_def current_ok_def set_decision_def state_sets)
qed

text \<open>A start attempt is either declined, with the charger left idle, or launches.\<close>

lemma handle_start_path_cases:
  assumes "handle_start_path r c mode pm desired reason ex ov now = (r', d)"
  obtains
    (declined) "sr_state r' = WAITING_TO_START"
      "sr_requested_current_a r' \<in> {0, sr_requested_current_a r}"
      "sr_target_current_a r' \<in> {0, desired, sr_target_current_a r}"
      "sr_automatic_starts r' = sr_automatic_starts r" "sr_last_stop_at r' = sr_last_stop_at r"
      "d_action d = ''none''"
  | (launched) since where "bypasses_guardrails (Some mode) ov \<or> start_allowed r c now"
      "launch_charging (r\<lparr> sr_start_condition_since := since \<rparr>) c mode pm desired reason
         (is_urgent_reason reason) ov now = (r', d)"
proof (cases "desired \<le> 0 \<or> \<not> bypasses_guardrails (Some mode) ov \<and> \<not> start_allowed r c now
    \<or> mode \<in> set SOLAR_MODES \<and> ex < solar_start_threshold_w c")
  case True
  then show thesis
    using assms by (intro declined) (auto simp: handle_start_path_def none_decision_def split: if_splits)
next
  case False
  let ?since = "case sr_start_condition_since r of None \<Rightarrow> now | Some t \<Rightarrow> t"
  let ?delayed = "uses_start_delay (Some mode) ov \<and> \<not> is_urgent_reason reason"
  show thesis
  proof (cases "?delayed \<and> elapsed_s now ?since < start_delay_seconds c")
    case True
    with False show thesis
      using assms
      by (intro declined) (auto simp: handle_start_path_def Let_def none_decision_def split: if_splits)
  next
    case waited: False
    show thesis
    proof (rule launched)
      show "bypasses_guardrails (Some mode) ov \<or> start_allowed r c now" using False by blast
      show "launch_charging (r\<lparr> sr_start_condition_since :=
          (if ?delayed then Some ?since else sr_start_condition_since r) \<rparr>) c mode pm desired reason
          (is_urgent_reason reason) ov now = (r', d)"
        using assms False waited by (auto simp: handle_start_path_def Let_def split: if_splits)
    qed
  qed
qed

lemma handle_start_path_ok:
  assumes "config_ok c" "runtime_ok c r" "sr_requested_current_a r = 0"
    and "min_current_a c \<le> desired" "desired \<le> max_current_a c"
    and "handle_start_path r c mode pm desired reason ex ov now = (r', d)"
  shows "runtime_ok c r' \<and> decision_ok c r' d"
  using assms(6)
proof (cases rule: handle_start_path_cases)
  case declined
  with assms show ?thesis
    by (auto simp: runtime_ok_def decision_ok_def current_ok_def state_sets)
next
  case (launched since)
  then show ?thesis using launch_charging_ok [OF assms(1,4,5)] by blast
qed

text \<open>
  Without a wanted current the charger is reduced, waits out the stop delay, or stops.
\<close>

lemma handle_stop_path_cases:
  assumes "handle_stop_path r c pm reason im run tmp chg fast now = (r', d)"
  defines "reduced \<equiv> apply_ramp (sr_requested_current_a r) (min_current_a c) c False"
    and "since \<equiv> case sr_stop_condition_since r of None \<Rightarrow> now | Some t \<Rightarrow> t"
  obtains
    (reduce) "\<not> fast" "run" "min_current_a c \<le> reduced \<or> min_current_a c < sr_requested_current_a r"
      "sr_state r' = REDUCING" "sr_requested_current_a r' = reduced" "sr_target_current_a r' = 0"
      "sr_automatic_starts r' = sr_automatic_starts r"
      "d_action d = ''set_current''" "d_requested_current_a d = reduced"
  | (wait) "elapsed_s now since < (if fast then 0 else stop_delay_seconds c)" "chg"
      "sr_state r' = WAITING_TO_STOP" "sr_requested_current_a r' = sr_requested_current_a r"
      "sr_target_current_a r' = 0" "sr_stop_condition_since r' = Some since"
      "sr_last_start_at r' = sr_last_start_at r" "sr_cooldown_until r' = sr_cooldown_until r"
      "sr_automatic_starts r' = sr_automatic_starts r" "d_action d = ''none''"
  | (stop) "sr_state r' = STOPPING" "sr_requested_current_a r' = 0" "sr_target_current_a r' = 0"
      "sr_last_stop_at r' = Some now"
      "\<not> fast \<Longrightarrow> sr_cooldown_until r' = Some (now + timedelta_s (minimum_off_time_seconds c))"
      "sr_automatic_starts r' = sr_automatic_starts r"
      "d_action d = ''stop''" "d_requested_current_a d = 0"
proof (cases "\<not> fast \<and> run \<and> ((tmp \<or> im \<le> grid_deadband_w c) \<and> min_current_a c \<le> reduced
    \<or> min_current_a c < sr_requested_current_a r)")
  case True
  then show thesis
    using assms(1) unfolding reduced_def
    by (intro reduce) (auto simp: handle_stop_path_def Let_def set_decision_def reduced_def split: if_splits)
next
  case False
  show thesis
  proof (cases "elapsed_s now since < (if fast then 0 else stop_delay_seconds c) \<and> chg")
    case True
    with False assms(1) show thesis unfolding reduced_def since_def
      by (intro wait)
        (auto simp: handle_stop_path_def Let_def none_decision_def since_def split: if_splits)
  next
    case waited: False
    have eq: "handle_stop_path r c pm reason im run tmp chg fast now =
      (let r2 = r\<lparr> sr_start_condition_since := None, sr_target_current_a := 0,
              sr_stop_condition_since := Some since, sr_state := STOPPING,
              sr_requested_current_a := 0, sr_last_stop_at := Some now \<rparr>;
           r3 = (if fast then r2 else r2\<lparr> sr_cooldown_until :=
              Some (now + timedelta_s (minimum_off_time_seconds c)) \<rparr>)
       in (r3\<lparr> sr_stop_condition_since := None \<rparr>, stop_decision 0 ''stop'' pm reason))"
      using False waited unfolding reduced_def since_def
      by (auto simp: handle_stop_path_def Let_def)
    show thesis
      using assms(1) unfolding eq Let_def
      by (intro stop) (cases fast; force simp: stop_decision_def)+
  qed
qed

lemma handle_stop_path_ok:
  assumes "config_ok c" "runtime_ok c r"
    and "handle_stop_path r c pm reason im run tmp chg fast now = (r', d)"
  shows "runtime_ok c r' \<and> decision_ok c r' d"
  using assms(3)
proof (cases rule: handle_stop_path_cases)
  case reduce
  let ?q = "sr_requested_current_a r" and ?m = "min_current_a c"
  have "apply_ramp ?q ?m c False \<le> max_current_a c"
    using apply_ramp_between(2) [OF assms(1), of ?q ?m False] assms(1,2)
    by (auto simp: runtime_ok_def current_ok_def config_ok_def)
  moreover have "?m \<le> apply_ramp ?q ?m c False"
    using reduce(3) apply_ramp_between(1) [OF assms(1), of ?q ?m False] by auto
  ultimately show ?thesis
    using reduce by (auto simp: runtime_ok_def decision_ok_def current_ok_def state_sets)
qed (use assms(2) in \<open>auto simp: runtime_ok_def decision_ok_def current_ok_def state_sets\<close>)

lemma modulate_current_ok:
  assumes "config_ok c" "runtime_ok c r" "0 < sr_requested_current_a r"
    and "min_current_a c \<le> desired" "desired \<le> max_current_a c"
    and "modulate_current r c pm desired reason chg now = (r', d)"
  shows "runtime_ok c r'" "decision_ok c r' d"
proof -
  let ?q = "sr_requested_current_a r" and ?u = "is_urgent_reason reason"
  have q: "min_current_a c \<le> ?q" "?q \<le> max_current_a c"
    using assms(2,3) by (auto simp: runtime_ok_def current_ok_def)
  have "min_current_a c \<le> apply_ramp ?q desired c ?u" "apply_ramp ?q desired c ?u \<le> max_current_a c"
    using apply_ramp_between [OF assms(1), of ?q desired ?u] q assms(4,5) by auto
  with q assms(4-6) show "runtime_ok c r'" "decision_ok c r' d"
    by (auto simp: modulate_current_def Let_def runtime_ok_def decision_ok_def current_ok_def
        decision_defs state_sets split: if_splits)
qed

subsection \<open>Which path a cycle takes\<close>

text \<open>The runtime as the paths after the guards see it.\<close>

definition guarded_runtime :: "charging_config \<Rightarrow> smart_runtime \<Rightarrow> cycle_input \<Rightarrow> smart_runtime" where
  "guarded_runtime c r i = fst (temporary_import_allowed
     (r\<lparr> sr_automatic_starts := prune_starts (sr_automatic_starts r) (ci_now i),
         sr_cooldown_until := None \<rparr>) c (grid_import_w (ci_slow_signals i)) (ci_now i))"

lemma guarded_runtime_frame [frame_simps]:
  "sr_state (guarded_runtime c r i) = sr_state r"
  "sr_requested_current_a (guarded_runtime c r i) = sr_requested_current_a r"
  "sr_target_current_a (guarded_runtime c r i) = sr_target_current_a r"
  "sr_start_condition_since (guarded_runtime c r i) = sr_start_condition_since r"
  "sr_stop_condition_since (guarded_runtime c r i) = sr_stop_condition_since r"
  "sr_last_start_at (guarded_runtime c r i) = sr_last_start_at r"
  "sr_last_stop_at (guarded_runtime c r i) = sr_last_stop_at r"
  "sr_automatic_starts (guarded_runtime c r i) = prune_starts (sr_automatic_starts r) (ci_now i)"
  "sr_cooldown_until (guarded_runtime c r i) = None"
  by (simp_all add: guarded_runtime_def temporary_import_allowed_def Let_def)

text \<open>No guard stops the cycle: no fault, not paused, a vehicle, no cooldown.\<close>

definition charger_ready :: "cycle_input \<Rightarrow> bool" where
  "charger_ready i \<longleftrightarrow> \<not> truthy_str (ci_fault_code i) \<and> ci_halo_connected i
     \<and> \<not> respects_manual_pause (ci_charging_mode i) (ci_override_active i)
     \<and> ci_vehicle_connected i"

definition fast_mode :: "cycle_input \<Rightarrow> bool" where
  "fast_mode i = immediate_start (ci_charging_mode i) (ci_override_active i)"

definition in_cooldown :: "smart_runtime \<Rightarrow> time \<Rightarrow> bool" where
  "in_cooldown r now = (case sr_cooldown_until r of None \<Rightarrow> False | Some t \<Rightarrow> now < t)"

abbreviation wanted_current :: "charging_config \<Rightarrow> cycle_input \<Rightarrow> rat" where
  "wanted_current c i \<equiv> clamp_target (ci_optimizer_target_a i) c"

abbreviation policy_of :: "cycle_input \<Rightarrow> string" where
  "policy_of i \<equiv> decision_policy_mode (ci_charging_mode i) (ci_override_active i)"

abbreviation export_of :: "cycle_input \<Rightarrow> rat" where
  "export_of i \<equiv> max 0 (grid_export_w (ci_slow_signals i)
     - battery_discharge_power_w (ci_slow_signals i))"

lemma evaluate_path_cases:
  assumes "evaluate_smart_charging c r i = (r', d)"
  obtains
    (fault) "\<not> charger_ready i"
      "r' = r\<lparr> sr_automatic_starts := prune_starts (sr_automatic_starts r) (ci_now i),
               sr_state := FAULT \<rparr>"
      "d_action d = ''fault''" "d_requested_current_a d = 0"
  | (paused) "\<not> charger_ready i"
      "r' = r\<lparr> sr_automatic_starts := prune_starts (sr_automatic_starts r) (ci_now i),
               sr_state := PAUSED, sr_requested_current_a := 0, sr_target_current_a := 0 \<rparr>"
      "d_action d = ''stop''" "d_requested_current_a d = 0"
  | (no_vehicle) "\<not> charger_ready i"
      "r' = r\<lparr> sr_automatic_starts := prune_starts (sr_automatic_starts r) (ci_now i),
               sr_start_condition_since := None, sr_stop_condition_since := None,
               sr_temporary_import_since := None, sr_state := WAITING_TO_START,
               sr_requested_current_a := 0, sr_target_current_a := 0 \<rparr>"
      "d_action d = ''none''"
  | (cooldown) "charger_ready i" "\<not> fast_mode i" "in_cooldown r (ci_now i)"
      "r' = r\<lparr> sr_automatic_starts := prune_starts (sr_automatic_starts r) (ci_now i),
               sr_state := COOLDOWN, sr_requested_current_a := 0, sr_target_current_a := 0 \<rparr>"
      "d_action d = ''none''"
  | (stop) import_ok where "charger_ready i" "fast_mode i \<or> \<not> in_cooldown r (ci_now i)"
      "wanted_current c i \<le> 0"
      "(r', d) = handle_stop_path (guarded_runtime c r i) c (policy_of i) (ci_optimizer_reason i)
         (grid_import_w (ci_slow_signals i))
         (in_minimum_run_period r c (ci_now i) \<and> \<not> fast_mode i) import_ok
         (ci_is_charging i) (fast_mode i) (ci_now i)"
  | (start) "charger_ready i" "fast_mode i \<or> \<not> in_cooldown r (ci_now i)" "0 < wanted_current c i"
      "sr_state r \<in> idle_states \<or> sr_requested_current_a r \<le> 0"
      "(r', d) = handle_start_path (guarded_runtime c r i) c (normalized_mode (ci_charging_mode i))
         (policy_of i) (wanted_current c i) (ci_optimizer_reason i) (export_of i)
         (ci_override_active i) (ci_now i)"
  | (modulate) "charger_ready i" "fast_mode i \<or> \<not> in_cooldown r (ci_now i)"
      "0 < wanted_current c i" "sr_state r \<notin> idle_states"
      "0 < sr_requested_current_a r"
      "(r', d) = modulate_current (guarded_runtime c r i) c (policy_of i) (wanted_current c i)
         (ci_optimizer_reason i) (ci_is_charging i) (ci_now i)"
proof -
  let ?r0 = "r\<lparr> sr_automatic_starts := prune_starts (sr_automatic_starts r) (ci_now i),
                sr_cooldown_until := None \<rparr>"
  obtain ok where tmp: "temporary_import_allowed ?r0 c (grid_import_w (ci_slow_signals i)) (ci_now i)
      = (guarded_runtime c r i, ok)"
    by (metis guarded_runtime_def prod.collapse)
  have run: "in_minimum_run_period ?r0 c (ci_now i) = in_minimum_run_period r c (ci_now i)"
    by (simp add: in_minimum_run_period_def)
  note ev = assms [unfolded evaluate_smart_charging_def Let_def tmp, simplified run tmp prod.case]
  show thesis
    using ev fault paused no_vehicle cooldown stop [of ok] start modulate
    by (auto simp: charger_ready_def fast_mode_def bypasses_guardrails_def in_cooldown_def
        decision_defs reset_timers_def idle_states_def frame_simps split: if_splits option.splits)
qed

end
