(* ===== verification/Charging_Runs.thy ===== *)
theory Charging_Runs
  imports Charging_Safety
begin

section \<open>Runs of the charging state machine\<close>

text \<open>
  The collector calls \<open>evaluate_smart_charging\<close> once per cycle on the same runtime. A run
  is a list of cycle inputs; the properties of the machine are stated over runs of any
  length, and rest on the case rules of \<open>Charging_Safety\<close>.
\<close>

definition charging_cycle :: "charging_config \<Rightarrow> smart_runtime \<Rightarrow> cycle_input \<Rightarrow> smart_runtime" where
  "charging_cycle c r i = fst (evaluate_smart_charging c r i)"

text \<open>The decisions of a run, each with the runtime it left.\<close>

fun charging_trace ::
  "charging_config \<Rightarrow> smart_runtime \<Rightarrow> cycle_input list \<Rightarrow> (smart_runtime \<times> charging_decision) list" where
  "charging_trace c r [] = []"
| "charging_trace c r (i # is) =
     (let rd = evaluate_smart_charging c r i in rd # charging_trace c (fst rd) is)"

lemma charging_trace_Cons:
  "evaluate_smart_charging c r i = (r', d) \<Longrightarrow>
     charging_trace c r (i # is) = (r', d) # charging_trace c r' is"
  by simp

subsection \<open>Safety of one cycle\<close>

lemma guarded_runtime_ok [inv_intros]:
  "runtime_ok c r \<Longrightarrow> runtime_ok c (guarded_runtime c r i)"
  by (simp add: runtime_ok_def frame_simps)

lemma evaluate_ok:
  assumes c: "config_ok c" and r: "runtime_ok c r"
    and ev: "evaluate_smart_charging c r i = (r', d)"
  shows "runtime_ok c r' \<and> decision_ok c r' d"
  using ev
proof (cases rule: evaluate_path_cases)
  case (stop ok)
  then show ?thesis using handle_stop_path_ok [OF c guarded_runtime_ok [OF r]] by metis
next
  case start
  have "0 \<le> sr_requested_current_a r"
    using c r by (auto simp: runtime_ok_def current_ok_def config_ok_def)
  then have "sr_requested_current_a (guarded_runtime c r i) = 0"
    using start(4) r by (auto simp: runtime_ok_def frame_simps)
  then show ?thesis
    using start(3,5) handle_start_path_ok [OF c guarded_runtime_ok [OF r]] clamp_target_pos [OF c]
    by metis
next
  case modulate
  then show ?thesis
    using modulate_current_ok [OF c guarded_runtime_ok [OF r]] clamp_target_pos [OF c]
    by (metis guarded_runtime_frame(2))
qed (use r in \<open>auto simp: runtime_ok_def decision_ok_def current_ok_def state_sets\<close>)

interpretation safe_cycle: kept_invariant "charging_cycle c" "\<lambda>i. True"
  "\<lambda>r. config_ok c \<and> runtime_ok c r" for c
  by unfold_locales (metis charging_cycle_def evaluate_ok prod.collapse)

lemma initial_runtime_ok: "runtime_ok c initial_runtime"
  by (simp add: runtime_ok_def initial_runtime_def current_ok_def state_sets)

subsection \<open>Automatic starts\<close>

text \<open>The automatic starts a cycle records, beyond those it kept.\<close>

definition new_starts :: "charging_config \<Rightarrow> smart_runtime \<Rightarrow> cycle_input \<Rightarrow> time list" where
  "new_starts c r i = drop (length (prune_starts (sr_automatic_starts r) (ci_now i)))
     (sr_automatic_starts (charging_cycle c r i))"

fun start_log :: "charging_config \<Rightarrow> smart_runtime \<Rightarrow> cycle_input list \<Rightarrow> time list" where
  "start_log c r [] = []"
| "start_log c r (i # is) = new_starts c r i @ start_log c (charging_cycle c r i) is"

lemma cycle_starts:
  assumes "evaluate_smart_charging c r i = (r', d)"
  defines "kept \<equiv> prune_starts (sr_automatic_starts r) (ci_now i)"
  obtains (same) "sr_automatic_starts r' = kept"
  | (one_more) "sr_automatic_starts r' = kept @ [ci_now i]"
      "int (length kept) < max_automatic_starts_per_hour c"
  using assms(1)
proof (cases rule: evaluate_path_cases)
  case (stop ok)
  from stop(4) [symmetric] have "sr_automatic_starts r' = kept"
    by (cases rule: handle_stop_path_cases) (simp_all add: frame_simps kept_def)
  then show thesis by (rule same)
next
  case start
  from start(5) [symmetric] show thesis
  proof (cases rule: handle_start_path_cases)
    case declined
    then show thesis using same by (simp add: frame_simps kept_def)
  next
    case (launched since)
    show thesis
    proof (cases "bypasses_guardrails (ci_charging_mode i) (ci_override_active i)")
      case True
      then show thesis using launch_charging_fields(5) [OF launched(2)] same
        by (simp add: frame_simps kept_def)
    next
      case False
      then show thesis
        using launch_charging_fields(5) [OF launched(2)] launched(1) one_more
        by (simp add: frame_simps kept_def start_allowed_def split: if_splits)
    qed
  qed
next
  case modulate
  then have "sr_automatic_starts r' = kept"
    by (auto simp: modulate_current_def Let_def frame_simps kept_def split: if_splits)
  then show thesis by (rule same)
qed (use same in \<open>simp_all add: kept_def\<close>)

definition in_window :: "time \<Rightarrow> time list \<Rightarrow> time list" where
  "in_window t ss = filter (\<lambda>s. t \<le> s \<and> s \<le> t + 3600 * us_per_s) ss"

lemma new_starts_cases:
  obtains "sr_automatic_starts (charging_cycle c r i) = prune_starts (sr_automatic_starts r) (ci_now i)"
      "new_starts c r i = []"
  | "sr_automatic_starts (charging_cycle c r i)
        = prune_starts (sr_automatic_starts r) (ci_now i) @ [ci_now i]"
      "new_starts c r i = [ci_now i]"
      "int (length (prune_starts (sr_automatic_starts r) (ci_now i))) < max_automatic_starts_per_hour c"
  by (cases rule: cycle_starts [of c r i "charging_cycle c r i" "snd (evaluate_smart_charging c r i)"])
    (simp_all add: charging_cycle_def new_starts_def)

lemma prune_starts_later:
  "before \<le> now \<Longrightarrow> prune_starts (prune_starts ss before) now = prune_starts ss now"
  by (auto simp: prune_starts_def intro!: filter_cong)

lemma prune_starts_recent: "prune_starts (ss @ [now]) now = prune_starts ss now @ [now]"
  by (simp add: prune_starts_def us_per_s_def)

lemma in_window_append: "in_window t (ss @ ss') = in_window t ss @ in_window t ss'"
  by (simp add: in_window_def)

text \<open>A window that reaches to \<open>now\<close> holds only starts the pruning keeps.\<close>

lemma in_window_pruned:
  assumes "t \<le> now" "now \<le> t + 3600 * us_per_s"
  shows "length (in_window t ss) \<le> length (prune_starts ss now)"
proof -
  have "in_window t ss = filter (\<lambda>s. s \<le> t + 3600 * us_per_s \<and> t \<le> s) (prune_starts ss now)"
    using assms by (auto simp: in_window_def prune_starts_def intro!: filter_cong)
  then show ?thesis by simp
qed

lemma start_log_window:
  assumes "sorted (before # map ci_now is)"
    and "sr_automatic_starts r = prune_starts L before"
    and "\<And>t. int (length (in_window t L)) \<le> max 0 (max_automatic_starts_per_hour c)"
  shows "int (length (in_window t (L @ start_log c r is))) \<le> max 0 (max_automatic_starts_per_hour c)"
  using assms
proof (induction "is" arbitrary: before r L)
  case (Cons i "is")
  let ?now = "ci_now i" and ?r = "charging_cycle c r i"
  have later: "before \<le> ?now" "sorted (?now # map ci_now is)" using Cons.prems(1) by auto
  have kept: "prune_starts (sr_automatic_starts r) ?now = prune_starts L ?now"
    by (simp add: Cons.prems(2) prune_starts_later later)
  show ?case
  proof (cases rule: new_starts_cases [of c r i])
    case 1
    then show ?thesis
      using Cons.IH [of ?now ?r L] later(2) kept Cons.prems(3) by simp
  next
    case 2
    have "int (length (in_window s (L @ [?now]))) \<le> max 0 (max_automatic_starts_per_hour c)" for s
      using in_window_pruned [of s ?now L] 2(3) Cons.prems(3) [of s] kept
      by (auto simp: in_window_append in_window_def)
    then show ?thesis
      using Cons.IH [of ?now ?r "L @ [?now]"] later(2) 2 kept
      by (simp add: prune_starts_recent)
  qed
qed simp

subsection \<open>The minimum off time\<close>

lemma cooldown_cycle:
  assumes "in_cooldown r (ci_now i)" "\<not> fast_mode i"
    and "evaluate_smart_charging c r i = (r', d)"
  shows "sr_cooldown_until r' = sr_cooldown_until r" "d_action d \<noteq> ''set_current''"
  using assms(3,1,2) by (cases rule: evaluate_path_cases; simp)+

lemma cooldown_run:
  assumes "sr_cooldown_until r = Some t" "\<forall>i \<in> set is. ci_now i < t \<and> \<not> fast_mode i"
  shows "\<forall>(r', d) \<in> set (charging_trace c r is). d_action d \<noteq> ''set_current''"
  using assms
proof (induction "is" arbitrary: r)
  case (Cons i "is")
  obtain r' d where ev: "evaluate_smart_charging c r i = (r', d)" by fastforce
  have cd: "in_cooldown r (ci_now i)" "\<not> fast_mode i"
    using Cons.prems by (simp_all add: in_cooldown_def)
  show ?case
    using Cons.IH [of r'] Cons.prems cooldown_cycle [OF cd ev] by (simp add: ev)
qed simp

subsection \<open>Stopping\<close>

text \<open>A cycle in which nothing but the stop delay stands between the charger and a stop.\<close>

definition stop_wanted :: "charging_config \<Rightarrow> cycle_input \<Rightarrow> bool" where
  "stop_wanted c i \<longleftrightarrow> charger_ready i \<and> \<not> fast_mode i \<and> wanted_current c i \<le> 0"

lemma stop_wanted_cycle:
  assumes "stop_wanted c i" "sr_cooldown_until r = None" "\<not> in_minimum_run_period r c (ci_now i)"
    and ev: "evaluate_smart_charging c r i = (r', d)"
  defines "since \<equiv> case sr_stop_condition_since r of None \<Rightarrow> ci_now i | Some t \<Rightarrow> t"
  obtains (waits) "elapsed_s (ci_now i) since < stop_delay_seconds c"
      "sr_stop_condition_since r' = Some since" "sr_cooldown_until r' = None"
      "sr_last_start_at r' = sr_last_start_at r"
  | (stops) "d_action d = ''stop''" "sr_state r' = STOPPING"
  using ev
proof (cases rule: evaluate_path_cases)
  case (stop ok)
  from stop(4) [symmetric] show thesis
  proof (cases rule: handle_stop_path_cases)
    case reduce
    then show thesis using assms(3) by simp
  next
    case wait
    then show thesis using assms(1) waits by (simp add: stop_wanted_def frame_simps since_def)
  next
    case stop
    then show thesis using stops by simp
  qed
qed (use assms(1,2) in \<open>auto simp: stop_wanted_def in_cooldown_def\<close>)

lemma stop_by_delay:
  assumes "\<forall>i \<in> set is. stop_wanted c i \<and> \<not> in_minimum_run_period r c (ci_now i)"
    and "sr_cooldown_until r = None" "sr_stop_condition_since r = Some since"
    and "is \<noteq> []" "stop_delay_seconds c \<le> elapsed_s (ci_now (last is)) since"
  shows "\<exists>(r', d) \<in> set (charging_trace c r is). d_action d = ''stop'' \<and> sr_state r' = STOPPING"
  using assms
proof (induction "is" arbitrary: r)
  case (Cons i "is")
  obtain r' d where ev: "evaluate_smart_charging c r i = (r', d)" by fastforce
  have i: "stop_wanted c i" "\<not> in_minimum_run_period r c (ci_now i)" using Cons.prems by auto
  from i(1) Cons.prems(2) i(2) ev show ?case
  proof (cases rule: stop_wanted_cycle)
    case waits
    then have "is \<noteq> []" using Cons.prems(3,5) by auto
    moreover have "\<forall>j \<in> set is. \<not> in_minimum_run_period r' c (ci_now j)"
      using Cons.prems(1) waits(4) by (simp add: in_minimum_run_period_def)
    ultimately show ?thesis
      using Cons.IH [of r'] Cons.prems waits by (simp add: ev)
  next
    case stops
    then show ?thesis by (simp add: ev)
  qed
qed simp

lemma stop_after_delay:
  assumes "stop_wanted c i" "\<forall>j \<in> set is. stop_wanted c j"
    and "\<forall>j \<in> set (i # is). \<not> in_minimum_run_period r c (ci_now j)"
    and "sr_cooldown_until r = None"
    and "case sr_stop_condition_since r of None \<Rightarrow> True | Some t \<Rightarrow> t \<le> ci_now i"
    and "stop_delay_seconds c \<le> elapsed_s (ci_now (last (i # is))) (ci_now i)"
  shows "\<exists>(r', d) \<in> set (charging_trace c r (i # is)). d_action d = ''stop'' \<and> sr_state r' = STOPPING"
proof -
  obtain r' d where ev: "evaluate_smart_charging c r i = (r', d)" by fastforce
  have run: "\<not> in_minimum_run_period r c (ci_now i)" using assms(3) by simp
  from assms(1) assms(4) run ev show ?thesis
  proof (cases rule: stop_wanted_cycle)
    case waits
    let ?since = "case sr_stop_condition_since r of None \<Rightarrow> ci_now i | Some t \<Rightarrow> t"
    have since: "elapsed_s t (ci_now i) \<le> elapsed_s t ?since" for t
      using assms(5) by (auto intro!: elapsed_s_antimono split: option.splits)
    have "is \<noteq> []"
      using waits(1) assms(6) since [of "ci_now i"] by auto
    moreover have "\<forall>j \<in> set is. stop_wanted c j \<and> \<not> in_minimum_run_period r' c (ci_now j)"
      using assms(2,3) waits(4) by (simp add: in_minimum_run_period_def)
    moreover have "stop_delay_seconds c \<le> elapsed_s (ci_now (last is)) ?since"
      using assms(6) since [of "ci_now (last is)"] \<open>is \<noteq> []\<close> by simp
    ultimately show ?thesis
      using stop_by_delay [of "is" c r' ?since] waits(2,3) by (auto simp: ev)
  next
    case stops
    then show ?thesis by (simp add: ev)
  qed
qed

subsection \<open>The ramp\<close>

lemma modulate_requested:
  "sr_requested_current_a (fst (modulate_current r c pm desired reason chg now)) =
     (let next = apply_ramp (sr_requested_current_a r) desired c (is_urgent_reason reason) in
      if \<bar>next - sr_requested_current_a r\<bar> < 1/100 then sr_requested_current_a r else next)"
  by (simp add: modulate_current_def Let_def)

lemma cycle_ramp:
  assumes c: "config_ok c" and r: "runtime_ok c r" "0 < sr_requested_current_a r"
    and ev: "evaluate_smart_charging c r i = (r', d)" and set: "d_action d = ''set_current''"
  shows "sr_requested_current_a r' \<le> sr_requested_current_a r
           + max_current_increase_per_step_a c * (if is_urgent_reason (ci_optimizer_reason i) then 2 else 1)
         \<and> sr_requested_current_a r - max_current_decrease_per_step_a c \<le> sr_requested_current_a r'"
  using ev
proof (cases rule: evaluate_path_cases)
  case (stop ok)
  from stop(4) [symmetric] show ?thesis
  proof (cases rule: handle_stop_path_cases)
    case reduce
    have "min_current_a c \<le> sr_requested_current_a r"
      using r c by (auto simp: runtime_ok_def current_ok_def)
    then have "sr_requested_current_a r' \<le> sr_requested_current_a r"
      using reduce(5) apply_ramp_between(2) [OF c, of "sr_requested_current_a r" "min_current_a c" False]
      by (simp add: frame_simps)
    moreover have "0 \<le> max_current_increase_per_step_a c" using c by (simp add: config_ok_def)
    moreover have "sr_requested_current_a r - max_current_decrease_per_step_a c
        \<le> sr_requested_current_a r'"
      using reduce(5) apply_ramp_steps(2) [OF c] by (simp add: frame_simps)
    ultimately show ?thesis by auto
  qed (use set in simp_all)
next
  case start
  then show ?thesis using r by (auto simp: runtime_ok_def)
next
  case modulate
  let ?q = "sr_requested_current_a r" and ?u = "is_urgent_reason (ci_optimizer_reason i)"
  have "sr_requested_current_a r' \<in> {?q, apply_ramp ?q (wanted_current c i) c ?u}"
    using arg_cong [OF modulate(6), of "\<lambda>x. sr_requested_current_a (fst x)"]
    by (simp add: modulate_requested frame_simps Let_def split: if_splits)
  then show ?thesis
    using apply_ramp_steps [OF c, of ?q "wanted_current c i" ?u] c by (auto simp: config_ok_def)
qed (use set in simp_all)

subsection \<open>A concrete site\<close>

text \<open>A cycle at second \<open>s\<close> wanting \<open>target\<close> ampere in the given mode, for the examples.\<close>

definition example_signals :: energy_signals where
  "example_signals = \<lparr> grid_import_w = 0, grid_export_w = 0, pv_power_w = 0, home_consumption_w = 0,
     battery_charge_power_w = 0, battery_discharge_power_w = 0 \<rparr>"

definition example_input :: "string \<Rightarrow> rat \<Rightarrow> string \<Rightarrow> bool \<Rightarrow> int \<Rightarrow> cycle_input" where
  "example_input mode target reason charging s = \<lparr> ci_charging_mode = Some mode,
     ci_optimizer_target_a = target, ci_optimizer_reason = reason,
     ci_slow_signals = example_signals, ci_vehicle_connected = True, ci_halo_connected = True,
     ci_is_charging = charging, ci_fault_code = None, ci_now = s * us_per_s,
     ci_override_active = False \<rparr>"

definition charging_runtime :: "rat \<Rightarrow> smart_runtime" where
  "charging_runtime a = initial_runtime\<lparr> sr_state := CHARGING_STABLE,
     sr_requested_current_a := a, sr_target_current_a := a, sr_last_start_at := Some 0 \<rparr>"

lemmas example_defs = example_input_def example_signals_def charging_runtime_def initial_runtime_def
  default_config_def

lemma example_mode [simp]:
  "normalized_mode (Some ''SMART'') = ''SMART''" "normalized_mode (Some ''QUICK'') = ''QUICK''"
  by code_simp+

lemma example_ready:
  "charger_ready (example_input ''SMART'' a w ch s)" "\<not> fast_mode (example_input ''SMART'' a w ch s)"
  "ci_now (example_input m a w ch s) = s * us_per_s"
  by (simp_all add: charger_ready_def fast_mode_def example_input_def truthy_str_def
      respects_manual_pause_def immediate_start_def QUICK_MODES_def)

lemma example_stop_wanted: "stop_wanted default_config (example_input ''SMART'' 0 w ch s)"
  using example_ready(1,2) [of 0 w ch s]
  by (simp add: stop_wanted_def) (simp add: example_input_def clamp_target_def)

lemma charging_runtime_ok: "6 \<le> a \<Longrightarrow> a \<le> 16 \<Longrightarrow> runtime_ok default_config (charging_runtime a)"
  by (simp add: runtime_ok_def current_ok_def state_sets example_defs)

lemmas cycle_eval = evaluate_smart_charging_def handle_stop_path_def handle_start_path_def
  modulate_current_def launch_charging_def temporary_import_allowed_def in_minimum_run_period_def
  start_allowed_def apply_ramp_def clamp_target_def prune_starts_def is_urgent_reason_def
  URGENT_OPTIMIZER_REASONS_def immediate_start_def bypasses_guardrails_def uses_start_delay_def
  respects_manual_pause_def decision_policy_mode_def truthy_str_def elapsed_s_def us_per_s_def
  QUICK_MODES_def SMART_MODES_def SOLAR_MODES_def PRICE_MODES_def Let_def decision_defs

subsection \<open>Properties\<close>



text \<open>C2. The hourly cap on automatic starts holds for every window, not only at the moment
  of a start: in a run with a monotone clock from a runtime without recorded starts, no
  interval of 3600 seconds contains more automatic starts than the configuration allows.\<close>

theorem automatic_starts_per_hour:
  assumes "sr_automatic_starts r = []" "sorted (map ci_now is)"
  shows "int (length (in_window t (start_log c r is))) \<le> max 0 (max_automatic_starts_per_hour c)"
proof (cases "is")
  case Nil
  then show ?thesis by (simp add: in_window_def)
next
  case (Cons i js)
  then show ?thesis
    using start_log_window [of "ci_now i" "is" r "[]" c t] assms
    by (simp add: prune_starts_def in_window_def)
qed

theorem automatic_starts_per_hour_witness:
  "int (length (in_window 0 (start_log default_config initial_runtime
      [example_input ''SMART'' 16 ''deadline_risk'' False 1000,
       example_input ''SMART'' 16 ''deadline_risk'' False 1010]))) \<le> 4"
  using automatic_starts_per_hour [of initial_runtime
      "[example_input ''SMART'' 16 ''deadline_risk'' False 1000,
        example_input ''SMART'' 16 ''deadline_risk'' False 1010]" 0 default_config]
  by (simp add: example_defs us_per_s_def)

text \<open>C3. Minimum off time: after a cycle outside the immediate modes that stops a ready charger (no
  fault, connected, not paused by the user, with a vehicle), no cycle before the end of the
  configured off time, in a run of any length outside the immediate modes under the same
  configuration, decides to set a current. A stop by a fault or by the user starts no cooldown.\<close>

theorem minimum_off_time_respected:
  assumes "charger_ready i" "\<not> fast_mode i"
    and "evaluate_smart_charging c r i = (r', d)" "d_action d = ''stop''"
    and "\<forall>j \<in> set js. ci_now j < ci_now i + timedelta_s (minimum_off_time_seconds c) \<and> \<not> fast_mode j"
    and "(r'', d'') \<in> set (charging_trace c r' js)"
  shows "d_action d'' \<noteq> ''set_current''"
proof -
  have "sr_cooldown_until r' = Some (ci_now i + timedelta_s (minimum_off_time_seconds c))"
    using assms(3)
  proof (cases rule: evaluate_path_cases)
    case (stop ok)
    from stop(4) [symmetric] show ?thesis
      by (cases rule: handle_stop_path_cases) (use assms(2,4) in simp_all)
  next
    case start
    from start(5) [symmetric] show ?thesis
      by (cases rule: handle_start_path_cases)
        (use assms(4) launch_charging_fields(8) in \<open>force simp: set_decision_def\<close>)+
  qed (use assms(1,4) in \<open>auto simp: modulate_current_def decision_defs Let_def split: if_splits\<close>)
  then show ?thesis using cooldown_run [of r' _ js c] assms(5,6) by blast
qed

theorem minimum_off_time_respected_witness:
  "case evaluate_smart_charging default_config (charging_runtime 10)
      (example_input ''SMART'' 0 ''no_signal'' False 10000) of
    (r', d) \<Rightarrow> d_action d = ''stop'' \<and>
      (\<forall>(r'', d'') \<in> set (charging_trace default_config r'
          [example_input ''SMART'' 16 ''deadline_risk'' False 10200]).
        d_action d'' \<noteq> ''set_current'')"
proof -
  let ?i = "example_input ''SMART'' 0 ''no_signal'' False 10000"
  let ?j = "example_input ''SMART'' 16 ''deadline_risk'' False 10200"
  obtain r' d where ev: "evaluate_smart_charging default_config (charging_runtime 10) ?i = (r', d)"
    by fastforce
  have d: "d_action d = ''stop''"
    using arg_cong [OF ev, of "\<lambda>x. d_action (snd x)"]
    by (simp add: cycle_eval example_defs)
  have "timedelta_s (minimum_off_time_seconds default_config) = 300 * us_per_s"
    by (simp add: timedelta_s_def default_config_def us_per_s_def round_half_even_def)
  then have "d_action d'' \<noteq> ''set_current''"
    if "(r'', d'') \<in> set (charging_trace default_config r' [?j])" for r'' d''
    using minimum_off_time_respected [OF example_ready(1,2) ev d, of "[?j]" r'' d''] that
    by (simp add: example_ready us_per_s_def)
  with ev d show ?thesis by auto
qed

text \<open>C4. Stopping is live: when in every cycle of a run the optimizer wants no current and nothing but
  the stop delay stands in the way (charger ready, no immediate mode, minimum run period over at
  every cycle, no cooldown set and no stop condition recorded later than the first cycle), a run
  whose last cycle is at least the stop delay after its first issues a stop and enters STOPPING.\<close>

theorem stop_is_issued:
  assumes "stop_wanted c i" "\<forall>j \<in> set is. stop_wanted c j"
    and "\<forall>j \<in> set (i # is). \<not> in_minimum_run_period r c (ci_now j)"
    and "sr_cooldown_until r = None"
    and "case sr_stop_condition_since r of None \<Rightarrow> True | Some t \<Rightarrow> t \<le> ci_now i"
    and "stop_delay_seconds c \<le> elapsed_s (ci_now (last (i # is))) (ci_now i)"
  shows "\<exists>(r', d) \<in> set (charging_trace c r (i # is)). d_action d = ''stop'' \<and> sr_state r' = STOPPING"
  using assms by (rule stop_after_delay)

theorem stop_is_issued_witness:
  "\<exists>(r', d) \<in> set (charging_trace default_config (charging_runtime 10)
      [example_input ''SMART'' 0 ''no_signal'' True 1000,
       example_input ''SMART'' 0 ''no_signal'' True 1300]).
     d_action d = ''stop'' \<and> sr_state r' = STOPPING"
  by (rule stop_is_issued)
    (simp_all add: example_stop_wanted example_ready in_minimum_run_period_def,
      simp_all add: example_defs elapsed_s_def us_per_s_def)

text \<open>A charging car's current moves by at most one step per command: a \<open>set_current\<close>
  decision raises the request by at most the increase step (twice it when a deadline is at
  risk) and lowers it by at most the decrease step.\<close>

theorem current_changes_by_steps:
  assumes "config_ok c" "runtime_ok c r" "0 < sr_requested_current_a r"
    and "evaluate_smart_charging c r i = (r', d)" "d_action d = ''set_current''"
  shows "sr_requested_current_a r' \<le> sr_requested_current_a r
           + max_current_increase_per_step_a c * (if is_urgent_reason (ci_optimizer_reason i) then 2 else 1)
         \<and> sr_requested_current_a r - max_current_decrease_per_step_a c \<le> sr_requested_current_a r'"
  using assms by (rule cycle_ramp)

theorem current_changes_by_steps_witness:
  "case evaluate_smart_charging default_config (charging_runtime 10)
      (example_input ''SMART'' 16 ''cheap_now'' True 1000) of
    (r', d) \<Rightarrow> d_action d = ''set_current'' \<and> sr_requested_current_a r' \<le> 10 + 1 * 1
      \<and> 10 - 2 \<le> sr_requested_current_a r'"
proof -
  let ?i = "example_input ''SMART'' 16 ''cheap_now'' True 1000"
  obtain r' d where ev: "evaluate_smart_charging default_config (charging_runtime 10) ?i = (r', d)"
    by fastforce
  have d: "d_action d = ''set_current''"
    using arg_cong [OF ev, of "\<lambda>x. d_action (snd x)"] by (simp add: cycle_eval example_defs)
  have "\<not> is_urgent_reason (ci_optimizer_reason ?i)"
    by (simp add: example_input_def is_urgent_reason_def URGENT_OPTIMIZER_REASONS_def)
  then show ?thesis
    using current_changes_by_steps [OF default_config_ok charging_runtime_ok _ ev d] ev d
    by (simp add: charging_runtime_def default_config_def)
qed

end
