(* ===== verification/Charging_Command.thy ===== *)
theory Charging_Command
  imports Charging_Runs
begin

section \<open>From decisions to charger commands\<close>

text \<open>
  \<open>charging/anti_flapping.py\<close>, \<open>charging/command_controller.py\<close> and the capability
  test of \<open>contracts/capabilities.py\<close>. The charger's API is not part of the program: what
  each call of an adapter answers in a cycle is the record \<open>adapter\<close>, and the commands the
  controller sends it, failed ones included, are a list.
\<close>

subsection \<open>Capabilities\<close>

text \<open>The fields of \<open>ChargerCapabilities\<close> (\<open>chargers/framework/models.py\<close>).\<close>

record charger_capabilities =
  cap_min_current_a :: rat
  cap_max_current_a :: rat
  cap_phases :: "int option"
  cap_flags :: "(string \<times> bool) list"

datatype device_capability =
    READ_STATUS | START | STOP | READ_POWER | READ_ENERGY | READ_SESSION | READ_ACTUAL_CURRENT
  | SET_CURRENT | READ_PER_PHASE_CURRENT | READ_METER_VALUES | READ_LOAD_BALANCER_STATE
  | SET_CHARGING_PROFILE | DYNAMIC_CURRENT | DYNAMIC_PHASE_SWITCHING | LOCAL_CONTROL
  | CLOUD_CONTROL | OCPP | MODBUS | SMART_CHARGING

fun capability_fields :: "device_capability \<Rightarrow> string list" where
  "capability_fields READ_STATUS = [''can_read_status'']"
| "capability_fields START = [''can_start_charging'', ''supports_remote_start_stop'']"
| "capability_fields STOP = [''can_stop_charging'', ''supports_remote_start_stop'']"
| "capability_fields READ_POWER = [''can_read_power'', ''supports_power_reading'']"
| "capability_fields READ_ENERGY = [''can_read_energy'']"
| "capability_fields READ_SESSION = [''can_read_session'']"
| "capability_fields READ_ACTUAL_CURRENT = [''can_read_actual_current'']"
| "capability_fields SET_CURRENT = [''can_set_max_current'', ''supports_current_control'']"
| "capability_fields READ_PER_PHASE_CURRENT = [''can_read_per_phase_current'']"
| "capability_fields READ_METER_VALUES = [''can_read_meter_values'']"
| "capability_fields READ_LOAD_BALANCER_STATE = [''can_read_load_balancer_state'']"
| "capability_fields SET_CHARGING_PROFILE = [''can_set_charging_profile'']"
| "capability_fields DYNAMIC_CURRENT = [''supports_dynamic_current'']"
| "capability_fields DYNAMIC_PHASE_SWITCHING =
     [''supports_dynamic_phase_switching'', ''supports_dynamic_phases'']"
| "capability_fields LOCAL_CONTROL = [''supports_local_control'']"
| "capability_fields CLOUD_CONTROL = [''supports_cloud_control'']"
| "capability_fields OCPP = [''supports_ocpp'']"
| "capability_fields MODBUS = [''supports_modbus'']"
| "capability_fields SMART_CHARGING = [''supports_smart_charging'']"

text \<open>\<open>getattr(caps, field, False)\<close>: the boolean fields are held by name.\<close>

definition supports :: "charger_capabilities \<Rightarrow> device_capability \<Rightarrow> bool" where
  "supports caps cap \<longleftrightarrow>
     list_ex (\<lambda>f. or_else (map_of (cap_flags caps) f) False) (capability_fields cap)"

subsection \<open>Anti-flapping\<close>

record anti_config =
  ac_min_change_interval_seconds :: seconds
  ac_current_hysteresis_a :: rat

definition default_anti_config :: anti_config where
  "default_anti_config = \<lparr> ac_min_change_interval_seconds = 60, ac_current_hysteresis_a = 1 \<rparr>"

record anti_state =
  af_last_applied_current_a :: "rat option"
  af_last_change_at :: "time option"
  af_last_command_current_a :: "rat option"

definition initial_anti_state :: anti_state where
  "initial_anti_state = \<lparr> af_last_applied_current_a = None, af_last_change_at = None,
     af_last_command_current_a = None \<rparr>"

definition near :: "rat option \<Rightarrow> rat \<Rightarrow> bool" where
  "near x y \<longleftrightarrow> (case x of None \<Rightarrow> False | Some v \<Rightarrow> \<bar>v - y\<bar> < 1/100)"

definition should_apply_current ::
  "rat \<Rightarrow> anti_state \<Rightarrow> anti_config \<Rightarrow> time \<Rightarrow> bool \<times> rat \<times> string" where
  "should_apply_current requested s cfg now =
     (let requested = max 0 requested in
      if near (af_last_command_current_a s) requested
      then (False, or_else (af_last_applied_current_a s) 0, ''duplicate_command'')
      else if (case af_last_applied_current_a s of None \<Rightarrow> False
               | Some a \<Rightarrow> \<bar>requested - a\<bar> < ac_current_hysteresis_a cfg)
      then (False, or_else (af_last_applied_current_a s) 0, ''hysteresis'')
      else if (case af_last_change_at s of None \<Rightarrow> False
               | Some t \<Rightarrow> elapsed_s now t < ac_min_change_interval_seconds cfg)
      then (False, or_else (af_last_applied_current_a s) 0, ''min_interval'')
      else (True, requested, ''apply''))"

definition record_applied :: "anti_state \<Rightarrow> rat \<Rightarrow> time \<Rightarrow> anti_state" where
  "record_applied s current now = s\<lparr> af_last_applied_current_a := Some current,
     af_last_command_current_a := Some current, af_last_change_at := Some now \<rparr>"

subsection \<open>The adapter and the controller\<close>

record charger_status =
  cs_connected :: bool
  cs_vehicle_connected :: bool
  cs_current_limit_a :: "rat option"
  cs_charging :: bool

text \<open>What a call raises: a \<open>ChargerApiError\<close> with its code, or any other exception.\<close>

datatype adapter_error = ApiError string | OtherError string

datatype charger_command = SetCurrent rat | StartCharging | StopCharging

record adapter =
  ad_capabilities :: "adapter_error + charger_capabilities"
  ad_status :: "adapter_error + charger_status"
  ad_set_current :: "adapter_error option"
  ad_start_charging :: "adapter_error option"
  ad_stop_charging :: "adapter_error option"

record apply_result =
  ar_applied :: bool
  ar_applied_current_a :: rat
  ar_reason :: string
  ar_charger_status :: "charger_status option"
  ar_error_code :: "string option"

type_synonym apply_outcome =
  "(adapter_error + apply_result) \<times> anti_state \<times> charger_command list"

text \<open>\<open>last_command or last_applied or 0.0\<close>: 0 is falsy, as \<open>None\<close> is.\<close>

definition last_known_current :: "anti_state \<Rightarrow> rat" where
  "last_known_current s =
     (let c = or_else (af_last_command_current_a s) 0 in
      if c \<noteq> 0 then c else or_else (af_last_applied_current_a s) 0)"

definition skipped :: "rat \<Rightarrow> string \<Rightarrow> charger_status \<Rightarrow> string option \<Rightarrow> apply_result" where
  "skipped current reason status code = \<lparr> ar_applied = False, ar_applied_current_a = current,
     ar_reason = reason, ar_charger_status = Some status, ar_error_code = code \<rparr>"

definition sent :: "rat \<Rightarrow> string \<Rightarrow> charger_status \<Rightarrow> apply_result" where
  "sent current reason status = \<lparr> ar_applied = True, ar_applied_current_a = current,
     ar_reason = reason, ar_charger_status = Some status, ar_error_code = None \<rparr>"

text \<open>\<open>except ChargerApiError\<close>; other exceptions propagate.\<close>

definition handle_error :: "anti_state \<Rightarrow> adapter_error \<Rightarrow> adapter_error + apply_result" where
  "handle_error s e = (case e of
     ApiError code \<Rightarrow> Inr \<lparr> ar_applied = False, ar_applied_current_a = last_known_current s,
       ar_reason = py_lower code, ar_charger_status = None, ar_error_code = Some code \<rparr>
   | OtherError m \<Rightarrow> Inl (OtherError m))"

definition send_stop ::
  "adapter \<Rightarrow> anti_state \<Rightarrow> time \<Rightarrow> string \<Rightarrow> charger_status \<Rightarrow> apply_outcome" where
  "send_stop ad s now reason status =
     (case ad_stop_charging ad of
        Some e \<Rightarrow> (handle_error s e, s, [StopCharging])
      | None \<Rightarrow> (Inr (sent 0 reason status), record_applied s 0 now, [StopCharging]))"

definition send_current ::
  "adapter \<Rightarrow> charger_capabilities option \<Rightarrow> anti_state \<Rightarrow> time \<Rightarrow> string \<Rightarrow> charger_status \<Rightarrow> rat
   \<Rightarrow> apply_outcome" where
  "send_current ad caps s now reason status amps =
     (case ad_set_current ad of
        Some e \<Rightarrow> (handle_error s e, s, [SetCurrent amps])
      | None \<Rightarrow>
          if cs_charging status
          then (Inr (sent amps reason status), record_applied s amps now, [SetCurrent amps])
          else if (case caps of None \<Rightarrow> False | Some c \<Rightarrow> \<not> supports c START)
          then (Inr (skipped amps ''capability_start_unsupported'' status
                       (Some ''CAPABILITY_START_UNSUPPORTED'')),
                record_applied s amps now, [SetCurrent amps])
          else (case ad_start_charging ad of
             Some e \<Rightarrow> (handle_error s e, s, [SetCurrent amps, StartCharging])
           | None \<Rightarrow> (Inr (sent amps reason status), record_applied s amps now,
                      [SetCurrent amps, StartCharging])))"

text \<open>The body of \<open>apply\<close> once the status is known.\<close>

definition apply_with_status ::
  "adapter \<Rightarrow> anti_config \<Rightarrow> charger_capabilities option \<Rightarrow> charger_status \<Rightarrow> rat \<Rightarrow> string \<Rightarrow> time
   \<Rightarrow> anti_state \<Rightarrow> apply_outcome" where
  "apply_with_status ad cfg caps status requested reason now s =
     (let skip = (\<lambda>r code. (Inr (skipped (last_known_current s) r status code), s, []));
          actual_limit = cs_current_limit_a status;
          previous_command = af_last_command_current_a s in
      if (case caps of None \<Rightarrow> False | Some c \<Rightarrow> requested \<le> 0 \<and> \<not> supports c STOP)
      then skip ''capability_stop_unsupported'' (Some ''CAPABILITY_STOP_UNSUPPORTED'')
      else if (case caps of None \<Rightarrow> False | Some c \<Rightarrow> requested > 0 \<and> \<not> supports c SET_CURRENT)
      then skip ''capability_set_current_unsupported''
             (Some ''CAPABILITY_SET_CURRENT_UNSUPPORTED'')
      else if \<not> cs_connected status then skip ''charger_offline'' (Some ''CHARGER_OFFLINE'')
      else if \<not> cs_vehicle_connected status \<and> requested > 0 then skip ''no_vehicle_connected'' None
      else if requested \<le> 0 \<and> (case actual_limit of None \<Rightarrow> False | Some l \<Rightarrow> l \<le> 0)
              \<and> \<not> cs_charging status
      then (Inr (skipped 0 ''already_stopped'' status None), record_applied s 0 now, [])
      else if requested \<le> 0 \<and> (case previous_command of None \<Rightarrow> False | Some p \<Rightarrow> p \<le> 0)
              \<and> cs_charging status
      then send_stop ad s now reason status
      else if requested > 0 \<and> near previous_command requested \<and> cs_charging status
      then (Inr (skipped (or_else previous_command 0) ''already_requested'' status None), s, [])
      else
        let (apply_ok, next_current, anti_reason) = should_apply_current requested s cfg now;
            previous_current = af_last_applied_current_a s;
            charger_matches_previous =
              (case (previous_current, actual_limit) of
                 (Some p, Some l) \<Rightarrow> \<bar>l - p\<bar> < 1/100 \<and> cs_charging status = (p > 0)
               | _ \<Rightarrow> False) in
        if \<not> apply_ok \<and> charger_matches_previous
        then (Inr (skipped (or_else previous_current 0) anti_reason status None), s, [])
        else
          let next_current = (if apply_ok then next_current else requested) in
          if requested \<le> 0 then send_stop ad s now reason status
          else send_current ad caps s now reason status next_current)"

text \<open>\<open>ChargingCommandController.apply\<close>.\<close>

definition apply_decision ::
  "adapter \<Rightarrow> anti_config \<Rightarrow> charging_decision \<Rightarrow> time \<Rightarrow> anti_state \<Rightarrow> apply_outcome" where
  "apply_decision ad cfg d now s =
     (if d_action d \<in> {''none'', ''pause''} \<or> d_skip_apply d then
        let current = (case af_last_command_current_a s of Some c \<Rightarrow> c
                       | None \<Rightarrow> or_else (af_last_applied_current_a s) 0);
            result = (\<lambda>st. Inr \<lparr> ar_applied = False, ar_applied_current_a = current,
                        ar_reason = d_reason d, ar_charger_status = st, ar_error_code = None \<rparr>) in
        (case ad_status ad of
           Inr st \<Rightarrow> (result (Some st), s, [])
         | Inl (ApiError _) \<Rightarrow> (result None, s, [])
         | Inl (OtherError m) \<Rightarrow> (Inl (OtherError m), s, []))
      else
        let requested = max 0 (d_requested_current_a d);
            caps = (case ad_capabilities ad of Inl _ \<Rightarrow> None | Inr c \<Rightarrow> Some c) in
        (case ad_status ad of
           Inl e \<Rightarrow> (handle_error s e, s, [])
         | Inr status \<Rightarrow>
             apply_with_status ad cfg caps status requested (d_reason d) now s))"

subsection \<open>What the controller sends\<close>

lemma should_apply_current_requested:
  "0 \<le> requested \<Longrightarrow> should_apply_current requested s cfg now = (ok, next_current, why) \<Longrightarrow>
     ok \<Longrightarrow> next_current = requested"
  by (auto simp: should_apply_current_def Let_def split: if_splits)

text \<open>
  The outcomes of \<open>apply\<close>: nothing is sent; a stop is sent; or the requested current is set,
  with a start when the charger is idle. The anti-flapping state changes exactly when every
  command sent was accepted, and then it records the requested current.
\<close>

inductive apply_outcome_ok :: "rat \<Rightarrow> time \<Rightarrow> anti_state \<Rightarrow> apply_outcome \<Rightarrow> bool"
  for requested :: rat and now :: time and s :: anti_state where
  quiet: "apply_outcome_ok requested now s (res, s, [])"
| already_stopped: "requested = 0 \<Longrightarrow>
    apply_outcome_ok requested now s (Inr (skipped 0 ''already_stopped'' st None), record_applied s 0 now, [])"
| stopped: "requested = 0 \<Longrightarrow>
    apply_outcome_ok requested now s (Inr (sent 0 why st), record_applied s 0 now, [StopCharging])"
| stop_failed: "requested = 0 \<Longrightarrow>
    apply_outcome_ok requested now s (handle_error s e, s, [StopCharging])"
| set_failed: "0 < requested \<Longrightarrow>
    apply_outcome_ok requested now s (handle_error s e, s, [SetCurrent requested])"
| started_failed: "0 < requested \<Longrightarrow>
    apply_outcome_ok requested now s (handle_error s e, s, [SetCurrent requested, StartCharging])"
| set_only: "0 < requested \<Longrightarrow> cmds \<in> {[SetCurrent requested], [SetCurrent requested, StartCharging]} \<Longrightarrow>
    apply_outcome_ok requested now s (Inr (sent requested why st), record_applied s requested now, cmds)"
| cannot_start: "0 < requested \<Longrightarrow>
    apply_outcome_ok requested now s
      (Inr (skipped requested ''capability_start_unsupported'' st (Some ''CAPABILITY_START_UNSUPPORTED'')),
       record_applied s requested now, [SetCurrent requested])"

inductive_cases apply_outcome_okE [elim!]: "apply_outcome_ok requested now s (res, s', cmds)"

lemma send_stop_ok: "apply_outcome_ok 0 now s (send_stop ad s now why st)"
  by (auto simp: send_stop_def intro: apply_outcome_ok.intros split: option.splits)

lemma send_current_ok:
  "0 < requested \<Longrightarrow> apply_outcome_ok requested now s (send_current ad caps s now why st requested)"
  by (auto simp: send_current_def intro: apply_outcome_ok.intros split: option.splits)

lemma apply_with_status_ok:
  assumes "0 \<le> requested"
  shows "apply_outcome_ok requested now s (apply_with_status ad cfg caps st requested why now s)"
proof -
  obtain ok nxt r where sa: "should_apply_current requested s cfg now = (ok, nxt, r)"
    by (metis prod_cases3)
  have nxt: "(if ok then nxt else requested) = requested"
    using should_apply_current_requested [OF assms sa] by simp
  show ?thesis
    using assms send_stop_ok [of now s ad why st] send_current_ok [of requested now s ad caps why st]
    unfolding apply_with_status_def Let_def sa prod.case nxt
    by (cases "requested = 0") (simp_all add: apply_outcome_ok.quiet apply_outcome_ok.already_stopped)
qed

text \<open>The current a decision asks the charger for; 0 asks for a stop.\<close>

abbreviation asked :: "charging_decision \<Rightarrow> rat" where
  "asked d \<equiv> max 0 (d_requested_current_a d)"

lemma apply_decision_ok:
  "apply_outcome_ok (asked d) now s (apply_decision ad cfg d now s)"
  using apply_with_status_ok [of "asked d"]
  by (auto simp: apply_decision_def Let_def intro: apply_outcome_ok.quiet
      split: sum.splits adapter_error.splits)

lemma none_decision_quiet:
  "d_action d = ''none'' \<Longrightarrow> \<exists>res. apply_decision ad cfg d now s = (res, s, [])"
  by (auto simp: apply_decision_def Let_def split: sum.splits adapter_error.splits)

subsection \<open>Anti-flapping in sync\<close>

text \<open>The charger shows what the controller last applied.\<close>

definition in_sync :: "anti_state \<Rightarrow> charger_status \<Rightarrow> bool" where
  "in_sync s st \<longleftrightarrow> (case (af_last_applied_current_a s, cs_current_limit_a st) of
     (Some p, Some l) \<Rightarrow> \<bar>l - p\<bar> < 1/100 \<and> cs_charging st = (p > 0) | _ \<Rightarrow> False)
   \<and> af_last_command_current_a s = af_last_applied_current_a s"

text \<open>The decision asks for too small a change, or too soon after the last one.\<close>

definition flapping :: "anti_config \<Rightarrow> anti_state \<Rightarrow> rat \<Rightarrow> time \<Rightarrow> bool" where
  "flapping cfg s requested now \<longleftrightarrow>
     (case af_last_applied_current_a s of None \<Rightarrow> False
      | Some a \<Rightarrow> \<bar>requested - a\<bar> < ac_current_hysteresis_a cfg)
   \<or> (case af_last_change_at s of None \<Rightarrow> False
      | Some t \<Rightarrow> elapsed_s now t < ac_min_change_interval_seconds cfg)"

lemma flapping_quiet_status:
  assumes "0 \<le> requested" "in_sync s st" "flapping cfg s requested now"
  shows "snd (snd (apply_with_status ad cfg caps st requested why now s)) = []"
proof -
  obtain p l where p: "af_last_applied_current_a s = Some p" "af_last_command_current_a s = Some p"
      "cs_current_limit_a st = Some l" "\<bar>l - p\<bar> < 1/100" "cs_charging st = (p > 0)"
    using assms(2) by (auto simp: in_sync_def split: option.splits)
  have "fst (should_apply_current requested s cfg now) = False"
    using assms(1,3) by (auto simp: should_apply_current_def flapping_def Let_def split: option.splits)
  then obtain nxt r where sa: "should_apply_current requested s cfg now = (False, nxt, r)"
    by (metis prod.collapse)
  have no_stop: "\<not> (p \<le> 0 \<and> cs_charging st)" using p(5) by simp
  show ?thesis
    using no_stop p(5)
    unfolding apply_with_status_def Let_def sa prod.case p(1-3) option.case p(4) [THEN eqTrueI]
    by (cases "0 < p") simp_all
qed

lemma flapping_quiet:
  assumes "ad_status ad = Inr st" "in_sync s st" "flapping cfg s (asked d) now"
  shows "snd (snd (apply_decision ad cfg d now s)) = []"
  using flapping_quiet_status [OF _ assms(2,3)] assms(1)
  by (simp add: apply_decision_def Let_def)

end
