(* ===== verification/Charging_Engine.thy ===== *)
theory Charging_Engine
  imports Charger_Meter Charging_Command
begin

section \<open>The control part of an engine cycle\<close>

text \<open>
  \<open>charging/engine.py\<close>, the part of \<open>_run_charger_cycle\<close> from reading the charger to the
  update of the charger's row, with \<open>_clamp_config_to_capabilities\<close> and
  \<open>charging/external_limitation.py\<close>. What the adapter and the meter answer is the cycle's
  input; the commands sent to the charger are its output. Reading the energy state from a
  provider, price enrichment and the persisted history row are database and network I/O
  and are not modelled.
\<close>

subsection \<open>External limitation\<close>

definition EXTERNAL_LIMIT_TOLERANCE_A :: rat where
  "EXTERNAL_LIMIT_TOLERANCE_A = 1"

definition EXTERNAL_LIMIT_STABLE_SECONDS :: seconds where
  "EXTERNAL_LIMIT_STABLE_SECONDS = 45"

text \<open>\<open>ExternalLimitationTracker.update\<close>: the tracker's only field is \<open>limited_since\<close>.\<close>

definition update_limitation ::
  "time option \<Rightarrow> rat \<Rightarrow> rat option \<Rightarrow> rat option \<Rightarrow> bool \<Rightarrow> time \<Rightarrow> time option \<times> bool" where
  "update_limitation since requested configured actual is_charging now =
     (if \<not> is_charging \<or> requested \<le> 0 then (None, False)
      else case actual of
        None \<Rightarrow> (None, False)
      | Some a \<Rightarrow>
          if or_else configured requested - a < EXTERNAL_LIMIT_TOLERANCE_A then (None, False)
          else let t = or_else since now in
            (Some t, EXTERNAL_LIMIT_STABLE_SECONDS \<le> elapsed_s now t))"

definition clamp_config_to_capabilities ::
  "charging_config \<Rightarrow> adapter_error + charger_capabilities \<Rightarrow> charging_config" where
  "clamp_config_to_capabilities c caps = (case caps of
     Inl _ \<Rightarrow> c
   | Inr k \<Rightarrow>
       if \<not> supports k SET_CURRENT then c
       else c\<lparr> max_current_a := min (max_current_a c) (cap_max_current_a k),
               min_current_a := max (min_current_a c) (cap_min_current_a k),
               phases := (case cap_phases k of None \<Rightarrow> phases c
                          | Some p \<Rightarrow> if 0 < p then p else phases c) \<rparr>)"

subsection \<open>Reading and arming the charger\<close>

text \<open>
  What the cycle reads: the capabilities its configuration is clamped to; the first status and meter; when it arms the charger, the answers to
  the capabilities, the start and the second status and meter; then the controller's calls.
\<close>

record engine_input =
  ei_capabilities :: "adapter_error + charger_capabilities"
  ei_meter :: "meter_snapshot option"
  ei_status :: "adapter_error + charger_status"
  ei_arm_capabilities :: "adapter_error + charger_capabilities"
  ei_arm_start :: "adapter_error option"
  ei_arm_status :: "adapter_error + charger_status"
  ei_arm_meter :: "meter_snapshot option"
  ei_adapter :: adapter

text \<open>What the cycle knows of the charger, the local variables of the code.\<close>

record charger_view =
  cv_halo_connected :: bool
  cv_vehicle_connected :: "bool option"
  cv_is_charging :: bool
  cv_configured_current :: "rat option"
  cv_actual_current :: "rat option"
  cv_actual_power :: "rat option"
  cv_fault_code :: "string option"
  cv_runtime_halo :: "bool option"
  cv_runtime_vehicle :: "bool option"

definition meter_vehicle :: "meter_snapshot option \<Rightarrow> bool" where
  "meter_vehicle m = (case m of None \<Rightarrow> False | Some s \<Rightarrow> ms_vehicle_connected s)"

definition meter_charging :: "meter_snapshot option \<Rightarrow> bool" where
  "meter_charging m = (case m of None \<Rightarrow> False | Some s \<Rightarrow> ms_is_charging s)"

text \<open>An answered status with the meter read beside it.\<close>

definition observe :: "charger_view \<Rightarrow> charger_status \<Rightarrow> meter_snapshot option \<Rightarrow> charger_view" where
  "observe v st meter =
     (let vehicle = cs_vehicle_connected st \<or> meter_vehicle meter in
      v\<lparr> cv_halo_connected := cs_connected st, cv_runtime_halo := Some (cs_connected st),
         cv_vehicle_connected := Some vehicle, cv_runtime_vehicle := Some vehicle,
         cv_is_charging := cs_charging st \<or> meter_charging meter,
         cv_configured_current := (case cv_configured_current v of Some c \<Rightarrow> Some c
            | None \<Rightarrow> cs_current_limit_a st) \<rparr>)"

definition read_charger :: "engine_input \<Rightarrow> bool option \<Rightarrow> bool option \<Rightarrow> charger_view" where
  "read_charger ei halo vehicle =
     (let meter = ei_meter ei;
          v = \<lparr> cv_halo_connected = or_else halo False, cv_vehicle_connected = vehicle,
                cv_is_charging = False,
                cv_configured_current = Option.bind meter ms_configured_current_a,
                cv_actual_current = Option.bind meter ms_actual_charging_current_a,
                cv_actual_power = Option.bind meter ms_power_w,
                cv_fault_code = None, cv_runtime_halo = halo, cv_runtime_vehicle = vehicle \<rparr> in
      case ei_status ei of
        Inr st \<Rightarrow> observe v st meter
      | Inl _ \<Rightarrow>
          (let v = v\<lparr> cv_fault_code := Some ''charger_offline'' \<rparr> in
           case meter of None \<Rightarrow> v
           | Some s \<Rightarrow> v\<lparr> cv_vehicle_connected := Some (ms_vehicle_connected s),
                          cv_is_charging := ms_is_charging s \<rparr>))"

text \<open>
  A connected charger without a vehicle is armed with a start command; any exception on the
  way ends the attempt.
\<close>

definition arm_charger :: "engine_input \<Rightarrow> charger_view \<Rightarrow> charger_view \<times> charger_command list" where
  "arm_charger ei v =
     (if \<not> (cv_halo_connected v \<and> cv_vehicle_connected v \<noteq> Some True) then (v, [])
      else if (case ei_arm_capabilities ei of Inl _ \<Rightarrow> False | Inr k \<Rightarrow> \<not> supports k START) then (v, [])
      else case ei_arm_start ei of
        Some _ \<Rightarrow> (v, [StartCharging])
      | None \<Rightarrow> (case ei_arm_status ei of
          Inl _ \<Rightarrow> (v, [StartCharging])
        | Inr st \<Rightarrow>
            (let meter = ei_arm_meter ei; v = observe v st meter in
             (case meter of None \<Rightarrow> v
              | Some s \<Rightarrow> v\<lparr> cv_actual_current := ms_actual_charging_current_a s,
                  cv_actual_power := ms_power_w s,
                  cv_configured_current := (case ms_configured_current_a s of
                     Some c \<Rightarrow> Some c | None \<Rightarrow> cv_configured_current v) \<rparr>,
              [StartCharging]))))"

subsection \<open>The cycle\<close>

text \<open>The charger's row and the per-charger runtime, as far as the cycle writes them.\<close>

record charger_row =
  cr_smart_charging_state :: "string option"
  cr_last_requested_current_a :: "rat option"
  cr_last_applied_current_a :: "rat option"
  cr_last_configured_current_a :: "rat option"
  cr_last_actual_charging_current_a :: "rat option"
  cr_last_actual_power_w :: "rat option"
  cr_externally_limited :: bool
  cr_last_start_at :: "time option"
  cr_last_stop_at :: "time option"
  cr_last_charging_action :: string
  cr_last_charging_reason :: string
  cr_last_charger_error_code :: "string option"
  cr_last_halo_connected :: "bool option"
  cr_last_vehicle_connected :: "bool option"

record engine_state =
  es_smart_runtime :: smart_runtime
  es_anti_flapping :: anti_state
  es_limited_since :: "time option"
  es_halo_connected :: "bool option"
  es_vehicle_connected :: "bool option"
  es_last_decision :: "charging_decision option"
  es_last_error_code :: "string option"
  es_row :: charger_row

text \<open>
  The result: the state, the commands, whether a status change was published, and the
  exception that left the cycle, if any.
\<close>

record engine_output =
  eo_state :: engine_state
  eo_commands :: "charger_command list"
  eo_published :: "(string option \<times> string) list"
  eo_raised :: "adapter_error option"

definition cycle_of_view :: "cycle_input \<Rightarrow> charger_view \<Rightarrow> cycle_input" where
  "cycle_of_view i v = i\<lparr> ci_vehicle_connected := or_else (cv_vehicle_connected v) False,
     ci_halo_connected := cv_halo_connected v, ci_is_charging := cv_is_charging v,
     ci_fault_code := cv_fault_code v \<rparr>"

text \<open>The \<open>finally\<close> block, on every way out.\<close>

definition close_row ::
  "string \<Rightarrow> charging_decision \<Rightarrow> string option \<Rightarrow> bool option \<Rightarrow> bool option \<Rightarrow> charger_row \<Rightarrow> charger_row" where
  "close_row action d code halo vehicle row = row\<lparr> cr_last_charging_action := action,
     cr_last_charging_reason := d_reason d, cr_last_charger_error_code := code,
     cr_last_halo_connected := halo, cr_last_vehicle_connected := vehicle \<rparr>"

text \<open>What a returned result writes.\<close>

definition record_result ::
  "cycle_input \<Rightarrow> charger_view \<Rightarrow> charging_decision \<Rightarrow> apply_result \<Rightarrow> engine_state
   \<Rightarrow> engine_state \<times> (string option \<times> string) list" where
  "record_result i v d res s =
     (let v = (case ar_charger_status res of None \<Rightarrow> v
               | Some st \<Rightarrow> v\<lparr> cv_runtime_halo := Some (cs_connected st),
                   cv_runtime_vehicle := Some (cs_vehicle_connected st),
                   cv_vehicle_connected := Some (cs_vehicle_connected st),
                   cv_configured_current := (case cv_configured_current v of Some c \<Rightarrow> Some c
                     | None \<Rightarrow> cs_current_limit_a st),
                   cv_is_charging := cv_is_charging v \<or> cs_charging st \<rparr>);
          action = (if ar_applied res
                    then (if ar_applied_current_a res \<le> 0 then ''stop'' else ''set_current'')
                    else d_action d);
          smart = es_smart_runtime s;
          (since, limited) = update_limitation (es_limited_since s) (sr_requested_current_a smart)
             (cv_configured_current v) (cv_actual_current v) (cv_is_charging v) (ci_now i);
          smart = smart\<lparr> sr_externally_limited := limited \<rparr>;
          state = smart_state_value (sr_state smart);
          row = es_row s;
          row' = row\<lparr> cr_smart_charging_state := Some state,
             cr_last_applied_current_a := (if ar_applied res then Some (ar_applied_current_a res)
                else cr_last_applied_current_a row),
             cr_last_requested_current_a := Some (sr_requested_current_a smart),
             cr_last_configured_current_a := cv_configured_current v,
             cr_last_actual_charging_current_a := cv_actual_current v,
             cr_last_actual_power_w := cv_actual_power v,
             cr_externally_limited := limited,
             cr_last_start_at := sr_last_start_at smart,
             cr_last_stop_at := sr_last_stop_at smart \<rparr> in
      (s\<lparr> es_smart_runtime := smart, es_limited_since := since,
          es_halo_connected := cv_runtime_halo v, es_vehicle_connected := cv_runtime_vehicle v,
          es_last_error_code := ar_error_code res,
          es_row := close_row action d (ar_error_code res) (cv_runtime_halo v)
                      (cv_vehicle_connected v) row' \<rparr>,
       if cr_smart_charging_state row \<noteq> Some state
       then [(cr_smart_charging_state row, state)] else []))"

text \<open>
  The configuration is the one of this cycle, read from the charger's row, the site and the vehicle;
  it is clamped to what the adapter reports now.
\<close>

definition engine_cycle ::
  "charging_config \<Rightarrow> anti_config \<Rightarrow> cycle_input \<Rightarrow> engine_input \<Rightarrow> engine_state \<Rightarrow> engine_output" where
  "engine_cycle c cfg i ei s =
     (let c = clamp_config_to_capabilities c (ei_capabilities ei);
          (v, arm) = arm_charger ei (read_charger ei (es_halo_connected s) (es_vehicle_connected s));
          i = cycle_of_view i v;
          (smart, d) = evaluate_smart_charging c (es_smart_runtime s) i;
          d = d\<lparr> d_smart_charging_state := Some (smart_state_value (sr_state smart)),
                 d_externally_limited := sr_externally_limited smart \<rparr>;
          s1 = s\<lparr> es_smart_runtime := smart, es_last_decision := Some d,
                  es_halo_connected := cv_runtime_halo v, es_vehicle_connected := cv_runtime_vehicle v \<rparr>;
          (outcome, anti, cmds) = apply_decision (ei_adapter ei) cfg d (ci_now i) (es_anti_flapping s);
          s2 = s1\<lparr> es_anti_flapping := anti \<rparr> in
      case outcome of
        Inl e \<Rightarrow> \<lparr> eo_state = s2\<lparr> es_row := close_row (d_action d) d None (cv_runtime_halo v)
                       (cv_vehicle_connected v) (es_row s2) \<rparr>,
                   eo_commands = arm @ cmds, eo_published = [], eo_raised = Some e \<rparr>
      | Inr res \<Rightarrow>
          (let (s3, published) = record_result i v d res s2 in
           \<lparr> eo_state = s3, eo_commands = arm @ cmds, eo_published = published, eo_raised = None \<rparr>))"

subsection \<open>What a cycle keeps and sends\<close>

text \<open>The cycle's view of the charger, its runtime and decision, and the controller's outcome.\<close>

definition engine_view :: "engine_input \<Rightarrow> engine_state \<Rightarrow> charger_view" where
  "engine_view ei s = fst (arm_charger ei (read_charger ei (es_halo_connected s) (es_vehicle_connected s)))"

definition engine_evaluation ::
  "charging_config \<Rightarrow> cycle_input \<Rightarrow> engine_input \<Rightarrow> engine_state \<Rightarrow> smart_runtime \<times> charging_decision" where
  "engine_evaluation c i ei s =
     evaluate_smart_charging (clamp_config_to_capabilities c (ei_capabilities ei)) (es_smart_runtime s)
       (cycle_of_view i (engine_view ei s))"

lemma arm_charger_commands: "snd (arm_charger ei v) \<in> {[], [StartCharging]}"
  by (auto simp: arm_charger_def Let_def split: sum.splits option.splits)

lemma arm_charger_only_without_vehicle:
  "snd (arm_charger ei v) \<noteq> [] \<Longrightarrow> cv_halo_connected v \<and> cv_vehicle_connected v \<noteq> Some True"
  by (auto simp: arm_charger_def split: if_splits)

lemma engine_cycle_parts:
  obtains smart d d' anti outcome cmds arm where
    "engine_evaluation c i ei s = (smart, d)"
    "d_action d' = d_action d" "d_requested_current_a d' = d_requested_current_a d"
    "d_skip_apply d' = d_skip_apply d"
    "apply_decision (ei_adapter ei) cfg d' (ci_now i) (es_anti_flapping s) = (outcome, anti, cmds)"
    "arm = snd (arm_charger ei (read_charger ei (es_halo_connected s) (es_vehicle_connected s)))"
    "eo_commands (engine_cycle c cfg i ei s) = arm @ cmds"
    "es_anti_flapping (eo_state (engine_cycle c cfg i ei s)) = anti"
    "\<exists>b. es_smart_runtime (eo_state (engine_cycle c cfg i ei s)) = smart\<lparr> sr_externally_limited := b \<rparr>"
proof -
  obtain smart d where ev: "engine_evaluation c i ei s = (smart, d)" by fastforce
  define d' where "d' = d\<lparr> d_smart_charging_state := Some (smart_state_value (sr_state smart)),
      d_externally_limited := sr_externally_limited smart \<rparr>"
  obtain outcome anti cmds where ap:
    "apply_decision (ei_adapter ei) cfg d' (ci_now i) (es_anti_flapping s) = (outcome, anti, cmds)"
    by (metis prod_cases3)
  have now: "ci_now (cycle_of_view i v) = ci_now i" for v by (simp add: cycle_of_view_def)
  let ?va = "arm_charger ei (read_charger ei (es_halo_connected s) (es_vehicle_connected s))"
  have eq: "engine_cycle c cfg i ei s =
    (let s1 = s\<lparr> es_smart_runtime := smart, es_last_decision := Some d',
           es_halo_connected := cv_runtime_halo (fst ?va),
           es_vehicle_connected := cv_runtime_vehicle (fst ?va) \<rparr>;
         s2 = s1\<lparr> es_anti_flapping := anti \<rparr> in
     case outcome of
       Inl e \<Rightarrow> \<lparr> eo_state = s2\<lparr> es_row := close_row (d_action d') d' None (cv_runtime_halo (fst ?va))
                    (cv_vehicle_connected (fst ?va)) (es_row s2) \<rparr>,
                 eo_commands = snd ?va @ cmds, eo_published = [], eo_raised = Some e \<rparr>
     | Inr res \<Rightarrow>
         (let r = record_result (cycle_of_view i (fst ?va)) (fst ?va) d' res s2 in
          \<lparr> eo_state = fst r, eo_commands = snd ?va @ cmds, eo_published = snd r, eo_raised = None \<rparr>))"
    using ev ap
    unfolding engine_cycle_def engine_evaluation_def engine_view_def
    by (simp add: Let_def split_beta now d'_def [symmetric] split: sum.split)
  have rr: "es_anti_flapping (fst (record_result i' v d' res s')) = es_anti_flapping s'"
    "es_smart_runtime s' = smart \<Longrightarrow> \<exists>b. es_smart_runtime (fst (record_result i' v d' res s'))
       = smart\<lparr> sr_externally_limited := b \<rparr>" for i' v res s'
    by (auto simp: record_result_def Let_def split_beta)
  have "es_anti_flapping (eo_state (engine_cycle c cfg i ei s)) = anti"
    "eo_commands (engine_cycle c cfg i ei s) = snd ?va @ cmds"
    unfolding eq by (simp_all add: Let_def rr(1) split: sum.split)
  moreover have "\<exists>b. es_smart_runtime (eo_state (engine_cycle c cfg i ei s))
      = smart\<lparr> sr_externally_limited := b \<rparr>"
  proof (cases outcome)
    case (Inl e)
    then have "es_smart_runtime (eo_state (engine_cycle c cfg i ei s))
        = smart\<lparr> sr_externally_limited := sr_externally_limited smart \<rparr>"
      unfolding eq by (simp add: Let_def)
    then show ?thesis ..
  next
    case (Inr res)
    then show ?thesis unfolding eq by (simp add: Let_def) (rule rr(2), simp)
  qed
  ultimately show thesis
    using that [OF ev _ _ _ ap refl] by (simp add: d'_def)
qed

text \<open>Does the adapter raise on this command?\<close>

fun refuses :: "adapter \<Rightarrow> charger_command \<Rightarrow> bool" where
  "refuses ad (SetCurrent a) = (ad_set_current ad \<noteq> None)"
| "refuses ad StartCharging = (ad_start_charging ad \<noteq> None)"
| "refuses ad StopCharging = (ad_stop_charging ad \<noteq> None)"

lemma send_stop_refused:
  "send_stop ad s now why st = (res, s', cmds) \<Longrightarrow> x \<in> set cmds \<Longrightarrow> refuses ad x \<Longrightarrow>
     s' = s \<and> (\<exists>e. res = handle_error s e)"
  by (auto simp: send_stop_def split: option.splits)

lemma send_current_refused:
  "send_current ad caps s now why st a = (res, s', cmds) \<Longrightarrow> x \<in> set cmds \<Longrightarrow> refuses ad x \<Longrightarrow>
     s' = s \<and> (\<exists>e. res = handle_error s e)"
  by (auto simp: send_current_def split: option.splits if_splits)

lemma apply_with_status_sends:
  obtains (nothing) "snd (snd (apply_with_status ad cfg caps st requested why now s)) = []"
  | (stop) "apply_with_status ad cfg caps st requested why now s = send_stop ad s now why st"
  | (current) a where
      "apply_with_status ad cfg caps st requested why now s = send_current ad caps s now why st a"
proof -
  obtain ok nxt r where sa: "should_apply_current requested s cfg now = (ok, nxt, r)"
    by (metis prod_cases3)
  let ?r = "apply_with_status ad cfg caps st requested why now s"
  have "snd (snd ?r) = [] \<or> ?r = send_stop ad s now why st
      \<or> (\<exists>a. ?r = send_current ad caps s now why st a)"
    unfolding apply_with_status_def Let_def sa prod.case by (simp split: if_split) blast
  then show thesis using that by blast
qed

lemma apply_decision_refused:
  assumes "apply_decision ad cfg d now s = (res, s', cmds)" "x \<in> set cmds" "refuses ad x"
  shows "s' = s \<and> (\<exists>e. res = handle_error s e)"
proof -
  obtain caps st where ap: "apply_with_status ad cfg caps st (asked d) (d_reason d) now s = (res, s', cmds)"
    using assms(1,2)
    by (auto simp: apply_decision_def Let_def split: if_splits sum.splits adapter_error.splits)
  then show ?thesis
    using send_stop_refused [OF _ assms(2,3)] send_current_refused [OF _ assms(2,3)] assms(2)
    by (cases rule: apply_with_status_sends [of ad cfg caps st "asked d" "d_reason d" now s]) auto
qed

text \<open>The actions a cycle may decide on, and what each asks for.\<close>

lemma evaluate_action:
  assumes "evaluate_smart_charging c r i = (r', d)"
  shows "d_action d = ''none'' \<or> d_action d = ''set_current''
    \<or> d_action d \<in> {''stop'', ''fault''} \<and> d_requested_current_a d = 0"
  using assms
proof (cases rule: evaluate_path_cases)
  case (stop ok)
  from stop(4) [symmetric] show ?thesis by (cases rule: handle_stop_path_cases) simp_all
next
  case start
  from start(5) [symmetric] show ?thesis
    by (cases rule: handle_start_path_cases) (auto dest: launch_charging_fields(8) simp: set_decision_def)
next
  case modulate
  then show ?thesis by (auto simp: modulate_current_def Let_def decision_defs split: if_splits)
qed simp_all

subsection \<open>Runs of the engine\<close>

text \<open>
  The configuration of a cycle may differ from the one before: the charger is edited, the vehicle
  or what the adapter reports changes. So the request is compared with bounds \<open>lo\<close> and \<open>hi\<close> that
  hold the limits of every cycle.
\<close>

type_synonym engine_event = "charging_config \<times> anti_config \<times> cycle_input \<times> engine_input"

definition engine_step :: "engine_state \<Rightarrow> engine_event \<Rightarrow> engine_state" where
  "engine_step s x = (case x of (c, cfg, i, ei) \<Rightarrow> eo_state (engine_cycle c cfg i ei s))"

definition cycle_config :: "engine_event \<Rightarrow> charging_config" where
  "cycle_config x = (case x of (c, cfg, i, ei) \<Rightarrow> clamp_config_to_capabilities c (ei_capabilities ei))"

definition limits_fit :: "rat \<Rightarrow> rat \<Rightarrow> charging_config \<Rightarrow> bool" where
  "limits_fit lo hi c \<longleftrightarrow> config_ok c \<and> 0 < lo \<and> lo \<le> min_current_a c \<and> max_current_a c \<le> hi"

definition request_within :: "rat \<Rightarrow> rat \<Rightarrow> rat \<Rightarrow> bool" where
  "request_within lo hi x \<longleftrightarrow> x = 0 \<or> lo \<le> x \<and> x \<le> hi"

text \<open>A current set moves between the old request and the limits of the cycle.\<close>

definition current_allowed :: "charging_config \<Rightarrow> rat \<Rightarrow> rat \<Rightarrow> bool" where
  "current_allowed c q a \<longleftrightarrow> 0 < a \<and> (a \<le> max_current_a c \<or> a \<le> q)
     \<and> (min_current_a c \<le> a \<or> q \<le> a \<and> 0 < q)"

lemma current_allowed_within:
  assumes "limits_fit lo hi c" "request_within lo hi q" "current_allowed c q a"
  shows "lo \<le> a \<and> a \<le> hi"
  using assms by (auto simp: limits_fit_def request_within_def current_allowed_def)

lemma ramp_allowed:
  assumes "config_ok c" "0 < q" "min_current_a c \<le> t" "t \<le> max_current_a c"
  shows "current_allowed c q (apply_ramp q t c u)"
  using assms apply_ramp_between [OF assms(1), of q t u]
  by (auto simp: current_allowed_def config_ok_def min_def max_def split: if_splits)

lemma reduce_allowed:
  assumes "config_ok c" "0 \<le> q"
    and "min_current_a c \<le> apply_ramp q (min_current_a c) c False \<or> min_current_a c < q"
  shows "current_allowed c q (apply_ramp q (min_current_a c) c False)"
proof (cases "0 < q")
  case True
  then show ?thesis using ramp_allowed [OF assms(1), of q "min_current_a c"] assms(1) by (simp add: config_ok_def)
next
  case False
  then have "min_current_a c \<le> apply_ramp q (min_current_a c) c False" "q = 0"
    using assms by (auto simp: config_ok_def)
  then show ?thesis
    using apply_ramp_between(2) [OF assms(1), of q "min_current_a c" False] assms(1)
    by (auto simp: current_allowed_def config_ok_def)
qed

text \<open>The request after a cycle is 0, the old one, or an allowed current; a current set is the request.\<close>

lemma evaluate_allowed:
  assumes c: "config_ok c" and q: "0 \<le> sr_requested_current_a r"
    and ev: "evaluate_smart_charging c r i = (r', d)"
  shows "(sr_requested_current_a r' \<in> {0, sr_requested_current_a r}
      \<or> current_allowed c (sr_requested_current_a r) (sr_requested_current_a r'))
    \<and> (d_action d = ''set_current'' \<longrightarrow> 0 < d_requested_current_a d \<longrightarrow>
      d_requested_current_a d = sr_requested_current_a r'
      \<and> current_allowed c (sr_requested_current_a r) (sr_requested_current_a r'))"
  using ev
proof (cases rule: evaluate_path_cases)
  case (stop ok)
  from stop(4) [symmetric] show ?thesis
    by (cases rule: handle_stop_path_cases)
      (use reduce_allowed [OF c q] in \<open>auto simp: frame_simps\<close>)
next
  case start
  have want: "min_current_a c \<le> wanted_current c i" "wanted_current c i \<le> max_current_a c"
    using clamp_target_pos [OF c start(3)] by simp_all
  from start(5) [symmetric] show ?thesis
  proof (cases rule: handle_start_path_cases)
    case declined
    then show ?thesis by (auto simp: frame_simps)
  next
    case (launched since)
    note f = launch_charging_fields [OF launched(2)]
    have "min_current_a c \<le> sr_requested_current_a r'" "sr_requested_current_a r' \<le> max_current_a c"
      using apply_ramp_between(2) [OF c, of 0 "wanted_current c i" "is_urgent_reason (ci_optimizer_reason i)"]
        want c by (auto simp: f(2) config_ok_def)
    then have "current_allowed c (sr_requested_current_a r) (sr_requested_current_a r')"
      using c by (auto simp: current_allowed_def config_ok_def)
    then show ?thesis by (simp add: f(8) set_decision_def)
  qed
next
  case modulate
  let ?q = "sr_requested_current_a r" and ?u = "is_urgent_reason (ci_optimizer_reason i)"
  have "current_allowed c ?q (apply_ramp ?q (wanted_current c i) c ?u)" "current_allowed c ?q ?q"
    using ramp_allowed [OF c modulate(5)] clamp_target_pos [OF c modulate(3)] modulate(5)
    by (auto simp: current_allowed_def)
  then show ?thesis
    using modulate(6) by (auto simp: modulate_current_def Let_def frame_simps decision_defs split: if_splits)
qed (use q in auto)

interpretation safe_engine: kept_invariant engine_step "\<lambda>x. limits_fit lo hi (cycle_config x)"
  "\<lambda>s. request_within lo hi (sr_requested_current_a (es_smart_runtime s)) \<and> 0 \<le> sr_requested_current_a (es_smart_runtime s)"
  for lo hi
proof
  fix s :: engine_state and x
  assume s: "request_within lo hi (sr_requested_current_a (es_smart_runtime s)) \<and> 0 \<le> sr_requested_current_a (es_smart_runtime s)"
    and fit: "limits_fit lo hi (cycle_config x)"
  obtain c cfg i ei where x: "x = (c, cfg, i, ei)" by (metis prod_cases4)
  obtain smart d b where parts: "engine_evaluation c i ei s = (smart, d)"
    "es_smart_runtime (engine_step s x) = smart\<lparr> sr_externally_limited := b \<rparr>"
    unfolding engine_step_def x prod.case by (rule engine_cycle_parts) blast
  have c: "config_ok (cycle_config x)" using fit by (simp add: limits_fit_def)
  have "sr_requested_current_a smart \<in> {0, sr_requested_current_a (es_smart_runtime s)}
      \<or> current_allowed (cycle_config x) (sr_requested_current_a (es_smart_runtime s)) (sr_requested_current_a smart)"
    using evaluate_allowed [OF c, of "es_smart_runtime s"] s parts(1)
    by (simp add: engine_evaluation_def cycle_config_def x)
  then have "request_within lo hi (sr_requested_current_a smart) \<and> 0 \<le> sr_requested_current_a smart"
  proof
    assume "sr_requested_current_a smart \<in> {0, sr_requested_current_a (es_smart_runtime s)}"
    then show ?thesis using s by (auto simp: request_within_def)
  next
    assume ok: "current_allowed (cycle_config x) (sr_requested_current_a (es_smart_runtime s)) (sr_requested_current_a smart)"
    show ?thesis
      using current_allowed_within [OF fit conjunct1 [OF s] ok] ok
      by (simp add: request_within_def current_allowed_def)
  qed
  then show "request_within lo hi (sr_requested_current_a (es_smart_runtime (engine_step s x)))
      \<and> 0 \<le> sr_requested_current_a (es_smart_runtime (engine_step s x))"
    by (simp add: parts(2))
qed

lemma engine_cycle_commands_allowed:
  fixes s :: engine_state
  assumes "config_ok (cycle_config (c, cfg, i, ei))" "0 \<le> sr_requested_current_a (es_smart_runtime s)"
    and "SetCurrent a \<in> set (eo_commands (engine_cycle c cfg i ei s))"
  shows "current_allowed (cycle_config (c, cfg, i, ei)) (sr_requested_current_a (es_smart_runtime s)) a"
proof -
  obtain smart d d' anti outcome cmds arm where parts:
    "engine_evaluation c i ei s = (smart, d)"
    "d_action d' = d_action d" "d_requested_current_a d' = d_requested_current_a d"
    "apply_decision (ei_adapter ei) cfg d' (ci_now i) (es_anti_flapping s) = (outcome, anti, cmds)"
    "arm = snd (arm_charger ei (read_charger ei (es_halo_connected s) (es_vehicle_connected s)))"
    "eo_commands (engine_cycle c cfg i ei s) = arm @ cmds"
    by (rule engine_cycle_parts) blast
  have "SetCurrent a \<in> set cmds"
    using assms(3) unfolding parts(6)
    using arm_charger_commands [of ei "read_charger ei (es_halo_connected s) (es_vehicle_connected s)"]
    by (auto simp: parts(5))
  then have a: "a = asked d'" "0 < a"
    using apply_decision_ok [of d' "ci_now i" "es_anti_flapping s" "ei_adapter ei" cfg]
    unfolding parts(4) by auto
  note ev = parts(1) [unfolded engine_evaluation_def]
  have "d_action d \<noteq> ''none''"
    using parts(2,4) none_decision_quiet [of d' "ei_adapter ei" cfg "ci_now i" "es_anti_flapping s"]
      \<open>SetCurrent a \<in> set cmds\<close> by auto
  then have "d_action d = ''set_current''"
    using evaluate_action [OF ev] a parts(3) by auto
  moreover have "0 < d_requested_current_a d" "a = d_requested_current_a d"
    using a parts(3) by (auto simp: max_def split: if_splits)
  ultimately show ?thesis
    using evaluate_allowed [OF assms(1) [unfolded cycle_config_def prod.case] assms(2) ev]
    by (simp add: cycle_config_def)
qed

subsection \<open>A concrete charger\<close>

definition example_caps :: charger_capabilities where
  "example_caps = \<lparr> cap_min_current_a = 6, cap_max_current_a = 16, cap_phases = Some 3,
     cap_flags = [(''can_set_max_current'', True), (''supports_remote_start_stop'', True)] \<rparr>"

definition example_status :: "rat \<Rightarrow> charger_status" where
  "example_status a = \<lparr> cs_connected = True, cs_vehicle_connected = True,
     cs_current_limit_a = Some a, cs_charging = (0 < a) \<rparr>"

definition example_adapter :: "rat \<Rightarrow> adapter_error option \<Rightarrow> adapter" where
  "example_adapter a stop = \<lparr> ad_capabilities = Inr example_caps, ad_status = Inr (example_status a),
     ad_set_current = None, ad_start_charging = None, ad_stop_charging = stop \<rparr>"

definition example_engine_input :: "rat \<Rightarrow> adapter_error option \<Rightarrow> engine_input" where
  "example_engine_input a stop = \<lparr> ei_capabilities = Inr example_caps, ei_meter = None, ei_status = Inr (example_status a),
     ei_arm_capabilities = Inr example_caps, ei_arm_start = None,
     ei_arm_status = Inr (example_status a), ei_arm_meter = None,
     ei_adapter = example_adapter a stop \<rparr>"

definition example_anti :: "rat \<Rightarrow> int \<Rightarrow> anti_state" where
  "example_anti a t = \<lparr> af_last_applied_current_a = Some a, af_last_change_at = Some (t * us_per_s),
     af_last_command_current_a = Some a \<rparr>"

definition example_row :: charger_row where
  "example_row = \<lparr> cr_smart_charging_state = None, cr_last_requested_current_a = None,
     cr_last_applied_current_a = None, cr_last_configured_current_a = None,
     cr_last_actual_charging_current_a = None, cr_last_actual_power_w = None,
     cr_externally_limited = False, cr_last_start_at = None, cr_last_stop_at = None,
     cr_last_charging_action = [], cr_last_charging_reason = [], cr_last_charger_error_code = None,
     cr_last_halo_connected = None, cr_last_vehicle_connected = None \<rparr>"

definition example_engine :: "smart_runtime \<Rightarrow> anti_state \<Rightarrow> engine_state" where
  "example_engine r s = \<lparr> es_smart_runtime = r, es_anti_flapping = s, es_limited_since = None,
     es_halo_connected = None, es_vehicle_connected = None, es_last_decision = None,
     es_last_error_code = None, es_row = example_row \<rparr>"

lemmas engine_example_defs = example_caps_def example_status_def example_adapter_def
  example_engine_input_def example_anti_def example_engine_def

subsection \<open>Properties\<close>

text \<open>C5. No command outside the limits reaches the charger: over any run of engine cycles, each with a
  configuration of its own, clamped in the cycle to what the charger reports, whose minimum is
  positive and not above the maximum and whose ramp steps are not negative, every current sent
  lies between any bounds \<open>lo\<close> and \<open>hi\<close> that hold the limits of all cycles, whatever the adapter
  answered before; and it lies within the limits of its own cycle, or between them and the request
  before, from which a changed limit is approached by ramp steps.\<close>

theorem engine_commands_within_limits:
  assumes "\<forall>x \<in> set (xs @ [(c, cfg, i, ei)]). limits_fit lo hi (cycle_config x)"
    and "request_within lo hi (sr_requested_current_a (es_smart_runtime s))"
      "0 \<le> sr_requested_current_a (es_smart_runtime s)"
    and "SetCurrent a \<in> set (eo_commands (engine_cycle c cfg i ei (foldl engine_step s xs)))"
  shows "lo \<le> a \<and> a \<le> hi
    \<and> (a \<le> max_current_a (clamp_config_to_capabilities c (ei_capabilities ei))
       \<or> a \<le> sr_requested_current_a (es_smart_runtime (foldl engine_step s xs)))
    \<and> (min_current_a (clamp_config_to_capabilities c (ei_capabilities ei)) \<le> a
       \<or> sr_requested_current_a (es_smart_runtime (foldl engine_step s xs)) \<le> a)"
proof -
  let ?s = "foldl engine_step s xs" and ?x = "(c, cfg, i, ei)"
  have fit: "limits_fit lo hi (cycle_config ?x)" using assms(1) by simp
  have s: "request_within lo hi (sr_requested_current_a (es_smart_runtime ?s))
      \<and> 0 \<le> sr_requested_current_a (es_smart_runtime ?s)"
    using safe_engine.run_keeps [of lo hi s xs] assms(1-3) by simp
  have "current_allowed (cycle_config ?x) (sr_requested_current_a (es_smart_runtime ?s)) a"
    using engine_cycle_commands_allowed [OF _ _ assms(4)] fit s by (simp add: limits_fit_def)
  with current_allowed_within [OF fit] s show ?thesis
    by (auto simp: current_allowed_def cycle_config_def)
qed

text \<open>The maximum is lowered from 16 to 10 while the car charges with 16: the next command is 14.\<close>

definition example_cycles :: "engine_event list" where
  "example_cycles = [(default_config, default_anti_config,
     example_input ''QUICK'' 16 ''quick_charge'' False 1000, example_engine_input 0 None)]"

theorem engine_commands_within_limits_witness:
  "(6 :: rat) \<le> 14 \<and> (14 :: rat) \<le> 16
   \<and> SetCurrent 14 \<in> set (eo_commands (engine_cycle (default_config\<lparr> max_current_a := 10 \<rparr>) default_anti_config
      (example_input ''QUICK'' 16 ''quick_charge'' True 1060) (example_engine_input 16 None)
      (foldl engine_step (example_engine initial_runtime initial_anti_state) example_cycles)))"
proof -
  let ?c = "default_config\<lparr> max_current_a := 10 \<rparr>" and ?i = "example_input ''QUICK'' 16 ''quick_charge'' True 1060"
  have sent: "SetCurrent 14 \<in> set (eo_commands (engine_cycle ?c default_anti_config ?i (example_engine_input 16 None)
      (foldl engine_step (example_engine initial_runtime initial_anti_state) example_cycles)))"
    by code_simp
  have "\<forall>x \<in> set (example_cycles @ [(?c, default_anti_config, ?i, example_engine_input 16 None)]).
      limits_fit 6 16 (cycle_config x)"
    by code_simp
  from engine_commands_within_limits [OF this _ _ sent] sent show ?thesis
    by (simp add: example_engine_def initial_runtime_def request_within_def)
qed

text \<open>A refused command is not recorded: when the adapter raises on one of the commands sent,
  the anti-flapping state is unchanged (so a later decision is not taken for a duplicate); when the
  state changes, it records exactly the current asked for, now.\<close>

theorem refused_command_not_recorded:
  assumes "apply_decision ad cfg d now s = (res, s', cmds)"
  shows "((\<exists>x \<in> set cmds. refuses ad x) \<longrightarrow> s' = s)
       \<and> (s' \<noteq> s \<longrightarrow> s' = record_applied s (max 0 (d_requested_current_a d)) now)"
  using apply_decision_refused [OF assms] apply_decision_ok [of d now s ad cfg] assms by auto

theorem refused_command_not_recorded_witness:
  "fst (snd (apply_decision (example_adapter 10 (Some (ApiError ''TIMEOUT''))) default_anti_config
      (stop_decision 0 ''stop'' ''SMART'' ''user'') (100 * us_per_s) (example_anti 10 0)))
    = example_anti 10 0"
proof -
  let ?ad = "example_adapter 10 (Some (ApiError ''TIMEOUT''))"
  let ?d = "stop_decision 0 ''stop'' ''SMART'' ''user''"
  obtain res s' cmds where ap: "apply_decision ?ad default_anti_config ?d (100 * us_per_s)
      (example_anti 10 0) = (res, s', cmds)" by (metis prod_cases3)
  have "StopCharging \<in> set (snd (snd (apply_decision ?ad default_anti_config ?d (100 * us_per_s)
      (example_anti 10 0))))" "refuses ?ad StopCharging"
    by code_simp+
  then show ?thesis using refused_command_not_recorded [OF ap] unfolding ap fst_conv snd_conv by blast
qed

text \<open>Anti-flapping: while the charger shows what was last applied, a decision that differs
  by less than the hysteresis or comes within the minimum interval sends nothing.\<close>

theorem flapping_sends_nothing:
  assumes "ad_status ad = Inr st" "in_sync s st"
    and "flapping cfg s (max 0 (d_requested_current_a d)) now"
  shows "snd (snd (apply_decision ad cfg d now s)) = []"
  using assms by (rule flapping_quiet)

theorem flapping_sends_nothing_witness:
  "snd (snd (apply_decision (example_adapter 10 None) default_anti_config
      (set_decision 12 ''SMART'' ''cheap_now'') (30 * us_per_s) (example_anti 10 0))) = []"
  by (rule flapping_sends_nothing [where st = "example_status 10"]) code_simp+

text \<open>A cooldown is silent: in the non-immediate modes, a cycle before the end of the cooldown
  with a ready charger sends neither a current nor a stop, and keeps the anti-flapping state. So no
  car starts too early, and a stop command that failed is not sent again before the cooldown ends.\<close>

theorem cooldown_sends_nothing:
  fixes s :: engine_state
  assumes "charger_ready (cycle_of_view i (engine_view ei s))" "\<not> fast_mode i"
    and "in_cooldown (es_smart_runtime s) (ci_now i)"
  shows "set (eo_commands (engine_cycle c cfg i ei s)) \<subseteq> {StartCharging}
       \<and> es_anti_flapping (eo_state (engine_cycle c cfg i ei s)) = es_anti_flapping s"
proof -
  obtain smart d d' anti outcome cmds arm where parts:
    "engine_evaluation c i ei s = (smart, d)" "d_action d' = d_action d"
    "apply_decision (ei_adapter ei) cfg d' (ci_now i) (es_anti_flapping s) = (outcome, anti, cmds)"
    "arm = snd (arm_charger ei (read_charger ei (es_halo_connected s) (es_vehicle_connected s)))"
    "eo_commands (engine_cycle c cfg i ei s) = arm @ cmds"
    "es_anti_flapping (eo_state (engine_cycle c cfg i ei s)) = anti"
    by (rule engine_cycle_parts) blast
  have view: "ci_now (cycle_of_view i v) = ci_now i" "fast_mode (cycle_of_view i v) = fast_mode i" for v
    by (simp_all add: cycle_of_view_def fast_mode_def)
  from parts(1) [unfolded engine_evaluation_def] have "d_action d = ''none''"
    by (cases rule: evaluate_path_cases) (use assms in \<open>simp_all add: view\<close>)
  then have "cmds = []" "anti = es_anti_flapping s"
    using none_decision_quiet [of d' "ei_adapter ei" cfg "ci_now i" "es_anti_flapping s"] parts(2,3)
    by auto
  then show ?thesis
    using parts(4-6) arm_charger_commands
      [of ei "read_charger ei (es_halo_connected s) (es_vehicle_connected s)"] by auto
qed

theorem cooldown_sends_nothing_witness:
  "set (eo_commands (engine_cycle default_config default_anti_config
      (example_input ''SMART'' 0 ''no_signal'' True 1000) (example_engine_input 10 None)
      (example_engine (initial_runtime\<lparr> sr_state := STOPPING, sr_cooldown_until := Some (1300 * us_per_s) \<rparr>)
         (example_anti 10 0)))) \<subseteq> {StartCharging}"
  by (rule cooldown_sends_nothing [THEN conjunct1]) code_simp+

text \<open>A limit lowered below the current request (an edited charger, or a capability that
  reports less) is not enforced at once: a charging car's next command is one decrease step below the
  old request, and still above the new maximum while the gap is larger than a step.\<close>

theorem lowered_limit_is_ramped:
  assumes "config_ok c" "charger_ready i" "fast_mode i \<or> \<not> in_cooldown r (ci_now i)"
    and "0 < wanted_current c i" "sr_state r \<notin> idle_states"
    and "1/100 \<le> max_current_decrease_per_step_a c"
    and "max_current_a c + max_current_decrease_per_step_a c < sr_requested_current_a r"
    and "evaluate_smart_charging c r i = (r', d)"
  shows "d = set_decision (sr_requested_current_a r - max_current_decrease_per_step_a c)
           (policy_of i) (ci_optimizer_reason i)
    \<and> max_current_a c < d_requested_current_a d"
proof -
  let ?q = "sr_requested_current_a r" and ?dec = "max_current_decrease_per_step_a c"
  have w: "wanted_current c i \<le> max_current_a c" "0 < max_current_a c" "0 \<le> ?dec"
    using assms(1) clamp_target_pos [OF assms(1) assms(4)] by (auto simp: config_ok_def)
  then have ramp: "apply_ramp ?q (wanted_current c i) c u = ?q - ?dec" for u
    using assms(7) by (simp add: apply_ramp_def Let_def)
  from assms(8) show ?thesis
  proof (cases rule: evaluate_path_cases)
    case modulate
    then show ?thesis
      using assms(6,7) w
      by (simp add: modulate_current_def Let_def frame_simps ramp) (simp add: set_decision_def)
  qed (use assms(2-5,7) w in auto)
qed

theorem lowered_limit_is_ramped_witness:
  "case evaluate_smart_charging (default_config\<lparr> max_current_a := 10 \<rparr>) (charging_runtime 16)
      (example_input ''SMART'' 16 ''cheap_now'' True 1000) of
    (r', d) \<Rightarrow> d = set_decision 14 ''SMART'' ''cheap_now'' \<and> 10 < d_requested_current_a d"
proof -
  let ?c = "default_config\<lparr> max_current_a := 10 \<rparr>"
  let ?i = "example_input ''SMART'' 16 ''cheap_now'' True 1000"
  obtain r' d where ev: "evaluate_smart_charging ?c (charging_runtime 16) ?i = (r', d)" by fastforce
  have pol: "policy_of ?i = ''SMART''" by (simp add: example_input_def decision_policy_mode_def)
  have "d = set_decision (sr_requested_current_a (charging_runtime 16)
          - max_current_decrease_per_step_a ?c) (policy_of ?i) (ci_optimizer_reason ?i)
      \<and> max_current_a ?c < d_requested_current_a d"
    by (rule lowered_limit_is_ramped [OF _ example_ready(1) _ _ _ _ _ ev])
      (simp_all add: config_ok_def example_defs in_cooldown_def clamp_target_def idle_states_def)
  then show ?thesis by (simp add: ev pol) (simp add: example_defs set_decision_def)
qed

text \<open>
  A stop the charger's API refuses is followed by silence: the next cycle of the same run, two
  seconds later, sends nothing although the car still charges.
\<close>

theorem failed_stop_is_not_retried:
  "let s = example_engine ((charging_runtime 10)\<lparr> sr_stop_condition_since := Some 0 \<rparr>) (example_anti 10 0);
       i = (\<lambda>t. example_input ''SMART'' 0 ''no_signal'' True t);
       ei = example_engine_input 10 (Some (ApiError ''TIMEOUT''));
       o1 = engine_cycle default_config default_anti_config (i 1000) ei s;
       o2 = engine_cycle default_config default_anti_config (i 1002) ei (eo_state o1)
   in eo_commands o1 = [StopCharging] \<and> eo_commands o2 = []"
  by code_simp

end
