(* ===== verification/Charging_Schedule.thy ===== *)
theory Charging_Schedule
  imports Charging_Policy
begin

section \<open>Price schedules\<close>

text \<open>
  \<open>charging/smart_schedule.py\<close>, \<open>charging/import_price_schedule.py\<close>,
  \<open>charging/power_to_current.py\<close> and \<open>align_period_start\<close> of \<open>price_engine/periods.py\<close>:
  when a price justifies charging, and which current a surplus allows. Prices, powers and
  urgencies are exact rationals. The local time zone comes in through one parameter,
  \<open>next_departure now hhmm tz\<close>, the result of \<open>_next_departure\<close> (\<open>None\<close> for the
  \<open>ValueError\<close> or \<open>KeyError\<close> of a malformed time or an unknown zone).
\<close>

type_synonym forecast = "(time \<times> rat) list"

type_synonym departure_clock = "time \<Rightarrow> string \<Rightarrow> string \<Rightarrow> time option"

definition hours_us :: "int \<Rightarrow> int" where
  "hours_us h = h * 3600 * us_per_s"

definition hour_key :: "time \<Rightarrow> time" where
  "hour_key ts = ts - ts mod hours_us 1"

definition align_period_start :: "time \<Rightarrow> time" where
  "align_period_start ts = ts - ts mod (900 * us_per_s)"

definition GREEN_PRICE_RATIO :: rat where "GREEN_PRICE_RATIO = 85/100"
definition RED_PRICE_RATIO :: rat where "RED_PRICE_RATIO = 115/100"

subsection \<open>Hourly slots\<close>

definition add_slot :: "time \<Rightarrow> time \<Rightarrow> (time \<times> rat) list \<Rightarrow> time \<times> rat \<Rightarrow> (time \<times> rat) list" where
  "add_slot start until by_hour tp =
     (if fst tp < start \<or> until < fst tp then by_hour
      else let key = hour_key (fst tp) in
        case map_of by_hour key of
          None \<Rightarrow> AList.update key (snd tp) by_hour
        | Some p \<Rightarrow> if snd tp < p then AList.update key (snd tp) by_hour else by_hour)"

definition hourly_slots :: "forecast \<Rightarrow> time \<Rightarrow> time \<Rightarrow> (time \<times> rat) list" where
  "hourly_slots forecast start until = sort_key fst (foldl (add_slot start until) [] forecast)"

definition average_price :: "(time \<times> rat) list \<Rightarrow> rat option" where
  "average_price slots =
     (if slots = [] then None else Some (sum_list (map snd slots) / of_nat (length slots)))"

definition is_green_price :: "rat \<Rightarrow> rat \<Rightarrow> bool" where
  "is_green_price current average \<longleftrightarrow> current \<le> average * GREEN_PRICE_RATIO"

definition window_end :: "departure_clock \<Rightarrow> time \<Rightarrow> string option \<Rightarrow> string \<Rightarrow> time" where
  "window_end next_departure now departure tz =
     (let horizon = now + hours_us 24 in
      case departure of
        None \<Rightarrow> horizon
      | Some d \<Rightarrow> if d = [] then horizon
          else (case next_departure now d tz of None \<Rightarrow> horizon | Some t \<Rightarrow> min t horizon))"

subsection \<open>Decisions on the spot price\<close>

definition everyday_schedule_decision :: "rat option \<Rightarrow> rat option \<Rightarrow> bool \<times> string" where
  "everyday_schedule_decision current average = (case (current, average) of
     (Some c, Some a) \<Rightarrow>
       if c \<le> a then (True, ''normal_price_ok'')
       else if c > a * RED_PRICE_RATIO then (False, ''smart_wait_expensive'')
       else (False, ''smart_wait_cheaper'')
   | _ \<Rightarrow> (False, ''no_forecast''))"

text \<open>The hours the balanced rule picks.\<close>

definition hours_needed :: "rat \<Rightarrow> rat \<Rightarrow> nat \<Rightarrow> int" where
  "hours_needed charge_hours urgency n_slots =
     min (max 1 \<lfloor>charge_hours + urgency * charge_hours + 999/1000\<rfloor>) (max 1 (int n_slots - 1))"

definition balanced_urgency_decision ::
  "time \<Rightarrow> (time \<times> rat) list \<Rightarrow> rat option \<Rightarrow> rat option \<Rightarrow> rat \<Rightarrow> rat \<Rightarrow> bool \<times> string" where
  "balanced_urgency_decision now slots current average charge_hours urgency =
     (if (case (current, average) of (Some c, Some a) \<Rightarrow> c \<le> a | _ \<Rightarrow> False)
      then (True, ''smart_urgency_balanced'')
      else
        let cheapest = take (nat (hours_needed charge_hours urgency (length slots)))
                         (sort_key snd slots) in
        if hour_key now \<in> set (map (hour_key \<circ> fst) cheapest) then (True, ''smart_scheduled'')
        else (False, ''smart_wait_cheaper''))"

definition green_price_decision :: "time \<Rightarrow> (time \<times> rat) list \<Rightarrow> bool \<times> string" where
  "green_price_decision now slots = (case average_price slots of
     None \<Rightarrow> (False, ''no_forecast'')
   | Some average \<Rightarrow>
       (case find (\<lambda>s. hour_key (fst s) = hour_key now) slots of
          None \<Rightarrow> (False, ''no_forecast_in_window'')
        | Some s \<Rightarrow> if is_green_price (snd s) average then (True, ''smart_green_price'')
                    else (False, ''smart_wait_cheaper'')))"

definition price_at_most :: "rat option \<Rightarrow> rat \<Rightarrow> bool" where
  "price_at_most price limit \<longleftrightarrow> (case price of None \<Rightarrow> False | Some p \<Rightarrow> p \<le> limit)"

definition should_charge_smart ::
  "departure_clock \<Rightarrow> time \<Rightarrow> string option \<Rightarrow> forecast \<Rightarrow> rat option \<Rightarrow> rat \<Rightarrow> rat \<Rightarrow> string \<Rightarrow> string
   \<Rightarrow> rat \<Rightarrow> bool \<times> string" where
  "should_charge_smart nd now departure forecast current threshold charge_hours tz mode urgency =
     (if price_at_most current threshold then (True, ''cheap_now'')
      else if forecast = [] then
        (if (case current of None \<Rightarrow> False | Some p \<Rightarrow> threshold < p)
         then (False, ''expensive_no_forecast'') else (False, ''no_forecast''))
      else
        let slots = hourly_slots forecast now (window_end nd now departure tz) in
        if slots = [] then
          (if price_at_most current threshold then (True, ''cheap_now'')
           else (False, ''no_forecast_in_window''))
        else
          let average = average_price slots in
          if (case (current, average) of (Some p, Some a) \<Rightarrow> is_green_price p a | _ \<Rightarrow> False)
          then (True, ''cheap_now'')
          else if mode = ''none'' then everyday_schedule_decision current average
          else
            let clamped = max 0 (min 1 urgency) in
            if 8/10 \<le> clamped then (True, ''deadline_risk'')
            else if 4/10 \<le> clamped
            then balanced_urgency_decision now slots current average charge_hours clamped
            else green_price_decision now slots)"

definition should_charge_by_price ::
  "departure_clock \<Rightarrow> time \<Rightarrow> forecast \<Rightarrow> rat option \<Rightarrow> rat \<Rightarrow> rat \<Rightarrow> bool \<times> string" where
  "should_charge_by_price nd now forecast current threshold charge_hours =
     should_charge_smart nd now None forecast current threshold charge_hours
       ''Europe/Stockholm'' ''departure'' 0"

definition resolve_schedule_mode :: "string option \<Rightarrow> time option \<Rightarrow> string" where
  "resolve_schedule_mode departure deadline =
     (case deadline of Some _ \<Rightarrow> ''deadline''
      | None \<Rightarrow> (case departure of None \<Rightarrow> ''none''
                 | Some d \<Rightarrow> if d = [] then ''none'' else ''departure''))"

definition price_allows_immediate_grid_charge :: "rat option \<Rightarrow> forecast \<Rightarrow> rat \<Rightarrow> time \<Rightarrow> bool" where
  "price_allows_immediate_grid_charge current forecast threshold now =
     (if price_at_most current threshold then True
      else case current of
        None \<Rightarrow> False
      | Some p \<Rightarrow>
          if forecast = [] then False
          else case average_price (hourly_slots forecast (now - hours_us 1) (now + hours_us 24)) of
            None \<Rightarrow> False
          | Some a \<Rightarrow> is_green_price p a)"

subsection \<open>Decisions on the import price\<close>

definition has_import_prices :: "rat option \<Rightarrow> forecast \<Rightarrow> bool" where
  "has_import_prices current forecast \<longleftrightarrow> current \<noteq> None \<and> 4 \<le> length forecast"

definition period_import_price :: "time \<Rightarrow> rat \<Rightarrow> forecast \<Rightarrow> rat" where
  "period_import_price period_start current forecast =
     (case find (\<lambda>s. fst s = period_start) forecast of None \<Rightarrow> current | Some s \<Rightarrow> snd s)"

definition should_charge_import_price ::
  "time \<Rightarrow> time option \<Rightarrow> rat option \<Rightarrow> forecast \<Rightarrow> rat \<Rightarrow> bool \<times> string" where
  "should_charge_import_price now period current forecast urgency = (case current of
     None \<Rightarrow> (False, ''import_price_missing'')
   | Some import_price \<Rightarrow>
       if forecast = [] then (False, ''import_price_missing'')
       else
         let period_start = or_else period (align_period_start now);
             clamped = max 0 (min 1 urgency) in
         if 8/10 \<le> clamped then (True, ''import_deadline_risk'')
         else
           let slots = filter (\<lambda>s. now \<le> fst s \<and> fst s \<le> now + hours_us 18) forecast in
           if slots = [] then (False, ''import_no_forecast'')
           else
             let average = sum_list (map snd slots) / of_nat (length slots);
                 period_price = period_import_price period_start import_price forecast in
             if 4/10 \<le> clamped \<and> period_price \<le> average then (True, ''import_balanced_urgency'')
             else if period_price \<le> average * GREEN_PRICE_RATIO then (True, ''import_cheap_now'')
             else (False, ''import_wait_cheaper''))"

definition import_price_allows_immediate_grid_charge :: "rat option \<Rightarrow> forecast \<Rightarrow> time \<Rightarrow> bool" where
  "import_price_allows_immediate_grid_charge current forecast now =
     fst (should_charge_import_price now None current forecast 0)"

subsection \<open>Power to current\<close>

text \<open>The double nearest to the square root of 3, as \<open>math.sqrt(3)\<close> returns it.\<close>

definition sqrt3 :: rat where
  "sqrt3 = 3900231685776981 / 2251799813685248"

definition phase_voltage :: "int \<Rightarrow> rat \<Rightarrow> rat" where
  "phase_voltage n voltage = (if 3 \<le> n then sqrt3 * voltage else voltage)"

definition power_to_current_a :: "rat \<Rightarrow> int \<Rightarrow> rat \<Rightarrow> rat \<Rightarrow> rat \<Rightarrow> rat \<Rightarrow> rat option \<Rightarrow> rat" where
  "power_to_current_a power_w n voltage factor min_a max_a max_power =
     (if power_w \<le> 0 then 0
      else
        let power_w = (case max_power of None \<Rightarrow> power_w | Some m \<Rightarrow> min power_w m);
            denominator = phase_voltage n voltage * factor in
        if denominator \<le> 0 then 0
        else
          let current = power_w / denominator in
          if current < min_a then 0 else min current max_a)"

definition current_to_power_w :: "rat \<Rightarrow> int \<Rightarrow> rat \<Rightarrow> rat \<Rightarrow> rat" where
  "current_to_power_w current n voltage factor =
     (if current \<le> 0 then 0 else current * phase_voltage n voltage * factor)"

subsection \<open>The hourly slots hold the cheapest price of each hour\<close>

text \<open>The prices the forecast has for one hour, within the window.\<close>

definition hour_prices :: "forecast \<Rightarrow> time \<Rightarrow> time \<Rightarrow> time \<Rightarrow> rat set" where
  "hour_prices forecast start until h =
     {p. \<exists>t. (t, p) \<in> set forecast \<and> start \<le> t \<and> t \<le> until \<and> hour_key t = h}"

lemma hour_prices_Nil [simp]: "hour_prices [] start until h = {}"
  by (simp add: hour_prices_def)

lemma hour_prices_snoc:
  "hour_prices (fs @ [tp]) start until h = hour_prices fs start until h \<union>
     (if start \<le> fst tp \<and> fst tp \<le> until \<and> hour_key (fst tp) = h then {snd tp} else {})"
  by (cases tp) (auto simp: hour_prices_def)

lemma finite_hour_prices [simp]: "finite (hour_prices fs start until h)"
  by (rule finite_subset [of _ "snd ` set fs"]) (force simp: hour_prices_def)+

lemma add_slot_distinct: "distinct (map fst d) \<Longrightarrow> distinct (map fst (add_slot start until d tp))"
  by (simp add: add_slot_def Let_def distinct_keys_update split: option.split)

lemma collect_slots:
  defines "collect \<equiv> \<lambda>start until fs. foldl (add_slot start until) [] fs"
  shows "distinct (map fst (collect start until fs)) \<and>
    map_of (collect start until fs) h =
      (if hour_prices fs start until h = {} then None else Some (Min (hour_prices fs start until h)))"
proof (induction fs arbitrary: h rule: rev_induct)
  case Nil
  then show ?case by (simp add: collect_def)
next
  case (snoc tp fs)
  let ?d = "collect start until fs" and ?P = "hour_prices fs start until"
  have d: "collect start until (fs @ [tp]) = add_slot start until ?d tp" by (simp add: collect_def)
  have IH: "map_of ?d k = (if ?P k = {} then None else Some (Min (?P k)))" for k
    using snoc.IH by blast
  show ?case
  proof (cases "start \<le> fst tp \<and> fst tp \<le> until \<and> hour_key (fst tp) = h")
    case False
    then have "map_of (add_slot start until ?d tp) h = map_of ?d h"
      by (auto simp: add_slot_def Let_def split: option.splits)
    then show ?thesis using False snoc.IH add_slot_distinct by (auto simp: d hour_prices_snoc)
  next
    case True
    then have P: "hour_prices (fs @ [tp]) start until h = insert (snd tp) (?P h)"
      by (simp add: hour_prices_snoc)
    have "map_of (add_slot start until ?d tp) h = Some (Min (insert (snd tp) (?P h)))"
    proof (cases "?P h = {}")
      case empty: True
      then show ?thesis using True IH [of h] by (simp add: add_slot_def Let_def)
    next
      case False
      define m where "m = Min (?P h)"
      have "Min (insert (snd tp) (?P h)) = min (snd tp) m" using False by (simp add: m_def)
      then show ?thesis
        using True IH [of h] False by (simp add: add_slot_def Let_def min_def m_def [symmetric])
    qed
    then show ?thesis using snoc.IH add_slot_distinct by (auto simp: d P)
  qed
qed

lemma map_of_sort_key:
  assumes "distinct (map fst d)"
  shows "map_of (sort_key f d) = map_of d" and "distinct (map fst (sort_key f d))"
proof -
  show "distinct (map fst (sort_key f d))" using assms by (simp add: distinct_map)
  then show "map_of (sort_key f d) = map_of d" using assms by (subst map_of_inject_set) simp_all
qed

lemma hourly_slots_spec:
  "map_of (hourly_slots fs start until) h =
     (if hour_prices fs start until h = {} then None else Some (Min (hour_prices fs start until h)))"
  "sorted (map fst (hourly_slots fs start until))"
  "distinct (map fst (hourly_slots fs start until))"
  using collect_slots [of start until fs] by (simp_all add: hourly_slots_def map_of_sort_key)

subsection \<open>A lower price never stops charging\<close>

lemma is_green_price_mono: "p' \<le> p \<Longrightarrow> is_green_price p a \<Longrightarrow> is_green_price p' a"
  by (simp add: is_green_price_def)

lemma everyday_mono:
  "p' \<le> p \<Longrightarrow> fst (everyday_schedule_decision (Some p) a) \<Longrightarrow> fst (everyday_schedule_decision (Some p') a)"
  by (cases a) (auto simp: everyday_schedule_decision_def split: if_splits)

lemma balanced_mono:
  "p' \<le> p \<Longrightarrow> fst (balanced_urgency_decision now slots (Some p) a ch u) \<Longrightarrow>
     fst (balanced_urgency_decision now slots (Some p') a ch u)"
  by (cases a) (auto simp: balanced_urgency_decision_def Let_def split: if_splits)

lemma schedule_mono:
  assumes "p' \<le> p"
    and "fst (should_charge_smart nd now dep fs (Some p) th ch tz mode u)"
  shows "fst (should_charge_smart nd now dep fs (Some p') th ch tz mode u)"
proof (cases "p' \<le> th \<or> fs = []")
  case True
  then show ?thesis using assms
    by (auto simp: should_charge_smart_def price_at_most_def split: if_splits)
next
  case False
  let ?slots = "hourly_slots fs now (window_end nd now dep tz)"
  show ?thesis
  proof (cases "average_price ?slots")
    case None
    then show ?thesis using assms False
      by (auto simp: should_charge_smart_def price_at_most_def average_price_def Let_def split: if_splits)
  next
    case (Some a)
    then have slots: "?slots \<noteq> []" by (auto simp: average_price_def)
    show ?thesis
    proof (cases "is_green_price p' a")
      case True
      then show ?thesis using False slots Some by (simp add: should_charge_smart_def Let_def)
    next
      case not_green: False
      then have "\<not> is_green_price p a" using assms(1) is_green_price_mono by blast
      define k where "k = max 0 (min 1 u)"
      have eq: "should_charge_smart nd now dep fs (Some q) th ch tz mode u =
          (if mode = ''none'' then everyday_schedule_decision (Some q) (Some a)
           else if 8/10 \<le> k then (True, ''deadline_risk'')
           else if 4/10 \<le> k then balanced_urgency_decision now ?slots (Some q) (Some a) ch k
           else green_price_decision now ?slots)"
        if "\<not> is_green_price q a" "\<not> q \<le> th" for q
        using that False slots Some
        by (simp add: should_charge_smart_def Let_def price_at_most_def k_def [symmetric])
      have "\<not> p \<le> th" using False assms(1) by auto
      then show ?thesis
        using assms eq [OF not_green] eq [OF \<open>\<not> is_green_price p a\<close>] False
          everyday_mono [OF assms(1)] balanced_mono [OF assms(1)]
        by (auto split: if_splits)
    qed
  qed
qed

subsection \<open>The current never draws more than the power\<close>

lemma power_to_current_bounds:
  assumes "0 < min_a" "min_a \<le> max_a"
  shows "power_to_current_a pw n v pf min_a max_a mp = 0
    \<or> min_a \<le> power_to_current_a pw n v pf min_a max_a mp
      \<and> power_to_current_a pw n v pf min_a max_a mp \<le> max_a"
  using assms by (simp add: power_to_current_a_def Let_def)

lemma power_to_current_within_power:
  assumes "0 < min_a"
  shows "current_to_power_w (power_to_current_a pw n v pf min_a max_a mp) n v pf \<le> max 0 pw
    \<and> (case mp of None \<Rightarrow> True | Some m \<Rightarrow>
        current_to_power_w (power_to_current_a pw n v pf min_a max_a mp) n v pf \<le> max 0 m)"
proof -
  define den where "den = phase_voltage n v * pf"
  define lim where "lim = (case mp of None \<Rightarrow> pw | Some m \<Rightarrow> min pw m)"
  define cur where "cur = power_to_current_a pw n v pf min_a max_a mp"
  have cur: "cur = (if pw \<le> 0 then 0 else if den \<le> 0 then 0
      else if lim / den < min_a then 0 else min (lim / den) max_a)"
    by (simp add: cur_def power_to_current_a_def Let_def den_def lim_def)
  have "current_to_power_w cur n v pf \<le> max 0 lim"
  proof (cases "cur \<le> 0")
    case False
    then have den: "0 < den" and "cur \<le> lim / den" by (auto simp: cur split: if_splits)
    then have "cur * den \<le> lim" by (simp add: pos_le_divide_eq)
    then show ?thesis using False by (simp add: current_to_power_w_def den_def mult.assoc)
  qed (simp add: current_to_power_w_def)
  then show ?thesis unfolding cur_def [symmetric] lim_def by (auto split: option.splits)
qed

subsection \<open>Properties\<close>

text \<open>Monotone in the price: when the spot-price schedule charges at some current price, it
  also charges at every lower one, whatever the forecast, the departure, the schedule mode and the
  urgency.\<close>

theorem lower_price_keeps_charging:
  assumes "p' \<le> p"
    and "fst (should_charge_smart nd now dep fs (Some p) th ch tz mode u)"
  shows "fst (should_charge_smart nd now dep fs (Some p') th ch tz mode u)"
  using assms by (rule schedule_mono)

theorem lower_price_keeps_charging_witness:
  "fst (should_charge_smart (\<lambda>_ _ _. None) 0 None [(0, 1), (hours_us 1, 3)] (Some (1/2)) (1/10) 4
      ''UTC'' ''none'' 0)"
proof (rule lower_price_keeps_charging [of "1/2" 2])
  show "fst (should_charge_smart (\<lambda>_ _ _. None) 0 None [(0, 1), (hours_us 1, 3)] (Some 2) (1/10) 4
      ''UTC'' ''none'' 0)"
    by code_simp
qed simp

text \<open>The hourly slots of a forecast are sorted, one per hour, and hold for exactly the hours
  of the window with a price the lowest price of that hour.\<close>

theorem hourly_slots_cheapest:
  "sorted (map fst (hourly_slots fs start until)) \<and> distinct (map fst (hourly_slots fs start until))
   \<and> map_of (hourly_slots fs start until) h =
       (if hour_prices fs start until h = {} then None else Some (Min (hour_prices fs start until h)))"
  by (simp add: hourly_slots_spec)

text \<open>Charging on surplus draws no more than the surplus: the power of the current computed
  from a power never exceeds that power, nor the configured maximum power.\<close>

theorem surplus_never_exceeded:
  assumes "0 < min_a"
  shows "current_to_power_w (power_to_current_a pw n v pf min_a max_a mp) n v pf \<le> max 0 pw
    \<and> (case mp of None \<Rightarrow> True | Some m \<Rightarrow>
        current_to_power_w (power_to_current_a pw n v pf min_a max_a mp) n v pf \<le> max 0 m)"
  using assms by (rule power_to_current_within_power)

theorem surplus_never_exceeded_witness:
  "current_to_power_w (power_to_current_a 5000 3 230 1 6 16 None) 3 230 1 \<le> 5000"
  using surplus_never_exceeded [of 6 5000 3 230 1 16 None] by simp

end
