(* ===== verification/Charging_Optimizer.thy ===== *)
theory Charging_Optimizer
  imports Charging_Schedule Charging_Machine
begin

section \<open>The charging optimizer\<close>

text \<open>
  \<open>charging/optimizer.py\<close> (the target current of each mode), \<open>charging/signal_filter.py\<close>
  and \<open>charging/override.py\<close>, over the \<open>EnergyState\<close> of \<open>energy/state.py\<close>. The
  optimizer's mutable part is \<open>SolarDelayState\<close>: \<open>optimize_target\<close> returns it updated.
  Of a \<open>SolarChargingPlan\<close> only the flag \<open>solar_first\<close> is read.
\<close>

record energy_state =
  en_timestamp :: time
  en_electricity_price_eur_kwh :: "rat option"
  en_price_forecast :: forecast
  en_import_price_sek_kwh :: "rat option"
  en_import_price_forecast :: forecast
  en_pv_power_w :: "rat option"
  en_grid_import_w :: "rat option"
  en_grid_export_w :: "rat option"
  en_home_consumption_w :: "rat option"
  en_battery_power_w :: "rat option"
  en_battery_charge_power_w :: "rat option"
  en_battery_discharge_power_w :: "rat option"
  en_battery_soc :: "rat option"
  en_heartbeat_charging_mode :: "string option"
  en_heartbeat_smart_charge_active :: bool
  en_ev_charge_from_grid_recommended :: bool
  en_departure_time :: "string option"
  en_vehicle_required_energy_kwh :: "rat option"
  en_data_age_seconds :: seconds
  en_stale :: bool

text \<open>\<open>EnergyState.with_age\<close>.\<close>

definition with_age :: "energy_state \<Rightarrow> time \<Rightarrow> energy_state" where
  "with_age e now = e\<lparr> en_data_age_seconds := max 0 (elapsed_s now (en_timestamp e)) \<rparr>"

subsection \<open>The signal filter\<close>

definition raw_signals :: "energy_state \<Rightarrow> energy_signals" where
  "raw_signals e =
     (let charge = (case en_battery_charge_power_w e of Some x \<Rightarrow> Some x
          | None \<Rightarrow> map_option (max 0) (en_battery_power_w e));
          discharge = (case en_battery_discharge_power_w e of Some x \<Rightarrow> Some x
          | None \<Rightarrow> map_option (\<lambda>p. max 0 (- p)) (en_battery_power_w e)) in
      \<lparr> grid_import_w = or_else (en_grid_import_w e) 0, grid_export_w = or_else (en_grid_export_w e) 0,
        pv_power_w = or_else (en_pv_power_w e) 0,
        home_consumption_w = or_else (en_home_consumption_w e) 0,
        battery_charge_power_w = or_else charge 0, battery_discharge_power_w = or_else discharge 0 \<rparr>)"

definition ewma :: "rat \<Rightarrow> rat \<Rightarrow> rat \<Rightarrow> rat" where
  "ewma previous current alpha = previous + alpha * (current - previous)"

definition blend :: "energy_signals \<Rightarrow> energy_signals \<Rightarrow> rat \<Rightarrow> energy_signals" where
  "blend p c a = \<lparr> grid_import_w = ewma (grid_import_w p) (grid_import_w c) a,
     grid_export_w = ewma (grid_export_w p) (grid_export_w c) a,
     pv_power_w = ewma (pv_power_w p) (pv_power_w c) a,
     home_consumption_w = ewma (home_consumption_w p) (home_consumption_w c) a,
     battery_charge_power_w = ewma (battery_charge_power_w p) (battery_charge_power_w c) a,
     battery_discharge_power_w = ewma (battery_discharge_power_w p) (battery_discharge_power_w c) a \<rparr>"

record signal_filter =
  sf_fast_alpha :: rat
  sf_slow_alpha :: rat
  sf_fast :: "energy_signals option"
  sf_slow :: "energy_signals option"

definition initial_filter :: signal_filter where
  "initial_filter = \<lparr> sf_fast_alpha = 35/100, sf_slow_alpha = 12/100, sf_fast = None, sf_slow = None \<rparr>"

text \<open>\<open>EnergySignalFilter.update\<close>; \<open>None\<close> is the failed assertion.\<close>

definition update_filter ::
  "signal_filter \<Rightarrow> energy_state \<Rightarrow> (signal_filter \<times> energy_signals \<times> energy_signals) option" where
  "update_filter f e =
     (let raw = raw_signals e in
      case sf_fast f of
        None \<Rightarrow> Some (f\<lparr> sf_fast := Some raw, sf_slow := Some raw \<rparr>, raw, raw)
      | Some fast \<Rightarrow> (case sf_slow f of
          None \<Rightarrow> None
        | Some slow \<Rightarrow>
            let fast' = blend fast raw (sf_fast_alpha f); slow' = blend slow raw (sf_slow_alpha f)
            in Some (f\<lparr> sf_fast := Some fast', sf_slow := Some slow' \<rparr>, fast', slow')))"

subsection \<open>Override\<close>

definition override_active :: "time option \<Rightarrow> time \<Rightarrow> bool" where
  "override_active until now = (case until of None \<Rightarrow> False | Some t \<Rightarrow> now < t)"

definition ALLOWED_OVERRIDE_HOURS :: "int list" where
  "ALLOWED_OVERRIDE_HOURS = [4, 8, 12, 24]"

definition override_until_from_hours :: "int \<Rightarrow> time \<Rightarrow> string + time" where
  "override_until_from_hours hours now =
     (if hours \<notin> set ALLOWED_OVERRIDE_HOURS then Inl ''Unsupported override duration''
      else Inr (now + hours_us hours))"

text \<open>\<open>override_decision\<close>; the configuration has the fields of \<open>BridgeChargerConfig\<close>.\<close>

record bridge_config =
  bc_max_current_a :: rat
  bc_min_current_a :: rat
  bc_phases :: int
  bc_nominal_voltage_v :: rat
  bc_max_power_w :: "rat option"

definition max_allowed_power :: "bridge_config \<Rightarrow> rat" where
  "max_allowed_power b = (case bc_max_power_w b of Some p \<Rightarrow> p
     | None \<Rightarrow> bc_max_current_a b * phase_voltage (bc_phases b) (bc_nominal_voltage_v b))"

definition override_decision :: "bridge_config \<Rightarrow> charging_decision" where
  "override_decision b =
     (let pw = max_allowed_power b;
          current = power_to_current_a pw (bc_phases b) (bc_nominal_voltage_v b) 1
            (bc_min_current_a b) (bc_max_current_a b) (bc_max_power_w b) in
      \<lparr> d_requested_current_a = current, d_applied_current_a = current,
        d_requested_power_w = Some pw, d_action = (if current \<noteq> 0 then ''set_current'' else ''pause''),
        d_reason = ''manual_override'', d_policy_mode = ''override'', d_skip_apply = False,
        d_smart_charging_state = None, d_externally_limited = False \<rparr>)"

subsection \<open>Urgency\<close>

definition DEADLINE_RELAXED_FACTOR :: rat where "DEADLINE_RELAXED_FACTOR = 3"
definition DEADLINE_RISK_URGENCY :: rat where "DEADLINE_RISK_URGENCY = 8/10"
definition SOLAR_DEFER_MAX_URGENCY :: rat where "SOLAR_DEFER_MAX_URGENCY = 1/2"

definition PRICE_CHARGE_REASONS :: "string list" where
  "PRICE_CHARGE_REASONS = [''cheap_now'', ''smart_scheduled'', ''smart_green_price'',
     ''normal_price_ok'', ''smart_urgency_balanced'']"

definition charging_urgency :: "time \<Rightarrow> time option \<Rightarrow> charging_config \<Rightarrow> rat" where
  "charging_urgency now deadline c = (case deadline of
     None \<Rightarrow> 0
   | Some d \<Rightarrow>
       if d \<le> now then 1
       else
         let hours_left = elapsed_s d now / 3600;
             urgent_hours = max (1/2) (smart_charge_hours c);
             relaxed_hours = urgent_hours * DEADLINE_RELAXED_FACTOR in
         if hours_left \<le> urgent_hours then 1
         else if relaxed_hours \<le> hours_left then 0
         else (relaxed_hours - hours_left) / (relaxed_hours - urgent_hours))"

definition energy_charging_urgency :: "rat \<Rightarrow> rat \<Rightarrow> rat \<Rightarrow> rat" where
  "energy_charging_urgency required hours_left power_kw =
     (if required \<le> 5/100 then 0
      else if hours_left \<le> 0 then 1
      else if power_kw \<le> 0 then 1/2
      else
        let needed = required / power_kw * (11/10) in
        if hours_left \<le> needed then 1
        else
          let relaxed = max (hours_left * (1/2)) (1/2) in
          if needed \<le> relaxed then 0
          else (needed - relaxed) / max (hours_left - relaxed) (1/100))"

definition power_for_current :: "rat \<Rightarrow> charging_config \<Rightarrow> rat" where
  "power_for_current a c =
     (if a \<le> 0 then 0 else a * phase_voltage (phases c) (nominal_voltage_v c))"

definition estimate_charge_power_kw :: "charging_config \<Rightarrow> rat" where
  "estimate_charge_power_kw c = power_for_current (max_current_a c) c / 1000"

definition combined_charging_urgency ::
  "time \<Rightarrow> time option \<Rightarrow> charging_config \<Rightarrow> rat option \<Rightarrow> rat" where
  "combined_charging_urgency now deadline c required =
     (let time_urgency = charging_urgency now deadline c in
      case (deadline, required) of
        (Some d, Some k) \<Rightarrow>
          if k \<le> 0 then time_urgency
          else max time_urgency
            (energy_charging_urgency k (max 0 (elapsed_s d now / 3600)) (estimate_charge_power_kw c))
      | _ \<Rightarrow> time_urgency)"

subsection \<open>Targets\<close>

record solar_delay_state =
  sd_export_above_start_since :: "time option"
  sd_export_below_stop_since :: "time option"

definition initial_solar :: solar_delay_state where
  "initial_solar = \<lparr> sd_export_above_start_since = None, sd_export_below_stop_since = None \<rparr>"

record optimizer_target =
  ot_target_current_a :: rat
  ot_reason :: string

definition target :: "rat \<Rightarrow> string \<Rightarrow> optimizer_target" where
  "target a r = \<lparr> ot_target_current_a = a, ot_reason = r \<rparr>"

definition effective_export_w :: "energy_state \<Rightarrow> rat" where
  "effective_export_w e = (case en_grid_export_w e of
     Some x \<Rightarrow> max 0 (max 0 x - or_else (en_battery_discharge_power_w e) 0)
   | None \<Rightarrow>
       let charge = (case en_battery_charge_power_w e of Some b \<Rightarrow> Some b
          | None \<Rightarrow> map_option (max 0) (en_battery_power_w e)) in
       max 0 (or_else (en_pv_power_w e) 0 - or_else (en_home_consumption_w e) 0 - or_else charge 0))"

definition battery_blocks_ev :: "energy_state \<Rightarrow> charging_config \<Rightarrow> bool" where
  "battery_blocks_ev e c = (case (en_battery_soc e, en_battery_power_w e) of
     (Some soc, Some p) \<Rightarrow> soc < battery_low_soc_threshold c \<and> p > battery_charge_power_threshold_w c
   | _ \<Rightarrow> False)"

definition max_current :: "charging_config \<Rightarrow> rat" where
  "max_current c = max 0 (max_current_a c)"

definition clamp_current :: "rat \<Rightarrow> charging_config \<Rightarrow> rat" where
  "clamp_current a c =
     (if a \<le> 0 then 0
      else let a = min a (max_current_a c) in if a < min_current_a c then 0 else a)"

definition surplus_current :: "rat \<Rightarrow> charging_config \<Rightarrow> rat" where
  "surplus_current export_w c = clamp_current
     (power_to_current_a export_w (phases c) (nominal_voltage_v c) 1 (min_current_a c)
        (max_current_a c) (max_power_w c)) c"

definition state_has_import_prices :: "energy_state \<Rightarrow> bool" where
  "state_has_import_prices e =
     has_import_prices (en_import_price_sek_kwh e) (en_import_price_forecast e)"

definition optimize_solar_target ::
  "solar_delay_state \<Rightarrow> energy_state \<Rightarrow> charging_config \<Rightarrow> time \<Rightarrow> solar_delay_state \<times> optimizer_target" where
  "optimize_solar_target s e c now =
     (let export_w = effective_export_w e in
      if (case en_grid_import_w e of None \<Rightarrow> False | Some w \<Rightarrow> grid_deadband_w c < w)
      then (initial_solar, target 0 ''grid_import'')
      else if solar_start_threshold_w c \<le> export_w then
        let since = or_else (sd_export_above_start_since s) now;
            s1 = s\<lparr> sd_export_above_start_since := Some since, sd_export_below_stop_since := None \<rparr> in
        if elapsed_s now since < solar_start_delay_seconds c then (s1, target 0 ''solar_start_delay'')
        else
          let current = surplus_current export_w c in
          if current \<le> 0 then (s1, target 0 ''insufficient_export'')
          else (s1, target current ''stable_grid_export'')
      else if export_w \<le> solar_stop_threshold_w c then
        let since = or_else (sd_export_below_stop_since s) now;
            s1 = s\<lparr> sd_export_above_start_since := None, sd_export_below_stop_since := Some since \<rparr> in
        if solar_stop_delay_seconds c \<le> elapsed_s now since
        then (initial_solar, target 0 ''insufficient_export'')
        else (s1, target 0 ''solar_stop_delay'')
      else (initial_solar, target 0 ''export_hysteresis''))"

definition optimize_price_target ::
  "departure_clock \<Rightarrow> energy_state \<Rightarrow> charging_config \<Rightarrow> time \<Rightarrow> optimizer_target" where
  "optimize_price_target nd e c now =
     (if battery_blocks_ev e c then target 0 ''battery_priority''
      else
        let (charge, reason) =
          (if state_has_import_prices e
           then should_charge_import_price now (Some (align_period_start now))
                  (en_import_price_sek_kwh e) (en_import_price_forecast e) 0
           else should_charge_by_price nd now (en_price_forecast e) (en_electricity_price_eur_kwh e)
                  (expensive_price_eur_kwh c) (smart_charge_hours c)) in
        target (if charge then max_current c else 0) reason)"

definition should_wait_for_solar_forecast ::
  "bool option \<Rightarrow> rat \<Rightarrow> energy_state \<Rightarrow> charging_config \<Rightarrow> time \<Rightarrow> bool" where
  "should_wait_for_solar_forecast solar_first urgency e c now =
     (if solar_first \<noteq> Some True then False
      else if SOLAR_DEFER_MAX_URGENCY \<le> urgency then False
      else if state_has_import_prices e
      then \<not> import_price_allows_immediate_grid_charge (en_import_price_sek_kwh e)
             (en_import_price_forecast e) now
      else \<not> price_allows_immediate_grid_charge (en_electricity_price_eur_kwh e)
             (en_price_forecast e) (expensive_price_eur_kwh c) now)"

text \<open>\<open>a or b\<close> on optional strings.\<close>

definition str_or :: "string option \<Rightarrow> string option \<Rightarrow> string option" where
  "str_or a b = (if truthy_str a then a else b)"

definition deadline_from_departure :: "departure_clock \<Rightarrow> time \<Rightarrow> string option \<Rightarrow> string \<Rightarrow> time option" where
  "deadline_from_departure nd now departure tz =
     (if truthy_str departure then nd now (the departure) tz else None)"

definition smart_deadline :: "departure_clock \<Rightarrow> energy_state \<Rightarrow> charging_config \<Rightarrow> time \<Rightarrow> time option" where
  "smart_deadline nd e c now = (case deadline_at c of Some d \<Rightarrow> Some d
     | None \<Rightarrow> deadline_from_departure nd now (str_or (departure_time c) (en_departure_time e))
                 (timezone c))"

definition optimize_smart_target ::
  "departure_clock \<Rightarrow> energy_state \<Rightarrow> charging_config \<Rightarrow> time \<Rightarrow> bool option \<Rightarrow> optimizer_target" where
  "optimize_smart_target nd e c now solar_first =
     (let deadline = smart_deadline nd e c now;
          urgency = combined_charging_urgency now deadline c (en_vehicle_required_energy_kwh e);
          export_w = effective_export_w e;
          surplus = surplus_current export_w c;
          grid_needed = (solar_first = Some False);
          (import_charge, import_reason) =
            should_charge_import_price now (Some (align_period_start now))
              (en_import_price_sek_kwh e) (en_import_price_forecast e) urgency;
          departure = str_or (departure_time c) (en_departure_time e);
          (charge, reason) =
            should_charge_smart nd now departure (en_price_forecast e)
              (en_electricity_price_eur_kwh e) (expensive_price_eur_kwh c) (smart_charge_hours c)
              (timezone c) (resolve_schedule_mode departure (deadline_at c)) urgency in
      if (case deadline of None \<Rightarrow> False | Some d \<Rightarrow> d \<le> now)
      then target (max_current c) ''deadline_overdue''
      else if DEADLINE_RISK_URGENCY \<le> urgency then target (max_current c) ''deadline_risk''
      else if solar_start_threshold_w c \<le> export_w \<and> 0 < surplus
      then target surplus ''smart_solar_surplus''
      else if should_wait_for_solar_forecast solar_first urgency e c now
      then target 0 ''solar_forecast_wait''
      else if state_has_import_prices e \<and> import_charge
      then target (max_current c)
             (if grid_needed \<and> starts_with import_reason ''import_''
              then ''solar_forecast_partial_grid'' else import_reason)
      else if state_has_import_prices e \<and> urgency < DEADLINE_RISK_URGENCY
      then target 0 (if grid_needed then ''solar_forecast_wait_cheaper'' else import_reason)
      else if charge
      then target (max_current c)
             (if grid_needed \<and> reason \<in> set PRICE_CHARGE_REASONS
              then ''solar_forecast_partial_grid'' else reason)
      else target 0 (if grid_needed then ''solar_forecast_wait_cheaper'' else reason))"

definition optimize_target ::
  "departure_clock \<Rightarrow> solar_delay_state \<Rightarrow> energy_state \<Rightarrow> charging_config \<Rightarrow> string option \<Rightarrow> bool
   \<Rightarrow> time \<Rightarrow> bool option \<Rightarrow> solar_delay_state \<times> optimizer_target" where
  "optimize_target nd s e c charging_mode override now solar_first =
     (let mode = normalized_mode (str_or charging_mode (en_heartbeat_charging_mode e)) in
      if en_stale e then (s, target 0 ''stale_data'')
      else if respects_manual_pause (Some mode) override then (s, target 0 ''user_paused'')
      else if override then (s, target (max_current c) ''override'')
      else if mode \<in> set QUICK_MODES then (s, target (max_current c) ''quick_charge'')
      else if battery_blocks_ev e c then (s, target 0 ''battery_priority'')
      else if mode \<in> set SOLAR_MODES then optimize_solar_target s e c now
      else if normalized_mode (Some mode) \<in> set PRICE_MODES then (s, optimize_price_target nd e c now)
      else if uses_price_optimization (Some mode) False \<or> en_heartbeat_smart_charge_active e
      then (s, optimize_smart_target nd e c now solar_first)
      else if en_ev_charge_from_grid_recommended e \<and> \<not> state_has_import_prices e
      then (s, target (max_current c) ''cheap_grid_charge'')
      else (s, target 0 ''no_signal''))"

text \<open>\<open>_target_to_decision\<close> and \<open>optimize\<close>.\<close>

definition target_to_decision :: "optimizer_target \<Rightarrow> string \<Rightarrow> charging_config \<Rightarrow> charging_decision" where
  "target_to_decision t mode c =
     (let a = ot_target_current_a t in
      if ot_reason t = ''stale_data''
      then (none_decision 0 mode (ot_reason t))
      else if a \<le> 0 then stop_decision 0 ''stop'' mode (ot_reason t)
      else (set_decision a mode (ot_reason t))\<lparr> d_requested_power_w := Some (power_for_current a c) \<rparr>)"

definition optimize ::
  "departure_clock \<Rightarrow> solar_delay_state \<Rightarrow> energy_state \<Rightarrow> charging_config \<Rightarrow> string option \<Rightarrow> bool
   \<Rightarrow> time \<Rightarrow> solar_delay_state \<times> charging_decision" where
  "optimize nd s e c charging_mode override now =
     (let mode = normalized_mode (str_or charging_mode (en_heartbeat_charging_mode e));
          (s', t) = optimize_target nd s e c (Some mode) override now None
      in (s', target_to_decision t mode c))"

subsection \<open>Targets stay within the limits\<close>

definition target_ok :: "charging_config \<Rightarrow> optimizer_target \<Rightarrow> bool" where
  "target_ok c t \<longleftrightarrow> ot_target_current_a t = 0
     \<or> min_current_a c \<le> ot_target_current_a t \<and> ot_target_current_a t \<le> max_current_a c"

lemma target_ok_simps [simp]:
  "target_ok c (target 0 r)"
  "config_ok c \<Longrightarrow> target_ok c (target (max_current c) r)"
  by (auto simp: target_ok_def target_def max_current_def config_ok_def)

lemma surplus_current_ok [simp]: "config_ok c \<Longrightarrow> target_ok c (target (surplus_current w c) r)"
  by (auto simp: target_ok_def target_def surplus_current_def clamp_current_def config_ok_def Let_def)

lemma optimize_solar_target_ok:
  "config_ok c \<Longrightarrow> target_ok c (snd (optimize_solar_target s e c now))"
  by (simp add: optimize_solar_target_def Let_def)

lemma optimize_price_target_ok: "config_ok c \<Longrightarrow> target_ok c (optimize_price_target nd e c now)"
  by (simp add: optimize_price_target_def split: prod.split)

lemma optimize_smart_target_ok: "config_ok c \<Longrightarrow> target_ok c (optimize_smart_target nd e c now sf)"
  by (simp add: optimize_smart_target_def Let_def split_beta)

lemma optimize_target_ok: "config_ok c \<Longrightarrow> target_ok c (snd (optimize_target nd s e c m ov now sf))"
  by (simp add: optimize_target_def Let_def optimize_solar_target_ok optimize_price_target_ok
      optimize_smart_target_ok)

subsection \<open>Urgency\<close>

lemma ramp_down_bounds:
  fixes x :: rat
  assumes "a < b" "a < x" "x < b"
  shows "0 \<le> (b - x) / (b - a)" "(b - x) / (b - a) \<le> 1"
  using assms by (simp_all add: divide_le_eq_1)

lemma relaxed_above_urgent: "max (1/2) h < max (1/2) h * DEADLINE_RELAXED_FACTOR" for h :: rat
  by (simp add: DEADLINE_RELAXED_FACTOR_def max_def)

lemma charging_urgency_bounds:
  "0 \<le> charging_urgency now d c \<and> charging_urgency now d c \<le> 1"
  using relaxed_above_urgent [of "smart_charge_hours c"] ramp_down_bounds
  by (auto simp: charging_urgency_def Let_def not_le split: option.split)

lemma charging_urgency_mono:
  assumes "now \<le> now'"
  shows "charging_urgency now d c \<le> charging_urgency now' d c"
proof (cases d)
  case None
  then show ?thesis by (simp add: charging_urgency_def)
next
  case (Some t)
  let ?u = "max (1/2) (smart_charge_hours c)"
  let ?r = "?u * DEADLINE_RELAXED_FACTOR"
  let ?h = "\<lambda>n. elapsed_s t n / 3600"
  have h: "?h now' \<le> ?h now"
    using elapsed_s_antimono [OF assms, of t] by (simp add: divide_right_mono)
  have u: "?u < ?r" by (rule relaxed_above_urgent)
  consider "t \<le> now' \<or> ?h now' \<le> ?u" | "\<not> t \<le> now'" "\<not> ?h now' \<le> ?u" "?r \<le> ?h now"
    | "\<not> t \<le> now'" "\<not> ?h now' \<le> ?u" "\<not> ?r \<le> ?h now" by blast
  then show ?thesis
  proof cases
    case 1
    then have "charging_urgency now' d c = 1" by (auto simp: charging_urgency_def Some Let_def)
    then show ?thesis using charging_urgency_bounds by simp
  next
    case 2
    then have "\<not> t \<le> now" "\<not> ?h now \<le> ?u" using h assms by linarith+
    then have "charging_urgency now d c = 0" using 2 by (simp add: charging_urgency_def Some Let_def)
    then show ?thesis using charging_urgency_bounds by simp
  next
    case 3
    then have "\<not> t \<le> now" "\<not> ?h now \<le> ?u" "\<not> ?r \<le> ?h now'" using h assms by linarith+
    then have "charging_urgency now d c = (?r - ?h now) / (?r - ?u)"
      "charging_urgency now' d c = (?r - ?h now') / (?r - ?u)"
      using 3 by (simp_all add: charging_urgency_def Some Let_def)
    then show ?thesis using h u by (simp only:) (simp add: divide_right_mono)
  qed
qed

lemma energy_ramp_bounds:
  fixes n h r :: rat
  assumes "n < h" "r < n"
  shows "0 \<le> (n - r) / max (h - r) (1/100) \<and> (n - r) / max (h - r) (1/100) \<le> 1"
proof -
  have "0 < max (h - r) (1/100)" "n - r \<le> max (h - r) (1/100)" "0 \<le> n - r"
    using assms by linarith+
  then show ?thesis by (metis divide_le_eq_1_pos divide_nonneg_pos)
qed

lemma energy_charging_urgency_bounds:
  "0 \<le> energy_charging_urgency k h p \<and> energy_charging_urgency k h p \<le> 1"
proof -
  define n r where "n = k / p * (11/10)" and "r = max (h * (1/2)) (1/2)"
  show ?thesis
    unfolding energy_charging_urgency_def Let_def n_def [symmetric] r_def [symmetric]
    using energy_ramp_bounds [of n h r] by (simp add: not_le)
qed

lemma combined_urgency_bounds:
  "0 \<le> combined_charging_urgency now d c k \<and> combined_charging_urgency now d c k \<le> 1"
  using charging_urgency_bounds [of now d c] energy_charging_urgency_bounds
  by (auto simp: combined_charging_urgency_def Let_def le_max_iff_disj split: option.split)

subsection \<open>The filter\<close>

lemma ewma_convex: "ewma p x a = (1 - a) * p + a * x"
  by (simp add: ewma_def algebra_simps)

lemma convex_same: "(1 - a) * z + a * z = (z :: rat)"
  by (simp add: algebra_simps)

lemma ewma_lower: "0 \<le> a \<Longrightarrow> a \<le> 1 \<Longrightarrow> lo \<le> p \<Longrightarrow> lo \<le> x \<Longrightarrow> lo \<le> ewma p x a"
  unfolding ewma_convex using add_mono [OF mult_left_mono mult_left_mono, of lo p "1 - a" lo x a]
  by (simp add: convex_same)

lemma ewma_upper: "0 \<le> a \<Longrightarrow> a \<le> 1 \<Longrightarrow> p \<le> hi \<Longrightarrow> x \<le> hi \<Longrightarrow> ewma p x a \<le> hi"
  unfolding ewma_convex using add_mono [OF mult_left_mono mult_left_mono, of p hi "1 - a" x hi a]
  by (simp add: convex_same)

definition signals_within :: "rat \<Rightarrow> rat \<Rightarrow> energy_signals \<Rightarrow> bool" where
  "signals_within lo hi g \<longleftrightarrow>
     (\<forall>x \<in> set [grid_import_w g, grid_export_w g, pv_power_w g, home_consumption_w g,
         battery_charge_power_w g, battery_discharge_power_w g]. lo \<le> x \<and> x \<le> hi)"

lemma blend_within:
  "0 \<le> a \<Longrightarrow> a \<le> 1 \<Longrightarrow> signals_within lo hi p \<Longrightarrow> signals_within lo hi x \<Longrightarrow>
     signals_within lo hi (blend p x a)"
  by (simp add: signals_within_def blend_def ewma_lower ewma_upper)

definition filter_ok :: "rat \<Rightarrow> rat \<Rightarrow> signal_filter \<Rightarrow> bool" where
  "filter_ok lo hi f \<longleftrightarrow> 0 \<le> sf_fast_alpha f \<and> sf_fast_alpha f \<le> 1 \<and> 0 \<le> sf_slow_alpha f
     \<and> sf_slow_alpha f \<le> 1
     \<and> (case (sf_fast f, sf_slow f) of
          (None, None) \<Rightarrow> True
        | (Some g, Some h) \<Rightarrow> signals_within lo hi g \<and> signals_within lo hi h
        | _ \<Rightarrow> False)"

lemma update_filter_ok:
  assumes "filter_ok lo hi f" "signals_within lo hi (raw_signals e)"
  obtains f' g h where "update_filter f e = Some (f', g, h)" "filter_ok lo hi f'"
    "signals_within lo hi g" "signals_within lo hi h"
  using assms that
  by (auto simp: filter_ok_def update_filter_def Let_def blend_within split: option.splits)

definition filter_step :: "signal_filter \<Rightarrow> energy_state \<Rightarrow> signal_filter" where
  "filter_step f e = (case update_filter f e of None \<Rightarrow> f | Some r \<Rightarrow> fst r)"

interpretation filter_run: kept_invariant filter_step
  "\<lambda>e. signals_within lo hi (raw_signals e)" "filter_ok lo hi" for lo hi
proof
  fix f e
  assume "filter_ok lo hi f" "signals_within lo hi (raw_signals e)"
  then show "filter_ok lo hi (filter_step f e)"
    by (rule update_filter_ok) (simp add: filter_step_def)
qed

subsection \<open>Properties\<close>

lemma clamp_target_fix:
  "config_ok c \<Longrightarrow> target_ok c t \<Longrightarrow> clamp_target (ot_target_current_a t) c = ot_target_current_a t"
  by (auto simp: target_ok_def clamp_target_def config_ok_def Let_def)

text \<open>In every mode the optimizer's target is 0 or within the configured limits, so that the
  clamp of the state machine never changes it.\<close>

theorem optimizer_target_within_limits:
  assumes "config_ok c"
    and "optimize_target nd s e c m override now solar_first = (s', t)"
  shows "target_ok c t \<and> clamp_target (ot_target_current_a t) c = ot_target_current_a t"
  using optimize_target_ok [OF assms(1), of nd s e m override now solar_first] assms(2)
    clamp_target_fix [OF assms(1)] by simp

definition example_energy :: energy_state where
  "example_energy = \<lparr> en_timestamp = 0, en_electricity_price_eur_kwh = Some (1/10),
     en_price_forecast = [], en_import_price_sek_kwh = None, en_import_price_forecast = [],
     en_pv_power_w = None, en_grid_import_w = None, en_grid_export_w = Some 5000,
     en_home_consumption_w = None, en_battery_power_w = None, en_battery_charge_power_w = None,
     en_battery_discharge_power_w = None, en_battery_soc = None, en_heartbeat_charging_mode = None,
     en_heartbeat_smart_charge_active = False, en_ev_charge_from_grid_recommended = False,
     en_departure_time = None, en_vehicle_required_energy_kwh = None, en_data_age_seconds = 0,
     en_stale = False \<rparr>"

theorem optimizer_target_within_limits_witness:
  "target_ok default_config (snd (optimize_target (\<lambda>_ _ _. None) initial_solar example_energy
     default_config (Some ''SMART'') False 0 None))"
  using optimizer_target_within_limits [OF default_config_ok, of "\<lambda>_ _ _. None" initial_solar
      example_energy "Some ''SMART''" False 0 None] by (metis prod.collapse)

text \<open>The urgency of a deadline lies between 0 and 1 and only rises as time passes;
  taking the vehicle's energy need into account never lowers it.\<close>

theorem urgency_rises:
  assumes "now \<le> now'"
  shows "0 \<le> charging_urgency now d c \<and> charging_urgency now d c \<le> charging_urgency now' d c
    \<and> charging_urgency now' d c \<le> combined_charging_urgency now' d c k
    \<and> combined_charging_urgency now' d c k \<le> 1"
  using charging_urgency_bounds [of now d c] charging_urgency_mono [OF assms]
    combined_urgency_bounds [of now' d c k]
  by (simp add: combined_charging_urgency_def Let_def split: option.split)

theorem urgency_rises_witness:
  "charging_urgency 0 (Some (hours_us 10)) default_config
     \<le> charging_urgency (hours_us 4) (Some (hours_us 10)) default_config"
  using urgency_rises [of 0 "hours_us 4" "Some (hours_us 10)" default_config None]
  by (simp add: hours_us_def us_per_s_def)

text \<open>The signal filter never fails its assertion, and after any run of readings that lie
  between two bounds both filtered signals lie between them.\<close>

theorem filter_stays_within_readings:
  assumes "\<forall>e \<in> set es. signals_within lo hi (raw_signals e)"
    and "signals_within lo hi (raw_signals e)"
  shows "\<exists>f' g h. update_filter (foldl filter_step initial_filter es) e = Some (f', g, h)
           \<and> signals_within lo hi g \<and> signals_within lo hi h"
proof -
  have "filter_ok lo hi initial_filter" by (simp add: filter_ok_def initial_filter_def)
  then have "filter_ok lo hi (foldl filter_step initial_filter es)"
    using filter_run.run_keeps assms(1) by blast
  then show ?thesis using assms(2) by (rule update_filter_ok) blast
qed

theorem filter_stays_within_readings_witness:
  "\<exists>f' g h. update_filter (foldl filter_step initial_filter [example_energy]) example_energy
     = Some (f', g, h) \<and> signals_within 0 5000 g \<and> signals_within 0 5000 h"
  by (rule filter_stays_within_readings)
    (simp_all add: signals_within_def raw_signals_def example_energy_def Let_def)

end
