(* ===== verification/Module_Registry.thy ===== *)
theory Module_Registry
  imports Emic_Prelude
begin

section \<open>Capabilities, module descriptors and their registries\<close>

text \<open>
  \<open>platform/capabilities/types.py\<close> and \<open>registry.py\<close>, \<open>platform/modules/aliases.py\<close>,
  \<open>types.py\<close> and \<open>registry.py\<close>: the vocabulary of capabilities, which module provides which
  capability at which site, and the table of module descriptors with its protection of
  built-in modules.
\<close>

subsection \<open>Capabilities\<close>

datatype capability =
    ENERGY_READ_GRID_POWER | ENERGY_READ_SOLAR_POWER | BATTERY_READ_SOC | BATTERY_READ_POWER
  | EV_CHARGER_START | EV_CHARGER_STOP | EV_CHARGER_SET_CURRENT | EV_CHARGER_READ_POWER
  | EV_CHARGER_READ_ENERGY | VEHICLE_READ_SOC | VEHICLE_READ_RANGE
  | VEHICLE_READ_CHARGING_STATE | SPA_READ_TEMPERATURE | SPA_SET_TEMPERATURE
  | HVAC_READ_TEMPERATURE | HVAC_READ_HUMIDITY | HVAC_READ_STATE
  | HVAC_READ_TARGET_TEMPERATURE | HVAC_READ_STATUS | PRICE_READ_CURRENT
  | PRICE_READ_FORECAST | WEATHER_READ_CURRENT | WEATHER_READ_FORECAST | FORECAST_SOLAR
  | OPTIMIZATION_ENERGY | SMART_CHARGING | READ_STATUS | READ_POWER

fun capability_value :: "capability \<Rightarrow> string" where
  "capability_value ENERGY_READ_GRID_POWER = ''energy.read_grid_power''"
| "capability_value ENERGY_READ_SOLAR_POWER = ''energy.read_solar_power''"
| "capability_value BATTERY_READ_SOC = ''battery.read_soc''"
| "capability_value BATTERY_READ_POWER = ''battery.read_power''"
| "capability_value EV_CHARGER_START = ''ev_charger.start''"
| "capability_value EV_CHARGER_STOP = ''ev_charger.stop''"
| "capability_value EV_CHARGER_SET_CURRENT = ''ev_charger.set_current''"
| "capability_value EV_CHARGER_READ_POWER = ''ev_charger.read_power''"
| "capability_value EV_CHARGER_READ_ENERGY = ''ev_charger.read_energy''"
| "capability_value VEHICLE_READ_SOC = ''vehicle.read_soc''"
| "capability_value VEHICLE_READ_RANGE = ''vehicle.read_range''"
| "capability_value VEHICLE_READ_CHARGING_STATE = ''vehicle.read_charging_state''"
| "capability_value SPA_READ_TEMPERATURE = ''spa.read_temperature''"
| "capability_value SPA_SET_TEMPERATURE = ''spa.set_temperature''"
| "capability_value HVAC_READ_TEMPERATURE = ''hvac.read_temperature''"
| "capability_value HVAC_READ_HUMIDITY = ''hvac.read_humidity''"
| "capability_value HVAC_READ_STATE = ''hvac.read_state''"
| "capability_value HVAC_READ_TARGET_TEMPERATURE = ''hvac.read_target_temperature''"
| "capability_value HVAC_READ_STATUS = ''hvac.read_status''"
| "capability_value PRICE_READ_CURRENT = ''price.read_current''"
| "capability_value PRICE_READ_FORECAST = ''price.read_forecast''"
| "capability_value WEATHER_READ_CURRENT = ''weather.read_current''"
| "capability_value WEATHER_READ_FORECAST = ''weather.read_forecast''"
| "capability_value FORECAST_SOLAR = ''forecast.solar''"
| "capability_value OPTIMIZATION_ENERGY = ''optimization.energy''"
| "capability_value SMART_CHARGING = ''smart_charging''"
| "capability_value READ_STATUS = ''read_status''"
| "capability_value READ_POWER = ''read_power''"

definition capabilities :: "capability list" where
  "capabilities = [ENERGY_READ_GRID_POWER, ENERGY_READ_SOLAR_POWER, BATTERY_READ_SOC, BATTERY_READ_POWER,
     EV_CHARGER_START, EV_CHARGER_STOP, EV_CHARGER_SET_CURRENT, EV_CHARGER_READ_POWER,
     EV_CHARGER_READ_ENERGY, VEHICLE_READ_SOC, VEHICLE_READ_RANGE,
     VEHICLE_READ_CHARGING_STATE, SPA_READ_TEMPERATURE, SPA_SET_TEMPERATURE,
     HVAC_READ_TEMPERATURE, HVAC_READ_HUMIDITY, HVAC_READ_STATE,
     HVAC_READ_TARGET_TEMPERATURE, HVAC_READ_STATUS, PRICE_READ_CURRENT,
     PRICE_READ_FORECAST, WEATHER_READ_CURRENT, WEATHER_READ_FORECAST, FORECAST_SOLAR,
     OPTIMIZATION_ENERGY, SMART_CHARGING, READ_STATUS, READ_POWER]"

text \<open>\<open>Capability(name)\<close>: \<open>None\<close> is the \<open>ValueError\<close>.\<close>

definition capability_of :: "string \<Rightarrow> capability option" where
  "capability_of v = find (\<lambda>c. capability_value c = v) capabilities"

lemma capability_roundtrip [simp]: "capability_of (capability_value c) = Some c"
  by (cases c) (simp_all add: capability_of_def capabilities_def)

lemma capability_of_value: "capability_of v = Some c \<Longrightarrow> capability_value c = v"
  by (auto simp: capability_of_def find_Some_iff)

subsection \<open>Module ids\<close>

definition LEGACY_MODULE_ALIASES :: "(string \<times> string) list" where
  "LEGACY_MODULE_ALIASES =
     [(''charging'', ''feature.smart-charging''), (''vehicles'', ''feature.vehicles''),
      (''spa_energy'', ''feature.spa-energy''), (''energy_balance'', ''feature.energy-balance''),
      (''solar_forecast'', ''feature.solar-forecast''), (''price_engine'', ''feature.price-engine'')]"

definition canonical_module_id :: "string \<Rightarrow> string" where
  "canonical_module_id m = or_else (map_of LEGACY_MODULE_ALIASES m) m"

definition resolve_module_id :: "string \<Rightarrow> string" where
  "resolve_module_id m = canonical_module_id m"

lemma resolve_module_id_idem [simp]: "resolve_module_id (resolve_module_id m) = resolve_module_id m"
  by (auto simp: resolve_module_id_def canonical_module_id_def LEGACY_MODULE_ALIASES_def)

subsection \<open>Module descriptors\<close>

datatype module_type = CORE | FEATURE | INTEGRATION | PROVIDER

datatype package_source = BUILT_IN | INSTALLED | QUARANTINED

record module_descriptor =
  md_module_id :: string
  md_name :: string
  md_version :: string
  md_module_type :: module_type
  md_description :: string
  md_dependencies :: "string list"
  md_capabilities_provided :: "capability list"
  md_capabilities_required :: "capability list"
  md_optional_capabilities :: "capability list"
  md_supports_per_site_activation :: bool
  md_onboardable :: bool
  md_can_disable :: bool
  md_supports_discovery :: bool
  md_package_source :: package_source
  md_installed_version :: "string option"
  md_publisher :: "string option"
  md_package_state :: "string option"
  md_removable :: bool
  md_updatable :: bool
  md_entrypoint :: "string option"

text \<open>\<open>ModuleRegistry\<close>: an insertion-ordered dictionary from ids to descriptors.\<close>

type_synonym module_registry = "(string \<times> module_descriptor) list"

datatype registry_error = Already_Registered string | Cannot_Replace_Built_In string | Not_Installed_Source

definition register_module ::
  "module_registry \<Rightarrow> module_descriptor \<Rightarrow> bool \<Rightarrow> registry_error + module_registry" where
  "register_module r d allow_replace =
     (let key = md_module_id d in
      case map_of r key of
        None \<Rightarrow> Inr (AList.update key d r)
      | Some old \<Rightarrow>
          if \<not> allow_replace then Inl (Already_Registered key)
          else if md_package_source old = BUILT_IN then Inl (Cannot_Replace_Built_In key)
          else Inr (AList.update key d r))"

definition register_package_descriptor ::
  "module_registry \<Rightarrow> module_descriptor \<Rightarrow> registry_error + module_registry" where
  "register_package_descriptor r d =
     (if md_package_source d \<noteq> INSTALLED then Inl Not_Installed_Source
      else register_module r d True)"

text \<open>\<open>enrich(module_id, **fields)\<close>: the fields are an update of the descriptor.\<close>

definition enrich_module ::
  "module_registry \<Rightarrow> string \<Rightarrow> (module_descriptor \<Rightarrow> module_descriptor) \<Rightarrow> module_registry" where
  "enrich_module r m upd = (case map_of r m of
     None \<Rightarrow> r | Some d \<Rightarrow> AList.update m (upd d) r)"

definition list_modules :: "module_registry \<Rightarrow> module_descriptor list" where
  "list_modules r = map snd r"

text \<open>A registration that raises leaves the registry as it was.\<close>

datatype registration = Register module_descriptor bool | Register_Package module_descriptor

definition registry_step :: "module_registry \<Rightarrow> registration \<Rightarrow> module_registry" where
  "registry_step r op = (case (case op of
       Register d allow \<Rightarrow> register_module r d allow
     | Register_Package d \<Rightarrow> register_package_descriptor r d) of
     Inl _ \<Rightarrow> r | Inr r' \<Rightarrow> r')"

text \<open>What registrations never change: the entries of built-in modules.\<close>

definition keeps_built_ins :: "module_registry \<Rightarrow> module_registry \<Rightarrow> bool" where
  "keeps_built_ins r r' \<longleftrightarrow> (\<forall>m d. map_of r m = Some d \<and> md_package_source d = BUILT_IN
     \<longrightarrow> map_of r' m = Some d)"

interpretation registry_run: climbing registry_step keeps_built_ins
proof
  fix r and op
  show "keeps_built_ins r (registry_step r op)"
    by (cases op) (auto simp: keeps_built_ins_def registry_step_def register_module_def
        register_package_descriptor_def Let_def split: option.splits)
qed (auto simp: keeps_built_ins_def)

subsection \<open>The capability registry\<close>

record capability_provider =
  cp_site_id :: int
  cp_module_id :: string
  cp_capability :: capability
  cp_device_id :: "string option"

type_synonym capability_registry = "((int \<times> capability) \<times> capability_provider list) list"

definition clear_site :: "capability_registry \<Rightarrow> int \<Rightarrow> capability_registry" where
  "clear_site r site = filter (\<lambda>e. fst (fst e) \<noteq> site) r"

text \<open>
  Each bucket of the site loses the module's providers; a bucket that loses its last one is
  deleted. A bucket none of whose providers is the module's stays, even an empty one.
\<close>

definition without_module :: "string \<Rightarrow> capability_provider list \<Rightarrow> capability_provider list" where
  "without_module m ps = filter (\<lambda>p. cp_module_id p \<noteq> m) ps"

definition unregister_module :: "capability_registry \<Rightarrow> int \<Rightarrow> string \<Rightarrow> capability_registry" where
  "unregister_module r site m =
     (let emptied = map fst (filter (\<lambda>e. fst (fst e) = site \<and> without_module m (snd e) \<noteq> snd e
            \<and> without_module m (snd e) = []) r);
          r1 = map (\<lambda>e. if fst (fst e) = site then (fst e, without_module m (snd e)) else e) r in
      filter (\<lambda>e. fst e \<notin> set emptied) r1)"

definition providers_for :: "capability_registry \<Rightarrow> int \<Rightarrow> capability \<Rightarrow> capability_provider list" where
  "providers_for r site c = or_else (map_of r (site, c)) []"

definition register_provider ::
  "capability_registry \<Rightarrow> int \<Rightarrow> string \<Rightarrow> capability \<Rightarrow> string option \<Rightarrow> capability_registry" where
  "register_provider r site m c device =
     (let bucket = providers_for r site c in
      if list_ex (\<lambda>p. cp_module_id p = m \<and> cp_device_id p = device) bucket
      then r
      else AList.update (site, c) (bucket @ [\<lparr> cp_site_id = site, cp_module_id = m,
             cp_capability = c, cp_device_id = device \<rparr>]) r)"

definition site_has_capability :: "capability_registry \<Rightarrow> int \<Rightarrow> capability \<Rightarrow> bool" where
  "site_has_capability r site c \<longleftrightarrow> providers_for r site c \<noteq> []"

definition capabilities_for_site :: "capability_registry \<Rightarrow> int \<Rightarrow> capability set" where
  "capabilities_for_site r site = (snd \<circ> fst) ` set (filter (\<lambda>e. fst (fst e) = site) r)"

lemma map_of_map_filter_values:
  "map_of (filter (\<lambda>e. P (fst e)) (map (\<lambda>e. (fst e, f (fst e) (snd e))) r)) k
     = (if P k then map_option (f k) (map_of r k) else None)"
  by (induction r) auto

lemma providers_for_unregister:
  assumes "distinct (map fst r)"
  shows "providers_for (unregister_module r site m) s c =
    (if s = site then without_module m (providers_for r s c) else providers_for r s c)"
proof -
  define emptied where "emptied = map fst (filter (\<lambda>e. fst (fst e) = site
      \<and> without_module m (snd e) \<noteq> snd e \<and> without_module m (snd e) = []) r)"
  have em: "(s, c) \<in> set emptied \<longleftrightarrow> s = site \<and> (\<exists>ps. map_of r (s, c) = Some ps
      \<and> without_module m ps \<noteq> ps \<and> without_module m ps = [])"
    using assms by (auto simp: emptied_def image_iff)
  have un: "unregister_module r site m = filter (\<lambda>e. fst e \<notin> set emptied)
      (map (\<lambda>e. (fst e, (if fst (fst e) = site then without_module m (snd e) else snd e))) r)"
    by (auto simp: unregister_module_def Let_def emptied_def intro!: arg_cong [where f = "filter _"])
  have "map_of (unregister_module r site m) (s, c) = (if (s, c) \<notin> set emptied
      then map_option (\<lambda>ps. if s = site then without_module m ps else ps) (map_of r (s, c)) else None)"
    unfolding un by (subst map_of_map_filter_values) simp
  then show ?thesis
    by (cases "map_of r (s, c)") (auto simp: providers_for_def em without_module_def)
qed

lemma providers_for_register:
  "providers_for (register_provider r site m c device) s c' =
    (if (s, c') = (site, c) \<and> \<not> list_ex (\<lambda>p. cp_module_id p = m \<and> cp_device_id p = device) (providers_for r s c')
     then providers_for r s c' @ [\<lparr> cp_site_id = site, cp_module_id = m, cp_capability = c, cp_device_id = device \<rparr>]
     else providers_for r s c')"
  by (auto simp: register_provider_def providers_for_def Let_def)

end
