(* ===== verification/Module_Graph.thy ===== *)
theory Module_Graph
  imports Emic_Prelude
begin

section \<open>Depth-first visits\<close>

text \<open>
  The nested \<open>visit\<close> functions of \<open>platform/modules/resolver.py\<close> (\<open>startup_order\<close>) and
  \<open>platform/modules/packages/dependency_resolver.py\<close> (\<open>detect_cycles\<close>): a depth-first
  search with the nodes of the current path (\<open>visiting\<close>) and the finished nodes (\<open>visited\<close>,
  here in the order they finished, which is what \<open>ordered\<close> holds). The recursion is given
  fuel; \<open>visit_enough_fuel\<close> shows that one more unit than there are nodes off the path is
  enough, so running out of fuel is not an outcome.
\<close>

datatype 'a visit_error = Cycle_At 'a | Out_Of_Fuel

function visit :: "nat \<Rightarrow> ('a \<Rightarrow> 'a list) \<Rightarrow> 'a list \<Rightarrow> 'a \<Rightarrow> 'a list \<Rightarrow> 'a visit_error + 'a list"
  and visit_all :: "nat \<Rightarrow> ('a \<Rightarrow> 'a list) \<Rightarrow> 'a list \<Rightarrow> 'a list \<Rightarrow> 'a list \<Rightarrow> 'a visit_error + 'a list"
where
  "visit n g path node seen =
     (case n of
        0 \<Rightarrow> Inl Out_Of_Fuel
      | Suc k \<Rightarrow>
          if node \<in> set path then Inl (Cycle_At node)
          else if node \<in> set seen then Inr seen
          else res_bind (visit_all k g (node # path) (g node) seen) (\<lambda>seen'. Inr (seen' @ [node])))"
| "visit_all n g path [] seen = Inr seen"
| "visit_all n g path (d # ds) seen = res_bind (visit n g path d seen) (visit_all n g path ds)"
  by pat_completeness auto
termination
  by (relation "measures [\<lambda>x. case x of Inl (n, _) \<Rightarrow> n | Inr (n, _) \<Rightarrow> n,
      \<lambda>x. case x of Inl _ \<Rightarrow> 0 | Inr (_, _, _, ds, _) \<Rightarrow> Suc (length ds)]") auto

declare visit.simps [simp del]

lemma visit_0 [simp]: "visit 0 g path node seen = Inl Out_Of_Fuel"
  by (simp add: visit.simps)

lemma visit_Suc [simp]: "visit (Suc k) g path node seen =
    (if node \<in> set path then Inl (Cycle_At node)
     else if node \<in> set seen then Inr seen
     else res_bind (visit_all k g (node # path) (g node) seen) (\<lambda>seen'. Inr (seen' @ [node])))"
  by (simp add: visit.simps)

lemmas visit_all_simps [simp] = visit_all.simps

text \<open>The outer loop: every node of the graph, from nothing visited.\<close>

definition visit_graph :: "nat \<Rightarrow> ('a \<Rightarrow> 'a list) \<Rightarrow> 'a list \<Rightarrow> 'a visit_error + 'a list" where
  "visit_graph n g nodes = visit_all n g [] nodes []"

subsection \<open>Topological orders\<close>

text \<open>Every element comes after its successors.\<close>

inductive topological :: "('a \<Rightarrow> 'a list) \<Rightarrow> 'a list \<Rightarrow> bool" for g where
  empty: "topological g []"
| snoc: "topological g xs \<Longrightarrow> set (g x) \<subseteq> set xs \<Longrightarrow> x \<notin> set xs \<Longrightarrow> topological g (xs @ [x])"

inductive_cases topological_snocE: "topological g (xs @ [x])"

lemma topological_distinct: "topological g xs \<Longrightarrow> distinct xs"
  by (induction rule: topological.induct) auto

lemma topological_closed: "topological g xs \<Longrightarrow> x \<in> set xs \<Longrightarrow> set (g x) \<subseteq> set xs"
  by (induction rule: topological.induct) auto

lemma topological_before:
  "topological g xs \<Longrightarrow> xs = ys @ x # zs \<Longrightarrow> set (g x) \<subseteq> set ys"
proof (induction arbitrary: ys zs rule: topological.induct)
  case (snoc xs y)
  show ?case
  proof (cases zs rule: rev_cases)
    case Nil
    then show ?thesis using snoc by simp
  next
    case (snoc as w)
    then have "xs @ [y] = (ys @ x # as) @ [w]" using snoc.prems by simp
    then have "xs = ys @ x # as" by (simp only: append1_eq_conv)
    then show ?thesis by (rule snoc.IH)
  qed
qed simp

definition edges :: "('a \<Rightarrow> 'a list) \<Rightarrow> ('a \<times> 'a) set" where
  "edges g = {(x, y). y \<in> set (g x)}"

text \<open>A topological order leaves no cycle among its elements.\<close>

lemma topological_index_less:
  assumes "topological g xs" "(x, y) \<in> (edges g)\<^sup>+" "x \<in> set xs"
  shows "\<exists>ys zs. xs = ys @ x # zs \<and> y \<in> set ys"
  using assms(2)
proof (induction rule: trancl_induct)
  case (base y)
  from assms(3) obtain ys zs where s: "xs = ys @ x # zs" by (auto simp: in_set_conv_decomp)
  then show ?case using topological_before [OF assms(1) s] base unfolding edges_def by blast
next
  case (step y z)
  then obtain ys zs where s: "xs = ys @ x # zs" "y \<in> set ys" by blast
  then obtain as bs where "ys = as @ y # bs" by (auto simp: in_set_conv_decomp)
  moreover from this have "xs = as @ y # bs @ x # zs" using s(1) by simp
  from topological_before [OF assms(1) this] have "set (g y) \<subseteq> set as" .
  ultimately have "z \<in> set ys" using step(2) by (auto simp: edges_def)
  then show ?case using s(1) by blast
qed

lemma topological_acyclic:
  assumes "topological g xs" "x \<in> set xs"
  shows "(x, x) \<notin> (edges g)\<^sup>+"
proof
  assume "(x, x) \<in> (edges g)\<^sup>+"
  from topological_index_less [OF assms(1) this assms(2)]
  obtain ys zs where "xs = ys @ x # zs" "x \<in> set ys" by blast
  then show False using topological_distinct [OF assms(1)] by simp
qed

subsection \<open>What a visit does\<close>

lemma visit_topological:
  "visit n g path node seen = Inr seen' \<Longrightarrow> topological g seen \<Longrightarrow> set path \<inter> set seen = {} \<Longrightarrow>
     topological g seen' \<and> (\<exists>new. seen' = seen @ new) \<and> node \<in> set seen' \<and> set path \<inter> set seen' = {}"
  "visit_all n g path ds seen = Inr seen' \<Longrightarrow> topological g seen \<Longrightarrow> set path \<inter> set seen = {} \<Longrightarrow>
     topological g seen' \<and> (\<exists>new. seen' = seen @ new) \<and> set ds \<subseteq> set seen' \<and> set path \<inter> set seen' = {}"
proof (induction n g path node seen and n g path ds seen arbitrary: seen' and seen'
    rule: visit_visit_all.induct)
  case (1 n g path node seen)
  then obtain k where n: "n = Suc k" and path: "node \<notin> set path"
    by (cases n) (auto split: if_splits)
  show ?case
  proof (cases "node \<in> set seen")
    case True
    then show ?thesis using 1 path by (auto simp: n)
  next
    case False
    then obtain r where r: "visit_all k g (node # path) (g node) seen = Inr r" "seen' = r @ [node]"
      using 1 path by (auto simp: n res_bind_eq_Inr)
    have "set (node # path) \<inter> set seen = {}" using 1 False by auto
    from 1(1) [OF n path False r(1) _ this] 1(3)
    have "topological g r" "\<exists>new. r = seen @ new" "set (g node) \<subseteq> set r"
      "set (node # path) \<inter> set r = {}" by blast+
    then show ?thesis unfolding r(2) using path by (auto intro: topological.snoc)
  qed
next
  case (3 n g path d ds seen)
  then show ?case by (fastforce simp: res_bind_eq_Inr)
qed auto

text \<open>A reported cycle is one: the path leads from each node to the one visited from it.\<close>

fun chain :: "('a \<Rightarrow> 'a list) \<Rightarrow> 'a list \<Rightarrow> bool" where
  "chain g (y # x # xs) = (y \<in> set (g x) \<and> chain g (x # xs))"
| "chain g _ = True"

lemma chain_reaches:
  "chain g (y # xs) \<Longrightarrow> x \<in> set xs \<Longrightarrow> (x, y) \<in> (edges g)\<^sup>+"
proof (induction xs arbitrary: y)
  case (Cons z zs)
  then have zy: "(z, y) \<in> edges g" by (simp add: edges_def)
  show ?case
  proof (cases "x = z")
    case True
    then show ?thesis using zy by blast
  next
    case False
    then show ?thesis using Cons zy by (meson chain.simps(1) set_ConsD trancl.trancl_into_trancl)
  qed
qed simp

lemma visit_cycle:
  "visit n g path node seen = Inl (Cycle_At v) \<Longrightarrow> chain g (node # path) \<Longrightarrow> (v, v) \<in> (edges g)\<^sup>+"
  "visit_all n g path ds seen = Inl (Cycle_At v) \<Longrightarrow> \<forall>d \<in> set ds. chain g (d # path) \<Longrightarrow>
     (v, v) \<in> (edges g)\<^sup>+"
proof (induction n g path node seen and n g path ds seen rule: visit_visit_all.induct)
  case (1 n g path node seen)
  then show ?case
    by (cases n) (auto simp: res_bind_eq_Inl chain_reaches split: if_splits)
next
  case (3 n g path d ds seen)
  then show ?case by (auto simp: res_bind_eq_Inl)
qed auto

text \<open>Fuel for every node off the path, and one more, is enough.\<close>

lemma visit_enough_fuel:
  "finite N \<Longrightarrow> \<forall>x \<in> N. set (g x) \<subseteq> N \<Longrightarrow> node \<in> N \<Longrightarrow> card (N - set path) < n \<Longrightarrow>
     visit n g path node seen \<noteq> Inl Out_Of_Fuel"
  "finite N \<Longrightarrow> \<forall>x \<in> N. set (g x) \<subseteq> N \<Longrightarrow> set ds \<subseteq> N \<Longrightarrow> card (N - set path) < n \<Longrightarrow>
     visit_all n g path ds seen \<noteq> Inl Out_Of_Fuel"
proof (induction n g path node seen and n g path ds seen rule: visit_visit_all.induct)
  case (1 n g path node seen)
  show ?case
  proof (cases n)
    case 0
    then show ?thesis using 1 by simp
  next
    case (Suc k)
    show ?thesis
    proof (cases "node \<in> set path \<or> node \<in> set seen")
      case False
      have "card (N - set (node # path)) < card (N - set path)"
        using 1 False by (intro psubset_card_mono) auto
      then have "card (N - set (node # path)) < k" using 1 Suc by linarith
      moreover have "set (g node) \<subseteq> N" using 1 by blast
      ultimately have "visit_all k g (node # path) (g node) seen \<noteq> Inl Out_Of_Fuel"
        using 1 Suc False by blast
      then show ?thesis using Suc False by (auto simp: res_bind_eq_Inl)
    qed (auto simp: Suc)
  qed
next
  case (3 n g path d ds seen)
  then show ?case by (auto simp: res_bind_eq_Inl)
qed auto

text \<open>The outer loop returns a topological order of the graph exactly when it has no cycle.\<close>

lemma visit_graph_topological:
  "visit_graph n g nodes = Inr xs \<Longrightarrow> topological g xs \<and> set nodes \<subseteq> set xs"
  using visit_topological(2) [of n g "[]" nodes "[]" xs] by (simp add: visit_graph_def topological.empty)

lemma visit_set:
  "\<forall>x \<in> N. set (g x) \<subseteq> N \<Longrightarrow> node \<in> N \<Longrightarrow> set seen \<subseteq> N \<Longrightarrow>
     visit n g path node seen = Inr seen' \<Longrightarrow> set seen' \<subseteq> N"
  "\<forall>x \<in> N. set (g x) \<subseteq> N \<Longrightarrow> set ds \<subseteq> N \<Longrightarrow> set seen \<subseteq> N \<Longrightarrow>
     visit_all n g path ds seen = Inr seen' \<Longrightarrow> set seen' \<subseteq> N"
proof (induction n g path node seen and n g path ds seen arbitrary: seen' and seen'
    rule: visit_visit_all.induct)
  case (1 n g path node seen)
  then obtain k where n: "n = Suc k" and path: "node \<notin> set path"
    by (cases n) (auto split: if_splits)
  show ?case
  proof (cases "node \<in> set seen")
    case True
    then show ?thesis using "1.prems"(3,4) path by (simp add: n)
  next
    case False
    then obtain r where r: "visit_all k g (node # path) (g node) seen = Inr r" "seen' = r @ [node]"
      using 1 path by (auto simp: n res_bind_eq_Inr)
    have "set (g node) \<subseteq> N" using "1.prems"(1,2) by blast
    then have "set r \<subseteq> N" by (rule "1.IH" [OF n path False "1.prems"(1) _ "1.prems"(3) r(1)])
    then show ?thesis unfolding r(2) using "1.prems"(2) by simp
  qed
next
  case (3 n g path d ds seen)
  from "3.prems"(4) obtain r
    where r: "visit n g path d seen = Inr r" "visit_all n g path ds r = Inr seen'"
    by (auto simp: res_bind_eq_Inr)
  have d: "d \<in> N" "set ds \<subseteq> N" using "3.prems"(2) by auto
  have "set r \<subseteq> N" using "3.prems"(1) d(1) "3.prems"(3) r(1) by (rule "3.IH"(1))
  with "3.prems"(1) d(2) show ?case using r(2) by (rule "3.IH"(2))
qed auto

theorem visit_graph_complete:
  assumes "finite N" "\<forall>x \<in> N. set (g x) \<subseteq> N" "set nodes \<subseteq> N" "card N < n"
  shows "(\<exists>xs. visit_graph n g nodes = Inr xs \<and> topological g xs \<and> set nodes \<subseteq> set xs \<and> set xs \<subseteq> N)
    \<or> (\<exists>v. visit_graph n g nodes = Inl (Cycle_At v) \<and> (v, v) \<in> (edges g)\<^sup>+)"
proof (cases "visit_graph n g nodes")
  case (Inl e)
  then show ?thesis
    using visit_cycle(2) [of n g "[]" nodes "[]"] visit_enough_fuel(2) [OF assms(1-3), of "[]" n "[]"]
      assms(4)
    by (cases e) (auto simp: visit_graph_def)
next
  case (Inr xs)
  then show ?thesis
    using visit_graph_topological [OF Inr] visit_set(2) [OF assms(2,3), of "[]" n "[]" xs]
    by (auto simp: visit_graph_def)
qed

end
