(* ===== verification/Module_Resolver.thy ===== *)
theory Module_Resolver
  imports Module_Registry Module_Graph
begin

section \<open>Module dependency resolution\<close>

text \<open>
  \<open>platform/modules/resolver.py\<close>. A Python set is iterated in an unspecified order: the
  order in which \<open>startup_order\<close> visits a module's dependencies is the parameter \<open>enum\<close>,
  any function that lists the elements of the set. Sets of enabled modules are lists, and
  the result of \<open>can_disable\<close> does not depend on their order.
\<close>

text \<open>
  The dependency graph: a module that is not registered has no edges. A dict keeps its keys in
  the order of their first insertion.
\<close>

definition dependency_keys :: "string list \<Rightarrow> string list" where
  "dependency_keys module_ids = rev (remdups (rev (map resolve_module_id module_ids)))"

definition resolved_dependencies :: "module_registry \<Rightarrow> string \<Rightarrow> string list" where
  "resolved_dependencies reg m = (case map_of reg m of
     None \<Rightarrow> [] | Some d \<Rightarrow> map resolve_module_id (md_dependencies d))"

text \<open>\<open>for dep in graph[node]: if dep in graph\<close>.\<close>

definition dependency_edges ::
  "(string list \<Rightarrow> string list) \<Rightarrow> module_registry \<Rightarrow> string list \<Rightarrow> string \<Rightarrow> string list" where
  "dependency_edges enum reg keys m =
     (if m \<in> set keys then filter (\<lambda>d. d \<in> set keys) (enum (resolved_dependencies reg m)) else [])"

text \<open>\<open>Inl\<close> carries the module the \<open>ValueError\<close> names.\<close>

definition startup_order ::
  "(string list \<Rightarrow> string list) \<Rightarrow> module_registry \<Rightarrow> string list \<Rightarrow> string visit_error + string list" where
  "startup_order enum reg module_ids =
     (let keys = dependency_keys module_ids in
      visit_graph (Suc (length keys)) (dependency_edges enum reg keys) keys)"

record can_start_result =
  can_start_ok :: bool
  missing_required :: "capability list"
  missing_optional :: "capability list"
  blocked_by_modules :: "string list"
  missing_module_dependencies :: "string list"

definition can_start ::
  "module_registry \<Rightarrow> string \<Rightarrow> int \<Rightarrow> string list \<Rightarrow> capability_registry \<Rightarrow> can_start_result" where
  "can_start reg module_id site enabled caps =
     (let canonical = resolve_module_id module_id in
      case map_of reg canonical of
        None \<Rightarrow> \<lparr> can_start_ok = False, missing_required = [], missing_optional = [],
                  blocked_by_modules = [canonical], missing_module_dependencies = [] \<rparr>
      | Some d \<Rightarrow>
          (let missing_deps = filter (\<lambda>x. x \<notin> set enabled) (map resolve_module_id (md_dependencies d));
               missing = filter (\<lambda>c. \<not> site_has_capability caps site c) (md_capabilities_required d);
               optional = filter (\<lambda>c. \<not> site_has_capability caps site c) (md_optional_capabilities d) in
           \<lparr> can_start_ok = (missing_deps = [] \<and> missing = []), missing_required = missing,
             missing_optional = optional, blocked_by_modules = [],
             missing_module_dependencies = missing_deps \<rparr>))"

record can_disable_result =
  allowed :: bool
  disable_reason :: "string option"
  dependent_modules :: "string list"

definition module_provided_capabilities :: "module_registry \<Rightarrow> string \<Rightarrow> capability list" where
  "module_provided_capabilities reg m =
     (case map_of reg m of None \<Rightarrow> [] | Some d \<Rightarrow> md_capabilities_provided d)"

definition other_providers_exist :: "capability_registry \<Rightarrow> int \<Rightarrow> capability \<Rightarrow> string \<Rightarrow> bool" where
  "other_providers_exist caps site c m \<longleftrightarrow> list_ex (\<lambda>p. cp_module_id p \<noteq> m) (providers_for caps site c)"

text \<open>The body of the loop over the enabled modules: does \<open>other\<close> depend on \<open>m\<close>?\<close>

definition depends_on :: "module_registry \<Rightarrow> int \<Rightarrow> capability_registry \<Rightarrow> string \<Rightarrow> string \<Rightarrow> bool" where
  "depends_on reg site caps m other =
     (if other = m then False
      else case map_of reg other of
        None \<Rightarrow> False
      | Some d \<Rightarrow>
          if m \<in> set (map resolve_module_id (md_dependencies d)) then True
          else
            let module_caps = module_provided_capabilities reg m in
            if module_caps = [] \<or> md_capabilities_required d = [] then False
            else list_ex (\<lambda>req. req \<in> set module_caps \<and> \<not> other_providers_exist caps site req m)
                   (md_capabilities_required d))"

definition can_disable ::
  "module_registry \<Rightarrow> string \<Rightarrow> int \<Rightarrow> string list \<Rightarrow> capability_registry \<Rightarrow> can_disable_result" where
  "can_disable reg module_id site enabled caps =
     (let canonical = resolve_module_id module_id;
          dependents = filter (depends_on reg site caps canonical) enabled in
      if (case map_of reg canonical of None \<Rightarrow> False | Some d \<Rightarrow> \<not> md_can_disable d)
      then \<lparr> allowed = False, disable_reason = Some ''Core module cannot be disabled'',
             dependent_modules = [] \<rparr>
      else if canonical \<notin> set enabled
      then \<lparr> allowed = True, disable_reason = None, dependent_modules = [] \<rparr>
      else if dependents \<noteq> []
      then \<lparr> allowed = False,
             disable_reason = Some ''Other enabled modules depend on capabilities from this module'',
             dependent_modules = sort (remdups dependents) \<rparr>
      else \<lparr> allowed = True, disable_reason = None, dependent_modules = [] \<rparr>)"

subsection \<open>The startup order\<close>

lemma dependency_edges_closed:
  "\<forall>x \<in> set keys. set (dependency_edges enum reg keys x) \<subseteq> set keys"
  by (auto simp: dependency_edges_def)

lemma startup_order_cases:
  fixes enum reg ids
  defines "keys \<equiv> dependency_keys ids"
  defines "g \<equiv> dependency_edges enum reg keys"
  obtains (order) xs where "startup_order enum reg ids = Inr xs" "topological g xs"
      "set xs = set keys"
  | (cycle) v where "startup_order enum reg ids = Inl (Cycle_At v)" "(v, v) \<in> (edges g)\<^sup>+"
proof -
  have "card (set keys) < Suc (length keys)" by (simp add: card_length le_imp_less_Suc)
  from visit_graph_complete [OF finite_set dependency_edges_closed order_refl this, of enum reg]
  show thesis
    using order cycle unfolding startup_order_def Let_def keys_def [symmetric] g_def [symmetric]
    by (metis subset_antisym)
qed

lemma edges_cycle_in_keys:
  assumes "(v, v) \<in> (edges (dependency_edges enum reg keys))\<^sup>+"
  shows "v \<in> set keys"
  using tranclD [OF assms] by (auto simp: edges_def dependency_edges_def split: if_splits)

subsection \<open>Disabling\<close>

lemma unregister_keeps_capability:
  assumes "distinct (map fst caps)" "site_has_capability caps site c"
    and "other_providers_exist caps site c m \<or> (\<forall>p \<in> set (providers_for caps site c). cp_module_id p \<noteq> m)"
  shows "site_has_capability (unregister_module caps site m) site c"
proof -
  have "\<exists>p \<in> set (providers_for caps site c). cp_module_id p \<noteq> m"
    using assms(2,3) by (auto simp: site_has_capability_def other_providers_exist_def list_ex_iff
        neq_Nil_conv)
  then show ?thesis
    by (auto simp: site_has_capability_def providers_for_unregister [OF assms(1)] without_module_def
        filter_empty_conv)
qed

text \<open>
  What the check cannot see is a capability the module provides without declaring it; each of
  these has another provider. The weather forecast of the solar forecast is of this kind.
\<close>

definition undeclared_backed :: "module_registry \<Rightarrow> capability_registry \<Rightarrow> int \<Rightarrow> string \<Rightarrow> bool" where
  "undeclared_backed reg caps site m \<longleftrightarrow> (\<forall>c. \<forall>p \<in> set (providers_for caps site c). cp_module_id p = m \<longrightarrow>
     c \<in> set (module_provided_capabilities reg m) \<or> other_providers_exist caps site c m)"

lemma can_disable_allowed:
  assumes "allowed (can_disable reg module_id site enabled caps)" "resolve_module_id module_id = m"
    and "m \<in> set enabled"
  shows "\<forall>other \<in> set enabled. \<not> depends_on reg site caps m other"
  using assms by (auto simp: can_disable_def Let_def filter_empty_conv split: if_splits)

lemma disable_keeps_startable:
  assumes allowed: "allowed (can_disable reg module_id site enabled caps)"
    and m: "resolve_module_id module_id = m" "m \<in> set enabled"
    and caps: "distinct (map fst caps)" "undeclared_backed reg caps site m"
    and other: "other \<in> set enabled" "other \<noteq> m" "resolve_module_id other = other"
    and start: "can_start_ok (can_start reg other site enabled caps)"
  shows "can_start_ok (can_start reg other site (removeAll m enabled) (unregister_module caps site m))"
proof -
  obtain d where d: "map_of reg other = Some d"
    using start other(3) by (auto simp: can_start_def Let_def split: option.splits)
  have no: "\<not> depends_on reg site caps m other"
    using can_disable_allowed [OF allowed m] other(1) by blast
  have "site_has_capability (unregister_module caps site m) site c"
    if c: "c \<in> set (md_capabilities_required d)" for c
  proof (rule unregister_keeps_capability [OF caps(1)])
    show "site_has_capability caps site c"
      using start c d other(3) by (auto simp: can_start_def Let_def filter_empty_conv)
    show "other_providers_exist caps site c m
        \<or> (\<forall>p \<in> set (providers_for caps site c). cp_module_id p \<noteq> m)"
    proof (rule disjCI)
      assume "\<not> (\<forall>p \<in> set (providers_for caps site c). cp_module_id p \<noteq> m)"
      then have "c \<in> set (module_provided_capabilities reg m) \<or> other_providers_exist caps site c m"
        using caps(2) unfolding undeclared_backed_def by blast
      then show "other_providers_exist caps site c m"
        using no c d other(2) by (auto simp: depends_on_def Let_def list_ex_iff split: if_splits)
    qed
  qed
  moreover have "m \<notin> set (map resolve_module_id (md_dependencies d))"
    using no d other(2) by (auto simp: depends_on_def split: if_splits)
  ultimately show ?thesis
    using start d other(3) by (auto simp: can_start_def Let_def filter_empty_conv)
qed

text \<open>The dependencies among the requested modules.\<close>

definition dependency_relation :: "module_registry \<Rightarrow> string list \<Rightarrow> (string \<times> string) set" where
  "dependency_relation reg ids = {(m, d). m \<in> resolve_module_id ` set ids
     \<and> d \<in> resolve_module_id ` set ids \<and> d \<in> set (resolved_dependencies reg m)}"

subsection \<open>Properties\<close>

text \<open>C6. The startup order exists exactly when the requested modules have no dependency cycle
  among them, and then lists each of them once, every module after all of its requested
  dependencies; otherwise the error names a module on a cycle. The search never runs out of fuel,
  whatever the iteration order of the dependency sets.\<close>

theorem startup_order_topological:
  assumes enum: "\<forall>xs. set (enum xs) = set xs"
  shows "case startup_order enum reg ids of
      Inr xs \<Rightarrow> distinct xs \<and> set xs = resolve_module_id ` set ids
        \<and> (\<forall>ys m zs d. xs = ys @ m # zs \<and> (m, d) \<in> dependency_relation reg ids \<longrightarrow> d \<in> set ys)
    | Inl e \<Rightarrow> (\<exists>m. e = Cycle_At m \<and> (m, m) \<in> (dependency_relation reg ids)\<^sup>+)"
proof -
  let ?g = "dependency_edges enum reg (dependency_keys ids)"
  have keys: "set (dependency_keys ids) = resolve_module_id ` set ids"
    by (simp add: dependency_keys_def)
  have edges: "edges ?g = dependency_relation reg ids"
    using enum by (auto simp: edges_def dependency_edges_def dependency_relation_def keys split: if_splits)
  show ?thesis
  proof (cases rule: startup_order_cases [of enum reg ids])
    case (order xs)
    have "d \<in> set ys" if "xs = ys @ m # zs" "(m, d) \<in> dependency_relation reg ids" for ys m zs d
      using topological_before [OF order(2) that(1)] that(2) unfolding edges [symmetric]
      by (auto simp: edges_def)
    then show ?thesis using order topological_distinct [OF order(2)] keys by auto
  next
    case (cycle v)
    then show ?thesis by (simp add: edges)
  qed
qed

theorem startup_order_topological_witness:
  "case startup_order (\<lambda>xs. xs) [] [''charging'', ''feature.vehicles''] of
      Inr xs \<Rightarrow> distinct xs \<and> set xs = {''feature.smart-charging'', ''feature.vehicles''}
    | Inl e \<Rightarrow> False"
proof -
  have "startup_order (\<lambda>xs. xs) [] [''charging'', ''feature.vehicles'']
      = Inr [''feature.smart-charging'', ''feature.vehicles'']"
    by code_simp
  with startup_order_topological [of "\<lambda>xs. xs" "[]" "[''charging'', ''feature.vehicles'']"]
  show ?thesis by auto
qed


definition example_descriptor ::
  "string \<Rightarrow> string list \<Rightarrow> capability list \<Rightarrow> capability list \<Rightarrow> module_descriptor" where
  "example_descriptor m deps provided required = \<lparr> md_module_id = m, md_name = m, md_version = ''1.0.0'',
     md_module_type = FEATURE, md_description = [], md_dependencies = deps,
     md_capabilities_provided = provided, md_capabilities_required = required,
     md_optional_capabilities = [], md_supports_per_site_activation = True, md_onboardable = False,
     md_can_disable = True, md_supports_discovery = False, md_package_source = BUILT_IN,
     md_installed_version = None, md_publisher = None, md_package_state = None, md_removable = False,
     md_updatable = False, md_entrypoint = None \<rparr>"

definition example_registry :: module_registry where
  "example_registry = map (\<lambda>d. (md_module_id d, d))
     [example_descriptor ''integration.a'' [] [READ_POWER] [],
      example_descriptor ''integration.b'' [] [READ_POWER] [],
      example_descriptor ''feature.c'' [''integration.b''] [] [READ_POWER]]"

definition example_providers :: capability_registry where
  "example_providers = register_provider (register_provider [] 1 ''integration.a'' READ_POWER None)
     1 ''integration.b'' READ_POWER None"


text \<open>Built-in modules are protected: whatever is registered, with or without leave to replace,
  a built-in module's entry stays as it was.\<close>

theorem built_ins_protected:
  assumes "map_of r m = Some d" "md_package_source d = BUILT_IN"
  shows "map_of (foldl registry_step r ops) m = Some d"
  using registry_run.run_climbs [of r ops] assms unfolding keeps_built_ins_def by blast

theorem built_ins_protected_witness:
  "map_of (foldl registry_step example_registry
      [Register (example_descriptor ''integration.a'' [''evil''] [] []) True]) ''integration.a''
    = Some (example_descriptor ''integration.a'' [] [READ_POWER] [])"
  by (rule built_ins_protected) (simp_all add: example_registry_def example_descriptor_def)

end
