(* ===== verification/Package_Rules.thy ===== *)
theory Package_Rules
  imports Module_Registry Module_Graph
begin

section \<open>Rules for module packages\<close>

text \<open>
  \<open>platform/modules/packages/\<close>: module ids and archive paths (\<open>paths.py\<close>), permissions
  (\<open>permissions.py\<close>), network hosts (\<open>network_hosts.py\<close>), dependencies
  (\<open>dependency_resolver.py\<close>), archive limits (\<open>archive_guard.py\<close>) and the input of the
  content hash (\<open>integrity.py\<close>). A \<open>PackageError\<close> is its code. Versions are compared by the
  third-party \<open>packaging\<close>: its operations are a parameter, the record \<open>version_ops\<close>.
\<close>

subsection \<open>Strings\<close>

fun split_at :: "char \<Rightarrow> string \<Rightarrow> string list" where
  "split_at c [] = [[]]"
| "split_at c (x # xs) = (if x = c then [] # split_at c xs
     else (case split_at c xs of [] \<Rightarrow> [[x]] | s # ss \<Rightarrow> (x # s) # ss))"

definition is_lower :: "char \<Rightarrow> bool" where
  "is_lower c \<longleftrightarrow> (let n = of_char c :: nat in 97 \<le> n \<and> n \<le> 122)"

definition is_digit :: "char \<Rightarrow> bool" where
  "is_digit c \<longleftrightarrow> (let n = of_char c :: nat in 48 \<le> n \<and> n \<le> 57)"

definition is_lower_alnum :: "char \<Rightarrow> bool" where
  "is_lower_alnum c \<longleftrightarrow> is_lower c \<or> is_digit c"

definition is_space :: "char \<Rightarrow> bool" where
  "is_space c \<longleftrightarrow> (of_char c :: nat) \<in> {9, 10, 11, 12, 13, 28, 29, 30, 31, 32, 133, 160}"

definition py_strip :: "string \<Rightarrow> string" where
  "py_strip s = rev (dropWhile is_space (rev (dropWhile is_space s)))"

definition contains :: "string \<Rightarrow> string \<Rightarrow> bool" where
  "contains sub s \<longleftrightarrow> list_ex (\<lambda>i. starts_with (drop i s) sub) [0 ..< Suc (length s)]"

subsection \<open>Module ids\<close>

definition head_segment :: "string \<Rightarrow> bool" where
  "head_segment s = (case s of [] \<Rightarrow> False | c # cs \<Rightarrow> is_lower c \<and> list_all is_lower_alnum cs)"

definition tail_segment :: "string \<Rightarrow> bool" where
  "tail_segment s = (case s of [] \<Rightarrow> False
     | c # cs \<Rightarrow> is_lower c \<and> list_all (\<lambda>x. is_lower_alnum x \<or> x = CHR ''_'' \<or> x = CHR ''-'') cs)"

definition id_segments :: "string \<Rightarrow> bool" where
  "id_segments s = (case split_at CHR ''.'' s of
     h # t # ts \<Rightarrow> head_segment h \<and> list_all tail_segment (t # ts) | _ \<Rightarrow> False)"

text \<open>
  \<open>MODULE_ID_PATTERN.match\<close>. In Python \<open>$\<close> also matches before a newline that ends the
  string, so an id followed by one newline matches too.
\<close>

definition module_id_pattern :: "string \<Rightarrow> bool" where
  "module_id_pattern s \<longleftrightarrow> id_segments s
     \<or> (s \<noteq> [] \<and> last s = CHR 0x0A \<and> id_segments (butlast s))"

definition PROTECTED_MODULE_PREFIXES :: "string list" where
  "PROTECTED_MODULE_PREFIXES = [''core.'', ''platform.'']"

definition BUILTIN_MODULE_IDS :: "string list" where
  "BUILTIN_MODULE_IDS =
     [''integration.heartbeat'', ''integration.chargeamps'', ''integration.mercedes'',
      ''integration.arctic_spa'', ''integration.chargefinder'', ''integration.smhi'',
      ''integration.dmi'', ''integration.open_meteo'', ''feature.smart-charging'',
      ''feature.vehicles'', ''feature.spa-energy'', ''feature.energy-balance'',
      ''feature.solar-forecast'', ''feature.price-engine'', ''feature.energy-control'']"

definition is_protected_module_id :: "string \<Rightarrow> bool" where
  "is_protected_module_id m \<longleftrightarrow> m \<in> set BUILTIN_MODULE_IDS
     \<or> list_ex (starts_with m) PROTECTED_MODULE_PREFIXES \<or> \<not> module_id_pattern m"

datatype module_id_error = Invalid_Id | Protected_Prefix | Built_In_Id

definition validate_module_id :: "string \<Rightarrow> module_id_error + unit" where
  "validate_module_id m =
     (if \<not> module_id_pattern m then Inl Invalid_Id
      else if list_ex (starts_with m) PROTECTED_MODULE_PREFIXES then Inl Protected_Prefix
      else if m \<in> set BUILTIN_MODULE_IDS then Inl Built_In_Id
      else Inr ())"

lemma validate_module_id_protected:
  "validate_module_id m = Inr () \<longleftrightarrow> \<not> is_protected_module_id m"
  by (auto simp: validate_module_id_def is_protected_module_id_def)

subsection \<open>Archive paths\<close>

text \<open>
  A path is its list of components. \<open>base / member\<close> drops empty and \<open>.\<close> components and
  restarts at the root for an absolute member; \<open>resolve()\<close> removes \<open>..\<close> with its parent.
  Symbolic links are a matter of the file system and are left out.
\<close>

definition path_parts :: "string \<Rightarrow> string list" where
  "path_parts s = filter (\<lambda>p. p \<noteq> [] \<and> p \<noteq> ''.'') (split_at CHR ''/'' s)"

definition resolve_parts :: "string list \<Rightarrow> string list" where
  "resolve_parts ps = foldl (\<lambda>acc p. if p = ''..'' then butlast acc else acc @ [p]) [] ps"

definition path_string :: "string list \<Rightarrow> string" where
  "path_string ps = (if ps = [] then ''/'' else concat (map (\<lambda>p. CHR ''/'' # p) ps))"

definition join_member :: "string list \<Rightarrow> string \<Rightarrow> string list" where
  "join_member base member =
     resolve_parts ((if starts_with member ''/'' then [] else base) @ path_parts member)"

text \<open>\<open>safe_join\<close>, for a resolved base; \<open>None\<close> is \<open>path traversal detected\<close>.\<close>

definition safe_join :: "string list \<Rightarrow> string \<Rightarrow> string list option" where
  "safe_join base member =
     (let target = join_member base member in
      if starts_with (path_string target) (path_string base) then Some target else None)"

record zip_entry =
  ze_filename :: string
  ze_file_size :: int
  ze_compress_size :: int

definition is_dir_entry :: "zip_entry \<Rightarrow> bool" where
  "is_dir_entry z \<longleftrightarrow> ends_with (ze_filename z) ''/''"

definition PACKAGE_TOO_LARGE :: string where "PACKAGE_TOO_LARGE = ''PACKAGE_TOO_LARGE''"
definition PATH_TRAVERSAL :: string where "PATH_TRAVERSAL = ''PATH_TRAVERSAL''"

text \<open>One entry of \<open>inspect_archive_limits\<close>; the accumulator is \<open>total_uncompressed\<close>.\<close>

definition inspect_entry :: "int \<Rightarrow> zip_entry \<Rightarrow> string + int" where
  "inspect_entry unpacked z =
     (if is_dir_entry z then Inr unpacked
      else if 0 < ze_file_size z \<and> 0 < ze_compress_size z
           \<and> (of_int (ze_file_size z) / of_int (max (ze_compress_size z) 1) :: rat) > 200
      then Inl PACKAGE_TOO_LARGE
      else if contains ''..'' (ze_filename z) \<or> starts_with (ze_filename z) ''/''
           \<or> starts_with (ze_filename z) [CHR 0x5C]
      then Inl PATH_TRAVERSAL
      else Inr (unpacked + ze_file_size z))"

fun inspect_entries :: "int \<Rightarrow> zip_entry list \<Rightarrow> string + int" where
  "inspect_entries unpacked [] = Inr unpacked"
| "inspect_entries unpacked (z # zs) = res_bind (inspect_entry unpacked z) (\<lambda>t. inspect_entries t zs)"

definition inspect_archive_limits :: "zip_entry list \<Rightarrow> string + unit" where
  "inspect_archive_limits zs =
     (if 10000 < length zs then Inl PACKAGE_TOO_LARGE
      else res_bind (inspect_entries 0 zs)
        (\<lambda>unpacked. if 200000000 < unpacked then Inl PACKAGE_TOO_LARGE else Inr ()))"

subsection \<open>Permissions\<close>

definition ALLOWED_PERMISSIONS :: "string list" where
  "ALLOWED_PERMISSIONS = [''network.external'', ''network.local'', ''device.read'', ''device.control'',
     ''vehicle.location'', ''filesystem.module_data'', ''secrets.read_own'']"

definition CONTROL_CAPABILITIES :: "capability list" where
  "CONTROL_CAPABILITIES = [EV_CHARGER_START, EV_CHARGER_STOP, EV_CHARGER_SET_CURRENT,
     SPA_SET_TEMPERATURE, OPTIMIZATION_ENERGY, SMART_CHARGING]"

definition READ_CAPABILITIES :: "capability list" where
  "READ_CAPABILITIES = [READ_STATUS, READ_POWER, VEHICLE_READ_SOC, VEHICLE_READ_RANGE,
     VEHICLE_READ_CHARGING_STATE]"

definition validate_permissions :: "string list \<Rightarrow> string + unit" where
  "validate_permissions ps =
     guard_res (list_all (\<lambda>p. p \<in> set ALLOWED_PERMISSIONS) ps) ''INVALID_PERMISSION''"

fun validate_capability_permissions :: "string list \<Rightarrow> string list \<Rightarrow> string + unit" where
  "validate_capability_permissions [] permissions = Inr ()"
| "validate_capability_permissions (name # names) permissions = (case capability_of name of
     None \<Rightarrow> Inl ''INVALID_CAPABILITY''
   | Some cap \<Rightarrow>
       if cap \<in> set CONTROL_CAPABILITIES \<and> ''device.control'' \<notin> set permissions
       then Inl ''PERMISSION_CAPABILITY_MISMATCH''
       else if cap \<in> set READ_CAPABILITIES \<and> ''device.read'' \<notin> set permissions
       then Inl ''PERMISSION_CAPABILITY_MISMATCH''
       else validate_capability_permissions names permissions)"

lemma validate_capability_permissions_iff:
  "validate_capability_permissions names ps = Inr () \<longleftrightarrow>
     (\<forall>n \<in> set names. \<exists>cap. capability_of n = Some cap
        \<and> (cap \<in> set CONTROL_CAPABILITIES \<longrightarrow> ''device.control'' \<in> set ps)
        \<and> (cap \<in> set READ_CAPABILITIES \<longrightarrow> ''device.read'' \<in> set ps))"
  by (induction names) (auto split: option.splits)

subsection \<open>Network hosts\<close>

definition host_label :: "string \<Rightarrow> bool" where
  "host_label s \<longleftrightarrow> s \<noteq> [] \<and> length s \<le> 63 \<and> is_lower_alnum (hd s) \<and> is_lower_alnum (last s)
     \<and> list_all (\<lambda>c. is_lower_alnum c \<or> c = CHR ''-'') s"

definition host_pattern :: "string \<Rightarrow> bool" where
  "host_pattern s \<longleftrightarrow> (let labels = split_at CHR ''.'' s in
     2 \<le> length labels \<and> list_all host_label labels)"

definition validate_network_host :: "string \<Rightarrow> string + unit" where
  "validate_network_host host =
     (let normalized = py_lower (py_strip host) in
      guard_res (normalized \<noteq> [] \<and> CHR ''*'' \<notin> set normalized \<and> CHR ''?'' \<notin> set normalized
          \<and> \<not> starts_with normalized ''.'' \<and> \<not> starts_with normalized ''http://''
          \<and> \<not> starts_with normalized ''https://'' \<and> host_pattern normalized) ''INVALID_MANIFEST'')"

fun validate_network_hosts :: "string list \<Rightarrow> string + unit" where
  "validate_network_hosts [] = Inr ()"
| "validate_network_hosts (h # hs) = res_bind (validate_network_host h) (\<lambda>_. validate_network_hosts hs)"

subsection \<open>Dependencies\<close>

record 'v version_ops =
  vo_parse :: "string \<Rightarrow> 'v option"
  vo_le :: "'v \<Rightarrow> 'v \<Rightarrow> bool"
  vo_lt :: "'v \<Rightarrow> 'v \<Rightarrow> bool"
  vo_eq :: "'v \<Rightarrow> 'v \<Rightarrow> bool"
  vo_next_major :: "'v \<Rightarrow> 'v"

text \<open>
  \<open>None\<close> is the \<open>InvalidVersion\<close> that only the caret form lets through. \<open>vo_next_major v\<close>
  is \<open>Version(f"{v.major + 1}.0.0")\<close>.
\<close>

definition version_satisfies :: "'v version_ops \<Rightarrow> string \<Rightarrow> string \<Rightarrow> bool option" where
  "version_satisfies ops version spec_range =
     (if spec_range = ''*'' \<or> spec_range = [] then Some True
      else case vo_parse ops version of
        None \<Rightarrow> Some False
      | Some current \<Rightarrow>
          (let spec = py_strip spec_range;
               compared = (\<lambda>cmp s. case vo_parse ops s of None \<Rightarrow> Some False | Some v \<Rightarrow> Some (cmp v)) in
           if starts_with spec ''>='' then compared (\<lambda>v. vo_le ops v current) (py_strip (drop 2 spec))
           else if starts_with spec ''<'' then compared (\<lambda>v. vo_lt ops current v) (py_strip (drop 1 spec))
           else if starts_with spec ''^'' then
             (case vo_parse ops (py_strip (drop 1 spec)) of
                None \<Rightarrow> None
              | Some base \<Rightarrow> Some (vo_le ops base current \<and> vo_lt ops current (vo_next_major ops base)))
           else compared (vo_eq ops current) spec))"

record module_dependency_spec =
  dep_module_id :: string
  dep_version_range :: string

datatype package_exception = Package_Error string | Invalid_Version | Value_Error | Bad_Zip_File

fun resolve_dependencies ::
  "'v version_ops \<Rightarrow> module_dependency_spec list \<Rightarrow> (string \<times> string) list \<Rightarrow> package_exception + unit" where
  "resolve_dependencies ops [] installed = Inr ()"
| "resolve_dependencies ops (d # ds) installed = (case map_of installed (dep_module_id d) of
     None \<Rightarrow> Inl (Package_Error ''MISSING_DEPENDENCY'')
   | Some version \<Rightarrow> (case version_satisfies ops version (dep_version_range d) of
       None \<Rightarrow> Inl Invalid_Version
     | Some False \<Rightarrow> Inl (Package_Error ''MISSING_DEPENDENCY'')
     | Some True \<Rightarrow> resolve_dependencies ops ds installed))"

lemma resolve_dependencies_iff:
  "resolve_dependencies ops ds installed = Inr () \<longleftrightarrow>
     (\<forall>d \<in> set ds. \<exists>v. map_of installed (dep_module_id d) = Some v
        \<and> version_satisfies ops v (dep_version_range d) = Some True)"
  by (induction ds) (auto split: option.splits bool.splits)

text \<open>\<open>detect_cycles\<close> on a dictionary from modules to dependencies.\<close>

definition graph_edges :: "(string \<times> string list) list \<Rightarrow> string \<Rightarrow> string list" where
  "graph_edges graph m = or_else (map_of graph m) []"

definition graph_nodes :: "(string \<times> string list) list \<Rightarrow> string list" where
  "graph_nodes graph = map fst graph @ concat (map snd graph)"

definition detect_cycles :: "(string \<times> string list) list \<Rightarrow> package_exception + unit" where
  "detect_cycles graph =
     (case visit_graph (Suc (length (graph_nodes graph))) (graph_edges graph) (map fst graph) of
        Inl _ \<Rightarrow> Inl (Package_Error ''DEPENDENCY_CYCLE'')
      | Inr _ \<Rightarrow> Inr ())"

lemma graph_edges_closed:
  "\<forall>m \<in> set (graph_nodes graph). set (graph_edges graph m) \<subseteq> set (graph_nodes graph)"
proof
  fix m
  show "set (graph_edges graph m) \<subseteq> set (graph_nodes graph)"
  proof (cases "map_of graph m")
    case (Some ds)
    then show ?thesis using map_of_SomeD [OF Some] by (force simp: graph_edges_def graph_nodes_def)
  qed (simp add: graph_edges_def)
qed

lemma detect_cycles_acyclic:
  "detect_cycles graph = Inr () \<longleftrightarrow> acyclic (edges (graph_edges graph))"
proof -
  let ?g = "graph_edges graph"
  have n: "card (set (graph_nodes graph)) < Suc (length (graph_nodes graph))"
    by (simp add: card_length le_imp_less_Suc)
  have keys: "set (map fst graph) \<subseteq> set (graph_nodes graph)" by (auto simp: graph_nodes_def)
  from visit_graph_complete [OF finite_set graph_edges_closed keys n]
  consider (order) xs where "detect_cycles graph = Inr ()" "topological ?g xs" "set (map fst graph) \<subseteq> set xs"
    | (cycle) v where "detect_cycles graph = Inl (Package_Error ''DEPENDENCY_CYCLE'')" "(v, v) \<in> (edges ?g)\<^sup>+"
    by (auto simp: detect_cycles_def)
  then show ?thesis
  proof cases
    case order
    have "(v, v) \<notin> (edges ?g)\<^sup>+" for v
    proof
      assume c: "(v, v) \<in> (edges ?g)\<^sup>+"
      then obtain w where "(v, w) \<in> edges ?g" by (meson tranclD)
      then have "v \<in> set (map fst graph)"
        by (cases "map_of graph v") (auto simp: edges_def graph_edges_def map_of_SomeD dest: map_of_SomeD intro: rev_image_eqI)
      then show False using topological_acyclic [OF order(2)] order(3) c by blast
    qed
    then show ?thesis using order(1) by (simp add: acyclic_def)
  next
    case cycle
    then show ?thesis by (auto simp: acyclic_def)
  qed
qed

subsection \<open>The content hash\<close>

definition include_in_content_hash :: "string \<Rightarrow> bool" where
  "include_in_content_hash path \<longleftrightarrow>
     \<not> starts_with path ''integrity/signature.json'' \<and> \<not> ends_with path ''.pyc''
     \<and> \<not> contains ''/__pycache__/'' path \<and> \<not> starts_with path ''__pycache__/''"

text \<open>
  The bytes given to SHA-256: for each file in the order of the names, its name, a zero byte
  and its contents. The manifest's contents are taken in canonical form, the parameter.
\<close>

definition content_hash_input :: "(string \<Rightarrow> string) \<Rightarrow> (string \<times> string) list \<Rightarrow> string" where
  "content_hash_input canonical files =
     concat (map (\<lambda>(name, data). name @ [CHR 0x00]
         @ (if name = ''manifest.json'' then canonical data else data))
       (filter (\<lambda>(name, _). \<not> ends_with name ''/'' \<and> include_in_content_hash name)
         (sort_key fst files)))"

subsection \<open>What the guard rules out\<close>

lemma starts_with_iff: "starts_with s p \<longleftrightarrow> (\<exists>r. s = p @ r)"
  unfolding starts_with_def by (metis append_eq_conv_conj append_take_drop_id)

lemma contains_iff: "contains sub s \<longleftrightarrow> (\<exists>l r. s = l @ sub @ r)"
proof
  assume "contains sub s"
  then obtain i where "starts_with (drop i s) sub" unfolding contains_def list_ex_iff by blast
  then obtain r where "drop i s = sub @ r" by (auto simp: starts_with_iff)
  then show "\<exists>l r. s = l @ sub @ r" by (metis append_take_drop_id)
next
  assume "\<exists>l r. s = l @ sub @ r"
  then obtain l r where s: "s = l @ sub @ r" by blast
  then have "length l \<in> set [0 ..< Suc (length s)]" "starts_with (drop (length l) s) sub"
    by (auto simp: starts_with_def)
  then show "contains sub s" unfolding contains_def list_ex_iff by blast
qed

lemma split_at_infix: "p \<in> set (split_at c s) \<Longrightarrow> \<exists>l r. s = l @ p @ r"
proof (induction s arbitrary: p)
  case (Cons x xs)
  have split: "split_at c xs \<noteq> []" by (induction xs) (auto split: list.split)
  then obtain h t where ht: "split_at c xs = h # t" by (cases "split_at c xs") auto
  show ?case
  proof (cases "x = c \<and> p = [] \<or> p \<in> set t \<or> x = c \<and> p = h")
    case True
    then show ?thesis
    proof (elim disjE conjE)
      assume "p = []" then show ?thesis by auto
    next
      assume "p \<in> set t"
      then show ?thesis using Cons.IH [of p] ht by (metis append_Cons list.set_intros(2))
    next
      assume "p = h"
      then show ?thesis using Cons.IH [of p] ht by (metis append_Cons list.set_intros(1))
    qed
  next
    case False
    then have x: "x \<noteq> c" and p: "p = x # h" using Cons.prems ht by (auto split: if_splits)
    have "\<exists>r. xs = h @ r" using ht
    proof (induction xs arbitrary: h t)
      case (Cons y ys)
      then show ?case by (auto split: if_splits list.splits)
    qed auto
    then show ?thesis using p by (metis append_Cons append_Nil)
  qed
qed simp

lemma inspect_entries_ok:
  "inspect_entries t zs = Inr t' \<Longrightarrow> z \<in> set zs \<Longrightarrow> \<not> is_dir_entry z \<Longrightarrow>
     \<not> contains ''..'' (ze_filename z) \<and> \<not> starts_with (ze_filename z) ''/''"
proof (induction t zs rule: inspect_entries.induct)
  case (2 t x xs)
  then show ?case
    by (auto simp: res_bind_eq_Inr) (auto simp: inspect_entry_def split: if_splits)
qed simp

lemma resolve_parts_plain: "''..'' \<notin> set ps \<Longrightarrow> resolve_parts ps = ps"
proof -
  have "foldl (\<lambda>acc p. if p = ''..'' then butlast acc else acc @ [p]) acc ps = acc @ ps"
    if "''..'' \<notin> set ps" for acc ps
    using that by (induction ps arbitrary: acc) auto
  then show "''..'' \<notin> set ps \<Longrightarrow> resolve_parts ps = ps" by (simp add: resolve_parts_def)
qed

lemma path_string_append: "ps \<noteq> [] \<Longrightarrow> starts_with (path_string (ps @ qs)) (path_string ps)"
  by (auto simp: path_string_def starts_with_iff)

lemma safe_join_plain:
  assumes "base \<noteq> []" "''..'' \<notin> set base" "\<not> contains ''..'' member" "\<not> starts_with member ''/''"
  shows "safe_join base member = Some (base @ path_parts member)"
proof -
  have "''..'' \<notin> set (path_parts member)"
    using assms(3) split_at_infix [of "''..''" "CHR ''/''" member]
    by (auto simp: path_parts_def contains_iff)
  then have "join_member base member = base @ path_parts member"
    using assms by (simp add: join_member_def resolve_parts_plain)
  then show ?thesis using path_string_append [OF assms(1)] by (simp add: safe_join_def)
qed

subsection \<open>Properties\<close>

text \<open>C9. Extraction is confined: once the archive guard has accepted the entries, \<open>safe_join\<close>
  places every file below the target directory, at the components its name spells.\<close>

theorem extraction_confined:
  assumes "inspect_archive_limits zs = Inr ()" "z \<in> set zs" "\<not> is_dir_entry z"
    and "base \<noteq> []" "''..'' \<notin> set base"
  shows "safe_join base (ze_filename z) = Some (base @ path_parts (ze_filename z))"
proof -
  obtain t where "inspect_entries 0 zs = Inr t"
    using assms(1) by (auto simp: inspect_archive_limits_def res_bind_eq_Inr split: if_splits)
  from inspect_entries_ok [OF this assms(2,3)] show ?thesis
    using safe_join_plain [OF assms(4,5)] by blast
qed

theorem extraction_confined_witness:
  "safe_join [''srv'', ''data''] ''pkg/main.py'' = Some [''srv'', ''data'', ''pkg'', ''main.py'']"
proof -
  let ?z = "\<lparr> ze_filename = ''pkg/main.py'', ze_file_size = 10, ze_compress_size = 5 \<rparr>"
  have "safe_join [''srv'', ''data''] (ze_filename ?z)
      = Some ([''srv'', ''data''] @ path_parts (ze_filename ?z))"
    by (rule extraction_confined [where zs = "[?z]"]) code_simp+
  moreover have "path_parts ''pkg/main.py'' = [''pkg'', ''main.py'']" by code_simp
  ultimately show ?thesis by simp
qed

text \<open>A dependency graph passes \<open>detect_cycles\<close> exactly when it has no cycle; the search
  always ends.\<close>

theorem detect_cycles_iff_acyclic:
  "detect_cycles graph = Inr () \<longleftrightarrow> acyclic (edges (graph_edges graph))"
  by (rule detect_cycles_acyclic)

lemma split_at_snoc_no_sep:
  "x \<noteq> c \<Longrightarrow> split_at c (s @ [x]) = butlast (split_at c s) @ [last (split_at c s) @ [x]]"
proof (induction s)
  case (Cons y ys)
  have "split_at c ys \<noteq> []" by (induction ys) (auto split: list.split)
  with Cons show ?case by (cases "split_at c ys") (auto split: list.splits)
qed simp

lemma newline_not_in_segments: "\<not> id_segments (s @ [CHR 0x0A])"
proof -
  have ne: "split_at c t \<noteq> []" for c t by (induction t) (auto split: list.split)
  have nl: "\<not> is_lower (CHR 0x0A)" "\<not> is_digit (CHR 0x0A)" by (simp_all add: is_lower_def is_digit_def)
  obtain ss l where "split_at CHR ''.'' s = ss @ [l]" using ne by (metis rev_exhaust)
  then have split: "split_at CHR ''.'' (s @ [CHR 0x0A]) = ss @ [l @ [CHR 0x0A]]"
    using split_at_snoc_no_sep [of "CHR 0x0A" "CHR ''.''" s] by simp
  have "\<not> head_segment (l @ [CHR 0x0A])" "\<not> tail_segment (l @ [CHR 0x0A])"
    using nl by (cases l; simp add: head_segment_def tail_segment_def is_lower_alnum_def)+
  then show ?thesis
    unfolding id_segments_def split by (cases ss) (auto split: list.splits simp: append_eq_Cons_conv)
qed

text \<open>The pattern lets one trailing newline through: a module id followed by a newline
  validates exactly when the id itself is well formed and has no protected prefix, whether or not
  it is the id of a built-in module.\<close>

theorem newline_escapes_built_in_check:
  "validate_module_id (m @ [CHR 0x0A]) = Inr () \<longleftrightarrow>
     id_segments m \<and> \<not> list_ex (starts_with m) PROTECTED_MODULE_PREFIXES"
proof -
  have "m @ [CHR 0x0A] \<notin> set BUILTIN_MODULE_IDS"
  proof
    assume "m @ [CHR 0x0A] \<in> set BUILTIN_MODULE_IDS"
    moreover have "list_all (\<lambda>b. last b \<noteq> CHR 0x0A) BUILTIN_MODULE_IDS"
      by (simp add: BUILTIN_MODULE_IDS_def)
    ultimately show False by (force simp: list_all_iff)
  qed
  moreover have "starts_with (m @ [CHR 0x0A]) p \<longleftrightarrow> starts_with m p"
    if "p \<in> set PROTECTED_MODULE_PREFIXES" for p
  proof -
    have "p \<noteq> []" "last p \<noteq> CHR 0x0A" using that by (auto simp: PROTECTED_MODULE_PREFIXES_def)
    then show ?thesis unfolding starts_with_iff
      by (metis append_assoc append_butlast_last_id append_self_conv butlast_append last_appendR snoc_eq_iff_butlast)
  qed
  ultimately show ?thesis
    using newline_not_in_segments [of m]
    by (auto simp: validate_module_id_def module_id_pattern_def list_ex_iff)
qed

text \<open>The content hash does not separate files: an archive with two files and the archive
  whose single file holds the first file's data, the second name, a zero byte and the second
  file's data have the same hash input.\<close>

theorem content_hash_merges_files:
  assumes "n1 < n2" "n1 \<noteq> ''manifest.json''" "n2 \<noteq> ''manifest.json''"
    and "\<not> ends_with n1 ''/''" "\<not> ends_with n2 ''/''"
    and "include_in_content_hash n1" "include_in_content_hash n2"
  shows "content_hash_input canonical [(n1, d1), (n2, d2)]
       = content_hash_input canonical [(n1, d1 @ n2 @ [CHR 0x00] @ d2)]"
  using assms less_imp_le [OF assms(1)] by (simp add: content_hash_input_def)

theorem content_hash_merges_files_witness:
  "content_hash_input (\<lambda>d. d) [(''a.py'', ''x''), (''b.py'', ''y'')]
     = content_hash_input (\<lambda>d. d) [(''a.py'', ''x'' @ ''b.py'' @ [CHR 0x00] @ ''y'')]"
  by (rule content_hash_merges_files) code_simp+

end
