(* ===== verification/Package_Validator.thy ===== *)
theory Package_Validator
  imports Package_Rules
begin

section \<open>Validating a package archive\<close>

text \<open>
  \<open>platform/modules/packages/validator.py\<close>, \<open>PackageValidator.validate_archive\<close>, with the
  trust decision of \<open>trust_store.py\<close> and \<open>verify_signature\<close> of \<open>integrity.py\<close>. What is
  read from the archive and the disk, the hash comparison and the Ed25519 check come in as
  facts of the record \<open>archive_facts\<close>; every decision on them is the code's. The exceptions
  the code lets through (not only \<open>PackageError\<close>) are results.
\<close>

text \<open>The fields of \<open>ModuleManifest\<close> the validation reads.\<close>

record module_manifest =
  mm_module_id :: string
  mm_version :: string
  mm_module_type :: string
  mm_publisher :: string
  mm_module_api_version :: int
  mm_minimum_emic_version :: string
  mm_maximum_emic_version :: "string option"
  mm_provided_capabilities :: "string list"
  mm_required_capabilities :: "string list"
  mm_optional_capabilities :: "string list"
  mm_module_dependencies :: "module_dependency_spec list"
  mm_permissions :: "string list"
  mm_network_hosts :: "string list"

datatype signature_status = SIG_VALID | SIG_UNSIGNED | SIG_INVALID | SIG_MISSING

datatype publisher_key_status = KEY_TRUSTED | KEY_REVOKED | KEY_DISABLED

text \<open>The signature file of the extracted package, and whether it verifies under a key.\<close>

record signature_file =
  sg_publisher :: string
  sg_key_id :: string
  sg_verifies :: "string \<Rightarrow> bool"

type_synonym trust_store = "((string \<times> string) \<times> (publisher_key_status \<times> string)) list"

definition assert_trusted :: "trust_store \<Rightarrow> string \<Rightarrow> string \<Rightarrow> string + string" where
  "assert_trusted keys publisher key_id = (case map_of keys (publisher, key_id) of
     None \<Rightarrow> Inl ''PUBLISHER_UNKNOWN''
   | Some (KEY_REVOKED, _) \<Rightarrow> Inl ''PUBLISHER_REVOKED''
   | Some (KEY_DISABLED, _) \<Rightarrow> Inl ''PUBLISHER_UNKNOWN''
   | Some (KEY_TRUSTED, key) \<Rightarrow> Inr key)"

text \<open>\<open>verify_signature\<close>: a missing trust store is \<open>None\<close>.\<close>

definition verify_signature ::
  "bool \<Rightarrow> trust_store option \<Rightarrow> signature_file option \<Rightarrow> string + signature_status" where
  "verify_signature allow_unsigned store signature = (case signature of
     None \<Rightarrow> Inr (if allow_unsigned then SIG_UNSIGNED else SIG_MISSING)
   | Some s \<Rightarrow> (case store of
       None \<Rightarrow> Inl ''SIGNATURE_INVALID''
     | Some keys \<Rightarrow> res_bind (assert_trusted keys (sg_publisher s) (sg_key_id s))
         (\<lambda>key. if sg_verifies s key then Inr SIG_VALID else Inl ''SIGNATURE_INVALID'')))"

datatype manifest_read =
    Not_A_Zip | No_Manifest | Bad_Json | Manifest_Rejected string | Manifest module_manifest

record archive_facts =
  af_exists :: bool
  af_size :: int
  af_entries :: "zip_entry list"
  af_manifest :: manifest_read
  af_hash_error :: "string option"
  af_extract_error :: "string option"
  af_signature :: "signature_file option"

record package_settings =
  ps_package_max_bytes :: int
  ps_emic_version :: string
  ps_module_api_version :: int
  ps_allow_unsigned :: bool

record validation_result =
  vr_valid :: bool
  vr_manifest :: "module_manifest option"
  vr_errors :: "string list"
  vr_signed :: bool
  vr_signature_valid :: bool
  vr_publisher_trusted :: bool
  vr_publisher_identity_valid :: bool
  vr_install_allowed :: bool

definition rejected :: "string \<Rightarrow> validation_result" where
  "rejected e = \<lparr> vr_valid = False, vr_manifest = None, vr_errors = [e], vr_signed = False,
     vr_signature_valid = False, vr_publisher_trusted = False,
     vr_publisher_identity_valid = False, vr_install_allowed = False \<rparr>"

subsection \<open>The checks\<close>

definition MODULE_TYPES :: "string list" where
  "MODULE_TYPES = [''core'', ''feature'', ''integration'', ''provider'']"

text \<open>Errors collected for the platform version; an \<open>InvalidVersion\<close> is one more.\<close>

definition version_errors :: "'v version_ops \<Rightarrow> string \<Rightarrow> module_manifest \<Rightarrow> string list" where
  "version_errors ops emic m =
     (let e = ''INCOMPATIBLE_EMIC_VERSION'' in
      case (vo_parse ops emic, vo_parse ops (mm_minimum_emic_version m)) of
        (Some v, Some lo) \<Rightarrow>
          (if vo_lt ops v lo then [e] else [])
          @ (case mm_maximum_emic_version m of
               None \<Rightarrow> []
             | Some s \<Rightarrow> if s = [] then []
                 else (case vo_parse ops s of None \<Rightarrow> [e] | Some hi \<Rightarrow> if vo_lt ops hi v then [e] else []))
      | _ \<Rightarrow> [e])"

text \<open>
  The block that validates permissions, capabilities and hosts. A \<open>PackageError\<close> is
  collected; the \<open>ValueError\<close> of \<open>Capability(cap)\<close> on an unknown capability is not caught.
\<close>

definition capability_errors :: "module_manifest \<Rightarrow> package_exception + string list" where
  "capability_errors m =
     (case res_bind (validate_permissions (mm_permissions m)) (\<lambda>_.
             res_bind (validate_capability_permissions (mm_provided_capabilities m) (mm_permissions m))
               (\<lambda>_. validate_network_hosts (mm_network_hosts m))) of
        Inl code \<Rightarrow> Inr [code]
      | Inr _ \<Rightarrow>
          if list_all (\<lambda>c. capability_of c \<noteq> None)
               (mm_provided_capabilities m @ mm_required_capabilities m @ mm_optional_capabilities m)
          then Inr [] else Inl Value_Error)"

definition collected :: "package_exception + unit \<Rightarrow> package_exception + string list" where
  "collected r = (case r of Inr _ \<Rightarrow> Inr [] | Inl (Package_Error code) \<Rightarrow> Inr [code] | Inl e \<Rightarrow> Inl e)"

text \<open>All errors before the signature, in the order of the code.\<close>

definition manifest_errors ::
  "'v version_ops \<Rightarrow> package_settings \<Rightarrow> archive_facts \<Rightarrow> (string \<times> string) list \<Rightarrow> module_manifest
   \<Rightarrow> package_exception + string list" where
  "manifest_errors ops st a installed m =
     res_bind (capability_errors m) (\<lambda>caps.
     res_bind (collected (resolve_dependencies ops (mm_module_dependencies m) installed)) (\<lambda>deps.
     res_bind (collected (detect_cycles [(mm_module_id m, map dep_module_id (mm_module_dependencies m))]))
       (\<lambda>cycles. Inr
        (version_errors ops (ps_emic_version st) m
         @ (if ps_module_api_version st < mm_module_api_version m
            then [''INCOMPATIBLE_MODULE_API_VERSION''] else [])
         @ caps
         @ (if mm_module_type m \<notin> set MODULE_TYPES then [''INVALID_MANIFEST''] else [])
         @ (case af_hash_error a of None \<Rightarrow> [] | Some e \<Rightarrow> [e])
         @ deps @ cycles))))"

text \<open>The outcome of the signature stage: the errors it adds and the flags it sets.\<close>

definition signature_stage ::
  "package_settings \<Rightarrow> trust_store option \<Rightarrow> archive_facts \<Rightarrow> string list
   \<Rightarrow> string list \<times> signature_status" where
  "signature_stage st store a errors =
     (if errors \<noteq> [] then ([], SIG_MISSING)
      else case af_extract_error a of
        Some e \<Rightarrow> ([e], SIG_MISSING)
      | None \<Rightarrow> (case verify_signature (ps_allow_unsigned st) store (af_signature a) of
          Inl e \<Rightarrow> ([e], SIG_MISSING)
        | Inr s \<Rightarrow> ([], s)))"

definition status_errors :: "package_settings \<Rightarrow> signature_status \<Rightarrow> string list" where
  "status_errors st s =
     (if s \<in> {SIG_UNSIGNED, SIG_MISSING}
      then (if ps_allow_unsigned st then [] else [''SIGNATURE_INVALID''])
      else if s = SIG_INVALID then [''SIGNATURE_INVALID''] else [])"

definition finish_validation ::
  "package_settings \<Rightarrow> module_manifest \<Rightarrow> signature_status \<Rightarrow> string list \<Rightarrow> validation_result" where
  "finish_validation st m s errors =
     (let trusted = (s = SIG_VALID) in
      \<lparr> vr_valid = (errors = []), vr_manifest = (if errors = [] then Some m else None),
        vr_errors = errors, vr_signed = (s \<in> {SIG_VALID, SIG_INVALID}), vr_signature_valid = trusted,
        vr_publisher_trusted = trusted, vr_publisher_identity_valid = trusted,
        vr_install_allowed = (errors = [] \<and> (trusted \<or> ps_allow_unsigned st \<and> s = SIG_UNSIGNED)) \<rparr>)"

definition validate_archive ::
  "'v version_ops \<Rightarrow> package_settings \<Rightarrow> trust_store option \<Rightarrow> (string \<times> string) list \<Rightarrow> bool
   \<Rightarrow> archive_facts \<Rightarrow> package_exception + validation_result" where
  "validate_archive ops st store installed allow_reinstall a =
     (if \<not> af_exists a then Inr (rejected ''archive not found'')
      else if ps_package_max_bytes st < af_size a then Inr (rejected PACKAGE_TOO_LARGE)
      else if af_manifest a = Not_A_Zip then Inl Bad_Zip_File
      else case inspect_archive_limits (af_entries a) of
        Inl code \<Rightarrow> Inr (rejected code)
      | Inr _ \<Rightarrow> (case af_manifest a of
          Not_A_Zip \<Rightarrow> Inr (rejected ''invalid zip archive'')
        | No_Manifest \<Rightarrow> Inl (Package_Error ''INVALID_MANIFEST'')
        | Bad_Json \<Rightarrow> Inr (rejected ''INVALID_MANIFEST'')
        | Manifest_Rejected code \<Rightarrow> Inr (rejected code)
        | Manifest m \<Rightarrow>
            if is_protected_module_id (mm_module_id m) then Inr (rejected ''MODULE_ID_PROTECTED'')
            else if map_of installed (mm_module_id m) \<noteq> None \<and> \<not> allow_reinstall
            then Inr (rejected ''MODULE_ALREADY_INSTALLED'')
            else res_bind (manifest_errors ops st a installed m) (\<lambda>errors.
              let (more, s) = signature_stage st store a errors in
              Inr (finish_validation st m s (errors @ more @ status_errors st s)))))"

subsection \<open>What an accepted package satisfies\<close>

text \<open>The requirements on the manifest, and on the signature.\<close>

definition manifest_sound :: "'v version_ops \<Rightarrow> (string \<times> string) list \<Rightarrow> module_manifest \<Rightarrow> bool" where
  "manifest_sound ops installed m \<longleftrightarrow>
     set (mm_permissions m) \<subseteq> set ALLOWED_PERMISSIONS
     \<and> (\<forall>n \<in> set (mm_provided_capabilities m). \<exists>cap. capability_of n = Some cap
          \<and> (cap \<in> set CONTROL_CAPABILITIES \<longrightarrow> ''device.control'' \<in> set (mm_permissions m))
          \<and> (cap \<in> set READ_CAPABILITIES \<longrightarrow> ''device.read'' \<in> set (mm_permissions m)))
     \<and> (\<forall>d \<in> set (mm_module_dependencies m). \<exists>v. map_of installed (dep_module_id d) = Some v
          \<and> version_satisfies ops v (dep_version_range d) = Some True)
     \<and> mm_module_type m \<in> set MODULE_TYPES"

definition signature_sound :: "package_settings \<Rightarrow> trust_store option \<Rightarrow> archive_facts \<Rightarrow> bool" where
  "signature_sound st store a \<longleftrightarrow> (case af_signature a of
     None \<Rightarrow> ps_allow_unsigned st
   | Some sg \<Rightarrow> (\<exists>keys key. store = Some keys
       \<and> map_of keys (sg_publisher sg, sg_key_id sg) = Some (KEY_TRUSTED, key) \<and> sg_verifies sg key))"

lemma collected_eq_Nil: "collected r = Inr [] \<longleftrightarrow> r = Inr ()"
proof (cases r)
  case (Inl e)
  then show ?thesis by (cases e) (simp_all add: collected_def)
qed (simp add: collected_def)

lemma capability_errors_none:
  assumes "capability_errors m = Inr []"
  shows "set (mm_permissions m) \<subseteq> set ALLOWED_PERMISSIONS"
    and "validate_capability_permissions (mm_provided_capabilities m) (mm_permissions m) = Inr ()"
proof -
  let ?r = "res_bind (validate_permissions (mm_permissions m)) (\<lambda>_.
      res_bind (validate_capability_permissions (mm_provided_capabilities m) (mm_permissions m))
        (\<lambda>_. validate_network_hosts (mm_network_hosts m)))"
  have "?r = Inr ()"
    using assms unfolding capability_errors_def by (cases ?r) simp_all
  then have "validate_permissions (mm_permissions m) = Inr ()"
    and caps: "validate_capability_permissions (mm_provided_capabilities m) (mm_permissions m) = Inr ()"
    unfolding res_bind_eq_Inr by auto
  then show "set (mm_permissions m) \<subseteq> set ALLOWED_PERMISSIONS"
    by (auto simp: validate_permissions_def list_all_iff)
  show "validate_capability_permissions (mm_provided_capabilities m) (mm_permissions m) = Inr ()"
    by (rule caps)
qed

lemma manifest_errors_none:
  assumes "manifest_errors ops st a installed m = Inr []"
  shows "manifest_sound ops installed m" "af_hash_error a = None"
proof -
  from assms obtain caps deps cycles where r: "capability_errors m = Inr caps"
      "collected (resolve_dependencies ops (mm_module_dependencies m) installed) = Inr deps"
    and "version_errors ops (ps_emic_version st) m
         @ (if ps_module_api_version st < mm_module_api_version m
            then [''INCOMPATIBLE_MODULE_API_VERSION''] else [])
         @ caps @ (if mm_module_type m \<notin> set MODULE_TYPES then [''INVALID_MANIFEST''] else [])
         @ (case af_hash_error a of None \<Rightarrow> [] | Some e \<Rightarrow> [e]) @ deps @ cycles = []"
    unfolding manifest_errors_def res_bind_eq_Inr by blast
  then have e: "caps = []" "deps = []" "mm_module_type m \<in> set MODULE_TYPES" "af_hash_error a = None"
    by (auto split: if_splits option.splits)
  show "manifest_sound ops installed m"
    using capability_errors_none [of m] r e(3) unfolding e manifest_sound_def collected_eq_Nil
      resolve_dependencies_iff validate_capability_permissions_iff by blast
  show "af_hash_error a = None" by (rule e(4))
qed

lemma verify_signature_sound:
  assumes "verify_signature unsigned store sg = Inr s" "s = SIG_VALID \<or> unsigned \<and> s = SIG_UNSIGNED"
  shows "case sg of None \<Rightarrow> unsigned
    | Some f \<Rightarrow> (\<exists>keys key. store = Some keys
        \<and> map_of keys (sg_publisher f, sg_key_id f) = Some (KEY_TRUSTED, key) \<and> sg_verifies f key)"
  using assms
  by (auto simp: verify_signature_def assert_trusted_def res_bind_eq_Inr
      split: option.splits prod.splits publisher_key_status.splits if_splits)

lemma validate_archive_accepts:
  assumes "validate_archive ops st store installed re a = Inr v" "vr_install_allowed v"
  obtains m s where "af_manifest a = Manifest m" "vr_manifest v = Some m"
    "inspect_archive_limits (af_entries a) = Inr ()" "\<not> is_protected_module_id (mm_module_id m)"
    "manifest_errors ops st a installed m = Inr []"
    "verify_signature (ps_allow_unsigned st) store (af_signature a) = Inr s"
    "s = SIG_VALID \<or> ps_allow_unsigned st \<and> s = SIG_UNSIGNED"
proof -
  have rej [simp]: "\<not> vr_install_allowed (rejected e)" for e by (simp add: rejected_def)
  have "af_exists a"
    by (rule ccontr) (use assms in \<open>auto simp: validate_archive_def\<close>)
  moreover have "\<not> ps_package_max_bytes st < af_size a"
    by (rule notI) (use assms calculation in \<open>auto simp: validate_archive_def\<close>)
  moreover have "af_manifest a \<noteq> Not_A_Zip"
    by (rule notI) (use assms calculation in \<open>auto simp: validate_archive_def\<close>)
  moreover obtain inspect: "inspect_archive_limits (af_entries a) = Inr ()"
    by (cases "inspect_archive_limits (af_entries a)")
      (use assms calculation in \<open>auto simp: validate_archive_def\<close>)
  moreover obtain m where man: "af_manifest a = Manifest m"
    by (cases "af_manifest a") (use assms calculation in \<open>auto simp: validate_archive_def\<close>)
  moreover have open_id: "\<not> is_protected_module_id (mm_module_id m)"
    by (rule notI) (use assms calculation in \<open>auto simp: validate_archive_def\<close>)
  moreover have "\<not> (map_of installed (mm_module_id m) \<noteq> None \<and> \<not> re)"
    by (rule notI) (use assms calculation in \<open>auto simp: validate_archive_def\<close>)
  ultimately have "res_bind (manifest_errors ops st a installed m) (\<lambda>errors.
      let (more, s) = signature_stage st store a errors in
      Inr (finish_validation st m s (errors @ more @ status_errors st s))) = Inr v"
    using assms(1) unfolding validate_archive_def by (auto split: if_split_asm)
  then obtain errors where errors: "manifest_errors ops st a installed m = Inr errors"
    and v: "(let (more, s) = signature_stage st store a errors in
        Inr (finish_validation st m s (errors @ more @ status_errors st s)))
      = (Inr v :: package_exception + validation_result)"
    unfolding res_bind_eq_Inr by blast
  obtain more s where ms: "signature_stage st store a errors = (more, s)" by fastforce
  have v: "v = finish_validation st m s (errors @ more @ status_errors st s)"
    using v by (simp add: ms)
  from assms(2) have e: "errors = []" "more = []" "s = SIG_VALID \<or> ps_allow_unsigned st \<and> s = SIG_UNSIGNED"
    and res: "vr_manifest v = Some m"
    unfolding v by (auto simp: finish_validation_def Let_def split: if_splits)
  then have "verify_signature (ps_allow_unsigned st) store (af_signature a) = Inr s"
    using ms by (auto simp: signature_stage_def split: option.splits sum.splits)
  then show thesis using that inspect man open_id errors res e by blast
qed

subsection \<open>Property\<close>

text \<open>C8. A package the validator allows to install is sound: its id is not protected, every
  permission is known, a capability that controls or reads devices comes with the permission for it,
  every dependency is installed in a version that satisfies its range, the content hash matched, and
  the signature verifies under a trusted key of the store, or there is none and unsigned packages are
  allowed.\<close>

theorem accepted_package_sound:
  assumes "validate_archive ops st store installed allow_reinstall a = Inr v" "vr_install_allowed v"
  shows "\<exists>m. af_manifest a = Manifest m \<and> vr_manifest v = Some m
    \<and> \<not> is_protected_module_id (mm_module_id m) \<and> manifest_sound ops installed m
    \<and> af_hash_error a = None \<and> signature_sound st store a"
  using assms
proof (rule validate_archive_accepts)
  fix m s
  assume "af_manifest a = Manifest m" "vr_manifest v = Some m"
    "\<not> is_protected_module_id (mm_module_id m)" "manifest_errors ops st a installed m = Inr []"
    "verify_signature (ps_allow_unsigned st) store (af_signature a) = Inr s"
    "s = SIG_VALID \<or> ps_allow_unsigned st \<and> s = SIG_UNSIGNED"
  then show ?thesis
    unfolding signature_sound_def using manifest_errors_none verify_signature_sound by blast
qed

definition example_manifest :: module_manifest where
  "example_manifest = \<lparr> mm_module_id = ''acme.meter'', mm_version = ''1'', mm_module_type = ''feature'',
     mm_publisher = ''acme'', mm_module_api_version = 1, mm_minimum_emic_version = ''1'',
     mm_maximum_emic_version = None, mm_provided_capabilities = [''read_power''],
     mm_required_capabilities = [], mm_optional_capabilities = [], mm_module_dependencies = [],
     mm_permissions = [''device.read''], mm_network_hosts = [] \<rparr>"

definition example_versions :: "nat version_ops" where
  "example_versions = \<lparr> vo_parse = (\<lambda>s. Some (length s)), vo_le = (\<le>), vo_lt = (<), vo_eq = (=),
     vo_next_major = Suc \<rparr>"

definition example_archive :: archive_facts where
  "example_archive = \<lparr> af_exists = True, af_size = 100, af_entries = [],
     af_manifest = Manifest example_manifest, af_hash_error = None, af_extract_error = None,
     af_signature = Some \<lparr> sg_publisher = ''acme'', sg_key_id = ''k1'', sg_verifies = (\<lambda>k. k = ''key'') \<rparr> \<rparr>"

definition example_settings :: package_settings where
  "example_settings = \<lparr> ps_package_max_bytes = 1000, ps_emic_version = ''1'', ps_module_api_version = 1,
     ps_allow_unsigned = False \<rparr>"

theorem accepted_package_sound_witness:
  "signature_sound example_settings (Some [((''acme'', ''k1''), (KEY_TRUSTED, ''key''))]) example_archive"
proof -
  let ?v = "validate_archive example_versions example_settings
      (Some [((''acme'', ''k1''), (KEY_TRUSTED, ''key''))]) [] False example_archive"
  have "case ?v of Inr v \<Rightarrow> vr_install_allowed v | Inl e \<Rightarrow> False" by code_simp
  then obtain v where "?v = Inr v" "vr_install_allowed v" by (cases ?v) auto
  from accepted_package_sound [OF this] show ?thesis by blast
qed

end
