(* ===== verification/Package_Store.thy ===== *)
theory Package_Store
  imports Package_Validator
begin

section \<open>Where packages live\<close>

text \<open>
  The disk and the table behind the package lifecycle: a file system with the operations of
  \<open>shutil\<close> the code calls, the layout of \<open>packages/paths.py\<close>, the extraction of
  \<open>packages/extractor.py\<close>, the records of \<open>packages/types.py\<close> and
  \<open>db/installed_package_repo.py\<close>, and the metadata snapshot of \<open>trust_read_model.py\<close>.
  A path is its list of components; a directory exists when a file lies below it.
\<close>

subsection \<open>Files\<close>

type_synonym file_system = "(string list \<times> string) list"

definition below :: "string list \<Rightarrow> string list \<Rightarrow> bool" where
  "below d p \<longleftrightarrow> take (length d) p = d"

definition path_exists :: "string list \<Rightarrow> file_system \<Rightarrow> bool" where
  "path_exists d fs \<longleftrightarrow> list_ex (\<lambda>f. below d (fst f)) fs"

definition rmtree :: "string list \<Rightarrow> file_system \<Rightarrow> file_system" where
  "rmtree d fs = filter (\<lambda>f. \<not> below d (fst f)) fs"

text \<open>\<open>shutil.copytree\<close> and \<open>shutil.move\<close> onto a target that is not there.\<close>

definition copytree :: "string list \<Rightarrow> string list \<Rightarrow> file_system \<Rightarrow> file_system" where
  "copytree src dst fs =
     fs @ map (\<lambda>f. (dst @ drop (length src) (fst f), snd f)) (filter (\<lambda>f. below src (fst f)) fs)"

definition move_tree :: "string list \<Rightarrow> string list \<Rightarrow> file_system \<Rightarrow> file_system" where
  "move_tree src dst fs = map (\<lambda>f. (if below src (fst f) then dst @ drop (length src) (fst f) else fst f, snd f)) fs"

text \<open>The files below a directory, by their path relative to it.\<close>

definition files_below :: "string list \<Rightarrow> file_system \<Rightarrow> file_system" where
  "files_below d fs = map (\<lambda>f. (drop (length d) (fst f), snd f)) (filter (\<lambda>f. below d (fst f)) fs)"

lemma below_append [simp]: "below d (d @ r)"
  by (simp add: below_def)

lemma belowE: "below d p \<Longrightarrow> \<exists>r. p = d @ r"
  by (metis append_take_drop_id below_def)

lemma below_iff: "below d p \<longleftrightarrow> (\<exists>r. p = d @ r)"
  using belowE by auto

definition unrelated :: "string list \<Rightarrow> string list \<Rightarrow> bool" where
  "unrelated d e \<longleftrightarrow> \<not> below d e \<and> \<not> below e d"

lemma unrelated_sym: "unrelated d e \<longleftrightarrow> unrelated e d"
  by (auto simp: unrelated_def)

lemma unrelated_below: "unrelated d e \<Longrightarrow> below d p \<Longrightarrow> \<not> below e p"
  unfolding unrelated_def below_iff
  by (metis append_eq_append_conv_if append_eq_append_conv2)

lemma unrelated_iff: "unrelated d e \<Longrightarrow> below d p \<longleftrightarrow> below d p \<and> \<not> below e p"
  using unrelated_below by blast

lemma path_exists_files: "path_exists d fs \<longleftrightarrow> files_below d fs \<noteq> []"
  by (auto simp: path_exists_def files_below_def list_ex_iff filter_empty_conv)

lemma files_below_append [simp]: "files_below d (fs @ gs) = files_below d fs @ files_below d gs"
  by (simp add: files_below_def)

lemma files_below_rmtree:
  "files_below d (rmtree d fs) = []"
  "unrelated d e \<Longrightarrow> files_below d (rmtree e fs) = files_below d fs"
  by (auto simp: files_below_def rmtree_def filter_empty_conv unrelated_below
      intro!: arg_cong [where f = "map _"] filter_cong)

lemma files_below_map:
  "files_below dst (map (\<lambda>f. (dst @ drop (length src) (fst f), snd f)) (filter (\<lambda>f. below src (fst f)) fs)) = files_below src fs"
  by (simp add: files_below_def filter_map comp_def)

lemma files_below_map_other:
  assumes "unrelated d dst"
  shows "files_below d (map (\<lambda>f. (dst @ r f, snd f)) gs) = []"
proof -
  have "\<not> below d (dst @ x)" for x using assms unrelated_below by (metis below_append)
  then show ?thesis by (simp add: files_below_def filter_empty_conv)
qed

lemma files_below_copytree:
  "files_below dst fs = [] \<Longrightarrow> files_below dst (copytree src dst fs) = files_below src fs"
  "unrelated d dst \<Longrightarrow> files_below d (copytree src dst fs) = files_below d fs"
  by (simp_all add: copytree_def files_below_map files_below_map_other)

lemma files_below_move:
  assumes "files_below dst fs = []"
  shows "files_below dst (move_tree src dst fs) = files_below src fs"
proof -
  have "\<forall>f \<in> set fs. \<not> below dst (fst f)"
    using assms by (auto simp: files_below_def filter_empty_conv)
  then have "filter (\<lambda>f. below dst (fst f)) (move_tree src dst fs)
      = map (\<lambda>f. (dst @ drop (length src) (fst f), snd f)) (filter (\<lambda>f. below src (fst f)) fs)"
    unfolding move_tree_def by (induction fs) simp_all
  then show ?thesis by (simp add: files_below_def comp_def)
qed

lemma files_below_move_other:
  assumes "unrelated d src" "unrelated d dst"
  shows "files_below d (move_tree src dst fs) = files_below d fs"
proof -
  have *: "\<not> below d (dst @ r)" for r using assms(2) unrelated_below by (metis below_append)
  have "below src p \<Longrightarrow> \<not> below d p" for p using assms(1) unrelated_below by blast
  then show ?thesis by (induction fs) (simp_all add: files_below_def move_tree_def *)
qed

subsection \<open>Layout and extraction\<close>

definition staging_dir :: "string list \<Rightarrow> string \<Rightarrow> string \<Rightarrow> string list" where
  "staging_dir base m v = join_member (join_member (base @ [''.staging'']) m) v"

definition installed_dir :: "string list \<Rightarrow> string \<Rightarrow> string \<Rightarrow> string list" where
  "installed_dir base m v = join_member (join_member (base @ [''installed'']) m) v"

definition backup_dir :: "string list \<Rightarrow> string \<Rightarrow> string \<Rightarrow> string list" where
  "backup_dir base m v = join_member (join_member (base @ [''backups'']) m) v"

definition data_dir :: "string list \<Rightarrow> string \<Rightarrow> string list" where
  "data_dir base m = join_member (base @ [''data'']) m"

text \<open>The members of an archive in order; a name that leaves the target stops the extraction.\<close>

fun extract_members :: "string list \<Rightarrow> (string \<times> string) list \<Rightarrow> file_system \<Rightarrow> file_system \<times> (string + unit)" where
  "extract_members target [] fs = (fs, Inr ())"
| "extract_members target ((name, data) # ms) fs =
     (if ends_with name ''/'' then extract_members target ms fs
      else (case safe_join target name of
          None \<Rightarrow> (fs, Inl PATH_TRAVERSAL)
        | Some dest \<Rightarrow> extract_members target ms (AList.update dest data fs)))"

definition extract_archive :: "string list \<Rightarrow> (string \<times> string) list \<Rightarrow> file_system \<Rightarrow> file_system \<times> (string + unit)" where
  "extract_archive target ms fs = extract_members target ms (rmtree target fs)"

subsection \<open>Records\<close>

datatype package_state =
    PKG_AVAILABLE | PKG_INSTALLED | PKG_UPDATE_AVAILABLE | PKG_DISABLED | PKG_BROKEN | PKG_QUARANTINED | PKG_REMOVING

text \<open>The metadata: the snapshot taken at installation and what a quarantine adds.\<close>

record install_metadata =
  im_manifest :: module_manifest
  im_signed :: bool
  im_signature_valid :: bool
  im_publisher_trusted :: bool
  im_publisher_status :: string
  im_quarantine :: "(string \<times> time \<times> string \<times> string) option"

record installed_package =
  ip_module_id :: string
  ip_installed_version :: string
  ip_package_state :: package_state
  ip_package_path :: "string list"
  ip_staging_path :: "string list option"
  ip_publisher :: string
  ip_source :: string
  ip_checksum_sha256 :: string
  ip_signature_status :: signature_status
  ip_rollback_version :: "string option"
  ip_previous_package_path :: "string list option"
  ip_module_api_version :: int
  ip_restart_required :: bool
  ip_metadata :: install_metadata

definition build_install_metadata :: "module_manifest \<Rightarrow> validation_result \<Rightarrow> install_metadata" where
  "build_install_metadata m v = \<lparr> im_manifest = m, im_signed = vr_signed v, im_signature_valid = vr_signature_valid v,
     im_publisher_trusted = vr_publisher_trusted v,
     im_publisher_status = (if vr_publisher_trusted v then ''trusted''
        else if \<not> vr_signed v then ''unsigned_dev'' else ''unknown''),
     im_quarantine = None \<rparr>"

record trust_view =
  tv_signed :: bool
  tv_signature_valid :: bool
  tv_publisher_trusted :: bool
  tv_publisher_status :: string
  tv_install_allowed :: bool

definition trust_view_from_record :: "installed_package \<Rightarrow> trust_view" where
  "trust_view_from_record r = \<lparr> tv_signed = im_signed (ip_metadata r), tv_signature_valid = im_signature_valid (ip_metadata r),
     tv_publisher_trusted = im_publisher_trusted (ip_metadata r), tv_publisher_status = im_publisher_status (ip_metadata r),
     tv_install_allowed = (ip_package_state r = PKG_INSTALLED) \<rparr>"

definition logical_package_id :: "string \<Rightarrow> string \<Rightarrow> string" where
  "logical_package_id m v = m @ ''@'' @ v"

text \<open>The base of the modules directory, the disk, and the table keyed by module id.\<close>

record package_world =
  pw_root :: "string list"
  pw_fs :: file_system
  pw_rows :: "(string \<times> installed_package) list"

definition get_package :: "string \<Rightarrow> package_world \<Rightarrow> installed_package option" where
  "get_package m w = map_of (pw_rows w) m"

definition upsert_package :: "installed_package \<Rightarrow> package_world \<Rightarrow> package_world" where
  "upsert_package r w = w\<lparr> pw_rows := AList.update (ip_module_id r) r (pw_rows w) \<rparr>"

definition delete_package :: "string \<Rightarrow> package_world \<Rightarrow> package_world" where
  "delete_package m w = w\<lparr> pw_rows := AList.delete m (pw_rows w) \<rparr>"

definition installed_versions :: "package_world \<Rightarrow> (string \<times> string) list" where
  "installed_versions w = map (\<lambda>(_, r). (ip_module_id r, ip_installed_version r)) (pw_rows w)"

definition on_disk :: "(file_system \<Rightarrow> file_system) \<Rightarrow> package_world \<Rightarrow> package_world" where
  "on_disk f w = w\<lparr> pw_fs := f (pw_fs w) \<rparr>"

lemma get_package_upsert [simp]:
  "get_package m (upsert_package r w) = (if m = ip_module_id r then Some r else get_package m w)"
  by (simp add: get_package_def upsert_package_def)

lemma world_parts [simp]:
  "pw_fs (upsert_package r w) = pw_fs w" "pw_root (upsert_package r w) = pw_root w"
  "pw_fs (on_disk f w) = f (pw_fs w)" "pw_root (on_disk f w) = pw_root w" "pw_rows (on_disk f w) = pw_rows w"
  "get_package m (on_disk f w) = get_package m w" "get_package m (w\<lparr> pw_fs := fs \<rparr>) = get_package m w"
  "pw_fs (delete_package m w) = pw_fs w" "pw_root (delete_package m w) = pw_root w"
  by (simp_all add: upsert_package_def on_disk_def get_package_def delete_package_def)

end
