(* ===== verification/Package_Lifecycle.thy ===== *)
theory Package_Lifecycle
  imports Package_Store Module_Registry
begin

section \<open>The life of a package\<close>

text \<open>
  The transactions of \<open>platform/modules/packages/\<close>: installation (\<open>installer.py\<close>), update with
  backup and health gate (\<open>updater.py\<close>, \<open>migration_runner.py\<close>), rollback (\<open>rollback.py\<close>), removal
  (\<open>remover.py\<close>, \<open>impact.py\<close>), quarantine (\<open>quarantine.py\<close>) and the verification at startup
  (\<open>loader.py\<close>). What runs the package's own code (migration script, health gate, import) is an
  input, as is the lock; so is an I/O error at a step of a transaction. The database does not fail.
\<close>

record 'v package_env =
  pe_ops :: "'v version_ops"
  pe_major :: "'v \<Rightarrow> nat"
  pe_settings :: package_settings
  pe_store :: "trust_store option"
  pe_sha256 :: "string \<Rightarrow> string"
  pe_canonical :: "string \<Rightarrow> string"
  pe_modules :: "module_descriptor list"
  pe_enabled :: "(string \<times> string) list"
  pe_devices :: "(string \<times> string) list"

record package_archive =
  pa_facts :: archive_facts
  pa_members :: "(string \<times> string) list"

text \<open>A \<open>PackageError\<close> or another named exception of the validation, or any other exception.\<close>

datatype lifecycle_error = Failed package_exception | Other_Exception

datatype io_fault = At_Extract | At_Move

record mutation_result =
  mr_module_id :: string
  mr_package_state :: package_state
  mr_installed_version :: "string option"
  mr_restart_required :: bool
  mr_rollback_version :: "string option"

abbreviation package_failure :: "string \<Rightarrow> lifecycle_error" where
  "package_failure code \<equiv> Failed (Package_Error code)"

definition compute_archive_checksum :: "'v package_env \<Rightarrow> (string \<times> string) list \<Rightarrow> string" where
  "compute_archive_checksum env ms = pe_sha256 env (content_hash_input (pe_canonical env) ms)"

definition validate ::
  "'v package_env \<Rightarrow> (string \<times> string) list \<Rightarrow> bool \<Rightarrow> package_archive \<Rightarrow> package_exception + validation_result" where
  "validate env installed allow_reinstall a =
     validate_archive (pe_ops env) (pe_settings env) (pe_store env) installed allow_reinstall (pa_facts a)"

definition accepted_manifest ::
  "package_exception + validation_result \<Rightarrow> lifecycle_error + module_manifest \<times> validation_result" where
  "accepted_manifest r = (case r of
     Inl e \<Rightarrow> Inl (Failed e)
   | Inr v \<Rightarrow> (case vr_manifest v of
        None \<Rightarrow> Inl (package_failure (case vr_errors v of [] \<Rightarrow> ''package_error'' | e # _ \<Rightarrow> e))
      | Some m \<Rightarrow> if \<not> vr_valid v \<or> \<not> vr_install_allowed v
                  then Inl (package_failure (case vr_errors v of [] \<Rightarrow> ''package_error'' | e # _ \<Rightarrow> e))
                  else Inr (m, v)))"

definition recorded_signature :: "validation_result \<Rightarrow> signature_status" where
  "recorded_signature v = (if vr_signature_valid v then SIG_VALID else SIG_UNSIGNED)"

subsection \<open>Installation\<close>

definition promote :: "string list \<Rightarrow> string list \<Rightarrow> file_system \<Rightarrow> file_system" where
  "promote staging target fs = move_tree staging target (rmtree target fs)"

definition install_record ::
  "'v package_env \<Rightarrow> string \<Rightarrow> package_archive \<Rightarrow> module_manifest \<Rightarrow> validation_result \<Rightarrow> string list \<Rightarrow> installed_package" where
  "install_record env source a m v target = \<lparr> ip_module_id = mm_module_id m, ip_installed_version = mm_version m,
     ip_package_state = PKG_INSTALLED, ip_package_path = target, ip_staging_path = None, ip_publisher = mm_publisher m,
     ip_source = source, ip_checksum_sha256 = compute_archive_checksum env (pa_members a),
     ip_signature_status = recorded_signature v, ip_rollback_version = None, ip_previous_package_path = None,
     ip_module_api_version = mm_module_api_version m, ip_restart_required = True,
     ip_metadata = build_install_metadata m v \<rparr>"

definition install_accepted ::
  "'v package_env \<Rightarrow> io_fault option \<Rightarrow> string \<Rightarrow> package_archive \<Rightarrow> module_manifest \<Rightarrow> validation_result
     \<Rightarrow> package_world \<Rightarrow> package_world \<times> (lifecycle_error + mutation_result)" where
  "install_accepted env fault source a m v w =
     (let staging = staging_dir (pw_root w) (mm_module_id m) (mm_version m);
          target = installed_dir (pw_root w) (mm_module_id m) (mm_version m);
          (fs, extracted) = extract_archive staging (pa_members a) (pw_fs w);
          clean = (\<lambda>fs. w\<lparr> pw_fs := rmtree staging fs \<rparr>)
      in if fault = Some At_Extract then (clean fs, Inl Other_Exception)
         else (case extracted of
           Inl code \<Rightarrow> (clean fs, Inl (package_failure code))
         | Inr _ \<Rightarrow>
             if recorded_signature v = SIG_UNSIGNED \<and> \<not> ps_allow_unsigned (pe_settings env)
             then (clean fs, Inl (package_failure ''SIGNATURE_INVALID''))
             else if fault = Some At_Move then (clean (rmtree target fs), Inl Other_Exception)
             else (upsert_package (install_record env source a m v target) (w\<lparr> pw_fs := promote staging target fs \<rparr>),
                   Inr \<lparr> mr_module_id = mm_module_id m, mr_package_state = PKG_INSTALLED,
                         mr_installed_version = Some (mm_version m), mr_restart_required = True,
                         mr_rollback_version = None \<rparr>)))"

definition install ::
  "'v package_env \<Rightarrow> bool \<Rightarrow> io_fault option \<Rightarrow> string \<Rightarrow> package_archive \<Rightarrow> package_world
     \<Rightarrow> package_world \<times> (lifecycle_error + mutation_result)" where
  "install env locked fault source a w =
     (case accepted_manifest (validate env (installed_versions w) False a) of
        Inl e \<Rightarrow> (w, Inl e)
      | Inr (m, v) \<Rightarrow> if locked then (w, Inl (package_failure ''PACKAGE_LOCKED''))
                      else install_accepted env fault source a m v w)"

subsection \<open>Rollback and quarantine\<close>

text \<open>An empty version or path is no version or path.\<close>

definition restored_record :: "string \<Rightarrow> string list \<Rightarrow> installed_package \<Rightarrow> installed_package" where
  "restored_record v target r = r\<lparr> ip_installed_version := v, ip_package_state := PKG_INSTALLED,
     ip_package_path := target, ip_staging_path := None, ip_rollback_version := None,
     ip_previous_package_path := None, ip_restart_required := True \<rparr>"

definition rollback :: "string \<Rightarrow> package_world \<Rightarrow> package_world \<times> (lifecycle_error + mutation_result)" where
  "rollback m w =
     (case get_package m w of
        None \<Rightarrow> (w, Inl (package_failure ''MODULE_NOT_INSTALLED''))
      | Some r \<Rightarrow> (case (ip_rollback_version r, ip_previous_package_path r) of
          (Some v, Some backup) \<Rightarrow>
            if v = [] \<or> backup = [] then (w, Inl (package_failure ''ROLLBACK_UNAVAILABLE''))
            else if \<not> path_exists backup (pw_fs w) then (w, Inl (package_failure ''ROLLBACK_UNAVAILABLE''))
            else (let target = installed_dir (pw_root w) m v;
                      fs = copytree backup target (rmtree target (pw_fs w))
                  in (upsert_package (restored_record v target r) (w\<lparr> pw_fs := fs \<rparr>),
                      Inr \<lparr> mr_module_id = m, mr_package_state = PKG_INSTALLED, mr_installed_version = Some v,
                            mr_restart_required = True, mr_rollback_version = None \<rparr>))
        | _ \<Rightarrow> (w, Inl (package_failure ''ROLLBACK_UNAVAILABLE''))))"

definition quarantine_package ::
  "time \<Rightarrow> string \<Rightarrow> string option \<Rightarrow> installed_package \<Rightarrow> package_world \<Rightarrow> package_world" where
  "quarantine_package now reason last_error r w =
     upsert_package (r\<lparr> ip_package_state := PKG_QUARANTINED, ip_restart_required := True,
       ip_metadata := (ip_metadata r)\<lparr> im_quarantine :=
         Some (reason, now, (case last_error of None \<Rightarrow> reason | Some e \<Rightarrow> if e = [] then reason else e),
               ip_installed_version r) \<rparr> \<rparr>) w"

subsection \<open>Impact\<close>

record impact_report =
  ir_module_id :: string
  ir_affected_modules :: "string list"
  ir_affected_sites :: "string list"
  ir_capabilities_added :: "string list"
  ir_capabilities_removed :: "string list"
  ir_affected_devices :: "string list"
  ir_warnings :: "string list"

definition dependents :: "'v package_env \<Rightarrow> string \<Rightarrow> string list" where
  "dependents env m = map md_module_id (filter (\<lambda>d. m \<in> set (md_dependencies d)) (pe_modules env))"

definition enabled_sites :: "'v package_env \<Rightarrow> string \<Rightarrow> string list" where
  "enabled_sites env m = map snd (filter (\<lambda>e. fst e = m) (pe_enabled env))"

definition analyze_install ::
  "'v package_env \<Rightarrow> package_archive \<Rightarrow> string option \<Rightarrow> package_world \<Rightarrow> package_exception + impact_report" where
  "analyze_install env a module_id w =
     res_bind (validate env (installed_versions w) (module_id \<noteq> None) a) (\<lambda>v.
       case (if vr_valid v then vr_manifest v else None) of
         None \<Rightarrow> Inr \<lparr> ir_module_id = or_else module_id ''unknown'', ir_affected_modules = [], ir_affected_sites = [],
           ir_capabilities_added = [], ir_capabilities_removed = [], ir_affected_devices = [], ir_warnings = vr_errors v \<rparr>
       | Some m \<Rightarrow>
           (let report = \<lparr> ir_module_id = mm_module_id m, ir_affected_modules = [], ir_affected_sites = [],
                  ir_capabilities_added = mm_provided_capabilities m, ir_capabilities_removed = [],
                  ir_affected_devices = [], ir_warnings = [] \<rparr>
            in case get_package (mm_module_id m) w of
                 None \<Rightarrow> Inr report
               | Some _ \<Rightarrow>
                   (let old = (case find (\<lambda>d. md_module_id d = mm_module_id m) (pe_modules env) of
                          None \<Rightarrow> [] | Some d \<Rightarrow> map capability_value (md_capabilities_provided d));
                        removed = filter (\<lambda>c. c \<notin> set (mm_provided_capabilities m)) old
                    in Inr (report\<lparr> ir_capabilities_added := filter (\<lambda>c. c \<notin> set old) (mm_provided_capabilities m),
                         ir_capabilities_removed := removed,
                         ir_affected_modules := dependents env (mm_module_id m),
                         ir_warnings := (if removed \<noteq> [] \<and> enabled_sites env (mm_module_id m) \<noteq> []
                           then [''update removes capabilities while module enabled on sites''] else []) \<rparr>))))"

definition analyze_remove :: "'v package_env \<Rightarrow> string \<Rightarrow> impact_report" where
  "analyze_remove env m =
     (let sites = enabled_sites env m;
          deps = dependents env m;
          devices = map snd (filter (\<lambda>e. fst e = m) (pe_devices env))
      in \<lparr> ir_module_id = m, ir_affected_modules = deps, ir_affected_sites = sites, ir_capabilities_added = [],
           ir_capabilities_removed = [], ir_affected_devices = devices,
           ir_warnings = (if sites \<noteq> [] then [''module enabled on one or more sites''] else [])
             @ (if deps \<noteq> [] then [''other modules depend on this module''] else [])
             @ (if devices \<noteq> [] then [''registered devices reference this module''] else []) \<rparr>)"

definition assert_update_allowed ::
  "'v package_env \<Rightarrow> string \<Rightarrow> package_archive \<Rightarrow> package_world \<Rightarrow> package_exception + impact_report" where
  "assert_update_allowed env m a w =
     res_bind (analyze_install env a (Some m) w) (\<lambda>r.
       if ir_capabilities_removed r \<noteq> [] \<and> enabled_sites env m \<noteq> []
       then Inl (Package_Error ''CAPABILITY_REMOVAL_BLOCKED'') else Inr r)"

subsection \<open>Removal\<close>

definition remove_module ::
  "'v package_env \<Rightarrow> bool \<Rightarrow> string \<Rightarrow> package_world \<Rightarrow> package_world \<times> (lifecycle_error + mutation_result)" where
  "remove_module env locked m w =
     (case get_package m w of
        None \<Rightarrow> (w, Inl (package_failure ''MODULE_NOT_INSTALLED''))
      | Some r \<Rightarrow>
          (let impact = analyze_remove env m in
           if ir_affected_devices impact \<noteq> [] then (w, Inl (package_failure ''MODULE_HAS_DEVICES''))
           else if ir_affected_sites impact \<noteq> [] \<or> ir_affected_modules impact \<noteq> []
           then (w, Inl (package_failure ''MODULE_IN_USE''))
           else if locked then (w, Inl (package_failure ''PACKAGE_LOCKED''))
           else (delete_package m (on_disk (rmtree (ip_package_path r)) w),
                 Inr \<lparr> mr_module_id = m, mr_package_state = PKG_REMOVING, mr_installed_version = None,
                       mr_restart_required = True, mr_rollback_version = None \<rparr>)))"

subsection \<open>Update\<close>

text \<open>What the package's own code does: its migration script, and its health gate.\<close>

datatype code_outcome = Code_Ok | Code_Package_Error string | Code_Exception

definition requires_migration :: "'v package_env \<Rightarrow> string \<Rightarrow> string \<Rightarrow> package_exception + bool" where
  "requires_migration env from_version to_version =
     (case (vo_parse (pe_ops env) to_version, vo_parse (pe_ops env) from_version) of
        (Some t, Some f) \<Rightarrow> Inr (pe_major env t > pe_major env f)
      | _ \<Rightarrow> Inl Invalid_Version)"

definition is_downgrade :: "'v package_env \<Rightarrow> string \<Rightarrow> string \<Rightarrow> package_exception + bool" where
  "is_downgrade env new current =
     (case (vo_parse (pe_ops env) new, vo_parse (pe_ops env) current) of
        (Some n, Some c) \<Rightarrow> Inr (vo_lt (pe_ops env) n c)
      | _ \<Rightarrow> Inl Invalid_Version)"

text \<open>The checks before anything is written; they end with the accepted manifest.\<close>

definition update_checks ::
  "'v package_env \<Rightarrow> bool \<Rightarrow> string \<Rightarrow> package_archive \<Rightarrow> installed_package \<Rightarrow> package_world
     \<Rightarrow> lifecycle_error + module_manifest \<times> validation_result" where
  "update_checks env allow_downgrade m a current w =
     res_bind (accepted_manifest (validate env (filter (\<lambda>e. fst e \<noteq> m) (installed_versions w)) True a)) (\<lambda>mv.
       if mm_module_id (fst mv) \<noteq> m then Inl (package_failure ''MODULE_NOT_INSTALLED'')
       else (case is_downgrade env (mm_version (fst mv)) (ip_installed_version current) of
           Inl e \<Rightarrow> Inl (Failed e)
         | Inr down \<Rightarrow>
             if down \<and> \<not> allow_downgrade then Inl (package_failure ''VERSION_DOWNGRADE_NOT_ALLOWED'')
             else (case assert_update_allowed env m a w of Inl e \<Rightarrow> Inl (Failed e) | Inr _ \<Rightarrow> Inr mv)))"

text \<open>The probe of the migration in the staging directory, which an exception of the script leaves behind.\<close>

definition migration_probe ::
  "'v package_env \<Rightarrow> code_outcome \<Rightarrow> package_archive \<Rightarrow> module_manifest \<Rightarrow> installed_package \<Rightarrow> package_world
     \<Rightarrow> package_world \<times> (lifecycle_error + unit)" where
  "migration_probe env script a m current w =
     (case requires_migration env (ip_installed_version current) (mm_version m) of
        Inl e \<Rightarrow> (w, Inl (Failed e))
      | Inr False \<Rightarrow> (w, Inr ())
      | Inr True \<Rightarrow>
          (let staging = staging_dir (pw_root w) (mm_module_id m) (mm_version m);
               (fs, extracted) = extract_archive staging (pa_members a) (pw_fs w)
           in case extracted of
                Inl code \<Rightarrow> (w\<lparr> pw_fs := fs \<rparr>, Inl (package_failure code))
              | Inr _ \<Rightarrow> (case script of
                    Code_Ok \<Rightarrow> (w\<lparr> pw_fs := rmtree staging fs \<rparr>, Inr ())
                  | Code_Package_Error code \<Rightarrow> (w\<lparr> pw_fs := rmtree staging fs \<rparr>, Inl (package_failure code))
                  | Code_Exception \<Rightarrow> (w\<lparr> pw_fs := fs \<rparr>, Inl Other_Exception))))"

definition updated_record ::
  "'v package_env \<Rightarrow> package_archive \<Rightarrow> module_manifest \<Rightarrow> validation_result \<Rightarrow> string list \<Rightarrow> string list
     \<Rightarrow> installed_package \<Rightarrow> installed_package" where
  "updated_record env a m v target backup current =
     (install_record env (ip_source current) a m v target)\<lparr> ip_module_id := ip_module_id current,
       ip_rollback_version := Some (ip_installed_version current), ip_previous_package_path := Some backup \<rparr>"

text \<open>An exception that is no \<open>PackageError\<close>: roll back to what the record names, else quarantine.\<close>

definition recover_update :: "time \<Rightarrow> string \<Rightarrow> installed_package \<Rightarrow> package_world \<Rightarrow> package_world" where
  "recover_update now m current w = (case rollback m w of
     (w', Inr _) \<Rightarrow> w'
   | (_, Inl _) \<Rightarrow> quarantine_package now ''update_failed'' None current w)"

text \<open>
  The transaction under the lock. A \<open>PackageError\<close> of the health gate with another code than
  \<open>HEALTH_GATE_FAILED\<close> is dropped; the gate runs before the promotion, so the branch that rolls
  back after a failed gate is never taken.
\<close>

definition update_promoted ::
  "'v package_env \<Rightarrow> time \<Rightarrow> io_fault option \<Rightarrow> package_archive \<Rightarrow> module_manifest \<Rightarrow> validation_result \<Rightarrow> installed_package
     \<Rightarrow> string list \<Rightarrow> file_system \<Rightarrow> package_world \<Rightarrow> package_world \<times> (lifecycle_error + mutation_result)" where
  "update_promoted env now fault a m v current backup fs w =
     (let staging = staging_dir (pw_root w) (mm_module_id m) (mm_version m);
          target = installed_dir (pw_root w) (mm_module_id m) (mm_version m)
      in if fault = Some At_Move
         then (recover_update now (mm_module_id m) current (w\<lparr> pw_fs := rmtree staging (rmtree target fs) \<rparr>), Inl Other_Exception)
         else (upsert_package (updated_record env a m v target backup current) (w\<lparr> pw_fs := promote staging target fs \<rparr>),
               Inr \<lparr> mr_module_id = mm_module_id m, mr_package_state = PKG_INSTALLED,
                     mr_installed_version = Some (mm_version m), mr_restart_required = True,
                     mr_rollback_version = Some (ip_installed_version current) \<rparr>))"

definition update_locked ::
  "'v package_env \<Rightarrow> time \<Rightarrow> io_fault option \<Rightarrow> code_outcome \<Rightarrow> package_archive \<Rightarrow> module_manifest \<Rightarrow> validation_result
     \<Rightarrow> installed_package \<Rightarrow> package_world \<Rightarrow> package_world \<times> (lifecycle_error + mutation_result)" where
  "update_locked env now fault health a m v current w =
     (let backup = backup_dir (pw_root w) (mm_module_id m) (ip_installed_version current);
          fs = rmtree backup (pw_fs w)
      in if \<not> path_exists (ip_package_path current) fs then (w\<lparr> pw_fs := fs \<rparr>, Inl Other_Exception)
         else
           (let w = w\<lparr> pw_fs := copytree (ip_package_path current) backup fs \<rparr>;
                staging = staging_dir (pw_root w) (mm_module_id m) (mm_version m);
                (fs, extracted) = extract_archive staging (pa_members a) (pw_fs w);
                clean = w\<lparr> pw_fs := rmtree staging fs \<rparr>
            in if fault = Some At_Extract
               then (recover_update now (mm_module_id m) current clean, Inl Other_Exception)
               else (case extracted of
                   Inl code \<Rightarrow> (clean, Inl (package_failure code))
                 | Inr _ \<Rightarrow>
                     if health = Code_Package_Error ''HEALTH_GATE_FAILED''
                     then (clean, Inl (package_failure ''HEALTH_GATE_FAILED''))
                     else if health = Code_Exception
                     then (recover_update now (mm_module_id m) current clean, Inl Other_Exception)
                     else update_promoted env now fault a m v current backup fs w)))"

definition update ::
  "'v package_env \<Rightarrow> time \<Rightarrow> bool \<Rightarrow> bool \<Rightarrow> io_fault option \<Rightarrow> code_outcome \<Rightarrow> code_outcome \<Rightarrow> string \<Rightarrow> package_archive
     \<Rightarrow> package_world \<Rightarrow> package_world \<times> (lifecycle_error + mutation_result)" where
  "update env now allow_downgrade locked fault script health m a w =
     (case get_package m w of
        None \<Rightarrow> (w, Inl (package_failure ''MODULE_NOT_INSTALLED''))
      | Some current \<Rightarrow> (case update_checks env allow_downgrade m a current w of
            Inl e \<Rightarrow> (w, Inl e)
          | Inr (mf, v) \<Rightarrow> (case migration_probe env script a mf current w of
                (w, Inl e) \<Rightarrow> (w, Inl e)
              | (w, Inr _) \<Rightarrow> if locked then (w, Inl (package_failure ''PACKAGE_LOCKED''))
                              else update_locked env now fault health a mf v current w)))"

subsection \<open>Verification at startup\<close>

definition include_in_verify_archive :: "string \<Rightarrow> bool" where
  "include_in_verify_archive path \<longleftrightarrow>
     \<not> starts_with path ''__pycache__/'' \<and> \<not> starts_with path ''integrity/signature.json''
     \<and> \<not> ends_with path ''.pyc'' \<and> path \<noteq> ''.verify-loader.zip''"

fun posix_path :: "string list \<Rightarrow> string" where
  "posix_path [] = []"
| "posix_path [p] = p"
| "posix_path (p # ps) = p @ CHR ''/'' # posix_path ps"

definition package_files :: "string list \<Rightarrow> file_system \<Rightarrow> (string \<times> string) list" where
  "package_files d fs = map (\<lambda>f. (posix_path (fst f), snd f)) (files_below d fs)"

text \<open>The archive written for the comparison, with the manifest in canonical form.\<close>

definition verify_archive :: "'v package_env \<Rightarrow> (string \<times> string) list \<Rightarrow> (string \<times> string) list" where
  "verify_archive env files =
     map (\<lambda>f. (fst f, if fst f = ''manifest.json'' then pe_canonical env (snd f) else snd f))
       (filter (\<lambda>f. include_in_verify_archive (fst f)) files)"

text \<open>
  \<open>manifest_hash_ok\<close> compares the hash the manifest carries, \<open>signature_ok\<close> looks up the key and
  checks the signature; an exception of either counts as a failure. The manifest on disk is JSON:
  parsing it is outside the code's \<open>try\<close>, and a file that is not JSON stops the whole startup.
\<close>

definition verify_installed_package ::
  "'v package_env \<Rightarrow> (string \<Rightarrow> bool) \<Rightarrow> ((string \<times> string) list \<Rightarrow> bool) \<Rightarrow> installed_package \<Rightarrow> package_world \<Rightarrow> bool" where
  "verify_installed_package env manifest_hash_ok signature_ok r w =
     (let files = package_files (ip_package_path r) (pw_fs w) in
      case map_of files ''manifest.json'' of
        None \<Rightarrow> False
      | Some manifest \<Rightarrow>
          py_lower (compute_archive_checksum env (verify_archive env files)) = py_lower (ip_checksum_sha256 r)
          \<and> manifest_hash_ok manifest
          \<and> (if map_of files ''integrity/signature.json'' \<noteq> None then signature_ok files
             else ps_allow_unsigned (pe_settings env)))"

definition load_package ::
  "'v package_env \<Rightarrow> time \<Rightarrow> (string \<Rightarrow> bool) \<Rightarrow> ((string \<times> string) list \<Rightarrow> bool) \<Rightarrow> (installed_package \<Rightarrow> string option)
     \<Rightarrow> package_world \<times> string list \<Rightarrow> installed_package \<Rightarrow> package_world \<times> string list" where
  "load_package env now manifest_hash_ok signature_ok load acc r =
     (let (w, loaded) = acc in
      if ip_package_state r = PKG_QUARANTINED then acc
      else if \<not> verify_installed_package env manifest_hash_ok signature_ok r w
      then (quarantine_package now ''startup_integrity_failed'' (Some ''integrity or signature verification failed'') r w, loaded)
      else (case load r of
          Some e \<Rightarrow> (quarantine_package now ''load_failed'' (Some e) r w, loaded)
        | None \<Rightarrow> (w, loaded @ [ip_module_id r])))"

definition load_installed_module_packages ::
  "'v package_env \<Rightarrow> time \<Rightarrow> (string \<Rightarrow> bool) \<Rightarrow> ((string \<times> string) list \<Rightarrow> bool) \<Rightarrow> (installed_package \<Rightarrow> string option)
     \<Rightarrow> package_world \<Rightarrow> package_world \<times> string list" where
  "load_installed_module_packages env now manifest_hash_ok signature_ok load w =
     foldl (load_package env now manifest_hash_ok signature_ok load) (w, []) (map snd (pw_rows w))"

end
