(* ===== verification/Package_Runs.thy ===== *)
theory Package_Runs
  imports Package_Lifecycle
begin

section \<open>What the package lifecycle keeps\<close>

text \<open>
  Lemmas about the directories the transactions touch, then: an update followed by a rollback
  restores the files and the version, a failed update leaves the table and the installed files
  alone, whatever happens every package not in quarantine is on disk, and an installed package
  passes the verification at startup.
\<close>

subsection \<open>Plain path segments\<close>

definition plain_segment :: "string \<Rightarrow> bool" where
  "plain_segment s \<longleftrightarrow> s \<noteq> [] \<and> s \<noteq> ''.'' \<and> s \<noteq> ''..'' \<and> CHR ''/'' \<notin> set s"

lemma split_at_none: "c \<notin> set s \<Longrightarrow> split_at c s = [s]"
  by (induction c s rule: split_at.induct) auto

lemma plain_parts: "plain_segment s \<Longrightarrow> path_parts s = [s]"
  by (simp add: plain_segment_def path_parts_def split_at_none)

lemma plain_not_absolute: "plain_segment s \<Longrightarrow> \<not> starts_with s ''/''"
  by (cases s) (auto simp: plain_segment_def starts_with_def)

lemma join_plain:
  assumes "''..'' \<notin> set base" "plain_segment s"
  shows "join_member base s = base @ [s]"
  using plain_parts [OF assms(2)] plain_not_absolute [OF assms(2)] assms
  by (auto simp: join_member_def plain_segment_def intro!: resolve_parts_plain)

lemma dirs_plain:
  assumes "''..'' \<notin> set base" "plain_segment m" "plain_segment v"
  shows "staging_dir base m v = base @ [''.staging'', m, v]"
    and "installed_dir base m v = base @ [''installed'', m, v]"
    and "backup_dir base m v = base @ [''backups'', m, v]"
proof -
  have "m \<noteq> ''..''" using assms(2) by (simp add: plain_segment_def)
  then show "staging_dir base m v = base @ [''.staging'', m, v]"
    and "installed_dir base m v = base @ [''installed'', m, v]" and "backup_dir base m v = base @ [''backups'', m, v]"
    using assms by (simp_all add: staging_dir_def installed_dir_def backup_dir_def join_plain)
qed

lemma unrelated_same_length: "length d = length e \<Longrightarrow> unrelated d e \<longleftrightarrow> d \<noteq> e"
  by (auto simp: unrelated_def below_def)


text \<open>The three directories of a version, and those of two packages, do not overlap.\<close>

lemma unrelated_dirs:
  assumes "''..'' \<notin> set base" "plain_segment m" "plain_segment v" "plain_segment m'" "plain_segment v'"
  shows "unrelated (staging_dir base m v) (installed_dir base m' v')"
    "unrelated (installed_dir base m v) (staging_dir base m' v')"
    "unrelated (staging_dir base m v) (backup_dir base m' v')"
    "unrelated (backup_dir base m v) (staging_dir base m' v')"
    "unrelated (installed_dir base m v) (backup_dir base m' v')"
    "unrelated (backup_dir base m v) (installed_dir base m' v')"
    "unrelated (installed_dir base m v) (installed_dir base m' v') \<longleftrightarrow> (m, v) \<noteq> (m', v')"
  by (simp_all add: dirs_plain assms unrelated_same_length)

subsection \<open>Extraction\<close>

definition confined_name :: "string \<Rightarrow> bool" where
  "confined_name n \<longleftrightarrow> ends_with n ''/'' \<or> \<not> contains ''..'' n \<and> \<not> starts_with n ''/''"

definition archive_consistent :: "package_archive \<Rightarrow> bool" where
  "archive_consistent a \<longleftrightarrow> map ze_filename (af_entries (pa_facts a)) = map fst (pa_members a)
     \<and> (\<forall>m. af_manifest (pa_facts a) = Manifest m \<longrightarrow> ''manifest.json'' \<in> fst ` set (pa_members a)
          \<and> plain_segment (mm_module_id m) \<and> plain_segment (mm_version m))"

lemma safe_join_confined:
  "confined_name n \<Longrightarrow> \<not> ends_with n ''/'' \<Longrightarrow> target \<noteq> [] \<Longrightarrow> ''..'' \<notin> set target \<Longrightarrow>
     safe_join target n = Some (target @ path_parts n)"
  by (auto simp: confined_name_def safe_join_plain)

lemma files_below_update:
  "\<not> below d p \<Longrightarrow> files_below d (AList.update p x fs) = files_below d fs"
  by (induction fs) (auto simp: files_below_def)

lemma extract_frame:
  assumes "\<forall>n \<in> fst ` set ms. confined_name n" "target \<noteq> []" "''..'' \<notin> set target"
  shows "snd (extract_members target ms fs) = Inr ()"
    and "unrelated d target \<Longrightarrow> files_below d (fst (extract_members target ms fs)) = files_below d fs"
proof -
  have "snd (extract_members target ms fs) = Inr ()
      \<and> (unrelated d target \<longrightarrow> files_below d (fst (extract_members target ms fs)) = files_below d fs)"
    using assms
  proof (induction target ms fs rule: extract_members.induct)
    case (2 target name data ms fs)
    have "\<not> below d (target @ path_parts name)" if "unrelated d target"
      using that unrelated_below by (metis below_append)
    then show ?case using 2 by (auto simp: safe_join_confined files_below_update)
  qed simp
  then show "snd (extract_members target ms fs) = Inr ()"
    and "unrelated d target \<Longrightarrow> files_below d (fst (extract_members target ms fs)) = files_below d fs"
    by blast+
qed

lemma extract_archive_frame:
  assumes "\<forall>n \<in> fst ` set ms. confined_name n" "target \<noteq> []" "''..'' \<notin> set target"
  obtains fs' where "extract_archive target ms fs = (fs', Inr ())"
    "\<And>d. unrelated d target \<Longrightarrow> files_below d fs' = files_below d fs"
proof
  show "extract_archive target ms fs = (fst (extract_archive target ms fs), Inr ())"
    using extract_frame(1) [OF assms] by (simp add: extract_archive_def prod_eq_iff)
  show "files_below d (fst (extract_archive target ms fs)) = files_below d fs" if "unrelated d target" for d
    using that by (simp add: extract_archive_def extract_frame(2) [OF assms] files_below_rmtree)
qed

lemma validated_names:
  assumes "accepted_manifest (validate env installed allow a) = Inr (m, v)" "archive_consistent a"
  shows "\<forall>n \<in> fst ` set (pa_members a). confined_name n" "vr_manifest v = Some m" "vr_valid v" "vr_install_allowed v"
proof -
  have v: "validate env installed allow a = Inr v" "vr_manifest v = Some m" "vr_valid v" "vr_install_allowed v"
    using assms(1) by (auto simp: accepted_manifest_def split: sum.splits option.splits if_splits)
  then show "vr_manifest v = Some m" "vr_valid v" "vr_install_allowed v" by blast+
  have "inspect_archive_limits (af_entries (pa_facts a)) = Inr ()"
    using v by (auto simp: validate_def validate_archive_def rejected_def split: if_splits sum.splits)
  then obtain t where t: "inspect_entries 0 (af_entries (pa_facts a)) = Inr t"
    by (auto simp: inspect_archive_limits_def res_bind_eq_Inr split: if_splits)
  have "confined_name (ze_filename z)" if "z \<in> set (af_entries (pa_facts a))" for z
    using inspect_entries_ok [OF t that] by (auto simp: confined_name_def is_dir_entry_def)
  moreover have "fst ` set (pa_members a) = ze_filename ` set (af_entries (pa_facts a))"
    using assms(2) unfolding archive_consistent_def by (metis list.set_map)
  ultimately show "\<forall>n \<in> fst ` set (pa_members a). confined_name n" by auto
qed


lemma finished_manifest: "vr_manifest (finish_validation st m s errors) = Some m' \<longleftrightarrow> errors = [] \<and> m' = m"
  by (auto simp: finish_validation_def Let_def)

lemma validated_manifest:
  assumes "accepted_manifest (validate env installed allow a) = Inr (m, v)" "archive_consistent a"
  shows "''manifest.json'' \<in> fst ` set (pa_members a)" "plain_segment (mm_module_id m)" "plain_segment (mm_version m)"
proof -
  have "validate env installed allow a = Inr v" "vr_manifest v = Some m"
    using assms(1) by (auto simp: accepted_manifest_def split: sum.splits option.splits if_splits)
  then have "af_manifest (pa_facts a) = Manifest m"
    by (auto simp: validate_def validate_archive_def rejected_def finished_manifest res_bind_eq_Inr case_prod_beta
        split: if_splits sum.splits manifest_read.splits)
  then show "''manifest.json'' \<in> fst ` set (pa_members a)" "plain_segment (mm_module_id m)" "plain_segment (mm_version m)"
    using assms(2) by (simp_all add: archive_consistent_def)
qed

lemma keys_update: "fst ` set (AList.update k v d) = insert k (fst ` set d)"
  by (induction d) auto

lemma extract_keeps_keys:
  "\<forall>n \<in> fst ` set ms. confined_name n \<Longrightarrow> target \<noteq> [] \<Longrightarrow> ''..'' \<notin> set target \<Longrightarrow>
     fst ` set (fst (extract_members target ms fs)) =
       fst ` set fs \<union> (\<lambda>n. target @ path_parts n) ` {n \<in> fst ` set ms. \<not> ends_with n ''/''}"
proof (induction target ms fs rule: extract_members.induct)
  case (2 target name data ms fs)
  show ?case
  proof (cases "ends_with name ''/''")
    case True
    then have "{n \<in> fst ` set ((name, data) # ms). \<not> ends_with n ''/''} = {n \<in> fst ` set ms. \<not> ends_with n ''/''}" by auto
    then show ?thesis using 2 True by simp
  next
    case False
    then have "{n \<in> fst ` set ((name, data) # ms). \<not> ends_with n ''/''} = insert name {n \<in> fst ` set ms. \<not> ends_with n ''/''}" by auto
    then show ?thesis using 2 False by (simp add: safe_join_confined keys_update)
  qed
qed simp

lemma path_exists_keys: "path_exists d fs \<longleftrightarrow> (\<exists>p \<in> fst ` set fs. below d p)"
  by (auto simp: path_exists_def list_ex_iff)

lemma extracted_exists:
  assumes "\<forall>n \<in> fst ` set ms. confined_name n" "target \<noteq> []" "''..'' \<notin> set target" "''manifest.json'' \<in> fst ` set ms"
  shows "path_exists target (fst (extract_archive target ms fs))"
proof -
  have "\<not> ends_with ''manifest.json'' ''/''" by code_simp
  then have "target @ path_parts ''manifest.json'' \<in> fst ` set (fst (extract_archive target ms fs))"
    using assms(4) unfolding extract_archive_def extract_keeps_keys [OF assms(1-3)] by blast
  then show ?thesis unfolding path_exists_keys using below_append by blast
qed

lemma promote_frame:
  "unrelated d staging \<Longrightarrow> unrelated d target \<Longrightarrow> files_below d (promote staging target fs) = files_below d fs"
  by (simp add: promote_def files_below_move_other files_below_rmtree)

lemma promote_target:
  "unrelated staging target \<Longrightarrow> files_below target (promote staging target fs) = files_below staging fs"
  by (simp add: promote_def files_below_move files_below_rmtree)

subsection \<open>Rows and their directories\<close>

definition row_ok :: "string list \<Rightarrow> string \<Rightarrow> installed_package \<Rightarrow> bool" where
  "row_ok base m r \<longleftrightarrow> ip_module_id r = m \<and> plain_segment m \<and> plain_segment (ip_installed_version r)
     \<and> ip_package_path r = installed_dir base m (ip_installed_version r)
     \<and> (case ip_rollback_version r of
          None \<Rightarrow> ip_previous_package_path r = None
        | Some v \<Rightarrow> plain_segment v \<and> ip_previous_package_path r = Some (backup_dir base m v))"

text \<open>Every row is good and its directory there, but for quarantined packages and one that is in
  the middle of its update.\<close>

definition world_ok_but :: "string set \<Rightarrow> package_world \<Rightarrow> bool" where
  "world_ok_but X w \<longleftrightarrow> ''..'' \<notin> set (pw_root w) \<and> (\<forall>m r. get_package m w = Some r \<longrightarrow> row_ok (pw_root w) m r
     \<and> (ip_package_state r \<noteq> PKG_QUARANTINED \<longrightarrow> m \<notin> X \<longrightarrow> path_exists (ip_package_path r) (pw_fs w)))"

abbreviation world_ok :: "package_world \<Rightarrow> bool" where
  "world_ok \<equiv> world_ok_but {}"

lemma world_ok_weaken: "world_ok w \<Longrightarrow> world_ok_but X w"
  by (simp add: world_ok_but_def)

lemma world_ok_row:
  assumes "world_ok_but X w" "get_package m w = Some r"
  shows "''..'' \<notin> set (pw_root w)" "plain_segment m" "plain_segment (ip_installed_version r)"
    "ip_package_path r = installed_dir (pw_root w) m (ip_installed_version r)" "ip_module_id r = m"
    "row_ok (pw_root w) m r"
  using assms by (auto simp: world_ok_but_def row_ok_def)

text \<open>A world whose table is that of a good one stays good when no installed directory changed.\<close>

lemma world_ok_same_rows:
  assumes "world_ok_but X w" "pw_root w' = pw_root w" "\<And>m. get_package m w' = get_package m w"
    and "\<And>m r. get_package m w = Some r \<Longrightarrow> files_below (ip_package_path r) (pw_fs w') = files_below (ip_package_path r) (pw_fs w)"
  shows "world_ok_but X w'"
  using assms unfolding world_ok_but_def path_exists_files by metis

lemma world_ok_upsert:
  assumes "world_ok_but {ip_module_id r} w" "pw_root w' = pw_root w" "\<And>m. get_package m w' = get_package m w"
    and r: "row_ok (pw_root w) (ip_module_id r) r" "ip_package_state r \<noteq> PKG_QUARANTINED \<Longrightarrow> path_exists (ip_package_path r) (pw_fs w')"
    and others: "\<And>m q. get_package m w = Some q \<Longrightarrow> m \<noteq> ip_module_id r \<Longrightarrow>
      files_below (ip_package_path q) (pw_fs w') = files_below (ip_package_path q) (pw_fs w)"
  shows "world_ok (upsert_package r w')"
  using assms unfolding world_ok_but_def path_exists_files by (auto split: if_splits)


subsection \<open>Every transaction keeps the world good\<close>

lemma staging_nonempty:
  assumes "''..'' \<notin> set base" "plain_segment m" "plain_segment v"
  shows "staging_dir base m v \<noteq> []" "''..'' \<notin> set (staging_dir base m v)"
  using assms by (simp_all add: dirs_plain) (auto simp: plain_segment_def)

lemma validated_fresh:
  assumes "accepted_manifest (validate env installed False a) = Inr (m, v)"
  shows "map_of installed (mm_module_id m) = None"
proof -
  have "validate env installed False a = Inr v" "vr_manifest v = Some m"
    using assms by (auto simp: accepted_manifest_def split: sum.splits option.splits if_splits)
  then show ?thesis
    by (auto simp: validate_def validate_archive_def rejected_def finished_manifest res_bind_eq_Inr case_prod_beta
        split: if_splits sum.splits manifest_read.splits)
qed

lemma not_installed:
  assumes "world_ok w" "map_of (installed_versions w) m = None"
  shows "get_package m w = None"
proof (rule ccontr)
  assume "get_package m w \<noteq> None"
  then obtain r where r: "get_package m w = Some r" by blast
  then have "(m, r) \<in> set (pw_rows w)" by (simp add: get_package_def map_of_SomeD)
  then have "(ip_module_id r, ip_installed_version r) \<in> set (installed_versions w)"
    by (force simp: installed_versions_def)
  then show False using assms(2) world_ok_row(5) [OF assms(1) r] by (metis map_of_eq_None_iff fst_conv image_eqI)
qed

lemma other_packages_kept:
  assumes "world_ok_but X w" "get_package m' w = Some q" "m' \<noteq> m" "plain_segment m" "plain_segment v" "plain_segment v'"
    and "\<And>d. unrelated d (staging_dir (pw_root w) m v) \<Longrightarrow> unrelated d (installed_dir (pw_root w) m v)
      \<Longrightarrow> unrelated d (backup_dir (pw_root w) m v') \<Longrightarrow> unrelated d (installed_dir (pw_root w) m v')
      \<Longrightarrow> files_below d fs' = files_below d fs"
  shows "files_below (ip_package_path q) fs' = files_below (ip_package_path q) fs"
  unfolding world_ok_row(4) [OF assms(1,2)]
  by (rule assms(7)) (use world_ok_row(1-3) [OF assms(1,2)] assms(3-6) in \<open>simp_all add: unrelated_dirs\<close>)

lemma install_keeps:
  assumes ok: "world_ok w" and a: "archive_consistent a"
  shows "world_ok (fst (install env locked fault source a w))"
proof (cases "accepted_manifest (validate env (installed_versions w) False a)")
  case (Inl e)
  then show ?thesis using ok by (simp add: install_def)
next
  case (Inr mv)
  obtain m v where mv: "mv = (m, v)" by force
  define staging where "staging = staging_dir (pw_root w) (mm_module_id m) (mm_version m)"
  define target where "target = installed_dir (pw_root w) (mm_module_id m) (mm_version m)"
  note accepted = Inr [unfolded mv]
  note plain = validated_manifest [OF accepted a]
  have base: "''..'' \<notin> set (pw_root w)" using ok by (simp add: world_ok_but_def)
  have none: "get_package (mm_module_id m) w = None"
    by (rule not_installed [OF ok validated_fresh [OF accepted]])
  note nonempty = staging_nonempty [OF base plain(2,3), folded staging_def]
  obtain fs where fs: "extract_archive staging (pa_members a) (pw_fs w) = (fs, Inr ())"
      "\<And>d. unrelated d staging \<Longrightarrow> files_below d fs = files_below d (pw_fs w)"
    using extract_archive_frame [OF validated_names(1) [OF accepted a] nonempty] by blast
  have others: "files_below (ip_package_path q) fs' = files_below (ip_package_path q) (pw_fs w)"
    if "get_package k w = Some q" "\<And>d. unrelated d staging \<Longrightarrow> unrelated d target \<Longrightarrow> files_below d fs' = files_below d fs"
    for k q fs'
    using that none fs(2)
    by (intro other_packages_kept [OF ok that(1), of "mm_module_id m" "mm_version m" "mm_version m"])
      (auto simp: plain staging_def target_def)
  have "path_exists staging fs"
    using extracted_exists [OF validated_names(1) [OF accepted a] nonempty plain(1), of "pw_fs w"] fs(1) by simp
  then have there: "path_exists target (promote staging target fs)"
    using unrelated_dirs(1) [OF base plain(2,3) plain(2,3)]
    by (simp add: path_exists_files promote_target staging_def target_def)
  have cleaned: "world_ok (w\<lparr> pw_fs := rmtree staging fs \<rparr>)" "world_ok (w\<lparr> pw_fs := rmtree staging (rmtree target fs) \<rparr>)"
    by (rule world_ok_same_rows [OF ok]; simp add: get_package_def others files_below_rmtree)+
  have row: "row_ok (pw_root w) (mm_module_id m) (install_record env source a m v target)"
    using plain by (simp add: row_ok_def install_record_def target_def)
  have "world_ok (upsert_package (install_record env source a m v target) (w\<lparr> pw_fs := promote staging target fs \<rparr>))"
    by (rule world_ok_upsert [OF world_ok_weaken [OF ok]])
      (use row there in \<open>auto simp: install_record_def get_package_def others promote_frame\<close>)
  then show ?thesis
    using ok cleaned by (simp add: install_def Inr mv install_accepted_def Let_def fs(1) flip: staging_def target_def)
qed


lemma quarantine_keeps:
  assumes "world_ok_but {m} w" "get_package m w = Some r"
  shows "world_ok (quarantine_package now reason e r w)"
  unfolding quarantine_package_def
  by (rule world_ok_upsert [where w = w]) (use assms(1) world_ok_row(5,6) [OF assms] in \<open>simp_all add: row_ok_def cong: option.case_cong\<close>)

text \<open>What a successful rollback did.\<close>

lemma rollback_success:
  assumes "rollback m w = (w', Inr res)"
  obtains r v backup where "get_package m w = Some r" "ip_rollback_version r = Some v"
    "ip_previous_package_path r = Some backup" "path_exists backup (pw_fs w)"
    "w' = upsert_package (restored_record v (installed_dir (pw_root w) m v) r)
       (w\<lparr> pw_fs := copytree backup (installed_dir (pw_root w) m v) (rmtree (installed_dir (pw_root w) m v) (pw_fs w)) \<rparr>)"
  using assms by (auto simp: rollback_def Let_def split: option.splits if_splits)

lemma rollback_failure: "rollback m w = (w', Inl e) \<Longrightarrow> w' = w"
  by (auto simp: rollback_def Let_def split: option.splits if_splits)

lemma restored_parts [simp]:
  "ip_module_id (restored_record v t r) = ip_module_id r" "ip_installed_version (restored_record v t r) = v"
  "ip_package_path (restored_record v t r) = t" "ip_package_state (restored_record v t r) = PKG_INSTALLED"
  "ip_rollback_version (restored_record v t r) = None" "ip_previous_package_path (restored_record v t r) = None"
  by (simp_all add: restored_record_def)

lemma rollback_repairs:
  assumes ok: "world_ok_but {m} w" and rolled: "rollback m w = (w', Inr res)"
  shows "world_ok w'"
proof -
  obtain r v backup where r: "get_package m w = Some r" "ip_rollback_version r = Some v"
      "ip_previous_package_path r = Some backup" "path_exists backup (pw_fs w)"
      "w' = upsert_package (restored_record v (installed_dir (pw_root w) m v) r)
        (w\<lparr> pw_fs := copytree backup (installed_dir (pw_root w) m v) (rmtree (installed_dir (pw_root w) m v) (pw_fs w)) \<rparr>)"
    using rollback_success [OF rolled] by metis
  note row = world_ok_row [OF ok r(1)]
  have v: "plain_segment v" "backup = backup_dir (pw_root w) m v" using row(6) r(2,3) by (simp_all add: row_ok_def)
  have "world_ok w'"
    unfolding r(5)
  proof (rule world_ok_upsert [where w = w])
    show "row_ok (pw_root w) (ip_module_id (restored_record v (installed_dir (pw_root w) m v) r))
        (restored_record v (installed_dir (pw_root w) m v) r)"
      using row v by (simp add: row_ok_def)
    show "path_exists (ip_package_path (restored_record v (installed_dir (pw_root w) m v) r))
      (pw_fs (w\<lparr> pw_fs := copytree backup (installed_dir (pw_root w) m v) (rmtree (installed_dir (pw_root w) m v) (pw_fs w)) \<rparr>))"
      using r(4) row v by (simp add: path_exists_files files_below_copytree files_below_rmtree unrelated_dirs)
  next
    fix k q
    assume q: "get_package k w = Some q" "k \<noteq> ip_module_id (restored_record v (installed_dir (pw_root w) m v) r)"
    then have "k \<noteq> m" using row(5) by simp
    then have "unrelated (ip_package_path q) (installed_dir (pw_root w) m v)"
      unfolding world_ok_row(4) [OF ok q(1)] using world_ok_row(1-3) [OF ok q(1)] row(2) v(1) by (simp add: unrelated_dirs)
    then show "files_below (ip_package_path q)
        (pw_fs (w\<lparr> pw_fs := copytree backup (installed_dir (pw_root w) m v) (rmtree (installed_dir (pw_root w) m v) (pw_fs w)) \<rparr>))
        = files_below (ip_package_path q) (pw_fs w)"
      by (simp add: files_below_copytree files_below_rmtree)
  qed (use ok row(5) in \<open>simp_all add: get_package_def\<close>)
  then show ?thesis .
qed

lemma rollback_keeps:
  assumes "world_ok w"
  shows "world_ok (fst (rollback m w))"
proof (cases "rollback m w")
  case (Pair w' res)
  then show ?thesis
    using assms rollback_failure rollback_repairs [OF world_ok_weaken [OF assms], of m] by (cases res) auto
qed

lemma recover_keeps:
  assumes "world_ok_but {m} w" "get_package m w = Some r"
  shows "world_ok (recover_update now m r w)"
  using rollback_repairs [OF assms(1)] quarantine_keeps [OF assms]
  by (auto simp: recover_update_def split: prod.splits sum.splits)

lemma remove_keeps:
  assumes ok: "world_ok w"
  shows "world_ok (fst (remove_module env locked m w))"
proof (cases "get_package m w")
  case None
  then show ?thesis using ok by (simp add: remove_module_def)
next
  case (Some r)
  have "files_below (ip_package_path q) (rmtree (ip_package_path r) (pw_fs w)) = files_below (ip_package_path q) (pw_fs w)"
    if "get_package k w = Some q" "k \<noteq> m" for k q
    using that world_ok_row(1-4) [OF ok that(1)] world_ok_row(1-4) [OF ok Some]
    by (simp add: files_below_rmtree unrelated_dirs)
  moreover have "get_package k (delete_package m (on_disk f w)) = (if k = m then None else get_package k w)" for k f
    by (simp add: get_package_def delete_package_def on_disk_def)
  ultimately have "world_ok (delete_package m (on_disk (rmtree (ip_package_path r)) w))"
    using ok unfolding world_ok_but_def path_exists_files by (auto split: if_splits)
  then show ?thesis using ok by (simp add: remove_module_def Some Let_def)
qed


subsubsection \<open>The update\<close>

lemma installed_unrelated:
  assumes "world_ok_but X w" "get_package k w = Some q" "plain_segment m" "plain_segment v"
  shows "unrelated (ip_package_path q) (staging_dir (pw_root w) m v)"
    "unrelated (ip_package_path q) (backup_dir (pw_root w) m v)"
    "k \<noteq> m \<Longrightarrow> unrelated (ip_package_path q) (installed_dir (pw_root w) m v)"
  unfolding world_ok_row(4) [OF assms(1,2)]
  using world_ok_row(1-3) [OF assms(1,2)] assms(3,4) by (simp_all add: unrelated_dirs)

lemma disk_keeps:
  assumes ok: "world_ok_but X w"
    and same: "\<And>k q. get_package k w = Some q \<Longrightarrow> k \<notin> Y \<Longrightarrow> files_below (ip_package_path q) fs = files_below (ip_package_path q) (pw_fs w)"
    and "X \<subseteq> Y"
  shows "world_ok_but Y (w\<lparr> pw_fs := fs \<rparr>)"
proof -
  have "get_package k (w\<lparr> pw_fs := fs \<rparr>) = get_package k w" for k by (simp add: get_package_def)
  then show ?thesis using assms unfolding world_ok_but_def path_exists_files by (simp add: subset_iff) metis
qed

lemma migration_frame:
  assumes "\<forall>n \<in> fst ` set (pa_members a). confined_name n" "''..'' \<notin> set (pw_root w)"
    and "plain_segment (mm_module_id m)" "plain_segment (mm_version m)"
    and "migration_probe env script a m current w = (w', r)"
  shows "\<exists>fs. w' = w\<lparr> pw_fs := fs \<rparr> \<and> (\<forall>d. unrelated d (staging_dir (pw_root w) (mm_module_id m) (mm_version m)) \<longrightarrow>
    files_below d fs = files_below d (pw_fs w))"
proof -
  define staging where "staging = staging_dir (pw_root w) (mm_module_id m) (mm_version m)"
  obtain fs where fs: "extract_archive staging (pa_members a) (pw_fs w) = (fs, Inr ())"
      "\<And>d. unrelated d staging \<Longrightarrow> files_below d fs = files_below d (pw_fs w)"
    using extract_archive_frame [OF assms(1) staging_nonempty [OF assms(2-4)], folded staging_def] by blast
  have "w' = w \<or> w' = w\<lparr> pw_fs := fs \<rparr> \<or> w' = w\<lparr> pw_fs := rmtree staging fs \<rparr>"
    using assms(5) by (auto simp: migration_probe_def Let_def fs(1) simp flip: staging_def
        split: sum.splits bool.splits code_outcome.splits)
  moreover have "w = w\<lparr> pw_fs := pw_fs w \<rparr>" by simp
  ultimately show ?thesis
    using fs(2) files_below_rmtree(2) unfolding staging_def [symmetric] by metis
qed

text \<open>The disk during the transaction: the backup is made, then the staging directory filled.\<close>

lemma update_locked_keeps:
  assumes ok: "world_ok w" and cur: "get_package (mm_module_id m) w = Some current"
    and names: "\<forall>n \<in> fst ` set (pa_members a). confined_name n" "''manifest.json'' \<in> fst ` set (pa_members a)"
    and plain: "plain_segment (mm_version m)"
  shows "world_ok (fst (update_locked env now fault health a m v current w))"
proof -
  let ?id = "mm_module_id m"
  define staging where "staging = staging_dir (pw_root w) ?id (mm_version m)"
  define target where "target = installed_dir (pw_root w) ?id (mm_version m)"
  define backup where "backup = backup_dir (pw_root w) ?id (ip_installed_version current)"
  define fs1 where "fs1 = copytree (ip_package_path current) backup (rmtree backup (pw_fs w))"
  note row = world_ok_row [OF ok cur]
  note nonempty = staging_nonempty [OF row(1,2) plain, folded staging_def]
  have apart: "unrelated (ip_package_path q) staging" "unrelated (ip_package_path q) backup"
      "k \<noteq> ?id \<Longrightarrow> unrelated (ip_package_path q) target" if "get_package k w = Some q" for k q
    using installed_unrelated [OF ok that] row(2,3) plain by (simp_all add: staging_def backup_def target_def)
  obtain fs where fs: "extract_archive staging (pa_members a) fs1 = (fs, Inr ())"
      "\<And>d. unrelated d staging \<Longrightarrow> files_below d fs = files_below d fs1"
    using extract_archive_frame [OF names(1) nonempty] by blast
  have inst: "files_below (ip_package_path q) fs = files_below (ip_package_path q) (pw_fs w)"
    if "get_package k w = Some q" for k q
    using apart [OF that] by (simp add: fs(2) fs1_def files_below_copytree files_below_rmtree)
  have clean: "world_ok (w\<lparr> pw_fs := rmtree staging fs \<rparr>)"
    by (rule disk_keeps [OF ok]) (simp_all add: apart files_below_rmtree inst)
  have backed: "world_ok (w\<lparr> pw_fs := rmtree backup (pw_fs w) \<rparr>)"
    by (rule disk_keeps [OF ok]) (simp_all add: apart files_below_rmtree)
  have moving: "world_ok_but {?id} (w\<lparr> pw_fs := rmtree staging (rmtree target fs) \<rparr>)"
    by (rule disk_keeps [OF ok]) (simp_all add: apart files_below_rmtree inst)
  have recovered: "world_ok (recover_update now ?id current (w\<lparr> pw_fs := rmtree staging fs \<rparr>))"
    "world_ok (recover_update now ?id current (w\<lparr> pw_fs := rmtree staging (rmtree target fs) \<rparr>))"
    using cur by (auto intro!: recover_keeps world_ok_weaken [OF clean] moving simp: get_package_def)
  have "path_exists staging fs" using extracted_exists [OF names(1) nonempty names(2), of fs1] fs(1) by simp
  then have there: "path_exists target (promote staging target fs)"
    using unrelated_dirs(1) [OF row(1,2) plain row(2) plain]
    by (simp add: path_exists_files promote_target staging_def target_def)
  have updated: "world_ok (upsert_package (updated_record env a m v target backup current) (w\<lparr> pw_fs := promote staging target fs \<rparr>))"
  proof (rule world_ok_upsert [where w = w])
    show "row_ok (pw_root w) (ip_module_id (updated_record env a m v target backup current))
        (updated_record env a m v target backup current)"
      using row plain by (simp add: row_ok_def updated_record_def install_record_def target_def backup_def)
  qed (use ok row(5) there in \<open>auto simp: updated_record_def install_record_def get_package_def apart promote_frame inst
        intro: world_ok_weaken\<close>)
  have promoted: "world_ok (fst (update_promoted env now fault a m v current backup fs (w\<lparr> pw_fs := fs1 \<rparr>)))"
    using recovered updated by (simp add: update_promoted_def Let_def flip: staging_def target_def)
  show ?thesis
    using clean backed recovered promoted
    by (simp add: update_locked_def Let_def fs(1) flip: backup_def staging_def fs1_def)
qed

lemma update_keeps:
  assumes ok: "world_ok w" and a: "archive_consistent a"
  shows "world_ok (fst (update env now down locked fault script health m a w))"
proof (cases "get_package m w")
  case None
  then show ?thesis using ok by (simp add: update_def)
next
  case (Some current)
  show ?thesis
  proof (cases "update_checks env down m a current w")
    case (Inl e)
    then show ?thesis using ok Some by (simp add: update_def)
  next
    case (Inr mv)
    obtain mf v where mv: "mv = (mf, v)" by force
    have checks: "accepted_manifest (validate env (filter (\<lambda>e. fst e \<noteq> m) (installed_versions w)) True a) = Inr (mf, v)"
        "mm_module_id mf = m"
      using Inr mv by (auto simp: update_checks_def res_bind_eq_Inr split: if_splits sum.splits)
    note plain = validated_manifest [OF checks(1) a]
    note names = validated_names(1) [OF checks(1) a]
    obtain w1 r where probe: "migration_probe env script a mf current w = (w1, r)" by force
    from migration_frame [OF names world_ok_row(1) [OF ok Some] plain(2,3) probe]
    obtain fs where fs: "w1 = w\<lparr> pw_fs := fs \<rparr>"
      "\<And>d. unrelated d (staging_dir (pw_root w) (mm_module_id mf) (mm_version mf)) \<Longrightarrow> files_below d fs = files_below d (pw_fs w)"
      by blast
    have ok1: "world_ok w1"
      unfolding fs(1) by (rule disk_keeps [OF ok]) (simp_all add: fs(2) installed_unrelated [OF ok] plain)
    have "world_ok (fst (update_locked env now fault health a mf v current w1))"
      by (rule update_locked_keeps [OF ok1 _ names plain(1,3)]) (simp add: checks(2) fs(1) get_package_def flip: Some)
    then show ?thesis using ok1 by (simp add: update_def Some Inr mv probe split: sum.split)
  qed
qed


subsection \<open>Startup\<close>

lemma load_package_fs: "pw_fs (fst (load_package env now mh sg load acc r)) = pw_fs (fst acc)"
  by (auto simp: load_package_def Let_def case_prod_beta quarantine_package_def split: option.split)

text \<open>Rows with distinct ids are handled independently.\<close>

lemma load_rows:
  fixes env :: "'v package_env" and loaded :: "string list"
  assumes "world_ok w" "distinct (map ip_module_id rs)" "\<forall>r \<in> set rs. get_package (ip_module_id r) w = Some r"
    and "foldl (load_package env now mh sg load) (w, loaded) rs = res"
  shows "world_ok (fst res) \<and> pw_fs (fst res) = pw_fs w
    \<and> (\<forall>m. m \<notin> ip_module_id ` set rs \<longrightarrow> get_package m (fst res) = get_package m w)
    \<and> (\<forall>r \<in> set rs. ip_package_state r \<noteq> PKG_QUARANTINED \<and> verify_installed_package env mh sg r w \<and> load r = None
         \<and> get_package (ip_module_id r) (fst res) = Some r \<and> ip_module_id r \<in> set (snd res)
       \<or> (\<exists>q. get_package (ip_module_id r) (fst res) = Some q \<and> ip_package_state q = PKG_QUARANTINED)
         \<and> (ip_module_id r \<in> set (snd res) \<longrightarrow> ip_module_id r \<in> set loaded))
    \<and> set loaded \<subseteq> set (snd res) \<and> set (snd res) \<subseteq> set loaded \<union> ip_module_id ` set rs"
  unfolding assms(4) [symmetric] using assms(1-3)
proof (induction rs arbitrary: w loaded)
  case Nil
  then show ?case by simp
next
  case (Cons r rs)
  obtain w1 loaded1 where step: "load_package env now mh sg load (w, loaded) r = (w1, loaded1)" by force
  have r: "get_package (ip_module_id r) w = Some r" using Cons.prems by simp
  have fs: "pw_fs w1 = pw_fs w" using load_package_fs [of env now mh sg load "(w, loaded)" r] step by simp
  have cases: "ip_package_state r \<noteq> PKG_QUARANTINED \<and> verify_installed_package env mh sg r w \<and> load r = None
        \<and> w1 = w \<and> loaded1 = loaded @ [ip_module_id r]
      \<or> (\<exists>reason e. w1 = quarantine_package now reason e r w) \<and> loaded1 = loaded
      \<or> ip_package_state r = PKG_QUARANTINED \<and> w1 = w \<and> loaded1 = loaded"
    using step by (auto simp: load_package_def Let_def split: if_splits option.splits)
  have ok1: "world_ok w1"
    using cases Cons.prems(1) quarantine_keeps [OF world_ok_weaken [OF Cons.prems(1)] r] by metis
  have get1: "m \<noteq> ip_module_id r \<Longrightarrow> get_package m w1 = get_package m w" for m
    using cases by (auto simp: quarantine_package_def)
  have quarantined: "get_package (ip_module_id r) w1 = Some r \<and> ip_package_state r \<noteq> PKG_QUARANTINED
        \<and> verify_installed_package env mh sg r w \<and> load r = None \<and> loaded1 = loaded @ [ip_module_id r]
      \<or> (\<exists>q. get_package (ip_module_id r) w1 = Some q \<and> ip_package_state q = PKG_QUARANTINED) \<and> loaded1 = loaded"
    using cases r by (auto simp: quarantine_package_def)
  have verify1: "verify_installed_package env mh sg q w1 = verify_installed_package env mh sg q w" for q
    by (simp add: verify_installed_package_def fs)
  have "ip_module_id q \<noteq> ip_module_id r" if "q \<in> set rs" for q
    using Cons.prems(2) imageI [OF that, of ip_module_id] by auto
  then have "distinct (map ip_module_id rs)" "\<forall>r \<in> set rs. get_package (ip_module_id r) w1 = Some r"
    using Cons.prems(2,3) get1 by auto
  note IH = Cons.IH [OF ok1 this, of loaded1]
  let ?res = "foldl (load_package env now mh sg load) (w1, loaded1) rs"
  have r_out: "ip_module_id r \<notin> ip_module_id ` set rs" using Cons.prems(2) by auto
  have head: "get_package (ip_module_id r) (fst ?res) = get_package (ip_module_id r) w1"
    "ip_module_id r \<in> set (snd ?res) \<longleftrightarrow> ip_module_id r \<in> set loaded1"
    using IH r_out by blast+
  have grow: "set loaded \<subseteq> set loaded1" "set loaded1 \<subseteq> insert (ip_module_id r) (set loaded)" using quarantined by auto
  have new: "ip_module_id q \<in> set loaded1 \<longrightarrow> ip_module_id q \<in> set loaded" if "q \<in> set rs" for q
    using grow r_out imageI [OF that, of ip_module_id] by auto
  have res: "foldl (load_package env now mh sg load) (w, loaded) (r # rs) = ?res" by (simp add: step)
  show ?case
    unfolding res
  proof (intro conjI ballI allI impI)
    fix q assume "q \<in> set (r # rs)"
    then consider "q = r" | "q \<in> set rs" by auto
    then show "ip_package_state q \<noteq> PKG_QUARANTINED \<and> verify_installed_package env mh sg q w \<and> load q = None
         \<and> get_package (ip_module_id q) (fst ?res) = Some q \<and> ip_module_id q \<in> set (snd ?res)
       \<or> (\<exists>p. get_package (ip_module_id q) (fst ?res) = Some p \<and> ip_package_state p = PKG_QUARANTINED)
         \<and> (ip_module_id q \<in> set (snd ?res) \<longrightarrow> ip_module_id q \<in> set loaded)"
    proof cases
      case 1
      then show ?thesis using quarantined head by auto
    next
      case 2
      then show ?thesis using IH new [OF 2] verify1 by metis
    qed
  qed (use IH fs get1 grow in auto)
qed

lemma rows_listed:
  assumes "world_ok w" "distinct (map fst (pw_rows w))"
  shows "distinct (map ip_module_id (map snd (pw_rows w)))"
    and "\<forall>r \<in> set (map snd (pw_rows w)). get_package (ip_module_id r) w = Some r"
    and "get_package m w = Some r \<Longrightarrow> r \<in> set (map snd (pw_rows w))"
proof -
  have key: "ip_module_id r = k \<and> get_package k w = Some r" if "(k, r) \<in> set (pw_rows w)" for k r
  proof -
    have "get_package k w = Some r" using that assms(2) by (simp add: get_package_def)
    then show ?thesis using world_ok_row(5) [OF assms(1)] by blast
  qed
  then have "map ip_module_id (map snd (pw_rows w)) = map fst (pw_rows w)" by auto
  then show "distinct (map ip_module_id (map snd (pw_rows w)))" using assms(2) by (simp only:)
  show "\<forall>r \<in> set (map snd (pw_rows w)). get_package (ip_module_id r) w = Some r" using key by auto
  show "get_package m w = Some r \<Longrightarrow> r \<in> set (map snd (pw_rows w))"
    by (force simp: get_package_def dest: map_of_SomeD)
qed


subsection \<open>Runs\<close>

datatype 'v package_event =
    Install "'v package_env" bool "io_fault option" string package_archive
  | Update "'v package_env" time bool bool "io_fault option" code_outcome code_outcome string package_archive
  | Rollback string
  | Remove "'v package_env" bool string
  | Startup "'v package_env" time "string \<Rightarrow> bool" "(string \<times> string) list \<Rightarrow> bool" "installed_package \<Rightarrow> string option"

fun package_step :: "package_world \<Rightarrow> 'v package_event \<Rightarrow> package_world" where
  "package_step w (Install env locked fault source a) = fst (install env locked fault source a w)"
| "package_step w (Update env now down locked fault script health m a) =
     fst (update env now down locked fault script health m a w)"
| "package_step w (Rollback m) = fst (rollback m w)"
| "package_step w (Remove env locked m) = fst (remove_module env locked m w)"
| "package_step w (Startup env now mh sg load) = fst (load_installed_module_packages env now mh sg load w)"

text \<open>Archives are what the facts about them say, and name plain ids and versions.\<close>

fun package_event_ok :: "'v package_event \<Rightarrow> bool" where
  "package_event_ok (Install _ _ _ _ a) \<longleftrightarrow> archive_consistent a"
| "package_event_ok (Update _ _ _ _ _ _ _ _ a) \<longleftrightarrow> archive_consistent a"
| "package_event_ok _ \<longleftrightarrow> True"

definition unique_keys :: "package_world \<Rightarrow> bool" where
  "unique_keys w \<longleftrightarrow> distinct (map fst (pw_rows w))"

lemma unique_keys_parts [simp]:
  "unique_keys w \<Longrightarrow> unique_keys (upsert_package r w)"
  "unique_keys w \<Longrightarrow> unique_keys (delete_package m w)"
  "unique_keys (w\<lparr> pw_fs := fs \<rparr>) = unique_keys w"
  "unique_keys (on_disk f w) = unique_keys w"
  "unique_keys w \<Longrightarrow> unique_keys (quarantine_package now reason e q w)"
  by (simp_all add: unique_keys_def upsert_package_def delete_package_def on_disk_def quarantine_package_def
      distinct_keys_update distinct_keys_delete)

lemma install_unique: "unique_keys w \<Longrightarrow> unique_keys (fst (install env locked fault source a w))"
  by (simp add: install_def install_accepted_def Let_def case_prod_beta split: sum.split)

lemma rollback_unique: "unique_keys w \<Longrightarrow> unique_keys (fst (rollback m w))"
  by (simp add: rollback_def Let_def split: option.split)

lemma recover_unique: "unique_keys w \<Longrightarrow> unique_keys (recover_update now m r w)"
  using rollback_unique [of w m] by (auto simp: recover_update_def split: prod.splits sum.splits)

lemma migration_unique: "unique_keys w \<Longrightarrow> unique_keys (fst (migration_probe env script a m current w))"
  by (simp add: migration_probe_def Let_def case_prod_beta split: sum.split bool.split code_outcome.split)

lemma update_locked_unique: "unique_keys w \<Longrightarrow> unique_keys (fst (update_locked env now fault health a m v current w))"
  by (simp add: update_locked_def update_promoted_def Let_def case_prod_beta recover_unique split: sum.split)

lemma update_unique: "unique_keys w \<Longrightarrow> unique_keys (fst (update env now down locked fault script health m a w))"
proof (cases "get_package m w")
  case (Some current)
  assume w: "unique_keys w"
  have "unique_keys (fst (migration_probe env script a mf current w))" for mf by (rule migration_unique [OF w])
  then show ?thesis
    using w by (simp add: update_def Some update_locked_unique case_prod_beta split: sum.split)
qed (simp add: update_def)

lemma remove_unique: "unique_keys w \<Longrightarrow> unique_keys (fst (remove_module env locked m w))"
  by (simp add: remove_module_def Let_def split: option.split)

lemma load_unique: "unique_keys w \<Longrightarrow> unique_keys (fst (load_installed_module_packages env now mh sg load w))"
proof -
  have "unique_keys (fst acc) \<Longrightarrow> unique_keys (fst (foldl (load_package env now mh sg load) acc rs))" for acc rs
  proof (induction rs arbitrary: acc)
    case (Cons r rs)
    have "unique_keys (fst (load_package env now mh sg load acc r))"
      using Cons.prems by (simp add: load_package_def Let_def case_prod_beta split: option.split)
    then show ?case using Cons.IH by simp
  qed simp
  then show "unique_keys w \<Longrightarrow> ?thesis" by (simp add: load_installed_module_packages_def)
qed

definition good_world :: "package_world \<Rightarrow> bool" where
  "good_world w \<longleftrightarrow> world_ok w \<and> unique_keys w"

lemma load_start:
  assumes "good_world w" "load_installed_module_packages env now mh sg load w = (w', loaded)"
  shows "world_ok w'" "pw_fs w' = pw_fs w"
    and "get_package m w' = Some r \<Longrightarrow> ip_package_state r \<noteq> PKG_QUARANTINED \<Longrightarrow>
      m \<in> set loaded \<and> verify_installed_package env mh sg r w' \<and> load r = None"
    and "m \<in> set loaded \<Longrightarrow> \<exists>r. get_package m w' = Some r \<and> ip_package_state r \<noteq> PKG_QUARANTINED"
proof -
  have w: "world_ok w" "distinct (map fst (pw_rows w))" using assms(1) by (simp_all add: good_world_def unique_keys_def)
  have run: "foldl (load_package env now mh sg load) (w, []) (map snd (pw_rows w)) = (w', loaded)"
    using assms(2) by (simp add: load_installed_module_packages_def)
  note rows = load_rows [OF w(1) rows_listed(1,2) [OF w] run, unfolded fst_conv snd_conv]
  show fs: "world_ok w'" "pw_fs w' = pw_fs w" using rows by blast+
  show "m \<in> set loaded \<and> verify_installed_package env mh sg r w' \<and> load r = None"
    if r: "get_package m w' = Some r" "ip_package_state r \<noteq> PKG_QUARANTINED"
  proof -
    have "m \<in> ip_module_id ` set (map snd (pw_rows w))"
    proof (rule ccontr)
      assume out: "m \<notin> ip_module_id ` set (map snd (pw_rows w))"
      then have "get_package m w = Some r" using rows r(1) by metis
      then have "r \<in> set (map snd (pw_rows w))" "ip_module_id r = m"
        using rows_listed(3) [OF w] world_ok_row(5) [OF w(1)] by blast+
      then show False using out by blast
    qed
    then obtain q where "q \<in> set (map snd (pw_rows w))" "ip_module_id q = m" by auto
    then have "m \<in> set loaded \<and> verify_installed_package env mh sg q w \<and> load q = None \<and> get_package m w' = Some q"
      using rows r by (metis option.inject)
    then show ?thesis using r(1) fs(2) by (simp add: verify_installed_package_def)
  qed
  show "\<exists>r. get_package m w' = Some r \<and> ip_package_state r \<noteq> PKG_QUARANTINED" if mem: "m \<in> set loaded"
  proof -
    have "m \<in> ip_module_id ` set (map snd (pw_rows w))" using rows mem by auto
    then obtain q where "q \<in> set (map snd (pw_rows w))" "ip_module_id q = m" by auto
    then show ?thesis using rows mem by (metis empty_iff list.set(1))
  qed
qed

interpretation package_runs: kept_invariant package_step package_event_ok good_world
proof
  fix w and e :: "'a package_event"
  assume w: "good_world w" "package_event_ok e"
  then show "good_world (package_step w e)"
  proof (cases e)
    case (Startup env now mh sg load)
    have "world_ok (fst (load_installed_module_packages env now mh sg load w))"
      using load_start(1) [OF w(1)] by (metis prod.collapse)
    then show ?thesis using w Startup by (simp add: good_world_def load_unique)
  qed (simp_all add: good_world_def install_keeps install_unique update_keeps update_unique rollback_keeps rollback_unique
      remove_keeps remove_unique)
qed


definition empty_world :: "string list \<Rightarrow> file_system \<Rightarrow> package_world" where
  "empty_world base fs = \<lparr> pw_root = base, pw_fs = fs, pw_rows = [] \<rparr>"

lemma reachable_good:
  "''..'' \<notin> set base \<Longrightarrow> \<forall>e \<in> set es. package_event_ok e \<Longrightarrow> good_world (foldl package_step (empty_world base fs) es)"
  by (rule package_runs.run_keeps) (simp_all add: good_world_def world_ok_but_def unique_keys_def empty_world_def get_package_def)

subsection \<open>What an update does\<close>

lemma update_checks_accepted:
  "update_checks env down m a current w = Inr (mf, v) \<Longrightarrow>
     accepted_manifest (validate env (filter (\<lambda>e. fst e \<noteq> m) (installed_versions w)) True a) = Inr (mf, v) \<and> mm_module_id mf = m"
  by (auto simp: update_checks_def res_bind_eq_Inr split: if_splits sum.splits)

lemma update_success:
  assumes "update env now down locked fault script health m a w = (w', Inr res)" "get_package m w = Some current"
  obtains mf v w1 where
    "accepted_manifest (validate env (filter (\<lambda>e. fst e \<noteq> m) (installed_versions w)) True a) = Inr (mf, v)"
    "mm_module_id mf = m" "migration_probe env script a mf current w = (w1, Inr ())"
    "update_locked env now fault health a mf v current w1 = (w', Inr res)"
proof (cases "update_checks env down m a current w")
  case (Inr mv)
  obtain mf v where mv: "mv = (mf, v)" by force
  obtain w1 r where probe: "migration_probe env script a mf current w = (w1, r)" by force
  show thesis
    using that [of mf v w1] update_checks_accepted [OF Inr [unfolded mv]] assms probe
    by (auto simp: update_def Inr mv split: sum.splits if_splits)
qed (use assms in \<open>simp add: update_def\<close>)

lemma update_locked_success:
  assumes "update_locked env now fault health a mf v current w = (w', Inr res)"
    and "extract_archive (staging_dir (pw_root w) (mm_module_id mf) (mm_version mf)) (pa_members a)
      (copytree (ip_package_path current) (backup_dir (pw_root w) (mm_module_id mf) (ip_installed_version current))
        (rmtree (backup_dir (pw_root w) (mm_module_id mf) (ip_installed_version current)) (pw_fs w))) = (fs, Inr ())"
  shows "path_exists (ip_package_path current)
      (rmtree (backup_dir (pw_root w) (mm_module_id mf) (ip_installed_version current)) (pw_fs w))"
    and "w' = upsert_package (updated_record env a mf v (installed_dir (pw_root w) (mm_module_id mf) (mm_version mf))
        (backup_dir (pw_root w) (mm_module_id mf) (ip_installed_version current)) current)
      (w\<lparr> pw_fs := promote (staging_dir (pw_root w) (mm_module_id mf) (mm_version mf))
        (installed_dir (pw_root w) (mm_module_id mf) (mm_version mf)) fs \<rparr>)"
  using assms by (auto simp: update_locked_def update_promoted_def Let_def upsert_package_def split: if_splits)

lemma updated_parts [simp]:
  "ip_rollback_version (updated_record env a m v t b r) = Some (ip_installed_version r)"
  "ip_previous_package_path (updated_record env a m v t b r) = Some b"
  "ip_module_id (updated_record env a m v t b r) = ip_module_id r"
  by (simp_all add: updated_record_def)

text \<open>The directory of the old version, after the update and its rollback.\<close>

lemma update_then_rollback:
  assumes ok: "world_ok w" and a: "archive_consistent a" and cur: "get_package m w = Some current"
    and updated: "update env now down locked fault script health m a w = (w', Inr res)"
  shows "\<exists>w'' res'. rollback m w' = (w'', Inr res')
    \<and> get_package m w'' = Some (restored_record (ip_installed_version current) (ip_package_path current) (the (get_package m w')))
    \<and> files_below (ip_package_path current) (pw_fs w'') = files_below (ip_package_path current) (pw_fs w)
    \<and> (\<forall>k q. k \<noteq> m \<longrightarrow> get_package k w'' = get_package k w
         \<and> (get_package k w = Some q \<longrightarrow> files_below (ip_package_path q) (pw_fs w'') = files_below (ip_package_path q) (pw_fs w)))"
proof -
  obtain mf v w1 where s: "accepted_manifest (validate env (filter (\<lambda>e. fst e \<noteq> m) (installed_versions w)) True a) = Inr (mf, v)"
    "mm_module_id mf = m" "migration_probe env script a mf current w = (w1, Inr ())"
    "update_locked env now fault health a mf v current w1 = (w', Inr res)"
    using update_success [OF updated cur] by blast
  note plain = validated_manifest [OF s(1) a]
  note names = validated_names(1) [OF s(1) a]
  note row = world_ok_row [OF ok cur]
  define staging where "staging = staging_dir (pw_root w) m (mm_version mf)"
  define target where "target = installed_dir (pw_root w) m (mm_version mf)"
  define backup where "backup = backup_dir (pw_root w) m (ip_installed_version current)"
  define path where "path = ip_package_path current"
  have dirs: "unrelated path staging" "unrelated path backup" "unrelated backup staging" "unrelated backup target"
      "unrelated staging target" "unrelated backup path"
    using row plain(3) by (simp_all add: path_def backup_def staging_def target_def unrelated_dirs)
  obtain fs0 where w1: "w1 = w\<lparr> pw_fs := fs0 \<rparr>" "\<And>d. unrelated d staging \<Longrightarrow> files_below d fs0 = files_below d (pw_fs w)"
    using migration_frame [OF names row(1) plain(2,3) s(3)] unfolding s(2) staging_def by blast
  obtain fs where fs: "extract_archive staging (pa_members a) (copytree path backup (rmtree backup fs0)) = (fs, Inr ())"
      "\<And>d. unrelated d staging \<Longrightarrow> files_below d fs = files_below d (copytree path backup (rmtree backup fs0))"
    using extract_archive_frame [OF names staging_nonempty [OF row(1,2) plain(3), folded staging_def]] by blast
  note locked = update_locked_success [OF s(4), unfolded w1(1) s(2), simplified, folded staging_def target_def backup_def path_def, OF fs(1)]
  have saved: "files_below backup (pw_fs w') = files_below path (pw_fs w)"
    unfolding locked(2) using dirs by (simp add: promote_frame fs(2) files_below_copytree files_below_rmtree w1(2))
  have "path_exists path (pw_fs w)"
    using locked(1) dirs by (simp add: path_exists_files files_below_rmtree w1(2))
  then have exists: "path_exists backup (pw_fs w')" by (simp add: path_exists_files saved)
  have got: "get_package m w' = Some (updated_record env a mf v target backup current)"
    unfolding locked(2) using row(5) by simp
  have path: "installed_dir (pw_root w') m (ip_installed_version current) = path"
    unfolding locked(2) using row(4) by (simp add: path_def)
  have "backup \<noteq> []" "ip_installed_version current \<noteq> []"
    using row by (simp_all add: backup_def dirs_plain plain_segment_def)
  then have rolled: "rollback m w' = (upsert_package (restored_record (ip_installed_version current) path (the (get_package m w')))
      (w'\<lparr> pw_fs := copytree backup path (rmtree path (pw_fs w')) \<rparr>),
      Inr \<lparr> mr_module_id = m, mr_package_state = PKG_INSTALLED, mr_installed_version = Some (ip_installed_version current),
        mr_restart_required = True, mr_rollback_version = None \<rparr>)"
    using exists path by (simp add: rollback_def got Let_def)
  have "files_below path (copytree backup path (rmtree path (pw_fs w'))) = files_below path (pw_fs w)"
    using dirs saved by (simp add: files_below_copytree files_below_rmtree)
  moreover have "files_below (ip_package_path q) (copytree backup path (rmtree path (pw_fs w'))) = files_below (ip_package_path q) (pw_fs w)"
    if q: "get_package k w = Some q" "k \<noteq> m" for k q
  proof -
    have "unrelated (ip_package_path q) staging" "unrelated (ip_package_path q) backup"
      "unrelated (ip_package_path q) target" "unrelated (ip_package_path q) path"
      using installed_unrelated [OF ok q(1) row(2) plain(3)] installed_unrelated [OF ok q(1) row(2,3)] q(2) row(4)
      by (simp_all add: staging_def backup_def target_def path_def)
    then show ?thesis
      unfolding locked(2) by (simp add: files_below_copytree files_below_rmtree promote_frame fs(2) w1(2))
  qed
  moreover have "get_package k w' = get_package k w" if "k \<noteq> m" for k
    unfolding locked(2) using that row(5) by simp
  ultimately show ?thesis
    unfolding rolled using row(5) got by (simp add: path_def)
qed


text \<open>A \<open>PackageError\<close> leaves the table and every installed directory as they were.\<close>

lemma update_locked_error:
  assumes ok: "world_ok w" and cur: "get_package (mm_module_id m) w = Some current"
    and names: "\<forall>n \<in> fst ` set (pa_members a). confined_name n" and plain: "plain_segment (mm_version m)"
    and failed: "update_locked env now fault health a m v current w = (w', Inl (Failed e))"
  shows "pw_rows w' = pw_rows w \<and> (\<forall>k q. get_package k w = Some q \<longrightarrow>
    files_below (ip_package_path q) (pw_fs w') = files_below (ip_package_path q) (pw_fs w))"
proof -
  let ?id = "mm_module_id m"
  define staging where "staging = staging_dir (pw_root w) ?id (mm_version m)"
  define backup where "backup = backup_dir (pw_root w) ?id (ip_installed_version current)"
  define fs1 where "fs1 = copytree (ip_package_path current) backup (rmtree backup (pw_fs w))"
  note row = world_ok_row [OF ok cur]
  obtain fs where fs: "extract_archive staging (pa_members a) fs1 = (fs, Inr ())"
      "\<And>d. unrelated d staging \<Longrightarrow> files_below d fs = files_below d fs1"
    using extract_archive_frame [OF names staging_nonempty [OF row(1,2) plain, folded staging_def]] by blast
  have "w' = w\<lparr> pw_fs := rmtree staging fs \<rparr>"
    using failed by (auto simp: update_locked_def update_promoted_def Let_def fs(1) simp flip: backup_def staging_def fs1_def
        split: if_splits)
  moreover have "files_below (ip_package_path q) (rmtree staging fs) = files_below (ip_package_path q) (pw_fs w)"
    if "get_package k w = Some q" for k q
    using installed_unrelated(1) [OF ok that row(2) plain] installed_unrelated(2) [OF ok that row(2,3)]
    by (simp add: fs(2) fs1_def files_below_copytree files_below_rmtree staging_def backup_def)
  ultimately show ?thesis by simp
qed

lemma update_error:
  assumes ok: "world_ok w" and a: "archive_consistent a"
    and failed: "update env now down locked fault script health m a w = (w', Inl (Failed e))"
  shows "pw_rows w' = pw_rows w \<and> (\<forall>k q. get_package k w = Some q \<longrightarrow>
    files_below (ip_package_path q) (pw_fs w') = files_below (ip_package_path q) (pw_fs w))"
proof (cases "get_package m w")
  case None
  then show ?thesis using failed by (auto simp: update_def)
next
  case (Some current)
  show ?thesis
  proof (cases "update_checks env down m a current w")
    case (Inl x)
    then show ?thesis using failed by (auto simp: update_def Some)
  next
    case (Inr mv)
    obtain mf v where mv: "mv = (mf, v)" by force
    have checks: "accepted_manifest (validate env (filter (\<lambda>e. fst e \<noteq> m) (installed_versions w)) True a) = Inr (mf, v)"
        "mm_module_id mf = m"
      using update_checks_accepted [OF Inr [unfolded mv]] by blast+
    note plain = validated_manifest [OF checks(1) a]
    note names = validated_names(1) [OF checks(1) a]
    obtain w1 r where probe: "migration_probe env script a mf current w = (w1, r)" by force
    from migration_frame [OF names world_ok_row(1) [OF ok Some] plain(2,3) probe]
    obtain fs where fs: "w1 = w\<lparr> pw_fs := fs \<rparr>"
      "\<And>d. unrelated d (staging_dir (pw_root w) (mm_module_id mf) (mm_version mf)) \<Longrightarrow> files_below d fs = files_below d (pw_fs w)"
      by blast
    have same: "files_below (ip_package_path q) fs = files_below (ip_package_path q) (pw_fs w)" if "get_package k w = Some q" for k q
      using installed_unrelated(1) [OF ok that plain(2,3)] by (simp add: fs(2))
    have ok1: "world_ok w1" unfolding fs(1) by (rule disk_keeps [OF ok]) (simp_all add: same)
    have cur1: "get_package (mm_module_id mf) w1 = Some current" using Some checks(2) fs(1) by simp
    consider "w' = w1" | "update_locked env now fault health a mf v current w1 = (w', Inl (Failed e))"
      using failed by (auto simp: update_def Some Inr mv probe split: sum.splits if_splits)
    then show ?thesis
    proof cases
      case 1
      then show ?thesis using same by (simp add: fs(1))
    next
      case 2
      from update_locked_error [OF ok1 cur1 names plain(3) 2] same show ?thesis by (simp add: fs(1))
    qed
  qed
qed

subsection \<open>A package just installed\<close>

definition archive_files :: "package_archive \<Rightarrow> (string \<times> string) list" where
  "archive_files a = filter (\<lambda>f. \<not> ends_with (fst f) ''/'') (pa_members a)"

lemma update_append: "k \<notin> fst ` set d \<Longrightarrow> AList.update k v d = d @ [(k, v)]"
  by (induction d) auto

lemma extract_exact:
  assumes "\<forall>n \<in> fst ` set ms. confined_name n" "target \<noteq> []" "''..'' \<notin> set target"
    and "distinct (map (path_parts \<circ> fst) (filter (\<lambda>f. \<not> ends_with (fst f) ''/'') ms))"
    and "\<forall>f \<in> set ms. \<not> ends_with (fst f) ''/'' \<longrightarrow> target @ path_parts (fst f) \<notin> fst ` set fs"
  shows "fst (extract_members target ms fs) =
    fs @ map (\<lambda>f. (target @ path_parts (fst f), snd f)) (filter (\<lambda>f. \<not> ends_with (fst f) ''/'') ms)"
  using assms
proof (induction target ms fs rule: extract_members.induct)
  case (2 target name data ms fs)
  show ?case
  proof (cases "ends_with name ''/''")
    case True
    then show ?thesis using 2 by simp
  next
    case False
    let ?p = "target @ path_parts name"
    have join: "safe_join target name = Some ?p" using 2 False by (simp add: safe_join_confined)
    have "?p \<notin> fst ` set fs" using "2.prems"(5) False by simp
    then have upd: "AList.update ?p data fs = fs @ [(?p, data)]" by (rule update_append)
    have fresh: "\<forall>f \<in> set ms. \<not> ends_with (fst f) ''/'' \<longrightarrow> target @ path_parts (fst f) \<notin> fst ` set (fs @ [(?p, data)])"
      using "2.prems"(4,5) False by (fastforce simp: image_iff)
    have "fst (extract_members target ms (AList.update ?p data fs)) =
        (fs @ [(?p, data)]) @ map (\<lambda>f. (target @ path_parts (fst f), snd f)) (filter (\<lambda>f. \<not> ends_with (fst f) ''/'') ms)"
      unfolding upd using "2.IH"(2) [OF False join] "2.prems" False fresh upd by simp
    then show ?thesis using False join by simp
  qed
qed simp


definition canonical_names :: "package_archive \<Rightarrow> bool" where
  "canonical_names a \<longleftrightarrow> distinct (map fst (archive_files a))
     \<and> list_all (\<lambda>f. posix_path (path_parts (fst f)) = fst f \<and> fst f \<noteq> ''.verify-loader.zip'') (archive_files a)"

lemma rmtree_keys: "p \<in> fst ` set (rmtree d fs) \<Longrightarrow> \<not> below d p"
  by (auto simp: rmtree_def)

lemma extracted_files:
  assumes "\<forall>n \<in> fst ` set (pa_members a). confined_name n" "target \<noteq> []" "''..'' \<notin> set target" "canonical_names a"
  shows "package_files target (fst (extract_archive target (pa_members a) fs)) = archive_files a"
proof -
  have posix: "posix_path (path_parts (fst f)) = fst f" if "f \<in> set (archive_files a)" for f
    using assms(4) that by (auto simp: canonical_names_def list_all_iff)
  have names: "distinct (archive_files a)" "inj_on fst (set (archive_files a))"
    using assms(4) by (simp_all add: canonical_names_def distinct_map)
  have "x = y" if "x \<in> set (archive_files a)" "y \<in> set (archive_files a)" "path_parts (fst x) = path_parts (fst y)" for x y
  proof -
    have "fst x = fst y" using posix [OF that(1)] posix [OF that(2)] that(3) by metis
    then show ?thesis using names(2) that(1,2) by (simp add: inj_on_def)
  qed
  then have "distinct (map (path_parts \<circ> fst) (archive_files a))"
    using names(1) by (simp add: distinct_map inj_on_def)
  moreover have "\<forall>f \<in> set (pa_members a). \<not> ends_with (fst f) ''/'' \<longrightarrow> target @ path_parts (fst f) \<notin> fst ` set (rmtree target fs)"
    using rmtree_keys below_append by blast
  ultimately have "fst (extract_archive target (pa_members a) fs) =
      rmtree target fs @ map (\<lambda>f. (target @ path_parts (fst f), snd f)) (archive_files a)"
    using extract_exact [OF assms(1-3), of "rmtree target fs"] by (simp add: archive_files_def extract_archive_def)
  then have "files_below target (fst (extract_archive target (pa_members a) fs)) = map (\<lambda>f. (path_parts (fst f), snd f)) (archive_files a)"
    by (simp add: files_below_rmtree) (simp add: files_below_def comp_def)
  then have "package_files target (fst (extract_archive target (pa_members a) fs)) = map (\<lambda>f. (posix_path (path_parts (fst f)), snd f)) (archive_files a)"
    by (simp add: package_files_def comp_def)
  also have "\<dots> = archive_files a" using posix by (simp add: map_idI)
  finally show ?thesis .
qed

lemma insort_map: "(\<And>x. fst (g x) = fst x) \<Longrightarrow> insort_key fst (g x) (map g xs) = map g (insort_key fst x xs)"
  by (induction xs) simp_all

lemma sort_map: "(\<And>x. fst (g x) = fst x) \<Longrightarrow> sort_key fst (map g xs) = map g (sort_key fst xs)"
  by (induction xs) (simp_all add: insort_map)

lemma content_hash_input_fst:
  "content_hash_input canonical files =
     concat (map (\<lambda>f. fst f @ [CHR 0x00] @ (if fst f = ''manifest.json'' then canonical (snd f) else snd f))
       (filter (\<lambda>f. \<not> ends_with (fst f) ''/'' \<and> include_in_content_hash (fst f)) (sort_key fst files)))"
  by (simp add: content_hash_input_def split_def)

lemma hash_input_files:
  "content_hash_input canonical (pa_members a) =
     concat (map (\<lambda>f. fst f @ [CHR 0x00] @ (if fst f = ''manifest.json'' then canonical (snd f) else snd f))
       (sort_key fst (filter (\<lambda>f. include_in_content_hash (fst f)) (archive_files a))))"
  by (simp add: content_hash_input_fst archive_files_def filter_sort conj_comms)

lemma included_in_verify:
  "include_in_content_hash n \<Longrightarrow> n \<noteq> ''.verify-loader.zip'' \<Longrightarrow> include_in_verify_archive n"
  by (simp add: include_in_content_hash_def include_in_verify_archive_def)

lemma verify_checksum:
  assumes "canonical_names a" "\<And>d. pe_canonical env (pe_canonical env d) = pe_canonical env d"
  shows "compute_archive_checksum env (verify_archive env (archive_files a)) = compute_archive_checksum env (pa_members a)"
proof -
  define g where "g f = (fst f, if fst f = ''manifest.json'' then pe_canonical env (snd f) else snd f)" for f :: "string \<times> string"
  have files: "filter (\<lambda>f. include_in_verify_archive (fst f) \<and> \<not> ends_with (fst f) ''/'' \<and> include_in_content_hash (fst f)) (archive_files a)
      = filter (\<lambda>f. include_in_content_hash (fst f)) (archive_files a)"
    using assms(1)
    by (intro filter_cong refl) (auto simp: canonical_names_def list_all_iff archive_files_def included_in_verify)
  have data: "fst (g f) @ [CHR 0x00] @ (if fst (g f) = ''manifest.json'' then pe_canonical env (snd (g f)) else snd (g f))
      = fst f @ [CHR 0x00] @ (if fst f = ''manifest.json'' then pe_canonical env (snd f) else snd f)" for f
    by (simp add: g_def assms(2))
  have "content_hash_input (pe_canonical env) (verify_archive env (archive_files a)) =
      concat (map (\<lambda>f. fst f @ [CHR 0x00] @ (if fst f = ''manifest.json'' then pe_canonical env (snd f) else snd f))
        (filter (\<lambda>f. \<not> ends_with (fst f) ''/'' \<and> include_in_content_hash (fst f))
          (sort_key fst (map g (filter (\<lambda>f. include_in_verify_archive (fst f)) (archive_files a))))))"
    unfolding content_hash_input_fst verify_archive_def g_def ..
  also have "\<dots> = concat (map (\<lambda>f. fst f @ [CHR 0x00] @ (if fst f = ''manifest.json'' then pe_canonical env (snd f) else snd f))
        (map g (sort_key fst (filter (\<lambda>f. include_in_content_hash (fst f)) (archive_files a)))))"
    by (simp add: sort_map [of g] filter_map comp_def g_def filter_sort files)
  also have "\<dots> = content_hash_input (pe_canonical env) (pa_members a)"
    unfolding hash_input_files map_map comp_def data ..
  finally show ?thesis by (simp add: compute_archive_checksum_def)
qed

lemma install_success:
  assumes "install env locked fault source a w = (w', Inr res)" "archive_consistent a" "''..'' \<notin> set (pw_root w)"
  obtains m v fs where "accepted_manifest (validate env (installed_versions w) False a) = Inr (m, v)"
    "extract_archive (staging_dir (pw_root w) (mm_module_id m) (mm_version m)) (pa_members a) (pw_fs w) = (fs, Inr ())"
    "w' = upsert_package (install_record env source a m v (installed_dir (pw_root w) (mm_module_id m) (mm_version m)))
      (w\<lparr> pw_fs := promote (staging_dir (pw_root w) (mm_module_id m) (mm_version m))
        (installed_dir (pw_root w) (mm_module_id m) (mm_version m)) fs \<rparr>)"
    "mr_module_id res = mm_module_id m"
proof (cases "accepted_manifest (validate env (installed_versions w) False a)")
  case (Inr mv)
  obtain m v where mv: "mv = (m, v)" by force
  note accepted = Inr [unfolded mv]
  note plain = validated_manifest [OF accepted assms(2)]
  obtain fs where fs: "extract_archive (staging_dir (pw_root w) (mm_module_id m) (mm_version m)) (pa_members a) (pw_fs w) = (fs, Inr ())"
    using extract_archive_frame [OF validated_names(1) [OF accepted assms(2)] staging_nonempty [OF assms(3) plain(2,3)]] by blast
  show thesis
    using that [OF accepted fs] assms(1) by (auto simp: install_def Inr mv install_accepted_def Let_def fs split: if_splits)
qed (use assms in \<open>simp add: install_def\<close>)


subsection \<open>Properties\<close>

text \<open>C12. Whatever installations, updates, rollbacks, removals and startups come in whatever order, and
  whatever I/O error, migration or health gate stops them half way: every package in the table that
  is not in quarantine has its directory on disk, where the layout puts its version. The archives
  are those whose inspected entries are the members extracted and whose module id and version are
  single plain path segments, which the installer does not check for the version, and the package
  root has no parent segment.\<close>

theorem packages_stay_on_disk:
  assumes "\<forall>e \<in> set es. package_event_ok e" "''..'' \<notin> set base"
    and "get_package m (foldl package_step (empty_world base fs) es) = Some r" "ip_package_state r \<noteq> PKG_QUARANTINED"
  shows "ip_package_path r = installed_dir (pw_root (foldl package_step (empty_world base fs) es)) m (ip_installed_version r)
    \<and> path_exists (ip_package_path r) (pw_fs (foldl package_step (empty_world base fs) es))"
proof -
  have ok: "world_ok (foldl package_step (empty_world base fs) es)"
    using reachable_good [OF assms(2,1)] by (simp add: good_world_def)
  show ?thesis using world_ok_row(4) [OF ok assms(3)] ok assms(3,4) unfolding world_ok_but_def by blast
qed



text \<open>C14. Only verified packages are loaded: at startup the loaded packages are those not in quarantine
  afterwards. Each of them has a manifest on disk whose stored hash matches, a checksum recomputed
  from its directory equal to the recorded one, and a valid signature, or no signature file at all
  where unsigned packages are allowed; and loading it did not raise.\<close>

theorem startup_loads_only_verified:
  assumes "\<forall>e \<in> set es. package_event_ok e" "''..'' \<notin> set base"
    and "load_installed_module_packages env now manifest_hash_ok signature_ok load
      (foldl package_step (empty_world base fs) es) = (w', loaded)"
  shows "(m \<in> set loaded \<longleftrightarrow> (\<exists>r. get_package m w' = Some r \<and> ip_package_state r \<noteq> PKG_QUARANTINED))
    \<and> (\<forall>r files. get_package m w' = Some r \<and> m \<in> set loaded
          \<and> files = package_files (ip_package_path r) (pw_fs w') \<longrightarrow>
         (\<exists>manifest. map_of files ''manifest.json'' = Some manifest \<and> manifest_hash_ok manifest)
         \<and> py_lower (compute_archive_checksum env (verify_archive env files)) = py_lower (ip_checksum_sha256 r)
         \<and> (if ''integrity/signature.json'' \<in> fst ` set files then signature_ok files
            else ps_allow_unsigned (pe_settings env))
         \<and> load r = None)"
proof -
  note start = load_start(3,4) [OF reachable_good [OF assms(2,1)] assms(3)]
  have "verify_installed_package env manifest_hash_ok signature_ok r w' \<and> load r = None"
    if "get_package m w' = Some r" "m \<in> set loaded" for r
    using start that by (metis option.inject)
  moreover have "''integrity/signature.json'' \<in> fst ` set files \<longleftrightarrow> map_of files ''integrity/signature.json'' \<noteq> None"
    for files :: "(string \<times> string) list"
    by (simp add: map_of_eq_None_iff)
  ultimately have "(\<exists>manifest. map_of files ''manifest.json'' = Some manifest \<and> manifest_hash_ok manifest)
      \<and> py_lower (compute_archive_checksum env (verify_archive env files)) = py_lower (ip_checksum_sha256 r)
      \<and> (if ''integrity/signature.json'' \<in> fst ` set files then signature_ok files
         else ps_allow_unsigned (pe_settings env))
      \<and> load r = None"
    if "get_package m w' = Some r" "m \<in> set loaded" "files = package_files (ip_package_path r) (pw_fs w')" for r files
    using that by (fastforce simp: verify_installed_package_def Let_def split: option.splits)
  then show ?thesis using start by blast
qed

text \<open>What the installer writes the loader accepts: right after an installation the checksum
  recomputed from the directory is the recorded one, so the verification passes when the manifest hash
  and the signature do, for archives with canonical member names.\<close>

theorem installed_package_verifies:
  assumes "install env locked fault source a w = (w', Inr res)" "archive_consistent a" "canonical_names a"
    and "''..'' \<notin> set (pw_root w)" "\<forall>d. pe_canonical env (pe_canonical env d) = pe_canonical env d"
    and "\<forall>d. (''manifest.json'', d) \<in> set (archive_files a) \<longrightarrow> manifest_hash_ok d" "signature_ok (archive_files a)" "ps_allow_unsigned (pe_settings env) \<or>
      ''integrity/signature.json'' \<in> fst ` set (archive_files a)"
  shows "\<exists>r. get_package (mr_module_id res) w' = Some r \<and> verify_installed_package env manifest_hash_ok signature_ok r w'"
proof -
  obtain m v fs where s: "accepted_manifest (validate env (installed_versions w) False a) = Inr (m, v)"
    "extract_archive (staging_dir (pw_root w) (mm_module_id m) (mm_version m)) (pa_members a) (pw_fs w) = (fs, Inr ())"
    "w' = upsert_package (install_record env source a m v (installed_dir (pw_root w) (mm_module_id m) (mm_version m)))
      (w\<lparr> pw_fs := promote (staging_dir (pw_root w) (mm_module_id m) (mm_version m))
        (installed_dir (pw_root w) (mm_module_id m) (mm_version m)) fs \<rparr>)"
    "mr_module_id res = mm_module_id m"
    using install_success [OF assms(1,2,4)] by blast
  define staging where "staging = staging_dir (pw_root w) (mm_module_id m) (mm_version m)"
  define target where "target = installed_dir (pw_root w) (mm_module_id m) (mm_version m)"
  note plain = validated_manifest [OF s(1) assms(2)]
  note names = validated_names(1) [OF s(1) assms(2)]
  note nonempty = staging_nonempty [OF assms(4) plain(2,3), folded staging_def]
  have "unrelated staging target" using assms(4) plain by (simp add: staging_def target_def unrelated_dirs)
  then have "package_files target (promote staging target fs) = package_files staging fs"
    by (simp add: package_files_def promote_target)
  moreover have "package_files staging fs = archive_files a"
    using extracted_files [OF names nonempty assms(3), of "pw_fs w"] s(2) by (simp add: staging_def)
  ultimately have files: "package_files target (pw_fs w') = archive_files a"
    by (simp add: s(3) staging_def target_def)
  have "\<not> ends_with ''manifest.json'' ''/''" by code_simp
  then have "''manifest.json'' \<in> fst ` set (archive_files a)" using plain(1) by (auto simp: archive_files_def)
  then obtain data where manifest: "map_of (archive_files a) ''manifest.json'' = Some data"
    by (metis map_of_eq_None_iff option.exhaust)
  have signed: "map_of (archive_files a) ''integrity/signature.json'' \<noteq> None
      \<longleftrightarrow> ''integrity/signature.json'' \<in> fst ` set (archive_files a)"
    by (simp add: map_of_eq_None_iff)
  let ?r = "install_record env source a m v target"
  have r: "ip_package_path ?r = target" "ip_checksum_sha256 ?r = compute_archive_checksum env (pa_members a)"
      "ip_module_id ?r = mm_module_id m"
    by (simp_all add: install_record_def)
  have "verify_installed_package env manifest_hash_ok signature_ok ?r w'"
    using assms(6-8) signed verify_checksum [OF assms(3), of env] assms(5) map_of_SomeD [OF manifest]
    by (auto simp: verify_installed_package_def r files manifest Let_def)
  moreover have "get_package (mm_module_id m) w' = Some ?r"
    unfolding s(3) by (simp add: r(3) flip: target_def)
  ultimately show ?thesis using s(4) by auto
qed


definition example_env :: "nat package_env" where
  "example_env = \<lparr> pe_ops = example_versions, pe_major = (\<lambda>v. 1), pe_settings = example_settings,
     pe_store = Some [((''acme'', ''k1''), (KEY_TRUSTED, ''key''))], pe_sha256 = (\<lambda>s. s), pe_canonical = (\<lambda>s. s),
     pe_modules = [], pe_enabled = [], pe_devices = [] \<rparr>"

definition example_package :: "string \<Rightarrow> package_archive" where
  "example_package v =
     (let names = [''manifest.json'', ''integrity/signature.json'', ''module/main.py''] in
      \<lparr> pa_facts = example_archive\<lparr> af_entries := map (\<lambda>n. \<lparr> ze_filename = n, ze_file_size = 1, ze_compress_size = 1 \<rparr>) names,
          af_manifest := Manifest (example_manifest\<lparr> mm_version := v \<rparr>) \<rparr>,
        pa_members = map (\<lambda>n. (n, v @ n)) names \<rparr>)"

definition example_install :: "nat package_event" where
  "example_install = Install example_env False None ''upload'' (example_package ''1'')"

definition example_world :: package_world where
  "example_world = foldl package_step (empty_world [''srv''] []) [example_install]"

lemma example_consistent: "archive_consistent (example_package ''1'')" "archive_consistent (example_package ''11'')"
  by (simp_all add: archive_consistent_def example_package_def Let_def example_manifest_def plain_segment_def)

lemma example_events: "\<forall>e \<in> set [example_install]. package_event_ok e"
  by (simp add: example_install_def example_consistent)

theorem packages_stay_on_disk_witness:
  "\<exists>r. get_package ''acme.meter'' example_world = Some r \<and> path_exists (ip_package_path r) (pw_fs example_world)"
proof -
  have "case get_package ''acme.meter'' example_world of None \<Rightarrow> False | Some r \<Rightarrow> ip_package_state r = PKG_INSTALLED"
    by code_simp
  then obtain r where r: "get_package ''acme.meter'' example_world = Some r" "ip_package_state r \<noteq> PKG_QUARANTINED"
    by (cases "get_package ''acme.meter'' example_world") auto
  from packages_stay_on_disk [OF example_events _ r(1) [unfolded example_world_def] r(2)]
  show ?thesis using r(1) by (auto simp: example_world_def)
qed



theorem startup_loads_only_verified_witness:
  "snd (load_installed_module_packages example_env 0 (\<lambda>d. d = ''1manifest.json'') (\<lambda>_. True) (\<lambda>_. None) example_world) = [''acme.meter'']
   \<and> (\<exists>r. get_package ''acme.meter'' (fst (load_installed_module_packages example_env 0 (\<lambda>d. d = ''1manifest.json'') (\<lambda>_. True)
        (\<lambda>_. None) example_world)) = Some r \<and> ip_package_state r \<noteq> PKG_QUARANTINED)"
proof -
  let ?l = "load_installed_module_packages example_env 0 (\<lambda>d. d = ''1manifest.json'') (\<lambda>_. True) (\<lambda>_. None) example_world"
  have loaded: "snd ?l = [''acme.meter'']" by code_simp
  obtain w' l where l: "?l = (w', l)" by force
  from startup_loads_only_verified [OF example_events _ l [unfolded example_world_def], of "''acme.meter''"]
  show ?thesis using loaded l by auto
qed

theorem installed_package_verifies_witness:
  "\<exists>r. get_package ''acme.meter'' example_world = Some r
    \<and> verify_installed_package example_env (\<lambda>d. d = ''1manifest.json'') (\<lambda>files. length files = 3) r example_world"
proof -
  let ?i = "install example_env False None ''upload'' (example_package ''1'') (empty_world [''srv''] [])"
  have "case ?i of (_, Inr res) \<Rightarrow> mr_module_id res = ''acme.meter'' | _ \<Rightarrow> False" by code_simp
  then obtain w' res where i: "?i = (w', Inr res)" "mr_module_id res = ''acme.meter''"
    by (cases ?i) (auto split: sum.splits)
  have w: "example_world = w'" by (simp add: example_world_def example_install_def i(1))
  have names: "canonical_names (example_package ''1'')" by code_simp
  have files: "archive_files (example_package ''1'') = map (\<lambda>n. (n, ''1'' @ n)) [''manifest.json'', ''integrity/signature.json'', ''module/main.py'']"
    by code_simp
  from installed_package_verifies [OF i(1) example_consistent(1) names, of "\<lambda>d. d = ''1manifest.json''" "\<lambda>files. length files = 3"]
  show ?thesis by (simp add: w i(2) files example_env_def empty_world_def)
qed

end
