(* ===== verification/Governance_Policy.thy ===== *)
theory Governance_Policy
  imports Package_Rules
begin

section \<open>The module policy engine\<close>

text \<open>
  \<open>platform/modules/governance/\<close>: the types (\<open>types.py\<close>), the risk classification
  (\<open>risk_classifier.py\<close>) and \<open>ModuleInstallPolicyEngine.evaluate\<close> (\<open>policy_engine.py\<close>).
  Publisher tiers are strings, as the table stores them and the policy lists them; reason
  codes and explanations are kept as the code spells them.
\<close>

subsection \<open>Types\<close>

definition TIER_OFFICIAL :: string where "TIER_OFFICIAL = ''OFFICIAL''"
definition TIER_VERIFIED :: string where "TIER_VERIFIED = ''VERIFIED''"
definition TIER_ORG_APPROVED :: string where "TIER_ORG_APPROVED = ''ORG_APPROVED''"
definition TIER_COMMUNITY :: string where "TIER_COMMUNITY = ''COMMUNITY''"
definition TIER_REVOKED :: string where "TIER_REVOKED = ''REVOKED''"

definition PUBLISHER_TIERS :: "string list" where
  "PUBLISHER_TIERS = [TIER_OFFICIAL, TIER_VERIFIED, TIER_ORG_APPROVED, TIER_COMMUNITY, TIER_REVOKED]"

definition DEFAULT_ALLOWED_TIERS :: "string list" where
  "DEFAULT_ALLOWED_TIERS = [TIER_OFFICIAL, TIER_VERIFIED, TIER_ORG_APPROVED]"

lemmas tier_defs = TIER_OFFICIAL_def TIER_VERIFIED_def TIER_ORG_APPROVED_def TIER_COMMUNITY_def
  TIER_REVOKED_def

datatype publisher_status = PENDING_VERIFICATION | ACTIVE | SUSPENDED | REVOKED

datatype policy_decision = ALLOW | DENY | REQUIRE_ADMIN_APPROVAL | REQUIRE_SECURITY_REVIEW

datatype policy_action = INSTALL | UPDATE | ENABLE | RUN

datatype policy_reason =
    PUBLISHER_REVOKED | PUBLISHER_SUSPENDED | PUBLISHER_NOT_FOUND | TIER_NOT_ALLOWED
  | PUBLISHER_DENIED | MODULE_DENIED | PERMISSION_BLOCKED | CONTROL_MODULE_ISOLATION_REQUIRED
  | COMMUNITY_NOT_ALLOWED | REVOCATION_ACTIVE | REVOCATION_STALE | REVOCATION_STATE_UNTRUSTED
  | SECURITY_REVIEW_REQUIRED | ADMIN_APPROVAL_REQUIRED | KEY_REVOKED | KEY_EXPIRED
  | OWNERSHIP_MISMATCH | DEFAULT_DENY | ALLOWLIST_MATCH | TIER_ALLOWED | BREAK_GLASS_ACTIVE
  | ARTIFACT_DIGEST_MISMATCH | SBOM_MISSING | VULNERABILITY_CRITICAL | SUPPLY_CHAIN_REVIEW_REQUIRED

text \<open>
  Fields the engine does not read are left out of the records: the scope, the author and the
  supply chain part of a policy, the names of a publisher, the id, severity and scope of a
  revocation, and the key and signature facts of a request.
\<close>

record installation_policy =
  ip_policy_version :: int
  ip_allowed_tiers :: "string list"
  ip_publisher_allowlist :: "string list"
  ip_publisher_denylist :: "string list"
  ip_module_allowlist :: "string list"
  ip_module_denylist :: "string list"
  ip_blocked_permissions :: "string list"
  ip_control_module_policy :: string
  ip_break_glass_enabled :: bool

record publisher_snapshot =
  pb_publisher_id :: string
  pb_tier :: string
  pb_status :: publisher_status

record revocation_match =
  rm_publisher_id :: "string option"
  rm_module_id :: "string option"

record revocation_context =
  rc_freshness :: string
  rc_metadata_health :: string
  rc_revocations :: "revocation_match list"

record policy_request =
  pq_action :: policy_action
  pq_module_id :: string
  pq_publisher_id :: string
  pq_permissions :: "string list"
  pq_provided_capabilities :: "string list"
  pq_app_env_production :: bool
  pq_break_glass_active :: bool
  pq_canonical_owner :: "string option"
  pq_marketplace_enabled :: bool

record policy_evaluation =
  pe_decision :: policy_decision
  pe_reason_codes :: "policy_reason list"
  pe_control_capable :: bool
  pe_policy_version :: int

subsection \<open>Risk\<close>

definition HIGH_RISK_PERMISSIONS :: "string list" where
  "HIGH_RISK_PERMISSIONS = [''device.control'', ''energy.control'', ''network.local'']"

definition MEDIUM_RISK_PERMISSIONS :: "string list" where
  "MEDIUM_RISK_PERMISSIONS = [''network.external'', ''secrets.read_own'']"

definition CONTROL_CAPABILITY_PREFIXES :: "string list" where
  "CONTROL_CAPABILITY_PREFIXES =
     [''device.control'', ''energy.control'', ''charger.command'', ''ev_charger.start'',
      ''ev_charger.stop'', ''ev_charger.set_current'', ''vehicle.command'', ''spa.control'',
      ''spa.set_temperature'']"

definition is_control_capable :: "string list \<Rightarrow> string list \<Rightarrow> bool" where
  "is_control_capable permissions provided \<longleftrightarrow>
     list_ex (\<lambda>p. p \<in> set HIGH_RISK_PERMISSIONS) permissions
     \<or> list_ex (\<lambda>cap. list_ex (starts_with (py_lower cap)) CONTROL_CAPABILITY_PREFIXES
          \<or> py_lower cap \<in> {''device.control'', ''energy.control''}) provided"

text \<open>Risk levels in the order of \<open>highest_risk_level\<close>, lowest first.\<close>

datatype risk_level = RISK_LOW | RISK_NORMAL | RISK_HIGH | RISK_CRITICAL

fun risk_rank :: "risk_level \<Rightarrow> nat" where
  "risk_rank RISK_LOW = 0"
| "risk_rank RISK_NORMAL = 1"
| "risk_rank RISK_HIGH = 2"
| "risk_rank RISK_CRITICAL = 3"

lemma risk_rank_inj: "risk_rank a = risk_rank b \<Longrightarrow> a = b"
  by (cases a; cases b) simp_all

instantiation risk_level :: linorder
begin

definition less_eq_risk_level :: "risk_level \<Rightarrow> risk_level \<Rightarrow> bool" where
  "less_eq_risk_level a b \<longleftrightarrow> risk_rank a \<le> risk_rank b"

definition less_risk_level :: "risk_level \<Rightarrow> risk_level \<Rightarrow> bool" where
  "less_risk_level a b \<longleftrightarrow> risk_rank a < risk_rank b"

instance
  by standard (auto simp: less_eq_risk_level_def less_risk_level_def intro: risk_rank_inj)

end

definition permission_risk_level :: "string \<Rightarrow> risk_level" where
  "permission_risk_level p =
     (if p = ''energy.control'' then RISK_CRITICAL
      else if p \<in> set HIGH_RISK_PERMISSIONS then RISK_HIGH
      else if p \<in> set MEDIUM_RISK_PERMISSIONS then RISK_NORMAL else RISK_LOW)"

definition highest_risk_level :: "string list \<Rightarrow> risk_level" where
  "highest_risk_level permissions =
     foldl (\<lambda>highest p. let l = permission_risk_level p in if l > highest then l else highest)
       RISK_LOW permissions"

lemma highest_risk_level_Max:
  "highest_risk_level ps = Max (insert RISK_LOW (permission_risk_level ` set ps))"
proof -
  have "foldl (\<lambda>h p. let l = permission_risk_level p in if l > h then l else h) h ps
      = Max (insert h (permission_risk_level ` set ps))" for h
  proof (induction ps arbitrary: h)
    case (Cons p ps)
    have "(let l = permission_risk_level p in if l > h then l else h) = max h (permission_risk_level p)"
      by (auto simp: Let_def max_def not_less dest: order.antisym)
    then show ?case
      using Cons.IH [of "max h (permission_risk_level p)"]
      by (cases "ps = []") (simp_all add: insert_commute max.assoc max.commute)
  qed simp
  then show ?thesis by (simp add: highest_risk_level_def)
qed

subsection \<open>Evaluation\<close>

definition CONTROL_ISOLATION_GATE_OPEN :: bool where
  "CONTROL_ISOLATION_GATE_OPEN = False"

definition evaluation ::
  "policy_decision \<Rightarrow> policy_reason list \<Rightarrow> installation_policy \<Rightarrow> bool \<Rightarrow> policy_evaluation" where
  "evaluation d reasons policy control = \<lparr> pe_decision = d, pe_reason_codes = reasons,
     pe_control_capable = control, pe_policy_version = ip_policy_version policy \<rparr>"

text \<open>\<open>item.publisher_id and item.publisher_id == request.publisher_id\<close>.\<close>

definition matches_id :: "string option \<Rightarrow> string \<Rightarrow> bool" where
  "matches_id x y \<longleftrightarrow> (case x of None \<Rightarrow> False | Some s \<Rightarrow> s \<noteq> [] \<and> s = y)"

definition active_revocation :: "revocation_context \<Rightarrow> policy_request \<Rightarrow> revocation_match option" where
  "active_revocation ctx q = find (\<lambda>m. matches_id (rm_publisher_id m) (pq_publisher_id q)
     \<or> matches_id (rm_module_id m) (pq_module_id q)) (rc_revocations ctx)"

definition revocation_trust_decision ::
  "revocation_context \<Rightarrow> policy_request \<Rightarrow> installation_policy \<Rightarrow> bool \<Rightarrow> policy_evaluation option" where
  "revocation_trust_decision ctx q policy control =
     (if rc_metadata_health ctx \<in> {''invalid'', ''unavailable''}
      then Some (evaluation DENY [REVOCATION_STATE_UNTRUSTED] policy control)
      else if rc_freshness ctx = ''expired''
      then Some (evaluation DENY [REVOCATION_STATE_UNTRUSTED] policy control)
      else if rc_freshness ctx = ''stale'' then
        (if pq_action q \<in> {ENABLE, RUN} \<and> control
         then Some (evaluation DENY [REVOCATION_STALE] policy True)
         else if pq_action q \<in> {INSTALL, UPDATE}
         then Some (evaluation REQUIRE_SECURITY_REVIEW [REVOCATION_STALE, SECURITY_REVIEW_REQUIRED]
                      policy control)
         else None)
      else None)"

text \<open>The rules after the revocation check.\<close>

definition evaluate_rules ::
  "installation_policy \<Rightarrow> publisher_snapshot \<Rightarrow> policy_request \<Rightarrow> bool \<Rightarrow> policy_evaluation" where
  "evaluate_rules policy p q control =
     (let deny = (\<lambda>code. evaluation DENY [code] policy control);
          allow = (\<lambda>code. evaluation ALLOW [code] policy control);
          break_glass = pq_break_glass_active q \<and> ip_break_glass_enabled policy;
          tier = pb_tier p in
      if pq_module_id q \<in> set (ip_module_denylist policy) then deny MODULE_DENIED
      else if pb_publisher_id p \<in> set (ip_publisher_denylist policy) then deny PUBLISHER_DENIED
      else if pb_status p = REVOKED \<or> tier = TIER_REVOKED then deny PUBLISHER_REVOKED
      else if pb_status p = SUSPENDED then deny PUBLISHER_SUSPENDED
      else if list_ex (\<lambda>x. x \<in> set (ip_blocked_permissions policy)) (pq_permissions q)
      then deny PERMISSION_BLOCKED
      else if control \<and> pq_action q \<in> {RUN, ENABLE} \<and> \<not> CONTROL_ISOLATION_GATE_OPEN
      then evaluation DENY [CONTROL_MODULE_ISOLATION_REQUIRED] policy True
      else if tier = TIER_COMMUNITY \<and> pq_app_env_production q \<and> \<not> break_glass
      then deny COMMUNITY_NOT_ALLOWED
      else if tier \<notin> set (ip_allowed_tiers policy) \<and> \<not> break_glass then deny TIER_NOT_ALLOWED
      else if control \<and> ip_control_module_policy policy = ''OFFICIAL_ONLY'' \<and> tier \<noteq> TIER_OFFICIAL
              \<and> \<not> break_glass
      then evaluation DENY [CONTROL_MODULE_ISOLATION_REQUIRED] policy True
      else if pq_module_id q \<in> set (ip_module_allowlist policy) then allow ALLOWLIST_MATCH
      else if pb_publisher_id p \<in> set (ip_publisher_allowlist policy) \<and> tier \<in> set (ip_allowed_tiers policy)
      then allow ALLOWLIST_MATCH
      else if tier \<in> set (ip_allowed_tiers policy) then allow TIER_ALLOWED
      else if break_glass then allow BREAK_GLASS_ACTIVE
      else deny DEFAULT_DENY)"

text \<open>The revocation check, and the rules when it raises no objection.\<close>

definition evaluate_revocation ::
  "installation_policy \<Rightarrow> publisher_snapshot \<Rightarrow> revocation_context \<Rightarrow> policy_request \<Rightarrow> bool
   \<Rightarrow> policy_evaluation" where
  "evaluate_revocation policy p ctx q control =
     (case revocation_trust_decision ctx q policy control of
        Some r \<Rightarrow> r
      | None \<Rightarrow> if active_revocation ctx q \<noteq> None
          then evaluation DENY [REVOCATION_ACTIVE] policy control
          else evaluate_rules policy p q control)"

definition evaluate_policy ::
  "installation_policy \<Rightarrow> publisher_snapshot option \<Rightarrow> revocation_context option \<Rightarrow> policy_request
   \<Rightarrow> policy_evaluation" where
  "evaluate_policy policy publisher revocation q =
     (let control = is_control_capable (pq_permissions q) (pq_provided_capabilities q) in
      case publisher of
        None \<Rightarrow> evaluation DENY [PUBLISHER_NOT_FOUND] policy control
      | Some p \<Rightarrow>
          if (case pq_canonical_owner q of None \<Rightarrow> False | Some owner \<Rightarrow> pq_publisher_id q \<noteq> owner)
          then evaluation DENY [OWNERSHIP_MISMATCH] policy control
          else (case revocation of
              None \<Rightarrow> evaluate_rules policy p q control
            | Some ctx \<Rightarrow>
                if pq_marketplace_enabled q then evaluate_revocation policy p ctx q control
                else evaluate_rules policy p q control))"

subsection \<open>When the engine allows\<close>

lemma pe_decision_evaluation [simp]: "pe_decision (evaluation d r p c) = d"
  by (simp add: evaluation_def)

text \<open>The revocation metadata, when it counts, is fresh enough and names neither party.\<close>

definition revocation_clear :: "revocation_context \<Rightarrow> policy_request \<Rightarrow> bool \<Rightarrow> bool" where
  "revocation_clear ctx q control \<longleftrightarrow> rc_metadata_health ctx \<notin> {''invalid'', ''unavailable''}
     \<and> rc_freshness ctx \<noteq> ''expired''
     \<and> (rc_freshness ctx = ''stale'' \<longrightarrow> pq_action q \<in> {ENABLE, RUN} \<and> \<not> control)
     \<and> (\<forall>m \<in> set (rc_revocations ctx). \<not> matches_id (rm_publisher_id m) (pq_publisher_id q)
          \<and> \<not> matches_id (rm_module_id m) (pq_module_id q))"

definition rules_clear :: "installation_policy \<Rightarrow> publisher_snapshot \<Rightarrow> policy_request \<Rightarrow> bool \<Rightarrow> bool" where
  "rules_clear policy p q control \<longleftrightarrow>
     pq_module_id q \<notin> set (ip_module_denylist policy)
     \<and> pb_publisher_id p \<notin> set (ip_publisher_denylist policy)
     \<and> pb_status p \<in> {ACTIVE, PENDING_VERIFICATION} \<and> pb_tier p \<noteq> TIER_REVOKED
     \<and> set (pq_permissions q) \<inter> set (ip_blocked_permissions policy) = {}
     \<and> \<not> (control \<and> pq_action q \<in> {RUN, ENABLE})
     \<and> (pq_break_glass_active q \<and> ip_break_glass_enabled policy
        \<or> pb_tier p \<in> set (ip_allowed_tiers policy)
          \<and> \<not> (pb_tier p = TIER_COMMUNITY \<and> pq_app_env_production q)
          \<and> \<not> (control \<and> ip_control_module_policy policy = ''OFFICIAL_ONLY'' \<and> pb_tier p \<noteq> TIER_OFFICIAL))"

lemma evaluate_rules_allow:
  "pe_decision (evaluate_rules policy p q control) = ALLOW \<longleftrightarrow> rules_clear policy p q control"
proof -
  have status: "pb_status p \<in> {ACTIVE, PENDING_VERIFICATION} \<longleftrightarrow> \<not> (pb_status p = REVOKED \<or> pb_status p = SUSPENDED)"
    by (cases "pb_status p") simp_all
  have perms: "list_ex (\<lambda>x. x \<in> set (ip_blocked_permissions policy)) (pq_permissions q)
      \<longleftrightarrow> set (pq_permissions q) \<inter> set (ip_blocked_permissions policy) \<noteq> {}"
    by (auto simp: list_ex_iff)
  show ?thesis
    unfolding evaluate_rules_def rules_clear_def Let_def status perms CONTROL_ISOLATION_GATE_OPEN_def
    by simp blast
qed

lemma revocation_trust_clear:
  "(revocation_trust_decision ctx q policy control = None \<and> active_revocation ctx q = None)
     \<longleftrightarrow> revocation_clear ctx q control"
  by (cases "pq_action q")
    (auto simp: revocation_trust_decision_def revocation_clear_def active_revocation_def find_None_iff)

lemma revocation_trust_not_allow:
  "revocation_trust_decision ctx q policy control = Some r \<Longrightarrow> pe_decision r \<noteq> ALLOW"
  by (auto simp: revocation_trust_decision_def split: if_splits)

lemma evaluate_revocation_allow:
  "pe_decision (evaluate_revocation policy p ctx q control) = ALLOW
     \<longleftrightarrow> revocation_clear ctx q control \<and> rules_clear policy p q control"
  using revocation_trust_clear [of ctx q policy control] revocation_trust_not_allow [of ctx q policy control]
  by (cases "revocation_trust_decision ctx q policy control")
    (auto simp: evaluate_revocation_def evaluate_rules_allow)

lemma evaluate_policy_allow:
  "pe_decision (evaluate_policy policy publisher revocation q) = ALLOW \<longleftrightarrow>
     (let control = is_control_capable (pq_permissions q) (pq_provided_capabilities q) in
      \<exists>p. publisher = Some p \<and> (pq_canonical_owner q = None \<or> pq_canonical_owner q = Some (pq_publisher_id q))
        \<and> (case revocation of None \<Rightarrow> True
           | Some ctx \<Rightarrow> pq_marketplace_enabled q \<longrightarrow> revocation_clear ctx q control)
        \<and> rules_clear policy p q control)"
proof (cases publisher)
  case None
  then show ?thesis by (simp add: evaluate_policy_def Let_def)
next
  case (Some p)
  then show ?thesis
    by (cases "pq_canonical_owner q"; cases revocation; cases "pq_marketplace_enabled q")
      (auto simp: evaluate_policy_def Let_def evaluate_rules_allow evaluate_revocation_allow)
qed

subsection \<open>Properties\<close>

lemma evaluate_rules_control:
  "control \<Longrightarrow> pq_action q \<in> {RUN, ENABLE} \<Longrightarrow> pe_decision (evaluate_rules policy p q control) = DENY"
  by (simp add: evaluate_rules_def Let_def CONTROL_ISOLATION_GATE_OPEN_def)

lemma revocation_trust_control:
  "revocation_trust_decision ctx q policy True = Some r \<Longrightarrow> pq_action q \<in> {RUN, ENABLE}
   \<Longrightarrow> pe_decision r = DENY"
  by (auto simp: revocation_trust_decision_def split: if_splits)

text \<open>C16. Whatever the policy, the publisher, the revocation metadata and the break-glass state,
  running or enabling a control-capable module is denied.\<close>

theorem control_module_never_runs:
  assumes "is_control_capable (pq_permissions q) (pq_provided_capabilities q)" "pq_action q \<in> {RUN, ENABLE}"
  shows "pe_decision (evaluate_policy policy publisher revocation q) = DENY"
  using assms evaluate_rules_control [OF _ assms(2)] revocation_trust_control [OF _ assms(2)]
  by (simp add: evaluate_policy_def evaluate_revocation_def Let_def split: option.split)

definition sample_policy :: installation_policy where
  "sample_policy = \<lparr> ip_policy_version = 1, ip_allowed_tiers = DEFAULT_ALLOWED_TIERS,
     ip_publisher_allowlist = [], ip_publisher_denylist = [], ip_module_allowlist = [''acme.charger''],
     ip_module_denylist = [], ip_blocked_permissions = [], ip_control_module_policy = ''VERIFIED_OK'',
     ip_break_glass_enabled = True \<rparr>"

definition sample_publisher :: publisher_snapshot where
  "sample_publisher = \<lparr> pb_publisher_id = ''acme'', pb_tier = TIER_OFFICIAL, pb_status = ACTIVE \<rparr>"

definition sample_request :: "policy_action \<Rightarrow> string list \<Rightarrow> policy_request" where
  "sample_request action caps = \<lparr> pq_action = action, pq_module_id = ''acme.charger'',
     pq_publisher_id = ''acme'', pq_permissions = [], pq_provided_capabilities = caps,
     pq_app_env_production = False, pq_break_glass_active = True, pq_canonical_owner = Some ''acme'',
     pq_marketplace_enabled = False \<rparr>"

theorem control_module_never_runs_witness:
  "pe_decision (evaluate_policy sample_policy (Some sample_publisher) None
     (sample_request RUN [''EV_charger.start''])) = DENY"
proof -
  have "is_control_capable (pq_permissions (sample_request RUN [''EV_charger.start'']))
      (pq_provided_capabilities (sample_request RUN [''EV_charger.start'']))" by code_simp
  then show ?thesis by (rule control_module_never_runs) (simp add: sample_request_def)
qed

text \<open>Tightening a policy never turns a refusal into an approval: longer denylists and blocked
  permissions, fewer allowed tiers, break-glass switched off or control modules reserved to
  official publishers only ever allow less.\<close>

theorem tightening_allows_less:
  assumes "set (ip_module_denylist loose) \<subseteq> set (ip_module_denylist strict)"
    and "set (ip_publisher_denylist loose) \<subseteq> set (ip_publisher_denylist strict)"
    and "set (ip_blocked_permissions loose) \<subseteq> set (ip_blocked_permissions strict)"
    and "set (ip_allowed_tiers strict) \<subseteq> set (ip_allowed_tiers loose)"
    and "ip_break_glass_enabled strict \<Longrightarrow> ip_break_glass_enabled loose"
    and "ip_control_module_policy strict \<noteq> ''OFFICIAL_ONLY'' \<Longrightarrow> ip_control_module_policy loose \<noteq> ''OFFICIAL_ONLY''"
    and "pe_decision (evaluate_policy strict publisher revocation q) = ALLOW"
  shows "pe_decision (evaluate_policy loose publisher revocation q) = ALLOW"
proof -
  have "rules_clear loose p q control" if "rules_clear strict p q control" for p control
    using that assms(1-6) unfolding rules_clear_def by (auto; blast)
  then show ?thesis
    using assms(7) by (auto simp: evaluate_policy_allow Let_def)
qed

theorem tightening_allows_less_witness:
  "pe_decision (evaluate_policy sample_policy (Some sample_publisher) None (sample_request INSTALL [])) = ALLOW"
  by (rule tightening_allows_less [where strict = "sample_policy\<lparr> ip_publisher_denylist := [''evil''],
        ip_allowed_tiers := [TIER_OFFICIAL], ip_break_glass_enabled := False,
        ip_control_module_policy := ''OFFICIAL_ONLY'' \<rparr>"]) code_simp+

lemma evaluate_rules_two_valued: "pe_decision (evaluate_rules policy p q control) \<in> {ALLOW, DENY}"
  unfolding evaluate_rules_def Let_def if_distrib [of pe_decision] pe_decision_evaluation by simp

lemma evaluate_rules_decision:
  "pe_decision (evaluate_rules policy p q control) = (if rules_clear policy p q control then ALLOW else DENY)"
  using evaluate_rules_two_valued [of policy p q control] by (auto simp: evaluate_rules_allow)

text \<open>The publisher and module allowlists never decide: with any other allowlists the decision
  is the same, since every check before them already requires an allowed tier or an active
  break-glass session.\<close>

theorem allowlists_never_decide:
  "pe_decision (evaluate_policy
     (policy\<lparr> ip_publisher_allowlist := publishers, ip_module_allowlist := modules \<rparr>) publisher revocation q)
   = pe_decision (evaluate_policy policy publisher revocation q)"
proof -
  have rules: "pe_decision (evaluate_rules
        (policy\<lparr> ip_publisher_allowlist := publishers, ip_module_allowlist := modules \<rparr>) p q control)
      = pe_decision (evaluate_rules policy p q control)" for p control
    by (simp add: evaluate_rules_decision rules_clear_def)
  have trust: "map_option pe_decision (revocation_trust_decision ctx q
        (policy\<lparr> ip_publisher_allowlist := publishers, ip_module_allowlist := modules \<rparr>) control)
      = map_option pe_decision (revocation_trust_decision ctx q policy control)" for ctx control
    by (simp add: revocation_trust_decision_def)
  have "pe_decision (evaluate_revocation
        (policy\<lparr> ip_publisher_allowlist := publishers, ip_module_allowlist := modules \<rparr>) p ctx q control)
      = pe_decision (evaluate_revocation policy p ctx q control)" for p ctx control
    using trust [of ctx control] by (auto simp: evaluate_revocation_def rules split: option.split)
  then show ?thesis
    by (simp add: evaluate_policy_def Let_def rules split: option.split)
qed

end
