(* ===== verification/Emic_Json.thy ===== *)
theory Emic_Json
  imports Emic_Prelude
begin

section \<open>JSON values\<close>

text \<open>
  What \<open>json.loads\<close> returns, as the marketplace and governance code reads it: an object is
  a dictionary in insertion order. Python's \<open>or\<close> and \<open>if\<close> read the truth value of a JSON
  value, and \<open>dict.get\<close> a member.
\<close>

datatype json =
    JNull
  | JBool bool
  | JInt int
  | JFloat rat
  | JStr string
  | JList "json list"
  | JObj "(string \<times> json) list"

fun json_truthy :: "json \<Rightarrow> bool" where
  "json_truthy JNull = False"
| "json_truthy (JBool b) = b"
| "json_truthy (JInt n) = (n \<noteq> 0)"
| "json_truthy (JFloat x) = (x \<noteq> 0)"
| "json_truthy (JStr s) = (s \<noteq> [])"
| "json_truthy (JList xs) = (xs \<noteq> [])"
| "json_truthy (JObj kvs) = (kvs \<noteq> [])"

text \<open>\<open>d.get(key, default)\<close>; \<open>json.loads\<close> keeps the last of equal keys, so keys are distinct.\<close>

definition json_get :: "(string \<times> json) list \<Rightarrow> string \<Rightarrow> json \<Rightarrow> json" where
  "json_get d k dflt = or_else (map_of d k) dflt"

fun json_str :: "json \<Rightarrow> string option" where
  "json_str (JStr s) = Some s"
| "json_str _ = None"

end
