(* ===== verification/Governance_Registry.thy ===== *)
theory Governance_Registry
  imports Governance_Policy Emic_Json
begin

section \<open>The governance database\<close>

text \<open>
  \<open>platform/modules/governance/\<close>: publishers (\<open>publisher_repository.py\<close>), ownership
  (\<open>ownership_repository.py\<close>), ownership transfers (\<open>transfer_repository.py\<close>), verification
  records (\<open>verification_repository.py\<close>), the versioned installation policy
  (\<open>policy_repository.py\<close>), the break-glass store (\<open>break_glass.py\<close>), the revocation entries
  (\<open>revocation_reader.py\<close>) and the evaluation over them (\<open>evaluation_service.py\<close>).

  The session is one record of tables, each an association list over its primary key; an
  operation returns its result, or the exception, with the tables after it. A publisher row
  holds its status as the enumeration, since the repositories write nothing else, and its
  tier as a string, since \<open>create\<close> stores the tier it is given. The clock is an argument.
\<close>

subsection \<open>Rows\<close>

record publisher_row =
  pr_display_name :: string
  pr_legal_name :: "string option"
  pr_organization :: "string option"
  pr_verified_domain :: "string option"
  pr_tier :: string
  pr_status :: publisher_status
  pr_verified_at :: "time option"
  pr_suspended_at :: "time option"
  pr_revoked_at :: "time option"

record ownership_row =
  ow_publisher_id :: string
  ow_protected :: bool

datatype transfer_status = T_PENDING | T_APPROVED | T_REJECTED | T_CANCELLED | T_COMPLETED

record transfer_row =
  tr_module_id :: string
  tr_from_publisher_id :: string
  tr_to_publisher_id :: string
  tr_from_tier :: string
  tr_to_tier :: string
  tr_requested_by :: string
  tr_approved_by :: "string option"
  tr_status :: transfer_status
  tr_reason :: "string option"
  tr_approved_at :: "time option"
  tr_effective_at :: "time option"

datatype verification_status = V_PENDING | V_APPROVED | V_REJECTED | V_EXPIRED

record verification_row =
  vf_publisher_id :: string
  vf_verified_domain :: "string option"
  vf_verified_organization :: "string option"
  vf_status :: verification_status
  vf_verified_by :: string
  vf_verified_at :: time
  vf_expires_at :: "time option"
  vf_notes :: "string option"

text \<open>The policy row is the snapshot of the policy with its author and time.\<close>

record policy_row = installation_policy +
  pl_updated_by :: "string option"
  pl_updated_at :: "time option"

record policy_history_row =
  ph_policy_version :: int
  ph_snapshot :: installation_policy
  ph_updated_by :: string

record governance_db =
  gd_publishers :: "(string \<times> publisher_row) list"
  gd_ownership :: "(string \<times> ownership_row) list"
  gd_transfers :: "(nat \<times> transfer_row) list"
  gd_next_transfer :: nat
  gd_verifications :: "verification_row list"
  gd_policy :: "policy_row option"
  gd_history :: "policy_history_row list"

definition empty_db :: governance_db where
  "empty_db = \<lparr> gd_publishers = [], gd_ownership = [], gd_transfers = [], gd_next_transfer = 1,
     gd_verifications = [], gd_policy = None, gd_history = [] \<rparr>"

datatype governance_error =
    E_PUBLISHER_NOT_FOUND | E_PUBLISHER_REVOKED | E_PUBLISHER_SUSPENDED | E_INVALID_TRUST_TIER
  | E_INVALID_PUBLISHER_KEY | E_KEY_ALREADY_EXISTS | E_OWNERSHIP_TRANSFER_NOT_ALLOWED
  | E_POLICY_CONFLICT | E_POLICY_DENIED | E_SECURITY_REVIEW_REQUIRED | E_INVALID_TRANSITION
  | E_TRANSFER_NOT_FOUND

datatype governance_exception =
    PublisherGovernanceError governance_error
  | OwnershipRepositoryError governance_error
  | TransferRepositoryError governance_error
  | PolicyRepositoryError governance_error

type_synonym 'a governed = "(governance_exception + 'a) \<times> governance_db"

subsection \<open>Publishers\<close>

fun publisher_status_value :: "publisher_status \<Rightarrow> string" where
  "publisher_status_value PENDING_VERIFICATION = ''PENDING_VERIFICATION''"
| "publisher_status_value ACTIVE = ''ACTIVE''"
| "publisher_status_value SUSPENDED = ''SUSPENDED''"
| "publisher_status_value REVOKED = ''REVOKED''"

definition publisher_status_of :: "string \<Rightarrow> publisher_status option" where
  "publisher_status_of s =
     find (\<lambda>v. publisher_status_value v = s) [PENDING_VERIFICATION, ACTIVE, SUSPENDED, REVOKED]"

fun ALLOWED_TRANSITIONS :: "publisher_status \<Rightarrow> publisher_status list" where
  "ALLOWED_TRANSITIONS PENDING_VERIFICATION = [ACTIVE, REVOKED]"
| "ALLOWED_TRANSITIONS ACTIVE = [SUSPENDED, REVOKED]"
| "ALLOWED_TRANSITIONS SUSPENDED = [ACTIVE, REVOKED]"
| "ALLOWED_TRANSITIONS REVOKED = []"

definition get_publisher :: "governance_db \<Rightarrow> string \<Rightarrow> publisher_row option" where
  "get_publisher db p = map_of (gd_publishers db) p"

definition save_publisher :: "string \<Rightarrow> publisher_row \<Rightarrow> governance_db \<Rightarrow> governance_db" where
  "save_publisher p r db = db\<lparr>gd_publishers := AList.update p r (gd_publishers db)\<rparr>"

definition get_or_raise :: "governance_db \<Rightarrow> string \<Rightarrow> governance_exception + publisher_row" where
  "get_or_raise db p = (case get_publisher db p of
     None \<Rightarrow> Inl (PublisherGovernanceError E_PUBLISHER_NOT_FOUND) | Some r \<Rightarrow> Inr r)"

record publisher_fields =
  pf_display_name :: "string option"
  pf_organization :: "string option"
  pf_verified_domain :: "string option"
  pf_legal_name :: "string option"
  pf_tier :: "string option"

definition create_publisher ::
  "string \<Rightarrow> string \<Rightarrow> string \<Rightarrow> string option \<Rightarrow> string option \<Rightarrow> string option \<Rightarrow> governance_db
   \<Rightarrow> publisher_row governed" where
  "create_publisher p name tier organization domain legal db =
     (case get_publisher db p of
        Some _ \<Rightarrow> (Inl (PublisherGovernanceError E_INVALID_TRUST_TIER), db)
      | None \<Rightarrow>
          let r = \<lparr> pr_display_name = name, pr_legal_name = legal, pr_organization = organization,
                    pr_verified_domain = domain, pr_tier = tier, pr_status = PENDING_VERIFICATION,
                    pr_verified_at = None, pr_suspended_at = None, pr_revoked_at = None \<rparr>
          in (Inr r, save_publisher p r db))"

definition write_fields :: "publisher_fields \<Rightarrow> publisher_row \<Rightarrow> publisher_row" where
  "write_fields f r = r\<lparr> pr_tier := or_else (pf_tier f) (pr_tier r),
     pr_display_name := or_else (pf_display_name f) (pr_display_name r),
     pr_organization := (if pf_organization f \<noteq> None then pf_organization f else pr_organization r),
     pr_verified_domain := (if pf_verified_domain f \<noteq> None then pf_verified_domain f else pr_verified_domain r),
     pr_legal_name := (if pf_legal_name f \<noteq> None then pf_legal_name f else pr_legal_name r) \<rparr>"

definition update_publisher_fields ::
  "string \<Rightarrow> publisher_fields \<Rightarrow> governance_db \<Rightarrow> publisher_row governed" where
  "update_publisher_fields p f db =
     (case get_or_raise db p of
        Inl e \<Rightarrow> (Inl e, db)
      | Inr r \<Rightarrow>
          if (case pf_tier f of None \<Rightarrow> False | Some t \<Rightarrow> t \<notin> set PUBLISHER_TIERS)
          then (Inl (PublisherGovernanceError E_INVALID_TRUST_TIER), db)
          else (Inr (write_fields f r), save_publisher p (write_fields f r) db))"

definition stamp_status :: "time \<Rightarrow> publisher_status \<Rightarrow> publisher_row \<Rightarrow> publisher_row" where
  "stamp_status now s r = (let r = r\<lparr>pr_status := s\<rparr> in
     case s of
       ACTIVE \<Rightarrow> r\<lparr>pr_suspended_at := None\<rparr>
     | SUSPENDED \<Rightarrow> r\<lparr>pr_suspended_at := Some now\<rparr>
     | REVOKED \<Rightarrow> r\<lparr>pr_revoked_at := Some now, pr_tier := TIER_REVOKED\<rparr>
     | PENDING_VERIFICATION \<Rightarrow> r)"

definition transition_status :: "time \<Rightarrow> string \<Rightarrow> string \<Rightarrow> governance_db \<Rightarrow> publisher_row governed" where
  "transition_status now p new_status db =
     (case get_or_raise db p of
        Inl e \<Rightarrow> (Inl e, db)
      | Inr r \<Rightarrow> (case publisher_status_of new_status of
          None \<Rightarrow> (Inl (PublisherGovernanceError E_INVALID_TRANSITION), db)
        | Some s \<Rightarrow>
            if s \<notin> set (ALLOWED_TRANSITIONS (pr_status r)) \<and> pr_status r \<noteq> s
            then (Inl (PublisherGovernanceError E_INVALID_TRANSITION), db)
            else (Inr (stamp_status now s r), save_publisher p (stamp_status now s r) db)))"

definition verify_publisher :: "time \<Rightarrow> string \<Rightarrow> governance_db \<Rightarrow> publisher_row governed" where
  "verify_publisher now p db =
     (case transition_status now p (publisher_status_value ACTIVE) db of
        (Inl e, db') \<Rightarrow> (Inl e, db')
      | (Inr r, db') \<Rightarrow>
          let r' = r\<lparr> pr_verified_at := Some now,
                pr_tier := (if pr_tier r = TIER_COMMUNITY then TIER_VERIFIED else pr_tier r) \<rparr>
          in (Inr r', save_publisher p r' db'))"

definition to_publisher_snapshot :: "string \<Rightarrow> publisher_row \<Rightarrow> publisher_snapshot" where
  "to_publisher_snapshot p r = \<lparr> pb_publisher_id = p, pb_tier = pr_tier r, pb_status = pr_status r \<rparr>"

definition create_manual_verification ::
  "time \<Rightarrow> string \<Rightarrow> string \<Rightarrow> string option \<Rightarrow> string option \<Rightarrow> time option \<Rightarrow> string option
   \<Rightarrow> governance_db \<Rightarrow> verification_row governed" where
  "create_manual_verification now p by domain organization expires notes db =
     (let v = \<lparr> vf_publisher_id = p, vf_verified_domain = domain, vf_verified_organization = organization,
                vf_status = V_APPROVED, vf_verified_by = by, vf_verified_at = now,
                vf_expires_at = expires, vf_notes = notes \<rparr>
      in (Inr v, db\<lparr>gd_verifications := gd_verifications db @ [v]\<rparr>))"

subsection \<open>Ownership\<close>

definition get_ownership :: "governance_db \<Rightarrow> string \<Rightarrow> ownership_row option" where
  "get_ownership db m = map_of (gd_ownership db) m"

definition save_ownership :: "string \<Rightarrow> ownership_row \<Rightarrow> governance_db \<Rightarrow> governance_db" where
  "save_ownership m r db = db\<lparr>gd_ownership := AList.update m r (gd_ownership db)\<rparr>"

definition list_for_publisher :: "string \<Rightarrow> governance_db \<Rightarrow> (string \<times> ownership_row) list" where
  "list_for_publisher p db = filter (\<lambda>e. ow_publisher_id (snd e) = p) (gd_ownership db)"

definition assign_ownership ::
  "string \<Rightarrow> string \<Rightarrow> bool option \<Rightarrow> governance_db \<Rightarrow> ownership_row governed" where
  "assign_ownership m p protected db =
     (if is_protected_module_id m
      then (Inl (OwnershipRepositoryError E_OWNERSHIP_TRANSFER_NOT_ALLOWED), db)
      else (let r = (case get_ownership db m of
                None \<Rightarrow> \<lparr> ow_publisher_id = p, ow_protected = or_else protected False \<rparr>
              | Some r \<Rightarrow> r\<lparr> ow_publisher_id := p, ow_protected := or_else protected (ow_protected r) \<rparr>)
            in (Inr r, save_ownership m r db)))"

definition transfer_ownership :: "string \<Rightarrow> string \<Rightarrow> governance_db \<Rightarrow> ownership_row governed" where
  "transfer_ownership m p db =
     (case get_ownership db m of
        None \<Rightarrow> (Inl (OwnershipRepositoryError E_OWNERSHIP_TRANSFER_NOT_ALLOWED), db)
      | Some r \<Rightarrow>
          if ow_protected r \<or> is_protected_module_id m
          then (Inl (OwnershipRepositoryError E_OWNERSHIP_TRANSFER_NOT_ALLOWED), db)
          else (Inr (r\<lparr>ow_publisher_id := p\<rparr>), save_ownership m (r\<lparr>ow_publisher_id := p\<rparr>) db))"

subsection \<open>Ownership transfers\<close>

text \<open>The key of a new row comes from the table's sequence, \<^const>\<open>gd_next_transfer\<close>.\<close>

definition get_transfer :: "governance_db \<Rightarrow> nat \<Rightarrow> transfer_row option" where
  "get_transfer db i = map_of (gd_transfers db) i"

definition save_transfer :: "nat \<Rightarrow> transfer_row \<Rightarrow> governance_db \<Rightarrow> governance_db" where
  "save_transfer i t db = db\<lparr>gd_transfers := AList.update i t (gd_transfers db)\<rparr>"

definition pending_transfer :: "governance_db \<Rightarrow> string \<Rightarrow> (nat \<times> transfer_row) option" where
  "pending_transfer db m =
     find (\<lambda>e. tr_module_id (snd e) = m \<and> tr_status (snd e) = T_PENDING) (gd_transfers db)"

definition request_transfer ::
  "string \<Rightarrow> string \<Rightarrow> string \<Rightarrow> string option \<Rightarrow> governance_db \<Rightarrow> transfer_row governed" where
  "request_transfer m target requested_by reason db =
     (if is_protected_module_id m
      then (Inl (TransferRepositoryError E_OWNERSHIP_TRANSFER_NOT_ALLOWED), db)
      else (case get_ownership db m of
        None \<Rightarrow> (Inl (TransferRepositoryError E_OWNERSHIP_TRANSFER_NOT_ALLOWED), db)
      | Some ownership \<Rightarrow> (case get_or_raise db (ow_publisher_id ownership) of
          Inl e \<Rightarrow> (Inl e, db)
        | Inr from_publisher \<Rightarrow> (case get_or_raise db target of
            Inl e \<Rightarrow> (Inl e, db)
          | Inr to_publisher \<Rightarrow>
              if pr_status to_publisher = REVOKED \<or> pr_tier to_publisher = TIER_REVOKED
              then (Inl (TransferRepositoryError E_PUBLISHER_REVOKED), db)
              else if pending_transfer db m \<noteq> None
              then (Inl (TransferRepositoryError E_OWNERSHIP_TRANSFER_NOT_ALLOWED), db)
              else (let t = \<lparr> tr_module_id = m, tr_from_publisher_id = ow_publisher_id ownership,
                      tr_to_publisher_id = target, tr_from_tier = pr_tier from_publisher,
                      tr_to_tier = pr_tier to_publisher, tr_requested_by = requested_by,
                      tr_approved_by = None, tr_status = T_PENDING, tr_reason = reason,
                      tr_approved_at = None, tr_effective_at = None \<rparr>
                in (Inr t, save_transfer (gd_next_transfer db) t
                      (db\<lparr>gd_next_transfer := gd_next_transfer db + 1\<rparr>)))))))"

definition transfer_or_raise :: "governance_db \<Rightarrow> nat \<Rightarrow> governance_exception + transfer_row" where
  "transfer_or_raise db i = (case get_transfer db i of
     None \<Rightarrow> Inl (TransferRepositoryError E_TRANSFER_NOT_FOUND) | Some t \<Rightarrow> Inr t)"

definition decide_transfer ::
  "transfer_status \<Rightarrow> time \<Rightarrow> nat \<Rightarrow> string \<Rightarrow> governance_db \<Rightarrow> transfer_row governed" where
  "decide_transfer verdict now i approved_by db =
     (case transfer_or_raise db i of
        Inl e \<Rightarrow> (Inl e, db)
      | Inr t \<Rightarrow>
          if tr_status t \<noteq> T_PENDING then (Inl (TransferRepositoryError E_INVALID_TRANSITION), db)
          else (let t' = t\<lparr> tr_status := verdict, tr_approved_by := Some approved_by,
                       tr_approved_at := Some now \<rparr>
                in (Inr t', save_transfer i t' db)))"

definition approve_transfer :: "time \<Rightarrow> nat \<Rightarrow> string \<Rightarrow> governance_db \<Rightarrow> transfer_row governed" where
  "approve_transfer = decide_transfer T_APPROVED"

definition reject_transfer :: "time \<Rightarrow> nat \<Rightarrow> string \<Rightarrow> governance_db \<Rightarrow> transfer_row governed" where
  "reject_transfer = decide_transfer T_REJECTED"

definition complete_transfer :: "time \<Rightarrow> nat \<Rightarrow> governance_db \<Rightarrow> transfer_row governed" where
  "complete_transfer now i db =
     (case transfer_or_raise db i of
        Inl e \<Rightarrow> (Inl e, db)
      | Inr t \<Rightarrow>
          if tr_status t \<noteq> T_APPROVED then (Inl (TransferRepositoryError E_INVALID_TRANSITION), db)
          else (case transfer_ownership (tr_module_id t) (tr_to_publisher_id t) db of
              (Inl e, db') \<Rightarrow> (Inl e, db')
            | (Inr _, db') \<Rightarrow>
                let t' = t\<lparr> tr_status := T_COMPLETED, tr_effective_at := Some now \<rparr>
                in (Inr t', save_transfer i t' db')))"

subsection \<open>The installation policy\<close>

text \<open>
  A column that holds a list as JSON text is the list; the only code that reads or writes it
  is a \<open>json.loads\<close> of a \<open>json.dumps\<close>. The supply chain column, which \<open>update\<close> leaves
  alone, is left out.
\<close>

definition default_policy :: policy_row where
  "default_policy = \<lparr> ip_policy_version = 1, ip_allowed_tiers = DEFAULT_ALLOWED_TIERS,
     ip_publisher_allowlist = [], ip_publisher_denylist = [], ip_module_allowlist = [],
     ip_module_denylist = [], ip_blocked_permissions = [],
     ip_control_module_policy = ''VERIFIED_OK'', ip_break_glass_enabled = False,
     pl_updated_by = None, pl_updated_at = None \<rparr>"

definition get_or_create_policy :: "governance_db \<Rightarrow> policy_row \<times> governance_db" where
  "get_or_create_policy db = (case gd_policy db of
     Some r \<Rightarrow> (r, db) | None \<Rightarrow> (default_policy, db\<lparr>gd_policy := Some default_policy\<rparr>))"

definition to_policy_snapshot :: "policy_row \<Rightarrow> installation_policy" where
  "to_policy_snapshot r = installation_policy.truncate r"

record policy_patch =
  pp_allowed_tiers :: "string list option"
  pp_publisher_allowlist :: "string list option"
  pp_publisher_denylist :: "string list option"
  pp_module_allowlist :: "string list option"
  pp_module_denylist :: "string list option"
  pp_blocked_permissions :: "string list option"
  pp_control_module_policy :: "string option"
  pp_break_glass_enabled :: "bool option"

definition patch_policy :: "policy_patch \<Rightarrow> policy_row \<Rightarrow> policy_row" where
  "patch_policy x r = r\<lparr>
     ip_allowed_tiers := or_else (pp_allowed_tiers x) (ip_allowed_tiers r),
     ip_publisher_allowlist := or_else (pp_publisher_allowlist x) (ip_publisher_allowlist r),
     ip_publisher_denylist := or_else (pp_publisher_denylist x) (ip_publisher_denylist r),
     ip_module_allowlist := or_else (pp_module_allowlist x) (ip_module_allowlist r),
     ip_module_denylist := or_else (pp_module_denylist x) (ip_module_denylist r),
     ip_blocked_permissions := or_else (pp_blocked_permissions x) (ip_blocked_permissions r),
     ip_control_module_policy := or_else (pp_control_module_policy x) (ip_control_module_policy r),
     ip_break_glass_enabled := or_else (pp_break_glass_enabled x) (ip_break_glass_enabled r) \<rparr>"

definition update_policy ::
  "time \<Rightarrow> int \<Rightarrow> string \<Rightarrow> policy_patch \<Rightarrow> governance_db \<Rightarrow> policy_row governed" where
  "update_policy now expected_version updated_by x db =
     (let (r, db) = get_or_create_policy db in
      if ip_policy_version r \<noteq> expected_version
      then (Inl (PolicyRepositoryError E_POLICY_CONFLICT), db)
      else (let h = \<lparr> ph_policy_version = ip_policy_version r, ph_snapshot = to_policy_snapshot r,
                      ph_updated_by = updated_by \<rparr>;
                r' = (patch_policy x r)\<lparr> ip_policy_version := ip_policy_version r + 1,
                      pl_updated_by := Some updated_by, pl_updated_at := Some now \<rparr>
            in (Inr r', db\<lparr> gd_history := gd_history db @ [h], gd_policy := Some r' \<rparr>)))"

record policy_impact =
  im_publishers_total :: nat
  im_publishers_affected :: nat
  im_modules_total :: nat
  im_modules_affected :: nat

definition impact_summary :: "governance_db \<Rightarrow> policy_impact \<times> governance_db" where
  "impact_summary db =
     (let (r, db) = get_or_create_policy db in
      (\<lparr> im_publishers_total = length (gd_publishers db),
         im_publishers_affected = length (filter (\<lambda>(p, row). pr_tier row \<notin> set (ip_allowed_tiers r)
              \<or> p \<in> set (ip_publisher_denylist r)) (gd_publishers db)),
         im_modules_total = length (gd_ownership db),
         im_modules_affected =
           length (filter (\<lambda>(m, row). m \<in> set (ip_module_denylist r)) (gd_ownership db)) \<rparr>, db))"

subsection \<open>Break-glass sessions\<close>

record break_glass_session =
  bg_reason :: string
  bg_expires_at :: time
  bg_actor :: string

type_synonym break_glass_store = "break_glass_session option"

definition activate_break_glass :: "string \<Rightarrow> time \<Rightarrow> string \<Rightarrow> break_glass_store \<Rightarrow> break_glass_store" where
  "activate_break_glass reason expires actor store =
     Some \<lparr> bg_reason = reason, bg_expires_at = expires, bg_actor = actor \<rparr>"

definition clear_break_glass :: "break_glass_store \<Rightarrow> break_glass_store" where
  "clear_break_glass store = None"

definition current_break_glass ::
  "time \<Rightarrow> break_glass_store \<Rightarrow> break_glass_session option \<times> break_glass_store" where
  "current_break_glass now store =
     (case store of
        None \<Rightarrow> (None, store)
      | Some s \<Rightarrow> if bg_expires_at s \<le> now then (None, clear_break_glass store) else (Some s, store))"

definition break_glass_is_active :: "time \<Rightarrow> break_glass_store \<Rightarrow> bool \<times> break_glass_store" where
  "break_glass_is_active now store =
     (let (s, store') = current_break_glass now store in (s \<noteq> None, store'))"

subsection \<open>Revocation entries\<close>

text \<open>
  \<open>_parse_matches\<close>: an entry that is no object is skipped, as are all entries of an object
  or a string (their elements are strings); a number or \<open>True\<close> cannot be iterated, which
  raises \<open>TypeError\<close>, here \<open>None\<close>. A publisher or module id that is no string never equals
  the one of a request, so it is left out.
\<close>

definition revoking_entry :: "(string \<times> json) list \<Rightarrow> bool" where
  "revoking_entry entry =
     (case json_get entry ''action'' (JStr ''REVOKE'') of
        JStr s \<Rightarrow> py_upper s = ''REVOKE'' | _ \<Rightarrow> False)"

fun parse_entry :: "json \<Rightarrow> revocation_match list" where
  "parse_entry (JObj entry) = (if revoking_entry entry
     then [\<lparr> rm_publisher_id = json_str (json_get entry ''publisher_id'' JNull),
             rm_module_id = json_str (json_get entry ''module_id'' JNull) \<rparr>]
     else [])"
| "parse_entry _ = []"

definition parse_matches :: "(string \<times> json) list option \<Rightarrow> revocation_match list option" where
  "parse_matches raw =
     (case raw of
        None \<Rightarrow> Some []
      | Some d \<Rightarrow>
          (let entries = json_get d ''revocations'' JNull in
           if \<not> json_truthy entries then Some []
           else (case entries of
               JList es \<Rightarrow> Some (concat (map parse_entry es))
             | JObj _ \<Rightarrow> Some []
             | JStr _ \<Rightarrow> Some []
             | _ \<Rightarrow> None)))"

subsection \<open>Evaluation over the database\<close>

text \<open>
  \<open>GovernanceEvaluationService.evaluate\<close>. The revocation context comes from the trust cache
  and is an argument.
\<close>

definition evaluate_governance ::
  "time \<Rightarrow> revocation_context \<Rightarrow> policy_action \<Rightarrow> string \<Rightarrow> string \<Rightarrow> string list \<Rightarrow> string list
   \<Rightarrow> bool \<Rightarrow> bool \<Rightarrow> bool option \<Rightarrow> break_glass_store \<Rightarrow> governance_db
   \<Rightarrow> policy_evaluation \<times> break_glass_store \<times> governance_db" where
  "evaluate_governance now ctx action m p permissions caps marketplace production break_glass store db =
     (let (row, db') = get_or_create_policy db;
          (active, store') = (case break_glass of
              None \<Rightarrow> break_glass_is_active now store | Some b \<Rightarrow> (b, store));
          q = \<lparr> pq_action = action, pq_module_id = m, pq_publisher_id = p, pq_permissions = permissions,
                pq_provided_capabilities = caps, pq_app_env_production = production,
                pq_break_glass_active = active,
                pq_canonical_owner = map_option ow_publisher_id (get_ownership db' m),
                pq_marketplace_enabled = marketplace \<rparr>
      in (evaluate_policy (to_policy_snapshot row)
            (map_option (to_publisher_snapshot p) (get_publisher db' p)) (Some ctx) q, store', db'))"

end
