(* ===== verification/Governance_Runs.thy ===== *)
theory Governance_Runs
  imports Governance_Registry
begin

section \<open>What sequences of governance operations do\<close>

text \<open>
  The operations of \<open>platform/modules/governance/\<close> as one step function, the changes they
  are allowed to make as a step relation, the simulation between the two, and the
  properties of every sequence of operations that follow from the relation.
\<close>

subsection \<open>Operations\<close>

datatype governance_op =
    Create_publisher string string string "string option" "string option" "string option"
  | Update_publisher string publisher_fields
  | Transition_publisher string string
  | Verify_publisher string
  | Manual_verification string string "string option" "string option" "time option" "string option"
  | Assign_ownership string string "bool option"
  | Request_transfer string string string "string option"
  | Approve_transfer nat string
  | Reject_transfer nat string
  | Complete_transfer nat
  | Read_policy
  | Update_policy int string policy_patch

fun governance_step :: "governance_db \<Rightarrow> time \<times> governance_op \<Rightarrow> governance_db" where
  "governance_step db (now, Create_publisher p name tier org domain legal) =
     snd (create_publisher p name tier org domain legal db)"
| "governance_step db (now, Update_publisher p f) = snd (update_publisher_fields p f db)"
| "governance_step db (now, Transition_publisher p s) = snd (transition_status now p s db)"
| "governance_step db (now, Verify_publisher p) = snd (verify_publisher now p db)"
| "governance_step db (now, Manual_verification p by domain org expires notes) =
     snd (create_manual_verification now p by domain org expires notes db)"
| "governance_step db (now, Assign_ownership m p protected) = snd (assign_ownership m p protected db)"
| "governance_step db (now, Request_transfer m p by reason) = snd (request_transfer m p by reason db)"
| "governance_step db (now, Approve_transfer i by) = snd (approve_transfer now i by db)"
| "governance_step db (now, Reject_transfer i by) = snd (reject_transfer now i by db)"
| "governance_step db (now, Complete_transfer i) = snd (complete_transfer now i db)"
| "governance_step db (now, Read_policy) = snd (get_or_create_policy db)"
| "governance_step db (now, Update_policy v by x) = snd (update_policy now v by x db)"

subsection \<open>Allowed changes\<close>

inductive governance_change :: "governance_db \<Rightarrow> governance_db \<Rightarrow> bool" where
  new_publisher: "get_publisher db p = None \<Longrightarrow> pr_status r = PENDING_VERIFICATION
    \<Longrightarrow> governance_change db (save_publisher p r db)"
| edit_publisher: "get_publisher db p = Some r \<Longrightarrow> pr_status r' = pr_status r
    \<Longrightarrow> governance_change db (save_publisher p r' db)"
| move_publisher: "get_publisher db p = Some r
    \<Longrightarrow> s \<in> set (ALLOWED_TRANSITIONS (pr_status r)) \<or> s = pr_status r
    \<Longrightarrow> governance_change db (save_publisher p (stamp_status now s r) db)"
| record_verification: "governance_change db (db\<lparr>gd_verifications := gd_verifications db @ [v]\<rparr>)"
| assign_owner: "\<not> is_protected_module_id m \<Longrightarrow> governance_change db (save_ownership m r db)"
| open_transfer: "\<not> is_protected_module_id (tr_module_id t) \<Longrightarrow> pending_transfer db (tr_module_id t) = None
    \<Longrightarrow> tr_status t = T_PENDING \<Longrightarrow> tr_approved_at t = None \<Longrightarrow> tr_effective_at t = None
    \<Longrightarrow> governance_change db (save_transfer (gd_next_transfer db) t
          (db\<lparr>gd_next_transfer := Suc (gd_next_transfer db)\<rparr>))"
| close_transfer: "get_transfer db i = Some t \<Longrightarrow> tr_status t = T_PENDING
    \<Longrightarrow> verdict \<in> {T_APPROVED, T_REJECTED}
    \<Longrightarrow> governance_change db (save_transfer i (t\<lparr> tr_status := verdict, tr_approved_by := Some by,
          tr_approved_at := Some now \<rparr>) db)"
| finish_transfer: "get_transfer db i = Some t \<Longrightarrow> tr_status t = T_APPROVED
    \<Longrightarrow> get_ownership db (tr_module_id t) = Some r \<Longrightarrow> \<not> ow_protected r
    \<Longrightarrow> \<not> is_protected_module_id (tr_module_id t)
    \<Longrightarrow> governance_change db (save_transfer i (t\<lparr> tr_status := T_COMPLETED, tr_effective_at := Some now \<rparr>)
          (save_ownership (tr_module_id t) (r\<lparr>ow_publisher_id := tr_to_publisher_id t\<rparr>) db))"
| create_policy: "gd_policy db = None \<Longrightarrow> governance_change db (db\<lparr>gd_policy := Some default_policy\<rparr>)"
| revise_policy: "gd_policy db = Some r \<Longrightarrow> ip_policy_version r' = ip_policy_version r + 1
    \<Longrightarrow> ph_policy_version h = ip_policy_version r \<Longrightarrow> ph_snapshot h = to_policy_snapshot r
    \<Longrightarrow> governance_change db (db\<lparr> gd_history := gd_history db @ [h], gd_policy := Some r' \<rparr>)"

abbreviation governance_changes :: "governance_db \<Rightarrow> governance_db \<Rightarrow> bool" where
  "governance_changes \<equiv> governance_change\<^sup>*\<^sup>*"

lemma get_or_raise_simps [simp]:
  "get_publisher db p = None \<Longrightarrow> get_or_raise db p = Inl (PublisherGovernanceError E_PUBLISHER_NOT_FOUND)"
  "get_publisher db p = Some r \<Longrightarrow> get_or_raise db p = Inr r"
  by (simp_all add: get_or_raise_def)

lemma transfer_or_raise_simps [simp]:
  "get_transfer db i = None \<Longrightarrow> transfer_or_raise db i = Inl (TransferRepositoryError E_TRANSFER_NOT_FOUND)"
  "get_transfer db i = Some t \<Longrightarrow> transfer_or_raise db i = Inr t"
  by (simp_all add: transfer_or_raise_def)

lemma publisher_status_of_value [simp]: "publisher_status_of (publisher_status_value s) = Some s"
  by (cases s) (simp_all add: publisher_status_of_def)

text \<open>Each operation is a sequence of allowed changes.\<close>

lemma create_publisher_changes:
  "governance_changes db (snd (create_publisher p name tier org domain legal db))"
  by (auto simp: create_publisher_def Let_def split: option.split
      intro!: r_into_rtranclp [of governance_change] new_publisher)

lemma write_fields_status [simp]: "pr_status (write_fields f r) = pr_status r"
  by (simp add: write_fields_def)

lemma update_publisher_changes: "governance_changes db (snd (update_publisher_fields p f db))"
  by (cases "get_publisher db p")
    (auto simp: update_publisher_fields_def
      intro!: r_into_rtranclp [of governance_change] edit_publisher [OF _ write_fields_status])

lemma transition_status_changes: "governance_changes db (snd (transition_status now p s db))"
  by (cases "get_publisher db p")
    (auto simp: transition_status_def split: option.split
      intro: r_into_rtranclp [of governance_change] move_publisher)

lemma transition_status_saved:
  "transition_status now p s db = (Inr r, db') \<Longrightarrow> get_publisher db' p = Some r"
  by (cases "get_publisher db p")
    (auto simp: transition_status_def save_publisher_def get_publisher_def
      split: option.splits if_splits)

lemma verify_publisher_changes: "governance_changes db (snd (verify_publisher now p db))"
proof (cases "transition_status now p (publisher_status_value ACTIVE) db")
  case (Pair res db')
  have moved: "governance_changes db db'"
    using transition_status_changes [of db now p "publisher_status_value ACTIVE"] Pair by simp
  show ?thesis
  proof (cases res)
    case (Inr r)
    then have "get_publisher db' p = Some r"
      using Pair transition_status_saved by simp
    then show ?thesis
      using Inr Pair by (auto simp: verify_publisher_def Let_def
          intro!: rtranclp.rtrancl_into_rtrancl [OF moved] edit_publisher)
  qed (use Pair moved in \<open>simp add: verify_publisher_def\<close>)
qed

lemma assign_ownership_changes: "governance_changes db (snd (assign_ownership m p protected db))"
  by (auto simp: assign_ownership_def Let_def intro!: r_into_rtranclp [of governance_change] assign_owner)

lemma decide_transfer_changes:
  "verdict \<in> {T_APPROVED, T_REJECTED} \<Longrightarrow> governance_changes db (snd (decide_transfer verdict now i by db))"
  by (cases "get_transfer db i")
    (auto simp: decide_transfer_def Let_def intro!: r_into_rtranclp [of governance_change] close_transfer)

lemma complete_transfer_changes: "governance_changes db (snd (complete_transfer now i db))"
proof (cases "get_transfer db i")
  case (Some t)
  show ?thesis
  proof (cases "tr_status t = T_APPROVED \<and> (\<exists>r. get_ownership db (tr_module_id t) = Some r \<and> \<not> ow_protected r
      \<and> \<not> is_protected_module_id (tr_module_id t))")
    case True
    then obtain r where "get_ownership db (tr_module_id t) = Some r" "\<not> ow_protected r"
      "\<not> is_protected_module_id (tr_module_id t)" "tr_status t = T_APPROVED" by blast
    then show ?thesis
      using Some finish_transfer [of db i t r now]
      by (auto simp: complete_transfer_def transfer_ownership_def Let_def)
  next
    case False
    then show ?thesis
      using Some by (auto simp: complete_transfer_def transfer_ownership_def split: option.split)
  qed
qed (simp add: complete_transfer_def)

lemma get_or_create_policy_changes: "governance_changes db (snd (get_or_create_policy db))"
  by (auto simp: get_or_create_policy_def split: option.split
      intro: r_into_rtranclp [of governance_change] create_policy)

lemma get_or_create_policy_stored: "gd_policy (snd (get_or_create_policy db)) = Some (fst (get_or_create_policy db))"
  by (simp add: get_or_create_policy_def split: option.split)

lemma update_policy_changes: "governance_changes db (snd (update_policy now v by x db))"
proof (cases "get_or_create_policy db")
  case (Pair r db')
  have created: "governance_changes db db'"
    using get_or_create_policy_changes [of db] Pair by simp
  have "gd_policy db' = Some r"
    using get_or_create_policy_stored [of db] Pair by simp
  then show ?thesis
    using Pair created by (auto simp: update_policy_def Let_def patch_policy_def
        intro!: rtranclp.rtrancl_into_rtrancl [OF created] revise_policy)
qed

lemma request_transfer_changes: "governance_changes db (snd (request_transfer m p by reason db))"
proof (cases "get_ownership db m")
  case None
  then show ?thesis by (simp add: request_transfer_def)
next
  case (Some o1)
  show ?thesis
    by (cases "get_publisher db (ow_publisher_id o1)"; cases "get_publisher db p"; cases "pending_transfer db m")
      (use Some in \<open>auto simp: request_transfer_def Let_def
        intro!: r_into_rtranclp [of governance_change] open_transfer\<close>)
qed

theorem governance_step_changes: "governance_changes db (governance_step db e)"
proof (cases e)
  case (Pair now op)
  show ?thesis
    unfolding Pair
    by (cases op) (simp_all add: create_publisher_changes update_publisher_changes transition_status_changes
      verify_publisher_changes assign_ownership_changes request_transfer_changes approve_transfer_def
      reject_transfer_def decide_transfer_changes complete_transfer_changes get_or_create_policy_changes
      update_policy_changes create_manual_verification_def Let_def r_into_rtranclp record_verification)
qed

text \<open>What every change keeps, every run of operations keeps.\<close>

locale governance_invariant =
  fixes inv :: "governance_db \<Rightarrow> bool"
  assumes change_keeps: "governance_change db db' \<Longrightarrow> inv db \<Longrightarrow> inv db'"
begin

lemma changes_keep: "governance_changes db db' \<Longrightarrow> inv db \<Longrightarrow> inv db'"
  by (induction rule: rtranclp_induct) (auto intro: change_keeps)

lemma step_keeps: "inv db \<Longrightarrow> inv (governance_step db e)"
  by (rule changes_keep [OF governance_step_changes])

end

sublocale governance_invariant \<subseteq> run: kept_invariant governance_step "\<lambda>e. True" inv
  by unfold_locales (rule step_keeps)

subsection \<open>Lookups\<close>

lemma get_saved [simp]:
  "get_publisher (save_publisher p r db) p' = (if p' = p then Some r else get_publisher db p')"
  "get_ownership (save_ownership m w db) m' = (if m' = m then Some w else get_ownership db m')"
  "get_transfer (save_transfer i t db) j = (if j = i then Some t else get_transfer db j)"
  by (simp_all add: get_publisher_def save_publisher_def get_ownership_def save_ownership_def
      get_transfer_def save_transfer_def)

lemma other_tables [simp]:
  "get_publisher (save_ownership m w db) = get_publisher db"
  "get_publisher (save_transfer i t db) = get_publisher db"
  "get_ownership (save_publisher p r db) = get_ownership db"
  "get_ownership (save_transfer i t db) = get_ownership db"
  "get_transfer (save_publisher p r db) = get_transfer db"
  "get_transfer (save_ownership m w db) = get_transfer db"
  "get_publisher (db\<lparr>gd_next_transfer := n\<rparr>) = get_publisher db"
  "get_ownership (db\<lparr>gd_next_transfer := n\<rparr>) = get_ownership db"
  "get_transfer (db\<lparr>gd_next_transfer := n\<rparr>) = get_transfer db"
  "get_publisher (db\<lparr>gd_verifications := vs\<rparr>) = get_publisher db"
  "get_ownership (db\<lparr>gd_verifications := vs\<rparr>) = get_ownership db"
  "get_transfer (db\<lparr>gd_verifications := vs\<rparr>) = get_transfer db"
  "get_publisher (db\<lparr>gd_policy := pol\<rparr>) = get_publisher db"
  "get_ownership (db\<lparr>gd_policy := pol\<rparr>) = get_ownership db"
  "get_transfer (db\<lparr>gd_policy := pol\<rparr>) = get_transfer db"
  "get_publisher (db\<lparr>gd_history := hs\<rparr>) = get_publisher db"
  "get_ownership (db\<lparr>gd_history := hs\<rparr>) = get_ownership db"
  "get_transfer (db\<lparr>gd_history := hs\<rparr>) = get_transfer db"
  by (simp_all add: fun_eq_iff get_publisher_def save_publisher_def get_ownership_def save_ownership_def
      get_transfer_def save_transfer_def)

lemma other_columns [simp]:
  "gd_next_transfer (save_publisher p r db) = gd_next_transfer db"
  "gd_next_transfer (save_ownership m w db) = gd_next_transfer db"
  "gd_next_transfer (save_transfer i t db) = gd_next_transfer db"
  "gd_policy (save_publisher p r db) = gd_policy db"
  "gd_policy (save_ownership m w db) = gd_policy db"
  "gd_policy (save_transfer i t db) = gd_policy db"
  "gd_history (save_publisher p r db) = gd_history db"
  "gd_history (save_ownership m w db) = gd_history db"
  "gd_history (save_transfer i t db) = gd_history db"
  by (simp_all add: save_publisher_def save_ownership_def save_transfer_def)

lemma no_pending_transfer:
  "pending_transfer db m = None \<Longrightarrow> get_transfer db i = Some t \<Longrightarrow> tr_module_id t = m
   \<Longrightarrow> tr_status t \<noteq> T_PENDING"
  by (auto simp: pending_transfer_def get_transfer_def find_None_iff dest: map_of_SomeD)

subsection \<open>Revoked publishers\<close>

definition publisher_revoked :: "string \<Rightarrow> governance_db \<Rightarrow> bool" where
  "publisher_revoked p db \<longleftrightarrow> map_option pr_status (get_publisher db p) = Some REVOKED"

lemma stamp_status_status [simp]: "pr_status (stamp_status now s r) = s"
  by (cases s) (simp_all add: stamp_status_def)

interpretation revoked_inv: governance_invariant "publisher_revoked p" for p
proof
  fix db db'
  assume "governance_change db db'" "publisher_revoked p db"
  then show "publisher_revoked p db'"
    by cases (auto simp: publisher_revoked_def)
qed

text \<open>The service asks the engine about the stored publisher under the stored policy.\<close>

lemma evaluate_governance_engine:
  "\<exists>policy q. fst (evaluate_governance now ctx action m p permissions caps marketplace production bg store db)
     = evaluate_policy policy (map_option (to_publisher_snapshot p) (get_publisher db p)) (Some ctx) q
     \<and> pq_action q = action \<and> pq_permissions q = permissions \<and> pq_provided_capabilities q = caps"
  by (cases "gd_policy db"; cases "break_glass_is_active now store"; cases bg)
    (auto simp: evaluate_governance_def get_or_create_policy_def Let_def intro!: exI)

lemma revoked_not_allowed:
  assumes "publisher_revoked p db"
  shows "pe_decision (fst (evaluate_governance now ctx action m p permissions caps marketplace production
           bg store db)) \<noteq> ALLOW"
proof -
  obtain r where "get_publisher db p = Some r" "pr_status r = REVOKED"
    using assms by (auto simp: publisher_revoked_def)
  then show ?thesis
    using evaluate_governance_engine
      [of now ctx action m p permissions caps marketplace production bg store db]
    by (auto simp: evaluate_policy_allow rules_clear_def to_publisher_snapshot_def Let_def)
qed

subsection \<open>Transfers\<close>

fun transfer_row_ok :: "transfer_row \<Rightarrow> bool" where
  "transfer_row_ok t = (\<not> is_protected_module_id (tr_module_id t) \<and>
     (case tr_status t of
        T_PENDING \<Rightarrow> tr_approved_at t = None \<and> tr_effective_at t = None
      | T_APPROVED \<Rightarrow> tr_approved_by t \<noteq> None \<and> tr_approved_at t \<noteq> None \<and> tr_effective_at t = None
      | T_REJECTED \<Rightarrow> tr_approved_by t \<noteq> None \<and> tr_approved_at t \<noteq> None \<and> tr_effective_at t = None
      | T_CANCELLED \<Rightarrow> False
      | T_COMPLETED \<Rightarrow> tr_approved_by t \<noteq> None \<and> tr_approved_at t \<noteq> None \<and> tr_effective_at t \<noteq> None))"

definition transfers_ok :: "governance_db \<Rightarrow> bool" where
  "transfers_ok db \<longleftrightarrow>
     (\<forall>i t. get_transfer db i = Some t \<longrightarrow> i < gd_next_transfer db \<and> transfer_row_ok t) \<and>
     (\<forall>i j t u. get_transfer db i = Some t \<longrightarrow> get_transfer db j = Some u \<longrightarrow>
        tr_status t = T_PENDING \<longrightarrow> tr_status u = T_PENDING \<longrightarrow> tr_module_id t = tr_module_id u \<longrightarrow> i = j)"

lemma transfers_ok_row: "transfers_ok db \<Longrightarrow> get_transfer db i = Some t \<Longrightarrow> transfer_row_ok t"
  by (auto simp: transfers_ok_def)

lemma transfers_ok_fresh: "transfers_ok db \<Longrightarrow> get_transfer db (gd_next_transfer db) = None"
  unfolding transfers_ok_def by (metis less_irrefl option.exhaust)

lemma transfers_ok_frame [simp]:
  "transfers_ok (save_publisher p r db) = transfers_ok db"
  "transfers_ok (save_ownership m w db) = transfers_ok db"
  "transfers_ok (db\<lparr>gd_verifications := vs\<rparr>) = transfers_ok db"
  "transfers_ok (db\<lparr>gd_policy := pol\<rparr>) = transfers_ok db"
  "transfers_ok (db\<lparr>gd_history := hs\<rparr>) = transfers_ok db"
  by (simp_all add: transfers_ok_def)

lemma transfers_ok_settle:
  assumes "transfers_ok db" "get_transfer db i = Some t" "transfer_row_ok t'" "tr_status t' \<noteq> T_PENDING"
  shows "transfers_ok (save_transfer i t' db)" "transfers_ok (save_transfer i t' (save_ownership m w db))"
  using assms unfolding transfers_ok_def by auto

lemma transfers_ok_open:
  assumes "transfers_ok db" "pending_transfer db (tr_module_id t) = None" "transfer_row_ok t"
  shows "transfers_ok (save_transfer (gd_next_transfer db) t (db\<lparr>gd_next_transfer := Suc (gd_next_transfer db)\<rparr>))"
  using assms no_pending_transfer [OF assms(2)] unfolding transfers_ok_def by (auto simp: less_Suc_eq)

interpretation transfers_inv: governance_invariant transfers_ok
proof
  fix db db'
  assume "governance_change db db'" and ok: "transfers_ok db"
  then show "transfers_ok db'"
  proof cases
    case (open_transfer t)
    then show ?thesis using ok transfers_ok_open by auto
  next
    case (close_transfer i t verdict approver now)
    then have "transfer_row_ok t" using transfers_ok_row [OF ok] by blast
    then show ?thesis using close_transfer by (auto intro!: transfers_ok_settle(1) [OF ok])
  next
    case (finish_transfer i t r now)
    then have "transfer_row_ok t" using transfers_ok_row [OF ok] by blast
    then show ?thesis using finish_transfer by (simp add: transfers_ok_settle(2) [OF ok])
  qed (use ok in simp_all)
qed

lemma transfers_ok_empty: "transfers_ok empty_db"
  by (simp add: transfers_ok_def empty_db_def get_transfer_def)

text \<open>A transfer keeps its parties and moves forward only.\<close>

fun status_before :: "transfer_status \<Rightarrow> transfer_status \<Rightarrow> bool" where
  "status_before T_PENDING s = (s \<noteq> T_CANCELLED)"
| "status_before T_APPROVED s = (s \<in> {T_APPROVED, T_COMPLETED})"
| "status_before a b = (a = b)"

definition transfer_before :: "transfer_row \<Rightarrow> transfer_row \<Rightarrow> bool" where
  "transfer_before t u \<longleftrightarrow> tr_module_id u = tr_module_id t
     \<and> tr_from_publisher_id u = tr_from_publisher_id t \<and> tr_to_publisher_id u = tr_to_publisher_id t
     \<and> tr_requested_by u = tr_requested_by t \<and> status_before (tr_status t) (tr_status u)"

definition transfer_after :: "nat \<Rightarrow> transfer_row \<Rightarrow> governance_db \<Rightarrow> bool" where
  "transfer_after i t db \<longleftrightarrow> transfers_ok db \<and> (\<exists>u. get_transfer db i = Some u \<and> transfer_before t u)"

lemma status_before_refl: "s \<noteq> T_CANCELLED \<Longrightarrow> status_before s s"
  by (cases s) simp_all

lemma status_before_close: "status_before s T_PENDING \<Longrightarrow> v \<in> {T_APPROVED, T_REJECTED} \<Longrightarrow> status_before s v"
  by (cases s) auto

lemma status_before_complete: "status_before s T_APPROVED \<Longrightarrow> status_before s T_COMPLETED"
  by (cases s) auto

interpretation transfer_inv: governance_invariant "transfer_after i t" for i t
proof
  fix db db'
  assume change: "governance_change db db'" and "transfer_after i t db"
  then obtain u where ok: "transfers_ok db" and u: "get_transfer db i = Some u" "transfer_before t u"
    by (auto simp: transfer_after_def)
  have ok': "transfers_ok db'"
    by (rule transfers_inv.change_keeps [OF change ok])
  have old: "i \<noteq> gd_next_transfer db"
    using transfers_ok_fresh [OF ok] u by auto
  from change show "transfer_after i t db'"
  proof cases
    case (close_transfer j w verdict approver now)
    then show ?thesis
      using u ok' status_before_close [of "tr_status t" verdict]
      by (cases "j = i") (auto simp: transfer_after_def transfer_before_def)
  next
    case (finish_transfer j w r now)
    then show ?thesis
      using u ok' status_before_complete [of "tr_status t"]
      by (cases "j = i") (auto simp: transfer_after_def transfer_before_def)
  qed (use u ok' old in \<open>simp_all add: transfer_after_def\<close>)
qed

lemma transfer_after_now:
  "transfers_ok db \<Longrightarrow> get_transfer db i = Some t \<Longrightarrow> transfer_after i t db"
  using transfers_ok_row [of db i t] status_before_refl [of "tr_status t"]
  by (cases "tr_status t") (simp_all add: transfer_after_def transfer_before_def)

subsection \<open>Versions of the policy\<close>

definition policy_ok :: "governance_db \<Rightarrow> bool" where
  "policy_ok db \<longleftrightarrow>
     (case gd_policy db of
        None \<Rightarrow> gd_history db = []
      | Some r \<Rightarrow> 1 \<le> ip_policy_version r
          \<and> map ph_policy_version (gd_history db) = [1..ip_policy_version r - 1])
     \<and> (\<forall>h \<in> set (gd_history db). ip_policy_version (ph_snapshot h) = ph_policy_version h)"

lemma policy_ok_frame [simp]:
  "policy_ok (save_publisher p r db) = policy_ok db"
  "policy_ok (save_ownership m w db) = policy_ok db"
  "policy_ok (save_transfer i t db) = policy_ok db"
  "policy_ok (db\<lparr>gd_verifications := vs\<rparr>) = policy_ok db"
  "policy_ok (db\<lparr>gd_next_transfer := n\<rparr>) = policy_ok db"
  by (simp_all add: policy_ok_def split: option.split)

lemma snapshot_version [simp]: "ip_policy_version (to_policy_snapshot r) = ip_policy_version r"
  by (simp add: to_policy_snapshot_def installation_policy.truncate_def)

interpretation policy_inv: governance_invariant policy_ok
proof
  fix db db'
  assume "governance_change db db'" and ok: "policy_ok db"
  then show "policy_ok db'"
  proof cases
    case (revise_policy r r' h)
    have "[1..ip_policy_version r] = [1..ip_policy_version r - 1] @ [ip_policy_version r]"
      using ok revise_policy by (intro upto_rec2) (simp add: policy_ok_def)
    then show ?thesis
      using ok revise_policy by (auto simp: policy_ok_def)
  next
    case create_policy
    then show ?thesis
      using ok by (simp add: policy_ok_def default_policy_def)
  qed (use ok in simp_all)
qed

lemma policy_ok_empty: "policy_ok empty_db"
  by (simp add: policy_ok_def empty_db_def)

definition policy_newer :: "int \<Rightarrow> governance_db \<Rightarrow> bool" where
  "policy_newer v db \<longleftrightarrow> (case gd_policy db of None \<Rightarrow> False | Some r \<Rightarrow> v < ip_policy_version r)"

interpretation newer_inv: governance_invariant "policy_newer v" for v
proof
  fix db db'
  assume "governance_change db db'" "policy_newer v db"
  then show "policy_newer v db'"
    by cases (simp_all add: policy_newer_def)
qed

lemma update_policy_newer: "update_policy now v by x db = (Inr r, db') \<Longrightarrow> policy_newer v db'"
  by (auto simp: update_policy_def policy_newer_def Let_def split: prod.splits if_splits)

lemma update_policy_conflict:
  "policy_newer v db \<Longrightarrow> fst (update_policy now v by x db) = Inl (PolicyRepositoryError E_POLICY_CONFLICT)"
  by (auto simp: update_policy_def policy_newer_def get_or_create_policy_def Let_def split: option.splits)

subsection \<open>Who changes an owner\<close>

lemma transition_ownership: "get_ownership (snd (transition_status now p s db)) = get_ownership db"
  by (simp add: transition_status_def split: sum.split option.split)

lemma verify_ownership: "get_ownership (snd (verify_publisher now p db)) = get_ownership db"
  using transition_ownership [of now p "publisher_status_value ACTIVE" db]
  by (auto simp: verify_publisher_def Let_def split: prod.split sum.split)

lemma request_ownership: "get_ownership (snd (request_transfer m p by reason db)) = get_ownership db"
  by (cases "get_ownership db m"; cases "get_or_raise db p"; cases "pending_transfer db m")
    (auto simp: request_transfer_def Let_def split: sum.split)

lemma policy_row_ownership: "get_ownership (snd (get_or_create_policy db)) = get_ownership db"
  by (simp add: get_or_create_policy_def split: option.split)

lemma update_policy_ownership: "get_ownership (snd (update_policy now v by x db)) = get_ownership db"
  using policy_row_ownership [of db] by (auto simp: update_policy_def Let_def split: prod.split)

lemma assign_owner_effect:
  "get_ownership (snd (assign_ownership m p protected db)) m' \<noteq> get_ownership db m'
   \<Longrightarrow> m' = m \<and> \<not> is_protected_module_id m"
  by (auto simp: assign_ownership_def Let_def split: if_splits)

definition transfer_authorises :: "governance_db \<Rightarrow> nat \<Rightarrow> string \<Rightarrow> string \<Rightarrow> bool" where
  "transfer_authorises db i m p \<longleftrightarrow> (case get_transfer db i of None \<Rightarrow> False
     | Some t \<Rightarrow> tr_status t = T_APPROVED \<and> tr_module_id t = m \<and> tr_to_publisher_id t = p)"

lemma complete_owner_effect:
  assumes "get_ownership (snd (complete_transfer now i db)) m \<noteq> get_ownership db m"
  obtains r where "get_ownership db m = Some r" "\<not> ow_protected r" "\<not> is_protected_module_id m"
    "\<exists>p. get_ownership (snd (complete_transfer now i db)) m = Some (r\<lparr>ow_publisher_id := p\<rparr>)
       \<and> transfer_authorises db i m p"
proof (cases "get_transfer db i")
  case None
  then show ?thesis using assms by (simp add: complete_transfer_def)
next
  case (Some t)
  have unmoved: "get_ownership (snd (complete_transfer now i db)) m = get_ownership db m"
    if "\<not> (tr_status t = T_APPROVED \<and> tr_module_id t = m \<and> (\<exists>r. get_ownership db m = Some r
          \<and> \<not> ow_protected r \<and> \<not> is_protected_module_id m))"
    using that Some by (cases "get_ownership db (tr_module_id t)")
      (auto simp: complete_transfer_def transfer_ownership_def Let_def)
  then obtain r where r: "tr_status t = T_APPROVED" "tr_module_id t = m" "get_ownership db m = Some r"
    "\<not> ow_protected r" "\<not> is_protected_module_id m"
    using assms by blast
  then show ?thesis
    using Some by (intro that [of r])
      (simp_all add: complete_transfer_def transfer_ownership_def transfer_authorises_def Let_def)
qed

definition owner :: "governance_db \<Rightarrow> string \<Rightarrow> string option" where
  "owner db m = map_option ow_publisher_id (get_ownership db m)"

lemma owner_kept: "get_ownership db' m = get_ownership db m \<Longrightarrow> owner db' m = owner db m"
  by (simp add: owner_def)

subsection \<open>Properties\<close>

text \<open>C15. A revoked publisher stays revoked, and whatever is done to the tables afterwards
  (new tier, verification, transfers, policy changes, break-glass) the service never allows
  an action on one of its modules.\<close>

theorem revoked_publisher_never_allowed:
  assumes "transition_status now p ''REVOKED'' db = (Inr r, db')"
  shows "map_option pr_status (get_publisher (foldl governance_step db' es) p) = Some REVOKED
    \<and> pe_decision (fst (evaluate_governance now' ctx action m p permissions caps marketplace production
           bg store (foldl governance_step db' es))) \<noteq> ALLOW"
proof -
  have "publisher_status_of ''REVOKED'' = Some REVOKED"
    by (simp add: publisher_status_of_def)
  then have "publisher_revoked p db'"
    using assms transition_status_saved [OF assms]
    by (cases "get_publisher db p")
      (auto simp: transition_status_def publisher_revoked_def split: if_splits)
  then have revoked: "publisher_revoked p (foldl governance_step db' es)"
    by (intro revoked_inv.run.run_keeps) simp_all
  show ?thesis
    using revoked_not_allowed [OF revoked] revoked by (simp add: publisher_revoked_def)
qed

definition acme_revoked :: "publisher_row governed" where
  "acme_revoked = transition_status 5 ''acme'' ''REVOKED''
     (governance_step empty_db (0, Create_publisher ''acme'' ''Acme'' ''OFFICIAL'' None None None))"

theorem revoked_publisher_never_allowed_witness:
  "pe_decision (fst (evaluate_governance 9
       \<lparr> rc_freshness = ''fresh'', rc_metadata_health = ''healthy'', rc_revocations = [] \<rparr> INSTALL ''acme.meter''
       ''acme'' [] [] True True (Some True) None
       (foldl governance_step (snd acme_revoked)
         [(6, Update_publisher ''acme'' \<lparr> pf_display_name = None, pf_organization = None,
             pf_verified_domain = None, pf_legal_name = None, pf_tier = Some ''OFFICIAL'' \<rparr>),
          (7, Verify_publisher ''acme'')]))) \<noteq> ALLOW"
proof -
  have "acme_revoked = (Inr (projr (fst acme_revoked)), snd acme_revoked)" by code_simp
  from this [unfolded acme_revoked_def] show ?thesis
    unfolding acme_revoked_def by (rule revoked_publisher_never_allowed [THEN conjunct2])
qed

text \<open>C17. From an empty database no sequence of operations leaves two pending transfers of one
  module, a transfer of a protected module, or a transfer that was approved, rejected or
  completed without an approver and a time. Protected means an id of the official list; the
  flag \<open>protected\<close> of an ownership row is not read by \<open>request_transfer\<close>.\<close>

theorem transfers_consistent: "transfers_ok (foldl governance_step empty_db es)"
  by (rule transfers_inv.run.run_keeps) (simp_all add: transfers_ok_empty)

text \<open>A stored transfer keeps its module, its parties and its requester for ever, and its
  status only moves from pending to approved or rejected and from approved to completed.\<close>

theorem transfer_lifecycle:
  assumes "get_transfer (foldl governance_step empty_db es) i = Some t"
  shows "\<exists>u. get_transfer (foldl governance_step empty_db (es @ fs)) i = Some u \<and> transfer_before t u"
proof -
  have "transfer_after i t (foldl governance_step empty_db es)"
    using transfers_inv.run.run_keeps [OF transfers_ok_empty] assms by (intro transfer_after_now) simp_all
  then have "transfer_after i t (foldl governance_step (foldl governance_step empty_db es) fs)"
    by (rule transfer_inv.run.run_keeps) simp
  then show ?thesis by (simp add: transfer_after_def)
qed

definition shared_meter :: "(time \<times> governance_op) list" where
  "shared_meter = [(0, Create_publisher ''acme'' ''Acme'' ''VERIFIED'' None None None),
     (1, Create_publisher ''volt'' ''Volt'' ''VERIFIED'' None None None),
     (2, Assign_ownership ''acme.meter'' ''acme'' None),
     (3, Request_transfer ''acme.meter'' ''volt'' ''root'' None), (4, Approve_transfer 1 ''root'')]"

theorem transfer_lifecycle_witness:
  "\<exists>u. get_transfer (foldl governance_step empty_db (shared_meter @ [(5, Complete_transfer 1)])) 1 = Some u
     \<and> transfer_before (the (get_transfer (foldl governance_step empty_db shared_meter) 1)) u"
proof -
  have "get_transfer (foldl governance_step empty_db shared_meter) 1
      = Some (the (get_transfer (foldl governance_step empty_db shared_meter) 1))" by code_simp
  then show ?thesis by (rule transfer_lifecycle)
qed

text \<open>When an operation changes the owner of a module, the module is not a protected one,
  and the operation is an assignment of that module or the completion of an approved
  transfer of it to the new owner.\<close>

theorem owner_changes_authorised:
  assumes "owner (governance_step db e) m \<noteq> owner db m"
  shows "\<not> is_protected_module_id m
    \<and> ((\<exists>now p protected. e = (now, Assign_ownership m p protected))
       \<or> (\<exists>now i p. e = (now, Complete_transfer i) \<and> transfer_authorises db i m p
            \<and> owner (governance_step db e) m = Some p))"
proof -
  obtain now op where e: "e = (now, op)" by (cases e)
  have moved: "get_ownership (governance_step db e) m \<noteq> get_ownership db m"
    using assms owner_kept by metis
  show ?thesis
  proof (cases op)
    case (Assign_ownership m' p protected)
    then show ?thesis using moved assign_owner_effect [of m' p protected db m] by (auto simp: e)
  next
    case (Complete_transfer i)
    then show ?thesis
      using moved by (auto simp: e owner_def elim!: complete_owner_effect)
  qed (use moved in \<open>simp_all add: e transition_ownership verify_ownership request_ownership
      policy_row_ownership update_policy_ownership create_publisher_def update_publisher_fields_def
      create_manual_verification_def approve_transfer_def reject_transfer_def decide_transfer_def Let_def
      split: option.splits sum.splits if_splits\<close>)
qed

theorem owner_changes_authorised_witness:
  "\<not> is_protected_module_id ''acme.meter'' \<and> transfer_authorises (foldl governance_step empty_db shared_meter)
     1 ''acme.meter'' ''volt''"
proof -
  have "owner (governance_step (foldl governance_step empty_db shared_meter) (5, Complete_transfer 1)) ''acme.meter''
      \<noteq> owner (foldl governance_step empty_db shared_meter) ''acme.meter''"
    and new: "owner (governance_step (foldl governance_step empty_db shared_meter) (5, Complete_transfer 1)) ''acme.meter''
      = Some ''volt''" by code_simp+
  from owner_changes_authorised [OF this(1)] new show ?thesis by auto
qed

text \<open>From an empty database the policy history holds each earlier version exactly once, in
  order, with a snapshot of that version.\<close>

theorem policy_history_complete:
  "case gd_policy (foldl governance_step empty_db es) of
     None \<Rightarrow> gd_history (foldl governance_step empty_db es) = []
   | Some r \<Rightarrow> map (\<lambda>h. ip_policy_version (ph_snapshot h)) (gd_history (foldl governance_step empty_db es))
       = [1..ip_policy_version r - 1]"
proof -
  have ok: "policy_ok (foldl governance_step empty_db es)"
    by (rule policy_inv.run.run_keeps) (simp_all add: policy_ok_empty)
  then have eq: "map (\<lambda>h. ip_policy_version (ph_snapshot h)) (gd_history (foldl governance_step empty_db es))
      = map ph_policy_version (gd_history (foldl governance_step empty_db es))"
    by (auto simp: policy_ok_def)
  show ?thesis
    unfolding eq using ok by (simp add: policy_ok_def split: option.splits)
qed

text \<open>Of all updates that expect one policy version at most the first succeeds: after it,
  whatever happens in between, another is refused with a conflict.\<close>

theorem policy_update_wins_once:
  assumes "update_policy now v by x db = (Inr r, db')"
  shows "fst (update_policy now' v by' x' (foldl governance_step db' es))
    = Inl (PolicyRepositoryError E_POLICY_CONFLICT)"
  by (rule update_policy_conflict, rule newer_inv.run.run_keeps [OF update_policy_newer [OF assms]]) simp

definition no_patch :: policy_patch where
  "no_patch = \<lparr> pp_allowed_tiers = None, pp_publisher_allowlist = None, pp_publisher_denylist = None,
     pp_module_allowlist = None, pp_module_denylist = None, pp_blocked_permissions = None,
     pp_control_module_policy = None, pp_break_glass_enabled = None \<rparr>"

theorem policy_update_wins_once_witness:
  "fst (update_policy 8 1 ''eve'' no_patch
     (foldl governance_step (snd (update_policy 3 1 ''ada'' no_patch empty_db)) [(4, Read_policy)]))
   = Inl (PolicyRepositoryError E_POLICY_CONFLICT)"
proof -
  have "update_policy 3 1 ''ada'' no_patch empty_db = (Inr (projr (fst (update_policy 3 1 ''ada'' no_patch empty_db))),
      snd (update_policy 3 1 ''ada'' no_patch empty_db))" by code_simp
  then show ?thesis by (rule policy_update_wins_once)
qed

end
