(* ===== verification/Isolation_Sessions.thy ===== *)
theory Isolation_Sessions
  imports Emic_Prelude "HOL-Library.Sublist"
begin

section \<open>States and sessions of isolated runtimes\<close>

text \<open>
  \<open>platform/modules/isolation/state_machine.py\<close>: the legal transitions of an isolated
  runtime and the guard every state change passes (\<open>repository.transition\<close>).
  \<open>isolation/rpc/auth.py\<close>: startup tokens and RPC sessions. The random parts of tokens and
  the HMAC are inputs: a token is drawn by the event that issues it, and \<open>sign\<close> is the
  digest of the process's secret.
\<close>

subsection \<open>The state machine\<close>

datatype runtime_state =
    PREPARING | STARTING | HANDSHAKING | READY | RUNNING | DEGRADED | STOPPING | STOPPED
  | CRASHED | QUARANTINED | BLOCKED

fun TRANSITIONS :: "runtime_state \<Rightarrow> runtime_state list" where
  "TRANSITIONS PREPARING = [STARTING, BLOCKED, QUARANTINED]"
| "TRANSITIONS STARTING = [HANDSHAKING, CRASHED, STOPPED, QUARANTINED]"
| "TRANSITIONS HANDSHAKING = [READY, CRASHED, QUARANTINED, STOPPED, STOPPING]"
| "TRANSITIONS READY = [RUNNING, STOPPING, CRASHED, QUARANTINED, DEGRADED]"
| "TRANSITIONS RUNNING = [DEGRADED, STOPPING, CRASHED, QUARANTINED]"
| "TRANSITIONS DEGRADED = [RUNNING, STOPPING, CRASHED, QUARANTINED]"
| "TRANSITIONS STOPPING = [STOPPED, CRASHED]"
| "TRANSITIONS STOPPED = [PREPARING, BLOCKED, QUARANTINED]"
| "TRANSITIONS CRASHED = [PREPARING, QUARANTINED, BLOCKED]"
| "TRANSITIONS QUARANTINED = [STOPPED, STOPPING]"
| "TRANSITIONS BLOCKED = [PREPARING]"

definition can_transition :: "runtime_state \<Rightarrow> runtime_state \<Rightarrow> bool" where
  "can_transition a b \<longleftrightarrow> a = b \<or> b \<in> set (TRANSITIONS a)"

datatype illegal_transition = Illegal_Transition runtime_state runtime_state

definition assert_transition :: "runtime_state \<Rightarrow> runtime_state \<Rightarrow> illegal_transition + unit" where
  "assert_transition a b = (if can_transition a b then Inr () else Inl (Illegal_Transition a b))"

text \<open>\<open>repository.transition\<close> over the table of runtimes (instance id to state): an unknown
  instance gives \<open>None\<close>, an illegal change raises.\<close>

type_synonym runtime_table = "(string \<times> runtime_state) list"

definition transition_runtime ::
  "string \<Rightarrow> runtime_state \<Rightarrow> runtime_table \<Rightarrow> (illegal_transition + runtime_state option) \<times> runtime_table" where
  "transition_runtime i b t =
     (case map_of t i of
        None \<Rightarrow> (Inr None, t)
      | Some a \<Rightarrow> (case assert_transition a b of
          Inl e \<Rightarrow> (Inl e, t)
        | Inr _ \<Rightarrow> (Inr (Some b), AList.update i b t)))"

definition runtime_step :: "runtime_table \<Rightarrow> string \<times> runtime_state \<Rightarrow> runtime_table" where
  "runtime_step t e = snd (transition_runtime (fst e) (snd e) t)"

text \<open>States from which a module serves, and those it must pass to get there.\<close>

definition serving :: "runtime_state list" where
  "serving = [READY, RUNNING, DEGRADED]"

lemma enters_serving:
  "can_transition a b \<Longrightarrow> a \<notin> set serving \<Longrightarrow> b \<in> set serving \<Longrightarrow> a = HANDSHAKING \<and> b = READY"
  by (cases a; cases b) (simp_all add: can_transition_def serving_def)

lemma enters_handshaking:
  "can_transition a HANDSHAKING \<Longrightarrow> a \<noteq> HANDSHAKING \<Longrightarrow> a = STARTING"
  by (cases a) (simp_all add: can_transition_def)

lemma enters_starting: "can_transition a STARTING \<Longrightarrow> a \<noteq> STARTING \<Longrightarrow> a = PREPARING"
  by (cases a) (simp_all add: can_transition_def)

lemma runtime_step_lookup:
  "map_of (runtime_step t e) i = (case map_of t i of None \<Rightarrow> None
     | Some a \<Rightarrow> if i = fst e \<and> can_transition a (snd e) then Some (snd e) else Some a)"
  by (cases "map_of t (fst e)")
    (auto simp: runtime_step_def transition_runtime_def assert_transition_def split: option.splits)

text \<open>The states one instance goes through during a run.\<close>

fun state_trace :: "runtime_table \<Rightarrow> (string \<times> runtime_state) list \<Rightarrow> string \<Rightarrow> runtime_state option list" where
  "state_trace t [] i = [map_of t i]"
| "state_trace t (e # es) i = map_of t i # state_trace (runtime_step t e) es i"

subsection \<open>Startup tokens and sessions\<close>

record runtime_session =
  rs_runtime_instance_id :: string
  rs_module_id :: string
  rs_site_id :: int
  rs_expires_at :: "time option"
  rs_revoked :: bool

record session_store =
  st_sessions :: "(string \<times> runtime_session) list"
  st_startup_tokens :: "(string \<times> string \<times> time) list"

definition initial_store :: session_store where
  "initial_store = \<lparr> st_sessions = [], st_startup_tokens = [] \<rparr>"

definition SESSION_TTL :: int where "SESSION_TTL = 3600 * us_per_s"
definition STARTUP_TOKEN_TTL :: int where "STARTUP_TOKEN_TTL = 60 * us_per_s"

definition issue_startup_token :: "time \<Rightarrow> string \<Rightarrow> string \<Rightarrow> session_store \<Rightarrow> session_store" where
  "issue_startup_token now token i s =
     s\<lparr>st_startup_tokens := AList.update token (i, now) (st_startup_tokens s)\<rparr>"

definition consume_startup_token ::
  "time \<Rightarrow> string \<Rightarrow> string \<Rightarrow> session_store \<Rightarrow> bool \<times> session_store" where
  "consume_startup_token now token expected s =
     (let s' = s\<lparr>st_startup_tokens := AList.delete token (st_startup_tokens s)\<rparr> in
      case map_of (st_startup_tokens s) token of
        None \<Rightarrow> (False, s')
      | Some (i, issued_at) \<Rightarrow>
          if i \<noteq> expected then (False, s')
          else if now - issued_at > STARTUP_TOKEN_TTL then (False, s')
          else (True, s'))"

text \<open>\<open>_sign\<close> joins the random part and its digest with a dot.\<close>

definition sign_token :: "(string \<Rightarrow> string \<Rightarrow> string) \<Rightarrow> string \<Rightarrow> string \<Rightarrow> string" where
  "sign_token sign i raw = raw @ ''.'' @ sign i raw"

definition create_session ::
  "(string \<Rightarrow> string \<Rightarrow> string) \<Rightarrow> time \<Rightarrow> string \<Rightarrow> string \<Rightarrow> string \<Rightarrow> int \<Rightarrow> session_store
   \<Rightarrow> string \<times> session_store" where
  "create_session sign now raw i m site s =
     (let token = sign_token sign i raw;
          session = \<lparr> rs_runtime_instance_id = i, rs_module_id = m, rs_site_id = site,
                      rs_expires_at = Some (now + SESSION_TTL), rs_revoked = False \<rparr>
      in (token, s\<lparr>st_sessions := AList.update token session (st_sessions s)\<rparr>))"

definition session_expired :: "time \<Rightarrow> runtime_session \<Rightarrow> bool" where
  "session_expired now s = (case rs_expires_at s of None \<Rightarrow> False | Some e \<Rightarrow> now > e)"

definition validate_session ::
  "time \<Rightarrow> string \<Rightarrow> string \<Rightarrow> string \<Rightarrow> int \<Rightarrow> session_store \<Rightarrow> runtime_session option \<times> session_store" where
  "validate_session now token i m site s =
     (case map_of (st_sessions s) token of
        None \<Rightarrow> (None, s)
      | Some session \<Rightarrow>
          if rs_revoked session then (None, s)
          else if rs_runtime_instance_id session \<noteq> i then (None, s)
          else if rs_module_id session \<noteq> m then (None, s)
          else if rs_site_id session \<noteq> site then (None, s)
          else if session_expired now session
          then (None, s\<lparr>st_sessions := AList.update token (session\<lparr>rs_revoked := True\<rparr>) (st_sessions s)\<rparr>)
          else (Some session, s))"

definition revoke_sessions :: "string \<Rightarrow> session_store \<Rightarrow> session_store" where
  "revoke_sessions i s = s\<lparr>st_sessions := map (\<lambda>(token, session).
     (token, if rs_runtime_instance_id session = i then session\<lparr>rs_revoked := True\<rparr> else session))
     (st_sessions s)\<rparr>"

definition has_active_session :: "time \<Rightarrow> string \<Rightarrow> session_store \<Rightarrow> bool" where
  "has_active_session now i s = list_ex (\<lambda>(token, session).
     \<not> rs_revoked session \<and> rs_runtime_instance_id session = i \<and> \<not> session_expired now session) (st_sessions s)"

subsection \<open>Session lookups\<close>

definition get_session :: "session_store \<Rightarrow> string \<Rightarrow> runtime_session option" where
  "get_session s token = map_of (st_sessions s) token"

lemma get_session_created [simp]:
  "get_session (snd (create_session sign now raw i m site s)) token =
     (if token = sign_token sign i raw
      then Some \<lparr> rs_runtime_instance_id = i, rs_module_id = m, rs_site_id = site,
                  rs_expires_at = Some (now + SESSION_TTL), rs_revoked = False \<rparr>
      else get_session s token)"
  by (simp add: create_session_def get_session_def Let_def)

lemma get_session_tokens [simp]:
  "get_session (issue_startup_token now t i s) = get_session s"
  "get_session (snd (consume_startup_token now t i s)) = get_session s"
  by (simp_all add: fun_eq_iff get_session_def issue_startup_token_def consume_startup_token_def Let_def
      split: option.split)

lemma get_session_revoked [simp]:
  "get_session (revoke_sessions i s) token = map_option (\<lambda>session.
     if rs_runtime_instance_id session = i then session\<lparr>rs_revoked := True\<rparr> else session) (get_session s token)"
  by (simp add: get_session_def revoke_sessions_def map_of_map)

lemma validate_session_frame [simp]:
  "get_session (snd (validate_session now token i m site s)) t' =
     (if t' = token then map_option (\<lambda>session. if \<not> rs_revoked session \<and> rs_runtime_instance_id session = i
        \<and> rs_module_id session = m \<and> rs_site_id session = site \<and> session_expired now session
        then session\<lparr>rs_revoked := True\<rparr> else session) (get_session s token) else get_session s t')"
  by (auto simp: validate_session_def get_session_def split: option.split)

lemma validate_session_Some:
  "fst (validate_session now token i m site s) = Some session \<longleftrightarrow>
     get_session s token = Some session \<and> \<not> rs_revoked session \<and> rs_runtime_instance_id session = i
     \<and> rs_module_id session = m \<and> rs_site_id session = site \<and> \<not> session_expired now session"
  by (auto simp: validate_session_def get_session_def split: option.split)

lemma validate_session_unchanged:
  "fst (validate_session now token i m site s) = Some session \<Longrightarrow> snd (validate_session now token i m site s) = s"
  by (auto simp: validate_session_def split: option.splits if_splits)

subsection \<open>The way into service\<close>

fun needed :: "runtime_state \<Rightarrow> runtime_state list" where
  "needed STARTING = [STARTING, HANDSHAKING, READY]"
| "needed HANDSHAKING = [HANDSHAKING, READY]"
| "needed READY = [READY]"
| "needed RUNNING = []"
| "needed DEGRADED = []"
| "needed _ = [PREPARING, STARTING, HANDSHAKING, READY]"

lemma needed_step: "can_transition a b \<Longrightarrow> subseq (needed a) (a # needed b)"
  by (cases a; cases b) (simp_all add: can_transition_def)

lemma needed_along:
  assumes "map_of t i = Some a" "map_of (foldl runtime_step t es) i = Some b" "b \<in> set serving"
  shows "subseq (map Some (needed a)) (state_trace t es i)"
  using assms
proof (induction es arbitrary: t a)
  case Nil
  then have "needed a = [] \<or> needed a = [a]" by (auto simp: serving_def)
  then show ?case using Nil by auto
next
  case (Cons e es)
  obtain a' where a': "map_of (runtime_step t e) i = Some a'" "a' = a \<or> can_transition a a'"
    using Cons.prems(1) by (cases "i = fst e \<and> can_transition a (snd e)") (auto simp: runtime_step_lookup)
  have "subseq (map Some (needed a)) (Some a # map Some (needed a'))"
  proof (cases "a' = a")
    case False
    then show ?thesis using a' subseq_map [OF needed_step, of a a' Some] by simp
  qed (auto intro: list_emb.list_emb_Cons)
  moreover have "subseq (map Some (needed a')) (state_trace (runtime_step t e) es i)"
    using Cons.IH [OF a'(1)] Cons.prems by simp
  ultimately show ?case
    using Cons.prems(1) by (auto intro: subseq_order.trans)
qed

text \<open>A runtime that is stopped, crashed, blocked, quarantined or new can only come into service
  through PREPARING, STARTING, HANDSHAKING and READY in this order, whatever state changes
  are asked for it and for other runtimes.\<close>

theorem service_requires_handshake:
  assumes "map_of t i = Some a" "a \<in> {PREPARING, STOPPING, STOPPED, CRASHED, QUARANTINED, BLOCKED}"
    and "map_of (foldl runtime_step t es) i = Some b" "b \<in> {READY, RUNNING, DEGRADED}"
  shows "subseq [Some PREPARING, Some STARTING, Some HANDSHAKING, Some READY] (state_trace t es i)"
  using needed_along [OF assms(1,3)] assms(2,4) by (auto simp: serving_def)

theorem service_requires_handshake_witness:
  "subseq [Some PREPARING, Some STARTING, Some HANDSHAKING, Some READY]
     (state_trace [(''r1'', CRASHED), (''r2'', RUNNING)]
        [(''r1'', RUNNING), (''r1'', PREPARING), (''r1'', STARTING), (''r2'', CRASHED), (''r1'', HANDSHAKING),
         (''r1'', READY), (''r1'', RUNNING)] ''r1'')"
  by (rule service_requires_handshake [of _ _ CRASHED _ RUNNING]) code_simp+

end
