(* ===== verification/Isolation_Brokers.thy ===== *)
theory Isolation_Brokers
  imports Emic_Json
begin

section \<open>Brokers between isolated modules and the host\<close>

text \<open>
  \<open>platform/modules/brokers/\<close>: control leases and device commands
  (\<open>device_control_broker.py\<close>, \<open>synthetic_device.py\<close>), secrets (\<open>secret_broker.py\<close>) and
  scoped reads (\<open>data_read_broker.py\<close>). The brokers are given values that the module sent
  as JSON and the code coerced with \<open>str\<close>, \<open>int\<close> or \<open>float\<close>; a coerced value is the value or
  the exception of the coercion. A float is a rational, an infinity or not a number, all of
  which \<open>json.loads\<close> returns. Log lines and the ISO text of times are left out.
\<close>

datatype 'a coerced = Coerced 'a | Value_Error | Type_Error

datatype broker_error = PermissionError | ValueError | TypeError

fun coerced_result :: "'a coerced \<Rightarrow> broker_error + 'a" where
  "coerced_result (Coerced v) = Inr v"
| "coerced_result Value_Error = Inl ValueError"
| "coerced_result Type_Error = Inl TypeError"

datatype py_float = Finite rat | Pos_Inf | Neg_Inf | NaN

fun float_less :: "py_float \<Rightarrow> py_float \<Rightarrow> bool" where
  "float_less (Finite x) (Finite y) = (x < y)"
| "float_less NaN _ = False"
| "float_less _ NaN = False"
| "float_less Neg_Inf y = (y \<noteq> Neg_Inf)"
| "float_less x Pos_Inf = (x \<noteq> Pos_Inf)"
| "float_less _ _ = False"

lemma in_range_float:
  "\<not> float_less x (Finite a) \<and> \<not> float_less (Finite b) x \<longleftrightarrow> x = NaN \<or> (\<exists>q. x = Finite q \<and> a \<le> q \<and> q \<le> b)"
  by (cases x) auto

subsection \<open>Devices\<close>

record synthetic_device =
  sd_owner_runtime_id :: "string option"
  sd_last_command :: "string option"
  sd_power_w :: py_float
  sd_safe_default_power_w :: py_float
  sd_command_log :: "(string \<times> string) list"

type_synonym devices = "((int \<times> string) \<times> synthetic_device) list"

definition register_device :: "int \<Rightarrow> string \<Rightarrow> py_float \<Rightarrow> devices \<Rightarrow> devices" where
  "register_device site dev safe ds = AList.update (site, dev)
     \<lparr> sd_owner_runtime_id = None, sd_last_command = None, sd_power_w = Finite 0,
       sd_safe_default_power_w = safe, sd_command_log = [] \<rparr> ds"

definition apply_command ::
  "int \<Rightarrow> string \<Rightarrow> string \<Rightarrow> py_float coerced \<Rightarrow> string \<Rightarrow> devices \<Rightarrow> (broker_error + py_float) \<times> devices" where
  "apply_command site dev cmd pwr runtime ds =
     (case map_of ds (site, dev) of
        None \<Rightarrow> (Inl ValueError, ds)
      | Some d \<Rightarrow>
          if cmd = ''set_power'' then
            (case coerced_result pwr of
               Inl e \<Rightarrow> (Inl e, ds)
             | Inr p \<Rightarrow>
                 if float_less p (Finite 0) \<or> float_less (Finite 11000) p then (Inl ValueError, ds)
                 else (Inr p, AList.update (site, dev) (d\<lparr> sd_power_w := p, sd_owner_runtime_id := Some runtime,
                   sd_last_command := Some cmd, sd_command_log := sd_command_log d @ [(cmd, runtime)] \<rparr>) ds))
          else if cmd = ''read_power'' then (Inr (sd_power_w d), ds)
          else (Inl ValueError, ds))"

definition release_control :: "string \<Rightarrow> devices \<Rightarrow> devices" where
  "release_control runtime ds = map (\<lambda>(k, d). (k,
     if sd_owner_runtime_id d = Some runtime
     then d\<lparr> sd_owner_runtime_id := None, sd_power_w := sd_safe_default_power_w d \<rparr> else d)) ds"

subsection \<open>Control leases\<close>

definition CONTROL_PERMISSIONS :: "string list" where
  "CONTROL_PERMISSIONS = [''device.control'', ''energy.control'', ''charger.control'', ''vehicle.control'',
     ''hvac.control'', ''spa.control'']"

definition control_permitted :: "string list \<Rightarrow> bool" where
  "control_permitted permissions = list_ex (\<lambda>p. p \<in> set CONTROL_PERMISSIONS) permissions"

type_synonym lease_key = "string \<times> int \<times> string \<times> string"

record device_broker =
  br_leases :: "(lease_key \<times> time) list"
  br_devices :: devices

definition initial_broker :: device_broker where
  "initial_broker = \<lparr> br_leases = [], br_devices = [] \<rparr>"

text \<open>What a module sends with a lease request or a command: \<open>dp_site_id\<close> is absent when the
  module names no site.\<close>

record device_params =
  dp_device_id :: string
  dp_site_id :: "int coerced option"
  dp_power_w :: "py_float coerced"

definition grant_lease :: "int \<Rightarrow> time \<Rightarrow> lease_key \<Rightarrow> device_broker \<Rightarrow> time \<times> device_broker" where
  "grant_lease ttl now k b = (now + ttl, b\<lparr>br_leases := AList.update k (now + ttl) (br_leases b)\<rparr>)"

definition lease_valid :: "time \<Rightarrow> lease_key \<Rightarrow> device_broker \<Rightarrow> bool" where
  "lease_valid now k b = (case map_of (br_leases b) k of None \<Rightarrow> False | Some e \<Rightarrow> now < e)"

definition revoke_leases :: "string \<Rightarrow> device_broker \<Rightarrow> device_broker" where
  "revoke_leases runtime b = b\<lparr> br_leases := filter (\<lambda>e. fst (fst e) \<noteq> runtime) (br_leases b),
     br_devices := release_control runtime (br_devices b) \<rparr>"

definition site_of_params :: "int \<Rightarrow> device_params \<Rightarrow> broker_error + int" where
  "site_of_params site x = (case dp_site_id x of None \<Rightarrow> Inr site | Some c \<Rightarrow> coerced_result c)"

text \<open>The checks \<open>acquire_lease\<close> and \<open>command\<close> share.\<close>

definition control_guard :: "int \<Rightarrow> string list \<Rightarrow> device_params \<Rightarrow> broker_error + unit" where
  "control_guard site permissions x =
     (if \<not> control_permitted permissions then Inl PermissionError
      else if dp_device_id x = [] then Inl ValueError
      else res_bind (site_of_params site x) (\<lambda>s. guard_res (s = site) PermissionError))"

definition acquire_lease ::
  "int \<Rightarrow> time \<Rightarrow> string \<Rightarrow> int \<Rightarrow> string \<Rightarrow> device_params \<Rightarrow> string list \<Rightarrow> device_broker
   \<Rightarrow> (broker_error + time) \<times> device_broker" where
  "acquire_lease ttl now runtime site cap x permissions b =
     (case control_guard site permissions x of
        Inl e \<Rightarrow> (Inl e, b)
      | Inr _ \<Rightarrow> (let (e, b') = grant_lease ttl now (runtime, site, dp_device_id x, cap) b in (Inr e, b')))"

definition renew_lease ::
  "int \<Rightarrow> time \<Rightarrow> string \<Rightarrow> int \<Rightarrow> string \<Rightarrow> device_params \<Rightarrow> string list \<Rightarrow> device_broker
   \<Rightarrow> (broker_error + time) \<times> device_broker" where
  "renew_lease ttl now runtime site cap x permissions b =
     (if \<not> control_permitted permissions then (Inl PermissionError, b)
      else if dp_device_id x = [] then (Inl ValueError, b)
      else if \<not> lease_valid now (runtime, site, dp_device_id x, cap) b then (Inl PermissionError, b)
      else (let (e, b') = grant_lease ttl now (runtime, site, dp_device_id x, cap) b in (Inr e, b')))"

definition device_command ::
  "time \<Rightarrow> string \<Rightarrow> int \<Rightarrow> string \<Rightarrow> string \<Rightarrow> device_params \<Rightarrow> string list \<Rightarrow> device_broker
   \<Rightarrow> (broker_error + py_float) \<times> device_broker" where
  "device_command now runtime site cap cmd x permissions b =
     (case control_guard site permissions x of
        Inl e \<Rightarrow> (Inl e, b)
      | Inr _ \<Rightarrow>
          if \<not> lease_valid now (runtime, site, dp_device_id x, cap) b then (Inl PermissionError, b)
          else (let (r, ds) = apply_command site (dp_device_id x) cmd (dp_power_w x) runtime (br_devices b)
                in (r, b\<lparr>br_devices := ds\<rparr>)))"

subsection \<open>Secrets and reads\<close>

record secret_broker =
  sb_secrets :: "((string \<times> int \<times> string) \<times> string) list"
  sb_audit_log :: "(string \<times> string \<times> int \<times> string \<times> bool \<times> time) list"

definition register_secret :: "string \<Rightarrow> int \<Rightarrow> string \<Rightarrow> string \<Rightarrow> secret_broker \<Rightarrow> secret_broker" where
  "register_secret m site ref secret b = b\<lparr>sb_secrets := AList.update (m, site, ref) secret (sb_secrets b)\<rparr>"

definition audit_secret ::
  "time \<Rightarrow> string \<Rightarrow> string \<Rightarrow> int \<Rightarrow> string \<Rightarrow> bool \<Rightarrow> secret_broker \<Rightarrow> secret_broker" where
  "audit_secret now runtime m site ref allowed b =
     b\<lparr>sb_audit_log := sb_audit_log b @ [(runtime, m, site, ref, allowed, now)]\<rparr>"

definition get_secret ::
  "time \<Rightarrow> string \<Rightarrow> string \<Rightarrow> int \<Rightarrow> string \<Rightarrow> string list \<Rightarrow> secret_broker
   \<Rightarrow> (broker_error + string) \<times> secret_broker" where
  "get_secret now runtime m site ref permissions b =
     (if ''secrets.read_own'' \<notin> set permissions
      then (Inl PermissionError, audit_secret now runtime m site ref False b)
      else (case map_of (sb_secrets b) (m, site, ref) of
          None \<Rightarrow> (Inl PermissionError, audit_secret now runtime m site ref False b)
        | Some v \<Rightarrow> (Inr v, audit_secret now runtime m site ref True b)))"

type_synonym data_broker = "((int \<times> string) \<times> json) list"

definition seed_data :: "int \<Rightarrow> string \<Rightarrow> json \<Rightarrow> data_broker \<Rightarrow> data_broker" where
  "seed_data site cap payload d = AList.update (site, cap) payload d"

definition read_data ::
  "int \<Rightarrow> string \<Rightarrow> int coerced option \<Rightarrow> string list \<Rightarrow> string list \<Rightarrow> data_broker \<Rightarrow> broker_error + json" where
  "read_data site cap requested permissions capabilities d =
     res_bind (case requested of None \<Rightarrow> Inr site | Some c \<Rightarrow> coerced_result c) (\<lambda>s.
       if s \<noteq> site then Inl PermissionError
       else if cap \<in> set capabilities \<or> ends_with cap ''.read'' \<or> starts_with cap ''device.read''
               \<or> cap \<in> set permissions
       then Inr (or_else (map_of d (site, cap)) (JObj [(''value'', JNull)]))
       else Inl PermissionError)"

subsection \<open>Runs of the device broker\<close>

datatype broker_event =
    Add_device int string py_float
  | Acquire string int string device_params "string list"
  | Renew string int string device_params "string list"
  | Drive string int string string device_params "string list"
  | Revoke string

fun broker_step :: "int \<Rightarrow> device_broker \<Rightarrow> time \<times> broker_event \<Rightarrow> device_broker" where
  "broker_step ttl b (now, Add_device site dev safe) =
     b\<lparr>br_devices := register_device site dev safe (br_devices b)\<rparr>"
| "broker_step ttl b (now, Acquire runtime site cap x permissions) =
     snd (acquire_lease ttl now runtime site cap x permissions b)"
| "broker_step ttl b (now, Renew runtime site cap x permissions) =
     snd (renew_lease ttl now runtime site cap x permissions b)"
| "broker_step ttl b (now, Drive runtime site cap cmd x permissions) =
     snd (device_command now runtime site cap cmd x permissions b)"
| "broker_step ttl b (now, Revoke runtime) = revoke_leases runtime b"

lemma control_guard_Inr:
  "control_guard site permissions x = Inr u \<Longrightarrow> control_permitted permissions \<and> dp_device_id x \<noteq> []"
  by (auto simp: control_guard_def split: if_splits)

lemma acquire_lease_leases:
  "map_of (br_leases (snd (acquire_lease ttl now runtime site cap x permissions b))) k =
     (if k = (runtime, site, dp_device_id x, cap) \<and> (\<exists>u. control_guard site permissions x = Inr u)
      then Some (now + ttl) else map_of (br_leases b) k)"
  by (auto simp: acquire_lease_def grant_lease_def Let_def split: sum.split)

lemma renew_lease_leases:
  "map_of (br_leases (snd (renew_lease ttl now runtime site cap x permissions b))) k =
     (if k = (runtime, site, dp_device_id x, cap) \<and> control_permitted permissions \<and> dp_device_id x \<noteq> []
        \<and> lease_valid now k b then Some (now + ttl) else map_of (br_leases b) k)"
  by (auto simp: renew_lease_def grant_lease_def Let_def)

lemma device_command_leases [simp]:
  "br_leases (snd (device_command now runtime site cap cmd x permissions b)) = br_leases b"
  by (simp add: device_command_def Let_def split: sum.split prod.split)

lemma revoke_leases_leases:
  "map_of (br_leases (revoke_leases runtime b)) k = (if fst k = runtime then None else map_of (br_leases b) k)"
  using map_of_filter_keys [of "\<lambda>k. fst k \<noteq> runtime" "br_leases b" k] by (simp add: revoke_leases_def)

fun grants_lease :: "broker_event \<Rightarrow> lease_key \<Rightarrow> bool" where
  "grants_lease (Acquire runtime site cap x permissions) k = (k = (runtime, site, dp_device_id x, cap))"
| "grants_lease (Renew runtime site cap x permissions) k = (k = (runtime, site, dp_device_id x, cap))"
| "grants_lease _ k = False"

definition acquired_by :: "(time \<times> broker_event) list \<Rightarrow> lease_key \<Rightarrow> bool" where
  "acquired_by es k \<longleftrightarrow> (\<exists>pre t x permissions post.
     es = pre @ (t, Acquire (fst k) (fst (snd k)) (snd (snd (snd k))) x permissions) # post
     \<and> dp_device_id x = fst (snd (snd k)) \<and> control_permitted permissions
     \<and> (\<forall>e \<in> set post. snd e \<noteq> Revoke (fst k)))"

definition granted_until :: "int \<Rightarrow> (time \<times> broker_event) list \<Rightarrow> lease_key \<Rightarrow> time \<Rightarrow> bool" where
  "granted_until ttl es k e \<longleftrightarrow> (\<exists>t ev. (t, ev) \<in> set es \<and> grants_lease ev k \<and> e = t + ttl)"

lemma acquired_by_snoc: "acquired_by es k \<Longrightarrow> snd e \<noteq> Revoke (fst k) \<Longrightarrow> acquired_by (es @ [e]) k"
  unfolding acquired_by_def by fastforce

lemma acquired_by_last:
  "dp_device_id x = fst (snd (snd k)) \<Longrightarrow> control_permitted permissions
   \<Longrightarrow> acquired_by (es @ [(t, Acquire (fst k) (fst (snd k)) (snd (snd (snd k))) x permissions)]) k"
  unfolding acquired_by_def by fastforce

lemma granted_until_snoc: "granted_until ttl es k e \<Longrightarrow> granted_until ttl (es @ [ev]) k e"
  unfolding granted_until_def by auto

lemma granted_until_last: "grants_lease ev k \<Longrightarrow> granted_until ttl (es @ [(t, ev)]) k (t + ttl)"
  unfolding granted_until_def by auto

lemma lease_history:
  "map_of (br_leases (foldl (broker_step ttl) initial_broker es)) k = Some e
   \<Longrightarrow> acquired_by es k \<and> granted_until ttl es k e"
proof (induction es arbitrary: e rule: rev_induct)
  case Nil
  then show ?case by (simp add: initial_broker_def)
next
  case (snoc ev es)
  obtain now op where ev: "ev = (now, op)" by (cases ev)
  let ?b = "foldl (broker_step ttl) initial_broker es"
  have kept: "acquired_by (es @ [ev]) k \<and> granted_until ttl (es @ [ev]) k e"
    if "map_of (br_leases ?b) k = Some e" "op \<noteq> Revoke (fst k)"
    using snoc.IH [OF that(1)] that(2) ev acquired_by_snoc granted_until_snoc by simp
  show ?case
  proof (cases op)
    case (Acquire runtime site cap x permissions)
    show ?thesis
    proof (cases "k = (runtime, site, dp_device_id x, cap) \<and> (\<exists>u. control_guard site permissions x = Inr u)")
      case True
      then have "e = now + ttl" "control_permitted permissions"
        using snoc.prems control_guard_Inr by (auto simp: ev Acquire acquire_lease_leases)
      then show ?thesis
        using True acquired_by_last [of x k permissions es now] granted_until_last [of op k ttl es now]
        by (simp add: ev Acquire)
    next
      case False
      have "map_of (br_leases ?b) k = Some e"
        using snoc.prems False by (auto simp: ev Acquire acquire_lease_leases)
      then show ?thesis using kept Acquire by simp
    qed
  next
    case (Renew runtime site cap x permissions)
    show ?thesis
    proof (cases "k = (runtime, site, dp_device_id x, cap) \<and> lease_valid now k ?b \<and> map_of (br_leases ?b) k \<noteq> Some e")
      case True
      then obtain old where "map_of (br_leases ?b) k = Some old" by (auto simp: lease_valid_def split: option.splits)
      moreover have "e = now + ttl" using True snoc.prems by (auto simp: ev Renew renew_lease_leases split: if_splits)
      ultimately show ?thesis
        using True snoc.IH [of old] granted_until_last [of op k ttl es now] acquired_by_snoc
        by (simp add: ev Renew)
    next
      case False
      then have "map_of (br_leases ?b) k = Some e"
        using snoc.prems by (auto simp: ev Renew renew_lease_leases split: if_splits)
      then show ?thesis using kept Renew by simp
    qed
  next
    case (Revoke runtime)
    have "map_of (br_leases ?b) k = Some e \<and> fst k \<noteq> runtime"
      using snoc.prems by (simp add: ev Revoke revoke_leases_leases split: if_splits)
    then show ?thesis using kept Revoke by auto
  qed (use snoc.prems kept in \<open>simp_all add: ev\<close>)
qed

subsection \<open>Without a runtime\<close>

text \<open>The runtime has no lease and drives no device.\<close>

definition detached :: "string \<Rightarrow> device_broker \<Rightarrow> bool" where
  "detached runtime b \<longleftrightarrow> (\<forall>k \<in> set (map fst (br_leases b)). fst k \<noteq> runtime)
     \<and> (\<forall>d \<in> set (map snd (br_devices b)). sd_owner_runtime_id d \<noteq> Some runtime)"

fun acquires_for :: "string \<Rightarrow> broker_event \<Rightarrow> bool" where
  "acquires_for r (Acquire runtime site cap x permissions) = (runtime = r)"
| "acquires_for r _ = False"

lemma detached_no_lease: "detached r b \<Longrightarrow> \<not> lease_valid now (r, site, dev, cap) b"
  by (force simp: detached_def lease_valid_def split: option.splits dest: map_of_SomeD)

lemma detached_lease:
  "detached r b \<Longrightarrow> fst k \<noteq> r \<Longrightarrow> detached r (b\<lparr>br_leases := AList.update k e (br_leases b)\<rparr>)"
  by (auto simp: detached_def update_keys)

lemma detached_device:
  "detached r b \<Longrightarrow> sd_owner_runtime_id d \<noteq> Some r \<Longrightarrow> detached r (b\<lparr>br_devices := AList.update k d (br_devices b)\<rparr>)"
  by (auto simp: detached_def dest!: set_vals_update)

lemma apply_command_devices:
  "snd (apply_command site dev cmd pwr runtime ds) = ds \<or>
   (\<exists>d. snd (apply_command site dev cmd pwr runtime ds) = AList.update (site, dev) d ds
      \<and> sd_owner_runtime_id d = Some runtime)"
  by (cases "map_of ds (site, dev)"; cases "coerced_result pwr"; cases "cmd = ''set_power''")
    (auto simp: apply_command_def intro!: exI)

lemma detached_command: "detached r b \<Longrightarrow> detached r (snd (device_command now runtime site cap cmd x permissions b))"
proof (cases "(\<exists>u. control_guard site permissions x = Inr u) \<and> lease_valid now (runtime, site, dp_device_id x, cap) b")
  case True
  assume b: "detached r b"
  then have other: "runtime \<noteq> r" using True detached_no_lease by blast
  have "detached r (b\<lparr>br_devices := snd (apply_command site (dp_device_id x) cmd (dp_power_w x) runtime (br_devices b))\<rparr>)"
    using apply_command_devices [of site "dp_device_id x" cmd "dp_power_w x" runtime "br_devices b"]
      b other detached_device [OF b] by auto
  then show ?thesis using True by (auto simp: device_command_def Let_def split: prod.split)
qed (auto simp: device_command_def split: sum.split)

lemma detached_revoke: "detached r b \<Longrightarrow> detached r (revoke_leases runtime b)"
  by (auto simp: detached_def revoke_leases_def release_control_def split: if_splits)

lemma revoke_detaches: "detached r (revoke_leases r b)"
  by (auto simp: detached_def revoke_leases_def release_control_def split: if_splits)

interpretation detached_run: kept_invariant "broker_step ttl" "\<lambda>e. \<not> acquires_for r (snd e)" "detached r" for ttl r
proof
  fix b and e :: "time \<times> broker_event"
  assume b: "detached r b" and e: "\<not> acquires_for r (snd e)"
  obtain now op where "e = (now, op)" by (cases e)
  then show "detached r (broker_step ttl b e)"
    using b e by (cases op)
      (auto simp: register_device_def acquire_lease_def renew_lease_def grant_lease_def Let_def
        detached_no_lease detached_command detached_revoke intro!: detached_lease detached_device split: sum.split)
qed

lemma release_control_device:
  "map_of (release_control r ds) k = map_option (\<lambda>d. if sd_owner_runtime_id d = Some r
     then d\<lparr> sd_owner_runtime_id := None, sd_power_w := sd_safe_default_power_w d \<rparr> else d) (map_of ds k)"
  by (simp add: release_control_def map_of_map)

subsection \<open>Properties\<close>

text \<open>C19. A module's command sets a device's power only with a control permission, to a value
  between 0 and 11000 W or to not-a-number, and only while a lease for this runtime, site,
  device and capability is unexpired that the same runtime acquired, with a control
  permission, after the last revocation.\<close>

theorem commands_are_leased:
  assumes "device_command now r site cap ''set_power'' x permissions
      (foldl (broker_step ttl) initial_broker es) = (Inr p, b')"
  shows "control_permitted permissions \<and> (p = NaN \<or> (\<exists>q. p = Finite q \<and> 0 \<le> q \<and> q \<le> 11000))
    \<and> acquired_by es (r, site, dp_device_id x, cap)
    \<and> (\<exists>e. granted_until ttl es (r, site, dp_device_id x, cap) e \<and> now < e)"
proof -
  let ?b = "foldl (broker_step ttl) initial_broker es"
  let ?k = "(r, site, dp_device_id x, cap)"
  obtain u where guard: "control_guard site permissions x = Inr u"
    using assms by (cases "control_guard site permissions x") (simp_all add: device_command_def)
  then have valid: "lease_valid now ?k ?b"
    using assms by (simp add: device_command_def split: if_splits)
  then obtain e where "map_of (br_leases ?b) ?k = Some e" "now < e"
    by (auto simp: lease_valid_def split: option.splits)
  moreover have "fst (apply_command site (dp_device_id x) ''set_power'' (dp_power_w x) r (br_devices ?b)) = Inr p"
    using assms guard valid by (simp add: device_command_def Let_def split: prod.splits)
  then have "p = NaN \<or> (\<exists>q. p = Finite q \<and> 0 \<le> q \<and> q \<le> 11000)"
    using in_range_float [of p 0 11000]
    by (cases "map_of (br_devices ?b) (site, dp_device_id x)"; cases "coerced_result (dp_power_w x)")
      (auto simp: apply_command_def split: if_splits)
  ultimately show ?thesis
    using control_guard_Inr [OF guard] lease_history by blast
qed

definition heater :: "rat \<Rightarrow> device_params" where
  "heater q = \<lparr> dp_device_id = ''heater'', dp_site_id = None, dp_power_w = Coerced (Finite q) \<rparr>"

definition heater_run :: "(time \<times> broker_event) list" where
  "heater_run = [(0, Add_device 7 ''heater'' (Finite 100)),
     (1, Acquire ''run1'' 7 ''device.control'' (heater 0) [''device.control'']),
     (2, Drive ''run1'' 7 ''device.control'' ''set_power'' (heater 900) [''device.control''])]"

theorem commands_are_leased_witness:
  "acquired_by heater_run (''run1'', 7, ''heater'', ''device.control'')"
proof -
  have "device_command 3 ''run1'' 7 ''device.control'' ''set_power'' (heater 1500) [''device.control'']
      (foldl (broker_step 30000000) initial_broker heater_run) = (Inr (Finite 1500),
      snd (device_command 3 ''run1'' 7 ''device.control'' ''set_power'' (heater 1500) [''device.control'']
      (foldl (broker_step 30000000) initial_broker heater_run)))" by code_simp
  from commands_are_leased [OF this] show ?thesis by (simp add: heater_def)
qed

text \<open>Revoking a runtime puts every device it drove at its safe default, and until it acquires
  a lease again it drives no device, whatever it and others ask for.\<close>

theorem revocation_releases:
  assumes "\<forall>e \<in> set es. \<not> acquires_for r (snd e)"
  shows "(\<forall>k d. map_of (br_devices b) k = Some d \<longrightarrow> sd_owner_runtime_id d = Some r \<longrightarrow>
      map_option sd_power_w (map_of (br_devices (revoke_leases r b)) k) = Some (sd_safe_default_power_w d))
    \<and> (\<forall>k d. map_of (br_devices (foldl (broker_step ttl) (revoke_leases r b) es)) k = Some d \<longrightarrow>
        sd_owner_runtime_id d \<noteq> Some r)
    \<and> (\<exists>e. fst (device_command now r site cap cmd x permissions (foldl (broker_step ttl) (revoke_leases r b) es)) = Inl e)"
proof -
  have detached: "detached r (foldl (broker_step ttl) (revoke_leases r b) es)"
    using detached_run.run_keeps [OF revoke_detaches] assms by blast
  have "\<exists>e. fst (device_command now r site cap cmd x permissions (foldl (broker_step ttl) (revoke_leases r b) es)) = Inl e"
    using detached_no_lease [OF detached] by (simp add: device_command_def split: sum.split)
  moreover have "\<forall>k d. map_of (br_devices (foldl (broker_step ttl) (revoke_leases r b) es)) k = Some d \<longrightarrow>
      sd_owner_runtime_id d \<noteq> Some r"
    using detached unfolding detached_def by (metis map_of_SomeD list.set_map image_eqI snd_conv)
  ultimately show ?thesis
    by (simp add: revoke_leases_def release_control_device)
qed

theorem revocation_releases_witness:
  "map_option sd_power_w (map_of (br_devices (revoke_leases ''run1''
     (foldl (broker_step 30000000) initial_broker heater_run))) (7, ''heater'')) = Some (Finite 100)"
proof -
  let ?b = "foldl (broker_step 30000000) initial_broker heater_run"
  have d: "map_of (br_devices ?b) (7, ''heater'') = Some (the (map_of (br_devices ?b) (7, ''heater'')))"
    "sd_owner_runtime_id (the (map_of (br_devices ?b) (7, ''heater''))) = Some ''run1''"
    "sd_safe_default_power_w (the (map_of (br_devices ?b) (7, ''heater''))) = Finite 100" by code_simp+
  from revocation_releases [of "[]" "''run1''" ?b] d show ?thesis by (metis empty_iff list.set(1))
qed

end
