(* ===== verification/Isolation_Gateway.thy ===== *)
theory Isolation_Gateway
  imports Isolation_Sessions Isolation_Brokers
begin

section \<open>The RPC gateway of isolated modules\<close>

text \<open>
  \<open>platform/modules/isolation/rpc/gateway.py\<close>: registration of runtimes, the handshake, the
  checks every other request passes (session, registration, rate, concurrency) and the
  handlers. A request carries the values the code reads from its JSON parameters, coerced;
  the random part of a new session token comes with the event. The network broker and the
  publication of climate readings reach outside the process, so their outcome is a
  parameter. A request is handled in one step: the suspension points of handlers are not
  modelled. \<open>None\<close> as a response is an exception that leaves \<open>_dispatch\<close>; the client then
  gets no answer.
\<close>

record runtime_record =
  rr_runtime_instance_id :: string
  rr_module_id :: string
  rr_version :: string
  rr_artifact_sha256 :: string
  rr_site_id :: int
  rr_state :: runtime_state

record active_context =
  ac_record :: runtime_record
  ac_permissions :: "string list"
  ac_capabilities :: "string list"
  ac_site_config :: "(string \<times> json) list"
  ac_last_heartbeat :: time
  ac_bootstrap_ready :: bool
  ac_module_ready :: bool

record gateway =
  gw_store :: session_store
  gw_active :: "(string \<times> active_context) list"
  gw_rate_window :: "(string \<times> time list) list"
  gw_inflight :: "(string \<times> nat) list"
  gw_device :: device_broker
  gw_secret :: secret_broker
  gw_data :: data_broker

record gateway_settings =
  gs_protocol_version :: int
  gs_rate_limit_per_minute :: nat
  gs_max_concurrent :: nat
  gs_module_uid :: int
  gs_module_gid :: int
  gs_lease_ttl :: int

definition initial_gateway :: gateway where
  "initial_gateway = \<lparr> gw_store = initial_store, gw_active = [], gw_rate_window = [], gw_inflight = [],
     gw_device = initial_broker, gw_secret = \<lparr> sb_secrets = [], sb_audit_log = [] \<rparr>, gw_data = [] \<rparr>"

datatype rpc_error_code =
    NOT_RUNNING | CAPABILITY_DENIED | BROKER_REJECTED | CONFIG_VALIDATION_FAILED | AUTH_FAILED
  | PROTOCOL_MISMATCH | PAYLOAD_TOO_LARGE | RATE_LIMITED | TIMEOUT | INVALID_REQUEST

text \<open>A method with its parameters. \<open>Malformed\<close> is a known method whose \<open>params\<close>, \<open>headers\<close> or
  \<open>readings\<close> have the wrong JSON type.\<close>

datatype rpc_call =
    Handshake json string string "int coerced"
  | ReportPrivilegeDropFailed
  | BootstrapReady "int coerced" "int coerced"
  | ReportModuleReady
  | GetHealth
  | GetCapabilities
  | Read string "int coerced option"
  | Command string string device_params
  | AcquireControlLease string device_params
  | RenewControlLease string device_params
  | GetConfig json
  | GetSecret string
  | NetworkRequest string string "(string \<times> string) list"
  | PublishReadings "json list" "int coerced option"
  | ReportMetric
  | Stop
  | Malformed
  | Unknown_Method

record rpc_request =
  rq_runtime_instance_id :: string
  rq_module_id :: string
  rq_site_id :: "int coerced"
  rq_private_token :: json
  rq_public_token :: json
  rq_call :: rpc_call

datatype rpc_result =
    R_session string int
  | R_terminated
  | R_bootstrap int int
  | R_ok
  | R_health runtime_state
  | R_capabilities "string list"
  | R_data json
  | R_power py_float
  | R_lease time
  | R_config "(string \<times> json) list"
  | R_secret string
  | R_count nat
  | R_stopping

type_synonym rpc_response = "(rpc_error_code + rpc_result) option"

subsection \<open>Registration\<close>

definition register_runtime ::
  "time \<Rightarrow> string \<Rightarrow> runtime_record \<Rightarrow> string list \<Rightarrow> string list \<Rightarrow> (string \<times> json) list \<Rightarrow> gateway
   \<Rightarrow> gateway" where
  "register_runtime now token r permissions capabilities site_config g = g\<lparr>
     gw_active := AList.update (rr_runtime_instance_id r)
       \<lparr> ac_record = r, ac_permissions = permissions, ac_capabilities = capabilities,
         ac_site_config = site_config, ac_last_heartbeat = now, ac_bootstrap_ready = False,
         ac_module_ready = False \<rparr> (gw_active g),
     gw_store := issue_startup_token now token (rr_runtime_instance_id r) (gw_store g) \<rparr>"

definition unregister_runtime :: "string \<Rightarrow> gateway \<Rightarrow> gateway" where
  "unregister_runtime i g = g\<lparr> gw_active := AList.delete i (gw_active g),
     gw_store := revoke_sessions i (gw_store g) \<rparr>"

definition is_process_ready :: "gateway \<Rightarrow> string \<Rightarrow> bool" where
  "is_process_ready g i = (case map_of (gw_active g) i of None \<Rightarrow> False
     | Some c \<Rightarrow> ac_bootstrap_ready c \<and> ac_module_ready c)"

subsection \<open>The handshake\<close>

definition handle_handshake ::
  "gateway_settings \<Rightarrow> (string \<Rightarrow> string \<Rightarrow> string) \<Rightarrow> time \<Rightarrow> string \<Rightarrow> string \<Rightarrow> string \<Rightarrow> json \<Rightarrow> string
   \<Rightarrow> string \<Rightarrow> int coerced \<Rightarrow> gateway \<Rightarrow> rpc_response \<times> gateway" where
  "handle_handshake cfg sign now raw i m startup_token version sha protocol g =
     (case protocol of
        Coerced pv \<Rightarrow>
          (case map_of (gw_active g) i of
             None \<Rightarrow> (Some (Inl NOT_RUNNING), g)
           | Some c \<Rightarrow>
               if pv \<noteq> gs_protocol_version cfg then (Some (Inl PROTOCOL_MISMATCH), g)
               else if rr_module_id (ac_record c) \<noteq> m \<or> rr_version (ac_record c) \<noteq> version
               then (Some (Inl AUTH_FAILED), g)
               else if py_lower (rr_artifact_sha256 (ac_record c)) \<noteq> py_lower sha
               then (Some (Inl AUTH_FAILED), g)
               else (case startup_token of
                   JStr token \<Rightarrow>
                     (let (ok, st) = consume_startup_token now token i (gw_store g) in
                      if ok then
                        (let (session_token, st') =
                             create_session sign now raw i m (rr_site_id (ac_record c)) st
                         in (Some (Inr (R_session session_token (gs_protocol_version cfg))), g\<lparr>gw_store := st'\<rparr>))
                      else (Some (Inl AUTH_FAILED), g\<lparr>gw_store := st\<rparr>))
                 | _ \<Rightarrow> (Some (Inl AUTH_FAILED), g)))
      | _ \<Rightarrow> (None, g))"

text \<open>\<open>params.pop("_session_token", None) or params.get("session_token")\<close>; an absent one is
  \<open>JNull\<close>.\<close>

definition session_token_of :: "rpc_request \<Rightarrow> string option" where
  "session_token_of q =
     json_str (if json_truthy (rq_private_token q) then rq_private_token q else rq_public_token q)"

definition set_context :: "string \<Rightarrow> (active_context \<Rightarrow> active_context) \<Rightarrow> gateway \<Rightarrow> gateway" where
  "set_context i f g = (case map_of (gw_active g) i of None \<Rightarrow> g
     | Some c \<Rightarrow> g\<lparr>gw_active := AList.update i (f c) (gw_active g)\<rparr>)"

definition handle_privilege_drop_failed ::
  "time \<Rightarrow> rpc_request \<Rightarrow> int \<Rightarrow> gateway \<Rightarrow> rpc_response \<times> gateway" where
  "handle_privilege_drop_failed now q site g =
     (let i = rq_runtime_instance_id q;
          terminate = (\<lambda>g. (Some (Inr R_terminated),
            set_context i (\<lambda>c. c\<lparr>ac_bootstrap_ready := False\<rparr>) (g\<lparr>gw_store := revoke_sessions i (gw_store g)\<rparr>)))
      in case map_of (gw_active g) i of
           None \<Rightarrow> (Some (Inl NOT_RUNNING), g)
         | Some _ \<Rightarrow> (case session_token_of q of
             None \<Rightarrow> terminate g
           | Some token \<Rightarrow>
               (let (session, st) = validate_session now token i (rq_module_id q) site (gw_store g) in
                case session of
                  None \<Rightarrow> (Some (Inl AUTH_FAILED), g\<lparr>gw_store := st\<rparr>)
                | Some _ \<Rightarrow> terminate (g\<lparr>gw_store := st\<rparr>))))"

subsection \<open>Handlers\<close>

definition handle_bootstrap_ready ::
  "gateway_settings \<Rightarrow> string \<Rightarrow> int coerced \<Rightarrow> int coerced \<Rightarrow> gateway \<Rightarrow> (broker_error + rpc_result) \<times> gateway" where
  "handle_bootstrap_ready cfg i uid gid g =
     (case res_bind (coerced_result uid) (\<lambda>u. res_bind (coerced_result gid) (\<lambda>w. Inr (u, w))) of
        Inl e \<Rightarrow> (Inl e, g)
      | Inr (u, w) \<Rightarrow>
          if 0 \<le> u \<and> 0 \<le> w \<and> (u \<noteq> gs_module_uid cfg \<or> w \<noteq> gs_module_gid cfg) then (Inl PermissionError, g)
          else (Inr (R_bootstrap u w), set_context i (\<lambda>c. c\<lparr>ac_bootstrap_ready := True\<rparr>) g))"

definition handle_config :: "active_context \<Rightarrow> json \<Rightarrow> (string \<times> json) list" where
  "handle_config c key =
     (let config = AList.updates (map fst (ac_site_config c)) (map snd (ac_site_config c))
            [(''module_id'', JStr (rr_module_id (ac_record c))), (''site_id'', JInt (rr_site_id (ac_record c)))]
      in case key of JStr k \<Rightarrow> if k \<noteq> [] then [(k, json_get config k JNull)] else config | _ \<Rightarrow> config)"

definition handle_publish_readings ::
  "(active_context \<Rightarrow> rpc_call \<Rightarrow> broker_error + rpc_result) \<Rightarrow> active_context \<Rightarrow> json list \<Rightarrow> int coerced option
   \<Rightarrow> broker_error + rpc_result" where
  "handle_publish_readings external c readings site =
     (let publish = (\<lambda>_. if list_ex (\<lambda>cap. starts_with cap ''hvac.read'') (ac_capabilities c)
                          \<or> ''device.read'' \<in> set (ac_permissions c)
            then res_bind (external c (PublishReadings readings site)) (\<lambda>_. Inr (R_count (length readings)))
            else Inl PermissionError)
      in case site of
           None \<Rightarrow> publish ()
         | Some s \<Rightarrow> res_bind (coerced_result s)
             (\<lambda>s. if s \<noteq> rr_site_id (ac_record c) then Inl PermissionError else publish ()))"

text \<open>The handler table of \<open>_dispatch\<close>; \<open>c\<close> is the context of the registered runtime, and a
  device, secret or data call uses its record, permissions and capabilities.\<close>

fun handle_call ::
  "gateway_settings \<Rightarrow> (active_context \<Rightarrow> rpc_call \<Rightarrow> broker_error + rpc_result) \<Rightarrow> time \<Rightarrow> active_context
   \<Rightarrow> rpc_call \<Rightarrow> gateway \<Rightarrow> (broker_error + rpc_result) \<times> gateway" where
  "handle_call cfg external now c (BootstrapReady uid gid) g =
     handle_bootstrap_ready cfg (rr_runtime_instance_id (ac_record c)) uid gid g"
| "handle_call cfg external now c ReportModuleReady g =
     (Inr R_ok, set_context (rr_runtime_instance_id (ac_record c)) (\<lambda>c. c\<lparr>ac_module_ready := True\<rparr>) g)"
| "handle_call cfg external now c GetHealth g =
     (Inr (R_health (rr_state (ac_record c))),
      set_context (rr_runtime_instance_id (ac_record c)) (\<lambda>c. c\<lparr>ac_last_heartbeat := now\<rparr>) g)"
| "handle_call cfg external now c GetCapabilities g = (Inr (R_capabilities (ac_capabilities c)), g)"
| "handle_call cfg external now c (Read cap site) g =
     (res_bind (read_data (rr_site_id (ac_record c)) cap site (ac_permissions c) (ac_capabilities c) (gw_data g))
        (\<lambda>v. Inr (R_data v)), g)"
| "handle_call cfg external now c (Command cap cmd x) g =
     (let (r, b) = device_command now (rr_runtime_instance_id (ac_record c)) (rr_site_id (ac_record c)) cap cmd x
            (ac_permissions c) (gw_device g)
      in (res_bind r (\<lambda>p. Inr (R_power p)), g\<lparr>gw_device := b\<rparr>))"
| "handle_call cfg external now c (AcquireControlLease cap x) g =
     (let (r, b) = acquire_lease (gs_lease_ttl cfg) now (rr_runtime_instance_id (ac_record c))
            (rr_site_id (ac_record c)) cap x (ac_permissions c) (gw_device g)
      in (res_bind r (\<lambda>e. Inr (R_lease e)), g\<lparr>gw_device := b\<rparr>))"
| "handle_call cfg external now c (RenewControlLease cap x) g =
     (let (r, b) = renew_lease (gs_lease_ttl cfg) now (rr_runtime_instance_id (ac_record c))
            (rr_site_id (ac_record c)) cap x (ac_permissions c) (gw_device g)
      in (res_bind r (\<lambda>e. Inr (R_lease e)), g\<lparr>gw_device := b\<rparr>))"
| "handle_call cfg external now c (GetConfig key) g = (Inr (R_config (handle_config c key)), g)"
| "handle_call cfg external now c (GetSecret ref) g =
     (if ref = [] then (Inl ValueError, g)
      else (let (r, b) = get_secret now (rr_runtime_instance_id (ac_record c)) (rr_module_id (ac_record c))
              (rr_site_id (ac_record c)) ref (ac_permissions c) (gw_secret g)
        in (res_bind r (\<lambda>v. Inr (R_secret v)), g\<lparr>gw_secret := b\<rparr>)))"
| "handle_call cfg external now c (NetworkRequest url meth headers) g =
     (external c (NetworkRequest url meth headers), g)"
| "handle_call cfg external now c (PublishReadings readings site) g =
     (handle_publish_readings external c readings site, g)"
| "handle_call cfg external now c ReportMetric g = (Inr R_ok, g)"
| "handle_call cfg external now c Stop g = (Inr R_stopping, g)"
| "handle_call cfg external now c call g = (Inl ValueError, g)"

subsection \<open>Dispatch\<close>

definition RATE_WINDOW :: int where "RATE_WINDOW = 60 * us_per_s"

definition rate_ok :: "gateway_settings \<Rightarrow> time \<Rightarrow> string \<Rightarrow> gateway \<Rightarrow> bool \<times> gateway" where
  "rate_ok cfg now i g =
     (let window = filter (\<lambda>t. now - t < RATE_WINDOW) (or_else (map_of (gw_rate_window g) i) []) in
      if gs_rate_limit_per_minute cfg \<le> length window
      then (False, g\<lparr>gw_rate_window := AList.update i window (gw_rate_window g)\<rparr>)
      else (True, g\<lparr>gw_rate_window := AList.update i (window @ [now]) (gw_rate_window g)\<rparr>))"

definition inflight :: "gateway \<Rightarrow> string \<Rightarrow> nat" where
  "inflight g i = or_else (map_of (gw_inflight g) i) 0"

definition set_inflight :: "string \<Rightarrow> nat \<Rightarrow> gateway \<Rightarrow> gateway" where
  "set_inflight i k g = g\<lparr>gw_inflight := AList.update i k (gw_inflight g)\<rparr>"

fun error_response :: "broker_error \<Rightarrow> rpc_response" where
  "error_response PermissionError = Some (Inl CAPABILITY_DENIED)"
| "error_response ValueError = Some (Inl BROKER_REJECTED)"
| "error_response TypeError = None"

definition serve ::
  "gateway_settings \<Rightarrow> (active_context \<Rightarrow> rpc_call \<Rightarrow> broker_error + rpc_result) \<Rightarrow> time \<Rightarrow> string
   \<Rightarrow> active_context \<Rightarrow> rpc_call \<Rightarrow> gateway \<Rightarrow> rpc_response \<times> gateway" where
  "serve cfg external now i c call g =
     (let g = set_inflight i (inflight g i + 1) g;
          (response, g) = (if call = Unknown_Method then (Some (Inl INVALID_REQUEST), g)
            else (let (r, g) = handle_call cfg external now c call g
                  in (case r of Inl e \<Rightarrow> error_response e | Inr v \<Rightarrow> Some (Inr v), g)))
      in (response, set_inflight i (inflight g i - 1) g))"

definition dispatch_session ::
  "gateway_settings \<Rightarrow> (active_context \<Rightarrow> rpc_call \<Rightarrow> broker_error + rpc_result) \<Rightarrow> time \<Rightarrow> rpc_request \<Rightarrow> int
   \<Rightarrow> gateway \<Rightarrow> rpc_response \<times> gateway" where
  "dispatch_session cfg external now q site g =
     (let i = rq_runtime_instance_id q in
      case session_token_of q of
        None \<Rightarrow> (Some (Inl AUTH_FAILED), g)
      | Some token \<Rightarrow>
          (let (session, st) = validate_session now token i (rq_module_id q) site (gw_store g);
               g = g\<lparr>gw_store := st\<rparr>
           in case session of
                None \<Rightarrow> (Some (Inl AUTH_FAILED), g)
              | Some _ \<Rightarrow> (case map_of (gw_active g) i of
                  None \<Rightarrow> (Some (Inl NOT_RUNNING), g)
                | Some c \<Rightarrow>
                    (let (ok, g) = rate_ok cfg now i g in
                     if \<not> ok then (Some (Inl RATE_LIMITED), g)
                     else if gs_max_concurrent cfg \<le> inflight g i then (Some (Inl RATE_LIMITED), g)
                     else serve cfg external now i c (rq_call q) g))))"

definition dispatch ::
  "gateway_settings \<Rightarrow> (string \<Rightarrow> string \<Rightarrow> string) \<Rightarrow> (active_context \<Rightarrow> rpc_call \<Rightarrow> broker_error + rpc_result)
   \<Rightarrow> time \<Rightarrow> string \<Rightarrow> rpc_request \<Rightarrow> gateway \<Rightarrow> rpc_response \<times> gateway" where
  "dispatch cfg sign external now raw q g =
     (case rq_site_id q of
        Coerced site \<Rightarrow> (case rq_call q of
            Handshake startup_token version sha protocol \<Rightarrow>
              handle_handshake cfg sign now raw (rq_runtime_instance_id q) (rq_module_id q) startup_token
                version sha protocol g
          | ReportPrivilegeDropFailed \<Rightarrow> handle_privilege_drop_failed now q site g
          | _ \<Rightarrow> dispatch_session cfg external now q site g)
      | _ \<Rightarrow> (None, g))"

end
