(* ===== verification/Isolation_Runs.thy ===== *)
theory Isolation_Runs
  imports Isolation_Gateway
begin

section \<open>What sequences of gateway events do\<close>

text \<open>
  The events of the gateway as one step function, and two properties of every sequence of
  them: a request is served only on a session that a handshake opened, with a startup token
  of the registration of the same runtime, and no more requests per minute than configured.
\<close>

datatype gateway_event =
    Register runtime_record "string list" "string list" "(string \<times> json) list" string
  | Unregister string
  | Revoke_Devices string
  | Rpc string rpc_request
  | Add_Secret string int string string
  | Seed int string json
  | Install_Device int string py_float

text \<open>The parts of the environment a run depends on.\<close>

record environment =
  env_settings :: gateway_settings
  env_sign :: "string \<Rightarrow> string \<Rightarrow> string"
  env_external :: "active_context \<Rightarrow> rpc_call \<Rightarrow> broker_error + rpc_result"

definition respond :: "environment \<Rightarrow> time \<Rightarrow> string \<Rightarrow> rpc_request \<Rightarrow> gateway \<Rightarrow> rpc_response" where
  "respond env now raw q g = fst (dispatch (env_settings env) (env_sign env) (env_external env) now raw q g)"

fun gateway_step :: "environment \<Rightarrow> gateway \<Rightarrow> time \<times> gateway_event \<Rightarrow> gateway" where
  "gateway_step env g (now, Register r permissions capabilities site_config token) =
     register_runtime now token r permissions capabilities site_config g"
| "gateway_step env g (now, Unregister i) = unregister_runtime i g"
| "gateway_step env g (now, Revoke_Devices i) = g\<lparr>gw_device := revoke_leases i (gw_device g)\<rparr>"
| "gateway_step env g (now, Rpc raw q) =
     snd (dispatch (env_settings env) (env_sign env) (env_external env) now raw q g)"
| "gateway_step env g (now, Add_Secret m site ref secret) =
     g\<lparr>gw_secret := register_secret m site ref secret (gw_secret g)\<rparr>"
| "gateway_step env g (now, Seed site cap payload) = g\<lparr>gw_data := seed_data site cap payload (gw_data g)\<rparr>"
| "gateway_step env g (now, Install_Device site dev safe) =
     g\<lparr>gw_device := (gw_device g)\<lparr>br_devices := register_device site dev safe (br_devices (gw_device g))\<rparr>\<rparr>"

abbreviation gateway_run :: "environment \<Rightarrow> (time \<times> gateway_event) list \<Rightarrow> gateway" where
  "gateway_run env es \<equiv> foldl (gateway_step env) initial_gateway es"

subsection \<open>What an operation does to the sessions\<close>

definition no_new_sessions :: "session_store \<Rightarrow> session_store \<Rightarrow> bool" where
  "no_new_sessions st st' \<longleftrightarrow> (\<forall>token s. get_session st' token = Some s \<longrightarrow> \<not> rs_revoked s \<longrightarrow>
     get_session st token = Some s)"

lemma no_new_sessions_refl [simp]: "no_new_sessions st st"
  by (simp add: no_new_sessions_def)

lemma no_new_sessions_trans: "no_new_sessions a b \<Longrightarrow> no_new_sessions b c \<Longrightarrow> no_new_sessions a c"
  by (simp add: no_new_sessions_def)

lemma no_new_sessions_same: "get_session b = get_session a \<Longrightarrow> no_new_sessions a b"
  by (simp add: no_new_sessions_def)

lemma no_new_sessions_revoke: "no_new_sessions st (revoke_sessions i st)"
  by (auto simp: no_new_sessions_def split: if_splits)

lemma no_new_sessions_validate: "no_new_sessions st (snd (validate_session now token i m site st))"
  by (auto simp: no_new_sessions_def split: if_splits)

lemma set_context_store [simp]: "gw_store (set_context i f g) = gw_store g"
  by (simp add: set_context_def split: option.split)

lemma set_inflight_store [simp]: "gw_store (set_inflight i k g) = gw_store g"
  by (simp add: set_inflight_def)

lemma rate_ok_store [simp]: "gw_store (snd (rate_ok cfg now i g)) = gw_store g"
  by (simp add: rate_ok_def Let_def)

lemma handle_call_store [simp]: "gw_store (snd (handle_call cfg external now c call g)) = gw_store g"
  by (cases call) (simp_all add: handle_bootstrap_ready_def Let_def split: sum.split prod.split)

lemma serve_store [simp]: "gw_store (snd (serve cfg external now i c call g)) = gw_store g"
  by (simp add: serve_def Let_def case_prod_beta)

lemma dispatch_session_store:
  "gw_store (snd (dispatch_session cfg external now q site g)) =
     (case session_token_of q of None \<Rightarrow> gw_store g
      | Some token \<Rightarrow> snd (validate_session now token (rq_runtime_instance_id q) (rq_module_id q) site (gw_store g)))"
  by (simp add: dispatch_session_def Let_def case_prod_beta split: option.split)

lemma dispatch_session_no_new: "no_new_sessions (gw_store g) (gw_store (snd (dispatch_session cfg external now q site g)))"
  by (simp add: dispatch_session_store no_new_sessions_validate split: option.split)

lemma privilege_drop_no_new: "no_new_sessions (gw_store g) (gw_store (snd (handle_privilege_drop_failed now q site g)))"
proof -
  have "no_new_sessions st (revoke_sessions i (snd (validate_session now token i m site st)))" for token i m st
    by (rule no_new_sessions_trans [OF no_new_sessions_validate no_new_sessions_revoke])
  moreover have "no_new_sessions st st'" if "validate_session now token i m site st = (r, st')" for token i m st st' r
    using no_new_sessions_validate [of st now token i m site] that by simp
  ultimately show ?thesis
    by (auto simp: handle_privilege_drop_failed_def Let_def no_new_sessions_revoke
        intro: no_new_sessions_trans [OF _ no_new_sessions_revoke] split: option.split prod.split)
qed

definition is_handshake :: "rpc_call \<Rightarrow> bool" where
  "is_handshake call \<longleftrightarrow> (case call of Handshake _ _ _ _ \<Rightarrow> True | _ \<Rightarrow> False)"

lemma dispatch_no_new:
  "\<not> is_handshake (rq_call q) \<Longrightarrow> no_new_sessions (gw_store g) (gw_store (snd (dispatch cfg sign external now raw q g)))"
  by (cases "rq_site_id q"; cases "rq_call q")
    (simp_all add: dispatch_def is_handshake_def dispatch_session_no_new privilege_drop_no_new)

text \<open>A handshake that does not answer with a session opens none; one that does adds its token.\<close>

lemma handshake_effect:
  obtains (refused) "no_new_sessions (gw_store g) (gw_store (snd (handle_handshake cfg sign now raw i m tok version sha pv g)))"
  | (opened) st site where "gw_store (snd (handle_handshake cfg sign now raw i m tok version sha pv g))
        = snd (create_session sign now raw i m site st)" "get_session st = get_session (gw_store g)"
      "fst (handle_handshake cfg sign now raw i m tok version sha pv g)
        = Some (Inr (R_session (sign_token sign i raw) (gs_protocol_version cfg)))"
proof (cases "\<exists>v. fst (handle_handshake cfg sign now raw i m tok version sha pv g) = Some (Inr v)")
  case False
  have consumed: "no_new_sessions st st'" if "consume_startup_token now t i st = (b, st')" for t b st st'
    using that get_session_tokens(2) [of now t i st] by (intro no_new_sessions_same) simp
  show ?thesis
    by (rule refused)
      (use False consumed in \<open>auto simp: handle_handshake_def create_session_def Let_def
        split: coerced.split option.split json.split prod.splits\<close>)
next
  case True
  then obtain c token where c: "map_of (gw_active g) i = Some c" and token: "tok = JStr token"
    and ok: "fst (consume_startup_token now token i (gw_store g))"
    by (auto simp: handle_handshake_def Let_def split: coerced.splits option.splits if_splits json.splits prod.splits)
  show ?thesis
    by (rule opened [of "rr_site_id (ac_record c)" "snd (consume_startup_token now token i (gw_store g))"])
      (use True c token ok in \<open>auto simp: handle_handshake_def create_session_def Let_def
        split: coerced.splits if_splits prod.splits\<close>)
qed

subsection \<open>Where startup tokens come from\<close>

definition no_new_tokens :: "session_store \<Rightarrow> session_store \<Rightarrow> bool" where
  "no_new_tokens st st' \<longleftrightarrow> (\<forall>token v. map_of (st_startup_tokens st') token = Some v \<longrightarrow>
     map_of (st_startup_tokens st) token = Some v)"

lemma no_new_tokens_simps [simp]:
  "no_new_tokens st st"
  "no_new_tokens st (revoke_sessions i st)"
  "no_new_tokens st (snd (consume_startup_token now token i st))"
  "no_new_tokens st (snd (validate_session now token i m site st))"
  "no_new_tokens st (revoke_sessions i (snd (validate_session now token i m site st)))"
  "no_new_tokens st (snd (create_session sign now raw i m site (snd (consume_startup_token now token i st))))"
  by (simp_all add: no_new_tokens_def revoke_sessions_def consume_startup_token_def validate_session_def
      create_session_def Let_def split: option.split)

lemma dispatch_no_new_tokens:
  "no_new_tokens (gw_store g) (gw_store (snd (dispatch cfg sign external now raw q g)))"
proof -
  have "no_new_tokens (gw_store g) (gw_store (snd (handle_handshake cfg sign now raw i m tok version sha pv g)))"
    for i m tok version sha pv
    by (simp add: handle_handshake_def Let_def case_prod_beta split: coerced.split option.split json.split)
  moreover have "no_new_tokens (gw_store g) (gw_store (snd (handle_privilege_drop_failed now q site g)))" for site
    by (simp add: handle_privilege_drop_failed_def Let_def case_prod_beta split: option.split)
  moreover have "no_new_tokens (gw_store g) (gw_store (snd (dispatch_session cfg external now q site g)))" for site
    by (simp add: dispatch_session_store split: option.split)
  ultimately show ?thesis
    by (simp add: dispatch_def split: coerced.split rpc_call.split)
qed

definition issued_at :: "(time \<times> gateway_event) list \<Rightarrow> string \<Rightarrow> string \<Rightarrow> time \<Rightarrow> bool" where
  "issued_at es token i t \<longleftrightarrow> (\<exists>r permissions capabilities site_config.
     (t, Register r permissions capabilities site_config token) \<in> set es \<and> rr_runtime_instance_id r = i)"

lemma issued_at_snoc: "issued_at es token i t \<Longrightarrow> issued_at (es @ [e]) token i t"
  by (auto simp: issued_at_def)

lemma token_history:
  "map_of (st_startup_tokens (gw_store (gateway_run env es))) token = Some (i, t) \<Longrightarrow> issued_at es token i t"
proof (induction es rule: rev_induct)
  case Nil
  then show ?case by (simp add: initial_gateway_def initial_store_def)
next
  case (snoc e es)
  obtain now ev where e: "e = (now, ev)" by (cases e)
  let ?g = "gateway_run env es"
  have old: ?case if "map_of (st_startup_tokens (gw_store ?g)) token = Some (i, t)"
    using snoc.IH that issued_at_snoc by blast
  show ?case
  proof (cases ev)
    case (Register r permissions capabilities site_config token')
    show ?thesis
    proof (cases "token' = token")
      case True
      then have "i = rr_runtime_instance_id r" "t = now"
        using snoc.prems by (simp_all add: e Register register_runtime_def issue_startup_token_def)
      then show ?thesis using True by (auto simp: issued_at_def e Register)
    next
      case False
      then show ?thesis
        using snoc.prems old by (simp add: e Register register_runtime_def issue_startup_token_def)
    qed
  next
    case (Rpc raw q)
    then show ?thesis
      using snoc.prems old dispatch_no_new_tokens [of ?g "env_settings env" "env_sign env" "env_external env" now raw q]
      by (simp add: e no_new_tokens_def)
  next
    case (Unregister j)
    then show ?thesis using snoc.prems old by (simp add: e unregister_runtime_def revoke_sessions_def)
  qed (use snoc.prems old in \<open>simp_all add: e\<close>)
qed

subsection \<open>Where sessions come from\<close>

definition registered_for :: "(time \<times> gateway_event) list \<Rightarrow> time \<Rightarrow> rpc_request \<Rightarrow> bool" where
  "registered_for es t q \<longleftrightarrow> (\<exists>token version sha pv t0. rq_call q = Handshake (JStr token) version sha pv
     \<and> issued_at es token (rq_runtime_instance_id q) t0 \<and> t - t0 \<le> STARTUP_TOKEN_TTL)"

definition opened_by :: "environment \<Rightarrow> (time \<times> gateway_event) list \<Rightarrow> string \<Rightarrow> runtime_session \<Rightarrow> bool" where
  "opened_by env es token s \<longleftrightarrow> (\<exists>pre t raw q post. es = pre @ (t, Rpc raw q) # post
     \<and> rq_runtime_instance_id q = rs_runtime_instance_id s \<and> rq_module_id q = rs_module_id s
     \<and> (\<exists>pv. respond env t raw q (gateway_run env pre) = Some (Inr (R_session token pv)))
     \<and> rs_expires_at s = Some (t + SESSION_TTL) \<and> registered_for pre t q
     \<and> (\<forall>e \<in> set post. snd e \<noteq> Unregister (rs_runtime_instance_id s)))"

lemma opened_by_snoc:
  "opened_by env es token s \<Longrightarrow> snd e \<noteq> Unregister (rs_runtime_instance_id s) \<Longrightarrow> opened_by env (es @ [e]) token s"
  unfolding opened_by_def by fastforce

lemma handshake_registered:
  assumes "fst (handle_handshake cfg sign now raw i m tok version sha pv (gateway_run env es)) = Some (Inr v)"
  shows "\<exists>token t0. tok = JStr token \<and> issued_at es token i t0 \<and> now - t0 \<le> STARTUP_TOKEN_TTL"
proof -
  obtain token where "tok = JStr token" "fst (consume_startup_token now token i (gw_store (gateway_run env es)))"
    using assms
    by (auto simp: handle_handshake_def Let_def split: coerced.splits option.splits if_splits json.splits prod.splits)
  then show ?thesis
    using token_history by (fastforce simp: consume_startup_token_def Let_def split: option.splits if_splits)
qed

lemma handshake_opens:
  assumes "rq_call q = Handshake tok version sha pv" "rq_site_id q = Coerced site"
    and "get_session (gw_store (gateway_step env (gateway_run env es) (now, Rpc raw q))) token = Some s"
    and "\<not> rs_revoked s" "get_session (gw_store (gateway_run env es)) token \<noteq> Some s"
  shows "opened_by env (es @ [(now, Rpc raw q)]) token s"
proof -
  let ?g = "gateway_run env es"
  let ?i = "rq_runtime_instance_id q" and ?m = "rq_module_id q"
  let ?h = "handle_handshake (env_settings env) (env_sign env) now raw ?i ?m tok version sha pv ?g"
  have disp: "dispatch (env_settings env) (env_sign env) (env_external env) now raw q ?g = ?h"
    using assms(1,2) by (simp add: dispatch_def)
  show ?thesis
  proof (cases rule: handshake_effect [of ?g "env_settings env" "env_sign env" now raw ?i ?m tok version sha pv])
    case refused
    then show ?thesis using assms disp by (simp add: no_new_sessions_def)
  next
    case (opened st site')
    then have s: "token = sign_token (env_sign env) ?i raw" "rs_runtime_instance_id s = ?i" "rs_module_id s = ?m"
      "rs_expires_at s = Some (now + SESSION_TTL)"
      using assms disp by (auto split: if_splits)
    moreover have "registered_for es now q"
      using handshake_registered [OF opened(3)] assms(1) by (auto simp: registered_for_def)
    moreover have "respond env now raw q ?g = Some (Inr (R_session token (gs_protocol_version (env_settings env))))"
      using opened disp s by (simp add: respond_def)
    ultimately show ?thesis
      unfolding opened_by_def by (intro exI [of _ es] exI [of _ now] exI [of _ raw] exI [of _ q] exI [of _ "[]"]) auto
  qed
qed

lemma revoked_mark: "\<not> rs_revoked s \<Longrightarrow> s\<lparr>rs_revoked := True\<rparr> \<noteq> s"
  by (metis runtime_session.select_convs(5) runtime_session.surjective runtime_session.update_convs(5))

lemma session_history:
  "get_session (gw_store (gateway_run env es)) token = Some s \<Longrightarrow> \<not> rs_revoked s \<Longrightarrow> opened_by env es token s"
proof (induction es rule: rev_induct)
  case Nil
  then show ?case by (simp add: initial_gateway_def initial_store_def get_session_def)
next
  case (snoc e es)
  obtain now ev where e: "e = (now, ev)" by (cases e)
  let ?g = "gateway_run env es"
  have old: ?case if "get_session (gw_store ?g) token = Some s" "ev \<noteq> Unregister (rs_runtime_instance_id s)"
    using snoc.IH that snoc.prems(2) opened_by_snoc e by simp
  show ?case
  proof (cases ev)
    case (Unregister i)
    have "get_session (gw_store ?g) token = Some s \<and> rs_runtime_instance_id s \<noteq> i"
      using snoc.prems revoked_mark [of s] by (auto simp: e Unregister unregister_runtime_def split: if_splits)
    then show ?thesis using old Unregister by auto
  next
    case (Rpc raw q)
    show ?thesis
    proof (cases "get_session (gw_store ?g) token = Some s")
      case True
      then show ?thesis using old Rpc by simp
    next
      case False
      have "is_handshake (rq_call q)"
        using dispatch_no_new [of q ?g "env_settings env" "env_sign env" "env_external env" now raw]
          snoc.prems False by (auto simp: e Rpc no_new_sessions_def)
      then obtain tok version sha pv where "rq_call q = Handshake tok version sha pv"
        by (auto simp: is_handshake_def split: rpc_call.splits)
      moreover have "\<exists>site. rq_site_id q = Coerced site"
        using snoc.prems False by (cases "rq_site_id q") (simp_all add: e Rpc dispatch_def)
      ultimately show ?thesis
        using handshake_opens snoc.prems False by (fastforce simp: e Rpc)
    qed
  qed (use snoc.prems old in \<open>simp_all add: e register_runtime_def\<close>)
qed

subsection \<open>The rate limit\<close>

definition window :: "gateway \<Rightarrow> string \<Rightarrow> time list" where
  "window g i = or_else (map_of (gw_rate_window g) i) []"

definition on_session :: "rpc_call \<Rightarrow> bool" where
  "on_session call \<longleftrightarrow> \<not> is_handshake call \<and> call \<noteq> ReportPrivilegeDropFailed"

lemma dispatch_on_session:
  "on_session (rq_call q) \<Longrightarrow> dispatch cfg sign external now raw q g =
     (case rq_site_id q of Coerced site \<Rightarrow> dispatch_session cfg external now q site g | _ \<Rightarrow> (None, g))"
  by (cases "rq_call q") (auto simp: dispatch_def on_session_def is_handshake_def split: coerced.split)

lemma window_frames [simp]:
  "gw_rate_window (set_context i f g) = gw_rate_window g"
  "gw_rate_window (set_inflight i k g) = gw_rate_window g"
  "gw_rate_window (snd (handle_call cfg external now c call g)) = gw_rate_window g"
proof -
  show ctx: "gw_rate_window (set_context i f g) = gw_rate_window g" for i f g
    by (simp add: set_context_def split: option.split)
  show "gw_rate_window (set_inflight i k g) = gw_rate_window g"
    by (simp add: set_inflight_def)
  show "gw_rate_window (snd (handle_call cfg external now c call g)) = gw_rate_window g"
    by (cases call) (simp_all add: ctx handle_bootstrap_ready_def Let_def split: sum.split prod.split)
qed

lemma serve_window [simp]: "gw_rate_window (snd (serve cfg external now i c call g)) = gw_rate_window g"
  by (simp add: serve_def Let_def case_prod_beta)

lemma window_rate_ok:
  "window (snd (rate_ok cfg now i g)) j = (if j = i
     then filter (\<lambda>t. now - t < RATE_WINDOW) (window g i) @ (if fst (rate_ok cfg now i g) then [now] else [])
     else window g j)"
  by (simp add: window_def rate_ok_def Let_def)

lemma rate_ok_bound:
  "length (window g i) \<le> gs_rate_limit_per_minute cfg
   \<Longrightarrow> length (window (snd (rate_ok cfg now i g)) i) \<le> gs_rate_limit_per_minute cfg"
proof -
  assume bound: "length (window g i) \<le> gs_rate_limit_per_minute cfg"
  have "length (filter (\<lambda>t. now - t < RATE_WINDOW) (window g i)) \<le> gs_rate_limit_per_minute cfg"
    by (rule order.trans [OF length_filter_le bound])
  moreover have "fst (rate_ok cfg now i g) \<Longrightarrow>
      length (filter (\<lambda>t. now - t < RATE_WINDOW) (window g i)) < gs_rate_limit_per_minute cfg"
    by (simp add: rate_ok_def window_def Let_def split: if_splits)
  ultimately show ?thesis by (simp add: window_rate_ok Suc_leI)
qed

text \<open>The answers of \<open>_dispatch\<close> before a handler is looked up; no handler gives one of them.\<close>

definition unserved :: "rpc_response \<Rightarrow> bool" where
  "unserved response \<longleftrightarrow> response \<in> {Some (Inl AUTH_FAILED), Some (Inl NOT_RUNNING), Some (Inl RATE_LIMITED)}"

lemma dispatch_session_window:
  obtains "gw_rate_window (snd (dispatch_session cfg external now q site g)) = gw_rate_window g"
    "unserved (fst (dispatch_session cfg external now q site g))"
  | h where "gw_rate_window (snd (dispatch_session cfg external now q site g))
        = gw_rate_window (snd (rate_ok cfg now (rq_runtime_instance_id q) h))" "gw_rate_window h = gw_rate_window g"
    "\<not> unserved (fst (dispatch_session cfg external now q site g)) \<longrightarrow>
       fst (rate_ok cfg now (rq_runtime_instance_id q) h)"
proof (cases "session_token_of q")
  case None
  then show ?thesis by (intro that(1)) (simp_all add: dispatch_session_def unserved_def)
next
  case (Some token)
  let ?i = "rq_runtime_instance_id q"
  let ?v = "validate_session now token ?i (rq_module_id q) site (gw_store g)"
  let ?h = "g\<lparr>gw_store := snd ?v\<rparr>"
  show ?thesis
  proof (cases "fst ?v = None \<or> map_of (gw_active g) ?i = None")
    case True
    then show ?thesis
      by (intro that(1)) (auto simp: dispatch_session_def unserved_def Some Let_def case_prod_beta split: option.split)
  next
    case False
    then show ?thesis
      by (intro that(2) [of ?h]) (auto simp: dispatch_session_def unserved_def Some Let_def case_prod_beta split: if_splits)
  qed
qed

text \<open>A request that needs a session and reached its handler, whatever the handler answered or raised.\<close>

definition served :: "environment \<Rightarrow> gateway \<Rightarrow> string \<Rightarrow> time \<times> gateway_event \<Rightarrow> bool" where
  "served env g i e = (case e of
       (now, Rpc raw q) \<Rightarrow> rq_runtime_instance_id q = i \<and> on_session (rq_call q)
          \<and> (case rq_site_id q of Coerced _ \<Rightarrow> True | _ \<Rightarrow> False) \<and> \<not> unserved (respond env now raw q g)
     | _ \<Rightarrow> False)"

fun served_times :: "environment \<Rightarrow> gateway \<Rightarrow> string \<Rightarrow> (time \<times> gateway_event) list \<Rightarrow> time list" where
  "served_times env g i [] = []"
| "served_times env g i (e # es) =
     (if served env g i e then [fst e] else []) @ served_times env (gateway_step env g e) i es"

lemma served_times_snoc:
  "served_times env g i (es @ [e]) =
     served_times env g i es @ (if served env (foldl (gateway_step env) g es) i e then [fst e] else [])"
  by (induction es arbitrary: g) auto

definition recent :: "time \<Rightarrow> time list \<Rightarrow> nat" where
  "recent now ts = length (filter (\<lambda>t. now - t < RATE_WINDOW) ts)"

lemma recent_append [simp]: "recent now (xs @ ys) = recent now xs + recent now ys"
  by (simp add: recent_def)

lemma recent_filter: "n \<le> now \<Longrightarrow> recent now (filter (\<lambda>t. n - t < RATE_WINDOW) ts) = recent now ts"
  by (auto simp: recent_def intro!: arg_cong [where f = length] filter_cong)

lemma step_window:
  assumes "fst e \<le> now" "length (window g i) \<le> gs_rate_limit_per_minute (env_settings env)"
  shows "length (window (gateway_step env g e) i) \<le> gs_rate_limit_per_minute (env_settings env)
    \<and> recent now (window g i) + (if served env g i e then recent now [fst e] else 0)
        \<le> recent now (window (gateway_step env g e) i)"
proof (cases "\<exists>n raw q site. e = (n, Rpc raw q) \<and> on_session (rq_call q) \<and> rq_site_id q = Coerced site")
  case True
  then obtain n raw q site where e: "e = (n, Rpc raw q)" and q: "on_session (rq_call q)" "rq_site_id q = Coerced site"
    by blast
  have step: "dispatch (env_settings env) (env_sign env) (env_external env) n raw q g
      = dispatch_session (env_settings env) (env_external env) n q site g"
    using q by (simp add: dispatch_on_session)
  show ?thesis
  proof (rule dispatch_session_window [of "env_settings env" "env_external env" n q site g])
    assume "gw_rate_window (snd (dispatch_session (env_settings env) (env_external env) n q site g)) = gw_rate_window g"
      and "unserved (fst (dispatch_session (env_settings env) (env_external env) n q site g))"
    then show ?thesis
      using assms step by (simp add: e served_def respond_def window_def)
  next
    fix h
    assume h: "gw_rate_window (snd (dispatch_session (env_settings env) (env_external env) n q site g))
        = gw_rate_window (snd (rate_ok (env_settings env) n (rq_runtime_instance_id q) h))" "gw_rate_window h = gw_rate_window g"
      and ok: "\<not> unserved (fst (dispatch_session (env_settings env) (env_external env) n q site g)) \<longrightarrow>
       fst (rate_ok (env_settings env) n (rq_runtime_instance_id q) h)"
    have same: "window h = window g"
      using h(2) by (simp add: window_def fun_eq_iff)
    have after: "window (gateway_step env g e) = window (snd (rate_ok (env_settings env) n (rq_runtime_instance_id q) h))"
      using h(1) step by (simp add: window_def fun_eq_iff e)
    show ?thesis
    proof (cases "rq_runtime_instance_id q = i")
      case True
      have "served env g i e \<longrightarrow> fst (rate_ok (env_settings env) n i h)"
        using ok step True by (auto simp: e served_def respond_def)
      then show ?thesis
        unfolding after
        using assms rate_ok_bound [of h i "env_settings env" n] recent_filter [of n now "window g i"]
        by (auto simp: True same window_rate_ok e)
    next
      case False
      then show ?thesis unfolding after using assms by (simp add: same window_rate_ok e served_def)
    qed
  qed
next
  case False
  have "gw_rate_window (gateway_step env g e) = gw_rate_window g"
  proof (cases "\<exists>n raw q. e = (n, Rpc raw q)")
    case True
    then obtain n raw q where e: "e = (n, Rpc raw q)" by blast
    have "gw_rate_window (snd (handle_privilege_drop_failed n q site g)) = gw_rate_window g" for site
      by (simp add: handle_privilege_drop_failed_def Let_def case_prod_beta split: option.split)
    moreover have "gw_rate_window (snd (handle_handshake cfg sign n raw i m tok version sha pv g)) = gw_rate_window g"
      for cfg sign i m tok version sha pv
      by (simp add: handle_handshake_def Let_def case_prod_beta split: coerced.split option.split json.split)
    ultimately show ?thesis
      using False by (cases "rq_site_id q"; cases "rq_call q")
        (simp_all add: e dispatch_def on_session_def is_handshake_def)
  next
    case False
    then show ?thesis
      by (cases e; cases "snd e") (auto simp: register_runtime_def unregister_runtime_def)
  qed
  moreover have "\<not> served env g i e"
  proof
    assume "served env g i e"
    then obtain n raw q site where "e = (n, Rpc raw q)" "on_session (rq_call q)" "rq_site_id q = Coerced site"
      by (auto simp: served_def split: prod.splits gateway_event.splits coerced.splits)
    then show False using False by blast
  qed
  ultimately show ?thesis using assms by (simp add: window_def)
qed

lemma served_recent:
  "\<forall>e \<in> set es. fst e \<le> now \<Longrightarrow>
   length (window (gateway_run env es) i) \<le> gs_rate_limit_per_minute (env_settings env)
   \<and> recent now (served_times env initial_gateway i es) \<le> recent now (window (gateway_run env es) i)"
proof (induction es rule: rev_induct)
  case Nil
  then show ?case by (simp add: window_def initial_gateway_def recent_def)
next
  case (snoc e es)
  then show ?case
    using step_window [of e now "gateway_run env es" i env] by (auto simp: served_times_snoc recent_def split: if_splits)
qed

subsection \<open>Properties\<close>

text \<open>C18. A request that needs a session is answered with a result only if its token was the answer
  to a handshake of the same runtime and module at most an hour ago, the runtime was not
  unregistered since, and that handshake presented a startup token that the registration of
  the same runtime had issued at most a minute before.\<close>

theorem served_requests_authenticated:
  assumes "respond env now raw q (gateway_run env es) = Some (Inr v)" "on_session (rq_call q)"
  shows "\<exists>token s. session_token_of q = Some token \<and> opened_by env es token s
    \<and> rs_runtime_instance_id s = rq_runtime_instance_id q \<and> rs_module_id s = rq_module_id q
    \<and> rq_site_id q = Coerced (rs_site_id s) \<and> \<not> session_expired now s"
proof -
  let ?g = "gateway_run env es"
  obtain site where site: "rq_site_id q = Coerced site"
    using assms by (cases "rq_site_id q") (auto simp: respond_def dispatch_on_session)
  have answer: "fst (dispatch_session (env_settings env) (env_external env) now q site ?g) = Some (Inr v)"
    using assms site by (simp add: respond_def dispatch_on_session)
  then obtain token where token: "session_token_of q = Some token"
    by (cases "session_token_of q") (auto simp: dispatch_session_def)
  have "\<exists>s. fst (validate_session now token (rq_runtime_instance_id q) (rq_module_id q) site (gw_store ?g)) = Some s"
    using answer token
    by (cases "fst (validate_session now token (rq_runtime_instance_id q) (rq_module_id q) site (gw_store ?g))")
      (auto simp: dispatch_session_def Let_def case_prod_beta)
  then obtain s where "fst (validate_session now token (rq_runtime_instance_id q) (rq_module_id q) site
      (gw_store ?g)) = Some s" ..
  then show ?thesis
    using token site session_history [of env es token s] by (auto simp: validate_session_Some)
qed

text \<open>C20. At no time have more of the requests of a runtime that need a session reached a handler during
  the last minute than the configured limit, whether the handler answered, refused or raised.
  \<open>Handshake\<close> and \<open>ReportPrivilegeDropFailed\<close> are answered before the session and the rate are looked
  at and are not counted.\<close>

theorem rate_limited:
  assumes "\<forall>e \<in> set es. fst e \<le> now"
  shows "length (filter (\<lambda>t. now - t < RATE_WINDOW) (served_times env initial_gateway i es))
    \<le> gs_rate_limit_per_minute (env_settings env)"
  using served_recent [OF assms, of env i]
  unfolding recent_def by (meson order.trans length_filter_le)

definition demo_environment :: environment where
  "demo_environment = \<lparr> env_settings = \<lparr> gs_protocol_version = 1, gs_rate_limit_per_minute = 2,
       gs_max_concurrent = 16, gs_module_uid = 10001, gs_module_gid = 10001, gs_lease_ttl = 30000000 \<rparr>,
     env_sign = (\<lambda>i raw. i @ raw), env_external = (\<lambda>c call. Inl ValueError) \<rparr>"

definition demo_request :: "json \<Rightarrow> rpc_call \<Rightarrow> rpc_request" where
  "demo_request token call = \<lparr> rq_runtime_instance_id = ''r1'', rq_module_id = ''acme.meter'',
     rq_site_id = Coerced 7, rq_private_token = JNull, rq_public_token = token, rq_call = call \<rparr>"

definition demo_run :: "(time \<times> gateway_event) list" where
  "demo_run = [(0, Register \<lparr> rr_runtime_instance_id = ''r1'', rr_module_id = ''acme.meter'', rr_version = ''1.0.0'',
        rr_artifact_sha256 = ''AB'', rr_site_id = 7, rr_state = STARTING \<rparr> [] [] [] ''t''),
     (1, Rpc ''x'' (demo_request JNull (Handshake (JStr ''t'') ''1.0.0'' ''ab'' (Coerced 1)))),
     (2, Rpc [] (demo_request (JStr ''x.r1x'') GetHealth)),
     (3, Rpc [] (demo_request (JStr ''x.r1x'') Stop)),
     (4, Rpc [] (demo_request (JStr ''x.r1x'') Stop))]"

theorem served_requests_authenticated_witness:
  "\<exists>s. opened_by demo_environment (take 3 demo_run) ''x.r1x'' s"
proof -
  have "respond demo_environment 5 [] (demo_request (JStr ''x.r1x'') ReportMetric)
      (gateway_run demo_environment (take 3 demo_run)) = Some (Inr R_ok)" by code_simp
  moreover have "on_session (rq_call (demo_request (JStr ''x.r1x'') ReportMetric))" by code_simp
  moreover have "session_token_of (demo_request (JStr ''x.r1x'') ReportMetric) = Some ''x.r1x''" by code_simp
  ultimately show ?thesis using served_requests_authenticated by force
qed

theorem rate_limited_witness:
  "served_times demo_environment initial_gateway ''r1'' demo_run = [2, 3]
   \<and> length (filter (\<lambda>t. 5 - t < RATE_WINDOW) (served_times demo_environment initial_gateway ''r1'' demo_run)) \<le> 2"
proof -
  have "\<forall>e \<in> set demo_run. fst e \<le> 5" by code_simp
  from rate_limited [OF this, of demo_environment "''r1''"]
  show ?thesis by (simp add: demo_environment_def) code_simp
qed

end
