(* ===== verification/Module_Sites.thy ===== *)
theory Module_Sites
  imports Module_Resolver
begin

section \<open>Modules of a site: runtime handles, activation and capability projection\<close>

text \<open>
  \<open>platform/modules/runtime_registry.py\<close>, \<open>site_modules.py\<close>, \<open>gating.py\<close>, \<open>isolation/policy.py\<close>
  and what they read of \<open>runtime.py\<close> and \<open>cache/module_runtime_state.py\<close>. A read of a missing
  runtime handle makes the code store a fresh stopped handle; no operation tells it from a
  missing one, and the model stores it on the first write. What the database and the settings
  hold is the record \<open>site_env\<close>, except the override rows, which the operations write.
\<close>

subsection \<open>Runtime handles\<close>

datatype runtime_status = MR_STOPPED | MR_STARTING | MR_RUNNING | MR_STOPPING | MR_FAILED
  | MR_BLOCKED | MR_UNKNOWN

datatype module_health = MH_HEALTHY | MH_DEGRADED | MH_UNAVAILABLE | MH_UNKNOWN

datatype activation_status = ACT_ENABLED | ACT_DISABLED

record module_handle =
  mh_state :: runtime_status
  mh_has_task :: bool
  mh_cancelled :: bool
  mh_started_at :: "time option"
  mh_last_error :: "string option"

type_synonym module_runtime_registry = "((int \<times> string) \<times> module_handle) list"

definition fresh_handle :: module_handle where
  "fresh_handle = \<lparr> mh_state = MR_STOPPED, mh_has_task = False, mh_cancelled = False,
     mh_started_at = None, mh_last_error = None \<rparr>"

definition get_handle :: "module_runtime_registry \<Rightarrow> int \<Rightarrow> string \<Rightarrow> module_handle" where
  "get_handle r site m = or_else (map_of r (site, m)) fresh_handle"

definition get_state :: "module_runtime_registry \<Rightarrow> int \<Rightarrow> string \<Rightarrow> runtime_status" where
  "get_state r site m = mh_state (get_handle r site m)"

definition is_running :: "module_runtime_registry \<Rightarrow> int \<Rightarrow> string \<Rightarrow> bool" where
  "is_running r site m \<longleftrightarrow> get_state r site m = MR_RUNNING"

definition worker_count :: "module_runtime_registry \<Rightarrow> int \<Rightarrow> string \<Rightarrow> nat" where
  "worker_count r site m = (if get_state r site m \<noteq> MR_RUNNING then 0 else 1)"

definition active_modules_for_site :: "module_runtime_registry \<Rightarrow> int \<Rightarrow> string list" where
  "active_modules_for_site r site =
     map (snd \<circ> fst) (filter (\<lambda>e. fst (fst e) = site \<and> mh_state (snd e) = MR_RUNNING) r)"

definition put_handle ::
  "module_runtime_registry \<Rightarrow> int \<Rightarrow> string \<Rightarrow> (module_handle \<Rightarrow> module_handle) \<Rightarrow> module_runtime_registry" where
  "put_handle r site m f = AList.update (site, m) (f (get_handle r site m)) r"

definition mark_starting :: "module_runtime_registry \<Rightarrow> int \<Rightarrow> string \<Rightarrow> module_runtime_registry" where
  "mark_starting r site m = put_handle r site m (\<lambda>h. h \<lparr> mh_state := MR_STARTING,
     mh_last_error := None, mh_cancelled := False \<rparr>)"

text \<open>No caller passes a task, so the handle keeps the one it has.\<close>

definition mark_running :: "module_runtime_registry \<Rightarrow> int \<Rightarrow> string \<Rightarrow> time \<Rightarrow> module_runtime_registry" where
  "mark_running r site m now = put_handle r site m (\<lambda>h. h \<lparr> mh_state := MR_RUNNING,
     mh_started_at := Some now, mh_last_error := None \<rparr>)"

definition mark_stopping :: "module_runtime_registry \<Rightarrow> int \<Rightarrow> string \<Rightarrow> module_runtime_registry" where
  "mark_stopping r site m = put_handle r site m (\<lambda>h. h \<lparr> mh_state := MR_STOPPING, mh_cancelled := True \<rparr>)"

definition mark_stopped :: "module_runtime_registry \<Rightarrow> int \<Rightarrow> string \<Rightarrow> module_runtime_registry" where
  "mark_stopped r site m = put_handle r site m (\<lambda>h. h \<lparr> mh_state := MR_STOPPED, mh_has_task := False,
     mh_started_at := None, mh_cancelled := False \<rparr>)"

definition mark_blocked ::
  "module_runtime_registry \<Rightarrow> int \<Rightarrow> string \<Rightarrow> string \<Rightarrow> module_runtime_registry" where
  "mark_blocked r site m reason = put_handle r site m (\<lambda>h. h \<lparr> mh_state := MR_BLOCKED,
     mh_has_task := False, mh_started_at := None,
     mh_last_error := (if reason \<noteq> [] then Some reason else mh_last_error h) \<rparr>)"

definition mark_failed ::
  "module_runtime_registry \<Rightarrow> int \<Rightarrow> string \<Rightarrow> string \<Rightarrow> module_runtime_registry" where
  "mark_failed r site m err = put_handle r site m (\<lambda>h. h \<lparr> mh_state := MR_FAILED,
     mh_has_task := False, mh_last_error := Some err \<rparr>)"

definition clear_runtime_site :: "module_runtime_registry \<Rightarrow> int \<Rightarrow> module_runtime_registry" where
  "clear_runtime_site r site = filter (\<lambda>e. fst (fst e) \<noteq> site) r"

lemma get_handle_put: "get_handle (put_handle r site m f) s x
    = (if (s, x) = (site, m) then f (get_handle r site m) else get_handle r s x)"
  by (simp add: get_handle_def put_handle_def)

lemma get_state_mark [simp]:
  "get_state (mark_starting r site m) s x = (if (s, x) = (site, m) then MR_STARTING else get_state r s x)"
  "get_state (mark_running r site m now) s x = (if (s, x) = (site, m) then MR_RUNNING else get_state r s x)"
  "get_state (mark_stopping r site m) s x = (if (s, x) = (site, m) then MR_STOPPING else get_state r s x)"
  "get_state (mark_stopped r site m) s x = (if (s, x) = (site, m) then MR_STOPPED else get_state r s x)"
  "get_state (mark_blocked r site m reason) s x = (if (s, x) = (site, m) then MR_BLOCKED else get_state r s x)"
  "get_state (mark_failed r site m err) s x = (if (s, x) = (site, m) then MR_FAILED else get_state r s x)"
  by (simp_all add: get_state_def mark_starting_def mark_running_def mark_stopping_def
      mark_stopped_def mark_blocked_def mark_failed_def get_handle_put)

lemma distinct_handles_put:
  "distinct (map fst r) \<Longrightarrow> distinct (map fst (put_handle r site m f))"
  by (simp add: put_handle_def distinct_keys_update del: update_conv')

lemma active_iff_running:
  "distinct (map fst r) \<Longrightarrow> m \<in> set (active_modules_for_site r site) \<longleftrightarrow> is_running r site m"
  by (auto simp: active_modules_for_site_def is_running_def get_state_def get_handle_def
      or_else_def fresh_handle_def image_iff split: option.split)
    (metis map_of_is_SomeI option.inject option.distinct(1))+

subsection \<open>What the resolver reads\<close>

record site_row =
  sr_slug :: string
  sr_external_system :: bool
  sr_optimization_mode :: "string option"
  sr_economics_country :: "string option"

record site_env =
  se_module_gate_enabled :: bool
  se_arctic_spa_enabled :: bool
  se_energy_control_collector_enabled :: bool
  se_chargefinder_enabled :: bool
  se_redis_url_set :: bool
  se_registry :: module_registry
  se_site :: "int \<Rightarrow> site_row option"
  se_heartbeat_client :: bool
  se_chargers :: "int \<Rightarrow> (int \<times> bool) list"
  se_vehicle_connection :: "int \<Rightarrow> bool option"
  se_spa :: "string \<Rightarrow> (bool \<times> bool) option"
  se_solar_config :: "int \<Rightarrow> bool option"
  se_provider_health :: "int \<Rightarrow> (string \<times> module_health) list"
  se_installed_packages :: "string \<Rightarrow> (string \<times> string) option"
  se_device_name :: "int \<Rightarrow> string"

text \<open>
  \<open>_project_enabled\<close>: which modules the site's own configuration asks for. The dictionary has
  only true values; the optional fields are the rows of the charger, vehicle, spa and solar
  repositories (the flag \<open>enabled\<close>, for the spa with \<open>integration_enabled\<close>).
\<close>

definition set_true :: "string list \<Rightarrow> bool \<Rightarrow> (string \<times> bool) list \<Rightarrow> (string \<times> bool) list" where
  "set_true ms b d = (if b then foldl (\<lambda>r m. AList.update m True r) d ms else d)"

definition project_enabled :: "site_env \<Rightarrow> int \<Rightarrow> (string \<times> bool) list" where
  "project_enabled env site = (case se_site env site of
     None \<Rightarrow> []
   | Some row \<Rightarrow>
       set_true [''integration.chargefinder''] (se_chargefinder_enabled env)
      (set_true [''feature.energy-control'']
         ((case sr_optimization_mode row of None \<Rightarrow> False | Some mode \<Rightarrow> mode \<noteq> [] \<and> mode \<noteq> ''MONITOR_ONLY'')
           \<and> se_energy_control_collector_enabled env)
      (set_true [''feature.solar-forecast''] (se_solar_config env site = Some True)
      (set_true [''integration.arctic_spa'', ''feature.spa-energy'']
         (se_spa env (sr_slug row) = Some (True, True) \<and> se_arctic_spa_enabled env)
      (set_true [''integration.mercedes'', ''feature.vehicles''] (se_vehicle_connection env site = Some True)
      (set_true [''integration.chargeamps'', ''feature.smart-charging'', ''feature.energy-balance'']
         (list_ex snd (se_chargers env site))
      (set_true [''integration.heartbeat'', ''feature.price-engine'']
         (sr_external_system row \<and> se_heartbeat_client env) [])))))))"

text \<open>The rows of \<open>site_module_configuration\<close>, keyed by site and module.\<close>

type_synonym override_rows = "((int \<times> string) \<times> bool option) list"

definition load_overrides :: "override_rows \<Rightarrow> int \<Rightarrow> (string \<times> bool) list" where
  "load_overrides rows site = List.map_filter (\<lambda>e. if fst (fst e) = site
     then map_option (Pair (snd (fst e))) (snd e) else None) rows"

definition apply_overrides :: "(string \<times> bool) list \<Rightarrow> (string \<times> bool) list \<Rightarrow> (string \<times> bool) list" where
  "apply_overrides projection overrides =
     filter snd (foldl (\<lambda>merged e. AList.update (fst e) (snd e) merged) projection overrides)"

definition resolve_enabled_modules :: "site_env \<Rightarrow> override_rows \<Rightarrow> int \<Rightarrow> (string \<times> bool) list" where
  "resolve_enabled_modules env rows site =
     apply_overrides (project_enabled env site) (load_overrides rows site)"

definition enabled_ids :: "site_env \<Rightarrow> override_rows \<Rightarrow> int \<Rightarrow> string list" where
  "enabled_ids env rows site = map fst (resolve_enabled_modules env rows site)"

definition is_module_active :: "site_env \<Rightarrow> override_rows \<Rightarrow> int \<Rightarrow> string \<Rightarrow> bool" where
  "is_module_active env rows site m =
     or_else (map_of (resolve_enabled_modules env rows site) (resolve_module_id m)) False"

subsection \<open>Capabilities of the enabled modules\<close>

definition provide ::
  "int \<Rightarrow> string \<Rightarrow> capability list \<Rightarrow> string option \<Rightarrow> capability_registry \<Rightarrow> capability_registry" where
  "provide site m cs device caps = foldl (\<lambda>r c. register_provider r site m c device) caps cs"

definition provide_if ::
  "bool \<Rightarrow> int \<Rightarrow> string \<Rightarrow> capability list \<Rightarrow> capability_registry \<Rightarrow> capability_registry" where
  "provide_if b site m cs caps = (if b then provide site m cs None caps else caps)"

definition register_chargers :: "site_env \<Rightarrow> int \<Rightarrow> capability_registry \<Rightarrow> capability_registry" where
  "register_chargers env site caps = foldl (\<lambda>r c. if \<not> snd c then r
     else provide site ''integration.chargeamps''
       [EV_CHARGER_START, EV_CHARGER_STOP, EV_CHARGER_SET_CURRENT, EV_CHARGER_READ_POWER,
        EV_CHARGER_READ_ENERGY] (Some (se_device_name env (fst c))) r) caps (se_chargers env site)"

text \<open>The weather providers of the solar forecast are registered in the name of their own modules.\<close>

definition register_weather :: "site_env \<Rightarrow> int \<Rightarrow> capability_registry \<Rightarrow> capability_registry" where
  "register_weather env site caps =
     (let country = take 2 (py_upper (case Option.bind (se_site env site) sr_economics_country of
            None \<Rightarrow> ''SE'' | Some c \<Rightarrow> if c = [] then ''SE'' else c));
          c1 = (if country = ''DK'' then provide site ''integration.dmi'' [WEATHER_READ_FORECAST] None caps
            else if country = ''SE''
            then provide site ''integration.smhi'' [WEATHER_READ_FORECAST, WEATHER_READ_CURRENT] None caps
            else caps) in
      provide site ''integration.open_meteo'' [WEATHER_READ_FORECAST] None c1)"

definition register_installed ::
  "module_registry \<Rightarrow> int \<Rightarrow> string \<Rightarrow> capability_registry \<Rightarrow> capability_registry" where
  "register_installed reg site m caps = (case map_of reg m of
     None \<Rightarrow> caps
   | Some d \<Rightarrow> if md_package_source d \<noteq> INSTALLED then caps
       else provide site m (md_capabilities_provided d) None caps)"

text \<open>
  \<open>_register_site_capabilities\<close>; \<open>active\<close> is \<open>module_ids\<close>, or the keys of \<open>enabled\<close> when there
  are none, in the order the set is iterated.
\<close>

definition register_site_capabilities ::
  "site_env \<Rightarrow> int \<Rightarrow> (string \<times> bool) list \<Rightarrow> string list \<Rightarrow> capability_registry \<Rightarrow> capability_registry" where
  "register_site_capabilities env site enabled active caps =
     (let on = (\<lambda>m. m \<in> set active \<and> map_of enabled m = Some True);
          c1 = (if on ''integration.chargeamps'' then register_chargers env site caps else caps);
          c2 = provide_if (on ''integration.mercedes'') site ''integration.mercedes''
                 [VEHICLE_READ_SOC, VEHICLE_READ_RANGE, VEHICLE_READ_CHARGING_STATE] c1;
          c3 = provide_if (on ''integration.heartbeat'') site ''integration.heartbeat''
                 [ENERGY_READ_GRID_POWER, ENERGY_READ_SOLAR_POWER, BATTERY_READ_SOC, BATTERY_READ_POWER,
                  PRICE_READ_CURRENT, PRICE_READ_FORECAST] c2;
          c4 = provide_if (on ''integration.arctic_spa'') site ''integration.arctic_spa''
                 [SPA_READ_TEMPERATURE, READ_POWER] c3;
          c5 = provide_if (on ''feature.solar-forecast'') site ''feature.solar-forecast''
                 [FORECAST_SOLAR, WEATHER_READ_FORECAST] c4;
          c6 = (if on ''feature.solar-forecast'' then register_weather env site c5 else c5);
          c7 = provide_if (on ''integration.chargefinder'') site ''integration.chargefinder'' [READ_STATUS] c6 in
      foldl (\<lambda>r m. if map_of enabled m = Some True then register_installed (se_registry env) site m r else r)
        c7 active)"

definition register_capabilities_for_module ::
  "site_env \<Rightarrow> int \<Rightarrow> string \<Rightarrow> capability_registry \<Rightarrow> capability_registry" where
  "register_capabilities_for_module env site m caps =
     register_site_capabilities env site [(m, True)] [m] caps"

definition rebuild_runtime_capabilities ::
  "site_env \<Rightarrow> module_runtime_registry \<Rightarrow> int \<Rightarrow> (string \<times> bool) list \<Rightarrow> capability_registry \<Rightarrow> capability_registry" where
  "rebuild_runtime_capabilities env rt site enabled caps =
     (let cleared = clear_site caps site;
          running = filter (is_running rt site) (map fst enabled) in
      if running = [] then cleared else register_site_capabilities env site enabled running cleared)"

subsection \<open>Registration only adds providers\<close>

definition caps_below :: "capability_registry \<Rightarrow> capability_registry \<Rightarrow> bool" where
  "caps_below r r' \<longleftrightarrow> (\<forall>s c. set (providers_for r s c) \<subseteq> set (providers_for r' s c))"

lemma caps_below_refl [simp]: "caps_below r r"
  by (simp add: caps_below_def)

lemma caps_below_trans [trans]: "caps_below r s \<Longrightarrow> caps_below s t \<Longrightarrow> caps_below r t"
  by (fastforce simp: caps_below_def)

lemma caps_below_register: "caps_below r (register_provider r site m c device)"
  by (auto simp: caps_below_def providers_for_register)

interpretation provided: climbing "\<lambda>r c. register_provider r site m c device" caps_below
  for site :: int and m :: string and device :: "string option"
  by unfold_locales (auto intro: caps_below_trans caps_below_register)

lemma caps_below_provide: "caps_below r (provide site m cs device r)"
  unfolding provide_def by (rule provided.run_climbs)

interpretation chargers_registered: climbing "\<lambda>r c. if \<not> snd c then r
    else provide site m cs (Some (name (fst c))) r" caps_below
  for site :: int and m :: string and cs :: "capability list" and name :: "int \<Rightarrow> string"
  by unfold_locales (auto intro: caps_below_trans caps_below_provide)

lemma caps_below_installed: "caps_below r (register_installed reg site m r)"
  by (simp add: register_installed_def caps_below_provide split: option.split)

interpretation installed_registered: climbing
  "\<lambda>r m. if map_of enabled m = Some True then register_installed reg site m r else r" caps_below
  for enabled :: "(string \<times> bool) list" and reg :: module_registry and site :: int
  by unfold_locales (auto intro: caps_below_trans caps_below_installed)

lemma caps_below_chargers: "caps_below r (register_chargers env site r)"
  unfolding register_chargers_def by (rule chargers_registered.run_climbs)

lemma caps_below_weather: "caps_below r (register_weather env site r)"
  unfolding register_weather_def Let_def
  by (rule caps_below_trans [rotated], rule caps_below_provide) (simp add: caps_below_provide)

lemma caps_below_provide_if: "caps_below r s \<Longrightarrow> caps_below r (provide_if b site m cs s)"
  by (simp add: provide_if_def) (meson caps_below_trans caps_below_provide)

lemma caps_below_if: "(b \<Longrightarrow> caps_below r s) \<Longrightarrow> (\<not> b \<Longrightarrow> caps_below r t) \<Longrightarrow> caps_below r (if b then s else t)"
  by simp

lemma caps_below_register_site: "caps_below r (register_site_capabilities env site enabled active r)"
  unfolding register_site_capabilities_def Let_def
  by (rule caps_below_trans [rotated], rule installed_registered.run_climbs)
    (intro caps_below_provide_if caps_below_if caps_below_refl caps_below_chargers
      caps_below_trans [OF _ caps_below_weather])

lemma caps_below_has: "caps_below r r' \<Longrightarrow> site_has_capability r s c \<Longrightarrow> site_has_capability r' s c"
  by (auto simp: caps_below_def site_has_capability_def)
    (metis subset_empty set_empty)

text \<open>
  The forecast of the weather, which \<open>feature.solar-forecast\<close> provides without declaring it, always
  has another provider.
\<close>

lemma other_providers_mono:
  "caps_below r r' \<Longrightarrow> other_providers_exist r site c m \<Longrightarrow> other_providers_exist r' site c m"
  unfolding caps_below_def other_providers_exist_def list_ex_iff by blast

lemma register_provider_other: "m \<noteq> x \<Longrightarrow> other_providers_exist (register_provider r site m c device) site c x"
  by (auto simp: other_providers_exist_def providers_for_register list_ex_iff)

lemma register_weather_other:
  "other_providers_exist (register_weather env site r) site WEATHER_READ_FORECAST ''feature.solar-forecast''"
  by (simp add: register_weather_def Let_def) (simp add: provide_def register_provider_other)

lemma forecast_weather_backed:
  assumes "''feature.solar-forecast'' \<in> set active" "map_of enabled ''feature.solar-forecast'' = Some True"
  shows "other_providers_exist (register_site_capabilities env site enabled active caps) site
    WEATHER_READ_FORECAST ''feature.solar-forecast''"
  unfolding register_site_capabilities_def Let_def
  by (rule other_providers_mono, rule installed_registered.run_climbs, rule other_providers_mono,
      rule caps_below_provide_if [OF caps_below_refl]) (simp add: assms register_weather_other)

subsection \<open>The state of the module services\<close>

record runtime_snapshot =
  rs_site_id :: int
  rs_module_id :: string
  rs_runtime_state :: runtime_status
  rs_last_error :: "string option"
  rs_module_version :: "string option"
  rs_package_checksum :: "string option"

record site_module_state =
  sm_module_id :: string
  sm_name :: string
  sm_version :: string
  sm_module_type :: module_type
  sm_enabled :: bool
  sm_activation :: activation_status
  sm_runtime_status :: runtime_status
  sm_health_status :: module_health
  sm_capabilities_provided :: "string list"
  sm_capabilities_required :: "string list"
  sm_optional_capabilities :: "string list"
  sm_missing_required :: "string list"
  sm_missing_optional :: "string list"
  sm_can_start :: bool
  sm_last_error :: "string option"

text \<open>The calls to handlers and isolated runtimes so far: what a handler does may depend on them.\<close>

datatype lifecycle_call = Start_Called int string | Stop_Called int string

text \<open>
  The process-wide registries, the override rows, the cached listings with their time, what was
  published to Redis, and the sites marked dirty.
\<close>

record modules_state =
  ms_caps :: capability_registry
  ms_runtime :: module_runtime_registry
  ms_overrides :: override_rows
  ms_cache :: "(int \<times> (time \<times> site_module_state list)) list"
  ms_published :: "runtime_snapshot list"
  ms_dirty :: "int list"
  ms_calls :: "lifecycle_call list"

definition site_enabled :: "site_env \<Rightarrow> modules_state \<Rightarrow> int \<Rightarrow> string list" where
  "site_enabled env st site = enabled_ids env (ms_overrides st) site"

definition invalidate_site_module_cache :: "int option \<Rightarrow> modules_state \<Rightarrow> modules_state" where
  "invalidate_site_module_cache site st = (case site of
     None \<Rightarrow> st \<lparr> ms_cache := [] \<rparr>
   | Some s \<Rightarrow> st \<lparr> ms_cache := AList.delete s (ms_cache st) \<rparr>)"

definition mark_site_modules_dirty :: "int \<Rightarrow> modules_state \<Rightarrow> modules_state" where
  "mark_site_modules_dirty site st = st \<lparr> ms_dirty := List.insert site (ms_dirty st) \<rparr>"

definition drain_dirty_module_sites :: "modules_state \<Rightarrow> int list \<times> modules_state" where
  "drain_dirty_module_sites st = (ms_dirty st, st \<lparr> ms_dirty := [] \<rparr>)"

subsection \<open>Gating of collector lanes\<close>

definition is_module_runtime_active :: "site_env \<Rightarrow> modules_state \<Rightarrow> int \<Rightarrow> string \<Rightarrow> bool" where
  "is_module_runtime_active env st site module_id =
     (if \<not> se_module_gate_enabled env then True
      else let canonical = resolve_module_id module_id in
        if \<not> is_module_active env (ms_overrides st) site canonical then False
        else get_state (ms_runtime st) site canonical = MR_RUNNING)"

definition filter_sites_for_module :: "site_env \<Rightarrow> modules_state \<Rightarrow> int list \<Rightarrow> string \<Rightarrow> int list" where
  "filter_sites_for_module env st sites m =
     (if \<not> se_module_gate_enabled env then sites
      else filter (\<lambda>site. is_module_runtime_active env st site m) sites)"

definition any_site_module_runtime_active :: "site_env \<Rightarrow> modules_state \<Rightarrow> int list \<Rightarrow> string \<Rightarrow> bool" where
  "any_site_module_runtime_active env st sites m =
     list_ex (\<lambda>site. is_module_runtime_active env st site m) sites"

text \<open>\<open>isolation/policy.py\<close>.\<close>

definition requires_isolated_runtime :: "module_descriptor \<Rightarrow> bool" where
  "requires_isolated_runtime d \<longleftrightarrow> md_package_source d \<noteq> BUILT_IN"

definition tier_allows_runtime :: "string option \<Rightarrow> bool" where
  "tier_allows_runtime tier \<longleftrightarrow>
     py_upper (case tier of None \<Rightarrow> ''COMMUNITY'' | Some t \<Rightarrow> if t = [] then ''COMMUNITY'' else t)
       \<in> {''VERIFIED'', ''ORG_APPROVED'', ''OFFICIAL''}"

definition runtime_blocked_reason :: "bool \<Rightarrow> string option" where
  "runtime_blocked_reason spawn_allowed = (if \<not> spawn_allowed then Some ''THIRD_PARTY_RUNTIME_DISABLED'' else None)"

subsection \<open>Listing the modules of a site\<close>

definition CACHE_TTL_SECONDS :: seconds where
  "CACHE_TTL_SECONDS = 30"

definition INTEGRATION_PROVIDER_MODULE_MAP :: "(string \<times> string) list" where
  "INTEGRATION_PROVIDER_MODULE_MAP =
     [(''heartbeat'', ''integration.heartbeat''), (''price_engine'', ''feature.price-engine''),
      (''solar_forecast'', ''feature.solar-forecast''), (''arctic_spa'', ''integration.arctic_spa''),
      (''energy_control'', ''feature.energy-control''), (''mercedes'', ''integration.mercedes''),
      (''chargefinder'', ''integration.chargefinder''), (''chargeamps'', ''integration.chargeamps'')]"

definition resolve_distributed_runtime_status ::
  "runtime_snapshot option \<Rightarrow> runtime_status \<Rightarrow> bool \<Rightarrow> bool \<Rightarrow> runtime_status" where
  "resolve_distributed_runtime_status snapshot local_state enabled expected =
     (if \<not> enabled then MR_STOPPED
      else case snapshot of Some s \<Rightarrow> rs_runtime_state s
      | None \<Rightarrow> if expected then MR_UNKNOWN else local_state)"

definition site_module_health :: "site_env \<Rightarrow> int \<Rightarrow> module_descriptor \<Rightarrow> bool \<Rightarrow> module_health" where
  "site_module_health env site d enabled =
     (if \<not> enabled then MH_UNKNOWN
      else if md_module_type d \<noteq> INTEGRATION then MH_HEALTHY
      else case find (\<lambda>r. map_of INTEGRATION_PROVIDER_MODULE_MAP (fst r) = Some (md_module_id d))
          (se_provider_health env site) of
        Some r \<Rightarrow> snd r | None \<Rightarrow> MH_UNKNOWN)"

text \<open>The body of the loop of \<open>list_modules\<close>.\<close>

definition site_module_view ::
  "site_env \<Rightarrow> (string \<times> runtime_snapshot) list \<Rightarrow> modules_state \<Rightarrow> int \<Rightarrow> (string \<times> bool) list
   \<Rightarrow> module_descriptor \<Rightarrow> site_module_state" where
  "site_module_view env distributed st site enabled_modules d =
     (let m = md_module_id d;
          enabled = or_else (map_of enabled_modules m) False;
          cs = can_start (se_registry env) m site (map fst enabled_modules) (ms_caps st);
          handle = get_handle (ms_runtime st) site m;
          snapshot = map_of distributed m;
          status = resolve_distributed_runtime_status snapshot (mh_state handle) enabled
            (se_redis_url_set env \<and> enabled);
          last_error = (case Option.bind snapshot rs_last_error of
             None \<Rightarrow> mh_last_error handle
           | Some e \<Rightarrow> if e = [] then mh_last_error handle else Some e);
          status1 = (if \<not> enabled then MR_STOPPED
            else if can_start_ok cs then status
            else if snapshot = None then MR_BLOCKED else status);
          health = site_module_health env site d enabled in
      \<lparr> sm_module_id = m, sm_name = md_name d, sm_version = md_version d,
        sm_module_type = md_module_type d, sm_enabled = enabled,
        sm_activation = (if enabled then ACT_ENABLED else ACT_DISABLED),
        sm_runtime_status = status1,
        sm_health_status = (if status1 = MR_RUNNING \<and> health = MH_UNKNOWN \<and> md_module_type d \<noteq> INTEGRATION
          then MH_HEALTHY else health),
        sm_capabilities_provided = map capability_value (md_capabilities_provided d),
        sm_capabilities_required = map capability_value (md_capabilities_required d),
        sm_optional_capabilities = map capability_value (md_optional_capabilities d),
        sm_missing_required = map capability_value (missing_required cs),
        sm_missing_optional = map capability_value (missing_optional cs),
        sm_can_start = can_start_ok cs, sm_last_error = last_error \<rparr>)"

definition listed_module :: "module_descriptor \<Rightarrow> bool" where
  "listed_module d \<longleftrightarrow> md_module_id d \<notin> fst ` set LEGACY_MODULE_ALIASES
     \<and> \<not> (\<not> md_supports_per_site_activation d \<and> md_module_type d = CORE)"

definition refresh_site_modules ::
  "site_env \<Rightarrow> (string \<times> runtime_snapshot) list \<Rightarrow> time \<Rightarrow> int \<Rightarrow> modules_state
   \<Rightarrow> site_module_state list \<times> modules_state" where
  "refresh_site_modules env distributed now site st =
     (let enabled = resolve_enabled_modules env (ms_overrides st) site;
          st1 = st \<lparr> ms_caps := rebuild_runtime_capabilities env (ms_runtime st) site enabled (ms_caps st) \<rparr>;
          views = map (site_module_view env distributed st1 site enabled)
            (filter listed_module (list_modules (se_registry env))) in
      (views, st1 \<lparr> ms_cache := AList.update site (now, views) (ms_cache st1) \<rparr>))"

definition list_site_modules ::
  "site_env \<Rightarrow> (string \<times> runtime_snapshot) list \<Rightarrow> time \<Rightarrow> bool \<Rightarrow> int \<Rightarrow> modules_state
   \<Rightarrow> site_module_state list \<times> modules_state" where
  "list_site_modules env distributed now use_cache site st =
     (case (if use_cache then map_of (ms_cache st) site else None) of
        Some c \<Rightarrow> if elapsed_s now (fst c) \<le> CACHE_TTL_SECONDS then (snd c, st)
          else refresh_site_modules env distributed now site st
      | None \<Rightarrow> refresh_site_modules env distributed now site st)"

definition is_module_enabled ::
  "site_env \<Rightarrow> (string \<times> runtime_snapshot) list \<Rightarrow> time \<Rightarrow> int \<Rightarrow> string \<Rightarrow> modules_state \<Rightarrow> bool \<times> modules_state" where
  "is_module_enabled env distributed now site m st =
     (let r = list_site_modules env distributed now True site st in
      (case find (\<lambda>v. sm_module_id v = resolve_module_id m) (fst r) of
         Some v \<Rightarrow> sm_enabled v \<and> sm_can_start v | None \<Rightarrow> False, snd r))"

text \<open>Both checks of the dashboard first register every enabled module's capabilities.\<close>

definition assume_enabled_running :: "site_env \<Rightarrow> int \<Rightarrow> modules_state \<Rightarrow> modules_state" where
  "assume_enabled_running env site st =
     (let enabled = resolve_enabled_modules env (ms_overrides st) site in
      st \<lparr> ms_caps := register_site_capabilities env site enabled (map fst enabled)
        (clear_site (ms_caps st) site) \<rparr>)"

definition site_can_disable :: "site_env \<Rightarrow> int \<Rightarrow> string \<Rightarrow> modules_state \<Rightarrow> can_disable_result \<times> modules_state" where
  "site_can_disable env site m st =
     (let st1 = assume_enabled_running env site st in
      (can_disable (se_registry env) (resolve_module_id m) site (site_enabled env st site) (ms_caps st1), st1))"

definition can_start_module :: "site_env \<Rightarrow> int \<Rightarrow> string \<Rightarrow> modules_state \<Rightarrow> can_start_result \<times> modules_state" where
  "can_start_module env site m st =
     (let st1 = assume_enabled_running env site st in
      (can_start (se_registry env) (resolve_module_id m) site (site_enabled env st site) (ms_caps st1), st1))"

text \<open>
  \<open>persist_enabled_override\<close>: the result is a \<open>ValueError\<close> or the module's view; the row that was
  written before an unknown module raises stays until the caller rolls the session back.
\<close>

definition persist_enabled_override ::
  "site_env \<Rightarrow> (string \<times> runtime_snapshot) list \<Rightarrow> time \<Rightarrow> int \<Rightarrow> string \<Rightarrow> bool \<Rightarrow> modules_state
   \<Rightarrow> (string + site_module_state) \<times> modules_state" where
  "persist_enabled_override env distributed now site module_id enabled st =
     (let m = resolve_module_id module_id;
          check = (if enabled then None else Some (site_can_disable env site m st));
          st1 = (case check of None \<Rightarrow> st | Some c \<Rightarrow> snd c) in
      case (case check of None \<Rightarrow> None | Some c \<Rightarrow> if allowed (fst c) then None
              else Some (or_else (disable_reason (fst c)) ''Cannot disable module'')) of
        Some reason \<Rightarrow> (Inl reason, st1)
      | None \<Rightarrow>
          (let st2 = invalidate_site_module_cache (Some site)
                 (st1 \<lparr> ms_overrides := AList.update (site, m) (Some enabled) (ms_overrides st1) \<rparr>);
               r = list_site_modules env distributed now False site st2 in
           (case find (\<lambda>v. sm_module_id v = m) (fst r) of
              Some v \<Rightarrow> Inr v | None \<Rightarrow> Inl (''Unknown module: '' @ m), snd r)))"

subsection \<open>Overrides decide\<close>

lemma map_of_foldl_update:
  "map_of (foldl (\<lambda>merged e. AList.update (fst e) (snd e) merged) d es) k
     = (case map_of (rev es) k of None \<Rightarrow> map_of d k | Some v \<Rightarrow> Some v)"
proof (induction es arbitrary: d)
  case (Cons e es)
  then show ?case by (cases e) (auto simp: map_add_def split: option.split)
qed simp

lemma distinct_foldl_update:
  "distinct (map fst d) \<Longrightarrow> distinct (map fst (foldl (\<lambda>merged e. AList.update (fst e) (snd e) merged) d es))"
  by (induction es arbitrary: d) (simp_all add: distinct_keys_update del: update_conv')

lemma distinct_set_true: "distinct (map fst d) \<Longrightarrow> distinct (map fst (set_true ms b d))"
proof -
  have "distinct (map fst d) \<Longrightarrow> distinct (map fst (foldl (\<lambda>r m. AList.update m True r) d ms))"
    by (induction ms arbitrary: d) (simp_all add: distinct_keys_update del: update_conv')
  then show "distinct (map fst d) \<Longrightarrow> distinct (map fst (set_true ms b d))"
    by (simp add: set_true_def)
qed

lemma distinct_project: "distinct (map fst (project_enabled env site))"
  unfolding project_enabled_def
  by (cases "se_site env site") (simp, simp only: option.case, intro distinct_set_true, simp)

lemma map_of_filter_snd:
  "distinct (map fst d) \<Longrightarrow> map_of (filter snd d) k = (if map_of d k = Some True then Some True else None)"
  by (induction d) (auto simp: image_iff dest: map_of_SomeD split: if_splits)

lemma map_of_resolve_enabled:
  "map_of (resolve_enabled_modules env rows site) m
     = (if (case map_of (rev (load_overrides rows site)) m of Some b \<Rightarrow> b
            | None \<Rightarrow> map_of (project_enabled env site) m = Some True) then Some True else None)"
  unfolding resolve_enabled_modules_def apply_overrides_def
  by (simp add: map_of_filter_snd distinct_foldl_update distinct_project map_of_foldl_update
      split: option.split)

lemma keys_filter_snd:
  "distinct (map fst d) \<Longrightarrow> k \<in> fst ` set (filter snd d) \<longleftrightarrow> map_of (filter snd d) k = Some True"
  by (induction d) (auto simp: image_iff)

lemma enabled_ids_iff:
  "m \<in> set (enabled_ids env rows site) \<longleftrightarrow> map_of (resolve_enabled_modules env rows site) m = Some True"
  unfolding enabled_ids_def resolve_enabled_modules_def apply_overrides_def set_map
  by (rule keys_filter_snd) (simp add: distinct_foldl_update distinct_project)

lemma is_module_active_iff:
  "is_module_active env rows site m \<longleftrightarrow> resolve_module_id m \<in> set (enabled_ids env rows site)"
  unfolding is_module_active_def enabled_ids_iff by (simp add: map_of_resolve_enabled)

lemma map_of_load_overrides:
  "distinct (map fst rows) \<Longrightarrow> map_of (load_overrides rows s) x = Option.bind (map_of rows (s, x)) id"
proof (induction rows)
  case (Cons e rows)
  obtain k v where e: "e = (k, v)" by (cases e)
  have "map_of (load_overrides rows s) x = None" if "k = (s, x)"
    using Cons that unfolding e by (metis bind.bind_lzero distinct.simps(2) fst_conv list.simps(9) map_of_eq_None_iff set_map)
  then show ?case
    using Cons unfolding e
    by (cases k; cases v) (auto simp: load_overrides_def List.map_filter_simps)
qed (simp add: load_overrides_def List.map_filter_simps)

lemma distinct_load_overrides:
  "distinct (map fst rows) \<Longrightarrow> distinct (map fst (load_overrides rows s))"
proof (induction rows)
  case (Cons e rows)
  obtain k v where e: "e = (k, v)" by (cases e)
  have "snd k \<notin> fst ` set (load_overrides rows s)" if "fst k = s"
  proof -
    have "map_of (load_overrides rows s) (snd k) = None"
      using Cons that unfolding e by (simp add: map_of_load_overrides map_of_eq_None_iff)
        (metis map_of_eq_None_iff bind_eq_None_conv prod.collapse)
    then show ?thesis by (simp add: map_of_eq_None_iff)
  qed
  then show ?case
    using Cons unfolding e by (cases v) (auto simp: load_overrides_def List.map_filter_simps)
qed (simp add: load_overrides_def List.map_filter_simps)

lemma map_of_rev_distinct: "distinct (map fst xs) \<Longrightarrow> map_of (rev xs) = map_of xs"
  by (subst map_of_inject_set) (simp_all add: rev_map [symmetric])

lemma load_overrides_update:
  assumes "distinct (map fst rows)"
  shows "map_of (rev (load_overrides (AList.update (site, m) (Some b) rows) s)) x
     = (if (s, x) = (site, m) then Some b else map_of (rev (load_overrides rows s)) x)"
  using assms by (simp add: map_of_load_overrides distinct_load_overrides
      map_of_rev_distinct distinct_keys_update del: update_conv')

end
