(* ===== verification/Isolation_Manager.thy ===== *)
theory Isolation_Manager
  imports Isolation_Runs Module_Sites Governance_Policy
begin

section \<open>The runtime manager and its supervisor\<close>

text \<open>
  \<open>platform/modules/isolation/manager.py\<close>, \<open>supervisor.py\<close>, \<open>security_monitor.py\<close>, the runtime
  table of \<open>repository.py\<close> and \<open>runtime_authorization/\<close>: starting, stopping and restarting
  isolated runtimes, heartbeats and crash loops, revocations.

  The state holds the tables and one manager object: its processes, the supervisor's miss
  counts and its gateway. Two logs record what was done to the operating system: the launches
  and the terminations. Launching, waiting for the module, the file system and the advisory
  match are parameters that may depend on the whole state; while the manager waits, the
  requests served by the gateway are events. An operation returns a value or the message of the
  exception it ends with, and what was flushed to the session before stays until the caller
  commits or rolls back; the tables as last committed are kept beside them.
\<close>

subsection \<open>Tables\<close>

datatype runtime_event_type =
    EV_PREPARE | EV_START | EV_HANDSHAKE | EV_READY | EV_STOP | EV_CRASH | EV_QUARANTINE | EV_DENY
  | EV_RPC_DENIED | EV_PERMISSION_DENIED | EV_SECRET_ACCESS | EV_NETWORK_REQUEST | EV_DEVICE_COMMAND
  | EV_RESOURCE_LIMIT | EV_IDENTITY_MISMATCH | EV_REVOCATION_STOP | EV_PRIVILEGE_DROP_FAILED

record runtime_row = runtime_record +
  rw_publisher_id :: string
  rw_process :: "(int \<times> string) option"
  rw_sandbox_mode :: "string option"
  rw_socket_path :: "string option"
  rw_package_path :: "string option"
  rw_data_path :: "string option"
  rw_restart_count :: nat
  rw_last_error :: "string option"
  rw_reason_codes :: "string list"
  rw_permissions :: "string list"
  rw_started_at :: "time option"
  rw_last_heartbeat_at :: "time option"

record runtime_authorization =
  ra_id :: nat
  ra_module_id :: string
  ra_version :: string
  ra_artifact_sha256 :: string
  ra_publisher_id :: string
  ra_site_id :: int
  ra_approved_by :: string
  ra_expires_at :: time
  ra_revoked_at :: "time option"
  ra_reason :: "string option"

record runtime_event =
  re_runtime_instance_id :: string
  re_event_type :: runtime_event_type
  re_module_id :: string
  re_site_id :: int

record isolation_state =
  im_rows :: "(string \<times> runtime_row) list"
  im_events :: "runtime_event list"
  im_authorizations :: "runtime_authorization list"
  im_processes :: "(string \<times> (int \<times> string)) list"
  im_misses :: "(string \<times> nat) list"
  im_gateway :: gateway
  im_launches :: "string list"
  im_terminations :: "(int \<times> string) list"
  im_committed :: "(string \<times> runtime_row) list \<times> runtime_event list \<times> runtime_authorization list"

text \<open>The end of a database session; processes, the gateway and the logs are not part of it.\<close>

definition commit :: "isolation_state \<Rightarrow> isolation_state" where
  "commit st = st\<lparr> im_committed := (im_rows st, im_events st, im_authorizations st) \<rparr>"

definition roll_back :: "isolation_state \<Rightarrow> isolation_state" where
  "roll_back st = st\<lparr> im_rows := fst (im_committed st), im_events := fst (snd (im_committed st)),
     im_authorizations := snd (snd (im_committed st)) \<rparr>"

type_synonym 'a managed = "(string + 'a) \<times> isolation_state"

definition and_then :: "'a managed \<Rightarrow> ('a \<Rightarrow> isolation_state \<Rightarrow> 'b managed) \<Rightarrow> 'b managed" where
  "and_then r f = (case fst r of Inl e \<Rightarrow> (Inl e, snd r) | Inr a \<Rightarrow> f a (snd r))"

fun for_each :: "('a \<Rightarrow> isolation_state \<Rightarrow> unit managed) \<Rightarrow> 'a list \<Rightarrow> isolation_state \<Rightarrow> unit managed" where
  "for_each f [] st = (Inr (), st)"
| "for_each f (x # xs) st = and_then (f x st) (\<lambda>_. for_each f xs)"

subsection \<open>What the manager depends on\<close>

record isolated_package =
  ik_publisher :: string
  ik_version :: string
  ik_checksum :: string
  ik_path :: string

record manager_env =
  me_gateway :: environment
  me_spawn_allowed :: bool
  me_registry :: module_registry
  me_packages :: "string \<Rightarrow> isolated_package option"
  me_manifest :: "string \<Rightarrow> string + (string list \<times> string list)"
  me_content_sha256 :: "string \<Rightarrow> string + string"
  me_policy :: installation_policy
  me_publishers :: "string \<Rightarrow> publisher_snapshot option"
  me_revocations :: revocation_context
  me_owner :: "string \<Rightarrow> string option"
  me_break_glass_active :: bool
  me_marketplace_enabled :: bool
  me_production :: bool
  me_critical_advisory :: "string \<Rightarrow> string \<Rightarrow> bool"
  me_sandbox_mode :: string
  me_data_path :: "string \<Rightarrow> int \<Rightarrow> string \<Rightarrow> string"
  me_listen_address :: "string \<Rightarrow> string"
  me_site_config :: "string \<Rightarrow> int \<Rightarrow> (string \<times> json) list"
  me_credential :: "string \<Rightarrow> int \<Rightarrow> (string \<times> string) option"
  me_startup_token :: "isolation_state \<Rightarrow> string \<Rightarrow> string"
  me_setup_fault :: "isolation_state \<Rightarrow> string \<Rightarrow> string option"
  me_server_fault :: "isolation_state \<Rightarrow> string \<Rightarrow> string option"
  me_launch :: "isolation_state \<Rightarrow> string \<Rightarrow> string + (int \<times> string)"
  me_polls :: "isolation_state \<Rightarrow> string \<Rightarrow> ((time \<times> string \<times> rpc_request) list \<times> bool) list"
  me_exited :: "isolation_state \<Rightarrow> string \<Rightarrow> bool"
  me_disk_bytes :: "isolation_state \<Rightarrow> string \<Rightarrow> int option"
  me_heartbeat_interval :: seconds
  me_miss_threshold :: nat
  me_max_restarts :: nat
  me_restart_backoff :: seconds
  me_data_quota_mb :: int

subsection \<open>Repository\<close>

fun runtime_state_value :: "runtime_state \<Rightarrow> string" where
  "runtime_state_value PREPARING = ''PREPARING''"
| "runtime_state_value STARTING = ''STARTING''"
| "runtime_state_value HANDSHAKING = ''HANDSHAKING''"
| "runtime_state_value READY = ''READY''"
| "runtime_state_value RUNNING = ''RUNNING''"
| "runtime_state_value DEGRADED = ''DEGRADED''"
| "runtime_state_value STOPPING = ''STOPPING''"
| "runtime_state_value STOPPED = ''STOPPED''"
| "runtime_state_value CRASHED = ''CRASHED''"
| "runtime_state_value runtime_state.QUARANTINED = ''QUARANTINED''"
| "runtime_state_value BLOCKED = ''BLOCKED''"

text \<open>\<open>transition\<close>: an unknown instance is ignored, an illegal change raises, the fields are an update.\<close>

definition transition_row ::
  "string \<Rightarrow> runtime_state \<Rightarrow> (runtime_row \<Rightarrow> runtime_row) \<Rightarrow> isolation_state \<Rightarrow> unit managed" where
  "transition_row i b upd st = (case map_of (im_rows st) i of
     None \<Rightarrow> (Inr (), st)
   | Some r \<Rightarrow>
       (case assert_transition (rr_state r) b of
          Inl e \<Rightarrow> (Inl (''Illegal runtime transition: '' @ runtime_state_value (rr_state r)
                    @ '' -> '' @ runtime_state_value b), st)
        | Inr _ \<Rightarrow> (Inr (), st\<lparr> im_rows := AList.update i (upd (r\<lparr> rr_state := b \<rparr>)) (im_rows st) \<rparr>)))"

definition record_event ::
  "string \<Rightarrow> runtime_event_type \<Rightarrow> string \<Rightarrow> int \<Rightarrow> isolation_state \<Rightarrow> isolation_state" where
  "record_event i t m site st = st\<lparr> im_events := im_events st @ [\<lparr> re_runtime_instance_id = i,
     re_event_type = t, re_module_id = m, re_site_id = site \<rparr>] \<rparr>"

text \<open>\<open>create_instance\<close>; \<open>i\<close> is the fresh uuid, and the column is unique.\<close>

definition create_instance ::
  "string \<Rightarrow> string \<Rightarrow> string \<Rightarrow> string \<Rightarrow> string \<Rightarrow> int \<Rightarrow> string list \<Rightarrow> isolation_state \<Rightarrow> runtime_row managed" where
  "create_instance i m version publisher sha site permissions st =
     (if map_of (im_rows st) i \<noteq> None then (Inl ''IntegrityError'', st)
      else let r = \<lparr> rr_runtime_instance_id = i, rr_module_id = m, rr_version = version,
             rr_artifact_sha256 = sha, rr_site_id = site, rr_state = PREPARING,
             rw_publisher_id = publisher, rw_process = None, rw_sandbox_mode = None,
             rw_socket_path = None, rw_package_path = None, rw_data_path = None,
             rw_restart_count = 0, rw_last_error = None, rw_reason_codes = [],
             rw_permissions = permissions, rw_started_at = None, rw_last_heartbeat_at = None \<rparr>
        in (Inr r, st\<lparr> im_rows := im_rows st @ [(i, r)] \<rparr>))"

text \<open>\<open>list_instances\<close>: newest first.\<close>

definition list_instances :: "isolation_state \<Rightarrow> runtime_row list" where
  "list_instances st = rev (map snd (im_rows st))"

definition record_heartbeat :: "time \<Rightarrow> string \<Rightarrow> isolation_state \<Rightarrow> isolation_state" where
  "record_heartbeat now i st = (case map_of (im_rows st) i of
     None \<Rightarrow> st
   | Some r \<Rightarrow> st\<lparr> im_rows := AList.update i (r\<lparr> rw_last_heartbeat_at := Some now \<rparr>) (im_rows st) \<rparr>)"

subsection \<open>Runtime authorizations\<close>

definition find_valid ::
  "time \<Rightarrow> string \<Rightarrow> string \<Rightarrow> string \<Rightarrow> string \<Rightarrow> int \<Rightarrow> isolation_state \<Rightarrow> runtime_authorization option" where
  "find_valid now m version sha publisher site st = find (\<lambda>a. ra_module_id a = m \<and> ra_version a = version
     \<and> ra_artifact_sha256 a = py_lower sha \<and> ra_publisher_id a = publisher \<and> ra_site_id a = site
     \<and> ra_revoked_at a = None \<and> now < ra_expires_at a) (im_authorizations st)"

definition grant_authorization ::
  "time \<Rightarrow> string \<Rightarrow> string \<Rightarrow> string \<Rightarrow> string \<Rightarrow> int \<Rightarrow> string \<Rightarrow> time option \<Rightarrow> int \<Rightarrow> string option
   \<Rightarrow> isolation_state \<Rightarrow> runtime_authorization managed" where
  "grant_authorization now m version sha publisher site approved_by expires_at ttl_days reason st =
     (if m = [] \<or> version = [] \<or> sha = [] \<or> publisher = [] then (Inl ''exact module identity required'', st)
      else if CHR ''*'' \<in> set m \<or> CHR ''*'' \<in> set publisher then (Inl ''wildcards not allowed'', st)
      else let a = \<lparr> ra_id = Suc (length (im_authorizations st)), ra_module_id = m, ra_version = version,
             ra_artifact_sha256 = py_lower sha, ra_publisher_id = publisher, ra_site_id = site,
             ra_approved_by = approved_by,
             ra_expires_at = or_else expires_at (now + ttl_days * 86400 * us_per_s),
             ra_revoked_at = None, ra_reason = reason \<rparr>
        in (Inr a, st\<lparr> im_authorizations := im_authorizations st @ [a] \<rparr>))"

definition revoke_authorization :: "time \<Rightarrow> nat \<Rightarrow> isolation_state \<Rightarrow> isolation_state" where
  "revoke_authorization now a st = st\<lparr> im_authorizations :=
     map (\<lambda>r. if ra_id r = a then r\<lparr> ra_revoked_at := Some now \<rparr> else r) (im_authorizations st) \<rparr>"

definition runtime_spawn_allowed ::
  "manager_env \<Rightarrow> time \<Rightarrow> string \<Rightarrow> string \<Rightarrow> string \<Rightarrow> string \<Rightarrow> int \<Rightarrow> isolation_state \<Rightarrow> bool" where
  "runtime_spawn_allowed env now m version sha publisher site st \<longleftrightarrow>
     me_spawn_allowed env \<or> find_valid now m version sha publisher site st \<noteq> None"

subsection \<open>Requests while the manager runs\<close>

definition on_heartbeat :: "time \<Rightarrow> string \<Rightarrow> isolation_state \<Rightarrow> isolation_state" where
  "on_heartbeat now i st = (record_heartbeat now i st)\<lparr> im_misses := AList.update i 0 (im_misses st) \<rparr>"

text \<open>
  A served \<open>GetHealth\<close> is the heartbeat; \<open>_publish_climate_readings\<close> commits the session it shares
  with the manager.
\<close>

definition serve_request :: "manager_env \<Rightarrow> time \<times> string \<times> rpc_request \<Rightarrow> isolation_state \<Rightarrow> isolation_state" where
  "serve_request env ev st =
     (let now = fst ev; raw = fst (snd ev); q = snd (snd ev);
          response = respond (me_gateway env) now raw q (im_gateway st);
          st1 = st\<lparr> im_gateway := gateway_step (me_gateway env) (im_gateway st) (now, Rpc raw q) \<rparr> in
      case response of
        Some (Inr (R_health _)) \<Rightarrow> on_heartbeat now (rq_runtime_instance_id q) st1
      | Some (Inr (R_count _)) \<Rightarrow> commit st1
      | _ \<Rightarrow> st1)"

text \<open>\<open>_wait_for_process_ready\<close>: each poll follows some requests; the last one is before the deadline.\<close>

fun wait_for_process_ready ::
  "manager_env \<Rightarrow> string \<Rightarrow> ((time \<times> string \<times> rpc_request) list \<times> bool) list \<Rightarrow> isolation_state
   \<Rightarrow> bool \<times> isolation_state" where
  "wait_for_process_ready env i [] st = (False, st)"
| "wait_for_process_ready env i (p # ps) st =
     (let st1 = foldl (\<lambda>s ev. serve_request env ev s) st (fst p) in
      if is_process_ready (im_gateway st1) i then (True, st1)
      else if snd p then (False, st1)
      else wait_for_process_ready env i ps st1)"

subsection \<open>Stopping\<close>

definition detach :: "string \<Rightarrow> isolation_state \<Rightarrow> isolation_state" where
  "detach i st = (let g = unregister_runtime i (im_gateway st) in
     st\<lparr> im_gateway := g\<lparr> gw_device := revoke_leases i (gw_device g) \<rparr> \<rparr>)"

definition clear_runtime :: "string \<Rightarrow> isolation_state \<Rightarrow> isolation_state" where
  "clear_runtime i st = st\<lparr> im_misses := AList.delete i (im_misses st) \<rparr>"

definition stop_runtime :: "string \<Rightarrow> string \<Rightarrow> isolation_state \<Rightarrow> unit managed" where
  "stop_runtime i reason st =
     (let proc = map_of (im_processes st) i;
          st1 = st\<lparr> im_processes := AList.delete i (im_processes st) \<rparr> in
      case map_of (im_rows st) i of
        None \<Rightarrow> (Inr (), st1)
      | Some r \<Rightarrow>
          and_then (transition_row i STOPPING (\<lambda>r. r) st1) (\<lambda>_ st2.
            let st3 = (case proc of None \<Rightarrow> st2
                  | Some p \<Rightarrow> st2\<lparr> im_terminations := im_terminations st2 @ [p] \<rparr>) in
            and_then (transition_row i STOPPED (\<lambda>r. r\<lparr> rw_last_error := Some reason \<rparr>) (detach i st3)) (\<lambda>_ st4.
              (Inr (), clear_runtime i (record_event i EV_STOP (rr_module_id r) (rr_site_id r) st4)))))"

subsection \<open>Starting\<close>

record start_result =
  st_ok :: bool
  st_runtime_instance_id :: "string option"
  st_state :: runtime_state
  st_message :: string
  st_reason_codes :: "string list"

definition start_blocked :: "runtime_state \<Rightarrow> string \<Rightarrow> string list \<Rightarrow> start_result" where
  "start_blocked b message reasons = \<lparr> st_ok = False, st_runtime_instance_id = None, st_state = b,
     st_message = message, st_reason_codes = reasons \<rparr>"

definition start_outcome :: "bool \<Rightarrow> string \<Rightarrow> runtime_state \<Rightarrow> string \<Rightarrow> start_result" where
  "start_outcome ok i b message = \<lparr> st_ok = ok, st_runtime_instance_id = Some i, st_state = b,
     st_message = message, st_reason_codes = [] \<rparr>"

definition register_for ::
  "manager_env \<Rightarrow> time \<Rightarrow> runtime_row \<Rightarrow> string list \<Rightarrow> string list \<Rightarrow> (string \<times> json) list
   \<Rightarrow> isolation_state \<Rightarrow> isolation_state" where
  "register_for env now r permissions caps site_config st =
     st\<lparr> im_gateway := register_runtime now (me_startup_token env st (rr_runtime_instance_id r))
       (runtime_record.truncate r) permissions caps site_config (im_gateway st) \<rparr>"

text \<open>\<open>RuntimeBrokerProvisioner\<close>: the site's credential enters the secret broker.\<close>

definition provision_for_runtime :: "manager_env \<Rightarrow> string \<Rightarrow> int \<Rightarrow> isolation_state \<Rightarrow> isolation_state" where
  "provision_for_runtime env m site st = (case me_credential env m site of
     None \<Rightarrow> st
   | Some c \<Rightarrow> st\<lparr> im_gateway := (im_gateway st)\<lparr> gw_secret :=
       register_secret m site (fst c) (snd c) (gw_secret (im_gateway st)) \<rparr> \<rparr>)"

text \<open>
  The part both \<open>start_runtime\<close> and \<open>restart_runtime_instance\<close> have inside their \<open>try\<close> from the
  launch on; only a start records its events.
\<close>

definition come_up ::
  "manager_env \<Rightarrow> time \<Rightarrow> string \<Rightarrow> bool \<Rightarrow> string \<Rightarrow> string \<Rightarrow> runtime_row \<Rightarrow> isolation_state \<Rightarrow> start_result managed" where
  "come_up env now i first timeout running r st =
     (case me_launch env st i of
        Inl e \<Rightarrow> (Inl e, st)
      | Inr proc \<Rightarrow>
          and_then (transition_row i HANDSHAKING
              (\<lambda>r. r\<lparr> rw_process := Some proc, rw_started_at := Some now \<rparr>)
              (st\<lparr> im_processes := AList.update i proc (im_processes st), im_launches := im_launches st @ [i] \<rparr>))
            (\<lambda>_ st1.
              let st2 = (if first then record_event i EV_START (rr_module_id r) (rr_site_id r) st1 else st1);
                  w = wait_for_process_ready env i (me_polls env st2 i) st2 in
              if \<not> fst w
              then and_then (stop_runtime i timeout (snd w)) (\<lambda>_ st3. (Inr (start_outcome False i CRASHED timeout), st3))
              else and_then (transition_row i READY (\<lambda>r. r) (snd w)) (\<lambda>_ st3.
                and_then (transition_row i RUNNING (\<lambda>r. r) st3) (\<lambda>_ st4.
                  (Inr (start_outcome True i RUNNING running),
                   if first then record_event i EV_READY (rr_module_id r) (rr_site_id r) st4 else st4)))))"

text \<open>The \<open>except\<close> of both: the error is stored and reported; a second error propagates.\<close>

definition or_crashed :: "string \<Rightarrow> (isolation_state \<Rightarrow> isolation_state) \<Rightarrow> runtime_state \<Rightarrow> start_result managed \<Rightarrow> start_result managed" where
  "or_crashed i cleanup b r = (case fst r of
     Inr v \<Rightarrow> r
   | Inl e \<Rightarrow> and_then (transition_row i CRASHED (\<lambda>r. r\<lparr> rw_last_error := Some e \<rparr>) (cleanup (snd r)))
       (\<lambda>_ st. (Inr (start_outcome False i b e), st)))"

text \<open>The reason codes as the result lists them; the explanation of the engine is not modelled.\<close>

fun policy_reason_code :: "policy_reason \<Rightarrow> string" where
  "policy_reason_code policy_reason.PUBLISHER_REVOKED = ''PUBLISHER_REVOKED''"
| "policy_reason_code policy_reason.PUBLISHER_SUSPENDED = ''PUBLISHER_SUSPENDED''"
| "policy_reason_code policy_reason.PUBLISHER_NOT_FOUND = ''PUBLISHER_NOT_FOUND''"
| "policy_reason_code policy_reason.TIER_NOT_ALLOWED = ''TIER_NOT_ALLOWED''"
| "policy_reason_code policy_reason.PUBLISHER_DENIED = ''PUBLISHER_DENIED''"
| "policy_reason_code policy_reason.MODULE_DENIED = ''MODULE_DENIED''"
| "policy_reason_code policy_reason.PERMISSION_BLOCKED = ''PERMISSION_BLOCKED''"
| "policy_reason_code policy_reason.CONTROL_MODULE_ISOLATION_REQUIRED = ''CONTROL_MODULE_ISOLATION_REQUIRED''"
| "policy_reason_code policy_reason.COMMUNITY_NOT_ALLOWED = ''COMMUNITY_NOT_ALLOWED''"
| "policy_reason_code policy_reason.REVOCATION_ACTIVE = ''REVOCATION_ACTIVE''"
| "policy_reason_code policy_reason.REVOCATION_STALE = ''REVOCATION_STALE''"
| "policy_reason_code policy_reason.REVOCATION_STATE_UNTRUSTED = ''REVOCATION_STATE_UNTRUSTED''"
| "policy_reason_code policy_reason.SECURITY_REVIEW_REQUIRED = ''SECURITY_REVIEW_REQUIRED''"
| "policy_reason_code policy_reason.ADMIN_APPROVAL_REQUIRED = ''ADMIN_APPROVAL_REQUIRED''"
| "policy_reason_code policy_reason.KEY_REVOKED = ''KEY_REVOKED''"
| "policy_reason_code policy_reason.KEY_EXPIRED = ''KEY_EXPIRED''"
| "policy_reason_code policy_reason.OWNERSHIP_MISMATCH = ''OWNERSHIP_MISMATCH''"
| "policy_reason_code policy_reason.DEFAULT_DENY = ''DEFAULT_DENY''"
| "policy_reason_code policy_reason.ALLOWLIST_MATCH = ''ALLOWLIST_MATCH''"
| "policy_reason_code policy_reason.TIER_ALLOWED = ''TIER_ALLOWED''"
| "policy_reason_code policy_reason.BREAK_GLASS_ACTIVE = ''BREAK_GLASS_ACTIVE''"
| "policy_reason_code policy_reason.ARTIFACT_DIGEST_MISMATCH = ''ARTIFACT_DIGEST_MISMATCH''"
| "policy_reason_code policy_reason.SBOM_MISSING = ''SBOM_MISSING''"
| "policy_reason_code policy_reason.VULNERABILITY_CRITICAL = ''VULNERABILITY_CRITICAL''"
| "policy_reason_code policy_reason.SUPPLY_CHAIN_REVIEW_REQUIRED = ''SUPPLY_CHAIN_REVIEW_REQUIRED''"

text \<open>What \<open>start_runtime\<close> checks before it creates an instance; a check that fails is the result.\<close>

definition provided_capabilities :: "module_descriptor \<Rightarrow> string list \<Rightarrow> string list" where
  "provided_capabilities d manifest = (if manifest \<noteq> [] then manifest
     else map capability_value (md_capabilities_provided d))"

definition run_evaluation ::
  "manager_env \<Rightarrow> string \<Rightarrow> string \<Rightarrow> string list \<Rightarrow> string list \<Rightarrow> policy_evaluation" where
  "run_evaluation env m publisher permissions caps =
     evaluate_policy (me_policy env) (me_publishers env publisher) (Some (me_revocations env))
       \<lparr> pq_action = RUN, pq_module_id = m, pq_publisher_id = publisher, pq_permissions = permissions,
         pq_provided_capabilities = caps, pq_app_env_production = me_production env,
         pq_break_glass_active = me_break_glass_active env, pq_canonical_owner = me_owner env m,
         pq_marketplace_enabled = me_marketplace_enabled env \<rparr>"

text \<open>
  \<open>RuntimeStartRequest\<close> may name another version, digest or publisher than the installed package;
  an empty text is none.
\<close>

record start_request =
  sr_module_id :: string
  sr_site_id :: int
  sr_version :: "string option"
  sr_artifact_sha256 :: "string option"
  sr_publisher_id :: "string option"

definition requested_or :: "string option \<Rightarrow> string \<Rightarrow> string" where
  "requested_or x y = (case x of None \<Rightarrow> y | Some t \<Rightarrow> if t = [] then y else t)"

definition requested_package :: "start_request \<Rightarrow> isolated_package \<Rightarrow> isolated_package" where
  "requested_package q p = p\<lparr> ik_publisher := requested_or (sr_publisher_id q) (ik_publisher p),
     ik_version := requested_or (sr_version q) (ik_version p),
     ik_checksum := requested_or (sr_artifact_sha256 q) (ik_checksum p) \<rparr>"

definition verify_package_digest :: "manager_env \<Rightarrow> string \<Rightarrow> string \<Rightarrow> string + bool" where
  "verify_package_digest env path expected = (case me_content_sha256 env path of
     Inl e \<Rightarrow> Inl e
   | Inr actual \<Rightarrow> Inr (py_lower actual = py_lower expected))"

text \<open>The result is an exception, a refusal, or the manifest's permissions and capabilities.\<close>

definition start_checks ::
  "manager_env \<Rightarrow> time \<Rightarrow> string \<Rightarrow> int \<Rightarrow> module_descriptor \<Rightarrow> isolated_package \<Rightarrow> isolation_state
   \<Rightarrow> string + (start_result + (string list \<times> string list))" where
  "start_checks env now m site d p st =
     (if \<not> runtime_spawn_allowed env now m (ik_version p) (ik_checksum p) (ik_publisher p) site st
      then (let blocked = or_else (runtime_blocked_reason (me_spawn_allowed env)) ''RUNTIME_NOT_AUTHORIZED'' in
            Inr (Inl (start_blocked BLOCKED blocked [blocked])))
      else case me_manifest env (ik_path p) of
        Inl e \<Rightarrow> Inl e
      | Inr manifest \<Rightarrow>
     (let result = run_evaluation env m (ik_publisher p) (fst manifest) (provided_capabilities d (snd manifest)) in
      if pe_decision result = DENY
      then Inr (Inl (start_blocked BLOCKED ''policy denied'' (map policy_reason_code (pe_reason_codes result))))
      else if \<not> tier_allows_runtime (map_option pb_tier (me_publishers env (ik_publisher p)))
      then Inr (Inl (start_blocked BLOCKED ''publisher tier denied'' []))
      else if \<not> requires_isolated_runtime d
      then Inr (Inl (start_blocked BLOCKED ''module does not require isolation'' []))
      else if \<not> CONTROL_ISOLATION_GATE_OPEN \<and> pe_control_capable result
      then Inr (Inl (start_blocked BLOCKED ''control isolation gate closed'' [''CONTROL_MODULE_ISOLATION_REQUIRED'']))
      else case verify_package_digest env (ik_path p) (ik_checksum p) of
        Inl e \<Rightarrow> Inl e
      | Inr ok \<Rightarrow>
          if ok then Inr (Inr manifest)
          else Inr (Inl (start_blocked runtime_state.QUARANTINED ''artifact digest mismatch'' []))))"

definition runtime_permissions :: "module_descriptor \<Rightarrow> string list \<Rightarrow> string list" where
  "runtime_permissions d declared =
     (if declared \<noteq> [] then declared else sort (remdups (map capability_value (md_capabilities_provided d))))"

text \<open>What follows the checks: the instance is created, registered and launched.\<close>

definition launch_runtime ::
  "manager_env \<Rightarrow> time \<Rightarrow> string \<Rightarrow> string \<Rightarrow> int \<Rightarrow> module_descriptor \<Rightarrow> isolated_package
   \<Rightarrow> string list \<times> string list \<Rightarrow> isolation_state \<Rightarrow> start_result managed" where
  "launch_runtime env now i m site d p manifest st =
     (let permissions = runtime_permissions d (fst manifest);
          caps = provided_capabilities d (snd manifest);
          listen = me_listen_address env i in
      and_then (create_instance i m (ik_version p) (ik_publisher p) (py_lower (ik_checksum p)) site permissions st)
        (\<lambda>r st1. let st2 = record_event i EV_PREPARE m site st1 in
         case me_setup_fault env st2 i of
           Some e \<Rightarrow> (Inl e, st2)
         | None \<Rightarrow>
             let st3 = register_for env now r permissions caps (me_site_config env m site)
                   (provision_for_runtime env m site st2) in
             (case me_server_fault env st3 i of
                Some e \<Rightarrow> (Inl e, st3)
              | None \<Rightarrow>
                  and_then (transition_row i STARTING (\<lambda>r. r\<lparr> rw_socket_path := Some listen,
                      rw_package_path := Some (ik_path p), rw_data_path := Some (me_data_path env m site i),
                      rw_sandbox_mode := Some (me_sandbox_mode env) \<rparr>) st3)
                    (\<lambda>_ st4. or_crashed i
                      (\<lambda>s. s\<lparr> im_gateway := (im_gateway s)\<lparr> gw_device := revoke_leases i (gw_device (im_gateway s)) \<rparr> \<rparr>)
                      CRASHED (come_up env now i True ''startup timeout'' ''running'' r st4)))))"

definition start_runtime ::
  "manager_env \<Rightarrow> time \<Rightarrow> string \<Rightarrow> start_request \<Rightarrow> isolation_state \<Rightarrow> start_result managed" where
  "start_runtime env now i q st =
     (let m = sr_module_id q; site = sr_site_id q in
      case map_of (me_registry env) m of
        None \<Rightarrow> (Inr (start_blocked BLOCKED ''module not registered'' []), st)
      | Some d \<Rightarrow>
     (case me_packages env m of
        None \<Rightarrow> (Inr (start_blocked BLOCKED ''package not installed'' []), st)
      | Some installed \<Rightarrow>
     (let p = requested_package q installed in
      case start_checks env now m site d p st of
        Inl e \<Rightarrow> (Inl e, st)
      | Inr (Inl refused) \<Rightarrow> (Inr refused, st)
      | Inr (Inr manifest) \<Rightarrow> launch_runtime env now i m site d p manifest st)))"

text \<open>
  A restart takes the permissions of the manifest again (one that does not parse raises before the
  \<open>try\<close>), registers without a site configuration, and neither evaluates the policy nor recomputes the digest. The address is the gateway's, or
  the server is started on the stored one.
\<close>

definition restart_runtime_instance :: "manager_env \<Rightarrow> time \<Rightarrow> string \<Rightarrow> isolation_state \<Rightarrow> start_result managed" where
  "restart_runtime_instance env now i st =
     (case map_of (im_rows st) i of
        None \<Rightarrow> (Inr (start_blocked BLOCKED ''runtime not found'' []), st)
      | Some r \<Rightarrow>
          if rr_state r \<noteq> PREPARING
          then (Inr (start_blocked BLOCKED (''runtime not restartable from '' @ runtime_state_value (rr_state r)) []), st)
          else
            case (case rw_package_path r of None \<Rightarrow> Inr ([], [])
                  | Some path \<Rightarrow> if path = [] then Inr ([], []) else me_manifest env path) of
              Inl e \<Rightarrow> (Inl e, st)
            | Inr manifest \<Rightarrow>
           (let permissions = (if fst manifest \<noteq> [] then fst manifest else rw_permissions r);
                st1 = register_for env now r permissions (snd manifest) []
                  (st\<lparr> im_gateway := unregister_runtime i (im_gateway st) \<rparr>);
                listen = me_listen_address env (or_else (rw_socket_path r) i) in
            (case me_server_fault env st1 i of
               Some e \<Rightarrow> (Inl e, st1)
             | None \<Rightarrow>
                 or_crashed i (\<lambda>s. s) BLOCKED
                   (and_then (transition_row i STARTING (\<lambda>r. r\<lparr> rw_socket_path := Some listen,
                       rw_sandbox_mode := Some (me_sandbox_mode env) \<rparr>) st1)
                     (\<lambda>_ st2. come_up env now i False ''restart handshake timeout'' ''restarted'' r st2)))))"

definition process_pending_restarts :: "manager_env \<Rightarrow> time \<Rightarrow> isolation_state \<Rightarrow> unit managed" where
  "process_pending_restarts env now st =
     for_each (\<lambda>r s. if rr_state r = PREPARING \<and> rw_restart_count r > 0
         \<and> map_of (im_processes s) (rr_runtime_instance_id r) = None
       then and_then (restart_runtime_instance env now (rr_runtime_instance_id r) s) (\<lambda>_ s1. (Inr (), s1))
       else (Inr (), s)) (list_instances st) st"

subsection \<open>Supervision\<close>

definition restart_backoff_seconds :: "manager_env \<Rightarrow> nat \<Rightarrow> seconds" where
  "restart_backoff_seconds env n = min (me_restart_backoff env * 2 ^ n) 300"

text \<open>The pause before the new attempt is \<open>restart_backoff_seconds\<close> and a jitter; only the state counts here.\<close>

definition maybe_restart :: "manager_env \<Rightarrow> string \<Rightarrow> runtime_row \<Rightarrow> isolation_state \<Rightarrow> unit managed" where
  "maybe_restart env reason r st =
     (let i = rr_runtime_instance_id r in
      if me_max_restarts env \<le> rw_restart_count r
      then and_then (transition_row i runtime_state.QUARANTINED (\<lambda>x. x\<lparr> rw_last_error := Some (''crash-loop: '' @ reason),
             rw_reason_codes := [''CRASH_LOOP''] \<rparr>) st)
           (\<lambda>_ st1. (Inr (), record_event i EV_QUARANTINE (rr_module_id r) (rr_site_id r) st1))
      else transition_row i PREPARING (\<lambda>x. x\<lparr> rw_restart_count := rw_restart_count r + 1 \<rparr>) st)"

definition handle_crash :: "manager_env \<Rightarrow> string \<Rightarrow> string \<Rightarrow> isolation_state \<Rightarrow> unit managed" where
  "handle_crash env i reason st = (case map_of (im_rows st) i of
     None \<Rightarrow> (Inr (), st)
   | Some r \<Rightarrow>
       (let st1 = detach i ((clear_runtime i st)\<lparr> im_processes := AList.delete i (im_processes st) \<rparr>) in
        and_then (transition_row i CRASHED (\<lambda>x. x\<lparr> rw_last_error := Some reason \<rparr>) st1)
          (\<lambda>_ st2. maybe_restart env reason r (record_event i EV_CRASH (rr_module_id r) (rr_site_id r) st2))))"

definition quarantine_after_stop ::
  "string \<Rightarrow> string \<Rightarrow> string list \<Rightarrow> isolation_state \<Rightarrow> unit managed" where
  "quarantine_after_stop i reason codes st =
     and_then (stop_runtime i reason st) (\<lambda>_. transition_row i runtime_state.QUARANTINED
       (\<lambda>x. x\<lparr> rw_last_error := Some reason, rw_reason_codes := codes \<rparr>))"

definition over_quota :: "manager_env \<Rightarrow> runtime_row \<Rightarrow> isolation_state \<Rightarrow> bool" where
  "over_quota env r st = (case rw_data_path r of None \<Rightarrow> False
     | Some path \<Rightarrow> path \<noteq> [] \<and> (case me_disk_bytes env st path of None \<Rightarrow> False
         | Some bytes \<Rightarrow> me_data_quota_mb env * 1024 * 1024 < bytes))"

definition heartbeat_age :: "time \<Rightarrow> runtime_row \<Rightarrow> seconds option" where
  "heartbeat_age now r = map_option (elapsed_s now)
     (case rw_last_heartbeat_at r of None \<Rightarrow> rw_started_at r | Some t \<Rightarrow> Some t)"

definition heartbeat_missed :: "manager_env \<Rightarrow> time \<Rightarrow> runtime_row \<Rightarrow> isolation_state \<Rightarrow> unit managed" where
  "heartbeat_missed env now r st =
     (let i = rr_runtime_instance_id r;
          misses = or_else (map_of (im_misses st) i) 0 + 1;
          st1 = st\<lparr> im_misses := AList.update i misses (im_misses st) \<rparr> in
      if misses < me_miss_threshold env
      then (if rr_state r = RUNNING then transition_row i DEGRADED (\<lambda>x. x) st1 else (Inr (), st1))
      else and_then (stop_runtime i ''heartbeat timeout''
             (record_event i EV_RESOURCE_LIMIT (rr_module_id r) (rr_site_id r) st1)) (\<lambda>_ st2.
           case map_of (im_rows st2) i of
             None \<Rightarrow> (Inr (), st2)
           | Some fresh \<Rightarrow> maybe_restart env ''heartbeat timeout'' fresh st2))"

text \<open>One record of the loop of \<open>supervise\<close>; the records are those listed before the loop.\<close>

definition supervise_one :: "manager_env \<Rightarrow> time \<Rightarrow> runtime_row \<Rightarrow> isolation_state \<Rightarrow> unit managed" where
  "supervise_one env now r st =
     (let i = rr_runtime_instance_id r in
      if rr_state r \<notin> {RUNNING, DEGRADED, READY} then (Inr (), st)
      else if over_quota env r st
      then quarantine_after_stop i ''disk quota exceeded'' [''DISK_QUOTA'']
        (record_event i EV_RESOURCE_LIMIT (rr_module_id r) (rr_site_id r) st)
      else if map_of (im_processes st) i \<noteq> None \<and> me_exited env st i
      then handle_crash env i ''process exited'' st
      else case heartbeat_age now r of
        None \<Rightarrow> (Inr (), st)
      | Some age \<Rightarrow>
          if age \<le> me_heartbeat_interval env * of_nat (me_miss_threshold env)
          then (Inr (), st\<lparr> im_misses := AList.update i 0 (im_misses st) \<rparr>)
          else heartbeat_missed env now r st)"

definition supervise :: "manager_env \<Rightarrow> time \<Rightarrow> isolation_state \<Rightarrow> unit managed" where
  "supervise env now st = for_each (supervise_one env now) (list_instances st) st"

text \<open>\<open>RevocationReader.find_active_revocation\<close>.\<close>

definition find_active_revocation :: "revocation_context \<Rightarrow> string \<Rightarrow> string \<Rightarrow> revocation_match option" where
  "find_active_revocation ctx publisher m =
     (if rc_metadata_health ctx = ''invalid'' then None
      else find (\<lambda>x. publisher \<noteq> [] \<and> rm_publisher_id x = Some publisher \<or> m \<noteq> [] \<and> rm_module_id x = Some m)
        (rc_revocations ctx))"

definition stop_security_event :: "string \<Rightarrow> string \<Rightarrow> runtime_row \<Rightarrow> isolation_state \<Rightarrow> unit managed" where
  "stop_security_event reason scope r st =
     (let i = rr_runtime_instance_id r in
      and_then (quarantine_after_stop i reason [''SECURITY_POLICY'', py_upper scope] st)
        (\<lambda>_ st1. (Inr (), record_event i EV_REVOCATION_STOP (rr_module_id r) (rr_site_id r) st1)))"

definition check_runtime :: "manager_env \<Rightarrow> string \<Rightarrow> isolation_state \<Rightarrow> unit managed" where
  "check_runtime env i st = (case map_of (im_rows st) i of
     None \<Rightarrow> (Inr (), st)
   | Some r \<Rightarrow>
       if rr_state r \<notin> {RUNNING, DEGRADED, READY, HANDSHAKING} then (Inr (), st)
       else (case find_active_revocation (me_revocations env) (rw_publisher_id r) (rr_module_id r) of
           Some x \<Rightarrow> (let scope = (if rm_publisher_id x = Some (rw_publisher_id r) then ''publisher'' else ''module'') in
             stop_security_event (''revocation:'' @ scope) scope r st)
         | None \<Rightarrow>
             if me_marketplace_enabled env \<and> me_critical_advisory env (rr_module_id r) (rr_version r)
             then stop_security_event ''advisory:CRITICAL'' ''advisory'' r st
             else (Inr (), st)))"

definition scan_active :: "manager_env \<Rightarrow> isolation_state \<Rightarrow> unit managed" where
  "scan_active env st = for_each (\<lambda>r. check_runtime env (rr_runtime_instance_id r)) (list_instances st) st"

definition supervise_tick :: "manager_env \<Rightarrow> time \<Rightarrow> isolation_state \<Rightarrow> unit managed" where
  "supervise_tick env now st =
     and_then (supervise env now st) (\<lambda>_ st1.
     and_then (process_pending_restarts env now st1) (\<lambda>_ st2. scan_active env st2))"

subsection \<open>Runs\<close>

text \<open>
  A caller may build a new manager over the same tables, as the orchestrator does for every start
  and stop and the collector for every tick: it knows no process, no miss and no session. The
  collector commits after a tick; an exception of the tick ends its session, which rolls back,
  and is only logged. After a start, a stop or a change of the authorizations the caller's
  commit or rollback is an event of its own.
\<close>

definition new_manager :: "isolation_state \<Rightarrow> isolation_state" where
  "new_manager st = st\<lparr> im_processes := [], im_misses := [], im_gateway := initial_gateway \<rparr>"

definition supervise_isolated_runtimes :: "manager_env \<Rightarrow> time \<Rightarrow> isolation_state \<Rightarrow> isolation_state" where
  "supervise_isolated_runtimes env now st = (let r = supervise_tick env now (new_manager st) in
     case fst r of Inl e \<Rightarrow> roll_back (snd r) | Inr _ \<Rightarrow> commit (snd r))"

datatype manager_op =
    Start_Runtime string start_request
  | Stop_Runtime string string
  | Collector_Tick
  | Serve string rpc_request
  | New_Manager
  | Grant string string string string int string "time option" int "string option"
  | Revoke_Grant nat
  | Commit_Session
  | Roll_Back_Session

definition manager_step :: "manager_env \<Rightarrow> isolation_state \<Rightarrow> time \<times> manager_op \<Rightarrow> isolation_state" where
  "manager_step env st e = (let now = fst e in case snd e of
     Start_Runtime i q \<Rightarrow> snd (start_runtime env now i q st)
   | Stop_Runtime i reason \<Rightarrow> snd (stop_runtime i reason st)
   | Collector_Tick \<Rightarrow> supervise_isolated_runtimes env now st
   | Serve raw q \<Rightarrow> serve_request env (now, raw, q) st
   | New_Manager \<Rightarrow> new_manager st
   | Grant m v sha p site by_ expires ttl reason \<Rightarrow>
       snd (grant_authorization now m v sha p site by_ expires ttl reason st)
   | Revoke_Grant a \<Rightarrow> revoke_authorization now a st
   | Commit_Session \<Rightarrow> commit st
   | Roll_Back_Session \<Rightarrow> roll_back st)"

text \<open>The steps that lose what was flushed since the last commit.\<close>

definition rolls_back :: "manager_env \<Rightarrow> isolation_state \<Rightarrow> time \<times> manager_op \<Rightarrow> bool" where
  "rolls_back env st e \<longleftrightarrow> (case snd e of
     Collector_Tick \<Rightarrow> isl (fst (supervise_tick env (fst e) (new_manager st)))
   | Roll_Back_Session \<Rightarrow> True
   | _ \<Rightarrow> False)"

fun rollbacks :: "manager_env \<Rightarrow> isolation_state \<Rightarrow> (time \<times> manager_op) list \<Rightarrow> nat" where
  "rollbacks env st [] = 0"
| "rollbacks env st (e # es) = of_bool (rolls_back env st e) + rollbacks env (manager_step env st e) es"

definition initial_isolation :: isolation_state where
  "initial_isolation = \<lparr> im_rows = [], im_events = [], im_authorizations = [], im_processes = [],
     im_misses = [], im_gateway = initial_gateway, im_launches = [], im_terminations = [],
     im_committed = ([], [], []) \<rparr>"

end
