(* ===== verification/Isolation_Supervision.thy ===== *)
theory Isolation_Supervision
  imports Isolation_Manager
begin

section \<open>What the manager keeps\<close>

text \<open>
  The manager changes the table of runtimes in five ways only: it adds a runtime in state
  PREPARING, moves one along a legal transition, stores a heartbeat, sends a stopped or crashed
  one back to PREPARING with its restart counted, and launches one it just took from PREPARING.
  A property these and a commit keep is kept by every operation; a rollback is another matter.
\<close>

lemma and_then_simps [simp]:
  "and_then (Inl e, st) f = (Inl e, st)"
  "and_then (Inr a, st) f = f a st"
  by (simp_all add: and_then_def)

lemma transition_row_cases:
  obtains (unknown) "map_of (im_rows st) i = None" "transition_row i b upd st = (Inr (), st)"
  | (illegal) r e where "map_of (im_rows st) i = Some r" "\<not> can_transition (rr_state r) b"
      "transition_row i b upd st = (Inl e, st)"
  | (moved) r where "map_of (im_rows st) i = Some r" "can_transition (rr_state r) b"
      "transition_row i b upd st = (Inr (), st\<lparr> im_rows := AList.update i (upd (r\<lparr> rr_state := b \<rparr>)) (im_rows st) \<rparr>)"
  by (cases "map_of (im_rows st) i") (auto simp: transition_row_def assert_transition_def split: if_splits)

lemma rows_frames [simp]:
  "im_rows (record_event i t m s st) = im_rows st"
  "im_launches (record_event i t m s st) = im_launches st"
  "im_rows (register_for env now r ps cs c st) = im_rows st"
  "im_launches (register_for env now r ps cs c st) = im_launches st"
  "im_rows (provision_for_runtime env m s st) = im_rows st"
  "im_launches (provision_for_runtime env m s st) = im_launches st"
  "im_rows (detach i st) = im_rows st"
  "im_launches (detach i st) = im_launches st"
  "im_rows (clear_runtime i st) = im_rows st"
  "im_launches (clear_runtime i st) = im_launches st"
  "im_committed (record_event i t m s st) = im_committed st"
  "im_committed (register_for env now r ps cs c st) = im_committed st"
  "im_committed (provision_for_runtime env m s st) = im_committed st"
  "im_committed (detach i st) = im_committed st"
  "im_committed (clear_runtime i st) = im_committed st"
  by (simp_all add: record_event_def register_for_def provision_for_runtime_def detach_def clear_runtime_def
      Let_def split: option.split)

definition same_runtime :: "runtime_row \<Rightarrow> runtime_row \<Rightarrow> bool" where
  "same_runtime r r1 \<longleftrightarrow> rr_runtime_instance_id r1 = rr_runtime_instance_id r
     \<and> rw_restart_count r1 = rw_restart_count r"

locale managed_inv =
  fixes env :: manager_env and inv :: "isolation_state \<Rightarrow> bool"
  assumes other: "inv st \<Longrightarrow> im_rows st1 = im_rows st \<Longrightarrow> im_launches st1 = im_launches st
      \<Longrightarrow> im_committed st1 = im_committed st \<Longrightarrow> inv st1"
    and committed: "inv st \<Longrightarrow> inv (commit st)"
    and keyed: "inv st \<Longrightarrow> map_of (im_rows st) i = Some r \<Longrightarrow> rr_runtime_instance_id r = i"
    and created: "inv st \<Longrightarrow> map_of (im_rows st) i = None \<Longrightarrow> rr_runtime_instance_id r = i
      \<Longrightarrow> rr_state r = PREPARING \<Longrightarrow> rw_restart_count r = 0 \<Longrightarrow> inv (st\<lparr> im_rows := im_rows st @ [(i, r)] \<rparr>)"
    and kept: "inv st \<Longrightarrow> map_of (im_rows st) i = Some r \<Longrightarrow> same_runtime r r1 \<Longrightarrow> rr_state r1 = rr_state r
      \<Longrightarrow> inv (st\<lparr> im_rows := AList.update i r1 (im_rows st) \<rparr>)"
    and moved: "inv st \<Longrightarrow> map_of (im_rows st) i = Some r \<Longrightarrow> same_runtime r r1
      \<Longrightarrow> can_transition (rr_state r) (rr_state r1) \<Longrightarrow> rr_state r1 \<noteq> PREPARING
      \<Longrightarrow> inv (st\<lparr> im_rows := AList.update i r1 (im_rows st) \<rparr>)"
    and again: "inv st \<Longrightarrow> map_of (im_rows st) i = Some r \<Longrightarrow> rr_runtime_instance_id r1 = i
      \<Longrightarrow> can_transition (rr_state r) PREPARING \<Longrightarrow> rr_state r1 = PREPARING
      \<Longrightarrow> rw_restart_count r < me_max_restarts env \<Longrightarrow> rw_restart_count r1 = rw_restart_count r + 1
      \<Longrightarrow> inv (st\<lparr> im_rows := AList.update i r1 (im_rows st) \<rparr>)"
    and launched: "inv st \<Longrightarrow> map_of (im_rows st) i = Some r \<Longrightarrow> rr_state r = PREPARING \<Longrightarrow> same_runtime r r1
      \<Longrightarrow> rr_state r1 = STARTING
      \<Longrightarrow> inv (st\<lparr> im_rows := AList.update i r1 (im_rows st), im_launches := im_launches st @ [i] \<rparr>)"
begin

lemma and_then_inv:
  "inv (snd r) \<Longrightarrow> (\<And>a st. r = (Inr a, st) \<Longrightarrow> inv st \<Longrightarrow> inv (snd (f a st))) \<Longrightarrow> inv (snd (and_then r f))"
  by (cases r; cases "fst r") (auto simp: and_then_def)

lemma for_each_inv:
  "(\<And>x st. x \<in> set xs \<Longrightarrow> inv st \<Longrightarrow> inv (snd (f x st))) \<Longrightarrow> inv st \<Longrightarrow> inv (snd (for_each f xs st))"
  by (induction xs arbitrary: st) (auto intro!: and_then_inv)

lemma transition_inv:
  assumes "inv st" "b \<noteq> PREPARING" "\<And>r. same_runtime r (upd r) \<and> rr_state (upd r) = rr_state r"
  shows "inv (snd (transition_row i b upd st))"
proof (cases rule: transition_row_cases [of st i b upd])
  case (moved r)
  have "same_runtime r (upd (r\<lparr> rr_state := b \<rparr>))"
    using assms(3) [of "r\<lparr> rr_state := b \<rparr>"] by (simp add: same_runtime_def)
  moreover have "rr_state (upd (r\<lparr> rr_state := b \<rparr>)) = b" using assms(3) by simp
  ultimately show ?thesis
    using managed_inv.moved [OF managed_inv_axioms assms(1) moved(1)] moved(2,3) assms(2) by simp
qed (use assms in auto)

lemma upd_same [simp]:
  "same_runtime r r" "same_runtime r (r\<lparr> rw_last_error := e \<rparr>)"
  "same_runtime r (r\<lparr> rw_process := p, rw_started_at := t \<rparr>)"
  "same_runtime r (r\<lparr> rw_last_error := e, rw_reason_codes := cs \<rparr>)"
  "same_runtime r (r\<lparr> rw_last_heartbeat_at := t \<rparr>)"
  by (simp_all add: same_runtime_def)

lemma bookkeeping_inv:
  assumes "inv st"
  shows "inv (record_event i t m s st)" "inv (register_for env1 now r ps cs c st)"
    "inv (provision_for_runtime env1 m s st)" "inv (detach i st)" "inv (clear_runtime i st)"
    "inv (st\<lparr> im_processes := procs \<rparr>)" "inv (st\<lparr> im_misses := misses \<rparr>)" "inv (st\<lparr> im_gateway := g \<rparr>)"
    "inv (st\<lparr> im_terminations := ts \<rparr>)" "inv (st\<lparr> im_authorizations := auths \<rparr>)"
  by (rule other [OF assms]; simp)+

lemma heartbeat_inv: "inv st \<Longrightarrow> inv (on_heartbeat now i st)"
  unfolding on_heartbeat_def
  by (rule bookkeeping_inv) (auto simp: record_heartbeat_def intro: kept split: option.split)

lemma serve_request_inv: "inv st \<Longrightarrow> inv (serve_request env1 ev st)"
  by (simp add: serve_request_def Let_def bookkeeping_inv heartbeat_inv committed
      split: option.split sum.split rpc_result.split)

lemma wait_inv: "inv st \<Longrightarrow> inv (snd (wait_for_process_ready env1 i ps st))"
proof (induction ps arbitrary: st)
  case (Cons p ps)
  have "inv (foldl (\<lambda>s ev. serve_request env1 ev s) st evs)" for evs
    using Cons.prems by (induction evs arbitrary: st) (simp_all add: serve_request_inv)
  then show ?case using Cons.IH by (simp add: Let_def)
qed simp

lemma stop_runtime_inv: "inv st \<Longrightarrow> inv (snd (stop_runtime i reason st))"
  by (auto simp: stop_runtime_def Let_def bookkeeping_inv split: option.split
      intro!: and_then_inv transition_inv bookkeeping_inv)

lemma come_up_inv:
  assumes "inv st" "inv (st\<lparr> im_launches := im_launches st @ [i] \<rparr>)"
  shows "inv (snd (come_up env1 now i first timeout running r st))"
proof -
  have "inv (st\<lparr> im_processes := ps, im_launches := im_launches st @ [i] \<rparr>)" for ps
    by (rule other [OF assms(2)]) simp_all
  then show ?thesis
    using assms(1)
    by (auto simp: come_up_def Let_def split: sum.split
        intro!: and_then_inv transition_inv stop_runtime_inv wait_inv bookkeeping_inv)
qed

lemma or_crashed_inv:
  "inv (snd r) \<Longrightarrow> (\<And>st. inv st \<Longrightarrow> inv (cleanup st)) \<Longrightarrow> inv (snd (or_crashed i cleanup b r))"
  by (auto simp: or_crashed_def split: sum.split intro!: and_then_inv transition_inv)

lemma starting_inv:
  assumes st: "inv st" "map_of (im_rows st) i = Some r" "rr_state r = PREPARING"
    and upd: "\<And>r. same_runtime r (upd r) \<and> rr_state (upd r) = rr_state r"
    and f: "\<And>st1. inv st1 \<Longrightarrow> inv (st1\<lparr> im_launches := im_launches st1 @ [i] \<rparr>) \<Longrightarrow> inv (snd (f () st1))"
  shows "inv (snd (and_then (transition_row i STARTING upd st) f))"
proof -
  let ?r = "upd (r\<lparr> rr_state := STARTING \<rparr>)"
  have r: "same_runtime r ?r" "rr_state ?r = STARTING"
    using upd [of "r\<lparr> rr_state := STARTING \<rparr>"] by (simp_all add: same_runtime_def)
  have "transition_row i STARTING upd st = (Inr (), st\<lparr> im_rows := AList.update i ?r (im_rows st) \<rparr>)"
    using st(2,3) by (simp add: transition_row_def assert_transition_def can_transition_def)
  moreover have "inv (st\<lparr> im_rows := AList.update i ?r (im_rows st) \<rparr>)"
    by (rule moved [OF st(1,2) r(1)]) (simp_all add: r(2) st(3) can_transition_def)
  moreover have "inv (st\<lparr> im_rows := AList.update i ?r (im_rows st), im_launches := im_launches st @ [i] \<rparr>)"
    by (rule launched [OF st(1-3) r])
  ultimately show ?thesis by (simp add: f)
qed

lemma launch_runtime_inv:
  assumes st: "inv st"
  shows "inv (snd (launch_runtime env1 now i m site d p manifest st))"
proof -
  have fresh: "inv st1 \<and> map_of (im_rows st1) i = Some r \<and> rr_state r = PREPARING"
    if "create_instance i m v p sha site ps st = (Inr r, st1)" for v p sha ps r st1
    using that created [OF st, of i r]
    by (auto simp: create_instance_def Let_def map_add_def split: if_splits)
  have refused: "inv (snd (create_instance i m v p sha site ps st))" for v p sha ps
    using st created [OF st, of i] by (simp add: create_instance_def Let_def)
  have up: "inv (snd (and_then (transition_row i STARTING (\<lambda>r. r\<lparr> rw_socket_path := a, rw_package_path := b,
      rw_data_path := c, rw_sandbox_mode := d \<rparr>) s) (\<lambda>_ s1. or_crashed i
      (\<lambda>s. s\<lparr> im_gateway := (im_gateway s)\<lparr> gw_device := revoke_leases i (gw_device (im_gateway s)) \<rparr> \<rparr>) e
      (come_up env1 now i first timeout running r s1))))"
    if "inv s" "map_of (im_rows s) i = Some r1" "rr_state r1 = PREPARING" for a b c d s r1 e first timeout running r
    by (rule starting_inv [OF that]) (auto simp: same_runtime_def intro!: or_crashed_inv come_up_inv bookkeeping_inv)
  show ?thesis
    using st
    by (auto simp: launch_runtime_def Let_def bookkeeping_inv split: option.split dest!: fresh
        intro!: and_then_inv [OF refused] up)
qed

lemma start_runtime_inv: "inv st \<Longrightarrow> inv (snd (start_runtime env1 now i q st))"
  by (simp add: start_runtime_def Let_def launch_runtime_inv split: option.split sum.split)

lemma restart_runtime_inv:
  assumes st: "inv st"
  shows "inv (snd (restart_runtime_instance env1 now i st))"
proof -
  have up: "inv (snd (or_crashed i (\<lambda>s. s) e (and_then (transition_row i STARTING (\<lambda>r. r\<lparr> rw_socket_path := a,
      rw_sandbox_mode := d \<rparr>) s) (\<lambda>_ s1. come_up env1 now i first timeout running r s1))))"
    if "inv s" "map_of (im_rows s) i = Some r1" "rr_state r1 = PREPARING" for a d s r1 e first timeout running r
    by (rule or_crashed_inv [OF starting_inv [OF that]]) (auto simp: same_runtime_def intro!: come_up_inv)
  show ?thesis
    using st
    by (auto simp: restart_runtime_instance_def Let_def bookkeeping_inv split: option.split sum.split intro!: up)
qed

lemma pending_restarts_inv: "inv st \<Longrightarrow> inv (snd (process_pending_restarts env1 now st))"
  unfolding process_pending_restarts_def
  by (rule for_each_inv) (auto intro!: and_then_inv restart_runtime_inv)

lemma maybe_restart_inv:
  assumes st: "inv st" "map_of (im_rows st) i = Some x" "rr_runtime_instance_id r = i"
    "rw_restart_count x = rw_restart_count r"
  shows "inv (snd (maybe_restart env reason r st))"
proof (cases "me_max_restarts env \<le> rw_restart_count r")
  case True
  then show ?thesis
    using st(1) by (auto simp: maybe_restart_def Let_def st(3) intro!: and_then_inv transition_inv bookkeeping_inv)
next
  case False
  show ?thesis
  proof (cases rule: transition_row_cases [of st i PREPARING "\<lambda>x. x\<lparr> rw_restart_count := rw_restart_count r + 1 \<rparr>"])
    case (moved y)
    have "inv (st\<lparr> im_rows := AList.update i (x\<lparr> rr_state := PREPARING, rw_restart_count := rw_restart_count r + 1 \<rparr>) (im_rows st) \<rparr>)"
      using False st(2-4) moved(1,2) keyed [OF st(1,2)] by (intro again [OF st(1,2)]) auto
    then show ?thesis
      using False moved(1,3) st(2,3) by (simp add: maybe_restart_def Let_def)
  qed (use st(1) False in \<open>auto simp: maybe_restart_def Let_def st(3)\<close>)
qed

lemma handle_crash_inv:
  assumes st: "inv st"
  shows "inv (snd (handle_crash env i reason st))"
proof (cases "map_of (im_rows st) i")
  case None
  then show ?thesis using st by (simp add: handle_crash_def)
next
  case (Some r)
  let ?s = "detach i ((clear_runtime i st)\<lparr> im_processes := AList.delete i (im_processes st) \<rparr>)"
  have s: "inv ?s" "map_of (im_rows ?s) i = Some r"
    using st Some by (simp_all add: bookkeeping_inv)
  have "inv (snd (maybe_restart env reason r (record_event i EV_CRASH (rr_module_id r) (rr_site_id r) s1)))"
    if "transition_row i CRASHED (\<lambda>x. x\<lparr> rw_last_error := Some reason \<rparr>) ?s = (Inr (), s1)" "inv s1" for s1
  proof (rule maybe_restart_inv)
    show "inv (record_event i EV_CRASH (rr_module_id r) (rr_site_id r) s1)"
      by (rule bookkeeping_inv) (rule that)
    show "rr_runtime_instance_id r = i" using keyed [OF st Some] .
    show "map_of (im_rows (record_event i EV_CRASH (rr_module_id r) (rr_site_id r) s1)) i
        = Some (r\<lparr> rr_state := CRASHED, rw_last_error := Some reason \<rparr>)"
      using that(1) s(2) by (auto simp: transition_row_def split: sum.splits)
  qed simp
  then show ?thesis
    using s Some by (auto simp: handle_crash_def Let_def intro!: and_then_inv transition_inv)
qed

lemma quarantine_inv: "inv st \<Longrightarrow> inv (snd (quarantine_after_stop i reason codes st))"
  by (auto simp: quarantine_after_stop_def intro!: and_then_inv stop_runtime_inv transition_inv)

lemma heartbeat_missed_inv:
  assumes st: "inv st"
  shows "inv (snd (heartbeat_missed env now r st))"
proof -
  let ?i = "rr_runtime_instance_id r"
  have "inv (snd (case map_of (im_rows s) ?i of None \<Rightarrow> (Inr (), s)
      | Some fresh \<Rightarrow> maybe_restart env reason fresh s))" if "inv s" for s reason
    using that maybe_restart_inv [OF that] keyed [OF that] by (auto split: option.split)
  then show ?thesis
    using st by (auto simp: heartbeat_missed_def Let_def
        intro!: and_then_inv stop_runtime_inv transition_inv bookkeeping_inv)
qed

lemma supervise_one_inv: "inv st \<Longrightarrow> inv (snd (supervise_one env now r st))"
  by (auto simp: supervise_one_def Let_def split: option.split
      intro!: quarantine_inv handle_crash_inv heartbeat_missed_inv bookkeeping_inv)

lemma check_runtime_inv: "inv st \<Longrightarrow> inv (snd (check_runtime env1 i st))"
  by (auto simp: check_runtime_def stop_security_event_def Let_def split: option.split
      intro!: and_then_inv quarantine_inv bookkeeping_inv)

lemma supervise_tick_inv: "inv st \<Longrightarrow> inv (snd (supervise_tick env now st))"
  unfolding supervise_tick_def supervise_def scan_active_def
  by (intro and_then_inv for_each_inv supervise_one_inv pending_restarts_inv check_runtime_inv)

lemma new_manager_inv: "inv st \<Longrightarrow> inv (new_manager st)"
  by (rule other) (simp_all add: new_manager_def)

lemma manager_step_inv:
  assumes "inv st" "\<not> rolls_back env st e"
  shows "inv (manager_step env st e)"
proof (cases "snd e")
  case Collector_Tick
  then obtain v where "fst (supervise_tick env (fst e) (new_manager st)) = Inr v"
    using assms(2) by (cases "fst (supervise_tick env (fst e) (new_manager st))") (auto simp: rolls_back_def)
  then show ?thesis
    using supervise_tick_inv [OF new_manager_inv [OF assms(1)]] Collector_Tick
    by (simp add: manager_step_def supervise_isolated_runtimes_def Let_def committed)
next
  case (Grant m v sha p site approver expires ttl reason)
  then show ?thesis
    using assms(1) by (auto simp: manager_step_def grant_authorization_def Let_def intro: bookkeeping_inv)
next
  case (Revoke_Grant a)
  then show ?thesis
    using assms(1) by (auto simp: manager_step_def revoke_authorization_def intro: bookkeeping_inv)
qed (use assms in \<open>simp_all add: manager_step_def rolls_back_def start_runtime_inv stop_runtime_inv
    serve_request_inv new_manager_inv committed\<close>)

end

subsection \<open>Launches are counted\<close>

text \<open>
  A runtime that is not PREPARING has been launched at most once more than it was restarted, one
  that is PREPARING at most as often. A rollback forgets restarts and instances, but no more than
  a whole life of one: \<open>k\<close> is what was forgotten so far.
\<close>

definition row_ok :: "manager_env \<Rightarrow> string \<Rightarrow> runtime_row \<Rightarrow> bool" where
  "row_ok env i r \<longleftrightarrow> rr_runtime_instance_id r = i \<and> rw_restart_count r \<le> me_max_restarts env"

definition count_ok :: "manager_env \<Rightarrow> nat \<Rightarrow> string \<Rightarrow> runtime_row option \<Rightarrow> nat \<Rightarrow> bool" where
  "count_ok env k i row n \<longleftrightarrow> (case row of None \<Rightarrow> n \<le> k
   | Some r \<Rightarrow> row_ok env i r \<and> n \<le> k + rw_restart_count r + (if rr_state r = PREPARING then 0 else 1))"

definition launches_counted :: "manager_env \<Rightarrow> nat \<Rightarrow> isolation_state \<Rightarrow> bool" where
  "launches_counted env k st \<longleftrightarrow>
     (\<forall>i. count_ok env k i (map_of (im_rows st) i) (count_list (im_launches st) i))
     \<and> (\<forall>i r. map_of (fst (im_committed st)) i = Some r \<longrightarrow> row_ok env i r)"

lemma launches_counted_at:
  "launches_counted env k st \<Longrightarrow> count_ok env k i (map_of (im_rows st) i) (count_list (im_launches st) i)"
  by (simp add: launches_counted_def)

lemma launches_counted_update:
  assumes "launches_counted env k st" "count_ok env k i (Some r1) (count_list (im_launches st) i + n)"
  shows "launches_counted env k (st\<lparr> im_rows := AList.update i r1 (im_rows st),
    im_launches := im_launches st @ replicate n i \<rparr>)"
proof -
  have "count_list (replicate n i) j = (if j = i then n else 0)" for j
    by (induction n) auto
  then show ?thesis
    using assms by (simp add: launches_counted_def)
qed

interpretation counted: managed_inv env "launches_counted env k" for env :: manager_env and k :: nat
proof
  fix st i and r :: runtime_row
  assume st: "launches_counted env k st" and fresh: "map_of (im_rows st) i = None"
    and r: "rr_runtime_instance_id r = i" "rr_state r = PREPARING" "rw_restart_count r = 0"
  have "count_ok env k j (map_of (im_rows st @ [(i, r)]) j) (count_list (im_launches st) j)" for j
    using launches_counted_at [OF st, of j] fresh r
    by (cases "j = i") (auto simp: count_ok_def row_ok_def map_add_def split: option.splits)
  then show "launches_counted env k (st\<lparr> im_rows := im_rows st @ [(i, r)] \<rparr>)"
    using st by (simp add: launches_counted_def)
next
  fix st i and r r1 :: runtime_row
  assume st: "launches_counted env k st" and i: "map_of (im_rows st) i = Some r" and same: "same_runtime r r1"
  have row: "count_ok env k i (Some r) (count_list (im_launches st) i)"
    using launches_counted_at [OF st, of i] i by simp
  show "launches_counted env k (st\<lparr> im_rows := AList.update i r1 (im_rows st) \<rparr>)" if "rr_state r1 = rr_state r"
    using launches_counted_update [OF st, of i r1 0] row same that
    by (simp add: same_runtime_def count_ok_def row_ok_def)
  show "launches_counted env k (st\<lparr> im_rows := AList.update i r1 (im_rows st) \<rparr>)" if "rr_state r1 \<noteq> PREPARING"
    using launches_counted_update [OF st, of i r1 0] row same that
    by (simp add: same_runtime_def count_ok_def row_ok_def split: if_splits)
  show "launches_counted env k (st\<lparr> im_rows := AList.update i r1 (im_rows st), im_launches := im_launches st @ [i] \<rparr>)"
    if "rr_state r = PREPARING" "rr_state r1 = STARTING"
    using launches_counted_update [OF st, of i r1 1] row same that
    by (simp add: same_runtime_def count_ok_def row_ok_def)
next
  fix st i and r r1 :: runtime_row
  assume st: "launches_counted env k st" and i: "map_of (im_rows st) i = Some r"
    and r1: "rr_runtime_instance_id r1 = i" "rr_state r1 = PREPARING"
      "rw_restart_count r < me_max_restarts env" "rw_restart_count r1 = rw_restart_count r + 1"
  then show "launches_counted env k (st\<lparr> im_rows := AList.update i r1 (im_rows st) \<rparr>)"
    using launches_counted_update [OF st, of i r1 0] launches_counted_at [OF st, of i]
    by (simp add: count_ok_def row_ok_def split: if_splits)
next
  fix st i and r :: runtime_row
  assume "launches_counted env k st" "map_of (im_rows st) i = Some r"
  then show "rr_runtime_instance_id r = i"
    using launches_counted_at [of env k st i] by (simp add: count_ok_def row_ok_def)
next
  fix st
  assume st: "launches_counted env k st"
  have "row_ok env i r" if "map_of (im_rows st) i = Some r" for i r
    using launches_counted_at [OF st, of i] that by (simp add: count_ok_def)
  then show "launches_counted env k (commit st)"
    using st by (simp add: launches_counted_def commit_def)
qed (simp add: launches_counted_def)

lemma count_ok_bound:
  "count_ok env k i row n \<Longrightarrow> n \<le> k + (me_max_restarts env + 1)"
  by (auto simp: count_ok_def row_ok_def split: option.splits if_splits)

lemma roll_back_counted:
  assumes st: "launches_counted env k st"
  shows "launches_counted env (k + (me_max_restarts env + 1)) (roll_back st)"
proof -
  have "count_ok env (k + (me_max_restarts env + 1)) i (map_of (fst (im_committed st)) i)
      (count_list (im_launches st) i)" for i
    using st count_ok_bound [OF launches_counted_at [OF st, of i]]
    by (auto simp: launches_counted_def count_ok_def split: option.split)
  then show ?thesis
    using st by (simp add: launches_counted_def roll_back_def)
qed

lemma rolling_back_counted:
  assumes "launches_counted env k st" "rolls_back env st e"
  shows "launches_counted env (k + (me_max_restarts env + 1)) (manager_step env st e)"
proof (cases "snd e")
  case Collector_Tick
  let ?r = "supervise_tick env (fst e) (new_manager st)"
  have "launches_counted env k (snd ?r)"
    by (rule counted.supervise_tick_inv [OF counted.new_manager_inv [OF assms(1)]])
  then show ?thesis
    using roll_back_counted assms(2) Collector_Tick
    by (cases "fst ?r") (auto simp: manager_step_def supervise_isolated_runtimes_def rolls_back_def Let_def)
next
  case Roll_Back_Session
  then show ?thesis using roll_back_counted [OF assms(1)] by (simp add: manager_step_def)
qed (use assms(2) in \<open>simp_all add: rolls_back_def\<close>)

lemma run_counted:
  "launches_counted env k st \<Longrightarrow>
   launches_counted env (k + (me_max_restarts env + 1) * rollbacks env st es) (foldl (manager_step env) st es)"
proof (induction es arbitrary: k st)
  case (Cons e es)
  show ?case
  proof (cases "rolls_back env st e")
    case True
    show ?thesis
      using Cons.IH [OF rolling_back_counted [OF Cons.prems True]] True by (simp add: algebra_simps)
  next
    case False
    show ?thesis
      using Cons.IH [OF counted.manager_step_inv [OF Cons.prems False]] False by simp
  qed
qed simp

text \<open>C21. Crash loops end, but for rollbacks: over any sequence of starts, stops, collector ticks, served
  requests, new manager objects, commits and rollbacks, whatever crashes, heartbeats go missing
  or launches fail, a runtime instance is launched at most once and then for the configured
  number of restarts; each rollback of a session, by the caller or after a tick that raised,
  allows that many launches again, because it forgets the counted restarts.\<close>

theorem launches_bounded:
  "count_list (im_launches (foldl (manager_step env) initial_isolation es)) i
   \<le> (me_max_restarts env + 1) * (rollbacks env initial_isolation es + 1)"
proof -
  have "launches_counted env 0 initial_isolation"
    by (simp add: launches_counted_def initial_isolation_def count_ok_def)
  from count_ok_bound [OF launches_counted_at [OF run_counted [OF this, of es]], of i]
  show ?thesis by (simp add: algebra_simps)
qed

subsection \<open>What a start requires\<close>

lemma start_checks_passed:
  assumes "start_checks env now m site d p st = Inr (Inr manifest)"
  shows "runtime_spawn_allowed env now m (ik_version p) (ik_checksum p) (ik_publisher p) site st"
    and "me_manifest env (ik_path p) = Inr manifest"
    and "pe_decision (run_evaluation env m (ik_publisher p) (fst manifest)
      (provided_capabilities d (snd manifest))) \<noteq> DENY"
    and "tier_allows_runtime (map_option pb_tier (me_publishers env (ik_publisher p)))"
    and "requires_isolated_runtime d"
    and "\<not> pe_control_capable (run_evaluation env m (ik_publisher p) (fst manifest)
      (provided_capabilities d (snd manifest)))"
    and "\<exists>actual. me_content_sha256 env (ik_path p) = Inr actual \<and> py_lower actual = py_lower (ik_checksum p)"
  using assms
  by (simp_all add: start_checks_def verify_package_digest_def Let_def CONTROL_ISOLATION_GATE_OPEN_def
      split: if_splits sum.splits)

lemma evaluate_policy_control: "pe_control_capable (evaluate_policy policy publisher revocation q)
    \<or> \<not> is_control_capable (pq_permissions q) (pq_provided_capabilities q)"
proof -
  have ev: "pe_control_capable (evaluation d r p c) = c" for d r p c by (simp add: evaluation_def)
  have trust: "pe_control_capable e \<or> \<not> c" if "revocation_trust_decision ctx q p c = Some e" for ctx p c e
    using that by (auto simp: revocation_trust_decision_def ev split: if_splits)
  have rules: "pe_control_capable (evaluate_rules p x q c) \<or> \<not> c" for p x c
    by (simp add: evaluate_rules_def Let_def ev)
  have rev: "pe_control_capable (evaluate_revocation p x ctx q c) \<or> \<not> c" for p x ctx c
    using trust rules by (auto simp: evaluate_revocation_def ev split: option.split)
  show ?thesis
    using rules rev by (simp add: evaluate_policy_def Let_def ev split: option.split)
qed

text \<open>C22. Only checked packages are launched by a start: when \<open>start_runtime\<close> launches anything, the
  module is registered as a package and installed, and for the version, digest and publisher of
  the request, or where it names none of the installed package, either spawning is enabled
  globally or an authorisation of exactly this module, version, digest, publisher and site is
  neither revoked nor expired; the policy does not deny running the module with what its
  manifest declares, the publisher's tier may run, the module is not capable of
  control, and the content on disk has that digest.\<close>

theorem start_launches_checked:
  assumes "im_launches (snd (start_runtime env now i q st)) \<noteq> im_launches st"
  shows "\<exists>d installed version sha publisher permissions capabilities actual.
    map_of (me_registry env) (sr_module_id q) = Some d \<and> md_package_source d \<noteq> BUILT_IN
    \<and> me_packages env (sr_module_id q) = Some installed
    \<and> version = requested_or (sr_version q) (ik_version installed)
    \<and> sha = requested_or (sr_artifact_sha256 q) (ik_checksum installed)
    \<and> publisher = requested_or (sr_publisher_id q) (ik_publisher installed)
    \<and> (me_spawn_allowed env \<or> (\<exists>a \<in> set (im_authorizations st). ra_module_id a = sr_module_id q
         \<and> ra_version a = version \<and> ra_artifact_sha256 a = py_lower sha \<and> ra_publisher_id a = publisher
         \<and> ra_site_id a = sr_site_id q \<and> ra_revoked_at a = None \<and> now < ra_expires_at a))
    \<and> me_manifest env (ik_path installed) = Inr (permissions, capabilities)
    \<and> pe_decision (run_evaluation env (sr_module_id q) publisher permissions
        (provided_capabilities d capabilities)) \<noteq> DENY
    \<and> tier_allows_runtime (map_option pb_tier (me_publishers env publisher))
    \<and> \<not> is_control_capable permissions (provided_capabilities d capabilities)
    \<and> me_content_sha256 env (ik_path installed) = Inr actual \<and> py_lower actual = py_lower sha"
proof -
  let ?m = "sr_module_id q" and ?site = "sr_site_id q"
  obtain d installed manifest where d: "map_of (me_registry env) ?m = Some d"
    and installed: "me_packages env ?m = Some installed"
    and ok: "start_checks env now ?m ?site d (requested_package q installed) st = Inr (Inr manifest)"
    using assms by (auto simp: start_runtime_def Let_def split: option.splits sum.splits)
  let ?p = "requested_package q installed"
  have fields: "ik_version ?p = requested_or (sr_version q) (ik_version installed)"
    "ik_checksum ?p = requested_or (sr_artifact_sha256 q) (ik_checksum installed)"
    "ik_publisher ?p = requested_or (sr_publisher_id q) (ik_publisher installed)"
    "ik_path ?p = ik_path installed"
    by (simp_all add: requested_package_def)
  note checks = start_checks_passed [OF ok]
  have "me_spawn_allowed env \<or> (\<exists>a \<in> set (im_authorizations st). ra_module_id a = ?m
       \<and> ra_version a = ik_version ?p \<and> ra_artifact_sha256 a = py_lower (ik_checksum ?p)
       \<and> ra_publisher_id a = ik_publisher ?p \<and> ra_site_id a = ?site \<and> ra_revoked_at a = None
       \<and> now < ra_expires_at a)"
    using checks(1) unfolding runtime_spawn_allowed_def find_valid_def by (auto simp: find_None_iff)
  moreover have "\<not> is_control_capable (fst manifest) (provided_capabilities d (snd manifest))"
    using checks(6) evaluate_policy_control unfolding run_evaluation_def by fastforce
  moreover have "md_package_source d \<noteq> BUILT_IN"
    using checks(5) by (simp add: requires_isolated_runtime_def)
  ultimately show ?thesis
    using d installed fields checks(2-4,7) by (metis prod.collapse)
qed

subsection \<open>An example manager\<close>

definition example_package :: isolated_package where
  "example_package = \<lparr> ik_publisher = ''acme'', ik_version = ''1.0.0'', ik_checksum = ''ab'', ik_path = ''/p'' \<rparr>"

definition example_manager :: manager_env where
  "example_manager = \<lparr> me_gateway = \<lparr> env_settings = \<lparr> gs_protocol_version = 1, gs_rate_limit_per_minute = 600,
       gs_max_concurrent = 16, gs_module_uid = 10001, gs_module_gid = 10001, gs_lease_ttl = 60 \<rparr>,
       env_sign = (\<lambda>i r. []), env_external = (\<lambda>c q. Inl ValueError) \<rparr>,
     me_spawn_allowed = True,
     me_registry = [(''integration.acme'', (example_descriptor ''integration.acme'' [] [READ_POWER] [])
       \<lparr> md_package_source := INSTALLED \<rparr>)],
     me_packages = (\<lambda>m. Some example_package), me_manifest = (\<lambda>path. Inr ([''telemetry.read''], [])),
     me_content_sha256 = (\<lambda>path. Inr ''AB''),
     me_policy = \<lparr> ip_policy_version = 1, ip_allowed_tiers = DEFAULT_ALLOWED_TIERS, ip_publisher_allowlist = [],
       ip_publisher_denylist = [], ip_module_allowlist = [], ip_module_denylist = [],
       ip_blocked_permissions = [], ip_control_module_policy = ''OFFICIAL_ONLY'', ip_break_glass_enabled = False \<rparr>,
     me_publishers = (\<lambda>p. Some \<lparr> pb_publisher_id = p, pb_tier = ''VERIFIED'', pb_status = ACTIVE \<rparr>),
     me_revocations = \<lparr> rc_freshness = ''fresh'', rc_metadata_health = ''ok'', rc_revocations = [] \<rparr>,
     me_owner = (\<lambda>m. None), me_break_glass_active = False, me_marketplace_enabled = True, me_production = True,
     me_critical_advisory = (\<lambda>m v. False), me_sandbox_mode = ''bwrap'', me_data_path = (\<lambda>m site i. ''/d''),
     me_listen_address = (\<lambda>i. ''/s''), me_site_config = (\<lambda>m site. []), me_credential = (\<lambda>m site. None),
     me_startup_token = (\<lambda>st i. ''t''), me_setup_fault = (\<lambda>st i. None), me_server_fault = (\<lambda>st i. None),
     me_launch = (\<lambda>st i. Inr (1, ''pid:1'')), me_polls = (\<lambda>st i. [([], False)]), me_exited = (\<lambda>st i. True),
     me_disk_bytes = (\<lambda>st path. None), me_heartbeat_interval = 10, me_miss_threshold = 3, me_max_restarts = 3,
     me_restart_backoff = 1, me_data_quota_mb = 128 \<rparr>"

lemma launches_frames [simp]:
  "im_launches (snd (transition_row i b upd st)) = im_launches st"
  "im_launches (serve_request env ev st) = im_launches st"
  by (cases rule: transition_row_cases [of st i b upd])
    (simp_all add: serve_request_def on_heartbeat_def record_heartbeat_def commit_def Let_def
      split: option.split sum.split rpc_result.split)

lemma launches_and_then:
  "(\<And>a s. im_launches (snd (f a s)) = im_launches s) \<Longrightarrow> im_launches (snd (and_then r f)) = im_launches (snd r)"
  by (cases r; cases "fst r") (auto simp: and_then_def)

lemma launches_wait [simp]: "im_launches (snd (wait_for_process_ready env i ps st)) = im_launches st"
proof (induction ps arbitrary: st)
  case (Cons p ps)
  have "im_launches (foldl (\<lambda>s ev. serve_request env ev s) s evs) = im_launches s" for evs s
    by (induction evs arbitrary: s) simp_all
  then show ?case using Cons by (simp add: Let_def)
qed simp

lemma launches_stop [simp]: "im_launches (snd (stop_runtime i reason st)) = im_launches st"
  by (auto simp: stop_runtime_def Let_def launches_and_then split: option.split)

lemma come_up_launches:
  "me_launch env st i = Inr proc \<Longrightarrow> im_launches (snd (come_up env now i first timeout running r st)) = im_launches st @ [i]"
  by (simp add: come_up_def Let_def launches_and_then)

lemma or_crashed_launches:
  "(\<And>s. im_launches (cleanup s) = im_launches s) \<Longrightarrow> im_launches (snd (or_crashed i cleanup b r)) = im_launches (snd r)"
  by (auto simp: or_crashed_def launches_and_then split: sum.split)

lemma start_runtime_launches:
  assumes "map_of (me_registry env) (sr_module_id q) = Some d" "me_packages env (sr_module_id q) = Some p"
    and "start_checks env now (sr_module_id q) (sr_site_id q) d (requested_package q p) st = Inr (Inr manifest)"
    and "map_of (im_rows st) i = None"
    and "\<And>s. me_setup_fault env s i = None" "\<And>s. me_server_fault env s i = None" "\<And>s. me_launch env s i = Inr proc"
  shows "im_launches (snd (start_runtime env now i q st)) = im_launches st @ [i]"
  using assms
  by (simp add: start_runtime_def launch_runtime_def Let_def create_instance_def transition_row_def
      assert_transition_def can_transition_def map_add_def or_crashed_launches come_up_launches)

definition example_start :: start_request where
  "example_start = \<lparr> sr_module_id = ''integration.acme'', sr_site_id = 1, sr_version = None,
     sr_artifact_sha256 = Some [], sr_publisher_id = Some ''other'' \<rparr>"

theorem start_launches_checked_witness:
  "\<exists>actual. me_content_sha256 example_manager ''/p'' = Inr actual \<and> py_lower actual = py_lower ''ab''"
proof -
  let ?d = "(example_descriptor ''integration.acme'' [] [READ_POWER] [])\<lparr> md_package_source := INSTALLED \<rparr>"
  have "start_checks example_manager 0 (sr_module_id example_start) (sr_site_id example_start) ?d
      (requested_package example_start example_package) initial_isolation = Inr (Inr ([''telemetry.read''], []))"
    by code_simp
  then have "im_launches (snd (start_runtime example_manager 0 ''r1'' example_start initial_isolation)) = [''r1'']"
    by (subst start_runtime_launches) (simp_all add: example_manager_def example_start_def initial_isolation_def)
  then have "im_launches (snd (start_runtime example_manager 0 ''r1'' example_start initial_isolation))
      \<noteq> im_launches initial_isolation"
    by (simp add: initial_isolation_def)
  from start_launches_checked [OF this] show ?thesis
    by (auto simp: example_manager_def example_package_def example_start_def requested_or_def)
qed

subsection \<open>What a rollback forgets\<close>

text \<open>
  With a threshold of one miss every tick finds the heartbeat of the newer runtime missing and
  launches it again; then the restart of the older one raises, the collector rolls the session
  back, and the next tick starts from the same rows.
\<close>

definition failing_manager :: manager_env where
  "failing_manager = example_manager\<lparr> me_miss_threshold := 1, me_max_restarts := 1,
     me_polls := (\<lambda>st i. []),
     me_server_fault := (\<lambda>st i. if i = ''r1'' \<and> length (im_launches st) > 0 then Some ''OSError'' else None) \<rparr>"

definition running_row :: "string \<Rightarrow> runtime_row" where
  "running_row i = \<lparr> rr_runtime_instance_id = i, rr_module_id = ''integration.acme'', rr_version = ''1.0.0'',
     rr_artifact_sha256 = ''ab'', rr_site_id = 1, rr_state = RUNNING, rw_publisher_id = ''acme'', rw_process = None,
     rw_sandbox_mode = None, rw_socket_path = None, rw_package_path = None, rw_data_path = None,
     rw_restart_count = 0, rw_last_error = None, rw_reason_codes = [], rw_permissions = [],
     rw_started_at = Some 0, rw_last_heartbeat_at = None \<rparr>"

definition two_running :: "string list \<Rightarrow> isolation_state" where
  "two_running launches = initial_isolation\<lparr>
     im_rows := [(''r1'', running_row ''r1''), (''r2'', running_row ''r2'')], im_launches := launches,
     im_committed := ([(''r1'', running_row ''r1''), (''r2'', running_row ''r2'')], [], []) \<rparr>"

lemma restart_forgotten:
  "let st = supervise_isolated_runtimes failing_manager 1000000000 (two_running [''r1'', ''r2'']) in
   im_rows st = im_rows (two_running []) \<and> im_launches st = [''r1'', ''r2'', ''r2'']"
  by code_simp

end
