(* ===== verification/Ev_Attribution.thy ===== *)
theory Ev_Attribution
  imports Emic_Prelude
begin

section \<open>Where the energy of an electric car comes from\<close>

text \<open>
  \<open>ev_accounting/\<close>: the site sample and the other records (\<open>models.py\<close>), the ledger of the
  house battery (\<open>battery_ledger.py\<close>), the attribution of charged energy to four sources
  (\<open>attribution.py\<close>), its cost (\<open>cost.py\<close>), the reconciliation with the charger's meter
  (\<open>reconciliation.py\<close>) and the totals of a session (\<open>session_totals.py\<close>). Energies and
  prices are exact rationals; \<open>round\<close> is \<^const>\<open>round_to\<close>.
\<close>

subsection \<open>Samples\<close>

record site_sample =
  ss_pv_power_w :: rat
  ss_house_consumption_w :: rat
  ss_grid_import_w :: rat
  ss_grid_export_w :: rat
  ss_battery_charge_w :: rat
  ss_battery_discharge_w :: rat
  ss_ev_power_w :: rat
  ss_electricity_price_sek_kwh :: "rat option"
  ss_duration_hours :: rat

definition to_kwh :: "rat \<Rightarrow> site_sample \<Rightarrow> rat" where
  "to_kwh w s = max 0 w * ss_duration_hours s / 1000"

definition pv_kwh :: "site_sample \<Rightarrow> rat" where "pv_kwh s = to_kwh (ss_pv_power_w s) s"
definition house_kwh :: "site_sample \<Rightarrow> rat" where "house_kwh s = to_kwh (ss_house_consumption_w s) s"
definition grid_import_kwh :: "site_sample \<Rightarrow> rat" where "grid_import_kwh s = to_kwh (ss_grid_import_w s) s"
definition grid_export_kwh :: "site_sample \<Rightarrow> rat" where "grid_export_kwh s = to_kwh (ss_grid_export_w s) s"
definition battery_charge_kwh :: "site_sample \<Rightarrow> rat" where
  "battery_charge_kwh s = to_kwh (ss_battery_charge_w s) s"
definition battery_discharge_kwh :: "site_sample \<Rightarrow> rat" where
  "battery_discharge_kwh s = to_kwh (ss_battery_discharge_w s) s"

lemma to_kwh_nonneg: "0 \<le> ss_duration_hours s \<Longrightarrow> 0 \<le> to_kwh w s"
  by (simp add: to_kwh_def)

subsection \<open>The battery ledger\<close>

record battery_ledger =
  bl_solar_energy_kwh :: rat
  bl_grid_energy_kwh :: rat
  bl_grid_energy_cost_sek :: rat

record discharge_split =
  ds_solar_kwh :: rat
  ds_grid_kwh :: rat
  ds_grid_cost_sek :: rat

definition empty_ledger :: battery_ledger where
  "empty_ledger = \<lparr> bl_solar_energy_kwh = 0, bl_grid_energy_kwh = 0, bl_grid_energy_cost_sek = 0 \<rparr>"

definition ledger_total_kwh :: "battery_ledger \<Rightarrow> rat" where
  "ledger_total_kwh l = bl_solar_energy_kwh l + bl_grid_energy_kwh l"

definition grid_avg_cost_sek_kwh :: "battery_ledger \<Rightarrow> rat option" where
  "grid_avg_cost_sek_kwh l = (if bl_grid_energy_kwh l \<le> 0 then None
     else Some (bl_grid_energy_cost_sek l / bl_grid_energy_kwh l))"

text \<open>Photovoltaic surplus over the house load, or the export when that is more.\<close>

definition solar_charge_kwh :: "site_sample \<Rightarrow> rat" where
  "solar_charge_kwh s =
     (let surplus = max 0 (pv_kwh s - house_kwh s);
          surplus = (if grid_export_kwh s > 0 then max surplus (grid_export_kwh s) else surplus)
      in min (battery_charge_kwh s) surplus)"

definition apply_charge :: "battery_ledger \<Rightarrow> site_sample \<Rightarrow> rat \<Rightarrow> battery_ledger" where
  "apply_charge l s price =
     (let solar = solar_charge_kwh s;
          grid = max 0 (battery_charge_kwh s - solar)
      in \<lparr> bl_solar_energy_kwh = bl_solar_energy_kwh l + solar,
           bl_grid_energy_kwh = bl_grid_energy_kwh l + grid,
           bl_grid_energy_cost_sek = bl_grid_energy_cost_sek l + grid * price \<rparr>)"

definition apply_discharge :: "battery_ledger \<Rightarrow> rat \<Rightarrow> battery_ledger \<times> discharge_split" where
  "apply_discharge l discharge =
     (let total = ledger_total_kwh l in
      if total \<le> 0 \<or> discharge \<le> 0
      then (l, \<lparr> ds_solar_kwh = 0, ds_grid_kwh = 0, ds_grid_cost_sek = 0 \<rparr>)
      else (let actual = min discharge total;
                solar_out = actual * (bl_solar_energy_kwh l / total);
                grid_out = actual * (bl_grid_energy_kwh l / total);
                cost_out = (if bl_grid_energy_kwh l > 0
                  then bl_grid_energy_cost_sek l * (grid_out / bl_grid_energy_kwh l) else 0)
            in (\<lparr> bl_solar_energy_kwh = max 0 (bl_solar_energy_kwh l - solar_out),
                  bl_grid_energy_kwh = max 0 (bl_grid_energy_kwh l - grid_out),
                  bl_grid_energy_cost_sek = max 0 (bl_grid_energy_cost_sek l - cost_out) \<rparr>,
                \<lparr> ds_solar_kwh = solar_out, ds_grid_kwh = grid_out, ds_grid_cost_sek = cost_out \<rparr>)))"

definition update_ledger ::
  "battery_ledger \<Rightarrow> site_sample \<Rightarrow> rat \<Rightarrow> battery_ledger \<times> discharge_split option" where
  "update_ledger l s price =
     (let l = (if battery_charge_kwh s > 0 then apply_charge l s price else l) in
      if battery_discharge_kwh s > 0
      then (let (l', d) = apply_discharge l (battery_discharge_kwh s) in (l', Some d))
      else (l, None))"

subsection \<open>Attribution\<close>

record energy_attribution =
  ea_solar_direct_kwh :: rat
  ea_solar_battery_kwh :: rat
  ea_grid_battery_kwh :: rat
  ea_grid_direct_kwh :: rat

definition no_energy :: energy_attribution where
  "no_energy = \<lparr> ea_solar_direct_kwh = 0, ea_solar_battery_kwh = 0, ea_grid_battery_kwh = 0,
     ea_grid_direct_kwh = 0 \<rparr>"

definition total_kwh :: "energy_attribution \<Rightarrow> rat" where
  "total_kwh a = ea_solar_direct_kwh a + ea_solar_battery_kwh a + ea_grid_battery_kwh a + ea_grid_direct_kwh a"

definition renewable_kwh :: "energy_attribution \<Rightarrow> rat" where
  "renewable_kwh a = ea_solar_direct_kwh a + ea_solar_battery_kwh a"

definition grid_kwh :: "energy_attribution \<Rightarrow> rat" where
  "grid_kwh a = ea_grid_battery_kwh a + ea_grid_direct_kwh a"

record attribution_result =
  ar_attribution :: energy_attribution
  ar_confidence :: rat
  ar_data_quality :: string

definition ATTRIBUTION_TOLERANCE_KWH :: rat where "ATTRIBUTION_TOLERANCE_KWH = 5/100"
definition ATTRIBUTION_TOLERANCE_FRACTION :: rat where "ATTRIBUTION_TOLERANCE_FRACTION = 2/100"

definition within_tolerance :: "rat \<Rightarrow> rat \<Rightarrow> bool" where
  "within_tolerance attributed target =
     (if target \<le> 0 then attributed \<le> ATTRIBUTION_TOLERANCE_KWH
      else \<bar>attributed - target\<bar> \<le> ATTRIBUTION_TOLERANCE_KWH
           \<or> \<bar>attributed - target\<bar> / target \<le> ATTRIBUTION_TOLERANCE_FRACTION)"

definition round_attribution :: "energy_attribution \<Rightarrow> energy_attribution" where
  "round_attribution a = \<lparr> ea_solar_direct_kwh = round_to 4 (ea_solar_direct_kwh a),
     ea_solar_battery_kwh = round_to 4 (ea_solar_battery_kwh a),
     ea_grid_battery_kwh = round_to 4 (ea_grid_battery_kwh a),
     ea_grid_direct_kwh = round_to 4 (ea_grid_direct_kwh a) \<rparr>"

definition scale_attribution :: "energy_attribution \<Rightarrow> rat \<Rightarrow> energy_attribution" where
  "scale_attribution a target =
     (if total_kwh a \<le> 0 then no_energy\<lparr>ea_grid_direct_kwh := target\<rparr>
      else (let factor = target / total_kwh a in
        \<lparr> ea_solar_direct_kwh = round_to 4 (ea_solar_direct_kwh a * factor),
          ea_solar_battery_kwh = round_to 4 (ea_solar_battery_kwh a * factor),
          ea_grid_battery_kwh = round_to 4 (ea_grid_battery_kwh a * factor),
          ea_grid_direct_kwh = round_to 4 (ea_grid_direct_kwh a * factor) \<rparr>))"

text \<open>The four steps of \<open>attribute_interval\<close> before rounding: solar surplus, battery discharge,
  grid import, and what is left over.\<close>

definition solar_direct_part :: "rat \<Rightarrow> site_sample \<Rightarrow> rat" where
  "solar_direct_part ev s =
     (let non_ev_house = max 0 (house_kwh s - ev);
          surplus = max 0 (pv_kwh s - non_ev_house - battery_charge_kwh s);
          surplus = (if grid_export_kwh s > 0 \<and> ev > 0 then max surplus (min (grid_export_kwh s) ev) else surplus)
      in min ev surplus)"

definition battery_parts :: "rat \<Rightarrow> site_sample \<Rightarrow> discharge_split option \<Rightarrow> rat \<times> rat \<times> rat" where
  "battery_parts remaining s split =
     (case split of
        None \<Rightarrow> (0, 0, remaining)
      | Some d \<Rightarrow>
          if remaining > 0 \<and> battery_discharge_kwh s > 0 then
            (let available = ds_solar_kwh d + ds_grid_kwh d;
                 to_ev = min remaining available
             in if available > 0
                then (to_ev * (ds_solar_kwh d / available), to_ev * (ds_grid_kwh d / available), remaining - to_ev)
                else (0, 0, remaining - to_ev))
          else (0, 0, remaining))"

definition grid_direct_part :: "rat \<Rightarrow> site_sample \<Rightarrow> rat" where
  "grid_direct_part remaining s =
     (let (grid, remaining) =
        (if remaining > 0 \<and> grid_import_kwh s > 0 then
           (let non_ev_import = max 0 (grid_import_kwh s - remaining);
                attributable = max 0 (grid_import_kwh s - non_ev_import);
                grid = min remaining attributable
            in (grid, remaining - grid))
         else (0, remaining))
      in if remaining > 0 then grid + remaining else grid)"

definition exact_attribution :: "rat \<Rightarrow> site_sample \<Rightarrow> discharge_split option \<Rightarrow> energy_attribution" where
  "exact_attribution ev s split =
     (let solar = solar_direct_part ev s;
          (solar_battery, grid_battery, remaining) = battery_parts (ev - solar) s split
      in \<lparr> ea_solar_direct_kwh = solar, ea_solar_battery_kwh = solar_battery,
           ea_grid_battery_kwh = grid_battery, ea_grid_direct_kwh = grid_direct_part remaining s \<rparr>)"

definition attribute_interval ::
  "rat \<Rightarrow> site_sample \<Rightarrow> discharge_split option \<Rightarrow> rat option \<Rightarrow> attribution_result" where
  "attribute_interval charged s split ev_power =
     (if charged \<le> 0
      then \<lparr> ar_attribution = no_energy, ar_confidence = 1, ar_data_quality = ''MEASURED'' \<rparr>
      else (let a = round_attribution (exact_attribution charged s split);
                estimated = (case ev_power of None \<Rightarrow> False | Some w \<Rightarrow> w \<le> 0 \<and> charged > 0);
                confidence = (if estimated then 5/10 else 8/10);
                quality = (if estimated then ''ESTIMATED'' else ''CALCULATED'')
            in if within_tolerance (total_kwh a) charged
               then \<lparr> ar_attribution = a, ar_confidence = confidence, ar_data_quality = quality \<rparr>
               else \<lparr> ar_attribution = scale_attribution a charged, ar_confidence = min confidence (7/10),
                      ar_data_quality = quality \<rparr>))"

subsection \<open>The ledger is a well-mixed tank\<close>

text \<open>
  The abstract battery holds parcels of energy, each solar or bought at a price; a discharge
  takes the same fraction of every parcel. The ledger of the code keeps three sums of it.
\<close>

datatype parcel = Solar rat | Bought rat rat

fun parcel_kwh :: "parcel \<Rightarrow> rat" where
  "parcel_kwh (Solar e) = e"
| "parcel_kwh (Bought e price) = e"

fun shrink_parcel :: "rat \<Rightarrow> parcel \<Rightarrow> parcel" where
  "shrink_parcel f (Solar e) = Solar (e * f)"
| "shrink_parcel f (Bought e price) = Bought (e * f) price"

fun parcel_ok :: "parcel \<Rightarrow> bool" where
  "parcel_ok (Solar e) = (0 \<le> e)"
| "parcel_ok (Bought e price) = (0 \<le> e \<and> 0 \<le> price)"

fun solar_of :: "parcel \<Rightarrow> rat" where
  "solar_of (Solar e) = e"
| "solar_of (Bought e price) = 0"

fun bought_of :: "parcel \<Rightarrow> rat" where
  "bought_of (Solar e) = 0"
| "bought_of (Bought e price) = e"

fun paid_for :: "parcel \<Rightarrow> rat" where
  "paid_for (Solar e) = 0"
| "paid_for (Bought e price) = e * price"

definition ledger_of :: "parcel list \<Rightarrow> battery_ledger" where
  "ledger_of ps = \<lparr> bl_solar_energy_kwh = sum_list (map solar_of ps),
     bl_grid_energy_kwh = sum_list (map bought_of ps), bl_grid_energy_cost_sek = sum_list (map paid_for ps) \<rparr>"

definition tank_kwh :: "parcel list \<Rightarrow> rat" where
  "tank_kwh ps = sum_list (map parcel_kwh ps)"

definition tank_charge :: "rat \<Rightarrow> rat \<Rightarrow> rat \<Rightarrow> parcel list \<Rightarrow> parcel list" where
  "tank_charge solar grid price ps = ps @ [Solar solar, Bought grid price]"

definition tank_discharge :: "rat \<Rightarrow> parcel list \<Rightarrow> parcel list" where
  "tank_discharge e ps = (if tank_kwh ps \<le> 0 then ps
     else map (shrink_parcel (1 - min e (tank_kwh ps) / tank_kwh ps)) ps)"

definition tank_step :: "parcel list \<Rightarrow> site_sample \<times> rat \<Rightarrow> parcel list" where
  "tank_step ps e = (case e of (s, price) \<Rightarrow>
     (let ps = (if battery_charge_kwh s > 0
            then tank_charge (solar_charge_kwh s) (battery_charge_kwh s - solar_charge_kwh s) price ps else ps)
      in if battery_discharge_kwh s > 0 then tank_discharge (battery_discharge_kwh s) ps else ps))"

definition ledger_step :: "battery_ledger \<Rightarrow> site_sample \<times> rat \<Rightarrow> battery_ledger" where
  "ledger_step l e = fst (update_ledger l (fst e) (snd e))"

lemma ledger_of_append:
  "ledger_of (ps @ qs) = \<lparr> bl_solar_energy_kwh = bl_solar_energy_kwh (ledger_of ps) + bl_solar_energy_kwh (ledger_of qs),
     bl_grid_energy_kwh = bl_grid_energy_kwh (ledger_of ps) + bl_grid_energy_kwh (ledger_of qs),
     bl_grid_energy_cost_sek = bl_grid_energy_cost_sek (ledger_of ps) + bl_grid_energy_cost_sek (ledger_of qs) \<rparr>"
  by (simp add: ledger_of_def)

lemma shrink_sums:
  "sum_list (map solar_of (map (shrink_parcel f) ps)) = sum_list (map solar_of ps) * f"
  "sum_list (map bought_of (map (shrink_parcel f) ps)) = sum_list (map bought_of ps) * f"
  "sum_list (map paid_for (map (shrink_parcel f) ps)) = sum_list (map paid_for ps) * f"
proof -
  have parts: "solar_of (shrink_parcel f p) = solar_of p * f" "bought_of (shrink_parcel f p) = bought_of p * f"
    "paid_for (shrink_parcel f p) = paid_for p * f" for p by (cases p; simp)+
  show "sum_list (map solar_of (map (shrink_parcel f) ps)) = sum_list (map solar_of ps) * f"
    "sum_list (map bought_of (map (shrink_parcel f) ps)) = sum_list (map bought_of ps) * f"
    "sum_list (map paid_for (map (shrink_parcel f) ps)) = sum_list (map paid_for ps) * f"
    by (induction ps) (simp_all add: parts distrib_right)
qed

lemma tank_kwh_ledger: "tank_kwh ps = ledger_total_kwh (ledger_of ps)"
proof -
  have "parcel_kwh p = solar_of p + bought_of p" for p by (cases p) simp_all
  then show ?thesis
    by (induction ps) (simp_all add: tank_kwh_def ledger_total_kwh_def ledger_of_def)
qed

definition tank_ok :: "parcel list \<Rightarrow> bool" where
  "tank_ok ps \<longleftrightarrow> list_all parcel_ok ps"

lemma tank_sums:
  assumes "tank_ok ps"
  shows "0 \<le> sum_list (map solar_of ps)" "0 \<le> sum_list (map bought_of ps)" "0 \<le> sum_list (map paid_for ps)"
    "sum_list (map bought_of ps) = 0 \<Longrightarrow> sum_list (map paid_for ps) = 0"
proof -
  have ok: "0 \<le> solar_of p \<and> 0 \<le> bought_of p \<and> 0 \<le> paid_for p" if "p \<in> set ps" for p
  proof -
    have "parcel_ok p" using that assms by (simp add: tank_ok_def list_all_iff)
    then show ?thesis by (cases p) simp_all
  qed
  then show "0 \<le> sum_list (map solar_of ps)" "0 \<le> sum_list (map bought_of ps)" "0 \<le> sum_list (map paid_for ps)"
    by (auto intro!: sum_list_nonneg)
  assume "sum_list (map bought_of ps) = 0"
  then have "bought_of p = 0" if "p \<in> set ps" for p
    using that ok sum_list_nonneg_eq_0_iff [of "map bought_of ps"] by auto
  then have "paid_for p = 0" if "p \<in> set ps" for p
  proof -
    have "bought_of p = 0" using that \<open>\<And>p. p \<in> set ps \<Longrightarrow> bought_of p = 0\<close> by blast
    then show ?thesis by (cases p) simp_all
  qed
  then show "sum_list (map paid_for ps) = 0"
    by (metis (no_types, lifting) map_eq_conv sum_list_0)
qed

lemma discharge_refines:
  assumes ok: "tank_ok ps" and e: "0 < e"
  shows "fst (apply_discharge (ledger_of ps) e) = ledger_of (tank_discharge e ps)"
proof (cases "tank_kwh ps \<le> 0")
  case True
  then show ?thesis by (simp add: apply_discharge_def tank_discharge_def tank_kwh_ledger Let_def)
next
  case False
  define t where "t = tank_kwh ps"
  define f where "f = min e t / t"
  have t: "0 < t" "ledger_total_kwh (ledger_of ps) = t" using False by (simp_all add: t_def tank_kwh_ledger)
  then have f: "0 \<le> f" "f \<le> 1" using e by (simp_all add: f_def)
  let ?s = "sum_list (map solar_of ps)" and ?g = "sum_list (map bought_of ps)" and ?c = "sum_list (map paid_for ps)"
  have pos: "0 \<le> x * (1 - f)" if "0 \<le> x" for x using that f by simp
  have solar: "?s - min e t * (?s / t) = ?s * (1 - f)" and grid: "?g - min e t * (?g / t) = ?g * (1 - f)"
    by (simp_all add: f_def algebra_simps)
  have cost: "?c - (if 0 < ?g then ?c * (min e t * (?g / t) / ?g) else 0) = ?c * (1 - f)"
    using tank_sums(2,4) [OF ok] by (auto simp: f_def algebra_simps)
  have "fst (apply_discharge (ledger_of ps) e)
      = \<lparr> bl_solar_energy_kwh = max 0 (?s - min e t * (?s / t)), bl_grid_energy_kwh = max 0 (?g - min e t * (?g / t)),
          bl_grid_energy_cost_sek = max 0 (?c - (if 0 < ?g then ?c * (min e t * (?g / t) / ?g) else 0)) \<rparr>"
    using t e by (simp add: apply_discharge_def Let_def ledger_of_def)
  also have "\<dots> = ledger_of (tank_discharge e ps)"
    using tank_sums(1-3) [OF ok] False pos unfolding solar grid cost
    by (simp add: tank_discharge_def ledger_of_def shrink_sums f_def t_def max_def del: map_map)
  finally show ?thesis .
qed

lemma charge_refines:
  "0 < battery_charge_kwh s \<Longrightarrow> apply_charge (ledger_of ps) s price
     = ledger_of (tank_charge (solar_charge_kwh s) (battery_charge_kwh s - solar_charge_kwh s) price ps)"
  by (simp add: apply_charge_def tank_charge_def ledger_of_def Let_def solar_charge_kwh_def max_def)

lemma tank_discharge_ok: "tank_ok ps \<Longrightarrow> 0 < e \<Longrightarrow> tank_ok (tank_discharge e ps)"
proof -
  assume ok: "tank_ok ps" and e: "0 < e"
  have "parcel_ok (shrink_parcel f p)" if "parcel_ok p" "0 \<le> f" for f p using that by (cases p) simp_all
  then show ?thesis using ok e
    by (auto simp: tank_ok_def tank_discharge_def list_all_iff field_simps min_def)
qed

lemma solar_charge_bounds:
  "0 < battery_charge_kwh s \<Longrightarrow> 0 \<le> solar_charge_kwh s \<and> solar_charge_kwh s \<le> battery_charge_kwh s"
  by (auto simp: solar_charge_kwh_def Let_def)

interpretation ledger_tank: simulation ledger_step tank_step ledger_of tank_ok "\<lambda>e. 0 \<le> snd e"
proof
  fix ps and e :: "site_sample \<times> rat"
  assume ok: "tank_ok ps" and e: "0 \<le> snd e"
  obtain s price where e': "e = (s, price)" by (cases e)
  let ?ps = "if battery_charge_kwh s > 0
    then tank_charge (solar_charge_kwh s) (battery_charge_kwh s - solar_charge_kwh s) price ps else ps"
  have charged: "tank_ok ?ps"
    using ok e solar_charge_bounds [of s] by (auto simp: e' tank_ok_def tank_charge_def)
  then show "tank_ok (tank_step ps e)"
    using tank_discharge_ok [of ?ps "battery_discharge_kwh s"] by (simp add: e' tank_step_def Let_def)
  show "ledger_step (ledger_of ps) e = ledger_of (tank_step ps e)"
    using discharge_refines [OF charged, of "battery_discharge_kwh s"]
    by (auto simp: e' ledger_step_def tank_step_def update_ledger_def Let_def charge_refines case_prod_beta)
qed

subsection \<open>Attribution conserves energy\<close>

lemma solar_direct_bounds: "0 < ev \<Longrightarrow> 0 \<le> solar_direct_part ev s \<and> solar_direct_part ev s \<le> ev"
  by (auto simp: solar_direct_part_def Let_def)

definition split_ok :: "discharge_split option \<Rightarrow> bool" where
  "split_ok split = (case split of None \<Rightarrow> True | Some d \<Rightarrow> 0 \<le> ds_solar_kwh d \<and> 0 \<le> ds_grid_kwh d)"

lemma battery_parts_bounds:
  assumes "split_ok split" "0 \<le> r" "battery_parts r s split = (a, b, c)"
  shows "0 \<le> a \<and> 0 \<le> b \<and> 0 \<le> c \<and> a + b + c = r"
proof -
  have share: "\<lbrakk>0 \<le> x; 0 \<le> y; 0 < x + y\<rbrakk> \<Longrightarrow> m * (x / (x + y)) + m * (y / (x + y)) = m" for m x y :: rat
    by (simp add: distrib_left [symmetric] add_divide_distrib [symmetric])
  show ?thesis
  proof (cases split)
    case None
    then show ?thesis using assms by (simp add: battery_parts_def)
  next
    case (Some d)
    then have pos: "0 \<le> ds_solar_kwh d" "0 \<le> ds_grid_kwh d" using assms(1) by (simp_all add: split_ok_def)
    then show ?thesis
      using assms(2,3) Some share [OF pos, of "min r (ds_solar_kwh d + ds_grid_kwh d)"]
      by (auto simp: battery_parts_def Let_def min_def split: if_splits)
  qed
qed

lemma grid_direct_all: "0 \<le> r \<Longrightarrow> grid_direct_part r s = r"
  by (simp add: grid_direct_part_def Let_def)

lemma exact_attribution_total:
  assumes "0 < ev" "split_ok split"
  shows "total_kwh (exact_attribution ev s split) = ev"
    and "0 \<le> ea_solar_direct_kwh (exact_attribution ev s split)" "0 \<le> ea_solar_battery_kwh (exact_attribution ev s split)"
    and "0 \<le> ea_grid_battery_kwh (exact_attribution ev s split)" "0 \<le> ea_grid_direct_kwh (exact_attribution ev s split)"
proof -
  obtain a b c where parts: "battery_parts (ev - solar_direct_part ev s) s split = (a, b, c)"
    using prod_cases3 by blast
  have solar: "0 \<le> solar_direct_part ev s" "0 \<le> ev - solar_direct_part ev s"
    using solar_direct_bounds [OF assms(1), of s] by simp_all
  note bounds = battery_parts_bounds [OF assms(2) solar(2) parts]
  then show "total_kwh (exact_attribution ev s split) = ev"
    "0 \<le> ea_solar_direct_kwh (exact_attribution ev s split)" "0 \<le> ea_solar_battery_kwh (exact_attribution ev s split)"
    "0 \<le> ea_grid_battery_kwh (exact_attribution ev s split)" "0 \<le> ea_grid_direct_kwh (exact_attribution ev s split)"
    using parts solar by (auto simp: exact_attribution_def total_kwh_def Let_def grid_direct_all)
qed

definition attribution_ok :: "energy_attribution \<Rightarrow> bool" where
  "attribution_ok a \<longleftrightarrow> 0 \<le> ea_solar_direct_kwh a \<and> 0 \<le> ea_solar_battery_kwh a
     \<and> 0 \<le> ea_grid_battery_kwh a \<and> 0 \<le> ea_grid_direct_kwh a"

lemma round_to_4_near: "\<bar>round_to 4 x - x\<bar> \<le> 1/20000"
  using round_to_near [of 4 x] by simp

lemma round_attribution_near: "\<bar>total_kwh (round_attribution a) - total_kwh a\<bar> \<le> 2/10000"
  using round_to_4_near [of "ea_solar_direct_kwh a"] round_to_4_near [of "ea_solar_battery_kwh a"]
    round_to_4_near [of "ea_grid_battery_kwh a"] round_to_4_near [of "ea_grid_direct_kwh a"]
  unfolding total_kwh_def round_attribution_def energy_attribution.simps by linarith

lemma round_attribution_ok: "attribution_ok a \<Longrightarrow> attribution_ok (round_attribution a)"
  by (simp add: attribution_ok_def round_attribution_def round_to_nonneg)

lemma attribute_interval_unscaled:
  assumes "0 < charged" "split_ok split"
  shows "ar_attribution (attribute_interval charged s split w) = round_attribution (exact_attribution charged s split)"
proof -
  have "within_tolerance (total_kwh (round_attribution (exact_attribution charged s split))) charged"
    using round_attribution_near [of "exact_attribution charged s split"] exact_attribution_total(1) [OF assms, of s] assms(1)
    by (simp add: within_tolerance_def ATTRIBUTION_TOLERANCE_KWH_def)
  then show ?thesis using assms by (simp add: attribute_interval_def Let_def)
qed

lemma apply_discharge_split_ok:
  "0 \<le> bl_solar_energy_kwh l \<Longrightarrow> 0 \<le> bl_grid_energy_kwh l \<Longrightarrow> split_ok (Some (snd (apply_discharge l e)))"
  by (auto simp: apply_discharge_def split_ok_def Let_def ledger_total_kwh_def intro!: mult_nonneg_nonneg divide_nonneg_nonneg)

subsection \<open>Cost\<close>

record interval_cost =
  ic_actual_cash_cost_sek :: rat
  ic_opportunity_cost_sek :: rat
  ic_reference_cost_sek :: "rat option"
  ic_savings_sek :: "rat option"

definition DEFAULT_SAVINGS_BASELINE :: string where
  "DEFAULT_SAVINGS_BASELINE = ''IMMEDIATE_GRID_CHARGING''"

definition interval_costs ::
  "energy_attribution \<Rightarrow> rat option \<Rightarrow> rat option \<Rightarrow> rat \<Rightarrow> string \<Rightarrow> interval_cost" where
  "interval_costs a price battery_avg export baseline =
     (let direct = (case price of None \<Rightarrow> 0 | Some p \<Rightarrow> ea_grid_direct_kwh a * p);
          battery = (case battery_avg of None \<Rightarrow> 0 | Some c \<Rightarrow> ea_grid_battery_kwh a * c);
          actual = direct + battery;
          reference = (if baseline \<in> {DEFAULT_SAVINGS_BASELINE, ''AVERAGE_GRID_PRICE''}
            then map_option (\<lambda>p. total_kwh a * p) price else None)
      in \<lparr> ic_actual_cash_cost_sek = round_to 4 actual,
           ic_opportunity_cost_sek = round_to 4 (ea_solar_direct_kwh a * export),
           ic_reference_cost_sek = map_option (round_to 4) reference,
           ic_savings_sek = map_option (\<lambda>r. round_to 4 (r - actual)) reference \<rparr>)"

definition solar_contribution_sek :: "energy_attribution \<Rightarrow> rat option \<Rightarrow> rat" where
  "solar_contribution_sek a price = (case price of None \<Rightarrow> 0
     | Some p \<Rightarrow> round_to 4 ((ea_solar_direct_kwh a + ea_solar_battery_kwh a) * p))"

definition aggregate_session_costs :: "interval_cost list \<Rightarrow> rat \<times> rat \<times> rat option \<times> rat option" where
  "aggregate_session_costs is =
     (let actual = sum_list (map ic_actual_cash_cost_sek is);
          refs = map the (filter (\<lambda>r. r \<noteq> None) (map ic_reference_cost_sek is));
          reference = (if refs = [] then None else Some (sum_list refs))
      in (round_to 2 actual, round_to 2 (sum_list (map ic_opportunity_cost_sek is)),
          (case reference of None \<Rightarrow> None | Some r \<Rightarrow> if r = 0 then None else Some (round_to 2 r)),
          map_option (\<lambda>r. round_to 2 (r - actual)) reference))"

subsection \<open>Reconciliation\<close>

record reconciliation =
  rn_attribution :: energy_attribution
  rn_delta_kwh :: rat
  rn_note :: string
  rn_energy_quality :: string

definition reconcile :: "energy_attribution \<Rightarrow> rat option \<Rightarrow> rat \<Rightarrow> reconciliation" where
  "reconcile a measured attributed =
     (case measured of
        None \<Rightarrow> \<lparr> rn_attribution = a, rn_delta_kwh = 0, rn_note = ''no_meter_reading'',
                  rn_energy_quality = ''ESTIMATED'' \<rparr>
      | Some m \<Rightarrow>
          (let delta = m - attributed in
           if m \<le> 0 \<and> attributed > ATTRIBUTION_TOLERANCE_KWH
           then \<lparr> rn_attribution = a, rn_delta_kwh = delta, rn_note = ''meter_register_reset'',
                  rn_energy_quality = ''ESTIMATED'' \<rparr>
           else if \<bar>delta\<bar> \<le> ATTRIBUTION_TOLERANCE_KWH
           then \<lparr> rn_attribution = a, rn_delta_kwh = delta, rn_note = ''within_tolerance'',
                  rn_energy_quality = ''MEASURED'' \<rparr>
           else \<lparr> rn_attribution = (if attributed > 0 then scale_attribution a m
                     else no_energy\<lparr>ea_grid_direct_kwh := m\<rparr>),
                  rn_delta_kwh = delta, rn_note = ''scaled_to_meter'', rn_energy_quality = ''MEASURED'' \<rparr>))"

lemma scale_attribution_near: "\<bar>total_kwh (scale_attribution a m) - m\<bar> \<le> 2/10000"
proof (cases "total_kwh a \<le> 0")
  case True
  then show ?thesis by (simp add: scale_attribution_def total_kwh_def no_energy_def)
next
  case False
  define k where "k = m / total_kwh a"
  define b where "b = \<lparr> ea_solar_direct_kwh = ea_solar_direct_kwh a * k,
     ea_solar_battery_kwh = ea_solar_battery_kwh a * k, ea_grid_battery_kwh = ea_grid_battery_kwh a * k,
     ea_grid_direct_kwh = ea_grid_direct_kwh a * k \<rparr>"
  have "scale_attribution a m = round_attribution b"
    using False by (simp add: scale_attribution_def round_attribution_def b_def k_def Let_def)
  moreover have "total_kwh b = total_kwh a * k"
    by (simp add: b_def total_kwh_def distrib_right)
  ultimately show ?thesis
    using round_attribution_near [of b] False by (simp add: k_def)
qed

lemma scale_attribution_ok: "attribution_ok a \<Longrightarrow> 0 \<le> m \<Longrightarrow> attribution_ok (scale_attribution a m)"
  by (auto simp: attribution_ok_def scale_attribution_def no_energy_def Let_def intro!: round_to_nonneg)

subsection \<open>Properties\<close>

text \<open>C24. As long as prices are not negative, the ledger of the battery is that of a well-mixed tank:
  its three sums are the solar energy, the bought energy and the money paid for it that are
  left when every discharge takes the same fraction of every parcel charged so far.\<close>

theorem ledger_refines_tank:
  assumes "\<forall>e \<in> set es. 0 \<le> snd e"
  shows "foldl ledger_step empty_ledger es = ledger_of (foldl tank_step [] es)"
proof -
  have "empty_ledger = ledger_of []" by (simp add: empty_ledger_def ledger_of_def)
  then show ?thesis
    using ledger_tank.run_commutes [of "[]" es] assms by (simp add: tank_ok_def)
qed

definition night_charge :: site_sample where
  "night_charge = \<lparr> ss_pv_power_w = 0, ss_house_consumption_w = 500, ss_grid_import_w = 3500, ss_grid_export_w = 0,
     ss_battery_charge_w = 3000, ss_battery_discharge_w = 0, ss_ev_power_w = 0,
     ss_electricity_price_sek_kwh = Some 1, ss_duration_hours = 1 \<rparr>"

definition evening_discharge :: site_sample where
  "evening_discharge = night_charge\<lparr> ss_battery_charge_w := 0, ss_battery_discharge_w := 1500, ss_ev_power_w := 1500 \<rparr>"

theorem ledger_refines_tank_witness:
  "foldl ledger_step empty_ledger [(night_charge, 1), (evening_discharge, 2)]
     = ledger_of (foldl tank_step [] [(night_charge, 1), (evening_discharge, 2)])
   \<and> bl_grid_energy_cost_sek (foldl ledger_step empty_ledger [(night_charge, 1), (evening_discharge, 2)]) = 3/2"
proof -
  have "\<forall>e \<in> set [(night_charge, 1), (evening_discharge, 2::rat)]. 0 \<le> snd e" by simp
  note refined = ledger_refines_tank [OF this]
  moreover have "bl_grid_energy_cost_sek (ledger_of (foldl tank_step [] [(night_charge, 1), (evening_discharge, 2)])) = 3/2"
    by code_simp
  ultimately show ?thesis by simp
qed

text \<open>C25. The attribution of a charged energy has no negative part, its parts add up to the charged
  energy within 0.2 Wh, for every sample and every discharge split.\<close>

theorem attribution_conserves:
  assumes "0 < charged" "split_ok split"
  shows "attribution_ok (ar_attribution (attribute_interval charged s split w))
    \<and> \<bar>total_kwh (ar_attribution (attribute_interval charged s split w)) - charged\<bar> \<le> 2/10000"
proof -
  have "attribution_ok (exact_attribution charged s split)" "total_kwh (exact_attribution charged s split) = charged"
    using exact_attribution_total [OF assms, of s] by (simp_all add: attribution_ok_def)
  then show ?thesis
    using round_attribution_near [of "exact_attribution charged s split"]
    by (simp add: attribute_interval_unscaled [OF assms] round_attribution_ok)
qed

theorem attribution_conserves_witness:
  "\<bar>total_kwh (ar_attribution (attribute_interval (7/3) evening_discharge
     (Some \<lparr> ds_solar_kwh = 1/3, ds_grid_kwh = 1, ds_grid_cost_sek = 1 \<rparr>) None)) - 7/3\<bar> \<le> 2/10000"
proof -
  have "split_ok (Some \<lparr> ds_solar_kwh = 1/3, ds_grid_kwh = 1, ds_grid_cost_sek = 1 \<rparr>)"
    by (simp add: split_ok_def)
  from attribution_conserves [OF _ this, of "7/3"] show ?thesis by simp
qed

end
