(* ===== verification/Ev_Sessions.thy ===== *)
theory Ev_Sessions
  imports Ev_Attribution Charger_Meter
begin

section \<open>Charging sessions of electric cars\<close>

text \<open>
  The session bookkeeping of \<open>ev_accounting/\<close>: rows of the three tables it writes
  (\<open>db/models/ev.py\<close>, \<open>db/models/balance.py\<close>) and their repositories,  the price conversion (\<open>market_prices/currency.py\<close>), the totals of
  a session (\<open>session_totals.py\<close>), start and stop detection (\<open>session_service.py\<close>), the sampler
  (\<open>sampler.py\<close>), the cycle of the coordinator (\<open>coordinator.py\<close>), the repair of stored sessions
  (\<open>repair.py\<close>) and the statistics (\<open>statistics.py\<close>). Tables are lists in insertion order with a
  counter for the next id. The overview is taken after parsing, the market price of an hour and
  the readings of the chargers are inputs.
\<close>

subsection \<open>Prices\<close>

record price_row =
  mp_spot_price_eur_kwh :: "rat option"
  mp_all_in_price_eur_kwh :: "rat option"
  mp_feed_in_price_eur_kwh :: "rat option"

definition LEGACY_SEK_IN_EUR_COLUMN_THRESHOLD :: rat where "LEGACY_SEK_IN_EUR_COLUMN_THRESHOLD = 25/100"

definition is_legacy_sek_stored_as_eur :: "rat \<Rightarrow> bool" where
  "is_legacy_sek_stored_as_eur v \<longleftrightarrow> v > LEGACY_SEK_IN_EUR_COLUMN_THRESHOLD"

text \<open>\<open>rate\<close> is the setting \<open>eur_to_sek_rate\<close>.\<close>

definition eur_to_sek :: "rat \<Rightarrow> rat \<Rightarrow> rat" where "eur_to_sek rate v = v * rate"
definition sek_to_eur :: "rat \<Rightarrow> rat \<Rightarrow> rat" where "sek_to_eur rate v = v / rate"

definition stored_eur_to_sek_kwh :: "rat \<Rightarrow> rat option \<Rightarrow> rat option" where
  "stored_eur_to_sek_kwh rate v =
     map_option (\<lambda>v. if is_legacy_sek_stored_as_eur v then v else eur_to_sek rate v) v"

definition effective_price_eur :: "price_row option \<Rightarrow> rat option" where
  "effective_price_eur row =
     (case row of None \<Rightarrow> None
      | Some r \<Rightarrow> (case mp_all_in_price_eur_kwh r of
           Some v \<Rightarrow> if v = 0 then mp_spot_price_eur_kwh r else Some v
         | None \<Rightarrow> mp_spot_price_eur_kwh r))"

definition effective_price_sek_kwh :: "rat \<Rightarrow> price_row option \<Rightarrow> rat option" where
  "effective_price_sek_kwh rate row = stored_eur_to_sek_kwh rate (effective_price_eur row)"

definition feed_in_price_sek_kwh :: "rat \<Rightarrow> price_row option \<Rightarrow> rat option" where
  "feed_in_price_sek_kwh rate row = stored_eur_to_sek_kwh rate (Option.bind row mp_feed_in_price_eur_kwh)"

subsection \<open>Rows\<close>

record ev_interval =
  iv_id :: nat
  iv_session_id :: nat
  iv_charger_id :: nat
  iv_start_time :: time
  iv_end_time :: time
  iv_charged_energy_kwh :: rat
  iv_average_charging_power_w :: "rat option"
  iv_pv_production_kwh :: "rat option"
  iv_house_consumption_kwh :: "rat option"
  iv_grid_import_kwh :: "rat option"
  iv_grid_export_kwh :: "rat option"
  iv_battery_charge_kwh :: "rat option"
  iv_battery_discharge_kwh :: "rat option"
  iv_electricity_price_sek_kwh :: "rat option"
  iv_attribution :: energy_attribution
  iv_actual_cost_sek :: rat
  iv_reference_cost_sek :: "rat option"
  iv_savings_sek :: "rat option"
  iv_confidence :: "rat option"
  iv_data_quality :: "string option"

record session_totals =
  tt_total_energy_kwh :: rat
  tt_attribution :: energy_attribution
  tt_actual_cost_sek :: rat
  tt_reference_cost_sek :: "rat option"
  tt_savings_sek :: "rat option"
  tt_smart_charging_savings_sek :: "rat option"
  tt_solar_contribution_sek :: rat
  tt_renewable_share_pct :: rat
  tt_grid_share_pct :: rat
  tt_energy_quality :: string
  tt_cost_quality :: string
  tt_attribution_quality :: string
  tt_reconciliation_delta_kwh :: rat
  tt_reconciliation_note :: string

datatype session_status = EV_ACTIVE | EV_COMPLETED | EV_INCOMPLETE | EV_ESTIMATED

text \<open>The derived columns of a session are written together (\<open>as_fields\<close>): one optional record.\<close>

record ev_session =
  sn_id :: nat
  sn_charger_id :: nat
  sn_site_id :: nat
  sn_started_at :: time
  sn_ended_at :: "time option"
  sn_status :: session_status
  sn_meter_start_kwh :: "rat option"
  sn_meter_stop_kwh :: "rat option"
  sn_totals :: "session_totals option"
  sn_savings_baseline :: string
  sn_calculation_version :: string

record ledger_row =
  lr_site_id :: nat
  lr_recorded_at :: time
  lr_ledger :: battery_ledger

record ev_db =
  db_sessions :: "ev_session list"
  db_intervals :: "ev_interval list"
  db_ledger :: "ledger_row list"
  db_next_session :: nat
  db_next_interval :: nat

definition CALCULATION_VERSION :: string where "CALCULATION_VERSION = ''ev-energy-v1''"

subsection \<open>Repositories\<close>

definition create_session_row :: "nat \<Rightarrow> nat \<Rightarrow> time \<Rightarrow> rat option \<Rightarrow> ev_db \<Rightarrow> ev_session \<times> ev_db" where
  "create_session_row charger site started meter db =
     (let row = \<lparr> sn_id = db_next_session db, sn_charger_id = charger, sn_site_id = site,
          sn_started_at = started, sn_ended_at = None, sn_status = EV_ACTIVE,
          sn_meter_start_kwh = meter, sn_meter_stop_kwh = None, sn_totals = None,
          sn_savings_baseline = DEFAULT_SAVINGS_BASELINE, sn_calculation_version = CALCULATION_VERSION \<rparr>
      in (row, db\<lparr> db_sessions := db_sessions db @ [row], db_next_session := db_next_session db + 1 \<rparr>))"

definition is_active_of :: "nat \<Rightarrow> ev_session \<Rightarrow> bool" where
  "is_active_of charger s \<longleftrightarrow> sn_charger_id s = charger \<and> sn_status s = EV_ACTIVE"

definition get_active_for_charger :: "nat \<Rightarrow> ev_db \<Rightarrow> ev_session option" where
  "get_active_for_charger charger db =
     (case sort_key (\<lambda>s. - sn_started_at s) (filter (is_active_of charger) (db_sessions db)) of
        [] \<Rightarrow> None | s # _ \<Rightarrow> Some s)"

definition list_active :: "ev_db \<Rightarrow> ev_session list" where
  "list_active db = filter (\<lambda>s. sn_status s = EV_ACTIVE) (db_sessions db)"

definition list_for_charger ::
  "nat \<Rightarrow> time option \<Rightarrow> time option \<Rightarrow> session_status list \<Rightarrow> nat \<Rightarrow> nat \<Rightarrow> ev_db \<Rightarrow> ev_session list" where
  "list_for_charger charger from_time to_time statuses limit offset db =
     take limit (drop offset (sort_key (\<lambda>s. - sn_started_at s)
       (filter (\<lambda>s. sn_charger_id s = charger
            \<and> (case from_time of None \<Rightarrow> True | Some t \<Rightarrow> t \<le> sn_started_at s)
            \<and> (case to_time of None \<Rightarrow> True | Some t \<Rightarrow> sn_started_at s \<le> t)
            \<and> (statuses = [] \<or> sn_status s \<in> set statuses)) (db_sessions db))))"

definition update_totals :: "nat \<Rightarrow> (ev_session \<Rightarrow> ev_session) \<Rightarrow> ev_db \<Rightarrow> ev_db" where
  "update_totals sid changes db =
     db\<lparr> db_sessions := map (\<lambda>s. if sn_id s = sid then changes s else s) (db_sessions db) \<rparr>"

definition complete_row :: "nat \<Rightarrow> (ev_session \<Rightarrow> ev_session) \<Rightarrow> ev_db \<Rightarrow> ev_db" where
  "complete_row sid changes db = update_totals sid (\<lambda>s. changes (s\<lparr> sn_status := EV_COMPLETED \<rparr>)) db"

definition as_fields :: "session_totals \<Rightarrow> ev_session \<Rightarrow> ev_session" where
  "as_fields t s = s\<lparr> sn_totals := Some t \<rparr>"

definition insert_interval :: "ev_interval \<Rightarrow> ev_db \<Rightarrow> ev_db" where
  "insert_interval row db =
     db\<lparr> db_intervals := db_intervals db @ [row\<lparr> iv_id := db_next_interval db \<rparr>],
         db_next_interval := db_next_interval db + 1 \<rparr>"

definition list_for_session :: "nat \<Rightarrow> ev_db \<Rightarrow> ev_interval list" where
  "list_for_session sid db = sort_key iv_start_time (filter (\<lambda>i. iv_session_id i = sid) (db_intervals db))"

definition delete_intervals :: "nat list \<Rightarrow> ev_db \<Rightarrow> ev_db" where
  "delete_intervals ids db = db\<lparr> db_intervals := filter (\<lambda>i. iv_id i \<notin> set ids) (db_intervals db) \<rparr>"

definition insert_snapshot :: "nat \<Rightarrow> time \<Rightarrow> battery_ledger \<Rightarrow> ev_db \<Rightarrow> ev_db" where
  "insert_snapshot site at_time l db =
     db\<lparr> db_ledger := db_ledger db @ [\<lparr> lr_site_id = site, lr_recorded_at = at_time, lr_ledger = l \<rparr>] \<rparr>"

definition get_latest_ledger :: "nat \<Rightarrow> ev_db \<Rightarrow> battery_ledger option" where
  "get_latest_ledger site db =
     (case sort_key (\<lambda>r. - lr_recorded_at r) (filter (\<lambda>r. lr_site_id r = site) (db_ledger db)) of
        [] \<Rightarrow> None | r # _ \<Rightarrow> Some (lr_ledger r))"

subsection \<open>Totals of a session\<close>

definition sum_attributions :: "energy_attribution list \<Rightarrow> energy_attribution" where
  "sum_attributions as = \<lparr> ea_solar_direct_kwh = sum_list (map ea_solar_direct_kwh as),
     ea_solar_battery_kwh = sum_list (map ea_solar_battery_kwh as),
     ea_grid_battery_kwh = sum_list (map ea_grid_battery_kwh as),
     ea_grid_direct_kwh = sum_list (map ea_grid_direct_kwh as) \<rparr>"

definition session_totals_from_intervals :: "ev_interval list \<Rightarrow> rat option \<Rightarrow> string \<Rightarrow> session_totals" where
  "session_totals_from_intervals ivs measured meter_quality =
     (let attributed = sum_list (map iv_charged_energy_kwh ivs);
          (measured, quality) = (case measured of None \<Rightarrow> (attributed, ''ESTIMATED'') | Some m \<Rightarrow> (m, meter_quality));
          recon = reconcile (sum_attributions (map iv_attribution ivs)) (Some measured) attributed;
          actual = sum_list (map iv_actual_cost_sek ivs);
          reference = sum_list (List.map_filter iv_reference_cost_sek ivs);
          reference = (if reference > 0 then Some reference else None);
          savings = map_option (\<lambda>r. r - actual) reference;
          total = num_or (Some (total_kwh (rn_attribution recon))) (num_or (Some measured) 0)
      in \<lparr> tt_total_energy_kwh = total,
           tt_attribution = rn_attribution recon,
           tt_actual_cost_sek = actual,
           tt_reference_cost_sek = reference,
           tt_savings_sek = savings,
           tt_smart_charging_savings_sek = savings,
           tt_solar_contribution_sek =
             sum_list (map (\<lambda>i. solar_contribution_sek (iv_attribution i) (iv_electricity_price_sek_kwh i)) ivs),
           tt_renewable_share_pct = (if total > 0 then renewable_kwh (rn_attribution recon) / total * 100 else 0),
           tt_grid_share_pct = (if total > 0 then grid_kwh (rn_attribution recon) / total * 100 else 0),
           tt_energy_quality = (if quality = ''MEASURED'' then rn_energy_quality recon else quality),
           tt_cost_quality = (if reference \<noteq> None then ''CALCULATED'' else ''INCOMPLETE''),
           tt_attribution_quality = ''CALCULATED'',
           tt_reconciliation_delta_kwh = rn_delta_kwh recon,
           tt_reconciliation_note = rn_note recon \<rparr>)"

subsection \<open>The session service\<close>

record charger_runtime =
  rt_last_vehicle_connected :: "bool option"
  rt_last_meter_kwh :: "rat option"
  rt_last_sample_at :: "time option"

record ev_state =
  es_db :: ev_db
  es_runtime :: "nat \<Rightarrow> charger_runtime option"

definition fresh_runtime :: charger_runtime where
  "fresh_runtime = \<lparr> rt_last_vehicle_connected = None, rt_last_meter_kwh = None, rt_last_sample_at = None \<rparr>"

definition get_runtime_state :: "nat \<Rightarrow> ev_state \<Rightarrow> charger_runtime" where
  "get_runtime_state charger st = or_else (es_runtime st charger) fresh_runtime"

definition set_runtime :: "nat \<Rightarrow> charger_runtime \<Rightarrow> ev_state \<Rightarrow> ev_state" where
  "set_runtime charger rt st = st\<lparr> es_runtime := (es_runtime st)(charger \<mapsto> rt) \<rparr>"

definition resume_session :: "ev_state \<Rightarrow> ev_session \<Rightarrow> ev_state" where
  "resume_session st s =
     (let ivs = list_for_session (sn_id s) (es_db st) in
      set_runtime (sn_charger_id s)
        \<lparr> rt_last_vehicle_connected = Some True, rt_last_meter_kwh = None,
          rt_last_sample_at = Some (if ivs = [] then sn_started_at s else Max (set (map iv_end_time ivs))) \<rparr> st)"

definition resume_active_sessions :: "ev_state \<Rightarrow> ev_state" where
  "resume_active_sessions st = foldl resume_session st (list_active (es_db st))"

definition complete_session :: "ev_session \<Rightarrow> meter_snapshot \<Rightarrow> nat \<Rightarrow> ev_state \<Rightarrow> ev_state" where
  "complete_session active meter charger st =
     (let ivs = list_for_session (sn_id active) (es_db st);
          (measured, quality) = session_energy_from_meter (sn_meter_start_kwh active) (ms_cumulative_kwh meter);
          totals = session_totals_from_intervals ivs measured quality;
          db = complete_row (sn_id active) (\<lambda>s. as_fields totals
                 (s\<lparr> sn_ended_at := Some (ms_recorded_at meter), sn_meter_stop_kwh := ms_cumulative_kwh meter \<rparr>)) (es_db st)
      in set_runtime charger ((get_runtime_state charger st)\<lparr> rt_last_meter_kwh := ms_cumulative_kwh meter,
           rt_last_sample_at := Some (ms_recorded_at meter) \<rparr>) (st\<lparr> es_db := db \<rparr>))"

definition process_charger :: "nat \<Rightarrow> nat \<Rightarrow> meter_snapshot \<Rightarrow> ev_state \<Rightarrow> ev_state \<times> nat option" where
  "process_charger charger site meter st =
     (let rt = get_runtime_state charger st;
          was_connected = (rt_last_vehicle_connected rt = Some True);
          connected = ms_vehicle_connected meter;
          remember = (\<lambda>st. set_runtime charger
            ((get_runtime_state charger st)\<lparr> rt_last_vehicle_connected := Some connected \<rparr>) st)
      in case get_active_for_charger charger (es_db st) of
           None \<Rightarrow>
             if connected \<and> \<not> was_connected then
               (let (row, db) = create_session_row charger site (ms_recorded_at meter) (ms_cumulative_kwh meter) (es_db st)
                in (set_runtime charger \<lparr> rt_last_vehicle_connected = Some connected,
                      rt_last_meter_kwh = ms_cumulative_kwh meter, rt_last_sample_at = Some (ms_recorded_at meter) \<rparr>
                      (st\<lparr> es_db := db \<rparr>), Some (sn_id row)))
             else (remember st, None)
         | Some active \<Rightarrow>
             if \<not> connected \<and> was_connected
             then (remember (complete_session active meter charger st), Some (sn_id active))
             else (remember st, None))"

subsection \<open>The sampler\<close>

record ev_site =
  st_id :: nat
  st_fallback_purchase_price_sek_kwh :: rat
  st_export_compensation_sek_kwh :: rat

definition hour_of :: "time \<Rightarrow> time" where
  "hour_of t = t - t mod (3600 * us_per_s)"

definition ledger_state :: "nat \<Rightarrow> ev_db \<Rightarrow> battery_ledger" where
  "ledger_state site db = or_else (get_latest_ledger site db) empty_ledger"

definition sample_site_ledger :: "time \<Rightarrow> ev_site \<Rightarrow> site_sample \<Rightarrow> ev_db \<Rightarrow> ev_db" where
  "sample_site_ledger now site sample db =
     (let price = num_or (ss_electricity_price_sek_kwh sample) (st_fallback_purchase_price_sek_kwh site)
      in insert_snapshot (st_id site) now (fst (update_ledger (ledger_state (st_id site) db) sample price)) db)"

text \<open>The charged energy since the last sample and its quality: from the register, else from the
  power of the charger, else from the power the site reports.\<close>

definition charged_since :: "charger_runtime \<Rightarrow> meter_snapshot \<Rightarrow> site_sample \<Rightarrow> rat \<Rightarrow> rat \<times> string" where
  "charged_since rt meter sample hours =
     (let (kwh, quality) = (case (rt_last_meter_kwh rt, ms_cumulative_kwh meter) of
            (Some a, Some b) \<Rightarrow> if b - a \<ge> 0 then (b - a, ''MEASURED'') else (0, ''ESTIMATED'')
          | _ \<Rightarrow> (0, ''ESTIMATED''));
          (kwh, quality) = (if kwh \<le> 0 \<and> num_or (ms_power_w meter) 0 \<noteq> 0
            then (integrate_power_kwh (num_or (ms_power_w meter) 0) hours, ''ESTIMATED'') else (kwh, quality));
          (kwh, quality) = (if kwh \<le> 0 \<and> ss_ev_power_w sample > 0
            then (integrate_power_kwh (ss_ev_power_w sample) hours, ''ESTIMATED'') else (kwh, quality))
      in (kwh, quality))"

definition sample_price :: "rat \<Rightarrow> (time \<Rightarrow> price_row option) \<Rightarrow> time \<Rightarrow> ev_site \<Rightarrow> site_sample \<Rightarrow> rat" where
  "sample_price rate price_at now site sample =
     (case ss_electricity_price_sek_kwh sample of
        Some p \<Rightarrow> p
      | None \<Rightarrow> num_or (effective_price_sek_kwh rate (price_at (hour_of now))) (st_fallback_purchase_price_sek_kwh site))"

definition sampled_interval ::
  "rat \<Rightarrow> ev_site \<Rightarrow> ev_session \<Rightarrow> nat \<Rightarrow> time \<Rightarrow> meter_snapshot \<Rightarrow> site_sample \<Rightarrow> rat \<times> string
     \<Rightarrow> battery_ledger \<Rightarrow> ev_interval" where
  "sampled_interval price site active charger start meter sample charged l =
     (let now = ms_recorded_at meter;
          hours = elapsed_s now start / 3600;
          (kwh, quality) = charged;
          split = snd (update_ledger l sample (num_or (Some price) (st_fallback_purchase_price_sek_kwh site)));
          ar = attribute_interval kwh sample split (Some (num_or (ms_power_w meter) (ss_ev_power_w sample)));
          cost = interval_costs (ar_attribution ar) (Some price) (grid_avg_cost_sek_kwh l)
                   (st_export_compensation_sek_kwh site) DEFAULT_SAVINGS_BASELINE
      in \<lparr> iv_id = 0, iv_session_id = sn_id active, iv_charger_id = charger, iv_start_time = start, iv_end_time = now,
           iv_charged_energy_kwh = kwh,
           iv_average_charging_power_w = Some (if hours > 0 then kwh * 1000 / hours else 0),
           iv_pv_production_kwh = Some (pv_kwh sample), iv_house_consumption_kwh = Some (house_kwh sample),
           iv_grid_import_kwh = Some (grid_import_kwh sample), iv_grid_export_kwh = Some (grid_export_kwh sample),
           iv_battery_charge_kwh = Some (battery_charge_kwh sample),
           iv_battery_discharge_kwh = Some (battery_discharge_kwh sample),
           iv_electricity_price_sek_kwh = Some price,
           iv_attribution = ar_attribution ar,
           iv_actual_cost_sek = ic_actual_cash_cost_sek cost,
           iv_reference_cost_sek = ic_reference_cost_sek cost,
           iv_savings_sek = ic_savings_sek cost,
           iv_confidence = Some (ar_confidence ar),
           iv_data_quality = Some (if quality = ''MEASURED'' then quality else ar_data_quality ar) \<rparr>)"

definition sample_active_session ::
  "rat \<Rightarrow> (time \<Rightarrow> price_row option) \<Rightarrow> nat \<Rightarrow> ev_site \<Rightarrow> meter_snapshot \<Rightarrow> site_sample \<Rightarrow> ev_state \<Rightarrow> ev_state" where
  "sample_active_session rate price_at charger site meter sample st =
     (case get_active_for_charger charger (es_db st) of
        None \<Rightarrow> st
      | Some active \<Rightarrow>
          (let rt = get_runtime_state charger st;
               now = ms_recorded_at meter;
               start = or_else (rt_last_sample_at rt) (sn_started_at active);
               hours = max 0 (elapsed_s now start / 3600);
               charged = charged_since rt meter sample hours
           in if hours \<le> 0 then set_runtime charger rt st
              else if fst charged \<le> 0 then set_runtime charger (rt\<lparr> rt_last_sample_at := Some now \<rparr>) st
              else (let price = sample_price rate price_at now site sample;
                        row = sampled_interval price site active charger start meter sample charged
                                (ledger_state (st_id site) (es_db st));
                        db = insert_interval row (es_db st);
                        running = session_totals_from_intervals (list_for_session (sn_id active) db) None ''ESTIMATED'';
                        db = update_totals (sn_id active) (as_fields running) db
                    in set_runtime charger (rt\<lparr> rt_last_meter_kwh := ms_cumulative_kwh meter,
                         rt_last_sample_at := Some now \<rparr>) (st\<lparr> es_db := db \<rparr>))))"

subsection \<open>The cycle of the coordinator\<close>

record overview =
  ov_pv_power_w :: "rat option"
  ov_home_consumption_w :: "rat option"
  ov_grid_import_w :: "rat option"
  ov_grid_export_w :: "rat option"
  ov_battery_charge_power_w :: "rat option"
  ov_battery_discharge_power_w :: "rat option"
  ov_ev_actual_power_w :: "rat option"

definition overview_has_measurements :: "overview \<Rightarrow> bool" where
  "overview_has_measurements o' \<longleftrightarrow>
     list_ex (\<lambda>v. v \<noteq> None) [ov_pv_power_w o', ov_home_consumption_w o', ov_grid_import_w o', ov_grid_export_w o',
       ov_battery_charge_power_w o', ov_battery_discharge_power_w o']"

definition sample_from_parsed :: "overview \<Rightarrow> rat \<Rightarrow> rat \<Rightarrow> site_sample option" where
  "sample_from_parsed o' price hours =
     (if \<not> overview_has_measurements o' then None
      else Some \<lparr> ss_pv_power_w = num_or (ov_pv_power_w o') 0,
        ss_house_consumption_w = num_or (ov_home_consumption_w o') 0,
        ss_grid_import_w = num_or (ov_grid_import_w o') 0,
        ss_grid_export_w = num_or (ov_grid_export_w o') 0,
        ss_battery_charge_w = num_or (ov_battery_charge_power_w o') 0,
        ss_battery_discharge_w = num_or (ov_battery_discharge_power_w o') 0,
        ss_ev_power_w = num_or (ov_ev_actual_power_w o') 0,
        ss_electricity_price_sek_kwh = Some price, ss_duration_hours = hours \<rparr>)"

record charger_ref =
  ch_id :: nat
  ch_chargeamp_charger_id :: "string option"

text \<open>What \<open>MeterReaderFactory\<close> and the reader give for a charger: no reader, a failing one, a snapshot.\<close>

datatype meter_reading = No_reader | Reader_failed | Reading meter_snapshot

definition current_price :: "rat \<Rightarrow> (time \<Rightarrow> price_row option) \<Rightarrow> time \<Rightarrow> rat \<Rightarrow> rat" where
  "current_price rate price_at now fallback =
     or_else (effective_price_sek_kwh rate (price_at (hour_of now))) fallback"

definition coordinate_charger ::
  "rat \<Rightarrow> (time \<Rightarrow> price_row option) \<Rightarrow> ev_site \<Rightarrow> overview option \<Rightarrow> ev_state \<times> nat \<Rightarrow> charger_ref \<times> meter_reading
     \<Rightarrow> ev_state \<times> nat" where
  "coordinate_charger rate price_at site live acc entry =
     (let (st, processed) = acc; (row, reading) = entry in
      if ch_chargeamp_charger_id row = None \<or> ch_chargeamp_charger_id row = Some [] then acc
      else (case reading of
          No_reader \<Rightarrow> acc
        | Reader_failed \<Rightarrow> acc
        | Reading meter \<Rightarrow>
            (let sample = Option.bind live (\<lambda>o'. sample_from_parsed o' (st_fallback_purchase_price_sek_kwh site) (60 / 3600));
                 st = fst (process_charger (ch_id row) (st_id site) meter st);
                 st = (case sample of None \<Rightarrow> st
                       | Some s \<Rightarrow> sample_active_session rate price_at (ch_id row) site meter s st)
             in (st, processed + 1))))"

definition process_site ::
  "rat \<Rightarrow> (time \<Rightarrow> price_row option) \<Rightarrow> time \<Rightarrow> ev_site \<Rightarrow> overview option \<Rightarrow> (charger_ref \<times> meter_reading) list
     \<Rightarrow> ev_state \<Rightarrow> ev_state \<times> nat" where
  "process_site rate price_at now site live chargers st =
     (let price = current_price rate price_at now (st_fallback_purchase_price_sek_kwh site);
          st = (case Option.bind live (\<lambda>o'. sample_from_parsed o' price (60 / 3600)) of
                  None \<Rightarrow> st
                | Some s \<Rightarrow> st\<lparr> es_db := sample_site_ledger now site s (es_db st) \<rparr>)
      in foldl (coordinate_charger rate price_at site live) (st, 0) chargers)"

subsection \<open>Repair\<close>

record session_repair =
  sr_session_id :: nat
  sr_status :: session_status
  sr_interval_count :: nat
  sr_removed_intervals :: nat
  sr_removed_kwh :: rat
  sr_old_total_kwh :: rat
  sr_new_total_kwh :: rat
  sr_attribution :: energy_attribution
  sr_note :: string

definition REPAIRABLE_STATUSES :: "session_status list" where
  "REPAIRABLE_STATUSES = [EV_COMPLETED, EV_ACTIVE, EV_ESTIMATED, EV_INCOMPLETE]"

definition resume_duplicates :: "ev_interval list \<Rightarrow> time \<Rightarrow> ev_interval list" where
  "resume_duplicates ivs started = tl (sort_key iv_end_time (filter (\<lambda>i. iv_start_time i = started) ivs))"

definition kept_intervals :: "ev_interval list \<Rightarrow> ev_interval list \<Rightarrow> ev_interval list" where
  "kept_intervals duplicates ivs =
     (if duplicates = [] then ivs else filter (\<lambda>i. iv_id i \<notin> set (map iv_id duplicates)) ivs)"

definition repaired_totals :: "ev_session \<Rightarrow> ev_interval list \<Rightarrow> session_totals" where
  "repaired_totals row ivs =
     (let (measured, quality) = (if sn_status row = EV_ACTIVE then (None, ''ESTIMATED'')
            else session_energy_from_meter (sn_meter_start_kwh row) (sn_meter_stop_kwh row))
      in session_totals_from_intervals ivs measured quality)"

definition old_total_kwh :: "ev_session \<Rightarrow> rat" where
  "old_total_kwh row = (case sn_totals row of None \<Rightarrow> 0 | Some t \<Rightarrow> tt_total_energy_kwh t)"

definition repair_row :: "bool \<Rightarrow> ev_db \<times> session_repair list \<Rightarrow> ev_session \<Rightarrow> ev_db \<times> session_repair list" where
  "repair_row dry acc row =
     (let (db, repairs) = acc;
          ivs = list_for_session (sn_id row) db;
          duplicates = resume_duplicates ivs (sn_started_at row);
          ivs = kept_intervals duplicates ivs;
          totals = repaired_totals row ivs;
          unchanged = (\<bar>tt_total_energy_kwh totals - old_total_kwh row\<bar> \<le> ATTRIBUTION_TOLERANCE_KWH)
      in if ivs = [] then acc
         else if duplicates = [] \<and> unchanged then acc
         else (let repair = \<lparr> sr_session_id = sn_id row, sr_status = sn_status row, sr_interval_count = length ivs,
                     sr_removed_intervals = length duplicates,
                     sr_removed_kwh = sum_list (map iv_charged_energy_kwh duplicates),
                     sr_old_total_kwh = old_total_kwh row, sr_new_total_kwh = tt_total_energy_kwh totals,
                     sr_attribution = tt_attribution totals, sr_note = tt_reconciliation_note totals \<rparr>
               in (if dry then db
                   else update_totals (sn_id row) (as_fields totals) (delete_intervals (map iv_id duplicates) db),
                   repairs @ [repair])))"

definition repair_rows :: "nat option \<Rightarrow> ev_db \<Rightarrow> ev_session list" where
  "repair_rows site db = sort_key sn_started_at (filter (\<lambda>s. sn_status s \<in> set REPAIRABLE_STATUSES
     \<and> (case site of None \<Rightarrow> True | Some i \<Rightarrow> sn_site_id s = i)) (db_sessions db))"

definition repair_sessions :: "nat option \<Rightarrow> bool \<Rightarrow> ev_db \<Rightarrow> ev_db \<times> session_repair list" where
  "repair_sessions site dry db = foldl (repair_row dry) (db, []) (repair_rows site db)"

subsection \<open>Statistics\<close>

record ev_stats =
  vs_total_energy_kwh :: rat
  vs_actual_cost_sek :: rat
  vs_reference_cost_sek :: "rat option"
  vs_savings_sek :: "rat option"
  vs_average_cost_sek_per_kwh :: "rat option"
  vs_attribution :: energy_attribution
  vs_renewable_share_percent :: rat
  vs_grid_share_percent :: rat
  vs_smart_charging_savings_sek :: "rat option"
  vs_solar_contribution_sek :: rat
  vs_session_count :: nat

datatype stats_period = P_session | P_day | P_week | P_month | P_year | P_all

definition days :: "int \<Rightarrow> time" where "days n = n * 86400 * us_per_s"

text \<open>\<open>datetime(2000, 1, 1, tzinfo=UTC)\<close>, in microseconds since 1970.\<close>

definition default_from :: "stats_period \<Rightarrow> time \<Rightarrow> time" where
  "default_from period to_time = (case period of
       P_day \<Rightarrow> to_time - days 1
     | P_week \<Rightarrow> to_time - days 7
     | P_month \<Rightarrow> to_time - days 30
     | P_year \<Rightarrow> to_time - days 365
     | P_all \<Rightarrow> 946684800 * us_per_s
     | P_session \<Rightarrow> to_time - days 30)"

definition aggregate_sessions :: "ev_session list \<Rightarrow> ev_stats" where
  "aggregate_sessions sessions =
     (let ts = List.map_filter sn_totals sessions;
          energy = sum_list (map tt_total_energy_kwh ts);
          cost = sum_list (map tt_actual_cost_sek ts);
          refs = List.map_filter tt_reference_cost_sek ts;
          savings_vals = List.map_filter tt_savings_sek ts;
          a = sum_attributions (map tt_attribution ts);
          savings = (if savings_vals = [] then None else Some (round_to 2 (sum_list savings_vals)))
      in \<lparr> vs_total_energy_kwh = round_to 2 energy,
           vs_actual_cost_sek = round_to 2 cost,
           vs_reference_cost_sek = (if refs = [] then None else Some (round_to 2 (sum_list refs))),
           vs_savings_sek = savings,
           vs_average_cost_sek_per_kwh = (if energy > 0 then Some (round_to 4 (cost / energy)) else None),
           vs_attribution = \<lparr> ea_solar_direct_kwh = round_to 2 (ea_solar_direct_kwh a),
             ea_solar_battery_kwh = round_to 2 (ea_solar_battery_kwh a),
             ea_grid_battery_kwh = round_to 2 (ea_grid_battery_kwh a),
             ea_grid_direct_kwh = round_to 2 (ea_grid_direct_kwh a) \<rparr>,
           vs_renewable_share_percent = round_to 1 (if energy > 0 then renewable_kwh a / energy * 100 else 0),
           vs_grid_share_percent = round_to 1 (if energy > 0 then grid_kwh a / energy * 100 else 0),
           vs_smart_charging_savings_sek = savings,
           vs_solar_contribution_sek = round_to 2 (sum_list (map tt_solar_contribution_sek ts)),
           vs_session_count = length sessions \<rparr>)"

definition stats :: "nat \<Rightarrow> stats_period \<Rightarrow> time option \<Rightarrow> time option \<Rightarrow> time \<Rightarrow> ev_db \<Rightarrow> ev_stats" where
  "stats charger period from_time to_time now db =
     (let period_to = or_else to_time now;
          period_from = or_else from_time (default_from period period_to)
      in aggregate_sessions (list_for_charger charger (Some period_from) (Some period_to)
           [EV_COMPLETED, EV_ESTIMATED, EV_INCOMPLETE, EV_ACTIVE] 100 0 db))"

end
