(* ===== verification/Ev_Runs.thy ===== *)
theory Ev_Runs
  imports Ev_Sessions
begin

section \<open>Runs of the charging bookkeeping\<close>

text \<open>
  What the tables of \<open>ev_accounting/\<close> keep over any sequence of collector cycles, restarts and
  repairs: intervals of a session do not overlap, a charger has at most one active session. Then
  the repair: it is idempotent, its dry run reports what the real run does.
\<close>

subsection \<open>Runs\<close>

text \<open>What happens to the tables: cycles of the collector, its restarts (the runtime states are lost
  and the active sessions resumed), and repairs.\<close>

datatype ev_event =
    Site_cycle rat "time \<Rightarrow> price_row option" time ev_site "overview option" "(charger_ref \<times> meter_reading) list"
  | Collector_restart
  | Repair_run "nat option" bool

fun ev_step :: "ev_state \<Rightarrow> ev_event \<Rightarrow> ev_state" where
  "ev_step st (Site_cycle rate price_at now site live chargers) =
     fst (process_site rate price_at now site live chargers st)"
| "ev_step st Collector_restart = resume_active_sessions (st\<lparr> es_runtime := (\<lambda>_. None) \<rparr>)"
| "ev_step st (Repair_run site dry) = st\<lparr> es_db := fst (repair_sessions site dry (es_db st)) \<rparr>"

definition initial_ev :: ev_state where
  "initial_ev = \<lparr> es_db = \<lparr> db_sessions = [], db_intervals = [], db_ledger = [], db_next_session = 1,
     db_next_interval = 1 \<rparr>, es_runtime = (\<lambda>_. None) \<rparr>"

text \<open>The part of a session row the sampler relies on: id, charger, start and whether it is active.\<close>

definition session_key :: "ev_session \<Rightarrow> nat \<times> nat \<times> time \<times> bool" where
  "session_key s = (sn_id s, sn_charger_id s, sn_started_at s, sn_status s = EV_ACTIVE)"

definition apart :: "ev_interval \<Rightarrow> ev_interval \<Rightarrow> bool" where
  "apart i j \<longleftrightarrow> (iv_session_id i = iv_session_id j \<longrightarrow> iv_end_time i \<le> iv_start_time j \<or> iv_end_time j \<le> iv_start_time i)"

definition anchor :: "(nat \<Rightarrow> charger_runtime option) \<Rightarrow> nat \<Rightarrow> time \<Rightarrow> time" where
  "anchor rt charger started = or_else (rt_last_sample_at (or_else (rt charger) fresh_runtime)) started"

definition one_active :: "(nat \<times> nat \<times> time \<times> bool) list \<Rightarrow> bool" where
  "one_active ks \<longleftrightarrow> (\<forall>n c t n' t'. (n, c, t, True) \<in> set ks \<longrightarrow> (n', c, t', True) \<in> set ks \<longrightarrow> n = n' \<and> t = t')"

definition intervals_ok :: "(nat \<times> nat \<times> time \<times> bool) list \<Rightarrow> ev_interval list \<Rightarrow> bool" where
  "intervals_ok ks ivs \<longleftrightarrow> sorted_wrt apart ivs
     \<and> (\<forall>i \<in> set ivs. iv_start_time i < iv_end_time i
          \<and> (\<exists>c t a. (iv_session_id i, c, t, a) \<in> set ks \<and> t \<le> iv_start_time i))"

definition anchored ::
  "(nat \<times> nat \<times> time \<times> bool) list \<Rightarrow> ev_interval list \<Rightarrow> (nat \<Rightarrow> charger_runtime option) \<Rightarrow> bool" where
  "anchored ks ivs rt \<longleftrightarrow> (\<forall>n c t. (n, c, t, True) \<in> set ks \<longrightarrow>
     t \<le> anchor rt c t \<and> (\<forall>i \<in> set ivs. iv_session_id i = n \<longrightarrow> iv_end_time i \<le> anchor rt c t))"

definition ids_ok :: "ev_db \<Rightarrow> bool" where
  "ids_ok db \<longleftrightarrow> distinct (map sn_id (db_sessions db)) \<and> (\<forall>s \<in> set (db_sessions db). sn_id s < db_next_session db)
     \<and> distinct (map iv_id (db_intervals db)) \<and> (\<forall>i \<in> set (db_intervals db). iv_id i < db_next_interval db)"

definition ev_ok :: "ev_state \<Rightarrow> bool" where
  "ev_ok st \<longleftrightarrow>
     (let db = es_db st; ks = map session_key (db_sessions db) in
      ids_ok db \<and> one_active ks \<and> intervals_ok ks (db_intervals db) \<and> anchored ks (db_intervals db) (es_runtime st))"

text \<open>Facts about the queries.\<close>

lemma get_active_Some:
  assumes "get_active_for_charger charger db = Some s"
  shows "s \<in> set (db_sessions db)" "sn_charger_id s = charger" "sn_status s = EV_ACTIVE"
proof -
  obtain rest where "sort_key (\<lambda>s. - sn_started_at s) (filter (is_active_of charger) (db_sessions db)) = s # rest"
    using assms by (auto simp: get_active_for_charger_def split: list.splits)
  then have "set (s # rest) = set (filter (is_active_of charger) (db_sessions db))" by (metis set_sort)
  then have "s \<in> set (filter (is_active_of charger) (db_sessions db))" by auto
  then show "s \<in> set (db_sessions db)" "sn_charger_id s = charger" "sn_status s = EV_ACTIVE"
    by (simp_all add: is_active_of_def)
qed

lemma get_active_None:
  assumes "get_active_for_charger charger db = None" "s \<in> set (db_sessions db)" "sn_charger_id s = charger"
  shows "sn_status s \<noteq> EV_ACTIVE"
proof -
  have "sort_key (\<lambda>s. - sn_started_at s) (filter (is_active_of charger) (db_sessions db)) = []"
    using assms(1) by (auto simp: get_active_for_charger_def split: list.splits)
  then have "set (filter (is_active_of charger) (db_sessions db)) = {}"
    by (metis set_sort list.set(1))
  then show ?thesis using assms(2,3) by (auto simp: is_active_of_def filter_empty_conv)
qed

lemma session_key_mem:
  "(n, c, t, a) \<in> set (map session_key ss) \<longleftrightarrow>
     (\<exists>s \<in> set ss. sn_id s = n \<and> sn_charger_id s = c \<and> sn_started_at s = t \<and> (sn_status s = EV_ACTIVE) = a)"
  by (auto simp: session_key_def)

lemma list_for_session_set: "set (list_for_session sid db) = {i \<in> set (db_intervals db). iv_session_id i = sid}"
  by (simp add: list_for_session_def)

subsubsection \<open>Totals leave the keys alone\<close>

lemma update_totals_keys:
  assumes "\<And>s. session_key (f s) = session_key s"
  shows "map session_key (db_sessions (update_totals sid f db)) = map session_key (db_sessions db)"
  using assms by (simp add: update_totals_def)

lemma key_id: "map sn_id ss = map fst (map session_key ss)"
  by (simp add: session_key_def comp_def)

lemma ids_ok_same:
  assumes ids: "map sn_id (db_sessions db') = map sn_id (db_sessions db)"
    and "db_intervals db' = db_intervals db" "db_next_session db' = db_next_session db"
    and "db_next_interval db' = db_next_interval db"
  shows "ids_ok db' \<longleftrightarrow> ids_ok db"
proof -
  have "sn_id ` set (db_sessions db') = sn_id ` set (db_sessions db)" by (metis ids list.set_map)
  then have "(\<forall>s \<in> set (db_sessions db'). sn_id s < k) \<longleftrightarrow> (\<forall>s \<in> set (db_sessions db). sn_id s < k)" for k
    by (metis (no_types, opaque_lifting) image_iff)
  then show ?thesis using assms(2-) ids by (simp add: ids_ok_def)
qed

lemma as_fields_key [simp]: "session_key (as_fields t s) = session_key s"
  by (simp add: as_fields_def session_key_def)

subsubsection \<open>The invariant and its parts\<close>

lemma ev_ok_parts:
  "ev_ok st \<longleftrightarrow> ids_ok (es_db st) \<and> one_active (map session_key (db_sessions (es_db st)))
     \<and> intervals_ok (map session_key (db_sessions (es_db st))) (db_intervals (es_db st))
     \<and> anchored (map session_key (db_sessions (es_db st))) (db_intervals (es_db st)) (es_runtime st)"
  by (simp add: ev_ok_def Let_def)

lemma anchored_later:
  assumes "anchored ks ivs rt" "\<And>n c t. (n, c, t, True) \<in> set ks \<Longrightarrow> anchor rt c t \<le> anchor rt' c t"
  shows "anchored ks ivs rt'"
  using assms unfolding anchored_def by (meson order_trans)

lemma anchor_set [simp]:
  "anchor (rt(c \<mapsto> r)) c' t = (if c' = c then or_else (rt_last_sample_at r) t else anchor rt c' t)"
  by (simp add: anchor_def)

lemma anchored_set:
  assumes "anchored ks ivs rt" "\<And>n t. (n, c, t, True) \<in> set ks \<Longrightarrow> anchor rt c t \<le> or_else (rt_last_sample_at r) t"
  shows "anchored ks ivs (rt(c \<mapsto> r))"
  by (rule anchored_later [OF assms(1)]) (auto simp: assms(2))

lemma get_runtime_anchor: "or_else (rt_last_sample_at (get_runtime_state c st)) t = anchor (es_runtime st) c t"
  by (simp add: anchor_def get_runtime_state_def)

lemma ev_ok_set_runtime:
  assumes "ev_ok st" "\<And>n t. (n, c, t, True) \<in> set (map session_key (db_sessions (es_db st)))
    \<Longrightarrow> anchor (es_runtime st) c t \<le> or_else (rt_last_sample_at r) t"
  shows "ev_ok (set_runtime c r st)"
proof -
  have "anchored (map session_key (db_sessions (es_db st))) (db_intervals (es_db st)) ((es_runtime st)(c \<mapsto> r))"
    by (rule anchored_set) (use assms in \<open>auto simp: ev_ok_parts\<close>)
  then show ?thesis using assms(1) by (simp add: ev_ok_parts set_runtime_def)
qed

lemma ev_ok_remember:
  assumes "ev_ok st" "rt_last_sample_at r = rt_last_sample_at (get_runtime_state c st)"
  shows "ev_ok (set_runtime c r st)"
  by (rule ev_ok_set_runtime [OF assms(1)]) (simp add: assms(2) get_runtime_anchor)

lemma ev_ok_ledger: "ev_ok st \<Longrightarrow> ev_ok (st\<lparr> es_db := sample_site_ledger now site s (es_db st) \<rparr>)"
  by (simp add: ev_ok_parts ids_ok_def sample_site_ledger_def insert_snapshot_def Let_def)

lemma intervals_ok_keys:
  assumes "intervals_ok ks ivs" "\<And>n c t a. (n, c, t, a) \<in> set ks \<Longrightarrow> \<exists>a'. (n, c, t, a') \<in> set ks'"
  shows "intervals_ok ks' ivs"
  using assms unfolding intervals_ok_def by blast

lemma active_key:
  assumes "get_active_for_charger c db = Some s"
  shows "(sn_id s, c, sn_started_at s, True) \<in> set (map session_key (db_sessions db))"
  using get_active_Some [OF assms] unfolding session_key_mem by blast

lemma no_active_key:
  assumes "get_active_for_charger c db = None"
  shows "(n, c, t, True) \<notin> set (map session_key (db_sessions db))"
  using get_active_None [OF assms] unfolding session_key_mem by blast

subsubsection \<open>Start and stop of a session\<close>

lemma ev_ok_start:
  assumes ok: "ev_ok st" and none: "get_active_for_charger c (es_db st) = None"
    and created: "create_session_row c site now meter (es_db st) = (row, db)"
    and r: "rt_last_sample_at r = Some now"
  shows "ev_ok (set_runtime c r (st\<lparr> es_db := db \<rparr>))"
proof -
  define ks where "ks = map session_key (db_sessions (es_db st))"
  define n where "n = db_next_session (es_db st)"
  have row: "session_key row = (n, c, now, True)" "sn_id row = n"
    and db: "db_sessions db = db_sessions (es_db st) @ [row]" "db_intervals db = db_intervals (es_db st)"
      "db_next_session db = n + 1" "db_next_interval db = db_next_interval (es_db st)"
    using created by (auto simp: create_session_row_def Let_def session_key_def n_def)
  have below: "(k, c', t, a) \<in> set ks \<Longrightarrow> k < n" for k c' t a
    using ok by (auto simp: ks_def n_def session_key_def ev_ok_parts ids_ok_def)
  have old: "ids_ok (es_db st)" "one_active ks" "intervals_ok ks (db_intervals db)"
      "anchored ks (db_intervals db) (es_runtime st)"
    using ok by (simp_all add: ev_ok_parts ks_def db)
  have no_key: "(k, c, t, True) \<notin> set ks" for k t
    using no_active_key [OF none] by (simp add: ks_def)
  have fresh: "iv_session_id i \<noteq> n" if "i \<in> set (db_intervals db)" for i
    using old(3) that below unfolding intervals_ok_def by (metis less_irrefl)
  have "ids_ok db" using old(1) by (auto simp: ids_ok_def db row n_def less_SucI)
  moreover have "one_active (ks @ [(n, c, now, True)])"
    using old(2) no_key unfolding one_active_def by auto
  moreover have "intervals_ok (ks @ [(n, c, now, True)]) (db_intervals db)"
    by (rule intervals_ok_keys [OF old(3)]) auto
  moreover have "anchored (ks @ [(n, c, now, True)]) (db_intervals db) ((es_runtime st)(c \<mapsto> r))"
    using old(4) no_key fresh r unfolding anchored_def by auto
  ultimately show ?thesis by (simp add: ev_ok_parts set_runtime_def db row flip: ks_def)
qed


lemma complete_row_keys:
  assumes "\<And>s. session_key (f s) = session_key s"
  shows "(n, c, t, True) \<in> set (map session_key (db_sessions (complete_row sid f db)))
      \<longleftrightarrow> n \<noteq> sid \<and> (n, c, t, True) \<in> set (map session_key (db_sessions db))"
    and "(n, c, t, a) \<in> set (map session_key (db_sessions db)) \<Longrightarrow>
      \<exists>a'. (n, c, t, a') \<in> set (map session_key (db_sessions (complete_row sid f db)))"
    and "map sn_id (db_sessions (complete_row sid f db)) = map sn_id (db_sessions db)"
    and "db_intervals (complete_row sid f db) = db_intervals db"
    and "db_next_session (complete_row sid f db) = db_next_session db"
    and "db_next_interval (complete_row sid f db) = db_next_interval db"
proof -
  let ?g = "\<lambda>s. if sn_id s = sid then f (s\<lparr> sn_status := EV_COMPLETED \<rparr>) else s"
  have db: "db_sessions (complete_row sid f db) = map ?g (db_sessions db)"
    by (simp add: complete_row_def update_totals_def)
  have key: "session_key (?g s) = (sn_id s, sn_charger_id s, sn_started_at s, sn_status s = EV_ACTIVE \<and> sn_id s \<noteq> sid)" for s
    by (simp add: assms) (simp add: session_key_def)
  show "(n, c, t, True) \<in> set (map session_key (db_sessions (complete_row sid f db)))
      \<longleftrightarrow> n \<noteq> sid \<and> (n, c, t, True) \<in> set (map session_key (db_sessions db))"
    unfolding db list.map_comp comp_def key by (auto simp: session_key_def)
  show "\<exists>a'. (n, c, t, a') \<in> set (map session_key (db_sessions (complete_row sid f db)))"
    if mem: "(n, c, t, a) \<in> set (map session_key (db_sessions db))"
  proof -
    obtain s where "s \<in> set (db_sessions db)" "sn_id s = n" "sn_charger_id s = c" "sn_started_at s = t"
      using mem unfolding session_key_mem by blast
    then have "(n, c, t, sn_status s = EV_ACTIVE \<and> sn_id s \<noteq> sid) \<in> set (map (\<lambda>s. session_key (?g s)) (db_sessions db))"
      unfolding key set_map by blast
    then show ?thesis unfolding db list.map_comp comp_def by blast
  qed
  have "sn_id (?g s) = sn_id s" for s using key [of s] by (simp add: session_key_def)
  then show "map sn_id (db_sessions (complete_row sid f db)) = map sn_id (db_sessions db)"
    unfolding db by (simp add: comp_def)
qed (simp_all add: complete_row_def update_totals_def)

lemma ev_ok_complete:
  assumes ok: "ev_ok st" and active: "get_active_for_charger c (es_db st) = Some s"
    and f: "\<And>s. session_key (f s) = session_key s"
  shows "ev_ok (set_runtime c r (st\<lparr> es_db := complete_row (sn_id s) f (es_db st) \<rparr>))"
proof -
  define db where "db = complete_row (sn_id s) f (es_db st)"
  note keys = complete_row_keys [where f = f and sid = "sn_id s" and db = "es_db st", OF f, folded db_def]
  have old: "ids_ok (es_db st)" "one_active (map session_key (db_sessions (es_db st)))"
    "intervals_ok (map session_key (db_sessions (es_db st))) (db_intervals (es_db st))"
    "anchored (map session_key (db_sessions (es_db st))) (db_intervals (es_db st)) (es_runtime st)"
    using ok by (simp_all add: ev_ok_parts)
  have "ids_ok db" using old(1) keys(3-6) ids_ok_same by blast
  moreover have "one_active (map session_key (db_sessions db))"
    using old(2) unfolding one_active_def keys(1) by blast
  moreover have "intervals_ok (map session_key (db_sessions db)) (db_intervals db)"
    unfolding keys(4) by (rule intervals_ok_keys [OF old(3) keys(2)])
  moreover have "anchored (map session_key (db_sessions db)) (db_intervals db) ((es_runtime st)(c \<mapsto> r))"
  proof (rule anchored_set)
    show "anchored (map session_key (db_sessions db)) (db_intervals db) (es_runtime st)"
      using old(4) unfolding anchored_def keys(1,4) by blast
  next
    fix n t
    assume "(n, c, t, True) \<in> set (map session_key (db_sessions db))"
    then have "n \<noteq> sn_id s" "n = sn_id s"
      using old(2) active_key [OF active] unfolding keys(1) one_active_def by blast+
    then show "anchor (es_runtime st) c t \<le> or_else (rt_last_sample_at r) t" by simp
  qed
  ultimately show ?thesis by (simp add: ev_ok_parts set_runtime_def flip: db_def)
qed

lemma ev_ok_process_charger:
  assumes ok: "ev_ok st"
  shows "ev_ok (fst (process_charger c site meter st))"
proof (cases "get_active_for_charger c (es_db st)")
  case None
  obtain row db where created:
    "create_session_row c site (ms_recorded_at meter) (ms_cumulative_kwh meter) (es_db st) = (row, db)"
    by force
  show ?thesis
    using ok by (simp add: process_charger_def Let_def None created ev_ok_remember
      ev_ok_start [OF ok None created])
next
  case (Some s)
  have "ev_ok (complete_session s meter c st)"
    unfolding complete_session_def Let_def case_prod_beta
    by (rule ev_ok_complete [OF ok Some]) (simp add: session_key_def as_fields_def)
  then show ?thesis
    using ok by (simp add: process_charger_def Let_def Some ev_ok_remember)
qed


subsubsection \<open>Sampling\<close>

lemma insert_interval_parts [simp]:
  "db_intervals (insert_interval row db) = db_intervals db @ [row\<lparr> iv_id := db_next_interval db \<rparr>]"
  "db_sessions (insert_interval row db) = db_sessions db"
  "db_next_session (insert_interval row db) = db_next_session db"
  "db_next_interval (insert_interval row db) = db_next_interval db + 1"
  by (simp_all add: insert_interval_def)

lemma update_totals_parts [simp]:
  "db_intervals (update_totals sid f db) = db_intervals db"
  "db_next_session (update_totals sid f db) = db_next_session db"
  "db_next_interval (update_totals sid f db) = db_next_interval db"
  by (simp_all add: update_totals_def)

lemma ids_ok_insert: "ids_ok db \<Longrightarrow> ids_ok (insert_interval row db)"
  by (auto simp: ids_ok_def less_SucI)

lemma ids_ok_totals:
  assumes "\<And>s. session_key (f s) = session_key s"
  shows "ids_ok (update_totals sid f db) \<longleftrightarrow> ids_ok db"
  by (rule ids_ok_same) (simp_all add: key_id update_totals_keys [OF assms])

lemma ev_ok_insert:
  assumes ok: "ev_ok st" and active: "get_active_for_charger c (es_db st) = Some s"
    and start: "iv_start_time row = or_else (rt_last_sample_at (get_runtime_state c st)) (sn_started_at s)"
    and later: "iv_start_time row < iv_end_time row"
    and sid: "iv_session_id row = sn_id s"
    and r: "rt_last_sample_at r = Some (iv_end_time row)"
  shows "ev_ok (set_runtime c r (st\<lparr> es_db := update_totals (sn_id s) (as_fields tot) (insert_interval row (es_db st)) \<rparr>))"
proof -
  define ks where "ks = map session_key (db_sessions (es_db st))"
  define ivs where "ivs = db_intervals (es_db st)"
  define row' where "row' = row\<lparr> iv_id := db_next_interval (es_db st) \<rparr>"
  have old: "ids_ok (es_db st)" "one_active ks" "intervals_ok ks ivs" "anchored ks ivs (es_runtime st)"
    using ok by (simp_all add: ev_ok_parts ks_def ivs_def)
  have key: "(sn_id s, c, sn_started_at s, True) \<in> set ks"
    using active_key [OF active] by (simp add: ks_def)
  have start': "iv_start_time row = anchor (es_runtime st) c (sn_started_at s)"
    by (simp add: start get_runtime_anchor)
  have before: "sn_started_at s \<le> iv_start_time row"
      "i \<in> set ivs \<Longrightarrow> iv_session_id i = sn_id s \<Longrightarrow> iv_end_time i \<le> iv_start_time row" for i
    using old(4) key unfolding anchored_def start' by blast+
  have "ids_ok (update_totals (sn_id s) (as_fields tot) (insert_interval row (es_db st)))"
    using old(1) by (simp add: ids_ok_totals ids_ok_insert)
  moreover have "intervals_ok ks (ivs @ [row'])"
    using old(3) key before later unfolding intervals_ok_def
    by (auto simp: sorted_wrt_append apart_def row'_def sid)
  moreover have "anchored ks (ivs @ [row']) ((es_runtime st)(c \<mapsto> r))"
    unfolding anchored_def
  proof (intro allI impI conjI ballI)
    fix n c' t
    assume n: "(n, c', t, True) \<in> set ks"
    have same: "n = sn_id s \<and> t = sn_started_at s" if "c' = c"
      using old(2) n key that unfolding one_active_def by blast
    show "t \<le> anchor ((es_runtime st)(c \<mapsto> r)) c' t"
      using old(4) n same before(1) later unfolding anchored_def by (auto simp: r)
    fix i
    assume i: "i \<in> set (ivs @ [row'])" "iv_session_id i = n"
    have "c' = c" if "n = sn_id s"
      using n key that ok unfolding ks_def session_key_mem ev_ok_parts ids_ok_def
      by (metis eq_key_imp_eq_value distinct_map inj_onD)
    then show "iv_end_time i \<le> anchor ((es_runtime st)(c \<mapsto> r)) c' t"
      using i old(4) n same before(2) [of i] later unfolding anchored_def by (auto simp: r row'_def sid)
  qed
  ultimately show ?thesis
    using old(2) by (simp add: ev_ok_parts set_runtime_def update_totals_keys ks_def ivs_def row'_def)
qed

lemma ev_ok_sample:
  assumes ok: "ev_ok st"
  shows "ev_ok (sample_active_session rate price_at c site meter sample st)"
proof (cases "get_active_for_charger c (es_db st)")
  case (Some s)
  define start where "start = or_else (rt_last_sample_at (get_runtime_state c st)) (sn_started_at s)"
  define hours where "hours = max 0 (elapsed_s (ms_recorded_at meter) start / 3600)"
  define charged where "charged = charged_since (get_runtime_state c st) meter sample hours"
  note sampled = sample_active_session_def Some option.case Let_def start_def [symmetric] hours_def [symmetric]
    charged_def [symmetric]
  show ?thesis
  proof (cases "hours \<le> 0")
    case True
    then show ?thesis unfolding sampled by (simp add: ev_ok_remember [OF ok])
  next
    case False
    then have later: "start < ms_recorded_at meter"
      by (auto simp: hours_def elapsed_s_def us_per_s_def max_def zero_less_divide_iff split: if_splits)
    show ?thesis
    proof (cases "fst charged \<le> 0")
      case True
      have "anchor (es_runtime st) c t \<le> ms_recorded_at meter"
        if "(n, c, t, True) \<in> set (map session_key (db_sessions (es_db st)))" for n t
      proof -
        have "t = sn_started_at s"
          using ok that active_key [OF Some] unfolding ev_ok_parts one_active_def by blast
        then show ?thesis using later by (simp add: start_def get_runtime_anchor)
      qed
      then show ?thesis
        using False True unfolding sampled by (auto intro!: ev_ok_set_runtime [OF ok])
    next
      case moved: False
      have "iv_start_time (sampled_interval p site s c start meter sample charged l) = start"
        "iv_end_time (sampled_interval p site s c start meter sample charged l) = ms_recorded_at meter"
        "iv_session_id (sampled_interval p site s c start meter sample charged l) = sn_id s" for p l
        by (simp_all add: sampled_interval_def Let_def case_prod_beta)
      then show ?thesis
        using False moved later unfolding sampled by (simp add: ev_ok_insert [OF ok Some] start_def)
    qed
  qed
qed (use ok in \<open>simp add: sample_active_session_def\<close>)


lemma ev_ok_coordinate: "ev_ok (fst acc) \<Longrightarrow> ev_ok (fst (coordinate_charger rate price_at site live acc entry))"
  by (auto simp: coordinate_charger_def Let_def case_prod_beta ev_ok_process_charger ev_ok_sample
      split: meter_reading.split option.split)

lemma ev_ok_process_site: "ev_ok st \<Longrightarrow> ev_ok (fst (process_site rate price_at now site live chargers st))"
proof -
  have fold: "ev_ok (fst acc) \<Longrightarrow> ev_ok (fst (foldl (coordinate_charger rate price_at site live) acc chargers))" for acc
    by (induction chargers arbitrary: acc) (simp_all add: ev_ok_coordinate)
  show "ev_ok st \<Longrightarrow> ?thesis"
    by (auto simp: process_site_def Let_def ev_ok_ledger intro!: fold split: option.split)
qed

subsubsection \<open>Restarts\<close>

definition resumed_at :: "ev_db \<Rightarrow> ev_session \<Rightarrow> time" where
  "resumed_at db s = (let ivs = list_for_session (sn_id s) db in
     if ivs = [] then sn_started_at s else Max (set (map iv_end_time ivs)))"

lemma resume_session_parts:
  "es_db (resume_session st s) = es_db st"
  "anchor (es_runtime (resume_session st s)) c t =
     (if c = sn_charger_id s then resumed_at (es_db st) s else anchor (es_runtime st) c t)"
  by (simp_all add: resume_session_def set_runtime_def Let_def resumed_at_def)

lemma resume_fold_db: "es_db (foldl resume_session st ss) = es_db st"
  by (induction ss rule: rev_induct) (simp_all add: resume_session_parts)

lemma resume_fold_anchor:
  assumes "\<And>s s'. s \<in> set ss \<Longrightarrow> s' \<in> set ss \<Longrightarrow> sn_charger_id s = sn_charger_id s' \<Longrightarrow> s = s'" "s \<in> set ss"
  shows "anchor (es_runtime (foldl resume_session st ss)) (sn_charger_id s) t = resumed_at (es_db st) s"
  using assms
proof (induction ss rule: rev_induct)
  case (snoc x ss)
  show ?case
  proof (cases "sn_charger_id s = sn_charger_id x")
    case True
    then have "s = x" using snoc.prems(1) [of s x] snoc.prems(2) by simp
    then show ?thesis by (simp add: resume_session_parts(2) resume_fold_db)
  next
    case False
    then have "s \<in> set ss" using snoc.prems(2) by auto
    then show ?thesis using snoc.IH snoc.prems(1) False by (simp add: resume_session_parts(2))
  qed
qed simp

lemma active_key_mem:
  "(n, c, t, True) \<in> set (map session_key (db_sessions db)) \<longleftrightarrow>
     (\<exists>s \<in> set (list_active db). sn_id s = n \<and> sn_charger_id s = c \<and> sn_started_at s = t)"
  unfolding session_key_mem by (auto simp: list_active_def)

lemma unique_session:
  assumes "ev_ok st" "s \<in> set (db_sessions (es_db st))" "s' \<in> set (db_sessions (es_db st))" "sn_id s = sn_id s'"
  shows "s = s'"
  using assms by (auto simp: ev_ok_parts ids_ok_def distinct_map dest: inj_onD)

lemma unique_active:
  assumes "ev_ok st" "s \<in> set (list_active (es_db st))" "s' \<in> set (list_active (es_db st))"
    and "sn_charger_id s = sn_charger_id s'"
  shows "s = s'"
proof (rule unique_session [OF assms(1)])
  have mem: "x \<in> set (db_sessions (es_db st))" "(sn_id x, sn_charger_id x, sn_started_at x, True)
      \<in> set (map session_key (db_sessions (es_db st)))" if "x \<in> set (list_active (es_db st))" for x
    using that unfolding session_key_mem by (auto simp: list_active_def)
  show "s \<in> set (db_sessions (es_db st))" "s' \<in> set (db_sessions (es_db st))" using assms(2,3) mem(1) by blast+
  show "sn_id s = sn_id s'"
    using assms(1,4) mem(2) [OF assms(2)] mem(2) [OF assms(3)] unfolding ev_ok_parts one_active_def by metis
qed

lemma ev_ok_resume:
  assumes ok: "ev_ok st"
  shows "ev_ok (resume_active_sessions (st\<lparr> es_runtime := (\<lambda>_. None) \<rparr>))"
proof -
  let ?db = "es_db st" and ?ks = "map session_key (db_sessions (es_db st))"
  let ?st = "st\<lparr> es_runtime := (\<lambda>_. None) \<rparr>"
  have "anchored ?ks (db_intervals ?db) (es_runtime (resume_active_sessions ?st))"
    unfolding anchored_def
  proof (intro allI impI conjI ballI)
    fix n c t
    assume "(n, c, t, True) \<in> set ?ks"
    then obtain s where s: "s \<in> set (list_active ?db)" "sn_id s = n" "sn_charger_id s = c" "sn_started_at s = t"
      unfolding active_key_mem by blast
    have at: "anchor (es_runtime (resume_active_sessions ?st)) c t = resumed_at ?db s"
    proof -
      have "anchor (es_runtime (foldl resume_session ?st (list_active ?db))) (sn_charger_id s) t = resumed_at (es_db ?st) s"
        by (rule resume_fold_anchor [OF _ s(1)]) (rule unique_active [OF ok])
      then show ?thesis by (simp add: resume_active_sessions_def s(3))
    qed
    have ends: "iv_end_time i \<le> resumed_at ?db s" if "i \<in> set (db_intervals ?db)" "iv_session_id i = n" for i
    proof -
      have "i \<in> set (list_for_session (sn_id s) ?db)" using that s(2) by (simp add: list_for_session_set)
      then show ?thesis by (auto simp: resumed_at_def Let_def)
    qed
    then show "iv_end_time i \<le> anchor (es_runtime (resume_active_sessions ?st)) c t"
      if "i \<in> set (db_intervals ?db)" "iv_session_id i = n" for i
      using that by (simp add: at)
    have "t \<le> resumed_at ?db s"
    proof (cases "list_for_session (sn_id s) ?db")
      case (Cons i _)
      then have i: "i \<in> set (db_intervals ?db)" "iv_session_id i = n"
        using list_for_session_set [of "sn_id s" ?db] s(2) by auto
      obtain s' where s': "s' \<in> set (db_sessions ?db)" "sn_id s' = n" "sn_started_at s' \<le> iv_start_time i"
          "iv_start_time i < iv_end_time i"
        using ok i unfolding ev_ok_parts intervals_ok_def session_key_mem by blast
      moreover have "s' = s"
        using unique_session [OF ok s'(1), of s] s(1,2) s'(2) by (simp add: list_active_def)
      ultimately show ?thesis using ends [OF i] s(4) by simp
    qed (simp add: resumed_at_def s(4))
    then show "t \<le> anchor (es_runtime (resume_active_sessions ?st)) c t"
      by (simp add: at)
  qed
  then show ?thesis using ok by (simp add: ev_ok_parts resume_active_sessions_def resume_fold_db)
qed


subsection \<open>The repair\<close>

text \<open>What the repair does with one row, seen against the tables as they were at the start.\<close>

definition row_duplicates :: "ev_db \<Rightarrow> ev_session \<Rightarrow> ev_interval list" where
  "row_duplicates db row = resume_duplicates (list_for_session (sn_id row) db) (sn_started_at row)"

definition row_kept :: "ev_db \<Rightarrow> ev_session \<Rightarrow> ev_interval list" where
  "row_kept db row = kept_intervals (row_duplicates db row) (list_for_session (sn_id row) db)"

definition needs_repair :: "ev_db \<Rightarrow> ev_session \<Rightarrow> bool" where
  "needs_repair db row \<longleftrightarrow> row_kept db row \<noteq> [] \<and> (row_duplicates db row \<noteq> []
     \<or> \<bar>tt_total_energy_kwh (repaired_totals row (row_kept db row)) - old_total_kwh row\<bar> > ATTRIBUTION_TOLERANCE_KWH)"

definition row_report :: "ev_db \<Rightarrow> ev_session \<Rightarrow> session_repair" where
  "row_report db row = (let totals = repaired_totals row (row_kept db row) in
     \<lparr> sr_session_id = sn_id row, sr_status = sn_status row, sr_interval_count = length (row_kept db row),
       sr_removed_intervals = length (row_duplicates db row),
       sr_removed_kwh = sum_list (map iv_charged_energy_kwh (row_duplicates db row)),
       sr_old_total_kwh = old_total_kwh row, sr_new_total_kwh = tt_total_energy_kwh totals,
       sr_attribution = tt_attribution totals, sr_note = tt_reconciliation_note totals \<rparr>)"

definition apply_repair :: "ev_db \<Rightarrow> ev_session \<Rightarrow> ev_db \<Rightarrow> ev_db" where
  "apply_repair db0 row db = update_totals (sn_id row) (as_fields (repaired_totals row (row_kept db0 row)))
     (delete_intervals (map iv_id (row_duplicates db0 row)) db)"

lemma repair_row_eq:
  "repair_row dry (db, reps) row =
     (if needs_repair db row then (if dry then db else apply_repair db row db, reps @ [row_report db row]) else (db, reps))"
proof -
  note parts = row_duplicates_def [symmetric] row_kept_def [symmetric]
  show ?thesis
    unfolding repair_row_def needs_repair_def row_report_def apply_repair_def Let_def prod.case parts
    by (cases "row_kept db row = []"; cases "row_duplicates db row = []") (auto simp: not_le)
qed

lemma row_parts_cong:
  assumes "list_for_session (sn_id row) db' = list_for_session (sn_id row) db"
  shows "row_duplicates db' row = row_duplicates db row" "row_kept db' row = row_kept db row"
    "needs_repair db' row = needs_repair db row" "row_report db' row = row_report db row"
    "apply_repair db' row = apply_repair db row"
proof -
  show dup: "row_duplicates db' row = row_duplicates db row" by (simp add: row_duplicates_def assms)
  then show kept: "row_kept db' row = row_kept db row" by (simp add: row_kept_def assms)
  then show "needs_repair db' row = needs_repair db row" by (simp add: needs_repair_def dup)
  show "row_report db' row = row_report db row" by (simp add: row_report_def dup kept)
  show "apply_repair db' row = apply_repair db row" by (rule ext) (simp add: apply_repair_def dup kept)
qed

lemma row_duplicates_mem:
  assumes "i \<in> set (row_duplicates db row)"
  shows "i \<in> set (db_intervals db)" "iv_session_id i = sn_id row" "iv_start_time i = sn_started_at row"
proof -
  let ?xs = "sort_key iv_end_time (filter (\<lambda>i. iv_start_time i = sn_started_at row) (list_for_session (sn_id row) db))"
  have "set (tl ?xs) \<subseteq> set ?xs" by (cases ?xs) auto
  then have "i \<in> set ?xs" using assms unfolding row_duplicates_def resume_duplicates_def by blast
  then have i: "i \<in> set (list_for_session (sn_id row) db)" "iv_start_time i = sn_started_at row" by simp_all
  then show "i \<in> set (db_intervals db)" "iv_session_id i = sn_id row" "iv_start_time i = sn_started_at row"
    unfolding list_for_session_set by simp_all
qed

text \<open>The tables after the rows \<open>rows\<close> of a table \<open>db\<close> have been repaired.\<close>

definition doomed :: "ev_db \<Rightarrow> ev_session list \<Rightarrow> ev_interval \<Rightarrow> bool" where
  "doomed db rows i \<longleftrightarrow> (\<exists>row \<in> set rows. needs_repair db row \<and> iv_id i \<in> iv_id ` set (row_duplicates db row))"

definition rebuilt :: "ev_db \<Rightarrow> ev_session list \<Rightarrow> ev_session \<Rightarrow> ev_session" where
  "rebuilt db rows s =
     (if s \<in> set rows \<and> needs_repair db s then as_fields (repaired_totals s (row_kept db s)) s else s)"

lemma doomed_session:
  assumes "ids_ok db" "i \<in> set (db_intervals db)" "doomed db rows i"
  shows "\<exists>row \<in> set rows. sn_id row = iv_session_id i"
proof -
  obtain row j where "row \<in> set rows" "j \<in> set (row_duplicates db row)" "iv_id i = iv_id j"
    using assms(3) by (auto simp: doomed_def)
  moreover from this have "j = i"
    using assms(1,2) row_duplicates_mem(1) unfolding ids_ok_def distinct_map by (metis inj_onD)
  ultimately show ?thesis using row_duplicates_mem(2) by metis
qed

lemma list_for_session_other:
  assumes "ids_ok db" "db_intervals db' = filter (\<lambda>i. \<not> doomed db rows i) (db_intervals db)"
    and "sid \<notin> sn_id ` set rows"
  shows "list_for_session sid db' = list_for_session sid db"
proof -
  have "filter (\<lambda>i. iv_session_id i = sid) (filter (\<lambda>i. \<not> doomed db rows i) (db_intervals db))
      = filter (\<lambda>i. iv_session_id i = sid) (db_intervals db)"
    unfolding filter_filter using doomed_session [OF assms(1)] assms(3) by (intro filter_cong refl) (metis image_eqI)
  then show ?thesis by (simp add: list_for_session_def assms(2))
qed

lemma repair_run:
  assumes "ids_ok db" "distinct (map sn_id rows)" "set rows \<subseteq> set (db_sessions db)"
  shows "snd (foldl (repair_row False) (db, []) rows) = map (row_report db) (filter (needs_repair db) rows)
    \<and> db_sessions (fst (foldl (repair_row False) (db, []) rows)) = map (rebuilt db rows) (db_sessions db)
    \<and> db_intervals (fst (foldl (repair_row False) (db, []) rows)) = filter (\<lambda>i. \<not> doomed db rows i) (db_intervals db)
    \<and> db_next_session (fst (foldl (repair_row False) (db, []) rows)) = db_next_session db
    \<and> db_next_interval (fst (foldl (repair_row False) (db, []) rows)) = db_next_interval db"
  using assms(2,3)
proof (induction rows rule: rev_induct)
  case Nil
  then show ?case by (simp add: doomed_def rebuilt_def)
next
  case (snoc x rows)
  obtain db' reps where run: "foldl (repair_row False) (db, []) rows = (db', reps)" by force
  have x: "sn_id x \<notin> sn_id ` set rows" "x \<in> set (db_sessions db)" using snoc.prems by auto
  then have "x \<notin> set rows" by blast
  have IH: "reps = map (row_report db) (filter (needs_repair db) rows)"
      "db_sessions db' = map (rebuilt db rows) (db_sessions db)"
      "db_intervals db' = filter (\<lambda>i. \<not> doomed db rows i) (db_intervals db)"
      "db_next_session db' = db_next_session db" "db_next_interval db' = db_next_interval db"
    using snoc.IH snoc.prems run by simp_all
  note same = row_parts_cong [OF list_for_session_other [OF assms(1) IH(3) x(1)]]
  have step: "foldl (repair_row False) (db, []) (rows @ [x]) =
      (if needs_repair db x then (apply_repair db x db', reps @ [row_report db x]) else (db', reps))"
    by (simp add: run repair_row_eq same)
  have only: "sn_id s = sn_id x \<longleftrightarrow> s = x" if "s \<in> set (db_sessions db)" for s
    using assms(1) that x(2) unfolding ids_ok_def distinct_map by (metis inj_onD)
  show ?case
  proof (cases "needs_repair db x")
    case True
    have "(if sn_id (rebuilt db rows s) = sn_id x then as_fields (repaired_totals x (row_kept db x)) (rebuilt db rows s)
        else rebuilt db rows s) = rebuilt db (rows @ [x]) s" if "s \<in> set (db_sessions db)" for s
      using only [OF that] True \<open>x \<notin> set rows\<close> by (auto simp: rebuilt_def as_fields_def)
    then have "db_sessions (apply_repair db x db') = map (rebuilt db (rows @ [x])) (db_sessions db)"
      by (simp add: apply_repair_def update_totals_def delete_intervals_def IH(2))
    moreover have "db_intervals (apply_repair db x db') = filter (\<lambda>i. \<not> doomed db (rows @ [x]) i) (db_intervals db)"
      using True by (simp add: apply_repair_def update_totals_def delete_intervals_def IH(3) doomed_def conj_comms)
    moreover have "db_next_session (apply_repair db x db') = db_next_session db"
      "db_next_interval (apply_repair db x db') = db_next_interval db"
      by (simp_all add: apply_repair_def delete_intervals_def IH(4,5))
    ultimately show ?thesis using True IH(1) unfolding step by simp
  next
    case False
    have "rebuilt db (rows @ [x]) = rebuilt db rows" "doomed db (rows @ [x]) = doomed db rows"
      using False by (auto simp: rebuilt_def doomed_def fun_eq_iff)
    then show ?thesis using False IH unfolding step by simp
  qed
qed


lemma repair_rows_parts:
  assumes "ids_ok db"
  shows "distinct (map sn_id (repair_rows site db))" "set (repair_rows site db) \<subseteq> set (db_sessions db)"
proof -
  show "set (repair_rows site db) \<subseteq> set (db_sessions db)" by (auto simp: repair_rows_def)
  then show "distinct (map sn_id (repair_rows site db))"
    using assms by (auto simp: ids_ok_def distinct_map repair_rows_def intro: inj_on_subset)
qed

lemmas repair_done = repair_run [OF _ repair_rows_parts, folded repair_sessions_def]

lemma dry_run_fold:
  "foldl (repair_row True) (db, reps) rows = (db, reps @ map (row_report db) (filter (needs_repair db) rows))"
  by (induction rows arbitrary: reps) (simp_all add: repair_row_eq)

lemma dry_run_eq:
  "repair_sessions site True db = (db, map (row_report db) (filter (needs_repair db) (repair_rows site db)))"
  by (simp add: repair_sessions_def dry_run_fold)

lemma rebuilt_key [simp]: "session_key (rebuilt db rows s) = session_key s"
  by (simp add: rebuilt_def)

lemma sorted_wrt_filter_apart: "intervals_ok ks ivs \<Longrightarrow> intervals_ok ks (filter P ivs)"
  by (auto simp: intervals_ok_def intro: sorted_wrt_filter)

lemma ev_ok_repair:
  assumes ok: "ev_ok st"
  shows "ev_ok (st\<lparr> es_db := fst (repair_sessions site dry (es_db st)) \<rparr>)"
proof (cases dry)
  case True
  then show ?thesis using ok by (simp add: dry_run_eq)
next
  case False
  have ids: "ids_ok (es_db st)" using ok by (simp add: ev_ok_parts)
  define db where "db = fst (repair_sessions site False (es_db st))"
  define gone where "gone i = doomed (es_db st) (repair_rows site (es_db st)) i" for i
  have parts: "db_intervals db = filter (\<lambda>i. \<not> gone i) (db_intervals (es_db st))"
      "db_next_session db = db_next_session (es_db st)" "db_next_interval db = db_next_interval (es_db st)"
      "map session_key (db_sessions db) = map session_key (db_sessions (es_db st))"
    using repair_done [OF ids ids ids, of site] by (simp_all add: db_def gone_def comp_def)
  have "ids_ok (db\<lparr> db_intervals := db_intervals (es_db st) \<rparr>)"
    using ids by (subst ids_ok_same [where db = "es_db st"]) (simp_all add: parts key_id)
  then have "ids_ok db" by (auto simp: ids_ok_def parts distinct_map_filter)
  moreover have "anchored ks (filter P ivs) rt" if "anchored ks ivs rt" for ks P ivs rt
    using that by (auto simp: anchored_def)
  ultimately have "ev_ok (st\<lparr> es_db := db \<rparr>)"
    using ok by (simp add: ev_ok_parts parts sorted_wrt_filter_apart)
  then show ?thesis using False by (simp add: db_def)
qed

lemma kept_has_no_duplicates:
  assumes "ids_ok db"
  shows "resume_duplicates (row_kept db row) (sn_started_at row) = []"
proof -
  let ?L = "list_for_session (sn_id row) db"
  let ?S = "sort_key iv_end_time (filter (\<lambda>i. iv_start_time i = sn_started_at row) ?L)"
  have dup: "row_duplicates db row = tl ?S" by (simp add: row_duplicates_def resume_duplicates_def)
  show ?thesis
  proof (cases "tl ?S = []")
    case True
    then have "row_kept db row = ?L" by (simp add: row_kept_def kept_intervals_def dup)
    then show ?thesis using True by (simp add: resume_duplicates_def)
  next
    case False
    let ?P = "\<lambda>i. iv_id i \<notin> set (map iv_id (tl ?S))"
    obtain h t where S: "?S = h # t" using False by (cases ?S) auto
    have "distinct (map iv_id (db_intervals db))" using assms by (simp add: ids_ok_def)
    then have "inj_on iv_id (set ?S)" "distinct ?S"
      by (auto simp: distinct_map list_for_session_def intro: inj_on_subset)
    then have "?P h" unfolding S by (auto simp: inj_on_def)
    then have "filter ?P ?S = [h]" unfolding S by (auto simp: filter_empty_conv)
    moreover have "sort_key iv_end_time (filter (\<lambda>i. iv_start_time i = sn_started_at row) (row_kept db row)) = filter ?P ?S"
      using False by (simp add: row_kept_def kept_intervals_def dup filter_sort conj_comms)
    ultimately show ?thesis by (simp add: resume_duplicates_def)
  qed
qed

lemma list_for_session_repaired:
  assumes "ids_ok db" "row \<in> set rows" "set rows \<subseteq> set (db_sessions db)"
    and "db_intervals db' = filter (\<lambda>i. \<not> doomed db rows i) (db_intervals db)"
  shows "list_for_session (sn_id row) db' = (if needs_repair db row then row_kept db row else list_for_session (sn_id row) db)"
proof -
  have "doomed db rows i \<longleftrightarrow> needs_repair db row \<and> iv_id i \<in> iv_id ` set (row_duplicates db row)"
    if "i \<in> set (db_intervals db)" "iv_session_id i = sn_id row" for i
  proof
    assume "doomed db rows i"
    then obtain row' j where row': "row' \<in> set rows" "needs_repair db row'" "j \<in> set (row_duplicates db row')" "iv_id i = iv_id j"
      by (auto simp: doomed_def)
    then have "i = j"
      using assms(1) that(1) row_duplicates_mem(1) unfolding ids_ok_def distinct_map by (metis inj_onD)
    then have "sn_id row' = sn_id row" using row_duplicates_mem(2) row'(3) that(2) by metis
    then have "row' = row"
      using assms(1-3) row'(1) unfolding ids_ok_def distinct_map by (metis inj_onD subsetD)
    then show "needs_repair db row \<and> iv_id i \<in> iv_id ` set (row_duplicates db row)" using row' by blast
  qed (use assms(2) in \<open>auto simp: doomed_def\<close>)
  then have "filter (\<lambda>i. iv_session_id i = sn_id row) (db_intervals db') =
      filter (\<lambda>i. \<not> (needs_repair db row \<and> iv_id i \<in> iv_id ` set (row_duplicates db row)))
        (filter (\<lambda>i. iv_session_id i = sn_id row) (db_intervals db))"
    unfolding assms(4) filter_filter by (intro filter_cong refl) blast
  then show ?thesis
    by (simp add: list_for_session_def row_kept_def kept_intervals_def flip: filter_sort)
qed

lemma repaired_row_settled:
  assumes "ids_ok db" "row \<in> set rows" "set rows \<subseteq> set (db_sessions db)"
    and "db_intervals db' = filter (\<lambda>i. \<not> doomed db rows i) (db_intervals db)"
  shows "\<not> needs_repair db' (rebuilt db rows row)"
proof (cases "needs_repair db row")
  case False
  then show ?thesis
    using row_parts_cong(3) [of row db' db] list_for_session_repaired [OF assms] by (simp add: rebuilt_def)
next
  case True
  have row': "rebuilt db rows row = as_fields (repaired_totals row (row_kept db row)) row"
    using True assms(2) by (simp add: rebuilt_def)
  have "list_for_session (sn_id row) db' = row_kept db row"
    using list_for_session_repaired [OF assms] True by simp
  then have "row_duplicates db' (rebuilt db rows row) = []"
    using kept_has_no_duplicates [OF assms(1), of row] by (simp add: row' row_duplicates_def as_fields_def)
  moreover from this have "row_kept db' (rebuilt db rows row) = row_kept db row"
    using list_for_session_repaired [OF assms] True by (simp add: row_kept_def kept_intervals_def row' as_fields_def)
  moreover have "repaired_totals (rebuilt db rows row) ivs = repaired_totals row ivs" for ivs
    by (simp add: row' as_fields_def repaired_totals_def)
  ultimately show ?thesis
    by (simp add: needs_repair_def) (simp add: row' as_fields_def old_total_kwh_def ATTRIBUTION_TOLERANCE_KWH_def)
qed


lemma settled_fold:
  "\<forall>row \<in> set rows. \<not> needs_repair db row \<Longrightarrow> foldl (repair_row dry) (db, reps) rows = (db, reps)"
  by (induction rows) (simp_all add: repair_row_eq)

interpretation ev_runs: kept_invariant ev_step "\<lambda>_. True" ev_ok
proof
  fix st e
  assume "ev_ok st"
  then show "ev_ok (ev_step st e)"
    by (cases e) (simp_all add: ev_ok_process_site ev_ok_resume ev_ok_repair)
qed

lemma reachable_ev_ok: "ev_ok (foldl ev_step initial_ev es)"
  by (rule ev_runs.run_keeps) (simp_all add: initial_ev_def ev_ok_parts ids_ok_def one_active_def intervals_ok_def anchored_def)

lemma no_recount:
  assumes "ev_ok st"
  shows "row_duplicates (es_db st) row = []"
proof (rule ccontr)
  let ?F = "filter (\<lambda>i. iv_start_time i = sn_started_at row) (list_for_session (sn_id row) (es_db st))"
  assume "row_duplicates (es_db st) row \<noteq> []"
  then have "2 \<le> length (sort_key iv_end_time ?F)"
    by (cases "sort_key iv_end_time ?F"; cases "tl (sort_key iv_end_time ?F)")
      (auto simp: row_duplicates_def resume_duplicates_def)
  then have "2 \<le> length (filter (\<lambda>i. iv_start_time i = sn_started_at row \<and> iv_session_id i = sn_id row) (db_intervals (es_db st)))"
    by (simp add: list_for_session_def filter_sort conj_comms)
  then obtain i j rest where two: "filter (\<lambda>i. iv_start_time i = sn_started_at row \<and> iv_session_id i = sn_id row)
      (db_intervals (es_db st)) = i # j # rest"
    by (metis (no_types, lifting) Suc_le_length_iff numeral_2_eq_2)
  have "sorted_wrt apart (i # j # rest)"
    using assms unfolding two [symmetric] by (auto simp: ev_ok_parts intervals_ok_def intro: sorted_wrt_filter)
  moreover have "set (i # j # rest) \<subseteq> {i \<in> set (db_intervals (es_db st)). iv_start_time i = sn_started_at row
      \<and> iv_session_id i = sn_id row}"
    unfolding two [symmetric] by auto
  ultimately have "iv_end_time i \<le> iv_start_time j \<or> iv_end_time j \<le> iv_start_time i" "iv_start_time i = iv_start_time j"
      "i \<in> set (db_intervals (es_db st))" "j \<in> set (db_intervals (es_db st))"
    by (auto simp: apart_def)
  then show False using assms by (fastforce simp: ev_ok_parts intervals_ok_def)
qed

lemma at_most_one:
  assumes "distinct xs" "\<And>x y. x \<in> set xs \<Longrightarrow> y \<in> set xs \<Longrightarrow> x = y"
  shows "length xs \<le> 1"
proof (cases xs)
  case (Cons x ys)
  have "ys = []"
  proof (cases ys)
    case (Cons y zs)
    then have "x \<in> set xs" "y \<in> set xs" "x \<noteq> y" using assms(1) \<open>xs = x # ys\<close> by auto
    then show ?thesis using assms(2) by blast
  qed simp
  then show ?thesis by (simp add: Cons)
qed simp

subsection \<open>Properties\<close>

definition no_overlap :: "ev_db \<Rightarrow> bool" where
  "no_overlap db \<longleftrightarrow> sorted_wrt apart (db_intervals db)
     \<and> list_all (\<lambda>i. iv_start_time i < iv_end_time i
          \<and> list_ex (\<lambda>s. sn_id s = iv_session_id i \<and> sn_started_at s \<le> iv_start_time i) (db_sessions db)) (db_intervals db)"

text \<open>C23. Whatever cycles, restarts of the collector and repairs come in whatever order, with whatever
  readings and clocks: the intervals of a session never overlap and lie after its start, a charger
  has at most one active session, and a repair finds no re-counted interval to remove.\<close>

theorem intervals_never_overlap:
  shows "no_overlap (es_db (foldl ev_step initial_ev es))
    \<and> length (filter (is_active_of charger) (db_sessions (es_db (foldl ev_step initial_ev es)))) \<le> 1
    \<and> list_all (\<lambda>r. sr_removed_intervals r = 0) (snd (repair_sessions site True (es_db (foldl ev_step initial_ev es))))"
proof -
  define st where "st = foldl ev_step initial_ev es"
  have ok: "ev_ok st" by (simp add: st_def reachable_ev_ok)
  then have "no_overlap (es_db st)"
    unfolding ev_ok_parts intervals_ok_def no_overlap_def list_all_iff list_ex_iff session_key_mem by blast
  moreover have "length (filter (is_active_of charger) (db_sessions (es_db st))) \<le> 1"
  proof -
    have "distinct (filter (is_active_of charger) (db_sessions (es_db st)))"
      using ok by (auto simp: ev_ok_parts ids_ok_def distinct_map)
    moreover have "s = s'" if "s \<in> set (filter (is_active_of charger) (db_sessions (es_db st)))"
        "s' \<in> set (filter (is_active_of charger) (db_sessions (es_db st)))" for s s'
      using unique_active [OF ok, of s s'] that by (auto simp: is_active_of_def list_active_def)
    ultimately show ?thesis by (rule at_most_one)
  qed
  moreover have "list_all (\<lambda>r. sr_removed_intervals r = 0) (snd (repair_sessions site True (es_db st)))"
    by (auto simp: dry_run_eq list_all_iff row_report_def Let_def no_recount [OF ok])
  ultimately show ?thesis by (simp add: st_def)
qed

text \<open>Repairing twice is repairing once: after a repair every row is settled, so a second run, dry
  or not, changes nothing and reports nothing, on any tables with distinct ids.\<close>

theorem repair_idempotent:
  assumes "ids_ok db"
  shows "repair_sessions site dry (fst (repair_sessions site False db)) = (fst (repair_sessions site False db), [])"
proof -
  define db' where "db' = fst (repair_sessions site False db)"
  have repaired: "db_sessions db' = map (rebuilt db (repair_rows site db)) (db_sessions db)"
      "db_intervals db' = filter (\<lambda>i. \<not> doomed db (repair_rows site db) i) (db_intervals db)"
    using repair_done [OF assms assms assms, of site] by (simp_all add: db'_def)
  have "\<not> needs_repair db' row'" if "row' \<in> set (repair_rows site db')" for row'
  proof -
    have "row' \<in> set (db_sessions db')" using that by (simp add: repair_rows_def)
    then obtain s where s: "s \<in> set (db_sessions db)" "row' = rebuilt db (repair_rows site db) s"
      unfolding repaired(1) by auto
    have "sn_status row' = sn_status s" "sn_site_id row' = sn_site_id s"
      by (simp_all add: s(2) rebuilt_def as_fields_def)
    then have "s \<in> set (repair_rows site db)" using that s(1) by (auto simp: repair_rows_def split: option.splits)
    then show ?thesis
      using repaired_row_settled [OF assms _ repair_rows_parts(2) [OF assms] repaired(2)] s(2) by simp
  qed
  then have "repair_sessions site dry db' = (db', [])" by (simp add: repair_sessions_def settled_fold)
  then show ?thesis by (simp add: db'_def)
qed

text \<open>The dry run of the repair changes nothing and reports exactly what the real run does.\<close>

theorem dry_run_predicts:
  assumes "ids_ok db"
  shows "repair_sessions site True db = (db, snd (repair_sessions site False db))"
  using repair_done [OF assms assms assms, of site] by (simp add: dry_run_eq)

definition recounted_row :: ev_session where
  "recounted_row = fst (create_session_row 7 1 0 (Some 10) (es_db initial_ev))"

definition recounted_interval :: "nat \<Rightarrow> time \<Rightarrow> rat \<Rightarrow> ev_interval" where
  "recounted_interval n until kwh = (sampled_interval 1 \<lparr> st_id = 1, st_fallback_purchase_price_sek_kwh = 1,
      st_export_compensation_sek_kwh = 0 \<rparr> recounted_row 7 0
      \<lparr> ms_recorded_at = until, ms_cumulative_kwh = None, ms_power_w = None, ms_configured_current_a = None,
        ms_actual_charging_current_a = None, ms_is_charging = True, ms_vehicle_connected = True, ms_ocpp_status = [],
        ms_phase_current_l1_a = None, ms_phase_current_l2_a = None, ms_phase_current_l3_a = None, ms_energy_source = [] \<rparr>
      night_charge (kwh, ''MEASURED'') empty_ledger)\<lparr> iv_id := n \<rparr>"

definition recounted_db :: ev_db where
  "recounted_db = \<lparr> db_sessions = [recounted_row],
     db_intervals = [recounted_interval 1 60000000 (1/5), recounted_interval 2 3600000000 11],
     db_ledger = [], db_next_session = 2, db_next_interval = 3 \<rparr>"

lemma recounted_ids: "ids_ok recounted_db"
  by code_simp

theorem repair_idempotent_witness:
  "repair_sessions None True (fst (repair_sessions None False recounted_db)) = (fst (repair_sessions None False recounted_db), [])
   \<and> map sr_removed_kwh (snd (repair_sessions None False recounted_db)) = [11]"
proof
  show "repair_sessions None True (fst (repair_sessions None False recounted_db)) = (fst (repair_sessions None False recounted_db), [])"
    by (rule repair_idempotent [OF recounted_ids])
  show "map sr_removed_kwh (snd (repair_sessions None False recounted_db)) = [11]" by code_simp
qed

theorem dry_run_predicts_witness:
  "repair_sessions None True recounted_db = (recounted_db, snd (repair_sessions None False recounted_db))
   \<and> map sr_new_total_kwh (snd (repair_sessions None True recounted_db)) = [1/5]"
proof
  show "repair_sessions None True recounted_db = (recounted_db, snd (repair_sessions None False recounted_db))"
    by (rule dry_run_predicts [OF recounted_ids])
  show "map sr_new_total_kwh (snd (repair_sessions None True recounted_db)) = [1/5]" by code_simp
qed

end
