(* ===== verification/Module_Orchestrator.thy ===== *)
theory Module_Orchestrator
  imports Module_Sites
begin

section \<open>Starting and stopping modules\<close>

text \<open>
  \<open>platform/modules/orchestrator.py\<close>, \<open>handlers.py\<close>, the adapter of \<open>isolation/adapters.py\<close> and the
  mutation service of \<open>service.py\<close>. \<open>start_module\<close>, \<open>stop_module\<close> and \<open>_reevaluate_dependents\<close> call
  each other; the first argument of their model is the depth the interpreter's recursion limit
  leaves, and running out of it is the \<open>RecursionError\<close> that Python raises there. An operation
  returns the new state and the exception it ends with, if any. What the handlers and the
  isolated runtimes do is a parameter, which may depend on the calls made before. The database
  is read within one operation as one snapshot.
\<close>

record module_handlers =
  hd_start :: "lifecycle_call list \<Rightarrow> int \<Rightarrow> string \<Rightarrow> string option"
  hd_stop :: "lifecycle_call list \<Rightarrow> int \<Rightarrow> string \<Rightarrow> string option"
  hd_isolated_start :: "lifecycle_call list \<Rightarrow> int \<Rightarrow> string \<Rightarrow> string + bool"
  hd_isolated_stop :: "lifecycle_call list \<Rightarrow> int \<Rightarrow> string \<Rightarrow> string option"
  hd_now :: "lifecycle_call list \<Rightarrow> time"

type_synonym outcome = "modules_state \<times> string option"

definition RECURSION_ERROR :: string where
  "RECURSION_ERROR = ''maximum recursion depth exceeded''"

text \<open>\<open>LaneModuleHandler\<close>: starting and stopping only log.\<close>

definition lane_handler :: "lifecycle_call list \<Rightarrow> int \<Rightarrow> string \<Rightarrow> string option" where
  "lane_handler calls site m = None"

subsection \<open>Updates of the state\<close>

definition emit_runtime_state ::
  "site_env \<Rightarrow> int \<Rightarrow> string \<Rightarrow> runtime_status \<Rightarrow> string option \<Rightarrow> modules_state \<Rightarrow> modules_state" where
  "emit_runtime_state env site m status last_error st =
     (let declared = Option.bind (map_of (se_registry env) m)
            (\<lambda>d. case md_installed_version d of None \<Rightarrow> None | Some v \<Rightarrow> if v = [] then None else Some v);
          row = se_installed_packages env m in
      if \<not> se_redis_url_set env then st
      else st \<lparr> ms_published := ms_published st @ [\<lparr> rs_site_id = site, rs_module_id = m,
        rs_runtime_state = status, rs_last_error = last_error,
        rs_module_version = (case row of None \<Rightarrow> declared | Some p \<Rightarrow> Some (fst p)),
        rs_package_checksum = map_option snd row \<rparr>] \<rparr>)"

definition called :: "lifecycle_call \<Rightarrow> modules_state \<Rightarrow> modules_state" where
  "called c st = st \<lparr> ms_calls := ms_calls st @ [c] \<rparr>"

definition withdraw :: "int \<Rightarrow> string \<Rightarrow> modules_state \<Rightarrow> modules_state" where
  "withdraw site m st = st \<lparr> ms_caps := unregister_module (ms_caps st) site m \<rparr>"

definition to_starting :: "site_env \<Rightarrow> int \<Rightarrow> string \<Rightarrow> modules_state \<Rightarrow> modules_state" where
  "to_starting env site m st = emit_runtime_state env site m MR_STARTING None
     (st \<lparr> ms_runtime := mark_starting (ms_runtime st) site m \<rparr>)"

definition to_running :: "site_env \<Rightarrow> time \<Rightarrow> int \<Rightarrow> string \<Rightarrow> modules_state \<Rightarrow> modules_state" where
  "to_running env now site m st = emit_runtime_state env site m MR_RUNNING None
     (st \<lparr> ms_caps := register_capabilities_for_module env site m (ms_caps st),
           ms_runtime := mark_running (ms_runtime st) site m now \<rparr>)"

definition to_stopping :: "site_env \<Rightarrow> int \<Rightarrow> string \<Rightarrow> modules_state \<Rightarrow> modules_state" where
  "to_stopping env site m st = emit_runtime_state env site m MR_STOPPING None
     (st \<lparr> ms_runtime := mark_stopping (ms_runtime st) site m \<rparr>)"

definition to_stopped :: "site_env \<Rightarrow> int \<Rightarrow> string \<Rightarrow> modules_state \<Rightarrow> modules_state" where
  "to_stopped env site m st = emit_runtime_state env site m MR_STOPPED None
     (st \<lparr> ms_runtime := mark_stopped (ms_runtime st) site m \<rparr>)"

definition to_blocked :: "site_env \<Rightarrow> int \<Rightarrow> string \<Rightarrow> string \<Rightarrow> modules_state \<Rightarrow> modules_state" where
  "to_blocked env site m reason st = emit_runtime_state env site m MR_BLOCKED (Some reason)
     (st \<lparr> ms_runtime := mark_blocked (ms_runtime st) site m reason \<rparr>)"

definition to_failed :: "site_env \<Rightarrow> int \<Rightarrow> string \<Rightarrow> string \<Rightarrow> modules_state \<Rightarrow> modules_state" where
  "to_failed env site m err st = emit_runtime_state env site m MR_FAILED (Some err)
     (st \<lparr> ms_runtime := mark_failed (ms_runtime st) site m err \<rparr>)"

subsection \<open>The three operations\<close>

text \<open>\<open>",".join(cap.value for cap in missing_required)\<close>.\<close>

fun join_comma :: "string list \<Rightarrow> string" where
  "join_comma [] = []"
| "join_comma [x] = x"
| "join_comma (x # xs) = x @ '','' @ join_comma xs"

definition missing_reason :: "can_start_result \<Rightarrow> string" where
  "missing_reason cs = join_comma (map capability_value (missing_required cs))"

definition block_reason :: "can_start_result \<Rightarrow> string" where
  "block_reason cs = (let reason = missing_reason cs in if reason = [] then ''dependencies'' else reason)"

text \<open>The branches of \<open>start_module\<close> past the guards: an isolated runtime, or a handler in process.\<close>

definition start_isolated :: "site_env \<Rightarrow> module_handlers \<Rightarrow> int \<Rightarrow> string \<Rightarrow> modules_state \<Rightarrow> outcome" where
  "start_isolated env h site m st =
     (let st1 = called (Start_Called site m) st in
      case hd_isolated_start h (ms_calls st) site m of
        Inl e \<Rightarrow> (st1, Some e)
      | Inr running \<Rightarrow>
          if running then (to_running env (hd_now h (ms_calls st)) site m st1, None)
          else (to_blocked env site m ''isolated runtime blocked'' st1, None))"

definition start_in_process ::
  "site_env \<Rightarrow> module_handlers \<Rightarrow> (bool \<Rightarrow> modules_state \<Rightarrow> outcome) \<Rightarrow> int \<Rightarrow> string \<Rightarrow> modules_state \<Rightarrow> outcome" where
  "start_in_process env h reevaluate site m st =
     (let st1 = called (Start_Called site m) st in
      case hd_start h (ms_calls st) site m of
        Some e \<Rightarrow> (withdraw site m (to_failed env site m e st1), None)
      | None \<Rightarrow>
          (let r = reevaluate True (to_running env (hd_now h (ms_calls st)) site m st1) in
           case snd r of
             None \<Rightarrow> r
           | Some e \<Rightarrow> (withdraw site m (to_failed env site m e (fst r)), None)))"

definition start_body ::
  "site_env \<Rightarrow> module_handlers \<Rightarrow> (bool \<Rightarrow> modules_state \<Rightarrow> outcome) \<Rightarrow> int \<Rightarrow> string \<Rightarrow> modules_state \<Rightarrow> outcome" where
  "start_body env h reevaluate site m st =
     (if \<not> se_module_gate_enabled env then (st, None)
      else case map_of (se_registry env) m of
        None \<Rightarrow> (st, None)
      | Some d \<Rightarrow>
          if get_state (ms_runtime st) site m \<in> {MR_RUNNING, MR_STARTING} then (st, None)
          else if m \<notin> set (site_enabled env st site) then (to_stopped env site m st, None)
          else
            let cs = can_start (se_registry env) m site (site_enabled env st site) (ms_caps st) in
            if \<not> can_start_ok cs
            then reevaluate False (withdraw site m (to_blocked env site m (block_reason cs) st))
            else
              let st1 = to_starting env site m st in
              if requires_isolated_runtime d then start_isolated env h site m st1
              else start_in_process env h reevaluate site m st1)"

definition stop_body ::
  "site_env \<Rightarrow> module_handlers \<Rightarrow> (bool \<Rightarrow> modules_state \<Rightarrow> outcome) \<Rightarrow> int \<Rightarrow> string \<Rightarrow> modules_state \<Rightarrow> outcome" where
  "stop_body env h reevaluate site m st =
     (if get_state (ms_runtime st) site m \<in> {MR_STOPPED, MR_STOPPING} then (st, None)
      else
        let st1 = called (Stop_Called site m) (to_stopping env site m st) in
        if (case map_of (se_registry env) m of None \<Rightarrow> False | Some d \<Rightarrow> requires_isolated_runtime d)
        then (case hd_isolated_stop h (ms_calls st) site m of
            Some e \<Rightarrow> (st1, Some e)
          | None \<Rightarrow> (invalidate_site_module_cache (Some site) (to_stopped env site m (withdraw site m st1)), None))
        else
          let st2 = (case hd_stop h (ms_calls st) site m of
                None \<Rightarrow> st1 | Some e \<Rightarrow> to_failed env site m e st1) in
          reevaluate False (invalidate_site_module_cache (Some site)
            (to_stopped env site m (withdraw site m st2))))"

text \<open>One descriptor of the loop of \<open>_reevaluate_dependents\<close>, and the loop, left by an exception.\<close>

definition reevaluate_one ::
  "site_env \<Rightarrow> (string \<Rightarrow> modules_state \<Rightarrow> outcome) \<Rightarrow> (string \<Rightarrow> modules_state \<Rightarrow> outcome)
   \<Rightarrow> int \<Rightarrow> string \<Rightarrow> bool \<Rightarrow> module_descriptor \<Rightarrow> modules_state \<Rightarrow> outcome" where
  "reevaluate_one env start stop site changed try_start d st =
     (let m = md_module_id d; state = get_state (ms_runtime st) site m;
          cs = can_start (se_registry env) m site (site_enabled env st site) (ms_caps st) in
      if m = changed then (st, None)
      else if m \<notin> set (site_enabled env st site) then (st, None)
      else if changed \<notin> set (md_dependencies d) \<and> md_capabilities_required d = [] then (st, None)
      else if can_start_ok cs
      then (if try_start \<or> state = MR_BLOCKED then start m st else (st, None))
      else if state = MR_RUNNING then stop m st
      else if state \<noteq> MR_STOPPED then (to_blocked env site m (missing_reason cs) st, None)
      else (st, None))"

fun until_exception :: "('a \<Rightarrow> modules_state \<Rightarrow> outcome) \<Rightarrow> 'a list \<Rightarrow> modules_state \<Rightarrow> outcome" where
  "until_exception f [] st = (st, None)"
| "until_exception f (x # xs) st =
     (let r = f x st in case snd r of None \<Rightarrow> until_exception f xs (fst r) | Some e \<Rightarrow> r)"

fun start_module :: "nat \<Rightarrow> site_env \<Rightarrow> module_handlers \<Rightarrow> int \<Rightarrow> string \<Rightarrow> modules_state \<Rightarrow> outcome"
  and stop_module :: "nat \<Rightarrow> site_env \<Rightarrow> module_handlers \<Rightarrow> int \<Rightarrow> string \<Rightarrow> modules_state \<Rightarrow> outcome"
  and reevaluate_dependents :: "nat \<Rightarrow> site_env \<Rightarrow> module_handlers \<Rightarrow> int \<Rightarrow> string \<Rightarrow> bool \<Rightarrow> modules_state \<Rightarrow> outcome" where
  "start_module 0 env h site m st = (st, Some RECURSION_ERROR)"
| "start_module (Suc n) env h site m st = start_body env h (reevaluate_dependents n env h site m) site m st"
| "stop_module 0 env h site m st = (st, Some RECURSION_ERROR)"
| "stop_module (Suc n) env h site m st = stop_body env h (reevaluate_dependents n env h site m) site m st"
| "reevaluate_dependents 0 env h site changed try_start st = (st, Some RECURSION_ERROR)"
| "reevaluate_dependents (Suc n) env h site changed try_start st =
     until_exception (reevaluate_one env (start_module n env h site) (stop_module n env h site) site changed try_start)
       (list_modules (se_registry env)) st"

subsection \<open>Reconciling a site\<close>

text \<open>
  \<open>sync_site\<close>. The order of the set of modules to stop is that of \<open>enum\<close>; a dependency cycle
  among them raises, one among the desired modules is logged.
\<close>

definition cycle_error :: "string visit_error \<Rightarrow> string" where
  "cycle_error e = (case e of Cycle_At m \<Rightarrow> ''Circular module dependency detected involving '' @ m
     | Out_Of_Fuel \<Rightarrow> RECURSION_ERROR)"

definition sync_start ::
  "nat \<Rightarrow> (string list \<Rightarrow> string list) \<Rightarrow> site_env \<Rightarrow> module_handlers \<Rightarrow> int \<Rightarrow> string list \<Rightarrow> modules_state \<Rightarrow> outcome" where
  "sync_start n enum env h site desired st =
     (case startup_order enum (se_registry env) (enum desired) of
        Inl e \<Rightarrow> (st, None)
      | Inr order \<Rightarrow> until_exception (\<lambda>m s.
          if m \<in> set desired \<and> get_state (ms_runtime s) site m \<noteq> MR_RUNNING
          then start_module n env h site m s else (s, None)) order st)"

definition sync_site ::
  "nat \<Rightarrow> (string list \<Rightarrow> string list) \<Rightarrow> site_env \<Rightarrow> module_handlers \<Rightarrow> int \<Rightarrow> modules_state \<Rightarrow> outcome" where
  "sync_site n enum env h site st =
     (let desired = site_enabled env st site;
          running = active_modules_for_site (ms_runtime st) site;
          to_stop = filter (\<lambda>m. m \<notin> set desired) running in
      case startup_order enum (se_registry env) (enum to_stop) of
        Inl e \<Rightarrow> (st, Some (cycle_error e))
      | Inr order \<Rightarrow>
          (let r = until_exception (\<lambda>m s. if m \<in> set to_stop then stop_module n env h site m s else (s, None))
                 (rev order) st in
           case snd r of
             Some e \<Rightarrow> r
           | None \<Rightarrow> sync_start n enum env h site desired (fst r)))"

definition start_all_sites ::
  "nat \<Rightarrow> (string list \<Rightarrow> string list) \<Rightarrow> site_env \<Rightarrow> module_handlers \<Rightarrow> int list \<Rightarrow> modules_state \<Rightarrow> outcome" where
  "start_all_sites n enum env h sites st = until_exception (sync_site n enum env h) sites st"

text \<open>\<open>SiteModuleService.set_enabled\<close>; the announcement on the module channel is not modelled.\<close>

definition set_module_enabled ::
  "nat \<Rightarrow> site_env \<Rightarrow> module_handlers \<Rightarrow> (string \<times> runtime_snapshot) list \<Rightarrow> time \<Rightarrow> bool \<Rightarrow> int \<Rightarrow> string \<Rightarrow> bool
   \<Rightarrow> modules_state \<Rightarrow> (string + site_module_state) \<times> modules_state" where
  "set_module_enabled n env h distributed now apply_runtime site module_id enabled st =
     (let m = resolve_module_id module_id;
          p = persist_enabled_override env distributed now site m enabled st in
      case fst p of
        Inl e \<Rightarrow> p
      | Inr v \<Rightarrow>
          (let st1 = mark_site_modules_dirty site (invalidate_site_module_cache (Some site) (snd p));
               r = (if \<not> apply_runtime then (st1, None)
                    else if enabled then start_module n env h site m st1
                    else stop_module n env h site m st1) in
           case snd r of
             Some e \<Rightarrow> (Inl e, fst r)
           | None \<Rightarrow>
               (let l = list_site_modules env distributed now False site (fst r) in
                (Inr (or_else (find (\<lambda>x. sm_module_id x = m) (fst l)) v), snd l))))"

end
