(* ===== verification/Module_Runs.thy ===== *)
theory Module_Runs
  imports Module_Orchestrator
begin

section \<open>What the orchestrator keeps and where it stops\<close>

text \<open>
  A relation between states that every update of the orchestrator climbs is climbed by
  \<open>start_module\<close>, \<open>stop_module\<close> and \<open>_reevaluate_dependents\<close>, whatever the handlers do and
  wherever the recursion stops. Two relations are interpreted: the frame (the override rows and
  the other sites stay) and the source of running modules (only enabled ones are started).
\<close>

abbreviation runs :: "modules_state \<Rightarrow> int \<Rightarrow> string \<Rightarrow> bool" where
  "runs st site m \<equiv> is_running (ms_runtime st) site m"

lemma emit_frame [simp]:
  "ms_caps (emit_runtime_state env site m s e st) = ms_caps st"
  "ms_runtime (emit_runtime_state env site m s e st) = ms_runtime st"
  "ms_overrides (emit_runtime_state env site m s e st) = ms_overrides st"
  "ms_calls (emit_runtime_state env site m s e st) = ms_calls st"
  by (simp_all add: emit_runtime_state_def Let_def)

lemmas to_defs = to_starting_def to_running_def to_stopping_def to_stopped_def to_blocked_def to_failed_def

lemma updates_overrides [simp]:
  "ms_overrides (called c st) = ms_overrides st"
  "ms_overrides (withdraw site m st) = ms_overrides st"
  "ms_overrides (to_starting env site m st) = ms_overrides st"
  "ms_overrides (to_running env now site m st) = ms_overrides st"
  "ms_overrides (to_stopping env site m st) = ms_overrides st"
  "ms_overrides (to_stopped env site m st) = ms_overrides st"
  "ms_overrides (to_blocked env site m r st) = ms_overrides st"
  "ms_overrides (to_failed env site m r st) = ms_overrides st"
  "ms_overrides (invalidate_site_module_cache o1 st) = ms_overrides st"
  by (simp_all add: to_defs called_def withdraw_def invalidate_site_module_cache_def split: option.split)

lemma updates_runs [simp]:
  "runs (called c st) s x = runs st s x"
  "runs (withdraw site m st) s x = runs st s x"
  "runs (to_starting env site m st) s x = ((s, x) \<noteq> (site, m) \<and> runs st s x)"
  "runs (to_running env now site m st) s x = ((s, x) = (site, m) \<or> runs st s x)"
  "runs (to_stopping env site m st) s x = ((s, x) \<noteq> (site, m) \<and> runs st s x)"
  "runs (to_stopped env site m st) s x = ((s, x) \<noteq> (site, m) \<and> runs st s x)"
  "runs (to_blocked env site m r st) s x = ((s, x) \<noteq> (site, m) \<and> runs st s x)"
  "runs (to_failed env site m r st) s x = ((s, x) \<noteq> (site, m) \<and> runs st s x)"
  "runs (invalidate_site_module_cache o1 st) s x = runs st s x"
  by (auto simp: to_defs called_def withdraw_def invalidate_site_module_cache_def is_running_def
      split: option.split)

lemma updates_caps [simp]:
  "ms_caps (called c st) = ms_caps st"
  "ms_caps (to_starting env site m st) = ms_caps st"
  "ms_caps (to_running env now site m st) = register_capabilities_for_module env site m (ms_caps st)"
  "ms_caps (to_blocked env site m r st) = ms_caps st"
  "ms_caps (withdraw site m st) = unregister_module (ms_caps st) site m"
  by (simp_all add: to_defs called_def withdraw_def)

lemma site_enabled_cong: "ms_overrides st = ms_overrides st' \<Longrightarrow> site_enabled env st s = site_enabled env st' s"
  by (simp add: site_enabled_def)

subsection \<open>Relations the orchestrator climbs\<close>

locale orchestrated =
  fixes env :: site_env and site :: int and below :: "modules_state \<Rightarrow> modules_state \<Rightarrow> bool"
  assumes below_refl: "below st st"
    and below_trans: "below st st1 \<Longrightarrow> below st1 st2 \<Longrightarrow> below st st2"
    and enabled_below: "below st st1 \<Longrightarrow> set (site_enabled env st1 site) = set (site_enabled env st site)"
    and called_below: "below st (called c st)"
    and withdraw_below: "below st (withdraw site m st)"
    and starting_below: "below st (to_starting env site m st)"
    and running_below: "m \<in> set (site_enabled env st site) \<Longrightarrow> below st (to_running env now site m st)"
    and stopping_below: "below st (to_stopping env site m st)"
    and stopped_below: "below st (to_stopped env site m st)"
    and blocked_below: "below st (to_blocked env site m r st)"
    and failed_below: "below st (to_failed env site m r st)"
    and invalidate_below: "below st (invalidate_site_module_cache (Some site) st)"
begin

lemmas updates_below = called_below withdraw_below starting_below stopping_below stopped_below
  blocked_below failed_below invalidate_below below_refl

lemma below_call: "(\<And>st. below st (fst (f st))) \<Longrightarrow> below st0 st \<Longrightarrow> below st0 (fst (f st))"
  by (blast intro: below_trans)

lemma until_exception_below:
  "(\<And>x st. below st (fst (f x st))) \<Longrightarrow> below st (fst (until_exception f xs st))"
  by (induction xs arbitrary: st) (auto simp: Let_def below_refl intro: below_trans split: option.split)

lemma running_below_from:
  "below st st1 \<Longrightarrow> m \<in> set (site_enabled env st site) \<Longrightarrow> below st (to_running env now site m st1)"
  by (metis below_trans enabled_below running_below)

lemma start_isolated_below:
  assumes "m \<in> set (site_enabled env st site)"
  shows "below st (fst (start_isolated env h site m st))"
  using running_below_from [OF called_below assms] below_trans [OF called_below blocked_below] called_below
  by (simp add: start_isolated_def Let_def split: sum.split)

lemma start_in_process_below:
  assumes f: "\<And>b st. below st (fst (f b st))" and m: "m \<in> set (site_enabled env st site)"
  shows "below st (fst (start_in_process env h f site m st))"
proof -
  have fail: "below st (withdraw site m (to_failed env site m e s))" if "below st s" for e s
    by (rule below_trans [OF below_trans [OF that failed_below] withdraw_below])
  have "below st (fst (f True (to_running env now site m (called c st))))" for now c
    by (rule below_call [of "f True", OF f running_below_from [OF called_below m]])
  then show ?thesis
    using fail called_below by (simp add: start_in_process_def Let_def split: option.split)
qed

lemma start_body_below:
  assumes f: "\<And>b st. below st (fst (f b st))"
  shows "below st (fst (start_body env h f site m st))"
proof (cases "m \<in> set (site_enabled env st site)")
  case True
  have "m \<in> set (site_enabled env (to_starting env site m st) site)"
    using True enabled_below [OF starting_below] by blast
  then have "below st (fst (start_isolated env h site m (to_starting env site m st)))"
    "below st (fst (start_in_process env h f site m (to_starting env site m st)))"
    by (rule below_trans [OF starting_below start_isolated_below],
        rule below_trans [OF starting_below start_in_process_below [OF f]])
  moreover have "below st (fst (f False (withdraw site m (to_blocked env site m r st))))" for r
    by (rule below_call [of "f False", OF f below_trans [OF blocked_below withdraw_below]])
  ultimately show ?thesis
    using True by (simp add: start_body_def Let_def below_refl split: option.split)
next
  case False
  then show ?thesis by (simp add: start_body_def below_refl stopped_below split: option.split)
qed

lemma stop_body_below:
  assumes f: "\<And>b st. below st (fst (f b st))"
  shows "below st (fst (stop_body env h f site m st))"
proof -
  let ?s1 = "called (Stop_Called site m) (to_stopping env site m st)"
  have s1: "below st ?s1" using stopping_below called_below below_trans by blast
  have fin: "below st (invalidate_site_module_cache (Some site) (to_stopped env site m (withdraw site m s)))"
    if "below st s" for s
    using that withdraw_below stopped_below invalidate_below below_trans by meson
  have "below st (to_failed env site m e ?s1)" for e
    using s1 failed_below below_trans by blast
  then show ?thesis
    using s1 fin below_call [of "f False", OF f]
    by (simp add: stop_body_def Let_def below_refl split: option.split)
qed

lemma reevaluate_one_below:
  assumes "\<And>m st. below st (fst (start m st))" "\<And>m st. below st (fst (stop m st))"
  shows "below st (fst (reevaluate_one env start stop site changed try d st))"
  using assms by (simp add: reevaluate_one_def Let_def below_refl blocked_below)

lemma operations_below:
  "below st (fst (start_module n env h site m st)) \<and> below st (fst (stop_module n env h site m st))
   \<and> below st (fst (reevaluate_dependents n env h site m b st))"
proof (induction n arbitrary: m b st)
  case 0
  then show ?case by (simp add: below_refl)
next
  case (Suc n)
  then show ?case
    by (simp add: start_body_below stop_body_below until_exception_below reevaluate_one_below)
qed

lemmas start_below = operations_below [THEN conjunct1]
lemmas stop_below = operations_below [THEN conjunct2, THEN conjunct1]
lemmas reevaluate_below = operations_below [THEN conjunct2, THEN conjunct2]

lemma sync_start_below: "below st (fst (sync_start n enum env h site desired st))"
  by (auto simp: sync_start_def below_refl start_below split: sum.split intro: until_exception_below)

lemma sync_below: "below st (fst (sync_site n enum env h site st))"
proof -
  have "below st (fst (until_exception (\<lambda>m s. if P m then stop_module n env h site m s else (s, None)) xs st))"
    for P xs
    by (rule until_exception_below) (simp add: stop_below below_refl)
  then show ?thesis
    using below_trans [OF _ sync_start_below]
    by (simp add: sync_site_def Let_def below_refl split: sum.split option.split)
qed

end

definition frame_rel :: "int \<Rightarrow> modules_state \<Rightarrow> modules_state \<Rightarrow> bool" where
  "frame_rel site st st1 \<longleftrightarrow> ms_overrides st1 = ms_overrides st
     \<and> (\<forall>s x. s \<noteq> site \<longrightarrow> runs st1 s x = runs st s x)"

definition source_rel :: "site_env \<Rightarrow> int \<Rightarrow> modules_state \<Rightarrow> modules_state \<Rightarrow> bool" where
  "source_rel env site st st1 \<longleftrightarrow> ms_overrides st1 = ms_overrides st
     \<and> (\<forall>x. runs st1 site x \<longrightarrow> runs st site x \<or> x \<in> set (site_enabled env st site))"

interpretation framed: orchestrated env site "frame_rel site" for env :: site_env and site :: int
  by unfold_locales (auto simp: frame_rel_def site_enabled_def)

interpretation sourced: orchestrated env site "source_rel env site" for env :: site_env and site :: int
  by unfold_locales (auto simp: source_rel_def site_enabled_def)

subsection \<open>An example site\<close>

text \<open>Heartbeat and its price engine, and a module that somebody left running.\<close>

definition example_env :: site_env where
  "example_env = \<lparr> se_module_gate_enabled = True, se_arctic_spa_enabled = False,
     se_energy_control_collector_enabled = False, se_chargefinder_enabled = False,
     se_redis_url_set = False,
     se_registry = map (\<lambda>d. (md_module_id d, d))
       [example_descriptor ''integration.heartbeat'' [] [PRICE_READ_CURRENT] [],
        example_descriptor ''feature.price-engine'' [''integration.heartbeat''] [] [PRICE_READ_CURRENT],
        example_descriptor ''feature.vehicles'' [] [] []],
     se_site = (\<lambda>i. if i = 1 then Some \<lparr> sr_slug = ''home'', sr_external_system = True,
       sr_optimization_mode = None, sr_economics_country = None \<rparr> else None),
     se_heartbeat_client = True, se_chargers = (\<lambda>i. []), se_vehicle_connection = (\<lambda>i. None),
     se_spa = (\<lambda>s. None), se_solar_config = (\<lambda>i. None), se_provider_health = (\<lambda>i. []),
     se_installed_packages = (\<lambda>m. None), se_device_name = (\<lambda>i. ''charger'') \<rparr>"

definition example_handlers :: module_handlers where
  "example_handlers = \<lparr> hd_start = lane_handler, hd_stop = lane_handler,
     hd_isolated_start = (\<lambda>calls site m. Inr False), hd_isolated_stop = (\<lambda>calls site m. None),
     hd_now = (\<lambda>calls. 0) \<rparr>"

definition example_modules_state :: modules_state where
  "example_modules_state = \<lparr> ms_caps = [],
     ms_runtime = mark_running [] 1 ''feature.vehicles'' 0, ms_overrides = [], ms_cache = [],
     ms_published = [], ms_dirty = [], ms_calls = [] \<rparr>"

subsection \<open>Modules that are not enabled are stopped\<close>

lemma source_of_running:
  "source_rel env site st st1 \<Longrightarrow> runs st1 site x \<Longrightarrow> x \<notin> set (site_enabled env st site) \<Longrightarrow> runs st site x"
  by (auto simp: source_rel_def)

lemma source_enabled:
  "source_rel env site st st1 \<Longrightarrow> site_enabled env st1 site = site_enabled env st site"
  by (simp add: source_rel_def site_enabled_def)

lemma resting_not_running:
  "get_state (ms_runtime st) site m = MR_STOPPED \<Longrightarrow> \<not> runs st site m"
  "get_state (ms_runtime st) site m = MR_STOPPING \<Longrightarrow> \<not> runs st site m"
  by (simp_all add: is_running_def)

lemma stop_module_stops:
  assumes "snd (stop_module n env h site m st) = None" "m \<notin> set (site_enabled env st site)"
  shows "\<not> runs (fst (stop_module n env h site m st)) site m"
proof (cases n)
  case 0
  then show ?thesis using assms(1) by simp
next
  case (Suc k)
  have "\<not> runs (fst (reevaluate_dependents k env h site m False s)) site m"
    if "\<not> runs s site m" "ms_overrides s = ms_overrides st" for s
    using source_of_running [OF sourced.reevaluate_below] assms(2) that
      site_enabled_cong [OF that(2)] by metis
  then show ?thesis
    using assms(1) resting_not_running [of st site m] unfolding Suc
    by (auto simp: stop_body_def Let_def split: if_splits option.splits)
qed

lemma until_exception_None:
  "snd (until_exception f (x # xs) st) = None \<longleftrightarrow>
     snd (f x st) = None \<and> snd (until_exception f xs (fst (f x st))) = None"
  "snd (f x st) = None \<Longrightarrow> until_exception f (x # xs) st = until_exception f xs (fst (f x st))"
  by (auto simp: Let_def split: option.split)

lemma stop_loop_stops:
  fixes f
  assumes f: "\<And>m s. f m s = (if m \<in> X then stop_module n env h site m s else (s, None))"
    and fin: "snd (until_exception f xs st) = None"
    and x: "x \<in> set xs \<or> \<not> runs st site x" "x \<in> X" "x \<notin> set (site_enabled env st site)"
  shows "\<not> runs (fst (until_exception f xs st)) site x"
  using fin x
proof (induction xs arbitrary: st)
  case Nil
  then show ?case by simp
next
  case (Cons y ys)
  have fy: "snd (f y st) = None" and rest: "snd (until_exception f ys (fst (f y st))) = None"
    using Cons.prems(1) by (simp_all only: until_exception_None)
  have src: "source_rel env site st (fst (f y st))"
    by (simp add: f sourced.stop_below sourced.below_refl)
  have "x \<in> set ys \<or> \<not> runs (fst (f y st)) site x"
  proof (cases "x = y")
    case True
    then show ?thesis using stop_module_stops fy Cons.prems(3,4) by (simp add: f)
  next
    case False
    then show ?thesis
      using Cons.prems(2,4) source_of_running [OF src] by auto
  qed
  then show ?case
    using Cons.IH [OF rest _ Cons.prems(3)] Cons.prems(4) source_enabled [OF src]
    by (simp add: until_exception_None(2) [where f = f, OF fy] del: until_exception.simps)
qed

lemma startup_order_set:
  assumes "\<forall>xs. set (enum xs) = set xs" "startup_order enum reg ids = Inr order"
  shows "set order = resolve_module_id ` set ids"
  by (cases rule: startup_order_cases [of enum reg ids]) (use assms in \<open>auto simp: dependency_keys_def\<close>)

lemma running_is_active: "runs st site m \<Longrightarrow> m \<in> set (active_modules_for_site (ms_runtime st) site)"
  by (auto simp: active_modules_for_site_def is_running_def get_state_def
      get_handle_def or_else_def fresh_handle_def image_iff split: option.splits dest!: map_of_SomeD)

lemma sync_stops:
  assumes enum: "\<forall>xs. set (enum xs) = set xs"
    and sync: "sync_site n enum env h site st = (st1, None)"
    and running: "runs st1 site m" and m: "resolve_module_id m = m"
  shows "m \<in> set (site_enabled env st site)"
proof (rule ccontr)
  let ?on = "site_enabled env st site"
  assume off: "m \<notin> set ?on"
  define ids where "ids = filter (\<lambda>m. m \<notin> set ?on) (active_modules_for_site (ms_runtime st) site)"
  define f where "f = (\<lambda>m s. if m \<in> set ids then stop_module n env h site m s else (s, None))"
  obtain order where order: "startup_order enum (se_registry env) (enum ids) = Inr order"
    and loop: "snd (until_exception f (rev order) st) = None"
    and st1: "sync_start n enum env h site ?on (fst (until_exception f (rev order) st)) = (st1, None)"
    using sync unfolding sync_site_def Let_def ids_def [symmetric] f_def [symmetric]
    by (auto split: sum.splits option.splits)
  let ?s = "fst (until_exception f (rev order) st)"
  have src: "source_rel env site st ?s"
    by (rule sourced.until_exception_below) (simp add: f_def sourced.stop_below sourced.below_refl)
  have src1: "source_rel env site ?s st1"
    using sourced.sync_start_below [of env site ?s n enum h ?on] by (simp add: st1)
  have m_s: "runs ?s site m"
    using source_of_running [OF src1 running] off source_enabled [OF src] by simp
  then have "m \<in> set ids"
    using source_of_running [OF src _ off] off running_is_active by (simp add: ids_def)
  moreover from this have "m \<in> set (rev order)"
    using startup_order_set [OF enum order] enum m by (metis image_eqI set_rev)
  ultimately show False
    using stop_loop_stops [of f "set ids" n env h site "rev order" st m] loop off m_s
    by (simp add: f_def)
qed

text \<open>Reconciling a site ends every module the site does not have enabled: when \<open>sync_site\<close> returns
  normally, each module still running at the site under its canonical id is enabled there, whatever
  the handlers and isolated runtimes did and however dependents were restarted in between.\<close>

theorem sync_stops_disabled:
  assumes "\<forall>xs. set (enum xs) = set xs"
    and "sync_site n enum env h site st = (st1, None)"
    and "is_running (ms_runtime st1) site m" "resolve_module_id m = m"
  shows "is_module_active env (ms_overrides st) site m"
  unfolding is_module_active_iff assms(4) site_enabled_def [symmetric]
  using assms by (rule sync_stops)

theorem sync_stops_disabled_witness:
  "\<not> is_running (ms_runtime (fst (sync_site 20 (\<lambda>xs. xs) example_env example_handlers 1 example_modules_state)))
       1 ''feature.vehicles''
   \<and> is_running (ms_runtime (fst (sync_site 20 (\<lambda>xs. xs) example_env example_handlers 1 example_modules_state)))
       1 ''feature.price-engine''"
proof -
  let ?r = "sync_site 20 (\<lambda>xs. xs) example_env example_handlers 1 example_modules_state"
  have "snd ?r = None" by code_simp
  then have r: "?r = (fst ?r, None)" by (metis prod.collapse)
  have off: "\<not> is_module_active example_env (ms_overrides example_modules_state) 1 ''feature.vehicles''"
    by code_simp
  have m: "resolve_module_id ''feature.vehicles'' = ''feature.vehicles''" by code_simp
  have "is_running (ms_runtime (fst ?r)) 1 ''feature.price-engine''" by code_simp
  then show ?thesis
    using sync_stops_disabled [OF _ r _ m] off by auto
qed

subsection \<open>Starting comes to rest\<close>

text \<open>
  At a settled site every running module has its dependencies and capabilities. While starts do
  not raise, a start only adds providers, so nothing has to be stopped and each nested start
  adds a running module: twice the number of modules bounds the recursion.
\<close>

definition startable :: "site_env \<Rightarrow> int \<Rightarrow> modules_state \<Rightarrow> string \<Rightarrow> bool" where
  "startable env site st m \<longleftrightarrow>
     can_start_ok (can_start (se_registry env) m site (site_enabled env st site) (ms_caps st))"

definition settled :: "site_env \<Rightarrow> int \<Rightarrow> modules_state \<Rightarrow> bool" where
  "settled env site st \<longleftrightarrow> (\<forall>m. is_running (ms_runtime st) site m \<longrightarrow> startable env site st m)"

text \<open>
  No start of a registered module raises: the handler of one that runs in the process, the adapter
  of one that runs isolated. The built-in modules run in the process, and the handlers the code
  registers for them only log.
\<close>

definition starts_return :: "site_env \<Rightarrow> module_handlers \<Rightarrow> int \<Rightarrow> bool" where
  "starts_return env h site \<longleftrightarrow> (\<forall>m d. map_of (se_registry env) m = Some d \<longrightarrow>
     (\<forall>calls. if requires_isolated_runtime d then \<not> isl (hd_isolated_start h calls site m)
              else hd_start h calls site m = None))"

lemma built_ins_return:
  "hd_start h = lane_handler \<Longrightarrow> \<forall>d \<in> snd ` set (se_registry env). md_package_source d = BUILT_IN
    \<Longrightarrow> starts_return env h site"
  by (auto simp: starts_return_def lane_handler_def requires_isolated_runtime_def dest!: map_of_SomeD)

definition idle :: "site_env \<Rightarrow> int \<Rightarrow> modules_state \<Rightarrow> nat" where
  "idle env site st = card {m \<in> fst ` set (se_registry env). \<not> runs st site m}"

definition grown :: "site_env \<Rightarrow> int \<Rightarrow> modules_state \<Rightarrow> modules_state \<Rightarrow> bool" where
  "grown env site st st1 \<longleftrightarrow> settled env site st1 \<and> ms_overrides st1 = ms_overrides st
     \<and> (\<forall>m. runs st site m \<longrightarrow> runs st1 site m)"

lemma can_start_mono:
  "caps_below caps caps1 \<Longrightarrow> can_start_ok (can_start reg m site ids caps) \<Longrightarrow> can_start_ok (can_start reg m site ids caps1)"
  using caps_below_has by (auto simp: can_start_def Let_def filter_empty_conv split: option.splits)

lemma startable_mono:
  "startable env site st m \<Longrightarrow> ms_overrides st1 = ms_overrides st \<Longrightarrow> caps_below (ms_caps st) (ms_caps st1)
     \<Longrightarrow> startable env site st1 m"
  unfolding startable_def using can_start_mono site_enabled_cong by metis

lemma settled_step:
  assumes "settled env site st" "ms_overrides st1 = ms_overrides st" "caps_below (ms_caps st) (ms_caps st1)"
    and "\<And>x. runs st1 site x \<Longrightarrow> runs st site x \<or> startable env site st x"
  shows "settled env site st1"
  using assms startable_mono [OF _ assms(2,3)] unfolding settled_def by blast

lemma grown_refl: "settled env site st \<Longrightarrow> grown env site st st"
  by (simp add: grown_def)

lemma grown_trans: "grown env site st st1 \<Longrightarrow> grown env site st1 st2 \<Longrightarrow> grown env site st st2"
  by (simp add: grown_def)

lemma idle_grown: "grown env site st st1 \<Longrightarrow> idle env site st1 \<le> idle env site st"
  unfolding idle_def grown_def by (rule card_mono) auto

lemma idle_less:
  "m \<in> fst ` set (se_registry env) \<Longrightarrow> \<not> runs st site m \<Longrightarrow> runs st1 site m
    \<Longrightarrow> (\<And>x. runs st site x \<Longrightarrow> runs st1 site x) \<Longrightarrow> idle env site st1 < idle env site st"
  unfolding idle_def by (rule psubset_card_mono) auto

lemma idle_bound: "idle env site st \<le> length (se_registry env)"
proof -
  have "idle env site st \<le> card (fst ` set (se_registry env))"
    unfolding idle_def by (rule card_mono) auto
  also have "\<dots> \<le> length (se_registry env)"
    using card_image_le card_length le_trans by blast
  finally show ?thesis .
qed

definition rests :: "site_env \<Rightarrow> int \<Rightarrow> modules_state \<Rightarrow> outcome \<Rightarrow> outcome \<Rightarrow> bool" where
  "rests env site st r r1 \<longleftrightarrow> r = r1 \<and> snd r = None \<and> grown env site st (fst r)"

lemma rests_from: "grown env site st s \<Longrightarrow> rests env site s r r1 \<Longrightarrow> rests env site st r r1"
  unfolding rests_def using grown_trans by blast

lemma rests_pair: "grown env site st s \<Longrightarrow> rests env site st (s, None) (s, None)"
  by (simp add: rests_def)

lemma until_exception_rests:
  assumes "\<And>x s. x \<in> set xs \<Longrightarrow> settled env site s \<Longrightarrow> idle env site s \<le> k \<Longrightarrow> rests env site s (f x s) (g x s)"
    and "settled env site st" "idle env site st \<le> k"
  shows "rests env site st (until_exception f xs st) (until_exception g xs st)"
  using assms
proof (induction xs arbitrary: st)
  case Nil
  then show ?case by (simp add: rests_def grown_refl)
next
  case (Cons x xs)
  have x: "f x st = g x st" "snd (f x st) = None" "grown env site st (fst (f x st))"
    using Cons.prems(1) [of x st] Cons.prems(2,3) by (auto simp: rests_def)
  have "rests env site (fst (f x st)) (until_exception f xs (fst (f x st))) (until_exception g xs (fst (f x st)))"
    using x(3) idle_grown [OF x(3)] Cons.prems(3) by (intro Cons.IH Cons.prems(1)) (auto simp: grown_def)
  then show ?case
    using x grown_trans [OF x(3)] by (auto simp: rests_def)
qed

lemma settled_frame:
  assumes "settled env site st" "ms_overrides st1 = ms_overrides st" "ms_caps st1 = ms_caps st"
    and "\<And>x. runs st1 site x \<longleftrightarrow> runs st site x"
  shows "grown env site st st1"
  unfolding grown_def using settled_step [OF assms(1,2)] assms by simp

lemma to_running_grown:
  assumes "settled env site st" "startable env site st m" "\<not> runs st site m"
    and "m \<in> fst ` set (se_registry env)"
    and st1: "st1 = to_running env now site m (called c (to_starting env site m st))"
  shows "grown env site st st1 \<and> idle env site st1 < idle env site st"
proof
  have "caps_below (ms_caps st) (ms_caps st1)"
    by (simp add: st1 register_capabilities_for_module_def caps_below_register_site)
  then show g: "grown env site st st1"
    using assms(1,2) settled_step [of env site st st1] by (auto simp: grown_def st1)
  then show "idle env site st1 < idle env site st"
    by (intro idle_less [OF assms(4,3)]) (auto simp: st1 grown_def)
qed

lemma start_body_rests:
  assumes returns: "starts_return env h site" and st: "settled env site st" "startable env site st m"
    and f: "\<And>s. settled env site s \<Longrightarrow> idle env site s < idle env site st
      \<Longrightarrow> rests env site s (f True s) (g True s)"
  shows "rests env site st (start_body env h f site m st) (start_body env h g site m st)"
proof (cases "\<not> se_module_gate_enabled env \<or> map_of (se_registry env) m = None
    \<or> get_state (ms_runtime st) site m \<in> {MR_RUNNING, MR_STARTING}")
  case True
  then show ?thesis
    using st(1) by (auto simp: start_body_def rests_def grown_refl split: option.split)
next
  case False
  then obtain d where gate: "se_module_gate_enabled env" and d: "map_of (se_registry env) m = Some d"
    and state: "get_state (ms_runtime st) site m \<notin> {MR_RUNNING, MR_STARTING}"
    by (cases "map_of (se_registry env) m") auto
  have idle: "\<not> runs st site m" using state by (simp add: is_running_def)
  have m: "m \<in> fst ` set (se_registry env)" using d by (metis fst_conv image_eqI map_of_SomeD)
  show ?thesis
  proof (cases "m \<in> set (site_enabled env st site)")
    case False
    have "grown env site st (to_stopped env site m st)"
      by (rule settled_frame [OF st(1)]) (use idle in \<open>auto simp: to_stopped_def is_running_def\<close>)
    then show ?thesis
      using gate d state False by (simp add: start_body_def rests_def)
  next
    case True
    let ?s = "to_starting env site m st"
    let ?run = "to_running env (hd_now h (ms_calls ?s)) site m (called (Start_Called site m) ?s)"
    have run: "grown env site st ?run" "idle env site ?run < idle env site st"
      using to_running_grown [OF st idle m refl] by blast+
    have blocked: "grown env site st (to_blocked env site m r (called (Start_Called site m) ?s))" for r
      using idle by (intro settled_frame [OF st(1)]) auto
    have f_run: "rests env site ?run (f True ?run) (g True ?run)"
      using run f by (simp add: grown_def)
    have "rests env site st (start_in_process env h f site m ?s) (start_in_process env h g site m ?s)"
      if "\<not> requires_isolated_runtime d"
    proof -
      have "hd_start h (ms_calls ?s) site m = None"
        using returns d that by (simp add: starts_return_def)
      then show ?thesis
        using f_run grown_trans [OF run(1)] by (auto simp: start_in_process_def rests_def Let_def)
    qed
    moreover have "rests env site st (start_isolated env h site m ?s) (start_isolated env h site m ?s)"
      if "requires_isolated_runtime d"
    proof -
      have "\<not> isl (hd_isolated_start h (ms_calls ?s) site m)"
        using returns d that by (simp add: starts_return_def)
      then show ?thesis
        using run(1) blocked
        by (cases "hd_isolated_start h (ms_calls ?s) site m") (simp_all add: start_isolated_def rests_def Let_def)
    qed
    ultimately show ?thesis
      using gate d state True st(2) by (simp add: start_body_def startable_def Let_def)
  qed
qed

lemma reevaluate_one_rests:
  assumes st: "settled env site st" "idle env site st \<le> k"
    and starts: "\<And>s m. settled env site s \<Longrightarrow> startable env site s m \<Longrightarrow> idle env site s \<le> k
      \<Longrightarrow> rests env site s (start m s) (start1 m s)"
  shows "rests env site st (reevaluate_one env start stop site changed try d st)
     (reevaluate_one env start1 stop1 site changed try d st)"
proof (cases "startable env site st (md_module_id d)")
  case True
  then show ?thesis
    using st starts [OF st(1) True st(2)]
    by (auto simp: reevaluate_one_def startable_def rests_def grown_refl Let_def)
next
  case False
  then have idle: "\<not> runs st site (md_module_id d)" using st(1) by (auto simp: settled_def)
  then have "grown env site st (to_blocked env site (md_module_id d) r st)" for r
    by (intro settled_frame [OF st(1)]) auto
  then show ?thesis
    using st(1) False idle
    by (simp add: reevaluate_one_def startable_def rests_def grown_refl is_running_def Let_def)
qed

lemma reevaluating_rests:
  assumes starts: "\<And>st m n n1. settled env site st \<Longrightarrow> startable env site st m \<Longrightarrow> idle env site st \<le> k
      \<Longrightarrow> 2 * k < n \<Longrightarrow> 2 * k < n1 \<Longrightarrow> rests env site st (start_module n env h site m st) (start_module n1 env h site m st)"
    and st: "settled env site st" "idle env site st \<le> k" "2 * k + 1 < n" "2 * k + 1 < n1"
  shows "rests env site st (reevaluate_dependents n env h site m b st) (reevaluate_dependents n1 env h site m b st)"
proof -
  obtain j j1 where j: "n = Suc j" "n1 = Suc j1" "2 * k < j" "2 * k < j1"
    using st(3,4) by (cases n; cases n1) auto
  show ?thesis
    unfolding j(1,2) reevaluate_dependents.simps
    by (rule until_exception_rests [OF reevaluate_one_rests st(1,2)])
      (assumption | rule starts j)+
qed

lemma starting_rests:
  assumes returns: "starts_return env h site"
    and st: "settled env site st" "startable env site st m" "idle env site st \<le> k" "2 * k < n" "2 * k < n1"
  shows "rests env site st (start_module n env h site m st) (start_module n1 env h site m st)"
  using st
proof (induction k arbitrary: st m n n1 rule: less_induct)
  case (less k)
  obtain j j1 where j: "n = Suc j" "n1 = Suc j1"
    using less.prems(4,5) by (cases n; cases n1) auto
  show ?case
    unfolding j start_module.simps
  proof (rule start_body_rests [OF returns less.prems(1,2)])
    fix s assume s: "settled env site s" "idle env site s < idle env site st"
    have less_k: "idle env site s < k" using s(2) less.prems(3) by simp
    then have "2 * idle env site s + 1 < j" "2 * idle env site s + 1 < j1"
      using less.prems(4,5) j by auto
    then show "rests env site s (reevaluate_dependents j env h site m True s)
        (reevaluate_dependents j1 env h site m True s)"
      by (intro reevaluating_rests [OF less.IH [OF less_k] s(1) order_refl])
  qed
qed

text \<open>The first call may also find its module blocked.\<close>

lemma withdraw_absent:
  assumes "distinct (map fst caps)" "\<forall>c. \<forall>p \<in> set (providers_for caps site c). cp_module_id p \<noteq> m"
  shows "caps_below caps (unregister_module caps site m)"
  using assms by (auto simp: caps_below_def providers_for_unregister without_module_def)

lemma start_module_rests:
  assumes returns: "starts_return env h site" and st: "settled env site st"
    and caps: "distinct (map fst (ms_caps st))"
    and own: "\<forall>c. \<forall>p \<in> set (providers_for (ms_caps st) site c). cp_module_id p = m \<longrightarrow> is_running (ms_runtime st) site m"
    and n: "2 * length (se_registry env) + 2 < n" "2 * length (se_registry env) + 2 < n1"
  shows "rests env site st (start_module n env h site m st) (start_module n1 env h site m st)"
proof (cases "startable env site st m")
  case True
  then show ?thesis
    using starting_rests [OF returns st True idle_bound, of n n1] n by simp
next
  case False
  obtain j j1 where j: "n = Suc j" "n1 = Suc j1" using n by (cases n; cases n1) auto
  have idle: "\<not> runs st site m" using False st by (auto simp: settled_def)
  have blocked: "grown env site st (withdraw site m (to_blocked env site m r st))" for r
  proof -
    have "caps_below (ms_caps st) (unregister_module (ms_caps st) site m)"
      using own idle by (intro withdraw_absent [OF caps]) blast
    then have "settled env site (withdraw site m (to_blocked env site m r st))"
      by (intro settled_step [OF st]) simp_all
    then show ?thesis using idle by (auto simp: grown_def)
  qed
  have stopped: "grown env site st (to_stopped env site m st)"
    by (rule settled_frame [OF st]) (use idle in \<open>auto simp: to_stopped_def is_running_def\<close>)
  have "rests env site s (reevaluate_dependents j env h site m b s) (reevaluate_dependents j1 env h site m b s)"
    if "settled env site s" for s b
    using n j by (intro reevaluating_rests [OF starting_rests [OF returns] that idle_bound]) auto
  then have "rests env site st (reevaluate_dependents j env h site m b s) (reevaluate_dependents j1 env h site m b s)"
    if "grown env site st s" for s b
    using that by (intro rests_from [OF that]) (simp add: grown_def)
  then show ?thesis
    unfolding j using False blocked stopped grown_refl [OF st]
    by (simp add: start_body_def startable_def Let_def rests_pair split: option.split)
qed

text \<open>C10. Starting a module comes to rest: at a site where every running module has what it needs,
  and where the capability registry lists no provider of the module before it runs, \<open>start_module\<close>
  returns without an exception, with the same result for every recursion depth beyond twice the
  number of registered modules, as long as no in-process handler and no isolated start of a
  registered module raises, which is so when all modules are built in; an exception of the isolated
  adapter would leave \<open>start_module\<close>.
  No running module is stopped on the way, and afterwards again every running module has its
  dependencies enabled and its required capabilities provided.\<close>

theorem starting_settles:
  assumes "starts_return env h site" "settled env site st" "distinct (map fst (ms_caps st))"
    and "\<forall>c. \<forall>p \<in> set (providers_for (ms_caps st) site c). cp_module_id p = m \<longrightarrow> is_running (ms_runtime st) site m"
    and "2 * length (se_registry env) + 2 < n" "2 * length (se_registry env) + 2 < n1"
  shows "start_module n env h site m st = start_module n1 env h site m st
    \<and> snd (start_module n env h site m st) = None
    \<and> settled env site (fst (start_module n env h site m st))
    \<and> (\<forall>x. is_running (ms_runtime st) site x \<longrightarrow> is_running (ms_runtime (fst (start_module n env h site m st))) site x)"
  using start_module_rests [OF assms] unfolding rests_def grown_def by blast

lemma example_settled: "settled example_env 1 example_modules_state"
proof -
  have "startable example_env 1 example_modules_state ''feature.vehicles''" by code_simp
  then show ?thesis
    by (auto simp: settled_def example_modules_state_def is_running_def get_state_def get_handle_def
        fresh_handle_def mark_running_def put_handle_def or_else_def split: if_splits)
qed

lemma example_starts_return: "starts_return example_env example_handlers 1"
  by (rule built_ins_return) (auto simp: example_handlers_def example_env_def example_descriptor_def)

theorem starting_settles_witness:
  "snd (start_module 9 example_env example_handlers 1 ''integration.heartbeat'' example_modules_state) = None
   \<and> settled example_env 1
       (fst (start_module 9 example_env example_handlers 1 ''integration.heartbeat'' example_modules_state))"
  using starting_settles [OF example_starts_return example_settled, of "''integration.heartbeat''" 9 9]
  by (simp add: example_modules_state_def providers_for_def example_env_def)

subsection \<open>The override decides\<close>

lemma list_site_modules_overrides [simp]:
  "ms_overrides (snd (list_site_modules env distributed now c site st)) = ms_overrides st"
  by (simp add: list_site_modules_def refresh_site_modules_def Let_def split: option.split)

lemma site_can_disable_overrides [simp]:
  "ms_overrides (snd (site_can_disable env site m st)) = ms_overrides st"
  by (simp add: site_can_disable_def assume_enabled_running_def Let_def)

lemma persist_overrides:
  assumes "persist_enabled_override env distributed now site m enabled st = (Inr v, st1)"
  shows "ms_overrides st1 = AList.update (site, resolve_module_id m) (Some enabled) (ms_overrides st)"
proof -
  have "ms_overrides st1 = ms_overrides (snd (persist_enabled_override env distributed now site m enabled st))"
    using assms by simp
  then show ?thesis
    using assms site_can_disable_overrides [of env site "resolve_module_id m" st]
    by (cases "site_can_disable env site (resolve_module_id m) st")
      (auto simp: persist_enabled_override_def Let_def invalidate_site_module_cache_def split: option.splits if_splits)
qed

text \<open>An override decides: once \<open>persist_enabled_override\<close> has stored it, the module is active at the
  site exactly as asked, whatever the site's configuration projects, and the activation of
  every other module and site is as before.\<close>

theorem override_decides:
  assumes "distinct (map fst (ms_overrides st))"
    and "persist_enabled_override env distributed now site m enabled st = (Inr v, st1)"
  shows "is_module_active env (ms_overrides st1) s x \<longleftrightarrow>
    (if s = site \<and> resolve_module_id x = resolve_module_id m then enabled
     else is_module_active env (ms_overrides st) s x)"
  unfolding is_module_active_iff enabled_ids_iff map_of_resolve_enabled persist_overrides [OF assms(2)]
  by (simp add: load_overrides_update [OF assms(1)] split: option.split)

theorem override_decides_witness:
  "\<not> is_module_active example_env (ms_overrides (snd (persist_enabled_override example_env [] 0 1
      ''feature.price-engine'' False example_modules_state))) 1 ''price_engine''"
proof -
  let ?r = "persist_enabled_override example_env [] 0 1 ''feature.price-engine'' False example_modules_state"
  have "isl (fst ?r) = False" by code_simp
  then obtain v where "fst ?r = Inr v" by (cases "fst ?r") auto
  then have r: "?r = (Inr v, snd ?r)" by (metis prod.collapse)
  have d: "distinct (map fst (ms_overrides example_modules_state))" by (simp add: example_modules_state_def)
  have x: "resolve_module_id ''price_engine'' = resolve_module_id ''feature.price-engine''" by code_simp
  show ?thesis using override_decides [OF d r, of 1 "''price_engine''"] x by simp
qed

end
