(* ===== verification/Flexible_Load.thy ===== *)
theory Flexible_Load
  imports Charging_Schedule
begin

section \<open>Flexible loads: data, urgency, cost and score of a block\<close>

text \<open>
  \<open>flexible_load/types.py\<close>, \<open>deadline.py\<close>, \<open>pricing.py\<close>, \<open>scoring.py\<close>,
  \<open>battery_projection.py\<close>, \<open>horizon.py\<close> and \<open>house_load.py\<close>. Powers, prices and scores are
  exact rationals, instants and durations microseconds. The rate of \<open>Settings.eur_to_sek_rate\<close>
  is a parameter of what uses it; so are the local weekday and hour of an instant, which the
  code takes from \<open>ZoneInfo\<close>.
\<close>

subsection \<open>Python's \<open>max\<close>, \<open>min\<close> and the running best\<close>

text \<open>\<open>max(xs, key=f)\<close> returns the first of the maximal elements, \<open>min(xs, key=f)\<close> the first of
  the minimal ones; the code also keeps a best value by hand, replaced when a strictly better
  one comes. The three share a contract.\<close>

fun first_max_from :: "('a \<Rightarrow> 'k::linorder) \<Rightarrow> 'a \<Rightarrow> 'a list \<Rightarrow> 'a" where
  "first_max_from f b [] = b"
| "first_max_from f b (x # xs) = first_max_from f (if f b < f x then x else b) xs"

fun first_max :: "('a \<Rightarrow> 'k::linorder) \<Rightarrow> 'a list \<Rightarrow> 'a option" where
  "first_max f [] = None"
| "first_max f (x # xs) = Some (first_max_from f x xs)"

fun first_min_from :: "('a \<Rightarrow> 'k::linorder) \<Rightarrow> 'a \<Rightarrow> 'a list \<Rightarrow> 'a" where
  "first_min_from f b [] = b"
| "first_min_from f b (x # xs) = first_min_from f (if f x < f b then x else b) xs"

fun first_min :: "('a \<Rightarrow> 'k::linorder) \<Rightarrow> 'a list \<Rightarrow> 'a option" where
  "first_min f [] = None"
| "first_min f (x # xs) = Some (first_min_from f x xs)"

definition keep_better :: "('a \<Rightarrow> 'k::linorder) \<Rightarrow> 'a option \<Rightarrow> 'a \<Rightarrow> 'a option" where
  "keep_better f b x = (case b of None \<Rightarrow> Some x | Some y \<Rightarrow> if f y < f x then Some x else Some y)"

definition running_best :: "('a \<Rightarrow> 'k::linorder) \<Rightarrow> 'a list \<Rightarrow> 'a option" where
  "running_best f xs = foldl (keep_better f) None xs"

locale best_choice =
  fixes pick :: "'a list \<Rightarrow> 'a option"
    and better :: "'a \<Rightarrow> 'a \<Rightarrow> bool"
  assumes pick_none: "pick xs = None \<longleftrightarrow> xs = []"
    and pick_in: "pick xs = Some x \<Longrightarrow> x \<in> set xs"
    and pick_best: "pick xs = Some x \<Longrightarrow> y \<in> set xs \<Longrightarrow> \<not> better y x"
begin

lemma pick_some: "xs \<noteq> [] \<Longrightarrow> \<exists>x. pick xs = Some x \<and> x \<in> set xs \<and> (\<forall>y \<in> set xs. \<not> better y x)"
  using pick_none pick_in pick_best by (metis option.exhaust)

lemma pick_filtered: "pick (filter P xs) = Some x \<Longrightarrow> P x \<and> x \<in> set xs"
  using pick_in by fastforce

end

lemma first_max_from_in: "first_max_from f b xs \<in> insert b (set xs)"
  by (induction xs arbitrary: b) (auto split: if_splits)

lemma first_max_from_ge: "f b \<le> f (first_max_from f b xs)"
proof (induction xs arbitrary: b)
  case (Cons x xs)
  show ?case
  proof (cases "f b < f x")
    case True then show ?thesis using Cons [of x] by simp
  next
    case False then show ?thesis using Cons [of b] by simp
  qed
qed simp

lemma first_max_from_max: "y \<in> set xs \<Longrightarrow> f y \<le> f (first_max_from f b xs)"
proof (induction xs arbitrary: b)
  case (Cons x xs)
  show ?case
  proof (cases "y = x")
    case True
    have "f x \<le> f (if f b < f x then x else b)" by (simp add: not_less)
    also have "\<dots> \<le> f (first_max_from f (if f b < f x then x else b) xs)" by (rule first_max_from_ge)
    finally show ?thesis using True by simp
  next
    case False
    then show ?thesis using Cons by simp
  qed
qed simp

lemma first_min_from_in: "first_min_from f b xs \<in> insert b (set xs)"
  by (induction xs arbitrary: b) (auto split: if_splits)

lemma first_min_from_le: "f (first_min_from f b xs) \<le> f b"
proof (induction xs arbitrary: b)
  case (Cons x xs)
  show ?case
  proof (cases "f x < f b")
    case True then show ?thesis using Cons [of x] by simp
  next
    case False then show ?thesis using Cons [of b] by simp
  qed
qed simp

lemma first_min_from_min: "y \<in> set xs \<Longrightarrow> f (first_min_from f b xs) \<le> f y"
proof (induction xs arbitrary: b)
  case (Cons x xs)
  show ?case
  proof (cases "y = x")
    case True
    have "f (first_min_from f (if f x < f b then x else b) xs) \<le> f (if f x < f b then x else b)"
      by (rule first_min_from_le)
    also have "\<dots> \<le> f x" by (simp add: not_less)
    finally show ?thesis using True by simp
  next
    case False
    then show ?thesis using Cons by simp
  qed
qed simp

lemma first_max_laws:
  "first_max f xs = None \<longleftrightarrow> xs = []"
  "first_max f xs = Some x \<Longrightarrow> x \<in> set xs"
  "first_max f xs = Some x \<Longrightarrow> y \<in> set xs \<Longrightarrow> \<not> f x < f y"
proof -
  show "first_max f xs = None \<longleftrightarrow> xs = []" by (cases xs) simp_all
  show "first_max f xs = Some x \<Longrightarrow> x \<in> set xs"
    using first_max_from_in [of f] by (cases xs) fastforce+
  show "first_max f xs = Some x \<Longrightarrow> y \<in> set xs \<Longrightarrow> \<not> f x < f y"
    using first_max_from_ge [of f] first_max_from_max [of _ _ f]
    by (cases xs) (simp, metis first_max.simps(2) not_less option.inject set_ConsD)
qed

lemma first_min_laws:
  "first_min f xs = None \<longleftrightarrow> xs = []"
  "first_min f xs = Some x \<Longrightarrow> x \<in> set xs"
  "first_min f xs = Some x \<Longrightarrow> y \<in> set xs \<Longrightarrow> \<not> f y < f x"
proof -
  show "first_min f xs = None \<longleftrightarrow> xs = []" by (cases xs) simp_all
  show "first_min f xs = Some x \<Longrightarrow> x \<in> set xs"
    using first_min_from_in [of f] by (cases xs) fastforce+
  show "first_min f xs = Some x \<Longrightarrow> y \<in> set xs \<Longrightarrow> \<not> f y < f x"
    using first_min_from_le [of f] first_min_from_min [of _ _ f]
    by (cases xs) (simp, metis first_min.simps(2) not_less option.inject set_ConsD)
qed

interpretation maxi: best_choice "first_max f" "\<lambda>y x. f x < f y" for f :: "'a \<Rightarrow> 'k::linorder"
  by unfold_locales (fact first_max_laws)+

interpretation mini: best_choice "first_min f" "\<lambda>y x. f y < f x" for f :: "'a \<Rightarrow> 'k::linorder"
  by unfold_locales (fact first_min_laws)+

lemma running_best_from: "foldl (keep_better f) (Some b) xs = Some (first_max_from f b xs)"
  by (induction xs arbitrary: b) (simp_all add: keep_better_def)

lemma running_best_is_first_max: "running_best f xs = first_max f xs"
  by (cases xs) (simp_all add: running_best_def running_best_from keep_better_def)

interpretation running: best_choice "running_best f" "\<lambda>y x. f x < f y" for f :: "'a \<Rightarrow> 'k::linorder"
  unfolding running_best_is_first_max by (rule maxi.best_choice_axioms)

subsection \<open>Data\<close>

datatype load_strategy = SMART | SOLAR_ONLY | CHEAPEST | FIXED_SCHEDULE
datatype energy_source = SOLAR | BATTERY | GRID | MIXED

record flexible_load =
  fl_load_id :: string
  fl_name :: string
  fl_nominal_power_w :: rat
  fl_minimum_runtime :: int
  fl_maximum_runtime :: int
  fl_earliest_start :: time
  fl_latest_finish :: time
  fl_deadline :: time
  fl_priority :: int
  fl_interruptible :: bool
  fl_safety_critical :: bool
  fl_fixed_start :: "time option"
  fl_fixed_end :: "time option"
  fl_daily_runtime_target :: "int option"
  fl_max_starts_per_day :: "int option"
  fl_minimum_pause :: "int option"
  fl_fixed_cycles_per_day :: "int option"
  fl_fixed_cycle_duration :: "int option"
  fl_minimum_cycle_separation :: "int option"

record horizon_block =
  hb_timestamp :: time
  hb_solar_forecast_w :: rat
  hb_house_load_forecast_w :: rat
  hb_higher_priority_loads_w :: rat
  hb_available_surplus_w :: rat
  hb_battery_soc_pct :: "rat option"
  hb_spot_price_eur_kwh :: "rat option"
  hb_all_in_price_eur_kwh :: "rat option"
  hb_export_value_sek_kwh :: rat
  hb_price_estimated :: bool
  hb_forecast_confidence :: rat

record scored_block =
  sb_block :: horizon_block
  sb_score :: rat
  sb_solar_surplus_score :: rat
  sb_low_price_score :: rat
  sb_battery_availability_score :: rat
  sb_deadline_score :: rat
  sb_grid_import_penalty :: rat
  sb_battery_depletion_penalty :: rat
  sb_export_opportunity_penalty :: rat
  sb_expected_energy_source :: energy_source
  sb_marginal_cost_sek_kwh :: rat
  sb_load_feasible :: bool

record plan_window =
  pw_start :: time
  pw_end :: time
  pw_duration :: int
  pw_expected_energy_kwh :: rat
  pw_expected_cost_sek :: rat
  pw_expected_energy_source :: energy_source
  pw_average_score :: rat
  pw_blocks :: "scored_block list"

record load_plan =
  lp_load_id :: string
  lp_strategy :: load_strategy
  lp_windows :: "plan_window list"
  lp_reason :: string
  lp_reason_sv :: string
  lp_fallback_from_solar_only :: bool
  lp_fixed_schedule_analysis :: bool
  lp_alternative_windows :: "plan_window list"
  lp_scored_blocks :: "scored_block list"
  lp_baseline_cost_sek :: "rat option"
  lp_planned_cost_sek :: "rat option"
  lp_savings_sek :: "rat option"

definition block_us :: int where
  "block_us = 900 * us_per_s"

subsection \<open>Urgency of the deadline\<close>

record deadline_urgency =
  du_hours_remaining :: rat
  du_tier :: string
  du_cost_ceiling_sek_kwh :: "rat option"
  du_min_score :: rat
  du_run_regardless :: bool

definition compute_deadline_urgency :: "time \<Rightarrow> time \<Rightarrow> deadline_urgency" where
  "compute_deadline_urgency now deadline =
     (let hours = max 0 (elapsed_s deadline now / 3600) in
      if hours < 2 then \<lparr> du_hours_remaining = hours, du_tier = ''critical'',
        du_cost_ceiling_sek_kwh = None, du_min_score = - 999, du_run_regardless = True \<rparr>
      else if hours < 6 then \<lparr> du_hours_remaining = hours, du_tier = ''urgent'',
        du_cost_ceiling_sek_kwh = Some 8, du_min_score = - 50, du_run_regardless = False \<rparr>
      else if hours < 12 then \<lparr> du_hours_remaining = hours, du_tier = ''moderate'',
        du_cost_ceiling_sek_kwh = Some 5, du_min_score = 0, du_run_regardless = False \<rparr>
      else \<lparr> du_hours_remaining = hours, du_tier = ''relaxed'',
        du_cost_ceiling_sek_kwh = Some 3, du_min_score = 20, du_run_regardless = False \<rparr>)"

subsection \<open>Cost of the load in a block\<close>

record block_load_cost =
  bc_primary_source :: energy_source
  bc_marginal_cost_sek_kwh :: rat
  bc_solar_share :: rat
  bc_battery_share :: rat
  bc_grid_share :: rat

definition load_eur_to_sek :: "rat \<Rightarrow> rat \<Rightarrow> rat" where
  "load_eur_to_sek rate value_eur = value_eur * rate"

text \<open>\<open>all_in or spot\<close>: an all-in price of zero yields the spot price.\<close>

definition price_eur_kwh :: "horizon_block \<Rightarrow> rat option" where
  "price_eur_kwh block = (case hb_all_in_price_eur_kwh block of
     Some p \<Rightarrow> if p = 0 then hb_spot_price_eur_kwh block else Some p
   | None \<Rightarrow> hb_spot_price_eur_kwh block)"

definition battery_part_kw :: "horizon_block \<Rightarrow> rat \<Rightarrow> bool \<Rightarrow> rat \<Rightarrow> rat" where
  "battery_part_kw block remaining_kw allow_battery min_soc =
     (if remaining_kw > 0 \<and> allow_battery
      then (case hb_battery_soc_pct block of
              None \<Rightarrow> 0
            | Some soc \<Rightarrow> if soc \<ge> min_soc then min remaining_kw 2 else 0)
      else 0)"

definition block_source :: "rat \<Rightarrow> rat \<Rightarrow> rat \<Rightarrow> energy_source" where
  "block_source solar_share battery_share grid_share =
     (if solar_share \<ge> 8/10 then SOLAR
      else if battery_share \<ge> 1/2 then BATTERY
      else if grid_share \<ge> 8/10 then GRID
      else MIXED)"

definition compute_block_load_cost ::
  "rat \<Rightarrow> horizon_block \<Rightarrow> rat \<Rightarrow> bool \<Rightarrow> rat \<Rightarrow> rat \<Rightarrow> rat \<Rightarrow> block_load_cost" where
  "compute_block_load_cost rate block load_power_w allow_battery min_soc fallback_price battery_basis =
     (let load_kw = load_power_w / 1000;
          surplus_kw = max 0 (hb_available_surplus_w block / 1000);
          solar_kw = min load_kw surplus_kw;
          battery_kw = battery_part_kw block (load_kw - solar_kw) allow_battery min_soc;
          grid_kw = max 0 (load_kw - solar_kw - battery_kw);
          total_kw = max load_kw (1/1000);
          solar_share = solar_kw / total_kw;
          battery_share = battery_kw / total_kw;
          grid_share = grid_kw / total_kw;
          grid_cost = (case price_eur_kwh block of
              Some p \<Rightarrow> load_eur_to_sek rate p | None \<Rightarrow> fallback_price);
          solar_cost = max 0 (hb_export_value_sek_kwh block * (1/2))
      in \<lparr> bc_primary_source = block_source solar_share battery_share grid_share,
           bc_marginal_cost_sek_kwh =
             solar_share * solar_cost + battery_share * battery_basis + grid_share * grid_cost,
           bc_solar_share = solar_share, bc_battery_share = battery_share,
           bc_grid_share = grid_share \<rparr>)"

definition default_battery_cost_basis :: rat where
  "default_battery_cost_basis = 3/2"

subsection \<open>Score of a block\<close>

record scoring_weights =
  w_solar_surplus :: rat
  w_low_price :: rat
  w_battery_availability :: rat
  w_deadline :: rat
  w_grid_import :: rat
  w_battery_depletion :: rat
  w_export_opportunity :: rat

definition DEFAULT_WEIGHTS :: scoring_weights where
  "DEFAULT_WEIGHTS = \<lparr> w_solar_surplus = 3, w_low_price = 2, w_battery_availability = 1,
     w_deadline = 5/2, w_grid_import = 2, w_battery_depletion = 3/2, w_export_opportunity = 1 \<rparr>"

definition solar_surplus_score :: "scoring_weights \<Rightarrow> rat \<Rightarrow> rat \<Rightarrow> rat" where
  "solar_surplus_score w surplus_kw load_kw =
     (if surplus_kw \<ge> load_kw then w_solar_surplus w * min (surplus_kw / max load_kw (1/1000)) 3
      else if surplus_kw > 0 then w_solar_surplus w * (surplus_kw / max load_kw (1/1000)) * (1/2)
      else 0)"

definition low_price_score :: "scoring_weights \<Rightarrow> horizon_block \<Rightarrow> rat" where
  "low_price_score w block = (case price_eur_kwh block of
     None \<Rightarrow> 0
   | Some p \<Rightarrow> if hb_price_estimated block then 0
       else if p \<le> 15/100 then w_low_price w * 2
       else if p \<le> 25/100 then w_low_price w
       else if p \<ge> 35/100 * RED_PRICE_RATIO then - w_low_price w
       else 0)"

text \<open>Availability score and depletion penalty, one chain of conditions.\<close>

definition battery_scores :: "scoring_weights \<Rightarrow> horizon_block \<Rightarrow> bool \<Rightarrow> rat \<Rightarrow> rat \<times> rat" where
  "battery_scores w block allow_battery min_soc = (case hb_battery_soc_pct block of
     None \<Rightarrow> (0, 0)
   | Some soc \<Rightarrow>
       if soc \<ge> min_soc + 20 then (w_battery_availability w, 0)
       else if soc \<ge> min_soc \<and> allow_battery then (w_battery_availability w * (1/2), 0)
       else if soc < min_soc then (0, w_battery_depletion w * 2)
       else if soc < min_soc + 10 then (0, w_battery_depletion w)
       else (0, 0))"

definition grid_import_penalty :: "scoring_weights \<Rightarrow> rat \<Rightarrow> rat \<Rightarrow> rat" where
  "grid_import_penalty w surplus_kw load_kw =
     (if surplus_kw < load_kw then w_grid_import w * (load_kw - max 0 surplus_kw) else 0)"

definition export_opportunity_penalty :: "scoring_weights \<Rightarrow> horizon_block \<Rightarrow> rat \<Rightarrow> rat \<Rightarrow> rat" where
  "export_opportunity_penalty w block surplus_kw load_kw =
     (if surplus_kw > load_kw \<and> hb_export_value_sek_kwh block > 0
      then w_export_opportunity w * (surplus_kw - load_kw) else 0)"

definition load_feasible :: "deadline_urgency \<Rightarrow> block_load_cost \<Rightarrow> rat \<Rightarrow> bool" where
  "load_feasible urgency cost solar_score = (case du_cost_ceiling_sek_kwh urgency of
     None \<Rightarrow> True
   | Some cost_cap \<Rightarrow>
       if bc_marginal_cost_sek_kwh cost > cost_cap \<and> \<not> du_run_regardless urgency
       then solar_score > 0 else True)"

definition score_block ::
  "horizon_block \<Rightarrow> flexible_load \<Rightarrow> deadline_urgency \<Rightarrow> block_load_cost \<Rightarrow> bool \<Rightarrow> rat
     \<Rightarrow> scoring_weights \<Rightarrow> scored_block" where
  "score_block block load urgency cost allow_battery min_soc w =
     (let surplus_kw = hb_available_surplus_w block / 1000;
          load_kw = fl_nominal_power_w load / 1000;
          solar = solar_surplus_score w surplus_kw load_kw;
          low = low_price_score w block;
          bat = battery_scores w block allow_battery min_soc;
          dl = w_deadline w * max 0 (1 - du_hours_remaining urgency / 24);
          imp = grid_import_penalty w surplus_kw load_kw;
          opp = export_opportunity_penalty w block surplus_kw load_kw;
          total = solar + low + fst bat + dl - imp - snd bat - opp
      in \<lparr> sb_block = block,
           sb_score = (if hb_price_estimated block then total * (7/10) else total),
           sb_solar_surplus_score = solar, sb_low_price_score = low,
           sb_battery_availability_score = fst bat, sb_deadline_score = dl,
           sb_grid_import_penalty = imp, sb_battery_depletion_penalty = snd bat,
           sb_export_opportunity_penalty = opp,
           sb_expected_energy_source = bc_primary_source cost,
           sb_marginal_cost_sek_kwh = bc_marginal_cost_sek_kwh cost,
           sb_load_feasible = load_feasible urgency cost solar \<rparr>)"

subsection \<open>Projection of the battery\<close>

record battery_projection_config =
  bp_reserve_soc_pct :: rat
  bp_max_charge_power_w :: rat
  bp_max_discharge_power_w :: rat
  bp_battery_capacity_kwh :: rat
  bp_interval_hours :: rat
  bp_round_trip_efficiency :: rat

definition default_projection :: "rat \<Rightarrow> battery_projection_config" where
  "default_projection capacity_kwh = \<lparr> bp_reserve_soc_pct = 25, bp_max_charge_power_w = 5000,
     bp_max_discharge_power_w = 5000, bp_battery_capacity_kwh = capacity_kwh,
     bp_interval_hours = 1/4, bp_round_trip_efficiency = 92/100 \<rparr>"

text \<open>A capacity of zero makes the division fail; \<open>project\<close> is then the \<open>ZeroDivisionError\<close>.\<close>

definition soc_step :: "battery_projection_config \<Rightarrow> rat \<Rightarrow> rat \<Rightarrow> rat" where
  "soc_step cfg soc surplus_w =
     (let capacity_wh = bp_battery_capacity_kwh cfg * 1000 in
      if surplus_w > 0 then
        let charge_w = min surplus_w (bp_max_charge_power_w cfg);
            delta_wh = charge_w * bp_interval_hours cfg * bp_round_trip_efficiency cfg
        in min 100 (soc + delta_wh / capacity_wh * 100)
      else if surplus_w < 0 then
        let discharge_w = min \<bar>surplus_w\<bar> (bp_max_discharge_power_w cfg);
            delta_wh = discharge_w * bp_interval_hours cfg / max (bp_round_trip_efficiency cfg) (1/100)
        in max (bp_reserve_soc_pct cfg) (soc - delta_wh / capacity_wh * 100)
      else soc)"

definition clamp_soc :: "battery_projection_config \<Rightarrow> rat \<Rightarrow> rat" where
  "clamp_soc cfg soc = max (bp_reserve_soc_pct cfg) (min 100 soc)"

definition surplus_at :: "(time \<times> rat) list \<Rightarrow> time \<Rightarrow> rat" where
  "surplus_at surplus ts = (case map_of surplus ts of None \<Rightarrow> 0 | Some w \<Rightarrow> w)"

fun project_from ::
  "battery_projection_config \<Rightarrow> (time \<times> rat) list \<Rightarrow> rat \<Rightarrow> time list \<Rightarrow> (time \<times> rat) list
     \<Rightarrow> (time \<times> rat) list" where
  "project_from cfg surplus soc [] result = result"
| "project_from cfg surplus soc (ts # tss) result =
     project_from cfg surplus (soc_step cfg soc (surplus_at surplus ts)) tss (AList.update ts soc result)"

definition project_soc ::
  "battery_projection_config \<Rightarrow> time list \<Rightarrow> rat \<Rightarrow> (time \<times> rat) list \<Rightarrow> (time \<times> rat) list option" where
  "project_soc cfg tss initial surplus =
     (if bp_battery_capacity_kwh cfg = 0 \<and> (\<exists>ts \<in> set tss. surplus_at surplus ts \<noteq> 0) then None
      else Some (project_from cfg surplus (clamp_soc cfg initial) tss []))"

subsection \<open>House load\<close>

record hourly_load_forecast =
  hl_timestamp :: time
  hl_expected_power_w :: rat
  hl_confidence :: rat

record house_load_series =
  hs_points :: "hourly_load_forecast list"
  hs_source :: string
  hs_confidence :: rat

text \<open>A local clock: weekday (Monday is 0) and hour of an instant.\<close>

record local_clock =
  lc_weekday :: "time \<Rightarrow> int"
  lc_hour :: "time \<Rightarrow> int"

type_synonym energy_sample = "time \<times> rat option \<times> rat option"

definition mean_of :: "rat list \<Rightarrow> rat" where
  "mean_of xs = sum_list xs / of_nat (length xs)"

definition mean_or :: "rat list \<Rightarrow> rat \<Rightarrow> rat" where
  "mean_or xs d = (if xs = [] then d else mean_of xs)"

text \<open>\<open>while cursor < end\<close> with a quarter of an hour a step.\<close>

function cursor_points :: "time \<Rightarrow> time \<Rightarrow> time list" where
  "cursor_points cursor until =
     (if cursor < until then cursor # cursor_points (cursor + block_us) until else [])"
  by auto
termination
  by (relation "measure (\<lambda>(cursor, until). nat (until - cursor))")
    (auto simp: block_us_def us_per_s_def)

declare cursor_points.simps [simp del]

definition usable_consumption :: "time \<Rightarrow> energy_sample \<Rightarrow> rat option" where
  "usable_consumption cutoff r =
     (if fst r < cutoff then None
      else case snd (snd r) of None \<Rightarrow> None | Some c \<Rightarrow> if c < 0 then None else Some c)"

definition bucket_add :: "int \<Rightarrow> rat \<Rightarrow> (int \<times> rat list) list \<Rightarrow> (int \<times> rat list) list" where
  "bucket_add hour v b = (case map_of b hour of
     None \<Rightarrow> AList.update hour [v] b
   | Some vs \<Rightarrow> AList.update hour (vs @ [v]) b)"

definition add_load_sample ::
  "local_clock \<Rightarrow> time \<Rightarrow> (int \<times> rat list) list \<times> (int \<times> rat list) list \<times> rat list \<Rightarrow> energy_sample
     \<Rightarrow> (int \<times> rat list) list \<times> (int \<times> rat list) list \<times> rat list" where
  "add_load_sample clk cutoff acc r = (case usable_consumption cutoff r of
     None \<Rightarrow> acc
   | Some c \<Rightarrow> (let h = lc_hour clk (fst r) in
       if lc_weekday clk (fst r) \<ge> 5
       then (fst acc, bucket_add h c (fst (snd acc)), snd (snd acc) @ [c])
       else (bucket_add h c (fst acc), fst (snd acc), snd (snd acc) @ [c])))"

definition LOOKBACK_US :: int where
  "LOOKBACK_US = 14 * 86400 * us_per_s"

text \<open>\<open>clock_now\<close> is the reading of \<open>datetime.now\<close>, whatever the start of the series.\<close>

definition build_profiles ::
  "local_clock \<Rightarrow> time \<Rightarrow> energy_sample list \<Rightarrow> (int \<times> rat) list \<times> (int \<times> rat) list \<times> rat" where
  "build_profiles clk clock_now readings =
     (let acc = foldl (add_load_sample clk (clock_now - LOOKBACK_US)) ([], [], []) readings in
      (map (\<lambda>p. (fst p, mean_of (snd p))) (fst acc),
       map (\<lambda>p. (fst p, mean_of (snd p))) (fst (snd acc)),
       mean_or (snd (snd acc)) 500))"

definition flat_mean :: "energy_sample list \<Rightarrow> rat" where
  "flat_mean readings =
     mean_or (concat (map (\<lambda>r. case snd (snd r) of Some c \<Rightarrow> if c \<ge> 0 then [c] else [] | None \<Rightarrow> []) readings)) 500"

definition flat_series :: "time \<Rightarrow> time \<Rightarrow> rat \<Rightarrow> rat \<Rightarrow> house_load_series" where
  "flat_series start until power_w conf =
     \<lparr> hs_points = map (\<lambda>t. \<lparr> hl_timestamp = t, hl_expected_power_w = power_w, hl_confidence = conf \<rparr>)
         (cursor_points start until),
       hs_source = ''flat_mean'', hs_confidence = conf \<rparr>"

definition profile_point ::
  "local_clock \<Rightarrow> (int \<times> rat) list \<times> (int \<times> rat) list \<times> rat \<Rightarrow> time \<Rightarrow> hourly_load_forecast" where
  "profile_point clk profiles t =
     (let profile = (if lc_weekday clk t \<ge> 5 then fst (snd profiles) else fst profiles) in
      \<lparr> hl_timestamp = t,
        hl_expected_power_w = (case map_of profile (lc_hour clk t) of
            Some v \<Rightarrow> v | None \<Rightarrow> snd (snd profiles)),
        hl_confidence = (if profile \<noteq> [] then 7/10 else 4/10) \<rparr>)"

definition forecast_series ::
  "local_clock \<Rightarrow> time \<Rightarrow> energy_sample list \<Rightarrow> time \<Rightarrow> time \<Rightarrow> house_load_series" where
  "forecast_series clk clock_now readings start until =
     (if length readings < 48 then flat_series start until (flat_mean readings) (2/10)
      else let profiles = build_profiles clk clock_now readings;
               points = map (profile_point clk profiles) (cursor_points start until)
           in \<lparr> hs_points = points, hs_source = ''historical'',
                hs_confidence = mean_or (map hl_confidence points) (3/10) \<rparr>)"

subsection \<open>The horizon\<close>

record solar_point =
  sp_timestamp :: time
  sp_corrected_power_w :: rat
  sp_confidence :: rat

record horizon_inputs =
  hi_solar_points :: "solar_point list"
  hi_house_load :: house_load_series
  hi_price_by_hour :: "(time \<times> rat option \<times> rat option) list"
  hi_export_value_sek_kwh :: rat
  hi_fallback_price_eur_kwh :: rat
  hi_initial_battery_soc_pct :: "rat option"
  hi_higher_priority_loads_w :: rat
  hi_battery_capacity_kwh :: rat

definition in_span :: "time \<Rightarrow> time \<Rightarrow> time \<Rightarrow> bool" where
  "in_span now until t \<longleftrightarrow> now \<le> t \<and> t < until"

definition house_power_at :: "horizon_inputs \<Rightarrow> time \<Rightarrow> rat" where
  "house_power_at hi ts =
     (case map_of (rev (map (\<lambda>p. (hl_timestamp p, hl_expected_power_w p)) (hs_points (hi_house_load hi)))) ts of
        None \<Rightarrow> 500 | Some w \<Rightarrow> w)"

definition prices_at :: "horizon_inputs \<Rightarrow> time \<Rightarrow> rat option \<times> rat option" where
  "prices_at hi ts = (case map_of (hi_price_by_hour hi) (hour_key ts) of
     None \<Rightarrow> (None, None) | Some p \<Rightarrow> p)"

record block_datum =
  bd_timestamp :: time
  bd_solar_w :: rat
  bd_house_w :: rat
  bd_surplus :: rat
  bd_spot :: "rat option"
  bd_all_in :: "rat option"
  bd_estimated :: bool
  bd_confidence :: rat

definition solar_datum :: "horizon_inputs \<Rightarrow> solar_point \<Rightarrow> block_datum" where
  "solar_datum hi p =
     (let ts = sp_timestamp p; house_w = house_power_at hi ts; pr = prices_at hi ts;
          missing = (fst pr = None \<and> snd pr = None); fb = Some (hi_fallback_price_eur_kwh hi)
      in \<lparr> bd_timestamp = ts, bd_solar_w = sp_corrected_power_w p, bd_house_w = house_w,
           bd_surplus = sp_corrected_power_w p - house_w - hi_higher_priority_loads_w hi,
           bd_spot = (if missing then fb else fst pr), bd_all_in = (if missing then fb else snd pr),
           bd_estimated = missing, bd_confidence = sp_confidence p \<rparr>)"

text \<open>Without solar points a missing spot price alone replaces both prices.\<close>

definition dark_datum :: "horizon_inputs \<Rightarrow> time \<Rightarrow> block_datum" where
  "dark_datum hi ts =
     (let house_w = house_power_at hi ts; pr = prices_at hi ts; fb = Some (hi_fallback_price_eur_kwh hi)
      in \<lparr> bd_timestamp = ts, bd_solar_w = 0, bd_house_w = house_w,
           bd_surplus = - house_w - hi_higher_priority_loads_w hi,
           bd_spot = (if fst pr = None then fb else fst pr),
           bd_all_in = (if fst pr = None then fb else snd pr),
           bd_estimated = (fst pr = None \<and> snd pr = None), bd_confidence = 3/10 \<rparr>)"

definition block_data :: "horizon_inputs \<Rightarrow> time \<Rightarrow> time \<Rightarrow> block_datum list" where
  "block_data hi now until =
     (if hi_solar_points hi \<noteq> []
      then map (solar_datum hi) (filter (\<lambda>p. in_span now until (sp_timestamp p)) (hi_solar_points hi))
      else map (dark_datum hi) (filter (in_span now until) (map hl_timestamp (hs_points (hi_house_load hi)))))"

text \<open>The later of two entries for one instant is the one the dictionary keeps.\<close>

definition raw_surplus :: "block_datum list \<Rightarrow> (time \<times> rat) list" where
  "raw_surplus ds = rev (map (\<lambda>d. (bd_timestamp d, bd_surplus d)) ds)"

definition horizon_block_of :: "horizon_inputs \<Rightarrow> (time \<times> rat) list \<Rightarrow> block_datum \<Rightarrow> horizon_block" where
  "horizon_block_of hi soc d =
     \<lparr> hb_timestamp = bd_timestamp d, hb_solar_forecast_w = bd_solar_w d,
       hb_house_load_forecast_w = bd_house_w d,
       hb_higher_priority_loads_w = hi_higher_priority_loads_w hi,
       hb_available_surplus_w = max 0 (bd_surplus d),
       hb_battery_soc_pct = map_of soc (bd_timestamp d),
       hb_spot_price_eur_kwh = bd_spot d, hb_all_in_price_eur_kwh = bd_all_in d,
       hb_export_value_sek_kwh = hi_export_value_sek_kwh hi,
       hb_price_estimated = bd_estimated d, hb_forecast_confidence = bd_confidence d \<rparr>"

definition build_horizon :: "time \<Rightarrow> int \<Rightarrow> horizon_inputs \<Rightarrow> horizon_block list option" where
  "build_horizon now horizon_hours hi =
     (let ds = block_data hi now (now + hours_us horizon_hours) in
      if ds = [] then Some []
      else (case project_soc (default_projection (hi_battery_capacity_kwh hi)) (map bd_timestamp ds)
                   (num_or (hi_initial_battery_soc_pct hi) 50) (raw_surplus ds) of
              None \<Rightarrow> None
            | Some soc \<Rightarrow> Some (map (horizon_block_of hi soc) ds)))"

subsection \<open>The cost of a block\<close>

lemma battery_part_bounds:
  "0 \<le> r \<Longrightarrow> 0 \<le> battery_part_kw block r allow min_soc \<and> battery_part_kw block r allow min_soc \<le> r"
  unfolding battery_part_kw_def by (cases "hb_battery_soc_pct block") auto

text \<open>The split of the load's power over its three sources.\<close>

lemma load_split:
  fixes load_kw surplus_kw min_soc :: rat and block :: horizon_block and allow :: bool
  assumes "0 \<le> load_kw" "0 \<le> surplus_kw"
  defines "solar \<equiv> min load_kw surplus_kw"
  defines "bat \<equiv> battery_part_kw block (load_kw - solar) allow min_soc"
  shows "0 \<le> solar" "0 \<le> bat" "max 0 (load_kw - solar - bat) = load_kw - solar - bat"
proof -
  show "0 \<le> solar" using assms(1,2) by (simp add: solar_def)
  have le: "0 \<le> load_kw - solar" by (simp add: solar_def)
  show "0 \<le> bat" using battery_part_bounds [OF le] by (simp add: bat_def)
  show "max 0 (load_kw - solar - bat) = load_kw - solar - bat"
    using battery_part_bounds [OF le, of block allow min_soc] by (simp add: bat_def)
qed

lemma shares_sum_to_one:
  fixes block :: horizon_block and min_soc rate fallback basis load_power_w :: rat and allow :: bool
  assumes "1 \<le> load_power_w"
  defines "c \<equiv> compute_block_load_cost rate block load_power_w allow min_soc fallback basis"
  shows "0 \<le> bc_solar_share c" "0 \<le> bc_battery_share c" "0 \<le> bc_grid_share c"
    "bc_solar_share c + bc_battery_share c + bc_grid_share c = 1"
proof -
  define load_kw where "load_kw = load_power_w / 1000"
  define surplus_kw where "surplus_kw = max 0 (hb_available_surplus_w block / 1000)"
  define solar where "solar = min load_kw surplus_kw"
  define bat where "bat = battery_part_kw block (load_kw - solar) allow min_soc"
  have pos: "1/1000 \<le> load_kw" using assms(1) by (simp add: load_kw_def)
  then have nn: "0 \<le> load_kw" and nz: "load_kw > 0" by linarith+
  have sp: "0 \<le> surplus_kw" by (simp add: surplus_kw_def)
  note split = load_split(1) [OF nn sp, folded solar_def]
    load_split(2) [OF nn sp, of block allow min_soc, folded solar_def, folded bat_def]
    load_split(3) [OF nn sp, of block allow min_soc, folded solar_def, folded bat_def]
  have max: "max load_kw (1/1000) = load_kw" using pos by (simp add: max_def)
  have sh: "bc_solar_share c = solar / load_kw" "bc_battery_share c = bat / load_kw"
      "bc_grid_share c = (load_kw - solar - bat) / load_kw"
    unfolding c_def compute_block_load_cost_def Let_def load_kw_def [symmetric]
      surplus_kw_def [symmetric] solar_def [symmetric] bat_def [symmetric] max
    using split(3) by simp_all
  have "0 \<le> load_kw - solar - bat" using split(3) by (metis max.cobounded1)
  then show "0 \<le> bc_solar_share c" "0 \<le> bc_battery_share c" "0 \<le> bc_grid_share c"
    unfolding sh using split(1,2) nz by simp_all
  show "bc_solar_share c + bc_battery_share c + bc_grid_share c = 1"
    unfolding sh using nz by (simp add: add_divide_distrib [symmetric])
qed

lemma convex_between:
  fixes a b c :: rat
  assumes "0 \<le> p" "0 \<le> q" "0 \<le> r" "p + q + r = 1"
  shows "min a (min b c) \<le> p * a + q * b + r * c" "p * a + q * b + r * c \<le> max a (max b c)"
proof -
  define lo hi where "lo = min a (min b c)" and "hi = max a (max b c)"
  have lo: "lo \<le> a" "lo \<le> b" "lo \<le> c" by (simp_all add: lo_def min_le_iff_disj)
  have hi: "a \<le> hi" "b \<le> hi" "c \<le> hi" by (simp_all add: hi_def le_max_iff_disj)
  have "lo = p * lo + q * lo + r * lo" using assms(4) by (metis distrib_right mult_1)
  also have "\<dots> \<le> p * a + q * b + r * c"
    by (intro add_mono mult_left_mono lo assms)
  finally show "min a (min b c) \<le> p * a + q * b + r * c" by (simp add: lo_def)
  have "p * a + q * b + r * c \<le> p * hi + q * hi + r * hi"
    by (intro add_mono mult_left_mono hi assms)
  also have "\<dots> = hi" using assms(4) by (metis distrib_right mult_1)
  finally show "p * a + q * b + r * c \<le> max a (max b c)" by (simp add: hi_def)
qed

definition grid_unit_cost :: "rat \<Rightarrow> horizon_block \<Rightarrow> rat \<Rightarrow> rat" where
  "grid_unit_cost rate block fallback =
     (case price_eur_kwh block of Some p \<Rightarrow> load_eur_to_sek rate p | None \<Rightarrow> fallback)"

definition solar_unit_cost :: "horizon_block \<Rightarrow> rat" where
  "solar_unit_cost block = max 0 (hb_export_value_sek_kwh block * (1/2))"

lemma marginal_cost_eq:
  "bc_marginal_cost_sek_kwh (compute_block_load_cost rate block pw allow min_soc fallback basis) =
     bc_solar_share (compute_block_load_cost rate block pw allow min_soc fallback basis) * solar_unit_cost block
   + bc_battery_share (compute_block_load_cost rate block pw allow min_soc fallback basis) * basis
   + bc_grid_share (compute_block_load_cost rate block pw allow min_soc fallback basis) * grid_unit_cost rate block fallback"
  unfolding compute_block_load_cost_def Let_def grid_unit_cost_def solar_unit_cost_def by simp

text \<open>The three sources cover the load and the marginal cost is their average.\<close>

theorem block_cost_is_average:
  assumes "1 \<le> load_power_w"
    and c_def: "c = compute_block_load_cost rate block load_power_w allow min_soc fallback basis"
  shows "0 \<le> bc_solar_share c \<and> 0 \<le> bc_battery_share c \<and> 0 \<le> bc_grid_share c
    \<and> bc_solar_share c + bc_battery_share c + bc_grid_share c = 1
    \<and> min (solar_unit_cost block) (min basis (grid_unit_cost rate block fallback)) \<le> bc_marginal_cost_sek_kwh c
    \<and> bc_marginal_cost_sek_kwh c \<le> max (solar_unit_cost block) (max basis (grid_unit_cost rate block fallback))"
  using shares_sum_to_one [OF assms(1), of rate block allow min_soc fallback basis]
    convex_between [OF shares_sum_to_one [OF assms(1), of rate block allow min_soc fallback basis],
      of "solar_unit_cost block" basis "grid_unit_cost rate block fallback"]
  unfolding c_def marginal_cost_eq by blast

subsection \<open>The projected battery\<close>

definition sound_projection :: "battery_projection_config \<Rightarrow> bool" where
  "sound_projection cfg \<longleftrightarrow> bp_reserve_soc_pct cfg \<le> 100 \<and> 0 < bp_battery_capacity_kwh cfg
     \<and> 0 \<le> bp_interval_hours cfg \<and> 0 \<le> bp_round_trip_efficiency cfg
     \<and> 0 \<le> bp_max_charge_power_w cfg \<and> 0 \<le> bp_max_discharge_power_w cfg"

definition soc_in_range :: "battery_projection_config \<Rightarrow> rat \<Rightarrow> bool" where
  "soc_in_range cfg soc \<longleftrightarrow> bp_reserve_soc_pct cfg \<le> soc \<and> soc \<le> 100"

lemma clamp_in_range: "sound_projection cfg \<Longrightarrow> soc_in_range cfg (clamp_soc cfg soc)"
  by (simp add: sound_projection_def soc_in_range_def clamp_soc_def)

lemma soc_step_charges:
  assumes "sound_projection cfg" "soc_in_range cfg soc" "0 < w"
  shows "soc \<le> soc_step cfg soc w \<and> soc_step cfg soc w \<le> 100"
proof -
  define d where "d = min w (bp_max_charge_power_w cfg) * bp_interval_hours cfg
      * bp_round_trip_efficiency cfg / (bp_battery_capacity_kwh cfg * 1000) * 100"
  have "0 \<le> d" using assms unfolding d_def sound_projection_def by simp
  moreover have "soc_step cfg soc w = min 100 (soc + d)"
    using assms(3) by (simp add: soc_step_def Let_def d_def)
  ultimately show ?thesis using assms(2) by (simp add: soc_in_range_def)
qed

lemma soc_step_discharges:
  assumes "sound_projection cfg" "soc_in_range cfg soc" "w < 0"
  shows "bp_reserve_soc_pct cfg \<le> soc_step cfg soc w \<and> soc_step cfg soc w \<le> soc"
proof -
  define d where "d = min \<bar>w\<bar> (bp_max_discharge_power_w cfg) * bp_interval_hours cfg
      / max (bp_round_trip_efficiency cfg) (1/100) / (bp_battery_capacity_kwh cfg * 1000) * 100"
  have "0 < max (bp_round_trip_efficiency cfg) (1/100)" by (simp add: less_max_iff_disj)
  then have "0 \<le> d" using assms unfolding d_def sound_projection_def by simp
  moreover have "soc_step cfg soc w = max (bp_reserve_soc_pct cfg) (soc - d)"
    using assms(3) by (simp add: soc_step_def Let_def d_def)
  ultimately show ?thesis using assms(2) by (simp add: soc_in_range_def)
qed

lemma soc_step_in_range:
  assumes "sound_projection cfg" "soc_in_range cfg soc"
  shows "soc_in_range cfg (soc_step cfg soc w)"
proof (cases "w = 0")
  case True
  then show ?thesis using assms(2) by (simp add: soc_step_def)
next
  case False
  then consider "0 < w" | "w < 0" by linarith
  then show ?thesis
  proof cases
    case 1
    then show ?thesis
      using soc_step_charges [OF assms 1] assms(2) by (simp add: soc_in_range_def)
  next
    case 2
    then show ?thesis
      using soc_step_discharges [OF assms 2] assms(2) by (simp add: soc_in_range_def)
  qed
qed

interpretation battery: kept_invariant "soc_step cfg" "\<lambda>_. True"
    "\<lambda>soc. sound_projection cfg \<and> soc_in_range cfg soc" for cfg
  by unfold_locales (simp add: soc_step_in_range)

lemma project_from_keys:
  "map_of (project_from cfg surplus soc tss result) t = Some v \<Longrightarrow> t \<in> set tss \<or> map_of result t = Some v"
  by (induction cfg surplus soc tss result rule: project_from.induct) (auto split: if_splits)

lemma project_from_covers:
  "t \<in> set tss \<or> map_of result t \<noteq> None \<Longrightarrow> map_of (project_from cfg surplus soc tss result) t \<noteq> None"
  by (induction cfg surplus soc tss result rule: project_from.induct) (auto split: if_splits)

lemma project_from_run:
  "map_of (project_from cfg surplus soc tss result) t = Some v \<Longrightarrow>
     map_of result t = Some v \<or> (\<exists>k < length tss. v = foldl (soc_step cfg) soc (map (surplus_at surplus) (take k tss)))"
proof (induction tss arbitrary: soc result)
  case (Cons ts tss)
  have "map_of (AList.update ts soc result) t = Some v \<or>
     (\<exists>k < length tss. v = foldl (soc_step cfg) (soc_step cfg soc (surplus_at surplus ts))
        (map (surplus_at surplus) (take k tss)))"
    using Cons.prems by (intro Cons.IH) simp
  then show ?case
  proof (elim disjE exE conjE)
    assume "map_of (AList.update ts soc result) t = Some v"
    then have "map_of result t = Some v \<or> v = soc" by (auto split: if_splits)
    then show ?thesis by (rule disjE) (simp, rule disjI2, rule exI [of _ 0], simp)
  next
    fix k assume "k < length tss" "v = foldl (soc_step cfg) (soc_step cfg soc (surplus_at surplus ts))
        (map (surplus_at surplus) (take k tss))"
    then show ?thesis by (intro disjI2 exI [of _ "Suc k"]) simp
  qed
qed simp

lemma projected_in_range:
  assumes "sound_projection cfg" "project_soc cfg tss initial surplus = Some soc" "map_of soc t = Some v"
  shows "soc_in_range cfg v"
proof -
  have "map_of (project_from cfg surplus (clamp_soc cfg initial) tss []) t = Some v"
    using assms by (simp add: project_soc_def split: if_splits)
  then obtain k where "v = foldl (soc_step cfg) (clamp_soc cfg initial) (map (surplus_at surplus) (take k tss))"
    using project_from_run by fastforce
  then show ?thesis
    using battery.run_keeps [of cfg "clamp_soc cfg initial"] assms(1) clamp_in_range [OF assms(1)] by simp
qed

lemma project_soc_total:
  "bp_battery_capacity_kwh cfg \<noteq> 0 \<Longrightarrow> \<exists>soc. project_soc cfg tss initial surplus = Some soc"
  by (simp add: project_soc_def)

lemma project_soc_covers:
  "project_soc cfg tss initial surplus = Some soc \<Longrightarrow> t \<in> set tss \<Longrightarrow> map_of soc t \<noteq> None"
  unfolding project_soc_def by (metis option.distinct(1) option.inject project_from_covers)

subsection \<open>The horizon\<close>

lemma cursor_points_range: "t \<in> set (cursor_points a b) \<Longrightarrow> a \<le> t \<and> t < b"
proof (induction a b rule: cursor_points.induct)
  case (1 a b)
  show ?case
    using 1 by (subst (asm) cursor_points.simps) (force simp: block_us_def us_per_s_def split: if_splits)
qed

lemma cursor_points_ascend: "sorted_wrt (<) (cursor_points a b)"
proof (induction a b rule: cursor_points.induct)
  case (1 a b)
  have "\<forall>t \<in> set (cursor_points (a + block_us) b). a < t"
    using cursor_points_range by (force simp: block_us_def us_per_s_def)
  then show ?case using 1 by (subst cursor_points.simps) simp
qed

lemma block_data_in_span:
  "d \<in> set (block_data hi now until) \<Longrightarrow> now \<le> bd_timestamp d \<and> bd_timestamp d < until"
  by (auto simp: block_data_def solar_datum_def dark_datum_def Let_def in_span_def split: if_splits)

lemma solar_datum_priced: "bd_spot (solar_datum hi p) \<noteq> None \<or> bd_all_in (solar_datum hi p) \<noteq> None"
  unfolding solar_datum_def Let_def by (simp add: prices_at_def)

lemma dark_datum_priced: "bd_spot (dark_datum hi t) \<noteq> None"
  unfolding dark_datum_def Let_def by simp

lemma block_data_priced:
  "d \<in> set (block_data hi now until) \<Longrightarrow> bd_spot d \<noteq> None \<or> bd_all_in d \<noteq> None"
  using solar_datum_priced dark_datum_priced by (fastforce simp: block_data_def split: if_splits)

lemma default_projection_sound: "0 < c \<Longrightarrow> sound_projection (default_projection c)"
  by (simp add: sound_projection_def default_projection_def)

definition block_well_formed :: "time \<Rightarrow> time \<Rightarrow> horizon_block \<Rightarrow> bool" where
  "block_well_formed now until b \<longleftrightarrow>
     now \<le> hb_timestamp b \<and> hb_timestamp b < until
   \<and> 0 \<le> hb_available_surplus_w b
   \<and> (hb_spot_price_eur_kwh b \<noteq> None \<or> hb_all_in_price_eur_kwh b \<noteq> None)
   \<and> (\<exists>soc. hb_battery_soc_pct b = Some soc \<and> 25 \<le> soc \<and> soc \<le> 100)"

lemma horizon_block_well_formed:
  assumes "0 < hi_battery_capacity_kwh hi" "d \<in> set ds" "ds = block_data hi now until"
    and soc: "project_soc (default_projection (hi_battery_capacity_kwh hi)) (map bd_timestamp ds) initial surplus = Some soc"
  shows "block_well_formed now until (horizon_block_of hi soc d)"
proof -
  obtain v where v: "map_of soc (bd_timestamp d) = Some v"
    using project_soc_covers [OF soc, of "bd_timestamp d"] assms(2) by auto
  have "soc_in_range (default_projection (hi_battery_capacity_kwh hi)) v"
    using projected_in_range [OF default_projection_sound [OF assms(1)] soc v] .
  then have "25 \<le> v" "v \<le> 100" by (simp_all add: soc_in_range_def default_projection_def)
  then show ?thesis
    using v block_data_in_span [of d hi now until] block_data_priced [of d hi now until] assms(2,3)
    by (simp add: block_well_formed_def horizon_block_of_def)
qed

text \<open>C26. With a battery of positive capacity the builder always returns a horizon: one block for each
  usable instant, in order, and every block lies within the span, has a surplus that is not
  negative, a price, and a projected battery level between the reserve and a hundred per cent.\<close>

theorem horizon_well_formed:
  assumes "0 < hi_battery_capacity_kwh hi"
  shows "\<exists>bs. build_horizon now h hi = Some bs
    \<and> map hb_timestamp bs = map bd_timestamp (block_data hi now (now + hours_us h))
    \<and> list_all (block_well_formed now (now + hours_us h)) bs"
proof -
  let ?ds = "block_data hi now (now + hours_us h)"
  obtain soc where soc: "project_soc (default_projection (hi_battery_capacity_kwh hi)) (map bd_timestamp ?ds)
      (num_or (hi_initial_battery_soc_pct hi) 50) (raw_surplus ?ds) = Some soc"
    using project_soc_total assms by (fastforce simp: default_projection_def)
  have "list_all (block_well_formed now (now + hours_us h)) (map (horizon_block_of hi soc) ?ds)"
    using horizon_block_well_formed [OF assms _ refl soc] by (simp add: list_all_iff)
  moreover have "map hb_timestamp (map (horizon_block_of hi soc) ?ds) = map bd_timestamp ?ds"
    by (simp add: horizon_block_of_def)
  moreover have "build_horizon now h hi = Some (map (horizon_block_of hi soc) ?ds)"
    unfolding build_horizon_def Let_def soc by simp
  ultimately show ?thesis by blast
qed

definition sample_inputs :: horizon_inputs where
  "sample_inputs = \<lparr> hi_solar_points = [\<lparr> sp_timestamp = 0, sp_corrected_power_w = 3000, sp_confidence = 1/2 \<rparr>],
     hi_house_load = \<lparr> hs_points = [], hs_source = ''flat_mean'', hs_confidence = 1/5 \<rparr>,
     hi_price_by_hour = [], hi_export_value_sek_kwh = 1/2, hi_fallback_price_eur_kwh = 1/5,
     hi_initial_battery_soc_pct = Some 60, hi_higher_priority_loads_w = 0, hi_battery_capacity_kwh = 10 \<rparr>"

theorem horizon_well_formed_witness:
  "\<exists>bs. build_horizon 0 1 sample_inputs = Some bs
    \<and> map hb_timestamp bs = map bd_timestamp (block_data sample_inputs 0 (0 + hours_us 1))
    \<and> list_all (block_well_formed 0 (0 + hours_us 1)) bs"
  by (rule horizon_well_formed) (simp add: sample_inputs_def)

end
