(* ===== verification/Load_Windows.thy ===== *)
theory Load_Windows
  imports Flexible_Load "HOL-Library.Sublist"
begin

section \<open>Windows of a flexible load\<close>

text \<open>
  The planning half of \<open>spa_energy/cleaning_schedule.py\<close>: windows made of scored blocks, the
  exhaustive search for a day of fixed filter cycles, and the greedy plan of daily cleaning.
  \<open>float("-inf")\<close> as the score of "nothing yet" is \<open>None\<close>. The iteration order of
  \<open>set(sources)\<close>, which decides ties of the primary source, is the parameter \<open>order\<close>: the
  members of the list in the order Python visits them.
\<close>

type_synonym source_order = "energy_source list \<Rightarrow> energy_source list"

definition block_time :: "scored_block \<Rightarrow> time" where
  "block_time b = hb_timestamp (sb_block b)"

definition primary_source :: "source_order \<Rightarrow> energy_source list \<Rightarrow> energy_source" where
  "primary_source order sources = the (first_max (count_list sources) (order sources))"

text \<open>Only applied to a non-empty list of blocks.\<close>

definition window_from_blocks :: "source_order \<Rightarrow> rat \<Rightarrow> scored_block list \<Rightarrow> plan_window" where
  "window_from_blocks order nominal_w bs =
     (let start = block_time (hd bs); until = block_time (last bs) + block_us;
          n = of_nat (length bs)
      in \<lparr> pw_start = start, pw_end = until, pw_duration = until - start,
           pw_expected_energy_kwh = nominal_w / 1000 * (n * 15 / 60),
           pw_expected_cost_sek =
             sum_list (map (\<lambda>b. sb_marginal_cost_sek_kwh b * (nominal_w / 1000) * (15 / 60)) bs),
           pw_expected_energy_source = primary_source order (map sb_expected_energy_source bs),
           pw_average_score = mean_of (map sb_score bs),
           pw_blocks = bs \<rparr>)"

definition average_surplus :: "scored_block list \<Rightarrow> rat" where
  "average_surplus bs = mean_of (map (hb_available_surplus_w \<circ> sb_block) bs)"

definition too_dark :: "load_strategy \<Rightarrow> rat \<Rightarrow> scored_block list \<Rightarrow> bool" where
  "too_dark strategy nominal_w bs \<longleftrightarrow> strategy = SOLAR_ONLY \<and> average_surplus bs < nominal_w * (1/2)"

definition block_score_for_strategy :: "load_strategy \<Rightarrow> rat \<Rightarrow> scored_block list \<Rightarrow> rat option" where
  "block_score_for_strategy strategy nominal_w bs =
     (if too_dark strategy nominal_w bs then None
      else if strategy = CHEAPEST then Some (- mean_of (map sb_marginal_cost_sek_kwh bs))
      else Some (mean_of (map sb_score bs)))"

definition find_window_at ::
  "source_order \<Rightarrow> scored_block list \<Rightarrow> nat \<Rightarrow> nat \<Rightarrow> load_strategy \<Rightarrow> rat \<Rightarrow> plan_window option" where
  "find_window_at order bs start_idx needed strategy nominal_w =
     (if start_idx + needed > length bs then None
      else let wb = take needed (drop start_idx bs) in
        if too_dark strategy nominal_w wb then None
        else Some (window_from_blocks order nominal_w wb))"

fun merge_from :: "source_order \<Rightarrow> rat \<Rightarrow> int \<Rightarrow> rat \<Rightarrow> plan_window \<Rightarrow> plan_window list \<Rightarrow> plan_window list" where
  "merge_from order nominal_w min_pause max_hours current [] = [current]"
| "merge_from order nominal_w min_pause max_hours current (nxt # ws) =
     (if pw_start nxt - pw_end current \<le> min_pause
         \<and> elapsed_s (pw_end nxt) (pw_start current) / 3600 \<le> max_hours
      then merge_from order nominal_w min_pause max_hours
             (window_from_blocks order nominal_w (pw_blocks current @ pw_blocks nxt)) ws
      else current # merge_from order nominal_w min_pause max_hours nxt ws)"

fun merge_windows :: "source_order \<Rightarrow> rat \<Rightarrow> int \<Rightarrow> rat \<Rightarrow> plan_window list \<Rightarrow> plan_window list" where
  "merge_windows order nominal_w min_pause max_hours [] = []"
| "merge_windows order nominal_w min_pause max_hours (w # ws) =
     merge_from order nominal_w min_pause max_hours w ws"

subsection \<open>Fixed cycles: the exhaustive search\<close>

definition plan_total :: "plan_window list \<Rightarrow> rat" where
  "plan_total ws = sum_list (map pw_average_score ws)"

definition compatible :: "int \<Rightarrow> plan_window list \<Rightarrow> plan_window \<Rightarrow> bool" where
  "compatible sep chosen w \<longleftrightarrow> chosen = [] \<or> pw_start w \<ge> pw_end (last chosen) + sep"

text \<open>\<open>backtrack(start_idx, chosen)\<close> with the candidates from \<open>start_idx\<close> on, and its \<open>for\<close> loop.\<close>

function backtrack :: "int \<Rightarrow> nat \<Rightarrow> plan_window list \<Rightarrow> plan_window list
       \<Rightarrow> plan_window list option \<Rightarrow> plan_window list option"
  and try_each :: "int \<Rightarrow> nat \<Rightarrow> plan_window list \<Rightarrow> plan_window list
       \<Rightarrow> plan_window list option \<Rightarrow> plan_window list option" where
  "backtrack sep n cs chosen best =
     (if length chosen = n then keep_better plan_total best chosen
      else if cs = [] \<or> length cs < n - length chosen then best
      else try_each sep n cs chosen best)"
| "try_each sep n [] chosen best = best"
| "try_each sep n (c # cs) chosen best =
     try_each sep n cs chosen
       (if compatible sep chosen c then backtrack sep n cs (chosen @ [c]) best else best)"
  by pat_completeness auto
termination
  by (relation "measure (\<lambda>x. case x of
        Inl (sep, n, cs, chosen, best) \<Rightarrow> 2 * length cs + 1
      | Inr (sep, n, cs, chosen, best) \<Rightarrow> 2 * length cs)") auto

declare backtrack.simps [simp del]

definition enumerate_fixed_cycle_plans :: "plan_window list \<Rightarrow> nat \<Rightarrow> int \<Rightarrow> plan_window list" where
  "enumerate_fixed_cycle_plans candidates n sep =
     (case backtrack sep n candidates [] None of None \<Rightarrow> [] | Some plan \<Rightarrow> plan)"

definition blocks_per_cycle :: "int \<Rightarrow> nat" where
  "blocks_per_cycle duration_minutes =
     (let b = max 1 (duration_minutes div 15) in
      nat (if b * 15 \<noteq> duration_minutes
           then max 1 (round_half_even (of_int duration_minutes / 15)) else b))"

definition eligible_blocks :: "scored_block list \<Rightarrow> time \<Rightarrow> time \<Rightarrow> time \<Rightarrow> scored_block list" where
  "eligible_blocks scored earliest latest now =
     (let e = filter (\<lambda>s. earliest \<le> block_time s \<and> block_time s < latest
                  \<and> block_time s \<ge> now - block_us \<and> sb_load_feasible s) scored
      in if e = [] then filter (\<lambda>s. earliest \<le> block_time s \<and> block_time s < latest) scored else e)"

definition add_candidate :: "plan_window list \<Rightarrow> plan_window option \<Rightarrow> plan_window list" where
  "add_candidate cs w = (case w of
     None \<Rightarrow> cs
   | Some v \<Rightarrow> if (pw_start v, pw_end v) \<in> (\<lambda>c. (pw_start c, pw_end c)) ` set cs then cs else cs @ [v])"

definition cycle_candidates ::
  "source_order \<Rightarrow> scored_block list \<Rightarrow> nat \<Rightarrow> load_strategy \<Rightarrow> rat \<Rightarrow> plan_window list" where
  "cycle_candidates order eligible needed strategy nominal_w =
     foldl add_candidate [] (map (\<lambda>i. find_window_at order eligible i needed strategy nominal_w)
       [0..<Suc (length eligible) - needed])"

function spaced_fallback ::
  "source_order \<Rightarrow> scored_block list \<Rightarrow> nat \<Rightarrow> load_strategy \<Rightarrow> rat \<Rightarrow> nat \<Rightarrow> int \<Rightarrow> nat \<Rightarrow> nat
     \<Rightarrow> plan_window list \<Rightarrow> plan_window list" where
  "spaced_fallback order eligible needed strategy nominal_w n sep step idx acc =
     (if length acc < n \<and> idx + needed \<le> length eligible then
        spaced_fallback order eligible needed strategy nominal_w n sep step (idx + max 1 step)
          (case find_window_at order eligible idx needed strategy nominal_w of
             None \<Rightarrow> acc
           | Some w \<Rightarrow> if compatible sep acc w then acc @ [w] else acc)
      else acc)"
  by auto
termination
  by (relation "measure (\<lambda>(order, eligible, needed, strategy, nominal_w, n, sep, step, idx, acc).
        Suc (length eligible) - idx)") auto

declare spaced_fallback.simps [simp del]

definition plan_fixed_filter_cycles ::
  "source_order \<Rightarrow> scored_block list \<Rightarrow> int \<Rightarrow> int \<Rightarrow> int \<Rightarrow> time \<Rightarrow> time \<Rightarrow> time \<Rightarrow> load_strategy \<Rightarrow> rat
     \<Rightarrow> plan_window list" where
  "plan_fixed_filter_cycles order scored cycles duration_minutes sep earliest latest now strategy nominal_w =
     (if scored = [] \<or> cycles \<le> 0 \<or> duration_minutes \<le> 0 then []
      else let needed = blocks_per_cycle duration_minutes;
               eligible = eligible_blocks scored earliest latest now;
               candidates = cycle_candidates order eligible needed strategy nominal_w
           in if candidates = [] then []
              else let plan = enumerate_fixed_cycle_plans (sort_key pw_start candidates) (nat cycles) sep
                in if plan \<noteq> [] then plan
                   else if length eligible \<ge> needed then
                     (let step = nat (max 1 (int (length eligible - needed) div max 1 cycles));
                          fallback = spaced_fallback order eligible needed strategy nominal_w
                            (nat cycles) sep step 0 []
                      in if length fallback = nat cycles then fallback else [])
                   else [])"

subsection \<open>Daily cleaning: the greedy plan\<close>

definition local_best ::
  "source_order \<Rightarrow> scored_block list \<Rightarrow> nat list \<Rightarrow> nat \<Rightarrow> load_strategy \<Rightarrow> rat \<Rightarrow> plan_window option" where
  "local_best order eligible idxs needed strategy nominal_w =
     map_option snd (running_best fst (List.map_filter (\<lambda>i.
       case find_window_at order eligible i needed strategy nominal_w of
         None \<Rightarrow> None
       | Some w \<Rightarrow> map_option (\<lambda>s. (s, w)) (block_score_for_strategy strategy nominal_w (pw_blocks w))) idxs))"

definition index_of :: "scored_block list \<Rightarrow> scored_block \<Rightarrow> nat" where
  "index_of bs b = length (takeWhile (\<lambda>x. x \<noteq> b) bs)"

text \<open>The placement of \<open>k\<close> windows, each after the pause that follows the one before.\<close>

fun place_windows ::
  "source_order \<Rightarrow> scored_block list \<Rightarrow> nat \<Rightarrow> nat \<Rightarrow> load_strategy \<Rightarrow> rat \<Rightarrow> nat \<Rightarrow> nat
     \<Rightarrow> plan_window list option" where
  "place_windows order eligible needed pause strategy nominal_w 0 from_idx = Some []"
| "place_windows order eligible needed pause strategy nominal_w (Suc k) from_idx =
     (case local_best order eligible [from_idx..<Suc (length eligible) - needed] needed strategy nominal_w of
        None \<Rightarrow> None
      | Some w \<Rightarrow> map_option (Cons w) (place_windows order eligible needed pause strategy nominal_w k
          (index_of eligible (last (pw_blocks w)) + pause + 1)))"

definition start_count_penalty :: rat where
  "start_count_penalty = 500"

definition whole_blocks :: "int \<Rightarrow> nat" where
  "whole_blocks d = nat (max 1 \<lfloor>elapsed_s d 0 / 900\<rfloor>)"

definition daily_block_count :: "rat \<Rightarrow> nat \<Rightarrow> nat" where
  "daily_block_count daily_hours min_blocks =
     max min_blocks (nat (round_half_even (daily_hours * 60 / 15)))"

definition blocks_per_start :: "nat \<Rightarrow> nat \<Rightarrow> nat \<Rightarrow> nat" where
  "blocks_per_start min_blocks daily_blocks k =
     (let b = max min_blocks (nat (round_half_even (of_nat daily_blocks / of_nat k))) in
      if b * k < daily_blocks then b + 1 else b)"

text \<open>One round of the loop over the number of starts: its merged windows, if it yields any.\<close>

definition daily_round ::
  "source_order \<Rightarrow> scored_block list \<Rightarrow> rat \<Rightarrow> int \<Rightarrow> int \<Rightarrow> load_strategy \<Rightarrow> rat \<Rightarrow> nat
     \<Rightarrow> plan_window list option" where
  "daily_round order eligible daily_hours min_cycle min_pause strategy nominal_w k =
     (let min_blocks = whole_blocks min_cycle;
          needed = blocks_per_start min_blocks (daily_block_count daily_hours min_blocks) k
      in if of_nat needed * 15 / 60 < elapsed_s min_cycle 0 / 3600 then None
         else map_option (merge_windows order nominal_w min_pause (daily_hours + 1/100))
                (place_windows order eligible needed (whole_blocks min_pause) strategy nominal_w k 0))"

definition daily_score :: "plan_window list \<Rightarrow> rat" where
  "daily_score ws = plan_total ws - start_count_penalty * of_nat (length ws)"

definition plan_daily_cleaning_windows ::
  "source_order \<Rightarrow> scored_block list \<Rightarrow> rat \<Rightarrow> int \<Rightarrow> int \<Rightarrow> int \<Rightarrow> time \<Rightarrow> time \<Rightarrow> time \<Rightarrow> load_strategy \<Rightarrow> rat
     \<Rightarrow> plan_window list" where
  "plan_daily_cleaning_windows order scored daily_hours min_cycle min_pause max_starts earliest latest now
       strategy nominal_w =
     (if scored = [] \<or> daily_hours \<le> 0 \<or> max_starts \<le> 0 then []
      else let eligible = eligible_blocks scored earliest latest now;
               rounds = List.map_filter (daily_round order eligible daily_hours min_cycle min_pause strategy nominal_w)
                 [1..<Suc (nat max_starts)]
           in case running_best daily_score rounds of
                Some ws \<Rightarrow> ws
              | None \<Rightarrow> (let min_blocks = whole_blocks min_cycle;
                    needed = max min_blocks (min (daily_block_count daily_hours min_blocks) (length eligible))
                  in case local_best order eligible [0..<Suc (length eligible) - needed] needed strategy nominal_w of
                       None \<Rightarrow> [] | Some w \<Rightarrow> [w]))"

subsection \<open>The search returns a best plan\<close>

definition spaced :: "int \<Rightarrow> plan_window list \<Rightarrow> bool" where
  "spaced sep ws \<longleftrightarrow> successively (\<lambda>v w. pw_end v + sep \<le> pw_start w) ws"

lemma spaced_Nil [simp]: "spaced sep []"
  by (simp add: spaced_def)

lemma spaced_snoc [simp]: "spaced sep (ws @ [w]) \<longleftrightarrow> spaced sep ws \<and> compatible sep ws w"
  by (auto simp: spaced_def compatible_def successively_append_iff)

lemma spaced_prefix: "spaced sep (ws @ vs) \<Longrightarrow> spaced sep ws"
  by (simp add: spaced_def successively_append_iff)

text \<open>The plans that extend \<open>chosen\<close> by a subsequence of the remaining candidates.\<close>

definition plans :: "int \<Rightarrow> nat \<Rightarrow> plan_window list \<Rightarrow> plan_window list \<Rightarrow> plan_window list set" where
  "plans sep n chosen cs =
     {chosen @ ps | ps. subseq ps cs \<and> length (chosen @ ps) = n \<and> spaced sep (chosen @ ps)}"

lemma plans_complete: "length chosen = n \<Longrightarrow> spaced sep chosen \<Longrightarrow> plans sep n chosen cs = {chosen}"
  by (auto simp: plans_def)

lemma plans_too_few: "length chosen \<noteq> n \<Longrightarrow> cs = [] \<or> length cs < n - length chosen \<Longrightarrow> plans sep n chosen cs = {}"
  by (auto simp: plans_def dest!: list_emb_length)

lemma plans_Nil: "length chosen \<noteq> n \<Longrightarrow> plans sep n chosen [] = {}"
  by (auto simp: plans_def)

lemma subseq_Cons_cases: "subseq ps (c # cs) \<longleftrightarrow> subseq ps cs \<or> (\<exists>qs. ps = c # qs \<and> subseq qs cs)"
proof
  assume "subseq ps (c # cs)"
  then show "subseq ps cs \<or> (\<exists>qs. ps = c # qs \<and> subseq qs cs)"
    by (cases rule: list_emb.cases) auto
qed auto

lemma plans_Cons:
  "plans sep n chosen (c # cs) =
     (if compatible sep chosen c then plans sep n (chosen @ [c]) cs else {}) \<union> plans sep n chosen cs"
proof -
  have taken: "compatible sep chosen c" if "spaced sep (chosen @ c # qs)" for qs
    using that spaced_prefix [of sep "chosen @ [c]" qs] by simp
  have "plans sep n chosen (c # cs) =
      {chosen @ c # qs | qs. subseq qs cs \<and> length (chosen @ c # qs) = n \<and> spaced sep (chosen @ c # qs)}
      \<union> plans sep n chosen cs"
    unfolding plans_def subseq_Cons_cases by blast
  also have "{chosen @ c # qs | qs. subseq qs cs \<and> length (chosen @ c # qs) = n \<and> spaced sep (chosen @ c # qs)}
      = (if compatible sep chosen c then plans sep n (chosen @ [c]) cs else {})"
    using taken by (auto simp: plans_def)
  finally show ?thesis .
qed

lemma search_folds:
  "length chosen \<le> n \<Longrightarrow> spaced sep chosen \<Longrightarrow>
     \<exists>L. set L = plans sep n chosen cs \<and> backtrack sep n cs chosen best = foldl (keep_better plan_total) best L"
  "length chosen < n \<Longrightarrow> spaced sep chosen \<Longrightarrow>
     \<exists>L. set L = plans sep n chosen cs \<and> try_each sep n cs chosen best = foldl (keep_better plan_total) best L"
proof (induction sep n cs chosen best and sep n cs chosen best rule: backtrack_try_each.induct)
  case (1 sep n cs chosen best)
  consider (full) "length chosen = n" | (few) "length chosen \<noteq> n" "cs = [] \<or> length cs < n - length chosen"
    | (search) "length chosen \<noteq> n" "\<not> (cs = [] \<or> length cs < n - length chosen)" by blast
  then show ?case
  proof cases
    case full
    then show ?thesis
      using plans_complete [OF full "1.prems"(2)] by (intro exI [of _ "[chosen]"]) (simp add: backtrack.simps)
  next
    case few
    then show ?thesis
      using plans_too_few [OF few] by (intro exI [of _ "[]"]) (simp add: backtrack.simps)
  next
    case search
    then have "length chosen < n" using "1.prems"(1) by simp
    from "1.IH" [OF search this "1.prems"(2)] show ?thesis
      using search by (simp add: backtrack.simps)
  qed
next
  case (2 sep n chosen best)
  then show ?case using plans_Nil by (intro exI [of _ "[]"]) simp
next
  case (3 sep n c cs chosen best)
  show ?case
  proof (cases "compatible sep chosen c")
    case True
    from "3.IH"(1) [OF True] "3.prems" True obtain L1 where
      L1: "set L1 = plans sep n (chosen @ [c]) cs"
        "backtrack sep n cs (chosen @ [c]) best = foldl (keep_better plan_total) best L1" by auto
    from "3.IH"(2) [OF "3.prems"] True L1(2) obtain L2 where
      L2: "set L2 = plans sep n chosen cs"
        "try_each sep n cs chosen (backtrack sep n cs (chosen @ [c]) best)
           = foldl (keep_better plan_total) (foldl (keep_better plan_total) best L1) L2" by auto
    show ?thesis
      using L1(1) L2 True by (intro exI [of _ "L1 @ L2"]) (simp add: plans_Cons)
  next
    case False
    from "3.IH"(2) [OF "3.prems"] False show ?thesis by (simp add: plans_Cons)
  qed
qed

lemma enumerate_is_best:
  assumes "0 < n"
  shows "case enumerate_fixed_cycle_plans cs n sep of
      [] \<Rightarrow> plans sep n [] cs = {}
    | _ \<Rightarrow> enumerate_fixed_cycle_plans cs n sep \<in> plans sep n [] cs
        \<and> (\<forall>ps \<in> plans sep n [] cs. plan_total ps \<le> plan_total (enumerate_fixed_cycle_plans cs n sep))"
proof -
  obtain L where L: "set L = plans sep n [] cs" "backtrack sep n cs [] None = running_best plan_total L"
    using search_folds(1) [of "[]" n sep cs None] by (auto simp: running_best_def)
  have nonempty: "ps \<noteq> []" if "ps \<in> plans sep n [] cs" for ps
    using that assms by (auto simp: plans_def)
  show ?thesis
  proof (cases "running_best plan_total L")
    case None
    then have "L = []" by (simp add: running.pick_none)
    then show ?thesis using L None by (simp add: enumerate_fixed_cycle_plans_def)
  next
    case (Some ps)
    then have "ps \<in> plans sep n [] cs" "\<forall>qs \<in> plans sep n [] cs. plan_total qs \<le> plan_total ps"
      using running.pick_in [OF Some] running.pick_best [OF Some] L(1) by (auto simp: not_less)
    then show ?thesis
      using Some L(2) nonempty by (auto simp: enumerate_fixed_cycle_plans_def split: list.splits)
  qed
qed

lemma enumerate_some:
  assumes "0 < n" "plan = enumerate_fixed_cycle_plans cs n sep" "plan \<noteq> []"
  shows "plan \<in> plans sep n [] cs" "\<forall>ps \<in> plans sep n [] cs. plan_total ps \<le> plan_total plan"
  using enumerate_is_best [OF assms(1), of sep cs] assms(2,3) by (auto split: list.splits)

lemma enumerate_none:
  assumes "0 < n" "enumerate_fixed_cycle_plans cs n sep = []"
  shows "plans sep n [] cs = {}"
  using enumerate_is_best [OF assms(1), of sep cs] assms(2) by simp

lemma plans_members: "ps \<in> plans sep n [] cs \<Longrightarrow> length ps = n \<and> spaced sep ps \<and> set ps \<subseteq> set cs"
  by (auto simp: plans_def dest: list_emb_set)

subsection \<open>Windows and candidates\<close>

definition ascending :: "scored_block list \<Rightarrow> bool" where
  "ascending bs \<longleftrightarrow> sorted_wrt (\<lambda>a b. block_time a < block_time b) bs"

lemma ascending_filter: "ascending bs \<Longrightarrow> ascending (filter P bs)"
  by (simp add: ascending_def sorted_wrt_filter)

lemma eligible_ascending: "ascending bs \<Longrightarrow> ascending (eligible_blocks bs earliest latest now)"
  by (simp add: eligible_blocks_def Let_def ascending_filter)

lemma eligible_in_span:
  "b \<in> set (eligible_blocks bs earliest latest now) \<Longrightarrow> b \<in> set bs \<and> earliest \<le> block_time b \<and> block_time b < latest"
  by (auto simp: eligible_blocks_def Let_def split: if_splits)

lemma window_blocks [simp]: "pw_blocks (window_from_blocks order nominal_w bs) = bs"
  by (simp add: window_from_blocks_def Let_def)

lemma window_start [simp]: "pw_start (window_from_blocks order nominal_w bs) = block_time (hd bs)"
  by (simp add: window_from_blocks_def Let_def)

lemma window_end [simp]: "pw_end (window_from_blocks order nominal_w bs) = block_time (last bs) + block_us"
  by (simp add: window_from_blocks_def Let_def)

text \<open>What the search finds at an index: the blocks from there on.\<close>

lemma find_window_eq:
  assumes "find_window_at order bs i needed strategy nominal_w = Some w"
  shows "i + needed \<le> length bs \<and> w = window_from_blocks order nominal_w (take needed (drop i bs))
    \<and> \<not> too_dark strategy nominal_w (pw_blocks w)"
  using assms by (auto simp: find_window_at_def Let_def split: if_splits)

lemma find_window_blocks:
  assumes "find_window_at order bs i needed strategy nominal_w = Some w" "0 < needed"
  shows "length (pw_blocks w) = needed" "set (pw_blocks w) \<subseteq> set bs" "pw_start w = block_time (bs ! i)"
    "pw_end w = block_time (bs ! (i + needed - 1)) + block_us"
proof -
  have eq: "i + needed \<le> length bs" "w = window_from_blocks order nominal_w (take needed (drop i bs))"
    using find_window_eq [OF assms(1)] by simp_all
  then show "length (pw_blocks w) = needed" by simp
  show "set (pw_blocks w) \<subseteq> set bs"
    using eq(2) by (auto dest!: in_set_takeD in_set_dropD)
  show "pw_start w = block_time (bs ! i)"
    using eq assms(2) by (simp add: hd_drop_conv_nth)
  have "last (take needed (drop i bs)) = take needed (drop i bs) ! (needed - 1)"
    using eq(1) assms(2) by (subst last_conv_nth) auto
  then show "pw_end w = block_time (bs ! (i + needed - 1)) + block_us"
    using eq assms(2) by (simp add: add.commute)
qed

lemma ascending_nth: "ascending bs \<Longrightarrow> i < j \<Longrightarrow> j < length bs \<Longrightarrow> block_time (bs ! i) < block_time (bs ! j)"
  unfolding ascending_def by (rule sorted_wrt_nth_less)

lemma ascending_nth_le:
  assumes "ascending bs" "i \<le> j" "j < length bs"
  shows "block_time (bs ! i) \<le> block_time (bs ! j)"
  using ascending_nth [OF assms(1), of i j] assms(2,3) by (cases "i = j") simp_all

lemma find_window_positive:
  assumes "find_window_at order bs i needed strategy nominal_w = Some w" "0 < needed" "ascending bs"
  shows "pw_start w < pw_end w"
proof -
  have "i + needed \<le> length bs" using find_window_eq [OF assms(1)] by simp
  then have "block_time (bs ! i) \<le> block_time (bs ! (i + needed - 1))"
    using assms(2,3) by (intro ascending_nth_le) auto
  then show ?thesis
    using find_window_blocks(3,4) [OF assms(1,2)] by (simp add: block_us_def us_per_s_def)
qed

text \<open>The windows the search can find, as a set.\<close>

definition found :: "source_order \<Rightarrow> scored_block list \<Rightarrow> nat \<Rightarrow> load_strategy \<Rightarrow> rat \<Rightarrow> plan_window set" where
  "found order bs needed strategy nominal_w =
     {w. \<exists>i. find_window_at order bs i needed strategy nominal_w = Some w}"

lemma found_start_inj:
  assumes "ascending bs" "0 < needed" "v \<in> found order bs needed strategy nominal_w"
    "w \<in> found order bs needed strategy nominal_w" "pw_start v = pw_start w"
  shows "v = w"
proof -
  obtain i j where i: "find_window_at order bs i needed strategy nominal_w = Some v"
    and j: "find_window_at order bs j needed strategy nominal_w = Some w"
    using assms(3,4) by (auto simp: found_def)
  have "i < length bs" "j < length bs"
    using find_window_eq [OF i] find_window_eq [OF j] assms(2) by auto
  then have "i = j"
    using assms(5) find_window_blocks(3) [OF i assms(2)] find_window_blocks(3) [OF j assms(2)]
      ascending_nth [OF assms(1)] by (metis less_irrefl nat_neq_iff)
  then show ?thesis using i j by simp
qed

lemma add_candidate_sub: "w \<in> set (add_candidate cs v) \<Longrightarrow> w \<in> set cs \<or> v = Some w"
  by (auto simp: add_candidate_def split: option.splits if_splits)

lemma candidates_sub: "w \<in> set (foldl add_candidate cs ws) \<Longrightarrow> w \<in> set cs \<or> Some w \<in> set ws"
  by (induction ws arbitrary: cs) (auto dest: add_candidate_sub)

lemma add_candidate_keeps: "w \<in> set cs \<Longrightarrow> w \<in> set (add_candidate cs v)"
  by (auto simp: add_candidate_def split: option.splits)

lemma candidates_keep: "w \<in> set cs \<Longrightarrow> w \<in> set (foldl add_candidate cs ws)"
  by (induction ws arbitrary: cs) (auto intro: add_candidate_keeps)

lemma add_candidate_key:
  "\<exists>c \<in> set (add_candidate cs (Some w)). pw_start c = pw_start w \<and> pw_end c = pw_end w"
  by (auto simp: add_candidate_def)

lemma candidates_key:
  "Some w \<in> set ws \<Longrightarrow> \<exists>c \<in> set (foldl add_candidate cs ws). pw_start c = pw_start w \<and> pw_end c = pw_end w"
proof (induction ws arbitrary: cs)
  case (Cons v ws)
  show ?case
  proof (cases "v = Some w")
    case True
    then obtain c where "c \<in> set (add_candidate cs v)" "pw_start c = pw_start w" "pw_end c = pw_end w"
      using add_candidate_key by blast
    then show ?thesis using candidates_keep by (metis foldl_Cons)
  next
    case False
    then show ?thesis using Cons by simp
  qed
qed simp

lemma cycle_candidates_found:
  "w \<in> set (cycle_candidates order bs needed strategy nominal_w) \<Longrightarrow> w \<in> found order bs needed strategy nominal_w"
  using candidates_sub [of w "[]"] by (fastforce simp: cycle_candidates_def found_def)

lemma found_are_candidates:
  assumes "ascending bs" "0 < needed"
  shows "set (cycle_candidates order bs needed strategy nominal_w) = found order bs needed strategy nominal_w"
proof
  show "set (cycle_candidates order bs needed strategy nominal_w) \<subseteq> found order bs needed strategy nominal_w"
    using cycle_candidates_found by blast
  show "found order bs needed strategy nominal_w \<subseteq> set (cycle_candidates order bs needed strategy nominal_w)"
  proof
    fix w assume w: "w \<in> found order bs needed strategy nominal_w"
    then obtain i where i: "find_window_at order bs i needed strategy nominal_w = Some w"
      by (auto simp: found_def)
    have "i + needed \<le> length bs" using find_window_eq [OF i] by (rule conjunct1)
    then have "i < Suc (length bs) - needed" by arith
    then have "Some w \<in> set (map (\<lambda>i. find_window_at order bs i needed strategy nominal_w)
        [0..<Suc (length bs) - needed])" using i by force
    then obtain c where c: "c \<in> set (cycle_candidates order bs needed strategy nominal_w)" "pw_start c = pw_start w"
      unfolding cycle_candidates_def using candidates_key by blast
    then have "c = w" using found_start_inj [OF assms] cycle_candidates_found w by blast
    then show "w \<in> set (cycle_candidates order bs needed strategy nominal_w)" using c by simp
  qed
qed

lemma keyed_subset_imp_subseq:
  fixes f :: "'a \<Rightarrow> 'k::linorder"
  assumes "set xs \<subseteq> set ys" "sorted_wrt (\<lambda>a b. f a < f b) xs" "sorted_wrt (\<lambda>a b. f a \<le> f b) ys"
  shows "subseq xs ys"
  using assms
proof (induction xs arbitrary: ys)
  case (Cons x xs)
  from Cons.prems(1) obtain us vs where ys: "ys = us @ x # vs"
    by (metis in_set_conv_decomp list.set_intros(1) subset_iff)
  have "set xs \<subseteq> set vs"
  proof
    fix y assume y: "y \<in> set xs"
    then have "f x < f y" using Cons.prems(2) by simp
    moreover have "f u \<le> f x" if "u \<in> set us" for u
      using Cons.prems(3) that unfolding ys by (simp add: sorted_wrt_append)
    ultimately have "y \<notin> set us" "y \<noteq> x" by (auto simp: leD)
    then show "y \<in> set vs" using y Cons.prems(1) unfolding ys by auto
  qed
  moreover have "sorted_wrt (\<lambda>a b. f a < f b) xs" using Cons.prems(2) by simp
  moreover have "sorted_wrt (\<lambda>a b. f a \<le> f b) vs"
    using Cons.prems(3) unfolding ys by (simp add: sorted_wrt_append)
  ultimately have "subseq xs vs" by (rule Cons.IH)
  then show ?case unfolding ys by (simp add: subseq_drop_many)
qed simp

lemma spaced_starts_ascend:
  assumes "spaced sep ws" "0 \<le> sep" "\<forall>w \<in> set ws. pw_start w < pw_end w"
  shows "sorted_wrt (\<lambda>v w. pw_start v < pw_start w) ws"
  using assms
proof (induction ws)
  case (Cons v ws)
  have tail: "sorted_wrt (\<lambda>v w. pw_start v < pw_start w) ws"
    using Cons by (auto simp: spaced_def successively_Cons)
  show ?case
  proof (cases ws)
    case (Cons w us)
    have "pw_start v < pw_start w"
      using Cons.prems Cons by (auto simp: spaced_def)
    then show ?thesis using tail Cons by auto
  qed simp
qed simp

lemma sort_key_sorted_wrt: "sorted_wrt (\<lambda>a b. f a \<le> f b) (sort_key f xs)"
  using sorted_sort_key [of f xs] by (simp add: sorted_map)

lemma found_plans:
  assumes "ascending bs" "0 < needed" "0 \<le> sep"
    and "length ws = n" "spaced sep ws" "set ws \<subseteq> found order bs needed strategy nominal_w"
  shows "ws \<in> plans sep n [] (sort_key pw_start (cycle_candidates order bs needed strategy nominal_w))"
proof -
  have "\<forall>w \<in> set ws. pw_start w < pw_end w"
    using assms(6) find_window_positive assms(1,2) by (fastforce simp: found_def)
  then have "sorted_wrt (\<lambda>v w. pw_start v < pw_start w) ws"
    using spaced_starts_ascend assms(3,5) by blast
  then have "subseq ws (sort_key pw_start (cycle_candidates order bs needed strategy nominal_w))"
    using assms(6) found_are_candidates [OF assms(1,2)]
    by (intro keyed_subset_imp_subseq [where f = pw_start] sort_key_sorted_wrt) auto
  then show ?thesis using assms(4,5) by (simp add: plans_def)
qed

lemma spaced_fallback_spaced:
  assumes "spaced sep acc" "set acc \<subseteq> found order bs needed strategy nominal_w"
  shows "spaced sep (spaced_fallback order bs needed strategy nominal_w n sep step idx acc)
    \<and> set (spaced_fallback order bs needed strategy nominal_w n sep step idx acc)
        \<subseteq> found order bs needed strategy nominal_w"
  using assms
proof (induction order bs needed strategy nominal_w n sep step idx acc rule: spaced_fallback.induct)
  case (1 order bs needed strategy nominal_w n sep step idx acc)
  show ?case
  proof (cases "length acc < n \<and> idx + needed \<le> length bs")
    case True
    define acc' where "acc' = (case find_window_at order bs idx needed strategy nominal_w of
        None \<Rightarrow> acc | Some w \<Rightarrow> if compatible sep acc w then acc @ [w] else acc)"
    have "spaced sep acc' \<and> set acc' \<subseteq> found order bs needed strategy nominal_w"
      using "1.prems" by (auto simp: acc'_def found_def split: option.splits)
    then have "spaced sep (spaced_fallback order bs needed strategy nominal_w n sep step (idx + max 1 step) acc')
      \<and> set (spaced_fallback order bs needed strategy nominal_w n sep step (idx + max 1 step) acc')
         \<subseteq> found order bs needed strategy nominal_w"
      using "1.IH" [OF True, folded acc'_def] by blast
    moreover have "spaced_fallback order bs needed strategy nominal_w n sep step idx acc =
        spaced_fallback order bs needed strategy nominal_w n sep step (idx + max 1 step) acc'"
      using True by (subst spaced_fallback.simps) (simp only: if_True acc'_def simp_thms)
    ultimately show ?thesis by simp
  next
    case False
    then have "spaced_fallback order bs needed strategy nominal_w n sep step idx acc = acc"
      by (subst spaced_fallback.simps) (simp only: if_False)
    then show ?thesis using "1.prems" by simp
  qed
qed

lemma blocks_per_cycle_pos: "0 < blocks_per_cycle d"
  by (auto simp: blocks_per_cycle_def Let_def)

text \<open>On an ascending horizon the evenly spaced fallback never finds what the search missed.\<close>

lemma plan_is_search:
  assumes "ascending scored" "0 \<le> sep" "scored \<noteq> []" "0 < cycles" "0 < duration"
  shows "plan_fixed_filter_cycles order scored cycles duration sep earliest latest now strategy nominal_w =
    enumerate_fixed_cycle_plans (sort_key pw_start (cycle_candidates order
      (eligible_blocks scored earliest latest now) (blocks_per_cycle duration) strategy nominal_w)) (nat cycles) sep"
proof -
  define bs where "bs = eligible_blocks scored earliest latest now"
  define needed where "needed = blocks_per_cycle duration"
  define cs where "cs = cycle_candidates order bs needed strategy nominal_w"
  have asc: "ascending bs" using assms(1) by (simp add: bs_def eligible_ascending)
  have pos: "0 < needed" by (simp add: needed_def blocks_per_cycle_pos)
  have n: "0 < nat cycles" using assms(4) by simp
  have dead: "length (spaced_fallback order bs needed strategy nominal_w (nat cycles) sep step 0 []) \<noteq> nat cycles"
    if "enumerate_fixed_cycle_plans (sort_key pw_start cs) (nat cycles) sep = []" for step
  proof
    assume "length (spaced_fallback order bs needed strategy nominal_w (nat cycles) sep step 0 []) = nat cycles"
    moreover have "spaced sep (spaced_fallback order bs needed strategy nominal_w (nat cycles) sep step 0 [])
      \<and> set (spaced_fallback order bs needed strategy nominal_w (nat cycles) sep step 0 [])
         \<subseteq> found order bs needed strategy nominal_w"
      by (rule spaced_fallback_spaced) simp_all
    ultimately have "spaced_fallback order bs needed strategy nominal_w (nat cycles) sep step 0 []
        \<in> plans sep (nat cycles) [] (sort_key pw_start cs)"
      unfolding cs_def by (intro found_plans asc pos assms(2)) simp_all
    then show False using enumerate_none [OF n that] by simp
  qed
  have none: "enumerate_fixed_cycle_plans [] (nat cycles) sep = []"
    using n by (simp add: enumerate_fixed_cycle_plans_def backtrack.simps)
  show ?thesis
    unfolding plan_fixed_filter_cycles_def Let_def bs_def [symmetric] needed_def [symmetric] cs_def [symmetric]
    using assms(3-5) dead none by auto
qed

text \<open>C27. On an ascending horizon the planner of fixed filter cycles returns a plan whenever one exists:
  as many of the possible windows as asked for, each keeping the separation from the one before,
  and with a total score no other such plan exceeds.\<close>

theorem filter_cycles_best:
  assumes "ascending scored" "0 \<le> sep" "0 < cycles" "0 < duration"
    and "plan = plan_fixed_filter_cycles order scored cycles duration sep earliest latest now strategy nominal_w"
    and "windows = found order (eligible_blocks scored earliest latest now) (blocks_per_cycle duration) strategy nominal_w"
  shows "(plan \<noteq> [] \<longrightarrow> length plan = nat cycles \<and> spaced sep plan \<and> set plan \<subseteq> windows)
    \<and> (\<forall>ws. length ws = nat cycles \<and> spaced sep ws \<and> set ws \<subseteq> windows
          \<longrightarrow> plan \<noteq> [] \<and> plan_total ws \<le> plan_total plan)"
proof (cases "scored = []")
  case True
  have "windows = {}"
    using True blocks_per_cycle_pos [of duration]
    by (auto simp: assms(6) found_def eligible_blocks_def find_window_at_def)
  then show ?thesis using True assms(3,5) by (auto simp: plan_fixed_filter_cycles_def)
next
  case False
  define cs where "cs = sort_key pw_start (cycle_candidates order
      (eligible_blocks scored earliest latest now) (blocks_per_cycle duration) strategy nominal_w)"
  have plan: "plan = enumerate_fixed_cycle_plans cs (nat cycles) sep"
    unfolding assms(5) cs_def by (rule plan_is_search [OF assms(1,2) False assms(3,4)])
  have n: "0 < nat cycles" using assms(3) by simp
  have asc: "ascending (eligible_blocks scored earliest latest now)"
    using assms(1) by (rule eligible_ascending)
  have ws: "ws \<in> plans sep (nat cycles) [] cs"
    if "length ws = nat cycles" "spaced sep ws" "set ws \<subseteq> windows" for ws
    unfolding cs_def using that unfolding assms(6)
    by (intro found_plans [OF asc blocks_per_cycle_pos assms(2)])
  have sub: "set cs \<subseteq> windows"
    unfolding cs_def assms(6) using cycle_candidates_found by auto
  have some: "length plan = nat cycles \<and> spaced sep plan \<and> set plan \<subseteq> windows" if "plan \<noteq> []"
    using plans_members [OF enumerate_some(1) [OF n plan that]] sub by blast
  have best: "plan \<noteq> [] \<and> plan_total vs \<le> plan_total plan"
    if "length vs = nat cycles" "spaced sep vs" "set vs \<subseteq> windows" for vs
  proof
    show "plan \<noteq> []" using enumerate_none [OF n, of cs sep] plan ws [OF that] by auto
    then show "plan_total vs \<le> plan_total plan" using enumerate_some(2) [OF n plan] ws [OF that] by blast
  qed
  show ?thesis
  proof (intro conjI impI allI)
    show "length plan = nat cycles" "spaced sep plan" "set plan \<subseteq> windows" if "plan \<noteq> []"
      using some [OF that] by simp_all
    fix vs assume "length vs = nat cycles \<and> spaced sep vs \<and> set vs \<subseteq> windows"
    then show "plan \<noteq> []" "plan_total vs \<le> plan_total plan" using best [of vs] by simp_all
  qed
qed

subsection \<open>The greedy plan\<close>

definition plan_blocks :: "plan_window list \<Rightarrow> scored_block list" where
  "plan_blocks ws = concat (map pw_blocks ws)"

lemma merge_from_blocks:
  "plan_blocks (merge_from order nominal_w min_pause max_hours w ws) = pw_blocks w @ plan_blocks ws
    \<and> length (merge_from order nominal_w min_pause max_hours w ws) \<le> Suc (length ws)"
  by (induction order nominal_w min_pause max_hours w ws rule: merge_from.induct)
    (auto simp: plan_blocks_def)

lemma merge_windows_blocks:
  "plan_blocks (merge_windows order nominal_w min_pause max_hours ws) = plan_blocks ws
    \<and> length (merge_windows order nominal_w min_pause max_hours ws) \<le> length ws"
  using merge_from_blocks by (cases ws) (auto simp: plan_blocks_def)

lemma in_map_filter: "x \<in> set (List.map_filter f xs) \<longleftrightarrow> (\<exists>i \<in> set xs. f i = Some x)"
  by (force simp: map_filter_def)

lemma local_best_found:
  assumes "local_best order bs idxs needed strategy nominal_w = Some w"
  shows "\<exists>i \<in> set idxs. find_window_at order bs i needed strategy nominal_w = Some w"
proof -
  obtain s where "running_best fst (List.map_filter (\<lambda>i.
       case find_window_at order bs i needed strategy nominal_w of
         None \<Rightarrow> None
       | Some w \<Rightarrow> map_option (\<lambda>s. (s, w)) (block_score_for_strategy strategy nominal_w (pw_blocks w))) idxs)
      = Some (s, w)"
    using assms by (auto simp: local_best_def)
  from running.pick_in [OF this] obtain i where "i \<in> set idxs"
    "find_window_at order bs i needed strategy nominal_w = Some w"
    by (auto simp: map_filter_def split: option.splits)
  then show ?thesis by blast
qed

lemma index_of_nth:
  assumes "ascending bs" "i < length bs"
  shows "index_of bs (bs ! i) = i"
proof -
  have "takeWhile (\<lambda>x. x \<noteq> bs ! i) bs = take i bs"
  proof (rule takeWhile_eq_take_P_nth)
    fix j assume "j < i" "j < length bs"
    then show "bs ! j \<noteq> bs ! i" using ascending_nth [OF assms(1) \<open>j < i\<close> assms(2)] by auto
  next
    show "\<not> bs ! i \<noteq> bs ! i" by simp
  qed
  then show ?thesis using assms(2) by (simp add: index_of_def)
qed

lemma ascending_append:
  "ascending (xs @ ys) \<longleftrightarrow> ascending xs \<and> ascending ys \<and> (\<forall>x \<in> set xs. \<forall>y \<in> set ys. block_time x < block_time y)"
  by (simp add: ascending_def sorted_wrt_append)

lemma ascending_drop_take: "ascending bs \<Longrightarrow> ascending (take k (drop i bs))"
  by (simp add: ascending_def sorted_wrt_take sorted_wrt_drop)

lemma ascending_drop: "ascending bs \<Longrightarrow> ascending (drop i bs)"
  by (simp add: ascending_def sorted_wrt_drop)

lemma place_windows_ascend:
  assumes "ascending bs" "0 < needed"
  shows "place_windows order bs needed pause strategy nominal_w k from_idx = Some ws \<Longrightarrow>
     length ws = k \<and> ascending (plan_blocks ws) \<and> set (plan_blocks ws) \<subseteq> set (drop from_idx bs)"
proof (induction k arbitrary: from_idx ws)
  case 0
  then show ?case by (simp add: plan_blocks_def ascending_def)
next
  case (Suc k)
  obtain w vs where w: "local_best order bs [from_idx..<Suc (length bs) - needed] needed strategy nominal_w = Some w"
    and vs: "place_windows order bs needed pause strategy nominal_w k
        (index_of bs (last (pw_blocks w)) + pause + 1) = Some vs"
    and ws: "ws = w # vs"
    using Suc.prems by (auto split: option.splits)
  obtain i where i: "from_idx \<le> i" "find_window_at order bs i needed strategy nominal_w = Some w"
    using local_best_found [OF w] by auto
  have len: "i + needed \<le> length bs" and wb: "pw_blocks w = take needed (drop i bs)"
    using find_window_eq [OF i(2)] by simp_all
  have "last (pw_blocks w) = bs ! (i + needed - 1)"
    unfolding wb using len assms(2) by (subst last_conv_nth) auto
  then have next_idx: "index_of bs (last (pw_blocks w)) = i + needed - 1"
    using index_of_nth [OF assms(1)] len assms(2) by simp
  have IH: "length vs = k" "ascending (plan_blocks vs)"
    "set (plan_blocks vs) \<subseteq> set (drop (index_of bs (last (pw_blocks w)) + pause + 1) bs)"
    using Suc.IH [OF vs] by simp_all
  have later: "set (plan_blocks vs) \<subseteq> set (drop needed (drop i bs))"
    using IH(3) assms(2) set_drop_subset_set_drop [of "i + needed" "index_of bs (last (pw_blocks w)) + pause + 1" bs]
    unfolding next_idx by (auto simp: add.commute)
  have asc: "ascending (take needed (drop i bs) @ drop needed (drop i bs))"
    by (simp only: append_take_drop_id ascending_drop [OF assms(1)])
  have "ascending (plan_blocks ws)"
    using asc IH(2) later unfolding ws ascending_append by (auto simp: plan_blocks_def wb ascending_append)
  moreover have "set (plan_blocks ws) \<subseteq> set (drop from_idx bs)"
    using later set_drop_subset_set_drop [OF i(1), of bs]
      set_drop_subset_set_drop [of i "needed + i" bs] unfolding ws
    by (auto simp: plan_blocks_def wb dest: in_set_takeD)
  ultimately show ?case using IH(1) ws by simp
qed

lemma blocks_per_start_pos: "0 < min_blocks \<Longrightarrow> 0 < blocks_per_start min_blocks daily_blocks k"
  by (simp add: blocks_per_start_def Let_def less_max_iff_disj)

lemma whole_blocks_pos: "0 < whole_blocks d"
  by (simp add: whole_blocks_def)

definition orderly :: "nat \<Rightarrow> scored_block list \<Rightarrow> plan_window list \<Rightarrow> bool" where
  "orderly n bs ws \<longleftrightarrow> length ws \<le> n \<and> ascending (plan_blocks ws) \<and> set (plan_blocks ws) \<subseteq> set bs"

lemma daily_round_orderly:
  assumes "ascending bs" "daily_round order bs daily_hours min_cycle min_pause strategy nominal_w k = Some ws"
  shows "orderly k bs ws"
proof -
  obtain vs where vs: "place_windows order bs
      (blocks_per_start (whole_blocks min_cycle) (daily_block_count daily_hours (whole_blocks min_cycle)) k)
      (whole_blocks min_pause) strategy nominal_w k 0 = Some vs"
    and ws: "ws = merge_windows order nominal_w min_pause (daily_hours + 1/100) vs"
    using assms(2) by (auto simp: daily_round_def Let_def split: if_splits)
  have "length vs = k" "ascending (plan_blocks vs)" "set (plan_blocks vs) \<subseteq> set bs"
    using place_windows_ascend [OF assms(1) blocks_per_start_pos [OF whole_blocks_pos] vs] by simp_all
  then show ?thesis
    using merge_windows_blocks [of order nominal_w min_pause "daily_hours + 1/100" vs]
    unfolding ws orderly_def by simp
qed

text \<open>The daily cleaning plan is orderly.\<close>

theorem daily_plan_orderly:
  assumes "ascending scored"
    and "plan = plan_daily_cleaning_windows order scored daily_hours min_cycle min_pause max_starts
       earliest latest now strategy nominal_w"
  shows "length plan \<le> nat max_starts \<and> ascending (plan_blocks plan)
    \<and> (\<forall>b \<in> set (plan_blocks plan). b \<in> set scored \<and> earliest \<le> block_time b \<and> block_time b < latest)"
proof (cases "scored = [] \<or> daily_hours \<le> 0 \<or> max_starts \<le> 0")
  case True
  then have "plan = []" unfolding assms(2) plan_daily_cleaning_windows_def by (simp only: if_True)
  then show ?thesis by (simp add: plan_blocks_def ascending_def)
next
  case False
  define bs where "bs = eligible_blocks scored earliest latest now"
  have asc: "ascending bs" unfolding bs_def using assms(1) by (rule eligible_ascending)
  define rounds where "rounds = List.map_filter (daily_round order bs daily_hours min_cycle min_pause
      strategy nominal_w) [1..<Suc (nat max_starts)]"
  define single where "single = (let min_blocks = whole_blocks min_cycle;
        needed = max min_blocks (min (daily_block_count daily_hours min_blocks) (length bs))
      in case local_best order bs [0..<Suc (length bs) - needed] needed strategy nominal_w of
           None \<Rightarrow> [] | Some w \<Rightarrow> [w])"
  have plan: "plan = (case running_best daily_score rounds of Some ws \<Rightarrow> ws | None \<Rightarrow> single)"
    unfolding assms(2) plan_daily_cleaning_windows_def bs_def [symmetric] Let_def
    using False by (simp only: if_False rounds_def single_def Let_def)
  have "orderly (nat max_starts) bs plan"
  proof (cases "running_best daily_score rounds")
    case (Some ws)
    then obtain k where "k \<in> set [1..<Suc (nat max_starts)]"
      "daily_round order bs daily_hours min_cycle min_pause strategy nominal_w k = Some ws"
      using running.pick_in [OF Some] unfolding rounds_def in_map_filter by blast
    then have "orderly k bs ws" "k \<le> nat max_starts" using daily_round_orderly [OF asc] by auto
    then show ?thesis using Some plan by (simp add: orderly_def)
  next
    case None
    show ?thesis
    proof (cases "plan = []")
      case True
      then show ?thesis by (simp add: orderly_def plan_blocks_def ascending_def)
    next
      case nonempty: False
      then obtain w needed where w: "plan = [w]"
        "local_best order bs [0..<Suc (length bs) - needed] needed strategy nominal_w = Some w"
        using plan None by (auto simp: single_def Let_def split: option.splits)
      then obtain i where "find_window_at order bs i needed strategy nominal_w = Some w"
        using local_best_found by blast
      then have "pw_blocks w = take needed (drop i bs)" using find_window_eq by fastforce
      then show ?thesis
        using ascending_drop_take [OF asc] False w(1)
        by (auto simp: orderly_def plan_blocks_def dest!: in_set_takeD in_set_dropD)
    qed
  qed
  then show ?thesis
    using eligible_in_span [of _ scored earliest latest now] by (auto simp: orderly_def bs_def)
qed

definition sample_block :: "time \<Rightarrow> horizon_block" where
  "sample_block t = \<lparr> hb_timestamp = t, hb_solar_forecast_w = 3000, hb_house_load_forecast_w = 500,
     hb_higher_priority_loads_w = 0, hb_available_surplus_w = 2500, hb_battery_soc_pct = Some 60,
     hb_spot_price_eur_kwh = Some (1/10), hb_all_in_price_eur_kwh = None, hb_export_value_sek_kwh = 1/2,
     hb_price_estimated = False, hb_forecast_confidence = 1/2 \<rparr>"

definition sample_scored :: "time \<Rightarrow> rat \<Rightarrow> scored_block" where
  "sample_scored t score = \<lparr> sb_block = sample_block t, sb_score = score, sb_solar_surplus_score = 0,
     sb_low_price_score = 0, sb_battery_availability_score = 0, sb_deadline_score = 0, sb_grid_import_penalty = 0,
     sb_battery_depletion_penalty = 0, sb_export_opportunity_penalty = 0, sb_expected_energy_source = SOLAR,
     sb_marginal_cost_sek_kwh = 1, sb_load_feasible = True \<rparr>"

theorem filter_cycles_best_witness:
  "let plan = plan_fixed_filter_cycles remdups [sample_scored 0 1, sample_scored block_us 2] 1 15 0 0 (2 * block_us) 0 SMART 1000;
       windows = found remdups (eligible_blocks [sample_scored 0 1, sample_scored block_us 2] 0 (2 * block_us) 0)
         (blocks_per_cycle 15) SMART 1000
   in (plan \<noteq> [] \<longrightarrow> length plan = nat 1 \<and> spaced 0 plan \<and> set plan \<subseteq> windows)
    \<and> (\<forall>ws. length ws = nat 1 \<and> spaced 0 ws \<and> set ws \<subseteq> windows \<longrightarrow> plan \<noteq> [] \<and> plan_total ws \<le> plan_total plan)"
  unfolding Let_def
  by (rule filter_cycles_best [OF _ _ _ _ refl refl])
    (simp_all add: ascending_def block_time_def sample_scored_def sample_block_def block_us_def us_per_s_def)

end
