(* ===== verification/Load_Planning.thy ===== *)
theory Load_Planning
  imports Load_Windows
begin

section \<open>The flexible load optimizer and the orchestrator of a site\<close>

text \<open>
  \<open>flexible_load/optimizer.py\<close>, \<open>flexible_load/orchestrator.py\<close>, \<open>flexible_load/ev_load.py\<close> and
  \<open>energy_optimizer/horizon.py\<close>. A \<open>planner\<close> holds what the code takes from the settings and
  from Python (\<open>eur_to_sek_rate\<close>, the iteration order of a set). The Swedish explanations are
  text built from the plan and are left out.
\<close>

subsection \<open>The optimizer\<close>

record planner =
  pl_rate :: rat
  pl_order :: source_order

record load_optimizer =
  lo_allow_battery :: bool
  lo_prefer_solar :: bool
  lo_min_battery_soc_pct :: rat
  lo_fallback_price_sek_kwh :: rat

definition score_horizon ::
  "planner \<Rightarrow> load_optimizer \<Rightarrow> flexible_load \<Rightarrow> horizon_block list \<Rightarrow> deadline_urgency \<Rightarrow> scored_block list" where
  "score_horizon pl lo load horizon urgency = map (\<lambda>b.
     score_block b load urgency
       (compute_block_load_cost (pl_rate pl) b (fl_nominal_power_w load) (lo_allow_battery lo)
          (lo_min_battery_soc_pct lo) (lo_fallback_price_sek_kwh lo) default_battery_cost_basis)
       (lo_allow_battery lo) (lo_min_battery_soc_pct lo) DEFAULT_WEIGHTS) horizon"

definition block_eligible :: "flexible_load \<Rightarrow> time \<Rightarrow> scored_block \<Rightarrow> bool" where
  "block_eligible load now s \<longleftrightarrow> fl_earliest_start load \<le> block_time s \<and> block_time s < fl_latest_finish load
     \<and> block_time s \<ge> now - block_us \<and> sb_load_feasible s"

text \<open>\<open>tuple(...) or scored\<close>: when nothing is eligible, everything is.\<close>

definition filter_eligible_blocks :: "scored_block list \<Rightarrow> flexible_load \<Rightarrow> time \<Rightarrow> scored_block list" where
  "filter_eligible_blocks scored load now =
     (let e = filter (block_eligible load now) scored in if e = [] then scored else e)"

definition window_score :: "load_strategy \<Rightarrow> scored_block list \<Rightarrow> rat" where
  "window_score strategy bs =
     (if strategy = CHEAPEST then - mean_of (map sb_marginal_cost_sek_kwh bs) else mean_of (map sb_score bs))"

definition candidate_window ::
  "planner \<Rightarrow> flexible_load \<Rightarrow> load_strategy \<Rightarrow> scored_block list \<Rightarrow> nat \<Rightarrow> nat \<Rightarrow> plan_window option" where
  "candidate_window pl load strategy scored start_idx n =
     (let bs = take n (drop start_idx scored) in
      if bs = [] \<or> too_dark strategy (fl_nominal_power_w load) bs then None
      else Some ((window_from_blocks (pl_order pl) (fl_nominal_power_w load) bs)
        \<lparr> pw_expected_energy_kwh := fl_nominal_power_w load / 1000 * (of_nat n * 15 / 60),
          pw_expected_cost_sek :=
            sum_list (map (\<lambda>b. sb_marginal_cost_sek_kwh b * (fl_nominal_power_w load / 1000) * (15 / 60)) bs)
              / max (of_nat (length bs)) 1 * of_nat n,
          pw_average_score := window_score strategy bs \<rparr>))"

text \<open>\<open>for start in range(n): for length in range(low, min(high, n - start) + 1)\<close>.\<close>

definition runs_of :: "nat \<Rightarrow> nat \<Rightarrow> nat \<Rightarrow> (nat \<times> nat) list" where
  "runs_of low high n = concat (map (\<lambda>i. map (Pair i) [low..<Suc (min high (n - i))]) [0..<n])"

definition candidate_windows ::
  "planner \<Rightarrow> flexible_load \<Rightarrow> load_strategy \<Rightarrow> scored_block list \<Rightarrow> plan_window list" where
  "candidate_windows pl load strategy scored =
     (let min_blocks = whole_blocks (fl_minimum_runtime load);
          max_blocks = max min_blocks (nat \<lfloor>elapsed_s (fl_maximum_runtime load) 0 / 900\<rfloor>)
      in List.map_filter (\<lambda>(i, n). candidate_window pl load strategy scored i n)
           (runs_of min_blocks max_blocks (length scored)))"

definition choose_window :: "load_optimizer \<Rightarrow> load_strategy \<Rightarrow> plan_window list \<Rightarrow> plan_window option" where
  "choose_window lo strategy cs =
     (if strategy = CHEAPEST then first_min pw_expected_cost_sek cs
      else let solar = filter (\<lambda>c. pw_expected_energy_source c = SOLAR) cs in
        if strategy = SOLAR_ONLY \<and> lo_prefer_solar lo \<and> solar \<noteq> []
        then first_max pw_average_score solar
        else first_max pw_average_score cs)"

definition best_window ::
  "planner \<Rightarrow> load_optimizer \<Rightarrow> flexible_load \<Rightarrow> scored_block list \<Rightarrow> load_strategy \<Rightarrow> plan_window option" where
  "best_window pl lo load scored strategy =
     choose_window lo strategy (candidate_windows pl load strategy scored)"

definition flat_window ::
  "flexible_load \<Rightarrow> time \<Rightarrow> time \<Rightarrow> rat \<Rightarrow> energy_source \<Rightarrow> rat \<Rightarrow> scored_block list \<Rightarrow> plan_window" where
  "flat_window load start until energy_kwh source score bs =
     \<lparr> pw_start = start, pw_end = until, pw_duration = until - start,
       pw_expected_energy_kwh = energy_kwh,
       pw_expected_cost_sek = mean_of (map sb_marginal_cost_sek_kwh bs) * energy_kwh,
       pw_expected_energy_source = source, pw_average_score = score, pw_blocks = bs \<rparr>"

definition fallback_window :: "flexible_load \<Rightarrow> scored_block list \<Rightarrow> time \<Rightarrow> plan_window option" where
  "fallback_window load scored now =
     (let min_blocks = whole_blocks (fl_minimum_runtime load);
          e = filter (\<lambda>s. block_time s \<ge> now \<and> block_time s < fl_deadline load) scored;
          e' = (if length e < min_blocks then drop (length scored - min_blocks) scored else e);
          bs = take min_blocks e'
      in if e' = [] then None
         else Some (flat_window load (block_time (hd bs)) (block_time (hd bs) + fl_minimum_runtime load)
           (fl_nominal_power_w load / 1000 * (of_nat min_blocks * 15 / 60)) GRID 0 bs))"

definition window_from_fixed ::
  "flexible_load \<Rightarrow> time \<Rightarrow> time \<Rightarrow> scored_block list \<Rightarrow> scored_block list \<Rightarrow> plan_window option" where
  "window_from_fixed load fixed_start fixed_end scored eligible =
     (let inside = filter (\<lambda>s. fixed_start \<le> block_time s \<and> block_time s < fixed_end) scored;
          bs = (if inside = [] then take (whole_blocks (fl_minimum_runtime load)) eligible else inside)
      in if bs = [] then None
         else Some (flat_window load fixed_start fixed_end
           (fl_nominal_power_w load / 1000 * elapsed_s fixed_end fixed_start / 3600)
           (sb_expected_energy_source (hd bs)) (mean_of (map sb_score bs)) bs))"

definition baseline_cost :: "flexible_load \<Rightarrow> scored_block list \<Rightarrow> rat option" where
  "baseline_cost load scored =
     (if scored = [] then None
      else Some (fl_nominal_power_w load / 1000 * (elapsed_s (fl_minimum_runtime load) 0 / 3600)
             * mean_of (map sb_marginal_cost_sek_kwh scored)))"

definition resolve_reason ::
  "plan_window option \<Rightarrow> load_strategy \<Rightarrow> bool \<Rightarrow> deadline_urgency \<Rightarrow> string \<times> string" where
  "resolve_reason window strategy fallback urgency = (case window of
     None \<Rightarrow> (''no_window'', ''ingen_plan'')
   | Some w \<Rightarrow>
       if fallback then (''solar_only_fallback_safety'', ''solel_fallback_sakerhet'')
       else if du_run_regardless urgency then (''deadline_critical'', ''deadline_kritisk'')
       else if pw_expected_energy_source w = SOLAR then (''solar_surplus'', ''sol_overskott'')
       else if strategy = CHEAPEST then (''cheapest_energy'', ''billigaste_energi'')
       else (''smart_scheduled'', ''smart_planerad''))"

definition planned_cost :: "plan_window list \<Rightarrow> rat option" where
  "planned_cost ws = (if ws = [] then None else Some (sum_list (map pw_expected_cost_sek ws)))"

definition savings_of :: "rat option \<Rightarrow> rat option \<Rightarrow> rat option" where
  "savings_of baseline planned = (case (baseline, planned) of
     (Some b, Some p) \<Rightarrow> Some (b - p) | _ \<Rightarrow> None)"

definition head_opt :: "'a list \<Rightarrow> 'a option" where
  "head_opt xs = (case xs of [] \<Rightarrow> None | x # _ \<Rightarrow> Some x)"

definition opt_list :: "'a option \<Rightarrow> 'a list" where
  "opt_list x = (case x of None \<Rightarrow> [] | Some v \<Rightarrow> [v])"

definition build_plan ::
  "flexible_load \<Rightarrow> load_strategy \<Rightarrow> plan_window list \<Rightarrow> scored_block list \<Rightarrow> string \<times> string \<Rightarrow> bool
     \<Rightarrow> load_plan" where
  "build_plan load strategy ws scored reason fallback =
     \<lparr> lp_load_id = fl_load_id load, lp_strategy = strategy, lp_windows = ws,
       lp_reason = fst reason, lp_reason_sv = snd reason,
       lp_fallback_from_solar_only = fallback, lp_fixed_schedule_analysis = False,
       lp_alternative_windows = [], lp_scored_blocks = scored,
       lp_baseline_cost_sek = baseline_cost load scored,
       lp_planned_cost_sek = planned_cost ws,
       lp_savings_sek = savings_of (baseline_cost load scored) (planned_cost ws) \<rparr>"

text \<open>\<open>a or b or d\<close> on optional durations: a zero duration is falsy.\<close>

definition dur_or :: "int option \<Rightarrow> int \<Rightarrow> int" where
  "dur_or x d = (case x of None \<Rightarrow> d | Some v \<Rightarrow> if v = 0 then d else v)"

definition minutes_us :: "int \<Rightarrow> int" where
  "minutes_us m = m * 60 * us_per_s"

definition plan_with_windows ::
  "flexible_load \<Rightarrow> load_strategy \<Rightarrow> load_strategy \<Rightarrow> bool \<Rightarrow> deadline_urgency \<Rightarrow> scored_block list \<Rightarrow> time
     \<Rightarrow> plan_window list \<Rightarrow> load_plan" where
  "plan_with_windows load strategy effective fallback urgency scored now ws =
     (let ws' = (if ws = [] \<and> fl_safety_critical load then opt_list (fallback_window load scored now) else ws)
      in build_plan load strategy ws' scored (resolve_reason (head_opt ws') effective fallback urgency) fallback)"

definition optimizer_plan ::
  "planner \<Rightarrow> load_optimizer \<Rightarrow> flexible_load \<Rightarrow> horizon_block list \<Rightarrow> load_strategy \<Rightarrow> time \<Rightarrow> load_plan" where
  "optimizer_plan pl lo load horizon strategy now =
     (let urgency = compute_deadline_urgency now (fl_deadline load);
          scored = score_horizon pl lo load horizon urgency;
          eligible = filter_eligible_blocks scored load now;
          fallback = (strategy = SOLAR_ONLY \<and> du_tier urgency \<in> {''critical'', ''urgent''});
          effective = (if fallback then SMART else strategy);
          finish = plan_with_windows load strategy effective fallback urgency scored now
      in case (strategy = FIXED_SCHEDULE, fl_fixed_start load, fl_fixed_end load) of
           (True, Some fs, Some fe) \<Rightarrow>
             (build_plan load strategy (opt_list (window_from_fixed load fs fe scored eligible)) scored
                (''fixed_schedule'', ''fast_schema'') False)
             \<lparr> lp_fixed_schedule_analysis := True,
               lp_alternative_windows := opt_list (best_window pl lo load eligible SMART),
               lp_baseline_cost_sek := None, lp_planned_cost_sek := None, lp_savings_sek := None \<rparr>
         | _ \<Rightarrow>
           (case (fl_fixed_cycles_per_day load, fl_fixed_cycle_duration load) of
              (Some cycles, Some d) \<Rightarrow>
                finish (plan_fixed_filter_cycles (pl_order pl) scored cycles \<lfloor>elapsed_s d 0 / 60\<rfloor>
                  (dur_or (fl_minimum_cycle_separation load) (dur_or (fl_minimum_pause load) (minutes_us 60)))
                  (fl_earliest_start load) (min (fl_latest_finish load) (fl_deadline load)) now effective
                  (fl_nominal_power_w load))
            | _ \<Rightarrow>
              (case (fl_daily_runtime_target load, fl_max_starts_per_day load) of
                 (Some target, Some starts) \<Rightarrow>
                   if starts = 0 then finish (opt_list (best_window pl lo load eligible effective))
                   else finish (plan_daily_cleaning_windows (pl_order pl) scored (elapsed_s target 0 / 3600)
                     (fl_minimum_runtime load) (dur_or (fl_minimum_pause load) (minutes_us 20)) starts
                     (fl_earliest_start load) (min (fl_latest_finish load) (fl_deadline load)) now effective
                     (fl_nominal_power_w load))
               | _ \<Rightarrow> finish (opt_list (best_window pl lo load eligible effective)))))"

subsection \<open>The orchestrator\<close>

record orchestrated_spec =
  os_load :: flexible_load
  os_strategy :: load_strategy
  os_optimizer :: load_optimizer

record orchestrated_plan =
  op_load_id :: string
  op_name :: string
  op_priority :: int
  op_plan :: load_plan

definition reserved_at :: "(time \<times> rat) list \<Rightarrow> time \<Rightarrow> rat" where
  "reserved_at reserved ts = (case map_of reserved ts of None \<Rightarrow> 0 | Some w \<Rightarrow> w)"

definition apply_reservations :: "horizon_block list \<Rightarrow> (time \<times> rat) list \<Rightarrow> horizon_block list" where
  "apply_reservations horizon reserved = map (\<lambda>b.
     b \<lparr> hb_higher_priority_loads_w := reserved_at reserved (hb_timestamp b),
         hb_available_surplus_w := max 0 (hb_solar_forecast_w b - hb_house_load_forecast_w b
           - reserved_at reserved (hb_timestamp b)) \<rparr>) horizon"

text \<open>The instants one window reserves, as a set: each once.\<close>

definition window_instants :: "load_plan \<Rightarrow> plan_window \<Rightarrow> time list" where
  "window_instants plan w =
     (let ts = filter (\<lambda>t. pw_start w \<le> t \<and> t < pw_end w) (map block_time (lp_scored_blocks plan))
      in remdups (if ts = [] then cursor_points (pw_start w) (pw_end w) else ts))"

definition reserve_instant :: "rat \<Rightarrow> (time \<times> rat) list \<Rightarrow> time \<Rightarrow> (time \<times> rat) list" where
  "reserve_instant power_w reserved ts = AList.update ts (reserved_at reserved ts + power_w) reserved"

definition reserve_plan :: "(time \<times> rat) list \<Rightarrow> flexible_load \<Rightarrow> load_plan \<Rightarrow> (time \<times> rat) list" where
  "reserve_plan reserved load plan =
     foldl (\<lambda>r w. foldl (reserve_instant (fl_nominal_power_w load)) r (window_instants plan w)) reserved
       (lp_windows plan)"

definition plan_one ::
  "planner \<Rightarrow> horizon_block list \<Rightarrow> time \<Rightarrow> (time \<times> rat) list \<times> orchestrated_plan list \<Rightarrow> orchestrated_spec
     \<Rightarrow> (time \<times> rat) list \<times> orchestrated_plan list" where
  "plan_one pl horizon now acc spec =
     (let load = os_load spec;
          plan = optimizer_plan pl (os_optimizer spec) load (apply_reservations horizon (fst acc))
            (os_strategy spec) now
      in (reserve_plan (fst acc) load plan,
          snd acc @ [\<lparr> op_load_id = fl_load_id load, op_name = fl_name load,
            op_priority = fl_priority load, op_plan = plan \<rparr>]))"

definition by_priority :: "orchestrated_spec list \<Rightarrow> orchestrated_spec list" where
  "by_priority specs = sort_key (\<lambda>s. - fl_priority (os_load s)) specs"

definition plan_all ::
  "planner \<Rightarrow> orchestrated_spec list \<Rightarrow> horizon_block list \<Rightarrow> time \<Rightarrow> orchestrated_plan list" where
  "plan_all pl specs horizon now =
     (if specs = [] \<or> horizon = [] then []
      else snd (foldl (plan_one pl horizon now) ([], []) (by_priority specs)))"

subsection \<open>The load of a charger\<close>

record ev_charger_row =
  ec_id :: string
  ec_name :: string
  ec_charging_mode :: "string option"
  ec_bridge_enabled :: bool
  ec_last_vehicle_connected :: "bool option"
  ec_max_power_w :: "rat option"
  ec_max_current_a :: rat
  ec_phases :: rat
  ec_nominal_voltage_v :: rat
  ec_deadline_at :: "time option"
  ec_load_priority :: int

definition charger_optimizer :: "rat \<Rightarrow> load_optimizer" where
  "charger_optimizer fallback_price = \<lparr> lo_allow_battery = True, lo_prefer_solar = True,
     lo_min_battery_soc_pct = 40, lo_fallback_price_sek_kwh = fallback_price \<rparr>"

definition build_ev_orchestrated_load ::
  "ev_charger_row \<Rightarrow> rat \<Rightarrow> time \<Rightarrow> orchestrated_spec option" where
  "build_ev_orchestrated_load c fallback_price now =
     (if \<not> uses_price_optimization (ec_charging_mode c) False
         \<and> normalized_mode (ec_charging_mode c) \<notin> set SMART_MODES then None
      else if \<not> ec_bridge_enabled c then None
      else if ec_last_vehicle_connected c = Some False then None
      else let power_w = (case ec_max_power_w c of
                 Some p \<Rightarrow> p | None \<Rightarrow> ec_max_current_a c * ec_phases c * ec_nominal_voltage_v c);
               deadline = or_else (ec_deadline_at c) (now + hours_us 12)
           in Some \<lparr> os_load = \<lparr> fl_load_id = ''ev_charger_'' @ ec_id c, fl_name = ''EV '' @ ec_name c,
                 fl_nominal_power_w = power_w, fl_minimum_runtime = hours_us 1,
                 fl_maximum_runtime = hours_us 6, fl_earliest_start = now,
                 fl_latest_finish = min deadline (now + hours_us 24), fl_deadline = deadline,
                 fl_priority = ec_load_priority c, fl_interruptible = True, fl_safety_critical = False,
                 fl_fixed_start = None, fl_fixed_end = None, fl_daily_runtime_target = None,
                 fl_max_starts_per_day = None, fl_minimum_pause = None, fl_fixed_cycles_per_day = None,
                 fl_fixed_cycle_duration = None, fl_minimum_cycle_separation = None \<rparr>,
               os_strategy = SMART, os_optimizer = charger_optimizer fallback_price \<rparr>)"

subsection \<open>Reservations\<close>

lemma reserved_at_instant:
  "reserved_at (reserve_instant power_w r t) ts = reserved_at r ts + (if ts = t then power_w else 0)"
  by (simp add: reserve_instant_def reserved_at_def)

lemma reserved_at_instants:
  "distinct tss \<Longrightarrow> reserved_at (foldl (reserve_instant power_w) r tss) ts =
     reserved_at r ts + (if ts \<in> set tss then power_w else 0)"
  by (induction tss arbitrary: r) (auto simp: reserved_at_instant)

text \<open>How many windows of a plan run the load at an instant of the horizon.\<close>

definition covering :: "load_plan \<Rightarrow> time \<Rightarrow> nat" where
  "covering plan ts = length (filter (\<lambda>w. ts \<in> set (window_instants plan w)) (lp_windows plan))"

lemma reserved_at_windows:
  "reserved_at (foldl (\<lambda>r w. foldl (reserve_instant power_w) r (window_instants plan w)) r ws) ts =
     reserved_at r ts + power_w * of_nat (length (filter (\<lambda>w. ts \<in> set (window_instants plan w)) ws))"
proof (induction ws arbitrary: r)
  case (Cons w ws)
  have "distinct (window_instants plan w)" by (simp add: window_instants_def Let_def)
  then show ?case using Cons reserved_at_instants by (simp add: distrib_left algebra_simps)
qed simp

lemma reserved_at_plan:
  "reserved_at (reserve_plan r load plan) ts =
     reserved_at r ts + fl_nominal_power_w load * of_nat (covering plan ts)"
  by (simp add: reserve_plan_def reserved_at_windows covering_def)

text \<open>The power the loads before the \<open>k\<close>-th have claimed at an instant.\<close>

definition claimed :: "orchestrated_spec list \<Rightarrow> orchestrated_plan list \<Rightarrow> nat \<Rightarrow> time \<Rightarrow> rat" where
  "claimed specs ps k ts = (\<Sum>j<k. fl_nominal_power_w (os_load (specs ! j)) * of_nat (covering (op_plan (ps ! j)) ts))"

definition remaining_horizon :: "horizon_block list \<Rightarrow> (time \<Rightarrow> rat) \<Rightarrow> horizon_block list" where
  "remaining_horizon horizon claim = map (\<lambda>b.
     b \<lparr> hb_higher_priority_loads_w := claim (hb_timestamp b),
         hb_available_surplus_w := max 0 (hb_solar_forecast_w b - hb_house_load_forecast_w b
           - claim (hb_timestamp b)) \<rparr>) horizon"

lemma apply_reservations_claim:
  "(\<And>ts. reserved_at r ts = claim ts) \<Longrightarrow> apply_reservations horizon r = remaining_horizon horizon claim"
  by (simp add: apply_reservations_def remaining_horizon_def)

lemma claimed_Suc:
  "claimed specs ps (Suc k) ts =
     claimed specs ps k ts + fl_nominal_power_w (os_load (specs ! k)) * of_nat (covering (op_plan (ps ! k)) ts)"
  by (simp add: claimed_def)

lemma claimed_cong:
  assumes "k \<le> length specs" "k \<le> length ps"
  shows "claimed (specs @ ss) (ps @ qs) k ts = claimed specs ps k ts"
  unfolding claimed_def using assms by (intro sum.cong) (auto simp: nth_append)

definition planned_as :: "planner \<Rightarrow> horizon_block list \<Rightarrow> time \<Rightarrow> orchestrated_spec \<Rightarrow> (time \<Rightarrow> rat)
    \<Rightarrow> orchestrated_plan \<Rightarrow> bool" where
  "planned_as pl horizon now spec claim p \<longleftrightarrow>
     op_load_id p = fl_load_id (os_load spec) \<and> op_priority p = fl_priority (os_load spec)
   \<and> op_plan p = optimizer_plan pl (os_optimizer spec) (os_load spec) (remaining_horizon horizon claim)
       (os_strategy spec) now"

lemma plan_run:
  "\<exists>r ps. foldl (plan_one pl horizon now) ([], []) specs = (r, ps) \<and> length ps = length specs
    \<and> (\<forall>ts. reserved_at r ts = claimed specs ps (length specs) ts)
    \<and> (\<forall>k < length specs. planned_as pl horizon now (specs ! k) (claimed specs ps k) (ps ! k))"
proof (induction specs rule: rev_induct)
  case Nil
  then show ?case by (simp add: claimed_def reserved_at_def)
next
  case (snoc spec specs)
  then obtain r ps where r: "foldl (plan_one pl horizon now) ([], []) specs = (r, ps)"
    and len: "length ps = length specs"
    and at: "\<And>ts. reserved_at r ts = claimed specs ps (length specs) ts"
    and each: "\<And>k. k < length specs \<Longrightarrow> planned_as pl horizon now (specs ! k) (claimed specs ps k) (ps ! k)"
    by blast
  define plan where "plan = optimizer_plan pl (os_optimizer spec) (os_load spec)
      (apply_reservations horizon r) (os_strategy spec) now"
  define p where "p = \<lparr> op_load_id = fl_load_id (os_load spec), op_name = fl_name (os_load spec),
      op_priority = fl_priority (os_load spec), op_plan = plan \<rparr>"
  have step: "foldl (plan_one pl horizon now) ([], []) (specs @ [spec]) = (reserve_plan r (os_load spec) plan, ps @ [p])"
    using r by (simp add: plan_one_def plan_def p_def Let_def)
  have same: "claimed (specs @ [spec]) (ps @ [p]) k ts = claimed specs ps k ts" if "k \<le> length specs" for k ts
    using claimed_cong that len by simp
  have last: "planned_as pl horizon now spec (claimed specs ps (length specs)) p"
    using apply_reservations_claim [OF at] by (simp add: planned_as_def p_def plan_def)
  have total: "reserved_at (reserve_plan r (os_load spec) plan) ts =
      claimed (specs @ [spec]) (ps @ [p]) (length (specs @ [spec])) ts" for ts
    using reserved_at_plan [of r "os_load spec" plan ts] at [of ts] same [of "length specs" ts] len
    by (simp add: claimed_Suc nth_append p_def)
  have fun_same: "claimed (specs @ [spec]) (ps @ [p]) k = claimed specs ps k" if "k \<le> length specs" for k
    using same [OF that] by blast
  have all: "planned_as pl horizon now ((specs @ [spec]) ! k) (claimed (specs @ [spec]) (ps @ [p]) k) ((ps @ [p]) ! k)"
    if "k < length (specs @ [spec])" for k
  proof (cases "k = length specs")
    case True
    then show ?thesis using last len fun_same by (simp add: nth_append)
  next
    case False
    then have "k < length specs" using that by simp
    then show ?thesis using each len fun_same by (simp add: nth_append)
  qed
  show ?case using step len total all by (intro exI [of _ "reserve_plan r (os_load spec) plan"] exI [of _ "ps @ [p]"]) simp
qed

text \<open>The orchestrator plans every load once, by falling priority, and the plan of each is the
  optimizer's on the horizon from whose solar surplus exactly what the loads before it claimed
  has been taken: no surplus is booked twice.\<close>

theorem surplus_booked_once:
  assumes "ordered = by_priority specs" "ps = plan_all pl specs horizon now" "horizon \<noteq> []"
  shows "length ps = length specs
    \<and> sorted_wrt (\<lambda>p q. op_priority q \<le> op_priority p) ps
    \<and> (\<forall>k < length ps. planned_as pl horizon now (ordered ! k) (claimed ordered ps k) (ps ! k))"
proof (cases "specs = []")
  case True
  then show ?thesis using assms by (simp add: plan_all_def)
next
  case False
  obtain r qs where run: "foldl (plan_one pl horizon now) ([], []) ordered = (r, qs)"
    and len: "length qs = length ordered"
    and each: "\<And>k. k < length ordered \<Longrightarrow> planned_as pl horizon now (ordered ! k) (claimed ordered qs k) (qs ! k)"
    using plan_run [of pl horizon now ordered] by blast
  have ps: "ps = qs" using run False assms by (simp add: plan_all_def)
  have lo: "length ordered = length specs" by (simp add: assms(1) by_priority_def)
  have "sorted (map (\<lambda>s. - fl_priority (os_load s)) ordered)"
    unfolding assms(1) by_priority_def by (rule sorted_sort_key)
  then have "sorted_wrt (\<lambda>s t. fl_priority (os_load t) \<le> fl_priority (os_load s)) ordered"
    by (simp add: sorted_map)
  then have "sorted_wrt (\<lambda>p q. op_priority q \<le> op_priority p) qs"
    using len each by (simp add: sorted_wrt_iff_nth_less planned_as_def)
  then show ?thesis using ps len lo each by simp
qed

subsection \<open>The best window\<close>

definition min_run_blocks :: "flexible_load \<Rightarrow> nat" where
  "min_run_blocks load = whole_blocks (fl_minimum_runtime load)"

definition max_run_blocks :: "flexible_load \<Rightarrow> nat" where
  "max_run_blocks load = max (min_run_blocks load) (nat \<lfloor>elapsed_s (fl_maximum_runtime load) 0 / 900\<rfloor>)"

text \<open>A run of blocks the load may use: its length within the runtimes, and bright enough.\<close>

definition admissible_run :: "flexible_load \<Rightarrow> load_strategy \<Rightarrow> scored_block list \<Rightarrow> scored_block list \<Rightarrow> bool" where
  "admissible_run load strategy scored bs \<longleftrightarrow>
     sublist bs scored \<and> min_run_blocks load \<le> length bs \<and> length bs \<le> max_run_blocks load
   \<and> \<not> too_dark strategy (fl_nominal_power_w load) bs"

definition run_cost :: "flexible_load \<Rightarrow> scored_block list \<Rightarrow> rat" where
  "run_cost load bs = sum_list (map (\<lambda>b. sb_marginal_cost_sek_kwh b * (fl_nominal_power_w load / 1000) * (15 / 60)) bs)"

lemma min_run_pos: "0 < min_run_blocks load"
  by (simp add: min_run_blocks_def whole_blocks_pos)

lemma sublist_take_drop: "sublist bs xs \<longleftrightarrow> (\<exists>i. i + length bs \<le> length xs \<and> bs = take (length bs) (drop i xs))"
proof
  assume "sublist bs xs"
  then obtain ps ss where "xs = ps @ bs @ ss" by (auto simp: sublist_def)
  then show "\<exists>i. i + length bs \<le> length xs \<and> bs = take (length bs) (drop i xs)"
    by (intro exI [of _ "length ps"]) simp
next
  assume "\<exists>i. i + length bs \<le> length xs \<and> bs = take (length bs) (drop i xs)"
  then show "sublist bs xs"
    by (metis sublist_drop sublist_order.order_trans sublist_take)
qed

lemma candidate_window_eq:
  assumes "candidate_window pl load strategy scored i n = Some w" "i + n \<le> length scored"
  shows "pw_blocks w = take n (drop i scored) \<and> n \<noteq> 0
    \<and> \<not> too_dark strategy (fl_nominal_power_w load) (pw_blocks w)
    \<and> pw_average_score w = window_score strategy (pw_blocks w)
    \<and> pw_expected_cost_sek w = run_cost load (pw_blocks w)
    \<and> pw_start w = block_time (hd (pw_blocks w)) \<and> pw_end w = block_time (last (pw_blocks w)) + block_us"
proof -
  define bs where "bs = take n (drop i scored)"
  have w: "bs \<noteq> []" "\<not> too_dark strategy (fl_nominal_power_w load) bs"
    "w = (window_from_blocks (pl_order pl) (fl_nominal_power_w load) bs)
        \<lparr> pw_expected_energy_kwh := fl_nominal_power_w load / 1000 * (of_nat n * 15 / 60),
          pw_expected_cost_sek := run_cost load bs / max (of_nat (length bs)) 1 * of_nat n,
          pw_average_score := window_score strategy bs \<rparr>"
    using assms(1) unfolding candidate_window_def Let_def bs_def [symmetric] run_cost_def
    by (auto split: if_splits)
  have len: "length bs = n" using assms(2) by (simp add: bs_def)
  then have n: "n \<noteq> 0" using w(1) by auto
  then have "max (of_nat (length bs)) 1 = (of_nat n :: rat)" using len by (simp add: max_def)
  then have "run_cost load bs / max (of_nat (length bs)) 1 * of_nat n = run_cost load bs" using n by simp
  then show ?thesis using w n by (simp add: bs_def [symmetric] window_from_blocks_def Let_def)
qed

lemma candidate_window_some:
  assumes "i + n \<le> length scored" "0 < n" "\<not> too_dark strategy (fl_nominal_power_w load) (take n (drop i scored))"
  shows "candidate_window pl load strategy scored i n \<noteq> None"
  using assms by (simp add: candidate_window_def Let_def)

lemma runs_of_in: "(i, n) \<in> set (runs_of low high k) \<longleftrightarrow> i < k \<and> low \<le> n \<and> n \<le> high \<and> i + n \<le> k"
proof -
  have "(i, n) \<in> set (runs_of low high k) \<longleftrightarrow> (\<exists>j \<in> {0..<k}. (i, n) \<in> set (map (Pair j) [low..<Suc (min high (k - j))]))"
    unfolding runs_of_def set_concat by (simp del: upt_Suc)
  also have "\<dots> \<longleftrightarrow> i < k \<and> n \<in> {low..<Suc (min high (k - i))}"
    by (simp add: image_iff del: upt_Suc)
  finally show ?thesis by auto
qed

lemma candidate_windows_in:
  "w \<in> set (candidate_windows pl load strategy scored) \<longleftrightarrow>
     (\<exists>i n. i < length scored \<and> min_run_blocks load \<le> n \<and> n \<le> max_run_blocks load \<and> i + n \<le> length scored
        \<and> candidate_window pl load strategy scored i n = Some w)"
proof -
  have "w \<in> set (candidate_windows pl load strategy scored) \<longleftrightarrow>
      (\<exists>p \<in> set (runs_of (min_run_blocks load) (max_run_blocks load) (length scored)).
         candidate_window pl load strategy scored (fst p) (snd p) = Some w)"
    unfolding candidate_windows_def Let_def in_map_filter min_run_blocks_def [symmetric]
      max_run_blocks_def [symmetric] by (simp add: case_prod_beta)
  also have "\<dots> \<longleftrightarrow> (\<exists>i n. (i, n) \<in> set (runs_of (min_run_blocks load) (max_run_blocks load) (length scored))
         \<and> candidate_window pl load strategy scored i n = Some w)"
    by (metis fst_conv snd_conv surj_pair)
  finally show ?thesis unfolding runs_of_in by blast
qed

lemma candidates_admissible:
  assumes "w \<in> set (candidate_windows pl load strategy scored)"
  shows "admissible_run load strategy scored (pw_blocks w)
    \<and> pw_average_score w = window_score strategy (pw_blocks w)
    \<and> pw_expected_cost_sek w = run_cost load (pw_blocks w)
    \<and> pw_start w = block_time (hd (pw_blocks w)) \<and> pw_end w = block_time (last (pw_blocks w)) + block_us"
proof -
  obtain i n where n: "min_run_blocks load \<le> n" "n \<le> max_run_blocks load" "i + n \<le> length scored"
    and w: "candidate_window pl load strategy scored i n = Some w"
    using assms unfolding candidate_windows_in by blast
  note eq = candidate_window_eq [OF w n(3)]
  have len: "length (pw_blocks w) = n" using eq n(3) by simp
  have "sublist (pw_blocks w) scored"
    using eq by (metis sublist_drop sublist_order.order_trans sublist_take)
  then have "admissible_run load strategy scored (pw_blocks w)"
    unfolding admissible_run_def len using n eq by blast
  then show ?thesis using eq by blast
qed

lemma admissible_is_candidate:
  assumes "admissible_run load strategy scored bs"
  shows "\<exists>w \<in> set (candidate_windows pl load strategy scored). pw_blocks w = bs"
proof -
  obtain i where i: "i + length bs \<le> length scored" "bs = take (length bs) (drop i scored)"
    and len: "min_run_blocks load \<le> length bs" "length bs \<le> max_run_blocks load"
    and lit: "\<not> too_dark strategy (fl_nominal_power_w load) bs"
    using assms unfolding admissible_run_def sublist_take_drop by blast
  have pos: "0 < length bs" using len(1) min_run_pos [of load] by linarith
  obtain w where w: "candidate_window pl load strategy scored i (length bs) = Some w"
    using candidate_window_some [OF i(1) pos] lit i(2) by fastforce
  have "pw_blocks w = bs" using candidate_window_eq [OF w i(1)] i(2) by simp
  moreover have "i < length scored" using i(1) pos by linarith
  then have "w \<in> set (candidate_windows pl load strategy scored)"
    unfolding candidate_windows_in using len i(1) w by blast
  ultimately show ?thesis by blast
qed

lemma choose_window_in: "choose_window lo strategy cs = Some w \<Longrightarrow> w \<in> set cs"
  unfolding choose_window_def Let_def
  by (auto split: if_splits dest: mini.pick_in maxi.pick_in maxi.pick_filtered)

lemma choose_window_none: "choose_window lo strategy cs = None \<longleftrightarrow> cs = []"
  unfolding choose_window_def Let_def using mini.pick_none maxi.pick_none by auto

text \<open>The window the optimizer picks is the best admissible one.\<close>

theorem best_window_is_best:
  assumes "best_window pl lo load scored strategy = Some w"
  shows "admissible_run load strategy scored (pw_blocks w)
    \<and> pw_start w = block_time (hd (pw_blocks w)) \<and> pw_end w = block_time (last (pw_blocks w)) + block_us
    \<and> (\<forall>bs. admissible_run load strategy scored bs \<longrightarrow>
         (strategy = CHEAPEST \<longrightarrow> run_cost load (pw_blocks w) \<le> run_cost load bs)
       \<and> (strategy \<notin> {CHEAPEST, SOLAR_ONLY} \<longrightarrow>
            mean_of (map sb_score bs) \<le> mean_of (map sb_score (pw_blocks w))))"
proof -
  let ?cs = "candidate_windows pl load strategy scored"
  have pick: "choose_window lo strategy ?cs = Some w" using assms by (simp add: best_window_def)
  note w = candidates_admissible [OF choose_window_in [OF pick]]
  have best: "(strategy = CHEAPEST \<longrightarrow> run_cost load (pw_blocks w) \<le> run_cost load bs)
      \<and> (strategy \<notin> {CHEAPEST, SOLAR_ONLY} \<longrightarrow>
            mean_of (map sb_score bs) \<le> mean_of (map sb_score (pw_blocks w)))"
    if adm: "admissible_run load strategy scored bs" for bs
  proof -
    obtain v where v: "v \<in> set ?cs" "pw_blocks v = bs" using admissible_is_candidate [OF adm] by blast
    note veq = candidates_admissible [OF v(1)]
    have "run_cost load (pw_blocks w) \<le> run_cost load bs" if c: "strategy = CHEAPEST"
      using pick v veq w mini.pick_best [of pw_expected_cost_sek ?cs w v]
      by (simp add: choose_window_def c not_less)
    moreover have "mean_of (map sb_score bs) \<le> mean_of (map sb_score (pw_blocks w))"
      if c: "strategy \<notin> {CHEAPEST, SOLAR_ONLY}"
      using pick v veq w c maxi.pick_best [of pw_average_score ?cs w v]
      by (simp add: choose_window_def window_score_def not_less)
    ultimately show ?thesis by blast
  qed
  show ?thesis using w best by blast
qed

definition sample_load :: flexible_load where
  "sample_load = \<lparr> fl_load_id = ''ev_charger_1'', fl_name = ''EV'', fl_nominal_power_w = 2000,
     fl_minimum_runtime = hours_us 1, fl_maximum_runtime = hours_us 2, fl_earliest_start = 0,
     fl_latest_finish = hours_us 12, fl_deadline = hours_us 12, fl_priority = 50, fl_interruptible = True,
     fl_safety_critical = False, fl_fixed_start = None, fl_fixed_end = None, fl_daily_runtime_target = None,
     fl_max_starts_per_day = None, fl_minimum_pause = None, fl_fixed_cycles_per_day = None,
     fl_fixed_cycle_duration = None, fl_minimum_cycle_separation = None \<rparr>"

definition sample_spec :: orchestrated_spec where
  "sample_spec = \<lparr> os_load = sample_load, os_strategy = SMART, os_optimizer = charger_optimizer 2 \<rparr>"

definition sample_planner :: planner where
  "sample_planner = \<lparr> pl_rate = 11, pl_order = remdups \<rparr>"

theorem surplus_booked_once_witness:
  "let ordered = by_priority [sample_spec, sample_spec];
       ps = plan_all sample_planner [sample_spec, sample_spec] [sample_block 0, sample_block block_us] 0
   in length ps = length [sample_spec, sample_spec]
    \<and> sorted_wrt (\<lambda>p q. op_priority q \<le> op_priority p) ps
    \<and> (\<forall>k < length ps. planned_as sample_planner [sample_block 0, sample_block block_us] 0 (ordered ! k)
          (claimed ordered ps k) (ps ! k))"
  unfolding Let_def by (rule surplus_booked_once [OF refl refl]) simp

end
