(* ===== verification/Spa_Control.thy ===== *)
theory Spa_Control
  imports Load_Planning Emic_Json
begin

section \<open>Control of the spa's filter\<close>

text \<open>
  \<open>spa_energy/runtime.py\<close>, \<open>filter_policy.py\<close>, \<open>filter_schedule_service.py\<close>, \<open>actuator.py\<close>,
  \<open>watchdog.py\<close>, the acting half of \<open>service.py\<close>, \<open>db/spa_actuator_repo.py\<close> and the requests
  \<open>integrations/arctic_spa/control_service.py\<close> makes of the spa. The spa answers through a
  \<open>spa_port\<close>: which requests it accepts (the others raise \<open>SpaControlError\<close>) and what
  \<open>get_status\<close> reports. An operation returns the requests the spa accepted, in order. The
  local date of an instant is a parameter. The Swedish messages are left out, except as
  reason codes; so is the conversion of hour strings, which enters as the window's length.
\<close>

subsection \<open>The spa\<close>

datatype spa_request =
    SetFilterSchedule int int
  | SetFilterState string
  | SetTemperatureF int

record spa_status =
  ss_connected :: bool
  ss_setpoint_c :: "rat option"
  ss_filter_status :: "string option"
  ss_filter_duration :: "int option"
  ss_filter_frequency :: "rat option"
  ss_errors :: "string list"

record spa_port =
  pt_accepts :: "spa_request \<Rightarrow> bool"
  pt_before :: "spa_status option"
  pt_after :: "spa_status option"

definition fahrenheit_to_celsius :: "rat \<Rightarrow> rat" where
  "fahrenheit_to_celsius f = round_to 2 ((f - 32) * 5 / 9)"

definition celsius_to_fahrenheit_int :: "rat \<Rightarrow> int" where
  "celsius_to_fahrenheit_int c = round_half_even (c * 9 / 5 + 32)"

text \<open>A request, its outcome: \<open>Some\<close> the accepted requests, \<open>None\<close> the \<open>SpaControlError\<close>.\<close>

definition send_request :: "spa_port \<Rightarrow> spa_request \<Rightarrow> spa_request list option" where
  "send_request pt rq = (if pt_accepts pt rq then Some [rq] else None)"

definition safety_floor_request :: "rat \<Rightarrow> rat \<Rightarrow> spa_request" where
  "safety_floor_request frequency_per_day duration_hours =
     SetFilterSchedule (max 1 (round_half_even frequency_per_day)) (max 1 (round_half_even duration_hours))"

definition ensure_safety_floor :: "spa_port \<Rightarrow> rat \<Rightarrow> rat \<Rightarrow> spa_request list option" where
  "ensure_safety_floor pt freq dur = send_request pt (safety_floor_request freq dur)"

definition start_filtering :: "spa_port \<Rightarrow> spa_request list option" where
  "start_filtering pt = send_request pt (SetFilterState ''on'')"

definition stop_filtering :: "spa_port \<Rightarrow> spa_request list option" where
  "stop_filtering pt = send_request pt (SetFilterState ''off'')"

definition set_target_temperature_c :: "spa_port \<Rightarrow> rat \<Rightarrow> spa_request list option" where
  "set_target_temperature_c pt c = send_request pt (SetTemperatureF (celsius_to_fahrenheit_int c))"

subsection \<open>Configuration and state\<close>

record spa_control =
  sc_smart_control_enabled :: bool
  sc_strategy :: string
  sc_dry_run :: bool
  sc_shadow_mode :: bool
  sc_allowed_window_start :: string
  sc_allowed_window_end :: string
  sc_filter_cycles_per_day :: int
  sc_filter_duration_minutes :: int
  sc_minimum_cycle_separation_minutes :: int
  sc_filter_optimization_enabled :: bool
  sc_safety_floor_frequency_per_day :: rat
  sc_safety_floor_duration_hours :: rat
  sc_smart_preheat_enabled :: bool
  sc_normal_temperature_c :: rat
  sc_max_preheat_temperature_c :: rat
  sc_min_comfort_temperature_c :: rat
  sc_fixed_schedule_start :: "string option"
  sc_fixed_schedule_end :: "string option"

datatype spa_actuator_state = SPA_IDLE | SPA_WAITING | SPA_CLEANING | SPA_COOLDOWN | SPA_DEGRADED | SPA_MANUAL

record spa_actuator_runtime =
  sr_state :: spa_actuator_state
  sr_cleaning_started_at :: "time option"
  sr_cleaning_stop_at :: "time option"
  sr_last_command_at :: "time option"
  sr_last_stop_at :: "time option"
  sr_starts_today :: int
  sr_starts_day :: string
  sr_manual_override_until :: "time option"
  sr_filter_held_off_until :: "time option"
  sr_last_planner_run_at :: "time option"
  sr_integration_degraded :: bool
  sr_last_reason :: string
  sr_last_reason_sv :: string

definition fresh_spa_runtime :: spa_actuator_runtime where
  "fresh_spa_runtime = \<lparr> sr_state = SPA_IDLE, sr_cleaning_started_at = None, sr_cleaning_stop_at = None,
     sr_last_command_at = None, sr_last_stop_at = None, sr_starts_today = 0, sr_starts_day = [],
     sr_manual_override_until = None, sr_filter_held_off_until = None, sr_last_planner_run_at = None,
     sr_integration_degraded = False, sr_last_reason = [], sr_last_reason_sv = [] \<rparr>"

text \<open>A non-empty string, as Python's truth value of an optional string.\<close>

definition str_given :: "string option \<Rightarrow> bool" where
  "str_given s \<longleftrightarrow> (case s of None \<Rightarrow> False | Some v \<Rightarrow> v \<noteq> [])"

definition is_spa_filter_self_managed :: "spa_control \<Rightarrow> bool" where
  "is_spa_filter_self_managed c \<longleftrightarrow> \<not> sc_filter_optimization_enabled c
     \<or> (sc_strategy c = ''FIXED_SCHEDULE'' \<and> str_given (sc_fixed_schedule_start c) \<and> str_given (sc_fixed_schedule_end c))"

subsection \<open>The filter policy and its schedule on the spa\<close>

record spa_filter_policy =
  fp_cycles_per_day :: int
  fp_duration_per_cycle_minutes :: int
  fp_minimum_cycle_separation_minutes :: int
  fp_optimization_enabled :: bool

definition policy_from_control :: "spa_control \<Rightarrow> spa_filter_policy" where
  "policy_from_control c = \<lparr> fp_cycles_per_day = sc_filter_cycles_per_day c,
     fp_duration_per_cycle_minutes = sc_filter_duration_minutes c,
     fp_minimum_cycle_separation_minutes = sc_minimum_cycle_separation_minutes c,
     fp_optimization_enabled = sc_filter_optimization_enabled c \<rparr>"

definition total_daily_runtime_minutes :: "spa_filter_policy \<Rightarrow> int" where
  "total_daily_runtime_minutes p = fp_cycles_per_day p * fp_duration_per_cycle_minutes p"

text \<open>\<open>validate\<close> against a window of so many hours: feasible, and the achievable hours.\<close>

definition policy_min_span :: "spa_filter_policy \<Rightarrow> rat" where
  "policy_min_span p = of_int (fp_cycles_per_day p) * (of_int (fp_duration_per_cycle_minutes p) / 60)
     + of_int (max 0 (fp_cycles_per_day p - 1)) * (of_int (fp_minimum_cycle_separation_minutes p) / 60)"

definition validate_policy :: "spa_filter_policy \<Rightarrow> rat \<Rightarrow> bool \<times> rat option" where
  "validate_policy p window_hours =
     (if fp_cycles_per_day p < 1 \<or> fp_duration_per_cycle_minutes p < 15 then (False, None)
      else if of_int (fp_duration_per_cycle_minutes p) / 60 > window_hours then (False, None)
      else if policy_min_span p > window_hours + 1 / 10 ^ 9 then (False, Some window_hours)
      else (True, Some (of_int (total_daily_runtime_minutes p) / 60)))"

record filter_snapshot =
  fs_frequency :: int
  fs_duration_hours :: int

definition policy_snapshot :: "spa_filter_policy \<Rightarrow> filter_snapshot" where
  "policy_snapshot p = \<lparr> fs_frequency = max 1 (fp_cycles_per_day p),
     fs_duration_hours = max 1 (fp_duration_per_cycle_minutes p div 60) \<rparr>"

definition snapshot_matches :: "filter_snapshot \<Rightarrow> spa_filter_policy \<Rightarrow> bool" where
  "snapshot_matches s p \<longleftrightarrow> fs_frequency s = fp_cycles_per_day p
     \<and> fs_duration_hours s = max 1 (fp_duration_per_cycle_minutes p div 60)"

definition snapshot_of :: "spa_status \<Rightarrow> filter_snapshot" where
  "snapshot_of st = \<lparr>
     fs_frequency = max 1 (round_half_even (num_or (ss_filter_frequency st) 1)),
     fs_duration_hours = max 1 (round_half_even (num_or (map_option of_int (ss_filter_duration st)) 2)) \<rparr>"

text \<open>\<open>to_safe_schedule_json\<close> and \<open>safe_schedule_from_json\<close>, between the policy and the parsed
  object. \<open>int(...)\<close> of a JSON value: a number is truncated, of a string only the plain decimal
  form counts; what makes Python raise is \<open>None\<close>.\<close>

definition digit_value :: "char \<Rightarrow> int" where
  "digit_value c = of_char c - 48"

definition is_decimal_digit :: "char \<Rightarrow> bool" where
  "is_decimal_digit c \<longleftrightarrow> 0 \<le> digit_value c \<and> digit_value c \<le> 9"

definition decimal_value :: "string \<Rightarrow> int option" where
  "decimal_value s = (if s \<noteq> [] \<and> list_all is_decimal_digit s
     then Some (foldl (\<lambda>n c. n * 10 + digit_value c) 0 s) else None)"

definition to_safe_schedule :: "spa_filter_policy \<Rightarrow> json" where
  "to_safe_schedule p = JObj [(''frequency'', JInt (fp_cycles_per_day p)),
     (''duration_hours'', JInt (max 1 (fp_duration_per_cycle_minutes p div 60)))]"

fun json_int :: "json \<Rightarrow> int option" where
  "json_int (JInt n) = Some n"
| "json_int (JFloat x) = Some (if x \<ge> 0 then \<lfloor>x\<rfloor> else - \<lfloor>- x\<rfloor>)"
| "json_int (JBool b) = Some (if b then 1 else 0)"
| "json_int (JStr s) = (case s of
      c # ds \<Rightarrow> if c = CHR ''-'' then map_option uminus (decimal_value ds) else decimal_value s
    | [] \<Rightarrow> None)"
| "json_int _ = None"

definition safe_schedule_from_json :: "json option \<Rightarrow> (int \<times> int) option" where
  "safe_schedule_from_json raw = (case raw of
     Some (JObj d) \<Rightarrow>
       (case (json_int (json_get d ''frequency'' JNull), json_int (json_get d ''duration_hours'' JNull)) of
          (Some f, Some h) \<Rightarrow> Some (max 1 f, max 1 h)
        | _ \<Rightarrow> None)
   | _ \<Rightarrow> None)"

record schedule_result =
  sx_success :: bool
  sx_verified :: bool
  sx_previous :: "filter_snapshot option"
  sx_applied :: "filter_snapshot option"
  sx_degraded :: bool
  sx_restored_baseline :: bool

definition restore_baseline :: "spa_port \<Rightarrow> json option \<Rightarrow> filter_snapshot \<Rightarrow> bool \<times> spa_request list" where
  "restore_baseline pt safe_json fallback =
     (let fd = (case safe_schedule_from_json safe_json of
                  Some s \<Rightarrow> s | None \<Rightarrow> (fs_frequency fallback, fs_duration_hours fallback))
      in case ensure_safety_floor pt (of_int (max 1 (fst fd))) (of_int (max 1 (snd fd))) of
           None \<Rightarrow> (False, []) | Some rqs \<Rightarrow> (True, rqs))"

definition schedule_failed :: "filter_snapshot option \<Rightarrow> filter_snapshot option \<Rightarrow> bool \<Rightarrow> schedule_result" where
  "schedule_failed previous applied restored = \<lparr> sx_success = False, sx_verified = False,
     sx_previous = previous, sx_applied = applied, sx_degraded = True, sx_restored_baseline = restored \<rparr>"

text \<open>\<open>apply_policy\<close>: the status before and after the write come from the port.\<close>

definition apply_filter_policy ::
  "spa_port \<Rightarrow> spa_filter_policy \<Rightarrow> bool \<Rightarrow> json option \<Rightarrow> schedule_result \<times> spa_request list" where
  "apply_filter_policy pt p dry_run safe_json =
     (case map_option snapshot_of (pt_before pt) of
        None \<Rightarrow> (schedule_failed None None False, [])
      | Some previous \<Rightarrow>
          if snapshot_matches previous p
          then (\<lparr> sx_success = True, sx_verified = True, sx_previous = Some previous, sx_applied = Some previous,
                  sx_degraded = False, sx_restored_baseline = False \<rparr>, [])
          else let target = policy_snapshot p in
            if dry_run
            then (\<lparr> sx_success = True, sx_verified = False, sx_previous = Some previous, sx_applied = Some target,
                    sx_degraded = False, sx_restored_baseline = False \<rparr>, [])
            else case ensure_safety_floor pt (of_int (fs_frequency target)) (of_int (fs_duration_hours target)) of
              None \<Rightarrow> (let rb = restore_baseline pt safe_json target in
                (schedule_failed (Some previous) None (fst rb), snd rb))
            | Some rqs \<Rightarrow>
                (case map_option snapshot_of (pt_after pt) of
                   None \<Rightarrow> (let rb = restore_baseline pt safe_json target in
                     (schedule_failed (Some previous) None (fst rb), rqs @ snd rb))
                 | Some applied \<Rightarrow>
                     if snapshot_matches applied p
                     then (\<lparr> sx_success = True, sx_verified = True, sx_previous = Some previous,
                             sx_applied = Some applied, sx_degraded = False, sx_restored_baseline = False \<rparr>, rqs)
                     else (let rb = restore_baseline pt safe_json target in
                       (schedule_failed (Some previous) (Some applied) (fst rb), rqs @ snd rb))))"

subsection \<open>The actuator\<close>

record spa_decision =
  sd_action :: string
  sd_reason :: string
  sd_reason_sv :: string
  sd_command_sent :: bool
  sd_dry_run :: bool

type_synonym actuation = "spa_decision \<times> spa_actuator_runtime \<times> spa_request list"

definition no_command :: "string \<Rightarrow> string \<Rightarrow> string \<Rightarrow> bool \<Rightarrow> spa_actuator_runtime \<Rightarrow> actuation" where
  "no_command action reason reason_sv dry_run r =
     (\<lparr> sd_action = action, sd_reason = reason, sd_reason_sv = reason_sv, sd_command_sent = False,
        sd_dry_run = dry_run \<rparr>, r, [])"

definition with_requests :: "spa_request list \<Rightarrow> actuation \<Rightarrow> actuation" where
  "with_requests rqs a = (fst a, fst (snd a), rqs)"

definition degrade :: "spa_actuator_runtime \<Rightarrow> spa_actuator_runtime" where
  "degrade r = r\<lparr> sr_integration_degraded := True, sr_state := SPA_DEGRADED \<rparr>"

definition select_window :: "load_plan option \<Rightarrow> time \<Rightarrow> plan_window option" where
  "select_window plan now = (case plan of
     None \<Rightarrow> None
   | Some p \<Rightarrow>
       (case filter (\<lambda>w. pw_start w \<le> now \<and> now < pw_end w) (lp_windows p) of
          w # _ \<Rightarrow> Some w
        | [] \<Rightarrow> (case first_min pw_start (filter (\<lambda>w. pw_start w > now) (lp_windows p)) of
                   Some w \<Rightarrow> Some w
                 | None \<Rightarrow> if lp_windows p = [] then None else Some (last (lp_windows p)))))"

definition cooldown_blocks_start :: "spa_control \<Rightarrow> spa_actuator_runtime \<Rightarrow> time \<Rightarrow> bool" where
  "cooldown_blocks_start c r now = (case sr_last_stop_at r of
     None \<Rightarrow> False
   | Some t \<Rightarrow> now - t < minutes_us (sc_minimum_cycle_separation_minutes c))"

definition started_cleaning ::
  "spa_control \<Rightarrow> spa_actuator_runtime \<Rightarrow> time \<Rightarrow> string \<Rightarrow> string \<Rightarrow> time option \<Rightarrow> spa_actuator_runtime" where
  "started_cleaning c r now reason reason_sv stop_at = r\<lparr> sr_state := SPA_CLEANING,
     sr_cleaning_started_at := Some now,
     sr_cleaning_stop_at := Some (or_else stop_at (now + minutes_us (sc_filter_duration_minutes c))),
     sr_last_command_at := Some now, sr_starts_today := sr_starts_today r + 1,
     sr_last_reason := reason, sr_last_reason_sv := reason_sv \<rparr>"

definition start_cleaning ::
  "spa_port \<Rightarrow> spa_control \<Rightarrow> spa_actuator_runtime \<Rightarrow> time \<Rightarrow> string \<Rightarrow> string \<Rightarrow> bool \<Rightarrow> time option \<Rightarrow> actuation" where
  "start_cleaning pt c r now reason reason_sv dry_run stop_at =
     (if sr_starts_today r \<ge> sc_filter_cycles_per_day c
      then no_command ''none'' ''max_starts'' ''max_starter'' dry_run r
      else if dry_run
      then no_command ''start'' reason reason_sv True
             (r\<lparr> sr_state := SPA_WAITING, sr_last_reason := reason, sr_last_reason_sv := reason_sv \<rparr>)
      else case ensure_safety_floor pt (sc_safety_floor_frequency_per_day c) (sc_safety_floor_duration_hours c) of
        None \<Rightarrow> no_command ''none'' ''api_failed'' ''api_fel'' False (degrade r)
      | Some floor_rqs \<Rightarrow>
          (case start_filtering pt of
             None \<Rightarrow> with_requests floor_rqs (no_command ''none'' ''api_failed'' ''api_fel'' False (degrade r))
           | Some rqs \<Rightarrow> (\<lparr> sd_action = ''start'', sd_reason = reason, sd_reason_sv = reason_sv,
                 sd_command_sent = True, sd_dry_run = False \<rparr>,
               started_cleaning c r now reason reason_sv stop_at, floor_rqs @ rqs)))"

definition stopped_cleaning :: "spa_actuator_runtime \<Rightarrow> time \<Rightarrow> spa_actuator_runtime" where
  "stopped_cleaning r now = r\<lparr> sr_state := SPA_COOLDOWN, sr_last_stop_at := Some now,
     sr_cleaning_started_at := None, sr_cleaning_stop_at := None \<rparr>"

definition min_run_reached :: "spa_control \<Rightarrow> spa_actuator_runtime \<Rightarrow> time \<Rightarrow> bool" where
  "min_run_reached c r now = (case sr_cleaning_started_at r of
     None \<Rightarrow> True | Some t \<Rightarrow> now - t \<ge> minutes_us (sc_filter_duration_minutes c))"

definition handle_active_cleaning ::
  "spa_port \<Rightarrow> spa_control \<Rightarrow> spa_actuator_runtime \<Rightarrow> spa_status option \<Rightarrow> time \<Rightarrow> bool \<Rightarrow> plan_window option
     \<Rightarrow> actuation" where
  "handle_active_cleaning pt c r status now dry_run window =
     (if \<not> min_run_reached c r now then no_command ''hold'' ''min_run'' ''min_kortid'' dry_run r
      else if (case window of None \<Rightarrow> False | Some w \<Rightarrow> now < pw_end w)
      then no_command ''hold'' ''cleaning_active'' ''cleaning_pagar'' dry_run r
      else if (case sr_cleaning_stop_at r of None \<Rightarrow> False | Some t \<Rightarrow> now \<ge> t)
      then if dry_run
        then no_command ''stop'' ''window_end'' ''fonster_slut'' True
               (r\<lparr> sr_state := SPA_COOLDOWN, sr_last_stop_at := Some now \<rparr>)
        else (case stop_filtering pt of
                None \<Rightarrow> no_command ''hold'' ''stop_failed'' ''stopp_fel'' False
                          (r\<lparr> sr_integration_degraded := True \<rparr>)
              | Some rqs \<Rightarrow> (\<lparr> sd_action = ''stop'', sd_reason = ''window_end'', sd_reason_sv = ''fonster_slut'',
                    sd_command_sent = True, sd_dry_run = False \<rparr>, stopped_cleaning r now, rqs))
      else if (case status of None \<Rightarrow> False
               | Some s \<Rightarrow> ss_filter_status s \<in> {Some ''Idle'', Some ''Suspended''})
           \<and> sr_cleaning_started_at r \<noteq> None \<and> min_run_reached c r now
      then no_command ''done'' ''cleaning_complete'' ''cleaning_klar'' dry_run
             (r\<lparr> sr_state := SPA_IDLE, sr_last_stop_at := Some now \<rparr>)
      else no_command ''hold'' ''cleaning_active'' ''cleaning_pagar'' dry_run r)"

definition new_day :: "string \<Rightarrow> spa_actuator_runtime \<Rightarrow> spa_actuator_runtime" where
  "new_day day r = (if sr_starts_day r \<noteq> day then r\<lparr> sr_starts_day := day, sr_starts_today := 0 \<rparr> else r)"

definition run_window ::
  "spa_port \<Rightarrow> spa_control \<Rightarrow> spa_actuator_runtime \<Rightarrow> load_plan option \<Rightarrow> time \<Rightarrow> bool \<Rightarrow> plan_window option \<Rightarrow> actuation" where
  "run_window pt c r plan now dry_run window = (case window of
     None \<Rightarrow> no_command ''none'' ''no_plan'' ''ingen_plan'' dry_run r
   | Some w \<Rightarrow>
       if now < pw_start w
       then if now \<ge> pw_start w - minutes_us 5
         then no_command ''wait'' ''pre_window'' ''vantar_fonster'' dry_run r
         else no_command ''none'' ''scheduled'' ''planerad'' dry_run r
       else if pw_start w \<le> now \<and> now < pw_end w
       then if cooldown_blocks_start c r now
         then no_command ''none'' ''cooldown'' ''paus'' dry_run r
         else start_cleaning pt c r now
           (case plan of Some p \<Rightarrow> lp_reason p | None \<Rightarrow> ''scheduled'')
           (case plan of Some p \<Rightarrow> lp_reason_sv p | None \<Rightarrow> ''planerad'') dry_run (Some (pw_end w))
       else no_command ''none'' ''window_passed'' ''fonster_passerat'' dry_run r)"

definition run_spa_cycle ::
  "spa_port \<Rightarrow> spa_control \<Rightarrow> (time \<Rightarrow> string) \<Rightarrow> spa_actuator_runtime \<Rightarrow> spa_status option \<Rightarrow> load_plan option
     \<Rightarrow> time \<Rightarrow> bool \<Rightarrow> actuation" where
  "run_spa_cycle pt c day_key r0 status plan now manual_override =
     (let r = new_day (day_key now) r0;
          auto_dry_run = (sc_dry_run c \<or> sc_shadow_mode c)
      in if (case status of None \<Rightarrow> False | Some s \<Rightarrow> ss_errors s \<noteq> [])
         then no_command ''none'' ''spa_fault'' ''spa_fel'' (sc_dry_run c) (degrade r)
         else if auto_dry_run \<and> \<not> manual_override
         then no_command ''plan_only'' ''dry_run'' ''torrkorning'' True r
         else if is_spa_filter_self_managed c \<and> \<not> manual_override
         then no_command ''plan_only'' ''spa_self_managed'' ''eco_pak_styr_filter'' True r
         else if manual_override
         then start_cleaning pt c r now ''manual_override'' ''manuell_overstyrning'' (sc_dry_run c) None
         else if sr_integration_degraded r
         then no_command ''none'' ''integration_degraded'' ''integration_degraderad'' auto_dry_run r
         else let window = select_window plan now in
           if sr_state r = SPA_CLEANING then handle_active_cleaning pt c r status now auto_dry_run window
           else run_window pt c r plan now auto_dry_run window)"

definition apply_preheat ::
  "spa_port \<Rightarrow> spa_control \<Rightarrow> spa_actuator_runtime \<Rightarrow> spa_status option \<Rightarrow> rat \<Rightarrow> rat option \<Rightarrow> time \<Rightarrow> actuation" where
  "apply_preheat pt c r status surplus_w price now =
     (let target = max (min (sc_max_preheat_temperature_c c) (sc_normal_temperature_c c + 1))
                    (sc_min_comfort_temperature_c c);
          cheap = (case price of None \<Rightarrow> False | Some p \<Rightarrow> p \<le> 15/100)
      in if \<not> sc_smart_preheat_enabled c
         then no_command ''none'' ''preheat_disabled'' ''forvarmning_av'' (sc_dry_run c) r
         else if sc_dry_run c \<or> sc_shadow_mode c
         then no_command ''none'' ''preheat_dry_run'' ''forvarmning_tor'' True r
         else case status of
           None \<Rightarrow> no_command ''none'' ''preheat_offline'' ''forvarmning_offline'' False r
         | Some s \<Rightarrow>
             if \<not> ss_connected s then no_command ''none'' ''preheat_offline'' ''forvarmning_offline'' False r
             else if surplus_w < 1500 \<and> \<not> cheap
             then no_command ''none'' ''preheat_skip'' ''forvarmning_skip'' False r
             else if (case ss_setpoint_c s of None \<Rightarrow> False | Some x \<Rightarrow> x \<ge> target - 1/10)
             then no_command ''none'' ''preheat_ok'' ''forvarmning_redan'' False r
             else (case set_target_temperature_c pt target of
                 None \<Rightarrow> no_command ''none'' ''preheat_failed'' ''forvarmning_fel'' False
                           (r\<lparr> sr_integration_degraded := True \<rparr>)
               | Some rqs \<Rightarrow> (\<lparr> sd_action = ''preheat'', sd_reason = ''preheat_applied'',
                     sd_reason_sv = ''forvarmning_aktiv'', sd_command_sent = True, sd_dry_run = False \<rparr>,
                   r\<lparr> sr_last_command_at := Some now \<rparr>, rqs)))"

subsection \<open>The watchdog\<close>

definition watchdog_run ::
  "spa_port \<Rightarrow> spa_control \<Rightarrow> int \<Rightarrow> spa_actuator_runtime \<Rightarrow> time \<Rightarrow> bool \<Rightarrow> actuation" where
  "watchdog_run pt c stale_after r now dry_run =
     (if \<not> sc_smart_control_enabled c \<or> dry_run \<or> is_spa_filter_self_managed c
      then no_command ''none'' ''watchdog_inactive'' ''vakt_inaktiv'' False r
      else case sr_last_planner_run_at r of
        None \<Rightarrow> no_command ''none'' ''watchdog_no_baseline'' ''vakt_ingen_baslinje'' False r
      | Some t \<Rightarrow>
          if \<not> (now - t > stale_after) then no_command ''none'' ''watchdog_ok'' ''vakt_ok'' False r
          else if sr_state r \<notin> {SPA_WAITING, SPA_IDLE, SPA_COOLDOWN}
          then no_command ''none'' ''watchdog_active_cleaning'' ''vakt_cleaning_pagar'' False r
          else (case ensure_safety_floor pt (sc_safety_floor_frequency_per_day c) (sc_safety_floor_duration_hours c) of
              None \<Rightarrow> no_command ''none'' ''watchdog_api_failed'' ''vakt_api_fel'' False (degrade r)
            | Some rqs \<Rightarrow> (\<lparr> sd_action = ''recover'', sd_reason = ''watchdog_safety_floor_restored'',
                  sd_reason_sv = ''vakt_sakerhetsgolv'', sd_command_sent = True, sd_dry_run = False \<rparr>,
                (degrade r)\<lparr> sr_filter_held_off_until := None \<rparr>, rqs)))"

subsection \<open>The stored state\<close>

text \<open>\<open>SpaActuatorStateRepository\<close>: the runtime as the object \<open>json.dumps\<close> prints and
  \<open>json.loads\<close> reads. \<open>to_iso\<close> and \<open>parse\<close> are \<open>isoformat\<close> and \<open>fromisoformat\<close>; a member of a type the
  repository never writes makes \<open>deserialize_runtime\<close> fail with \<open>None\<close>.\<close>

definition state_name :: "spa_actuator_state \<Rightarrow> string" where
  "state_name st = (case st of SPA_IDLE \<Rightarrow> ''IDLE'' | SPA_WAITING \<Rightarrow> ''WAITING'' | SPA_CLEANING \<Rightarrow> ''CLEANING''
     | SPA_COOLDOWN \<Rightarrow> ''COOLDOWN'' | SPA_DEGRADED \<Rightarrow> ''DEGRADED'' | SPA_MANUAL \<Rightarrow> ''MANUAL'')"

definition state_of_json :: "json \<Rightarrow> spa_actuator_state" where
  "state_of_json j = (case filter (\<lambda>st. j = JStr (state_name st))
       [SPA_IDLE, SPA_WAITING, SPA_CLEANING, SPA_COOLDOWN, SPA_DEGRADED, SPA_MANUAL] of
     st # _ \<Rightarrow> st | [] \<Rightarrow> SPA_IDLE)"

definition json_time :: "(time \<Rightarrow> string) \<Rightarrow> time option \<Rightarrow> json" where
  "json_time to_iso t = (case t of None \<Rightarrow> JNull | Some v \<Rightarrow> JStr (to_iso v))"

definition time_of_json :: "(string \<Rightarrow> time option) \<Rightarrow> json \<Rightarrow> time option option" where
  "time_of_json parse j = (if \<not> json_truthy j then Some None
     else case j of JStr s \<Rightarrow> map_option Some (parse s) | _ \<Rightarrow> None)"

definition serialize_runtime :: "(time \<Rightarrow> string) \<Rightarrow> spa_actuator_runtime \<Rightarrow> json" where
  "serialize_runtime to_iso r = JObj
     [(''state'', JStr (state_name (sr_state r))),
      (''cleaning_started_at'', json_time to_iso (sr_cleaning_started_at r)),
      (''cleaning_stop_at'', json_time to_iso (sr_cleaning_stop_at r)),
      (''last_command_at'', json_time to_iso (sr_last_command_at r)),
      (''last_stop_at'', json_time to_iso (sr_last_stop_at r)),
      (''starts_today'', JInt (sr_starts_today r)),
      (''starts_day'', JStr (sr_starts_day r)),
      (''manual_override_until'', json_time to_iso (sr_manual_override_until r)),
      (''filter_held_off_until'', json_time to_iso (sr_filter_held_off_until r)),
      (''last_planner_run_at'', json_time to_iso (sr_last_planner_run_at r)),
      (''integration_degraded'', JBool (sr_integration_degraded r)),
      (''last_reason'', JStr (sr_last_reason r)),
      (''last_reason_sv'', JStr (sr_last_reason_sv r))]"

definition deserialize_members ::
  "(string \<Rightarrow> time option) \<Rightarrow> (string \<times> json) list \<Rightarrow> spa_actuator_runtime option" where
  "deserialize_members parse d =
     (let tm = (\<lambda>k. time_of_json parse (json_get d k JNull)) in
      case (tm ''cleaning_started_at'', tm ''cleaning_stop_at'', tm ''last_command_at'', tm ''last_stop_at'',
            json_int (json_get d ''starts_today'' (JInt 0)), json_str (json_get d ''starts_day'' (JStr []))) of
        (Some a, Some b, Some c, Some e, Some n, Some day) \<Rightarrow>
          (case (tm ''manual_override_until'', tm ''filter_held_off_until'', tm ''last_planner_run_at'',
                 json_str (json_get d ''last_reason'' (JStr [])), json_str (json_get d ''last_reason_sv'' (JStr []))) of
             (Some m, Some f, Some p, Some lr, Some lrs) \<Rightarrow> Some \<lparr>
               sr_state = state_of_json (json_get d ''state'' (JStr ''IDLE'')),
               sr_cleaning_started_at = a, sr_cleaning_stop_at = b, sr_last_command_at = c,
               sr_last_stop_at = e, sr_starts_today = n, sr_starts_day = day,
               sr_manual_override_until = m, sr_filter_held_off_until = f, sr_last_planner_run_at = p,
               sr_integration_degraded = json_truthy (json_get d ''integration_degraded'' (JBool False)),
               sr_last_reason = lr, sr_last_reason_sv = lrs \<rparr>
           | _ \<Rightarrow> None)
      | _ \<Rightarrow> None)"

text \<open>No row text, or text that is not JSON, is a fresh runtime; JSON that is not an object raises.\<close>

definition deserialize_runtime :: "(string \<Rightarrow> time option) \<Rightarrow> json option \<Rightarrow> spa_actuator_runtime option" where
  "deserialize_runtime parse raw = (case raw of
     None \<Rightarrow> Some fresh_spa_runtime
   | Some (JObj d) \<Rightarrow> deserialize_members parse d
   | Some _ \<Rightarrow> None)"

subsection \<open>The service\<close>

record spa_site =
  st_runtime :: spa_actuator_runtime
  st_safe_schedule :: "json option"
  st_log :: "(time \<times> spa_request) list"

record spa_tick =
  tk_port :: spa_port
  tk_control :: spa_control
  tk_status :: "spa_status option"
  tk_plan :: load_plan
  tk_now :: time
  tk_manual :: bool
  tk_surplus_w :: rat
  tk_price :: "rat option"

definition log_requests :: "time \<Rightarrow> spa_request list \<Rightarrow> spa_site \<Rightarrow> spa_site" where
  "log_requests now rqs s = s\<lparr> st_log := st_log s @ map (Pair now) rqs \<rparr>"

definition maybe_run_watchdog :: "int \<Rightarrow> spa_tick \<Rightarrow> spa_site \<Rightarrow> spa_site" where
  "maybe_run_watchdog stale_after k s =
     (if is_spa_filter_self_managed (tk_control k) then s
      else let a = watchdog_run (tk_port k) (tk_control k) stale_after (st_runtime s) (tk_now k)
                 (sc_dry_run (tk_control k) \<or> sc_shadow_mode (tk_control k))
           in log_requests (tk_now k) (snd (snd a)) (s\<lparr> st_runtime := fst (snd a) \<rparr>))"

definition policy_applied :: "spa_tick \<Rightarrow> spa_site \<Rightarrow> spa_site" where
  "policy_applied k s =
     (let c = tk_control k;
          x = apply_filter_policy (tk_port k) (policy_from_control c)
                (sc_dry_run c \<or> sc_shadow_mode c \<or> \<not> sc_filter_optimization_enabled c) (st_safe_schedule s);
          s' = (if sx_verified (fst x) then s\<lparr> st_safe_schedule := Some (to_safe_schedule (policy_from_control c)) \<rparr>
                else if sx_degraded (fst x)
                then s\<lparr> st_runtime := (st_runtime s)\<lparr> sr_integration_degraded := True \<rparr> \<rparr> else s)
      in log_requests (tk_now k) (snd x) s')"

definition cycle_run :: "(time \<Rightarrow> string) \<Rightarrow> spa_tick \<Rightarrow> spa_site \<Rightarrow> spa_site" where
  "cycle_run day_key k s =
     (let a = run_spa_cycle (tk_port k) (tk_control k) day_key (st_runtime s) (tk_status k) (Some (tk_plan k))
            (tk_now k) (tk_manual k)
      in log_requests (tk_now k) (snd (snd a)) (s\<lparr> st_runtime := fst (snd a) \<rparr>))"

definition preheat_run :: "spa_tick \<Rightarrow> spa_site \<Rightarrow> spa_site" where
  "preheat_run k s =
     (let a = apply_preheat (tk_port k) (tk_control k) (st_runtime s) (tk_status k) (tk_surplus_w k) (tk_price k) (tk_now k)
      in log_requests (tk_now k) (snd (snd a)) (s\<lparr> st_runtime := fst (snd a) \<rparr>))"

definition actuate :: "(time \<Rightarrow> string) \<Rightarrow> spa_tick \<Rightarrow> spa_site \<Rightarrow> spa_site" where
  "actuate day_key k s =
     (if is_spa_filter_self_managed (tk_control k) \<and> \<not> tk_manual k then s
      else preheat_run k (cycle_run day_key k (policy_applied k s)))"

definition planner_ran :: "spa_tick \<Rightarrow> spa_site \<Rightarrow> spa_site" where
  "planner_ran k s = s\<lparr> st_runtime := (st_runtime s)\<lparr> sr_last_planner_run_at := Some (tk_now k) \<rparr> \<rparr>"

definition apply_orchestrated_plan :: "(time \<Rightarrow> string) \<Rightarrow> int \<Rightarrow> bool \<Rightarrow> spa_site \<Rightarrow> spa_tick \<Rightarrow> spa_site" where
  "apply_orchestrated_plan day_key stale_after control_setting s k =
     (let s1 = planner_ran k (maybe_run_watchdog stale_after k s) in
      if sc_smart_control_enabled (tk_control k) \<and> control_setting
         \<and> \<not> (is_spa_filter_self_managed (tk_control k) \<and> \<not> tk_manual k)
      then actuate day_key k s1 else s1)"

text \<open>
  A manual start goes past the orchestrator: neither the watchdog nor the setting of the installation
  is looked at, and the planner does not count as run.
\<close>

definition run_cleaning_now :: "(time \<Rightarrow> string) \<Rightarrow> spa_site \<Rightarrow> spa_tick \<Rightarrow> spa_site" where
  "run_cleaning_now day_key s k = (if sc_smart_control_enabled (tk_control k) then actuate day_key k s else s)"

definition spa_step :: "(time \<Rightarrow> string) \<Rightarrow> int \<Rightarrow> bool \<Rightarrow> spa_site \<Rightarrow> spa_tick \<Rightarrow> spa_site" where
  "spa_step day_key stale_after control_setting s k =
     (if tk_manual k then run_cleaning_now day_key s k
      else apply_orchestrated_plan day_key stale_after control_setting s k)"

end
