(* ===== verification/Spa_Runs.thy ===== *)
theory Spa_Runs
  imports Spa_Control
begin

section \<open>What the spa control guarantees\<close>

text \<open>
  The cases of one actuator cycle, then runs of the service over any sequence of ticks: the
  daily limit of starts, what justifies switching the filter, and how the control ends once
  the integration counts as degraded.
\<close>

subsection \<open>Requests that do not switch the filter\<close>

definition switch_free :: "spa_request list \<Rightarrow> bool" where
  "switch_free rqs \<longleftrightarrow> (\<forall>x. SetFilterState x \<notin> set rqs)"

lemma switch_free_simps [simp]:
  "switch_free []"
  "switch_free (rqs @ rqs') \<longleftrightarrow> switch_free rqs \<and> switch_free rqs'"
  "switch_free (SetFilterSchedule f d # rqs) \<longleftrightarrow> switch_free rqs"
  "switch_free (SetTemperatureF t # rqs) \<longleftrightarrow> switch_free rqs"
  "\<not> switch_free (SetFilterState x # rqs)"
  by (auto simp: switch_free_def)

lemma floor_requests:
  "ensure_safety_floor pt f d = Some rqs \<Longrightarrow> rqs = [safety_floor_request f d]"
  by (simp add: ensure_safety_floor_def send_request_def split: if_splits)

lemma floor_switch_free: "ensure_safety_floor pt f d = Some rqs \<Longrightarrow> switch_free rqs"
  by (drule floor_requests) (simp add: safety_floor_request_def)

lemma temperature_switch_free: "set_target_temperature_c pt x = Some rqs \<Longrightarrow> switch_free rqs"
  by (auto simp: set_target_temperature_c_def send_request_def split: if_splits)

lemma start_request: "start_filtering pt = Some rqs \<longleftrightarrow> pt_accepts pt (SetFilterState ''on'') \<and> rqs = [SetFilterState ''on'']"
  by (auto simp: start_filtering_def send_request_def)

lemma stop_request: "stop_filtering pt = Some rqs \<longleftrightarrow> pt_accepts pt (SetFilterState ''off'') \<and> rqs = [SetFilterState ''off'']"
  by (auto simp: stop_filtering_def send_request_def)

text \<open>What the daily limit rests on.\<close>

definition same_count :: "spa_actuator_runtime \<Rightarrow> spa_actuator_runtime \<Rightarrow> bool" where
  "same_count r r' \<longleftrightarrow> sr_starts_today r' = sr_starts_today r \<and> sr_starts_day r' = sr_starts_day r
     \<and> (sr_integration_degraded r \<longrightarrow> sr_integration_degraded r')"

definition quiet :: "spa_actuator_runtime \<Rightarrow> actuation \<Rightarrow> bool" where
  "quiet r a \<longleftrightarrow> switch_free (snd (snd a)) \<and> same_count r (fst (snd a))"

lemma quiet_no_command [simp]: "quiet r (no_command a b c d r') \<longleftrightarrow> same_count r r'"
  by (simp add: quiet_def no_command_def)

lemma quiet_with_requests [simp]: "quiet r (with_requests rqs a) \<longleftrightarrow> switch_free rqs \<and> same_count r (fst (snd a))"
  by (simp add: quiet_def with_requests_def)

lemma same_count_simps [simp]:
  "same_count r r"
  "same_count r (degrade r')  \<longleftrightarrow> same_count r (r'\<lparr> sr_integration_degraded := True \<rparr>)"
  "same_count r (r\<lparr> sr_integration_degraded := True \<rparr>)"
  by (simp_all add: same_count_def degrade_def)

lemma restore_switch_free: "switch_free (snd (restore_baseline pt j s))"
  unfolding restore_baseline_def Let_def
  by (simp split: option.splits) (metis floor_switch_free)

lemma policy_switch_free: "switch_free (snd (apply_filter_policy pt p dry j))"
  unfolding apply_filter_policy_def Let_def
  using restore_switch_free by (simp add: floor_switch_free split: option.splits)

lemma watchdog_quiet: "quiet r (watchdog_run pt c stale r now dry)"
  unfolding watchdog_run_def
  by (simp add: same_count_def degrade_def quiet_def floor_switch_free no_command_def split: option.splits)

lemma preheat_quiet: "quiet r (apply_preheat pt c r st sw pr now)"
  unfolding apply_preheat_def Let_def
  by (simp add: same_count_def quiet_def temperature_switch_free no_command_def split: option.splits)

subsection \<open>The cases of a cycle\<close>

definition filter_start_outcome ::
  "spa_control \<Rightarrow> spa_actuator_runtime \<Rightarrow> time \<Rightarrow> actuation \<Rightarrow> bool" where
  "filter_start_outcome c r now a \<longleftrightarrow> sr_starts_today r < sc_filter_cycles_per_day c
     \<and> (\<exists>reason reason_sv stop_at. fst (snd a) = started_cleaning c r now reason reason_sv stop_at)
     \<and> snd (snd a) = [safety_floor_request (sc_safety_floor_frequency_per_day c) (sc_safety_floor_duration_hours c),
         SetFilterState ''on'']"

lemma start_cleaning_cases:
  "quiet r (start_cleaning pt c r now reason reason_sv dry stop_at)
   \<or> (\<not> dry \<and> filter_start_outcome c r now (start_cleaning pt c r now reason reason_sv dry stop_at))"
proof (cases "sr_starts_today r \<ge> sc_filter_cycles_per_day c \<or> dry")
  case True
  then show ?thesis unfolding start_cleaning_def by (auto simp: same_count_def)
next
  case False
  show ?thesis
  proof (cases "ensure_safety_floor pt (sc_safety_floor_frequency_per_day c) (sc_safety_floor_duration_hours c)")
    case None
    then show ?thesis using False unfolding start_cleaning_def by simp
  next
    case (Some rqs)
    note fl = floor_requests [OF Some]
    show ?thesis
    proof (cases "start_filtering pt")
      case None
      then show ?thesis
        using False Some floor_switch_free [OF Some] unfolding start_cleaning_def
        by (simp add: no_command_def)
    next
      case (Some rqs')
      then have "rqs' = [SetFilterState ''on'']" by (simp add: start_request)
      then show ?thesis
        using False \<open>ensure_safety_floor _ _ _ = Some rqs\<close> Some fl
        unfolding start_cleaning_def filter_start_outcome_def by (auto simp: not_le)
    qed
  qed
qed

definition stop_outcome ::
  "spa_control \<Rightarrow> spa_actuator_runtime \<Rightarrow> time \<Rightarrow> plan_window option \<Rightarrow> actuation \<Rightarrow> bool" where
  "stop_outcome c r now window a \<longleftrightarrow> sr_state r = SPA_CLEANING \<and> min_run_reached c r now
     \<and> (\<forall>w. window = Some w \<longrightarrow> pw_end w \<le> now) \<and> (\<exists>t. sr_cleaning_stop_at r = Some t \<and> t \<le> now)
     \<and> fst (snd a) = stopped_cleaning r now \<and> snd (snd a) = [SetFilterState ''off'']"

lemma handle_active_cases:
  assumes "sr_state r = SPA_CLEANING"
  shows "quiet r (handle_active_cleaning pt c r status now dry window)
   \<or> stop_outcome c r now window (handle_active_cleaning pt c r status now dry window)"
proof (cases "min_run_reached c r now \<and> \<not> (case window of None \<Rightarrow> False | Some w \<Rightarrow> now < pw_end w)
    \<and> (case sr_cleaning_stop_at r of None \<Rightarrow> False | Some t \<Rightarrow> now \<ge> t) \<and> \<not> dry \<and> stop_filtering pt \<noteq> None")
  case False
  then have "quiet r (handle_active_cleaning pt c r status now dry window)"
    unfolding handle_active_cleaning_def by (auto simp: same_count_def split: option.splits)
  then show ?thesis ..
next
  case True
  then obtain rqs where rqs: "stop_filtering pt = Some rqs" by blast
  then have "rqs = [SetFilterState ''off'']" by (simp add: stop_request)
  then have "stop_outcome c r now window (handle_active_cleaning pt c r status now dry window)"
    using True assms rqs unfolding handle_active_cleaning_def stop_outcome_def
    by (auto split: option.splits)
  then show ?thesis ..
qed

definition may_start :: "spa_control \<Rightarrow> spa_actuator_runtime \<Rightarrow> time \<Rightarrow> plan_window option \<Rightarrow> bool" where
  "may_start c r now window \<longleftrightarrow> \<not> cooldown_blocks_start c r now
     \<and> (\<exists>w. window = Some w \<and> pw_start w \<le> now \<and> now < pw_end w)"

lemma run_window_cases:
  "quiet r (run_window pt c r plan now dry window)
   \<or> (\<not> dry \<and> may_start c r now window \<and> filter_start_outcome c r now (run_window pt c r plan now dry window))"
proof (cases window)
  case None
  then show ?thesis by (simp add: run_window_def)
next
  case (Some w)
  show ?thesis
  proof (cases "pw_start w \<le> now \<and> now < pw_end w \<and> \<not> cooldown_blocks_start c r now")
    case True
    then show ?thesis
      using start_cleaning_cases [of r pt c now] Some
      by (auto simp: run_window_def may_start_def not_less)
  next
    case False
    then show ?thesis using Some by (auto simp: run_window_def)
  qed
qed

definition automatic_ready ::
  "spa_control \<Rightarrow> spa_actuator_runtime \<Rightarrow> spa_status option \<Rightarrow> bool" where
  "automatic_ready c r status \<longleftrightarrow> \<not> sc_dry_run c \<and> \<not> sc_shadow_mode c \<and> \<not> is_spa_filter_self_managed c
     \<and> \<not> sr_integration_degraded r \<and> (\<forall>s. status = Some s \<longrightarrow> ss_errors s = [])"

lemma new_day_simps [simp]:
  "sr_starts_day (new_day d r) = d"
  "sr_integration_degraded (new_day d r) = sr_integration_degraded r"
  "sr_last_stop_at (new_day d r) = sr_last_stop_at r"
  "sr_cleaning_started_at (new_day d r) = sr_cleaning_started_at r"
  "sr_cleaning_stop_at (new_day d r) = sr_cleaning_stop_at r"
  "sr_state (new_day d r) = sr_state r"
  by (simp_all add: new_day_def)

lemma cooldown_new_day [simp]: "cooldown_blocks_start c (new_day d r) now = cooldown_blocks_start c r now"
  by (simp add: cooldown_blocks_start_def)

lemma may_start_new_day [simp]: "may_start c (new_day d r) now w = may_start c r now w"
  by (simp add: may_start_def)

text \<open>One cycle is quiet, starts the filter or stops it.\<close>

lemma spa_cycle_cases:
  assumes a_def: "a = run_spa_cycle pt c day_key r status plan now manual"
  obtains (quiet) "quiet (new_day (day_key now) r) a"
  | (manual) "manual" "\<not> sc_dry_run c" "filter_start_outcome c (new_day (day_key now) r) now a"
  | (start) "\<not> manual" "automatic_ready c r status" "may_start c r now (select_window plan now)"
      "filter_start_outcome c (new_day (day_key now) r) now a"
  | (stop) "\<not> manual" "automatic_ready c r status"
      "stop_outcome c (new_day (day_key now) r) now (select_window plan now) a"
proof -
  let ?r = "new_day (day_key now) r"
  consider (fault) "\<exists>s. status = Some s \<and> ss_errors s \<noteq> []"
    | (user) "\<forall>s. status = Some s \<longrightarrow> ss_errors s = []" "manual"
    | (idle) "\<forall>s. status = Some s \<longrightarrow> ss_errors s = []" "\<not> manual" "\<not> automatic_ready c r status"
    | (auto) "\<not> manual" "automatic_ready c r status" by blast
  then show thesis
  proof cases
    case fault
    then have "a = no_command ''none'' ''spa_fault'' ''spa_fel'' (sc_dry_run c) (degrade ?r)"
      by (auto simp: a_def run_spa_cycle_def Let_def)
    then show thesis using quiet by simp
  next
    case user
    then have "a = start_cleaning pt c ?r now ''manual_override'' ''manuell_overstyrning'' (sc_dry_run c) None"
      by (auto simp: a_def run_spa_cycle_def Let_def split: option.splits)
    then show thesis using quiet manual user(2) start_cleaning_cases by metis
  next
    case idle
    then have "a \<in> {no_command ''plan_only'' ''dry_run'' ''torrkorning'' True ?r,
        no_command ''plan_only'' ''spa_self_managed'' ''eco_pak_styr_filter'' True ?r,
        no_command ''none'' ''integration_degraded'' ''integration_degraderad'' False ?r}"
      by (auto simp: a_def run_spa_cycle_def Let_def automatic_ready_def split: option.splits)
    then show thesis using quiet by auto
  next
    case auto
    show thesis
    proof (cases "sr_state r = SPA_CLEANING")
      case True
      then have "a = handle_active_cleaning pt c ?r status now False (select_window plan now)"
        using auto by (auto simp: a_def run_spa_cycle_def Let_def automatic_ready_def split: option.splits)
      then show thesis using quiet stop [OF auto] handle_active_cases True by (metis new_day_simps(6))
    next
      case False
      then have "a = run_window pt c ?r plan now False (select_window plan now)"
        using auto by (auto simp: a_def run_spa_cycle_def Let_def automatic_ready_def split: option.splits)
      then show thesis using quiet start [OF auto] run_window_cases may_start_new_day by metis
    qed
  qed
qed

subsection \<open>A tick of the service\<close>

text \<open>The filter switches in the log, with their times.\<close>

definition switch_log :: "spa_site \<Rightarrow> (time \<times> string) list" where
  "switch_log s = List.map_filter (\<lambda>p. case snd p of SetFilterState x \<Rightarrow> Some (fst p, x) | _ \<Rightarrow> None) (st_log s)"

lemma switch_log_requests:
  "switch_log (log_requests now rqs s) = switch_log s @
     List.map_filter (\<lambda>q. case q of SetFilterState x \<Rightarrow> Some (now, x) | _ \<Rightarrow> None) rqs"
  by (simp add: switch_log_def log_requests_def map_filter_def filter_map comp_def case_prod_beta
      map_filter_simps split: spa_request.splits)

lemma switch_free_log: "switch_free rqs \<Longrightarrow> switch_log (log_requests now rqs s) = switch_log s"
  by (induction rqs) (auto simp: switch_log_requests map_filter_simps switch_free_def split: spa_request.splits)

lemma switch_log_runtime [simp]:
  "switch_log (s\<lparr> st_runtime := r \<rparr>) = switch_log s"
  "switch_log (s\<lparr> st_safe_schedule := j \<rparr>) = switch_log s"
  by (simp_all add: switch_log_def)

lemma log_requests_runtime [simp]: "st_runtime (log_requests now rqs s) = st_runtime s"
  by (simp add: log_requests_def)

text \<open>A part of a tick that leaves the count and the switches alone.\<close>

definition calm :: "spa_site \<Rightarrow> spa_site \<Rightarrow> bool" where
  "calm s s' \<longleftrightarrow> switch_log s' = switch_log s \<and> same_count (st_runtime s) (st_runtime s')"

lemma calm_refl [simp]: "calm s s"
  by (simp add: calm_def)

lemma calm_trans: "calm s t \<Longrightarrow> calm t u \<Longrightarrow> calm s u"
  by (auto simp: calm_def same_count_def)

lemma calm_quiet:
  assumes "quiet (st_runtime s) a"
  shows "calm s (log_requests now (snd (snd a)) (s\<lparr> st_runtime := fst (snd a) \<rparr>))"
  using assms by (simp add: calm_def quiet_def switch_free_log)

lemma watchdog_calm: "calm s (maybe_run_watchdog stale k s)"
  unfolding maybe_run_watchdog_def Let_def by (simp add: calm_quiet watchdog_quiet)

lemma planner_ran_calm: "calm s (planner_ran k s)"
  by (simp add: planner_ran_def calm_def same_count_def)

lemma policy_calm: "calm s (policy_applied k s)"
  unfolding policy_applied_def Let_def
  by (simp add: calm_def same_count_def switch_free_log policy_switch_free)

lemma preheat_calm: "calm s (preheat_run k s)"
  unfolding preheat_run_def Let_def by (intro calm_quiet preheat_quiet)

text \<open>What comes before the cycle also keeps the times the rules look at.\<close>

definition same_times :: "spa_site \<Rightarrow> spa_site \<Rightarrow> bool" where
  "same_times s s' \<longleftrightarrow> sr_last_stop_at (st_runtime s') = sr_last_stop_at (st_runtime s)
     \<and> sr_cleaning_started_at (st_runtime s') = sr_cleaning_started_at (st_runtime s)
     \<and> sr_cleaning_stop_at (st_runtime s') = sr_cleaning_stop_at (st_runtime s)"

definition before_cycle :: "int \<Rightarrow> spa_tick \<Rightarrow> spa_site \<Rightarrow> spa_site" where
  "before_cycle stale k s = policy_applied k (planner_ran k (maybe_run_watchdog stale k s))"

lemma watchdog_times:
  "sr_last_stop_at (fst (snd (watchdog_run pt c stale r now dry))) = sr_last_stop_at r
   \<and> sr_cleaning_started_at (fst (snd (watchdog_run pt c stale r now dry))) = sr_cleaning_started_at r
   \<and> sr_cleaning_stop_at (fst (snd (watchdog_run pt c stale r now dry))) = sr_cleaning_stop_at r"
  unfolding watchdog_run_def by (simp add: no_command_def degrade_def split: option.splits)

lemma before_cycle_times: "same_times s (before_cycle stale k s)"
  unfolding same_times_def before_cycle_def policy_applied_def planner_ran_def maybe_run_watchdog_def Let_def
  by (simp add: watchdog_times)

lemma before_cycle_calm: "calm s (before_cycle stale k s)"
  unfolding before_cycle_def
  by (rule calm_trans [OF calm_trans [OF watchdog_calm planner_ran_calm] policy_calm])

text \<open>So a tick is calm, or its one cycle decides between calm parts.\<close>

lemma tick_cases:
  obtains (calm) "calm s (apply_orchestrated_plan day_key stale setting s k)"
  | (cycle) "calm (cycle_run day_key k (before_cycle stale k s)) (apply_orchestrated_plan day_key stale setting s k)"
proof (cases "sc_smart_control_enabled (tk_control k) \<and> setting
      \<and> \<not> (is_spa_filter_self_managed (tk_control k) \<and> \<not> tk_manual k)")
  case True
  then have "apply_orchestrated_plan day_key stale setting s k =
      preheat_run k (cycle_run day_key k (before_cycle stale k s))"
    by (auto simp: apply_orchestrated_plan_def Let_def before_cycle_def actuate_def)
  then show thesis using cycle preheat_calm by metis
next
  case False
  then have "apply_orchestrated_plan day_key stale setting s k = planner_ran k (maybe_run_watchdog stale k s)"
    by (auto simp: apply_orchestrated_plan_def Let_def)
  then show thesis using calm calm_trans [OF watchdog_calm planner_ran_calm] by metis
qed

lemma cycle_log:
  assumes "a = run_spa_cycle (tk_port k) (tk_control k) day_key (st_runtime s) (tk_status k) (Some (tk_plan k))
      (tk_now k) (tk_manual k)"
  shows "st_runtime (cycle_run day_key k s) = fst (snd a)"
    "switch_log (cycle_run day_key k s) = switch_log s @
       List.map_filter (\<lambda>q. case q of SetFilterState x \<Rightarrow> Some (tk_now k, x) | _ \<Rightarrow> None) (snd (snd a))"
  by (simp_all add: cycle_run_def Let_def assms switch_log_requests)

text \<open>What one cycle adds to the log of switches.\<close>

definition ready_tick :: "spa_tick \<Rightarrow> spa_actuator_runtime \<Rightarrow> bool" where
  "ready_tick k r \<longleftrightarrow> \<not> tk_manual k \<and> automatic_ready (tk_control k) r (tk_status k)"

lemma cycle_switches:
  obtains (none) "switch_log (cycle_run day_key k s) = switch_log s"
      "same_count (new_day (day_key (tk_now k)) (st_runtime s)) (st_runtime (cycle_run day_key k s))"
  | (on) "switch_log (cycle_run day_key k s) = switch_log s @ [(tk_now k, ''on'')]"
      "sr_starts_today (new_day (day_key (tk_now k)) (st_runtime s)) < sc_filter_cycles_per_day (tk_control k)"
      "sr_starts_day (st_runtime (cycle_run day_key k s)) = day_key (tk_now k)"
      "sr_starts_today (st_runtime (cycle_run day_key k s)) =
         sr_starts_today (new_day (day_key (tk_now k)) (st_runtime s)) + 1"
      "sr_integration_degraded (st_runtime (cycle_run day_key k s)) = sr_integration_degraded (st_runtime s)"
      "(tk_manual k \<and> \<not> sc_dry_run (tk_control k))
       \<or> (ready_tick k (st_runtime s) \<and> may_start (tk_control k) (st_runtime s) (tk_now k)
            (select_window (Some (tk_plan k)) (tk_now k)))"
  | (off) "switch_log (cycle_run day_key k s) = switch_log s @ [(tk_now k, ''off'')]"
      "same_count (new_day (day_key (tk_now k)) (st_runtime s)) (st_runtime (cycle_run day_key k s))"
      "ready_tick k (st_runtime s)"
      "min_run_reached (tk_control k) (st_runtime s) (tk_now k)"
      "\<forall>w. select_window (Some (tk_plan k)) (tk_now k) = Some w \<longrightarrow> pw_end w \<le> tk_now k"
proof -
  obtain a where a: "a = run_spa_cycle (tk_port k) (tk_control k) day_key (st_runtime s) (tk_status k)
      (Some (tk_plan k)) (tk_now k) (tk_manual k)" by blast
  note log = cycle_log [OF a]
  have mr: "min_run_reached c (new_day d r) t = min_run_reached c r t" for c d r t
    by (simp add: min_run_reached_def)
  from a show thesis
  proof (cases rule: spa_cycle_cases)
    case quiet
    then show thesis
      using none log switch_free_log [of "snd (snd a)" "tk_now k" s]
      by (simp add: quiet_def switch_log_requests)
  next
    case manual
    then show thesis
      using on log by (auto simp: filter_start_outcome_def started_cleaning_def map_filter_simps safety_floor_request_def)
  next
    case start
    then show thesis
      using on log
      by (auto simp: filter_start_outcome_def started_cleaning_def map_filter_simps safety_floor_request_def ready_tick_def)
  next
    case stop
    then show thesis
      using off log by (auto simp: stop_outcome_def map_filter_simps ready_tick_def mr stopped_cleaning_def same_count_def)
  qed
qed

subsection \<open>The daily limit\<close>

definition starts_on :: "(time \<Rightarrow> string) \<Rightarrow> string \<Rightarrow> (time \<times> string) list \<Rightarrow> nat" where
  "starts_on day_key d lg = length (filter (\<lambda>p. snd p = ''on'' \<and> day_key (fst p) = d) lg)"

lemma starts_on_append [simp]: "starts_on dk d (xs @ ys) = starts_on dk d xs + starts_on dk d ys"
  by (simp add: starts_on_def)

lemma starts_on_single [simp]: "starts_on dk d [(t, x)] = (if x = ''on'' \<and> dk t = d then 1 else 0)"
  by (simp add: starts_on_def)

text \<open>Local dates do not come back: what lies between two instants of a date has that date.\<close>

definition dates_advance :: "(time \<Rightarrow> string) \<Rightarrow> bool" where
  "dates_advance day_key \<longleftrightarrow> (\<forall>t u v. t \<le> u \<longrightarrow> u \<le> v \<longrightarrow> day_key t = day_key v \<longrightarrow> day_key u = day_key t)"

definition limit_inv :: "(time \<Rightarrow> string) \<Rightarrow> int \<Rightarrow> time \<Rightarrow> spa_site \<Rightarrow> bool" where
  "limit_inv day_key n T s \<longleftrightarrow>
     (switch_log s = [] \<or> (\<exists>u \<le> T. sr_starts_day (st_runtime s) = day_key u \<and> (\<forall>p \<in> set (switch_log s). fst p \<le> u)))
   \<and> int (starts_on day_key (sr_starts_day (st_runtime s)) (switch_log s)) \<le> sr_starts_today (st_runtime s)
   \<and> (\<forall>d. int (starts_on day_key d (switch_log s)) \<le> max 0 n)"

lemma limit_calm: "limit_inv dk n T s \<Longrightarrow> calm s s' \<Longrightarrow> limit_inv dk n T s'"
  by (simp add: limit_inv_def calm_def same_count_def)

lemma limit_later: "limit_inv dk n T s \<Longrightarrow> T \<le> T' \<Longrightarrow> limit_inv dk n T' s"
  unfolding limit_inv_def by (meson order_trans)

lemma counted_today:
  assumes "dates_advance dk" "limit_inv dk n T s" "T \<le> now"
  shows "int (starts_on dk (dk now) (switch_log s)) \<le> sr_starts_today (new_day (dk now) (st_runtime s))"
proof (cases "sr_starts_day (st_runtime s) = dk now")
  case True
  then show ?thesis using assms(2) by (simp add: limit_inv_def new_day_def)
next
  case False
  have "filter (\<lambda>p. snd p = ''on'' \<and> dk (fst p) = dk now) (switch_log s) = []"
  proof (rule ccontr)
    assume "\<not> ?thesis"
    then obtain p where p: "p \<in> set (switch_log s)" "dk (fst p) = dk now"
      by (auto simp: filter_empty_conv)
    then obtain u where u: "u \<le> T" "sr_starts_day (st_runtime s) = dk u" "fst p \<le> u"
      using assms(2) unfolding limit_inv_def by fastforce
    then have "dk u = dk (fst p)" using assms(1,3) p(2) unfolding dates_advance_def by (meson order_trans)
    then show False using False u(2) p(2) by simp
  qed
  then show ?thesis using False by (simp add: starts_on_def new_day_def)
qed

lemma log_before:
  "limit_inv dk n T s \<Longrightarrow> T \<le> now \<Longrightarrow> p \<in> set (switch_log s) \<Longrightarrow> fst p \<le> now"
  unfolding limit_inv_def by fastforce

lemma limit_cycle:
  assumes dk: "dates_advance dk" and inv: "limit_inv dk n T s" and now: "T \<le> tk_now k"
    and cycles: "sc_filter_cycles_per_day (tk_control k) = n"
  shows "limit_inv dk n (tk_now k) (cycle_run dk k s)"
proof -
  note today = counted_today [OF dk inv now]
  note before = log_before [OF inv now]
  have all: "int (starts_on dk d (switch_log s)) \<le> max 0 n" for d using inv by (simp add: limit_inv_def)
  have quiet: "limit_inv dk n (tk_now k) (cycle_run dk k s)"
    if "switch_log (cycle_run dk k s) = switch_log s @ lg" "\<forall>p \<in> set lg. fst p = tk_now k \<and> snd p \<noteq> ''on''"
      "same_count (new_day (dk (tk_now k)) (st_runtime s)) (st_runtime (cycle_run dk k s))" for lg
  proof -
    have none: "starts_on dk d lg = 0" for d using that(2) by (auto simp: starts_on_def filter_empty_conv)
    have day: "sr_starts_day (st_runtime (cycle_run dk k s)) = dk (tk_now k)"
      and num: "sr_starts_today (st_runtime (cycle_run dk k s)) = sr_starts_today (new_day (dk (tk_now k)) (st_runtime s))"
      using that(3) by (simp_all add: same_count_def)
    have "\<forall>p \<in> set (switch_log s @ lg). fst p \<le> tk_now k" using before that(2) by auto
    then show ?thesis unfolding limit_inv_def that(1) day num using today all none by auto
  qed
  show ?thesis
  proof (cases rule: cycle_switches [of dk k s])
    case none
    then show ?thesis using quiet [of "[]"] by simp
  next
    case off
    then show ?thesis using quiet [of "[(tk_now k, ''off'')]"] by simp
  next
    case on
    have lim: "int (starts_on dk d (switch_log s @ [(tk_now k, ''on'')])) \<le> max 0 n" for d
      using all [of d] today on(2) cycles by (cases "dk (tk_now k) = d") auto
    have "\<forall>p \<in> set (switch_log s @ [(tk_now k, ''on'')]). fst p \<le> tk_now k" using before by auto
    then show ?thesis unfolding limit_inv_def on(1,3,4) using today lim by auto
  qed
qed

lemma limit_tick:
  assumes "dates_advance dk" "limit_inv dk n T s" "T \<le> tk_now k" "sc_filter_cycles_per_day (tk_control k) = n"
  shows "limit_inv dk n (tk_now k) (apply_orchestrated_plan dk stale setting s k)"
proof (cases rule: tick_cases [of s dk stale setting k])
  case calm
  then show ?thesis using limit_calm limit_later assms by blast
next
  case cycle
  then show ?thesis using limit_calm limit_cycle before_cycle_calm assms by blast
qed

lemma limit_manual:
  assumes "dates_advance dk" "limit_inv dk n T s" "T \<le> tk_now k" "sc_filter_cycles_per_day (tk_control k) = n"
  shows "limit_inv dk n (tk_now k) (run_cleaning_now dk s k)"
proof -
  have "limit_inv dk n (tk_now k) (preheat_run k (cycle_run dk k (policy_applied k s)))"
    by (rule limit_calm [OF limit_cycle [OF assms(1) limit_calm [OF assms(2) policy_calm] assms(3,4)] preheat_calm])
  then show ?thesis
    using limit_later [OF assms(2,3)] by (simp add: run_cleaning_now_def actuate_def)
qed

lemma limit_step:
  assumes "dates_advance dk" "limit_inv dk n T s" "T \<le> tk_now k" "sc_filter_cycles_per_day (tk_control k) = n"
  shows "limit_inv dk n (tk_now k) (spa_step dk stale setting s k)"
  by (simp add: spa_step_def limit_tick [OF assms] limit_manual [OF assms])

text \<open>The service over a sequence of ticks.\<close>

definition spa_run :: "(time \<Rightarrow> string) \<Rightarrow> int \<Rightarrow> bool \<Rightarrow> spa_site \<Rightarrow> spa_tick list \<Rightarrow> spa_site" where
  "spa_run day_key stale setting s ks = foldl (spa_step day_key stale setting) s ks"

lemma limit_run:
  assumes "dates_advance dk"
  shows "limit_inv dk n T s \<Longrightarrow> sorted (map tk_now ks) \<Longrightarrow> \<forall>k \<in> set ks. T \<le> tk_now k \<Longrightarrow>
    \<forall>k \<in> set ks. sc_filter_cycles_per_day (tk_control k) = n \<Longrightarrow> \<exists>T'. limit_inv dk n T' (spa_run dk stale setting s ks)"
proof (induction ks arbitrary: s T)
  case Nil
  then show ?case by (auto simp: spa_run_def)
next
  case (Cons k ks)
  have "limit_inv dk n (tk_now k) (spa_step dk stale setting s k)"
    using limit_step [OF assms] Cons.prems by simp
  then show ?case using Cons.IH [of "tk_now k"] Cons.prems by (simp add: spa_run_def)
qed

definition fresh_site :: "spa_actuator_runtime \<Rightarrow> json option \<Rightarrow> spa_site" where
  "fresh_site r safe = \<lparr> st_runtime = r, st_safe_schedule = safe, st_log = [] \<rparr>"

text \<open>C28. Over any run of ticks in time order, manual ones included, with any plans, statuses and refused
  requests, the filter is switched on at most as many times on a local date as cycles are configured.\<close>

theorem daily_starts_limited:
  assumes "dates_advance day_key" "0 \<le> sr_starts_today r" "sorted (map tk_now ks)"
    and "\<forall>k \<in> set ks. sc_filter_cycles_per_day (tk_control k) = n"
  shows "int (starts_on day_key d (switch_log (spa_run day_key stale setting (fresh_site r safe) ks))) \<le> max 0 n"
proof -
  define T where "T = Min (insert 0 (tk_now ` set ks))"
  have "limit_inv day_key n T (fresh_site r safe)"
    using assms(2) by (simp add: limit_inv_def fresh_site_def switch_log_def starts_on_def map_filter_simps)
  moreover have "\<forall>k \<in> set ks. T \<le> tk_now k" by (simp add: T_def)
  ultimately obtain T' where "limit_inv day_key n T' (spa_run day_key stale setting (fresh_site r safe) ks)"
    using limit_run [OF assms(1) _ assms(3) _ assms(4)] by blast
  then show ?thesis by (simp add: limit_inv_def)
qed

definition sample_control :: spa_control where
  "sample_control = \<lparr> sc_smart_control_enabled = True, sc_strategy = ''SMART'', sc_dry_run = False, sc_shadow_mode = False,
     sc_allowed_window_start = ''07:00'', sc_allowed_window_end = ''22:00'', sc_filter_cycles_per_day = 4,
     sc_filter_duration_minutes = 120, sc_minimum_cycle_separation_minutes = 60, sc_filter_optimization_enabled = True,
     sc_safety_floor_frequency_per_day = 4, sc_safety_floor_duration_hours = 2, sc_smart_preheat_enabled = False,
     sc_normal_temperature_c = 38, sc_max_preheat_temperature_c = 39, sc_min_comfort_temperature_c = 37,
     sc_fixed_schedule_start = None, sc_fixed_schedule_end = None \<rparr>"

definition sample_plan :: load_plan where
  "sample_plan = \<lparr> lp_load_id = ''spa_cleaning'', lp_strategy = SMART, lp_windows = [], lp_reason = ''no_window'',
     lp_reason_sv = ''ingen_plan'', lp_fallback_from_solar_only = False, lp_fixed_schedule_analysis = False,
     lp_alternative_windows = [], lp_scored_blocks = [], lp_baseline_cost_sek = None, lp_planned_cost_sek = None,
     lp_savings_sek = None \<rparr>"

definition willing_port :: spa_port where
  "willing_port = \<lparr> pt_accepts = (\<lambda>rq. True), pt_before = None, pt_after = None \<rparr>"

definition sample_tick :: spa_tick where
  "sample_tick = \<lparr> tk_port = willing_port, tk_control = sample_control, tk_status = None, tk_plan = sample_plan,
     tk_now = 0, tk_manual = False, tk_surplus_w = 0, tk_price = None \<rparr>"

theorem daily_starts_limited_witness:
  "int (starts_on (\<lambda>t. ''2026-01-01'') ''2026-01-01''
     (switch_log (spa_run (\<lambda>t. ''2026-01-01'') 180 True (fresh_site fresh_spa_runtime None)
       [sample_tick\<lparr> tk_manual := True \<rparr>, sample_tick]))) \<le> max 0 4"
  by (rule daily_starts_limited)
    (simp_all add: dates_advance_def fresh_spa_runtime_def sample_tick_def sample_control_def)

subsection \<open>What justifies a switch\<close>

lemma same_times_rules:
  assumes "same_times s s'"
  shows "may_start c (st_runtime s') now w = may_start c (st_runtime s) now w"
    "min_run_reached c (st_runtime s') now = min_run_reached c (st_runtime s) now"
  using assms by (simp_all add: same_times_def may_start_def cooldown_blocks_start_def min_run_reached_def)

lemma calm_ready: "calm s s' \<Longrightarrow> ready_tick k (st_runtime s') \<Longrightarrow> ready_tick k (st_runtime s)"
  by (auto simp: calm_def same_count_def ready_tick_def automatic_ready_def)

lemma calm_new_day:
  "calm s s' \<Longrightarrow> sr_starts_today (new_day d (st_runtime s')) = sr_starts_today (new_day d (st_runtime s))"
  by (simp add: calm_def same_count_def new_day_def)

text \<open>C29. Without a manual override one tick of the service switches the filter at most once, and only when
  it is neither dry nor shadow nor degraded nor faulty nor left to the spa: on inside the selected
  window, outside the pause and below the daily number of starts; off after the minimum run, when
  the window has ended.\<close>

theorem automatic_switching_justified:
  assumes "\<not> tk_manual k"
  shows "switch_log (apply_orchestrated_plan day_key stale setting s k) = switch_log s
   \<or> (switch_log (apply_orchestrated_plan day_key stale setting s k) = switch_log s @ [(tk_now k, ''on'')]
       \<and> ready_tick k (st_runtime s)
       \<and> may_start (tk_control k) (st_runtime s) (tk_now k) (select_window (Some (tk_plan k)) (tk_now k))
       \<and> sr_starts_today (new_day (day_key (tk_now k)) (st_runtime s)) < sc_filter_cycles_per_day (tk_control k))
   \<or> (switch_log (apply_orchestrated_plan day_key stale setting s k) = switch_log s @ [(tk_now k, ''off'')]
       \<and> ready_tick k (st_runtime s)
       \<and> min_run_reached (tk_control k) (st_runtime s) (tk_now k)
       \<and> (\<forall>w. select_window (Some (tk_plan k)) (tk_now k) = Some w \<longrightarrow> pw_end w \<le> tk_now k))"
proof (cases rule: tick_cases [of s day_key stale setting k])
  case calm
  then show ?thesis by (simp add: calm_def)
next
  case cycle
  let ?s = "before_cycle stale k s"
  note rules = same_times_rules [OF before_cycle_times [of s stale k]]
  have ready: "ready_tick k (st_runtime ?s) \<Longrightarrow> ready_tick k (st_runtime s)"
    by (rule calm_ready [OF before_cycle_calm])
  note day = calm_new_day [OF before_cycle_calm [of s stale k]]
  have logs: "switch_log (apply_orchestrated_plan day_key stale setting s k) = switch_log (cycle_run day_key k ?s)"
    "switch_log ?s = switch_log s"
    using cycle before_cycle_calm [of s stale k] by (simp_all add: calm_def)
  show ?thesis
  proof (cases rule: cycle_switches [of day_key k ?s])
    case none
    then show ?thesis using logs by simp
  next
    case on
    then show ?thesis using logs assms ready rules day by simp
  next
    case off
    then show ?thesis using logs ready rules by simp
  qed
qed

theorem automatic_switching_justified_witness:
  "let s = fresh_site fresh_spa_runtime None; s' = apply_orchestrated_plan (\<lambda>t. ''2026-01-01'') 180 True s sample_tick in
   switch_log s' = switch_log s
   \<or> (switch_log s' = switch_log s @ [(tk_now sample_tick, ''on'')]
       \<and> ready_tick sample_tick (st_runtime s)
       \<and> may_start (tk_control sample_tick) (st_runtime s) (tk_now sample_tick)
           (select_window (Some (tk_plan sample_tick)) (tk_now sample_tick))
       \<and> sr_starts_today (new_day ''2026-01-01'' (st_runtime s)) < sc_filter_cycles_per_day (tk_control sample_tick))
   \<or> (switch_log s' = switch_log s @ [(tk_now sample_tick, ''off'')]
       \<and> ready_tick sample_tick (st_runtime s)
       \<and> min_run_reached (tk_control sample_tick) (st_runtime s) (tk_now sample_tick)
       \<and> (\<forall>w. select_window (Some (tk_plan sample_tick)) (tk_now sample_tick) = Some w \<longrightarrow> pw_end w \<le> tk_now sample_tick))"
  unfolding Let_def by (rule automatic_switching_justified) (simp add: sample_tick_def)

subsection \<open>A degraded integration\<close>

lemma degraded_tick:
  assumes "sr_integration_degraded (st_runtime s)"
  shows "sr_integration_degraded (st_runtime (apply_orchestrated_plan day_key stale setting s k))"
proof (cases rule: tick_cases [of s day_key stale setting k])
  case calm
  then show ?thesis using assms by (simp add: calm_def same_count_def)
next
  case cycle
  let ?s = "before_cycle stale k s"
  have "sr_integration_degraded (st_runtime ?s)"
    using before_cycle_calm [of s stale k] assms by (simp add: calm_def same_count_def)
  then have "sr_integration_degraded (st_runtime (cycle_run day_key k ?s))"
    by (cases rule: cycle_switches [of day_key k ?s]) (simp_all add: same_count_def)
  then show ?thesis using cycle by (simp add: calm_def same_count_def)
qed

lemma degraded_no_switch:
  assumes "sr_integration_degraded (st_runtime s)" "\<not> tk_manual k"
  shows "switch_log (apply_orchestrated_plan day_key stale setting s k) = switch_log s"
proof (cases rule: tick_cases [of s day_key stale setting k])
  case calm
  then show ?thesis by (simp add: calm_def)
next
  case cycle
  let ?s = "before_cycle stale k s"
  have deg: "sr_integration_degraded (st_runtime ?s)"
    using before_cycle_calm [of s stale k] assms by (simp add: calm_def same_count_def)
  have "switch_log (cycle_run day_key k ?s) = switch_log ?s"
    using deg assms(2)
    by (cases rule: cycle_switches [of day_key k ?s]) (simp_all add: ready_tick_def automatic_ready_def)
  then show ?thesis using cycle before_cycle_calm [of s stale k] by (simp add: calm_def)
qed

text \<open>Once the integration is degraded, as a single refused request leaves it, it stays so over any
  automatic ticks, whatever the spa answers then, and the filter is never switched again.\<close>

theorem degraded_for_good:
  assumes "sr_integration_degraded (st_runtime s)" "\<forall>k \<in> set ks. \<not> tk_manual k"
  shows "sr_integration_degraded (st_runtime (spa_run day_key stale setting s ks))
    \<and> switch_log (spa_run day_key stale setting s ks) = switch_log s"
  using assms
proof (induction ks arbitrary: s)
  case Nil
  then show ?case by (simp add: spa_run_def)
next
  case (Cons k ks)
  then show ?case
    using degraded_tick [OF Cons.prems(1)] degraded_no_switch [OF Cons.prems(1)]
    by (simp add: spa_run_def spa_step_def)
qed

theorem degraded_for_good_witness:
  "let s = fresh_site (degrade fresh_spa_runtime) None; s' = spa_run (\<lambda>t. ''2026-01-01'') 180 True s [sample_tick, sample_tick]
   in sr_integration_degraded (st_runtime s') \<and> switch_log s' = switch_log s"
  unfolding Let_def
  by (rule degraded_for_good) (simp_all add: fresh_site_def degrade_def sample_tick_def)

text \<open>A refused stop leaves the filter running and the integration degraded.\<close>

lemma refused_stop_degrades:
  assumes "automatic_ready c r status" "sr_state r = SPA_CLEANING" "min_run_reached c r now"
    and "\<forall>w. select_window plan now = Some w \<longrightarrow> pw_end w \<le> now" "sr_cleaning_stop_at r = Some t" "t \<le> now"
    and "\<not> pt_accepts pt (SetFilterState ''off'')"
  shows "sr_integration_degraded (fst (snd (run_spa_cycle pt c day_key r status plan now False)))
    \<and> sr_state (fst (snd (run_spa_cycle pt c day_key r status plan now False))) = SPA_CLEANING"
proof -
  have refused: "stop_filtering pt = None"
    using assms(7) by (simp add: stop_filtering_def send_request_def)
  have "run_spa_cycle pt c day_key r status plan now False =
      no_command ''hold'' ''stop_failed'' ''stopp_fel'' False
        ((new_day (day_key now) r)\<lparr> sr_integration_degraded := True \<rparr>)"
    using assms(1-6) refused
    by (auto simp: run_spa_cycle_def Let_def automatic_ready_def handle_active_cleaning_def min_run_reached_def
        split: option.splits)
  then show ?thesis using assms(2) by (simp add: no_command_def)
qed

subsection \<open>Cleaning ends\<close>

text \<open>The window the actuator looks at is open or upcoming as long as one of the plan is not over.\<close>

definition plan_pending :: "load_plan \<Rightarrow> time \<Rightarrow> bool" where
  "plan_pending p now \<longleftrightarrow> (\<exists>w \<in> set (lp_windows p). now < pw_end w)"

definition windows_forward :: "load_plan \<Rightarrow> bool" where
  "windows_forward p \<longleftrightarrow> (\<forall>w \<in> set (lp_windows p). pw_start w \<le> pw_end w)"

lemma selected_pending:
  assumes "windows_forward p" "plan_pending p now"
  shows "\<exists>w. select_window (Some p) now = Some w \<and> now < pw_end w"
proof (cases "filter (\<lambda>w. pw_start w \<le> now \<and> now < pw_end w) (lp_windows p)")
  case (Cons w ws)
  then have "w \<in> set (filter (\<lambda>w. pw_start w \<le> now \<and> now < pw_end w) (lp_windows p))" by simp
  then have "now < pw_end w" by auto
  then show ?thesis using Cons by (simp add: select_window_def)
next
  case Nil
  let ?later = "filter (\<lambda>w. pw_start w > now) (lp_windows p)"
  have "?later \<noteq> []"
    using assms(2) Nil by (force simp: plan_pending_def filter_empty_conv)
  then obtain w where w: "first_min pw_start ?later = Some w" "w \<in> set ?later"
    using first_min_laws(1,2) by (metis option.exhaust)
  then have "now < pw_end w" using assms(1) by (fastforce simp: windows_forward_def)
  then show ?thesis using Nil w(1) by (simp add: select_window_def)
qed

lemma selected_over:
  assumes "windows_forward p" "\<not> plan_pending p now"
  shows "\<forall>w. select_window (Some p) now = Some w \<longrightarrow> pw_end w \<le> now"
proof -
  have over: "pw_end w \<le> now" if "w \<in> set (lp_windows p)" for w
    using assms(2) that by (auto simp: plan_pending_def not_less)
  then have "filter (\<lambda>w. pw_start w \<le> now \<and> now < pw_end w) (lp_windows p) = []"
    by (auto simp: filter_empty_conv not_less)
  moreover have "filter (\<lambda>w. pw_start w > now) (lp_windows p) = []"
    using over assms(1) by (fastforce simp: filter_empty_conv windows_forward_def)
  ultimately show ?thesis using over by (simp add: select_window_def)
qed

text \<open>A cleaning that runs since \<open>a\<close> and is to stop at \<open>b\<close>.\<close>

definition cleaning :: "time option \<Rightarrow> time option \<Rightarrow> spa_actuator_runtime \<Rightarrow> bool" where
  "cleaning a b r \<longleftrightarrow> sr_state r = SPA_CLEANING \<and> sr_cleaning_started_at r = a \<and> sr_cleaning_stop_at r = b"

lemma before_cycle_cleaning:
  assumes "cleaning a b (st_runtime s)"
  shows "cleaning a b (st_runtime (before_cycle stale k s))"
    and "\<not> sx_degraded (fst (apply_filter_policy (tk_port k) (policy_from_control (tk_control k)) dry (st_safe_schedule s)))
      \<Longrightarrow> dry = (sc_dry_run (tk_control k) \<or> sc_shadow_mode (tk_control k) \<or> \<not> sc_filter_optimization_enabled (tk_control k))
      \<Longrightarrow> sr_integration_degraded (st_runtime (before_cycle stale k s)) = sr_integration_degraded (st_runtime s)"
proof -
  have quiet: "fst (snd (watchdog_run pt c n (st_runtime s) t d)) = st_runtime s" for pt c n t d
    using assms by (simp add: watchdog_run_def cleaning_def no_command_def split: option.split)
  have "st_runtime (maybe_run_watchdog stale k s) = st_runtime s"
    by (simp add: maybe_run_watchdog_def Let_def quiet)
  moreover have "st_safe_schedule (maybe_run_watchdog stale k s) = st_safe_schedule s"
    by (simp add: maybe_run_watchdog_def log_requests_def Let_def)
  ultimately show "cleaning a b (st_runtime (before_cycle stale k s))"
    and "\<not> sx_degraded (fst (apply_filter_policy (tk_port k) (policy_from_control (tk_control k)) dry (st_safe_schedule s)))
      \<Longrightarrow> dry = (sc_dry_run (tk_control k) \<or> sc_shadow_mode (tk_control k) \<or> \<not> sc_filter_optimization_enabled (tk_control k))
      \<Longrightarrow> sr_integration_degraded (st_runtime (before_cycle stale k s)) = sr_integration_degraded (st_runtime s)"
    using assms by (simp_all add: before_cycle_def policy_applied_def planner_ran_def cleaning_def Let_def)
qed

lemma preheat_cleaning:
  "cleaning a b (st_runtime s) \<Longrightarrow> cleaning a b (st_runtime (preheat_run k s))"
  by (simp add: preheat_run_def apply_preheat_def cleaning_def no_command_def Let_def split: option.split)

text \<open>An automatic cycle whose plan is pending holds the cleaning, unless the spa reports errors.\<close>

lemma held_cycle:
  assumes "cleaning a b r" "windows_forward p" "plan_pending p now"
    and x: "x = run_spa_cycle pt c day_key r status (Some p) now False"
  shows "snd (snd x) = [] \<and> (sr_integration_degraded (fst (snd x)) \<or> cleaning a b (fst (snd x)))"
proof -
  let ?r = "new_day (day_key now) r"
  obtain w where w: "select_window (Some p) now = Some w" "now < pw_end w"
    using selected_pending [OF assms(2,3)] by blast
  have r: "cleaning a b ?r" using assms(1) by (simp add: cleaning_def)
  then have "snd (snd (handle_active_cleaning pt c ?r status now dry (Some w))) = []
      \<and> cleaning a b (fst (snd (handle_active_cleaning pt c ?r status now dry (Some w))))" for dry
    using w(2) by (simp add: handle_active_cleaning_def no_command_def)
  then show ?thesis
    using r w(1) unfolding x run_spa_cycle_def Let_def
    by (simp add: no_command_def degrade_def cleaning_def)
qed

lemma held_tick:
  assumes "cleaning a b (st_runtime s)" "\<not> tk_manual k" "windows_forward (tk_plan k)" "plan_pending (tk_plan k) (tk_now k)"
  shows "switch_log (spa_step day_key stale setting s k) = switch_log s
    \<and> (sr_integration_degraded (st_runtime (spa_step day_key stale setting s k))
       \<or> cleaning a b (st_runtime (spa_step day_key stale setting s k)))"
proof -
  let ?s = "before_cycle stale k s"
  have step: "spa_step day_key stale setting s k =
      (if sc_smart_control_enabled (tk_control k) \<and> setting \<and> \<not> is_spa_filter_self_managed (tk_control k)
       then preheat_run k (cycle_run day_key k ?s) else planner_ran k (maybe_run_watchdog stale k s))"
    using assms(2)
    by (auto simp: spa_step_def apply_orchestrated_plan_def Let_def before_cycle_def actuate_def)
  have calm: "calm s (planner_ran k (maybe_run_watchdog stale k s))" "calm s ?s"
    by (rule calm_trans [OF watchdog_calm planner_ran_calm], rule before_cycle_calm)
  have kept: "cleaning a b (st_runtime (planner_ran k (maybe_run_watchdog stale k s)))"
    using before_cycle_cleaning(1) [OF assms(1), of stale k]
    by (simp add: before_cycle_def policy_applied_def cleaning_def Let_def split: if_splits)
  define x where "x = run_spa_cycle (tk_port k) (tk_control k) day_key (st_runtime ?s) (tk_status k)
      (Some (tk_plan k)) (tk_now k) False"
  note held = held_cycle [OF before_cycle_cleaning(1) [OF assms(1)] assms(3,4) x_def]
  have cyc: "st_runtime (cycle_run day_key k ?s) = fst (snd x)" "switch_log (cycle_run day_key k ?s) = switch_log ?s"
    using cycle_log [of x k day_key ?s] held assms(2) by (simp_all add: x_def map_filter_simps)
  note pre = preheat_calm [of "cycle_run day_key k ?s" k]
  have "sr_integration_degraded (st_runtime (preheat_run k (cycle_run day_key k ?s)))
      \<or> cleaning a b (st_runtime (preheat_run k (cycle_run day_key k ?s)))"
    using held cyc(1) pre preheat_cleaning [of a b "cycle_run day_key k ?s" k] by (auto simp: calm_def same_count_def)
  moreover have "switch_log (preheat_run k (cycle_run day_key k ?s)) = switch_log s"
    using pre cyc(2) calm(2) by (simp add: calm_def)
  ultimately show ?thesis using kept calm(1) by (simp add: step calm_def)
qed

lemma held_run:
  assumes "cleaning a b (st_runtime s)"
    and "\<forall>k \<in> set ks. \<not> tk_manual k \<and> windows_forward (tk_plan k) \<and> plan_pending (tk_plan k) (tk_now k)"
  shows "switch_log (spa_run day_key stale setting s ks) = switch_log s
    \<and> (sr_integration_degraded (st_runtime (spa_run day_key stale setting s ks))
       \<or> cleaning a b (st_runtime (spa_run day_key stale setting s ks)))"
  using assms(2)
proof (induction ks rule: rev_induct)
  case Nil
  then show ?case using assms(1) by (simp add: spa_run_def)
next
  case (snoc k ks)
  let ?s = "spa_run day_key stale setting s ks"
  have last: "spa_run day_key stale setting s (ks @ [k]) = spa_step day_key stale setting ?s k"
    by (simp add: spa_run_def)
  have k: "\<not> tk_manual k" "windows_forward (tk_plan k)" "plan_pending (tk_plan k) (tk_now k)"
    and IH: "switch_log ?s = switch_log s" "sr_integration_degraded (st_runtime ?s) \<or> cleaning a b (st_runtime ?s)"
    using snoc by auto
  from IH(2) show ?case
  proof
    assume "cleaning a b (st_runtime ?s)"
    from held_tick [OF this k] show ?thesis using IH(1) by (simp add: last)
  next
    assume deg: "sr_integration_degraded (st_runtime ?s)"
    show ?thesis
      using degraded_tick [OF deg] degraded_no_switch [OF deg k(1)] IH(1) k(1) by (simp add: last spa_step_def)
  qed
qed

text \<open>What lets an automatic tick switch off: control is enabled everywhere, neither dry nor left to the
  spa nor degraded, the spa reports no error and the policy's schedule, and accepts the request.\<close>

definition may_switch_off :: "bool \<Rightarrow> spa_tick \<Rightarrow> spa_actuator_runtime \<Rightarrow> bool" where
  "may_switch_off setting k r \<longleftrightarrow> setting \<and> sc_smart_control_enabled (tk_control k) \<and> ready_tick k r
     \<and> pt_accepts (tk_port k) (SetFilterState ''off'')
     \<and> (\<exists>st. pt_before (tk_port k) = Some st \<and> snapshot_matches (snapshot_of st) (policy_from_control (tk_control k)))"

lemma ending_tick:
  assumes c: "cleaning (Some a) (Some b) (st_runtime s)" and off: "may_switch_off setting k (st_runtime s)"
    and over: "windows_forward (tk_plan k)" "\<not> plan_pending (tk_plan k) (tk_now k)"
    and time: "minutes_us (sc_filter_duration_minutes (tk_control k)) \<le> tk_now k - a" "b \<le> tk_now k"
  shows "switch_log (spa_step day_key stale setting s k) = switch_log s @ [(tk_now k, ''off'')]"
proof -
  let ?s = "before_cycle stale k s"
  have auto: "\<not> tk_manual k" "automatic_ready (tk_control k) (st_runtime s) (tk_status k)"
    using off by (simp_all add: may_switch_off_def ready_tick_def)
  obtain st where st: "pt_before (tk_port k) = Some st" "snapshot_matches (snapshot_of st) (policy_from_control (tk_control k))"
    using off by (auto simp: may_switch_off_def)
  have step: "spa_step day_key stale setting s k = preheat_run k (cycle_run day_key k ?s)"
    using off auto
    by (simp add: spa_step_def apply_orchestrated_plan_def Let_def before_cycle_def actuate_def may_switch_off_def
        automatic_ready_def)
  have s1: "cleaning (Some a) (Some b) (st_runtime ?s)" by (rule before_cycle_cleaning(1) [OF c])
  have "sr_integration_degraded (st_runtime ?s) = sr_integration_degraded (st_runtime s)"
    by (rule before_cycle_cleaning(2) [OF c _ refl]) (simp add: apply_filter_policy_def st)
  then have ready: "automatic_ready (tk_control k) (st_runtime ?s) (tk_status k)"
    using auto(2) by (simp add: automatic_ready_def)
  define x where "x = run_spa_cycle (tk_port k) (tk_control k) day_key (st_runtime ?s) (tk_status k)
      (Some (tk_plan k)) (tk_now k) False"
  have "stop_filtering (tk_port k) = Some [SetFilterState ''off'']"
    using off by (simp add: may_switch_off_def stop_request)
  then have "snd (snd x) = [SetFilterState ''off'']"
    using ready s1 time selected_over [OF over] unfolding x_def
    by (auto simp: run_spa_cycle_def Let_def automatic_ready_def handle_active_cleaning_def min_run_reached_def
        cleaning_def split: option.splits)
  then have "switch_log (cycle_run day_key k ?s) = switch_log ?s @ [(tk_now k, ''off'')]"
    using cycle_log(2) [of x k day_key ?s] auto(1) by (simp add: x_def map_filter_simps)
  then show ?thesis
    using preheat_calm [of "cycle_run day_key k ?s" k] before_cycle_calm [of s stale k]
    by (simp add: step calm_def)
qed

text \<open>C30. A cleaning ends with the last planned window: over any automatic ticks of which each still has a
  planned window that is not over, a running cleaning is neither stopped nor started anew, although
  its own window or stop time may have passed long ago; the first tick after them whose plan has no
  window left, when the minimum run and the stop time are over and nothing keeps the control from
  switching, switches the filter off.\<close>

theorem cleaning_ends_after_last_window:
  assumes "cleaning (Some a) (Some b) (st_runtime s)"
    and "\<forall>j \<in> set ks. \<not> tk_manual j \<and> windows_forward (tk_plan j) \<and> plan_pending (tk_plan j) (tk_now j)"
    and "may_switch_off setting k (st_runtime (spa_run day_key stale setting s ks))"
    and "windows_forward (tk_plan k)" "\<not> plan_pending (tk_plan k) (tk_now k)"
    and "minutes_us (sc_filter_duration_minutes (tk_control k)) \<le> tk_now k - a" "b \<le> tk_now k"
  shows "switch_log (spa_run day_key stale setting s ks) = switch_log s
    \<and> switch_log (spa_run day_key stale setting s (ks @ [k])) = switch_log s @ [(tk_now k, ''off'')]"
proof -
  let ?s = "spa_run day_key stale setting s ks"
  note held = held_run [OF assms(1,2), of day_key stale setting]
  have "\<not> sr_integration_degraded (st_runtime ?s)"
    using assms(3) unfolding may_switch_off_def ready_tick_def automatic_ready_def by blast
  then have "cleaning (Some a) (Some b) (st_runtime ?s)" using held by blast
  from ending_tick [OF this assms(3-7), of day_key stale] show ?thesis
    using held by (simp add: spa_run_def)
qed

definition cleaning_runtime :: spa_actuator_runtime where
  "cleaning_runtime = fresh_spa_runtime\<lparr> sr_state := SPA_CLEANING, sr_cleaning_started_at := Some 0,
     sr_cleaning_stop_at := Some (minutes_us 120) \<rparr>"

text \<open>A cleaning due to end after two hours, with another window planned six hours after its start.\<close>

definition later_plan :: load_plan where
  "later_plan = sample_plan\<lparr> lp_windows := [\<lparr> pw_start = minutes_us 360, pw_end = minutes_us 480,
     pw_duration = minutes_us 120, pw_expected_energy_kwh = 0, pw_expected_cost_sek = 0,
     pw_expected_energy_source = GRID, pw_average_score = 0, pw_blocks = [] \<rparr>] \<rparr>"

definition later_tick :: "int \<Rightarrow> spa_tick" where
  "later_tick minutes = sample_tick\<lparr> tk_plan := later_plan, tk_now := minutes_us minutes,
     tk_port := \<lparr> pt_accepts = (\<lambda>rq. True), pt_before = Some \<lparr> ss_connected = True, ss_setpoint_c = None,
       ss_filter_status = None, ss_filter_duration = Some 2, ss_filter_frequency = Some 4, ss_errors = [] \<rparr>,
       pt_after = None \<rparr> \<rparr>"

theorem cleaning_ends_after_last_window_witness:
  "let s = fresh_site cleaning_runtime None; run = spa_run (\<lambda>t. ''2026-01-01'') 180 True s in
   switch_log (run [later_tick 121, later_tick 300]) = []
   \<and> switch_log (run [later_tick 121, later_tick 300, later_tick 480]) = [(minutes_us 480, ''off'')]"
proof -
  let ?s = "fresh_site cleaning_runtime None" and ?d = "\<lambda>t :: time. ''2026-01-01''"
  have start: "cleaning (Some 0) (Some (minutes_us 120)) (st_runtime ?s)" "switch_log ?s = []"
    by (simp_all add: cleaning_def cleaning_runtime_def fresh_site_def switch_log_def map_filter_simps)
  have held: "\<forall>j \<in> set [later_tick 121, later_tick 300]. \<not> tk_manual j \<and> windows_forward (tk_plan j)
      \<and> plan_pending (tk_plan j) (tk_now j)"
    by code_simp
  have deg: "\<not> sr_integration_degraded (st_runtime (spa_run ?d 180 True ?s [later_tick 121, later_tick 300]))"
    by code_simp
  have schedule: "case pt_before (tk_port (later_tick 480)) of None \<Rightarrow> False
      | Some st \<Rightarrow> snapshot_matches (snapshot_of st) (policy_from_control (tk_control (later_tick 480)))"
    by code_simp
  have off: "may_switch_off True (later_tick 480) (st_runtime (spa_run ?d 180 True ?s [later_tick 121, later_tick 300]))"
    using deg schedule
    by (auto simp: may_switch_off_def ready_tick_def automatic_ready_def later_tick_def sample_tick_def
        sample_control_def is_spa_filter_self_managed_def str_given_def split: option.splits)
  have last: "windows_forward (tk_plan (later_tick 480))" "\<not> plan_pending (tk_plan (later_tick 480)) (tk_now (later_tick 480))"
    "minutes_us (sc_filter_duration_minutes (tk_control (later_tick 480))) \<le> tk_now (later_tick 480) - 0"
    "minutes_us 120 \<le> tk_now (later_tick 480)"
    by code_simp+
  from cleaning_ends_after_last_window [OF start(1) held off last] start(2) show ?thesis
    by (simp add: Let_def) (simp add: later_tick_def)
qed


subsection \<open>The stored runtime\<close>

lemma state_of_name [simp]: "state_of_json (JStr (state_name st)) = st"
  by (cases st) (simp_all add: state_of_json_def state_name_def)

lemma time_of_json_time:
  "\<forall>t. to_iso t \<noteq> [] \<and> parse (to_iso t) = Some t \<Longrightarrow> time_of_json parse (json_time to_iso t) = Some t"
  by (cases t) (simp_all add: time_of_json_def json_time_def)

text \<open>What the repository stores of the actuator it reads back unchanged, for timestamps whose printed
  form parses to the same instant.\<close>

theorem runtime_round_trip:
  assumes "\<forall>t. to_iso t \<noteq> [] \<and> parse (to_iso t) = Some t"
  shows "deserialize_runtime parse (Some (serialize_runtime to_iso r)) = Some r"
  unfolding deserialize_runtime_def serialize_runtime_def deserialize_members_def Let_def
  by (simp add: json_get_def time_of_json_time [OF assms])

definition tally_iso :: "time \<Rightarrow> string" where
  "tally_iso t = (if 0 \<le> t then CHR ''+'' # replicate (nat t) CHR ''x'' else CHR ''-'' # replicate (nat (- t)) CHR ''x'')"

definition tally_parse :: "string \<Rightarrow> time option" where
  "tally_parse s = (case s of [] \<Rightarrow> None
   | c # cs \<Rightarrow> Some (if c = CHR ''+'' then int (length cs) else - int (length cs)))"

theorem runtime_round_trip_witness:
  "deserialize_runtime tally_parse (Some (serialize_runtime tally_iso cleaning_runtime)) = Some cleaning_runtime"
  by (rule runtime_round_trip) (simp add: tally_iso_def tally_parse_def)

subsection \<open>The filter schedule on the spa\<close>

text \<open>No request writes a schedule below once a day or one hour.\<close>

lemma floor_request_positive:
  "safety_floor_request f d = SetFilterSchedule freq hours \<Longrightarrow> 1 \<le> freq \<and> 1 \<le> hours"
  by (auto simp: safety_floor_request_def)

text \<open>A schedule reported as verified is the policy's.\<close>

lemma verified_schedule_matches:
  assumes "sx_verified (fst (apply_filter_policy pt p dry safe))"
  shows "\<exists>s. sx_applied (fst (apply_filter_policy pt p dry safe)) = Some s \<and> snapshot_matches s p
    \<and> ((\<exists>st. pt_before pt = Some st \<and> s = snapshot_of st) \<or> (\<exists>st. pt_after pt = Some st \<and> s = snapshot_of st))"
  using assms unfolding apply_filter_policy_def Let_def schedule_failed_def
  by (auto split: option.splits if_splits)

text \<open>
  The spa keeps whole degrees Fahrenheit: with the default temperatures the target of 39 degrees
  reads back as 38.89, which is below \<open>target - 0.1\<close>, so the next cycle sends it again.
\<close>

lemma preheat_sends_again:
  assumes "sc_smart_preheat_enabled c" "\<not> sc_dry_run c" "\<not> sc_shadow_mode c"
    and "sc_normal_temperature_c c = 38" "sc_max_preheat_temperature_c c = 39" "sc_min_comfort_temperature_c c = 37"
    and "ss_connected st" "1500 \<le> surplus_w"
    and "ss_setpoint_c st = Some (fahrenheit_to_celsius (of_int (celsius_to_fahrenheit_int 39)))"
    and "pt_accepts pt (SetTemperatureF 102)"
  shows "snd (snd (apply_preheat pt c r (Some st) surplus_w price now)) = [SetTemperatureF 102]"
proof -
  have f: "celsius_to_fahrenheit_int 39 = 102" by code_simp
  have "fahrenheit_to_celsius (of_int 102) = 3889/100" by code_simp
  then have below: "\<not> fahrenheit_to_celsius (of_int (celsius_to_fahrenheit_int 39)) \<ge> 39 - 1/10"
    unfolding f by simp
  have "set_target_temperature_c pt 39 = Some [SetTemperatureF 102]"
    using assms(10) by (simp add: set_target_temperature_c_def send_request_def f)
  then show ?thesis
    using assms(1-9) below by (simp add: apply_preheat_def Let_def max_def min_def)
qed

end
