(* ===== verification/Spa_Filter.thy ===== *)
theory Spa_Filter
  imports Load_Windows
begin

section \<open>Requirement and progress of the spa's filter cycles\<close>

text \<open>
  \<open>spa_energy/requirement.py\<close>, \<open>spa_energy/filter_cycle_tracker.py\<close>, the counting half of
  \<open>spa_energy/cleaning_schedule.py\<close>, \<open>estimate.py\<close>, \<open>baseline.py\<close> and \<open>shadow.py\<close>. Filter samples are
  pairs of an instant and a status. The local clock enters as \<open>local_at\<close>, the instant of an hour
  and minute on the local date of a reference, and \<open>next_local_day\<close>, the same local time a day on.
\<close>

type_synonym filter_sample = "time \<times> string option"

definition CLEANING_STATUSES :: "string list" where
  "CLEANING_STATUSES = [''Filtering'', ''Purge'', ''Sanitize'', ''Boost'']"

definition cleaning_status :: "string option \<Rightarrow> bool" where
  "cleaning_status s \<longleftrightarrow> (case s of None \<Rightarrow> False | Some v \<Rightarrow> v \<in> set CLEANING_STATUSES)"

subsection \<open>Segments of cleaning within a day\<close>

text \<open>State of the walk: in a cleaning, where the segment began, what was collected.\<close>

record segment_walk =
  sw_in_cleaning :: bool
  sw_segment_start :: "time option"
  sw_segments :: "(time \<times> time \<times> rat) list"

definition minutes_between :: "time \<Rightarrow> time \<Rightarrow> rat" where
  "minutes_between a b = max 0 (elapsed_s b a / 60)"

definition close_segment :: "time \<Rightarrow> time \<Rightarrow> time \<Rightarrow> (time \<times> time \<times> rat) list \<Rightarrow> (time \<times> time \<times> rat) list" where
  "close_segment day_start seg_start until segs =
     (let start = max seg_start day_start; m = minutes_between start until
      in if m > 0 then segs @ [(start, until, m)] else segs)"

definition segment_step :: "time \<Rightarrow> segment_walk \<Rightarrow> filter_sample \<Rightarrow> segment_walk" where
  "segment_step day_start w p =
     (let ts = fst p; active = cleaning_status (snd p) in
      if ts < day_start then
        w\<lparr> sw_in_cleaning := active,
           sw_segment_start := (if active then Some day_start else sw_segment_start w) \<rparr>
      else if active \<and> \<not> sw_in_cleaning w then w\<lparr> sw_in_cleaning := True, sw_segment_start := Some ts \<rparr>
      else if \<not> active \<and> sw_in_cleaning w \<and> sw_segment_start w \<noteq> None then
        w\<lparr> sw_in_cleaning := False, sw_segment_start := None,
           sw_segments := close_segment day_start (the (sw_segment_start w)) ts (sw_segments w) \<rparr>
      else w)"

text \<open>The loop stops at the first sample after the day.\<close>

fun segment_walk_from :: "time \<Rightarrow> time \<Rightarrow> segment_walk \<Rightarrow> filter_sample list \<Rightarrow> segment_walk" where
  "segment_walk_from day_start day_end w [] = w"
| "segment_walk_from day_start day_end w (p # ps) =
     (if fst p \<ge> day_start \<and> fst p > day_end then w
      else segment_walk_from day_start day_end (segment_step day_start w p) ps)"

definition cleaning_segments :: "filter_sample list \<Rightarrow> time \<Rightarrow> time \<Rightarrow> (time \<times> time \<times> rat) list" where
  "cleaning_segments samples day_start day_end =
     (if samples = [] then []
      else let sorted_samples = sort_key fst samples;
               w = segment_walk_from day_start day_end
                 \<lparr> sw_in_cleaning = False, sw_segment_start = None, sw_segments = [] \<rparr> sorted_samples
           in if sw_in_cleaning w \<and> sw_segment_start w \<noteq> None
              then close_segment day_start (the (sw_segment_start w)) (min day_end (fst (last sorted_samples)))
                     (sw_segments w)
              else sw_segments w)"

subsection \<open>Hours of the day\<close>

record hours_walk =
  hw_in_cleaning :: bool
  hw_segment_start :: "time option"
  hw_total_s :: rat
  hw_starts :: nat

definition hours_step :: "time \<Rightarrow> hours_walk \<Rightarrow> filter_sample \<Rightarrow> hours_walk" where
  "hours_step day_start w p =
     (let ts = fst p; active = cleaning_status (snd p) in
      if ts < day_start then
        w\<lparr> hw_in_cleaning := active,
           hw_segment_start := (if active then Some day_start else hw_segment_start w) \<rparr>
      else if active \<and> \<not> hw_in_cleaning w then
        w\<lparr> hw_in_cleaning := True, hw_segment_start := Some ts, hw_starts := hw_starts w + 1 \<rparr>
      else if \<not> active \<and> hw_in_cleaning w \<and> hw_segment_start w \<noteq> None then
        w\<lparr> hw_in_cleaning := False, hw_segment_start := None,
           hw_total_s := hw_total_s w + elapsed_s ts (max (the (hw_segment_start w)) day_start) \<rparr>
      else w)"

fun hours_walk_from :: "time \<Rightarrow> time \<Rightarrow> hours_walk \<Rightarrow> filter_sample list \<Rightarrow> hours_walk" where
  "hours_walk_from day_start day_end w [] = w"
| "hours_walk_from day_start day_end w (p # ps) =
     (if fst p \<ge> day_start \<and> fst p > day_end then w
      else hours_walk_from day_start day_end (hours_step day_start w p) ps)"

definition compute_cleaning_hours_today :: "filter_sample list \<Rightarrow> time \<Rightarrow> time \<Rightarrow> rat \<times> nat" where
  "compute_cleaning_hours_today samples day_start day_end =
     (if samples = [] then (0, 0)
      else let sorted_samples = sort_key fst samples;
               w = hours_walk_from day_start day_end
                 \<lparr> hw_in_cleaning = False, hw_segment_start = None, hw_total_s = 0, hw_starts = 0 \<rparr> sorted_samples;
               total = (if hw_in_cleaning w \<and> hw_segment_start w \<noteq> None
                 then hw_total_s w + elapsed_s (min day_end (fst (last sorted_samples)))
                        (max (the (hw_segment_start w)) day_start)
                 else hw_total_s w)
           in (max 0 (total / 3600), hw_starts w))"

record cleaning_daily_progress =
  cp_completed_hours :: rat
  cp_target_hours :: rat
  cp_progress_pct :: rat
  cp_starts_used :: nat

definition compute_daily_progress :: "rat \<Rightarrow> rat \<Rightarrow> cleaning_daily_progress" where
  "compute_daily_progress completed target = \<lparr> cp_completed_hours = round_to 2 completed,
     cp_target_hours = target,
     cp_progress_pct = min 100 (round_to 1 (100 * completed / max target (1/100))), cp_starts_used = 0 \<rparr>"

subsection \<open>Configuration check\<close>

text \<open>\<open>allowed_window_hours\<close> on the parsed hours and minutes.\<close>

definition allowed_window_hours :: "int \<times> int \<Rightarrow> int \<times> int \<Rightarrow> rat" where
  "allowed_window_hours s e =
     (let a = fst s * 60 + snd s; b = fst e * 60 + snd e;
          b' = (if b \<le> a then b + 24 * 60 else b)
      in of_int (b' - a) / 60)"

definition starts_suffice :: "rat \<Rightarrow> rat \<Rightarrow> rat \<Rightarrow> nat \<Rightarrow> bool" where
  "starts_suffice daily_hours min_cycle_hours window_hours starts \<longleftrightarrow>
     daily_hours / of_nat starts + 1 / 10 ^ 9 \<ge> min_cycle_hours
   \<and> daily_hours \<le> of_nat starts * window_hours + 1 / 10 ^ 9"

record cleaning_validation =
  cv_feasible :: bool
  cv_max_achievable_hours :: rat
  cv_min_starts_needed :: "int option"

text \<open>The hours of the rounds up to and with the first that suffices.\<close>

fun achievable_upto :: "rat \<Rightarrow> rat \<Rightarrow> rat \<Rightarrow> nat list \<Rightarrow> rat \<Rightarrow> rat" where
  "achievable_upto daily mc wh [] acc = acc"
| "achievable_upto daily mc wh (k # ks) acc =
     (let acc' = max acc (min daily (of_nat k * wh))
      in if starts_suffice daily mc wh k then acc' else achievable_upto daily mc wh ks acc')"

definition validate_cleaning_config ::
  "rat \<Rightarrow> int \<Rightarrow> int \<Rightarrow> int \<times> int \<Rightarrow> int \<times> int \<Rightarrow> cleaning_validation" where
  "validate_cleaning_config daily_hours min_cycle_minutes max_starts s e =
     (let mc = of_int min_cycle_minutes / 60; wh = allowed_window_hours s e;
          rounds = [1..<Suc (nat max_starts)]
      in if mc > wh
         then \<lparr> cv_feasible = False, cv_max_achievable_hours = min daily_hours (of_int max_starts * wh),
                cv_min_starts_needed = None \<rparr>
         else if list_ex (starts_suffice daily_hours mc wh) rounds
         then \<lparr> cv_feasible = True, cv_max_achievable_hours = achievable_upto daily_hours mc wh rounds 0,
                cv_min_starts_needed = None \<rparr>
         else \<lparr> cv_feasible = False, cv_max_achievable_hours = achievable_upto daily_hours mc wh rounds 0,
                cv_min_starts_needed = Some (case filter (starts_suffice daily_hours mc wh) [1..<9] of
                    k # _ \<Rightarrow> int k | [] \<Rightarrow> max_starts + 1) \<rparr>)"

subsection \<open>The requirement\<close>

fun last_end_walk :: "bool \<Rightarrow> time option \<Rightarrow> filter_sample list \<Rightarrow> bool \<times> time option" where
  "last_end_walk in_cleaning last_end [] = (in_cleaning, last_end)"
| "last_end_walk in_cleaning last_end (p # ps) =
     (let active = cleaning_status (snd p) in
      if active \<and> \<not> in_cleaning then last_end_walk True last_end ps
      else if \<not> active \<and> in_cleaning then last_end_walk False (Some (fst p)) ps
      else last_end_walk in_cleaning last_end ps)"

definition detect_last_cleaning_end :: "filter_sample list \<Rightarrow> time option" where
  "detect_last_cleaning_end samples =
     (if samples = [] then None
      else let ss = sort_key fst samples; r = last_end_walk False None ss
           in if fst r then Some (fst (last ss)) else snd r)"

record local_calendar =
  ca_local_at :: "time \<Rightarrow> int \<times> int \<Rightarrow> time"
  ca_next_day :: "time \<Rightarrow> time"

definition window_bounds :: "local_calendar \<Rightarrow> time \<Rightarrow> int \<times> int \<Rightarrow> int \<times> int \<Rightarrow> time \<times> time" where
  "window_bounds cal reference s e =
     (let earliest = ca_local_at cal reference s; latest = ca_local_at cal reference e;
          latest' = (if latest \<le> earliest then ca_next_day cal latest else latest)
      in (max earliest reference, latest'))"

record spa_cleaning_requirement =
  rq_minimum_runtime_hours :: rat
  rq_maximum_runtime_hours :: rat
  rq_cleaning_deadline :: time
  rq_last_cleaning_end :: "time option"
  rq_hours_since_last_cleaning :: "rat option"
  rq_hours_required_within_24h :: rat
  rq_filter_frequency_per_day :: rat
  rq_filter_duration_hours :: rat

definition hours_delta :: "rat \<Rightarrow> int" where
  "hours_delta h = timedelta_s (h * 3600)"

definition build_cleaning_requirement ::
  "local_calendar \<Rightarrow> time \<Rightarrow> rat \<Rightarrow> rat \<Rightarrow> rat \<Rightarrow> time option \<Rightarrow> int \<times> int \<Rightarrow> spa_cleaning_requirement" where
  "build_cleaning_requirement cal now freq_per_day duration_hours min_hours last_end window_end_hm =
     (let freq = max freq_per_day (min_hours / max duration_hours (1/2));
          duration = max duration_hours min_hours;
          interval = 24 / max freq (1/10);
          due = or_else last_end now + hours_delta interval;
          latest_finish = snd (window_bounds cal now (0, 0) window_end_hm)
      in \<lparr> rq_minimum_runtime_hours = min duration min_hours, rq_maximum_runtime_hours = min_hours,
           rq_cleaning_deadline = min due latest_finish, rq_last_cleaning_end = last_end,
           rq_hours_since_last_cleaning = map_option (\<lambda>t. elapsed_s now t / 3600) last_end,
           rq_hours_required_within_24h = min_hours, rq_filter_frequency_per_day = freq,
           rq_filter_duration_hours = duration \<rparr>)"

subsection \<open>Planned and actual cycles\<close>

datatype filter_cycle_state =
    FC_SCHEDULED | FC_STARTED | FC_RUNNING | FC_COMPLETED | FC_FAILED | FC_SKIPPED | FC_MANUAL | FC_PARTIAL

record filter_cycle_record =
  fr_cycle_index :: nat
  fr_planned_start :: time
  fr_planned_end :: time
  fr_state :: filter_cycle_state
  fr_actual_start :: "time option"
  fr_actual_end :: "time option"
  fr_runtime_minutes :: rat

definition overlap_minutes :: "time \<Rightarrow> time \<Rightarrow> time \<Rightarrow> time \<Rightarrow> rat" where
  "overlap_minutes a_start a_end b_start b_end =
     (let s = max a_start b_start; e = min a_end b_end in if e \<le> s then 0 else elapsed_s e s / 60)"

definition add_overlap ::
  "plan_window \<Rightarrow> rat \<times> time option \<times> time option \<Rightarrow> time \<times> time \<times> rat \<Rightarrow> rat \<times> time option \<times> time option" where
  "add_overlap w acc seg =
     (let ov = overlap_minutes (pw_start w) (pw_end w) (fst seg) (fst (snd seg)) in
      if ov \<le> 0 then acc
      else (fst acc + ov,
        Some (case fst (snd acc) of None \<Rightarrow> fst seg | Some t \<Rightarrow> min t (fst seg)),
        Some (case snd (snd acc) of None \<Rightarrow> fst (snd seg) | Some t \<Rightarrow> max t (fst (snd seg)))))"

definition cycle_state :: "plan_window \<Rightarrow> time \<Rightarrow> rat \<Rightarrow> rat \<Rightarrow> rat \<Rightarrow> filter_cycle_state" where
  "cycle_state w now required threshold runtime =
     (if pw_end w \<le> now \<and> runtime \<le> 0 then FC_SKIPPED
      else if runtime \<ge> required * threshold then FC_COMPLETED
      else if runtime > 0 \<and> runtime < required * threshold then FC_PARTIAL
      else if pw_start w \<le> now \<and> now < pw_end w \<and> runtime > 0 then FC_RUNNING
      else if pw_start w \<le> now \<and> now < pw_end w then FC_STARTED
      else FC_SCHEDULED)"

definition reconcile_one ::
  "(time \<times> time \<times> rat) list \<Rightarrow> time \<Rightarrow> rat \<Rightarrow> rat \<Rightarrow> nat \<Rightarrow> plan_window \<Rightarrow> filter_cycle_record" where
  "reconcile_one segs now required threshold index w =
     (let acc = foldl (add_overlap w) (0, None, None) segs in
      \<lparr> fr_cycle_index = index + 1, fr_planned_start = pw_start w, fr_planned_end = pw_end w,
        fr_state = cycle_state w now required threshold (fst acc),
        fr_actual_start = fst (snd acc), fr_actual_end = snd (snd acc),
        fr_runtime_minutes = round_to 1 (fst acc) \<rparr>)"

definition completion_threshold :: rat where
  "completion_threshold = 95/100"

definition reconcile_filter_cycles ::
  "plan_window list \<Rightarrow> filter_sample list \<Rightarrow> time \<Rightarrow> time \<Rightarrow> int \<Rightarrow> time \<Rightarrow> rat \<Rightarrow> filter_cycle_record list" where
  "reconcile_filter_cycles ws samples day_start day_end required_minutes now threshold =
     (let segs = cleaning_segments samples day_start day_end in
      map (\<lambda>(i, w). reconcile_one segs now (of_int required_minutes) threshold i w) (enumerate 0 ws))"

definition count_completed_cycles :: "filter_cycle_record list \<Rightarrow> nat" where
  "count_completed_cycles rs = length (filter (\<lambda>r. fr_state r \<in> {FC_COMPLETED, FC_MANUAL}) rs)"

definition remaining_cycles :: "filter_cycle_record list \<Rightarrow> nat" where
  "remaining_cycles rs =
     length (filter (\<lambda>r. fr_state r \<in> {FC_SCHEDULED, FC_STARTED, FC_PARTIAL, FC_FAILED}) rs)"

definition next_upcoming_window :: "plan_window list \<Rightarrow> time \<Rightarrow> plan_window option" where
  "next_upcoming_window ws now = first_min pw_start (filter (\<lambda>w. pw_end w > now) ws)"

definition minutes_until :: "plan_window \<Rightarrow> time \<Rightarrow> int" where
  "minutes_until w now =
     (if now \<ge> pw_start w then 0 else max 0 \<lfloor>elapsed_s (pw_start w) now / 60\<rfloor>)"

subsection \<open>Estimates and the shadow comparison\<close>

record spa_power_profiles =
  pp_circulation_w :: rat
  pp_heater_w :: rat

definition estimate_cleaning_energy_kwh :: "int \<Rightarrow> spa_power_profiles \<Rightarrow> rat" where
  "estimate_cleaning_energy_kwh duration pp =
     (pp_circulation_w pp + pp_heater_w pp * (3/10)) / 1000 * (elapsed_s duration 0 / 3600)"

definition estimate_cleaning_cost :: "int \<Rightarrow> spa_power_profiles \<Rightarrow> rat \<Rightarrow> rat" where
  "estimate_cleaning_cost duration pp marginal = estimate_cleaning_energy_kwh duration pp * marginal"

definition baseline_cleaning_cost_sek :: "rat \<Rightarrow> spa_power_profiles \<Rightarrow> scored_block list \<Rightarrow> rat \<Rightarrow> rat" where
  "baseline_cleaning_cost_sek runtime_hours pp scored fallback =
     estimate_cleaning_cost (hours_delta runtime_hours) pp
       (if scored = [] then fallback else mean_of (map sb_marginal_cost_sek_kwh scored))"

definition average_block_price_sek :: "rat \<Rightarrow> horizon_block list \<Rightarrow> rat \<Rightarrow> rat" where
  "average_block_price_sek rate blocks fallback =
     mean_or (map (load_eur_to_sek rate) (List.map_filter price_eur_kwh blocks)) fallback"

record shadow_day =
  sh_date_label :: string
  sh_actual_cost_sek :: rat
  sh_optimized_cost_sek :: rat
  sh_potential_saving_sek :: rat
  sh_actual_energy_kwh :: rat
  sh_optimized_energy_kwh :: rat

type_synonym day_costs = "(string \<times> rat \<times> rat) list"

definition day_cost_at :: "day_costs \<Rightarrow> string \<Rightarrow> rat \<times> rat" where
  "day_cost_at d k = (case map_of d k of None \<Rightarrow> (0, 0) | Some v \<Rightarrow> v)"

definition shadow_day_of :: "day_costs \<Rightarrow> day_costs \<Rightarrow> string \<Rightarrow> shadow_day" where
  "shadow_day_of actual optimized k =
     \<lparr> sh_date_label = k, sh_actual_cost_sek = snd (day_cost_at actual k),
       sh_optimized_cost_sek = snd (day_cost_at optimized k),
       sh_potential_saving_sek = max 0 (snd (day_cost_at actual k) - snd (day_cost_at optimized k)),
       sh_actual_energy_kwh = fst (day_cost_at actual k),
       sh_optimized_energy_kwh = fst (day_cost_at optimized k) \<rparr>"

definition shadow_compare :: "day_costs \<Rightarrow> day_costs \<Rightarrow> shadow_day list \<times> rat \<times> rat \<times> rat" where
  "shadow_compare actual optimized =
     (let days = map (shadow_day_of actual optimized) (sort (remdups (map fst actual @ map fst optimized)));
          ta = sum_list (map sh_actual_cost_sek days); topt = sum_list (map sh_optimized_cost_sek days)
      in (days, ta, topt, max 0 (ta - topt)))"

subsection \<open>The two counts of a day agree\<close>

definition total_minutes :: "(time \<times> time \<times> rat) list \<Rightarrow> rat" where
  "total_minutes segs = sum_list (map (snd \<circ> snd) segs)"

lemma close_segment_total:
  assumes "max a day_start \<le> until"
  shows "total_minutes (close_segment day_start a until segs) =
     total_minutes segs + elapsed_s until (max a day_start) / 60"
proof -
  have "0 \<le> elapsed_s until (max a day_start)"
    using elapsed_s_mono [OF assms, of "max a day_start"] by (simp add: elapsed_s_def)
  then show ?thesis
    by (auto simp: close_segment_def Let_def total_minutes_def minutes_between_def max_def)
qed

text \<open>The two walks side by side; \<open>L\<close> is the last instant of all samples.\<close>

definition walks_agree :: "time \<Rightarrow> time \<Rightarrow> time \<Rightarrow> segment_walk \<Rightarrow> hours_walk \<Rightarrow> filter_sample list \<Rightarrow> bool" where
  "walks_agree day_start day_end L w h ps \<longleftrightarrow>
     hw_in_cleaning h = sw_in_cleaning w \<and> hw_segment_start h = sw_segment_start w
   \<and> hw_total_s h = 60 * total_minutes (sw_segments w) \<and> 0 \<le> hw_total_s h
   \<and> (L < day_start \<longrightarrow> hw_total_s h = 0)
   \<and> (\<forall>a. sw_segment_start w = Some a \<longrightarrow> a = day_start
         \<or> (day_start \<le> a \<and> a \<le> day_end \<and> a \<le> L \<and> (\<forall>p \<in> set ps. a \<le> fst p)))"

lemma walks_agree_drop: "walks_agree ds de L w h (p # ps) \<Longrightarrow> walks_agree ds de L w h ps"
  by (auto simp: walks_agree_def)

lemma walks_step:
  assumes agree: "walks_agree ds de L w h (p # ps)" and "sorted (map fst (p # ps))"
    and "\<forall>q \<in> set (p # ps). fst q \<le> L" "\<not> (fst p \<ge> ds \<and> fst p > de)" "ds \<le> de"
  shows "walks_agree ds de L (segment_step ds w p) (hours_step ds h p) ps"
proof -
  have le: "\<forall>q \<in> set ps. fst p \<le> fst q" using assms(2) by auto
  consider (before) "fst p < ds"
    | (opens) "ds \<le> fst p" "cleaning_status (snd p)" "\<not> sw_in_cleaning w"
    | (closes) a where "ds \<le> fst p" "\<not> cleaning_status (snd p)" "sw_in_cleaning w" "sw_segment_start w = Some a"
    | (same) "ds \<le> fst p" "\<not> (cleaning_status (snd p) \<and> \<not> sw_in_cleaning w)"
        "\<not> (\<not> cleaning_status (snd p) \<and> sw_in_cleaning w \<and> sw_segment_start w \<noteq> None)"
    by (cases "fst p < ds") (auto simp: not_less)
  then show ?thesis
  proof cases
    case before
    then show ?thesis
      using agree by (auto simp: walks_agree_def segment_step_def hours_step_def Let_def)
  next
    case opens
    then show ?thesis
      using agree assms(3,4) le by (auto simp: walks_agree_def segment_step_def hours_step_def Let_def)
  next
    case (closes a)
    have a: "max a ds \<le> fst p" using agree closes by (auto simp: walks_agree_def)
    have nn: "0 \<le> elapsed_s (fst p) (max a ds)"
      using elapsed_s_mono [OF a, of "max a ds"] by (simp add: elapsed_s_def)
    have "ds \<le> L" using closes(1) assms(3) by auto
    then show ?thesis
      using agree closes nn close_segment_total [OF a]
      by (simp add: walks_agree_def segment_step_def hours_step_def Let_def)
  next
    case same
    have "segment_step ds w p = w" "hours_step ds h p = h"
      using same agree by (auto simp: walks_agree_def segment_step_def hours_step_def Let_def)
    then show ?thesis using walks_agree_drop [OF agree] by simp
  qed
qed

lemma walks_run:
  assumes "ds \<le> de"
  shows "walks_agree ds de L w h ps \<Longrightarrow> sorted (map fst ps) \<Longrightarrow> \<forall>q \<in> set ps. fst q \<le> L \<Longrightarrow>
    walks_agree ds de L (segment_walk_from ds de w ps) (hours_walk_from ds de h ps) []"
proof (induction ps arbitrary: w h)
  case (Cons p ps)
  show ?case
  proof (cases "fst p \<ge> ds \<and> fst p > de")
    case True
    then show ?thesis using Cons.prems(1) by (auto simp: walks_agree_def)
  next
    case False
    have "walks_agree ds de L (segment_step ds w p) (hours_step ds h p) ps"
      using walks_step [OF Cons.prems(1,2,3) False assms] .
    moreover have "sorted (map fst ps)" "\<forall>q \<in> set ps. fst q \<le> L" using Cons.prems(2,3) by simp_all
    moreover have "segment_walk_from ds de w (p # ps) = segment_walk_from ds de (segment_step ds w p) ps"
      "hours_walk_from ds de h (p # ps) = hours_walk_from ds de (hours_step ds h p) ps"
      using False by (simp_all only: segment_walk_from.simps hours_walk_from.simps if_False)
    ultimately show ?thesis using Cons.IH by simp
  qed
qed simp

lemma sorted_le_last: "sorted xs \<Longrightarrow> x \<in> set xs \<Longrightarrow> x \<le> last xs"
  by (induction xs) (auto split: if_splits)

text \<open>When the walks agree, what is counted after them agrees: an open cleaning is closed at the last sample or the
  end of the day.\<close>

lemma open_cleaning_closed:
  assumes agree: "walks_agree day_start day_end L w h []" and days: "day_start \<le> day_end"
    and start: "sw_in_cleaning w" "sw_segment_start w = Some a"
  shows "max 0 ((hw_total_s h + elapsed_s (min day_end L) (max a day_start)) / 3600)
    = total_minutes (close_segment day_start a (min day_end L) (sw_segments w)) / 60"
proof -
  have tot: "hw_total_s h = 60 * total_minutes (sw_segments w)" "0 \<le> hw_total_s h"
    using agree by (simp_all add: walks_agree_def)
  show ?thesis
  proof (cases "L < day_start")
    case late: True
    then have "a = day_start" "hw_total_s h = 0" using agree start by (auto simp: walks_agree_def)
    moreover have "elapsed_s L day_start < 0"
      using late by (simp add: elapsed_s_def us_per_s_def divide_less_0_iff)
    moreover have "min day_end L = L" using late days by simp
    ultimately show ?thesis using tot(1) by (simp add: close_segment_def Let_def minutes_between_def max_def)
  next
    case early: False
    then have le: "max a day_start \<le> min day_end L" using agree start days by (auto simp: walks_agree_def)
    have "0 \<le> elapsed_s (min day_end L) (max a day_start)"
      using elapsed_s_mono [OF le, of "max a day_start"] by (simp add: elapsed_s_def)
    then show ?thesis using tot close_segment_total [OF le, of "sw_segments w"] by (simp add: max_def)
  qed
qed

lemma final_counts_agree:
  assumes agree: "walks_agree day_start day_end L w h []" and days: "day_start \<le> day_end"
  shows "max 0 ((if hw_in_cleaning h \<and> hw_segment_start h \<noteq> None
        then hw_total_s h + elapsed_s (min day_end L) (max (the (hw_segment_start h)) day_start)
        else hw_total_s h) / 3600)
    = total_minutes (if sw_in_cleaning w \<and> sw_segment_start w \<noteq> None
       then close_segment day_start (the (sw_segment_start w)) (min day_end L) (sw_segments w) else sw_segments w) / 60"
proof (cases "sw_in_cleaning w \<and> sw_segment_start w \<noteq> None")
  case False
  then show ?thesis using agree by (auto simp: walks_agree_def)
next
  case True
  then obtain a where a: "sw_in_cleaning w" "sw_segment_start w = Some a" by blast
  then have "hw_in_cleaning h" "hw_segment_start h = Some a" using agree by (simp_all add: walks_agree_def)
  then show ?thesis using open_cleaning_closed [OF agree days a] a by simp
qed

text \<open>C31. The two ways the code counts a day's cleaning agree on any samples: the hours are a sixtieth of
  the total minutes of the segments the cycle tracker finds.\<close>

theorem hours_are_segments:
  assumes "day_start \<le> day_end"
  shows "fst (compute_cleaning_hours_today samples day_start day_end) =
    total_minutes (cleaning_segments samples day_start day_end) / 60"
proof (cases "samples = []")
  case True
  then show ?thesis by (simp add: compute_cleaning_hours_today_def cleaning_segments_def total_minutes_def)
next
  case False
  define ss where "ss = sort_key fst samples"
  define L where "L = fst (last ss)"
  define w where "w = segment_walk_from day_start day_end
      \<lparr> sw_in_cleaning = False, sw_segment_start = None, sw_segments = [] \<rparr> ss"
  define h where "h = hours_walk_from day_start day_end
      \<lparr> hw_in_cleaning = False, hw_segment_start = None, hw_total_s = 0, hw_starts = 0 \<rparr> ss"
  have sorted: "sorted (map fst ss)" by (simp add: ss_def)
  have ne: "ss \<noteq> []" using False by (simp add: ss_def) (metis length_0_conv length_sort)
  have L: "\<forall>q \<in> set ss. fst q \<le> L"
    using sorted_le_last [OF sorted] ne by (simp add: L_def last_map)
  have agree: "walks_agree day_start day_end L w h []"
    unfolding w_def h_def
    by (rule walks_run [OF assms _ sorted L]) (simp add: walks_agree_def total_minutes_def)
  show ?thesis
    using False final_counts_agree [OF agree assms]
    unfolding cleaning_segments_def compute_cleaning_hours_today_def Let_def ss_def [symmetric] w_def [symmetric]
      h_def [symmetric] L_def [symmetric]
    by (simp only: if_False fst_conv)
qed

subsection \<open>Reported states\<close>

text \<open>The branch of a running cycle comes after the one of a partial cycle and is never reached.\<close>

lemma running_never_reported:
  "r \<in> set (reconcile_filter_cycles ws samples day_start day_end required now threshold) \<Longrightarrow> fr_state r \<noteq> FC_RUNNING"
  by (auto simp: reconcile_filter_cycles_def Let_def reconcile_one_def cycle_state_def split: if_splits)

lemma completed_or_remaining:
  "list_all (\<lambda>r. fr_state r \<noteq> FC_RUNNING \<and> fr_state r \<noteq> FC_SKIPPED) rs \<Longrightarrow>
     count_completed_cycles rs + remaining_cycles rs = length rs"
proof (induction rs)
  case (Cons r rs)
  then show ?case by (cases "fr_state r") (simp_all add: count_completed_cycles_def remaining_cycles_def)
qed (simp add: count_completed_cycles_def remaining_cycles_def)

text \<open>The total saving of the shadow comparison is no more than the days' savings together.\<close>

lemma shadow_total_below_days:
  "snd (snd (snd (shadow_compare actual optimized))) \<le>
     sum_list (map sh_potential_saving_sek (fst (shadow_compare actual optimized)))"
proof -
  define days where "days = fst (shadow_compare actual optimized)"
  have each: "\<forall>d \<in> set days. sh_actual_cost_sek d - sh_optimized_cost_sek d \<le> sh_potential_saving_sek d
      \<and> 0 \<le> sh_potential_saving_sek d"
    by (auto simp: days_def shadow_compare_def Let_def shadow_day_of_def)
  have "sum_list (map sh_actual_cost_sek ds) - sum_list (map sh_optimized_cost_sek ds)
      \<le> sum_list (map sh_potential_saving_sek ds) \<and> 0 \<le> sum_list (map sh_potential_saving_sek ds)"
    if "set ds \<subseteq> set days" for ds
    using that each by (induction ds) fastforce+
  from this [of days] show ?thesis by (simp add: days_def shadow_compare_def Let_def)
qed

theorem hours_are_segments_witness:
  "fst (compute_cleaning_hours_today [(0, Some ''Filtering''), (hours_us 2, Some ''Idle'')] 0 (hours_us 24)) =
    total_minutes (cleaning_segments [(0, Some ''Filtering''), (hours_us 2, Some ''Idle'')] 0 (hours_us 24)) / 60"
  by (rule hours_are_segments) (simp add: hours_us_def us_per_s_def)

end
