(* ===== verification/Price_Engine.thy ===== *)
theory Price_Engine
  imports Load_Planning Ev_Sessions Emic_Json "HOL-Library.Option_ord"
begin

section \<open>The price engine\<close>

text \<open>
  \<open>price_engine/\<close> (types, the period grid, the normalizer, the layers of a day, tariff, peak
  protection, site configuration, the bridge to the horizon, charging windows, the strategy
  snapshot) and \<open>energy_optimizer/eov.py\<close>. Provider points and stored periods come in as lists;
  the rate of \<open>Settings\<close>, the printed form of a timestamp and the local time zone are
  parameters. The texts of the recommendations are left out, their codes are kept.
\<close>

subsection \<open>Types\<close>

datatype price_quality = PQ_REAL | PQ_CALCULATED | PQ_ESTIMATED | PQ_STALE | PQ_MISSING
datatype price_source = PS_HEARTBEAT | PS_REPLICATED_HOURLY | PS_NORD_POOL | PS_CACHE | PS_FALLBACK
datatype price_area = SE4 | DK2
datatype optimization_mode = MONITOR_ONLY | RECOMMEND | SEMI_AUTOMATIC | AUTOMATIC
datatype strategy_state =
    NORMAL_SELF_USE | PEAK_AHEAD | SAVE_BATTERY | CHARGE_BATTERY | DISCHARGE_BATTERY_STATE | EXPORT
  | CHARGE_VEHICLE | WAIT_STATE | PEAK_PROTECTION

record price_period =
  pd_start :: time
  pd_end :: time
  pd_site_id :: nat
  pd_area :: price_area
  pd_market_sek :: "rat option"
  pd_import_sek :: "rat option"
  pd_export_sek :: "rat option"
  pd_source :: price_source
  pd_quality :: price_quality
  pd_is_estimated :: bool
  pd_components :: "(string \<times> json) list"

record raw_price_point =
  rp_timestamp :: time
  rp_market_eur :: "rat option"
  rp_import_eur :: "rat option"
  rp_export_eur :: "rat option"
  rp_native_minutes :: int
  rp_components :: "(string \<times> json) list"

subsection \<open>The period grid\<close>

definition period_end :: "time \<Rightarrow> time" where
  "period_end start = start + block_us"

text \<open>The starts of the quarters in \<open>[start, end)\<close>.\<close>

definition enumerate_periods :: "time \<Rightarrow> time \<Rightarrow> time list" where
  "enumerate_periods start until =
     (let cursor = align_period_start start
      in cursor_points (if cursor < start then cursor + block_us else cursor) until)"

definition current_period_start :: "time \<Rightarrow> time" where
  "current_period_start now = align_period_start now"

text \<open>\<open>day_bounds\<close> is \<open>local_day_bounds\<close>: the instants at which a local date begins and ends.\<close>

definition enumerate_local_day_periods :: "('d \<Rightarrow> time \<times> time) \<Rightarrow> 'd \<Rightarrow> time list" where
  "enumerate_local_day_periods day_bounds day = enumerate_periods (fst (day_bounds day)) (snd (day_bounds day))"

subsection \<open>Normalization\<close>

definition quality_rank :: "price_quality \<Rightarrow> nat" where
  "quality_rank q = (case q of PQ_REAL \<Rightarrow> 5 | PQ_CALCULATED \<Rightarrow> 4 | PQ_ESTIMATED \<Rightarrow> 3 | PQ_STALE \<Rightarrow> 2 | PQ_MISSING \<Rightarrow> 1)"

definition merge_quality :: "price_quality \<Rightarrow> price_quality \<Rightarrow> price_quality" where
  "merge_quality a b = (if quality_rank a \<le> quality_rank b then a else b)"

definition is_native :: "raw_price_point \<Rightarrow> bool" where
  "is_native p \<longleftrightarrow> rp_native_minutes p \<le> 15"

text \<open>\<open>range(0, native_resolution_minutes, 15)\<close> quarters from the hour.\<close>

definition point_starts :: "raw_price_point \<Rightarrow> time list" where
  "point_starts p =
     (if is_native p then [align_period_start (rp_timestamp p)]
      else map (\<lambda>k. hour_key (rp_timestamp p) + int k * block_us) [0..<nat ((rp_native_minutes p + 14) div 15)])"

definition replication_note :: "(time \<Rightarrow> string) \<Rightarrow> raw_price_point \<Rightarrow> json" where
  "replication_note to_iso p = JObj [(''from_resolution_minutes'', JInt (rp_native_minutes p)),
     (''native_timestamp'', JStr (to_iso (rp_timestamp p)))]"

definition period_row ::
  "rat \<Rightarrow> (time \<Rightarrow> string) \<Rightarrow> nat \<Rightarrow> price_area \<Rightarrow> raw_price_point \<Rightarrow> time \<Rightarrow> price_period" where
  "period_row rate to_iso site_id area p start =
     \<lparr> pd_start = start, pd_end = period_end start, pd_site_id = site_id, pd_area = area,
       pd_market_sek = stored_eur_to_sek_kwh rate (rp_market_eur p),
       pd_import_sek = stored_eur_to_sek_kwh rate (rp_import_eur p),
       pd_export_sek = stored_eur_to_sek_kwh rate (rp_export_eur p),
       pd_source = (if is_native p then PS_HEARTBEAT else PS_REPLICATED_HOURLY),
       pd_quality = (if is_native p then PQ_REAL else PQ_ESTIMATED),
       pd_is_estimated = (\<not> is_native p),
       pd_components = (if is_native p then rp_components p
         else AList.update ''replication'' (replication_note to_iso p) (rp_components p)) \<rparr>"

definition put_row :: "(time \<times> price_period) list \<Rightarrow> price_period \<Rightarrow> (time \<times> price_period) list" where
  "put_row d row = (case map_of d (pd_start row) of
     None \<Rightarrow> AList.update (pd_start row) row d
   | Some old \<Rightarrow> if quality_rank (pd_quality row) \<ge> quality_rank (pd_quality old)
       then AList.update (pd_start row) row d else d)"

definition sorted_rows :: "(time \<times> price_period) list \<Rightarrow> price_period list" where
  "sorted_rows d = sort_key pd_start (map snd d)"

definition normalize_to_periods ::
  "rat \<Rightarrow> (time \<Rightarrow> string) \<Rightarrow> nat \<Rightarrow> price_area \<Rightarrow> raw_price_point list \<Rightarrow> price_period list" where
  "normalize_to_periods rate to_iso site_id area points =
     sorted_rows (foldl put_row []
       (concat (map (\<lambda>p. map (period_row rate to_iso site_id area p) (point_starts p)) points)))"

subsection \<open>Layers\<close>

definition with_import :: "price_period \<Rightarrow> price_period \<Rightarrow> price_period" where
  "with_import old layer = old\<lparr> pd_import_sek := pd_import_sek layer,
     pd_quality := merge_quality (pd_quality old) (pd_quality layer),
     pd_components := AList.update ''import'' (JObj (pd_components layer)) (pd_components old) \<rparr>"

definition with_export :: "price_period \<Rightarrow> price_period \<Rightarrow> price_period" where
  "with_export old layer = old\<lparr> pd_export_sek := pd_export_sek layer,
     pd_quality := merge_quality (pd_quality old) (pd_quality layer),
     pd_components := AList.update ''export'' (JObj (pd_components layer)) (pd_components old) \<rparr>"

definition put_layer ::
  "(price_period \<Rightarrow> price_period \<Rightarrow> price_period) \<Rightarrow> (time \<times> price_period) list \<Rightarrow> price_period
     \<Rightarrow> (time \<times> price_period) list" where
  "put_layer f d layer = (case map_of d (pd_start layer) of
     None \<Rightarrow> AList.update (pd_start layer) layer d
   | Some old \<Rightarrow> AList.update (pd_start layer) (f old layer) d)"

definition merge_period_layers ::
  "price_period list \<Rightarrow> price_period list \<Rightarrow> price_period list \<Rightarrow> price_period list" where
  "merge_period_layers market imports exports =
     sorted_rows (foldl (put_layer with_export) (foldl (put_layer with_import)
       (foldl (\<lambda>d p. AList.update (pd_start p) p d) [] market) imports) exports)"

subsection \<open>Bridge to the horizon\<close>

definition price_by_period :: "price_period list \<Rightarrow> (time \<times> price_period) list" where
  "price_by_period ps = foldl (\<lambda>d p. AList.update (align_period_start (pd_start p)) p d) [] ps"

text \<open>The first period of an hour gives the hour's prices.\<close>

definition add_hour :: "rat \<Rightarrow> (time \<times> rat option \<times> rat option) list \<Rightarrow> price_period
    \<Rightarrow> (time \<times> rat option \<times> rat option) list" where
  "add_hour rate d p = (case map_of d (hour_key (pd_start p)) of
     Some _ \<Rightarrow> d
   | None \<Rightarrow> AList.update (hour_key (pd_start p))
       (map_option (sek_to_eur rate) (pd_market_sek p), map_option (sek_to_eur rate) (pd_import_sek p)) d)"

definition price_by_hour_from_periods :: "rat \<Rightarrow> price_period list \<Rightarrow> (time \<times> rat option \<times> rat option) list" where
  "price_by_hour_from_periods rate ps = foldl (add_hour rate) [] ps"

definition export_value_from_periods :: "price_period list \<Rightarrow> rat" where
  "export_value_from_periods ps = (case List.map_filter pd_export_sek (rev ps) of v # _ \<Rightarrow> v | [] \<Rightarrow> 0)"

subsection \<open>Legacy hourly rows\<close>

text \<open>\<open>_sync_legacy_hourly\<close>: spot, all-in and feed-in price by hour.\<close>

type_synonym legacy_rows = "(time \<times> rat \<times> rat option \<times> rat option) list"

definition legacy_at :: "legacy_rows \<Rightarrow> time \<Rightarrow> rat \<times> rat option \<times> rat option" where
  "legacy_at d t = (case map_of d t of None \<Rightarrow> (0, None, None) | Some v \<Rightarrow> v)"

definition legacy_market :: "legacy_rows \<Rightarrow> raw_price_point \<Rightarrow> legacy_rows" where
  "legacy_market d p = (let t = hour_key (rp_timestamp p) in
     case map_of d t of Some _ \<Rightarrow> d | None \<Rightarrow> AList.update t (or_else (rp_market_eur p) 0, None, None) d)"

definition legacy_import :: "legacy_rows \<Rightarrow> raw_price_point \<Rightarrow> legacy_rows" where
  "legacy_import d p = (let t = hour_key (rp_timestamp p); v = legacy_at d t
     in AList.update t (fst v, rp_import_eur p, snd (snd v)) d)"

definition legacy_export :: "legacy_rows \<Rightarrow> raw_price_point \<Rightarrow> legacy_rows" where
  "legacy_export d p = (let t = hour_key (rp_timestamp p); v = legacy_at d t
     in AList.update t (fst v, fst (snd v), rp_export_eur p) d)"

definition legacy_hourly ::
  "raw_price_point list \<Rightarrow> raw_price_point list \<Rightarrow> raw_price_point list \<Rightarrow> legacy_rows" where
  "legacy_hourly market imports exports =
     sort_key fst (foldl legacy_export (foldl legacy_import (foldl legacy_market [] market) imports) exports)"

subsection \<open>Tariff and peak protection\<close>

record tariff_breakdown =
  tb_market :: "rat option"
  tb_import :: "rat option"
  tb_grid_surcharge :: "rat option"
  tb_vat_rate :: "rat option"
  tb_uses_fallback :: "bool option"

text \<open>\<open>float(...)\<close> of a number; the providers write numbers here.\<close>

fun json_float :: "json \<Rightarrow> rat option" where
  "json_float (JInt n) = Some (of_int n)"
| "json_float (JFloat x) = Some x"
| "json_float (JBool b) = Some (if b then 1 else 0)"
| "json_float _ = None"

definition tariff_layer :: "rat \<Rightarrow> tariff_breakdown \<Rightarrow> json \<Rightarrow> tariff_breakdown" where
  "tariff_layer rate tb j = (case j of
     JObj layer \<Rightarrow>
       (let vat = json_get layer ''vat_rate'' JNull; fb = json_get layer ''uses_fallback_grid_costs'' JNull;
            grid = json_get layer ''grid_costs_total_eur_kwh'' JNull
        in tb\<lparr> tb_vat_rate := (if tb_vat_rate tb = None \<and> vat \<noteq> JNull then json_float vat else tb_vat_rate tb),
               tb_uses_fallback := (if tb_uses_fallback tb = None \<and> fb \<noteq> JNull then Some (json_truthy fb)
                 else tb_uses_fallback tb),
               tb_grid_surcharge := (if tb_grid_surcharge tb = None \<and> grid \<noteq> JNull
                 then map_option (round_to 4) (stored_eur_to_sek_kwh rate (json_float grid))
                 else tb_grid_surcharge tb) \<rparr>)
   | _ \<Rightarrow> tb)"

definition tariff_breakdown_from_period :: "rat \<Rightarrow> price_period option \<Rightarrow> tariff_breakdown option" where
  "tariff_breakdown_from_period rate period = map_option (\<lambda>p.
     foldl (tariff_layer rate)
       \<lparr> tb_market = pd_market_sek p, tb_import = pd_import_sek p,
         tb_grid_surcharge = (case (pd_market_sek p, pd_import_sek p) of
            (Some m, Some i) \<Rightarrow> Some (round_to 4 (max 0 (i - m))) | _ \<Rightarrow> None),
         tb_vat_rate = None, tb_uses_fallback = None \<rparr>
       (map snd (pd_components p))) period"

record peak_hint =
  ph_fuse_headroom_a :: rat
  ph_grid_import_w :: rat
  ph_main_fuse_a :: rat
  ph_utilization_pct :: rat

definition assess_peak_protection ::
  "rat option \<Rightarrow> rat \<Rightarrow> rat option \<Rightarrow> rat \<Rightarrow> rat \<Rightarrow> rat \<Rightarrow> rat \<Rightarrow> peak_hint option" where
  "assess_peak_protection main_fuse margin grid_import phase_count voltage headroom_threshold util_threshold =
     (case (main_fuse, grid_import) of
        (Some fuse, Some w) \<Rightarrow>
          if fuse \<le> 0 \<or> w \<le> 0 then None
          else let phase_a = w / max (phase_count * voltage) 1;
                   headroom = max 0 (max 0 (fuse - margin) - phase_a);
                   util = min 100 (phase_a / max fuse (1/10) * 100)
               in if headroom > headroom_threshold \<and> util < util_threshold then None
                  else Some \<lparr> ph_fuse_headroom_a = round_to 1 headroom, ph_grid_import_w = round_to 0 w,
                    ph_main_fuse_a = fuse, ph_utilization_pct = round_to 1 util \<rparr>
      | _ \<Rightarrow> None)"

subsection \<open>Site configuration\<close>

definition area_of_name :: "string \<Rightarrow> price_area option" where
  "area_of_name s = (if s = ''SE4'' then Some SE4 else if s = ''DK2'' then Some DK2 else None)"

definition area_of_country :: "string \<Rightarrow> price_area" where
  "area_of_country c = (if py_upper c = ''DK'' then DK2 else SE4)"

definition price_area_for_site :: "string option \<Rightarrow> string option \<Rightarrow> price_area" where
  "price_area_for_site explicit country =
     (let by_country = area_of_country (case country of None \<Rightarrow> ''SE'' | Some c \<Rightarrow> if c = [] then ''SE'' else c)
      in case explicit of
           None \<Rightarrow> by_country
         | Some s \<Rightarrow> if s = [] then by_country else or_else (area_of_name (py_upper s)) by_country)"

definition mode_of_name :: "string \<Rightarrow> optimization_mode" where
  "mode_of_name s = (let u = py_upper s in
     if u = ''RECOMMEND'' then RECOMMEND else if u = ''SEMI_AUTOMATIC'' then SEMI_AUTOMATIC
     else if u = ''AUTOMATIC'' then AUTOMATIC else MONITOR_ONLY)"

subsection \<open>Charging windows\<close>

definition future_priced :: "price_period list \<Rightarrow> time \<Rightarrow> time \<Rightarrow> (time \<times> time \<times> rat) list" where
  "future_priced horizon now limit = List.map_filter (\<lambda>p.
     if pd_start p > now \<and> pd_start p \<le> limit
     then map_option (\<lambda>v. (pd_start p, pd_end p, v)) (pd_import_sek p) else None) horizon"

definition window_average :: "(time \<times> time \<times> rat) list \<Rightarrow> rat" where
  "window_average ps = mean_of (map (snd \<circ> snd) ps)"

text \<open>The running best keeps the earlier of two equal averages.\<close>

definition find_cheapest_charge_window ::
  "price_period list \<Rightarrow> time \<Rightarrow> nat \<Rightarrow> int \<Rightarrow> (time \<times> time \<times> rat) option" where
  "find_cheapest_charge_window horizon now n lookahead_hours =
     (if length horizon < n then None
      else let future = future_priced horizon now (now + hours_us lookahead_hours) in
        if length future < n then None
        else map_option (\<lambda>c. (fst (hd c), fst (snd (last c)), window_average c))
          (running_best (\<lambda>c. - window_average c)
            (map (\<lambda>i. take n (drop i future)) [0..<Suc (length future) - n])))"

record ev_charge_recommendation =
  er_charger_id :: string
  er_charger_name :: string
  er_window_start :: time
  er_window_end :: time
  er_avg_import :: rat
  er_current_import :: rat
  er_estimated_saving :: "rat option"

definition build_ev_recommendations ::
  "ev_charger_row list \<Rightarrow> rat \<Rightarrow> price_period list \<Rightarrow> rat option \<Rightarrow> time \<Rightarrow> rat \<Rightarrow> rat \<Rightarrow> ev_charge_recommendation list" where
  "build_ev_recommendations chargers fallback_price horizon current now min_spread energy_kwh =
     (case (find_cheapest_charge_window horizon now 4 18, current) of
        (Some w, Some c) \<Rightarrow>
          (let avg = snd (snd w) in
           if c \<le> avg + min_spread then []
           else map (\<lambda>ch. \<lparr> er_charger_id = ec_id ch, er_charger_name = ec_name ch,
                er_window_start = fst w, er_window_end = fst (snd w), er_avg_import = round_to 4 avg,
                er_current_import = round_to 4 c,
                er_estimated_saving = (if c - avg > 0 then Some (round_to 2 ((c - avg) * energy_kwh)) else None) \<rparr>)
             (filter (\<lambda>ch. build_ev_orchestrated_load ch fallback_price now \<noteq> None) chargers))
      | _ \<Rightarrow> [])"

end
