(* ===== verification/Energy_Opportunity.thy ===== *)
theory Energy_Opportunity
  imports Price_Engine
begin

section \<open>The value of the next kilowatt-hour\<close>

text \<open>
  \<open>energy_optimizer/\<close> (\<open>eov.py\<close>, \<open>horizon.py\<close>, \<open>advisor.py\<close>) and \<open>price_engine/strategy.py\<close>:
  which use of a marginal kilowatt-hour is recommended, the strategy of a site as it is shown,
  and the advice read off it. Texts are left out; where the code chooses between texts, the
  choice is kept as a code.
\<close>

subsection \<open>Types\<close>

datatype energy_action = USE_NOW | STORE_IN_BATTERY | EXPORT_TO_GRID | DISCHARGE_BATTERY | WAIT

record eov_config =
  ev_round_trip_efficiency :: rat
  ev_degradation_cost :: rat
  ev_battery_capacity_kwh :: rat
  ev_lookahead_hours :: int
  ev_shiftable_kwh_per_day :: rat

definition default_eov_config :: eov_config where
  "default_eov_config = \<lparr> ev_round_trip_efficiency = 92/100, ev_degradation_cost = 2/100,
     ev_battery_capacity_kwh = 10, ev_lookahead_hours = 24, ev_shiftable_kwh_per_day = 10 \<rparr>"

record eov_decision =
  eo_action :: energy_action
  eo_strategy_state :: strategy_state
  eo_expected_value :: "rat option"
  eo_confidence :: rat
  eo_reserve_soc_pct :: "rat option"

subsection \<open>The decision\<close>

definition quality_confidence :: "price_quality \<Rightarrow> rat" where
  "quality_confidence q = (case q of PQ_REAL \<Rightarrow> 82/100 | PQ_CALCULATED \<Rightarrow> 78/100
     | PQ_ESTIMATED \<Rightarrow> 68/100 | PQ_STALE \<Rightarrow> 55/100 | PQ_MISSING \<Rightarrow> 35/100)"

definition better_price :: "(rat \<times> time) option \<Rightarrow> rat \<Rightarrow> time \<Rightarrow> (rat \<times> time) option" where
  "better_price best price ts = (case best of
     None \<Rightarrow> Some (price, ts)
   | Some b \<Rightarrow> if fst b < price then Some (price, ts) else best)"

text \<open>The loop with its \<open>continue\<close> before \<open>after\<close> and its \<open>break\<close> behind the end of the window.\<close>

fun import_peak_from ::
  "time \<Rightarrow> time \<Rightarrow> (rat \<times> time) option \<Rightarrow> price_period list \<Rightarrow> (rat \<times> time) option" where
  "import_peak_from after stop best [] = best"
| "import_peak_from after stop best (p # ps) =
     (if pd_start p \<le> after then import_peak_from after stop best ps
      else if pd_start p > stop then best
      else case pd_import_sek p of
        None \<Rightarrow> import_peak_from after stop best ps
      | Some price \<Rightarrow> import_peak_from after stop (better_price best price (pd_start p)) ps)"

definition future_import_stats ::
  "price_period list \<Rightarrow> time \<Rightarrow> int \<Rightarrow> (rat \<times> time) option" where
  "future_import_stats periods now lookahead_hours =
     import_peak_from now (now + hours_us lookahead_hours) None periods"

definition eov_reserve :: "rat option \<Rightarrow> rat option \<Rightarrow> rat option \<Rightarrow> rat option" where
  "eov_reserve soc peak avg = map_option (\<lambda>soc.
     case (peak, avg) of
       (Some peak, Some avg) \<Rightarrow>
         (let spread = peak - avg in
          if spread \<le> 5/100 then 28
          else if peak \<ge> 5/2 then min 65 (40 + spread * 8)
          else if peak \<ge> 3/2 then min 55 (32 + spread * 6)
          else min 45 (28 + spread * 5))
     | _ \<Rightarrow> max 25 (min 60 soc)) soc"

text \<open>
  The dictionary of candidates in insertion order; \<open>float("-inf")\<close> is \<open>None\<close>, which
  \<open>HOL-Library.Option_ord\<close> puts below every number.
\<close>

definition eov_candidates ::
  "eov_config \<Rightarrow> rat \<Rightarrow> rat \<Rightarrow> rat \<Rightarrow> rat option \<Rightarrow> (energy_action \<times> rat option) list" where
  "eov_candidates cfg import_now export_now peak_import soc =
     (let store_future_value = peak_import * ev_round_trip_efficiency cfg - ev_degradation_cost cfg;
          store_net = store_future_value - max export_now (import_now * (1/2));
          base = [(USE_NOW, Some import_now), (EXPORT_TO_GRID, Some export_now),
                  (STORE_IN_BATTERY, Some store_net), (WAIT, Some 0)]
      in case soc of
           None \<Rightarrow> base
         | Some soc \<Rightarrow>
             (let full = (if soc \<ge> 96 then AList.update STORE_IN_BATTERY None base else base)
              in AList.update DISCHARGE_BATTERY
                   (if soc \<le> 28 then None
                    else if peak_import > import_now * (115/100) then Some import_now
                    else Some (import_now - export_now)) full))"

definition map_action_to_strategy :: "energy_action \<Rightarrow> rat \<Rightarrow> rat \<Rightarrow> strategy_state" where
  "map_action_to_strategy action import_now peak_import = (case action of
     STORE_IN_BATTERY \<Rightarrow> SAVE_BATTERY
   | EXPORT_TO_GRID \<Rightarrow> EXPORT
   | DISCHARGE_BATTERY \<Rightarrow> DISCHARGE_BATTERY_STATE
   | USE_NOW \<Rightarrow> if peak_import > import_now * (125/100) then PEAK_AHEAD else NORMAL_SELF_USE
   | WAIT \<Rightarrow> WAIT_STATE)"

definition horizon_imports :: "price_period list \<Rightarrow> rat list" where
  "horizon_imports horizon = List.map_filter pd_import_sek horizon"

definition eov_peak :: "price_period list \<Rightarrow> time \<Rightarrow> eov_config \<Rightarrow> rat \<Rightarrow> rat" where
  "eov_peak horizon now cfg import_now =
     (case future_import_stats horizon now (ev_lookahead_hours cfg) of None \<Rightarrow> import_now | Some b \<Rightarrow> fst b)"

definition eov_decide ::
  "eov_config \<Rightarrow> price_quality \<Rightarrow> rat \<Rightarrow> rat \<Rightarrow> rat \<Rightarrow> rat \<Rightarrow> rat option \<Rightarrow> eov_decision option" where
  "eov_decide cfg quality import_now export_now peak_import avg_import soc =
     map_option (\<lambda>c.
       \<lparr> eo_action = fst c,
         eo_strategy_state = map_action_to_strategy (fst c) import_now peak_import,
         eo_expected_value = map_option (round_to 4) (snd c),
         eo_confidence = min (85/100) (quality_confidence quality),
         eo_reserve_soc_pct = eov_reserve soc (Some peak_import) (Some avg_import) \<rparr>)
       (first_max snd (eov_candidates cfg import_now export_now peak_import soc))"

definition compute_eov_decision ::
  "price_period option \<Rightarrow> price_period list \<Rightarrow> rat option \<Rightarrow> eov_config option \<Rightarrow> time \<Rightarrow> eov_decision option" where
  "compute_eov_decision current horizon soc config now = (case current of
     None \<Rightarrow> None
   | Some p \<Rightarrow> (case pd_import_sek p of
       None \<Rightarrow> None
     | Some import_now \<Rightarrow>
         (let cfg = or_else config default_eov_config;
              imports = horizon_imports horizon
          in eov_decide cfg (pd_quality p) import_now (num_or (pd_export_sek p) 0)
               (eov_peak horizon now cfg import_now)
               (if imports = [] then import_now else mean_of imports) soc)))"

definition estimate_shiftable_savings :: "price_period list \<Rightarrow> eov_config option \<Rightarrow> rat option" where
  "estimate_shiftable_savings horizon config =
     (let cfg = or_else config default_eov_config; imports = horizon_imports horizon in
      if length imports < 4 then None
      else let spread = mean_of imports - or_else (first_min id imports) 0 in
        Some (if spread \<le> 0 then 0 else round_to 2 (spread * ev_shiftable_kwh_per_day cfg)))"

subsection \<open>The strategy snapshot\<close>

record strategy_snapshot =
  ss_site_slug :: string
  ss_period_start :: time
  ss_market :: "rat option"
  ss_import :: "rat option"
  ss_export :: "rat option"
  ss_quality :: price_quality
  ss_battery_soc_pct :: "rat option"
  ss_strategy_state :: strategy_state
  ss_confidence :: rat
  ss_next_peak :: "(rat \<times> time) option"
  ss_mode :: optimization_mode
  ss_expected_saving_today :: "rat option"
  ss_reserve_soc_pct :: "rat option"
  ss_recommended_action :: "energy_action option"
  ss_eov_value :: "rat option option"
  ss_grid_surcharge :: "rat option"
  ss_fuse_headroom_a :: "rat option"
  ss_fuse_utilization_pct :: "rat option"
  ss_ev_recommendations :: "ev_charge_recommendation list"

definition heuristic_state :: "rat option \<Rightarrow> rat option \<Rightarrow> rat option \<Rightarrow> strategy_state \<times> rat" where
  "heuristic_state current_import peak_import export_price = (case current_import of
     None \<Rightarrow> (NORMAL_SELF_USE, 2/10)
   | Some c \<Rightarrow>
       if (case peak_import of None \<Rightarrow> False | Some p \<Rightarrow> p > c * (135/100)) then (PEAK_AHEAD, 55/100)
       else if (case export_price of None \<Rightarrow> False | Some e \<Rightarrow> e > c * (9/10)) then (NORMAL_SELF_USE, 45/100)
       else (NORMAL_SELF_USE, 4/10))"

definition heuristic_reserve :: "rat option \<Rightarrow> rat option \<Rightarrow> rat option" where
  "heuristic_reserve soc peak_import = map_option (\<lambda>soc. case peak_import of
     None \<Rightarrow> max 25 (soc - 15)
   | Some p \<Rightarrow> if p \<ge> 5/2 then 58 else if p \<ge> 18/10 then 45 else 30) soc"

text \<open>\<open>clock\<close> is the reading of \<open>datetime.now(UTC)\<close> inside \<open>_find_import_peak\<close>, not \<open>now\<close>.\<close>

fun peak_until :: "time \<Rightarrow> (rat \<times> time) option \<Rightarrow> price_period list \<Rightarrow> (rat \<times> time) option" where
  "peak_until stop best [] = best"
| "peak_until stop best (p # ps) =
     (if pd_start p > stop then best
      else case pd_import_sek p of
        None \<Rightarrow> peak_until stop best ps
      | Some price \<Rightarrow> peak_until stop (better_price best price (pd_start p)) ps)"

definition find_import_peak :: "price_period list \<Rightarrow> time \<Rightarrow> (rat \<times> time) option" where
  "find_import_peak periods clock = peak_until (clock + hours_us 24) None periods"

record site_view =
  sv_slug :: string
  sv_current :: "price_period option"
  sv_horizon :: "price_period list"
  sv_soc_pct :: "rat option"
  sv_mode :: optimization_mode
  sv_config :: "eov_config option"
  sv_peak_hint :: "peak_hint option"
  sv_ev :: "ev_charge_recommendation list"

text \<open>The state and confidence before the hints: of the decision, or of the heuristic.\<close>

definition base_state :: "site_view \<Rightarrow> time \<Rightarrow> time \<Rightarrow> strategy_state \<times> rat" where
  "base_state v now clock =
     (case compute_eov_decision (sv_current v) (sv_horizon v) (sv_soc_pct v) (sv_config v) now of
        Some d \<Rightarrow> (eo_strategy_state d, eo_confidence d)
      | None \<Rightarrow> heuristic_state (Option.bind (sv_current v) pd_import_sek)
          (map_option fst (find_import_peak (filter (\<lambda>p. pd_start p > now) (sv_horizon v)) clock))
          (Option.bind (sv_current v) pd_export_sek))"

definition hinted_state :: "site_view \<Rightarrow> strategy_state \<times> rat \<Rightarrow> strategy_state \<times> rat" where
  "hinted_state v sc =
     (if sv_peak_hint v \<noteq> None then (PEAK_PROTECTION, min (snd sc) (78/100))
      else if sv_ev v \<noteq> [] \<and> sv_mode v \<in> {MONITOR_ONLY, RECOMMEND}
        then (CHARGE_VEHICLE, min (max (snd sc) (72/100)) (82/100))
      else sc)"

definition build_strategy_snapshot :: "rat \<Rightarrow> site_view \<Rightarrow> time \<Rightarrow> time \<Rightarrow> strategy_snapshot" where
  "build_strategy_snapshot rate v now clock =
     (let current = sv_current v;
          peak = find_import_peak (filter (\<lambda>p. pd_start p > now) (sv_horizon v)) clock;
          eov = compute_eov_decision current (sv_horizon v) (sv_soc_pct v) (sv_config v) now;
          sc = hinted_state v (base_state v now clock)
      in \<lparr> ss_site_slug = sv_slug v,
           ss_period_start = (case current of None \<Rightarrow> current_period_start now | Some p \<Rightarrow> pd_start p),
           ss_market = Option.bind current pd_market_sek,
           ss_import = Option.bind current pd_import_sek,
           ss_export = Option.bind current pd_export_sek,
           ss_quality = (case current of None \<Rightarrow> PQ_MISSING | Some p \<Rightarrow> pd_quality p),
           ss_battery_soc_pct = sv_soc_pct v,
           ss_strategy_state = fst sc,
           ss_confidence = snd sc,
           ss_next_peak = peak,
           ss_mode = sv_mode v,
           ss_expected_saving_today = estimate_shiftable_savings (sv_horizon v) (sv_config v),
           ss_reserve_soc_pct = (case eov of Some d \<Rightarrow> eo_reserve_soc_pct d
             | None \<Rightarrow> heuristic_reserve (sv_soc_pct v) (map_option fst peak)),
           ss_recommended_action = map_option eo_action eov,
           ss_eov_value = map_option eo_expected_value eov,
           ss_grid_surcharge = Option.bind (tariff_breakdown_from_period rate current) tb_grid_surcharge,
           ss_fuse_headroom_a = map_option ph_fuse_headroom_a (sv_peak_hint v),
           ss_fuse_utilization_pct = map_option ph_utilization_pct (sv_peak_hint v),
           ss_ev_recommendations = sv_ev v \<rparr>)"

subsection \<open>The advice\<close>

datatype advice_headline = By_action energy_action | By_state strategy_state
datatype unavailable_reason = No_import_price | No_battery_soc

record battery_advice =
  ba_available :: bool
  ba_monitor_only :: bool
  ba_unavailable :: "unavailable_reason option"
  ba_action :: "energy_action option"
  ba_headline :: "advice_headline option"
  ba_confidence :: rat
  ba_soc_pct :: "rat option"
  ba_reserve_soc_pct :: "rat option"
  ba_expected_value :: "rat option option"
  ba_next_peak :: "(rat \<times> time) option"
  ba_mode :: optimization_mode
  ba_state :: strategy_state

definition build_battery_opportunity_advice :: "strategy_snapshot \<Rightarrow> battery_advice" where
  "build_battery_opportunity_advice s =
     (let base = \<lparr> ba_available = False, ba_monitor_only = True, ba_unavailable = None, ba_action = None,
        ba_headline = None, ba_confidence = ss_confidence s, ba_soc_pct = ss_battery_soc_pct s,
        ba_reserve_soc_pct = ss_reserve_soc_pct s, ba_expected_value = ss_eov_value s,
        ba_next_peak = ss_next_peak s, ba_mode = ss_mode s, ba_state = ss_strategy_state s \<rparr>
      in if ss_import s = None then base\<lparr> ba_unavailable := Some No_import_price \<rparr>
         else if ss_battery_soc_pct s = None then base\<lparr> ba_unavailable := Some No_battery_soc \<rparr>
         else base\<lparr> ba_available := True, ba_action := ss_recommended_action s,
           ba_headline := Some (case ss_recommended_action s of
             Some a \<Rightarrow> if ss_strategy_state s \<in> {PEAK_PROTECTION, CHARGE_VEHICLE} then By_state (ss_strategy_state s)
                       else By_action a
           | None \<Rightarrow> By_state (ss_strategy_state s)) \<rparr>)"

subsection \<open>The horizon of all loads\<close>

datatype load_type = Load_spa | Load_ev | Load_other
datatype horizon_headline = Nothing_planned | All_planned | Some_missing nat
datatype horizon_unavailable = No_loads | No_forecast

definition load_type_from_id :: "string \<Rightarrow> load_type" where
  "load_type_from_id load_id =
     (if load_id = ''spa_cleaning'' then Load_spa
      else if starts_with load_id ''ev_charger_'' then Load_ev else Load_other)"

record load_recommendation =
  lr_load_id :: string
  lr_name :: string
  lr_load_type :: load_type
  lr_priority :: int
  lr_strategy :: load_strategy
  lr_window_start :: "time option"
  lr_window_end :: "time option"
  lr_energy_kwh :: "rat option"
  lr_cost_sek :: "rat option"
  lr_source :: "energy_source option"
  lr_savings_sek :: "rat option"
  lr_reason_sv :: string

record horizon_snapshot =
  hs_available :: bool
  hs_monitor_only :: bool
  hs_unavailable :: "horizon_unavailable option"
  hs_horizon_hours :: int
  hs_horizon_blocks :: nat
  hs_generated_at :: time
  hs_total_savings :: "rat option"
  hs_headline :: "horizon_headline option"
  hs_loads :: "load_recommendation list"

definition recommendation_from_result :: "orchestrated_plan \<Rightarrow> load_recommendation" where
  "recommendation_from_result r =
     (let window = head_opt (lp_windows (op_plan r)) in
      \<lparr> lr_load_id = op_load_id r, lr_name = op_name r, lr_load_type = load_type_from_id (op_load_id r),
        lr_priority = op_priority r, lr_strategy = lp_strategy (op_plan r),
        lr_window_start = map_option pw_start window, lr_window_end = map_option pw_end window,
        lr_energy_kwh = map_option pw_expected_energy_kwh window,
        lr_cost_sek = map_option pw_expected_cost_sek window,
        lr_source = map_option pw_expected_energy_source window,
        lr_savings_sek = lp_savings_sek (op_plan r), lr_reason_sv = lp_reason_sv (op_plan r) \<rparr>)"

definition unavailable_horizon :: "horizon_unavailable \<Rightarrow> time \<Rightarrow> int \<Rightarrow> horizon_snapshot" where
  "unavailable_horizon why now hours =
     \<lparr> hs_available = False, hs_monitor_only = True, hs_unavailable = Some why, hs_horizon_hours = hours,
       hs_horizon_blocks = 0, hs_generated_at = now, hs_total_savings = None, hs_headline = None, hs_loads = [] \<rparr>"

definition build_horizon_optimizer_snapshot ::
  "orchestrated_spec list \<Rightarrow> horizon_block list \<Rightarrow> orchestrated_plan list \<Rightarrow> time \<Rightarrow> int \<Rightarrow> horizon_snapshot" where
  "build_horizon_optimizer_snapshot specs horizon results now hours =
     (if specs = [] then unavailable_horizon No_loads now 48
      else if horizon = [] then unavailable_horizon No_forecast now hours
      else
        (let loads = map recommendation_from_result results;
             savings = List.map_filter lr_savings_sek loads;
             planned = length (filter (\<lambda>l. lr_window_start l \<noteq> None) loads);
             missing = length loads - planned
         in \<lparr> hs_available = True, hs_monitor_only = True, hs_unavailable = None, hs_horizon_hours = hours,
              hs_horizon_blocks = length horizon, hs_generated_at = now,
              hs_total_savings = (if savings = [] then None else Some (round_to 2 (sum_list savings))),
              hs_headline = Some (if planned = 0 then Nothing_planned
                else if missing = 0 then All_planned else Some_missing missing),
              hs_loads = loads \<rparr>))"

subsection \<open>Lemmas\<close>

lemma first_max_from_earlier:
  "first_max_from f b xs = x \<Longrightarrow> x = b \<or> f b < f x"
proof (induction xs arbitrary: b)
  case (Cons y ys)
  show ?case
  proof (cases "f b < f y")
    case True
    then have "x = y \<or> f y < f x" using Cons by simp
    with True show ?thesis by (metis order.strict_trans)
  next
    case False
    then show ?thesis using Cons by simp
  qed
qed simp

text \<open>The first of the maximal elements: a head that is maximal is chosen.\<close>

lemma first_max_head: "first_max f (b # xs) = Some x \<Longrightarrow> x = b \<or> f b < f x"
  using first_max_from_earlier [of f b xs x] by simp

lemma eov_candidates_ne: "eov_candidates cfg i e peak soc \<noteq> []"
  by (cases soc) (auto simp: eov_candidates_def Let_def update_nonempty)

lemma eov_candidates_shape:
  "\<exists>rest. eov_candidates cfg i e peak soc = (USE_NOW, Some i) # rest"
  by (cases soc) (simp_all add: eov_candidates_def Let_def)

lemma eov_candidate_values:
  "(WAIT, v) \<in> set (eov_candidates cfg i e peak soc) \<Longrightarrow> v = Some 0"
  "(DISCHARGE_BATTERY, v) \<in> set (eov_candidates cfg i e peak soc) \<Longrightarrow>
     v = None \<or> v = Some i \<or> v = Some (i - e)"
  "(EXPORT_TO_GRID, v) \<in> set (eov_candidates cfg i e peak soc) \<Longrightarrow> v = Some e"
  by (cases soc; simp add: eov_candidates_def Let_def split: if_splits)+

lemma eov_decide_total: "\<exists>d. eov_decide cfg q i e peak avg soc = Some d"
  using eov_candidates_ne first_max_laws(1) [of snd "eov_candidates cfg i e peak soc"]
  by (auto simp: eov_decide_def)

lemma eov_decide_choice:
  assumes "eov_decide cfg q i e peak avg soc = Some d"
  obtains c where "first_max snd (eov_candidates cfg i e peak soc) = Some c" "eo_action d = fst c"
    "eo_expected_value d = map_option (round_to 4) (snd c)"
  using assms by (auto simp: eov_decide_def)

text \<open>The choice never loses to another candidate; ties go to using the energy now.\<close>

lemma choice_beats:
  assumes c: "first_max snd (eov_candidates cfg i e peak soc) = Some c"
  shows "c \<in> set (eov_candidates cfg i e peak soc)"
    and "x \<in> set (eov_candidates cfg i e peak soc) \<Longrightarrow> snd x \<le> snd c"
    and "fst c = USE_NOW \<or> Some i < snd c"
proof -
  show "c \<in> set (eov_candidates cfg i e peak soc)" by (rule first_max_laws(2) [OF c])
  show "x \<in> set (eov_candidates cfg i e peak soc) \<Longrightarrow> snd x \<le> snd c"
    using first_max_laws(3) [OF c, of x] by (simp add: not_less)
  obtain rest where rest: "eov_candidates cfg i e peak soc = (USE_NOW, Some i) # rest"
    using eov_candidates_shape by blast
  show "fst c = USE_NOW \<or> Some i < snd c"
    using first_max_head [OF c [unfolded rest]] by auto
qed

lemma never_discharges:
  assumes c: "first_max snd (eov_candidates cfg i e peak soc) = Some c" and e: "0 \<le> e"
  shows "fst c \<noteq> DISCHARGE_BATTERY"
proof
  assume d: "fst c = DISCHARGE_BATTERY"
  then have "(DISCHARGE_BATTERY, snd c) \<in> set (eov_candidates cfg i e peak soc)"
    using choice_beats(1) [OF c] by (metis prod.collapse)
  from eov_candidate_values(2) [OF this] have "snd c \<le> Some i" using e by auto
  moreover have "Some i < snd c" using choice_beats(3) [OF c] d by simp
  ultimately show False by simp
qed

lemma never_waits:
  assumes c: "first_max snd (eov_candidates cfg i e peak soc) = Some c" and i: "0 \<le> i"
  shows "fst c \<noteq> WAIT"
proof
  assume w: "fst c = WAIT"
  then have "(WAIT, snd c) \<in> set (eov_candidates cfg i e peak soc)"
    using choice_beats(1) [OF c] by (metis prod.collapse)
  then have "snd c = Some 0" by (rule eov_candidate_values(1))
  moreover have "Some i < snd c" using choice_beats(3) [OF c] w by simp
  ultimately show False using i by simp
qed

lemma eov_reserve_range: "eov_reserve soc peak avg = Some r \<Longrightarrow> 25 \<le> r \<and> r \<le> 65"
  unfolding eov_reserve_def Let_def
  by (cases soc; cases peak; cases avg) (auto split: if_splits)

lemma heuristic_reserve_range: "heuristic_reserve soc peak = Some r \<Longrightarrow> 25 \<le> r"
  unfolding heuristic_reserve_def by (cases soc; cases peak) (auto split: if_splits)

lemma compute_eov_some:
  "compute_eov_decision current horizon soc config now = Some d \<longleftrightarrow>
     (\<exists>p i. current = Some p \<and> pd_import_sek p = Some i
        \<and> eov_decide (or_else config default_eov_config) (pd_quality p) i (num_or (pd_export_sek p) 0)
            (eov_peak horizon now (or_else config default_eov_config) i)
            (if horizon_imports horizon = [] then i else mean_of (horizon_imports horizon)) soc = Some d)"
  by (auto simp: compute_eov_decision_def Let_def split: option.splits)

text \<open>On an ascending horizon the loop with its break finds a highest price of the window.\<close>

lemma better_price_some: "better_price best v t \<noteq> None"
  by (cases best) (simp_all add: better_price_def)

lemma import_peak_none:
  "import_peak_from after stop best ps = None \<Longrightarrow> best = None"
proof (induction after stop best ps rule: import_peak_from.induct)
  case (2 after stop best p ps)
  then show ?case using better_price_some by (auto split: if_splits option.splits)
qed simp

definition priced_in :: "time \<Rightarrow> time \<Rightarrow> price_period list \<Rightarrow> price_period list" where
  "priced_in after stop ps = filter (\<lambda>p. after < pd_start p \<and> pd_start p \<le> stop \<and> pd_import_sek p \<noteq> None) ps"

lemma import_peak_is_fold:
  "sorted_wrt (\<lambda>p q. pd_start p \<le> pd_start q) ps \<Longrightarrow>
   import_peak_from after stop best ps =
     foldl (\<lambda>b p. better_price b (the (pd_import_sek p)) (pd_start p)) best (priced_in after stop ps)"
proof (induction after stop best ps rule: import_peak_from.induct)
  case (2 after stop best p ps)
  show ?case
  proof (cases "pd_start p > stop")
    case True
    then have "priced_in after stop (p # ps) = []" using 2 by (force simp: priced_in_def filter_empty_conv)
    then show ?thesis using 2 True by (simp add: priced_in_def)
  next
    case False
    then show ?thesis using 2 by (auto simp: priced_in_def split: option.splits)
  qed
qed (simp add: priced_in_def)

lemma better_fold_upper:
  "foldl (\<lambda>b p. better_price b (f p) (g p)) best ps = Some r \<Longrightarrow>
     (\<forall>p \<in> set ps. f p \<le> fst r) \<and> (\<forall>b. best = Some b \<longrightarrow> fst b \<le> fst r)"
proof (induction ps arbitrary: best)
  case (Cons p ps)
  have "\<exists>b. better_price best (f p) (g p) = Some b \<and> f p \<le> fst b \<and> (\<forall>c. best = Some c \<longrightarrow> fst c \<le> fst b)"
    by (cases best) (auto simp: better_price_def)
  then obtain b where b: "better_price best (f p) (g p) = Some b" "f p \<le> fst b"
      "\<forall>c. best = Some c \<longrightarrow> fst c \<le> fst b" by blast
  then have "(\<forall>q \<in> set ps. f q \<le> fst r) \<and> fst b \<le> fst r"
    using Cons.IH [of "Some b"] Cons.prems by simp
  with b show ?case by force
qed simp

lemma better_price_source: "better_price best v t = Some r \<Longrightarrow> best = Some r \<or> r = (v, t)"
  by (cases best) (auto simp: better_price_def split: if_splits)

lemma better_fold_source:
  "foldl (\<lambda>b p. better_price b (f p) (g p)) best ps = Some r \<Longrightarrow>
     best = Some r \<or> (\<exists>p \<in> set ps. r = (f p, g p))"
proof (induction ps arbitrary: best)
  case (Cons p ps)
  then have "foldl (\<lambda>b p. better_price b (f p) (g p)) (better_price best (f p) (g p)) ps = Some r" by simp
  from Cons.IH [OF this] show ?case using better_price_source by fastforce
qed simp

lemma future_peak_spec:
  assumes "sorted_wrt (\<lambda>p q. pd_start p \<le> pd_start q) ps"
    and r: "future_import_stats ps now h = Some r"
  shows "(\<exists>p \<in> set ps. now < pd_start p \<and> pd_start p \<le> now + hours_us h
             \<and> pd_import_sek p = Some (fst r) \<and> pd_start p = snd r)"
    and "p \<in> set ps \<Longrightarrow> now < pd_start p \<Longrightarrow> pd_start p \<le> now + hours_us h \<Longrightarrow>
           pd_import_sek p = Some v \<Longrightarrow> v \<le> fst r"
proof -
  let ?xs = "priced_in now (now + hours_us h) ps"
  have fold: "foldl (\<lambda>b p. better_price b (the (pd_import_sek p)) (pd_start p)) None ?xs = Some r"
    using r import_peak_is_fold [OF assms(1)] by (simp add: future_import_stats_def)
  from better_fold_source [OF fold] have "\<exists>p \<in> set ?xs. r = (the (pd_import_sek p), pd_start p)"
    by auto
  then show "\<exists>p \<in> set ps. now < pd_start p \<and> pd_start p \<le> now + hours_us h
      \<and> pd_import_sek p = Some (fst r) \<and> pd_start p = snd r"
    by (auto simp: priced_in_def)
  show "p \<in> set ps \<Longrightarrow> now < pd_start p \<Longrightarrow> pd_start p \<le> now + hours_us h \<Longrightarrow>
      pd_import_sek p = Some v \<Longrightarrow> v \<le> fst r"
    using better_fold_upper [OF fold] by (force simp: priced_in_def)
qed

subsection \<open>What the recommendation promises\<close>

text \<open>Whenever the current period has an import price there is a recommendation. Its value is
  the rounded value of a candidate that no candidate beats; with an export price that is not
  negative it is never to discharge the battery, and with an import price that is not negative it
  is never to wait; and the reserve it recommends lies between 25 and 65 per cent.\<close>

theorem eov_recommends_best:
  assumes "current = Some p" and "pd_import_sek p = Some i"
  shows "\<exists>d v. compute_eov_decision current horizon soc config now = Some d
    \<and> (let cs = eov_candidates (or_else config default_eov_config) i (num_or (pd_export_sek p) 0)
          (eov_peak horizon now (or_else config default_eov_config) i) soc
       in (eo_action d, v) \<in> set cs \<and> eo_expected_value d = map_option (round_to 4) v
          \<and> (\<forall>x \<in> set cs. snd x \<le> v))
    \<and> (0 \<le> num_or (pd_export_sek p) 0 \<longrightarrow> eo_action d \<noteq> DISCHARGE_BATTERY)
    \<and> (0 \<le> i \<longrightarrow> eo_action d \<noteq> WAIT)
    \<and> (\<forall>r. eo_reserve_soc_pct d = Some r \<longrightarrow> 25 \<le> r \<and> r \<le> 65)"
proof -
  let ?cfg = "or_else config default_eov_config"
  let ?e = "num_or (pd_export_sek p) 0"
  let ?avg = "if horizon_imports horizon = [] then i else mean_of (horizon_imports horizon)"
  obtain d where dec: "eov_decide ?cfg (pd_quality p) i ?e (eov_peak horizon now ?cfg i) ?avg soc = Some d"
    using eov_decide_total by blast
  then obtain c where c: "first_max snd (eov_candidates ?cfg i ?e (eov_peak horizon now ?cfg i) soc) = Some c"
      "eo_action d = fst c" "eo_expected_value d = map_option (round_to 4) (snd c)"
    by (rule eov_decide_choice)
  have reserve: "\<forall>r. eo_reserve_soc_pct d = Some r \<longrightarrow> 25 \<le> r \<and> r \<le> 65"
    using dec eov_reserve_range by (auto simp: eov_decide_def)
  have some: "compute_eov_decision current horizon soc config now = Some d"
    using assms dec compute_eov_some by blast
  show ?thesis
    using some c choice_beats(1,2) [OF c(1)] never_discharges [OF c(1)] never_waits [OF c(1)] reserve
    by (intro exI [of _ d] exI [of _ "snd c"]) (simp add: Let_def)
qed

definition sample_period :: "time \<Rightarrow> rat \<Rightarrow> price_period" where
  "sample_period t v = \<lparr> pd_start = t, pd_end = t + block_us, pd_site_id = 1, pd_area = SE4, pd_market_sek = Some v,
     pd_import_sek = Some v, pd_export_sek = Some (v / 2), pd_source = PS_HEARTBEAT, pd_quality = PQ_REAL,
     pd_is_estimated = False, pd_components = [] \<rparr>"

theorem eov_recommends_best_witness:
  "\<exists>d v. compute_eov_decision (Some (sample_period 0 2)) [sample_period block_us 3] (Some 50) None 0 = Some d
    \<and> (let cs = eov_candidates (or_else None default_eov_config) 2 (num_or (pd_export_sek (sample_period 0 2)) 0)
          (eov_peak [sample_period block_us 3] 0 (or_else None default_eov_config) 2) (Some 50)
       in (eo_action d, v) \<in> set cs \<and> eo_expected_value d = map_option (round_to 4) v
          \<and> (\<forall>x \<in> set cs. snd x \<le> v))
    \<and> eo_action d \<noteq> DISCHARGE_BATTERY \<and> eo_action d \<noteq> WAIT"
  using eov_recommends_best [of "Some (sample_period 0 2)" "sample_period 0 2" 2 "[sample_period block_us 3]" "Some 50" None 0]
  by (simp add: sample_period_def num_or_def Let_def) blast

end
