(* ===== verification/Price_Runs.thy ===== *)
theory Price_Runs
  imports Energy_Opportunity
begin

section \<open>Normalized days and charging windows\<close>

text \<open>
  What the price engine promises of the periods it writes: one row for each quarter that a
  provider point covers, ascending and aligned, of the best quality offered; layers that are
  merged without inventing a quality; and a charging window that no other window undercuts.
  The dictionaries keyed by the start of a row share one invariant.
\<close>

subsection \<open>Rows kept by their start\<close>

definition rows_ok :: "(time \<times> price_period) list \<Rightarrow> bool" where
  "rows_ok d \<longleftrightarrow> distinct (map fst d) \<and> (\<forall>x \<in> set d. pd_start (snd x) = fst x)"

lemma rows_ok_empty: "rows_ok []"
  by (simp add: rows_ok_def)

lemma rows_ok_update: "rows_ok d \<Longrightarrow> pd_start row = t \<Longrightarrow> rows_ok (AList.update t row d)"
  unfolding rows_ok_def by (auto simp: distinct_keys_update dest!: set_vals_update)

lemma rows_ok_lookup: "rows_ok d \<Longrightarrow> map_of d t = Some row \<Longrightarrow> pd_start row = t"
  by (auto simp: rows_ok_def dest: map_of_SomeD)

lemma rows_ok_values:
  assumes "rows_ok d"
  shows "row \<in> set (map snd d) \<longleftrightarrow> map_of d (pd_start row) = Some row"
  using assms by (auto simp: rows_ok_def dest: map_of_SomeD intro: rev_image_eqI)

lemma sorted_rows_ok:
  assumes "rows_ok d"
  shows "sorted_wrt (<) (map pd_start (sorted_rows d))"
    and "row \<in> set (sorted_rows d) \<longleftrightarrow> map_of d (pd_start row) = Some row"
proof -
  have "map pd_start (map snd d) = map fst d" using assms by (simp add: rows_ok_def)
  then have "distinct (map pd_start (map snd d))" using assms unfolding rows_ok_def by metis
  then have "distinct (map pd_start (sorted_rows d))"
    unfolding sorted_rows_def by (metis distinct_map distinct_sort set_sort)
  then show "sorted_wrt (<) (map pd_start (sorted_rows d))"
    by (simp add: sorted_rows_def strict_sorted_iff)
  show "row \<in> set (sorted_rows d) \<longleftrightarrow> map_of d (pd_start row) = Some row"
    using rows_ok_values [OF assms, of row] by (simp add: sorted_rows_def)
qed

lemma put_row_ok: "rows_ok d \<Longrightarrow> rows_ok (put_row d row)"
  by (auto simp: put_row_def rows_ok_update split: option.splits)

text \<open>One row in the dictionary: it comes from the rows put in, and none of them is better.\<close>

definition best_of :: "price_period list \<Rightarrow> (time \<times> price_period) list \<Rightarrow> bool" where
  "best_of rows d \<longleftrightarrow> (\<forall>t. (map_of d t = None \<longleftrightarrow> t \<notin> pd_start ` set rows)
     \<and> (\<forall>row. map_of d t = Some row \<longrightarrow> row \<in> set rows
          \<and> (\<forall>r \<in> set rows. pd_start r = t \<longrightarrow> quality_rank (pd_quality r) \<le> quality_rank (pd_quality row))))"

lemma put_row_lookup:
  "map_of (put_row d row) = (case map_of d (pd_start row) of
     None \<Rightarrow> (map_of d)(pd_start row \<mapsto> row)
   | Some old \<Rightarrow> if quality_rank (pd_quality old) \<le> quality_rank (pd_quality row)
       then (map_of d)(pd_start row \<mapsto> row) else map_of d)"
  by (simp add: put_row_def split: option.splits)

lemma best_of_assign:
  assumes b: "best_of rows d" and upd: "map_of d' = (map_of d)(pd_start row \<mapsto> row)"
    and top: "\<And>r. r \<in> set rows \<Longrightarrow> pd_start r = pd_start row \<Longrightarrow> quality_rank (pd_quality r) \<le> quality_rank (pd_quality row)"
  shows "best_of (rows @ [row]) d'"
  unfolding best_of_def
proof
  fix t
  show "(map_of d' t = None \<longleftrightarrow> t \<notin> pd_start ` set (rows @ [row])) \<and> (\<forall>r. map_of d' t = Some r \<longrightarrow> r \<in> set (rows @ [row])
    \<and> (\<forall>q \<in> set (rows @ [row]). pd_start q = t \<longrightarrow> quality_rank (pd_quality q) \<le> quality_rank (pd_quality r)))"
  proof (cases "t = pd_start row")
    case True
    then show ?thesis using upd top by auto
  next
    case False
    then have same: "map_of d' t = map_of d t" using upd by simp
    have "(map_of d t = None \<longleftrightarrow> t \<notin> pd_start ` set rows) \<and> (\<forall>r. map_of d t = Some r \<longrightarrow> r \<in> set rows
      \<and> (\<forall>q \<in> set rows. pd_start q = t \<longrightarrow> quality_rank (pd_quality q) \<le> quality_rank (pd_quality r)))"
      using b unfolding best_of_def by blast
    then show ?thesis using False unfolding same by simp
  qed
qed

lemma best_of_keep:
  assumes b: "best_of rows d" and same: "map_of d' = map_of d" and known: "map_of d (pd_start row) = Some old"
    and less: "quality_rank (pd_quality row) \<le> quality_rank (pd_quality old)"
  shows "best_of (rows @ [row]) d'"
  unfolding best_of_def
proof
  fix t
  have ok: "(map_of d t = None \<longleftrightarrow> t \<notin> pd_start ` set rows) \<and> (\<forall>r. map_of d t = Some r \<longrightarrow> r \<in> set rows
      \<and> (\<forall>q \<in> set rows. pd_start q = t \<longrightarrow> quality_rank (pd_quality q) \<le> quality_rank (pd_quality r)))"
    using b unfolding best_of_def by blast
  show "(map_of d' t = None \<longleftrightarrow> t \<notin> pd_start ` set (rows @ [row])) \<and> (\<forall>r. map_of d' t = Some r \<longrightarrow> r \<in> set (rows @ [row])
    \<and> (\<forall>q \<in> set (rows @ [row]). pd_start q = t \<longrightarrow> quality_rank (pd_quality q) \<le> quality_rank (pd_quality r)))"
    using ok known less unfolding same by (cases "t = pd_start row") simp_all
qed

lemma put_row_best:
  assumes "best_of rows d"
  shows "best_of (rows @ [row]) (put_row d row)"
proof (cases "map_of d (pd_start row)")
  case None
  then have "pd_start row \<notin> pd_start ` set rows" using assms unfolding best_of_def by blast
  then have "False" if "r \<in> set rows" "pd_start r = pd_start row" for r using that by (metis image_eqI)
  then show ?thesis using None by (intro best_of_assign [OF assms]) (simp add: put_row_lookup, blast)
next
  case (Some old)
  have old: "r \<in> set rows \<Longrightarrow> pd_start r = pd_start row \<Longrightarrow> quality_rank (pd_quality r) \<le> quality_rank (pd_quality old)" for r
    using assms Some unfolding best_of_def by blast
  show ?thesis
  proof (cases "quality_rank (pd_quality old) \<le> quality_rank (pd_quality row)")
    case True
    then show ?thesis using Some old by (intro best_of_assign [OF assms]) (simp_all add: put_row_lookup, metis order.trans)
  next
    case False
    then show ?thesis using Some by (intro best_of_keep [OF assms _ Some]) (simp_all add: put_row_lookup)
  qed
qed

lemma put_rows: "rows_ok (foldl put_row [] rows) \<and> best_of rows (foldl put_row [] rows)"
proof (induction rows rule: rev_induct)
  case Nil
  then show ?case by (simp add: rows_ok_empty best_of_def)
next
  case (snoc row rows)
  then show ?case by (simp add: put_row_ok put_row_best)
qed

subsection \<open>The normalizer\<close>

lemma hour_key_aligned: "hour_key t mod block_us = 0"
proof -
  have "hour_key t = (t div (3600 * us_per_s)) * (3600 * us_per_s)"
    by (simp add: hour_key_def minus_mod_eq_div_mult hours_us_def)
  also have "\<dots> = ((t div (3600 * us_per_s)) * 4) * block_us"
    by (simp add: block_us_def us_per_s_def)
  finally show ?thesis by simp
qed

lemma period_start_aligned: "align_period_start t mod block_us = 0"
  by (simp add: align_period_start_def block_us_def us_per_s_def minus_mod_eq_div_mult)

lemma point_starts_aligned: "t \<in> set (point_starts p) \<Longrightarrow> t mod block_us = 0"
  using hour_key_aligned [of "rp_timestamp p"]
  by (auto simp: point_starts_def period_start_aligned split: if_splits)

definition covering_rows ::
  "rat \<Rightarrow> (time \<Rightarrow> string) \<Rightarrow> nat \<Rightarrow> price_area \<Rightarrow> raw_price_point list \<Rightarrow> price_period list" where
  "covering_rows rate to_iso site_id area points =
     concat (map (\<lambda>p. map (period_row rate to_iso site_id area p) (point_starts p)) points)"

lemma covering_rows_in:
  "row \<in> set (covering_rows rate to_iso site_id area points) \<longleftrightarrow>
     (\<exists>p \<in> set points. \<exists>t \<in> set (point_starts p). row = period_row rate to_iso site_id area p t)"
  by (auto simp: covering_rows_def)

lemma period_row_simps [simp]:
  "pd_start (period_row rate to_iso site_id area p t) = t"
  "pd_end (period_row rate to_iso site_id area p t) = t + block_us"
  "pd_quality (period_row rate to_iso site_id area p t) = (if is_native p then PQ_REAL else PQ_ESTIMATED)"
  by (simp_all add: period_row_def period_end_def)

lemma best_ofD:
  assumes "best_of rows d"
  shows "map_of d t = Some row \<Longrightarrow> row \<in> set rows"
    and "map_of d t = Some row \<Longrightarrow> r \<in> set rows \<Longrightarrow> pd_start r = t \<Longrightarrow> quality_rank (pd_quality r) \<le> quality_rank (pd_quality row)"
    and "t \<in> pd_start ` set rows \<Longrightarrow> map_of d t \<noteq> None"
  using assms unfolding best_of_def by blast+

text \<open>The rows of a normalization are the best of the rows that cover their start.\<close>

lemma normalized_rows:
  fixes rate to_iso site_id area points
  defines "rows \<equiv> covering_rows rate to_iso site_id area points"
  defines "d \<equiv> foldl put_row [] rows" and "ps \<equiv> normalize_to_periods rate to_iso site_id area points"
  shows "r \<in> set ps \<longleftrightarrow> map_of d (pd_start r) = Some r" "rows_ok d" "best_of rows d" "sorted_wrt (<) (map pd_start ps)"
proof -
  have ps: "ps = sorted_rows d" by (simp add: ps_def d_def rows_def normalize_to_periods_def covering_rows_def)
  show "rows_ok d" "best_of rows d" unfolding d_def using put_rows by auto
  then show "r \<in> set ps \<longleftrightarrow> map_of d (pd_start r) = Some r" "sorted_wrt (<) (map pd_start ps)"
    using sorted_rows_ok by (simp_all add: ps)
qed

lemma normalized_source:
  assumes "r \<in> set (normalize_to_periods rate to_iso site_id area points)"
  shows "\<exists>p \<in> set points. pd_start r \<in> set (point_starts p) \<and> r = period_row rate to_iso site_id area p (pd_start r)"
proof -
  have "r \<in> set (covering_rows rate to_iso site_id area points)"
    by (rule best_ofD(1) [OF normalized_rows(3) normalized_rows(1) [THEN iffD1, OF assms]])
  then obtain p u where p: "p \<in> set points" "u \<in> set (point_starts p)" "r = period_row rate to_iso site_id area p u"
    unfolding covering_rows_in by blast
  then have "pd_start r = u" by simp
  then show ?thesis using p by blast
qed

lemma normalized_starts:
  "pd_start ` set (normalize_to_periods rate to_iso site_id area points) = (\<Union>p \<in> set points. set (point_starts p))"
proof
  let ?ps = "normalize_to_periods rate to_iso site_id area points" and ?rows = "covering_rows rate to_iso site_id area points"
  show "pd_start ` set ?ps \<subseteq> (\<Union>p \<in> set points. set (point_starts p))"
  proof (rule image_subsetI)
    fix r assume "r \<in> set ?ps"
    from normalized_source [OF this] show "pd_start r \<in> (\<Union>p \<in> set points. set (point_starts p))" by blast
  qed
  show "(\<Union>p \<in> set points. set (point_starts p)) \<subseteq> pd_start ` set ?ps"
  proof
    fix t assume "t \<in> (\<Union>p \<in> set points. set (point_starts p))"
    then obtain p where p: "p \<in> set points" "t \<in> set (point_starts p)" by blast
    then have "period_row rate to_iso site_id area p t \<in> set ?rows" unfolding covering_rows_in by blast
    then have "t \<in> pd_start ` set ?rows" by (metis image_eqI period_row_simps(1))
    then have "map_of (foldl put_row [] ?rows) t \<noteq> None" using best_ofD(3) [OF normalized_rows(3)] by blast
    then obtain r where r: "map_of (foldl put_row [] ?rows) t = Some r" by blast
    then have s: "pd_start r = t" by (rule rows_ok_lookup [OF normalized_rows(2)])
    have "r \<in> set ?ps" by (rule normalized_rows(1) [THEN iffD2]) (simp add: r s)
    then show "t \<in> pd_start ` set ?ps" using s by blast
  qed
qed

lemma normalized_real:
  assumes r: "r \<in> set (normalize_to_periods rate to_iso site_id area points)"
  shows "pd_quality r = PQ_REAL \<longleftrightarrow> (\<exists>p \<in> set points. is_native p \<and> pd_start r \<in> set (point_starts p))"
proof
  assume "pd_quality r = PQ_REAL"
  moreover obtain p where p: "p \<in> set points" "pd_start r \<in> set (point_starts p)"
      "r = period_row rate to_iso site_id area p (pd_start r)" using normalized_source [OF r] by blast
  ultimately have "is_native p" by (metis period_row_simps(3) price_quality.distinct(3))
  then show "\<exists>p \<in> set points. is_native p \<and> pd_start r \<in> set (point_starts p)" using p by blast
next
  assume "\<exists>p \<in> set points. is_native p \<and> pd_start r \<in> set (point_starts p)"
  then obtain p where p: "p \<in> set points" "is_native p" "pd_start r \<in> set (point_starts p)" by blast
  then have "period_row rate to_iso site_id area p (pd_start r) \<in> set (covering_rows rate to_iso site_id area points)"
    unfolding covering_rows_in by blast
  from best_ofD(2) [OF normalized_rows(3) normalized_rows(1) [THEN iffD1, OF r] this]
  have "quality_rank PQ_REAL \<le> quality_rank (pd_quality r)" using p(2) by simp
  then show "pd_quality r = PQ_REAL" by (cases "pd_quality r") (simp_all add: quality_rank_def)
qed

text \<open>C32. Normalizing any provider points gives strictly ascending quarters, each aligned and fifteen
  minutes long; exactly the quarters some point covers; each row is that of a point covering it, and
  it is of real quality as soon as one point covering it has the native resolution.\<close>

theorem normalized_periods:
  "(let ps = normalize_to_periods rate to_iso site_id area points in
     sorted_wrt (<) (map pd_start ps)
     \<and> (\<forall>r \<in> set ps. pd_start r mod block_us = 0 \<and> pd_end r = pd_start r + block_us)
     \<and> pd_start ` set ps = (\<Union>p \<in> set points. set (point_starts p))
     \<and> (\<forall>r \<in> set ps. \<exists>p \<in> set points. pd_start r \<in> set (point_starts p)
          \<and> r = period_row rate to_iso site_id area p (pd_start r))
     \<and> (\<forall>r \<in> set ps. pd_quality r = PQ_REAL \<longleftrightarrow>
          (\<exists>p \<in> set points. is_native p \<and> pd_start r \<in> set (point_starts p))))"
proof -
  let ?ps = "normalize_to_periods rate to_iso site_id area points"
  have "pd_start r mod block_us = 0 \<and> pd_end r = pd_start r + block_us" if "r \<in> set ?ps" for r
    using normalized_source [OF that] point_starts_aligned by (metis period_row_simps(2))
  then have "\<forall>r \<in> set ?ps. pd_start r mod block_us = 0 \<and> pd_end r = pd_start r + block_us" by blast
  moreover have "\<forall>r \<in> set ?ps. \<exists>p \<in> set points. pd_start r \<in> set (point_starts p)
      \<and> r = period_row rate to_iso site_id area p (pd_start r)" by (intro ballI) (rule normalized_source)
  moreover have "\<forall>r \<in> set ?ps. pd_quality r = PQ_REAL \<longleftrightarrow>
      (\<exists>p \<in> set points. is_native p \<and> pd_start r \<in> set (point_starts p))" by (intro ballI) (rule normalized_real)
  ultimately show ?thesis unfolding Let_def by (intro conjI normalized_rows(4) normalized_starts)
qed

definition sample_point :: "int \<Rightarrow> raw_price_point" where
  "sample_point minutes = \<lparr> rp_timestamp = 0, rp_market_eur = Some (1/10), rp_import_eur = None, rp_export_eur = None,
     rp_native_minutes = minutes, rp_components = [] \<rparr>"

lemma sample_starts:
  "point_starts (sample_point 15) = [0]" "point_starts (sample_point 60) = [0, block_us, 2 * block_us, 3 * block_us]"
  by code_simp+

theorem normalized_periods_witness:
  "pd_start ` set (normalize_to_periods 11 (\<lambda>t. []) 1 SE4 [sample_point 15, sample_point 60])
     = {0, block_us, 2 * block_us, 3 * block_us}"
proof -
  have "pd_start ` set (normalize_to_periods 11 (\<lambda>t. []) 1 SE4 [sample_point 15, sample_point 60])
      = (\<Union>p \<in> set [sample_point 15, sample_point 60]. set (point_starts p))"
    using normalized_periods [of 11 "\<lambda>t. []" 1 SE4 "[sample_point 15, sample_point 60]"] unfolding Let_def by (elim conjE)
  then show ?thesis by (simp add: sample_starts insert_commute)
qed


subsection \<open>Merged layers\<close>

text \<open>Both kinds of layer keep the start of the row they are laid on.\<close>

lemma layer_simps [simp]:
  "pd_start (with_import old l) = pd_start old" "pd_start (with_export old l) = pd_start old"
  "pd_quality (with_import old l) = merge_quality (pd_quality old) (pd_quality l)"
  "pd_quality (with_export old l) = merge_quality (pd_quality old) (pd_quality l)"
  "pd_market_sek (with_import old l) = pd_market_sek old" "pd_market_sek (with_export old l) = pd_market_sek old"
  by (simp_all add: with_import_def with_export_def)

lemma merge_quality_rank:
  "quality_rank (merge_quality a b) = min (quality_rank a) (quality_rank b)"
  "merge_quality a b = a \<or> merge_quality a b = b"
  by (auto simp: merge_quality_def)

text \<open>The weakest quality among the rows laid on a start, and nothing but those starts.\<close>

definition weakest_of :: "price_period list \<Rightarrow> (time \<times> price_period) list \<Rightarrow> bool" where
  "weakest_of rows d \<longleftrightarrow> (\<forall>t. (map_of d t = None \<longleftrightarrow> t \<notin> pd_start ` set rows)
     \<and> (\<forall>row. map_of d t = Some row \<longrightarrow> (\<exists>q \<in> set rows. pd_start q = t \<and> pd_quality q = pd_quality row)
          \<and> (\<forall>q \<in> set rows. pd_start q = t \<longrightarrow> quality_rank (pd_quality row) \<le> quality_rank (pd_quality q))))"

lemma put_layer_lookup:
  "map_of (put_layer f d l) = (map_of d)(pd_start l \<mapsto>
     (case map_of d (pd_start l) of None \<Rightarrow> l | Some old \<Rightarrow> f old l))"
  by (simp add: put_layer_def split: option.splits)

lemma put_layer_ok:
  assumes "rows_ok d" and f: "\<And>old l. pd_start (f old l) = pd_start old"
  shows "rows_ok (put_layer f d l)"
  using assms rows_ok_lookup [OF assms(1)] by (auto simp: put_layer_def rows_ok_update split: option.splits)

lemma weakest_step:
  assumes w: "weakest_of rows d"
    and upd: "map_of d' = (map_of d)(pd_start l \<mapsto> new)"
    and fresh: "map_of d (pd_start l) = None \<Longrightarrow> pd_quality new = pd_quality l"
    and laid: "\<And>old. map_of d (pd_start l) = Some old \<Longrightarrow> pd_quality new = merge_quality (pd_quality old) (pd_quality l)"
  shows "weakest_of (rows @ [l]) d'"
  unfolding weakest_of_def
proof
  fix t
  have at_t: "(map_of d t = None \<longleftrightarrow> t \<notin> pd_start ` set rows)
     \<and> (\<forall>row. map_of d t = Some row \<longrightarrow> (\<exists>q \<in> set rows. pd_start q = t \<and> pd_quality q = pd_quality row)
          \<and> (\<forall>q \<in> set rows. pd_start q = t \<longrightarrow> quality_rank (pd_quality row) \<le> quality_rank (pd_quality q)))"
    using w unfolding weakest_of_def by blast
  show "(map_of d' t = None \<longleftrightarrow> t \<notin> pd_start ` set (rows @ [l]))
     \<and> (\<forall>row. map_of d' t = Some row \<longrightarrow> (\<exists>q \<in> set (rows @ [l]). pd_start q = t \<and> pd_quality q = pd_quality row)
          \<and> (\<forall>q \<in> set (rows @ [l]). pd_start q = t \<longrightarrow> quality_rank (pd_quality row) \<le> quality_rank (pd_quality q)))"
  proof (cases "t = pd_start l")
    case False
    then show ?thesis using at_t by (simp add: upd)
  next
    case t: True
    show ?thesis
    proof (cases "map_of d t")
      case None
      then have none: "\<forall>q \<in> set rows. pd_start q \<noteq> pd_start l" using at_t unfolding t by (metis image_eqI)
      show ?thesis using None none fresh unfolding t by (simp add: upd)
    next
      case (Some old)
      then have old: "\<exists>q \<in> set rows. pd_start q = t \<and> pd_quality q = pd_quality old"
          "\<forall>q \<in> set rows. pd_start q = t \<longrightarrow> quality_rank (pd_quality old) \<le> quality_rank (pd_quality q)"
        using at_t by blast+
      have new: "pd_quality new = merge_quality (pd_quality old) (pd_quality l)" using Some laid t by simp
      have "\<exists>q \<in> set (rows @ [l]). pd_start q = t \<and> pd_quality q = pd_quality new"
        using merge_quality_rank(2) [of "pd_quality old" "pd_quality l"] old(1) t unfolding new by auto
      moreover have "\<forall>q \<in> set (rows @ [l]). pd_start q = t \<longrightarrow> quality_rank (pd_quality new) \<le> quality_rank (pd_quality q)"
        using old(2) unfolding new merge_quality_rank(1) by (auto simp: min.coboundedI1)
      moreover have "pd_start l \<in> pd_start ` set (rows @ [l])" by simp
      ultimately show ?thesis unfolding t by (simp add: upd)
    qed
  qed
qed

lemma put_layers:
  assumes "rows_ok d" "weakest_of rows d"
    and f: "\<And>old l. pd_start (f old l) = pd_start old"
      "\<And>old l. pd_quality (f old l) = merge_quality (pd_quality old) (pd_quality l)"
  shows "rows_ok (foldl (put_layer f) d ls) \<and> weakest_of (rows @ ls) (foldl (put_layer f) d ls)"
proof (induction ls rule: rev_induct)
  case Nil
  then show ?case using assms by simp
next
  case (snoc l ls)
  then have "weakest_of ((rows @ ls) @ [l]) (put_layer f (foldl (put_layer f) d ls) l)"
    by (intro weakest_step [OF _ put_layer_lookup]) (simp_all add: f)
  moreover have "rows_ok (put_layer f (foldl (put_layer f) d ls) l)"
    using snoc by (intro put_layer_ok f) blast
  ultimately show ?case by simp
qed

text \<open>The market rows: distinct starts, so that no row replaces another.\<close>

lemma put_market:
  assumes "distinct (map pd_start ms)"
  shows "rows_ok (foldl (\<lambda>d p. AList.update (pd_start p) p d) [] ms)
     \<and> weakest_of ms (foldl (\<lambda>d p. AList.update (pd_start p) p d) [] ms)"
  using assms
proof (induction ms rule: rev_induct)
  case Nil
  then show ?case by (simp add: rows_ok_empty weakest_of_def)
next
  case (snoc m ms)
  let ?d = "foldl (\<lambda>d p. AList.update (pd_start p) p d) [] ms"
  have ih: "rows_ok ?d \<and> weakest_of ms ?d" using snoc by simp
  have "pd_start m \<notin> pd_start ` set ms" using snoc.prems by auto
  then have none: "map_of ?d (pd_start m) = None"
    using ih unfolding weakest_of_def by blast
  have "weakest_of (ms @ [m]) (AList.update (pd_start m) m ?d)"
    by (rule weakest_step [where d = ?d and new = m]) (simp_all add: ih none del: map_of_update, rule map_of_update)
  then show ?case using ih by (simp add: rows_ok_update)
qed

text \<open>Merging a day's market rows with any import and export rows gives strictly ascending
  periods at exactly the starts of the three layers, and the quality of a period is the weakest
  quality among the rows laid on it: no merged period claims more than its layers.\<close>

theorem merged_periods:
  assumes "distinct (map pd_start market)"
  shows "let ps = merge_period_layers market imports exports; rows = market @ imports @ exports in
     sorted_wrt (<) (map pd_start ps) \<and> pd_start ` set ps = pd_start ` set rows
     \<and> (\<forall>p \<in> set ps. (\<exists>q \<in> set rows. pd_start q = pd_start p \<and> pd_quality q = pd_quality p)
          \<and> (\<forall>q \<in> set rows. pd_start q = pd_start p \<longrightarrow> quality_rank (pd_quality p) \<le> quality_rank (pd_quality q)))"
proof -
  let ?m = "foldl (\<lambda>d p. AList.update (pd_start p) p d) [] market"
  let ?i = "foldl (put_layer with_import) ?m imports"
  let ?e = "foldl (put_layer with_export) ?i exports"
  let ?ps = "merge_period_layers market imports exports"
  let ?rows = "market @ imports @ exports"
  have m: "rows_ok ?m" "weakest_of market ?m" using put_market [OF assms] by auto
  have i: "rows_ok ?i" "weakest_of (market @ imports) ?i" using put_layers [OF m] by auto
  have e: "rows_ok ?e" "weakest_of ?rows ?e" using put_layers [OF i, of with_export exports] by auto
  have ps: "?ps = sorted_rows ?e" by (simp add: merge_period_layers_def)
  have in_ps: "p \<in> set ?ps \<longleftrightarrow> map_of ?e (pd_start p) = Some p" for p
    using sorted_rows_ok(2) [OF e(1)] by (simp add: ps)
  have dom: "map_of ?e t = None \<longleftrightarrow> t \<notin> pd_start ` set ?rows" for t
    using e(2) unfolding weakest_of_def by blast
  have starts: "pd_start ` set ?ps = pd_start ` set ?rows"
  proof (rule set_eqI)
    fix t
    have "t \<in> pd_start ` set ?ps \<longleftrightarrow> (\<exists>p. map_of ?e t = Some p)"
    proof
      assume "t \<in> pd_start ` set ?ps"
      then obtain p where "p \<in> set ?ps" "t = pd_start p" by (rule imageE)
      then show "\<exists>p. map_of ?e t = Some p" unfolding in_ps by simp
    next
      assume "\<exists>p. map_of ?e t = Some p"
      then obtain p where p: "map_of ?e t = Some p" by (rule exE)
      have "pd_start p = t" by (rule rows_ok_lookup [OF e(1) p])
      then show "t \<in> pd_start ` set ?ps" using in_ps [of p] p by (intro image_eqI [of _ _ p]) simp_all
    qed
    then show "t \<in> pd_start ` set ?ps \<longleftrightarrow> t \<in> pd_start ` set ?rows" using dom [of t] by auto
  qed
  have quality: "\<forall>p \<in> set ?ps. (\<exists>q \<in> set ?rows. pd_start q = pd_start p \<and> pd_quality q = pd_quality p)
      \<and> (\<forall>q \<in> set ?rows. pd_start q = pd_start p \<longrightarrow> quality_rank (pd_quality p) \<le> quality_rank (pd_quality q))"
  proof
    fix p assume "p \<in> set ?ps"
    then have "map_of ?e (pd_start p) = Some p" unfolding in_ps .
    then show "(\<exists>q \<in> set ?rows. pd_start q = pd_start p \<and> pd_quality q = pd_quality p)
      \<and> (\<forall>q \<in> set ?rows. pd_start q = pd_start p \<longrightarrow> quality_rank (pd_quality p) \<le> quality_rank (pd_quality q))"
      using e(2) unfolding weakest_of_def by blast
  qed
  have ascending: "sorted_wrt (<) (map pd_start ?ps)" unfolding ps by (rule sorted_rows_ok(1) [OF e(1)])
  show ?thesis unfolding Let_def by (rule conjI [OF ascending conjI [OF starts quality]])
qed

theorem merged_periods_witness:
  "let ps = merge_period_layers [sample_period 0 1] [(sample_period 0 2)\<lparr> pd_quality := PQ_STALE \<rparr>] [sample_period block_us 3];
       rows = [sample_period 0 1] @ [(sample_period 0 2)\<lparr> pd_quality := PQ_STALE \<rparr>] @ [sample_period block_us 3] in
     sorted_wrt (<) (map pd_start ps) \<and> pd_start ` set ps = pd_start ` set rows
     \<and> (\<forall>p \<in> set ps. (\<exists>q \<in> set rows. pd_start q = pd_start p \<and> pd_quality q = pd_quality p)
          \<and> (\<forall>q \<in> set rows. pd_start q = pd_start p \<longrightarrow> quality_rank (pd_quality p) \<le> quality_rank (pd_quality q)))"
  by (rule merged_periods) simp

subsection \<open>Charging windows\<close>

text \<open>A cheapest charging window is found exactly when the look-ahead holds enough priced periods;
  it then runs from the start of its first period to the end of its last, and no other run of as many
  consecutive priced periods has a lower average price.\<close>

theorem cheapest_window:
  assumes "0 < n"
  shows "let future = future_priced horizon now (now + hours_us hours); run = (\<lambda>i. take n (drop i future)) in
     (find_cheapest_charge_window horizon now n hours = None \<longleftrightarrow> length future < n)
     \<and> (\<forall>a b avg. find_cheapest_charge_window horizon now n hours = Some (a, b, avg) \<longrightarrow>
          (\<exists>i. i + n \<le> length future \<and> a = fst (hd (run i)) \<and> b = fst (snd (last (run i))) \<and> avg = window_average (run i))
          \<and> (\<forall>j. j + n \<le> length future \<longrightarrow> avg \<le> window_average (run j)))"
proof -
  let ?f = "future_priced horizon now (now + hours_us hours)"
  let ?runs = "map (\<lambda>i. take n (drop i ?f)) [0..<Suc (length ?f) - n]"
  let ?best = "running_best (\<lambda>c. - window_average c) ?runs"
  let ?w = "find_cheapest_charge_window horizon now n hours"
  have short: "length ?f \<le> length horizon"
    unfolding future_priced_def by (induction horizon) (auto simp: List.map_filter_simps split: option.splits)
  have w: "?w = (if length ?f < n then None
     else map_option (\<lambda>c. (fst (hd c), fst (snd (last c)), window_average c)) ?best)"
    using short by (simp add: find_cheapest_charge_window_def Let_def)
  have "?runs \<noteq> [] \<longleftrightarrow> n \<le> length ?f" by auto
  then have none: "?w = None \<longleftrightarrow> length ?f < n"
    using running.pick_none [of "\<lambda>c. - window_average c" ?runs] by (auto simp: w)
  have best: "(\<exists>i. i + n \<le> length ?f \<and> a = fst (hd (take n (drop i ?f))) \<and> b = fst (snd (last (take n (drop i ?f))))
        \<and> avg = window_average (take n (drop i ?f)))
      \<and> (\<forall>j. j + n \<le> length ?f \<longrightarrow> avg \<le> window_average (take n (drop j ?f)))"
    if some: "?w = Some (a, b, avg)" for a b avg
  proof -
    obtain c where c: "?best = Some c" "a = fst (hd c)" "b = fst (snd (last c))" "avg = window_average c"
      using some by (auto simp: w split: if_splits)
    obtain i where i: "i < Suc (length ?f) - n" "c = take n (drop i ?f)"
      using running.pick_in [OF c(1)] by auto
    have "avg \<le> window_average (take n (drop j ?f))" if "j + n \<le> length ?f" for j
    proof -
      have "take n (drop j ?f) \<in> set ?runs" using that by auto
      from running.pick_best [OF c(1) this] show ?thesis by (simp add: c(4) not_less)
    qed
    then show ?thesis using i c by (intro conjI exI [of _ i]) auto
  qed
  show ?thesis unfolding Let_def using none best by blast
qed

theorem cheapest_window_witness:
  "let future = future_priced [sample_period block_us 3, sample_period (2 * block_us) 2] 0 (0 + hours_us 18);
       run = (\<lambda>i. take 1 (drop i future)) in
     (find_cheapest_charge_window [sample_period block_us 3, sample_period (2 * block_us) 2] 0 1 18 = None
        \<longleftrightarrow> length future < 1)
     \<and> (\<forall>a b avg. find_cheapest_charge_window [sample_period block_us 3, sample_period (2 * block_us) 2] 0 1 18 = Some (a, b, avg) \<longrightarrow>
          (\<exists>i. i + 1 \<le> length future \<and> a = fst (hd (run i)) \<and> b = fst (snd (last (run i))) \<and> avg = window_average (run i))
          \<and> (\<forall>j. j + 1 \<le> length future \<longrightarrow> avg \<le> window_average (run j)))"
  by (rule cheapest_window) simp

subsection \<open>The conversion of stored prices\<close>

text \<open>
  The threshold that tells an old row apart makes the conversion drop: a price just above it is
  taken for kronor. With eleven kronor to the euro a dear quarter comes out cheaper than a cheap one.
\<close>

lemma dear_looks_cheap:
  "stored_eur_to_sek_kwh 11 (Some (26/100)) < stored_eur_to_sek_kwh 11 (Some (20/100))"
  by (simp add: stored_eur_to_sek_kwh_def is_legacy_sek_stored_as_eur_def
      LEGACY_SEK_IN_EUR_COLUMN_THRESHOLD_def eur_to_sek_def)

end
