(* ===== verification/Price_Store.thy ===== *)
theory Price_Store
  imports Price_Runs
begin

section \<open>The stored prices and their refresh\<close>

text \<open>
  \<open>db/price_period_repo.py\<close>, the rows \<open>MarketPriceRepository.upsert_prices\<close> writes and the cycle of
  \<open>price_engine/engine.py\<close>. A table is a dictionary by its unique index; a provider is what its
  \<open>fetch\<close> returns at a resolution, \<open>None\<close> where it raises. The local dates of today and tomorrow
  enter as their bounds. The database does not fail. A refresh returns the
  rows it leaves in the session and its outcome, \<open>None\<close> where it raises: its caller
  \<open>_collect_market_prices\<close> catches that and goes on, so what was written before stays.
\<close>

type_synonym period_table = "((nat \<times> time) \<times> price_period) list"
type_synonym market_table = "((nat \<times> time) \<times> rat \<times> rat option \<times> rat option) list"

record engine_status =
  es_refresh_at :: "time option"
  es_failed :: bool
  es_missing :: int
  es_data_age :: "int option"
  es_mode :: optimization_mode

record price_store =
  ps_periods :: period_table
  ps_market :: market_table
  ps_status :: "(nat \<times> engine_status) list"

subsection \<open>The repositories\<close>

definition period_key :: "price_period \<Rightarrow> nat \<times> time" where
  "period_key p = (pd_site_id p, pd_start p)"

definition upsert_periods :: "price_period list \<Rightarrow> period_table \<Rightarrow> period_table" where
  "upsert_periods ps t = foldl (\<lambda>t p. AList.update (period_key p) p t) t ps"

definition list_range :: "period_table \<Rightarrow> nat \<Rightarrow> time \<Rightarrow> time \<Rightarrow> price_period list" where
  "list_range t site_id start until = sort_key pd_start
     (map snd (filter (\<lambda>x. fst (fst x) = site_id \<and> start \<le> snd (fst x) \<and> snd (fst x) < until) t))"

definition get_at :: "period_table \<Rightarrow> nat \<Rightarrow> time \<Rightarrow> price_period option" where
  "get_at t site_id start = map_of t (site_id, start)"

definition delete_older_than :: "nat \<Rightarrow> time \<Rightarrow> period_table \<Rightarrow> period_table" where
  "delete_older_than site_id cutoff t = filter (\<lambda>x. \<not> (fst (fst x) = site_id \<and> snd (fst x) < cutoff)) t"

text \<open>A feed-in price that is missing leaves the stored one as it is.\<close>

definition upsert_price :: "nat \<Rightarrow> market_table \<Rightarrow> time \<times> rat \<times> rat option \<times> rat option \<Rightarrow> market_table" where
  "upsert_price site_id t e =
     (let key = (site_id, fst e); new = snd e;
          kept = (case map_of t key of None \<Rightarrow> None | Some old \<Rightarrow> snd (snd old))
      in AList.update key (fst new, fst (snd new), case snd (snd new) of None \<Rightarrow> kept | Some f \<Rightarrow> Some f) t)"

definition upsert_prices :: "nat \<Rightarrow> (time \<times> rat \<times> rat option \<times> rat option) list \<Rightarrow> market_table \<Rightarrow> market_table" where
  "upsert_prices site_id entries t = foldl (upsert_price site_id) t entries"

subsection \<open>One day\<close>

record price_feed =
  fd_market :: "string \<Rightarrow> raw_price_point list option"
  fd_import :: "string \<Rightarrow> raw_price_point list option"
  fd_export :: "string \<Rightarrow> raw_price_point list option"

text \<open>The market at 15 minutes; at an hour when that raises or is empty.\<close>

definition fetch_market :: "price_feed \<Rightarrow> (string \<times> raw_price_point list) option" where
  "fetch_market feed = (case fd_market feed ''15m'' of
     Some (p # ps) \<Rightarrow> Some (''15m'', p # ps)
   | _ \<Rightarrow> map_option (Pair ''1h'') (fd_market feed ''1h''))"

record engine_site =
  eg_site_id :: nat
  eg_area :: price_area
  eg_mode :: optimization_mode
  eg_has_system :: bool

record engine_clock =
  ek_rate :: rat
  ek_iso :: "time \<Rightarrow> string"
  ek_today :: "time \<times> time"

definition merged_day ::
  "engine_clock \<Rightarrow> engine_site \<Rightarrow> raw_price_point list \<Rightarrow> raw_price_point list \<Rightarrow> raw_price_point list \<Rightarrow> price_period list" where
  "merged_day ek eg market imports exports =
     (let rows = normalize_to_periods (ek_rate ek) (ek_iso ek) (eg_site_id eg) (eg_area eg)
      in merge_period_layers (rows market) (rows imports) (rows exports))"

definition refresh_day :: "engine_clock \<Rightarrow> engine_site \<Rightarrow> price_feed \<Rightarrow> period_table \<Rightarrow> (period_table \<times> nat) option" where
  "refresh_day ek eg feed t = (case fetch_market feed of
     None \<Rightarrow> None
   | Some m \<Rightarrow> (case fd_import feed (fst m) of
       None \<Rightarrow> None
     | Some i \<Rightarrow> (case fd_export feed (fst m) of
         None \<Rightarrow> None
       | Some e \<Rightarrow> (let rows = merged_day ek eg (snd m) i e in Some (upsert_periods rows t, length rows)))))"

text \<open>A day that raises is logged and the next one is tried: table, count, whether one failed.\<close>

definition try_day ::
  "engine_clock \<Rightarrow> engine_site \<Rightarrow> period_table \<times> nat \<times> bool \<Rightarrow> price_feed \<Rightarrow> period_table \<times> nat \<times> bool" where
  "try_day ek eg acc feed = (case refresh_day ek eg feed (fst acc) of
     None \<Rightarrow> (fst acc, fst (snd acc), True)
   | Some r \<Rightarrow> (fst r, fst (snd acc) + snd r, snd (snd acc)))"

definition sync_legacy_hourly :: "engine_site \<Rightarrow> price_feed \<Rightarrow> market_table \<Rightarrow> market_table option" where
  "sync_legacy_hourly eg feed t =
     (case (fd_market feed ''1h'', fd_import feed ''1h'', fd_export feed ''1h'') of
        (Some m, Some i, Some e) \<Rightarrow> Some (upsert_prices (eg_site_id eg) (legacy_hourly m i e) t)
      | _ \<Rightarrow> None)"

subsection \<open>The refresh of a site\<close>

definition retention_us :: int where
  "retention_us = hours_us (90 * 24)"

definition data_age :: "price_period list \<Rightarrow> time \<Rightarrow> int option" where
  "data_age newest now = (if newest = [] then None
     else Some (max 0 ((now - Max (set (map pd_start newest))) div us_per_s)))"

definition missing_periods :: "period_table \<Rightarrow> nat \<Rightarrow> time \<times> time \<Rightarrow> int" where
  "missing_periods t site_id day = max 0 (int (length (enumerate_periods (fst day) (snd day)))
     - int (length (list_range t site_id (fst day) (snd day))))"

definition refreshed_status :: "engine_clock \<Rightarrow> engine_site \<Rightarrow> period_table \<Rightarrow> bool \<Rightarrow> time \<Rightarrow> engine_status" where
  "refreshed_status ek eg t failed now =
     \<lparr> es_refresh_at = Some now, es_failed = failed,
       es_missing = missing_periods t (eg_site_id eg) (ek_today ek),
       es_data_age = data_age (list_range t (eg_site_id eg) (now - hours_us 1) (now + hours_us 48)) now,
       es_mode = eg_mode eg \<rparr>"

text \<open>The hourly rows are synced after the days. If that raises, the rows of the days stay; the
  status and the retention are not reached.\<close>

definition refresh_site ::
  "engine_clock \<Rightarrow> engine_site \<Rightarrow> price_feed \<Rightarrow> price_feed \<Rightarrow> time \<Rightarrow> price_store \<Rightarrow> price_store \<times> nat option" where
  "refresh_site ek eg today tomorrow now s =
     (if \<not> eg_has_system eg then (s, Some 0)
      else let acc = foldl (try_day ek eg) (ps_periods s, 0, False) [today, tomorrow] in
        (case sync_legacy_hourly eg today (ps_market s) of
           None \<Rightarrow> (s\<lparr>ps_periods := fst acc\<rparr>, None)
         | Some market \<Rightarrow>
             (\<lparr> ps_periods = delete_older_than (eg_site_id eg) (now - retention_us) (fst acc),
                ps_market = market,
                ps_status = AList.update (eg_site_id eg)
                  (refreshed_status ek eg (fst acc) (snd (snd acc)) now) (ps_status s) \<rparr>,
              Some (fst (snd acc)))))"

text \<open>The fast lane of \<open>collector.py\<close>: the active sites in turn, each with its feeds and its clock;
  for a site with a system the number of periods, 0 after an exception, and whether it succeeded.\<close>

record price_visit =
  pv_site :: engine_site
  pv_clock :: engine_clock
  pv_now :: time
  pv_today :: price_feed
  pv_tomorrow :: price_feed

definition visit_refresh :: "price_visit \<Rightarrow> price_store \<Rightarrow> price_store \<times> nat option" where
  "visit_refresh v = refresh_site (pv_clock v) (pv_site v) (pv_today v) (pv_tomorrow v) (pv_now v)"

fun collect_market_prices :: "price_visit list \<Rightarrow> price_store \<Rightarrow> price_store \<times> (nat \<times> nat \<times> bool) list" where
  "collect_market_prices [] s = (s, [])"
| "collect_market_prices (v # vs) s =
     (if \<not> eg_has_system (pv_site v) then collect_market_prices vs s
      else let r = visit_refresh v s; rest = collect_market_prices vs (fst r) in
        (fst rest, (eg_site_id (pv_site v), case snd r of None \<Rightarrow> 0 | Some n \<Rightarrow> n, snd r \<noteq> None) # snd rest))"

definition get_range :: "period_table \<Rightarrow> nat \<Rightarrow> time \<Rightarrow> time \<Rightarrow> price_period list" where
  "get_range t site_id start until =
     list_range t site_id start (if until - start > hours_us 168 then start + hours_us 168 else until)"

definition get_current :: "period_table \<Rightarrow> nat \<Rightarrow> time \<Rightarrow> price_period option" where
  "get_current t site_id now = get_at t site_id (current_period_start now)"

definition engine_mode :: "price_store \<Rightarrow> nat \<Rightarrow> optimization_mode" where
  "engine_mode s site_id = (case map_of (ps_status s) site_id of None \<Rightarrow> MONITOR_ONLY | Some st \<Rightarrow> es_mode st)"

subsection \<open>What one day writes\<close>

lemma normalized_row:
  assumes "r \<in> set (normalize_to_periods rate to_iso site_id area points)"
  shows "pd_site_id r = site_id \<and> pd_start r mod block_us = 0 \<and> pd_end r = pd_start r + block_us"
proof -
  let ?rows = "covering_rows rate to_iso site_id area points"
  let ?d = "foldl put_row [] ?rows"
  have ok: "rows_ok ?d" and best: "best_of ?rows ?d" using put_rows by auto
  have "r \<in> set (sorted_rows ?d)" using assms by (simp add: normalize_to_periods_def covering_rows_def)
  then have "map_of ?d (pd_start r) = Some r" using sorted_rows_ok(2) [OF ok] by simp
  then have "r \<in> set ?rows" using best unfolding best_of_def by blast
  then obtain p t where p: "t \<in> set (point_starts p)" "r = period_row rate to_iso site_id area p t"
    unfolding covering_rows_in by blast
  then have "pd_site_id r = site_id" by (simp add: period_row_def)
  with p show ?thesis by (simp add: point_starts_aligned)
qed

text \<open>What both kinds of layer and every table keep of a row.\<close>

definition row_sound :: "nat \<Rightarrow> price_period \<Rightarrow> bool" where
  "row_sound site_id r \<longleftrightarrow> pd_site_id r = site_id \<and> pd_start r mod block_us = 0 \<and> pd_end r = pd_start r + block_us"

lemma layer_sound:
  "row_sound site_id old \<Longrightarrow> row_sound site_id (with_import old l)"
  "row_sound site_id old \<Longrightarrow> row_sound site_id (with_export old l)"
  by (simp_all add: row_sound_def with_import_def with_export_def)

lemma values_update: "r \<in> snd ` set (AList.update k v d) \<Longrightarrow> r = v \<or> r \<in> snd ` set d"
  by (auto dest!: set_vals_update)

lemma put_layer_sound:
  assumes f: "\<And>old l. row_sound site_id old \<Longrightarrow> row_sound site_id (f old l)"
    and "\<forall>r \<in> snd ` set d. row_sound site_id r" "row_sound site_id l"
  shows "\<forall>r \<in> snd ` set (put_layer f d l). row_sound site_id r"
proof
  fix r assume "r \<in> snd ` set (put_layer f d l)"
  then have "r = l \<or> r \<in> snd ` set d \<or> (\<exists>old. map_of d (pd_start l) = Some old \<and> r = f old l)"
    by (auto simp: put_layer_def split: option.splits dest!: values_update)
  then show "row_sound site_id r"
  proof (elim disjE exE conjE)
    fix old assume "map_of d (pd_start l) = Some old" "r = f old l"
    then show ?thesis using assms by (metis f map_of_SomeD image_eqI snd_conv)
  qed (use assms in auto)
qed

lemma put_layers_sound:
  assumes f: "\<And>old l. row_sound site_id old \<Longrightarrow> row_sound site_id (f old l)"
  shows "\<forall>r \<in> snd ` set d. row_sound site_id r \<Longrightarrow> \<forall>l \<in> set ls. row_sound site_id l \<Longrightarrow>
    \<forall>r \<in> snd ` set (foldl (put_layer f) d ls). row_sound site_id r"
proof (induction ls arbitrary: d)
  case (Cons l ls)
  have l: "row_sound site_id l" and ls: "\<forall>l \<in> set ls. row_sound site_id l" using Cons.prems(2) by simp_all
  have "\<forall>r \<in> snd ` set (put_layer f d l). row_sound site_id r"
    by (rule put_layer_sound [OF f Cons.prems(1) l])
  from Cons.IH [OF this ls] show ?case by simp
qed simp

lemma market_rows_source:
  "r \<in> snd ` set (foldl (\<lambda>d p. AList.update (pd_start p) p d) d ms) \<Longrightarrow> r \<in> snd ` set d \<or> r \<in> set ms"
proof (induction ms arbitrary: d)
  case (Cons m ms)
  then have "r \<in> snd ` set (AList.update (pd_start m) m d) \<or> r \<in> set ms" by simp
  then show ?case using values_update [of r "pd_start m" m d] by (metis list.set_intros)
qed simp

lemma market_rows_sound:
  "\<forall>l \<in> set ms. row_sound site_id l \<Longrightarrow>
   \<forall>r \<in> snd ` set (foldl (\<lambda>d p. AList.update (pd_start p) p d) [] ms). row_sound site_id r"
  using market_rows_source [where d = "[]" and ms = ms] by fastforce

lemma merged_day_sound: "r \<in> set (merged_day ek eg m i e) \<Longrightarrow> row_sound (eg_site_id eg) r"
proof -
  let ?rows = "normalize_to_periods (ek_rate ek) (ek_iso ek) (eg_site_id eg) (eg_area eg)"
  have rows: "\<forall>l \<in> set (?rows xs). row_sound (eg_site_id eg) l" for xs
    using normalized_row unfolding row_sound_def by blast
  let ?m = "foldl (\<lambda>d p. AList.update (pd_start p) p d) [] (?rows m)"
  let ?i = "foldl (put_layer with_import) ?m (?rows i)"
  let ?e = "foldl (put_layer with_export) ?i (?rows e)"
  have 1: "\<forall>r \<in> snd ` set ?m. row_sound (eg_site_id eg) r" by (rule market_rows_sound [OF rows])
  have 2: "\<forall>r \<in> snd ` set ?i. row_sound (eg_site_id eg) r"
    by (rule put_layers_sound [OF layer_sound(1) 1 rows])
  have 3: "\<forall>r \<in> snd ` set ?e. row_sound (eg_site_id eg) r"
    by (rule put_layers_sound [OF layer_sound(2) 2 rows])
  assume "r \<in> set (merged_day ek eg m i e)"
  then have "r \<in> snd ` set ?e" by (simp add: merged_day_def merge_period_layers_def sorted_rows_def Let_def)
  with 3 show ?thesis by blast
qed

subsection \<open>The table through a refresh\<close>

definition table_ok :: "period_table \<Rightarrow> bool" where
  "table_ok t \<longleftrightarrow> distinct (map fst t)
     \<and> (\<forall>site_id start r. map_of t (site_id, start) = Some r \<longrightarrow> pd_start r = start \<and> row_sound site_id r)"

lemma upsert_one_ok: "table_ok t \<Longrightarrow> row_sound (pd_site_id r) r \<Longrightarrow> table_ok (AList.update (period_key r) r t)"
  unfolding table_ok_def period_key_def by (auto simp: distinct_keys_update)

lemma upsert_periods_ok:
  "table_ok t \<Longrightarrow> \<forall>r \<in> set rows. row_sound site_id r \<Longrightarrow> table_ok (upsert_periods rows t)"
  unfolding upsert_periods_def
proof (induction rows arbitrary: t)
  case (Cons r rows)
  have "row_sound (pd_site_id r) r" using Cons.prems(2) by (simp add: row_sound_def)
  then have "table_ok (AList.update (period_key r) r t)" by (rule upsert_one_ok [OF Cons.prems(1)])
  then show ?case using Cons by simp
qed simp

lemma upsert_periods_other: "k \<notin> period_key ` set rows \<Longrightarrow> map_of (upsert_periods rows t) k = map_of t k"
  unfolding upsert_periods_def by (induction rows arbitrary: t) auto

lemma upsert_periods_keeps: "map_of t k \<noteq> None \<Longrightarrow> map_of (upsert_periods rows t) k \<noteq> None"
  unfolding upsert_periods_def by (induction rows arbitrary: t) simp_all

text \<open>What a day does to a table: sound rows of its own site are written, nothing is removed.\<close>

definition day_effect :: "nat \<Rightarrow> period_table \<Rightarrow> period_table \<Rightarrow> bool" where
  "day_effect site_id t t' \<longleftrightarrow> (table_ok t \<longrightarrow> table_ok t')
     \<and> (\<forall>k. fst k \<noteq> site_id \<longrightarrow> map_of t' k = map_of t k)
     \<and> (\<forall>k. map_of t k \<noteq> None \<longrightarrow> map_of t' k \<noteq> None)"

lemma day_effect_refl: "day_effect site_id t t"
  by (simp add: day_effect_def)

lemma day_effect_trans: "day_effect site_id t u \<Longrightarrow> day_effect site_id u v \<Longrightarrow> day_effect site_id t v"
  unfolding day_effect_def by (intro conjI; metis)

lemma upsert_day_effect:
  assumes "\<forall>r \<in> set rows. row_sound site_id r"
  shows "day_effect site_id t (upsert_periods rows t)"
  unfolding day_effect_def
proof (intro conjI impI allI)
  show "table_ok t \<Longrightarrow> table_ok (upsert_periods rows t)" by (rule upsert_periods_ok [OF _ assms])
  show "map_of (upsert_periods rows t) k = map_of t k" if "fst k \<noteq> site_id" for k
  proof -
    have "k \<notin> period_key ` set rows" using that assms by (auto simp: period_key_def row_sound_def)
    then show ?thesis by (rule upsert_periods_other)
  qed
  show "map_of (upsert_periods rows t) k \<noteq> None" if "map_of t k \<noteq> None" for k
    by (rule upsert_periods_keeps [OF that])
qed

lemma try_day_effect: "day_effect (eg_site_id eg) (fst acc) (fst (try_day ek eg acc feed))"
proof (cases "refresh_day ek eg feed (fst acc)")
  case None
  then show ?thesis by (simp add: try_day_def day_effect_refl)
next
  case (Some r)
  then obtain m i e where "fst r = upsert_periods (merged_day ek eg m i e) (fst acc)"
    unfolding refresh_day_def by (auto simp: Let_def split: option.splits)
  then show ?thesis using Some merged_day_sound by (simp add: try_day_def upsert_day_effect)
qed

interpretation price_days: climbing "try_day ek eg" "\<lambda>a b. day_effect (eg_site_id eg) (fst a) (fst b)"
  by unfold_locales (auto intro: day_effect_refl day_effect_trans try_day_effect)

lemma delete_older_lookup:
  "map_of (delete_older_than site_id cutoff t) k = (if fst k = site_id \<and> snd k < cutoff then None else map_of t k)"
  unfolding delete_older_than_def
  using map_of_filter_keys [of "\<lambda>k. \<not> (fst k = site_id \<and> snd k < cutoff)" t k] by simp

lemma delete_older_ok: "table_ok t \<Longrightarrow> table_ok (delete_older_than site_id cutoff t)"
  unfolding table_ok_def delete_older_lookup
  by (auto simp: delete_older_than_def distinct_map_filter)

text \<open>What a refresh leaves of the table, whichever way it ends.\<close>

lemma refresh_cases:
  obtains (idle) "\<not> eg_has_system eg" "refresh_site ek eg today tomorrow now s = (s, Some 0)"
  | (raised) t where "eg_has_system eg" "sync_legacy_hourly eg today (ps_market s) = None"
      "day_effect (eg_site_id eg) (ps_periods s) t"
      "refresh_site ek eg today tomorrow now s = (s\<lparr>ps_periods := t\<rparr>, None)"
  | (finished) t market st n where "eg_has_system eg" "sync_legacy_hourly eg today (ps_market s) = Some market"
      "day_effect (eg_site_id eg) (ps_periods s) t"
      "refresh_site ek eg today tomorrow now s =
         (\<lparr> ps_periods = delete_older_than (eg_site_id eg) (now - retention_us) t,
            ps_market = market, ps_status = st \<rparr>, Some n)"
proof -
  let ?acc = "foldl (try_day ek eg) (ps_periods s, 0, False) [today, tomorrow]"
  have days: "day_effect (eg_site_id eg) (ps_periods s) (fst ?acc)"
    using price_days.run_climbs [of eg "(ps_periods s, 0, False)" ek "[today, tomorrow]"] by simp
  show thesis
  proof (cases "eg_has_system eg")
    case False
    then show ?thesis by (intro idle) (simp_all add: refresh_site_def)
  next
    case system: True
    show ?thesis
    proof (cases "sync_legacy_hourly eg today (ps_market s)")
      case None
      then show ?thesis using system days by (intro raised [of "fst ?acc"]) (simp_all add: refresh_site_def)
    next
      case (Some market)
      then show ?thesis using system days
        by (intro finished [of market "fst ?acc"]) (simp_all add: refresh_site_def Let_def)
    qed
  qed
qed

lemma sync_raises:
  "sync_legacy_hourly eg feed t = None \<longleftrightarrow>
     fd_market feed ''1h'' = None \<or> fd_import feed ''1h'' = None \<or> fd_export feed ''1h'' = None"
  by (auto simp: sync_legacy_hourly_def split: option.splits)

lemma refresh_table_ok:
  assumes "table_ok (ps_periods s)"
  shows "table_ok (ps_periods (fst (refresh_site ek eg today tomorrow now s)))"
  using assms by (rule_tac refresh_cases [of eg ek today tomorrow now s])
    (auto simp: day_effect_def delete_older_ok)

lemma refresh_other_sites:
  assumes "fst k \<noteq> eg_site_id eg"
  shows "map_of (ps_periods (fst (refresh_site ek eg today tomorrow now s))) k = map_of (ps_periods s) k"
  using assms by (cases k; rule_tac refresh_cases [of eg ek today tomorrow now s])
    (auto simp: day_effect_def delete_older_lookup)

lemma refresh_recent:
  assumes "now - retention_us \<le> t" "get_at (ps_periods s) (eg_site_id eg) t \<noteq> None"
  shows "get_at (ps_periods (fst (refresh_site ek eg today tomorrow now s))) (eg_site_id eg) t \<noteq> None"
  using assms by (rule_tac refresh_cases [of eg ek today tomorrow now s])
    (auto simp: get_at_def day_effect_def delete_older_lookup)

text \<open>C33. A refresh keeps the table sound: one row per site and quarter, aligned and fifteen minutes
  long, leaves the rows of other sites alone and removes no row of the last ninety days, whatever the
  providers answer for either day and whether it returns or raises. It raises exactly when a provider
  fails at an hour for today while the hourly rows are synced; then the rows the days wrote stay, no
  row is removed at all and the hourly rows and the status are as before. When a site with a system is
  refreshed without an exception no row older than ninety days is left.\<close>

theorem refresh_keeps_prices:
  assumes ran: "refresh_site ek eg today tomorrow now s = (s', outcome)"
    and ok: "table_ok (ps_periods s)"
  shows "table_ok (ps_periods s')
    \<and> (\<forall>k. fst k \<noteq> eg_site_id eg \<longrightarrow> map_of (ps_periods s') k = map_of (ps_periods s) k)
    \<and> (\<forall>t. now - retention_us \<le> t \<longrightarrow> get_at (ps_periods s) (eg_site_id eg) t \<noteq> None
         \<longrightarrow> get_at (ps_periods s') (eg_site_id eg) t \<noteq> None)
    \<and> (outcome = None \<longleftrightarrow> eg_has_system eg \<and>
         (fd_market today ''1h'' = None \<or> fd_import today ''1h'' = None \<or> fd_export today ''1h'' = None))
    \<and> (outcome = None \<longrightarrow> ps_market s' = ps_market s \<and> ps_status s' = ps_status s
         \<and> (\<forall>t. get_at (ps_periods s) (eg_site_id eg) t \<noteq> None \<longrightarrow> get_at (ps_periods s') (eg_site_id eg) t \<noteq> None))
    \<and> (eg_has_system eg \<and> outcome \<noteq> None
         \<longrightarrow> (\<forall>t. t < now - retention_us \<longrightarrow> get_at (ps_periods s') (eg_site_id eg) t = None))"
proof -
  have "table_ok (ps_periods s')" using refresh_table_ok [OF ok, of ek eg today tomorrow now] ran by simp
  moreover have "map_of (ps_periods s') k = map_of (ps_periods s) k" if "fst k \<noteq> eg_site_id eg" for k
    using refresh_other_sites [OF that, of ek today tomorrow now s] ran by simp
  moreover have "get_at (ps_periods s') (eg_site_id eg) t \<noteq> None"
    if "now - retention_us \<le> t" "get_at (ps_periods s) (eg_site_id eg) t \<noteq> None" for t
    using refresh_recent [OF that, of ek today tomorrow] ran by simp
  moreover have "outcome = None \<longleftrightarrow> eg_has_system eg \<and> sync_legacy_hourly eg today (ps_market s) = None"
    using ran by (rule_tac refresh_cases [of eg ek today tomorrow now s]) auto
  moreover have "ps_market s' = ps_market s \<and> ps_status s' = ps_status s
      \<and> (\<forall>t. get_at (ps_periods s) (eg_site_id eg) t \<noteq> None \<longrightarrow> get_at (ps_periods s') (eg_site_id eg) t \<noteq> None)"
    if "outcome = None"
    using ran that by (rule_tac refresh_cases [of eg ek today tomorrow now s])
      (auto simp: get_at_def day_effect_def)
  moreover have "get_at (ps_periods s') (eg_site_id eg) t = None"
    if "eg_has_system eg" "outcome \<noteq> None" "t < now - retention_us" for t
    using ran that by (rule_tac refresh_cases [of eg ek today tomorrow now s])
      (auto simp: get_at_def delete_older_lookup)
  ultimately show ?thesis unfolding sync_raises by blast
qed

text \<open>A lane over any sites keeps the table sound and the rows of the sites it does not visit.\<close>

lemma collect_table_ok:
  "table_ok (ps_periods s) \<Longrightarrow> table_ok (ps_periods (fst (collect_market_prices vs s)))"
  by (induction vs s rule: collect_market_prices.induct) (simp_all add: Let_def visit_refresh_def refresh_table_ok)

lemma collect_other_sites:
  "fst k \<notin> (\<lambda>v. eg_site_id (pv_site v)) ` set vs \<Longrightarrow>
   map_of (ps_periods (fst (collect_market_prices vs s))) k = map_of (ps_periods s) k"
  by (induction vs s rule: collect_market_prices.induct)
    (simp_all add: Let_def visit_refresh_def refresh_other_sites)

text \<open>Two visits of site 1, which has a row of this quarter and one that is 91 days old: the first
  raises in the hourly rows and leaves both, the second drops the old one.\<close>

definition quiet_feed :: price_feed where
  "quiet_feed = \<lparr> fd_market = (\<lambda>r. Some []), fd_import = (\<lambda>r. Some []), fd_export = (\<lambda>r. Some []) \<rparr>"

definition silent_export :: price_feed where
  "silent_export = quiet_feed\<lparr>fd_export := (\<lambda>r. None)\<rparr>"

definition old_start :: time where
  "old_start = - hours_us (91 * 24)"

definition sample_store :: price_store where
  "sample_store = \<lparr> ps_periods = [((1, 0), sample_period 0 1), ((1, old_start), sample_period old_start 1)],
     ps_market = [], ps_status = [] \<rparr>"

definition sample_engine_site :: engine_site where
  "sample_engine_site = \<lparr> eg_site_id = 1, eg_area = SE4, eg_mode = RECOMMEND, eg_has_system = True \<rparr>"

definition sample_engine_clock :: engine_clock where
  "sample_engine_clock = \<lparr> ek_rate = 11, ek_iso = (\<lambda>t. []), ek_today = (0, block_us) \<rparr>"

lemma sample_store_ok: "table_ok (ps_periods sample_store)"
  by (simp add: table_ok_def sample_store_def sample_period_def row_sound_def old_start_def
      hours_us_def us_per_s_def block_us_def)

theorem refresh_keeps_prices_witness:
  "let failed = refresh_site sample_engine_clock sample_engine_site silent_export silent_export 0 sample_store;
       refreshed = refresh_site sample_engine_clock sample_engine_site quiet_feed quiet_feed 0 sample_store
   in table_ok (ps_periods (fst refreshed)) \<and> snd failed = None \<and> snd refreshed \<noteq> None
     \<and> get_at (ps_periods (fst failed)) 1 old_start \<noteq> None
     \<and> get_at (ps_periods (fst refreshed)) 1 old_start = None \<and> get_at (ps_periods (fst refreshed)) 1 0 \<noteq> None"
proof -
  have site: "eg_has_system sample_engine_site" "eg_site_id sample_engine_site = 1"
    by (simp_all add: sample_engine_site_def)
  have old: "old_start < 0 - retention_us" "0 - retention_us \<le> 0"
    by (simp_all add: old_start_def retention_us_def hours_us_def us_per_s_def)
  have rows: "get_at (ps_periods sample_store) 1 0 \<noteq> None" "get_at (ps_periods sample_store) 1 old_start \<noteq> None"
    by (simp_all add: get_at_def sample_store_def)
  note kept = refresh_keeps_prices [OF prod.collapse [symmetric] sample_store_ok,
      of sample_engine_clock sample_engine_site _ _ 0, unfolded site(2)]
  have "fd_export silent_export ''1h'' = None" by (simp add: silent_export_def)
  with kept [of silent_export silent_export] rows site(1)
  have failed: "snd (refresh_site sample_engine_clock sample_engine_site silent_export silent_export 0 sample_store) = None"
      "get_at (ps_periods (fst (refresh_site sample_engine_clock sample_engine_site silent_export silent_export 0
         sample_store))) 1 old_start \<noteq> None" by blast+
  have "fd_market quiet_feed ''1h'' \<noteq> None \<and> fd_import quiet_feed ''1h'' \<noteq> None \<and> fd_export quiet_feed ''1h'' \<noteq> None"
    by (simp add: quiet_feed_def)
  with kept [of quiet_feed quiet_feed] rows(1) site(1) old failed show ?thesis unfolding Let_def by blast
qed

end
