(* ===== verification/Energy_Accounts.thy ===== *)
theory Energy_Accounts
  imports Charging_Schedule
begin

section \<open>Export revenue and energy balance\<close>

text \<open>
  \<open>export_revenue/\<close> (what exported energy earns, the yearly tax credit and its allocation) and
  \<open>energy_balance/\<close> (\<open>correlation.py\<close>, \<open>engine.py\<close>: telemetry of several meters brought to one
  instant, the residual, the load without the car). Sums are exact; dates are the lists of their
  numbers, which order as the zero-padded strings of the code do for years of four digits.
\<close>

type_synonym date_key = "int list"

subsection \<open>Selling\<close>

datatype money_quality = MQ_ACTUAL | MQ_CALCULATED | MQ_ESTIMATED | MQ_MISSING
datatype pricing_mode = Spot_pricing | Flat_pricing | Feed_in_pricing

record sell_config =
  sl_mode :: pricing_mode
  sl_provider :: string
  sl_adjustment_ore :: rat
  sl_deduction_ore :: rat
  sl_grid_benefit_ore :: rat
  sl_country :: string
  sl_tax_credit_enabled :: bool
  sl_fallback_price :: rat
  sl_contract_start :: "date_key option"

record export_interval =
  xi_exported_kwh :: rat
  xi_spot_price :: "rat option"
  xi_sell_price :: rat
  xi_energy_sale :: rat
  xi_grid_benefit :: rat
  xi_spot_quality :: money_quality
  xi_adjustment_quality :: money_quality
  xi_benefit_quality :: money_quality

record export_account =
  xa_exported_kwh :: rat
  xa_energy_sale :: rat
  xa_grid_benefit :: rat
  xa_spot_priced_kwh :: rat
  xa_fallback_priced_kwh :: rat
  xa_negative_price_kwh :: rat

definition empty_export :: export_account where
  "empty_export = \<lparr> xa_exported_kwh = 0, xa_energy_sale = 0, xa_grid_benefit = 0, xa_spot_priced_kwh = 0,
     xa_fallback_priced_kwh = 0, xa_negative_price_kwh = 0 \<rparr>"

record export_totals =
  xt_exported_kwh :: rat
  xt_energy_sale :: rat
  xt_grid_benefit :: rat
  xt_export_revenue :: rat
  xt_sell_price :: "rat option"
  xt_spot_fraction :: rat
  xt_spot_quality :: money_quality
  xt_adjustment_quality :: money_quality
  xt_benefit_quality :: money_quality

definition ore_to_kr :: "rat \<Rightarrow> rat" where
  "ore_to_kr ore = ore / 100"

definition effective_sell_price :: "rat option \<Rightarrow> sell_config \<Rightarrow> rat \<times> money_quality \<times> money_quality" where
  "effective_sell_price market c =
     (let adjustment = ore_to_kr (sl_adjustment_ore c); deduction = ore_to_kr (sl_deduction_ore c) in
      case (sl_mode c = Flat_pricing, market) of
        (False, Some m) \<Rightarrow> (m + adjustment - deduction, MQ_ACTUAL,
          if sl_adjustment_ore c = 0 \<and> sl_deduction_ore c = 0
          then (if sl_provider c \<noteq> [] then MQ_MISSING else MQ_CALCULATED) else MQ_CALCULATED)
      | _ \<Rightarrow> (sl_fallback_price c + adjustment - deduction,
          (if sl_mode c = Flat_pricing then MQ_CALCULATED
           else if sl_fallback_price c > 0 then MQ_ESTIMATED else MQ_MISSING), MQ_CALCULATED))"

definition nothing_exported :: "rat option \<Rightarrow> export_interval" where
  "nothing_exported market = \<lparr> xi_exported_kwh = 0, xi_spot_price = market, xi_sell_price = 0, xi_energy_sale = 0,
     xi_grid_benefit = 0, xi_spot_quality = MQ_MISSING, xi_adjustment_quality = MQ_MISSING,
     xi_benefit_quality = MQ_MISSING \<rparr>"

definition accumulate_export_interval ::
  "rat \<Rightarrow> rat option \<Rightarrow> sell_config \<Rightarrow> export_account \<Rightarrow> export_interval \<times> export_account" where
  "accumulate_export_interval kwh market c acc =
     (if kwh \<le> 0 then (nothing_exported market, acc)
      else let sell = effective_sell_price market c;
               price = fst sell;
               sale = kwh * price;
               benefit = kwh * ore_to_kr (sl_grid_benefit_ore c);
               market_used = (market \<noteq> None \<and> sl_mode c \<in> {Spot_pricing, Feed_in_pricing})
           in (\<lparr> xi_exported_kwh = kwh, xi_spot_price = market, xi_sell_price = price, xi_energy_sale = sale,
                 xi_grid_benefit = benefit, xi_spot_quality = fst (snd sell), xi_adjustment_quality = snd (snd sell),
                 xi_benefit_quality = (if sl_grid_benefit_ore c > 0 then MQ_CALCULATED else MQ_MISSING) \<rparr>,
               acc\<lparr> xa_exported_kwh := xa_exported_kwh acc + kwh,
                    xa_energy_sale := xa_energy_sale acc + sale,
                    xa_grid_benefit := xa_grid_benefit acc + benefit,
                    xa_spot_priced_kwh := xa_spot_priced_kwh acc + (if market_used then kwh else 0),
                    xa_negative_price_kwh := xa_negative_price_kwh acc + (if market_used \<and> price < 0 then kwh else 0),
                    xa_fallback_priced_kwh := xa_fallback_priced_kwh acc + (if market_used then 0 else kwh) \<rparr>))"

definition finalize_export_totals ::
  "export_account \<Rightarrow> money_quality \<Rightarrow> money_quality \<Rightarrow> money_quality \<Rightarrow> export_totals" where
  "finalize_export_totals acc spot_q adjustment_q benefit_q =
     \<lparr> xt_exported_kwh = round_to 6 (xa_exported_kwh acc),
       xt_energy_sale = round_to 4 (xa_energy_sale acc),
       xt_grid_benefit = round_to 4 (xa_grid_benefit acc),
       xt_export_revenue = round_to 4 (xa_energy_sale acc + xa_grid_benefit acc),
       xt_sell_price = (if xa_exported_kwh acc > 0 then Some (round_to 6 (xa_energy_sale acc / xa_exported_kwh acc)) else None),
       xt_spot_fraction = round_to 4 (if xa_exported_kwh acc > 0 then xa_spot_priced_kwh acc / xa_exported_kwh acc else 0),
       xt_spot_quality = (if xa_spot_priced_kwh acc > 0 then MQ_ACTUAL
         else if xa_fallback_priced_kwh acc > 0 then MQ_ESTIMATED else spot_q),
       xt_adjustment_quality = adjustment_q, xt_benefit_quality = benefit_q \<rparr>"

text \<open>\<open>sell_price_config_from_site\<close> on the columns of a site; a missing text is \<open>feed_in\<close> or \<open>SE\<close>.\<close>

record sell_columns =
  cl_mode :: "string option"
  cl_provider :: "string option"
  cl_adjustment :: "rat option"
  cl_deduction :: "rat option"
  cl_benefit :: "rat option"
  cl_country :: "string option"
  cl_tax_credit :: bool
  cl_compensation :: rat
  cl_contract_start :: "date_key option"

definition text_or :: "string option \<Rightarrow> string \<Rightarrow> string" where
  "text_or s d = (case s of None \<Rightarrow> d | Some v \<Rightarrow> if v = [] then d else v)"

definition sell_price_config_from_site :: "sell_columns \<Rightarrow> sell_config" where
  "sell_price_config_from_site s =
     (let mode = text_or (cl_mode s) ''feed_in'' in
      \<lparr> sl_mode = (if mode = ''feed_in'' then Feed_in_pricing else if mode = ''flat'' then Flat_pricing else Spot_pricing),
        sl_provider = text_or (cl_provider s) [], sl_adjustment_ore = or_else (cl_adjustment s) 0,
        sl_deduction_ore = or_else (cl_deduction s) 0, sl_grid_benefit_ore = or_else (cl_benefit s) 0,
        sl_country = text_or (cl_country s) ''SE'', sl_tax_credit_enabled = cl_tax_credit s,
        sl_fallback_price = cl_compensation s, sl_contract_start = cl_contract_start s \<rparr>)"

subsection \<open>The tax credit\<close>

definition TAX_CREDIT_RATE :: rat where "TAX_CREDIT_RATE = 60/100"
definition TAX_CREDIT_YEAR_LIMIT_KWH :: rat where "TAX_CREDIT_YEAR_LIMIT_KWH = 30000"
definition TAX_CREDIT_END_YEAR :: int where "TAX_CREDIT_END_YEAR = 2025"

definition compute_yearly_tax_credit_kwh :: "int \<Rightarrow> rat \<Rightarrow> rat \<Rightarrow> string \<Rightarrow> bool \<Rightarrow> rat" where
  "compute_yearly_tax_credit_kwh year export imported country enabled =
     (if \<not> enabled \<or> py_upper country \<noteq> ''SE'' \<or> year > TAX_CREDIT_END_YEAR then 0
      else if export \<le> 0 then 0
      else min (min export imported) TAX_CREDIT_YEAR_LIMIT_KWH)"

definition compute_yearly_tax_credit_sek :: "int \<Rightarrow> rat \<Rightarrow> rat \<Rightarrow> string \<Rightarrow> bool \<Rightarrow> rat" where
  "compute_yearly_tax_credit_sek year export imported country enabled =
     round_to 2 (compute_yearly_tax_credit_kwh year export imported country enabled * TAX_CREDIT_RATE)"

definition allocate_yearly_tax_credit :: "rat \<Rightarrow> rat \<Rightarrow> rat \<Rightarrow> rat" where
  "allocate_yearly_tax_credit period_export yearly_export credit =
     (if credit \<le> 0 \<or> yearly_export \<le> 0 \<or> period_export \<le> 0 then 0
      else round_to 2 (credit * (period_export / yearly_export)))"

subsection \<open>Correlated telemetry\<close>

record sungrow_snapshot =
  sg_recorded_at :: time
  sg_pv_w :: "rat option"
  sg_load_w :: "rat option"
  sg_import_w :: "rat option"
  sg_export_w :: "rat option"
  sg_charge_w :: "rat option"
  sg_discharge_w :: "rat option"
  sg_soc_pct :: "rat option"
  sg_fresh :: bool
  sg_age_s :: "rat option"

record halo_snapshot =
  ha_recorded_at :: time
  ha_power_w :: "rat option"

record virtual_evse =
  ve_recorded_at :: time
  ve_reported_w :: "rat option"

record heartbeat_state =
  hb_recorded_at :: time
  hb_home_w :: "rat option"
  hb_ev_w :: "rat option"

record correlated =
  co_recorded_at :: time
  co_aligned :: bool
  co_delta_s :: "rat option"
  co_sungrow :: "sungrow_snapshot option"
  co_halo :: "halo_snapshot option"
  co_evse :: "virtual_evse option"
  co_heartbeat :: "heartbeat_state option"
  co_failure :: "string option"

definition telemetry_times ::
  "sungrow_snapshot option \<Rightarrow> halo_snapshot option \<Rightarrow> virtual_evse option \<Rightarrow> heartbeat_state option \<Rightarrow> time list" where
  "telemetry_times s h v b = List.map_filter id [map_option sg_recorded_at s, map_option ha_recorded_at h,
     map_option ve_recorded_at v, map_option hb_recorded_at b]"

text \<open>\<open>clock\<close> is the \<open>datetime.now\<close> of the case without telemetry.\<close>

definition correlate_telemetry ::
  "sungrow_snapshot option \<Rightarrow> halo_snapshot option \<Rightarrow> virtual_evse option \<Rightarrow> heartbeat_state option \<Rightarrow> rat \<Rightarrow> time
     \<Rightarrow> correlated" where
  "correlate_telemetry s h v b max_age clock =
     (let ts = telemetry_times s h v b;
          result = \<lparr> co_recorded_at = clock, co_aligned = False, co_delta_s = None, co_sungrow = s, co_halo = h,
            co_evse = v, co_heartbeat = b, co_failure = Some ''no_telemetry'' \<rparr>
      in if ts = [] then result
         else let newest = Max (set ts); delta = Max (set (map (\<lambda>t. \<bar>elapsed_s newest t\<bar>) ts)) in
           if delta \<le> max_age
           then result\<lparr> co_recorded_at := newest, co_aligned := True, co_delta_s := Some delta, co_failure := None \<rparr>
           else result\<lparr> co_recorded_at := newest, co_delta_s := Some delta, co_failure := Some ''timestamp_mismatch'' \<rparr>)"

subsection \<open>The balance\<close>

datatype balance_status =
  BALANCE_OK | BALANCE_DEGRADED | ALIGNMENT_FAILED | RESIDUAL_HIGH | POSSIBLE_DOUBLE_COUNTING

record balance_engine =
  be_residual_warn_w :: rat
  be_double_tolerance_w :: rat

record balance_snapshot =
  bs_recorded_at :: time
  bs_status :: balance_status
  bs_flags :: "string list"
  bs_telemetry :: correlated
  bs_non_ev_load_w :: "rat option"
  bs_non_ev_reason :: "string option"
  bs_residual_w :: "rat option"

definition balance_residual :: "sungrow_snapshot \<Rightarrow> rat option" where
  "balance_residual s = (case (sg_pv_w s, sg_import_w s, sg_discharge_w s, sg_load_w s, sg_charge_w s, sg_export_w s) of
     (Some pv, Some im, Some di, Some lo, Some ch, Some ex) \<Rightarrow> Some ((pv + im + di) - (lo + ch + ex))
   | _ \<Rightarrow> None)"

definition non_ev_load ::
  "sungrow_snapshot option \<Rightarrow> halo_snapshot option \<Rightarrow> bool option \<Rightarrow> rat option \<times> string option" where
  "non_ev_load s h includes_ev = (case includes_ev of
     None \<Rightarrow> (None, Some ''load_includes_ev_charger_unknown'')
   | Some False \<Rightarrow> (None, Some ''load_excludes_ev_by_config'')
   | Some True \<Rightarrow> (case (s, h) of
       (Some s, Some h) \<Rightarrow> (case (sg_load_w s, ha_power_w h) of
           (Some l, Some p) \<Rightarrow> if \<not> sg_fresh s then (None, Some ''sungrow_stale'') else (Some (max 0 (l - p)), None)
         | _ \<Rightarrow> (None, Some ''missing_load_or_halo_power''))
     | _ \<Rightarrow> (None, Some ''missing_sungrow_or_halo'')))"

definition double_counting_suspected ::
  "rat \<Rightarrow> sungrow_snapshot option \<Rightarrow> halo_snapshot option \<Rightarrow> heartbeat_state option \<Rightarrow> rat option \<Rightarrow> bool" where
  "double_counting_suspected tolerance s h b load =
     (case (Option.bind b hb_home_w, Option.bind h ha_power_w) of
        (Some reported, Some p) \<Rightarrow>
          (case (case load of Some l \<Rightarrow> Some (l + p) | None \<Rightarrow> Option.bind s sg_load_w) of
             None \<Rightarrow> False | Some expected \<Rightarrow> \<bar>reported - expected - p\<bar> < tolerance)
      | _ \<Rightarrow> False)"

definition calculate_balance :: "balance_engine \<Rightarrow> correlated \<Rightarrow> bool option \<Rightarrow> balance_snapshot" where
  "calculate_balance e c includes_ev =
     (let s = co_sungrow c;
          degraded = (case s of None \<Rightarrow> True | Some s \<Rightarrow> \<not> sg_fresh s);
          flags0 = (case s of None \<Rightarrow> [''sungrow_unavailable''] | Some s \<Rightarrow> if sg_fresh s then [] else [''sungrow_stale'']);
          result = \<lparr> bs_recorded_at = co_recorded_at c, bs_status = ALIGNMENT_FAILED, bs_flags = flags0 @ [''alignment_failed''],
            bs_telemetry = c, bs_non_ev_load_w = None, bs_non_ev_reason = co_failure c, bs_residual_w = None \<rparr>
      in if \<not> co_aligned c then result
         else let residual = Option.bind s balance_residual;
                  high = (case residual of None \<Rightarrow> False | Some r \<Rightarrow> \<bar>r\<bar> > be_residual_warn_w e);
                  load = non_ev_load s (co_halo c) includes_ev;
                  double = double_counting_suspected (be_double_tolerance_w e) s (co_halo c) (co_heartbeat c) (fst load)
              in result\<lparr> bs_status := (if double then POSSIBLE_DOUBLE_COUNTING else if degraded then BALANCE_DEGRADED
                     else if high then RESIDUAL_HIGH else BALANCE_OK),
                   bs_flags := flags0 @ (if high then [''residual_high''] else []) @ (if double then [''possible_double_counting''] else []),
                   bs_non_ev_load_w := fst load, bs_non_ev_reason := snd load, bs_residual_w := residual \<rparr>)"


subsection \<open>What the accounts promise\<close>

text \<open>Every exported kilowatt-hour is priced one way, and negative prices are market prices.\<close>

definition export_ok :: "export_account \<Rightarrow> bool" where
  "export_ok a \<longleftrightarrow> xa_exported_kwh a = xa_spot_priced_kwh a + xa_fallback_priced_kwh a
     \<and> 0 \<le> xa_spot_priced_kwh a \<and> 0 \<le> xa_fallback_priced_kwh a
     \<and> 0 \<le> xa_negative_price_kwh a \<and> xa_negative_price_kwh a \<le> xa_spot_priced_kwh a"

lemma empty_export_ok: "export_ok empty_export"
  by (simp add: export_ok_def empty_export_def)

lemma accumulate_keeps: "export_ok a \<Longrightarrow> export_ok (snd (accumulate_export_interval kwh market c a))"
  by (auto simp: accumulate_export_interval_def Let_def export_ok_def)

interpretation exports: kept_invariant
  "\<lambda>a x. snd (accumulate_export_interval (fst x) (fst (snd x)) (snd (snd x)) a)" "\<lambda>x. True" export_ok
  by unfold_locales (rule accumulate_keeps)

text \<open>A credit split over periods that make up the yearly export adds up to it, within half an \<open>ore\<close> each.\<close>

lemma allocated_near:
  assumes "0 \<le> x" "0 < y" "0 \<le> credit"
  shows "\<bar>allocate_yearly_tax_credit x y credit - credit * (x / y)\<bar> \<le> 1/200"
proof (cases "credit \<le> 0 \<or> x \<le> 0")
  case True
  then have "credit * (x / y) = 0" using assms by auto
  then show ?thesis using True by (auto simp: allocate_yearly_tax_credit_def)
next
  case False
  then show ?thesis using round_to_near [of 2 "credit * (x / y)"] assms by (simp add: allocate_yearly_tax_credit_def)
qed

theorem allocation_adds_up:
  assumes "\<forall>x \<in> set parts. 0 \<le> x" "sum_list parts = y" "0 < y" "0 \<le> credit"
  shows "\<bar>sum_list (map (\<lambda>x. allocate_yearly_tax_credit x y credit) parts) - credit\<bar> \<le> of_nat (length parts) / 200"
proof -
  have "\<bar>sum_list (map (\<lambda>x. allocate_yearly_tax_credit x y credit) ps) - credit * (sum_list ps / y)\<bar> \<le> of_nat (length ps) / 200"
    if "\<forall>x \<in> set ps. 0 \<le> x" for ps
    using that
  proof (induction ps)
    case (Cons p ps)
    let ?a = "allocate_yearly_tax_credit p y credit" and ?A = "sum_list (map (\<lambda>x. allocate_yearly_tax_credit x y credit) ps)"
    have head: "\<bar>?a - credit * (p / y)\<bar> \<le> 1/200"
      using allocated_near assms Cons.prems by simp
    have tail: "\<bar>?A - credit * (sum_list ps / y)\<bar> \<le> of_nat (length ps) / 200"
      by (rule Cons.IH) (use Cons.prems in simp)
    have whole: "credit * (sum_list (p # ps) / y) = credit * (p / y) + credit * (sum_list ps / y)"
      by (simp add: add_divide_distrib distrib_left)
    have many: "of_nat (length (p # ps)) / 200 = 1/200 + (of_nat (length ps) / 200 :: rat)"
      by (simp add: add_divide_distrib)
    have "\<bar>(?a + ?A) - (credit * (p / y) + credit * (sum_list ps / y))\<bar> \<le> 1/200 + of_nat (length ps) / 200"
      using head tail by linarith
    then show ?case unfolding whole many by simp
  qed simp
  from this [OF assms(1)] show ?thesis using assms(2,3) by simp
qed

text \<open>The load without the car is never negative, and it is told only with a fresh inverter and a metered car.\<close>

lemma non_ev_load_some:
  "fst (non_ev_load s h b) = Some l \<Longrightarrow> 0 \<le> l \<and> b = Some True \<and> (\<exists>x. s = Some x \<and> sg_fresh x) \<and> h \<noteq> None"
  by (auto simp: non_ev_load_def split: option.splits bool.splits if_splits)

text \<open>
  The suspicion of double counting adds the car's power to a total that already holds it, so it is
  raised whenever the car draws next to nothing and the meters agree.
\<close>

lemma double_counting_when_idle:
  assumes "hb_home_w b = Some reported" "ha_power_w h = Some p" "sg_load_w s = Some reported" "\<bar>p\<bar> < tolerance"
  shows "double_counting_suspected tolerance (Some s) (Some h) (Some b) None"
  using assms by (simp add: double_counting_suspected_def)

end
