(* ===== verification/Financial_Stats.thy ===== *)
theory Financial_Stats
  imports Energy_Accounts Ev_Sessions
begin

section \<open>Financial statistics\<close>

text \<open>
  \<open>financial/aggregation.py\<close> (statistics of a day, a month or a year integrated from the readings, the
  same from stored daily accumulators), \<open>financial/service.py\<close> and \<open>financial/daily_repo.py\<close> (the rollup
  into the daily table) and \<open>list_financial_stats\<close> of \<open>db/repositories.py\<close>, which answers from either.
  A period is named by the numbers of its date: \<open>[y, m, d]\<close>, \<open>[y, m]\<close> or \<open>[y]\<close> for the strings
  \<open>%Y-%m-%d\<close>, \<open>%Y-%m\<close> and \<open>%Y\<close>. The local date of an instant is a parameter. The last section shows that
  both ways of the query give the same statistics, up to an \<open>ore\<close> of rounding in three of them.
\<close>

subsection \<open>Readings and prices\<close>

definition MAX_INTERVAL_SECONDS :: rat where "MAX_INTERVAL_SECONDS = 300"

datatype peak_period = PEAK_DAY | PEAK_MONTH | PEAK_YEAR

record fin_reading =
  fr_site :: nat
  fr_at :: time
  fr_solar_w :: "rat option"
  fr_consumption_w :: "rat option"
  fr_battery_w :: "rat option"
  fr_import_w :: "rat option"
  fr_export_w :: "rat option"

record price_maps =
  pm_purchase :: "(time \<times> rat) list"
  pm_spot :: "(time \<times> rat) list"
  pm_feed_in :: "(time \<times> rat) list"

definition put_price :: "rat \<Rightarrow> time \<Rightarrow> rat option \<Rightarrow> (time \<times> rat) list \<Rightarrow> (time \<times> rat) list" where
  "put_price rate k v d = (case v of None \<Rightarrow> d
     | Some x \<Rightarrow> AList.update k (num_or (stored_eur_to_sek_kwh rate (Some x)) 0) d)"

definition add_price_row :: "rat \<Rightarrow> price_maps \<Rightarrow> time \<times> price_row \<Rightarrow> price_maps" where
  "add_price_row rate m row =
     (let k = hour_key (fst row); r = snd row in
      m\<lparr> pm_purchase := put_price rate k (mp_all_in_price_eur_kwh r) (pm_purchase m),
         pm_spot := put_price rate k (mp_spot_price_eur_kwh r) (pm_spot m),
         pm_feed_in := (case feed_in_price_sek_kwh rate (Some r) of None \<Rightarrow> pm_feed_in m
           | Some v \<Rightarrow> AList.update k v (pm_feed_in m)) \<rparr>)"

definition build_price_maps :: "rat \<Rightarrow> (time \<times> price_row) list \<Rightarrow> price_maps" where
  "build_price_maps rate rows =
     foldl (add_price_row rate) \<lparr> pm_purchase = [], pm_spot = [], pm_feed_in = [] \<rparr> rows"

text \<open>What both integrations take from a pair of readings; \<open>None\<close> is \<open>continue\<close>.\<close>

record fin_interval =
  fi_date :: date_key
  fi_solar :: rat
  fi_battery :: rat
  fi_export :: rat
  fi_import :: rat
  fi_market :: "rat option"
  fi_export_price :: "rat option"

record fin_env =
  fe_local_date :: "time \<Rightarrow> date_key"
  fe_fallback :: rat
  fe_config :: sell_config

definition power_or_0 :: "rat option \<Rightarrow> rat" where
  "power_or_0 x = max 0 (num_or x 0)"

definition fin_interval_of :: "fin_env \<Rightarrow> price_maps \<Rightarrow> fin_reading \<times> fin_reading \<Rightarrow> fin_interval option" where
  "fin_interval_of env prices pair =
     (let prev = fst pair; seconds = elapsed_s (fr_at (snd pair)) (fr_at prev) in
      if seconds \<le> 0 \<or> seconds > MAX_INTERVAL_SECONDS then None
      else let hours = seconds / 3600;
               solar_w = power_or_0 (fr_solar_w prev);
               consumption_w = power_or_0 (fr_consumption_w prev);
               discharge_w = max 0 (- num_or (fr_battery_w prev) 0);
               imported_w = power_or_0 (fr_import_w prev);
               exported_w = power_or_0 (fr_export_w prev);
               solar_self_w = min solar_w (max 0 (consumption_w - discharge_w - imported_w));
               battery_self_w = min discharge_w (max 0 (consumption_w - solar_self_w));
               price_key = hour_key (fr_at prev)
           in Some \<lparr> fi_date = fe_local_date env (fr_at prev),
                fi_solar = solar_self_w * hours / 1000, fi_battery = battery_self_w * hours / 1000,
                fi_export = exported_w * hours / 1000, fi_import = imported_w * hours / 1000,
                fi_market = map_of (pm_purchase prices) price_key,
                fi_export_price = (case sl_mode (fe_config env) of
                    Feed_in_pricing \<Rightarrow> map_of (pm_feed_in prices) price_key
                  | Spot_pricing \<Rightarrow> map_of (pm_spot prices) price_key
                  | Flat_pricing \<Rightarrow> None) \<rparr>)"

definition fin_intervals :: "fin_env \<Rightarrow> price_maps \<Rightarrow> fin_reading list \<Rightarrow> fin_interval list" where
  "fin_intervals env prices rs = List.map_filter (fin_interval_of env prices) (zip rs (tl rs))"

definition purchase_price :: "fin_env \<Rightarrow> fin_interval \<Rightarrow> rat" where
  "purchase_price env i = or_else (fi_market i) (fe_fallback env)"

definition under_contract :: "sell_config \<Rightarrow> fin_interval \<Rightarrow> bool" where
  "under_contract c i = (case sl_contract_start c of None \<Rightarrow> True | Some s \<Rightarrow> s \<le> fi_date i)"

definition used_kwh :: "fin_interval \<Rightarrow> rat" where
  "used_kwh i = fi_solar i + fi_battery i + fi_import i"

subsection \<open>Statistics from the readings\<close>

definition fin_period_key :: "peak_period \<Rightarrow> date_key \<Rightarrow> date_key" where
  "fin_period_key p d = (case p of PEAK_DAY \<Rightarrow> d | PEAK_MONTH \<Rightarrow> take 2 d | PEAK_YEAR \<Rightarrow> take 1 d)"

text \<open>\<open>d[k] = f(d.setdefault(k, e))\<close>.\<close>

definition dict_bump :: "'k \<Rightarrow> ('v \<Rightarrow> 'v) \<Rightarrow> 'v \<Rightarrow> ('k \<times> 'v) list \<Rightarrow> ('k \<times> 'v) list" where
  "dict_bump k f e d = AList.update k (f (or_else (map_of d k) e)) d"

record fin_values =
  fv_solar :: rat
  fv_battery :: rat
  fv_export :: rat
  fv_import :: rat
  fv_solar_savings :: rat
  fv_battery_savings :: rat
  fv_import_cost :: rat
  fv_denominator :: rat
  fv_market :: rat

definition zero_values :: fin_values where
  "zero_values = \<lparr> fv_solar = 0, fv_battery = 0, fv_export = 0, fv_import = 0, fv_solar_savings = 0,
     fv_battery_savings = 0, fv_import_cost = 0, fv_denominator = 0, fv_market = 0 \<rparr>"

definition add_values :: "fin_env \<Rightarrow> fin_values \<Rightarrow> fin_interval \<Rightarrow> fin_values" where
  "add_values env v i =
     v\<lparr> fv_solar := fv_solar v + fi_solar i, fv_battery := fv_battery v + fi_battery i,
        fv_export := fv_export v + fi_export i, fv_import := fv_import v + fi_import i,
        fv_solar_savings := fv_solar_savings v + fi_solar i * purchase_price env i,
        fv_battery_savings := fv_battery_savings v + fi_battery i * purchase_price env i,
        fv_import_cost := fv_import_cost v + fi_import i * purchase_price env i,
        fv_denominator := fv_denominator v + used_kwh i,
        fv_market := fv_market v + (if fi_market i \<noteq> None then used_kwh i else 0) \<rparr>"

record fin_state =
  fs_totals :: "(date_key \<times> fin_values) list"
  fs_exports :: "(date_key \<times> export_account) list"
  fs_pre_contract :: "(date_key \<times> rat) list"
  fs_yearly_export :: "(int \<times> rat) list"
  fs_yearly_import :: "(int \<times> rat) list"

definition empty_stats :: fin_state where
  "empty_stats = \<lparr> fs_totals = [], fs_exports = [], fs_pre_contract = [], fs_yearly_export = [], fs_yearly_import = [] \<rparr>"

definition add_export :: "sell_config \<Rightarrow> fin_interval \<Rightarrow> export_account \<Rightarrow> export_account" where
  "add_export c i acc = snd (accumulate_export_interval (fi_export i) (fi_export_price i) c acc)"

definition stats_step :: "peak_period \<Rightarrow> fin_env \<Rightarrow> fin_state \<Rightarrow> fin_interval \<Rightarrow> fin_state" where
  "stats_step p env st i =
     (let key = fin_period_key p (fi_date i); year = hd (fi_date i); c = fe_config env;
          st = st\<lparr> fs_totals := dict_bump key (\<lambda>v. add_values env v i) zero_values (fs_totals st),
                   fs_yearly_import := dict_bump year (\<lambda>x. x + fi_import i) 0 (fs_yearly_import st) \<rparr>
      in if under_contract c i
         then st\<lparr> fs_yearly_export := dict_bump year (\<lambda>x. x + fi_export i) 0 (fs_yearly_export st),
                  fs_exports := dict_bump key (add_export c i) empty_export (fs_exports st) \<rparr>
         else if fi_export i > 0
         then st\<lparr> fs_pre_contract := dict_bump key (\<lambda>x. x + fi_export i) 0 (fs_pre_contract st) \<rparr>
         else st)"

definition yearly_credits :: "sell_config \<Rightarrow> (int \<times> rat) list \<Rightarrow> (int \<times> rat) list \<Rightarrow> (int \<times> rat) list" where
  "yearly_credits c exports imports = map (\<lambda>ye. (fst ye, compute_yearly_tax_credit_sek (fst ye) (snd ye)
     (or_else (map_of imports (fst ye)) 0) (sl_country c) (sl_tax_credit_enabled c))) exports"

definition period_tax :: "sell_config \<Rightarrow> (int \<times> rat) list \<Rightarrow> (int \<times> rat) list \<Rightarrow> date_key \<Rightarrow> rat \<Rightarrow> rat" where
  "period_tax c exports imports key exported =
     allocate_yearly_tax_credit exported (or_else (map_of exports (hd key)) 0)
       (or_else (map_of (yearly_credits c exports imports) (hd key)) 0)"

record fin_stat =
  st_period_start :: date_key
  st_solar_self_kwh :: rat
  st_battery_self_kwh :: rat
  st_exported_kwh :: rat
  st_imported_kwh :: rat
  st_solar_savings :: rat
  st_battery_savings :: rat
  st_export_revenue :: rat
  st_import_cost :: rat
  st_market_fraction :: rat
  st_energy_sale :: rat
  st_grid_benefit :: rat
  st_tax_credit :: rat
  st_sell_price :: "rat option"
  st_spot_fraction :: rat
  st_uncontracted_kwh :: rat

definition stats_result :: "sell_config \<Rightarrow> fin_state \<Rightarrow> date_key \<times> fin_values \<Rightarrow> fin_stat" where
  "stats_result c st kv =
     (let key = fst kv; v = snd kv;
          export = finalize_export_totals (or_else (map_of (fs_exports st) key) empty_export) MQ_MISSING MQ_MISSING MQ_MISSING
      in \<lparr> st_period_start = key, st_solar_self_kwh = round_to 3 (fv_solar v), st_battery_self_kwh = round_to 3 (fv_battery v),
           st_exported_kwh = round_to 3 (fv_export v), st_imported_kwh = round_to 3 (fv_import v),
           st_solar_savings = round_to 2 (fv_solar_savings v), st_battery_savings = round_to 2 (fv_battery_savings v),
           st_export_revenue = round_to 2 (xt_export_revenue export), st_import_cost = round_to 2 (fv_import_cost v),
           st_market_fraction = (if fv_denominator v > 0 then round_to 3 (fv_market v / fv_denominator v) else 0),
           st_energy_sale = round_to 2 (xt_energy_sale export), st_grid_benefit = round_to 2 (xt_grid_benefit export),
           st_tax_credit = period_tax c (fs_yearly_export st) (fs_yearly_import st) key (fv_export v),
           st_sell_price = xt_sell_price export, st_spot_fraction = xt_spot_fraction export,
           st_uncontracted_kwh = round_to 3 (or_else (map_of (fs_pre_contract st) key) 0) \<rparr>)"

definition integrate_financial_stats :: "peak_period \<Rightarrow> fin_env \<Rightarrow> price_maps \<Rightarrow> fin_reading list \<Rightarrow> fin_stat list" where
  "integrate_financial_stats p env prices rs =
     (if length rs < 2 then []
      else let st = foldl (stats_step p env) empty_stats (fin_intervals env prices rs)
           in map (stats_result (fe_config env) st) (sort_key fst (fs_totals st)))"

subsection \<open>Daily accumulators\<close>

record fin_day =
  fd_day :: date_key
  fd_solar_self :: rat
  fd_battery_self :: rat
  fd_export :: rat
  fd_import :: rat
  fd_solar_savings :: rat
  fd_battery_savings :: rat
  fd_import_cost :: rat
  fd_market :: rat
  fd_denominator :: rat
  fd_energy_sale :: rat
  fd_grid_benefit :: rat
  fd_spot_priced :: rat
  fd_fallback_priced :: rat
  fd_negative_price :: rat
  fd_contracted :: rat
  fd_uncontracted :: rat

definition empty_day :: "date_key \<Rightarrow> fin_day" where
  "empty_day d = \<lparr> fd_day = d, fd_solar_self = 0, fd_battery_self = 0, fd_export = 0, fd_import = 0, fd_solar_savings = 0,
     fd_battery_savings = 0, fd_import_cost = 0, fd_market = 0, fd_denominator = 0, fd_energy_sale = 0,
     fd_grid_benefit = 0, fd_spot_priced = 0, fd_fallback_priced = 0, fd_negative_price = 0, fd_contracted = 0,
     fd_uncontracted = 0 \<rparr>"

definition day_values :: "fin_env \<Rightarrow> fin_interval \<Rightarrow> fin_day \<Rightarrow> fin_day" where
  "day_values env i a =
     a\<lparr> fd_solar_self := fd_solar_self a + fi_solar i, fd_battery_self := fd_battery_self a + fi_battery i,
        fd_export := fd_export a + fi_export i, fd_import := fd_import a + fi_import i,
        fd_solar_savings := fd_solar_savings a + fi_solar i * purchase_price env i,
        fd_battery_savings := fd_battery_savings a + fi_battery i * purchase_price env i,
        fd_import_cost := fd_import_cost a + fi_import i * purchase_price env i,
        fd_market := fd_market a + (if fi_market i \<noteq> None then used_kwh i else 0),
        fd_denominator := fd_denominator a + fi_solar i + fi_battery i + fi_import i \<rparr>"

text \<open>The account of the day goes through the accumulator of the exports and back.\<close>

definition day_account :: "fin_day \<Rightarrow> export_account" where
  "day_account a = \<lparr> xa_exported_kwh = fd_contracted a, xa_energy_sale = fd_energy_sale a,
     xa_grid_benefit = fd_grid_benefit a, xa_spot_priced_kwh = fd_spot_priced a,
     xa_fallback_priced_kwh = fd_fallback_priced a, xa_negative_price_kwh = fd_negative_price a \<rparr>"

definition day_export :: "sell_config \<Rightarrow> fin_interval \<Rightarrow> fin_day \<Rightarrow> fin_day" where
  "day_export c i a =
     (if under_contract c i \<and> fi_export i > 0
      then let x = add_export c i (day_account a) in
        a\<lparr> fd_energy_sale := xa_energy_sale x, fd_grid_benefit := xa_grid_benefit x,
           fd_spot_priced := xa_spot_priced_kwh x, fd_fallback_priced := xa_fallback_priced_kwh x,
           fd_negative_price := xa_negative_price_kwh x, fd_contracted := xa_exported_kwh x \<rparr>
      else if fi_export i > 0 then a\<lparr> fd_uncontracted := fd_uncontracted a + fi_export i \<rparr>
      else a)"

definition daily_step :: "fin_env \<Rightarrow> (date_key \<times> fin_day) list \<Rightarrow> fin_interval \<Rightarrow> (date_key \<times> fin_day) list" where
  "daily_step env daily i =
     dict_bump (fi_date i) (\<lambda>a. day_export (fe_config env) i (day_values env i a)) (empty_day (fi_date i)) daily"

definition integrate_financial_daily_accumulators ::
  "fin_env \<Rightarrow> price_maps \<Rightarrow> fin_reading list \<Rightarrow> (date_key \<times> fin_day) list" where
  "integrate_financial_daily_accumulators env prices rs =
     (if length rs < 2 then [] else foldl (daily_step env) [] (fin_intervals env prices rs))"

definition group_row :: "peak_period \<Rightarrow> (date_key \<times> fin_day list) list \<Rightarrow> fin_day \<Rightarrow> (date_key \<times> fin_day list) list" where
  "group_row p g row = dict_bump (fin_period_key p (fd_day row)) (\<lambda>rows. rows @ [row]) [] g"

definition sum_of :: "(fin_day \<Rightarrow> rat) \<Rightarrow> fin_day list \<Rightarrow> rat" where
  "sum_of f rows = sum_list (map f rows)"

definition ratio_or_0 :: "nat \<Rightarrow> rat \<Rightarrow> rat \<Rightarrow> rat" where
  "ratio_or_0 n x y = (if y > 0 then round_to n (x / y) else 0)"

definition grouped_result ::
  "sell_config \<Rightarrow> (int \<times> rat) list \<Rightarrow> (int \<times> rat) list \<Rightarrow> date_key \<times> fin_day list \<Rightarrow> fin_stat" where
  "grouped_result c exports imports kr =
     (let key = fst kr; rows = snd kr;
          energy_sale = sum_of fd_energy_sale rows; grid_benefit = sum_of fd_grid_benefit rows;
          contracted = sum_of fd_contracted rows
      in \<lparr> st_period_start = key, st_solar_self_kwh = round_to 3 (sum_of fd_solar_self rows),
           st_battery_self_kwh = round_to 3 (sum_of fd_battery_self rows),
           st_exported_kwh = round_to 3 (sum_of fd_export rows), st_imported_kwh = round_to 3 (sum_of fd_import rows),
           st_solar_savings = round_to 2 (sum_of fd_solar_savings rows),
           st_battery_savings = round_to 2 (sum_of fd_battery_savings rows),
           st_export_revenue = round_to 2 (energy_sale + grid_benefit),
           st_import_cost = round_to 2 (sum_of fd_import_cost rows),
           st_market_fraction = ratio_or_0 3 (sum_of fd_market rows) (sum_of fd_denominator rows),
           st_energy_sale = round_to 2 energy_sale, st_grid_benefit = round_to 2 grid_benefit,
           st_tax_credit = period_tax c exports imports key (sum_of fd_export rows),
           st_sell_price = (if contracted > 0 then Some (round_to 6 (energy_sale / contracted)) else None),
           st_spot_fraction = round_to 4 (if contracted > 0 then sum_of fd_spot_priced rows / contracted else 0),
           st_uncontracted_kwh = round_to 3 (sum_of fd_uncontracted rows) \<rparr>)"

definition yearly_sums :: "(fin_day \<Rightarrow> rat) \<Rightarrow> fin_day list \<Rightarrow> (int \<times> rat) list" where
  "yearly_sums f rows = foldl (\<lambda>d row. dict_bump (hd (fd_day row)) (\<lambda>x. x + f row) 0 d) [] rows"

definition aggregate_daily_to_period_stats :: "peak_period \<Rightarrow> sell_config \<Rightarrow> fin_day list \<Rightarrow> fin_stat list" where
  "aggregate_daily_to_period_stats p c rows =
     map (grouped_result c (yearly_sums fd_contracted rows) (yearly_sums fd_import rows))
       (sort_key fst (foldl (group_row p) [] rows))"

subsection \<open>The daily table and the query\<close>

type_synonym daily_table = "((nat \<times> date_key) \<times> fin_day) list"

definition fin_upsert :: "nat \<Rightarrow> daily_table \<Rightarrow> fin_day \<Rightarrow> daily_table" where
  "fin_upsert site_id t a = AList.update (site_id, fd_day a) a t"

definition daily_for_site :: "daily_table \<Rightarrow> nat \<Rightarrow> date_key option \<Rightarrow> date_key option \<Rightarrow> fin_day list" where
  "daily_for_site t site_id from_day to_day = map snd (sort_key fst (map (\<lambda>x. (snd (fst x), snd x))
     (filter (\<lambda>x. fst (fst x) = site_id \<and> (case from_day of None \<Rightarrow> True | Some d \<Rightarrow> d \<le> snd (fst x))
        \<and> (case to_day of None \<Rightarrow> True | Some d \<Rightarrow> snd (fst x) < d)) t)))"

record fin_db =
  db_readings :: "fin_reading list"
  db_prices :: "(nat \<times> time \<times> price_row) list"
  db_daily :: daily_table

definition in_range :: "time option \<Rightarrow> time option \<Rightarrow> time \<Rightarrow> bool" where
  "in_range from_time to_time t \<longleftrightarrow> (case from_time of None \<Rightarrow> True | Some a \<Rightarrow> a \<le> t)
     \<and> (case to_time of None \<Rightarrow> True | Some b \<Rightarrow> t < b)"

definition site_readings :: "fin_db \<Rightarrow> nat \<Rightarrow> time option \<Rightarrow> time option \<Rightarrow> fin_reading list" where
  "site_readings db site_id from_time to_time =
     sort_key fr_at (filter (\<lambda>r. fr_site r = site_id \<and> in_range from_time to_time (fr_at r)) (db_readings db))"

definition site_prices :: "rat \<Rightarrow> fin_db \<Rightarrow> nat \<Rightarrow> time option \<Rightarrow> time option \<Rightarrow> price_maps" where
  "site_prices rate db site_id from_time to_time = build_price_maps rate
     (map snd (filter (\<lambda>x. fst x = site_id \<and> in_range from_time to_time (fst (snd x))) (db_prices db)))"

text \<open>The window of a rollup, local midnight some days ago to a day from now, is a parameter; the number of rows is returned.\<close>

definition rollup_site :: "fin_env \<Rightarrow> rat \<Rightarrow> time \<Rightarrow> time \<Rightarrow> nat \<Rightarrow> fin_db \<Rightarrow> nat \<times> fin_db" where
  "rollup_site env rate start_utc end_utc site_id db =
     (let daily = integrate_financial_daily_accumulators env (site_prices rate db site_id (Some start_utc) (Some end_utc))
            (site_readings db site_id (Some start_utc) (Some end_utc))
      in (length daily, db\<lparr> db_daily := foldl (fin_upsert site_id) (db_daily db) (map snd daily) \<rparr>))"

text \<open>\<open>day_of\<close> is \<open>date()\<close> of a bound in its own time zone.\<close>

definition list_financial_stats ::
  "fin_env \<Rightarrow> rat \<Rightarrow> (time \<Rightarrow> date_key) \<Rightarrow> fin_db \<Rightarrow> nat \<Rightarrow> peak_period \<Rightarrow> time option \<Rightarrow> time option \<Rightarrow> bool \<Rightarrow> fin_stat list" where
  "list_financial_stats env rate day_of db site_id p from_time to_time use_aggregates =
     (let daily = daily_for_site (db_daily db) site_id (map_option day_of from_time) (map_option day_of to_time) in
      if use_aggregates \<and> daily \<noteq> [] then aggregate_daily_to_period_stats p (fe_config env) daily
      else integrate_financial_stats p env (site_prices rate db site_id from_time to_time)
             (site_readings db site_id from_time to_time))"

subsection \<open>Grouped folds\<close>

lemma map_of_bump:
  "map_of (dict_bump k f e d) = (map_of d)(k \<mapsto> f (or_else (map_of d k) e))"
  by (simp add: dict_bump_def)

lemma keys_bump: "distinct (map fst d) \<Longrightarrow> distinct (map fst (dict_bump k f e d))"
  by (simp add: dict_bump_def distinct_keys_update)

text \<open>A dictionary that folds the elements of each key holds, under a key, the fold of the elements with it.\<close>

definition folded :: "('x \<Rightarrow> 'k) \<Rightarrow> ('v \<Rightarrow> 'x \<Rightarrow> 'v) \<Rightarrow> ('k \<Rightarrow> 'v) \<Rightarrow> 'x list \<Rightarrow> ('k \<times> 'v) list" where
  "folded key f e xs = foldl (\<lambda>d x. dict_bump (key x) (\<lambda>v. f v x) (e (key x)) d) [] xs"

lemma folded_snoc: "folded key f e (xs @ [x]) = dict_bump (key x) (\<lambda>v. f v x) (e (key x)) (folded key f e xs)"
  by (simp add: folded_def)

lemma folded_lookup:
  "or_else (map_of (folded key f e xs) k) (e k) = foldl f (e k) (filter (\<lambda>x. key x = k) xs)"
proof (induction xs rule: rev_induct)
  case Nil
  then show ?case by (simp add: folded_def)
next
  case (snoc x xs)
  then show ?case by (cases "key x = k") (simp_all add: folded_snoc map_of_bump)
qed

lemma folded_keys: "fst ` set (folded key f e xs) = key ` set xs \<and> distinct (map fst (folded key f e xs))"
proof (induction xs rule: rev_induct)
  case Nil
  then show ?case by (simp add: folded_def)
next
  case (snoc x xs)
  have "fst ` set (folded key f e (xs @ [x])) = dom (map_of (folded key f e (xs @ [x])))"
    by (simp add: dom_map_of_conv_image_fst)
  also have "\<dots> = insert (key x) (key ` set xs)"
    using snoc by (simp add: folded_snoc map_of_bump dom_map_of_conv_image_fst)
  finally show ?case using snoc by (simp add: folded_snoc keys_bump)
qed

lemma folded_none: "map_of (folded key f e xs) k = None \<longleftrightarrow> k \<notin> key ` set xs"
  using folded_keys [of key f e xs] by (metis dom_map_of_conv_image_fst domIff)

lemma folded_sum_lookup:
  "or_else (map_of (folded key (\<lambda>v x. v + g x) (\<lambda>_. 0) xs) k) 0 = (\<Sum>x\<leftarrow>filter (\<lambda>x. key x = k) xs. g x)"
  for g :: "'x \<Rightarrow> rat"
proof -
  have "foldl (\<lambda>v x. v + g x) a ys = a + (\<Sum>x\<leftarrow>ys. g x)" for a ys
    by (induction ys arbitrary: a) simp_all
  then show ?thesis using folded_lookup [of key "\<lambda>v x. v + g x" "\<lambda>_. 0" xs k] by simp
qed

lemma sorted_keys_unique:
  fixes f :: "('k::linorder) list"
  assumes "distinct f" "distinct g" "set f = set g" shows "sort f = sort g"
  using assms by (metis sorted_distinct_set_unique distinct_sort set_sort sorted_sort)

lemma sort_key_fst: "distinct (map fst d) \<Longrightarrow> map fst (sort_key fst d) = sort (map fst d)"
  by (rule sorted_distinct_set_unique) (simp_all add: distinct_map)

lemma sorted_entries:
  assumes "distinct (map fst d)"
  shows "sort_key fst d = map (\<lambda>k. (k, or_else (map_of d k) e)) (sort (map fst d))"
proof -
  have "p = (fst p, or_else (map_of d (fst p)) e)" if "p \<in> set d" for p
    using that assms by (metis map_of_eq_Some_iff or_else_simps(2) prod.collapse)
  then have "map (\<lambda>p. (fst p, or_else (map_of d (fst p)) e)) (sort_key fst d) = sort_key fst d"
    by (intro map_idI) (metis set_sort)
  then show ?thesis unfolding sort_key_fst [OF assms, symmetric] by (simp add: comp_def)
qed

lemma foldl_sum:
  fixes h :: "'s \<Rightarrow> rat"
  assumes "\<And>a x. x \<in> set xs \<Longrightarrow> h (f a x) = h a + g x"
  shows "h (foldl f a xs) = h a + (\<Sum>x\<leftarrow>xs. g x)"
  using assms by (induction xs arbitrary: a) (simp_all add: algebra_simps)

text \<open>Summing over the days of a period what each day sums is summing over the period.\<close>

lemma sum_by_day:
  fixes g :: "fin_interval \<Rightarrow> rat"
  assumes "distinct ds" "\<forall>i \<in> set xs. fi_date i \<in> set ds"
  shows "(\<Sum>d\<leftarrow>filter Q ds. \<Sum>i\<leftarrow>filter (\<lambda>i. fi_date i = d) xs. g i) = (\<Sum>i\<leftarrow>filter (\<lambda>i. Q (fi_date i)) xs. g i)"
  using assms(2)
proof (induction xs)
  case Nil
  then show ?case by simp
next
  case (Cons x xs)
  have "(\<Sum>d\<leftarrow>filter Q ds. if d = fi_date x then g x else 0) = (\<Sum>d \<in> set (filter Q ds). if d = fi_date x then g x else 0)"
    using assms(1) by (intro sum_list_distinct_conv_sum_set) simp
  also have "\<dots> = (if Q (fi_date x) then g x else 0)"
    using Cons.prems by (simp add: sum.delta)
  finally have one: "(\<Sum>d\<leftarrow>filter Q ds. if d = fi_date x then g x else 0) = (if Q (fi_date x) then g x else 0)" .
  have "(\<Sum>i\<leftarrow>filter (\<lambda>i. fi_date i = d) (x # xs). g i)
      = (if d = fi_date x then g x else 0) + (\<Sum>i\<leftarrow>filter (\<lambda>i. fi_date i = d) xs. g i)" for d
    by simp
  then have "(\<Sum>d\<leftarrow>filter Q ds. \<Sum>i\<leftarrow>filter (\<lambda>i. fi_date i = d) (x # xs). g i)
      = (if Q (fi_date x) then g x else 0) + (\<Sum>i\<leftarrow>filter (\<lambda>i. Q (fi_date i)) xs. g i)"
    using Cons by (simp only: sum_list_addf one) simp
  then show ?case by simp
qed

subsection \<open>Each figure is a sum over the intervals\<close>

definition sale_part :: "sell_config \<Rightarrow> fin_interval \<Rightarrow> rat" where
  "sale_part c i = fi_export i * fst (effective_sell_price (fi_export_price i) c)"

definition benefit_part :: "sell_config \<Rightarrow> fin_interval \<Rightarrow> rat" where
  "benefit_part c i = fi_export i * ore_to_kr (sl_grid_benefit_ore c)"

definition spot_part :: "sell_config \<Rightarrow> fin_interval \<Rightarrow> rat" where
  "spot_part c i = (if fi_export_price i \<noteq> None \<and> sl_mode c \<in> {Spot_pricing, Feed_in_pricing} then fi_export i else 0)"

definition contracted :: "sell_config \<Rightarrow> (fin_interval \<Rightarrow> rat) \<Rightarrow> fin_interval \<Rightarrow> rat" where
  "contracted c g i = (if under_contract c i then g i else 0)"

definition before_contract :: "sell_config \<Rightarrow> fin_interval \<Rightarrow> rat" where
  "before_contract c i = (if \<not> under_contract c i \<and> fi_export i > 0 then fi_export i else 0)"

definition market_part :: "fin_interval \<Rightarrow> rat" where
  "market_part i = (if fi_market i \<noteq> None then used_kwh i else 0)"

lemma add_export_parts:
  assumes "0 \<le> fi_export i"
  shows "xa_exported_kwh (add_export c i a) = xa_exported_kwh a + fi_export i"
    and "xa_energy_sale (add_export c i a) = xa_energy_sale a + sale_part c i"
    and "xa_grid_benefit (add_export c i a) = xa_grid_benefit a + benefit_part c i"
    and "xa_spot_priced_kwh (add_export c i a) = xa_spot_priced_kwh a + spot_part c i"
  using assms by (simp_all add: add_export_def accumulate_export_interval_def sale_part_def benefit_part_def
      spot_part_def Let_def)

lemma parts_of_nothing:
  assumes "\<not> fi_export i > 0" "0 \<le> fi_export i"
  shows "fi_export i = 0" "sale_part c i = 0" "benefit_part c i = 0" "spot_part c i = 0" "before_contract c i = 0"
proof -
  show zero: "fi_export i = 0" using assms by linarith
  show "sale_part c i = 0" "benefit_part c i = 0" "spot_part c i = 0" "before_contract c i = 0"
    by (simp_all add: zero sale_part_def benefit_part_def spot_part_def before_contract_def)
qed

definition day_fold :: "fin_env \<Rightarrow> fin_day \<Rightarrow> fin_interval \<Rightarrow> fin_day" where
  "day_fold env a i = day_export (fe_config env) i (day_values env i a)"

lemma day_fold_values:
  "fd_day (day_fold env a i) = fd_day a"
  "fd_solar_self (day_fold env a i) = fd_solar_self a + fi_solar i"
  "fd_battery_self (day_fold env a i) = fd_battery_self a + fi_battery i"
  "fd_export (day_fold env a i) = fd_export a + fi_export i"
  "fd_import (day_fold env a i) = fd_import a + fi_import i"
  "fd_solar_savings (day_fold env a i) = fd_solar_savings a + fi_solar i * purchase_price env i"
  "fd_battery_savings (day_fold env a i) = fd_battery_savings a + fi_battery i * purchase_price env i"
  "fd_import_cost (day_fold env a i) = fd_import_cost a + fi_import i * purchase_price env i"
  "fd_market (day_fold env a i) = fd_market a + market_part i"
  "fd_denominator (day_fold env a i) = fd_denominator a + used_kwh i"
  by (simp_all add: day_fold_def day_export_def day_values_def Let_def market_part_def used_kwh_def)

lemma day_fold_export:
  assumes "0 \<le> fi_export i"
  shows "fd_energy_sale (day_fold env a i) = fd_energy_sale a + contracted (fe_config env) (sale_part (fe_config env)) i"
    and "fd_grid_benefit (day_fold env a i) = fd_grid_benefit a + contracted (fe_config env) (benefit_part (fe_config env)) i"
    and "fd_spot_priced (day_fold env a i) = fd_spot_priced a + contracted (fe_config env) (spot_part (fe_config env)) i"
    and "fd_contracted (day_fold env a i) = fd_contracted a + contracted (fe_config env) fi_export i"
    and "fd_uncontracted (day_fold env a i) = fd_uncontracted a + before_contract (fe_config env) i"
proof -
  let ?c = "fe_config env"
  have all: "fd_energy_sale (day_fold env a i) = fd_energy_sale a + contracted ?c (sale_part ?c) i
    \<and> fd_grid_benefit (day_fold env a i) = fd_grid_benefit a + contracted ?c (benefit_part ?c) i
    \<and> fd_spot_priced (day_fold env a i) = fd_spot_priced a + contracted ?c (spot_part ?c) i
    \<and> fd_contracted (day_fold env a i) = fd_contracted a + contracted ?c fi_export i
    \<and> fd_uncontracted (day_fold env a i) = fd_uncontracted a + before_contract ?c i"
  proof (cases "fi_export i > 0")
    case True
    then show ?thesis using add_export_parts [OF assms]
      by (simp add: day_fold_def day_export_def day_values_def day_account_def Let_def contracted_def before_contract_def)
  next
    case False
    then show ?thesis using parts_of_nothing [OF False assms]
      by (simp add: day_fold_def day_export_def day_values_def contracted_def)
  qed
  show "fd_energy_sale (day_fold env a i) = fd_energy_sale a + contracted ?c (sale_part ?c) i" using all by blast
  show "fd_grid_benefit (day_fold env a i) = fd_grid_benefit a + contracted ?c (benefit_part ?c) i" using all by blast
  show "fd_spot_priced (day_fold env a i) = fd_spot_priced a + contracted ?c (spot_part ?c) i" using all by blast
  show "fd_contracted (day_fold env a i) = fd_contracted a + contracted ?c fi_export i" using all by blast
  show "fd_uncontracted (day_fold env a i) = fd_uncontracted a + before_contract ?c i" using all by blast
qed

subsection \<open>The two integrations as grouped folds\<close>

lemma stats_folds:
  "foldl (stats_step p env) empty_stats xs =
     (let c = fe_config env; key = (\<lambda>i. fin_period_key p (fi_date i)); year = (\<lambda>i. hd (fi_date i)) in
      \<lparr> fs_totals = folded key (add_values env) (\<lambda>_. zero_values) xs,
        fs_exports = folded key (\<lambda>a i. add_export c i a) (\<lambda>_. empty_export) (filter (under_contract c) xs),
        fs_pre_contract = folded key (\<lambda>x i. x + fi_export i) (\<lambda>_. 0)
          (filter (\<lambda>i. \<not> under_contract c i \<and> fi_export i > 0) xs),
        fs_yearly_export = folded year (\<lambda>x i. x + fi_export i) (\<lambda>_. 0) (filter (under_contract c) xs),
        fs_yearly_import = folded year (\<lambda>x i. x + fi_import i) (\<lambda>_. 0) xs \<rparr>)"
proof (induction xs rule: rev_induct)
  case Nil
  then show ?case by (simp add: empty_stats_def folded_def Let_def)
next
  case (snoc x xs)
  show ?case
    unfolding foldl_append foldl.simps snoc.IH
    by (simp add: stats_step_def Let_def folded_snoc)
qed

lemma daily_folds: "foldl (daily_step env) [] xs = folded fi_date (day_fold env) empty_day xs"
  by (simp only: folded_def daily_step_def [abs_def] day_fold_def)

lemma groups_folded: "foldl (group_row p) [] rows = folded (\<lambda>r. fin_period_key p (fd_day r)) (\<lambda>g r. g @ [r]) (\<lambda>_. []) rows"
  by (simp only: folded_def group_row_def [abs_def])

lemma yearly_folded: "yearly_sums f rows = folded (\<lambda>r. hd (fd_day r)) (\<lambda>x r. x + f r) (\<lambda>_. 0) rows"
  by (simp add: folded_def yearly_sums_def)

lemma collected: "foldl (\<lambda>g r. g @ [r]) a rows = a @ rows"
  by (induction rows arbitrary: a) simp_all

lemma keyed_filter: "(\<Sum>i\<leftarrow>filter P (filter Q xs). g i) = (\<Sum>i\<leftarrow>filter P xs. if Q i then g i else 0)"
  for g :: "'a \<Rightarrow> rat"
  by (induction xs) simp_all

lemma add_values_parts:
  "fv_solar (add_values env v i) = fv_solar v + fi_solar i"
  "fv_battery (add_values env v i) = fv_battery v + fi_battery i"
  "fv_export (add_values env v i) = fv_export v + fi_export i"
  "fv_import (add_values env v i) = fv_import v + fi_import i"
  "fv_solar_savings (add_values env v i) = fv_solar_savings v + fi_solar i * purchase_price env i"
  "fv_battery_savings (add_values env v i) = fv_battery_savings v + fi_battery i * purchase_price env i"
  "fv_import_cost (add_values env v i) = fv_import_cost v + fi_import i * purchase_price env i"
  "fv_denominator (add_values env v i) = fv_denominator v + used_kwh i"
  "fv_market (add_values env v i) = fv_market v + market_part i"
  by (simp_all add: add_values_def market_part_def)

lemma credits_lookup:
  "or_else (map_of (yearly_credits c exports imports) y) 0 =
     compute_yearly_tax_credit_sek y (or_else (map_of exports y) 0) (or_else (map_of imports y) 0)
       (sl_country c) (sl_tax_credit_enabled c)"
proof -
  have "map_of (yearly_credits c exports imports) y = map_option (\<lambda>e. compute_yearly_tax_credit_sek y e
      (or_else (map_of imports y) 0) (sl_country c) (sl_tax_credit_enabled c)) (map_of exports y)"
    unfolding yearly_credits_def by (rule map_of_map_vals)
  then show ?thesis
    by (cases "map_of exports y") (simp_all add: compute_yearly_tax_credit_sek_def compute_yearly_tax_credit_kwh_def)
qed

lemma period_tax_cong:
  assumes "or_else (map_of e1 (hd key)) 0 = or_else (map_of e2 (hd key)) (0::rat)"
    and "or_else (map_of i1 (hd key)) 0 = or_else (map_of i2 (hd key)) (0::rat)"
  shows "period_tax c e1 i1 key x = period_tax c e2 i2 key x"
  by (simp add: period_tax_def credits_lookup assms)

lemma hd_period_key: "hd (fin_period_key p d) = hd d"
  by (cases p; cases d) (simp_all add: fin_period_key_def)

text \<open>Rounding to four decimals and then to two moves the result by at most an \<open>ore\<close>.\<close>

lemma twice_rounded: "\<bar>round_to 2 (round_to 4 x) - round_to 2 x\<bar> \<le> 1/100"
proof -
  define m n where "m = round_half_even (round_to 4 x * 100)" and "n = round_half_even (x * 100)"
  have "of_int m \<le> round_to 4 x * 100 + 1/2" "round_to 4 x * 100 - 1/2 \<le> of_int m"
    "of_int n \<le> x * 100 + 1/2" "x * 100 - 1/2 \<le> of_int n"
    using round_half_even_near unfolding m_def n_def by blast+
  moreover have "\<bar>round_to 4 x - x\<bar> \<le> 1/20000"
    using round_to_near [of 4 x] by simp
  ultimately have "\<bar>of_int m - of_int n\<bar> < (2::rat)" by linarith
  then have "\<bar>m - n\<bar> < 2" by linarith
  then have "\<bar>m - n\<bar> \<le> 1" by linarith
  then have "\<bar>of_int m - of_int n\<bar> \<le> (1::rat)" by linarith
  then have "\<bar>of_int m / 100 - of_int n / 100\<bar> \<le> (1/100::rat)" by linarith
  then show ?thesis unfolding round_to_def [of 2] m_def n_def by simp
qed

definition within_an_ore :: "fin_stat \<Rightarrow> fin_stat \<Rightarrow> bool" where
  "within_an_ore a b \<longleftrightarrow>
     a\<lparr> st_export_revenue := 0, st_energy_sale := 0, st_grid_benefit := 0 \<rparr>
       = b\<lparr> st_export_revenue := 0, st_energy_sale := 0, st_grid_benefit := 0 \<rparr>
     \<and> \<bar>st_export_revenue a - st_export_revenue b\<bar> \<le> 1/100
     \<and> \<bar>st_energy_sale a - st_energy_sale b\<bar> \<le> 1/100
     \<and> \<bar>st_grid_benefit a - st_grid_benefit b\<bar> \<le> 1/100"

lemma intervals_export_nonneg:
  assumes "i \<in> set (fin_intervals env prices rs)" shows "0 \<le> fi_export i"
proof -
  obtain a b where "fin_interval_of env prices (a, b) = Some i"
    using assms by (auto simp: fin_intervals_def List.map_filter_def)
  then show ?thesis
    by (auto simp: fin_interval_of_def Let_def power_or_0_def split: if_splits)
qed

subsection \<open>Both ways give the same statistics\<close>

text \<open>What the readings give for a period, and the years they credit.\<close>

definition period_sum :: "peak_period \<Rightarrow> fin_interval list \<Rightarrow> date_key \<Rightarrow> (fin_interval \<Rightarrow> rat) \<Rightarrow> rat" where
  "period_sum p xs k g = (\<Sum>i\<leftarrow>filter (\<lambda>i. fin_period_key p (fi_date i) = k) xs. g i)"

definition year_sum :: "fin_interval list \<Rightarrow> int \<Rightarrow> (fin_interval \<Rightarrow> rat) \<Rightarrow> rat" where
  "year_sum xs y g = (\<Sum>i\<leftarrow>filter (\<lambda>i. hd (fi_date i) = y) xs. g i)"

lemma values_sums:
  fixes env p xs k
  defines "v \<equiv> or_else (map_of (folded (\<lambda>i. fin_period_key p (fi_date i)) (add_values env) (\<lambda>_. zero_values) xs) k) zero_values"
  shows "fv_solar v = period_sum p xs k fi_solar" "fv_battery v = period_sum p xs k fi_battery"
    "fv_export v = period_sum p xs k fi_export" "fv_import v = period_sum p xs k fi_import"
    "fv_solar_savings v = period_sum p xs k (\<lambda>i. fi_solar i * purchase_price env i)"
    "fv_battery_savings v = period_sum p xs k (\<lambda>i. fi_battery i * purchase_price env i)"
    "fv_import_cost v = period_sum p xs k (\<lambda>i. fi_import i * purchase_price env i)"
    "fv_denominator v = period_sum p xs k used_kwh" "fv_market v = period_sum p xs k market_part"
proof -
  let ?ys = "filter (\<lambda>i. fin_period_key p (fi_date i) = k) xs"
  have v: "v = foldl (add_values env) zero_values ?ys"
    unfolding v_def by (rule folded_lookup [where e = "\<lambda>_. zero_values"])
  have sum: "h v = h zero_values + period_sum p xs k g" if "\<And>a i. h (add_values env a i) = h a + g i" for h g
    unfolding v period_sum_def by (rule foldl_sum) (rule that)
  have start: "fv_solar zero_values = 0" "fv_battery zero_values = 0" "fv_export zero_values = 0" "fv_import zero_values = 0"
    "fv_solar_savings zero_values = 0" "fv_battery_savings zero_values = 0" "fv_import_cost zero_values = 0"
    "fv_denominator zero_values = 0" "fv_market zero_values = 0" by (simp_all add: zero_values_def)
  show "fv_solar v = period_sum p xs k fi_solar" using sum [OF add_values_parts(1)] start by simp
  show "fv_battery v = period_sum p xs k fi_battery" using sum [OF add_values_parts(2)] start by simp
  show "fv_export v = period_sum p xs k fi_export" using sum [OF add_values_parts(3)] start by simp
  show "fv_import v = period_sum p xs k fi_import" using sum [OF add_values_parts(4)] start by simp
  show "fv_solar_savings v = period_sum p xs k (\<lambda>i. fi_solar i * purchase_price env i)"
    using sum [OF add_values_parts(5)] start by simp
  show "fv_battery_savings v = period_sum p xs k (\<lambda>i. fi_battery i * purchase_price env i)"
    using sum [OF add_values_parts(6)] start by simp
  show "fv_import_cost v = period_sum p xs k (\<lambda>i. fi_import i * purchase_price env i)"
    using sum [OF add_values_parts(7)] start by simp
  show "fv_denominator v = period_sum p xs k used_kwh" using sum [OF add_values_parts(8)] start by simp
  show "fv_market v = period_sum p xs k market_part" using sum [OF add_values_parts(9)] start by simp
qed

lemma exports_sums:
  fixes c p xs k
  defines "a \<equiv> or_else (map_of (folded (\<lambda>i. fin_period_key p (fi_date i)) (\<lambda>a i. add_export c i a) (\<lambda>_. empty_export)
      (filter (under_contract c) xs)) k) empty_export"
  assumes "\<forall>i \<in> set xs. 0 \<le> fi_export i"
  shows "xa_exported_kwh a = period_sum p xs k (contracted c fi_export)"
    "xa_energy_sale a = period_sum p xs k (contracted c (sale_part c))"
    "xa_grid_benefit a = period_sum p xs k (contracted c (benefit_part c))"
    "xa_spot_priced_kwh a = period_sum p xs k (contracted c (spot_part c))"
proof -
  let ?ys = "filter (\<lambda>i. fin_period_key p (fi_date i) = k) (filter (under_contract c) xs)"
  have a: "a = foldl (\<lambda>a i. add_export c i a) empty_export ?ys"
    unfolding a_def by (rule folded_lookup [where e = "\<lambda>_. empty_export"])
  have sum: "h a = h empty_export + period_sum p xs k (contracted c g)"
    if "\<And>a i. 0 \<le> fi_export i \<Longrightarrow> h (add_export c i a) = h a + g i" for h g
  proof -
    have "h a = h empty_export + (\<Sum>i\<leftarrow>?ys. g i)"
      unfolding a by (rule foldl_sum) (use that assms(2) in auto)
    also have "(\<Sum>i\<leftarrow>?ys. g i) = period_sum p xs k (contracted c g)"
      unfolding period_sum_def contracted_def by (rule keyed_filter)
    finally show ?thesis .
  qed
  show "xa_exported_kwh a = period_sum p xs k (contracted c fi_export)"
    using sum [OF add_export_parts(1)] by (simp add: empty_export_def)
  show "xa_energy_sale a = period_sum p xs k (contracted c (sale_part c))"
    using sum [OF add_export_parts(2)] by (simp add: empty_export_def)
  show "xa_grid_benefit a = period_sum p xs k (contracted c (benefit_part c))"
    using sum [OF add_export_parts(3)] by (simp add: empty_export_def)
  show "xa_spot_priced_kwh a = period_sum p xs k (contracted c (spot_part c))"
    using sum [OF add_export_parts(4)] by (simp add: empty_export_def)
qed

text \<open>One day's row, and the sum of a period over such rows.\<close>

definition day_row :: "fin_env \<Rightarrow> fin_interval list \<Rightarrow> date_key \<Rightarrow> fin_day" where
  "day_row env xs d = foldl (day_fold env) (empty_day d) (filter (\<lambda>i. fi_date i = d) xs)"

lemma day_row_day [simp]: "fd_day (day_row env xs d) = d"
proof -
  have "fd_day (foldl (day_fold env) a ys) = fd_day a" for a ys
    by (induction ys arbitrary: a) (simp_all add: day_fold_values)
  then show ?thesis by (simp add: day_row_def empty_day_def)
qed

lemma day_row_sum:
  fixes h :: "fin_day \<Rightarrow> rat"
  assumes "\<And>a i. i \<in> set xs \<Longrightarrow> h (day_fold env a i) = h a + g i" "h (empty_day d) = 0"
  shows "h (day_row env xs d) = (\<Sum>i\<leftarrow>filter (\<lambda>i. fi_date i = d) xs. g i)"
  unfolding day_row_def using assms by (subst foldl_sum [where h = h and g = g]) auto

lemma rows_sum:
  fixes h :: "fin_day \<Rightarrow> rat"
  assumes "distinct ds" "set ds = fi_date ` set xs"
    and "\<And>a i. i \<in> set xs \<Longrightarrow> h (day_fold env a i) = h a + g i" "\<And>d. h (empty_day d) = 0"
  shows "sum_of h (filter (\<lambda>r. Q (fd_day r)) (map (day_row env xs) ds)) = (\<Sum>i\<leftarrow>filter (\<lambda>i. Q (fi_date i)) xs. g i)"
proof -
  have "sum_of h (filter (\<lambda>r. Q (fd_day r)) (map (day_row env xs) ds))
      = (\<Sum>d\<leftarrow>filter Q ds. \<Sum>i\<leftarrow>filter (\<lambda>i. fi_date i = d) xs. g i)"
    using day_row_sum [of xs h env g] assms(3,4) by (simp add: sum_of_def filter_map comp_def)
  also have "\<dots> = (\<Sum>i\<leftarrow>filter (\<lambda>i. Q (fi_date i)) xs. g i)"
    by (rule sum_by_day) (use assms in auto)
  finally show ?thesis .
qed

text \<open>The sums over the rows of a period, and over the rows of a year, in terms of the intervals.\<close>

lemma grouped_sums:
  fixes env xs ds p k
  defines "c \<equiv> fe_config env"
    and "rows \<equiv> or_else (map_of (foldl (group_row p) [] (map (day_row env xs) ds)) k) []"
  assumes ds: "distinct ds" "set ds = fi_date ` set xs" and nonneg: "\<forall>i \<in> set xs. 0 \<le> fi_export i"
  shows "sum_of fd_solar_self rows = period_sum p xs k fi_solar"
    "sum_of fd_battery_self rows = period_sum p xs k fi_battery"
    "sum_of fd_export rows = period_sum p xs k fi_export" "sum_of fd_import rows = period_sum p xs k fi_import"
    "sum_of fd_solar_savings rows = period_sum p xs k (\<lambda>i. fi_solar i * purchase_price env i)"
    "sum_of fd_battery_savings rows = period_sum p xs k (\<lambda>i. fi_battery i * purchase_price env i)"
    "sum_of fd_import_cost rows = period_sum p xs k (\<lambda>i. fi_import i * purchase_price env i)"
    "sum_of fd_market rows = period_sum p xs k market_part"
    "sum_of fd_denominator rows = period_sum p xs k used_kwh"
    "sum_of fd_energy_sale rows = period_sum p xs k (contracted c (sale_part c))"
    "sum_of fd_grid_benefit rows = period_sum p xs k (contracted c (benefit_part c))"
    "sum_of fd_spot_priced rows = period_sum p xs k (contracted c (spot_part c))"
    "sum_of fd_contracted rows = period_sum p xs k (contracted c fi_export)"
    "sum_of fd_uncontracted rows = period_sum p xs k (before_contract c)"
proof -
  let ?all = "map (day_row env xs) ds"
  have rows: "rows = filter (\<lambda>r. fin_period_key p (fd_day r) = k) ?all"
    unfolding rows_def groups_folded
    using folded_lookup [of "\<lambda>r. fin_period_key p (fd_day r)" "\<lambda>g r. g @ [r]" "\<lambda>_. []" ?all k] by (simp add: collected)
  have sum: "sum_of h rows = period_sum p xs k g"
    if "\<And>a i. i \<in> set xs \<Longrightarrow> h (day_fold env a i) = h a + g i" "\<And>d. h (empty_day d) = 0" for h g
    unfolding rows period_sum_def by (rule rows_sum [OF ds that])
  have part: "0 \<le> fi_export i" if "i \<in> set xs" for i using nonneg that by blast
  show "sum_of fd_solar_self rows = period_sum p xs k fi_solar"
    by (rule sum) (simp_all add: day_fold_values empty_day_def)
  show "sum_of fd_battery_self rows = period_sum p xs k fi_battery"
    by (rule sum) (simp_all add: day_fold_values empty_day_def)
  show "sum_of fd_export rows = period_sum p xs k fi_export"
    by (rule sum) (simp_all add: day_fold_values empty_day_def)
  show "sum_of fd_import rows = period_sum p xs k fi_import"
    by (rule sum) (simp_all add: day_fold_values empty_day_def)
  show "sum_of fd_solar_savings rows = period_sum p xs k (\<lambda>i. fi_solar i * purchase_price env i)"
    by (rule sum) (simp_all add: day_fold_values empty_day_def)
  show "sum_of fd_battery_savings rows = period_sum p xs k (\<lambda>i. fi_battery i * purchase_price env i)"
    by (rule sum) (simp_all add: day_fold_values empty_day_def)
  show "sum_of fd_import_cost rows = period_sum p xs k (\<lambda>i. fi_import i * purchase_price env i)"
    by (rule sum) (simp_all add: day_fold_values empty_day_def)
  show "sum_of fd_market rows = period_sum p xs k market_part"
    by (rule sum) (simp_all add: day_fold_values empty_day_def)
  show "sum_of fd_denominator rows = period_sum p xs k used_kwh"
    by (rule sum) (simp_all add: day_fold_values empty_day_def)
  show "sum_of fd_energy_sale rows = period_sum p xs k (contracted c (sale_part c))"
    unfolding c_def by (rule sum) (simp_all add: day_fold_export part empty_day_def)
  show "sum_of fd_grid_benefit rows = period_sum p xs k (contracted c (benefit_part c))"
    unfolding c_def by (rule sum) (simp_all add: day_fold_export part empty_day_def)
  show "sum_of fd_spot_priced rows = period_sum p xs k (contracted c (spot_part c))"
    unfolding c_def by (rule sum) (simp_all add: day_fold_export part empty_day_def)
  show "sum_of fd_contracted rows = period_sum p xs k (contracted c fi_export)"
    unfolding c_def by (rule sum) (simp_all add: day_fold_export part empty_day_def)
  show "sum_of fd_uncontracted rows = period_sum p xs k (before_contract c)"
    unfolding c_def by (rule sum) (simp_all add: day_fold_export part empty_day_def)
qed

lemma yearly_agree:
  fixes env xs ds y
  defines "c \<equiv> fe_config env" and "rows \<equiv> map (day_row env xs) ds" and "year \<equiv> \<lambda>i. hd (fi_date i)"
  assumes ds: "distinct ds" "set ds = fi_date ` set xs" and nonneg: "\<forall>i \<in> set xs. 0 \<le> fi_export i"
  shows "or_else (map_of (folded year (\<lambda>x i. x + fi_export i) (\<lambda>_. 0) (filter (under_contract c) xs)) y) 0
      = or_else (map_of (yearly_sums fd_contracted rows) y) 0"
    and "or_else (map_of (folded year (\<lambda>x i. x + fi_import i) (\<lambda>_. 0) xs) y) 0
      = or_else (map_of (yearly_sums fd_import rows) y) 0"
proof -
  have part: "0 \<le> fi_export i" if "i \<in> set xs" for i using nonneg that by blast
  have sum: "or_else (map_of (yearly_sums h rows) y) 0 = (\<Sum>i\<leftarrow>filter (\<lambda>i. hd (fi_date i) = y) xs. g i)"
    if "\<And>a i. i \<in> set xs \<Longrightarrow> h (day_fold env a i) = h a + g i" "\<And>d. h (empty_day d) = 0" for h g
    unfolding yearly_folded folded_sum_lookup using rows_sum [OF ds that, of "\<lambda>d. hd d = y"]
    by (simp add: rows_def sum_of_def)
  have "or_else (map_of (yearly_sums fd_contracted rows) y) 0
      = (\<Sum>i\<leftarrow>filter (\<lambda>i. hd (fi_date i) = y) xs. contracted c fi_export i)"
    unfolding c_def by (rule sum) (simp_all add: day_fold_export part empty_day_def)
  then show "or_else (map_of (folded year (\<lambda>x i. x + fi_export i) (\<lambda>_. 0) (filter (under_contract c) xs)) y) 0
      = or_else (map_of (yearly_sums fd_contracted rows) y) 0"
    unfolding folded_sum_lookup keyed_filter year_def by (simp add: contracted_def)
  have "or_else (map_of (yearly_sums fd_import rows) y) 0 = (\<Sum>i\<leftarrow>filter (\<lambda>i. hd (fi_date i) = y) xs. fi_import i)"
    by (rule sum) (simp_all add: day_fold_values empty_day_def)
  then show "or_else (map_of (folded year (\<lambda>x i. x + fi_import i) (\<lambda>_. 0) xs) y) 0
      = or_else (map_of (yearly_sums fd_import rows) y) 0"
    unfolding folded_sum_lookup year_def by simp
qed

lemma period_agrees:
  fixes p env xs ds k
  defines "c \<equiv> fe_config env" and "st \<equiv> foldl (stats_step p env) empty_stats xs" and "rows \<equiv> map (day_row env xs) ds"
  assumes ds: "distinct ds" "set ds = fi_date ` set xs" and nonneg: "\<forall>i \<in> set xs. 0 \<le> fi_export i"
    and key: "k \<in> (\<lambda>i. fin_period_key p (fi_date i)) ` set xs"
  shows "within_an_ore (stats_result c st (k, or_else (map_of (fs_totals st) k) zero_values))
    (grouped_result c (yearly_sums fd_contracted rows) (yearly_sums fd_import rows)
       (k, or_else (map_of (foldl (group_row p) [] rows) k) []))"
proof -
  note st = st_def [unfolded stats_folds Let_def]
  note g = grouped_sums [OF ds nonneg, where p = p and k = k and env = env, folded c_def rows_def]
  note v = values_sums [of p env xs k] and x = exports_sums [OF nonneg, of p c k]
  have tax: "period_tax c (fs_yearly_export st) (fs_yearly_import st) k e
      = period_tax c (yearly_sums fd_contracted rows) (yearly_sums fd_import rows) k e" for e
    using yearly_agree [OF ds nonneg, where y = "hd k" and env = env] unfolding st c_def rows_def by (intro period_tax_cong) simp_all
  have pre: "fs_pre_contract st = folded (\<lambda>i. fin_period_key p (fi_date i)) (\<lambda>x i. x + fi_export i) (\<lambda>_. 0)
      (filter (\<lambda>i. \<not> under_contract c i \<and> fi_export i > 0) xs)"
    by (simp add: st c_def)
  have before: "or_else (map_of (fs_pre_contract st) k) 0 = period_sum p xs k (before_contract c)"
    unfolding pre folded_sum_lookup keyed_filter period_sum_def before_contract_def [abs_def] by (rule refl)
  have totals: "fs_totals st = folded (\<lambda>i. fin_period_key p (fi_date i)) (add_values env) (\<lambda>_. zero_values) xs"
    and exports: "fs_exports st = folded (\<lambda>i. fin_period_key p (fi_date i)) (\<lambda>a i. add_export c i a) (\<lambda>_. empty_export)
      (filter (under_contract c) xs)"
    by (simp_all add: st c_def)
  show ?thesis
    unfolding within_an_ore_def stats_result_def grouped_result_def Let_def finalize_export_totals_def
      fst_conv snd_conv totals exports v x g before tax
    using twice_rounded by (simp add: ratio_or_0_def)
qed

lemma statistics_agree:
  fixes p env xs ds
  defines "c \<equiv> fe_config env" and "st \<equiv> foldl (stats_step p env) empty_stats xs"
  assumes ds: "distinct ds" "set ds = fi_date ` set xs" and nonneg: "\<forall>i \<in> set xs. 0 \<le> fi_export i"
  shows "list_all2 within_an_ore (map (stats_result c st) (sort_key fst (fs_totals st)))
    (aggregate_daily_to_period_stats p c (map (day_row env xs) ds))"
proof -
  let ?key = "\<lambda>i. fin_period_key p (fi_date i)" and ?rows = "map (day_row env xs) ds"
  let ?groups = "foldl (group_row p) [] ?rows"
  have totals: "fs_totals st = folded ?key (add_values env) (\<lambda>_. zero_values) xs"
    by (simp add: st_def stats_folds Let_def)
  have keys: "fst ` set (fs_totals st) = ?key ` set xs" "distinct (map fst (fs_totals st))"
    using folded_keys [of ?key "add_values env" "\<lambda>_. zero_values" xs] unfolding totals by simp_all
  have "fst ` set ?groups = (\<lambda>r. fin_period_key p (fd_day r)) ` set ?rows"
    and distinct: "distinct (map fst ?groups)"
    using folded_keys [of "\<lambda>r. fin_period_key p (fd_day r)" "\<lambda>g r. g @ [r]" "\<lambda>_. []" ?rows] unfolding groups_folded by simp_all
  moreover have "(\<lambda>r. fin_period_key p (fd_day r)) ` set ?rows = ?key ` set xs"
    unfolding set_map image_image ds(2) by simp
  ultimately have groups: "fst ` set ?groups = ?key ` set xs" "distinct (map fst ?groups)"
    using distinct by simp_all
  have same: "sort (map fst ?groups) = sort (map fst (fs_totals st))"
    by (rule sorted_keys_unique) (use keys groups in simp_all)
  have "within_an_ore (stats_result c st (k, or_else (map_of (fs_totals st) k) zero_values))
    (grouped_result c (yearly_sums fd_contracted ?rows) (yearly_sums fd_import ?rows) (k, or_else (map_of ?groups k) []))"
    if "k \<in> set (sort (map fst (fs_totals st)))" for k
    using period_agrees [OF ds nonneg, of k p] that keys(1) unfolding c_def st_def by simp
  then show ?thesis
    unfolding aggregate_daily_to_period_stats_def sorted_entries [OF keys(2), of zero_values]
      sorted_entries [OF groups(2), of "[]"] same
    by (simp add: list.rel_map list_all2_same)
qed

subsection \<open>The query answers the same from the daily table\<close>

lemma daily_rows:
  "map snd (foldl (daily_step env) [] xs) = map (day_row env xs) (map fst (foldl (daily_step env) [] xs))"
proof -
  let ?d = "folded fi_date (day_fold env) empty_day xs"
  have "snd kv = day_row env xs (fst kv)" if "kv \<in> set ?d" for kv
  proof -
    have "map_of ?d (fst kv) = Some (snd kv)"
      using that folded_keys [of fi_date "day_fold env" empty_day xs] by (simp add: map_of_eq_Some_iff)
    then show ?thesis
      using folded_lookup [of fi_date "day_fold env" empty_day xs "fst kv"] by (simp add: day_row_def)
  qed
  then show ?thesis unfolding daily_folds by simp
qed

lemma daily_days:
  "distinct (map fst (foldl (daily_step env) [] xs))" "fst ` set (foldl (daily_step env) [] xs) = fi_date ` set xs"
  using folded_keys [of fi_date "day_fold env" empty_day xs] unfolding daily_folds by simp_all

lemma upserted_lookup:
  "map_of (foldl (fin_upsert s) t (map (day_row env xs) ds)) (s, d) =
     (if d \<in> set ds then Some (day_row env xs d) else map_of t (s, d))"
  by (induction ds rule: rev_induct) (simp_all add: fin_upsert_def)

lemma upserted_distinct:
  "distinct (map fst t) \<Longrightarrow> distinct (map fst (foldl (fin_upsert s) t rows))"
  by (induction rows arbitrary: t) (simp_all add: fin_upsert_def distinct_keys_update)

lemma site_rows_lookup:
  "map_of (map (\<lambda>x. (snd (fst x), snd x)) (filter (\<lambda>x. fst (fst x) = s) t)) d = map_of t (s, d)"
  by (induction t) auto

lemma site_rows_distinct:
  "distinct (map fst t) \<Longrightarrow> distinct (map fst (map (\<lambda>x. (snd (fst x), snd x)) (filter (\<lambda>x. fst (fst x) = s) t)))"
  by (induction t) (auto simp: image_iff)

lemma daily_for_site_all:
  assumes "distinct (map fst t)" "\<And>d. map_of t (s, d) = (if d \<in> D then Some (f d) else None)"
  shows "\<exists>ds. daily_for_site t s None None = map f ds \<and> distinct ds \<and> set ds = D"
proof -
  let ?g = "map (\<lambda>x. (snd (fst x), snd x)) (filter (\<lambda>x. fst (fst x) = s) t)"
  have g: "distinct (map fst ?g)" by (rule site_rows_distinct [OF assms(1)])
  have look: "map_of ?g d = (if d \<in> D then Some (f d) else None)" for d
    unfolding site_rows_lookup by (rule assms(2))
  then have "fst ` set ?g = D"
    unfolding dom_map_of_conv_image_fst [symmetric] dom_def by simp
  then have keys: "set (sort (map fst ?g)) = D" by (simp add: image_image)
  have "daily_for_site t s None None = map snd (sort_key fst ?g)"
    by (simp add: daily_for_site_def)
  also have "\<dots> = map (\<lambda>d. or_else (map_of ?g d) (empty_day [])) (sort (map fst ?g))"
    unfolding sorted_entries [OF g, of "empty_day []"] by simp
  also have "\<dots> = map f (sort (map fst ?g))"
    by (rule map_cong [OF refl]) (simp only: look keys if_True or_else_simps)
  finally show ?thesis using g keys by (intro exI [of _ "sort (map fst ?g)"]) simp
qed

lemma within_an_ore_refl: "within_an_ore a a"
  by (simp add: within_an_ore_def)

lemma in_range_None [simp]: "in_range None None t"
  by (simp add: in_range_def)

lemma same_readings:
  assumes "\<forall>r \<in> set (db_readings db). fr_site r = s \<longrightarrow> in_range a b (fr_at r)"
  shows "site_readings db s None None = site_readings db s a b"
proof -
  have "filter (\<lambda>r. fr_site r = s \<and> in_range None None (fr_at r)) (db_readings db)
      = filter (\<lambda>r. fr_site r = s \<and> in_range a b (fr_at r)) (db_readings db)"
    by (rule filter_cong) (use assms in auto)
  then show ?thesis by (simp only: site_readings_def)
qed

lemma same_prices:
  assumes "\<forall>x \<in> set (db_prices db). fst x = s \<longrightarrow> in_range a b (fst (snd x))"
  shows "site_prices rate db s None None = site_prices rate db s a b"
proof -
  have "filter (\<lambda>x. fst x = s \<and> in_range None None (fst (snd x))) (db_prices db)
      = filter (\<lambda>x. fst x = s \<and> in_range a b (fst (snd x))) (db_prices db)"
    by (rule filter_cong) (use assms in auto)
  then show ?thesis by (simp only: site_prices_def)
qed

text \<open>After a rollup the table holds, for the site, one row per day of the intervals \<open>xs\<close>, and no other.\<close>

lemma rolled_up_days:
  fixes env rate a b s db
  defines "D \<equiv> integrate_financial_daily_accumulators env (site_prices rate db s (Some a) (Some b)) (site_readings db s (Some a) (Some b))"
  assumes D: "D = foldl (daily_step env) [] xs" and "distinct (map fst (db_daily db))"
    and known: "\<forall>x \<in> set (db_daily db). fst (fst x) = s \<longrightarrow> snd (fst x) \<in> fst ` set D"
  obtains ds where "daily_for_site (db_daily (snd (rollup_site env rate a b s db))) s None None = map (day_row env xs) ds"
    "distinct ds" "set ds = fi_date ` set xs"
proof -
  let ?after = "snd (rollup_site env rate a b s db)"
  have table: "db_daily ?after = foldl (fin_upsert s) (db_daily db) (map (day_row env xs) (map fst D))"
    by (simp add: rollup_site_def Let_def D_def [symmetric]) (simp only: D daily_rows map_map)
  have look: "map_of (db_daily ?after) (s, d) = (if d \<in> fi_date ` set xs then Some (day_row env xs d) else None)" for d
  proof (cases "d \<in> fst ` set D")
    case False
    then have "(s, d) \<notin> fst ` set (db_daily db)" using known by force
    then have "map_of (db_daily db) (s, d) = None" by (simp add: map_of_eq_None_iff)
    then show ?thesis using False daily_days(2) [of env xs] unfolding table upserted_lookup D by simp
  next
    case True
    then show ?thesis using daily_days(2) [of env xs] unfolding table upserted_lookup D by simp
  qed
  have "distinct (map fst (db_daily ?after))" unfolding table by (rule upserted_distinct [OF assms(3)])
  from daily_for_site_all [OF this look] show ?thesis using that by blast
qed

text \<open>C34. After a rollup over a window that holds all readings and prices of a site, when the daily table has
  no rows of the site for days the rollup does not compute, the query without bounds (the API's when no year is
  asked for) for days, months or years gives the same periods from the daily table as from the readings: equal
  in every field, up to an \<open>ore\<close> in the three revenues, which only the second way rounds twice. A query with
  bounds, such as the API's for one year, is not covered: there the two ways cut at different instants.\<close>

theorem stored_statistics_agree:
  assumes "\<forall>r \<in> set (db_readings db). fr_site r = s \<longrightarrow> in_range (Some a) (Some b) (fr_at r)"
    and "\<forall>x \<in> set (db_prices db). fst x = s \<longrightarrow> in_range (Some a) (Some b) (fst (snd x))"
    and "distinct (map fst (db_daily db))"
    and "\<forall>x \<in> set (db_daily db). fst (fst x) = s \<longrightarrow> snd (fst x) \<in> fst ` set (integrate_financial_daily_accumulators env
           (site_prices rate db s (Some a) (Some b)) (site_readings db s (Some a) (Some b)))"
  shows "let after = snd (rollup_site env rate a b s db) in
    list_all2 within_an_ore (list_financial_stats env rate day_of after s p None None False)
      (list_financial_stats env rate day_of after s p None None True)"
proof -
  let ?rs = "site_readings db s (Some a) (Some b)" and ?ps = "site_prices rate db s (Some a) (Some b)"
  let ?D = "integrate_financial_daily_accumulators env ?ps ?rs" and ?after = "snd (rollup_site env rate a b s db)"
  define xs where "xs = (if length ?rs < 2 then [] else fin_intervals env ?ps ?rs)"
  have D: "?D = foldl (daily_step env) [] xs" by (simp add: integrate_financial_daily_accumulators_def xs_def)
  have direct: "list_financial_stats env rate day_of ?after s p None None False = integrate_financial_stats p env ?ps ?rs"
    using same_readings [OF assms(1)] same_prices [OF assms(2), of rate]
    by (simp add: list_financial_stats_def rollup_site_def Let_def site_readings_def site_prices_def)
  obtain ds where
    ds: "daily_for_site (db_daily ?after) s None None = map (day_row env xs) ds" "distinct ds" "set ds = fi_date ` set xs"
    using rolled_up_days [OF D assms(3,4)] by blast
  show ?thesis
  proof (cases "xs = []")
    case True
    then have "list_financial_stats env rate day_of ?after s p None None True
        = list_financial_stats env rate day_of ?after s p None None False"
      using ds by (simp add: list_financial_stats_def)
    then show ?thesis by (simp add: Let_def list_all2_same within_an_ore_refl)
  next
    case False
    then have long: "\<not> length ?rs < 2" and xs: "xs = fin_intervals env ?ps ?rs" by (auto simp: xs_def split: if_splits)
    have some: "ds \<noteq> []" using ds(3) False by auto
    have "list_financial_stats env rate day_of ?after s p None None True
        = aggregate_daily_to_period_stats p (fe_config env) (map (day_row env xs) ds)"
      using ds(1) some by (simp add: list_financial_stats_def Let_def)
    moreover have "\<forall>i \<in> set xs. 0 \<le> fi_export i" unfolding xs using intervals_export_nonneg by blast
    ultimately show ?thesis
      using statistics_agree [OF ds(2,3), where p = p and env = env] long
      unfolding Let_def direct integrate_financial_stats_def xs [symmetric] by simp
  qed
qed

definition sample_env :: fin_env where
  "sample_env = \<lparr> fe_local_date = (\<lambda>t. [2025, 7, 1 + t div 86400000000]), fe_fallback = 3/2,
     fe_config = \<lparr> sl_mode = Flat_pricing, sl_provider = [], sl_adjustment_ore = 0, sl_deduction_ore = 0,
       sl_grid_benefit_ore = 5, sl_country = ''SE'', sl_tax_credit_enabled = True, sl_fallback_price = 4/5,
       sl_contract_start = Some [2025, 7, 2] \<rparr> \<rparr>"

definition sample_reading :: "time \<Rightarrow> fin_reading" where
  "sample_reading t = \<lparr> fr_site = 1, fr_at = t, fr_solar_w = Some 3000, fr_consumption_w = Some 1000, fr_battery_w = None,
     fr_import_w = None, fr_export_w = Some 2000 \<rparr>"

definition sample_db :: fin_db where
  "sample_db = \<lparr> db_readings = map sample_reading [0, 60000000, 86400000000, 86460000000], db_prices = [], db_daily = [] \<rparr>"

theorem stored_statistics_agree_witness:
  "let after = snd (rollup_site sample_env 11 0 90000000000 1 sample_db) in
    list_all2 within_an_ore (list_financial_stats sample_env 11 (\<lambda>t. []) after 1 PEAK_MONTH None None False)
      (list_financial_stats sample_env 11 (\<lambda>t. []) after 1 PEAK_MONTH None None True)"
  by (rule stored_statistics_agree) (simp_all add: sample_db_def sample_reading_def in_range_def)

text \<open>
  The yearly credit is earned by exports under the contract only, but split over all exports: with exports
  before the contract the parts add up to more than the credit.
\<close>

lemma credit_overspent:
  "compute_yearly_tax_credit_sek 2025 100 500 ''SE'' True = 60
   \<and> allocate_yearly_tax_credit 100 100 60 + allocate_yearly_tax_credit 50 100 60 = 90"
  by code_simp

end
