(* ===== verification/Vehicle_Signals.thy ===== *)
theory Vehicle_Signals
  imports Ev_Sessions
begin

section \<open>What the signals of a car say\<close>

text \<open>
  \<open>vehicles/connection_signals.py\<close> (is the car plugged in, is it charging) and the pure half of
  \<open>vehicles/charging_intelligence/\<close>: the state machine of a charge, locations, the type of a charger, scores,
  energy and cost of a session, the choice among stations, the resolver that composes them, and the context of a
  session (\<open>service.py\<close>), with \<open>vehicles/correlation/halo.py\<close>. The distance of two positions (a
  trigonometric formula) is a parameter, and the names of the
  enumerations are the strings the code stores.
\<close>

subsection \<open>Connection\<close>

definition STALE_TELEMETRY_SECONDS :: rat where "STALE_TELEMETRY_SECONDS = 300"
definition POWER_CHARGING_THRESHOLD_KW :: rat where "POWER_CHARGING_THRESHOLD_KW = 3/10"

record vehicle_latest =
  vl_plugged :: "bool option"
  vl_charging :: "bool option"
  vl_power_kw :: "rat option"
  vl_charging_updated :: "time option"
  vl_last_update :: "time option"
  vl_soc :: "rat option"
  vl_target_soc :: "rat option"
  vl_latitude :: "rat option"
  vl_longitude :: "rat option"

definition signal_age :: "time \<Rightarrow> time option \<Rightarrow> rat option" where
  "signal_age now t = map_option (\<lambda>t. max 0 (elapsed_s now t)) t"

definition outdated :: "rat option \<Rightarrow> bool" where
  "outdated age = (case age of None \<Rightarrow> True | Some a \<Rightarrow> a > STALE_TELEMETRY_SECONDS)"

definition trusted_power_kw :: "bool option \<Rightarrow> rat option \<Rightarrow> time option \<Rightarrow> time \<Rightarrow> rat" where
  "trusted_power_kw charging kw updated now =
     (if charging = Some False \<and> outdated (signal_age now updated) then 0 else num_or kw 0)"

definition infer_plugged_in :: "bool option \<Rightarrow> bool option \<Rightarrow> rat option \<Rightarrow> string option \<Rightarrow> bool option" where
  "infer_plugged_in plugged charging kw label =
     (if plugged = Some False then Some False
      else if plugged = Some True then Some True
      else if charging = Some True then Some True
      else if num_or kw 0 \<ge> POWER_CHARGING_THRESHOLD_KW then Some True
      else if charging = Some False \<and> label \<in> {None, Some ''not_charging'', Some ''unknown''} then Some False
      else None)"

definition latest_power :: "vehicle_latest \<Rightarrow> time \<Rightarrow> rat" where
  "latest_power l now = trusted_power_kw (vl_charging l) (vl_power_kw l) (vl_charging_updated l) now"

definition resolve_mercedes_charging :: "vehicle_latest \<Rightarrow> time \<Rightarrow> bool" where
  "resolve_mercedes_charging l now =
     (let age = signal_age now (vl_charging_updated l) in
      if vl_charging l = Some True then True
      else if latest_power l now \<ge> POWER_CHARGING_THRESHOLD_KW then True
      else if vl_charging l = Some False \<and> \<not> outdated age then False
      else if vl_plugged l = Some True \<and> age \<noteq> None \<and> outdated age then True
      else vl_charging l = Some True)"

record effective_connection =
  ef_plugged :: bool
  ef_charging :: bool

definition not_connected :: effective_connection where
  "not_connected = \<lparr> ef_plugged = False, ef_charging = False \<rparr>"

definition resolve_effective_connection ::
  "vehicle_latest option \<Rightarrow> bool option \<Rightarrow> bool option \<Rightarrow> bool option \<Rightarrow> time \<Rightarrow> effective_connection" where
  "resolve_effective_connection latest halo_connected halo_active agreement now = (case latest of
     None \<Rightarrow> not_connected
   | Some l \<Rightarrow>
       let kw = latest_power l now; charging = resolve_mercedes_charging l now;
           plugged = infer_plugged_in (vl_plugged l) (vl_charging l) (Some kw) None;
           conn = (\<lambda>p c. \<lparr> ef_plugged = p, ef_charging = c \<rparr>)
       in if vl_plugged l = Some True
          then (if agreement = Some False \<and> \<not> charging then not_connected else conn True charging)
          else if vl_charging l = Some False \<and> num_or (vl_power_kw l) 0 \<ge> POWER_CHARGING_THRESHOLD_KW
            \<and> outdated (signal_age now (vl_charging_updated l)) then not_connected
          else if agreement = Some False \<and> \<not> charging then not_connected
          else if halo_connected = Some False \<and> \<not> charging \<and> kw < POWER_CHARGING_THRESHOLD_KW then not_connected
          else if plugged = Some False then conn False charging
          else if plugged = Some True then conn True charging
          else if halo_connected = Some True then conn True (charging \<or> halo_active = Some True)
          else if \<not> charging \<and> kw < POWER_CHARGING_THRESHOLD_KW then not_connected
          else conn False charging)"

subsection \<open>The state machine of a charge\<close>

datatype charging_state =
  CS_UNKNOWN | CS_DISCONNECTED | CS_PLUGGED_IN | CS_WAITING | CS_CHARGING | CS_PAUSED | CS_CHARGING_COMPLETE
  | CS_DISCONNECTED_AFTER_CHARGE | CS_ERROR

definition charging_state_value :: "charging_state \<Rightarrow> string" where
  "charging_state_value s = (case s of CS_UNKNOWN \<Rightarrow> ''UNKNOWN'' | CS_DISCONNECTED \<Rightarrow> ''DISCONNECTED''
     | CS_PLUGGED_IN \<Rightarrow> ''PLUGGED_IN'' | CS_WAITING \<Rightarrow> ''WAITING'' | CS_CHARGING \<Rightarrow> ''CHARGING'' | CS_PAUSED \<Rightarrow> ''PAUSED''
     | CS_CHARGING_COMPLETE \<Rightarrow> ''CHARGING_COMPLETE'' | CS_DISCONNECTED_AFTER_CHARGE \<Rightarrow> ''DISCONNECTED_AFTER_CHARGE''
     | CS_ERROR \<Rightarrow> ''ERROR'')"

definition all_charging_states :: "charging_state list" where
  "all_charging_states = [CS_UNKNOWN, CS_DISCONNECTED, CS_PLUGGED_IN, CS_WAITING, CS_CHARGING, CS_PAUSED,
     CS_CHARGING_COMPLETE, CS_DISCONNECTED_AFTER_CHARGE, CS_ERROR]"

definition restore_state :: "string \<Rightarrow> charging_state" where
  "restore_state s = or_else (find (\<lambda>c. charging_state_value c = s) all_charging_states) CS_UNKNOWN"

definition derive_target :: "charging_state \<Rightarrow> bool option \<Rightarrow> bool option \<Rightarrow> charging_state" where
  "derive_target s plugged charging =
     (if plugged = Some False
      then (if s \<in> {CS_CHARGING, CS_PAUSED, CS_CHARGING_COMPLETE} then CS_DISCONNECTED_AFTER_CHARGE else CS_DISCONNECTED)
      else if plugged = Some True \<and> charging = Some False
      then (if s = CS_CHARGING then CS_CHARGING_COMPLETE else CS_PLUGGED_IN)
      else if charging = Some True then CS_CHARGING
      else if s = CS_CHARGING \<and> charging = Some False then CS_PAUSED
      else s)"

record machine =
  mc_state :: charging_state
  mc_transitions :: "(charging_state \<times> charging_state \<times> time) list"

definition fresh_machine :: machine where
  "fresh_machine = \<lparr> mc_state = CS_UNKNOWN, mc_transitions = [] \<rparr>"

definition apply_signals :: "bool option \<Rightarrow> bool option \<Rightarrow> time \<Rightarrow> machine \<Rightarrow> machine" where
  "apply_signals plugged charging now m =
     (let target = derive_target (mc_state m) plugged charging in
      if target = mc_state m then m
      else m\<lparr> mc_state := target, mc_transitions := mc_transitions m @ [(mc_state m, target, now)] \<rparr>)"

subsection \<open>Locations\<close>

datatype location_class = LC_HOME | LC_HOME_SECONDARY | LC_WORK | LC_HOTEL | LC_PUBLIC | LC_UNKNOWN

record location_def =
  ld_id :: "nat option"
  ld_name :: string
  ld_class :: location_class
  ld_latitude :: rat
  ld_longitude :: rat
  ld_radius_m :: rat
  ld_operator :: "string option"
  ld_network :: "string option"
  ld_charging_type :: "string option"
  ld_price_model :: string
  ld_price_value :: "rat option"

record location_match =
  lm_location :: "location_def option"
  lm_name :: string
  lm_operator :: "string option"
  lm_network :: "string option"
  lm_home :: "bool option"
  lm_method :: string
  lm_band :: string
  lm_score :: int

record halo_hint =
  hh_status :: "string option"
  hh_agreement :: "bool option"

definition AWAY_LOCATION_NAME :: string where "AWAY_LOCATION_NAME = ''Borta (ej hemma)''"

definition away_match :: location_match where
  "away_match = \<lparr> lm_location = None, lm_name = AWAY_LOCATION_NAME, lm_operator = None, lm_network = None,
     lm_home = Some False, lm_method = ''MERCEDES_ONLY'', lm_band = ''MEDIUM'', lm_score = 55 \<rparr>"

definition infer_away_from_home ::
  "halo_hint option \<Rightarrow> bool option \<Rightarrow> bool option \<Rightarrow> rat option \<Rightarrow> bool option \<Rightarrow> location_match option" where
  "infer_away_from_home halo plugged charging kw halo_active =
     (let charging = (if charging = None \<and> (\<exists>p \<in> set_option kw. p \<ge> 3/10) then Some True else charging);
          plugged = (if plugged = None \<and> charging = Some True then Some True else plugged)
      in if \<not> (plugged = Some True \<or> charging = Some True) then None
         else if Option.bind halo hh_status = Some ''MISMATCH'' then Some away_match
         else if halo_active = Some False then Some away_match
         else None)"

definition is_away_charging :: "halo_hint option \<Rightarrow> bool option \<Rightarrow> bool option \<Rightarrow> rat option \<Rightarrow> bool option \<Rightarrow> bool" where
  "is_away_charging halo plugged charging kw halo_active \<longleftrightarrow>
     infer_away_from_home halo plugged charging kw halo_active \<noteq> None"

definition unknown_match :: "bool option \<Rightarrow> location_match" where
  "unknown_match home = \<lparr> lm_location = None, lm_name = ''Unknown'', lm_operator = None, lm_network = None,
     lm_home = home, lm_method = ''UNKNOWN'', lm_band = ''UNKNOWN'', lm_score = 0 \<rparr>"

definition is_home :: "location_def \<Rightarrow> bool" where
  "is_home l \<longleftrightarrow> ld_class l \<in> {LC_HOME, LC_HOME_SECONDARY}"

text \<open>The nearest location whose radius holds the position, the first of equals.\<close>

type_synonym distance = "rat \<Rightarrow> rat \<Rightarrow> rat \<Rightarrow> rat \<Rightarrow> rat"

definition nearer :: "(location_def \<Rightarrow> rat) \<Rightarrow> (location_def \<times> rat) option \<Rightarrow> location_def \<Rightarrow> (location_def \<times> rat) option" where
  "nearer d best l = (if d l \<le> ld_radius_m l \<and> (case best of None \<Rightarrow> True | Some b \<Rightarrow> d l < snd b)
     then Some (l, d l) else best)"

definition find_known_location :: "distance \<Rightarrow> location_def list \<Rightarrow> rat \<Rightarrow> rat \<Rightarrow> (location_def \<times> rat) option" where
  "find_known_location metres locations lat lon =
     foldl (nearer (\<lambda>l. metres lat lon (ld_latitude l) (ld_longitude l))) None locations"

definition resolve_location ::
  "distance \<Rightarrow> location_def list \<Rightarrow> rat option \<Rightarrow> rat option \<Rightarrow> halo_hint option \<Rightarrow> bool option \<Rightarrow> bool option \<Rightarrow> rat option
     \<Rightarrow> bool option \<Rightarrow> location_match" where
  "resolve_location metres locations lat lon halo plugged charging kw halo_active = (case (lat, lon) of
     (Some lat, Some lon) \<Rightarrow> (case find_known_location metres locations lat lon of
         None \<Rightarrow> unknown_match (Some False)
       | Some (l, _) \<Rightarrow> \<lparr> lm_location = Some l, lm_name = ld_name l, lm_operator = ld_operator l, lm_network = ld_network l,
           lm_home = Some (is_home l), lm_method = ''GEOFENCE'', lm_band = ''HIGH'', lm_score = 85 \<rparr>)
   | _ \<Rightarrow> or_else (infer_away_from_home halo plugged charging kw halo_active) (unknown_match None))"

subsection \<open>Type, score, energy and cost of a charge\<close>

text \<open>\<open>sub in s\<close>.\<close>

definition str_in :: "string \<Rightarrow> string \<Rightarrow> bool" where
  "str_in sub s \<longleftrightarrow> list_ex (\<lambda>n. starts_with (drop n s) sub) [0..<Suc (length s)]"

definition nonempty_text :: "string option \<Rightarrow> bool" where
  "nonempty_text t \<longleftrightarrow> t \<noteq> None \<and> t \<noteq> Some []"

definition classify_charging_type :: "string option \<Rightarrow> rat option \<Rightarrow> string option \<Rightarrow> string" where
  "classify_charging_type hint kw expected =
     (let wanted = py_upper (or_else expected []); hint_text = py_lower (or_else hint []) in
      if nonempty_text expected \<and> wanted \<in> {''AC'', ''DC'', ''HPC''} then wanted
      else if nonempty_text hint \<and> (str_in ''halo'' hint_text \<or> str_in ''charge amps'' hint_text \<or> str_in ''ac'' hint_text) then ''AC''
      else case kw of None \<Rightarrow> ''UNKNOWN''
        | Some p \<Rightarrow> if p \<ge> 100 then ''HPC'' else if p \<ge> 40 then ''DC'' else if p > 0 then ''AC'' else ''UNKNOWN'')"

record correlation_signals =
  sg_geofence :: bool
  sg_charger_active :: bool
  sg_mercedes_charging :: bool
  sg_soc_increasing :: bool
  sg_house_load :: bool
  sg_timestamps :: bool

definition confidence_band :: "int \<Rightarrow> string" where
  "confidence_band score = (if score \<le> 30 then ''UNKNOWN'' else if score \<le> 60 then ''LOW''
     else if score \<le> 80 then ''MEDIUM'' else if score \<le> 95 then ''HIGH'' else ''VERY_HIGH'')"

definition weight_if :: "int \<Rightarrow> bool \<Rightarrow> int" where "weight_if w b = (if b then w else 0)"

text \<open>Score, band and method of identification.\<close>

definition score_signals :: "correlation_signals \<Rightarrow> location_match option \<Rightarrow> int \<times> string \<times> string" where
  "score_signals g m =
     (let total = weight_if 40 (sg_geofence g) + weight_if 40 (sg_charger_active g) + weight_if 30 (sg_mercedes_charging g)
            + weight_if 20 (sg_soc_increasing g) + weight_if 15 (sg_house_load g) + weight_if 20 (sg_timestamps g)
      in (total, confidence_band total,
          if sg_charger_active g \<and> sg_mercedes_charging g then ''VEHICLE_AND_CHARGER_CORRELATION''
          else if sg_mercedes_charging g then ''MERCEDES_ONLY''
          else if sg_charger_active g then ''CHARGER_ONLY''
          else case m of None \<Rightarrow> ''UNKNOWN'' | Some m \<Rightarrow> lm_method m))"

record session_energy =
  se_energy_kwh :: "rat option"
  se_estimated_kwh :: "rat option"
  se_source :: string
  se_quality :: string

definition given :: "rat option \<Rightarrow> bool" where
  "given x \<longleftrightarrow> (case x of None \<Rightarrow> False | Some v \<Rightarrow> v > 0)"

definition resolve_session_energy :: "rat option \<Rightarrow> rat option \<Rightarrow> rat option \<Rightarrow> rat option \<Rightarrow> session_energy" where
  "resolve_session_energy meter car integrated soc =
     (let result = (\<lambda>e x src q. \<lparr> se_energy_kwh = e, se_estimated_kwh = x, se_source = src, se_quality = q \<rparr>) in
      if given meter then result meter None ''CHARGER_METER'' ''MEASURED''
      else if given car then result car None ''MERCEDES'' ''MEASURED''
      else if given integrated then result integrated integrated ''POWER_INTEGRATION'' ''ESTIMATED''
      else if given soc then result soc soc ''SOC_ESTIMATE'' ''ESTIMATED''
      else result None None ''UNKNOWN'' ''UNKNOWN'')"

definition resolve_session_cost ::
  "bool option \<Rightarrow> rat option \<Rightarrow> string option \<Rightarrow> rat option \<Rightarrow> rat option \<Rightarrow> bool \<Rightarrow> rat option \<times> string" where
  "resolve_session_cost home actual model price energy from_chargefinder =
     (if home = Some True \<and> actual \<noteq> None then (actual, ''HOME_ENERGY_MODEL'')
      else if model = Some ''FREE'' then (Some 0, ''CONFIGURED_FREE_CHARGING'')
      else if model = Some ''FIXED'' \<and> price \<noteq> None then (price, ''CONFIGURED_FIXED'')
      else case (model = Some ''PER_KWH'', price, energy) of
        (True, Some p, Some e) \<Rightarrow> (Some (round_to 2 (e * p)),
          if from_chargefinder then ''CHARGEFINDER'' else if home = Some False then ''OPERATOR'' else ''CONFIGURED_PER_KWH'')
      | _ \<Rightarrow> (None, ''UNKNOWN''))"

subsection \<open>Agreement with the charger\<close>

record halo_reading =
  hr_charger_id :: nat
  hr_connected :: "bool option"
  hr_charging :: "bool option"
  hr_power_kw :: "rat option"

record halo_correlation =
  hc_charger_id :: "nat option"
  hc_confidence :: rat
  hc_status :: string
  hc_plugged_agreement :: "bool option"
  hc_charging_agreement :: "bool option"
  hc_power_delta_kw :: "rat option"

definition bool_agreement :: "bool option \<Rightarrow> bool option \<Rightarrow> bool option" where
  "bool_agreement a b = (case (a, b) of (Some x, Some y) \<Rightarrow> Some (x = y) | _ \<Rightarrow> None)"

definition status_from_confidence :: "rat \<Rightarrow> rat \<Rightarrow> string" where
  "status_from_confidence confidence weight = (if weight \<le> 0 then ''UNAVAILABLE'' else if confidence \<ge> 3/4 then ''ALIGNED''
     else if confidence \<ge> 2/5 then ''PARTIAL'' else ''MISMATCH'')"

definition no_correlation :: "nat option \<Rightarrow> halo_correlation" where
  "no_correlation charger = \<lparr> hc_charger_id = charger, hc_confidence = 0, hc_status = ''UNAVAILABLE'',
     hc_plugged_agreement = None, hc_charging_agreement = None, hc_power_delta_kw = None \<rparr>"

definition agreement_weight :: "bool option \<Rightarrow> rat" where
  "agreement_weight a = (if a = None then 0 else 35/100)"

definition agreement_score :: "bool option \<Rightarrow> rat" where
  "agreement_score a = (if a = Some True then 35/100 else 0)"

definition correlate_vehicle_with_halo ::
  "bool \<Rightarrow> bool option \<Rightarrow> bool option \<Rightarrow> rat option \<Rightarrow> halo_reading option \<Rightarrow> halo_correlation" where
  "correlate_vehicle_with_halo stale plugged charging car_kw halo = (case halo of
     None \<Rightarrow> no_correlation None
   | Some h \<Rightarrow>
       if stale \<or> (plugged = None \<and> charging = None \<and> car_kw = None)
         \<or> (hr_connected h = None \<and> hr_charging h = None \<and> hr_power_kw h = None)
       then no_correlation (Some (hr_charger_id h))
       else let a = bool_agreement plugged (hr_connected h); b = bool_agreement charging (hr_charging h);
                delta = (case (car_kw, hr_power_kw h) of (Some v, Some p) \<Rightarrow> Some \<bar>v - p\<bar> | _ \<Rightarrow> None);
                weight = agreement_weight a + agreement_weight b + (if delta = None then 0 else 30/100);
                score = agreement_score a + agreement_score b + (case delta of None \<Rightarrow> 0
                  | Some d \<Rightarrow> if d \<le> 3/2 then 30/100 else if d \<le> 3 then 15/100 else 0);
                confidence = (if weight > 0 then round_to 3 (score / weight) else 0)
            in \<lparr> hc_charger_id = Some (hr_charger_id h), hc_confidence = confidence,
                 hc_status = status_from_confidence confidence weight, hc_plugged_agreement = a,
                 hc_charging_agreement = b, hc_power_delta_kw = delta \<rparr>)"

subsection \<open>Stations\<close>

datatype station_status = STATION_OK | STATION_DEGRADED | STATION_MULTIPLE | STATION_UNKNOWN

definition station_status_value :: "station_status \<Rightarrow> string" where
  "station_status_value s = (case s of STATION_OK \<Rightarrow> ''OK'' | STATION_DEGRADED \<Rightarrow> ''DEGRADED''
     | STATION_MULTIPLE \<Rightarrow> ''MULTIPLE_CANDIDATES'' | STATION_UNKNOWN \<Rightarrow> ''UNKNOWN'')"

record station =
  sta_provider :: string
  sta_id :: string
  sta_operator :: "string option"
  sta_name :: "string option"
  sta_latitude :: rat
  sta_longitude :: rat
  sta_connector :: "string option"
  sta_max_kw :: "rat option"
  sta_charging_type :: "string option"
  sta_distance_m :: "rat option"
  sta_price_model :: string
  sta_price_value :: "rat option"

record resolved_location =
  rl_location_name :: string
  rl_station_name :: "string option"
  rl_operator :: "string option"
  rl_charging_type :: "string option"
  rl_connector :: "string option"
  rl_max_kw :: "rat option"
  rl_distance_m :: "rat option"
  rl_confidence :: int
  rl_band :: string
  rl_method :: string
  rl_source :: string
  rl_status :: station_status
  rl_candidates :: "(station \<times> int) list"
  rl_selected :: "station option"
  rl_station_id :: "nat option"
  rl_price_model :: string
  rl_price_value :: "rat option"

definition MULTI_MATCH_GAP :: int where "MULTI_MATCH_GAP = 15"

definition format_operator_label :: "string \<Rightarrow> string option \<Rightarrow> string option" where
  "format_operator_label band operator =
     (if \<not> nonempty_text operator then None
      else if band \<in> {''LOW'', ''MEDIUM'', ''UNKNOWN''} then Some (''Likely '' @ the operator) else operator)"

text \<open>\<open>str.strip\<close> on blanks; the dash between two names is a hyphen here.\<close>

definition str_strip :: "string \<Rightarrow> string" where
  "str_strip s = rev (dropWhile (\<lambda>c. c = CHR '' '') (rev (dropWhile (\<lambda>c. c = CHR '' '') s)))"

definition operators_match :: "string \<Rightarrow> string \<Rightarrow> bool" where
  "operators_match expected actual =
     (let a = str_strip (py_lower expected); b = str_strip (py_lower actual) in str_in a b \<or> str_in b a)"

record match_hints =
  mh_operator :: "string option"
  mh_charging_type :: "string option"
  mh_vehicle_type :: "string option"
  mh_vehicle_kw :: "rat option"
  mh_confirmed :: "string list"
  mh_previous :: "string list"
  mh_geofence :: bool
  mh_direct :: bool

definition distance_score :: "rat \<Rightarrow> int" where
  "distance_score d = (if d < 30 then 40 else if d < 75 then 30 else if d < 150 then 20 else 0)"

definition score_one :: "match_hints \<Rightarrow> station \<Rightarrow> int" where
  "score_one h c = min 100
     (distance_score (num_or (sta_distance_m c) 9999)
      + weight_if 40 (mh_geofence h) + weight_if 50 (mh_direct h)
      + weight_if 30 (nonempty_text (mh_operator h) \<and> nonempty_text (sta_operator c)
          \<and> operators_match (the (mh_operator h)) (the (sta_operator c)))
      + weight_if 30 (sta_id c \<in> set (mh_previous h)) + weight_if 50 (sta_id c \<in> set (mh_confirmed h))
      + weight_if 15 (nonempty_text (sta_connector c) \<and> nonempty_text (mh_charging_type h))
      + weight_if 10 (case (mh_vehicle_kw h, sta_max_kw c) of (Some v, Some m) \<Rightarrow> \<bar>m - v\<bar> \<le> 5 | _ \<Rightarrow> False)
      + weight_if 10 (nonempty_text (mh_charging_type h) \<and> sta_charging_type c = mh_charging_type h)
      + weight_if 5 (nonempty_text (mh_vehicle_type h) \<and> sta_charging_type c = mh_vehicle_type h))"

definition score_candidates :: "match_hints \<Rightarrow> station list \<Rightarrow> (station \<times> int) list" where
  "score_candidates h cs = sort_key (\<lambda>x. - snd x) (map (\<lambda>c. (c, score_one h c)) cs)"

definition unknown_station :: "string \<Rightarrow> string \<Rightarrow> string \<Rightarrow> resolved_location" where
  "unknown_station name meth source = \<lparr> rl_location_name = name, rl_station_name = None, rl_operator = None,
     rl_charging_type = None, rl_connector = None, rl_max_kw = None, rl_distance_m = None, rl_confidence = 0,
     rl_band = ''UNKNOWN'', rl_method = meth, rl_source = source, rl_status = STATION_UNKNOWN, rl_candidates = [],
     rl_selected = None, rl_station_id = None, rl_price_model = ''UNKNOWN'', rl_price_value = None \<rparr>"

definition display_name :: "string option \<Rightarrow> string option \<Rightarrow> string \<Rightarrow> string" where
  "display_name operator name fallback =
     (if nonempty_text name \<and> nonempty_text operator then the operator @ '' - '' @ the name
      else if nonempty_text name then the name else if nonempty_text operator then the operator else fallback)"

definition ambiguous :: "(station \<times> int) list \<Rightarrow> bool" where
  "ambiguous scored \<longleftrightarrow> (case scored of a # b # _ \<Rightarrow> snd a - snd b \<le> MULTI_MATCH_GAP \<and> snd a < 85 | _ \<Rightarrow> False)"

definition resolve_from_scores :: "(station \<times> int) list \<Rightarrow> string \<Rightarrow> string \<Rightarrow> string \<Rightarrow> bool \<Rightarrow> resolved_location" where
  "resolve_from_scores scored name meth source geofence = (case scored of
     [] \<Rightarrow> unknown_station name meth source
   | (c, score) # _ \<Rightarrow>
       let base = (unknown_station name meth source)\<lparr> rl_distance_m := sta_distance_m c, rl_confidence := score,
             rl_candidates := take 5 scored, rl_price_model := sta_price_model c, rl_price_value := sta_price_value c \<rparr>
       in if ambiguous scored
          then base\<lparr> rl_band := ''LOW'', rl_method := ''MULTIPLE_CANDIDATES'', rl_status := STATION_MULTIPLE \<rparr>
          else let band = confidence_band score; operator = format_operator_label band (sta_operator c) in
            base\<lparr> rl_location_name := (if geofence then name else display_name operator (sta_name c) name),
               rl_station_name := sta_name c, rl_operator := operator, rl_charging_type := sta_charging_type c,
               rl_connector := sta_connector c, rl_max_kw := sta_max_kw c, rl_band := band,
               rl_method := (if geofence \<and> score \<ge> 70 then ''CHARGEFINDER_AND_GEOFENCE'' else meth),
               rl_status := (if score \<ge> 60 then STATION_OK else STATION_DEGRADED), rl_selected := Some c \<rparr>)"

text \<open>
  The resolver: what is known locally, the cache, the provider. The repositories and the provider answer for a position;
  the second component says whether the result is put into the cache.
\<close>

record station_port =
  sp_enabled :: bool
  sp_find :: "rat \<Rightarrow> rat \<Rightarrow> station list"
  sp_cached :: "(rat \<Rightarrow> rat \<Rightarrow> resolved_location option) option"
  sp_confirmed :: "rat \<Rightarrow> rat \<Rightarrow> string list"
  sp_enrich :: "station \<Rightarrow> station option"

definition from_location_match :: "location_match \<Rightarrow> station_status \<Rightarrow> resolved_location" where
  "from_location_match m status = (unknown_station (lm_name m) (lm_method m) ''LOCATION'')\<lparr>
     rl_station_name := Some (lm_name m), rl_operator := lm_operator m, rl_confidence := lm_score m, rl_band := lm_band m,
     rl_status := status \<rparr>"

definition geofence_only :: "location_def \<Rightarrow> resolved_location" where
  "geofence_only l = (unknown_station (ld_name l) ''GEOFENCE'' ''LOCAL'')\<lparr> rl_station_name := Some (ld_name l),
     rl_operator := ld_operator l, rl_charging_type := ld_charging_type l, rl_confidence := 70, rl_band := ''MEDIUM'',
     rl_status := STATION_DEGRADED \<rparr>"

definition at_own_charger :: "location_def \<Rightarrow> rat \<Rightarrow> resolved_location" where
  "at_own_charger l d = (unknown_station ((if nonempty_text (ld_operator l) then the (ld_operator l) else ''Charge Amps Halo'')
       @ '' - '' @ ld_name l) ''VEHICLE_AND_CHARGER_CORRELATION'' ''DIRECT_CHARGER'')\<lparr>
     rl_station_name := Some (ld_name l), rl_operator := ld_operator l,
     rl_charging_type := Some (if nonempty_text (ld_charging_type l) then the (ld_charging_type l) else ''AC''),
     rl_connector := Some ''Type 2'', rl_max_kw := Some 11, rl_distance_m := Some d, rl_confidence := 99,
     rl_band := ''VERY_HIGH'', rl_status := STATION_OK \<rparr>"

definition priced :: "string \<Rightarrow> bool" where
  "priced model \<longleftrightarrow> model \<notin> {''UNKNOWN'', ''FREE''}"

definition resolve_station ::
  "station_port \<Rightarrow> distance \<Rightarrow> location_def list \<Rightarrow> rat option \<Rightarrow> rat option \<Rightarrow> halo_hint option \<Rightarrow> bool option \<Rightarrow> bool option
     \<Rightarrow> rat option \<Rightarrow> bool option \<Rightarrow> resolved_location \<times> bool" where
  "resolve_station port metres locations lat lon halo plugged charging kw halo_active = (case (lat, lon) of
     (Some lat, Some lon) \<Rightarrow>
       let known = find_known_location metres locations lat lon; here = map_option fst known;
           cached = Option.bind (sp_cached port) (\<lambda>f. f lat lon)
       in if (case known of None \<Rightarrow> False | Some (l, _) \<Rightarrow> is_home l) \<and> charging = Some True \<and> halo_active = Some True
          then (at_own_charger (fst (the known)) (snd (the known)), False)
          else if (case cached of None \<Rightarrow> False | Some r \<Rightarrow> priced (rl_price_model r)) then (the cached, False)
          else if \<not> sp_enabled port
          then ((case here of Some l \<Rightarrow> geofence_only l | None \<Rightarrow> unknown_station AWAY_LOCATION_NAME ''UNKNOWN'' ''NONE''), False)
          else let hints = \<lparr> mh_operator = Option.bind here ld_operator, mh_charging_type = Option.bind here ld_charging_type,
                     mh_vehicle_type = None, mh_vehicle_kw = kw, mh_confirmed = sp_confirmed port lat lon,
                     mh_previous = [], mh_geofence = (known \<noteq> None), mh_direct = False \<rparr>;
                   r = resolve_from_scores (score_candidates hints (sp_find port lat lon))
                     (case here of Some l \<Rightarrow> ld_name l | None \<Rightarrow> AWAY_LOCATION_NAME)
                     (if known \<noteq> None then ''CHARGEFINDER_AND_GEOFENCE'' else ''CHARGEFINDER'') ''CHARGEFINDER'' (known \<noteq> None);
                   r = (if rl_status r = STATION_UNKNOWN \<and> known \<noteq> None then geofence_only (the here) else r)
               in (r, sp_cached port \<noteq> None \<and> rl_status r \<noteq> STATION_MULTIPLE)
   | _ \<Rightarrow> (from_location_match (resolve_location metres locations None None halo plugged charging kw halo_active)
            STATION_UNKNOWN, False))"

definition enrich_pricing :: "station_port \<Rightarrow> resolved_location \<Rightarrow> resolved_location" where
  "enrich_pricing port r =
     (if priced (rl_price_model r) then r
      else case rl_selected r of None \<Rightarrow> r
        | Some c \<Rightarrow> (case sp_enrich port c of None \<Rightarrow> r
            | Some e \<Rightarrow> if sta_price_model e = ''UNKNOWN'' then r
                else r\<lparr> rl_price_model := sta_price_model e, rl_price_value := sta_price_value e, rl_selected := Some e \<rparr>))"

subsection \<open>The context of a session\<close>

definition DEFAULT_BATTERY_CAPACITY_KWH :: rat where "DEFAULT_BATTERY_CAPACITY_KWH = 90"

definition soc_to_kwh_factor :: "rat option \<Rightarrow> rat" where
  "soc_to_kwh_factor usable = (case usable of None \<Rightarrow> DEFAULT_BATTERY_CAPACITY_KWH
     | Some u \<Rightarrow> if u > 0 then u else DEFAULT_BATTERY_CAPACITY_KWH) / 100"

definition estimate_battery_delta_kwh :: "rat option \<Rightarrow> rat option \<Rightarrow> rat option \<Rightarrow> rat option" where
  "estimate_battery_delta_kwh start finish usable = (case (start, finish) of
     (Some a, Some b) \<Rightarrow> if b - a \<le> 0 then None else Some ((b - a) * soc_to_kwh_factor usable)
   | _ \<Rightarrow> None)"

record session_context =
  cx_location_id :: "nat option"
  cx_location_name :: "string option"
  cx_operator :: "string option"
  cx_charging_type :: string
  cx_confidence :: string
  cx_method :: string
  cx_home :: "bool option"
  cx_energy_source :: string
  cx_estimated_kwh :: "rat option"
  cx_cost_sek :: "rat option"
  cx_cost_source :: string
  cx_charging_state :: string
  cx_data_quality :: string
  cx_connector :: "string option"
  cx_station_name :: "string option"
  cx_station_provider :: "string option"
  cx_station_provider_id :: "string option"
  cx_distance_m :: "rat option"
  cx_station_confidence :: "int option"
  cx_station_status :: "string option"
  cx_station_id :: "nat option"
  cx_candidates :: "(string \<times> int) list option"
  cx_price_model :: "string option"
  cx_price_value :: "rat option"

definition IDENTIFICATION_METHODS :: "string list" where
  "IDENTIFICATION_METHODS = [''GEOFENCE'', ''VEHICLE_AND_CHARGER_CORRELATION'', ''CHARGER_ONLY'', ''MERCEDES_ONLY'',
     ''MANUAL'', ''CHARGEFINDER'', ''CHARGEFINDER_AND_GEOFENCE'', ''KNOWN_STATION'', ''MULTIPLE_CANDIDATES'', ''UNKNOWN'']"

definition data_quality_of :: "time \<Rightarrow> vehicle_latest option \<Rightarrow> string" where
  "data_quality_of now latest = (case Option.bind latest vl_last_update of None \<Rightarrow> ''STALE''
     | Some t \<Rightarrow> let age = elapsed_s now t in
         if age \<le> 120 then ''LIVE'' else if age \<le> 900 then ''STALE'' else ''UNAVAILABLE'')"

definition text_else :: "string option \<Rightarrow> string option \<Rightarrow> string option" where
  "text_else a b = (if nonempty_text a then a else b)"

record context_input =
  ci_now :: time
  ci_latest :: "vehicle_latest option"
  ci_charger_name :: "string option"
  ci_meter :: "meter_snapshot option"
  ci_previous_soc :: "rat option"
  ci_start_soc :: "rat option"
  ci_halo :: "halo_hint option"
  ci_halo_active :: "bool option"
  ci_station :: "resolved_location option"

definition context_location :: "distance \<Rightarrow> location_def list \<Rightarrow> context_input \<Rightarrow> location_match" where
  "context_location metres locations i = (let l = ci_latest i in
     resolve_location metres locations (Option.bind l vl_latitude) (Option.bind l vl_longitude) (ci_halo i)
       (Option.bind l vl_plugged) (Option.bind l vl_charging) (Option.bind l vl_power_kw) (ci_halo_active i))"

definition context_home :: "location_match \<Rightarrow> resolved_location option \<Rightarrow> bool option" where
  "context_home m station = (case station of None \<Rightarrow> lm_home m
     | Some r \<Rightarrow> (case lm_location m of Some l \<Rightarrow> Some (is_home l)
         | None \<Rightarrow> if rl_status r \<noteq> STATION_UNKNOWN then Some False else lm_home m))"

definition context_price :: "location_match \<Rightarrow> resolved_location option \<Rightarrow> string option \<times> rat option" where
  "context_price m station = (case station of
     Some r \<Rightarrow> if rl_price_model r \<noteq> ''UNKNOWN'' then (Some (rl_price_model r), rl_price_value r)
       else (map_option ld_price_model (lm_location m), Option.bind (lm_location m) ld_price_value)
   | None \<Rightarrow> (map_option ld_price_model (lm_location m), Option.bind (lm_location m) ld_price_value))"

definition context_signals :: "location_match \<Rightarrow> context_input \<Rightarrow> correlation_signals" where
  "context_signals m i = (let soc = Option.bind (ci_latest i) vl_soc in
     \<lparr> sg_geofence = (lm_location m \<noteq> None),
       sg_charger_active = (case ci_meter i of None \<Rightarrow> False | Some r \<Rightarrow> ms_is_charging r \<or> ms_vehicle_connected r),
       sg_mercedes_charging = (Option.bind (ci_latest i) vl_charging = Some True),
       sg_soc_increasing = (case (soc, ci_previous_soc i) of (Some a, Some b) \<Rightarrow> a > b | _ \<Rightarrow> False),
       sg_house_load = False, sg_timestamps = True \<rparr>)"

definition context_method :: "location_match \<Rightarrow> resolved_location option \<Rightarrow> string \<Rightarrow> string" where
  "context_method m station fallback =
     (let meth = (case station of None \<Rightarrow> lm_method m
        | Some r \<Rightarrow> if rl_method r \<in> set IDENTIFICATION_METHODS then rl_method r else ''UNKNOWN'')
      in if meth \<noteq> ''UNKNOWN'' then meth else fallback)"

definition context_confidence :: "location_match \<Rightarrow> resolved_location option \<Rightarrow> int \<Rightarrow> string \<Rightarrow> string" where
  "context_confidence m station score band =
     (let reference = (case station of None \<Rightarrow> lm_score m | Some r \<Rightarrow> if rl_confidence r \<noteq> 0 then rl_confidence r else lm_score m)
      in if score > reference then band else case station of None \<Rightarrow> lm_band m | Some r \<Rightarrow> rl_band r)"

definition context_energy :: "context_input \<Rightarrow> session_energy" where
  "context_energy i = (let soc = Option.bind (ci_latest i) vl_soc;
       session = estimate_battery_delta_kwh (ci_start_soc i) soc None in
     resolve_session_energy None None None
       (if session \<noteq> None then session else estimate_battery_delta_kwh (ci_previous_soc i) soc None))"

definition build_context ::
  "distance \<Rightarrow> location_def list \<Rightarrow> context_input \<Rightarrow> machine \<Rightarrow> session_context \<times> machine" where
  "build_context metres locations i mc =
     (let m = context_location metres locations i; station = ci_station i; latest = ci_latest i;
          scored = score_signals (context_signals m i) (Some m);
          home = context_home m station; price = context_price m station; energy = context_energy i;
          cost = resolve_session_cost home None (fst price) (snd price) (se_energy_kwh energy)
            (case station of None \<Rightarrow> False | Some r \<Rightarrow> rl_price_model r \<noteq> ''UNKNOWN'' \<and> rl_price_value r \<noteq> None);
          expected = (case station of Some r \<Rightarrow> text_else (rl_charging_type r) (Option.bind (lm_location m) ld_charging_type)
            | None \<Rightarrow> Option.bind (lm_location m) ld_charging_type);
          mc' = apply_signals (Option.bind latest vl_plugged) (Option.bind latest vl_charging) (ci_now i) mc;
          selected = Option.bind station rl_selected
      in (\<lparr> cx_location_id = Option.bind (lm_location m) ld_id,
            cx_location_name = text_else (map_option rl_location_name station) (Some (lm_name m)),
            cx_operator = text_else (Option.bind station rl_operator) (lm_operator m),
            cx_charging_type = classify_charging_type (ci_charger_name i) (Option.bind latest vl_power_kw) expected,
            cx_confidence = context_confidence m station (fst scored) (fst (snd scored)),
            cx_method = context_method m station (snd (snd scored)),
            cx_home = home, cx_energy_source = se_source energy, cx_estimated_kwh = se_estimated_kwh energy,
            cx_cost_sek = fst cost, cx_cost_source = snd cost, cx_charging_state = charging_state_value (mc_state mc'),
            cx_data_quality = data_quality_of (ci_now i) latest, cx_connector = Option.bind station rl_connector,
            cx_station_name = Option.bind station rl_station_name, cx_station_provider = map_option sta_provider selected,
            cx_station_provider_id = map_option sta_id selected, cx_distance_m = Option.bind station rl_distance_m,
            cx_station_confidence = map_option rl_confidence station,
            cx_station_status = map_option (station_status_value \<circ> rl_status) station,
            cx_station_id = Option.bind station rl_station_id,
            cx_candidates = (case station of None \<Rightarrow> None | Some r \<Rightarrow> if rl_candidates r = [] then None
              else Some (map (\<lambda>x. (sta_id (fst x), snd x)) (rl_candidates r))),
            cx_price_model = fst price,
            cx_price_value = (if fst price \<in> {Some ''PER_KWH'', Some ''FREE''} then snd price else None) \<rparr>, mc'))"

subsection \<open>What holds of the signals\<close>

text \<open>A car that says it is unplugged is not taken for plugged in, and one that says it is plugged in only
  when the charger disagrees and it does not charge.\<close>

lemma unplugged_is_unplugged:
  "vl_plugged l = Some False \<Longrightarrow> \<not> ef_plugged (resolve_effective_connection (Some l) hc ha ag now)"
  by (simp add: resolve_effective_connection_def Let_def infer_plugged_in_def not_connected_def)

lemma plugged_is_plugged:
  "vl_plugged l = Some True \<Longrightarrow> ef_plugged (resolve_effective_connection (Some l) hc ha ag now)
     \<longleftrightarrow> \<not> (ag = Some False \<and> \<not> resolve_mercedes_charging l now)"
  by (simp add: resolve_effective_connection_def Let_def not_connected_def)

text \<open>The state machine follows the latest signals; a finished charge is forgotten by the next reading.\<close>

lemma derive_target_plugged_off: "derive_target s (Some False) c \<in> {CS_DISCONNECTED, CS_DISCONNECTED_AFTER_CHARGE}"
  by (simp add: derive_target_def)

lemma complete_lasts_one_reading:
  "derive_target CS_CHARGING (Some True) (Some False) = CS_CHARGING_COMPLETE"
  "derive_target CS_CHARGING_COMPLETE (Some True) (Some False) = CS_PLUGGED_IN"
  by (simp_all add: derive_target_def)

text \<open>The chain of transitions: each begins where the one before ended, none stays where it is.\<close>

fun chained :: "charging_state \<Rightarrow> (charging_state \<times> charging_state \<times> time) list \<Rightarrow> charging_state \<Rightarrow> bool" where
  "chained s [] t \<longleftrightarrow> s = t"
| "chained s ((a, b, _) # xs) t \<longleftrightarrow> a = s \<and> a \<noteq> b \<and> chained b xs t"

lemma chained_snoc: "chained s (xs @ [(a, b, n)]) t \<longleftrightarrow> chained s xs a \<and> a \<noteq> b \<and> b = t"
  by (induction s xs a rule: chained.induct) auto

definition machine_ok :: "machine \<Rightarrow> bool" where
  "machine_ok m \<longleftrightarrow> chained CS_UNKNOWN (mc_transitions m) (mc_state m)"

lemma apply_signals_ok: "machine_ok m \<Longrightarrow> machine_ok (apply_signals p c now m)"
  by (simp add: machine_ok_def apply_signals_def Let_def chained_snoc)

interpretation charge_states: kept_invariant
  "\<lambda>m x. apply_signals (fst x) (fst (snd x)) (snd (snd x)) m" "\<lambda>_. True" machine_ok
  by unfold_locales (rule apply_signals_ok)

lemma restore_value: "restore_state (charging_state_value s) = s"
  by (cases s) (simp_all add: restore_state_def charging_state_value_def all_charging_states_def)

text \<open>A candidate exactly at the car scores like one out of reach.\<close>

lemma distance_zero_scores_nothing: "distance_score (num_or (Some 0) 9999) = 0" "distance_score (num_or (Some 1) 9999) = 40"
  by (simp_all add: distance_score_def num_or_def)

text \<open>A known location is within its radius and no other location within its own is nearer.\<close>

definition nearest_of :: "(location_def \<Rightarrow> rat) \<Rightarrow> location_def list \<Rightarrow> (location_def \<times> rat) option \<Rightarrow> bool" where
  "nearest_of d ls r \<longleftrightarrow> (case r of
     None \<Rightarrow> \<forall>k \<in> set ls. \<not> d k \<le> ld_radius_m k
   | Some (l, x) \<Rightarrow> l \<in> set ls \<and> x = d l \<and> d l \<le> ld_radius_m l \<and> (\<forall>k \<in> set ls. d k \<le> ld_radius_m k \<longrightarrow> d l \<le> d k))"

lemma nearer_step: "nearest_of d ls r \<Longrightarrow> nearest_of d (ls @ [x]) (nearer d r x)"
  unfolding nearest_of_def nearer_def by (auto split: option.splits)

lemma nearest_known: "nearest_of d ls (foldl (nearer d) None ls)"
  by (induction ls rule: rev_induct) (simp add: nearest_of_def, simp add: nearer_step)

end
