(* ===== verification/Vehicle_Sessions.thy ===== *)
theory Vehicle_Sessions
  imports Vehicle_Signals
begin

section \<open>Charging sessions seen from the car\<close>

text \<open>
  \<open>vehicles/sessions/\<close>: the rows of \<open>vehicle_charge_sessions\<close> and their repository
  (\<open>db/vehicle_charge_session_repo.py\<close>), what is known of a session's place and how it is merged
  (\<open>finalization.py\<close>), the session service (\<open>session_service.py\<close>), the sampler (\<open>sampler.py\<close>), the coordinator with its
  look-ups (\<open>coordinator.py\<close>) and the removal of empty sessions (\<open>cleanup.py\<close>). The tables of the house charger are
  those of \<open>Ev_Sessions\<close>. Keyword arguments are lists of names: a call that gives a name twice raises.
\<close>

subsection \<open>Rows\<close>

text \<open>The members of \<open>csi_fields\<close>: the context of the session and its position.\<close>

record csi =
  cs_context :: session_context
  cs_latitude :: "rat option"
  cs_longitude :: "rat option"

definition csi_names :: "string list" where
  "csi_names = [''latitude'', ''longitude'', ''location_name'', ''location_id'', ''charger_operator'', ''charging_type'',
     ''home_charging'', ''energy_source'', ''estimated_energy_kwh'', ''charging_cost_sek'', ''cost_source'', ''price_model'',
     ''price_value_sek_kwh'', ''detection_confidence'', ''identification_method'', ''vehicle_data_quality'', ''charging_state'',
     ''connector_type'', ''station_name'', ''station_provider'', ''station_provider_id'', ''distance_from_vehicle_m'',
     ''station_confidence'', ''station_resolution_status'', ''station_candidates_json'', ''charging_station_id'']"

definition csi_of :: "session_context \<Rightarrow> vehicle_latest option \<Rightarrow> csi" where
  "csi_of c latest = \<lparr> cs_context = c, cs_latitude = Option.bind latest vl_latitude,
     cs_longitude = Option.bind latest vl_longitude \<rparr>"

record vehicle_session =
  vs_id :: nat
  vs_vehicle :: nat
  vs_charger :: "nat option"
  vs_site :: nat
  vs_ev_session :: "nat option"
  vs_connected_at :: time
  vs_disconnected_at :: "time option"
  vs_charging_started :: "time option"
  vs_charging_stopped :: "time option"
  vs_start_soc :: "rat option"
  vs_end_soc :: "rat option"
  vs_target_soc :: "rat option"
  vs_active :: bool
  vs_meter_start :: "rat option"
  vs_meter_stop :: "rat option"
  vs_energy_kwh :: "rat option"
  vs_estimated_delta_kwh :: "rat option"
  vs_totals :: "session_totals option"
  vs_energy_quality :: "string option"
  vs_cost_quality :: "string option"
  vs_attribution_quality :: "string option"
  vs_confidence :: "rat option"
  vs_csi :: csi

record vehicle_db =
  vd_sessions :: "vehicle_session list"
  vd_intervals :: "ev_interval list"
  vd_ev :: ev_db
  vd_next_session :: nat
  vd_next_interval :: nat

definition vehicle_active_of :: "nat \<Rightarrow> vehicle_session \<Rightarrow> bool" where
  "vehicle_active_of v s \<longleftrightarrow> vs_vehicle s = v \<and> vs_active s"

definition get_active_for_vehicle :: "nat \<Rightarrow> vehicle_db \<Rightarrow> vehicle_session option" where
  "get_active_for_vehicle v db = (case sort_key (\<lambda>s. - vs_connected_at s) (filter (vehicle_active_of v) (vd_sessions db)) of
     [] \<Rightarrow> None | s # _ \<Rightarrow> Some s)"

definition create_vehicle_session :: "vehicle_session \<Rightarrow> vehicle_db \<Rightarrow> vehicle_session \<times> vehicle_db" where
  "create_vehicle_session row db = (let row = row\<lparr> vs_id := vd_next_session db, vs_active := True \<rparr> in
     (row, db\<lparr> vd_sessions := vd_sessions db @ [row], vd_next_session := vd_next_session db + 1 \<rparr>))"

text \<open>\<open>update_csi_fields\<close>, \<open>update_charging_timestamps\<close>, \<open>patch_session\<close>: changes to the row with an id.\<close>

definition patch_row :: "nat \<Rightarrow> (vehicle_session \<Rightarrow> vehicle_session) \<Rightarrow> vehicle_db \<Rightarrow> vehicle_db" where
  "patch_row i f db = db\<lparr> vd_sessions := map (\<lambda>s. if vs_id s = i then f s else s) (vd_sessions db) \<rparr>"

definition complete_vehicle_row :: "nat \<Rightarrow> (vehicle_session \<Rightarrow> vehicle_session) \<Rightarrow> vehicle_db \<Rightarrow> vehicle_db" where
  "complete_vehicle_row i f = patch_row i (\<lambda>s. f (s\<lparr> vs_active := False \<rparr>))"

definition put_csi :: "csi \<Rightarrow> vehicle_session \<Rightarrow> vehicle_session" where
  "put_csi c s = s\<lparr> vs_csi := c \<rparr>"

definition data_stale :: "vehicle_session \<Rightarrow> vehicle_session" where
  "data_stale s = s\<lparr> vs_csi := (vs_csi s)\<lparr> cs_context := (cs_context (vs_csi s))\<lparr> cx_data_quality := ''STALE'' \<rparr> \<rparr> \<rparr>"

definition charging_timestamps ::
  "time option \<Rightarrow> time option \<Rightarrow> rat option \<Rightarrow> vehicle_session \<Rightarrow> vehicle_session" where
  "charging_timestamps started stopped target s =
     s\<lparr> vs_charging_started := (if started \<noteq> None then started else vs_charging_started s),
        vs_charging_stopped := (if stopped \<noteq> None then stopped else vs_charging_stopped s),
        vs_target_soc := (if target \<noteq> None then target else vs_target_soc s) \<rparr>"

subsection \<open>What is known of the place\<close>

definition is_unknown_location :: "string option \<Rightarrow> bool" where
  "is_unknown_location name \<longleftrightarrow> \<not> nonempty_text name \<or> str_strip (the name) \<in> {''Unknown'', AWAY_LOCATION_NAME}"

definition finalize_away_session_energy ::
  "vehicle_session \<Rightarrow> rat option \<Rightarrow> rat option \<Rightarrow> rat option \<Rightarrow> rat option \<times> rat option \<times> string" where
  "finalize_away_session_energy s end_soc estimated usable =
     (let delta = estimate_battery_delta_kwh (vs_start_soc s) end_soc usable;
          energy = (if given delta then delta else estimated)
      in if given energy then (energy, delta, ''ESTIMATED'') else (None, delta, ''UNKNOWN''))"

definition keep_text :: "string option \<Rightarrow> string option \<Rightarrow> string option" where
  "keep_text new old = (if \<not> nonempty_text new \<and> nonempty_text old then old else new)"

definition unpriced :: "string option \<Rightarrow> bool" where
  "unpriced m \<longleftrightarrow> m \<in> {None, Some ''UNKNOWN''}"

definition some_number :: "rat option \<Rightarrow> bool" where
  "some_number x \<longleftrightarrow> x \<noteq> None \<and> x \<noteq> Some 0"

definition merge_csi_fields :: "csi \<Rightarrow> csi \<Rightarrow> csi" where
  "merge_csi_fields old new =
     (let oc = cs_context old; n = cs_context new;
          keep_name = is_unknown_location (cx_location_name n) \<and> \<not> is_unknown_location (cx_location_name oc);
          keep_price = unpriced (cx_price_model n) \<and> \<not> unpriced (cx_price_model oc);
          keep_confidence = cx_station_confidence n \<in> {None, Some 0} \<and> cx_station_confidence oc \<notin> {None, Some 0};
          name = (if keep_name then cx_location_name oc else cx_location_name n);
          keep_position = is_unknown_location name \<and> some_number (cs_latitude old) \<and> some_number (cs_longitude old)
      in \<lparr> cs_context = n\<lparr> cx_location_name := name,
             cx_station_name := keep_text (cx_station_name n) (cx_station_name oc),
             cx_operator := keep_text (cx_operator n) (cx_operator oc),
             cx_price_model := (if keep_price then cx_price_model oc else cx_price_model n),
             cx_price_value := (if keep_price then cx_price_value oc else cx_price_value n),
             cx_station_provider := keep_text (cx_station_provider n) (cx_station_provider oc),
             cx_station_provider_id := keep_text (cx_station_provider_id n) (cx_station_provider_id oc),
             cx_station_confidence := (if keep_confidence then cx_station_confidence oc else cx_station_confidence n) \<rparr>,
           cs_latitude = (if keep_position then cs_latitude old else cs_latitude new),
           cs_longitude = (if keep_position then cs_longitude old else cs_longitude new) \<rparr>)"

definition first_given :: "'a option \<Rightarrow> 'a option \<Rightarrow> 'a option" where
  "first_given a b = (if a \<noteq> None then a else b)"

definition station_context :: "resolved_location \<Rightarrow> session_context \<Rightarrow> session_context" where
  "station_context r c = c\<lparr> cx_location_name := (if rl_location_name r \<noteq> [] then Some (rl_location_name r) else cx_location_name c),
     cx_station_name := text_else (rl_station_name r) (cx_station_name c),
     cx_operator := text_else (rl_operator r) (cx_operator c),
     cx_charging_type := or_else (text_else (rl_charging_type r) (Some (cx_charging_type c))) [],
     cx_price_model := (if rl_price_model r \<noteq> ''UNKNOWN'' then Some (rl_price_model r) else cx_price_model c),
     cx_price_value := (if rl_price_model r \<noteq> ''UNKNOWN'' then rl_price_value r else cx_price_value c),
     cx_connector := text_else (rl_connector r) (cx_connector c),
     cx_station_confidence := Some (rl_confidence r),
     cx_station_status := Some (station_status_value (rl_status r)),
     cx_method := (if rl_method r \<noteq> [] then rl_method r else cx_method c),
     cx_confidence := (if rl_band r \<noteq> [] then rl_band r else cx_confidence c),
     cx_station_provider := first_given (map_option sta_provider (rl_selected r)) (cx_station_provider c),
     cx_station_provider_id := first_given (map_option sta_id (rl_selected r)) (cx_station_provider_id c) \<rparr>"

definition apply_station_resolution :: "csi \<Rightarrow> resolved_location option \<Rightarrow> vehicle_latest option \<Rightarrow> csi" where
  "apply_station_resolution c station latest = (case station of
     None \<Rightarrow> c
   | Some r \<Rightarrow> if \<not> is_unknown_location (cx_location_name (cs_context c)) \<and> rl_status r = STATION_UNKNOWN then c
       else \<lparr> cs_context = station_context r (cs_context c),
              cs_latitude = first_given (Option.bind latest vl_latitude) (cs_latitude c),
              cs_longitude = first_given (Option.bind latest vl_longitude) (cs_longitude c) \<rparr>)"

subsection \<open>The session service\<close>

record vehicle_runtime =
  vr_plugged :: "bool option"
  vr_charging :: "bool option"
  vr_meter_kwh :: "rat option"
  vr_sample_at :: "time option"
  vr_soc :: "rat option"

definition fresh_vehicle_runtime :: vehicle_runtime where
  "fresh_vehicle_runtime = \<lparr> vr_plugged = None, vr_charging = None, vr_meter_kwh = None, vr_sample_at = None, vr_soc = None \<rparr>"

record vehicle_state =
  vt_db :: vehicle_db
  vt_runtime :: "(nat \<times> vehicle_runtime) list"
  vt_machines :: "(nat \<times> machine) list"

definition vehicle_runtime_of :: "nat \<Rightarrow> vehicle_state \<Rightarrow> vehicle_runtime" where
  "vehicle_runtime_of v st = or_else (map_of (vt_runtime st) v) fresh_vehicle_runtime"

definition set_vehicle_runtime :: "nat \<Rightarrow> vehicle_runtime \<Rightarrow> vehicle_state \<Rightarrow> vehicle_state" where
  "set_vehicle_runtime v r st = st\<lparr> vt_runtime := AList.update v r (vt_runtime st) \<rparr>"

definition change_row :: "nat \<Rightarrow> (vehicle_session \<Rightarrow> vehicle_session) \<Rightarrow> vehicle_state \<Rightarrow> vehicle_state" where
  "change_row i f st = st\<lparr> vt_db := patch_row i f (vt_db st) \<rparr>"

text \<open>The inputs of one poll of a car: its latest state, the stored agreement with the charger, the meter of its charger.\<close>

record vehicle_poll =
  vp_now :: time
  vp_vehicle :: nat
  vp_site :: ev_site
  vp_charger :: nat
  vp_charger_name :: "string option"
  vp_latest :: "vehicle_latest option"
  vp_correlation :: "halo_correlation option"
  vp_meter :: "meter_snapshot option"
  vp_sample :: site_sample
  vp_station :: "resolved_location option"

record vehicle_env =
  vn_metres :: distance
  vn_locations :: "location_def list"
  vn_rate :: rat
  vn_price_at :: "time \<Rightarrow> price_row option"

definition halo_hint_of :: "halo_correlation option \<Rightarrow> halo_hint option" where
  "halo_hint_of c = map_option (\<lambda>c. \<lparr> hh_status = Some (hc_status c), hh_agreement = hc_plugged_agreement c \<rparr>) c"

definition halo_charger_active :: "meter_snapshot \<Rightarrow> bool" where
  "halo_charger_active m \<longleftrightarrow> ms_is_charging m \<or> ms_vehicle_connected m \<or> num_or (ms_power_w m) 0 > 300"

definition vehicle_data_stale :: "vehicle_latest option \<Rightarrow> time \<Rightarrow> bool" where
  "vehicle_data_stale latest now = (case Option.bind latest vl_last_update of None \<Rightarrow> True
     | Some t \<Rightarrow> elapsed_s now t > STALE_TELEMETRY_SECONDS)"

definition poll_connection :: "vehicle_poll \<Rightarrow> bool option \<Rightarrow> bool option \<Rightarrow> effective_connection" where
  "poll_connection p halo_connected halo_active =
     resolve_effective_connection (vp_latest p) halo_connected halo_active
       (Option.bind (vp_correlation p) hc_plugged_agreement) (vp_now p)"

definition poll_soc :: "vehicle_poll \<Rightarrow> rat option" where
  "poll_soc p = Option.bind (vp_latest p) vl_soc"

definition poll_away :: "vehicle_poll \<Rightarrow> effective_connection \<Rightarrow> bool option \<Rightarrow> bool" where
  "poll_away p e halo_active = is_away_charging (halo_hint_of (vp_correlation p)) (Some (ef_plugged e)) (Some (ef_charging e))
     (Option.bind (vp_latest p) vl_power_kw) halo_active"

text \<open>The context of this poll (which moves the state machine of the car) and the fields it writes.\<close>

definition poll_context ::
  "vehicle_env \<Rightarrow> vehicle_poll \<Rightarrow> bool \<Rightarrow> bool option \<Rightarrow> vehicle_session option \<Rightarrow> vehicle_state \<Rightarrow> csi \<times> vehicle_state" where
  "poll_context env p with_charger halo_active active st =
     (let v = vp_vehicle p;
          input = \<lparr> ci_now = vp_now p, ci_latest = vp_latest p,
            ci_charger_name = (if with_charger then vp_charger_name p else None),
            ci_meter = (if with_charger then vp_meter p else None), ci_previous_soc = vr_soc (vehicle_runtime_of v st),
            ci_start_soc = (case active of Some a \<Rightarrow> vs_start_soc a | None \<Rightarrow> poll_soc p),
            ci_halo = halo_hint_of (vp_correlation p), ci_halo_active = halo_active, ci_station = vp_station p \<rparr>;
          built = build_context (vn_metres env) (vn_locations env) input (or_else (map_of (vt_machines st) v) fresh_machine)
      in (apply_station_resolution (csi_of (fst built) (vp_latest p)) (vp_station p) (vp_latest p),
          st\<lparr> vt_machines := AList.update v (snd built) (vt_machines st) \<rparr>))"

datatype call_result = Returned "nat option" | Raised_type_error

definition names_clash :: "string list \<Rightarrow> string list \<Rightarrow> bool" where
  "names_clash xs ys \<longleftrightarrow> list_ex (\<lambda>x. x \<in> set ys) xs"

definition new_vehicle_session :: "vehicle_poll \<Rightarrow> time \<Rightarrow> csi \<Rightarrow> vehicle_session" where
  "new_vehicle_session p now c = \<lparr> vs_id = 0, vs_vehicle = vp_vehicle p, vs_charger = None, vs_site = st_id (vp_site p),
     vs_ev_session = None, vs_connected_at = now, vs_disconnected_at = None, vs_charging_started = None,
     vs_charging_stopped = None, vs_start_soc = poll_soc p, vs_end_soc = None,
     vs_target_soc = Option.bind (vp_latest p) vl_target_soc, vs_active = True, vs_meter_start = None, vs_meter_stop = None,
     vs_energy_kwh = None, vs_estimated_delta_kwh = None, vs_totals = None, vs_energy_quality = None, vs_cost_quality = None,
     vs_attribution_quality = None, vs_confidence = map_option hc_confidence (vp_correlation p), vs_csi = c \<rparr>"

definition start_row :: "vehicle_session \<Rightarrow> vehicle_state \<Rightarrow> nat \<times> vehicle_state" where
  "start_row row st = (let c = create_vehicle_session row (vt_db st) in (vs_id (fst c), st\<lparr> vt_db := snd c \<rparr>))"

text \<open>The completion away from home: the names it gives itself and those in \<open>csi_fields\<close>.\<close>

definition away_names :: "string list" where
  "away_names = [''disconnected_at'', ''end_soc'', ''halo_energy_kwh'', ''estimated_battery_energy_delta_kwh'',
     ''charging_cost_sek'', ''cost_source'', ''price_model'', ''price_value_sek_kwh'', ''energy_quality'', ''cost_quality'',
     ''attribution_quality'']"

definition complete_away_session ::
  "vehicle_poll \<Rightarrow> vehicle_session \<Rightarrow> csi \<Rightarrow> vehicle_state \<Rightarrow> call_result \<times> vehicle_state" where
  "complete_away_session p a c st =
     (let merged = merge_csi_fields (vs_csi a) c; ctx = cs_context c;
          e = finalize_away_session_energy a (poll_soc p) (cx_estimated_kwh ctx) None
      in if names_clash away_names csi_names then (Raised_type_error, st)
         else (Returned None, st\<lparr> vt_db := complete_vehicle_row (vs_id a) (\<lambda>s. s\<lparr> vs_disconnected_at := Some (vp_now p),
             vs_end_soc := poll_soc p, vs_energy_kwh := fst e, vs_estimated_delta_kwh := fst (snd e),
             vs_energy_quality := Some (snd (snd e)),
             vs_cost_quality := Some (if some_number (cx_cost_sek ctx) then ''ESTIMATED'' else ''INCOMPLETE''),
             vs_attribution_quality := Some ''UNAVAILABLE'', vs_csi := merged \<rparr>) (vt_db st),
           vt_runtime := AList.update (vp_vehicle p) ((vehicle_runtime_of (vp_vehicle p) st)\<lparr> vr_plugged := Some False,
             vr_charging := Some False \<rparr>) (vt_runtime st) \<rparr>))"

definition remember_connection :: "vehicle_poll \<Rightarrow> effective_connection \<Rightarrow> vehicle_state \<Rightarrow> vehicle_state" where
  "remember_connection p e st = (let r = vehicle_runtime_of (vp_vehicle p) st in
     set_vehicle_runtime (vp_vehicle p) (r\<lparr> vr_plugged := Some (ef_plugged e), vr_charging := Some (ef_charging e),
       vr_soc := first_given (poll_soc p) (vr_soc r) \<rparr>) st)"

definition update_away_row :: "vehicle_poll \<Rightarrow> bool \<Rightarrow> csi \<Rightarrow> vehicle_session \<Rightarrow> vehicle_session" where
  "update_away_row p away c s = s\<lparr> vs_csi := c, vs_end_soc := first_given (poll_soc p) (vs_end_soc s),
     vs_charger := (if away then None else vs_charger s) \<rparr>"

definition process_vehicle_without_charger ::
  "vehicle_env \<Rightarrow> vehicle_poll \<Rightarrow> bool option \<Rightarrow> vehicle_state \<Rightarrow> call_result \<times> vehicle_state" where
  "process_vehicle_without_charger env p halo_active st =
     (let v = vp_vehicle p; e = poll_connection p None halo_active; was = vr_plugged (vehicle_runtime_of v st);
          active = get_active_for_vehicle v (vt_db st);
          ctx = poll_context env p False halo_active active st; c = fst ctx; st = snd ctx
      in case active of
           None \<Rightarrow> if ef_plugged e \<and> was \<noteq> Some True
             then let started = start_row (new_vehicle_session p (vp_now p) c) st; r = vehicle_runtime_of v st in
               (Returned (Some (fst started)), set_vehicle_runtime v (r\<lparr> vr_plugged := Some True,
                  vr_charging := Some (ef_charging e), vr_soc := poll_soc p \<rparr>) (snd started))
             else (Returned None, remember_connection p e st)
         | Some a \<Rightarrow>
             let st = change_row (vs_id a) (update_away_row p (poll_away p e halo_active) (merge_csi_fields (vs_csi a) c)) st;
                 done = (if \<not> ef_plugged e then complete_away_session p a c st
                   else (Returned None, if vehicle_data_stale (vp_latest p) (vp_now p) \<and> (ef_charging e \<or> was = Some True)
                     then change_row (vs_id a) data_stale st else st))
             in (case fst done of Raised_type_error \<Rightarrow> done
                 | Returned _ \<Rightarrow> (Returned None, remember_connection p e (snd done))))"

text \<open>The completion at the house charger. Without a linked charger session the totals are computed here.\<close>

definition vehicle_totals :: "ev_interval list \<Rightarrow> rat option \<Rightarrow> string \<Rightarrow> session_totals" where
  "vehicle_totals ivs measured quality =
     (let kwh = sum_list (map iv_charged_energy_kwh ivs);
          m = or_else measured kwh; quality = (if measured = None then ''ESTIMATED'' else quality);
          recon = reconcile (sum_attributions (map iv_attribution ivs)) (Some m) kwh;
          actual = sum_list (map iv_actual_cost_sek ivs);
          reference = sum_list (List.map_filter iv_reference_cost_sek ivs);
          ref = (if reference > 0 then Some reference else None);
          total = num_or (Some (total_kwh (rn_attribution recon))) m
      in \<lparr> tt_total_energy_kwh = total, tt_attribution = rn_attribution recon, tt_actual_cost_sek = actual,
           tt_reference_cost_sek = ref, tt_savings_sek = map_option (\<lambda>r. r - actual) ref,
           tt_smart_charging_savings_sek = None, tt_solar_contribution_sek = 0,
           tt_renewable_share_pct = (if total > 0 then renewable_kwh (rn_attribution recon) / total * 100 else 0),
           tt_grid_share_pct = (if total > 0 then grid_kwh (rn_attribution recon) / total * 100 else 0),
           tt_energy_quality = (if quality = ''MEASURED'' then rn_energy_quality recon else quality),
           tt_cost_quality = (if ref \<noteq> None then ''CALCULATED'' else ''INCOMPLETE''), tt_attribution_quality = ''CALCULATED'',
           tt_reconciliation_delta_kwh = rn_delta_kwh recon, tt_reconciliation_note = rn_note recon \<rparr>)"

definition vehicle_intervals :: "nat \<Rightarrow> vehicle_db \<Rightarrow> ev_interval list" where
  "vehicle_intervals sid db = sort_key iv_start_time (filter (\<lambda>i. iv_session_id i = sid) (vd_intervals db))"

definition completed_row :: "vehicle_poll \<Rightarrow> meter_snapshot \<Rightarrow> session_totals \<Rightarrow> csi \<Rightarrow> vehicle_session \<Rightarrow> vehicle_session" where
  "completed_row p m t c s = s\<lparr> vs_disconnected_at := Some (ms_recorded_at m), vs_end_soc := poll_soc p,
     vs_meter_stop := ms_cumulative_kwh m, vs_energy_kwh := Some (tt_total_energy_kwh t),
     vs_estimated_delta_kwh := estimate_battery_delta_kwh (vs_start_soc s) (poll_soc p) None,
     vs_totals := Some t, vs_energy_quality := Some (tt_energy_quality t), vs_cost_quality := Some (tt_cost_quality t),
     vs_attribution_quality := Some (tt_attribution_quality t), vs_csi := c \<rparr>"

definition complete_vehicle_session ::
  "vehicle_poll \<Rightarrow> meter_snapshot \<Rightarrow> vehicle_session \<Rightarrow> csi \<Rightarrow> vehicle_state \<Rightarrow> vehicle_state" where
  "complete_vehicle_session p m a c st =
     (let v = vp_vehicle p; db = vt_db st;
          ivs = (case vs_ev_session a of Some e \<Rightarrow> list_for_session e (vd_ev db) | None \<Rightarrow> vehicle_intervals (vs_id a) db);
          reading = session_energy_from_meter (vs_meter_start a) (ms_cumulative_kwh m);
          linked = (vs_ev_session a \<noteq> None \<and> ivs \<noteq> []);
          totals = (if linked then session_totals_from_intervals ivs (fst reading) (snd reading)
                    else vehicle_totals ivs (fst reading) (snd reading));
          stopping = (\<not> linked \<and> vs_charging_started a \<noteq> None \<and> vs_charging_stopped a = None);
          st = (if stopping then change_row (vs_id a) (charging_timestamps None (Some (ms_recorded_at m)) None) st else st);
          r = vehicle_runtime_of v st
      in set_vehicle_runtime v (r\<lparr> vr_meter_kwh := ms_cumulative_kwh m, vr_sample_at := Some (ms_recorded_at m) \<rparr>)
           (st\<lparr> vt_db := complete_vehicle_row (vs_id a) (completed_row p m totals c) (vt_db st) \<rparr>))"

definition plugged_and_charging :: "vehicle_poll \<Rightarrow> effective_connection \<Rightarrow> vehicle_state \<Rightarrow> vehicle_state" where
  "plugged_and_charging p e st = (let r = vehicle_runtime_of (vp_vehicle p) st in
     set_vehicle_runtime (vp_vehicle p) (r\<lparr> vr_plugged := Some (ef_plugged e), vr_charging := Some (ef_charging e) \<rparr>) st)"

definition stamp_charging :: "bool \<Rightarrow> bool option \<Rightarrow> time \<Rightarrow> rat option \<Rightarrow> vehicle_session \<Rightarrow> vehicle_session" where
  "stamp_charging charging was now target =
     (if charging \<and> was \<noteq> Some True then charging_timestamps (Some now) None target
      else if \<not> charging \<and> was = Some True then charging_timestamps None (Some now) None
      else charging_timestamps None None target)"

definition started_at_charger ::
  "vehicle_poll \<Rightarrow> meter_snapshot \<Rightarrow> effective_connection \<Rightarrow> csi \<Rightarrow> vehicle_state \<Rightarrow> call_result \<times> vehicle_state" where
  "started_at_charger p m e c st =
     (let v = vp_vehicle p; now = ms_recorded_at m;
          row = (new_vehicle_session p now c)\<lparr> vs_charger := Some (vp_charger p), vs_meter_start := ms_cumulative_kwh m,
            vs_ev_session := map_option sn_id (get_active_for_charger (vp_charger p) (vd_ev (vt_db st))) \<rparr>;
          started = start_row row st; r = vehicle_runtime_of v st;
          st = set_vehicle_runtime v (r\<lparr> vr_meter_kwh := ms_cumulative_kwh m, vr_sample_at := Some now, vr_soc := poll_soc p,
            vr_plugged := Some (ef_plugged e), vr_charging := Some (ef_charging e) \<rparr>) (snd started)
      in (Returned (Some (fst started)),
          if ef_charging e then change_row (fst started)
            (charging_timestamps (Some now) None (Option.bind (vp_latest p) vl_target_soc)) st else st))"

definition process_vehicle ::
  "vehicle_env \<Rightarrow> vehicle_poll \<Rightarrow> meter_snapshot \<Rightarrow> vehicle_state \<Rightarrow> call_result \<times> vehicle_state" where
  "process_vehicle env p m st =
     (let v = vp_vehicle p; r = vehicle_runtime_of v st; halo_active = Some (halo_charger_active m);
          e = poll_connection p (Some (ms_vehicle_connected m)) halo_active;
          was_charging = vr_charging r; stale = vehicle_data_stale (vp_latest p) (vp_now p);
          charger_active = (ms_is_charging m \<or> ms_vehicle_connected m \<or> num_or (ms_power_w m) 0 > 0)
      in if poll_away p e halo_active then process_vehicle_without_charger env p halo_active st
         else let active = get_active_for_vehicle v (vt_db st);
                  ctx = poll_context env p True halo_active active st; c = fst ctx; st = snd ctx
         in case active of
           None \<Rightarrow> if ef_plugged e \<and> vr_plugged r \<noteq> Some True then started_at_charger p m e c st
             else (Returned None, remember_connection p e st)
         | Some a \<Rightarrow>
             if \<not> ef_plugged e
             then (if stale \<and> charger_active
                   then (if names_clash [''vehicle_data_quality''] csi_names then (Raised_type_error, st)
                         else (Returned (Some (vs_id a)),
                           plugged_and_charging p e (change_row (vs_id a) (\<lambda>s. data_stale (put_csi c s)) st)))
                   else (Returned (Some (vs_id a)), plugged_and_charging p e (complete_vehicle_session p m a c st)))
             else let link = (if vs_ev_session a = None
                      then map_option sn_id (get_active_for_charger (vp_charger p) (vd_ev (vt_db st))) else None);
                    f = (\<lambda>s. let s = put_csi (merge_csi_fields (vs_csi a) c) s;
                        s = (if stale \<and> (ef_charging e \<or> was_charging = Some True \<or> charger_active) then data_stale s else s);
                        s = stamp_charging (ef_charging e) was_charging (ms_recorded_at m)
                              (Option.bind (vp_latest p) vl_target_soc) s
                      in s\<lparr> vs_ev_session := first_given link (vs_ev_session s) \<rparr>)
                  in (Returned None, remember_connection p e (change_row (vs_id a) f st)))"

subsection \<open>The sampler\<close>

text \<open>Sessions linked to one of the charger are sampled there. The row is that of \<open>Ev_Sessions\<close>, with the session of the car.\<close>

definition sample_runtime :: "vehicle_runtime \<Rightarrow> charger_runtime" where
  "sample_runtime r = \<lparr> rt_last_vehicle_connected = None, rt_last_meter_kwh = vr_meter_kwh r, rt_last_sample_at = vr_sample_at r \<rparr>"

definition vehicle_interval :: "nat \<Rightarrow> ev_session" where
  "vehicle_interval sid = \<lparr> sn_id = sid, sn_charger_id = 0, sn_site_id = 0, sn_started_at = 0, sn_ended_at = None,
     sn_status = EV_ACTIVE, sn_meter_start_kwh = None, sn_meter_stop_kwh = None, sn_totals = None,
     sn_savings_baseline = [], sn_calculation_version = [] \<rparr>"

definition insert_vehicle_interval :: "ev_interval \<Rightarrow> vehicle_db \<Rightarrow> vehicle_db" where
  "insert_vehicle_interval row db = db\<lparr> vd_intervals := vd_intervals db @ [row\<lparr> iv_id := vd_next_interval db \<rparr>],
     vd_next_interval := vd_next_interval db + 1 \<rparr>"

definition sample_vehicle ::
  "vehicle_env \<Rightarrow> vehicle_poll \<Rightarrow> meter_snapshot \<Rightarrow> bool \<Rightarrow> vehicle_state \<Rightarrow> vehicle_state" where
  "sample_vehicle env p m charging st =
     (let v = vp_vehicle p; db = vt_db st; r = vehicle_runtime_of v st; now = ms_recorded_at m in
      case get_active_for_vehicle v db of
        None \<Rightarrow> st
      | Some a \<Rightarrow>
          if vs_ev_session a \<noteq> None \<or> (\<not> charging \<and> num_or (ms_power_w m) 0 \<le> 0) then st
          else let start = or_else (vr_sample_at r) (vs_connected_at a);
                   hours = max 0 (elapsed_s now start / 3600);
                   charged = charged_since (sample_runtime r) m (vp_sample p) hours
               in if hours \<le> 0 then st
                  else if fst charged \<le> 0 then set_vehicle_runtime v (r\<lparr> vr_sample_at := Some now \<rparr>) st
                  else let price = sample_price (vn_rate env) (vn_price_at env) now (vp_site p) (vp_sample p);
                           row = sampled_interval price (vp_site p) (vehicle_interval (vs_id a)) (vp_charger p) start m
                             (vp_sample p) charged (ledger_state (st_id (vp_site p)) (vd_ev db))
                       in set_vehicle_runtime v (r\<lparr> vr_meter_kwh := ms_cumulative_kwh m, vr_sample_at := Some now \<rparr>)
                            (st\<lparr> vt_db := insert_vehicle_interval row db \<rparr>))"

subsection \<open>The coordinator\<close>

text \<open>One car in a cycle: an exception is logged and ends its processing; what was written stays.\<close>

definition poll_vehicle :: "vehicle_env \<Rightarrow> vehicle_state \<Rightarrow> vehicle_poll \<Rightarrow> vehicle_state" where
  "poll_vehicle env st p = (case vp_meter p of
     None \<Rightarrow> snd (process_vehicle_without_charger env p None st)
   | Some m \<Rightarrow> let done = process_vehicle env p m st in
       (case fst done of Raised_type_error \<Rightarrow> snd done
        | Returned _ \<Rightarrow> sample_vehicle env p m (ef_charging (poll_connection p None None)) (snd done)))"

text \<open>At startup the active sessions are taken up again.\<close>

definition resume_vehicle_session :: "vehicle_state \<Rightarrow> vehicle_session \<Rightarrow> vehicle_state" where
  "resume_vehicle_session st a =
     (let v = vs_vehicle a; state = cx_charging_state (cs_context (vs_csi a));
          st = set_vehicle_runtime v \<lparr> vr_plugged = Some True, vr_charging = Some False, vr_meter_kwh = vs_meter_start a,
            vr_sample_at = Some (vs_connected_at a), vr_soc = vs_start_soc a \<rparr> st;
          mc = or_else (map_of (vt_machines st) v) fresh_machine
      in if state = [] then st
         else st\<lparr> vt_machines := AList.update v (mc\<lparr> mc_state := restore_state state \<rparr>) (vt_machines st) \<rparr>)"

definition restart_vehicles :: "vehicle_state \<Rightarrow> vehicle_state" where
  "restart_vehicles st = foldl resume_vehicle_session (st\<lparr> vt_runtime := [], vt_machines := [] \<rparr>)
     (filter vs_active (vd_sessions (vt_db st)))"

text \<open>When the station of a car is looked up.\<close>

record lookup_state =
  lk_was_plugged :: bool
  lk_was_charging :: bool
  lk_done :: bool
  lk_retry_done :: bool
  lk_price_enriched :: bool
  lk_pending :: bool
  lk_last :: "resolved_location option"

definition fresh_lookup :: lookup_state where
  "fresh_lookup = \<lparr> lk_was_plugged = False, lk_was_charging = False, lk_done = False, lk_retry_done = False,
     lk_price_enriched = False, lk_pending = False, lk_last = None \<rparr>"

definition uncertain :: "resolved_location option \<Rightarrow> bool" where
  "uncertain r \<longleftrightarrow> (case r of None \<Rightarrow> False | Some x \<Rightarrow> rl_status x \<in> {STATION_UNKNOWN, STATION_MULTIPLE})"

definition should_lookup :: "bool \<Rightarrow> bool \<Rightarrow> lookup_state \<Rightarrow> bool \<times> lookup_state" where
  "should_lookup plugged charging k =
     (let before = lk_was_plugged k; k = k\<lparr> lk_was_plugged := plugged, lk_was_charging := charging \<rparr> in
      if \<not> plugged \<and> before
      then (False, k\<lparr> lk_done := False, lk_retry_done := False, lk_pending := True \<rparr>)
      else if \<not> plugged then (lk_pending k \<and> \<not> lk_done k, k)
      else if \<not> before
      then (True, k\<lparr> lk_done := False, lk_retry_done := False, lk_pending := False, lk_last := None \<rparr>)
      else if \<not> lk_done k then (True, k)
      else if \<not> lk_retry_done k \<and> uncertain (lk_last k) then (True, k\<lparr> lk_retry_done := True \<rparr>)
      else (False, k))"

text \<open>\<open>resolve\<close> is the resolver at the position, \<open>None\<close> when it raises (the state keeps what was changed before);
  \<open>enrich\<close> adds a price. The result, whether the resolver was asked, and the state.\<close>

definition resolve_station_if_needed ::
  "(unit \<Rightarrow> resolved_location option) \<Rightarrow> (resolved_location \<Rightarrow> resolved_location) \<Rightarrow> bool \<Rightarrow> effective_connection
     \<Rightarrow> lookup_state \<Rightarrow> resolved_location option \<times> bool \<times> lookup_state" where
  "resolve_station_if_needed resolve enrich positioned e k =
     (if \<not> positioned then (None, False, k)
      else let asked = should_lookup (ef_plugged e) (ef_charging e) k; k = snd asked in
        if fst asked
        then (case resolve () of
            None \<Rightarrow> (None, True, k)
          | Some r \<Rightarrow> let r = enrich r in
              (Some r, True, k\<lparr> lk_done := True, lk_pending := False, lk_last := Some r,
                 lk_price_enriched := priced (rl_price_model r) \<rparr>))
        else if lk_pending k \<and> lk_last k \<noteq> None then (lk_last k, False, k\<lparr> lk_pending := False \<rparr>)
        else if \<not> ef_plugged e then (None, False, k)
        else if lk_last k \<noteq> None \<and> \<not> lk_price_enriched k
        then let r = enrich (the (lk_last k)) in (Some r, False, k\<lparr> lk_last := Some r, lk_price_enriched := True \<rparr>)
        else (lk_last k, False, k))"

subsection \<open>Empty sessions\<close>

definition zero_or_missing :: "rat option \<Rightarrow> bool" where
  "zero_or_missing x \<longleftrightarrow> num_or x 0 = 0"

definition empty_session :: "vehicle_db \<Rightarrow> vehicle_session \<Rightarrow> bool" where
  "empty_session db s \<longleftrightarrow> \<not> vs_active s \<and> vs_charging_started s = None \<and> vs_charging_stopped s = None
     \<and> filter (\<lambda>i. iv_session_id i = vs_id s) (vd_intervals db) = []
     \<and> zero_or_missing (vs_energy_kwh s) \<and> zero_or_missing (vs_estimated_delta_kwh s)
     \<and> (case vs_totals s of None \<Rightarrow> True
        | Some t \<Rightarrow> let a = tt_attribution t in ea_solar_direct_kwh a = 0 \<and> ea_solar_battery_kwh a = 0
            \<and> ea_grid_battery_kwh a = 0 \<and> ea_grid_direct_kwh a = 0)"

definition find_empty_sessions :: "nat option \<Rightarrow> vehicle_db \<Rightarrow> vehicle_session list" where
  "find_empty_sessions site db = sort_key vs_id
     (filter (\<lambda>s. empty_session db s \<and> (case site of None \<Rightarrow> True | Some i \<Rightarrow> vs_site s = i)) (vd_sessions db))"

definition purge_empty_sessions :: "nat option \<Rightarrow> bool \<Rightarrow> vehicle_db \<Rightarrow> nat list \<times> vehicle_db" where
  "purge_empty_sessions site dry_run db =
     (let ids = map vs_id (find_empty_sessions site db) in
      (ids, if dry_run \<or> ids = [] then db
            else db\<lparr> vd_intervals := filter (\<lambda>i. iv_session_id i \<notin> set ids) (vd_intervals db),
                     vd_sessions := filter (\<lambda>s. vs_id s \<notin> set ids) (vd_sessions db) \<rparr>))"

end
