(* ===== verification/Vehicle_Runs.thy ===== *)
theory Vehicle_Runs
  imports Vehicle_Sessions
begin

section \<open>Runs of the vehicle sessions\<close>

text \<open>
  Polls of cars, restarts and purges in any order. Every poll changes the active session of its car or opens one
  when there is none (\<open>evolves\<close>), which keeps at most one active session per car. Then: a session away from home is
  never completed, a known place is not forgotten while a session lasts, and how often a station is looked up.
\<close>

datatype vehicle_event = Polled vehicle_poll | Restarted | Purged "nat option" bool

definition vehicle_step :: "vehicle_env \<Rightarrow> vehicle_state \<Rightarrow> vehicle_event \<Rightarrow> vehicle_state" where
  "vehicle_step env st e = (case e of Polled p \<Rightarrow> poll_vehicle env st p | Restarted \<Rightarrow> restart_vehicles st
     | Purged site dry \<Rightarrow> st\<lparr> vt_db := snd (purge_empty_sessions site dry (vt_db st)) \<rparr>)"

subsection \<open>What a poll does to the table\<close>

definition place_known :: "vehicle_session \<Rightarrow> bool" where
  "place_known s \<longleftrightarrow> \<not> is_unknown_location (cx_location_name (cs_context (vs_csi s)))"

definition touches_active :: "nat \<Rightarrow> vehicle_db \<Rightarrow> (vehicle_session \<Rightarrow> vehicle_session) \<Rightarrow> bool" where
  "touches_active v db g \<longleftrightarrow> (\<forall>s. vs_id (g s) = vs_id s \<and> vs_vehicle (g s) = vs_vehicle s \<and> (vs_active (g s) \<longrightarrow> vs_active s)
     \<and> ((\<forall>a. get_active_for_vehicle v db = Some a \<longrightarrow> vs_id s \<noteq> vs_id a) \<longrightarrow> g s = s)
     \<and> ((\<forall>a. get_active_for_vehicle v db = Some a \<longrightarrow> place_known a) \<longrightarrow> place_known s \<longrightarrow> vs_active (g s) \<longrightarrow> place_known (g s)))"

definition evolves :: "nat \<Rightarrow> vehicle_db \<Rightarrow> vehicle_db \<Rightarrow> bool" where
  "evolves v db db' \<longleftrightarrow> (\<exists>g new. touches_active v db g \<and> vd_sessions db' = map g (vd_sessions db) @ new
     \<and> (new = [] \<and> vd_next_session db' = vd_next_session db
        \<or> get_active_for_vehicle v db = None \<and> (\<exists>r. new = [r] \<and> vs_id r = vd_next_session db \<and> vs_vehicle r = v)
          \<and> vd_next_session db' = vd_next_session db + 1))"

definition row_frame :: "(vehicle_session \<Rightarrow> vehicle_session) \<Rightarrow> bool" where
  "row_frame f \<longleftrightarrow> (\<forall>s. vs_id (f s) = vs_id s \<and> vs_vehicle (f s) = vs_vehicle s \<and> (vs_active (f s) \<longrightarrow> vs_active s))"

text \<open>A change that leaves a known place known, given the row \<open>a\<close> it was computed from.\<close>

definition keeps_place :: "vehicle_session \<Rightarrow> (vehicle_session \<Rightarrow> vehicle_session) \<Rightarrow> bool" where
  "keeps_place a f \<longleftrightarrow> (\<forall>s. place_known a \<longrightarrow> place_known s \<longrightarrow> vs_active (f s) \<longrightarrow> place_known (f s))"

lemma touches_activeD:
  assumes "touches_active v db g"
  shows "vs_id (g s) = vs_id s" "vs_vehicle (g s) = vs_vehicle s" "vs_active (g s) \<Longrightarrow> vs_active s"
    and "(\<And>a. get_active_for_vehicle v db = Some a \<Longrightarrow> vs_id s \<noteq> vs_id a) \<Longrightarrow> g s = s"
    and "(\<And>a. get_active_for_vehicle v db = Some a \<Longrightarrow> place_known a) \<Longrightarrow> place_known s \<Longrightarrow> vs_active (g s) \<Longrightarrow> place_known (g s)"
  using assms unfolding touches_active_def by blast+

lemma touches_id: "touches_active v db id"
  by (simp add: touches_active_def)

lemma row_frameD:
  assumes "row_frame f"
  shows "vs_id (f s) = vs_id s" "vs_vehicle (f s) = vs_vehicle s" "vs_active (f s) \<Longrightarrow> vs_active s"
  using assms unfolding row_frame_def by blast+

lemma evolves_same: "vd_sessions db' = vd_sessions db \<Longrightarrow> vd_next_session db' = vd_next_session db \<Longrightarrow> evolves v db db'"
  unfolding evolves_def using touches_id by (intro exI [of _ id] exI [of _ "[]"]) simp

lemma evolves_sessions:
  assumes "evolves v db db1" "vd_sessions db2 = vd_sessions db1" "vd_next_session db2 = vd_next_session db1"
  shows "evolves v db db2"
  using assms by (simp add: evolves_def)

lemma evolves_patch:
  assumes "evolves v db db'" "get_active_for_vehicle v db = Some a" "row_frame f" "keeps_place a f"
  shows "evolves v db (patch_row (vs_id a) f db')"
proof -
  obtain g where g: "touches_active v db g" "vd_sessions db' = map g (vd_sessions db)" "vd_next_session db' = vd_next_session db"
    using assms(1,2) unfolding evolves_def by auto
  let ?h = "\<lambda>s. if vs_id s = vs_id a then f s else s"
  have "touches_active v db (?h \<circ> g)"
  proof (unfold touches_active_def, intro allI conjI)
    fix s
    note g = touches_activeD [OF g(1), of s] and f = row_frameD [OF assms(3)]
    show "vs_id ((?h \<circ> g) s) = vs_id s" by (simp add: f(1) g(1))
    show "vs_vehicle ((?h \<circ> g) s) = vs_vehicle s" by (simp add: f(2) g(2))
    show "vs_active ((?h \<circ> g) s) \<longrightarrow> vs_active s" using g(3) f(3) [of "g s"] by (simp split: if_splits)
    show "(\<forall>a. get_active_for_vehicle v db = Some a \<longrightarrow> vs_id s \<noteq> vs_id a) \<longrightarrow> (?h \<circ> g) s = s"
    proof
      assume other: "\<forall>a. get_active_for_vehicle v db = Some a \<longrightarrow> vs_id s \<noteq> vs_id a"
      then have "g s = s" using g(4) by blast
      moreover have "vs_id s \<noteq> vs_id a" using other assms(2) by blast
      ultimately show "(?h \<circ> g) s = s" by simp
    qed
    show "(\<forall>a. get_active_for_vehicle v db = Some a \<longrightarrow> place_known a) \<longrightarrow> place_known s \<longrightarrow> vs_active ((?h \<circ> g) s) \<longrightarrow> place_known ((?h \<circ> g) s)"
    proof (intro impI)
      assume known: "\<forall>a. get_active_for_vehicle v db = Some a \<longrightarrow> place_known a" and s: "place_known s"
        and act: "vs_active ((?h \<circ> g) s)"
      have "vs_active (g s)" using act f(3) [of "g s"] by (simp split: if_splits)
      then have "place_known (g s)" using g(5) known s by blast
      moreover have "place_known a" using known assms(2) by blast
      ultimately show "place_known ((?h \<circ> g) s)" using act assms(4) unfolding keeps_place_def by (simp split: if_splits)
    qed
  qed
  moreover have "vd_sessions (patch_row (vs_id a) f db') = map (?h \<circ> g) (vd_sessions db)"
    by (simp add: patch_row_def g(2))
  ultimately show ?thesis unfolding evolves_def using g(3)
    by (intro exI [of _ "?h \<circ> g"] exI [of _ "[]"]) (simp add: patch_row_def)
qed

lemma row_frame_complete: "row_frame f \<Longrightarrow> row_frame (\<lambda>s. f (s\<lparr> vs_active := False \<rparr>))"
  by (auto simp: row_frame_def)

lemma keeps_place_complete: "row_frame f \<Longrightarrow> keeps_place a (\<lambda>s. f (s\<lparr> vs_active := False \<rparr>))"
  by (auto simp: row_frame_def keeps_place_def)

lemma row_frames [simp]:
  "row_frame (update_away_row p w c)" "row_frame data_stale"
  "row_frame (charging_timestamps x y z)" "row_frame (completed_row p m t c)"
  by (simp_all add: row_frame_def update_away_row_def data_stale_def charging_timestamps_def completed_row_def)

lemma merged_place_known:
  assumes "place_known a" shows "\<not> is_unknown_location (cx_location_name (cs_context (merge_csi_fields (vs_csi a) c)))"
  using assms by (simp add: place_known_def merge_csi_fields_def Let_def)

lemma places_kept [simp]:
  "keeps_place a (update_away_row p w (merge_csi_fields (vs_csi a) c))" "keeps_place a data_stale"
  "keeps_place a (charging_timestamps x y z)"
  using merged_place_known [of a]
  by (simp_all add: keeps_place_def update_away_row_def data_stale_def charging_timestamps_def place_known_def)

lemma set_runtime_db [simp]: "vt_db (set_vehicle_runtime v r st) = vt_db st"
  by (simp add: set_vehicle_runtime_def)

lemma remember_db [simp]: "vt_db (remember_connection p e st) = vt_db st"
  by (simp add: remember_connection_def Let_def)

lemma plugged_db [simp]: "vt_db (plugged_and_charging p e st) = vt_db st"
  by (simp add: plugged_and_charging_def Let_def)

lemma change_db [simp]: "vt_db (change_row i f st) = patch_row i f (vt_db st)"
  by (simp add: change_row_def)

lemma context_db [simp]: "vt_db (snd (poll_context env p b h a st)) = vt_db st"
  by (simp add: poll_context_def Let_def)

lemma start_row_parts:
  "vd_sessions (vt_db (snd (start_row row st))) = vd_sessions (vt_db st)
     @ [row\<lparr> vs_id := vd_next_session (vt_db st), vs_active := True \<rparr>]"
  "vd_next_session (vt_db (snd (start_row row st))) = vd_next_session (vt_db st) + 1"
  "fst (start_row row st) = vd_next_session (vt_db st)"
  by (simp_all add: start_row_def create_vehicle_session_def Let_def)

lemma evolves_start:
  assumes "get_active_for_vehicle v (vt_db st) = None" "vs_vehicle row = v"
  shows "evolves v (vt_db st) (vt_db (snd (start_row row st)))"
  unfolding evolves_def using assms touches_id by (intro exI [of _ id]) (simp add: start_row_parts)

text \<open>The completion away from home passes four names twice.\<close>

lemma away_call_raises: "complete_away_session p a c st = (Raised_type_error, st)"
proof -
  have "names_clash away_names csi_names" by code_simp
  then show ?thesis by (simp add: complete_away_session_def Let_def)
qed

lemma stale_call_raises: "names_clash [''vehicle_data_quality''] csi_names"
  by code_simp

lemma without_charger_cases:
  fixes env p h st
  defines "st' \<equiv> snd (process_vehicle_without_charger env p h st)"
  shows "evolves (vp_vehicle p) (vt_db st) (vt_db st')"
proof (cases "get_active_for_vehicle (vp_vehicle p) (vt_db st)")
  case None
  let ?ctx = "poll_context env p False h None st"
  have "evolves (vp_vehicle p) (vt_db (snd ?ctx)) (vt_db (snd (start_row (new_vehicle_session p (vp_now p) (fst ?ctx)) (snd ?ctx))))"
    by (rule evolves_start) (simp_all add: None new_vehicle_session_def)
  moreover have "evolves (vp_vehicle p) (vt_db st) (vt_db st)" by (rule evolves_same) simp_all
  ultimately show ?thesis
    unfolding st'_def process_vehicle_without_charger_def Let_def None by simp
next
  case (Some a)
  let ?f = "update_away_row p (poll_away p (poll_connection p None h) h) (merge_csi_fields (vs_csi a) (fst (poll_context env p False h (Some a) st)))"
  have "evolves (vp_vehicle p) (vt_db st) (vt_db st)" by (rule evolves_same) simp_all
  from evolves_patch [OF this Some row_frames(1) places_kept(1)]
  have one: "evolves (vp_vehicle p) (vt_db st) (patch_row (vs_id a) ?f (vt_db st))" .
  from evolves_patch [OF this Some row_frames(2) places_kept(2)]
  have two: "evolves (vp_vehicle p) (vt_db st) (patch_row (vs_id a) data_stale (patch_row (vs_id a) ?f (vt_db st)))" .
  show ?thesis
    unfolding st'_def process_vehicle_without_charger_def Let_def Some away_call_raises using one two by simp
qed

lemma complete_evolves:
  assumes "get_active_for_vehicle (vp_vehicle p) (vt_db st) = Some a"
  shows "evolves (vp_vehicle p) (vt_db st) (vt_db (complete_vehicle_session p m a c st))"
proof -
  have same: "evolves (vp_vehicle p) (vt_db st) (vt_db st)" by (rule evolves_same) simp_all
  have stamp: "evolves (vp_vehicle p) (vt_db st) (patch_row (vs_id a) (charging_timestamps None t None) (vt_db st))" for t
    by (rule evolves_patch [OF same assms]) simp_all
  have "evolves (vp_vehicle p) (vt_db st) (complete_vehicle_row (vs_id a) (completed_row p m t c) (vt_db st))" for t
    unfolding complete_vehicle_row_def by (rule evolves_patch [OF same assms row_frame_complete keeps_place_complete]) simp_all
  moreover have "evolves (vp_vehicle p) (vt_db st) (complete_vehicle_row (vs_id a) (completed_row p m t c)
      (patch_row (vs_id a) (charging_timestamps None u None) (vt_db st)))" for t u
    unfolding complete_vehicle_row_def by (rule evolves_patch [OF stamp assms row_frame_complete keeps_place_complete]) simp_all
  ultimately show ?thesis unfolding complete_vehicle_session_def Let_def by simp
qed

definition ids_below :: "vehicle_db \<Rightarrow> bool" where
  "ids_below db \<longleftrightarrow> (\<forall>s \<in> set (vd_sessions db). vs_id s < vd_next_session db)"

lemma evolves_start_patch:
  assumes "get_active_for_vehicle v (vt_db st) = None" "vs_vehicle row = v" "row_frame f" "ids_below (vt_db st)"
  shows "evolves v (vt_db st) (patch_row (fst (start_row row st)) f (vt_db (snd (start_row row st))))"
proof -
  let ?i = "vd_next_session (vt_db st)" and ?r = "row\<lparr> vs_id := vd_next_session (vt_db st), vs_active := True \<rparr>"
  have "map (\<lambda>s. if vs_id s = ?i then f s else s) (vd_sessions (vt_db st)) = vd_sessions (vt_db st)"
    using assms(4) unfolding ids_below_def by (intro map_idI) auto
  then have "vd_sessions (patch_row (fst (start_row row st)) f (vt_db (snd (start_row row st)))) = map id (vd_sessions (vt_db st)) @ [f ?r]"
    by (simp add: patch_row_def start_row_parts)
  moreover have "vd_next_session (patch_row (fst (start_row row st)) f (vt_db (snd (start_row row st)))) = ?i + 1"
    by (simp add: patch_row_def start_row_parts)
  moreover have "vs_id (f ?r) = ?i" "vs_vehicle (f ?r) = v"
    using row_frameD(1,2) [OF assms(3), of ?r] assms(2) by simp_all
  ultimately show ?thesis
    unfolding evolves_def using touches_id assms(1) by (intro exI [of _ id] exI [of _ "[f ?r]"]) simp
qed

lemma started_evolves:
  assumes "get_active_for_vehicle (vp_vehicle p) (vt_db st) = None" "ids_below (vt_db st)"
  shows "evolves (vp_vehicle p) (vt_db st) (vt_db (snd (started_at_charger p m e c st)))"
proof -
  let ?row = "(new_vehicle_session p (ms_recorded_at m) c)\<lparr> vs_charger := Some (vp_charger p),
    vs_meter_start := ms_cumulative_kwh m,
    vs_ev_session := map_option sn_id (get_active_for_charger (vp_charger p) (vd_ev (vt_db st))) \<rparr>"
  have v: "vs_vehicle ?row = vp_vehicle p" by (simp add: new_vehicle_session_def)
  show ?thesis
    unfolding started_at_charger_def Let_def
    using evolves_start [OF assms(1) v] evolves_start_patch [OF assms(1) v row_frames(3) assms(2)] by simp
qed

definition plugged_update ::
  "vehicle_session \<Rightarrow> csi \<Rightarrow> bool \<Rightarrow> bool \<Rightarrow> bool option \<Rightarrow> time \<Rightarrow> rat option \<Rightarrow> nat option \<Rightarrow> vehicle_session \<Rightarrow> vehicle_session" where
  "plugged_update a c stale charging was now target link s =
     (let s = put_csi (merge_csi_fields (vs_csi a) c) s; s = (if stale then data_stale s else s);
          s = stamp_charging charging was now target s
      in s\<lparr> vs_ev_session := first_given link (vs_ev_session s) \<rparr>)"

lemma row_frame_plugged [simp]: "row_frame (plugged_update a c b1 b2 w n t l)"
  by (simp add: row_frame_def plugged_update_def Let_def put_csi_def data_stale_def stamp_charging_def charging_timestamps_def)

lemma places_kept_plugged [simp]: "keeps_place a (plugged_update a c b1 b2 w n t l)"
  using merged_place_known [of a c]
  by (simp add: keeps_place_def plugged_update_def Let_def put_csi_def data_stale_def stamp_charging_def
      charging_timestamps_def place_known_def)

lemma process_evolves:
  assumes "ids_below (vt_db st)"
  shows "evolves (vp_vehicle p) (vt_db st) (vt_db (snd (process_vehicle env p m st)))"
proof -
  let ?v = "vp_vehicle p" and ?h = "Some (halo_charger_active m)"
  let ?e = "poll_connection p (Some (ms_vehicle_connected m)) ?h"
  have same: "evolves ?v (vt_db st) (vt_db st)" by (rule evolves_same) simp_all
  show ?thesis
  proof (cases "poll_away p ?e ?h")
    case True
    then show ?thesis using without_charger_cases [of p st env "?h"] by (simp add: process_vehicle_def Let_def)
  next
    case False
    show ?thesis
    proof (cases "get_active_for_vehicle ?v (vt_db st)")
      case None
      let ?ctx = "poll_context env p True ?h None st"
      have "evolves ?v (vt_db (snd ?ctx)) (vt_db (snd (started_at_charger p m ?e (fst ?ctx) (snd ?ctx))))"
        by (rule started_evolves) (simp_all add: None assms)
      then show ?thesis using False None same unfolding process_vehicle_def Let_def by simp
    next
      case (Some a)
      let ?ctx = "poll_context env p True ?h (Some a) st"
      have completed: "evolves ?v (vt_db (snd ?ctx)) (vt_db (complete_vehicle_session p m a (fst ?ctx) (snd ?ctx)))"
        by (rule complete_evolves) (simp add: Some)
      have patched: "evolves ?v (vt_db st) (patch_row (vs_id a) f (vt_db st))" if "row_frame f" "keeps_place a f" for f
        by (rule evolves_patch [OF same Some that])
      show ?thesis
        using False Some same completed patched [OF row_frame_plugged places_kept_plugged, unfolded plugged_update_def]
        unfolding process_vehicle_def Let_def by (simp add: stale_call_raises Let_def)
    qed
  qed
qed

lemma sample_sessions:
  "vd_sessions (vt_db (sample_vehicle env p m b st)) = vd_sessions (vt_db st)"
  "vd_next_session (vt_db (sample_vehicle env p m b st)) = vd_next_session (vt_db st)"
  by (simp_all add: sample_vehicle_def insert_vehicle_interval_def Let_def split: option.split)

lemma poll_evolves:
  assumes "ids_below (vt_db st)" shows "evolves (vp_vehicle p) (vt_db st) (vt_db (poll_vehicle env st p))"
proof (cases "vp_meter p")
  case None
  then show ?thesis using without_charger_cases [of p st env None] by (simp add: poll_vehicle_def)
next
  case (Some m)
  note e = process_evolves [OF assms, of p env m]
  show ?thesis
  proof (cases "fst (process_vehicle env p m st)")
    case Raised_type_error
    then show ?thesis using e Some by (simp add: poll_vehicle_def Let_def)
  next
    case (Returned x)
    then show ?thesis using evolves_sessions [OF e sample_sessions] Some by (simp add: poll_vehicle_def Let_def)
  qed
qed

subsection \<open>At most one active session per car\<close>

definition vehicle_ok :: "vehicle_state \<Rightarrow> bool" where
  "vehicle_ok st \<longleftrightarrow> ids_below (vt_db st) \<and> distinct (map vs_id (vd_sessions (vt_db st)))
     \<and> (\<forall>a \<in> set (vd_sessions (vt_db st)). \<forall>b \<in> set (vd_sessions (vt_db st)).
          vs_active a \<longrightarrow> vs_active b \<longrightarrow> vs_vehicle a = vs_vehicle b \<longrightarrow> a = b)"

lemma no_active_session: "get_active_for_vehicle v db = None \<longleftrightarrow> (\<forall>s \<in> set (vd_sessions db). \<not> vehicle_active_of v s)"
proof -
  have "get_active_for_vehicle v db = None \<longleftrightarrow> sort_key (\<lambda>s. - vs_connected_at s) (filter (vehicle_active_of v) (vd_sessions db)) = []"
    by (simp add: get_active_for_vehicle_def split: list.split)
  also have "\<dots> \<longleftrightarrow> set (sort_key (\<lambda>s. - vs_connected_at s) (filter (vehicle_active_of v) (vd_sessions db))) = {}"
    by (simp only: set_empty)
  also have "\<dots> \<longleftrightarrow> (\<forall>s \<in> set (vd_sessions db). \<not> vehicle_active_of v s)"
    by (auto simp only: set_sort set_filter)
  finally show ?thesis .
qed

lemma active_session:
  assumes "get_active_for_vehicle v db = Some a" shows "a \<in> set (vd_sessions db)" "vs_vehicle a = v" "vs_active a"
proof -
  obtain xs where "sort_key (\<lambda>s. - vs_connected_at s) (filter (vehicle_active_of v) (vd_sessions db)) = a # xs"
    using assms by (auto simp: get_active_for_vehicle_def split: list.splits)
  then have "a \<in> set (filter (vehicle_active_of v) (vd_sessions db))" by (metis list.set_intros(1) set_sort)
  then show "a \<in> set (vd_sessions db)" "vs_vehicle a = v" "vs_active a" by (simp_all add: vehicle_active_of_def)
qed

lemma vehicle_ok_db: "vehicle_ok st \<Longrightarrow> vt_db st' = vt_db st \<Longrightarrow> vehicle_ok st'"
  by (simp add: vehicle_ok_def)

lemma vehicle_ok_evolves:
  assumes ok: "vehicle_ok st" and e: "evolves v (vt_db st) (vt_db st')" shows "vehicle_ok st'"
proof -
  let ?S = "vd_sessions (vt_db st)" and ?n = "vd_next_session (vt_db st)"
  obtain g new where g: "touches_active v (vt_db st) g" and S': "vd_sessions (vt_db st') = map g ?S @ new"
    and new: "new = [] \<and> vd_next_session (vt_db st') = ?n
      \<or> get_active_for_vehicle v (vt_db st) = None \<and> (\<exists>r. new = [r] \<and> vs_id r = ?n \<and> vs_vehicle r = v)
        \<and> vd_next_session (vt_db st') = ?n + 1"
    using e unfolding evolves_def by blast
  note gD = touches_activeD [OF g]
  have below: "vs_id s < ?n" if "s \<in> set ?S" for s using ok that unfolding vehicle_ok_def ids_below_def by blast
  have one: "s = t" if "s \<in> set ?S" "t \<in> set ?S" "vs_active s" "vs_active t" "vs_vehicle s = vs_vehicle t" for s t
    using ok that unfolding vehicle_ok_def by blast
  have ids: "map vs_id (map g ?S) = map vs_id ?S" by (simp add: gD(1) comp_def)
  have dist: "distinct (map vs_id ?S)" using ok unfolding vehicle_ok_def by blast
  have old: "a = b" if "a \<in> g ` set ?S" "b \<in> g ` set ?S" "vs_active a" "vs_active b" "vs_vehicle a = vs_vehicle b" for a b
  proof -
    obtain s t where st: "s \<in> set ?S" "t \<in> set ?S" "a = g s" "b = g t" using \<open>a \<in> g ` set ?S\<close> \<open>b \<in> g ` set ?S\<close> by blast
    have "vs_active s" "vs_active t" using gD(3) that(3,4) unfolding st(3,4) by blast+
    moreover have "vs_vehicle s = vs_vehicle t" using that(5) unfolding st(3,4) gD(2) .
    ultimately show ?thesis using one st by blast
  qed
  from new show ?thesis
  proof
    assume "new = [] \<and> vd_next_session (vt_db st') = ?n"
    then have S0: "vd_sessions (vt_db st') = map g ?S" and n: "vd_next_session (vt_db st') = ?n" using S' by simp_all
    have "ids_below (vt_db st')" unfolding ids_below_def S0 n set_map using below gD(1) by auto
    then show ?thesis unfolding vehicle_ok_def S0 ids set_map using dist old by blast
  next
    assume "get_active_for_vehicle v (vt_db st) = None \<and> (\<exists>r. new = [r] \<and> vs_id r = ?n \<and> vs_vehicle r = v)
        \<and> vd_next_session (vt_db st') = ?n + 1"
    then obtain r where r: "new = [r]" "vs_id r = ?n" "vs_vehicle r = v" and next': "vd_next_session (vt_db st') = ?n + 1"
      and none: "\<forall>s \<in> set ?S. \<not> (vs_vehicle s = v \<and> vs_active s)"
      unfolding no_active_session vehicle_active_of_def by blast
    have fresh: "\<not> (vs_active a \<and> vs_vehicle a = v)" if "a \<in> g ` set ?S" for a
    proof
      assume a: "vs_active a \<and> vs_vehicle a = v"
      obtain s where s: "s \<in> set ?S" "a = g s" using \<open>a \<in> g ` set ?S\<close> by blast
      have "vs_active s" using gD(3) a unfolding s(2) by blast
      moreover have "vs_vehicle s = v" using a unfolding s(2) gD(2) by blast
      ultimately show False using none s(1) by blast
    qed
    have S'': "set (vd_sessions (vt_db st')) = insert r (g ` set ?S)" unfolding S' r(1) by simp
    have "ids_below (vt_db st')" unfolding ids_below_def S'' next' using below gD(1) r(2) by (auto simp: less_Suc_eq)
    moreover have "distinct (map vs_id (vd_sessions (vt_db st')))"
    proof -
      have "?n \<notin> vs_id ` set ?S" using below by (metis imageE less_irrefl)
      then show ?thesis unfolding S' r(1) map_append ids using dist r(2) by simp
    qed
    moreover have "a = b" if "a \<in> insert r (g ` set ?S)" "b \<in> insert r (g ` set ?S)" "vs_active a" "vs_active b"
        "vs_vehicle a = vs_vehicle b" for a b
    proof (cases "a = r \<or> b = r")
      case True
      then have "vs_vehicle a = v \<and> vs_vehicle b = v" using that(5) r(3) by auto
      then have "a = r" "b = r" using that(1-4) fresh by blast+
      then show ?thesis by simp
    next
      case False
      then show ?thesis using that old by blast
    qed
    ultimately show ?thesis unfolding vehicle_ok_def S'' by blast
  qed
qed

lemma resume_db: "vt_db (foldl resume_vehicle_session st rows) = vt_db st"
proof (induction rows arbitrary: st)
  case (Cons a rows)
  have "vt_db (resume_vehicle_session st a) = vt_db st" by (simp add: resume_vehicle_session_def Let_def)
  then show ?case using Cons by simp
qed simp

lemma restart_db [simp]: "vt_db (restart_vehicles st) = vt_db st"
  by (simp add: restart_vehicles_def resume_db)

lemma purge_sessions:
  "\<exists>ids. vd_sessions (snd (purge_empty_sessions site dry db)) = filter (\<lambda>s. vs_id s \<notin> ids) (vd_sessions db)
     \<and> vd_next_session (snd (purge_empty_sessions site dry db)) = vd_next_session db
     \<and> (\<forall>i \<in> ids. \<exists>t \<in> set (vd_sessions db). vs_id t = i \<and> \<not> vs_active t)"
proof (cases "dry \<or> map vs_id (find_empty_sessions site db) = []")
  case True
  then show ?thesis by (intro exI [of _ "{}"]) (auto simp: purge_empty_sessions_def Let_def)
next
  case False
  have "\<exists>t \<in> set (vd_sessions db). vs_id t = i \<and> \<not> vs_active t" if "i \<in> set (map vs_id (find_empty_sessions site db))" for i
    using that by (auto simp: find_empty_sessions_def empty_session_def)
  then show ?thesis using False
    by (intro exI [of _ "set (map vs_id (find_empty_sessions site db))"]) (simp add: purge_empty_sessions_def Let_def)
qed

lemma vehicle_ok_filter:
  assumes "vehicle_ok st" "vd_sessions (vt_db st') = filter P (vd_sessions (vt_db st))"
    "vd_next_session (vt_db st') = vd_next_session (vt_db st)"
  shows "vehicle_ok st'"
  using assms unfolding vehicle_ok_def ids_below_def by (auto simp: distinct_map_filter)

lemma vehicle_ok_step: "vehicle_ok st \<Longrightarrow> vehicle_ok (vehicle_step env st e)"
proof (cases e)
  case (Polled p)
  assume ok: "vehicle_ok st"
  have "ids_below (vt_db st)" using ok by (simp add: vehicle_ok_def)
  then show ?thesis using vehicle_ok_evolves [OF ok poll_evolves] by (simp add: Polled vehicle_step_def)
next
  case Restarted
  assume "vehicle_ok st"
  then show ?thesis by (rule vehicle_ok_db) (simp add: Restarted vehicle_step_def)
next
  case (Purged site dry)
  assume ok: "vehicle_ok st"
  obtain ids where "vd_sessions (snd (purge_empty_sessions site dry (vt_db st))) = filter (\<lambda>s. vs_id s \<notin> ids) (vd_sessions (vt_db st))"
      "vd_next_session (snd (purge_empty_sessions site dry (vt_db st))) = vd_next_session (vt_db st)"
    using purge_sessions by metis
  then show ?thesis by (intro vehicle_ok_filter [OF ok]) (simp_all add: Purged vehicle_step_def)
qed

interpretation vehicle_runs: kept_invariant "vehicle_step env" "\<lambda>_. True" vehicle_ok for env
  by unfold_locales (rule vehicle_ok_step)

text \<open>Inputs for the witnesses: a car at a place called Home, its position known when plugged in.\<close>

definition empty_vehicles :: vehicle_state where
  "empty_vehicles = \<lparr> vt_db = \<lparr> vd_sessions = [], vd_intervals = [],
       vd_ev = \<lparr> db_sessions = [], db_intervals = [], db_ledger = [], db_next_session = 1, db_next_interval = 1 \<rparr>,
       vd_next_session = 1, vd_next_interval = 1 \<rparr>, vt_runtime = [], vt_machines = [] \<rparr>"

definition home_env :: vehicle_env where
  "home_env = \<lparr> vn_metres = (\<lambda>a b c d. abs (a - c) + abs (b - d)), vn_locations = [\<lparr> ld_id = Some 1, ld_name = ''Home'',
       ld_class = LC_HOME, ld_latitude = 0, ld_longitude = 0, ld_radius_m = 50, ld_operator = None, ld_network = None,
       ld_charging_type = None, ld_price_model = ''UNKNOWN'', ld_price_value = None \<rparr>],
     vn_rate = 11, vn_price_at = (\<lambda>_. None) \<rparr>"

definition home_poll :: "bool \<Rightarrow> vehicle_poll" where
  "home_poll plugged = \<lparr> vp_now = 0, vp_vehicle = 7, vp_site = \<lparr> st_id = 1, st_fallback_purchase_price_sek_kwh = 1,
       st_export_compensation_sek_kwh = 0 \<rparr>, vp_charger = 3, vp_charger_name = None,
     vp_latest = Some \<lparr> vl_plugged = Some plugged, vl_charging = Some False, vl_power_kw = Some 0,
       vl_charging_updated = Some 0, vl_last_update = Some 0, vl_soc = Some 50, vl_target_soc = Some 80,
       vl_latitude = (if plugged then Some 10 else None), vl_longitude = (if plugged then Some 5 else None) \<rparr>,
     vp_correlation = None, vp_meter = None,
     vp_sample = \<lparr> ss_pv_power_w = 0, ss_house_consumption_w = 0, ss_grid_import_w = 0, ss_grid_export_w = 0,
       ss_battery_charge_w = 0, ss_battery_discharge_w = 0, ss_ev_power_w = 0, ss_electricity_price_sek_kwh = None,
       ss_duration_hours = 0 \<rparr>, vp_station = None \<rparr>"

definition parked :: vehicle_state where
  "parked = poll_vehicle home_env empty_vehicles (home_poll True)"

lemma parked_sessions: "vd_sessions (vt_db parked) = [hd (vd_sessions (vt_db parked))]"
  by code_simp

lemma parked_row:
  "vs_id (hd (vd_sessions (vt_db parked))) = 1" "vs_vehicle (hd (vd_sessions (vt_db parked))) = 7"
  "vs_active (hd (vd_sessions (vt_db parked)))" "place_known (hd (vd_sessions (vt_db parked)))"
  "vd_next_session (vt_db parked) = 2"
  by code_simp+

lemma parked_ok: "vehicle_ok parked"
proof -
  obtain r where r: "vd_sessions (vt_db parked) = [r]" using parked_sessions by blast
  have "vs_id r = 1" using parked_row(1) r by simp
  then show ?thesis by (simp add: vehicle_ok_def ids_below_def r parked_row(5))
qed

subsection \<open>A session away from home is never completed\<close>

definition open_in :: "nat \<Rightarrow> nat \<Rightarrow> vehicle_state \<Rightarrow> bool" where
  "open_in v i st \<longleftrightarrow> vehicle_ok st \<and> (\<exists>s \<in> set (vd_sessions (vt_db st)). vs_id s = i \<and> vs_vehicle s = v \<and> vs_active s)"

lemma without_charger_sessions:
  "\<exists>g new. vd_sessions (vt_db (snd (process_vehicle_without_charger env p h st))) = map g (vd_sessions (vt_db st)) @ new
     \<and> (\<forall>s. vs_id (g s) = vs_id s \<and> vs_vehicle (g s) = vs_vehicle s \<and> vs_active (g s) = vs_active s)"
proof (cases "get_active_for_vehicle (vp_vehicle p) (vt_db st)")
  case None
  then show ?thesis
    unfolding process_vehicle_without_charger_def Let_def
    by (intro exI [of _ id]) (simp add: start_row_parts)
next
  case (Some a)
  define f where "f = update_away_row p (poll_away p (poll_connection p None h) h)
    (merge_csi_fields (vs_csi a) (fst (poll_context env p False h (Some a) st)))"
  define g1 where "g1 = (\<lambda>s. if vs_id s = vs_id a then f s else s)"
  define g2 where "g2 = (\<lambda>s. if vs_id s = vs_id a then data_stale s else s) \<circ> g1"
  have f: "vs_id (f s) = vs_id s \<and> vs_vehicle (f s) = vs_vehicle s \<and> vs_active (f s) = vs_active s" for s
    by (simp add: f_def update_away_row_def)
  have stale: "vs_id (data_stale s) = vs_id s \<and> vs_vehicle (data_stale s) = vs_vehicle s \<and> vs_active (data_stale s) = vs_active s" for s
    by (simp add: data_stale_def)
  have keep1: "vs_id (g1 s) = vs_id s \<and> vs_vehicle (g1 s) = vs_vehicle s \<and> vs_active (g1 s) = vs_active s" for s
    by (simp add: g1_def f)
  have keep2: "vs_id (g2 s) = vs_id s \<and> vs_vehicle (g2 s) = vs_vehicle s \<and> vs_active (g2 s) = vs_active s" for s
    by (simp add: g2_def keep1 stale)
  have "vd_sessions (vt_db (snd (process_vehicle_without_charger env p h st))) = map g1 (vd_sessions (vt_db st))
      \<or> vd_sessions (vt_db (snd (process_vehicle_without_charger env p h st))) = map g2 (vd_sessions (vt_db st))"
    unfolding process_vehicle_without_charger_def Let_def Some away_call_raises
    by (simp add: patch_row_def g1_def g2_def f_def)
  then show ?thesis
  proof
    assume "vd_sessions (vt_db (snd (process_vehicle_without_charger env p h st))) = map g1 (vd_sessions (vt_db st))"
    then show ?thesis using keep1 by (intro exI [of _ g1] exI [of _ "[]"]) simp
  next
    assume "vd_sessions (vt_db (snd (process_vehicle_without_charger env p h st))) = map g2 (vd_sessions (vt_db st))"
    then show ?thesis using keep2 by (intro exI [of _ g2] exI [of _ "[]"]) simp
  qed
qed

lemma other_car_untouched:
  assumes ok: "vehicle_ok st" and e: "evolves u (vt_db st) (vt_db st')"
    and s: "s \<in> set (vd_sessions (vt_db st))" "vs_vehicle s \<noteq> u"
  shows "s \<in> set (vd_sessions (vt_db st'))"
proof -
  obtain g new where g: "touches_active u (vt_db st) g" "vd_sessions (vt_db st') = map g (vd_sessions (vt_db st)) @ new"
    using e unfolding evolves_def by blast
  have "vs_id s \<noteq> vs_id a" if "get_active_for_vehicle u (vt_db st) = Some a" for a
  proof
    assume "vs_id s = vs_id a"
    moreover have "a \<in> set (vd_sessions (vt_db st))" "vs_vehicle a = u" using active_session [OF that] by blast+
    ultimately have "s = a" using ok s(1) unfolding vehicle_ok_def by (metis distinct_map inj_onD)
    then show False using s(2) \<open>vs_vehicle a = u\<close> by simp
  qed
  then have "g s = s" using touches_activeD(4) [OF g(1)] by blast
  then show ?thesis using g(2) s(1) by (metis UnCI imageI set_append set_map)
qed

lemma open_step:
  assumes "open_in v i st" and "\<And>p. e = Polled p \<Longrightarrow> vp_vehicle p = v \<Longrightarrow> vp_meter p = None"
  shows "open_in v i (vehicle_step env st e)"
proof -
  have ok: "vehicle_ok st" using assms(1) by (simp add: open_in_def)
  obtain s where s: "s \<in> set (vd_sessions (vt_db st))" "vs_id s = i" "vs_vehicle s = v" "vs_active s"
    using assms(1) unfolding open_in_def by blast
  have ok': "vehicle_ok (vehicle_step env st e)" by (rule vehicle_ok_step [OF ok])
  have "\<exists>t \<in> set (vd_sessions (vt_db (vehicle_step env st e))). vs_id t = i \<and> vs_vehicle t = v \<and> vs_active t"
  proof (cases e)
    case (Polled p)
    show ?thesis
    proof (cases "vp_vehicle p = v")
      case True
      have "vp_meter p = None" using assms(2) Polled True by blast
      then have step: "vehicle_step env st e = snd (process_vehicle_without_charger env p None st)"
        by (simp add: Polled vehicle_step_def poll_vehicle_def)
      obtain g new where g: "vd_sessions (vt_db (vehicle_step env st e)) = map g (vd_sessions (vt_db st)) @ new"
          "\<forall>s. vs_id (g s) = vs_id s \<and> vs_vehicle (g s) = vs_vehicle s \<and> vs_active (g s) = vs_active s"
        unfolding step using without_charger_sessions by blast
      have "g s \<in> set (vd_sessions (vt_db (vehicle_step env st e)))" using s(1) unfolding g(1) by simp
      then show ?thesis using g(2) s by metis
    next
      case False
      have "ids_below (vt_db st)" using ok by (simp add: vehicle_ok_def)
      then have "evolves (vp_vehicle p) (vt_db st) (vt_db (poll_vehicle env st p))" by (rule poll_evolves)
      moreover have "vs_vehicle s \<noteq> vp_vehicle p" using False s(3) by simp
      ultimately have "s \<in> set (vd_sessions (vt_db (poll_vehicle env st p)))" using other_car_untouched [OF ok _ s(1)] by blast
      then show ?thesis using s by (auto simp: Polled vehicle_step_def)
    qed
  next
    case Restarted
    then show ?thesis using s by (auto simp: vehicle_step_def)
  next
    case (Purged site dry)
    obtain ids where ids: "vd_sessions (snd (purge_empty_sessions site dry (vt_db st))) = filter (\<lambda>s. vs_id s \<notin> ids) (vd_sessions (vt_db st))"
        "\<forall>i \<in> ids. \<exists>t \<in> set (vd_sessions (vt_db st)). vs_id t = i \<and> \<not> vs_active t"
      using purge_sessions by metis
    have "vs_id s \<notin> ids"
    proof
      assume "vs_id s \<in> ids"
      then obtain t where t: "t \<in> set (vd_sessions (vt_db st))" "vs_id t = vs_id s" "\<not> vs_active t" using ids(2) by blast
      then have "t = s" using ok s(1) unfolding vehicle_ok_def by (metis distinct_map inj_onD)
      then show False using t(3) s(4) by simp
    qed
    then have "s \<in> set (vd_sessions (vt_db (vehicle_step env st e)))" using s(1) ids(1) by (simp add: Purged vehicle_step_def)
    then show ?thesis using s by blast
  qed
  then show ?thesis using ok' by (simp add: open_in_def)
qed

definition unmetered :: "nat \<Rightarrow> vehicle_event \<Rightarrow> bool" where
  "unmetered v e \<longleftrightarrow> (case e of Polled p \<Rightarrow> vp_vehicle p = v \<longrightarrow> vp_meter p = None | _ \<Rightarrow> True)"

interpretation open_runs: kept_invariant "vehicle_step env" "unmetered v" "open_in v i" for env v i
proof unfold_locales
  fix st e
  assume o: "open_in v i st" and u: "unmetered v e"
  show "open_in v i (vehicle_step env st e)"
    by (rule open_step [OF o]) (use u in \<open>simp add: unmetered_def\<close>)
qed

text \<open>C36. A session of a car that is never metered is still active after any run of polls, restarts and purges, also
  after polls that find the car unplugged.\<close>

theorem away_sessions_stay_open:
  assumes "vehicle_ok st" "s \<in> set (vd_sessions (vt_db st))" "vs_active s"
    and "\<forall>e \<in> set es. unmetered (vs_vehicle s) e"
  shows "\<exists>t \<in> set (vd_sessions (vt_db (foldl (vehicle_step env) st es))).
     vs_id t = vs_id s \<and> vs_vehicle t = vs_vehicle s \<and> vs_active t"
proof -
  have "open_in (vs_vehicle s) (vs_id s) st" using assms(1-3) by (auto simp: open_in_def)
  from open_runs.run_keeps [OF this assms(4), of env] show ?thesis by (simp add: open_in_def)
qed

theorem away_sessions_stay_open_witness:
  "\<exists>t \<in> set (vd_sessions (vt_db (foldl (vehicle_step home_env) parked [Polled (home_poll False), Restarted]))).
     vs_id t = 1 \<and> vs_vehicle t = 7 \<and> vs_active t"
proof -
  have s: "hd (vd_sessions (vt_db parked)) \<in> set (vd_sessions (vt_db parked))" using parked_sessions by (metis list.set_intros(1))
  have "\<forall>e \<in> set [Polled (home_poll False), Restarted]. unmetered (vs_vehicle (hd (vd_sessions (vt_db parked)))) e"
    by (simp add: unmetered_def home_poll_def)
  from away_sessions_stay_open [OF parked_ok s parked_row(3) this, of home_env] show ?thesis by (simp only: parked_row)
qed

subsection \<open>A known place is not forgotten\<close>

definition place_in :: "nat \<Rightarrow> vehicle_state \<Rightarrow> bool" where
  "place_in i st \<longleftrightarrow> vehicle_ok st \<and> i < vd_next_session (vt_db st)
     \<and> (\<forall>s \<in> set (vd_sessions (vt_db st)). vs_id s = i \<longrightarrow> vs_active s \<longrightarrow> place_known s)"

lemma place_inD:
  assumes "place_in i st" shows "vehicle_ok st" "i < vd_next_session (vt_db st)"
    and "s \<in> set (vd_sessions (vt_db st)) \<Longrightarrow> vs_id s = i \<Longrightarrow> vs_active s \<Longrightarrow> place_known s"
  using assms unfolding place_in_def by blast+

lemma place_poll:
  assumes "place_in i st" shows "place_in i (poll_vehicle env st p)"
proof -
  note ok = place_inD(1) [OF assms]
  let ?v = "vp_vehicle p" and ?S = "vd_sessions (vt_db st)" and ?st = "poll_vehicle env st p"
  have e: "evolves ?v (vt_db st) (vt_db ?st)" using ok poll_evolves unfolding vehicle_ok_def by blast
  then obtain g new where g: "touches_active ?v (vt_db st) g" and S': "vd_sessions (vt_db ?st) = map g ?S @ new"
    and new: "new = [] \<and> vd_next_session (vt_db ?st) = vd_next_session (vt_db st)
      \<or> (\<exists>r. new = [r] \<and> vs_id r = vd_next_session (vt_db st)) \<and> vd_next_session (vt_db ?st) = vd_next_session (vt_db st) + 1"
    unfolding evolves_def by blast
  have "place_known t" if t: "t \<in> set (vd_sessions (vt_db ?st))" "vs_id t = i" "vs_active t" for t
  proof -
    have "t \<notin> set new" using new t(2) place_inD(2) [OF assms] by auto
    then obtain s where s: "s \<in> set ?S" "t = g s" using t(1) unfolding S' by auto
    have "vs_id s = i" "vs_active s" using t(2,3) touches_activeD(1,3) [OF g, of s] unfolding s(2) by simp_all
    then have known: "place_known s" using place_inD(3) [OF assms s(1)] by blast
    show ?thesis
    proof (cases "\<exists>a. get_active_for_vehicle ?v (vt_db st) = Some a \<and> vs_id s = vs_id a")
      case False
      then have "g s = s" using touches_activeD(4) [OF g] by blast
      then show ?thesis using known s(2) by simp
    next
      case True
      then obtain a where a: "get_active_for_vehicle ?v (vt_db st) = Some a" "vs_id s = vs_id a" by blast
      have "a \<in> set ?S" using active_session [OF a(1)] by blast
      then have "s = a" using ok s(1) a(2) unfolding vehicle_ok_def by (metis distinct_map inj_onD)
      then show ?thesis using touches_activeD(5) [OF g _ known] t(3) a(1) known unfolding s(2) by simp
    qed
  qed
  moreover have "i < vd_next_session (vt_db ?st)" using new place_inD(2) [OF assms] by auto
  ultimately show ?thesis using vehicle_ok_evolves [OF ok e] unfolding place_in_def by blast
qed

lemma place_step: assumes "place_in i st" shows "place_in i (vehicle_step env st e)"
proof (cases e)
  case (Polled p)
  then show ?thesis using place_poll [OF assms] by (simp add: vehicle_step_def)
next
  case Restarted
  then show ?thesis using assms by (simp add: vehicle_step_def place_in_def vehicle_ok_def)
next
  case (Purged site dry)
  have "vehicle_ok (vehicle_step env st e)" by (rule vehicle_ok_step [OF place_inD(1) [OF assms]])
  moreover obtain ids where "vd_sessions (vt_db (vehicle_step env st e)) = filter (\<lambda>s. vs_id s \<notin> ids) (vd_sessions (vt_db st))"
      "vd_next_session (vt_db (vehicle_step env st e)) = vd_next_session (vt_db st)"
    using purge_sessions [of site dry "vt_db st"] by (auto simp: Purged vehicle_step_def)
  ultimately show ?thesis using place_inD(2,3) [OF assms] unfolding place_in_def by auto
qed

interpretation place_runs: kept_invariant "vehicle_step env" "\<lambda>_. True" "place_in i" for env i
  by unfold_locales (rule place_step)

text \<open>C35. While a session is active a known place stays known, over every run of polls, restarts and purges.\<close>

theorem known_place_is_kept:
  assumes "vehicle_ok st" "s \<in> set (vd_sessions (vt_db st))" "place_known s"
    and "t \<in> set (vd_sessions (vt_db (foldl (vehicle_step env) st es)))" "vs_id t = vs_id s" "vs_active t"
  shows "place_known t"
proof -
  have "u = s" if "u \<in> set (vd_sessions (vt_db st))" "vs_id u = vs_id s" for u
    using assms(1,2) that unfolding vehicle_ok_def by (metis distinct_map inj_onD)
  then have "place_in (vs_id s) st" using assms(1-3) unfolding place_in_def vehicle_ok_def ids_below_def by blast
  then have "place_in (vs_id s) (foldl (vehicle_step env) st es)" by (rule place_runs.run_keeps) simp
  then show ?thesis using assms(4-6) place_inD(3) by blast
qed

definition drive_off :: vehicle_state where
  "drive_off = foldl (vehicle_step home_env) parked [Polled (home_poll False), Restarted]"

lemma drive_off_sessions: "vd_sessions (vt_db drive_off) = [hd (vd_sessions (vt_db drive_off))]"
  by code_simp

lemma drive_off_row: "vs_id (hd (vd_sessions (vt_db drive_off))) = 1" "vs_active (hd (vd_sessions (vt_db drive_off)))"
  by code_simp+

theorem known_place_is_kept_witness: "place_known (hd (vd_sessions (vt_db drive_off)))"
proof -
  have s: "hd (vd_sessions (vt_db parked)) \<in> set (vd_sessions (vt_db parked))"
    using parked_sessions by (metis list.set_intros(1))
  have t: "hd (vd_sessions (vt_db drive_off)) \<in> set (vd_sessions (vt_db drive_off))"
    using drive_off_sessions by (metis list.set_intros(1))
  show ?thesis
    by (rule known_place_is_kept [OF parked_ok s parked_row(4) t [unfolded drive_off_def] _ drive_off_row(2) [unfolded drive_off_def],
          folded drive_off_def]) (simp add: parked_row drive_off_row)
qed

subsection \<open>How often a station is looked up\<close>

text \<open>Polls of one car: whether the position is known, the connection, what the resolver answers. The number of times it is
  asked, and the state.\<close>

fun lookup_run ::
  "(resolved_location \<Rightarrow> resolved_location) \<Rightarrow> lookup_state \<Rightarrow> (bool \<times> effective_connection \<times> resolved_location) list \<Rightarrow> nat \<times> lookup_state" where
  "lookup_run enrich k [] = (0, k)"
| "lookup_run enrich k ((positioned, e, answer) # ps) =
     (let (_, asked, k') = resolve_station_if_needed (\<lambda>_. Some answer) enrich positioned e k;
          (n, k'') = lookup_run enrich k' ps
      in ((if asked then 1 else 0) + n, k''))"

text \<open>The changes of the plug that the coordinator sees.\<close>

fun plug_changes :: "bool \<Rightarrow> (bool \<times> effective_connection \<times> 'a) list \<Rightarrow> nat \<times> nat" where
  "plug_changes was [] = (0, 0)"
| "plug_changes was ((positioned, e, _) # ps) =
     (if \<not> positioned then plug_changes was ps
      else let (ins, outs) = plug_changes (ef_plugged e) ps in
        (if ef_plugged e \<and> \<not> was then (ins + 1, outs) else if \<not> ef_plugged e \<and> was then (ins, outs + 1) else (ins, outs)))"

definition lookups_due :: "lookup_state \<Rightarrow> nat" where
  "lookups_due k = (if lk_done k then 0 else 1) + (if lk_retry_done k \<or> \<not> lk_was_plugged k then 0 else 1)"

lemma lookup_once:
  assumes "resolve_station_if_needed (\<lambda>_. Some answer) enrich True e k = (r, asked, k')"
  shows "lk_was_plugged k' = ef_plugged e"
    and "(if asked then 1 else 0) + lookups_due k' \<le>
       (if ef_plugged e \<and> \<not> lk_was_plugged k then 2 else if \<not> ef_plugged e \<and> lk_was_plugged k then 1 else 0) + lookups_due k"
  using assms
  by (auto simp: resolve_station_if_needed_def should_lookup_def Let_def lookups_due_def split: if_splits)

lemma lookups_due_run:
  "fst (lookup_run enrich k ps)
     \<le> 2 * fst (plug_changes (lk_was_plugged k) ps) + snd (plug_changes (lk_was_plugged k) ps) + lookups_due k"
proof (induction ps arbitrary: k)
  case (Cons x ps)
  obtain positioned e answer where x: "x = (positioned, e, answer)" by (cases x)
  obtain r asked k' where once: "resolve_station_if_needed (\<lambda>_. Some answer) enrich positioned e k = (r, asked, k')"
    by (metis prod_cases3)
  obtain n k'' where rest: "lookup_run enrich k' ps = (n, k'')" by (cases "lookup_run enrich k' ps")
  have n: "n \<le> 2 * fst (plug_changes (lk_was_plugged k') ps) + snd (plug_changes (lk_was_plugged k') ps) + lookups_due k'"
    using Cons.IH [of k'] rest by simp
  show ?case
  proof (cases positioned)
    case False
    then have "k' = k" "\<not> asked" using once by (simp_all add: resolve_station_if_needed_def)
    then show ?thesis using n once rest False by (simp add: x)
  next
    case True
    obtain ins outs where c: "plug_changes (ef_plugged e) ps = (ins, outs)" by (cases "plug_changes (ef_plugged e) ps")
    note step = lookup_once [OF once [unfolded True [THEN eqTrueI]]]
    have "n \<le> 2 * ins + outs + lookups_due k'" using n step(1) c by simp
    then show ?thesis using step(2) using once by (auto simp: x rest True c split: if_splits)
  qed
qed simp

text \<open>With a resolver that answers, it is asked at most twice for every time the car is plugged in, once for every time
  it is unplugged, and twice more.\<close>

theorem lookups_bounded:
  "fst (lookup_run enrich k ps)
     \<le> 2 * fst (plug_changes (lk_was_plugged k) ps) + snd (plug_changes (lk_was_plugged k) ps) + 2"
  using lookups_due_run [of enrich k ps] by (simp add: lookups_due_def split: if_splits)

end
