(* ===== verification/Consumer_Accounting.thy ===== *)
theory Consumer_Accounting
  imports Ev_Sessions Spa_Control
begin

section \<open>Energy of the spa\<close>

text \<open>
  The spa has no meter: its power is inferred from what it reports (\<open>integrations/arctic_spa/inferred_meter.py\<close>), sampled
  by the poller (\<open>polling.py\<close>), cut into intervals with source and cost (\<open>consumer_accounting/sampler.py\<close>,
  \<open>site_sample.py\<close>), rebuilt from the samples (\<open>sample_backfill.py\<close>) and summed per hour, day, month and year
  (\<open>aggregator.py\<close>, \<open>coordinator.py\<close>), over the tables of \<open>db/consumer_repo.py\<close>. Attribution, cost and ledger are those
  of \<open>Ev_Attribution\<close>. The bounds of a local period and the local start of one are parameters.
\<close>

subsection \<open>The inferred meter\<close>

record arctic_status =
  at_connected :: bool
  at_temperature_c :: "rat option"
  at_setpoint_c :: "rat option"
  at_pumps :: "(string \<times> string option) list"
  at_filter_status :: "string option"
  at_blowers :: "(string \<times> string option) list"

definition HEATER_FILTER_STATUSES :: "string list" where
  "HEATER_FILTER_STATUSES = [''Filtering'', ''Boost'', ''Resuming'', ''Overtemperature'', ''Sanitize'', ''Purge'']"

definition HEATER_ELEMENT_STATUSES :: "string list" where
  "HEATER_ELEMENT_STATUSES = [''Boost'', ''Resuming'', ''Overtemperature'', ''Sanitize'']"

definition status_in :: "string option \<Rightarrow> string list \<Rightarrow> bool" where
  "status_in s xs \<longleftrightarrow> (case s of None \<Rightarrow> False | Some v \<Rightarrow> v \<in> set xs)"

definition filter_cycle_active :: "arctic_status \<Rightarrow> bool" where
  "filter_cycle_active s = status_in (at_filter_status s) HEATER_FILTER_STATUSES"

definition heater_element_active :: "arctic_status \<Rightarrow> bool" where
  "heater_element_active s =
     (if status_in (at_filter_status s) HEATER_ELEMENT_STATUSES then True
      else case (at_temperature_c s, at_setpoint_c s) of (Some t, Some p) \<Rightarrow> t < p - 1/2 | _ \<Rightarrow> False)"

definition pump_states :: "arctic_status \<Rightarrow> (string \<times> string) list" where
  "pump_states s = List.map_filter (\<lambda>(n, v). case v of None \<Rightarrow> None | Some x \<Rightarrow> if x = [] then None else Some (n, x)) (at_pumps s)"

record meter_profiles =
  mp_heater_w :: rat
  mp_pump_low_w :: rat
  mp_pump_high_w :: rat
  mp_circulation_w :: rat
  mp_blower_w :: rat
  mp_max_plausible_w :: rat

definition pump_entry :: "meter_profiles \<Rightarrow> string \<times> string \<Rightarrow> (string \<times> rat) option" where
  "pump_entry pf p = (if snd p = ''low'' then Some (fst p, mp_pump_low_w pf)
     else if snd p \<in> {''high'', ''on''} then Some (fst p, mp_pump_high_w pf) else None)"

text \<open>The names of the parts are different, so that the dictionary is a list in insertion order.\<close>

definition component_breakdown :: "meter_profiles \<Rightarrow> arctic_status \<Rightarrow> (string \<times> rat) list" where
  "component_breakdown pf s =
     (let heater = heater_element_active s;
          circulates = \<not> heater \<and> (at_filter_status s = Some ''Filtering'' \<or> filter_cycle_active s)
      in (if heater then [(''heater'', mp_heater_w pf)] else [])
         @ List.map_filter (pump_entry pf) (pump_states s)
         @ (if circulates then [(''circulation'', mp_circulation_w pf)] else [])
         @ map (\<lambda>b. (fst b, mp_blower_w pf)) (filter (\<lambda>b. snd b = Some ''on'') (at_blowers s)))"

definition inferred_power_w :: "meter_profiles \<Rightarrow> arctic_status option \<Rightarrow> rat" where
  "inferred_power_w pf status = (case status of None \<Rightarrow> 0
     | Some s \<Rightarrow> if at_connected s then min (sum_list (map snd (component_breakdown pf s))) (mp_max_plausible_w pf) else 0)"

datatype consumer_quality = CQ_MEASURED | CQ_CALCULATED | CQ_ESTIMATED | CQ_MISSING

definition consumer_quality_value :: "consumer_quality \<Rightarrow> string" where
  "consumer_quality_value q = (case q of CQ_MEASURED \<Rightarrow> ''MEASURED'' | CQ_CALCULATED \<Rightarrow> ''CALCULATED''
     | CQ_ESTIMATED \<Rightarrow> ''ESTIMATED'' | CQ_MISSING \<Rightarrow> ''MISSING'')"

record spa_energy =
  sg_power_w :: rat
  sg_energy_wh :: rat
  sg_heater :: bool
  sg_pumps :: "(string \<times> string) list"
  sg_quality :: consumer_quality
  sg_breakdown :: "(string \<times> rat) list"

definition estimate_sample ::
  "meter_profiles \<Rightarrow> arctic_status \<Rightarrow> arctic_status option \<Rightarrow> rat \<Rightarrow> rat \<Rightarrow> rat option \<Rightarrow> spa_energy" where
  "estimate_sample pf status prev elapsed poll_s house_w =
     (if \<not> at_connected status
      then \<lparr> sg_power_w = 0, sg_energy_wh = 0, sg_heater = False, sg_pumps = pump_states status,
             sg_quality = CQ_MISSING, sg_breakdown = [] \<rparr>
      else let parts = component_breakdown pf status;
               power = min (sum_list (map snd parts)) (mp_max_plausible_w pf);
               capped = (case house_w of None \<Rightarrow> None | Some w \<Rightarrow> if w > 100 \<and> power > w * 11/10 then Some (w * 11/10) else None);
               parts' = (case capped of None \<Rightarrow> parts | Some cap \<Rightarrow> map (\<lambda>p. (fst p, snd p * (cap / power))) parts);
               power' = (case capped of None \<Rightarrow> power | Some cap \<Rightarrow> min (sum_list (map snd parts')) cap);
               late = elapsed > 0 \<and> elapsed > poll_s * 2;
               before = (if prev = None then power' else inferred_power_w pf prev)
           in \<lparr> sg_power_w = power',
                sg_energy_wh = (if elapsed \<le> 0 then 0 else max 0 ((before + power') / 2 * (min elapsed (poll_s * 2) / 3600))),
                sg_heater = heater_element_active status, sg_pumps = pump_states status,
                sg_quality = (if capped \<noteq> None \<or> late then CQ_ESTIMATED else CQ_CALCULATED), sg_breakdown = parts' \<rparr>)"

subsection \<open>Tables\<close>

record consumer_sample =
  cr_consumer :: nat
  cr_at :: time
  cr_power_w :: "rat option"
  cr_energy_wh :: "rat option"
  cr_heater :: "bool option"
  cr_pumps :: "(string \<times> string) list"
  cr_quality :: "string option"
  cr_breakdown :: "(string \<times> rat) list"

record consumer_interval =
  ce_consumer :: nat
  ce_start :: time
  ce_end :: time
  ce_energy_kwh :: rat
  ce_power_w :: "rat option"
  ce_pv_kwh :: rat
  ce_house_kwh :: rat
  ce_import_kwh :: rat
  ce_export_kwh :: rat
  ce_charge_kwh :: rat
  ce_discharge_kwh :: rat
  ce_price :: "rat option"
  ce_attribution :: energy_attribution
  ce_unknown_kwh :: rat
  ce_cost_sek :: rat
  ce_reference_sek :: "rat option"
  ce_savings_sek :: "rat option"
  ce_heater_s :: rat
  ce_pump_s :: rat
  ce_confidence :: rat
  ce_quality :: "string option"

definition samples_between :: "nat \<Rightarrow> time \<Rightarrow> time \<Rightarrow> consumer_sample list \<Rightarrow> consumer_sample list" where
  "samples_between c a b rows = sort_key cr_at (filter (\<lambda>r. cr_consumer r = c \<and> a \<le> cr_at r \<and> cr_at r < b) rows)"

definition latest_sample :: "nat \<Rightarrow> consumer_sample list \<Rightarrow> consumer_sample option" where
  "latest_sample c rows = (case sort_key (\<lambda>r. - cr_at r) (filter (\<lambda>r. cr_consumer r = c) rows) of
     [] \<Rightarrow> None | r # _ \<Rightarrow> Some r)"

definition insert_sample :: "consumer_sample \<Rightarrow> consumer_sample list \<Rightarrow> consumer_sample list" where
  "insert_sample r rows =
     (if list_ex (\<lambda>x. cr_consumer x = cr_consumer r \<and> cr_at x = cr_at r) rows then rows else rows @ [r])"

definition intervals_between :: "nat \<Rightarrow> time \<Rightarrow> time \<Rightarrow> consumer_interval list \<Rightarrow> consumer_interval list" where
  "intervals_between c a b rows = sort_key ce_start (filter (\<lambda>r. ce_consumer r = c \<and> a \<le> ce_start r \<and> ce_start r < b) rows)"

definition max_energy_kwh :: "nat \<Rightarrow> consumer_interval list \<Rightarrow> rat" where
  "max_energy_kwh c rows = (case map ce_energy_kwh (filter (\<lambda>r. ce_consumer r = c) rows) of
     [] \<Rightarrow> 0 | x # xs \<Rightarrow> foldl max x xs)"

definition has_interval_for_window :: "nat \<Rightarrow> time \<Rightarrow> time \<Rightarrow> consumer_interval list \<Rightarrow> bool" where
  "has_interval_for_window c a b rows \<longleftrightarrow>
     list_ex (\<lambda>r. ce_consumer r = c \<and> a \<le> ce_start r \<and> ce_end r \<le> b) rows
     \<or> \<bar>elapsed_s b a\<bar> > 5 \<and> list_ex (\<lambda>r. ce_consumer r = c \<and> a < ce_end r \<and> ce_start r < b) rows"

subsection \<open>Samples of the site\<close>

record site_reading =
  rd_at :: time
  rd_solar_w :: "rat option"
  rd_consumption_w :: "rat option"
  rd_import_w :: "rat option"
  rd_export_w :: "rat option"
  rd_battery_w :: "rat option"

definition MAX_READING_AGE_SECONDS :: rat where "MAX_READING_AGE_SECONDS = 300"

definition nearest_reading_before :: "site_reading list \<Rightarrow> time \<Rightarrow> site_reading option" where
  "nearest_reading_before readings t = (case rev (takeWhile (\<lambda>r. rd_at r \<le> t) readings) of
     [] \<Rightarrow> None
   | r # _ \<Rightarrow> if elapsed_s t (rd_at r) > MAX_READING_AGE_SECONDS then None else Some r)"

definition sample_from_reading :: "site_reading \<Rightarrow> rat \<Rightarrow> rat \<Rightarrow> site_sample" where
  "sample_from_reading r hours price = (let battery = num_or (rd_battery_w r) 0 in
     \<lparr> ss_pv_power_w = num_or (rd_solar_w r) 0, ss_house_consumption_w = num_or (rd_consumption_w r) 0,
       ss_grid_import_w = num_or (rd_import_w r) 0, ss_grid_export_w = num_or (rd_export_w r) 0,
       ss_battery_charge_w = max 0 battery, ss_battery_discharge_w = \<bar>min 0 battery\<bar>, ss_ev_power_w = 0,
       ss_electricity_price_sek_kwh = Some price, ss_duration_hours = hours \<rparr>)"

definition sample_from_overview :: "overview option \<Rightarrow> rat \<Rightarrow> rat \<Rightarrow> site_sample" where
  "sample_from_overview live hours price =
     (let watts = (\<lambda>f. case live of None \<Rightarrow> 0 | Some v \<Rightarrow> num_or (f v) 0) in
     \<lparr> ss_pv_power_w = watts ov_pv_power_w, ss_house_consumption_w = watts ov_home_consumption_w,
       ss_grid_import_w = watts ov_grid_import_w, ss_grid_export_w = watts ov_grid_export_w,
       ss_battery_charge_w = watts ov_battery_charge_power_w, ss_battery_discharge_w = watts ov_battery_discharge_power_w,
       ss_ev_power_w = 0, ss_electricity_price_sek_kwh = Some price, ss_duration_hours = hours \<rparr>)"

text \<open>\<open>rate\<close> is the exchange rate, \<open>price_at\<close> the stored price of an hour.\<close>

definition build_site_sample ::
  "rat \<Rightarrow> (time \<Rightarrow> price_row option) \<Rightarrow> ev_site \<Rightarrow> rat \<Rightarrow> time \<Rightarrow> overview option \<Rightarrow> site_reading list \<Rightarrow> site_sample" where
  "build_site_sample rate price_at site hours t live readings =
     (let price = current_price rate price_at t (st_fallback_purchase_price_sek_kwh site) in
      case nearest_reading_before readings t of
        Some r \<Rightarrow> sample_from_reading r hours price
      | None \<Rightarrow> sample_from_overview live hours price)"

subsection \<open>The sampler\<close>

definition without_site_sample :: "spa_energy \<Rightarrow> rat \<Rightarrow> rat \<Rightarrow> site_sample" where
  "without_site_sample e price hours = \<lparr> ss_pv_power_w = 0, ss_house_consumption_w = sg_power_w e,
     ss_grid_import_w = sg_power_w e, ss_grid_export_w = 0, ss_battery_charge_w = 0, ss_battery_discharge_w = 0,
     ss_ev_power_w = 0, ss_electricity_price_sek_kwh = Some price, ss_duration_hours = hours \<rparr>"

definition consumer_interval_of ::
  "nat \<Rightarrow> ev_site \<Rightarrow> spa_energy \<Rightarrow> site_sample \<Rightarrow> rat \<Rightarrow> battery_ledger \<Rightarrow> time \<Rightarrow> time \<Rightarrow> bool \<Rightarrow> consumer_interval" where
  "consumer_interval_of c site e sample price ledger a b cost_enabled =
     (let kwh = sg_energy_wh e / 1000; seconds = elapsed_s b a;
          split = snd (update_ledger ledger sample (num_or (Some price) (st_fallback_purchase_price_sek_kwh site)));
          ar = attribute_interval kwh sample split (Some (sg_power_w e));
          cost = interval_costs (ar_attribution ar) (Some price) (grid_avg_cost_sek_kwh ledger)
            (st_export_compensation_sek_kwh site) DEFAULT_SAVINGS_BASELINE
      in \<lparr> ce_consumer = c, ce_start = a, ce_end = b, ce_energy_kwh = kwh, ce_power_w = Some (sg_power_w e),
           ce_pv_kwh = pv_kwh sample, ce_house_kwh = house_kwh sample, ce_import_kwh = grid_import_kwh sample,
           ce_export_kwh = grid_export_kwh sample, ce_charge_kwh = battery_charge_kwh sample,
           ce_discharge_kwh = battery_discharge_kwh sample, ce_price = Some price, ce_attribution = ar_attribution ar,
           ce_unknown_kwh = max 0 (kwh - total_kwh (ar_attribution ar)),
           ce_cost_sek = (if cost_enabled then ic_actual_cash_cost_sek cost else 0),
           ce_reference_sek = (if cost_enabled then ic_reference_cost_sek cost else None),
           ce_savings_sek = (if cost_enabled then ic_savings_sek cost else None),
           ce_heater_s = (if sg_heater e then seconds else 0),
           ce_pump_s = (if list_ex (\<lambda>p. snd p \<noteq> ''off'') (sg_pumps e) then seconds else 0),
           ce_confidence = ar_confidence ar, ce_quality = Some (consumer_quality_value (sg_quality e)) \<rparr>)"

definition record_interval ::
  "rat \<Rightarrow> (time \<Rightarrow> price_row option) \<Rightarrow> nat \<Rightarrow> ev_site \<Rightarrow> spa_energy \<Rightarrow> site_sample option \<Rightarrow> battery_ledger \<Rightarrow> time \<Rightarrow> time
     \<Rightarrow> bool \<Rightarrow> consumer_interval list \<Rightarrow> consumer_interval list" where
  "record_interval rate price_at c site e sample ledger a b cost_enabled rows =
     (let hours = max 0 (elapsed_s b a / 3600) in
      if sg_energy_wh e / 1000 \<le> 0 \<or> hours \<le> 0 then rows
      else let price = (case Option.bind sample ss_electricity_price_sek_kwh of Some p \<Rightarrow> p
             | None \<Rightarrow> num_or (effective_price_sek_kwh rate (price_at (hour_of b))) (st_fallback_purchase_price_sek_kwh site))
           in rows @ [consumer_interval_of c site e (or_else sample (without_site_sample e price hours)) price ledger a b cost_enabled])"

subsection \<open>Rebuilding intervals from samples\<close>

definition MAX_PLAUSIBLE_INTERVAL_KWH :: rat where "MAX_PLAUSIBLE_INTERVAL_KWH = 1/2"

definition quality_of_text :: "string option \<Rightarrow> consumer_quality" where
  "quality_of_text q = (if q = Some ''MEASURED'' then CQ_MEASURED else if q = Some ''ESTIMATED'' then CQ_ESTIMATED
     else if q = Some ''MISSING'' then CQ_MISSING else CQ_CALCULATED)"

definition sample_to_spa :: "consumer_sample \<Rightarrow> spa_energy" where
  "sample_to_spa r = \<lparr> sg_power_w = num_or (cr_power_w r) 0, sg_energy_wh = num_or (cr_energy_wh r) 0,
     sg_heater = (cr_heater r = Some True), sg_pumps = cr_pumps r, sg_quality = quality_of_text (cr_quality r),
     sg_breakdown = cr_breakdown r \<rparr>"

definition energy_wh_for_pair :: "int \<Rightarrow> consumer_sample \<Rightarrow> consumer_sample \<Rightarrow> rat" where
  "energy_wh_for_pair poll_s p q =
     (let d = elapsed_s (cr_at q) (cr_at p); wh = num_or (cr_energy_wh q) 0;
          average = (num_or (cr_power_w p) 0 + num_or (cr_power_w q) 0) / 2
      in if d \<le> 0 \<or> d > max (of_int poll_s * 2) 60 then 0
         else if wh > 0 then min wh (MAX_PLAUSIBLE_INTERVAL_KWH * 1000)
         else if average \<le> 0 then 0 else max 0 (average * (d / 3600)))"

record spa_consumer =
  sc_id :: nat
  sc_site :: ev_site
  sc_profiles :: meter_profiles
  sc_collect :: bool
  sc_cost :: bool
  sc_poll_s :: int
  sc_last_status :: "arctic_status option"
  sc_last_status_at :: "time option"
  sc_success_at :: "time option"
  sc_failures :: nat
  sc_backoff_until :: "time option"

record consumer_db =
  cd_consumers :: "spa_consumer list"
  cd_samples :: "consumer_sample list"
  cd_intervals :: "consumer_interval list"
  cd_ledgers :: "nat \<Rightarrow> battery_ledger"

record rebuild_env =
  rb_rate :: rat
  rb_price_at :: "time \<Rightarrow> price_row option"
  rb_live :: "overview option"
  rb_readings :: "site_reading list"

definition rebuild_pair ::
  "rebuild_env \<Rightarrow> spa_consumer \<Rightarrow> battery_ledger \<Rightarrow> int \<Rightarrow> consumer_sample \<Rightarrow> consumer_sample
     \<Rightarrow> consumer_interval list \<times> nat \<Rightarrow> consumer_interval list \<times> nat" where
  "rebuild_pair env sc ledger poll_s p q acc =
     (let a = cr_at p; b = cr_at q; wh = energy_wh_for_pair poll_s p q; rows = fst acc; e = sample_to_spa q;
          e = e\<lparr> sg_energy_wh := wh,
            sg_quality := (if num_or (cr_energy_wh q) 0 \<le> 0 then CQ_ESTIMATED else sg_quality e) \<rparr>
      in if a \<ge> b \<or> wh \<le> 0 \<or> has_interval_for_window (sc_id sc) a b rows then acc
         else (record_interval (rb_rate env) (rb_price_at env) (sc_id sc) (sc_site sc) e
                 (Some (build_site_sample (rb_rate env) (rb_price_at env) (sc_site sc) (max 0 (elapsed_s b a / 3600)) a
                    (rb_live env) (rb_readings env)))
                 ledger a b (sc_cost sc) rows, snd acc + 1))"

fun rebuild_pairs ::
  "rebuild_env \<Rightarrow> spa_consumer \<Rightarrow> battery_ledger \<Rightarrow> int \<Rightarrow> consumer_sample list \<Rightarrow> consumer_interval list \<times> nat
     \<Rightarrow> consumer_interval list \<times> nat" where
  "rebuild_pairs env sc ledger poll_s (p # q # rest) acc =
     rebuild_pairs env sc ledger poll_s (q # rest) (rebuild_pair env sc ledger poll_s p q acc)"
| "rebuild_pairs env sc ledger poll_s _ acc = acc"

definition rebuild_missing_intervals ::
  "rebuild_env \<Rightarrow> spa_consumer \<Rightarrow> int \<Rightarrow> time \<Rightarrow> time \<Rightarrow> bool \<Rightarrow> bool \<Rightarrow> consumer_db \<Rightarrow> nat \<times> consumer_db" where
  "rebuild_missing_intervals env sc poll_s since now replace_corrupt rebuild_existing db =
     (let c = sc_id sc; rows = cd_intervals db;
          rows = (if replace_corrupt \<or> max_energy_kwh c rows > MAX_PLAUSIBLE_INTERVAL_KWH
                  then filter (\<lambda>r. ce_consumer r \<noteq> c) rows else rows);
          rows = (if rebuild_existing then filter (\<lambda>r. \<not> (ce_consumer r = c \<and> since \<le> ce_start r)) rows else rows);
          done = rebuild_pairs env sc (cd_ledgers db (st_id (sc_site sc))) poll_s (samples_between c since now (cd_samples db)) (rows, 0)
      in (snd done, db\<lparr> cd_intervals := fst done \<rparr>))"

definition consumer_of :: "nat \<Rightarrow> consumer_db \<Rightarrow> spa_consumer option" where
  "consumer_of site db = List.find (\<lambda>sc. st_id (sc_site sc) = site) (cd_consumers db)"

definition days_us :: "int \<Rightarrow> int" where "days_us d = d * 86400 * us_per_s"

definition rebuild_for_site :: "rebuild_env \<Rightarrow> nat \<Rightarrow> time \<Rightarrow> int \<Rightarrow> bool \<Rightarrow> consumer_db \<Rightarrow> nat \<times> consumer_db" where
  "rebuild_for_site env site now since_days rebuild_existing db = (case consumer_of site db of
     None \<Rightarrow> (0, db)
   | Some sc \<Rightarrow> if \<not> sc_collect sc then (0, db)
       else rebuild_missing_intervals env sc (if sc_poll_s sc = 0 then 60 else sc_poll_s sc) (now - days_us since_days) now
              False rebuild_existing db)"

definition powered_samples :: "consumer_sample list \<Rightarrow> consumer_sample list" where
  "powered_samples rows = filter (\<lambda>r. num_or (cr_power_w r) 0 > 0) rows"

fun pairs_wh :: "int \<Rightarrow> consumer_sample list \<Rightarrow> rat" where
  "pairs_wh poll_s (p # q # rest) = energy_wh_for_pair poll_s p q / 1000 + pairs_wh poll_s (q # rest)"
| "pairs_wh poll_s _ = 0"

text \<open>Energy, greatest and average power, and how many samples have energy and power.\<close>

definition sample_totals :: "int \<Rightarrow> consumer_sample list \<Rightarrow> (rat \<times> rat \<times> rat option \<times> nat \<times> nat) option" where
  "sample_totals poll_s rows =
     (if rows = [] then None
      else let powered = powered_samples rows in
        Some (round_to 3 (pairs_wh poll_s rows), foldl max (num_or (cr_power_w (hd rows)) 0) (map (\<lambda>r. num_or (cr_power_w r) 0) (tl rows)),
          (if powered = [] then None else Some (sum_list (map (\<lambda>r. num_or (cr_power_w r) 0) powered) / of_nat (length powered))),
          length (filter (\<lambda>r. num_or (cr_energy_wh r) 0 > 0) rows), length powered))"

subsection \<open>Polling\<close>

text \<open>
  One poll of a spa. The row of its configuration is one object per session: \<open>save_status_snapshot\<close> sets its
  \<open>last_status_at\<close> before the time since the last status is taken, so the code reads the time it has just written.
  \<open>fetched\<close> is the answer of the spa, \<open>None\<close> when the client raises \<open>ArcticSpaApiError\<close>.
\<close>

definition put_consumer :: "spa_consumer \<Rightarrow> consumer_db \<Rightarrow> consumer_db" where
  "put_consumer sc db = db\<lparr> cd_consumers := map (\<lambda>x. if sc_id x = sc_id sc then sc else x) (cd_consumers db) \<rparr>"

definition save_status_snapshot :: "arctic_status \<Rightarrow> time \<Rightarrow> spa_consumer \<Rightarrow> spa_consumer" where
  "save_status_snapshot s now sc = sc\<lparr> sc_last_status := Some s, sc_last_status_at := Some now \<rparr>"

definition poll_succeeded :: "time \<Rightarrow> spa_consumer \<Rightarrow> spa_consumer" where
  "poll_succeeded now sc = sc\<lparr> sc_success_at := Some now, sc_failures := 0 \<rparr>"

definition backoff_seconds :: "nat \<Rightarrow> int" where
  "backoff_seconds failures = min 600 (30 * 2 ^ min failures 5)"

definition poll_failed :: "time \<Rightarrow> spa_consumer \<Rightarrow> spa_consumer" where
  "poll_failed now sc = sc\<lparr> sc_failures := sc_failures sc + 1,
     sc_backoff_until := Some (now + backoff_seconds (sc_failures sc) * us_per_s) \<rparr>"

definition sample_row :: "nat \<Rightarrow> time \<Rightarrow> spa_energy \<Rightarrow> consumer_sample" where
  "sample_row c now e = \<lparr> cr_consumer = c, cr_at = now, cr_power_w = Some (sg_power_w e), cr_energy_wh = Some (sg_energy_wh e),
     cr_heater = Some (sg_heater e), cr_pumps = sg_pumps e, cr_quality = Some (consumer_quality_value (sg_quality e)),
     cr_breakdown = sg_breakdown e \<rparr>"

definition since_status :: "time \<Rightarrow> spa_consumer \<Rightarrow> rat" where
  "since_status now sc = (case sc_last_status_at sc of None \<Rightarrow> 0 | Some t \<Rightarrow> max 0 (elapsed_s now t))"

definition poll_one :: "rebuild_env \<Rightarrow> time \<Rightarrow> arctic_status option \<Rightarrow> spa_consumer \<Rightarrow> consumer_db \<Rightarrow> nat \<times> consumer_db" where
  "poll_one env now fetched sc db =
     (let c = sc_id sc;
          start = (case latest_sample c (cd_samples db) of Some r \<Rightarrow> cr_at r | None \<Rightarrow> or_else (sc_last_status_at sc) now)
      in case fetched of
        None \<Rightarrow> (0, put_consumer (poll_failed now sc) db)
      | Some s \<Rightarrow>
          let saved = save_status_snapshot s now sc;
              e = estimate_sample (sc_profiles sc) s (sc_last_status sc) (since_status now saved) (of_int (sc_poll_s sc))
                    (Option.bind (rb_live env) ov_home_consumption_w);
              rows = (if sg_energy_wh e / 1000 > 0 \<and> start < now
                then record_interval (rb_rate env) (rb_price_at env) c (sc_site sc) e
                  (Some (build_site_sample (rb_rate env) (rb_price_at env) (sc_site sc) (max 0 (elapsed_s now start / 3600)) now
                     (rb_live env) [])) (cd_ledgers db (st_id (sc_site sc))) start now (sc_cost sc) (cd_intervals db)
                else cd_intervals db)
          in (1, put_consumer (poll_succeeded now saved)
                (db\<lparr> cd_samples := insert_sample (sample_row c now e) (cd_samples db), cd_intervals := rows \<rparr>)))"

definition needs_fast_poll :: "spa_actuator_state \<Rightarrow> (time option \<times> time option) option \<Rightarrow> time \<Rightarrow> bool" where
  "needs_fast_poll state plan now \<longleftrightarrow> state = SPA_CLEANING
     \<or> (case plan of Some (Some a, Some b) \<Rightarrow> a \<le> now \<and> now \<le> b | _ \<Rightarrow> False)"

definition poll_due :: "time \<Rightarrow> int \<Rightarrow> bool \<Rightarrow> spa_consumer \<Rightarrow> bool" where
  "poll_due now fast_s fast sc \<longleftrightarrow> sc_collect sc
     \<and> (case sc_backoff_until sc of Some t \<Rightarrow> t \<le> now | None \<Rightarrow> True)
     \<and> (case sc_success_at sc of None \<Rightarrow> True
        | Some t \<Rightarrow> elapsed_s now t \<ge> of_int (if fast then min (sc_poll_s sc) fast_s else sc_poll_s sc))"

text \<open>The enabled consumers, with what the poll of each meets: its environment, its actuator and plan, its answer.\<close>

record spa_visit =
  vi_env :: rebuild_env
  vi_actuator :: spa_actuator_state
  vi_plan :: "(time option \<times> time option) option"
  vi_fetched :: "arctic_status option"

definition poll_step :: "time \<Rightarrow> int \<Rightarrow> nat \<times> consumer_db \<Rightarrow> nat \<times> spa_visit \<Rightarrow> nat \<times> consumer_db" where
  "poll_step now fast_s acc v = (case List.find (\<lambda>sc. sc_id sc = fst v) (cd_consumers (snd acc)) of
     None \<Rightarrow> acc
   | Some sc \<Rightarrow> if poll_due now fast_s (needs_fast_poll (vi_actuator (snd v)) (vi_plan (snd v)) now) sc
       then let done = poll_one (vi_env (snd v)) now (vi_fetched (snd v)) sc (snd acc) in (fst acc + fst done, snd done)
       else acc)"

definition poll_due_consumers :: "time \<Rightarrow> int \<Rightarrow> (nat \<times> spa_visit) list \<Rightarrow> consumer_db \<Rightarrow> nat \<times> consumer_db" where
  "poll_due_consumers now fast_s visits db = foldl (poll_step now fast_s) (0, db) visits"

subsection \<open>Sums per period\<close>

record aggregate_bucket =
  ag_energy_kwh :: rat
  ag_attribution :: energy_attribution
  ag_unknown_kwh :: rat
  ag_cost_sek :: rat
  ag_reference_sek :: rat
  ag_savings_sek :: rat
  ag_max_power_w :: rat
  ag_power_sum :: rat
  ag_power_count :: nat
  ag_heater_s :: rat
  ag_pump_s :: rat
  ag_counts :: "(string \<times> nat) list"

definition empty_bucket :: aggregate_bucket where
  "empty_bucket = \<lparr> ag_energy_kwh = 0, ag_attribution = no_energy, ag_unknown_kwh = 0, ag_cost_sek = 0, ag_reference_sek = 0,
     ag_savings_sek = 0, ag_max_power_w = 0, ag_power_sum = 0, ag_power_count = 0, ag_heater_s = 0, ag_pump_s = 0, ag_counts = [] \<rparr>"

definition average_power_w :: "aggregate_bucket \<Rightarrow> rat option" where
  "average_power_w b = (if ag_power_count b = 0 then None else Some (ag_power_sum b / of_nat (ag_power_count b)))"

definition text_quality :: "string option \<Rightarrow> string" where
  "text_quality q = (case q of None \<Rightarrow> ''CALCULATED'' | Some t \<Rightarrow> if t = [] then ''CALCULATED'' else t)"

definition plus_attribution :: "energy_attribution \<Rightarrow> energy_attribution \<Rightarrow> energy_attribution" where
  "plus_attribution a b = \<lparr> ea_solar_direct_kwh = ea_solar_direct_kwh a + ea_solar_direct_kwh b,
     ea_solar_battery_kwh = ea_solar_battery_kwh a + ea_solar_battery_kwh b,
     ea_grid_battery_kwh = ea_grid_battery_kwh a + ea_grid_battery_kwh b,
     ea_grid_direct_kwh = ea_grid_direct_kwh a + ea_grid_direct_kwh b \<rparr>"

definition merge_interval :: "aggregate_bucket \<Rightarrow> consumer_interval \<Rightarrow> aggregate_bucket" where
  "merge_interval b i =
     (let q = text_quality (ce_quality i); w = num_or (ce_power_w i) 0 in
      \<lparr> ag_energy_kwh = ag_energy_kwh b + ce_energy_kwh i, ag_attribution = plus_attribution (ag_attribution b) (ce_attribution i),
        ag_unknown_kwh = ag_unknown_kwh b + ce_unknown_kwh i, ag_cost_sek = ag_cost_sek b + ce_cost_sek i,
        ag_reference_sek = ag_reference_sek b + num_or (ce_reference_sek i) 0,
        ag_savings_sek = ag_savings_sek b + num_or (ce_savings_sek i) 0,
        ag_max_power_w = max (ag_max_power_w b) w, ag_power_sum = ag_power_sum b + w,
        ag_power_count = ag_power_count b + (if w > 0 then 1 else 0), ag_heater_s = ag_heater_s b + ce_heater_s i,
        ag_pump_s = ag_pump_s b + ce_pump_s i, ag_counts = AList.update q (or_else (map_of (ag_counts b) q) 0 + 1) (ag_counts b) \<rparr>)"

text \<open>Measured, calculated, estimated, missing.\<close>

definition quality_percentages :: "(string \<times> nat) list \<Rightarrow> rat \<times> rat \<times> rat \<times> rat" where
  "quality_percentages counts =
     (let total = sum_list (map snd counts);
          pct = (\<lambda>q. if total = 0 then 0 else round_to 1 (100 * of_nat (or_else (map_of counts q) 0) / of_nat total))
      in (pct ''MEASURED'', pct ''CALCULATED'', pct ''ESTIMATED'', pct ''MISSING''))"

record interval_sums =
  is_energy_kwh :: rat
  is_attribution :: energy_attribution
  is_unknown_kwh :: rat
  is_cost_sek :: rat
  is_reference_sek :: rat
  is_savings_sek :: rat
  is_heater_s :: rat
  is_pump_s :: rat
  is_max_power_w :: rat

definition sum_interval_fields :: "consumer_interval list \<Rightarrow> interval_sums option" where
  "sum_interval_fields rows =
     (if rows = [] then None
      else let total = (\<lambda>f. sum_list (map f rows)); powers = map (\<lambda>r. num_or (ce_power_w r) 0) rows in
        Some \<lparr> is_energy_kwh = total ce_energy_kwh, is_attribution = sum_attributions (map ce_attribution rows),
          is_unknown_kwh = total ce_unknown_kwh, is_cost_sek = total ce_cost_sek,
          is_reference_sek = total (\<lambda>r. num_or (ce_reference_sek r) 0), is_savings_sek = total (\<lambda>r. num_or (ce_savings_sek r) 0),
          is_heater_s = total ce_heater_s, is_pump_s = total ce_pump_s, is_max_power_w = foldl max (hd powers) (tl powers) \<rparr>)"

text \<open>\<open>key\<close> is the start of the local period of an instant.\<close>

definition group_intervals :: "(time \<Rightarrow> time) \<Rightarrow> consumer_interval list \<Rightarrow> (time \<times> consumer_interval list) list" where
  "group_intervals key rows =
     sort_key fst (foldl (\<lambda>d i. AList.update (key (ce_start i)) (or_else (map_of d (key (ce_start i))) [] @ [i]) d) [] rows)"

text \<open>\<open>reference\<close> and \<open>savings\<close> are missing only when there are no totals at all.\<close>

definition spa_cost_split :: "interval_sums option \<Rightarrow> rat \<Rightarrow> rat \<times> rat \<times> rat \<times> rat \<times> rat \<times> rat" where
  "spa_cost_split totals fallback = (case totals of
     None \<Rightarrow> (0, 0, 0, 0, 0, 0)
   | Some t \<Rightarrow>
       let a = is_attribution t; solar = ea_solar_direct_kwh a + ea_solar_battery_kwh a;
           price = (if is_energy_kwh t > 0 then is_reference_sek t / is_energy_kwh t else fallback);
           solar_savings = round_to 2 (solar * price); savings = round_to 2 (is_savings_sek t)
       in (round_to 3 solar, round_to 3 (ea_grid_battery_kwh a), round_to 3 (ea_grid_direct_kwh a),
           round_to 2 (is_cost_sek t), solar_savings, round_to 2 (max 0 (savings - solar_savings))))"

text \<open>The stored columns; a reference, savings or maximum of zero is stored as missing.\<close>

record aggregate_row =
  ar_period_end :: time
  ar_energy_kwh :: rat
  ar_energy_attribution :: energy_attribution
  ar_unknown_kwh :: rat
  ar_cost_sek :: rat
  ar_reference_sek :: "rat option"
  ar_savings_sek :: "rat option"
  ar_max_power_w :: "rat option"
  ar_average_power_w :: "rat option"
  ar_heater_s :: rat
  ar_pump_s :: rat
  ar_percentages :: "rat \<times> rat \<times> rat \<times> rat"

definition nonzero :: "rat \<Rightarrow> rat option" where
  "nonzero x = (if x = 0 then None else Some x)"

definition aggregate_row_of :: "time \<Rightarrow> consumer_interval list \<Rightarrow> aggregate_row" where
  "aggregate_row_of stop rows = (let b = foldl merge_interval empty_bucket rows in
     \<lparr> ar_period_end = stop, ar_energy_kwh = ag_energy_kwh b, ar_energy_attribution = ag_attribution b,
       ar_unknown_kwh = ag_unknown_kwh b, ar_cost_sek = ag_cost_sek b, ar_reference_sek = nonzero (ag_reference_sek b),
       ar_savings_sek = nonzero (ag_savings_sek b), ar_max_power_w = nonzero (ag_max_power_w b),
       ar_average_power_w = average_power_w b, ar_heater_s = ag_heater_s b, ar_pump_s = ag_pump_s b,
       ar_percentages = quality_percentages (ag_counts b) \<rparr>)"

type_synonym aggregates = "((nat \<times> string \<times> time) \<times> aggregate_row) list"

text \<open>\<open>bounds\<close> gives the start and the end of the local hour, day, month or year of an instant.\<close>

definition update_aggregate ::
  "(string \<Rightarrow> time \<Rightarrow> time \<times> time) \<Rightarrow> nat \<Rightarrow> time \<Rightarrow> consumer_interval list \<Rightarrow> aggregates \<Rightarrow> string \<Rightarrow> aggregates" where
  "update_aggregate bounds c now intervals table g =
     (let period = bounds g now; rows = intervals_between c (fst period) (snd period) intervals in
      if rows = [] then table else AList.update (c, g, fst period) (aggregate_row_of (snd period) rows) table)"

definition GRANULARITIES :: "string list" where "GRANULARITIES = [''hour'', ''day'', ''month'', ''year'']"

definition update_aggregates ::
  "(string \<Rightarrow> time \<Rightarrow> time \<times> time) \<Rightarrow> nat \<Rightarrow> time \<Rightarrow> consumer_db \<Rightarrow> aggregates \<Rightarrow> nat \<times> aggregates" where
  "update_aggregates bounds site now db table = (case consumer_of site db of
     None \<Rightarrow> (0, table)
   | Some sc \<Rightarrow> (1, foldl (update_aggregate bounds (sc_id sc) now (cd_intervals db)) table GRANULARITIES))"

end
