(* ===== verification/Consumer_Runs.thy ===== *)
theory Consumer_Runs
  imports Consumer_Accounting
begin

section \<open>Runs of the spa accounting\<close>

text \<open>
  Polls and rebuilds in any order, each some time after the one before. The intervals of a consumer are always pairs of
  adjacent samples, so that they never overlap; a poll adds no energy, so that all intervals come from rebuilds; a second
  rebuild adds nothing; and the stored sums of a period are the sums of its intervals.
\<close>

subsection \<open>A poll records no energy\<close>

lemma time_since_status: "since_status now (save_status_snapshot s now sc) = 0"
  by (simp add: since_status_def save_status_snapshot_def elapsed_s_def)

lemma estimate_without_time: "sg_energy_wh (estimate_sample pf s prev 0 poll_s house) = 0"
  by (simp add: estimate_sample_def Let_def)

lemma poll_one_tables:
  "cd_intervals (snd (poll_one env now fetched sc db)) = cd_intervals db"
  "cd_ledgers (snd (poll_one env now fetched sc db)) = cd_ledgers db"
  "cd_samples (snd (poll_one env now fetched sc db)) = cd_samples db
     \<or> (\<exists>r. cr_consumer r = sc_id sc \<and> cr_at r = now \<and> cr_energy_wh r = Some 0
          \<and> cd_samples (snd (poll_one env now fetched sc db)) = insert_sample r (cd_samples db))"
proof -
  show "cd_intervals (snd (poll_one env now fetched sc db)) = cd_intervals db"
    "cd_ledgers (snd (poll_one env now fetched sc db)) = cd_ledgers db"
    by (simp_all add: poll_one_def Let_def time_since_status estimate_without_time put_consumer_def split: option.split)
  show "cd_samples (snd (poll_one env now fetched sc db)) = cd_samples db
     \<or> (\<exists>r. cr_consumer r = sc_id sc \<and> cr_at r = now \<and> cr_energy_wh r = Some 0
          \<and> cd_samples (snd (poll_one env now fetched sc db)) = insert_sample r (cd_samples db))"
  proof (cases fetched)
    case None
    then show ?thesis by (simp add: poll_one_def Let_def put_consumer_def)
  next
    case (Some s)
    let ?r = "sample_row (sc_id sc) now (estimate_sample (sc_profiles sc) s (sc_last_status sc) 0 (of_int (sc_poll_s sc))
      (Option.bind (rb_live env) ov_home_consumption_w))"
    have "cd_samples (snd (poll_one env now fetched sc db)) = insert_sample ?r (cd_samples db)"
      by (simp add: Some poll_one_def Let_def time_since_status put_consumer_def)
    moreover have "cr_consumer ?r = sc_id sc" "cr_at ?r = now" "cr_energy_wh ?r = Some 0"
      by (simp_all add: sample_row_def estimate_without_time)
    ultimately show ?thesis by blast
  qed
qed

lemma poll_step_cases:
  obtains "poll_step now fast_s acc v = acc"
  | sc where "poll_step now fast_s acc v
      = (fst acc + fst (poll_one (vi_env (snd v)) now (vi_fetched (snd v)) sc (snd acc)),
         snd (poll_one (vi_env (snd v)) now (vi_fetched (snd v)) sc (snd acc)))"
proof (cases "List.find (\<lambda>sc. sc_id sc = fst v) (cd_consumers (snd acc))")
  case None
  then show ?thesis using that(1) by (simp add: poll_step_def)
next
  case (Some sc)
  show ?thesis
  proof (cases "poll_due now fast_s (needs_fast_poll (vi_actuator (snd v)) (vi_plan (snd v)) now) sc")
    case True
    then show ?thesis using that(2) [of sc] Some by (simp add: poll_step_def Let_def)
  next
    case False
    then show ?thesis using that(1) Some by (simp add: poll_step_def)
  qed
qed

text \<open>C37. The time since the last status is read after it was set to now, so it is always zero: polls change no interval,
  and every sample they add has no energy, whatever the spa reports and however long ago the last poll was.\<close>

theorem polls_record_no_energy:
  "cd_intervals (snd (poll_due_consumers now fast_s visits db)) = cd_intervals db
   \<and> (\<forall>r \<in> set (cd_samples (snd (poll_due_consumers now fast_s visits db))).
        r \<in> set (cd_samples db) \<or> cr_energy_wh r = Some 0)"
proof -
  have step: "cd_intervals (snd (poll_step now fast_s acc v)) = cd_intervals (snd acc)
      \<and> (\<forall>r \<in> set (cd_samples (snd (poll_step now fast_s acc v))). r \<in> set (cd_samples (snd acc)) \<or> cr_energy_wh r = Some 0)" for acc v
  proof (cases rule: poll_step_cases [of now fast_s acc v])
    case 1
    then show ?thesis by simp
  next
    case (2 sc)
    show ?thesis
      using poll_one_tables(1,3) [of "vi_env (snd v)" now "vi_fetched (snd v)" sc "snd acc"]
      by (auto simp: 2 insert_sample_def split: if_splits)
  qed
  have "cd_intervals (snd (foldl (poll_step now fast_s) acc visits)) = cd_intervals (snd acc)
      \<and> (\<forall>r \<in> set (cd_samples (snd (foldl (poll_step now fast_s) acc visits))).
            r \<in> set (cd_samples (snd acc)) \<or> cr_energy_wh r = Some 0)" for acc
  proof (induction visits arbitrary: acc)
    case (Cons v visits)
    show ?case using Cons.IH [of "poll_step now fast_s acc v"] step [of acc v] by auto
  qed simp
  from this [of "(0, db)"] show ?thesis by (simp add: poll_due_consumers_def)
qed

subsection \<open>Intervals are pairs of adjacent samples\<close>

definition sample_at :: "nat \<Rightarrow> consumer_sample list \<Rightarrow> time \<Rightarrow> bool" where
  "sample_at c rows t \<longleftrightarrow> (\<exists>r \<in> set rows. cr_consumer r = c \<and> cr_at r = t)"

definition adjacent :: "nat \<Rightarrow> consumer_sample list \<Rightarrow> time \<Rightarrow> time \<Rightarrow> bool" where
  "adjacent c rows a b \<longleftrightarrow> sample_at c rows a \<and> sample_at c rows b \<and> a < b \<and> (\<forall>t. a < t \<and> t < b \<longrightarrow> \<not> sample_at c rows t)"

definition interval_key :: "consumer_interval \<Rightarrow> nat \<times> time" where
  "interval_key i = (ce_consumer i, ce_start i)"

definition spa_rows_ok :: "consumer_sample list \<Rightarrow> consumer_interval list \<Rightarrow> bool" where
  "spa_rows_ok samples rows \<longleftrightarrow> (\<forall>i \<in> set rows. adjacent (ce_consumer i) samples (ce_start i) (ce_end i))
     \<and> distinct (map interval_key rows)"

lemma adjacent_unique: "adjacent c rows a b \<Longrightarrow> adjacent c rows a b' \<Longrightarrow> b = b'"
  unfolding adjacent_def by (metis linorder_neqE)

lemma intervals_okD:
  assumes "spa_rows_ok samples rows"
  shows "i \<in> set rows \<Longrightarrow> adjacent (ce_consumer i) samples (ce_start i) (ce_end i)" "distinct (map interval_key rows)"
  using assms unfolding spa_rows_ok_def by blast+

lemma intervals_ok_filter: "spa_rows_ok samples rows \<Longrightarrow> spa_rows_ok samples (filter P rows)"
  by (auto simp: spa_rows_ok_def distinct_map_filter)

lemma new_interval_ok:
  assumes ok: "spa_rows_ok samples rows" and adj: "adjacent c samples a b" and free: "\<not> has_interval_for_window c a b rows"
    and i: "ce_consumer i = c" "ce_start i = a" "ce_end i = b"
  shows "spa_rows_ok samples (rows @ [i])"
proof -
  have "interval_key j \<noteq> (c, a)" if j: "j \<in> set rows" for j
  proof
    assume "interval_key j = (c, a)"
    then have k: "ce_consumer j = c" "ce_start j = a" by (simp_all add: interval_key_def)
    then have "ce_end j = b" using adjacent_unique [OF _ adj] intervals_okD(1) [OF ok j] by simp
    then have "list_ex (\<lambda>r. ce_consumer r = c \<and> a \<le> ce_start r \<and> ce_end r \<le> b) rows"
      using j k by (auto simp: list_ex_iff)
    then show False using free by (simp add: has_interval_for_window_def)
  qed
  then have "(c, a) \<notin> interval_key ` set rows" by (metis imageE)
  moreover have "interval_key i = (c, a)" by (simp add: interval_key_def i)
  ultimately show ?thesis using ok adj i by (auto simp: spa_rows_ok_def)
qed

lemma record_interval_cases:
  obtains "record_interval rate price_at c site e sample ledger a b cost rows = rows"
      "sg_energy_wh e / 1000 \<le> 0 \<or> max 0 (elapsed_s b a / 3600) \<le> 0"
  | i where "record_interval rate price_at c site e sample ledger a b cost rows = rows @ [i]"
      "ce_consumer i = c" "ce_start i = a" "ce_end i = b" "ce_energy_kwh i = sg_energy_wh e / 1000"
proof (cases "sg_energy_wh e / 1000 \<le> 0 \<or> max 0 (elapsed_s b a / 3600) \<le> 0")
  case True
  then show ?thesis using that(1) by (simp add: record_interval_def Let_def)
next
  case False
  then show ?thesis using that(2) by (simp add: record_interval_def Let_def consumer_interval_of_def)
qed

lemma rebuild_pair_cases:
  obtains "rebuild_pair env sc ledger poll_s p q acc = acc"
      "cr_at p \<ge> cr_at q \<or> energy_wh_for_pair poll_s p q \<le> 0 \<or> has_interval_for_window (sc_id sc) (cr_at p) (cr_at q) (fst acc)"
  | i where "rebuild_pair env sc ledger poll_s p q acc = (fst acc @ [i], snd acc + 1)" "cr_at p < cr_at q"
      "ce_consumer i = sc_id sc" "ce_start i = cr_at p" "ce_end i = cr_at q" "ce_energy_kwh i = energy_wh_for_pair poll_s p q / 1000"
      "\<not> has_interval_for_window (sc_id sc) (cr_at p) (cr_at q) (fst acc)"
proof (cases "cr_at p \<ge> cr_at q \<or> energy_wh_for_pair poll_s p q \<le> 0 \<or> has_interval_for_window (sc_id sc) (cr_at p) (cr_at q) (fst acc)")
  case True
  then show ?thesis using that(1) by (simp add: rebuild_pair_def Let_def)
next
  case False
  then have lt: "cr_at p < cr_at q" and wh: "energy_wh_for_pair poll_s p q > 0" by auto
  have "elapsed_s (cr_at q) (cr_at p) > 0" using lt by (simp add: elapsed_s_def us_per_s_def)
  then have hours: "\<not> max 0 (elapsed_s (cr_at q) (cr_at p) / 3600) \<le> 0" by simp
  let ?e = "(sample_to_spa q)\<lparr> sg_energy_wh := energy_wh_for_pair poll_s p q,
      sg_quality := (if num_or (cr_energy_wh q) 0 \<le> 0 then CQ_ESTIMATED else sg_quality (sample_to_spa q)) \<rparr>"
  let ?s = "Some (build_site_sample (rb_rate env) (rb_price_at env) (sc_site sc) (max 0 (elapsed_s (cr_at q) (cr_at p) / 3600))
      (cr_at p) (rb_live env) (rb_readings env))"
  have step: "rebuild_pair env sc ledger poll_s p q acc =
      (record_interval (rb_rate env) (rb_price_at env) (sc_id sc) (sc_site sc) ?e ?s ledger (cr_at p) (cr_at q) (sc_cost sc) (fst acc),
       snd acc + 1)"
    using False by (simp add: rebuild_pair_def Let_def)
  show ?thesis
  proof (cases rule: record_interval_cases [of "rb_rate env" "rb_price_at env" "sc_id sc" "sc_site sc" ?e ?s ledger "cr_at p" "cr_at q" "sc_cost sc" "fst acc"])
    case 1
    then show ?thesis using wh hours by simp
  next
    case (2 i)
    then show ?thesis using that(2) [of i] step lt False by simp
  qed
qed

text \<open>A stretch of the samples of a consumer, in order and without gaps.\<close>

definition stretch :: "nat \<Rightarrow> consumer_sample list \<Rightarrow> consumer_sample list \<Rightarrow> bool" where
  "stretch c samples xs \<longleftrightarrow> sorted_wrt (<) (map cr_at xs) \<and> (\<forall>r \<in> set xs. sample_at c samples (cr_at r))
     \<and> (\<forall>p \<in> set xs. \<forall>q \<in> set xs. \<forall>t. cr_at p < t \<and> t < cr_at q \<and> sample_at c samples t \<longrightarrow> t \<in> cr_at ` set xs)"

lemma stretch_tail:
  assumes "stretch c samples (p # xs)" shows "stretch c samples xs"
proof -
  have sorted: "sorted_wrt (<) (map cr_at xs)" and first: "\<forall>r \<in> set xs. cr_at p < cr_at r"
    using assms unfolding stretch_def by auto
  have "t \<in> cr_at ` set xs"
    if "u \<in> set xs" "v \<in> set xs" "cr_at u < t" "t < cr_at v" "sample_at c samples t" for u v t
  proof -
    have "t \<in> cr_at ` set (p # xs)" using assms that unfolding stretch_def by (meson list.set_intros(2))
    moreover have "t \<noteq> cr_at p" using first that(1,3) by fastforce
    ultimately show ?thesis by simp
  qed
  then show ?thesis using assms sorted unfolding stretch_def by auto
qed

lemma stretch_adjacent:
  assumes s: "stretch c samples (p # q # rest)" shows "adjacent c samples (cr_at p) (cr_at q)"
proof -
  have first: "cr_at p < cr_at q" "\<forall>r \<in> set rest. cr_at q < cr_at r" using s unfolding stretch_def by auto
  have "\<not> sample_at c samples t" if "cr_at p < t" "t < cr_at q" for t
  proof
    assume "sample_at c samples t"
    then have "t \<in> cr_at ` set (p # q # rest)" using s that unfolding stretch_def by (meson list.set_intros)
    then show False using that first by auto
  qed
  then show ?thesis using s first(1) unfolding adjacent_def stretch_def by auto
qed

lemma rebuild_pairs_ok:
  assumes "stretch (sc_id sc) samples xs" "spa_rows_ok samples (fst acc)"
  shows "spa_rows_ok samples (fst (rebuild_pairs env sc ledger poll_s xs acc))"
  using assms
proof (induction env sc ledger poll_s xs acc rule: rebuild_pairs.induct)
  case (1 env sc ledger poll_s p q rest acc)
  note adj = stretch_adjacent [OF 1(2)] and tail = stretch_tail [OF 1(2)]
  have "spa_rows_ok samples (fst (rebuild_pair env sc ledger poll_s p q acc))"
  proof (cases rule: rebuild_pair_cases [of env sc ledger poll_s p q acc])
    case 1
    then show ?thesis using \<open>spa_rows_ok samples (fst acc)\<close> by simp
  next
    case (2 i)
    then show ?thesis using new_interval_ok [OF \<open>spa_rows_ok samples (fst acc)\<close> adj] by simp
  qed
  then show ?case using 1(1) tail by simp
qed simp_all

subsection \<open>Runs\<close>

text \<open>The clock and the tables. An event comes some microseconds after the one before.\<close>

datatype consumer_event =
    Spas_polled int "(nat \<times> spa_visit) list"
  | Spa_rebuilt rebuild_env nat int bool

definition consumer_step :: "time \<times> consumer_db \<Rightarrow> nat \<times> consumer_event \<Rightarrow> time \<times> consumer_db" where
  "consumer_step st e = (let now = fst st + int (fst e) in (now, case snd e of
       Spas_polled fast_s visits \<Rightarrow> snd (poll_due_consumers now fast_s visits (snd st))
     | Spa_rebuilt env site window existing \<Rightarrow> snd (rebuild_for_site env site now window existing (snd st))))"

definition samples_ok :: "time \<Rightarrow> consumer_sample list \<Rightarrow> bool" where
  "samples_ok now rows \<longleftrightarrow> (\<forall>r \<in> set rows. cr_at r \<le> now)
     \<and> (\<forall>c. sorted_wrt (<) (map cr_at (filter (\<lambda>r. cr_consumer r = c) rows)))"

definition consumer_ok :: "time \<times> consumer_db \<Rightarrow> bool" where
  "consumer_ok st \<longleftrightarrow> samples_ok (fst st) (cd_samples (snd st)) \<and> spa_rows_ok (cd_samples (snd st)) (cd_intervals (snd st))"

lemma samples_ok_later: "samples_ok t rows \<Longrightarrow> t \<le> u \<Longrightarrow> samples_ok u rows"
  unfolding samples_ok_def by fastforce

lemma sample_at_append: "sample_at c (rows @ [r]) t \<longleftrightarrow> sample_at c rows t \<or> cr_consumer r = c \<and> cr_at r = t"
  by (auto simp: sample_at_def)

lemma insert_sample_ok:
  assumes rows: "samples_ok now rows" and ints: "spa_rows_ok rows ints" and r: "cr_at r = now"
  shows "samples_ok now (insert_sample r rows)" "spa_rows_ok (insert_sample r rows) ints"
proof -
  have both: "samples_ok now (insert_sample r rows) \<and> spa_rows_ok (insert_sample r rows) ints"
  proof (cases "list_ex (\<lambda>x. cr_consumer x = cr_consumer r \<and> cr_at x = cr_at r) rows")
    case True
    then show ?thesis using rows ints by (simp add: insert_sample_def)
  next
    case False
    have before: "cr_at x < now" if "x \<in> set rows" "cr_consumer x = cr_consumer r" for x
      using False that rows r unfolding samples_ok_def list_ex_iff by (metis order_le_imp_less_or_eq)
    have "sorted_wrt (<) (map cr_at (filter (\<lambda>x. cr_consumer x = c) (rows @ [r])))" for c
    proof -
      have "sorted_wrt (<) (map cr_at (filter (\<lambda>x. cr_consumer x = c) rows))" using rows by (simp add: samples_ok_def)
      then show ?thesis using before r by (auto simp: sorted_wrt_append)
    qed
    then have ok: "samples_ok now (rows @ [r])" using rows r by (auto simp: samples_ok_def)
    have "adjacent c (rows @ [r]) a b" if adj: "adjacent c rows a b" for c a b
    proof -
      have late: "\<not> (cr_consumer r = c \<and> cr_at r = u)" if "u < b" for u
      proof
        assume u: "cr_consumer r = c \<and> cr_at r = u"
        have "sample_at c rows b" using adj by (simp add: adjacent_def)
        then obtain x where x: "x \<in> set rows" "cr_consumer x = c" "cr_at x = b" unfolding sample_at_def by blast
        have "cr_at x < now" by (rule before) (use x u in simp_all)
        then show False using x(3) u r that by simp
      qed
      have old: "\<not> sample_at c rows u" if "a < u" "u < b" for u using adj that by (simp add: adjacent_def)
      show ?thesis
        unfolding adjacent_def sample_at_append
      proof (intro conjI allI impI)
        show "sample_at c rows a \<or> cr_consumer r = c \<and> cr_at r = a" "sample_at c rows b \<or> cr_consumer r = c \<and> cr_at r = b" "a < b"
          using adj by (simp_all add: adjacent_def)
        show "\<not> (sample_at c rows u \<or> cr_consumer r = c \<and> cr_at r = u)" if "a < u \<and> u < b" for u
          using old [of u] late [of u] that by simp
      qed
    qed
    then have "spa_rows_ok (rows @ [r]) ints" using ints unfolding spa_rows_ok_def by blast
    then show ?thesis using ok False by (simp add: insert_sample_def)
  qed
  then show "samples_ok now (insert_sample r rows)" "spa_rows_ok (insert_sample r rows) ints" by blast+
qed

lemma poll_step_ok:
  assumes "consumer_ok (now, snd acc)" shows "consumer_ok (now, snd (poll_step now fast_s acc v))"
proof (cases rule: poll_step_cases [of now fast_s acc v])
  case 1
  then show ?thesis using assms by simp
next
  case (2 sc)
  let ?db = "snd (poll_one (vi_env (snd v)) now (vi_fetched (snd v)) sc (snd acc))"
  have ok: "samples_ok now (cd_samples (snd acc))" "spa_rows_ok (cd_samples (snd acc)) (cd_intervals (snd acc))"
    using assms by (simp_all add: consumer_ok_def)
  have ints: "cd_intervals ?db = cd_intervals (snd acc)" by (rule poll_one_tables(1))
  from poll_one_tables(3) [of "vi_env (snd v)" now "vi_fetched (snd v)" sc "snd acc"]
  have "samples_ok now (cd_samples ?db) \<and> spa_rows_ok (cd_samples ?db) (cd_intervals ?db)"
  proof
    assume "cd_samples ?db = cd_samples (snd acc)"
    then show ?thesis using ok ints by simp
  next
    assume "\<exists>r. cr_consumer r = sc_id sc \<and> cr_at r = now \<and> cr_energy_wh r = Some 0
      \<and> cd_samples ?db = insert_sample r (cd_samples (snd acc))"
    then obtain r where "cr_at r = now" "cd_samples ?db = insert_sample r (cd_samples (snd acc))" by blast
    then show ?thesis using insert_sample_ok [OF ok] ints by simp
  qed
  then show ?thesis by (simp add: 2 consumer_ok_def)
qed

lemma polls_ok:
  "consumer_ok (now, snd acc) \<Longrightarrow> consumer_ok (now, snd (foldl (poll_step now fast_s) acc visits))"
  by (induction visits arbitrary: acc) (simp_all add: poll_step_ok)

lemma samples_between_stretch:
  assumes "samples_ok now rows" shows "stretch c rows (samples_between c a b rows)"
proof -
  let ?P = "\<lambda>r. cr_consumer r = c \<and> a \<le> cr_at r \<and> cr_at r < b"
  have "sorted_wrt (<) (map cr_at (filter (\<lambda>r. cr_consumer r = c) rows))" using assms by (simp add: samples_ok_def)
  then have "sorted_wrt (<) (map cr_at (filter (\<lambda>r. a \<le> cr_at r \<and> cr_at r < b) (filter (\<lambda>r. cr_consumer r = c) rows)))"
    unfolding sorted_wrt_map by (rule sorted_wrt_filter)
  moreover have "filter (\<lambda>r. a \<le> cr_at r \<and> cr_at r < b) (filter (\<lambda>r. cr_consumer r = c) rows) = filter ?P rows"
    unfolding filter_filter by (rule filter_cong) auto
  ultimately have strict: "sorted_wrt (<) (map cr_at (filter ?P rows))" by simp
  then have "sorted (map cr_at (filter ?P rows))" by (rule strict_sorted_imp_sorted)
  then have same: "samples_between c a b rows = filter ?P rows"
    by (simp add: samples_between_def sorted_sort_id sort_key_id_if_sorted)
  have "t \<in> cr_at ` set (filter ?P rows)"
    if "p \<in> set (filter ?P rows)" "q \<in> set (filter ?P rows)" "cr_at p < t" "t < cr_at q" "sample_at c rows t" for p q t
  proof -
    obtain r where "r \<in> set rows" "cr_consumer r = c" "cr_at r = t" using \<open>sample_at c rows t\<close> unfolding sample_at_def by blast
    moreover have "a \<le> t" "t < b" using that(1-4) by auto
    ultimately show ?thesis by force
  qed
  then show ?thesis unfolding stretch_def same using strict unfolding sample_at_def by auto
qed

lemma rebuild_intervals_ok:
  assumes "samples_ok now (cd_samples db)" "spa_rows_ok (cd_samples db) (cd_intervals db)"
  shows "spa_rows_ok (cd_samples db) (cd_intervals (snd (rebuild_missing_intervals env sc poll_s since until corrupt existing db)))"
  unfolding rebuild_missing_intervals_def Let_def
  using rebuild_pairs_ok [OF samples_between_stretch [OF assms(1)]] assms(2) by (simp add: intervals_ok_filter)

lemma rebuild_samples [simp]:
  "cd_samples (snd (rebuild_missing_intervals env sc poll_s since until corrupt existing db)) = cd_samples db"
  by (simp add: rebuild_missing_intervals_def Let_def)

lemma consumer_ok_step: assumes "consumer_ok st" shows "consumer_ok (consumer_step st e)"
proof -
  obtain t db where st: "st = (t, db)" by (cases st)
  obtain d ev where e: "e = (d, ev)" by (cases e)
  let ?now = "t + int d"
  have ok: "consumer_ok (?now, db)" using assms samples_ok_later [of t] by (simp add: st consumer_ok_def)
  show ?thesis
  proof (cases ev)
    case (Spas_polled fast_s visits)
    then show ?thesis using polls_ok [of ?now "(0, db)"] ok by (simp add: st e consumer_step_def Let_def poll_due_consumers_def)
  next
    case (Spa_rebuilt env site window existing)
    have "consumer_ok (?now, snd (rebuild_for_site env site ?now window existing db))"
    proof (cases "consumer_of site db")
      case None
      then show ?thesis using ok by (simp add: rebuild_for_site_def)
    next
      case (Some sc)
      then show ?thesis using ok rebuild_intervals_ok [of ?now db] by (simp add: rebuild_for_site_def consumer_ok_def)
    qed
    then show ?thesis by (simp add: st e Spa_rebuilt consumer_step_def Let_def)
  qed
qed

interpretation consumer_runs: kept_invariant consumer_step "\<lambda>_. True" consumer_ok
  by unfold_locales (rule consumer_ok_step)

text \<open>C38. From tables without samples and intervals, over any polls and rebuilds at non-decreasing times, the intervals
  of a consumer are not empty and do not overlap.\<close>

theorem consumer_intervals_apart:
  assumes "cd_samples db = []" "cd_intervals db = []"
    and "i \<in> set (cd_intervals (snd (foldl consumer_step (t, db) es)))" "j \<in> set (cd_intervals (snd (foldl consumer_step (t, db) es)))"
    and "ce_consumer i = ce_consumer j"
  shows "ce_start i < ce_end i \<and> (i = j \<or> ce_end i \<le> ce_start j \<or> ce_end j \<le> ce_start i)"
proof -
  let ?db = "snd (foldl consumer_step (t, db) es)"
  have "consumer_ok (t, db)" using assms(1,2) by (simp add: consumer_ok_def samples_ok_def spa_rows_ok_def)
  then have "consumer_ok (foldl consumer_step (t, db) es)" by (rule consumer_runs.run_keeps) simp
  then have ok: "spa_rows_ok (cd_samples ?db) (cd_intervals ?db)" by (simp add: consumer_ok_def)
  have i: "adjacent (ce_consumer i) (cd_samples ?db) (ce_start i) (ce_end i)"
    and j: "adjacent (ce_consumer i) (cd_samples ?db) (ce_start j) (ce_end j)"
    using intervals_okD(1) [OF ok assms(3)] intervals_okD(1) [OF ok assms(4)] assms(5) by simp_all
  have "ce_start i < ce_end i" using i by (simp add: adjacent_def)
  moreover have "i = j \<or> ce_end i \<le> ce_start j \<or> ce_end j \<le> ce_start i"
  proof (cases "ce_start i = ce_start j")
    case True
    then have "interval_key i = interval_key j" using assms(5) by (simp add: interval_key_def)
    then have "i = j" using intervals_okD(2) [OF ok] assms(3,4) by (meson distinct_map inj_onD)
    then show ?thesis by simp
  next
    case False
    then show ?thesis using i j unfolding adjacent_def by (meson linorder_cases not_le)
  qed
  ultimately show ?thesis by blast
qed

text \<open>Inputs for the witnesses: a spa with a running pump, polled three times a minute apart and then rebuilt.\<close>

definition pump_running :: arctic_status where
  "pump_running = \<lparr> at_connected = True, at_temperature_c = Some 38, at_setpoint_c = Some 38,
     at_pumps = [(''pump1'', Some ''high'')], at_filter_status = None, at_blowers = [] \<rparr>"

definition spa_device :: spa_consumer where
  "spa_device = \<lparr> sc_id = 7, sc_site = \<lparr> st_id = 1, st_fallback_purchase_price_sek_kwh = 1,
       st_export_compensation_sek_kwh = 0 \<rparr>, sc_profiles = \<lparr> mp_heater_w = 3000, mp_pump_low_w = 150, mp_pump_high_w = 400,
       mp_circulation_w = 200, mp_blower_w = 250, mp_max_plausible_w = 6000 \<rparr>, sc_collect = True, sc_cost = True, sc_poll_s = 60,
     sc_last_status = None, sc_last_status_at = None, sc_success_at = None, sc_failures = 0, sc_backoff_until = None \<rparr>"

definition spa_tables :: "spa_consumer \<Rightarrow> consumer_sample list \<Rightarrow> consumer_db" where
  "spa_tables sc rows = \<lparr> cd_consumers = [sc], cd_samples = rows, cd_intervals = [], cd_ledgers = (\<lambda>_. empty_ledger) \<rparr>"

definition spa_inputs :: rebuild_env where
  "spa_inputs = \<lparr> rb_rate = 11, rb_price_at = (\<lambda>_. None), rb_live = None, rb_readings = [] \<rparr>"

definition spa_seen :: "time \<Rightarrow> spa_consumer" where
  "spa_seen t = spa_device\<lparr> sc_last_status := Some pump_running, sc_last_status_at := Some t, sc_success_at := Some t \<rparr>"

definition pump_sample :: "time \<Rightarrow> consumer_sample" where
  "pump_sample t = sample_row 7 t \<lparr> sg_power_w = 400, sg_energy_wh = 0, sg_heater = False, sg_pumps = [(''pump1'', ''high'')],
     sg_quality = CQ_CALCULATED, sg_breakdown = [(''pump1'', 400)] \<rparr>"

definition spa_polled :: consumer_event where
  "spa_polled = Spas_polled 15 [(7, \<lparr> vi_env = spa_inputs, vi_actuator = SPA_IDLE, vi_plan = None,
     vi_fetched = Some pump_running \<rparr>)]"

lemma pump_estimate: "estimate_sample (sc_profiles spa_device) pump_running prev 0 60 None =
   \<lparr> sg_power_w = 400, sg_energy_wh = 0, sg_heater = False, sg_pumps = [(''pump1'', ''high'')],
     sg_quality = CQ_CALCULATED, sg_breakdown = [(''pump1'', 400)] \<rparr>"
  by (simp add: estimate_sample_def pump_running_def spa_device_def Let_def component_breakdown_def heater_element_active_def
      status_in_def filter_cycle_active_def pump_states_def List.map_filter_def pump_entry_def)

lemma spa_poll_step:
  assumes sc: "sc = spa_device \<or> sc = spa_seen u \<and> elapsed_s now u \<ge> 60" and new: "\<forall>r \<in> set rows. cr_at r \<noteq> now"
    and now: "now = t + int d"
  shows "consumer_step (t, spa_tables sc rows) (d, spa_polled) = (now, spa_tables (spa_seen now) (rows @ [pump_sample now]))"
proof -
  have due: "poll_due now 15 False sc" using sc by (auto simp: poll_due_def spa_device_def spa_seen_def)
  have fast: "\<not> needs_fast_poll SPA_IDLE None now" by (simp add: needs_fast_poll_def)
  have parts: "sc_id sc = 7" "sc_profiles sc = sc_profiles spa_device" "sc_poll_s sc = 60"
    "poll_succeeded now (save_status_snapshot pump_running now sc) = spa_seen now"
    using sc by (auto simp: spa_seen_def spa_device_def poll_succeeded_def save_status_snapshot_def)
  have seen: "sc_id (spa_seen now) = 7" by (simp add: spa_seen_def spa_device_def)
  have insert: "insert_sample (pump_sample now) rows = rows @ [pump_sample now]"
    using new by (auto simp: insert_sample_def pump_sample_def sample_row_def list_ex_iff)
  have "poll_one spa_inputs now (Some pump_running) sc (spa_tables sc rows)
      = (1, spa_tables (spa_seen now) (rows @ [pump_sample now]))"
    using parts seen insert pump_estimate [of "sc_last_status sc"]
    by (simp add: poll_one_def Let_def time_since_status spa_tables_def put_consumer_def spa_inputs_def pump_sample_def)
  then show ?thesis
    using due fast parts(1)
    by (simp add: consumer_step_def spa_polled_def poll_due_consumers_def poll_step_def now [symmetric] spa_tables_def Let_def)
qed

text \<open>A poll a minute after a sample that does have energy.\<close>

definition pump_polled :: consumer_db where
  "pump_polled = snd (poll_due_consumers 60000000 15 [(7, \<lparr> vi_env = spa_inputs, vi_actuator = SPA_IDLE, vi_plan = None,
     vi_fetched = Some pump_running \<rparr>)] (spa_tables (spa_seen 0) [(pump_sample 0)\<lparr> cr_energy_wh := Some 5 \<rparr>]))"

theorem polls_record_no_energy_witness:
  "cd_intervals pump_polled = [] \<and> cr_at (last (cd_samples pump_polled)) = 60000000
   \<and> cr_energy_wh (last (cd_samples pump_polled)) = Some 0"
proof -
  let ?old = "(pump_sample 0)\<lparr> cr_energy_wh := Some 5 \<rparr>" and ?new = "pump_sample 60000000"
  have row: "cr_at (pump_sample t) = t" for t by (simp add: pump_sample_def sample_row_def)
  have "consumer_step (0, spa_tables (spa_seen 0) [?old]) (60000000, spa_polled)
      = (60000000, spa_tables (spa_seen 60000000) ([?old] @ [?new]))"
    by (rule spa_poll_step [of _ 0]) (simp_all add: elapsed_s_def us_per_s_def row)
  then have polled: "pump_polled = spa_tables (spa_seen 60000000) [?old, ?new]"
    by (simp add: consumer_step_def spa_polled_def pump_polled_def)
  have new: "?new \<in> set (cd_samples pump_polled)" "last (cd_samples pump_polled) = ?new" by (simp_all add: polled spa_tables_def)
  have "cr_at ?old = 0" by (simp add: row)
  then have "?new \<noteq> ?old" using row [of 60000000] by (metis zero_neq_numeral)
  moreover have "cd_intervals pump_polled = [] \<and> (?new \<in> set [?old] \<or> cr_energy_wh ?new = Some 0)"
    using polls_record_no_energy [of 60000000 15 _ "spa_tables (spa_seen 0) [?old]"] new(1)
    unfolding pump_polled_def by (auto simp: spa_tables_def)
  ultimately show ?thesis by (simp add: new(2) row)
qed

definition spa_day :: "(nat \<times> consumer_event) list" where
  "spa_day = [(0, spa_polled), (60000000, spa_polled), (60000000, spa_polled)]"

lemma pump_sample_row [simp]: "cr_at (pump_sample t) = t" "cr_consumer (pump_sample t) = 7" "cr_power_w (pump_sample t) = Some 400"
    "cr_energy_wh (pump_sample t) = Some 0"
  by (simp_all add: pump_sample_def sample_row_def)

lemma spa_day_run: "foldl consumer_step (0, spa_tables spa_device []) spa_day
    = (120000000, spa_tables (spa_seen 120000000) [pump_sample 0, pump_sample 60000000, pump_sample 120000000])"
proof -
  have gap: "elapsed_s 60000000 0 \<ge> 60" "elapsed_s 120000000 60000000 \<ge> 60" by (simp_all add: elapsed_s_def us_per_s_def)
  have "consumer_step (0, spa_tables spa_device []) (0, spa_polled) = (0, spa_tables (spa_seen 0) ([] @ [pump_sample 0]))"
    by (rule spa_poll_step [of spa_device 0]) simp_all
  moreover have "consumer_step (0, spa_tables (spa_seen 0) [pump_sample 0]) (60000000, spa_polled)
      = (60000000, spa_tables (spa_seen 60000000) ([pump_sample 0] @ [pump_sample 60000000]))"
    by (rule spa_poll_step [of "spa_seen 0" 0]) (simp_all add: gap)
  moreover have "consumer_step (60000000, spa_tables (spa_seen 60000000) [pump_sample 0, pump_sample 60000000]) (60000000, spa_polled)
      = (120000000, spa_tables (spa_seen 120000000) ([pump_sample 0, pump_sample 60000000] @ [pump_sample 120000000]))"
    by (rule spa_poll_step [of "spa_seen 60000000" 60000000]) (simp_all add: gap)
  ultimately show ?thesis by (simp add: spa_day_def)
qed

text \<open>The rebuild a microsecond later makes two intervals.\<close>

definition spa_rebuilt :: consumer_event where
  "spa_rebuilt = Spa_rebuilt spa_inputs 1 30 False"

definition spa_after :: consumer_db where
  "spa_after = snd (foldl consumer_step (0, spa_tables spa_device []) (spa_day @ [(1, spa_rebuilt)]))"

lemma spa_pair_wh: "energy_wh_for_pair 60 (pump_sample t) (pump_sample (t + 60000000)) = 20/3"
  by (simp add: energy_wh_for_pair_def Let_def num_or_def elapsed_s_def us_per_s_def)

lemma spa_after_pairs:
  "cd_intervals spa_after = fst (rebuild_pairs spa_inputs (spa_seen 120000000) empty_ledger 60
     [pump_sample 0, pump_sample 60000000, pump_sample 120000000] ([], 0))"
proof -
  let ?rows = "[pump_sample 0, pump_sample 60000000, pump_sample 120000000]"
  have "samples_between 7 (120000001 - days_us 30) 120000001 ?rows = ?rows"
    by (simp add: samples_between_def days_us_def us_per_s_def)
  moreover have "sc_id (spa_seen t) = 7" "sc_collect (spa_seen t)" "sc_poll_s (spa_seen t) = 60" "st_id (sc_site (spa_seen t)) = 1" for t
    by (simp_all add: spa_seen_def spa_device_def)
  ultimately show ?thesis
    unfolding spa_after_def foldl_append spa_day_run
    by (simp add: consumer_step_def spa_rebuilt_def rebuild_for_site_def consumer_of_def spa_tables_def
        rebuild_missing_intervals_def max_energy_kwh_def MAX_PLAUSIBLE_INTERVAL_KWH_def Let_def)
qed

lemma spa_after_intervals:
  obtains i j where "cd_intervals spa_after = [i, j]" "ce_consumer i = 7" "ce_start i = 0" "ce_end i = 60000000"
    "ce_consumer j = 7" "ce_start j = 60000000" "ce_end j = 120000000" "ce_energy_kwh i \<le> 1/2" "ce_energy_kwh j \<le> 1/2"
proof -
  let ?sc = "spa_seen 120000000"
  have id: "sc_id ?sc = 7" by (simp add: spa_seen_def spa_device_def)
  obtain i where i: "rebuild_pair spa_inputs ?sc empty_ledger 60 (pump_sample 0) (pump_sample 60000000) ([], 0) = ([i], 1)"
      "ce_consumer i = 7" "ce_start i = 0" "ce_end i = 60000000" "ce_energy_kwh i = 20/3/1000"
    using spa_pair_wh [of 0]
    by (cases rule: rebuild_pair_cases [of spa_inputs ?sc empty_ledger 60 "pump_sample 0" "pump_sample 60000000" "([], 0)"])
      (auto simp: id has_interval_for_window_def)
  have free: "\<not> has_interval_for_window 7 60000000 120000000 [i]"
    using i by (simp add: has_interval_for_window_def)
  obtain j where j: "rebuild_pair spa_inputs ?sc empty_ledger 60 (pump_sample 60000000) (pump_sample 120000000) ([i], 1) = ([i, j], 2)"
      "ce_consumer j = 7" "ce_start j = 60000000" "ce_end j = 120000000" "ce_energy_kwh j = 20/3/1000"
    using spa_pair_wh [of 60000000] free
    by (cases rule: rebuild_pair_cases [of spa_inputs ?sc empty_ledger 60 "pump_sample 60000000" "pump_sample 120000000" "([i], 1)"])
      (auto simp: id)
  show ?thesis
    by (rule that [of i j]) (simp_all add: spa_after_pairs i j del: One_nat_def)
qed

theorem consumer_intervals_apart_witness:
  "ce_end (hd (cd_intervals spa_after)) \<le> ce_start (last (cd_intervals spa_after))"
proof -
  obtain i j where ij: "cd_intervals spa_after = [i, j]" "ce_consumer i = 7" "ce_start i = 0" "ce_end i = 60000000"
    "ce_consumer j = 7" "ce_start j = 60000000" using spa_after_intervals by blast
  have "i \<in> set (cd_intervals spa_after)" "j \<in> set (cd_intervals spa_after)" using ij(1) by simp_all
  from consumer_intervals_apart [OF _ _ this [unfolded spa_after_def]] ij
  have "i = j \<or> ce_end i \<le> ce_start j \<or> ce_end j \<le> ce_start i \<and> ce_start j < ce_end j" by (auto simp: spa_tables_def)
  then show ?thesis using ij by auto
qed

subsection \<open>Rebuilding again\<close>

lemma window_kept:
  assumes "has_interval_for_window c a b rows" "set rows \<subseteq> set rows'" shows "has_interval_for_window c a b rows'"
  using assms unfolding has_interval_for_window_def list_ex_iff by blast

lemma rebuild_pair_grows: "set (fst acc) \<subseteq> set (fst (rebuild_pair env sc ledger poll_s p q acc))"
  by (cases rule: rebuild_pair_cases [of env sc ledger poll_s p q acc]) auto

lemma rebuild_pairs_grows: "set (fst acc) \<subseteq> set (fst (rebuild_pairs env sc ledger poll_s xs acc))"
proof (induction env sc ledger poll_s xs acc rule: rebuild_pairs.induct)
  case (1 env sc ledger poll_s p q rest acc)
  then show ?case using rebuild_pair_grows [of acc env sc ledger poll_s p q] by simp
qed simp_all

text \<open>Nothing is left to do for a list of samples.\<close>

fun nothing_missing :: "nat \<Rightarrow> int \<Rightarrow> consumer_interval list \<Rightarrow> consumer_sample list \<Rightarrow> bool" where
  "nothing_missing c poll_s rows (p # q # rest) \<longleftrightarrow> (cr_at p \<ge> cr_at q \<or> energy_wh_for_pair poll_s p q \<le> 0
     \<or> has_interval_for_window c (cr_at p) (cr_at q) rows) \<and> nothing_missing c poll_s rows (q # rest)"
| "nothing_missing c poll_s rows _ \<longleftrightarrow> True"

lemma rebuild_pairs_settle: "nothing_missing (sc_id sc) poll_s (fst (rebuild_pairs env sc ledger poll_s xs acc)) xs"
proof (induction env sc ledger poll_s xs acc rule: rebuild_pairs.induct)
  case (1 env sc ledger poll_s p q rest acc)
  let ?acc = "rebuild_pair env sc ledger poll_s p q acc" and ?c = "sc_id sc"
  have "cr_at p \<ge> cr_at q \<or> energy_wh_for_pair poll_s p q \<le> 0 \<or> has_interval_for_window ?c (cr_at p) (cr_at q) (fst ?acc)"
  proof (cases rule: rebuild_pair_cases [of env sc ledger poll_s p q acc])
    case 1
    then show ?thesis by simp
  next
    case (2 i)
    then show ?thesis by (simp add: has_interval_for_window_def)
  qed
  then have "cr_at p \<ge> cr_at q \<or> energy_wh_for_pair poll_s p q \<le> 0
      \<or> has_interval_for_window ?c (cr_at p) (cr_at q) (fst (rebuild_pairs env sc ledger poll_s (q # rest) ?acc))"
    using window_kept [OF _ rebuild_pairs_grows] by blast
  then show ?case using 1 by simp
qed simp_all

lemma rebuild_pairs_idle: "nothing_missing (sc_id sc) poll_s (fst acc) xs \<Longrightarrow> rebuild_pairs env sc ledger poll_s xs acc = acc"
proof (induction env sc ledger poll_s xs acc rule: rebuild_pairs.induct)
  case (1 env sc ledger poll_s p q rest acc)
  have "rebuild_pair env sc ledger poll_s p q acc = acc" using 1(2) by (auto simp: rebuild_pair_def Let_def)
  then show ?case using 1 by simp
qed simp_all

text \<open>C39. When a rebuild of any kind leaves no interval of the consumer above the plausible limit, a rebuild of what is
  missing, asked neither to replace implausible rows nor to rebuild existing ones, over the same window at the same poll
  interval changes nothing and reports nothing, whatever prices, readings and overview it is given. With
  \<open>rebuild_existing\<close> the rows of the window would be deleted and computed anew.\<close>

theorem rebuild_settles:
  assumes db': "snd (rebuild_missing_intervals env sc poll_s since now corrupt existing db) = db'"
    and limit: "max_energy_kwh (sc_id sc) (cd_intervals db') \<le> MAX_PLAUSIBLE_INTERVAL_KWH"
  shows "rebuild_missing_intervals env' sc poll_s since now False False db' = (0, db')"
proof -
  let ?xs = "samples_between (sc_id sc) since now (cd_samples db)"
  obtain rows where rows: "cd_intervals db' = fst (rebuild_pairs env sc (cd_ledgers db (st_id (sc_site sc))) poll_s ?xs (rows, 0))"
    using db' by (auto simp: rebuild_missing_intervals_def Let_def)
  have samples: "cd_samples db' = cd_samples db" using db' by auto
  have "nothing_missing (sc_id sc) poll_s (cd_intervals db') ?xs" unfolding rows by (rule rebuild_pairs_settle)
  then have "rebuild_pairs env' sc (cd_ledgers db' (st_id (sc_site sc))) poll_s ?xs (cd_intervals db', 0) = (cd_intervals db', 0)"
    by (simp add: rebuild_pairs_idle)
  then show ?thesis using limit by (simp add: rebuild_missing_intervals_def Let_def samples)
qed

theorem rebuild_settles_witness:
  "rebuild_missing_intervals spa_inputs (spa_seen 120000000) 60 (120000001 - days_us 30) 120000001 False False spa_after
     = (0, spa_after)"
proof -
  have "sc_id (spa_seen t) = 7" "sc_collect (spa_seen t)" "sc_poll_s (spa_seen t) = 60" "st_id (sc_site (spa_seen t)) = 1" for t
    by (simp_all add: spa_seen_def spa_device_def)
  then have after: "snd (rebuild_missing_intervals spa_inputs (spa_seen 120000000) 60 (120000001 - days_us 30) 120000001 False False
      (spa_tables (spa_seen 120000000) [pump_sample 0, pump_sample 60000000, pump_sample 120000000])) = spa_after"
    unfolding spa_after_def foldl_append spa_day_run
    by (simp add: consumer_step_def spa_rebuilt_def rebuild_for_site_def consumer_of_def spa_tables_def Let_def)
  have "max_energy_kwh (sc_id (spa_seen 120000000)) (cd_intervals spa_after) \<le> MAX_PLAUSIBLE_INTERVAL_KWH"
    by (rule spa_after_intervals) (simp add: max_energy_kwh_def spa_seen_def spa_device_def MAX_PLAUSIBLE_INTERVAL_KWH_def)
  with after show ?thesis by (rule rebuild_settles)
qed

text \<open>One interval above the limit removes the whole history of the consumer; what is rebuilt begins at \<open>since\<close>.\<close>

lemma implausible_forgets:
  assumes "max_energy_kwh (sc_id sc) (cd_intervals db) > MAX_PLAUSIBLE_INTERVAL_KWH"
    and "i \<in> set (cd_intervals (snd (rebuild_missing_intervals env sc poll_s since now corrupt existing db)))"
      "ce_consumer i = sc_id sc"
  shows "since \<le> ce_start i"
proof -
  have inv: "\<forall>i \<in> set (fst (rebuild_pairs env sc ledger poll_s xs acc)). ce_consumer i = sc_id sc \<longrightarrow> since \<le> ce_start i"
    if "\<forall>r \<in> set xs. since \<le> cr_at r" "\<forall>i \<in> set (fst acc). ce_consumer i = sc_id sc \<longrightarrow> since \<le> ce_start i" for ledger xs acc
    using that
  proof (induction env sc ledger poll_s xs acc rule: rebuild_pairs.induct)
    case (1 env sc ledger poll_s p q rest acc)
    have "\<forall>i \<in> set (fst (rebuild_pair env sc ledger poll_s p q acc)). ce_consumer i = sc_id sc \<longrightarrow> since \<le> ce_start i"
    proof (cases rule: rebuild_pair_cases [of env sc ledger poll_s p q acc])
      case 1
      then show ?thesis using \<open>\<forall>i \<in> set (fst acc). _ i\<close> by simp
    next
      case (2 i)
      then show ?thesis using \<open>\<forall>i \<in> set (fst acc). _ i\<close> \<open>\<forall>r \<in> set (p # q # rest). _ r\<close> by auto
    qed
    then show ?case using 1 by simp
  qed simp_all
  have "\<forall>r \<in> set (samples_between (sc_id sc) since now (cd_samples db)). since \<le> cr_at r"
    by (simp add: samples_between_def)
  note kept = inv [OF this]
  define rows where "rows = filter (\<lambda>r. ce_consumer r \<noteq> sc_id sc) (cd_intervals db)"
  define rows' where "rows' = (if existing then filter (\<lambda>r. \<not> (ce_consumer r = sc_id sc \<and> since \<le> ce_start r)) rows else rows)"
  have "\<forall>i \<in> set (fst (rows', 0 :: nat)). ce_consumer i = sc_id sc \<longrightarrow> since \<le> ce_start i"
    by (simp add: rows'_def rows_def)
  moreover have "cd_intervals (snd (rebuild_missing_intervals env sc poll_s since now corrupt existing db))
      = fst (rebuild_pairs env sc (cd_ledgers db (st_id (sc_site sc))) poll_s
          (samples_between (sc_id sc) since now (cd_samples db)) (rows', 0))"
    using assms(1) by (simp add: rebuild_missing_intervals_def Let_def rows_def rows'_def)
  ultimately show ?thesis using kept assms(2,3) by metis
qed

subsection \<open>Stored sums\<close>

lemma merged_sums:
  "ag_energy_kwh (foldl merge_interval b rows) = ag_energy_kwh b + sum_list (map ce_energy_kwh rows)
   \<and> ag_unknown_kwh (foldl merge_interval b rows) = ag_unknown_kwh b + sum_list (map ce_unknown_kwh rows)
   \<and> ag_cost_sek (foldl merge_interval b rows) = ag_cost_sek b + sum_list (map ce_cost_sek rows)
   \<and> ag_reference_sek (foldl merge_interval b rows) = ag_reference_sek b + sum_list (map (\<lambda>r. num_or (ce_reference_sek r) 0) rows)
   \<and> ag_savings_sek (foldl merge_interval b rows) = ag_savings_sek b + sum_list (map (\<lambda>r. num_or (ce_savings_sek r) 0) rows)
   \<and> ag_heater_s (foldl merge_interval b rows) = ag_heater_s b + sum_list (map ce_heater_s rows)
   \<and> ag_pump_s (foldl merge_interval b rows) = ag_pump_s b + sum_list (map ce_pump_s rows)
   \<and> ag_max_power_w (foldl merge_interval b rows) = foldl max (ag_max_power_w b) (map (\<lambda>r. num_or (ce_power_w r) 0) rows)"
  by (induction rows arbitrary: b) (simp_all add: merge_interval_def Let_def)

lemma merged_attribution:
  "ag_attribution (foldl merge_interval b rows) = plus_attribution (ag_attribution b) (sum_attributions (map ce_attribution rows))"
  by (induction rows arbitrary: b) (simp_all add: merge_interval_def Let_def plus_attribution_def sum_attributions_def)

lemma counts_update: "sum_list (map snd (AList.update q (Suc (or_else (map_of d q) 0)) d)) = Suc (sum_list (map snd d))"
  by (induction d) (auto simp: or_else_def)

lemma merged_counts: "sum_list (map snd (ag_counts (foldl merge_interval b rows))) = sum_list (map snd (ag_counts b)) + length rows"
  by (induction rows arbitrary: b) (simp_all add: merge_interval_def Let_def counts_update)

lemma foldl_max_start: "xs \<noteq> [] \<Longrightarrow> foldl max (0 :: rat) xs = max 0 (foldl max (hd xs) (tl xs))"
proof -
  have out: "foldl max (max a b) ys = max a (foldl max b ys)" for a b :: rat and ys
    by (induction ys arbitrary: b) (simp_all add: max.assoc)
  show "xs \<noteq> [] \<Longrightarrow> foldl max 0 xs = max 0 (foldl max (hd xs) (tl xs))" by (cases xs) (simp_all add: out)
qed

text \<open>The columns of a row against the sums of its intervals: the maximum of a row starts at zero.\<close>

definition stores_sums :: "aggregate_row \<Rightarrow> interval_sums \<Rightarrow> bool" where
  "stores_sums row t \<longleftrightarrow> ar_energy_kwh row = is_energy_kwh t \<and> ar_energy_attribution row = is_attribution t
     \<and> ar_unknown_kwh row = is_unknown_kwh t \<and> ar_cost_sek row = is_cost_sek t
     \<and> ar_reference_sek row = nonzero (is_reference_sek t) \<and> ar_savings_sek row = nonzero (is_savings_sek t)
     \<and> ar_heater_s row = is_heater_s t \<and> ar_pump_s row = is_pump_s t
     \<and> ar_max_power_w row = nonzero (max 0 (is_max_power_w t))"

lemma merged_is_sum:
  assumes "rows \<noteq> []"
  shows "\<exists>t. sum_interval_fields rows = Some t \<and> stores_sums (aggregate_row_of stop rows) t"
proof -
  have "plus_attribution no_energy a = a" for a by (simp add: plus_attribution_def no_energy_def)
  then show ?thesis
    using assms merged_sums [of empty_bucket rows] merged_attribution [of empty_bucket rows]
      foldl_max_start [of "map (\<lambda>r. num_or (ce_power_w r) 0) rows"]
    by (simp add: sum_interval_fields_def Let_def stores_sums_def aggregate_row_of_def empty_bucket_def)
qed

lemma aggregate_lookup:
  "map_of (update_aggregate bounds c now intervals table g) k =
     (let rows = intervals_between c (fst (bounds g now)) (snd (bounds g now)) intervals in
      if rows \<noteq> [] \<and> k = (c, g, fst (bounds g now)) then Some (aggregate_row_of (snd (bounds g now)) rows) else map_of table k)"
  by (simp add: update_aggregate_def Let_def map_of_update)

lemma aggregates_other:
  "fst k \<noteq> c \<or> fst (snd k) \<notin> set gs \<or> snd (snd k) \<noteq> fst (bounds (fst (snd k)) now) \<Longrightarrow>
   map_of (foldl (update_aggregate bounds c now intervals) table gs) k = map_of table k"
  by (induction gs arbitrary: table) (auto simp: aggregate_lookup Let_def)

lemma aggregates_lookup:
  "g \<in> set gs \<Longrightarrow> distinct gs \<Longrightarrow>
   map_of (foldl (update_aggregate bounds c now intervals) table gs) (c, g, fst (bounds g now)) =
     map_of (update_aggregate bounds c now intervals table g) (c, g, fst (bounds g now))"
proof (induction gs arbitrary: table)
  case (Cons h gs)
  show ?case
  proof (cases "h = g")
    case True
    then have "g \<notin> set gs" using Cons.prems(2) by simp
    then show ?thesis by (simp add: True aggregates_other)
  next
    case False
    then show ?thesis using Cons by (simp add: aggregate_lookup Let_def)
  qed
qed simp

text \<open>C40. After the update of a site with a spa the row stored for it and the current hour, day, month or year, if the period
  has intervals, ends with the period and has in each of its columns what \<open>sum_interval_fields\<close> computes from exactly the
  intervals of the period; a reference, savings or maximum power of zero is stored as missing, and a maximum below zero counts as
  zero. Without intervals the row of that period stays what it was, a stale one included. All other rows are unchanged.\<close>

theorem stored_sums_agree:
  assumes "consumer_of site db = Some sc"
  shows "let after = snd (update_aggregates bounds site now db table) in
    (\<forall>g \<in> set GRANULARITIES.
       let rows = intervals_between (sc_id sc) (fst (bounds g now)) (snd (bounds g now)) (cd_intervals db);
           stored = map_of after (sc_id sc, g, fst (bounds g now))
       in if rows = [] then stored = map_of table (sc_id sc, g, fst (bounds g now))
          else \<exists>row t. stored = Some row \<and> sum_interval_fields rows = Some t
            \<and> ar_period_end row = snd (bounds g now) \<and> stores_sums row t)
    \<and> (\<forall>c g t. c \<noteq> sc_id sc \<or> g \<notin> set GRANULARITIES \<or> t \<noteq> fst (bounds g now)
         \<longrightarrow> map_of after (c, g, t) = map_of table (c, g, t))"
proof -
  let ?after = "snd (update_aggregates bounds site now db table)"
  let ?rows = "\<lambda>g. intervals_between (sc_id sc) (fst (bounds g now)) (snd (bounds g now)) (cd_intervals db)"
  have after: "?after = foldl (update_aggregate bounds (sc_id sc) now (cd_intervals db)) table GRANULARITIES"
    using assms by (simp add: update_aggregates_def)
  have "distinct GRANULARITIES" by code_simp
  then have stored: "map_of ?after (sc_id sc, g, fst (bounds g now)) =
      (if ?rows g = [] then map_of table (sc_id sc, g, fst (bounds g now))
       else Some (aggregate_row_of (snd (bounds g now)) (?rows g)))" if "g \<in> set GRANULARITIES" for g
    using that by (simp add: after aggregates_lookup aggregate_lookup Let_def)
  have "ar_period_end (aggregate_row_of stop rows) = stop" for stop rows by (simp add: aggregate_row_of_def Let_def)
  then have "if ?rows g = [] then map_of ?after (sc_id sc, g, fst (bounds g now)) = map_of table (sc_id sc, g, fst (bounds g now))
      else \<exists>row t. map_of ?after (sc_id sc, g, fst (bounds g now)) = Some row \<and> sum_interval_fields (?rows g) = Some t
        \<and> ar_period_end row = snd (bounds g now) \<and> stores_sums row t" if "g \<in> set GRANULARITIES" for g
    using stored [OF that] merged_is_sum [of "?rows g" "snd (bounds g now)"] by auto
  moreover have "map_of ?after (c, g, t) = map_of table (c, g, t)"
    if "c \<noteq> sc_id sc \<or> g \<notin> set GRANULARITIES \<or> t \<noteq> fst (bounds g now)" for c g t
    using that by (simp add: after aggregates_other)
  ultimately show ?thesis unfolding Let_def by blast
qed

definition pump_interval :: consumer_interval where
  "pump_interval = \<lparr> ce_consumer = 7, ce_start = 0, ce_end = 60000000, ce_energy_kwh = 1/150, ce_power_w = Some 400, ce_pv_kwh = 0,
     ce_house_kwh = 0, ce_import_kwh = 0, ce_export_kwh = 0, ce_charge_kwh = 0, ce_discharge_kwh = 0, ce_price = Some 1,
     ce_attribution = no_energy\<lparr> ea_grid_direct_kwh := 67/10000 \<rparr>, ce_unknown_kwh = 0, ce_cost_sek = 67/10000,
     ce_reference_sek = Some (67/10000), ce_savings_sek = Some 0, ce_heater_s = 0, ce_pump_s = 60, ce_confidence = 8/10,
     ce_quality = Some ''ESTIMATED'' \<rparr>"

theorem stored_sums_agree_witness:
  "\<exists>row t. map_of (snd (update_aggregates (\<lambda>g t. (0, 3600000000)) 1 5
       ((spa_tables spa_device [])\<lparr> cd_intervals := [pump_interval] \<rparr>) [])) (7, ''hour'', 0) = Some row
     \<and> sum_interval_fields [pump_interval] = Some t \<and> ar_period_end row = 3600000000 \<and> stores_sums row t"
proof -
  let ?db = "(spa_tables spa_device [])\<lparr> cd_intervals := [pump_interval] \<rparr>" and ?bounds = "\<lambda>(g :: string) (t :: time). (0 :: time, 3600000000 :: time)"
  have sc: "consumer_of 1 ?db = Some spa_device" "sc_id spa_device = 7" by (simp_all add: consumer_of_def spa_tables_def spa_device_def)
  have g: "''hour'' \<in> set GRANULARITIES" by (simp add: GRANULARITIES_def)
  have rows: "intervals_between 7 0 3600000000 (cd_intervals ?db) = [pump_interval]"
    by (simp add: intervals_between_def pump_interval_def)
  show ?thesis
    using stored_sums_agree [where bounds = ?bounds and now = 5 and table = "[]", OF sc(1)] g rows
    unfolding sc(2) fst_conv snd_conv Let_def by fastforce
qed

text \<open>The four percentages of a bucket add up to a hundred, up to the rounding of each.\<close>

lemma merged_count:
  "or_else (map_of (ag_counts (foldl merge_interval b rows)) q) 0
     = or_else (map_of (ag_counts b) q) 0 + length (filter (\<lambda>r. text_quality (ce_quality r) = q) rows)"
  by (induction rows arbitrary: b) (simp_all add: merge_interval_def Let_def map_of_update)

definition FOUR_QUALITIES :: "string list" where
  "FOUR_QUALITIES = [''MEASURED'', ''CALCULATED'', ''ESTIMATED'', ''MISSING'']"

lemma four_counts:
  assumes "\<forall>r \<in> set rows. text_quality (ce_quality r) \<in> set FOUR_QUALITIES"
  shows "sum_list (map (\<lambda>q. length (filter (\<lambda>r. text_quality (ce_quality r) = q) rows)) FOUR_QUALITIES) = length rows"
  using assms by (induction rows) (auto simp: FOUR_QUALITIES_def)

lemma percentages_add_up:
  assumes "rows \<noteq> []" "\<forall>r \<in> set rows. text_quality (ce_quality r) \<in> set FOUR_QUALITIES"
    and "quality_percentages (ag_counts (foldl merge_interval empty_bucket rows)) = (m, c, e, x)"
  shows "\<bar>m + c + e + x - 100\<bar> \<le> 1/5"
proof -
  define n where "n q = (of_nat (length (filter (\<lambda>r. text_quality (ce_quality r) = q) rows)) :: rat)" for q
  define N where "N = (of_nat (length rows) :: rat)"
  have N: "N > 0" using assms(1) by (simp add: N_def)
  have total: "n ''MEASURED'' + n ''CALCULATED'' + n ''ESTIMATED'' + n ''MISSING'' = N"
    using four_counts [OF assms(2)] unfolding n_def N_def FOUR_QUALITIES_def by (simp flip: of_nat_add)
  have "sum_list (map snd (ag_counts (foldl merge_interval empty_bucket rows))) = length rows"
    by (simp add: merged_counts empty_bucket_def)
  then have parts: "m = round_to 1 (100 * n ''MEASURED'' / N)" "c = round_to 1 (100 * n ''CALCULATED'' / N)"
      "e = round_to 1 (100 * n ''ESTIMATED'' / N)" "x = round_to 1 (100 * n ''MISSING'' / N)"
    using assms(1,3) by (simp_all add: quality_percentages_def Let_def merged_count n_def N_def empty_bucket_def)
  have "100 * n ''MEASURED'' / N + 100 * n ''CALCULATED'' / N + 100 * n ''ESTIMATED'' / N + 100 * n ''MISSING'' / N = 100 * N / N"
    by (simp flip: total add: add_divide_distrib distrib_left)
  also have "\<dots> = 100" using N by simp
  finally have sum: "100 * n ''MEASURED'' / N + 100 * n ''CALCULATED'' / N + 100 * n ''ESTIMATED'' / N + 100 * n ''MISSING'' / N = 100" .
  have near: "\<bar>round_to 1 y - y\<bar> \<le> 1/20" for y using round_to_near [of 1 y] by simp
  show ?thesis
    using sum near [of "100 * n ''MEASURED'' / N"] near [of "100 * n ''CALCULATED'' / N"] near [of "100 * n ''ESTIMATED'' / N"]
      near [of "100 * n ''MISSING'' / N"] unfolding parts by linarith
qed

text \<open>Grouping puts every interval into the group of its local period, in order, and makes no empty group.\<close>

lemma group_lookup:
  "map_of (foldl (\<lambda>d i. AList.update (key (ce_start i)) (or_else (map_of d (key (ce_start i))) [] @ [i]) d) d rows) k
     = (let xs = filter (\<lambda>i. key (ce_start i) = k) rows in if xs = [] then map_of d k else Some (or_else (map_of d k) [] @ xs))"
  by (induction rows arbitrary: d) (auto simp: map_of_update Let_def or_else_def split: option.split)

lemma grouped_once:
  "(k, xs) \<in> set (group_intervals key rows) \<longleftrightarrow> xs = filter (\<lambda>i. key (ce_start i) = k) rows \<and> xs \<noteq> []"
proof -
  let ?step = "\<lambda>d i. AList.update (key (ce_start i)) (or_else (map_of d (key (ce_start i))) [] @ [i]) d"
  have "distinct (map fst (foldl ?step d rows))" if "distinct (map fst d)" for d
    using that by (induction rows arbitrary: d) (simp_all add: distinct_keys_update)
  from this [of "[]"] have "distinct (map fst (foldl ?step [] rows))" by simp
  then have "(k, xs) \<in> set (foldl ?step [] rows) \<longleftrightarrow> map_of (foldl ?step [] rows) k = Some xs" by simp
  then show ?thesis unfolding group_intervals_def set_sort group_lookup by (auto simp: Let_def or_else_def)
qed

end
