(* ===== verification/Spec2Isabelle.thy ===== *)
theory Spec2Isabelle
  imports Charging_Engine Charging_Optimizer Module_Resolver Package_Runs Governance_Runs Isolation_Supervision Ev_Runs Module_Runs Spa_Runs Spa_Filter Price_Store Financial_Stats Vehicle_Runs Consumer_Runs
begin

text \<open>
  Verification library of the EMIC energy core, the Python package \<open>energy_core\<close> under
  \<open>src/packages/energy-core/src/energy_core\<close>. All file names below are relative to that directory.

  \<^bold>\<open>The program.\<close> EMIC reads the meters of a house with solar panels, a battery, a car charger and a
  spa, and decides what to switch on when. A collector calls the \<^emph>\<open>charging\<close> engine every few seconds,
  which turns readings into one of start, stop, set current or nothing for the charger and sends it through
  a command controller. \<^emph>\<open>Flexible loads\<close> are planned on a horizon of quarters built from the solar
  forecast, the house load, the battery and the \<^emph>\<open>prices\<close> the price engine stores; the \<^emph>\<open>spa\<close> actuator
  follows the plan of its filter pump. \<^emph>\<open>EV accounting\<close> cuts the charged energy into intervals and says
  where it came from. All of it is delivered as \<^emph>\<open>modules\<close>: the platform resolves their dependencies,
  installs signed \<^emph>\<open>packages\<close>, asks a \<^emph>\<open>governance\<close> policy whether a module may run, and runs foreign
  modules as \<^emph>\<open>isolated\<close> processes that reach the house only through a gateway and its brokers.

  \<^bold>\<open>How the model is built.\<close> A class or row is a \<open>record\<close>, an enumeration a \<open>datatype\<close>, a Python
  dictionary an association list in insertion order (\<open>AList.update\<close>), text an ASCII \<open>string\<close>. Times are
  microseconds as \<open>int\<close> (\<open>time\<close>), floating point numbers are exact rationals (\<open>rat\<close>), and \<open>round_to n\<close>
  is Python's half-to-even rounding. What an operation raises is the left side of a sum
  (\<open>'e + 'a\<close>) or \<open>None\<close>. Operations that change state take the state and return it updated; a component's
  history is a left fold of its step function over a list of events, so that any order of operations is a
  list. What the program only calls (the clock, the time zone database, providers, the device, hashes and
  signatures, the process launcher) is an argument of the definitions that use it.

  \<^bold>\<open>Shared theories.\<close>
    \<^item> \<open>Emic_Prelude\<close>: results, dictionaries, strings, clock readings, rounding, and the four interfaces
      below. \<open>Emic_Json\<close>: the values \<open>json.loads\<close> returns and the coercions the code applies to them.

  \<^bold>\<open>Charging\<close> (\<open>charging/\<close>).
    \<^item> \<open>Charging_Policy\<close>: configuration, inputs and runtime of the machine (\<open>config.py\<close>, \<open>models.py\<close>) and the
      rules of \<open>policy/\<close>. \<open>Charging_Machine\<close>: \<open>state_machine.py\<close>, the whole of
      \<open>evaluate_smart_charging\<close> by its paths (guards, start, stop, modulation). \<open>Charging_Safety\<close>: one
      preservation lemma per path. \<open>Charging_Runs\<close>: runs of the collector's loop; the targets stay within
      the charger's limits, starts per hour are bounded, and with a ready charger outside the immediate modes
      the pause after a stop is respected and a stop is issued once its delay and the minimum run are over.
    \<^item> \<open>Charging_Command\<close>: \<open>command_controller.py\<close> and \<open>anti_flapping.py\<close>, what is really sent.
      \<open>Charger_Meter\<close>: the readings of \<open>contracts/devices/meter.py\<close>. \<open>Charging_Engine\<close>: the decision half
      of \<open>engine.py\<close>, composed of machine and controller, with the configuration computed and clamped anew in
      every cycle.
    \<^item> \<open>Charging_Schedule\<close>: \<open>smart_schedule.py\<close>, \<open>import_price_schedule.py\<close>, \<open>power_to_current.py\<close>.
      \<open>Charging_Optimizer\<close>: \<open>optimizer.py\<close>, \<open>signal_filter.py\<close>, \<open>override.py\<close>.

  \<^bold>\<open>Modules\<close> (\<open>platform/capabilities\<close>, \<open>platform/modules\<close>).
    \<^item> \<open>Module_Registry\<close>: the capability and module registries and aliases. \<open>Module_Graph\<close>: the recursive
      visit that orders dependencies, with the fuel \<open>visit\<close> takes; one unit more than there are modules is
      enough. \<open>Module_Resolver\<close>: \<open>resolver.py\<close>; the start order is topological, disabling is refused while
      something needs the module.
    \<^item> \<open>Module_Sites\<close>: \<open>site_modules.py\<close>, \<open>runtime_registry.py\<close>, \<open>gating.py\<close>. \<open>Module_Orchestrator\<close>:
      \<open>orchestrator.py\<close>, where starting a module re-evaluates the waiting ones, which starts more. The
      recursion runs on fuel; \<open>Module_Runs\<close> proves that twice the number of modules
      plus three is enough, and that a synchronisation stops what is disabled.

  \<^bold>\<open>Packages\<close> (\<open>platform/modules/packages\<close>).
    \<^item> \<open>Package_Rules\<close>: paths, archive guard, permissions, compatibility. \<open>Package_Validator\<close>:
      \<open>validator.py\<close> and \<open>trust_store.py\<close>. \<open>Package_Store\<close>: the disk and the table below the transactions.
      \<open>Package_Lifecycle\<close>: \<open>installer.py\<close>, \<open>updater.py\<close>, \<open>rollback.py\<close> and the startup check, with the
      point at which each may fail. \<open>Package_Runs\<close>: rollback undoes an update, refused updates change
      nothing, packages whose versions are plain path segments stay on disk, only verified packages load.

  \<^bold>\<open>Governance\<close> (\<open>platform/modules/governance\<close>).
    \<^item> \<open>Governance_Policy\<close>: risk classes and the policy engine. \<open>Governance_Registry\<close>: publishers, ownership,
      transfers, bundles, emergency overrides. \<open>Governance_Runs\<close>: every operation as a step; a revoked
      publisher is never allowed again, transfers stay consistent.

  \<^bold>\<open>Isolation\<close> (\<open>platform/modules/isolation\<close>, \<open>platform/modules/brokers\<close>).
    \<^item> \<open>Isolation_Sessions\<close>: the state machine of a runtime, tokens and sessions. \<open>Isolation_Brokers\<close>: leases
      on devices, secrets. \<open>Isolation_Gateway\<close>: authentication, rate limits, dispatch. \<open>Isolation_Runs\<close>:
      runs of the gateway. \<open>Isolation_Manager\<close>: the manager of the processes and the supervisor.
      \<open>Isolation_Supervision\<close>: its runs, with the transaction of the collector around each
      tick; launches are checked, and bounded by the restart budget between two rollbacks (a rolled back tick
      forgets the restart it counted).

  \<^bold>\<open>EV accounting\<close> (\<open>ev_accounting/\<close>).
    \<^item> \<open>Ev_Attribution\<close>: the battery ledger and the split of an interval by source; the ledger refines a
      tank with four levels, and a split conserves the energy. \<open>Ev_Sessions\<close>: sampling, sessions, totals,
      statistics, repair. \<open>Ev_Runs\<close>: intervals never overlap, repairing twice is repairing once.

  \<^bold>\<open>Vehicles\<close> (\<open>vehicles/\<close>).
    \<^item> \<open>Vehicle_Signals\<close>: \<open>connection_signals.py\<close>, \<open>correlation/halo.py\<close> and \<open>charging_intelligence/\<close>: whether a car is
      plugged in, its charging state machine (\<open>charge_states\<close>), where it is, which station it is at and what a charge
      costs. \<open>Vehicle_Sessions\<close>: \<open>sessions/\<close> and \<open>db/vehicle_charge_session_repo.py\<close>: the session service, the
      sampler, the look-ups of a station and the removal of empty sessions. \<open>Vehicle_Runs\<close>: polls, restarts and
      purges in any order (\<open>vehicle_runs\<close>, \<open>open_runs\<close>, \<open>place_runs\<close>); at most one active session per car, a known place
      is kept, a station is looked up a bounded number of times, a session that is never metered is never completed.

  \<^bold>\<open>Spa accounting\<close> (\<open>consumer_accounting/\<close>, \<open>integrations/arctic_spa/\<close>, \<open>db/consumer_repo.py\<close>).
    \<^item> \<open>Consumer_Accounting\<close>: the power inferred from what the spa reports, polling and its backoff, the samples and
      intervals, their rebuild and their sums per hour, day, month and year. \<open>Consumer_Runs\<close>: polls and rebuilds in any
      order (\<open>consumer_runs\<close>); the intervals of a consumer do not overlap, a rebuild of what is missing settles, the stored
      columns of the current periods are the sums of their intervals, and a poll alone never records energy. Where a local period begins and ends is a parameter.

  \<^bold>\<open>Flexible loads, spa, prices.\<close>
    \<^item> \<open>Flexible_Load\<close>: data, cost, score, battery projection and horizon of \<open>flexible_load/\<close>.
      \<open>Load_Windows\<close>: the searches of \<open>spa_energy/cleaning_schedule.py\<close>. \<open>Load_Planning\<close>:
      \<open>flexible_load/optimizer.py\<close> and \<open>orchestrator.py\<close>.
    \<^item> \<open>Spa_Control\<close>: policy, schedule, stored runtime and the actuator of \<open>spa_energy/\<close>. \<open>Spa_Runs\<close>: its
      runs. \<open>Spa_Filter\<close>: cleaning counted from samples, the requirement, the shadow comparison.
    \<^item> \<open>Price_Engine\<close>: grid, normalization, layers and queries of \<open>price_engine/\<close>. \<open>Price_Store\<close>: the refresh of
      \<open>engine.py\<close> over the tables and the lane of the collector that keeps what an interrupted refresh wrote. \<open>Price_Runs\<close>: what the periods promise. \<open>Energy_Opportunity\<close>: the value of
      the next kilowatt-hour (\<open>energy_optimizer/\<close>) and the strategy of the site.
    \<^item> \<open>Energy_Accounts\<close>: \<open>export_revenue/\<close> and \<open>energy_balance/\<close>.
    \<^item> \<open>Financial_Stats\<close>: \<open>financial/\<close> and the query \<open>list_financial_stats\<close> of \<open>db/repositories.py\<close>; answering
      an unbounded query from the stored days and from the readings gives the same statistics.

  \<^bold>\<open>Interfaces.\<close> Each is a locale, interpreted on the model's own definitions.
    \<^item> \<open>kept_invariant\<close>: a step that keeps an invariant keeps it over every run. Interpreted for the charging
      cycle (\<open>safe_cycle\<close>), the engine (\<open>safe_engine\<close>), the signal filter, the packages (\<open>package_runs\<close>), the
      brokers, EV accounting (\<open>ev_runs\<close>), the vehicle sessions (\<open>vehicle_runs\<close>), the spa (\<open>consumer_runs\<close>), the battery projection and the export account; \<open>governance_invariant\<close>
      and \<open>managed_inv\<close> extend it for the steps of governance and of the runtime manager.
    \<^item> \<open>climbing\<close>: a step that only moves up a preorder does so over every run. Interpreted for the registries and
      the days of a price refresh; \<open>orchestrated\<close> states the same for the mutually recursive orchestrator.
    \<^item> \<open>simulation\<close>: an abstraction that commutes with the steps commutes with the runs (the ledger and the tank).
    \<^item> \<open>keyed_store\<close>: lookup after update and delete (Python dictionaries). \<open>best_choice\<close>: the first best element
      of a list, for \<open>max\<close>, \<open>min\<close> and for the loop that keeps a running best.

  \<^bold>\<open>Bounds and fuel.\<close> Loops over lists are structural recursions or folds. The recursive searches end by
  measures (\<open>backtrack\<close>, \<open>spaced_fallback\<close>, \<open>cursor_points\<close>). \<open>visit\<close> and the orchestrator run on fuel, with
  the bounds named above proved sufficient. Python integers are unbounded, so nothing wraps.

  \<^bold>\<open>Not modelled.\<close> Clients of remote services and devices (\<open>integrations/\<close>, \<open>providers/\<close>, \<open>vehicles/\<close> providers and
  commands), the distance on the sphere, caches, table definitions, response schemas, routes and pages: their behaviour is that of code outside the
  repository, or the shaping of results. The solar forecast and solar intelligence compute with trigonometric functions
  on floating point numbers, for which exact rationals would not be faithful; their points enter as inputs. Floating point rounding is
  not modelled anywhere: sums are exact. Texts for people are left out. Concurrency is that of one event loop: an
  operation is a step, and interleavings of operations are lists of steps. The processes, namespaces and system call
  filters of the sandbox are configured by the program and enforced by the kernel, so only the conditions under which
  the program launches a process are modelled.
\<close>

end
